(* ===== verification/Js_Prelude.thy ===== *)
theory Js_Prelude
  imports Main "HOL-Library.Multiset" "HOL-Library.While_Combinator"
begin

text \<open>
  The part of the JavaScript language and its standard library that the dashboard under
  \<open>src/web\<close> uses, and the generic lemmas every component shares.

  \<^item> Strings are \<^typ>\<open>string\<close>: a character is one UTF-16 code unit below 256 (Latin-1). All
    operations are defined code unit by code unit, as JavaScript does, and are exact on that
    range (white space, case mapping).
  \<^item> Arrays are lists. An access the source makes out of range is written out: a read of a
    field of \<open>undefined\<close> is a \<open>TypeError\<close>; where JavaScript would carry on with a
    value outside its declared TypeScript type the model stops with \<open>IllTyped\<close>.
  \<^item> Plain objects (\<open>Record<string, V>\<close>) are association lists in insertion order with
    distinct keys; enumeration lists the array-index keys first, in ascending order.
\<close>

named_theorems js_defs \<open>definitions of the small string and array helpers\<close>
named_theorems obj_laws \<open>laws of object lookup, update, deletion and enumeration\<close>

section \<open>Errors\<close>

datatype js_error = TypeError string | IllTyped string

type_synonym 'a result = "js_error + 'a"

section \<open>Characters\<close>

definition js_ws :: "char \<Rightarrow> bool" where
  "js_ws c \<longleftrightarrow> (of_char c :: nat) \<in> {9, 10, 11, 12, 13, 32, 160}"

definition lower_char :: "char \<Rightarrow> char" where
  "lower_char c = (let n = (of_char c :: nat) in
     if (65 \<le> n \<and> n \<le> 90) \<or> (192 \<le> n \<and> n \<le> 222 \<and> n \<noteq> 215) then char_of (n + 32) else c)"

abbreviation to_lower :: "string \<Rightarrow> string" where
  "to_lower s \<equiv> map lower_char s"

section \<open>Strings\<close>

definition starts_with :: "string \<Rightarrow> string \<Rightarrow> bool" where
  "starts_with s p \<longleftrightarrow> take (length p) s = p"

definition ends_with :: "string \<Rightarrow> string \<Rightarrow> bool" where
  "ends_with s p \<longleftrightarrow> length p \<le> length s \<and> drop (length s - length p) s = p"

fun str_includes :: "string \<Rightarrow> string \<Rightarrow> bool" where
  "str_includes [] p = (p = [])"
| "str_includes (x # xs) p = (starts_with (x # xs) p \<or> str_includes xs p)"

definition trim :: "string \<Rightarrow> string" where
  "trim s = dropWhile js_ws (rev (dropWhile js_ws (rev s)))"

fun split_on :: "char \<Rightarrow> string \<Rightarrow> string list" where
  "split_on c [] = [[]]"
| "split_on c (x # xs) =
     (if x = c then [] # split_on c xs
      else (case split_on c xs of [] \<Rightarrow> [[x]] | y # ys \<Rightarrow> (x # y) # ys))"

fun join :: "string \<Rightarrow> string list \<Rightarrow> string" where
  "join sep [] = []"
| "join sep [x] = x"
| "join sep (x # y # ys) = x @ sep @ join sep (y # ys)"

text \<open>\<open>s.split(/\s+/)\<close>: cut at every maximal run of white space.\<close>

function split_ws :: "string \<Rightarrow> string list" where
  "split_ws s =
     (let w = takeWhile (\<lambda>c. \<not> js_ws c) s; r = dropWhile (\<lambda>c. \<not> js_ws c) s
      in if r = [] then [w] else w # split_ws (dropWhile js_ws r))"
  by pat_completeness auto

lemma dropWhile_ws_shorter:
  assumes "dropWhile (\<lambda>c. \<not> js_ws c) s \<noteq> []"
  shows "length (dropWhile js_ws (dropWhile (\<lambda>c. \<not> js_ws c) s)) < length s"
proof -
  let ?r = "dropWhile (\<lambda>c. \<not> js_ws c) s"
  from assms have "js_ws (hd ?r)"
    using hd_dropWhile [of "\<lambda>c. \<not> js_ws c" s] by simp
  with assms have "dropWhile js_ws ?r = dropWhile js_ws (tl ?r)"
    by (cases ?r) auto
  then have "length (dropWhile js_ws ?r) \<le> length (tl ?r)"
    by (metis length_dropWhile_le)
  also from assms have "\<dots> < length ?r" by (cases ?r) auto
  also have "\<dots> \<le> length s" by (rule length_dropWhile_le)
  finally show ?thesis .
qed

termination split_ws
  by (relation "measure length") (auto simp: dropWhile_ws_shorter)

declare split_ws.simps [simp del]

text \<open>\<open>s.replace(/a/g, 'b')\<close> for single characters, and the slash-stripping regular
  expressions of the source.\<close>

definition replace_char :: "char \<Rightarrow> char \<Rightarrow> string \<Rightarrow> string" where
  "replace_char a b s = map (\<lambda>c. if c = a then b else c) s"

definition strip_leading_slash :: "string \<Rightarrow> string" where
  "strip_leading_slash s = (case s of [] \<Rightarrow> [] | c # cs \<Rightarrow> if c = CHR ''/'' then cs else s)"

definition strip_trailing_slash :: "string \<Rightarrow> string" where
  "strip_trailing_slash s = (if s \<noteq> [] \<and> last s = CHR ''/'' then butlast s else s)"

definition strip_trailing_slashes :: "string \<Rightarrow> string" where
  "strip_trailing_slashes s = rev (dropWhile (\<lambda>c. c = CHR ''/'') (rev s))"

text \<open>\<open>s.replace(p, r)\<close> with a string pattern: the first occurrence only.\<close>

fun replace_first :: "string \<Rightarrow> string \<Rightarrow> string \<Rightarrow> string" where
  "replace_first [] p r = (if p = [] then r else [])"
| "replace_first (x # xs) p r =
     (if starts_with (x # xs) p then r @ drop (length p) (x # xs) else x # replace_first xs p r)"

section \<open>Decimal numerals in template strings\<close>

definition digit_char :: "nat \<Rightarrow> char" where
  "digit_char d = char_of (48 + d)"

definition digit_val :: "char \<Rightarrow> nat" where
  "digit_val c = of_char c - 48"

definition is_digit :: "char \<Rightarrow> bool" where
  "is_digit c \<longleftrightarrow> 48 \<le> (of_char c :: nat) \<and> (of_char c :: nat) \<le> 57"

fun nat_str :: "nat \<Rightarrow> string" where
  "nat_str n = (if n < 10 then [digit_char n] else nat_str (n div 10) @ [digit_char (n mod 10)])"

declare nat_str.simps [simp del]

definition str_nat :: "string \<Rightarrow> nat" where
  "str_nat s = foldl (\<lambda>n c. 10 * n + digit_val c) 0 s"

section \<open>Truthiness and defaults\<close>

text \<open>\<open>x || d\<close> for an optional array or object (truthy as soon as it is there) and for a
  string (falsy when empty).\<close>

definition opt_or :: "'a option \<Rightarrow> 'a \<Rightarrow> 'a" where
  "opt_or x d = (case x of None \<Rightarrow> d | Some v \<Rightarrow> v)"

definition str_or :: "string \<Rightarrow> string \<Rightarrow> string" where
  "str_or s d = (if s = [] then d else s)"

definition ostr_or :: "string option \<Rightarrow> string \<Rightarrow> string" where
  "ostr_or x d = (case x of None \<Rightarrow> d | Some s \<Rightarrow> str_or s d)"

definition str_truthy :: "string option \<Rightarrow> bool" where
  "str_truthy x \<longleftrightarrow> x \<noteq> None \<and> x \<noteq> Some []"

section \<open>Arrays\<close>

text \<open>\<open>xs.splice(i, 1)\<close> and \<open>xs.filter((_, j) => j !== i)\<close>.\<close>

definition splice1 :: "'a list \<Rightarrow> nat \<Rightarrow> 'a list" where
  "splice1 xs i = take i xs @ drop (Suc i) xs"

definition filter_index :: "'a list \<Rightarrow> nat \<Rightarrow> 'a list" where
  "filter_index xs i = map fst (filter (\<lambda>(x, j). j \<noteq> i) (zip xs [0..<length xs]))"

text \<open>\<open>xs.map((x, j) => j === i ? f(x) : x)\<close>.\<close>

definition map_index :: "nat \<Rightarrow> ('a \<Rightarrow> 'a) \<Rightarrow> 'a list \<Rightarrow> 'a list" where
  "map_index i f xs = map (\<lambda>(x, j). if j = i then f x else x) (zip xs [0..<length xs])"

section \<open>Objects\<close>

type_synonym 'v obj = "(string \<times> 'v) list"

definition obj_get :: "'v obj \<Rightarrow> string \<Rightarrow> 'v option" where
  "obj_get m k = map_of m k"

fun obj_set :: "'v obj \<Rightarrow> string \<Rightarrow> 'v \<Rightarrow> 'v obj" where
  "obj_set [] k v = [(k, v)]"
| "obj_set ((k', v') # m) k v = (if k' = k then (k, v) # m else (k', v') # obj_set m k v)"

definition obj_delete :: "'v obj \<Rightarrow> string \<Rightarrow> 'v obj" where
  "obj_delete m k = filter (\<lambda>e. fst e \<noteq> k) m"

definition obj_has :: "'v obj \<Rightarrow> string \<Rightarrow> bool" where
  "obj_has m k \<longleftrightarrow> k \<in> fst ` set m"

definition wf_obj :: "'v obj \<Rightarrow> bool" where
  "wf_obj m \<longleftrightarrow> distinct (map fst m)"

text \<open>An array index is the canonical decimal form of an integer below \<open>2^32 - 1\<close>;
  such keys are enumerated first.\<close>

definition is_array_index :: "string \<Rightarrow> bool" where
  "is_array_index k \<longleftrightarrow> k \<noteq> [] \<and> list_all is_digit k \<and> nat_str (str_nat k) = k
     \<and> str_nat k < 4294967295"

definition own_entries :: "'v obj \<Rightarrow> (string \<times> 'v) list" where
  "own_entries m = sort_key (\<lambda>e. str_nat (fst e)) (filter (\<lambda>e. is_array_index (fst e)) m)
     @ filter (\<lambda>e. \<not> is_array_index (fst e)) m"

definition own_keys :: "'v obj \<Rightarrow> string list" where
  "own_keys m = map fst (own_entries m)"

text \<open>\<open>{...a, ...b}\<close>.\<close>

definition obj_spread :: "'v obj \<Rightarrow> 'v obj \<Rightarrow> 'v obj" where
  "obj_spread a b = foldl (\<lambda>m e. obj_set m (fst e) (snd e)) a (own_entries b)"

definition own_values :: "'v obj \<Rightarrow> 'v list" where
  "own_values m = map snd (own_entries m)"


section \<open>Lemmas on strings\<close>

lemma starts_with_iff: "starts_with s p \<longleftrightarrow> (\<exists>t. s = p @ t)"
  unfolding starts_with_def
  by (metis append_eq_conv_conj append_take_drop_id)

lemma starts_withI [intro]: "starts_with (p @ t) p"
  by (auto simp: starts_with_iff)

lemma ends_with_iff: "ends_with s p \<longleftrightarrow> (\<exists>t. s = t @ p)"
proof
  assume "ends_with s p"
  then show "\<exists>t. s = t @ p"
    unfolding ends_with_def by (metis append_take_drop_id)
next
  assume "\<exists>t. s = t @ p"
  then show "ends_with s p" by (auto simp: ends_with_def)
qed

lemma ends_with_appendI [intro]: "ends_with (t @ p) p"
  by (auto simp: ends_with_iff)

lemma str_includes_iff: "str_includes s p \<longleftrightarrow> (\<exists>a b. s = a @ p @ b)"
proof (induction s)
  case Nil
  then show ?case by auto
next
  case (Cons x s)
  show ?case
  proof
    assume "str_includes (x # s) p"
    then consider "starts_with (x # s) p" | "str_includes s p" by auto
    then show "\<exists>a b. x # s = a @ p @ b"
    proof cases
      case 1
      then obtain t where "x # s = p @ t" by (auto simp: starts_with_iff)
      then have "x # s = [] @ p @ t" by simp
      then show ?thesis by blast
    next
      case 2
      then obtain a b where "s = a @ p @ b" using Cons.IH by auto
      then have "x # s = (x # a) @ p @ b" by simp
      then show ?thesis by blast
    qed
  next
    assume "\<exists>a b. x # s = a @ p @ b"
    then obtain a b where eq: "x # s = a @ p @ b" by blast
    show "str_includes (x # s) p"
    proof (cases a)
      case Nil
      with eq have "starts_with (x # s) p" by (auto simp: starts_with_iff)
      then show ?thesis by simp
    next
      case (Cons y a')
      with eq have "s = a' @ p @ b" by simp
      then show ?thesis using Cons.IH by auto
    qed
  qed
qed

lemma split_on_nonempty [simp]: "split_on c s \<noteq> []"
  by (induction s) (auto split: list.splits)

lemma join_split [simp]: "join [c] (split_on c s) = s"
proof (induction s)
  case Nil
  then show ?case by simp
next
  case (Cons x s)
  obtain y ys where sp: "split_on c s = y # ys" by (cases "split_on c s") auto
  show ?case
  proof (cases "x = c")
    case True
    with Cons sp show ?thesis by simp
  next
    case False
    with Cons.IH sp show ?thesis by (cases ys) auto
  qed
qed

lemma split_on_no_sep: "c \<notin> set s \<Longrightarrow> split_on c s = [s]"
  by (induction s) auto

lemma split_on_cons: "c \<notin> set a \<Longrightarrow> split_on c (a @ c # b) = a # split_on c b"
  by (induction a) auto

lemma split_on_append: "split_on c (a @ c # b) = split_on c a @ split_on c b"
proof (induction a)
  case Nil
  then show ?case by simp
next
  case (Cons x a)
  then show ?case by (cases "split_on c a") auto
qed

lemma split_join [simp]:
  "xs \<noteq> [] \<Longrightarrow> \<forall>x \<in> set xs. c \<notin> set x \<Longrightarrow> split_on c (join [c] xs) = xs"
proof (induction "[c]" xs rule: join.induct)
  case (3 x y ys)
  then show ?case by (simp add: split_on_cons)
qed (auto simp: split_on_no_sep)

lemma split_on_parts: "x \<in> set (split_on c s) \<Longrightarrow> c \<notin> set x"
  by (induction s arbitrary: x) (auto split: if_splits list.splits)

lemma join_append:
  "xs \<noteq> [] \<Longrightarrow> ys \<noteq> [] \<Longrightarrow> join sep (xs @ ys) = join sep xs @ sep @ join sep ys"
proof (induction sep xs rule: join.induct)
  case (2 sep x)
  then show ?case by (cases ys) auto
qed auto

lemma dropWhile_idem': "dropWhile P (dropWhile P xs) = dropWhile P xs"
  by (induction xs) auto

lemma trim_Nil [simp]: "trim [] = []"
  by (simp add: trim_def)

lemma trim_no_ws: "list_all (\<lambda>c. \<not> js_ws c) s \<Longrightarrow> trim s = s"
proof -
  assume a: "list_all (\<lambda>c. \<not> js_ws c) s"
  then have "\<forall>c \<in> set (rev s). \<not> js_ws c" by (simp add: list_all_iff)
  then have "dropWhile js_ws (rev s) = rev s" by (cases "rev s") auto
  moreover from a have "dropWhile js_ws s = s" by (cases s) auto
  ultimately show ?thesis by (simp add: trim_def)
qed

lemma dropWhile_all: "(\<And>c. c \<in> set s \<Longrightarrow> P c) \<Longrightarrow> dropWhile P s = []"
  by (induction s) auto

lemma split_ws_word: "list_all (\<lambda>c. \<not> js_ws c) s \<Longrightarrow> split_ws s = [s]"
proof -
  assume a: "list_all (\<lambda>c. \<not> js_ws c) s"
  then have "takeWhile (\<lambda>c. \<not> js_ws c) s = s" "dropWhile (\<lambda>c. \<not> js_ws c) s = []"
    by (auto simp: list_all_iff)
  then show ?thesis by (simp add: split_ws.simps)
qed

lemma split_ws_cons:
  assumes "list_all (\<lambda>c. \<not> js_ws c) w" "js_ws b" "r = [] \<or> \<not> js_ws (hd r)"
  shows "split_ws (w @ b # r) = w # split_ws r"
proof -
  from assms(1,2) have "takeWhile (\<lambda>c. \<not> js_ws c) (w @ b # r) = w"
    "dropWhile (\<lambda>c. \<not> js_ws c) (w @ b # r) = b # r"
    by (auto simp: list_all_iff)
  moreover from assms(2,3) have "dropWhile js_ws (b # r) = r" by (cases r) auto
  ultimately show ?thesis by (subst split_ws.simps) simp
qed

text \<open>Words: not empty, no white space.\<close>

definition is_word :: "string \<Rightarrow> bool" where
  "is_word w \<longleftrightarrow> w \<noteq> [] \<and> list_all (\<lambda>c. \<not> js_ws c) w"

lemma is_word_hd: "is_word w \<Longrightarrow> \<not> js_ws (hd w)"
  by (cases w) (auto simp: is_word_def)

lemma hd_join_words: "ws \<noteq> [] \<Longrightarrow> is_word (hd ws) \<Longrightarrow> hd (join sep ws) = hd (hd ws)"
  by (induction sep ws rule: join.induct) (auto simp: is_word_def)

lemma space_is_ws [simp]: "js_ws (CHR '' '')"
  by (simp add: js_ws_def)

lemma split_join_words:
  "ws \<noteq> [] \<Longrightarrow> list_all is_word ws \<Longrightarrow> split_ws (join '' '' ws) = ws"
proof (induction "'' ''" ws rule: join.induct)
  case (2 x)
  then show ?case by (simp add: split_ws_word is_word_def)
next
  case (3 x y ys)
  have "hd (join '' '' (y # ys)) = hd y" using 3 by (intro hd_join_words [THEN trans]) auto
  moreover have "\<not> js_ws (hd y)" using 3 is_word_hd [of y] by simp
  ultimately have "split_ws (x @ CHR '' '' # join '' '' (y # ys)) = x # split_ws (join '' '' (y # ys))"
    using 3 by (intro split_ws_cons) (auto simp: is_word_def)
  with 3 show ?case by simp
qed simp

text \<open>A trimmed string has no white space at either end.\<close>

definition trimmed :: "string \<Rightarrow> bool" where
  "trimmed s \<longleftrightarrow> s = [] \<or> (\<not> js_ws (hd s) \<and> \<not> js_ws (last s))"

lemma dropWhile_hd: "dropWhile P s = [] \<or> \<not> P (hd (dropWhile P s))"
  by (induction s) auto

lemma last_dropWhile: "dropWhile P s \<noteq> [] \<Longrightarrow> last (dropWhile P s) = last s"
  by (induction s) (auto split: if_splits)

lemma trimmed_trim: "trimmed (trim s)"
proof (cases "trim s = []")
  case False
  let ?r = "rev (dropWhile js_ws (rev s))"
  have "\<not> js_ws (hd (trim s))"
    using False dropWhile_hd [of js_ws ?r] by (metis trim_def)
  moreover have r: "?r \<noteq> []" using False by (metis trim_def dropWhile.simps(1))
  then have "last ?r = hd (dropWhile js_ws (rev s))" by (simp add: last_rev)
  then have "\<not> js_ws (last ?r)" using r dropWhile_hd [of js_ws "rev s"] by auto
  then have "\<not> js_ws (last (trim s))"
    using False unfolding trim_def by (simp add: last_dropWhile)
  ultimately show ?thesis by (simp add: trimmed_def)
qed (simp add: trimmed_def)

lemma trim_trimmed: "trimmed s \<Longrightarrow> trim s = s"
proof (cases "s = []")
  case False
  assume t: "trimmed s"
  with False have "dropWhile js_ws (rev s) = rev s"
    by (cases "rev s") (auto simp: trimmed_def dest: arg_cong [of _ _ rev])
  moreover from t False have "dropWhile js_ws s = s"
    by (cases s) (auto simp: trimmed_def)
  ultimately show ?thesis by (simp add: trim_def)
qed simp

lemma split_ws_words: "trimmed s \<Longrightarrow> s \<noteq> [] \<Longrightarrow> list_all is_word (split_ws s)"
proof (induction s rule: split_ws.induct)
  case (1 s)
  let ?w = "takeWhile (\<lambda>c. \<not> js_ws c) s" and ?r = "dropWhile (\<lambda>c. \<not> js_ws c) s"
  have w: "is_word ?w"
    using "1.prems" by (cases s) (auto simp: is_word_def trimmed_def list_all_iff dest: set_takeWhileD)
  show ?case
  proof (cases "?r = []")
    case True
    with w show ?thesis by (subst split_ws.simps) (simp add: Let_def)
  next
    case False
    let ?t = "dropWhile js_ws ?r"
    have l: "last ?r = last s" using False by (rule last_dropWhile)
    have t: "?t \<noteq> []"
    proof
      assume "?t = []"
      then have "\<forall>c \<in> set ?r. js_ws c" by (simp only: dropWhile_eq_Nil_conv)
      then have "js_ws (last ?r)" using False last_in_set by blast
      then have "js_ws (last s)" by (simp only: l)
      with "1.prems" show False by (simp add: trimmed_def)
    qed
    then have "trimmed ?t"
      using "1.prems" l dropWhile_hd [of js_ws ?r] by (simp add: trimmed_def last_dropWhile)
    with 1 False t have "list_all is_word (split_ws ?t)" by simp
    with w False show ?thesis by (subst split_ws.simps) (simp add: Let_def)
  qed
qed

lemma split_ws_nonempty [simp]: "split_ws s \<noteq> []"
  by (subst split_ws.simps) (simp add: Let_def)

lemma last_join_words:
  "ws \<noteq> [] \<Longrightarrow> list_all is_word ws \<Longrightarrow> last (join sep ws) = last (last ws)"
proof (induction sep ws rule: join.induct)
  case (3 sep x y ys)
  then have "join sep (y # ys) \<noteq> []" by (cases ys) (auto simp: is_word_def)
  with 3 show ?case by simp
qed auto

lemma trimmed_word: "is_word w \<Longrightarrow> trimmed w"
  unfolding trimmed_def by (metis is_word_def is_word_hd last_in_set list_all_iff)

lemma join_words_nonempty: "ws \<noteq> [] \<Longrightarrow> list_all is_word ws \<Longrightarrow> join sep ws \<noteq> []"
  by (induction sep ws rule: join.induct) (auto simp: is_word_def)

lemma trimmed_join_words: "list_all is_word ws \<Longrightarrow> trimmed (join '' '' ws)"
proof (cases "ws = []")
  case True
  then show ?thesis by (simp add: trimmed_def)
next
  case False
  assume a: "list_all is_word ws"
  with False have "is_word (hd ws)" "is_word (last ws)" by (auto simp: list_all_iff)
  with False a show ?thesis
    using hd_join_words [of ws "'' ''"] last_join_words [of ws "'' ''"] trimmed_word [of "last ws"]
    by (auto simp: trimmed_def is_word_def is_word_hd)
qed

section \<open>Lemmas on numerals\<close>

lemma digit_val_char: "d < 10 \<Longrightarrow> digit_val (digit_char d) = d"
  by (simp add: digit_val_def digit_char_def)

lemma str_nat_snoc: "str_nat (s @ [c]) = 10 * str_nat s + digit_val c"
  by (simp add: str_nat_def)

lemma str_nat_nat_str [simp]: "str_nat (nat_str n) = n"
proof (induction n rule: nat_str.induct)
  case (1 n)
  show ?case
  proof (cases "n < 10")
    case True
    then show ?thesis
      by (subst nat_str.simps) (simp add: str_nat_def digit_val_char)
  next
    case False
    with 1 have IH: "str_nat (nat_str (n div 10)) = n div 10" by simp
    from False show ?thesis
      by (subst nat_str.simps) (simp add: str_nat_snoc IH digit_val_char)
  qed
qed

lemma nat_str_inject [simp]: "nat_str m = nat_str n \<longleftrightarrow> m = n"
  by (metis str_nat_nat_str)

lemma nat_str_nonempty [simp]: "nat_str n \<noteq> []"
  by (subst nat_str.simps) auto

lemma nat_str_digits: "list_all is_digit (nat_str n)"
proof (induction n rule: nat_str.induct)
  case (1 n)
  have d: "d < 10 \<Longrightarrow> is_digit (digit_char d)" for d
    by (simp add: is_digit_def digit_char_def)
  show ?case
  proof (cases "n < 10")
    case True
    then show ?thesis by (subst nat_str.simps) (simp add: d)
  next
    case False
    with 1 show ?thesis by (subst nat_str.simps) (simp add: d)
  qed
qed

lemma nat_str_is_array_index: "n < 4294967295 \<Longrightarrow> is_array_index (nat_str n)"
  by (simp add: is_array_index_def nat_str_digits)

section \<open>Lemmas on arrays\<close>

lemma filter_index_Cons:
  "filter_index (x # xs) i =
     (case i of 0 \<Rightarrow> xs | Suc j \<Rightarrow> x # filter_index xs j)"
proof -
  have z: "zip xs [Suc 0..<Suc (length xs)] = map (\<lambda>(y, j). (y, Suc j)) (zip xs [0..<length xs])"
    by (rule nth_equalityI) (auto simp del: upt_Suc)
  have u: "[0..<length (x # xs)] = 0 # [Suc 0..<Suc (length xs)]"
    by (simp add: upt_conv_Cons del: upt_Suc)
  have all: "map fst (zip xs [0..<length xs]) = xs" by simp
  show ?thesis
    unfolding filter_index_def u
    by (cases i)
       (auto simp add: z filter_map comp_def case_prod_unfold all simp del: upt_Suc)
qed

lemma filter_index_splice1: "filter_index xs i = splice1 xs i"
proof (induction xs arbitrary: i)
  case Nil
  then show ?case by (simp add: filter_index_def splice1_def)
next
  case (Cons x xs)
  then show ?case by (auto simp: filter_index_Cons splice1_def split: nat.split)
qed

lemma length_splice1: "i < length xs \<Longrightarrow> length (splice1 xs i) = length xs - 1"
  by (auto simp: splice1_def)

lemma set_splice1_subset: "set (splice1 xs i) \<subseteq> set xs"
  by (auto simp: splice1_def dest: in_set_takeD in_set_dropD)

lemma distinct_splice1: "distinct xs \<Longrightarrow> distinct (splice1 xs i)"
proof -
  assume d: "distinct xs"
  have "set (drop (Suc i) xs) \<subseteq> set (drop i xs)"
    by (simp add: set_drop_subset_set_drop)
  moreover from d have "set (take i xs) \<inter> set (drop i xs) = {}"
    by (simp add: set_take_disj_set_drop_if_distinct)
  ultimately show ?thesis using d by (auto simp: splice1_def)
qed

lemma set_splice1_distinct:
  assumes "distinct xs" "i < length xs"
  shows "set (splice1 xs i) = set xs - {xs ! i}"
proof -
  from assms have eq: "xs = take i xs @ xs ! i # drop (Suc i) xs"
    by (simp add: id_take_nth_drop)
  with assms(1) have "distinct (take i xs @ xs ! i # drop (Suc i) xs)" by simp
  moreover from eq have "set xs = set (take i xs) \<union> {xs ! i} \<union> set (drop (Suc i) xs)"
    by (metis Un_insert_right set_append list.simps(15) sup_bot.right_neutral Un_insert_left)
  ultimately show ?thesis by (auto simp: splice1_def)
qed

lemma length_map_index [simp]: "length (map_index i f xs) = length xs"
  by (simp add: map_index_def)

lemma nth_map_index:
  "j < length xs \<Longrightarrow> map_index i f xs ! j = (if j = i then f (xs ! j) else xs ! j)"
  by (simp add: map_index_def)

lemma map_index_update: "i < length xs \<Longrightarrow> map_index i f xs = xs[i := f (xs ! i)]"
  by (rule nth_equalityI) (auto simp: nth_map_index nth_list_update)

lemma map_index_beyond: "length xs \<le> i \<Longrightarrow> map_index i f xs = xs"
  by (rule nth_equalityI) (auto simp: nth_map_index)


section \<open>The interface of a plain object\<close>

text \<open>
  What the components rely on when they store headers, environment variables or schema
  properties in a plain object. The model's association lists provide it below.
\<close>

locale js_record =
  fixes get :: "'m \<Rightarrow> string \<Rightarrow> 'v option"
    and set_key :: "'m \<Rightarrow> string \<Rightarrow> 'v \<Rightarrow> 'm"
    and del_key :: "'m \<Rightarrow> string \<Rightarrow> 'm"
    and keys :: "'m \<Rightarrow> string list"
    and invar :: "'m \<Rightarrow> bool"
  assumes get_set: "get (set_key m k v) = (get m)(k \<mapsto> v)"
    and get_del: "get (del_key m k) = (get m)(k := None)"
    and keys_dom: "set (keys m) = dom (get m)"
    and keys_distinct: "invar m \<Longrightarrow> distinct (keys m)"
    and invar_set: "invar m \<Longrightarrow> invar (set_key m k v)"
    and invar_del: "invar m \<Longrightarrow> invar (del_key m k)"
begin

lemma keys_set: "set (keys (set_key m k v)) = insert k (set (keys m))"
  by (auto simp: keys_dom get_set)

lemma keys_del: "set (keys (del_key m k)) = set (keys m) - {k}"
  by (auto simp: keys_dom get_del split: if_splits)

text \<open>Renaming a key as the editors do it: store under the new key, then delete the old.\<close>

lemma get_rename:
  assumes "k \<noteq> n"
  shows "get (del_key (set_key m n v) k) = (get m)(n \<mapsto> v, k := None)"
  by (simp add: get_del get_set)

lemma keys_rename:
  assumes "k \<noteq> n"
  shows "set (keys (del_key (set_key m n v) k)) = insert n (set (keys m) - {k})"
  using assms by (auto simp: keys_del keys_set)

lemma invar_rename: "invar m \<Longrightarrow> invar (del_key (set_key m n v) k)"
  by (simp add: invar_set invar_del)

lemma length_keys_fresh:
  assumes "invar m" "k \<notin> set (keys m)"
  shows "length (keys (set_key m k v)) = Suc (length (keys m))"
proof -
  have "length (keys (set_key m k v)) = card (set (keys (set_key m k v)))"
    using assms by (simp add: distinct_card keys_distinct invar_set)
  also have "\<dots> = Suc (card (set (keys m)))"
    using assms by (simp add: keys_set)
  also have "\<dots> = Suc (length (keys m))"
    using assms by (simp add: distinct_card keys_distinct)
  finally show ?thesis .
qed

end

lemma obj_get_set [obj_laws]: "obj_get (obj_set m k v) = (obj_get m)(k \<mapsto> v)"
  unfolding obj_get_def by (induction m k v rule: obj_set.induct) auto

lemma obj_get_delete [obj_laws]: "obj_get (obj_delete m k) = (obj_get m)(k := None)"
  unfolding obj_get_def obj_delete_def by (induction m) auto

lemma obj_set_keys: "fst ` set (obj_set m k v) = insert k (fst ` set m)"
  by (induction m k v rule: obj_set.induct) auto

lemma wf_obj_Nil [simp]: "wf_obj []"
  by (simp add: wf_obj_def)

lemma wf_obj_set [obj_laws]: "wf_obj m \<Longrightarrow> wf_obj (obj_set m k v)"
  unfolding wf_obj_def
proof (induction m k v rule: obj_set.induct)
  case (2 k' v' m k v)
  then show ?case using obj_set_keys [of m k v] by auto
qed auto

lemma wf_obj_delete [obj_laws]: "wf_obj m \<Longrightarrow> wf_obj (obj_delete m k)"
  unfolding wf_obj_def obj_delete_def by (rule distinct_map_filter)

lemma mset_own_entries: "mset (own_entries m) = mset m"
  by (simp add: own_entries_def)

lemma set_own_entries [simp]: "set (own_entries m) = set m"
  by (metis mset_own_entries set_mset_mset)

lemma set_own_keys: "set (own_keys m) = dom (obj_get m)"
proof -
  have "obj_get m = map_of m" by (rule ext) (simp add: obj_get_def)
  then show ?thesis by (simp add: own_keys_def dom_map_of_conv_image_fst)
qed

lemma length_own_keys: "length (own_keys m) = length m"
  by (metis length_map mset_own_entries own_keys_def size_mset)

lemma distinct_own_keys [obj_laws]: "wf_obj m \<Longrightarrow> distinct (own_keys m)"
proof -
  have "mset (own_keys m) = mset (map fst m)"
    by (metis mset_map mset_own_entries own_keys_def)
  then show "wf_obj m \<Longrightarrow> distinct (own_keys m)"
    unfolding wf_obj_def by (metis mset_eq_imp_distinct_iff)
qed

lemma obj_get_fold_set:
  "distinct (map fst es) \<Longrightarrow> obj_get (foldl (\<lambda>m e. obj_set m (fst e) (snd e)) a es) k
    = (case map_of es k of Some v \<Rightarrow> Some v | None \<Rightarrow> obj_get a k)"
proof (induction es arbitrary: a)
  case (Cons e es)
  then have "map_of es (fst e) = None" by (simp add: map_of_eq_None_iff)
  with Cons show ?case by (cases e) (auto simp: obj_get_set split: option.split)
qed simp

lemma obj_get_spread [obj_laws]:
  assumes "wf_obj b"
  shows "obj_get (obj_spread a b) k = (case obj_get b k of Some v \<Rightarrow> Some v | None \<Rightarrow> obj_get a k)"
proof -
  have d: "distinct (map fst (own_entries b))"
    using distinct_own_keys [OF assms] by (simp add: own_keys_def)
  have "map_of (own_entries b) = map_of b"
    using d assms by (intro map_of_inject_set [THEN iffD2]) (simp_all add: wf_obj_def)
  with obj_get_fold_set [OF d, of a k] show ?thesis
    by (simp add: obj_spread_def obj_get_def)
qed

interpretation ob: js_record obj_get obj_set obj_delete own_keys wf_obj
  by unfold_locales (auto simp: obj_laws set_own_keys)

section \<open>Fresh numbered keys\<close>

text \<open>
  \<open>while (used.includes(`PREFIX${count}`)) count++\<close>: the loop both key editors run. It
  ends because the numerals are pairwise different and \<open>used\<close> is finite; the measure counts
  the used keys still ahead.
\<close>

function fresh_count :: "string \<Rightarrow> string list \<Rightarrow> nat \<Rightarrow> nat" where
  "fresh_count p used c =
     (if p @ nat_str c \<in> set used then fresh_count p used (Suc c) else c)"
  by pat_completeness auto

lemma fresh_ahead_finite: "finite {n. c \<le> n \<and> p @ nat_str n \<in> set used}"
proof -
  have "inj (\<lambda>n. p @ nat_str n)" by (rule injI) simp
  then have "finite ((\<lambda>n. p @ nat_str n) -` set used)" by (intro finite_vimageI) auto
  then show ?thesis by (rule rev_finite_subset) auto
qed

termination fresh_count
proof (relation "measure (\<lambda>(p, used, c). card {n. c \<le> n \<and> p @ nat_str n \<in> set used})")
  fix p used and c :: nat
  assume used: "p @ nat_str c \<in> set used"
  let ?now = "{n. c \<le> n \<and> p @ nat_str n \<in> set used}"
  let ?ahead = "{n. Suc c \<le> n \<and> p @ nat_str n \<in> set used}"
  from used have "c \<in> ?now - ?ahead" by simp
  moreover have "?ahead \<subseteq> ?now" by auto
  ultimately have "?ahead \<subset> ?now" by blast
  then show "((p, used, Suc c), p, used, c)
      \<in> measure (\<lambda>(p, used, c). card {n. c \<le> n \<and> p @ nat_str n \<in> set used})"
    by (simp add: psubset_card_mono fresh_ahead_finite)
qed simp

declare fresh_count.simps [simp del]

lemma fresh_count_fresh: "p @ nat_str (fresh_count p used c) \<notin> set used"
proof (induction p used c rule: fresh_count.induct)
  case (1 p used c)
  then show ?case by (simp add: fresh_count.simps [of p used c])
qed

lemma fresh_count_least:
  "c \<le> fresh_count p used c
   \<and> (\<forall>n. c \<le> n \<and> n < fresh_count p used c \<longrightarrow> p @ nat_str n \<in> set used)"
proof (induction p used c rule: fresh_count.induct)
  case (1 p used c)
  show ?case
  proof (cases "p @ nat_str c \<in> set used")
    case True
    then have IH: "Suc c \<le> fresh_count p used (Suc c)"
      "\<And>n. Suc c \<le> n \<Longrightarrow> n < fresh_count p used (Suc c) \<Longrightarrow> p @ nat_str n \<in> set used"
      using 1 by auto
    from True IH show ?thesis
      by (auto simp: fresh_count.simps [of p used c]) (metis Suc_leI le_neq_implies_less)
  next
    case False
    then show ?thesis by (auto simp: fresh_count.simps [of p used c])
  qed
qed

text \<open>The recursion is the loop: run as it is written, the loop ends with this count, after at most as
  many rounds as there are used keys.\<close>

lemma fresh_count_while:
  "while_option (\<lambda>n. p @ nat_str n \<in> set used) Suc c = Some (fresh_count p used c)"
proof (induction p used c rule: fresh_count.induct)
  case (1 p used c)
  then show ?case
    by (subst while_option_unfold, subst fresh_count.simps) simp
qed

lemma fresh_count_bound: "fresh_count p used c \<le> c + length used"
proof -
  let ?n = "fresh_count p used c"
  have "inj (\<lambda>n. p @ nat_str n)" by (rule injI) simp
  then have "card {c..<?n} = card ((\<lambda>n. p @ nat_str n) ` {c..<?n})"
    by (simp add: card_image inj_on_subset)
  also have "\<dots> \<le> card (set used)"
    using fresh_count_least [of c p used] by (intro card_mono) auto
  also have "\<dots> \<le> length used" by (rule card_length)
  finally show ?thesis using fresh_count_least [of c p used] by simp
qed

end
