(* ===== verification/Js_Json.thy ===== *)
theory Js_Json
  imports Js_Prelude
begin

text \<open>
  JSON values as the dashboard exchanges them, and dynamic reads of them: \<open>undefined\<close> is
  \<^term>\<open>None\<close>. A number is an integer or, kept as it was written, a number with a fraction or an
  exponent.
\<close>

datatype json =
    JNull
  | JBool bool
  | JInt int
  | JDec string
  | JStr string
  | JArr "json list"
  | JObj "(string \<times> json) list"

type_synonym jv = "json option"

text \<open>A number is zero when its mantissa has no other digit.\<close>

definition dec_nonzero :: "string \<Rightarrow> bool" where
  "dec_nonzero d = list_ex (\<lambda>c. is_digit c \<and> c \<noteq> CHR ''0'')
     (takeWhile (\<lambda>c. c \<noteq> CHR ''e'' \<and> c \<noteq> CHR ''E'') d)"

fun json_truthy :: "json \<Rightarrow> bool" where
  "json_truthy JNull = False"
| "json_truthy (JBool b) = b"
| "json_truthy (JInt n) = (n \<noteq> 0)"
| "json_truthy (JStr s) = (s \<noteq> [])"
| "json_truthy (JDec d) = dec_nonzero d"
| "json_truthy _ = True"

definition js_truthy :: "jv \<Rightarrow> bool" where
  "js_truthy v = (case v of None \<Rightarrow> False | Some j \<Rightarrow> json_truthy j)"

definition js_or :: "jv \<Rightarrow> jv \<Rightarrow> jv" where
  "js_or a b = (if js_truthy a then a else b)"

text \<open>\<open>v.k\<close> throws on \<open>null\<close> and \<open>undefined\<close>; \<open>v?.k\<close> does not. A field that none of
  the built-in types has reads \<open>undefined\<close> on them.\<close>

fun js_member :: "json \<Rightarrow> string \<Rightarrow> jv" where
  "js_member (JObj fields) k = obj_get fields k"
| "js_member _ k = None"

definition js_field :: "jv \<Rightarrow> string \<Rightarrow> jv result" where
  "js_field v k = (case v of None \<Rightarrow> Inl (TypeError k) | Some JNull \<Rightarrow> Inl (TypeError k)
     | Some j \<Rightarrow> Inr (js_member j k))"

definition js_opt_field :: "jv \<Rightarrow> string \<Rightarrow> jv" where
  "js_opt_field v k = (case v of None \<Rightarrow> None | Some j \<Rightarrow> js_member j k)"

text \<open>Members read at their declared type by the pages that trust the interface; one that is missing
  or of another type is outside it and reads as empty here.\<close>

definition text_member :: "json \<Rightarrow> string \<Rightarrow> string" where
  "text_member j k = (case js_member j k of Some (JStr s) \<Rightarrow> s | _ \<Rightarrow> [])"

fun elements :: "jv \<Rightarrow> json list" where
  "elements (Some (JArr xs)) = xs"
| "elements _ = []"

lemma js_or_simps [simp]:
  "js_truthy a \<Longrightarrow> js_or a b = a" "\<not> js_truthy a \<Longrightarrow> js_or a b = b"
  by (simp_all add: js_or_def)

lemma js_truthy_simps [simp]:
  "js_truthy None = False" "js_truthy (Some j) = json_truthy j"
  by (simp_all add: js_truthy_def)

lemma js_field_simps [simp]:
  "js_field None k = Inl (TypeError k)" "js_field (Some JNull) k = Inl (TypeError k)"
  "js_field (Some (JObj fs)) k = Inr (obj_get fs k)"
  "js_field (Some (JArr xs)) k = Inr None" "js_field (Some (JStr s)) k = Inr None"
  "js_field (Some (JBool b)) k = Inr None" "js_field (Some (JInt n)) k = Inr None"
  by (simp_all add: js_field_def)

section \<open>JSON.stringify\<close>

text \<open>Without indentation, as the source calls it for what it sends. The integers the
  dashboard handles (identifiers, pages, versions, time stamps) are below \<open>2^53\<close>, where a
  JavaScript number is exact and prints in decimal digits.\<close>

definition hex_digit :: "nat \<Rightarrow> char" where
  "hex_digit d = (if d < 10 then char_of (48 + d) else char_of (87 + d))"

definition quote_char :: "char \<Rightarrow> string" where
  "quote_char c = (let n = (of_char c :: nat) in
     if n = 34 then [char_of (92::nat), CHR 0x22]
     else if n = 92 then [char_of (92::nat), char_of (92::nat)]
     else if n = 8 then char_of (92::nat) # ''b''
     else if n = 9 then char_of (92::nat) # ''t''
     else if n = 10 then char_of (92::nat) # ''n''
     else if n = 12 then char_of (92::nat) # ''f''
     else if n = 13 then char_of (92::nat) # ''r''
     else if n < 32 then char_of (92::nat) # ''u00'' @ [hex_digit (n div 16), hex_digit (n mod 16)]
     else [c])"

definition quote :: "string \<Rightarrow> string" where
  "quote s = CHR 0x22 # concat (map quote_char s) @ [CHR 0x22]"

definition int_str :: "int \<Rightarrow> string" where
  "int_str n = (if n < 0 then CHR ''-'' # nat_str (nat (- n)) else nat_str (nat n))"

fun stringify :: "json \<Rightarrow> string" where
  "stringify JNull = ''null''"
| "stringify (JBool b) = (if b then ''true'' else ''false'')"
| "stringify (JInt n) = int_str n"
| "stringify (JDec d) = d"
| "stringify (JStr s) = quote s"
| "stringify (JArr xs) = ''['' @ join '','' (map stringify xs) @ '']''"
| "stringify (JObj fs) = ''{'' @ join '',''
     (map (\<lambda>e. quote (fst e) @ '':'' @ snd e)
       (own_entries (map (\<lambda>e. (fst e, stringify (snd e))) fs))) @ ''}''"

section \<open>String(v)\<close>

text \<open>A decimal number is shown the way it was written.\<close>

fun json_text :: "json \<Rightarrow> string" where
  "json_text JNull = ''null''"
| "json_text (JBool b) = (if b then ''true'' else ''false'')"
| "json_text (JInt n) = int_str n"
| "json_text (JDec d) = d"
| "json_text (JStr s) = s"
| "json_text (JArr xs) = join '','' (map (\<lambda>x. if x = JNull then [] else json_text x) xs)"
| "json_text (JObj fs) = ''[object Object]''"

section \<open>JSON.parse\<close>

text \<open>Escapes beyond \<open>\u00ff\<close> stand for code units the model's characters do not have; they
  are outside its range, and a text with one is not parsed.\<close>

definition json_ws :: "char \<Rightarrow> bool" where
  "json_ws c \<longleftrightarrow> (of_char c :: nat) \<in> {9, 10, 13, 32}"

definition skip_ws :: "string \<Rightarrow> string" where
  "skip_ws s = dropWhile json_ws s"

definition hex_val :: "char \<Rightarrow> nat option" where
  "hex_val c = (let n = (of_char c :: nat) in
     if 48 \<le> n \<and> n \<le> 57 then Some (n - 48)
     else if 97 \<le> n \<and> n \<le> 102 then Some (n - 87)
     else if 65 \<le> n \<and> n \<le> 70 then Some (n - 55) else None)"

text \<open>One character of a string literal, an escape included; the closing quote is not one.\<close>

definition simple_escape :: "char \<Rightarrow> char option" where
  "simple_escape c = (let n = (of_char c :: nat) in
     if n = 34 \<or> n = 92 \<or> n = 47 then Some c
     else if n = 98 then Some (char_of (8::nat))
     else if n = 102 then Some (char_of (12::nat))
     else if n = 110 then Some (char_of (10::nat))
     else if n = 114 then Some (char_of (13::nat))
     else if n = 116 then Some (char_of (9::nat)) else None)"

definition unicode_escape :: "string \<Rightarrow> (char \<times> string) option" where
  "unicode_escape s =
     (case s of
        a # b # c # d # r \<Rightarrow>
          (case (hex_val a, hex_val b, hex_val c, hex_val d) of
             (Some 0, Some 0, Some x, Some y) \<Rightarrow> Some (char_of (16 * x + y), r)
           | _ \<Rightarrow> None)
      | _ \<Rightarrow> None)"

definition take_char :: "string \<Rightarrow> (char \<times> string) option" where
  "take_char s =
     (case s of
        [] \<Rightarrow> None
      | c # cs \<Rightarrow>
          if (of_char c :: nat) = 92 then
            (case cs of
               [] \<Rightarrow> None
             | e # r \<Rightarrow> if e = CHR ''u'' then unicode_escape r
                        else map_option (\<lambda>x. (x, r)) (simple_escape e))
          else if (of_char c :: nat) < 32 then None else Some (c, cs))"

lemma take_char_shorter: "take_char s = Some (c, r) \<Longrightarrow> length r < length s"
  by (auto simp: take_char_def unicode_escape_def split: list.splits if_splits option.splits nat.splits)

function parse_chars :: "string \<Rightarrow> (string \<times> string) option" where
  "parse_chars s =
     (case s of
        [] \<Rightarrow> None
      | c # cs \<Rightarrow>
          if c = CHR 0x22 then Some ([], cs)
          else (case take_char s of
                  None \<Rightarrow> None
                | Some (x, r) \<Rightarrow>
                    (case parse_chars r of
                       None \<Rightarrow> None
                     | Some (xs, r') \<Rightarrow> Some (x # xs, r'))))"
  by pat_completeness auto
termination
  by (relation "measure length") (auto dest!: take_char_shorter sym [of "Some _"])

declare parse_chars.simps [simp del]

text \<open>Numbers.\<close>

definition take_frac :: "string \<Rightarrow> (string \<times> string) option" where
  "take_frac s =
     (case s of
        c # cs \<Rightarrow>
          if c = CHR ''.'' then
            (let ds = takeWhile is_digit cs in
             if ds = [] then None else Some (c # ds, dropWhile is_digit cs))
          else Some ([], s)
      | [] \<Rightarrow> Some ([], s))"

definition take_exp :: "string \<Rightarrow> (string \<times> string) option" where
  "take_exp s =
     (case s of
        c # cs \<Rightarrow>
          if c = CHR ''e'' \<or> c = CHR ''E'' then
            (let sg = takeWhile (\<lambda>x. x = CHR ''+'' \<or> x = CHR ''-'') (take 1 cs);
                 r = drop (length sg) cs; ds = takeWhile is_digit r in
             if ds = [] then None else Some (c # sg @ ds, dropWhile is_digit r))
          else Some ([], s)
      | [] \<Rightarrow> Some ([], s))"

definition parse_number :: "string \<Rightarrow> (json \<times> string) option" where
  "parse_number s =
     (let sg = takeWhile (\<lambda>x. x = CHR ''-'') (take 1 s);
          s1 = drop (length sg) s;
          ds = takeWhile is_digit s1
      in if ds = [] \<or> (length ds > 1 \<and> hd ds = CHR ''0'') then None
         else (case take_frac (dropWhile is_digit s1) of
                 None \<Rightarrow> None
               | Some (f, r1) \<Rightarrow>
                   (case take_exp r1 of
                      None \<Rightarrow> None
                    | Some (e, r2) \<Rightarrow>
                        if f = [] \<and> e = []
                        then Some (JInt (if sg = [] then int (str_nat ds) else - int (str_nat ds)), r2)
                        else Some (JDec (sg @ ds @ f @ e), r2))))"

definition literal :: "string \<Rightarrow> json \<Rightarrow> string \<Rightarrow> (json \<times> string) option" where
  "literal word j s = (if starts_with s word then Some (j, drop (length word) s) else None)"

text \<open>Values, with fuel: a value of \<open>n\<close> characters needs at most \<open>2 n + 1\<close> units
  (\<open>JSON_parse_fuel\<close> below).\<close>

fun parse_value :: "nat \<Rightarrow> string \<Rightarrow> (json \<times> string) option"
  and parse_elems :: "nat \<Rightarrow> string \<Rightarrow> (json list \<times> string) option"
  and parse_members :: "nat \<Rightarrow> string \<Rightarrow> ((string \<times> json) list \<times> string) option" where
  "parse_value 0 s = None"
| "parse_value (Suc n) s =
     (case skip_ws s of
        [] \<Rightarrow> None
      | c # cs \<Rightarrow>
          if c = CHR ''{'' then
            (if starts_with (skip_ws cs) ''}'' then Some (JObj [], tl (skip_ws cs))
             else map_option (\<lambda>(ms, r). (JObj (foldl (\<lambda>m e. obj_set m (fst e) (snd e)) [] ms), r))
                    (parse_members n cs))
          else if c = CHR ''['' then
            (if starts_with (skip_ws cs) '']'' then Some (JArr [], tl (skip_ws cs))
             else map_option (\<lambda>(xs, r). (JArr xs, r)) (parse_elems n cs))
          else if c = CHR 0x22 then map_option (\<lambda>(x, r). (JStr x, r)) (parse_chars cs)
          else if c = CHR ''t'' then literal ''true'' (JBool True) (c # cs)
          else if c = CHR ''f'' then literal ''false'' (JBool False) (c # cs)
          else if c = CHR ''n'' then literal ''null'' JNull (c # cs)
          else parse_number (c # cs))"
| "parse_elems 0 s = None"
| "parse_elems (Suc n) s =
     (case parse_value n s of
        None \<Rightarrow> None
      | Some (j, r) \<Rightarrow>
          (case skip_ws r of
             [] \<Rightarrow> None
           | c # cs \<Rightarrow>
               if c = CHR '','' then map_option (\<lambda>(js, r'). (j # js, r')) (parse_elems n cs)
               else if c = CHR '']'' then Some ([j], cs) else None))"
| "parse_members 0 s = None"
| "parse_members (Suc n) s =
     (case skip_ws s of
        [] \<Rightarrow> None
      | q # qs \<Rightarrow>
          if q \<noteq> CHR 0x22 then None
          else (case parse_chars qs of
                  None \<Rightarrow> None
                | Some (k, r) \<Rightarrow>
                    (case skip_ws r of
                       [] \<Rightarrow> None
                     | c # cs \<Rightarrow>
                         if c \<noteq> CHR '':'' then None
                         else (case parse_value n cs of
                                 None \<Rightarrow> None
                               | Some (j, r') \<Rightarrow>
                                   (case skip_ws r' of
                                      [] \<Rightarrow> None
                                    | d # ds \<Rightarrow>
                                        if d = CHR '','' then
                                          map_option (\<lambda>(ms, r''). ((k, j) # ms, r'')) (parse_members n ds)
                                        else if d = CHR ''}'' then Some ([(k, j)], ds) else None)))))"

definition JSON_parse :: "string \<Rightarrow> json option" where
  "JSON_parse s =
     (case parse_value (2 * length s + 2) s of
        Some (j, r) \<Rightarrow> if skip_ws r = [] then Some j else None
      | None \<Rightarrow> None)"

section \<open>The fuel is enough\<close>

lemma skip_ws_length: "length (skip_ws s) \<le> length s"
  by (simp add: skip_ws_def length_dropWhile_le)

lemma skip_ws_Cons: "skip_ws s = c # cs \<Longrightarrow> length cs < length s"
  using skip_ws_length [of s] by simp

lemma parse_chars_shorter: "parse_chars s = Some (x, r) \<Longrightarrow> length r < length s"
proof (induction s arbitrary: x r rule: parse_chars.induct)
  case (1 s)
  from "1.prems" obtain c cs where s: "s = c # cs"
    by (subst (asm) parse_chars.simps) (auto split: list.splits)
  show ?case
  proof (cases "c = CHR 0x22")
    case True
    with "1.prems" s show ?thesis by (subst (asm) parse_chars.simps) simp
  next
    case False
    with "1.prems" s obtain y r1 xs where t: "take_char s = Some (y, r1)" "parse_chars r1 = Some (xs, r)"
      by (subst (asm) parse_chars.simps) (auto split: option.splits)
    from "1.IH" [OF s False t(1) refl t(2)] take_char_shorter [OF t(1)] show ?thesis by simp
  qed
qed

lemma literal_shorter: "literal w j s = Some (x, r) \<Longrightarrow> w \<noteq> [] \<Longrightarrow> length r < length s"
  by (auto simp: literal_def starts_with_iff split: if_splits)

lemma take_frac_length: "take_frac s = Some (f, r) \<Longrightarrow> length r \<le> length s"
  by (auto simp: take_frac_def Let_def length_dropWhile_le le_SucI split: list.splits if_splits)

lemma take_exp_length:
  assumes "take_exp s = Some (f, r)"
  shows "length r \<le> length s"
proof (cases s)
  case Nil
  with assms show ?thesis by (simp add: take_exp_def)
next
  case (Cons c cs)
  have "length (dropWhile is_digit (drop k cs)) \<le> length cs" for k
    using length_dropWhile_le [of is_digit "drop k cs"] by simp
  with assms Cons show ?thesis by (auto simp: take_exp_def Let_def le_SucI split: if_splits)
qed

lemma parse_number_shorter:
  assumes "parse_number s = Some (j, r)"
  shows "length r < length s"
proof -
  let ?s1 = "drop (length (takeWhile (\<lambda>x. x = CHR ''-'') (take 1 s))) s"
  from assms obtain f r1 e where d: "takeWhile is_digit ?s1 \<noteq> []"
    and f: "take_frac (dropWhile is_digit ?s1) = Some (f, r1)" and e: "take_exp r1 = Some (e, r)"
    by (auto simp: parse_number_def Let_def split: if_splits option.splits)
  have "length (takeWhile is_digit ?s1) + length (dropWhile is_digit ?s1) = length ?s1"
    by (metis length_append takeWhile_dropWhile_id)
  with d have "length (dropWhile is_digit ?s1) < length ?s1" by (metis add_gr_0 length_greater_0_conv less_add_same_cancel2)
  with take_frac_length [OF f] take_exp_length [OF e] show ?thesis by simp
qed

lemma parse_shorter:
  "parse_value n s = Some (j, r) \<Longrightarrow> length r < length s"
  "parse_elems n s = Some (js, r) \<Longrightarrow> length r < length s"
  "parse_members n s = Some (ms, r) \<Longrightarrow> length r < length s"
proof (induction n arbitrary: s j js ms r)
  case 0
  { case 1 then show ?case by simp next case 2 then show ?case by simp next case 3 then show ?case by simp }
next
  case (Suc n)
  {
    case 1
    then obtain c cs where s: "skip_ws s = c # cs" by (auto split: list.splits)
    have tl: "length (tl (skip_ws cs)) \<le> length cs" using skip_ws_length [of cs] by simp
    have le: "length (c # cs) \<le> length s" using skip_ws_length [of s] s by simp
    from 1 s have "length r < length (c # cs)"
      using tl Suc.IH(2) [of cs] Suc.IH(3) [of cs] parse_chars_shorter [of cs] literal_shorter [of _ _ "c # cs"]
        parse_number_shorter [of "c # cs"]
      by (fastforce split: if_splits)
    with le show ?case by simp
  next
    case 2
    then obtain j r1 c cs where v: "parse_value n s = Some (j, r1)" and r1: "skip_ws r1 = c # cs"
      by (auto split: option.splits list.splits)
    from Suc.IH(1) [OF v] skip_ws_Cons [OF r1] have l: "length cs < length s" by simp
    from 2 v r1 have "r = cs \<or> (\<exists>js'. parse_elems n cs = Some (js', r))" by (auto split: if_splits)
    with l Suc.IH(2) [of cs] show ?case by fastforce
  next
    case 3
    then obtain q qs k r1 c cs j r2 d ds where q: "skip_ws s = q # qs" and k: "parse_chars qs = Some (k, r1)"
      and c: "skip_ws r1 = c # cs" and v: "parse_value n cs = Some (j, r2)" and d: "skip_ws r2 = d # ds"
      by (auto split: option.splits list.splits if_splits)
    from skip_ws_Cons [OF q] parse_chars_shorter [OF k] skip_ws_Cons [OF c] Suc.IH(1) [OF v] skip_ws_Cons [OF d]
    have l: "length ds < length s" by simp
    from 3 q k c v d have "r = ds \<or> (\<exists>ms'. parse_members n ds = Some (ms', r))" by (auto split: if_splits)
    with l Suc.IH(3) [of ds] show ?case by fastforce
  }
qed

text \<open>Once the fuel exceeds the bound, more of it changes nothing.\<close>

lemma parse_stable:
  "2 * length s < n \<Longrightarrow> parse_value (Suc n) s = parse_value n s"
  "2 * length s + 1 < n \<Longrightarrow> parse_elems (Suc n) s = parse_elems n s"
  "2 * length s + 1 < n \<Longrightarrow> parse_members (Suc n) s = parse_members n s"
proof (induction n arbitrary: s)
  case 0
  { case 1 then show ?case by simp next case 2 then show ?case by simp next case 3 then show ?case by simp }
next
  case (Suc n)
  {
    case 1
    show ?case
    proof (cases "skip_ws s")
      case (Cons c cs)
      with skip_ws_Cons [OF Cons] 1 have "2 * length cs + 1 < n" by simp
      from Suc.IH(2) [OF this] Suc.IH(3) [OF this] Cons show ?thesis
        by (simp del: parse_elems.simps parse_members.simps)
    qed simp
  next
    case 2
    then have v: "parse_value (Suc n) s = parse_value n s" by (intro Suc.IH(1)) simp
    show ?case
    proof (cases "parse_value n s")
      case (Some p)
      obtain j r where p: "parse_value n s = Some (j, r)" using Some by (cases p) simp
      show ?thesis
      proof (cases "skip_ws r")
        case (Cons c cs)
        from parse_shorter(1) [OF p] skip_ws_Cons [OF Cons] 2 have "2 * length cs + 1 < n" by simp
        from Suc.IH(2) [OF this] Cons p v show ?thesis
          by (simp only: parse_elems.simps(2) [of "Suc n"] parse_elems.simps(2) [of n] option.case prod.case list.case)
      qed (use p v in \<open>simp only: parse_elems.simps(2) option.case prod.case list.case\<close>)
    qed (use v in \<open>simp only: parse_elems.simps(2) option.case\<close>)
  next
    case 3
    show ?case
    proof (cases "skip_ws s")
      case q: (Cons q qs)
      show ?thesis
      proof (cases "parse_chars qs")
        case k: (Some p)
        obtain kk r where p: "p = (kk, r)" by (cases p)
        show ?thesis
        proof (cases "skip_ws r")
          case c: (Cons c cs)
          from skip_ws_Cons [OF q] parse_chars_shorter [of qs kk r] k p skip_ws_Cons [OF c]
          have l: "length cs + 2 < length s" by simp
          with 3 have v: "parse_value (Suc n) cs = parse_value n cs" by (intro Suc.IH(1)) simp
          show ?thesis
          proof (cases "parse_value n cs")
            case (Some pv)
            then obtain j r2 where pv: "parse_value n cs = Some (j, r2)" by (cases pv) simp
            show ?thesis
            proof (cases "skip_ws r2")
              case (Cons d ds)
              from parse_shorter(1) [OF pv] skip_ws_Cons [OF Cons] l 3 have "2 * length ds + 1 < n" by simp
              from Suc.IH(3) [OF this] Cons pv v c k p q show ?thesis
                by (simp only: parse_members.simps(2) [of "Suc n"] parse_members.simps(2) [of n] option.case prod.case list.case)
            qed (use pv v c k p q in \<open>simp only: parse_members.simps(2) option.case prod.case list.case\<close>)
          qed (use v c k p q in \<open>simp only: parse_members.simps(2) option.case prod.case list.case\<close>)
        qed (use k p q in \<open>simp only: parse_members.simps(2) option.case prod.case list.case\<close>)
      qed (use q in \<open>simp only: parse_members.simps(2) option.case list.case\<close>)
    qed (simp only: parse_members.simps(2) list.case)
  }
qed

lemma JSON_parse_fuel:
  assumes "2 * length s + 1 \<le> n"
  shows "JSON_parse s = (case parse_value n s of Some (j, r) \<Rightarrow> if skip_ws r = [] then Some j else None | None \<Rightarrow> None)"
proof -
  have "parse_value (2 * length s + 1 + k) s = parse_value (2 * length s + 1) s" for k
    by (induction k) (simp_all del: parse_value.simps add: parse_stable(1))
  from this [of 1] this [of "n - (2 * length s + 1)"] assms
  have "parse_value (2 * length s + 2) s = parse_value n s" by simp
  then show ?thesis unfolding JSON_parse_def by simp
qed

end
