(* ===== verification/Gateway_Types.thy ===== *)
theory Gateway_Types
  imports Js_Json
begin

text \<open>
  The gateway configuration as \<open>src/web/src/types/gateway.ts\<close> and \<open>prompt.ts\<close> declare it.
  Every interface is a record with one field per member, prefixed by the interface's short
  name because HOL selectors are global; an optional member is an \<open>option\<close>. The two
  mutually recursive schema interfaces are datatypes. A \<open>Partial<Gateway>\<close>, the argument
  of every \<open>updateConfig\<close> call, is a record of optional members, and \<open>apply_patch\<close> is
  the object spread \<open>{...base, ...newData}\<close>.
\<close>

section \<open>Tenants\<close>

record tenant =
  ten_id :: int
  ten_name :: string
  ten_prefix :: string
  ten_description :: string
  ten_isActive :: bool

section \<open>Upstream MCP servers\<close>

record mcp_server =
  ms_type :: string
  ms_name :: string
  ms_command :: "string option"
  ms_args :: "string list option"
  ms_env :: "string obj option"
  ms_url :: "string option"
  ms_policy :: string
  ms_preinstalled :: bool

section \<open>Tools, their arguments and schemas\<close>

datatype items_config =
  Items (it_type: string) (it_enum: "string list option")
    (it_properties: "property_config obj option")
    (it_items: "items_config option") (it_required: "string list option")
and property_config =
  Property (pr_type: string) (pr_description: "string option")
    (pr_enum: "string list option") (pr_items: "items_config option")
    (pr_required: "string list option")

record arg_config =
  arg_name :: string
  arg_position :: string
  arg_required :: bool
  arg_type :: string
  arg_description :: string
  arg_default :: string
  arg_items :: "items_config option"

record proxy_config =
  px_host :: string
  px_port :: int
  px_type :: string

record tool_config =
  tool_name :: string
  tool_description :: "string option"
  tool_method :: string
  tool_endpoint :: string
  tool_proxy :: "proxy_config option"
  tool_headers :: "string obj option"
  tool_headersOrder :: "string list option"
  tool_args :: "arg_config list option"
  tool_requestBody :: string
  tool_responseBody :: string
  tool_inputSchema :: "json obj option"

section \<open>HTTP servers and routers\<close>

record server_config =
  srv_name :: string
  srv_description :: string
  srv_allowedTools :: "string list option"
  srv_config :: "string obj option"

record cors_config =
  cors_allowOrigins :: "string list option"
  cors_allowMethods :: "string list option"
  cors_allowHeaders :: "string list option"
  cors_exposeHeaders :: "string list option"
  cors_allowCredentials :: bool

record auth_config =
  auth_mode :: string

record router_config =
  rt_server :: string
  rt_prefix :: string
  rt_ssePrefix :: "string option"
  rt_cors :: "cors_config option"
  rt_auth :: "auth_config option"

section \<open>Prompts\<close>

record prompt_argument =
  pa_name :: string
  pa_description :: string
  pa_required :: bool

record prompt_content =
  pc_type :: string
  pc_text :: string

record prompt_response =
  resp_role :: string
  resp_content :: prompt_content

record prompt_config =
  pmt_name :: string
  pmt_description :: string
  pmt_arguments :: "prompt_argument list option"
  pmt_response :: "prompt_response list option"

section \<open>The gateway configuration and its partial updates\<close>

record gateway =
  gw_name :: string
  gw_tenant :: string
  gw_mcpServers :: "mcp_server list option"
  gw_tools :: "tool_config list option"
  gw_prompts :: "prompt_config list option"
  gw_servers :: "server_config list option"
  gw_routers :: "router_config list option"
  gw_createdAt :: string
  gw_updatedAt :: string

record patch =
  p_name :: "string option"
  p_tenant :: "string option"
  p_mcpServers :: "mcp_server list option"
  p_tools :: "tool_config list option"
  p_prompts :: "prompt_config list option"
  p_servers :: "server_config list option"
  p_routers :: "router_config list option"

definition no_patch :: patch where
  "no_patch = \<lparr>p_name = None, p_tenant = None, p_mcpServers = None, p_tools = None,
     p_prompts = None, p_servers = None, p_routers = None\<rparr>"

definition over :: "'a option \<Rightarrow> 'a option \<Rightarrow> 'a option" where
  "over new old = (case new of None \<Rightarrow> old | Some v \<Rightarrow> Some v)"

definition apply_patch :: "gateway \<Rightarrow> patch \<Rightarrow> gateway" where
  "apply_patch g p = g\<lparr>
     gw_name := opt_or (p_name p) (gw_name g),
     gw_tenant := opt_or (p_tenant p) (gw_tenant g),
     gw_mcpServers := over (p_mcpServers p) (gw_mcpServers g),
     gw_tools := over (p_tools p) (gw_tools g),
     gw_prompts := over (p_prompts p) (gw_prompts g),
     gw_servers := over (p_servers p) (gw_servers g),
     gw_routers := over (p_routers p) (gw_routers g)\<rparr>"

text \<open>The default configuration of \<open>constants/defaultConfig.ts\<close>; its two time stamps are read
  from the clock.\<close>

definition defaultConfig :: "string \<Rightarrow> gateway" where
  "defaultConfig now = \<lparr>gw_name = [], gw_tenant = ''default'', gw_mcpServers = Some [],
     gw_tools = Some [], gw_prompts = Some [], gw_servers = Some [], gw_routers = Some [],
     gw_createdAt = now, gw_updatedAt = now\<rparr>"

abbreviation tools_of :: "gateway \<Rightarrow> tool_config list" where
  "tools_of g \<equiv> opt_or (gw_tools g) []"

abbreviation routers_of :: "gateway \<Rightarrow> router_config list" where
  "routers_of g \<equiv> opt_or (gw_routers g) []"

section \<open>References between the lists of a configuration\<close>

text \<open>
  Servers name tools in \<open>allowedTools\<close>, routers name a server or an upstream MCP server. A
  configuration is closed when every such reference resolves.
\<close>

definition tool_refs_ok :: "gateway \<Rightarrow> bool" where
  "tool_refs_ok g \<longleftrightarrow> (\<forall>s \<in> set (opt_or (gw_servers g) []).
     set (opt_or (srv_allowedTools s) []) \<subseteq> tool_name ` set (tools_of g))"

definition server_names :: "gateway \<Rightarrow> string set" where
  "server_names g = srv_name ` set (opt_or (gw_servers g) [])
     \<union> ms_name ` set (opt_or (gw_mcpServers g) [])"

definition router_refs_ok :: "gateway \<Rightarrow> bool" where
  "router_refs_ok g \<longleftrightarrow> (\<forall>r \<in> set (routers_of g). rt_server r \<in> server_names g)"

text \<open>
  The interface shared by the three editors that rename a referenced item and rewrite the
  references to it.
\<close>

locale rename_refs =
  fixes name_of :: "'i \<Rightarrow> string"
    and set_name :: "'i \<Rightarrow> string \<Rightarrow> 'i"
    and refs :: "'u \<Rightarrow> string set"
    and map_refs :: "(string \<Rightarrow> string) \<Rightarrow> 'u \<Rightarrow> 'u"
  assumes name_set: "name_of (set_name x n) = n"
    and refs_map: "refs (map_refs f u) = f ` refs u"
begin

lemma names_after_rename:
  assumes "i < length xs" "m \<in> name_of ` set xs" "m \<noteq> name_of (xs ! i)"
  shows "m \<in> name_of ` set (xs[i := set_name (xs ! i) n])"
proof -
  from assms(2) obtain j where j: "j < length xs" "m = name_of (xs ! j)"
    by (auto simp: in_set_conv_nth)
  with assms(3) have "i \<noteq> j" by auto
  with j have "xs[i := set_name (xs ! i) n] ! j = xs ! j" by simp
  with j show ?thesis by (metis imageI length_list_update nth_mem)
qed

lemma new_name_present:
  assumes "i < length xs"
  shows "n \<in> name_of ` set (xs[i := set_name (xs ! i) n])"
  using assms by (metis imageI length_list_update name_set nth_list_update_eq nth_mem)

text \<open>If every reference resolves among the items (or in the fixed set \<open>E\<close> of other targets)
  before the rename, every rewritten reference resolves after it.\<close>

lemma rename_keeps_resolved:
  assumes "i < length xs"
    and "\<forall>u \<in> set us. refs u \<subseteq> name_of ` set xs \<union> E"
    and "u' \<in> set (map (map_refs (\<lambda>r. if r = name_of (xs ! i) then n else r)) us)"
  shows "refs u' \<subseteq> name_of ` set (xs[i := set_name (xs ! i) n]) \<union> E"
proof
  fix r assume r: "r \<in> refs u'"
  from assms(3) obtain u where u: "u \<in> set us"
    "u' = map_refs (\<lambda>r. if r = name_of (xs ! i) then n else r) u" by auto
  from r u(2) obtain q where q: "q \<in> refs u" "r = (if q = name_of (xs ! i) then n else q)"
    by (auto simp: refs_map)
  from q(1) u(1) assms(2) have "q \<in> name_of ` set xs \<union> E" by blast
  with q(2) show "r \<in> name_of ` set (xs[i := set_name (xs ! i) n]) \<union> E"
    using assms(1) names_after_rename new_name_present by (cases "q = name_of (xs ! i)") auto
qed

end

end
