(* ===== verification/Tools_Config.thy ===== *)
theory Tools_Config
  imports Gateway_Types
begin

text \<open>
  The tool editor, \<open>src/web/src/pages/gateway/components/ToolsConfig.tsx\<close>. Every handler
  reads the parsed configuration and answers with the partial configuration it passes to
  \<open>updateConfig\<close>. The indices come from rendering the lists, so they are in range when a
  handler runs; the out-of-range branches say what the handler would do.
\<close>

section \<open>updateTool\<close>

datatype tool_update =
    U_name string
  | U_description string
  | U_method string
  | U_endpoint string
  | U_args "arg_config list"
  | U_requestBody string
  | U_responseBody string

fun set_tool_field :: "tool_config \<Rightarrow> tool_update \<Rightarrow> tool_config" where
  "set_tool_field t (U_name v) = t\<lparr>tool_name := v\<rparr>"
| "set_tool_field t (U_description v) = t\<lparr>tool_description := Some v\<rparr>"
| "set_tool_field t (U_method v) = t\<lparr>tool_method := v\<rparr>"
| "set_tool_field t (U_endpoint v) = t\<lparr>tool_endpoint := v\<rparr>"
| "set_tool_field t (U_args v) = t\<lparr>tool_args := Some v\<rparr>"
| "set_tool_field t (U_requestBody v) = t\<lparr>tool_requestBody := v\<rparr>"
| "set_tool_field t (U_responseBody v) = t\<lparr>tool_responseBody := v\<rparr>"

definition rename_allowed :: "string \<Rightarrow> string \<Rightarrow> server_config \<Rightarrow> server_config" where
  "rename_allowed oldName value server =
     (case srv_allowedTools server of
        Some ts \<Rightarrow> server\<lparr>srv_allowedTools := Some (map (\<lambda>t. if t = oldName then value else t) ts)\<rparr>
      | None \<Rightarrow> server)"

definition updateTool :: "gateway \<Rightarrow> nat \<Rightarrow> tool_update \<Rightarrow> patch result" where
  "updateTool g i u =
     (let tools = tools_of g in
      if i < length tools then
        let oldName = tool_name (tools ! i);
            updatedTools = tools[i := set_tool_field (tools ! i) u];
            plain = no_patch\<lparr>p_tools := Some updatedTools\<rparr>
        in (case u of
              U_name value \<Rightarrow>
                (case gw_servers g of
                   Some servers \<Rightarrow>
                     if oldName \<noteq> value
                     then Inr (plain\<lparr>p_servers := Some (map (rename_allowed oldName value) servers)\<rparr>)
                     else Inr plain
                 | None \<Rightarrow> Inr plain)
            | _ \<Rightarrow> Inr plain)
      else Inl (TypeError ''updatedTools[index].name''))"

section \<open>The header editor\<close>

definition headers_of :: "tool_config \<Rightarrow> string obj" where
  "headers_of t = opt_or (tool_headers t) []"

definition order_of :: "tool_config \<Rightarrow> string list" where
  "order_of t = opt_or (tool_headersOrder t) (own_keys (headers_of t))"

definition set_headers :: "tool_config \<Rightarrow> string obj \<Rightarrow> string list \<Rightarrow> tool_config" where
  "set_headers t h ord = t\<lparr>tool_headers := Some h, tool_headersOrder := Some ord\<rparr>"

text \<open>\<open>headersOrder[i]\<close> used as a property key: \<open>undefined\<close> out of range.\<close>

definition order_key :: "string list \<Rightarrow> nat \<Rightarrow> string" where
  "order_key ord i = (if i < length ord then ord ! i else ''undefined'')"

datatype header_field = HKey | HValue

text \<open>One tool's headers after \<open>updateHeader\<close>. Renaming a row whose key has no header would
  store \<open>undefined\<close> in a \<open>Record<string, string>\<close>.\<close>

definition header_update :: "tool_config \<Rightarrow> nat \<Rightarrow> header_field \<Rightarrow> string \<Rightarrow> tool_config result" where
  "header_update tool i field value =
     (let headers = headers_of tool; headersOrder = order_of tool in
      case field of
        HKey \<Rightarrow>
          if i < length headersOrder then
            let oldKey = headersOrder ! i; newKey = value in
            if oldKey \<noteq> newKey then
              (case obj_get headers oldKey of
                 Some v \<Rightarrow> Inr (set_headers tool (obj_delete (obj_set headers newKey v) oldKey)
                                  (headersOrder[i := newKey]))
               | None \<Rightarrow> Inl (IllTyped ''headers[newKey] = undefined''))
            else Inr (set_headers tool headers headersOrder)
          else Inl (IllTyped ''headersOrder[headerIndex]'')
      | HValue \<Rightarrow>
          Inr (set_headers tool (obj_set headers (order_key headersOrder i) value) headersOrder))"

definition commonHeaders :: "string list" where
  "commonHeaders = [''Authorization'', ''Accept'', ''X-API-Key'', ''User-Agent'']"

definition new_header_key :: "string list \<Rightarrow> string" where
  "new_header_key headersOrder =
     (let newKey = (case find (\<lambda>h. h \<notin> set headersOrder) commonHeaders of
                      Some h \<Rightarrow> h | None \<Rightarrow> ''Content-Type'')
      in if newKey \<in> set headersOrder
         then ''X-Header-'' @ nat_str (fresh_count ''X-Header-'' headersOrder 1)
         else newKey)"

definition header_add :: "tool_config \<Rightarrow> tool_config" where
  "header_add tool =
     (let headersOrder = order_of tool; newKey = new_header_key headersOrder in
      set_headers tool (obj_set (headers_of tool) newKey []) (headersOrder @ [newKey]))"

definition header_remove :: "tool_config \<Rightarrow> nat \<Rightarrow> tool_config" where
  "header_remove tool i =
     (let headersOrder = order_of tool in
      set_headers tool (obj_delete (headers_of tool) (order_key headersOrder i))
        (splice1 headersOrder i))"

text \<open>The handlers replace the tool in the list; without that tool they read a field of
  \<open>undefined\<close>.\<close>

definition replace_tool :: "gateway \<Rightarrow> nat \<Rightarrow> (tool_config \<Rightarrow> tool_config result) \<Rightarrow> patch result" where
  "replace_tool g ti f =
     (let tools = tools_of g in
      if ti < length tools then
        (case f (tools ! ti) of
           Inl e \<Rightarrow> Inl e
         | Inr t \<Rightarrow> Inr (no_patch\<lparr>p_tools := Some (tools[ti := t])\<rparr>))
      else Inl (TypeError ''tool.headers''))"

definition updateHeader :: "gateway \<Rightarrow> nat \<Rightarrow> nat \<Rightarrow> header_field \<Rightarrow> string \<Rightarrow> patch result" where
  "updateHeader g ti hi field value = replace_tool g ti (\<lambda>t. header_update t hi field value)"

definition addHeader :: "gateway \<Rightarrow> nat \<Rightarrow> patch result" where
  "addHeader g ti = replace_tool g ti (\<lambda>t. Inr (header_add t))"

definition removeHeader :: "gateway \<Rightarrow> nat \<Rightarrow> nat \<Rightarrow> patch result" where
  "removeHeader g ti hi = replace_tool g ti (\<lambda>t. Inr (header_remove t hi))"

section \<open>The argument editor\<close>

definition add_argument :: "gateway \<Rightarrow> nat \<Rightarrow> patch result" where
  "add_argument g ti =
     (if ti < length (tools_of g) then
        updateTool g ti (U_args (opt_or (tool_args (tools_of g ! ti)) [] @
          [\<lparr>arg_name = [], arg_position = ''body'', arg_required = False, arg_type = ''string'',
            arg_description = [], arg_default = [], arg_items = None\<rparr>]))
      else Inl (TypeError ''tool.args''))"

definition with_arg :: "gateway \<Rightarrow> nat \<Rightarrow> nat \<Rightarrow> (arg_config \<Rightarrow> arg_config) \<Rightarrow> patch result" where
  "with_arg g ti ai f =
     (if ti < length (tools_of g) then
        let args = opt_or (tool_args (tools_of g ! ti)) [] in
        if ai < length args then updateTool g ti (U_args (args[ai := f (args ! ai)]))
        else Inl (IllTyped ''updatedArgs[argIndex]'')
      else Inl (TypeError ''tool.args''))"

definition set_arg_name :: "gateway \<Rightarrow> nat \<Rightarrow> nat \<Rightarrow> string \<Rightarrow> patch result" where
  "set_arg_name g ti ai v = with_arg g ti ai (\<lambda>a. a\<lparr>arg_name := v\<rparr>)"

definition set_arg_position :: "gateway \<Rightarrow> nat \<Rightarrow> nat \<Rightarrow> string \<Rightarrow> patch result" where
  "set_arg_position g ti ai v = with_arg g ti ai (\<lambda>a. a\<lparr>arg_position := v\<rparr>)"

definition set_arg_type :: "gateway \<Rightarrow> nat \<Rightarrow> nat \<Rightarrow> string \<Rightarrow> patch result" where
  "set_arg_type g ti ai v = with_arg g ti ai (\<lambda>a. a\<lparr>arg_type := v\<rparr>)"

definition set_arg_required :: "gateway \<Rightarrow> nat \<Rightarrow> nat \<Rightarrow> bool \<Rightarrow> patch result" where
  "set_arg_required g ti ai v = with_arg g ti ai (\<lambda>a. a\<lparr>arg_required := v\<rparr>)"

definition set_arg_description :: "gateway \<Rightarrow> nat \<Rightarrow> nat \<Rightarrow> string \<Rightarrow> patch result" where
  "set_arg_description g ti ai v = with_arg g ti ai (\<lambda>a. a\<lparr>arg_description := v\<rparr>)"

definition set_arg_default :: "gateway \<Rightarrow> nat \<Rightarrow> nat \<Rightarrow> string \<Rightarrow> patch result" where
  "set_arg_default g ti ai v = with_arg g ti ai (\<lambda>a. a\<lparr>arg_default := v\<rparr>)"

definition remove_argument :: "gateway \<Rightarrow> nat \<Rightarrow> nat \<Rightarrow> patch result" where
  "remove_argument g ti ai =
     (if ti < length (tools_of g) then
        updateTool g ti (U_args (splice1 (opt_or (tool_args (tools_of g ! ti)) []) ai))
      else Inl (TypeError ''tool.args''))"

section \<open>Nested schemas of array and object arguments\<close>

definition items_with_type :: "items_config option \<Rightarrow> string \<Rightarrow> items_config" where
  "items_with_type items v =
     (case items of
        Some (Items t e p i r) \<Rightarrow> Items v e p i r
      | None \<Rightarrow> Items v None None None None)"

definition set_items_type :: "gateway \<Rightarrow> nat \<Rightarrow> nat \<Rightarrow> string \<Rightarrow> patch result" where
  "set_items_type g ti ai v =
     with_arg g ti ai (\<lambda>a. a\<lparr>arg_items := Some (items_with_type (arg_items a) v)\<rparr>)"

definition currentItems :: "arg_config \<Rightarrow> items_config" where
  "currentItems a = opt_or (arg_items a) (Items ''object'' None (Some []) None None)"

definition current_properties :: "arg_config \<Rightarrow> property_config obj" where
  "current_properties a = opt_or (it_properties (currentItems a)) []"

fun with_properties :: "items_config \<Rightarrow> property_config obj \<Rightarrow> items_config" where
  "with_properties (Items t e p i r) props = Items t e (Some props) i r"

definition put_properties :: "arg_config \<Rightarrow> property_config obj \<Rightarrow> arg_config" where
  "put_properties a props = a\<lparr>arg_items := Some (with_properties (currentItems a) props)\<rparr>"

definition new_property :: property_config where
  "new_property = Property ''string'' (Some []) None None None"

definition newPropertyName :: "arg_config \<Rightarrow> string" where
  "newPropertyName a = ''property'' @ nat_str (length (own_keys (current_properties a)) + 1)"

definition arg_add_property :: "arg_config \<Rightarrow> arg_config" where
  "arg_add_property a =
     put_properties a (obj_set (current_properties a) (newPropertyName a) new_property)"

definition arg_rename_property :: "string \<Rightarrow> property_config \<Rightarrow> string \<Rightarrow> arg_config \<Rightarrow> arg_config" where
  "arg_rename_property propName propConfig v a =
     put_properties a (obj_set (obj_delete (current_properties a) propName) v propConfig)"

fun property_with_type :: "property_config \<Rightarrow> string \<Rightarrow> property_config" where
  "property_with_type (Property t d e i r) v = Property v d e i r"

fun property_with_description :: "property_config \<Rightarrow> string \<Rightarrow> property_config" where
  "property_with_description (Property t d e i r) v = Property t (Some v) e i r"

definition arg_property_type :: "string \<Rightarrow> property_config \<Rightarrow> string \<Rightarrow> arg_config \<Rightarrow> arg_config" where
  "arg_property_type propName propConfig v a =
     put_properties a (obj_set (current_properties a) propName (property_with_type propConfig v))"

definition arg_property_description ::
    "string \<Rightarrow> property_config \<Rightarrow> string \<Rightarrow> arg_config \<Rightarrow> arg_config" where
  "arg_property_description propName propConfig v a =
     put_properties a
       (obj_set (current_properties a) propName (property_with_description propConfig v))"

definition arg_remove_property :: "string \<Rightarrow> arg_config \<Rightarrow> arg_config" where
  "arg_remove_property propName a =
     put_properties a (obj_delete (current_properties a) propName)"

text \<open>The handlers of the array branch and, written a second time in the source, those of the
  object branch.\<close>

definition array_add_property :: "gateway \<Rightarrow> nat \<Rightarrow> nat \<Rightarrow> patch result" where
  "array_add_property g ti ai = with_arg g ti ai arg_add_property"

definition array_rename_property ::
    "gateway \<Rightarrow> nat \<Rightarrow> nat \<Rightarrow> string \<Rightarrow> property_config \<Rightarrow> string \<Rightarrow> patch result" where
  "array_rename_property g ti ai n c v = with_arg g ti ai (arg_rename_property n c v)"

definition array_property_type ::
    "gateway \<Rightarrow> nat \<Rightarrow> nat \<Rightarrow> string \<Rightarrow> property_config \<Rightarrow> string \<Rightarrow> patch result" where
  "array_property_type g ti ai n c v = with_arg g ti ai (arg_property_type n c v)"

definition array_property_description ::
    "gateway \<Rightarrow> nat \<Rightarrow> nat \<Rightarrow> string \<Rightarrow> property_config \<Rightarrow> string \<Rightarrow> patch result" where
  "array_property_description g ti ai n c v = with_arg g ti ai (arg_property_description n c v)"

definition array_remove_property :: "gateway \<Rightarrow> nat \<Rightarrow> nat \<Rightarrow> string \<Rightarrow> patch result" where
  "array_remove_property g ti ai n = with_arg g ti ai (arg_remove_property n)"

definition object_add_property :: "gateway \<Rightarrow> nat \<Rightarrow> nat \<Rightarrow> patch result" where
  "object_add_property g ti ai = with_arg g ti ai arg_add_property"

definition object_rename_property ::
    "gateway \<Rightarrow> nat \<Rightarrow> nat \<Rightarrow> string \<Rightarrow> property_config \<Rightarrow> string \<Rightarrow> patch result" where
  "object_rename_property g ti ai n c v = with_arg g ti ai (arg_rename_property n c v)"

definition object_property_type ::
    "gateway \<Rightarrow> nat \<Rightarrow> nat \<Rightarrow> string \<Rightarrow> property_config \<Rightarrow> string \<Rightarrow> patch result" where
  "object_property_type g ti ai n c v = with_arg g ti ai (arg_property_type n c v)"

definition object_property_description ::
    "gateway \<Rightarrow> nat \<Rightarrow> nat \<Rightarrow> string \<Rightarrow> property_config \<Rightarrow> string \<Rightarrow> patch result" where
  "object_property_description g ti ai n c v = with_arg g ti ai (arg_property_description n c v)"

definition object_remove_property :: "gateway \<Rightarrow> nat \<Rightarrow> nat \<Rightarrow> string \<Rightarrow> patch result" where
  "object_remove_property g ti ai n = with_arg g ti ai (arg_remove_property n)"

section \<open>Adding and removing tools\<close>

definition blank_tool :: tool_config where
  "blank_tool = \<lparr>tool_name = [], tool_description = Some [], tool_method = ''GET'',
     tool_endpoint = [], tool_proxy = None,
     tool_headers = Some [(''Content-Type'', ''application/json'')],
     tool_headersOrder = Some [''Content-Type''], tool_args = Some [], tool_requestBody = [],
     tool_responseBody = ''{{.Response.Body}}'', tool_inputSchema = None\<rparr>"

definition add_tool :: "gateway \<Rightarrow> patch" where
  "add_tool g = no_patch\<lparr>p_tools := Some (tools_of g @ [blank_tool])\<rparr>"

definition remove_tool :: "gateway \<Rightarrow> nat \<Rightarrow> patch" where
  "remove_tool g i = no_patch\<lparr>p_tools := Some (splice1 (tools_of g) i)\<rparr>"


section \<open>Renaming a tool keeps the servers' references closed\<close>

lemma set_tool_field_name:
  "tool_name (set_tool_field t u) = (case u of U_name v \<Rightarrow> v | _ \<Rightarrow> tool_name t)"
  by (cases u) auto

lemma rename_allowed_allowed:
  "set (opt_or (srv_allowedTools (rename_allowed old new s)) []) =
     (\<lambda>t. if t = old then new else t) ` set (opt_or (srv_allowedTools s) [])"
  by (cases "srv_allowedTools s") (auto simp: rename_allowed_def opt_or_def)

interpretation tl: rename_refs tool_name "\<lambda>t n. set_tool_field t (U_name n)"
  "\<lambda>s. set (opt_or (srv_allowedTools s) [])"
  "\<lambda>f s. s\<lparr>srv_allowedTools := map_option (map f) (srv_allowedTools s)\<rparr>"
  by unfold_locales (auto simp: opt_or_def split: option.splits)

lemma rename_allowed_map_refs:
  "rename_allowed old new =
     (\<lambda>s. s\<lparr>srv_allowedTools :=
        map_option (map (\<lambda>t. if t = old then new else t)) (srv_allowedTools s)\<rparr>)"
  by (rule ext) (auto simp: rename_allowed_def split: option.split)

lemma update_other_names:
  assumes "\<And>v. u \<noteq> U_name v" "i < length ts"
  shows "tool_name ` set (ts[i := set_tool_field (ts ! i) u]) = tool_name ` set ts"
proof -
  have "map tool_name (ts[i := set_tool_field (ts ! i) u]) = map tool_name ts"
    using assms by (cases u) (auto simp: map_update list_update_same_conv)
  then show ?thesis by (metis list.set_map)
qed

lemma updateTool_not_name:
  assumes "\<And>v. u \<noteq> U_name v" "updateTool g i u = Inr p"
  shows "i < length (tools_of g)
    \<and> p = no_patch\<lparr>p_tools := Some ((tools_of g)[i := set_tool_field (tools_of g ! i) u])\<rparr>"
  using assms by (cases u) (auto simp: updateTool_def Let_def split: if_splits)

lemma updateTool_rename:
  assumes "updateTool g i (U_name v) = Inr p"
  shows "i < length (tools_of g)
    \<and> gw_tools (apply_patch g p) = Some ((tools_of g)[i := (tools_of g ! i)\<lparr>tool_name := v\<rparr>])
    \<and> opt_or (gw_servers (apply_patch g p)) []
        = map (rename_allowed (tool_name (tools_of g ! i)) v) (opt_or (gw_servers g) [])"
proof -
  have "rename_allowed n n s = s" for n s
    by (auto simp: rename_allowed_def split: option.split)
  then have id: "map (rename_allowed n n) ss = ss" for n ss
    by (simp add: map_idI)
  show ?thesis
    using assms
    by (auto simp: updateTool_def Let_def apply_patch_def over_def no_patch_def opt_or_def id
        split: if_splits option.splits)
qed

lemma updateTool_keeps_refs:
  assumes "tool_refs_ok g" "updateTool g i u = Inr p"
  shows "tool_refs_ok (apply_patch g p)"
proof (cases "\<exists>v. u = U_name v")
  case True
  then obtain v where u: "u = U_name v" by blast
  note r = updateTool_rename [OF assms(2) [unfolded u]]
  let ?old = "tool_name (tools_of g ! i)"
  let ?ss = "opt_or (gw_servers g) []"
  have "set (opt_or (srv_allowedTools s') [])
      \<subseteq> tool_name ` set ((tools_of g)[i := set_tool_field (tools_of g ! i) (U_name v)]) \<union> {}"
    if "s' \<in> set (map (rename_allowed ?old v) ?ss)" for s'
    by (rule tl.rename_keeps_resolved)
       (use r assms(1) that in \<open>auto simp: tool_refs_ok_def rename_allowed_map_refs\<close>)
  with r show ?thesis by (auto simp: tool_refs_ok_def opt_or_def)
next
  case False
  then have nn: "\<And>v. u \<noteq> U_name v" by blast
  note r = updateTool_not_name [OF nn assms(2)]
  with assms(1) show ?thesis
    using update_other_names [OF nn, of i "tools_of g"]
    by (auto simp: tool_refs_ok_def apply_patch_def over_def no_patch_def opt_or_def)
qed

section \<open>The header editor keeps its two views in step\<close>

text \<open>\<open>headersOrder\<close> lists exactly the keys of \<open>headers\<close>, each once.\<close>

definition headers_ok :: "tool_config \<Rightarrow> bool" where
  "headers_ok t \<longleftrightarrow> wf_obj (headers_of t) \<and> distinct (order_of t)
     \<and> set (order_of t) = set (own_keys (headers_of t))"

lemma set_headers_simps [simp]:
  "headers_of (set_headers t h ord) = h" "order_of (set_headers t h ord) = ord"
  by (auto simp: headers_of_def order_of_def set_headers_def opt_or_def)

lemma new_header_key_fresh: "new_header_key ord \<notin> set ord"
proof -
  let ?k = "case find (\<lambda>h. h \<notin> set ord) commonHeaders of Some h \<Rightarrow> h | None \<Rightarrow> ''Content-Type''"
  show ?thesis
    using fresh_count_fresh [of "''X-Header-''" ord 1]
    unfolding new_header_key_def Let_def by (cases "?k \<in> set ord") auto
qed

lemma header_add_ok: "headers_ok t \<Longrightarrow> headers_ok (header_add t)"
  using new_header_key_fresh [of "order_of t"]
  by (simp add: headers_ok_def header_add_def Let_def wf_obj_set ob.keys_set)

lemma header_remove_ok:
  assumes "headers_ok t" "i < length (order_of t)"
  shows "headers_ok (header_remove t i)"
  using assms
  by (auto simp: headers_ok_def header_remove_def Let_def obj_laws ob.keys_del order_key_def
      distinct_splice1 set_splice1_distinct)

lemma header_value_ok:
  assumes "headers_ok t" "i < length (order_of t)" "header_update t i HValue v = Inr t'"
  shows "headers_ok t'"
proof -
  let ?k = "order_of t ! i"
  from assms(2,3) have t': "t' = set_headers t (obj_set (headers_of t) ?k v) (order_of t)"
    by (simp add: header_update_def Let_def order_key_def)
  from assms(1,2) have "?k \<in> set (own_keys (headers_of t))"
    unfolding headers_ok_def using nth_mem by metis
  then have "set (own_keys (obj_set (headers_of t) ?k v)) = set (own_keys (headers_of t))"
    by (simp add: ob.keys_set insert_absorb)
  with assms(1) show ?thesis
    by (simp add: headers_ok_def t' wf_obj_set)
qed

lemma set_list_update_distinct:
  assumes "distinct xs" "i < length xs"
  shows "set (xs[i := y]) = insert y (set xs - {xs ! i})"
  using assms by (rule set_update_distinct)

lemma header_key_ok:
  assumes "headers_ok t" "header_update t i HKey k = Inr t'"
    and "k \<notin> set (order_of t) \<or> order_of t ! i = k"
  shows "headers_ok t'"
proof (cases "order_of t ! i = k")
  case True
  with assms show ?thesis
    by (auto simp: headers_ok_def header_update_def Let_def split: if_splits)
next
  case False
  let ?old = "order_of t ! i"
  from False assms(2) obtain v where i: "i < length (order_of t)"
    and t': "t' = set_headers t (obj_delete (obj_set (headers_of t) k v) ?old) ((order_of t)[i := k])"
    by (auto simp: header_update_def Let_def split: if_splits option.splits)
  from False assms(3) have k: "k \<notin> set (order_of t)" by simp
  from assms(1) have d: "distinct (order_of t)"
    and s: "set (order_of t) = set (own_keys (headers_of t))" and w: "wf_obj (headers_of t)"
    by (auto simp: headers_ok_def)
  have "set ((order_of t)[i := k]) = insert k (set (order_of t) - {?old})"
    using d i by (rule set_list_update_distinct)
  moreover have "distinct ((order_of t)[i := k])"
    using d k by (simp add: distinct_list_update)
  ultimately show ?thesis
    using s w False
    by (simp add: headers_ok_def t' ob.keys_rename ob.invar_rename)
qed


text \<open>A session in the header editor: a list of edits of one tool.\<close>

datatype header_edit = Add | Remove nat | SetKey nat string | SetValue nat string

fun header_edit_step :: "tool_config \<Rightarrow> header_edit \<Rightarrow> tool_config result" where
  "header_edit_step t Add = Inr (header_add t)"
| "header_edit_step t (Remove i) = Inr (header_remove t i)"
| "header_edit_step t (SetKey i k) = header_update t i HKey k"
| "header_edit_step t (SetValue i v) = header_update t i HValue v"

fun header_edits :: "tool_config \<Rightarrow> header_edit list \<Rightarrow> tool_config result" where
  "header_edits t [] = Inr t"
| "header_edits t (e # es) =
     (case header_edit_step t e of Inl x \<Rightarrow> Inl x | Inr t' \<Rightarrow> header_edits t' es)"

text \<open>Rows that exist, and keys that no other row has.\<close>

fun edit_fits :: "tool_config \<Rightarrow> header_edit \<Rightarrow> bool" where
  "edit_fits t Add = True"
| "edit_fits t (Remove i) = (i < length (order_of t))"
| "edit_fits t (SetKey i k) =
     (i < length (order_of t) \<and> (k \<notin> set (order_of t) \<or> order_of t ! i = k))"
| "edit_fits t (SetValue i v) = (i < length (order_of t))"

fun edits_fit :: "tool_config \<Rightarrow> header_edit list \<Rightarrow> bool" where
  "edits_fit t [] = True"
| "edits_fit t (e # es) =
     (edit_fits t e \<and> (case header_edit_step t e of Inl x \<Rightarrow> True | Inr t' \<Rightarrow> edits_fit t' es))"

lemma header_edit_step_ok:
  "headers_ok t \<Longrightarrow> edit_fits t e \<Longrightarrow> header_edit_step t e = Inr t' \<Longrightarrow> headers_ok t'"
  by (cases e) (auto intro: header_add_ok header_remove_ok header_value_ok header_key_ok)

lemma header_edit_step_defined:
  assumes "headers_ok t" "edit_fits t e"
  shows "\<exists>t'. header_edit_step t e = Inr t'"
proof (cases e)
  case (SetKey i k)
  with assms have "order_of t ! i \<in> set (own_keys (headers_of t))"
    unfolding headers_ok_def using nth_mem by (metis edit_fits.simps(3))
  then have "\<exists>v. obj_get (headers_of t) (order_of t ! i) = Some v"
    by (auto simp: set_own_keys)
  with SetKey assms show ?thesis by (auto simp: header_update_def Let_def)
qed (auto simp: header_update_def Let_def)

lemma header_edits_ok:
  "headers_ok t \<Longrightarrow> edits_fit t es \<Longrightarrow> \<exists>t'. header_edits t es = Inr t' \<and> headers_ok t'"
proof (induction es arbitrary: t)
  case Nil
  then show ?case by simp
next
  case (Cons e es)
  then obtain t' where step: "header_edit_step t e = Inr t'"
    using header_edit_step_defined by (metis edits_fit.simps(2))
  with Cons.prems have "headers_ok t'" "edits_fit t' es"
    using header_edit_step_ok by auto
  with Cons.IH step show ?case by simp
qed

section \<open>Nested properties\<close>

lemma it_properties_with_properties [simp]: "it_properties (with_properties c props) = Some props"
  by (cases c) auto

lemma current_properties_put [simp]: "current_properties (put_properties a props) = props"
  by (simp add: current_properties_def currentItems_def put_properties_def opt_or_def)

lemma newPropertyName_in_use:
  "newPropertyName a = ''property'' @ nat_str (Suc (length (current_properties a)))"
  by (simp add: newPropertyName_def length_own_keys)

section \<open>Properties of the tool editor\<close>

text \<open>
  Property C14. Editing a tool never breaks the servers' \<open>allowedTools\<close>: if every allowed tool
  of every server names a tool before \<open>updateTool\<close>, then it does after the change is merged,
  whatever field was edited (a rename rewrites the references).
\<close>

theorem tool_edit_keeps_references:
  assumes "tool_refs_ok g" and "updateTool g i u = Inr p"
  shows "tool_refs_ok (apply_patch g p)"
  using assms by (rule updateTool_keeps_refs)

theorem tool_edit_keeps_references_witness:
  "let g = (defaultConfig [])\<lparr>
        gw_tools := Some [blank_tool\<lparr>tool_name := ''get''\<rparr>, blank_tool\<lparr>tool_name := ''put''\<rparr>],
        gw_servers := Some [\<lparr>srv_name = ''s'', srv_description = [],
          srv_allowedTools = Some [''put'', ''get''], srv_config = None\<rparr>]\<rparr>;
      g' = (case updateTool g 0 (U_name ''fetch'') of Inr p \<Rightarrow> apply_patch g p | Inl _ \<Rightarrow> g)
   in tool_refs_ok g' \<and> map srv_allowedTools (the (gw_servers g')) = [Some [''put'', ''fetch'']]"
proof -
  let ?g = "(defaultConfig [])\<lparr>
        gw_tools := Some [blank_tool\<lparr>tool_name := ''get''\<rparr>, blank_tool\<lparr>tool_name := ''put''\<rparr>],
        gw_servers := Some [\<lparr>srv_name = ''s'', srv_description = [],
          srv_allowedTools = Some [''put'', ''get''], srv_config = None\<rparr>]\<rparr>"
  have ok: "tool_refs_ok ?g"
    by (simp add: tool_refs_ok_def opt_or_def)
  obtain p where p: "updateTool ?g 0 (U_name ''fetch'') = Inr p"
    by (simp add: updateTool_def Let_def opt_or_def blank_tool_def)
  have "map srv_allowedTools (the (gw_servers (apply_patch ?g p))) = [Some [''put'', ''fetch'']]"
    using p by (auto simp: updateTool_def Let_def opt_or_def blank_tool_def no_patch_def
        apply_patch_def over_def rename_allowed_def)
  then show ?thesis using tool_edit_keeps_references [OF ok p] p by (simp add: Let_def)
qed

text \<open>
  Property C21. The header editor's two views stay in step: starting from a tool whose
  \<open>headersOrder\<close> lists exactly the keys of \<open>headers\<close>, each once, every session of edits of
  existing rows whose key changes go to keys no other row has succeeds (no edit fails) and
  ends in such a tool again.
\<close>

theorem header_session_keeps_views_in_step:
  assumes "headers_ok t" and "edits_fit t es"
  shows "\<exists>t'. header_edits t es = Inr t' \<and> headers_ok t'"
  using assms by (rule header_edits_ok)

theorem header_session_keeps_views_in_step_witness:
  "\<exists>t'. header_edits blank_tool [Add, SetValue 1 ''Bearer x'', SetKey 0 ''Host'', Add, Remove 1]
     = Inr t' \<and> headers_ok t'"
proof -
  have "headers_ok blank_tool" by code_simp
  moreover have "edits_fit blank_tool
      [Add, SetValue 1 ''Bearer x'', SetKey 0 ''Host'', Add, Remove 1]" by code_simp
  ultimately show ?thesis by (rule header_session_keeps_views_in_step)
qed

text \<open>
  \<open>addHeader\<close> adds exactly one row with a key no row has and an empty value, keeps
  every header already there, and touches no other tool.
\<close>

theorem addHeader_adds_one_fresh_row:
  assumes "addHeader g ti = Inr p" and "headers_ok (tools_of g ! ti)"
  shows "\<exists>k t'. p = no_patch\<lparr>p_tools := Some ((tools_of g)[ti := t'])\<rparr>
    \<and> k \<notin> set (order_of (tools_of g ! ti))
    \<and> order_of t' = order_of (tools_of g ! ti) @ [k]
    \<and> obj_get (headers_of t') = (obj_get (headers_of (tools_of g ! ti)))(k \<mapsto> [])"
proof (intro exI conjI)
  let ?t = "tools_of g ! ti"
  let ?k = "new_header_key (order_of ?t)"
  show "p = no_patch\<lparr>p_tools := Some ((tools_of g)[ti := header_add ?t])\<rparr>"
    using assms(1) by (auto simp: addHeader_def replace_tool_def Let_def split: if_splits)
  show "?k \<notin> set (order_of ?t)" by (rule new_header_key_fresh)
  show "order_of (header_add ?t) = order_of ?t @ [?k]"
    and "obj_get (headers_of (header_add ?t)) = (obj_get (headers_of ?t))(?k \<mapsto> [])"
    by (simp_all add: header_add_def Let_def obj_get_set)
qed

theorem addHeader_adds_one_fresh_row_witness:
  "let g = (defaultConfig [])\<lparr>gw_tools := Some [blank_tool]\<rparr> in
   \<exists>p k t'. addHeader g 0 = Inr p
    \<and> p = no_patch\<lparr>p_tools := Some ((tools_of g)[0 := t'])\<rparr>
    \<and> order_of t' = [''Content-Type'', k] \<and> k \<noteq> ''Content-Type''"
proof -
  let ?g = "(defaultConfig [])\<lparr>gw_tools := Some [blank_tool]\<rparr>"
  have t: "tools_of ?g ! 0 = blank_tool" by (simp add: opt_or_def)
  have ord: "order_of blank_tool = [''Content-Type'']"
    by (simp add: order_of_def blank_tool_def opt_or_def)
  have ok: "headers_ok (tools_of ?g ! 0)" unfolding t by code_simp
  obtain p where p: "addHeader ?g 0 = Inr p"
    by (simp add: addHeader_def replace_tool_def Let_def opt_or_def)
  from addHeader_adds_one_fresh_row [OF p ok] p show ?thesis
    unfolding Let_def t ord by auto
qed

text \<open>
  A finding: renaming a header row to a key that another row already has leaves two
  rows with that key and loses the other row's value. The configuration passed on has one
  header where the editor shows two.
\<close>

theorem header_rename_collision_loses_value:
  assumes "headers_ok t" and "i < length (order_of t)" and "j < length (order_of t)" and "i \<noteq> j"
    and "header_update t i HKey (order_of t ! j) = Inr t'"
  shows "\<not> distinct (order_of t')
    \<and> obj_get (headers_of t') (order_of t ! j) = obj_get (headers_of t) (order_of t ! i)"
proof (rule conjI)
  let ?old = "order_of t ! i" and ?new = "order_of t ! j"
  from assms(1-4) have ne: "?old \<noteq> ?new" by (auto simp: headers_ok_def nth_eq_iff_index_eq)
  with assms(2,5) obtain v where v: "obj_get (headers_of t) ?old = Some v"
    and t': "t' = set_headers t (obj_delete (obj_set (headers_of t) ?new v) ?old)
                    ((order_of t)[i := ?new])"
    by (auto simp: header_update_def Let_def split: option.splits)
  have "(order_of t)[i := ?new] ! i = (order_of t)[i := ?new] ! j"
    using assms(2-4) by simp
  then show "\<not> distinct (order_of t')"
    using assms(2-4) unfolding t' set_headers_simps
    by (metis distinct_conv_nth length_list_update)
  show "obj_get (headers_of t') ?new = obj_get (headers_of t) ?old"
    using ne v by (simp add: t' obj_laws)
qed

theorem header_rename_collision_loses_value_witness:
  "let t = blank_tool\<lparr>tool_headers := Some [(''A'', ''1''), (''B'', ''2'')],
                      tool_headersOrder := Some [''A'', ''B'']\<rparr>
   in \<exists>t'. header_update t 0 HKey ''B'' = Inr t' \<and> \<not> distinct (order_of t')
        \<and> obj_get (headers_of t') ''B'' = Some ''1''"
proof -
  let ?t = "blank_tool\<lparr>tool_headers := Some [(''A'', ''1''), (''B'', ''2'')],
                      tool_headersOrder := Some [''A'', ''B'']\<rparr>"
  have ord: "order_of ?t = [''A'', ''B'']" and hd: "headers_of ?t = [(''A'', ''1''), (''B'', ''2'')]"
    by (simp_all add: order_of_def headers_of_def opt_or_def)
  have ok: "headers_ok ?t" by code_simp
  obtain t' where t': "header_update ?t 0 HKey (order_of ?t ! 1) = Inr t'"
    unfolding header_update_def Let_def ord hd by (simp add: obj_get_def)
  have "0 < length (order_of ?t)" "1 < length (order_of ?t)" "(0::nat) \<noteq> 1"
    by (simp_all add: ord)
  from header_rename_collision_loses_value [OF ok this t'] t' show ?thesis
    unfolding Let_def ord hd by (auto simp: obj_get_def)
qed

text \<open>
  A finding: the name offered for a new schema property is the number of properties
  plus one, not a fresh name. After two properties were added and the first removed, adding
  another resets the remaining one to an empty string property.
\<close>

theorem add_property_after_remove_resets:
  assumes "current_properties a = [(''property1'', c1), (''property2'', c2)]"
  shows "current_properties (arg_add_property (arg_remove_property ''property1'' a))
    = [(''property2'', new_property)]"
proof -
  have "nat_str (Suc (Suc 0)) = ''2''" by code_simp
  with assms show ?thesis
    by (simp add: arg_add_property_def arg_remove_property_def obj_delete_def newPropertyName_in_use)
qed

theorem add_property_after_remove_resets_witness:
  "let a = \<lparr>arg_name = ''q'', arg_position = ''body'', arg_required = False,
            arg_type = ''object'', arg_description = [], arg_default = [], arg_items = None\<rparr>;
       b = arg_property_type ''property2'' new_property ''number''
             (arg_add_property (arg_add_property a))
   in map (pr_type \<circ> snd) (current_properties b) = [''string'', ''number'']
      \<and> map (pr_type \<circ> snd) (current_properties
            (arg_add_property (arg_remove_property ''property1'' b))) = [''string'']"
proof -
  let ?a = "\<lparr>arg_name = ''q'', arg_position = ''body'', arg_required = False,
            arg_type = ''object'', arg_description = [], arg_default = [], arg_items = None\<rparr>"
  let ?b = "arg_property_type ''property2'' new_property ''number''
             (arg_add_property (arg_add_property ?a))"
  have b: "current_properties ?b = [(''property1'', new_property),
      (''property2'', property_with_type new_property ''number'')]" by code_simp
  then have "current_properties (arg_add_property (arg_remove_property ''property1'' ?b))
      = [(''property2'', new_property)]" by (rule add_property_after_remove_resets)
  with b show ?thesis by (simp add: Let_def new_property_def)
qed

text \<open>
  Property C23. The search for a free header name ends: the source's \<open>while\<close> loop, run as it is written from count
  1, stops after at most as many rounds as there are headers, and the new key is built from the count
  it stops with.
\<close>

theorem header_key_loop_terminates:
  "\<exists>count. while_option (\<lambda>n. ''X-Header-'' @ nat_str n \<in> set headersOrder) Suc 1 = Some count
     \<and> count \<le> 1 + length headersOrder
     \<and> new_header_key headersOrder =
        (case find (\<lambda>h. h \<notin> set headersOrder) commonHeaders of
           Some h \<Rightarrow> h
         | None \<Rightarrow> if ''Content-Type'' \<in> set headersOrder then ''X-Header-'' @ nat_str count else ''Content-Type'')"
proof (intro exI conjI)
  show "while_option (\<lambda>n. ''X-Header-'' @ nat_str n \<in> set headersOrder) Suc 1
      = Some (fresh_count ''X-Header-'' headersOrder 1)" by (rule fresh_count_while)
  show "fresh_count ''X-Header-'' headersOrder 1 \<le> 1 + length headersOrder" by (rule fresh_count_bound)
  show "new_header_key headersOrder =
      (case find (\<lambda>h. h \<notin> set headersOrder) commonHeaders of
         Some h \<Rightarrow> h
       | None \<Rightarrow> if ''Content-Type'' \<in> set headersOrder
           then ''X-Header-'' @ nat_str (fresh_count ''X-Header-'' headersOrder 1) else ''Content-Type'')"
  proof (cases "find (\<lambda>h. h \<notin> set headersOrder) commonHeaders")
    case (Some h)
    then have "h \<notin> set headersOrder" by (auto simp: find_Some_iff)
    with Some show ?thesis by (simp add: new_header_key_def Let_def)
  qed (simp add: new_header_key_def Let_def)
qed

end
