(* ===== verification/Servers_Config.thy ===== *)
theory Servers_Config
  imports Tools_Config
begin

text \<open>
  The editor of HTTP servers, \<open>src/web/src/pages/gateway/components/ServersConfig.tsx\<close>: naming a
  server rewrites the routers that point to it; the chips and buttons edit \<open>allowedTools\<close>.
\<close>

section \<open>Operations\<close>

definition blank_server :: server_config where
  "blank_server = \<lparr>srv_name = [], srv_description = [], srv_allowedTools = Some [],
     srv_config = None\<rparr>"

text \<open>A configuration without \<open>servers\<close> is shown, and edited, as one blank server.\<close>

definition servers_shown :: "gateway \<Rightarrow> server_config list" where
  "servers_shown g = opt_or (gw_servers g) [blank_server]"

datatype server_field = SF_name | SF_description

fun set_server_field :: "server_config \<Rightarrow> server_field \<Rightarrow> string \<Rightarrow> server_config" where
  "set_server_field s SF_name v = s\<lparr>srv_name := v\<rparr>"
| "set_server_field s SF_description v = s\<lparr>srv_description := v\<rparr>"

definition redirect_router :: "string \<Rightarrow> string \<Rightarrow> router_config \<Rightarrow> router_config" where
  "redirect_router oldName value router =
     (if rt_server router = oldName then router\<lparr>rt_server := value\<rparr> else router)"

definition updateServer :: "gateway \<Rightarrow> nat \<Rightarrow> server_field \<Rightarrow> string \<Rightarrow> patch result" where
  "updateServer g i field value =
     (let servers = servers_shown g in
      if i < length servers then
        let oldName = srv_name (servers ! i);
            plain = no_patch\<lparr>p_servers :=
              Some (servers[i := set_server_field (servers ! i) field value])\<rparr>
        in (case gw_routers g of
              Some routers \<Rightarrow>
                if field = SF_name \<and> oldName \<noteq> value
                then Inr (plain\<lparr>p_routers := Some (map (redirect_router oldName value) routers)\<rparr>)
                else Inr plain
            | None \<Rightarrow> Inr plain)
      else Inl (TypeError ''updatedServers[index].name''))"

definition addServer :: "gateway \<Rightarrow> patch" where
  "addServer g = no_patch\<lparr>p_servers := Some (servers_shown g @ [blank_server])\<rparr>"

definition removeServer :: "gateway \<Rightarrow> nat \<Rightarrow> patch" where
  "removeServer g i = no_patch\<lparr>p_servers := Some (filter_index (servers_shown g) i)\<rparr>"

abbreviation allowed_of :: "server_config \<Rightarrow> string list" where
  "allowed_of s \<equiv> opt_or (srv_allowedTools s) []"

text \<open>Closing the chip of an allowed tool. The handler is rendered per server, so it reads the
  server it was rendered for.\<close>

definition close_tool_chip :: "gateway \<Rightarrow> nat \<Rightarrow> nat \<Rightarrow> patch result" where
  "close_tool_chip g i j =
     (let servers = servers_shown g in
      if i < length servers then
        let updated = splice1 (allowed_of (servers ! i)) j in
        Inr (no_patch\<lparr>p_servers :=
          Some (map_index i (\<lambda>s. s\<lparr>srv_allowedTools := Some updated\<rparr>) servers)\<rparr>)
      else Inl (TypeError ''server.allowedTools''))"

text \<open>The tools offered as buttons below the chips.\<close>

definition offered_tools :: "gateway \<Rightarrow> server_config \<Rightarrow> string list" where
  "offered_tools g s =
     map tool_name (filter (\<lambda>t. tool_name t \<noteq> [] \<and> tool_name t \<notin> set (allowed_of s)) (tools_of g))"

definition press_add_tool :: "gateway \<Rightarrow> nat \<Rightarrow> string \<Rightarrow> patch option result" where
  "press_add_tool g i name =
     (let servers = servers_shown g in
      if i < length servers then
        let server = servers ! i in
        if name \<noteq> [] \<and> name \<notin> set (allowed_of server) then
          Inr (Some (no_patch\<lparr>p_servers := Some (map_index i
            (\<lambda>_. server\<lparr>srv_allowedTools := Some (allowed_of server @ [name])\<rparr>) servers)\<rparr>))
        else Inr None
      else Inl (TypeError ''server.allowedTools''))"

definition all_tools_added :: "gateway \<Rightarrow> server_config \<Rightarrow> bool" where
  "all_tools_added g s \<longleftrightarrow> 0 < length (tools_of g)
     \<and> list_all (\<lambda>t. tool_name t \<noteq> [] \<and> tool_name t \<in> set (allowed_of s)) (tools_of g)"

definition no_tools_available :: "gateway \<Rightarrow> bool" where
  "no_tools_available g \<longleftrightarrow> length (tools_of g) = 0"

section \<open>Renaming a server keeps the routers' references closed\<close>

interpretation sv: rename_refs srv_name "\<lambda>s n. set_server_field s SF_name n"
  "\<lambda>r. {rt_server r}" "\<lambda>f r. r\<lparr>rt_server := f (rt_server r)\<rparr>"
  by unfold_locales auto

lemma redirect_router_map_refs:
  "redirect_router old new = (\<lambda>r. r\<lparr>rt_server := (\<lambda>n. if n = old then new else n) (rt_server r)\<rparr>)"
  by (rule ext) (auto simp: redirect_router_def)

lemma redirect_router_same [simp]: "redirect_router n n r = r"
  by (auto simp: redirect_router_def)

lemma updateServer_result:
  assumes "updateServer g i field v = Inr p"
  shows "i < length (servers_shown g)
    \<and> gw_servers (apply_patch g p)
        = Some ((servers_shown g)[i := set_server_field (servers_shown g ! i) field v])
    \<and> gw_mcpServers (apply_patch g p) = gw_mcpServers g
    \<and> routers_of (apply_patch g p)
        = (if field = SF_name
           then map (redirect_router (srv_name (servers_shown g ! i)) v) (routers_of g)
           else routers_of g)"
  using assms
  by (auto simp: updateServer_def Let_def apply_patch_def over_def no_patch_def opt_or_def map_idI
      split: if_splits option.splits)

lemma server_names_shown:
  "server_names g \<subseteq> srv_name ` set (servers_shown g) \<union> ms_name ` set (opt_or (gw_mcpServers g) [])"
  by (auto simp: server_names_def servers_shown_def opt_or_def split: option.splits)

lemma updateServer_keeps_router_refs:
  assumes "router_refs_ok g" "updateServer g i field v = Inr p"
  shows "router_refs_ok (apply_patch g p)"
proof -
  note r = updateServer_result [OF assms(2)]
  let ?ss = "servers_shown g" and ?E = "ms_name ` set (opt_or (gw_mcpServers g) [])"
  have before: "\<forall>u \<in> set (routers_of g). {rt_server u} \<subseteq> srv_name ` set ?ss \<union> ?E"
    using assms(1) server_names_shown [of g] by (auto simp: router_refs_ok_def)
  show ?thesis
  proof (cases field)
    case SF_name
    have "{rt_server u} \<subseteq> srv_name ` set (?ss[i := set_server_field (?ss ! i) SF_name v]) \<union> ?E"
      if "u \<in> set (map (redirect_router (srv_name (?ss ! i)) v) (routers_of g))" for u
      by (rule sv.rename_keeps_resolved)
         (use r before that in \<open>auto simp: redirect_router_map_refs\<close>)
    with r SF_name show ?thesis
      by (auto simp: router_refs_ok_def server_names_def opt_or_def)
  next
    case SF_description
    have "map srv_name (?ss[i := (?ss ! i)\<lparr>srv_description := v\<rparr>]) = map srv_name ?ss"
      using r by (simp add: map_update list_update_same_conv)
    then have "srv_name ` set (?ss[i := (?ss ! i)\<lparr>srv_description := v\<rparr>]) = srv_name ` set ?ss"
      by (metis list.set_map)
    with r SF_description before show ?thesis
      by (auto simp: router_refs_ok_def server_names_def opt_or_def)
  qed
qed

section \<open>Editing the allowed tools\<close>

text \<open>No tool twice, and only tools that exist.\<close>

definition allowed_ok :: "gateway \<Rightarrow> server_config \<Rightarrow> bool" where
  "allowed_ok g s \<longleftrightarrow> distinct (allowed_of s) \<and> set (allowed_of s) \<subseteq> tool_name ` set (tools_of g)"

lemma allowed_ok_blank [simp]: "allowed_ok g blank_server"
  by (simp add: allowed_ok_def blank_server_def opt_or_def)

lemma press_add_tool_server:
  assumes "press_add_tool g i name = Inr (Some p)"
  shows "i < length (servers_shown g) \<and> name \<notin> set (allowed_of (servers_shown g ! i))
    \<and> gw_tools (apply_patch g p) = gw_tools g
    \<and> servers_shown (apply_patch g p) = (servers_shown g)[i := (servers_shown g ! i)
        \<lparr>srv_allowedTools := Some (allowed_of (servers_shown g ! i) @ [name])\<rparr>]"
  using assms
  by (auto simp: press_add_tool_def Let_def apply_patch_def over_def no_patch_def map_index_update
      servers_shown_def [of "gw_servers_update _ _"] opt_or_def servers_shown_def
      split: if_splits)

lemma close_tool_chip_server:
  assumes "close_tool_chip g i j = Inr p"
  shows "i < length (servers_shown g) \<and> gw_tools (apply_patch g p) = gw_tools g
    \<and> servers_shown (apply_patch g p) = (servers_shown g)[i := (servers_shown g ! i)
        \<lparr>srv_allowedTools := Some (splice1 (allowed_of (servers_shown g ! i)) j)\<rparr>]"
  using assms
  by (auto simp: close_tool_chip_def Let_def apply_patch_def over_def no_patch_def map_index_update
      opt_or_def servers_shown_def split: if_splits)

lemma allowed_ok_upd:
  assumes "list_all (allowed_ok g) ss" "i < length ss"
    "distinct ts" "set ts \<subseteq> tool_name ` set (tools_of g)"
  shows "list_all (allowed_ok g) (ss[i := (ss ! i)\<lparr>srv_allowedTools := Some ts\<rparr>])"
  using assms
  by (auto simp: list_all_length nth_list_update allowed_ok_def opt_or_def)

text \<open>The clicks a user can make on the chips and offered buttons of server \<open>i\<close>.\<close>

datatype tool_click = Close nat nat | Press nat string

definition tool_click_step :: "gateway \<Rightarrow> tool_click \<Rightarrow> gateway result" where
  "tool_click_step g c =
     (case c of
        Close i j \<Rightarrow> (case close_tool_chip g i j of Inl e \<Rightarrow> Inl e | Inr p \<Rightarrow> Inr (apply_patch g p))
      | Press i name \<Rightarrow> (case press_add_tool g i name of Inl e \<Rightarrow> Inl e | Inr None \<Rightarrow> Inr g
                         | Inr (Some p) \<Rightarrow> Inr (apply_patch g p)))"

definition click_offered :: "gateway \<Rightarrow> tool_click \<Rightarrow> bool" where
  "click_offered g c =
     (case c of
        Close i j \<Rightarrow> i < length (servers_shown g) \<and> j < length (allowed_of (servers_shown g ! i))
      | Press i name \<Rightarrow> i < length (servers_shown g)
                       \<and> name \<in> set (offered_tools g (servers_shown g ! i)))"

inductive tool_clicks :: "gateway \<Rightarrow> gateway \<Rightarrow> bool" for g0 where
  start: "tool_clicks g0 g0"
| click: "tool_clicks g0 g \<Longrightarrow> click_offered g c \<Longrightarrow> tool_click_step g c = Inr g'
    \<Longrightarrow> tool_clicks g0 g'"

lemma allowed_ok_tools: "gw_tools g' = gw_tools g \<Longrightarrow> allowed_ok g' = allowed_ok g"
  by (rule ext) (simp add: allowed_ok_def)

lemma tool_click_keeps_allowed:
  assumes ok: "list_all (allowed_ok g) (servers_shown g)"
    and off: "click_offered g c" and st: "tool_click_step g c = Inr g'"
  shows "list_all (allowed_ok g') (servers_shown g') \<and> gw_tools g' = gw_tools g"
proof (cases c)
  case (Close i j)
  with st obtain p where p: "close_tool_chip g i j = Inr p" and g': "g' = apply_patch g p"
    by (auto simp: tool_click_step_def split: sum.splits)
  note r = close_tool_chip_server [OF p]
  then have "allowed_ok g (servers_shown g ! i)" using ok by (simp add: list_all_length)
  then have "list_all (allowed_ok g) (servers_shown g')"
    using r ok set_splice1_subset unfolding g' allowed_ok_def [of g "_ ! _"]
    by (metis allowed_ok_upd distinct_splice1 subset_trans)
  with r g' show ?thesis using allowed_ok_tools by metis
next
  case (Press i name)
  from Press off have name: "name \<in> tool_name ` set (tools_of g)"
    by (auto simp: click_offered_def offered_tools_def)
  show ?thesis
  proof (cases "press_add_tool g i name")
    case (Inr po)
    show ?thesis
    proof (cases po)
      case None
      with Inr Press st ok show ?thesis by (simp add: tool_click_step_def)
    next
      case (Some p)
      with Inr Press st have g': "g' = apply_patch g p" by (simp add: tool_click_step_def)
      note r = press_add_tool_server [OF Inr [unfolded Some]]
      then have "allowed_ok g (servers_shown g ! i)" using ok by (simp add: list_all_length)
      then have "list_all (allowed_ok g) (servers_shown g')"
        using r ok name unfolding g'
        by (simp only:) (rule allowed_ok_upd, auto simp: allowed_ok_def)
      with r g' show ?thesis using allowed_ok_tools by metis
    qed
  qed (use Press st in \<open>simp add: tool_click_step_def\<close>)
qed

lemma tool_clicks_keep_allowed:
  assumes "tool_clicks g0 g" "list_all (allowed_ok g0) (servers_shown g0)"
  shows "list_all (allowed_ok g) (servers_shown g) \<and> gw_tools g = gw_tools g0"
  using assms
proof (induction rule: tool_clicks.induct)
  case (click g c g')
  then show ?case using tool_click_keeps_allowed by metis
qed simp

section \<open>Properties of the server editor\<close>

text \<open>
  Property C15. Editing a server never breaks a router: if every router names a server or an
  upstream MCP server, then it does after \<open>updateServer\<close> is merged, because a rename rewrites the
  routers (also for the blank server shown when there is none).
\<close>

theorem server_edit_keeps_references:
  assumes "router_refs_ok g" and "updateServer g i field v = Inr p"
  shows "router_refs_ok (apply_patch g p)"
  using assms by (rule updateServer_keeps_router_refs)

theorem server_edit_keeps_references_witness:
  "let g = (defaultConfig [])\<lparr>gw_servers := Some [blank_server\<lparr>srv_name := ''api''\<rparr>],
        gw_routers := Some [\<lparr>rt_server = ''api'', rt_prefix = ''/a'', rt_ssePrefix = None,
          rt_cors = None, rt_auth = None\<rparr>]\<rparr>
   in \<exists>p. updateServer g 0 SF_name ''core'' = Inr p \<and> router_refs_ok (apply_patch g p)
        \<and> map rt_server (routers_of (apply_patch g p)) = [''core'']"
proof -
  let ?g = "(defaultConfig [])\<lparr>gw_servers := Some [blank_server\<lparr>srv_name := ''api''\<rparr>],
        gw_routers := Some [\<lparr>rt_server = ''api'', rt_prefix = ''/a'', rt_ssePrefix = None,
          rt_cors = None, rt_auth = None\<rparr>]\<rparr>"
  have ok: "router_refs_ok ?g"
    by (simp add: router_refs_ok_def server_names_def opt_or_def)
  obtain p where p: "updateServer ?g 0 SF_name ''core'' = Inr p"
    by (simp add: updateServer_def servers_shown_def Let_def opt_or_def)
  have "map rt_server (routers_of (apply_patch ?g p)) = [''core'']"
    using updateServer_result [OF p]
    by (simp add: servers_shown_def opt_or_def redirect_router_def)
  then show ?thesis using server_edit_keeps_references [OF ok p] p by (auto simp: Let_def)
qed

text \<open>
  Whatever chips are closed and offered tools are added, in any order, no server
  ever lists a tool twice or lists a tool that the configuration does not have.
\<close>

theorem allowed_tools_stay_a_set_of_tools:
  assumes "tool_clicks g0 g" and "list_all (allowed_ok g0) (servers_shown g0)"
  shows "list_all (\<lambda>s. distinct (allowed_of s)
    \<and> set (allowed_of s) \<subseteq> tool_name ` set (tools_of g)) (servers_shown g)"
  using conjunct1 [OF tool_clicks_keep_allowed [OF assms]]
  unfolding allowed_ok_def [abs_def] .

theorem allowed_tools_stay_a_set_of_tools_witness:
  "let g = (defaultConfig [])\<lparr>gw_tools := Some [blank_tool\<lparr>tool_name := ''get''\<rparr>],
        gw_servers := Some [blank_server]\<rparr>
   in \<exists>g'. tool_clicks g g' \<and> allowed_of (servers_shown g' ! 0) = [''get'']
        \<and> list_all (\<lambda>s. distinct (allowed_of s)
            \<and> set (allowed_of s) \<subseteq> tool_name ` set (tools_of g')) (servers_shown g')"
proof -
  let ?g = "(defaultConfig [])\<lparr>gw_tools := Some [blank_tool\<lparr>tool_name := ''get''\<rparr>],
        gw_servers := Some [blank_server]\<rparr>"
  have ok: "list_all (allowed_ok ?g) (servers_shown ?g)"
    by (simp add: servers_shown_def opt_or_def)
  have shown: "servers_shown ?g = [blank_server]" by (simp add: servers_shown_def opt_or_def)
  have off: "click_offered ?g (Press 0 ''get'')"
    unfolding click_offered_def tool_click.case shown
    by (simp add: offered_tools_def blank_server_def opt_or_def)
  obtain p where p: "press_add_tool ?g 0 ''get'' = Inr (Some p)"
    unfolding press_add_tool_def shown by (simp add: Let_def blank_server_def opt_or_def)
  then have st: "tool_click_step ?g (Press 0 ''get'') = Inr (apply_patch ?g p)"
    by (simp add: tool_click_step_def)
  have run: "tool_clicks ?g (apply_patch ?g p)"
    by (rule tool_clicks.click [OF tool_clicks.start off st])
  have "allowed_of (servers_shown (apply_patch ?g p) ! 0) = [''get'']"
    using press_add_tool_server [OF p] unfolding shown
    by (simp add: blank_server_def opt_or_def)
  then show ?thesis
    using run allowed_tools_stay_a_set_of_tools [OF run ok] unfolding Let_def by blast
qed

text \<open>
  A finding: removing a server does not touch the routers, so removing the one
  server that a router names leaves that router naming a server that no longer exists.
\<close>

theorem removeServer_leaves_dangling_router:
  assumes "i < length (servers_shown g)" and "r \<in> set (routers_of g)"
    and "rt_server r = srv_name (servers_shown g ! i)"
    and "distinct (map srv_name (servers_shown g))"
    and "rt_server r \<notin> ms_name ` set (opt_or (gw_mcpServers g) [])"
  shows "\<not> router_refs_ok (apply_patch g (removeServer g i))"
proof -
  let ?ss = "servers_shown g"
  have "map srv_name (splice1 ?ss i) = splice1 (map srv_name ?ss) i"
    by (simp add: splice1_def take_map drop_map)
  with assms(1,3,4) have "rt_server r \<notin> srv_name ` set (splice1 ?ss i)"
    using set_splice1_distinct [of "map srv_name ?ss" i] by (metis Diff_iff length_map list.set_map
        nth_map singletonI)
  with assms(2,5) show ?thesis
    by (auto simp: router_refs_ok_def server_names_def removeServer_def apply_patch_def over_def
        no_patch_def opt_or_def filter_index_splice1 split: option.splits)
qed

theorem removeServer_leaves_dangling_router_witness:
  "let g = (defaultConfig [])\<lparr>gw_servers := Some [blank_server\<lparr>srv_name := ''api''\<rparr>],
        gw_routers := Some [\<lparr>rt_server = ''api'', rt_prefix = ''/a'', rt_ssePrefix = None,
          rt_cors = None, rt_auth = None\<rparr>]\<rparr>
   in router_refs_ok g \<and> \<not> router_refs_ok (apply_patch g (removeServer g 0))"
proof -
  let ?r = "\<lparr>rt_server = ''api'', rt_prefix = ''/a'', rt_ssePrefix = None,
          rt_cors = None, rt_auth = None\<rparr>"
  let ?g = "(defaultConfig [])\<lparr>gw_servers := Some [blank_server\<lparr>srv_name := ''api''\<rparr>],
        gw_routers := Some [?r]\<rparr>"
  have "router_refs_ok ?g" by (simp add: router_refs_ok_def server_names_def opt_or_def)
  moreover have "\<not> router_refs_ok (apply_patch ?g (removeServer ?g 0))"
    by (rule removeServer_leaves_dangling_router [where r = ?r])
       (simp_all add: servers_shown_def opt_or_def defaultConfig_def)
  ultimately show ?thesis by (simp add: Let_def)
qed

end
