(* ===== verification/Mcp_Servers_Config.thy ===== *)
theory Mcp_Servers_Config
  imports Servers_Config
begin

text \<open>
  The editor of upstream MCP servers,
  \<open>src/web/src/pages/gateway/components/MCPServersConfig.tsx\<close>: the command line is edited as one
  text that is cut into a command and its arguments when the field loses the focus; environment
  variables are edited as rows in the enumeration order of the \<open>env\<close> object.
\<close>

section \<open>updateServer\<close>

definition blank_mcp_server :: mcp_server where
  "blank_mcp_server = \<lparr>ms_type = ''stdio'', ms_name = [], ms_command = Some [], ms_args = Some [],
     ms_env = Some [], ms_url = None, ms_policy = ''onDemand'', ms_preinstalled = False\<rparr>"

definition mcp_servers_shown :: "gateway \<Rightarrow> mcp_server list" where
  "mcp_servers_shown g = opt_or (gw_mcpServers g) [blank_mcp_server]"

datatype mcp_update =
    M_name string
  | M_type string
  | M_policy string
  | M_command string
  | M_url string
  | M_preinstalled bool

text \<open>\<open>parts[0] || ''\<close> and \<open>parts.slice(1)\<close> of the trimmed text.\<close>

definition command_of_text :: "string \<Rightarrow> string \<times> string list" where
  "command_of_text v = (let parts = split_ws (trim v) in
     (case parts of [] \<Rightarrow> ([], []) | c # rest \<Rightarrow> (c, rest)))"

fun set_mcp_field :: "mcp_server \<Rightarrow> mcp_update \<Rightarrow> mcp_server" where
  "set_mcp_field s (M_command v) =
     (case command_of_text v of (c, as) \<Rightarrow> s\<lparr>ms_command := Some c, ms_args := Some as\<rparr>)"
| "set_mcp_field s (M_preinstalled b) = s\<lparr>ms_preinstalled := b\<rparr>"
| "set_mcp_field s (M_name v) = s\<lparr>ms_name := v\<rparr>"
| "set_mcp_field s (M_type v) = s\<lparr>ms_type := v\<rparr>"
| "set_mcp_field s (M_policy v) = s\<lparr>ms_policy := v\<rparr>"
| "set_mcp_field s (M_url v) = s\<lparr>ms_url := Some v\<rparr>"

definition mcp_updateServer :: "gateway \<Rightarrow> nat \<Rightarrow> mcp_update \<Rightarrow> patch result" where
  "mcp_updateServer g i u =
     (let servers = mcp_servers_shown g in
      if i < length servers then
        let oldName = ms_name (servers ! i);
            plain = no_patch\<lparr>p_mcpServers := Some (servers[i := set_mcp_field (servers ! i) u])\<rparr>
        in (case u of
              M_name value \<Rightarrow>
                (case gw_routers g of
                   Some routers \<Rightarrow>
                     if oldName \<noteq> value
                     then Inr (plain\<lparr>p_routers := Some (map (redirect_router oldName value) routers)\<rparr>)
                     else Inr plain
                 | None \<Rightarrow> Inr plain)
            | _ \<Rightarrow> Inr plain)
      else Inl (TypeError ''updatedServers[index].name''))"

section \<open>The command line field\<close>

text \<open>The text shown for a server, recomputed whenever the servers change.\<close>

definition text_of_command :: "mcp_server \<Rightarrow> string" where
  "text_of_command s = trim (ostr_or (ms_command s) [] @ '' '' @
     (case ms_args s of None \<Rightarrow> [] | Some as \<Rightarrow> join '' '' as))"

definition initialInputs :: "mcp_server list \<Rightarrow> nat \<Rightarrow> string option" where
  "initialInputs servers i =
     (if i < length servers then Some (text_of_command (servers ! i)) else None)"

definition handleCommandInputChange ::
    "(nat \<Rightarrow> string option) \<Rightarrow> nat \<Rightarrow> string \<Rightarrow> nat \<Rightarrow> string option" where
  "handleCommandInputChange inputs i v = inputs(i := Some v)"

definition handleCommandInputBlur ::
    "gateway \<Rightarrow> (nat \<Rightarrow> string option) \<Rightarrow> nat \<Rightarrow> patch result" where
  "handleCommandInputBlur g inputs i =
     (case inputs i of
        Some v \<Rightarrow> mcp_updateServer g i (M_command v)
      | None \<Rightarrow> Inl (TypeError ''commandValue.trim''))"

section \<open>Environment variables\<close>

definition env_of :: "mcp_server \<Rightarrow> string obj" where
  "env_of s = opt_or (ms_env s) []"

datatype env_field = EKey | EValue

text \<open>\<open>env[key] = value\<close> on one server's environment; a row is a position in
  \<open>Object.keys(env)\<close>.\<close>

definition env_update :: "string obj \<Rightarrow> nat \<Rightarrow> env_field \<Rightarrow> string \<Rightarrow> string obj result" where
  "env_update env i field value =
     (let envKeys = own_keys env in
      case field of
        EKey \<Rightarrow>
          if i < length envKeys then
            let key = envKeys ! i in
            if key \<noteq> value then
              (case obj_get env key of
                 Some v \<Rightarrow> Inr (obj_delete (obj_set env value v) key)
               | None \<Rightarrow> Inl (IllTyped ''env[value] = undefined''))
            else Inr env
          else Inl (IllTyped ''envKeys[envIndex]'')
      | EValue \<Rightarrow> Inr (obj_set env (order_key envKeys i) value))"

definition commonEnvVars :: "string list" where
  "commonEnvVars = [''AUTH_TOKEN'', ''OPENAI_API_KEY'', ''ANTHROPIC_API_KEY'', ''GITHUB_TOKEN'',
     ''MODEL_NAME'']"

definition new_env_key :: "string list \<Rightarrow> string" where
  "new_env_key existingKeys =
     (let newKey = (case find (\<lambda>v. v \<notin> set existingKeys) commonEnvVars of
                      Some v \<Rightarrow> v | None \<Rightarrow> ''API_KEY'')
      in if newKey \<in> set existingKeys
         then ''ENV_VAR_'' @ nat_str (fresh_count ''ENV_VAR_'' existingKeys 1)
         else newKey)"

definition env_add :: "string obj \<Rightarrow> string obj" where
  "env_add env = obj_set env (new_env_key (own_keys env)) []"

definition env_remove :: "string obj \<Rightarrow> nat \<Rightarrow> string obj" where
  "env_remove env i = obj_delete env (order_key (own_keys env) i)"

text \<open>Spreading \<open>server.env\<close> of a missing server reads a field of \<open>undefined\<close>.\<close>

definition with_env :: "gateway \<Rightarrow> nat \<Rightarrow> (string obj \<Rightarrow> string obj result) \<Rightarrow> patch result" where
  "with_env g si f =
     (let servers = mcp_servers_shown g in
      if si < length servers then
        (case f (env_of (servers ! si)) of
           Inl e \<Rightarrow> Inl e
         | Inr env \<Rightarrow> Inr (no_patch\<lparr>p_mcpServers :=
             Some (servers[si := (servers ! si)\<lparr>ms_env := Some env\<rparr>])\<rparr>))
      else Inl (TypeError ''server.env''))"

definition updateEnvVariable :: "gateway \<Rightarrow> nat \<Rightarrow> nat \<Rightarrow> env_field \<Rightarrow> string \<Rightarrow> patch result" where
  "updateEnvVariable g si ei field value = with_env g si (\<lambda>env. env_update env ei field value)"

definition addEnvVariable :: "gateway \<Rightarrow> nat \<Rightarrow> patch result" where
  "addEnvVariable g si = with_env g si (\<lambda>env. Inr (env_add env))"

definition removeEnvVariable :: "gateway \<Rightarrow> nat \<Rightarrow> nat \<Rightarrow> patch result" where
  "removeEnvVariable g si ei = with_env g si (\<lambda>env. Inr (env_remove env ei))"

section \<open>Adding and removing servers; what is shown\<close>

definition mcp_addServer :: "gateway \<Rightarrow> patch" where
  "mcp_addServer g = no_patch\<lparr>p_mcpServers := Some (mcp_servers_shown g @ [blank_mcp_server])\<rparr>"

definition mcp_removeServer :: "gateway \<Rightarrow> nat \<Rightarrow> patch" where
  "mcp_removeServer g i = no_patch\<lparr>p_mcpServers := Some (filter_index (mcp_servers_shown g) i)\<rparr>"

definition shows_command :: "mcp_server \<Rightarrow> bool" where
  "shows_command s \<longleftrightarrow> ms_type s = ''stdio'' \<or> ms_type s = []"

definition shows_url :: "mcp_server \<Rightarrow> bool" where
  "shows_url s \<longleftrightarrow> ms_type s = ''sse'' \<or> ms_type s = ''streamable-http''"

section \<open>Renaming keeps the routers' references closed\<close>

interpretation mc: rename_refs ms_name "\<lambda>s n. set_mcp_field s (M_name n)"
  "\<lambda>r. {rt_server r}" "\<lambda>f r. r\<lparr>rt_server := f (rt_server r)\<rparr>"
  by unfold_locales auto

lemma set_mcp_field_name:
  "ms_name (set_mcp_field s u) = (case u of M_name v \<Rightarrow> v | _ \<Rightarrow> ms_name s)"
  by (cases u) (auto split: prod.split)

lemma mcp_updateServer_result:
  assumes "mcp_updateServer g i u = Inr p"
  shows "i < length (mcp_servers_shown g)
    \<and> gw_mcpServers (apply_patch g p)
        = Some ((mcp_servers_shown g)[i := set_mcp_field (mcp_servers_shown g ! i) u])
    \<and> gw_servers (apply_patch g p) = gw_servers g
    \<and> routers_of (apply_patch g p)
        = (case u of
             M_name v \<Rightarrow> map (redirect_router (ms_name (mcp_servers_shown g ! i)) v) (routers_of g)
           | _ \<Rightarrow> routers_of g)"
proof (cases u)
  case (M_name v)
  with assms show ?thesis
    by (auto simp: mcp_updateServer_def Let_def apply_patch_def over_def no_patch_def opt_or_def
        map_idI split: if_splits option.splits)
qed (use assms in \<open>auto simp: mcp_updateServer_def Let_def apply_patch_def over_def no_patch_def
  opt_or_def split: if_splits\<close>)

lemma mcp_names_shown:
  "server_names g
    \<subseteq> ms_name ` set (mcp_servers_shown g) \<union> srv_name ` set (opt_or (gw_servers g) [])"
  by (auto simp: server_names_def mcp_servers_shown_def opt_or_def split: option.splits)

lemma mcp_update_keeps_router_refs:
  assumes "router_refs_ok g" "mcp_updateServer g i u = Inr p"
  shows "router_refs_ok (apply_patch g p)"
proof -
  note r = mcp_updateServer_result [OF assms(2)]
  let ?ss = "mcp_servers_shown g" and ?E = "srv_name ` set (opt_or (gw_servers g) [])"
  have before: "\<forall>q \<in> set (routers_of g). {rt_server q} \<subseteq> ms_name ` set ?ss \<union> ?E"
    using assms(1) mcp_names_shown [of g] by (auto simp: router_refs_ok_def)
  show ?thesis
  proof (cases "\<exists>v. u = M_name v")
    case True
    then obtain v where u: "u = M_name v" by blast
    have "{rt_server q} \<subseteq> ms_name ` set (?ss[i := set_mcp_field (?ss ! i) (M_name v)]) \<union> ?E"
      if "q \<in> set (map (redirect_router (ms_name (?ss ! i)) v) (routers_of g))" for q
      by (rule mc.rename_keeps_resolved)
         (use r before that in \<open>auto simp: redirect_router_map_refs\<close>)
    moreover have "routers_of (apply_patch g p)
        = map (redirect_router (ms_name (?ss ! i)) v) (routers_of g)"
      using r u by simp
    moreover have "server_names (apply_patch g p)
        = ?E \<union> ms_name ` set (?ss[i := set_mcp_field (?ss ! i) (M_name v)])"
      using r u by (simp add: server_names_def opt_or_def)
    ultimately show ?thesis unfolding router_refs_ok_def by auto
  next
    case False
    then have same: "ms_name (set_mcp_field s u) = ms_name s" for s
      by (simp add: set_mcp_field_name split: mcp_update.splits)
    have "map ms_name (?ss[i := set_mcp_field (?ss ! i) u]) = map ms_name ?ss"
      using r by (simp add: map_update list_update_same_conv same)
    then have names: "ms_name ` set (?ss[i := set_mcp_field (?ss ! i) u]) = ms_name ` set ?ss"
      by (metis list.set_map)
    have routers: "routers_of (apply_patch g p) = routers_of g"
      using r False by (cases u) auto
    have "server_names (apply_patch g p) = ?E \<union> ms_name ` set ?ss"
      using r names by (simp add: server_names_def opt_or_def)
    with before routers show ?thesis unfolding router_refs_ok_def by auto
  qed
qed

section \<open>The command line round trip\<close>

lemma command_of_text_words:
  "ws \<noteq> [] \<Longrightarrow> list_all is_word ws \<Longrightarrow> command_of_text (join '' '' ws) = (hd ws, tl ws)"
  by (cases ws) (simp_all add: command_of_text_def trim_trimmed trimmed_join_words split_join_words)

lemma text_of_command_words:
  assumes "ms_command s = Some c" "ms_args s = Some as" "list_all is_word (c # as)"
  shows "text_of_command s = join '' '' (c # as)"
proof (cases as)
  case Nil
  have "trim (c @ '' '') = c"
  proof -
    have "dropWhile js_ws (rev (c @ '' '')) = rev c"
      using assms(3) by (cases "rev c") (auto simp: is_word_def list_all_iff
          dest: arg_cong [of _ _ set])
    then show ?thesis
      using assms(3) trim_trimmed [OF trimmed_word, of c]
      unfolding trim_def by (cases c) (auto simp: is_word_def)
  qed
  with Nil assms show ?thesis
    by (simp add: text_of_command_def ostr_or_def str_or_def is_word_def)
next
  case (Cons a as')
  with assms have "text_of_command s = trim (join '' '' (c # as))"
    by (simp add: text_of_command_def ostr_or_def str_or_def is_word_def)
  with assms show ?thesis by (simp add: trim_trimmed trimmed_join_words)
qed

lemma command_of_text_cases:
  "command_of_text v = ([], []) \<and> trim v = []
    \<or> (\<exists>c as. command_of_text v = (c, as) \<and> list_all is_word (c # as))"
proof (cases "trim v = []")
  case True
  then show ?thesis by (simp add: command_of_text_def split_ws.simps)
next
  case False
  then have "list_all is_word (split_ws (trim v))" by (simp add: split_ws_words trimmed_trim)
  then show ?thesis
    by (cases "split_ws (trim v)") (auto simp: command_of_text_def)
qed

section \<open>Environment rows\<close>

lemma new_env_key_fresh: "new_env_key ks \<notin> set ks"
proof -
  let ?k = "case find (\<lambda>v. v \<notin> set ks) commonEnvVars of Some v \<Rightarrow> v | None \<Rightarrow> ''API_KEY''"
  show ?thesis
    using fresh_count_fresh [of "''ENV_VAR_''" ks 1]
    unfolding new_env_key_def Let_def by (cases "?k \<in> set ks") auto
qed

lemma env_rename_result:
  assumes "env_update env i EKey v = Inr env'" "own_keys env ! i \<noteq> v"
  shows "i < length (own_keys env) \<and> (\<exists>x. obj_get env (own_keys env ! i) = Some x
    \<and> env' = obj_delete (obj_set env v x) (own_keys env ! i))"
  using assms by (auto simp: env_update_def Let_def split: if_splits option.splits)

lemma obj_set_fresh: "k \<notin> fst ` set m \<Longrightarrow> obj_set m k v = m @ [(k, v)]"
  by (induction m k v rule: obj_set.induct) auto

lemma own_entries_no_index:
  assumes "\<And>k. k \<in> fst ` set m \<Longrightarrow> \<not> is_array_index k"
  shows "own_entries m = m"
proof -
  have "filter (\<lambda>e. is_array_index (fst e)) m = []" "filter (\<lambda>e. \<not> is_array_index (fst e)) m = m"
    using assms by (auto simp: filter_empty_conv filter_id_conv)
  then show ?thesis by (simp add: own_entries_def)
qed

lemma filter_neq_splice1:
  assumes "distinct xs" "i < length xs"
  shows "filter (\<lambda>x. x \<noteq> xs ! i) xs = splice1 xs i"
proof -
  from assms have eq: "xs = take i xs @ xs ! i # drop (Suc i) xs" by (simp add: id_take_nth_drop)
  with assms(1) have d: "distinct (take i xs @ xs ! i # drop (Suc i) xs)" by simp
  then have "filter (\<lambda>x. x \<noteq> xs ! i) (take i xs) = take i xs"
    "filter (\<lambda>x. x \<noteq> xs ! i) (drop (Suc i) xs) = drop (Suc i) xs"
    by (auto intro!: filter_True)
  then have "filter (\<lambda>x. x \<noteq> xs ! i) (take i xs @ xs ! i # drop (Suc i) xs)
      = take i xs @ drop (Suc i) xs" by simp
  with eq show ?thesis by (simp add: splice1_def)
qed

text \<open>Where a row goes when its key is changed: to the end.\<close>

lemma env_rename_moves_row:
  assumes "wf_obj env" "\<And>k. k \<in> set (own_keys env) \<Longrightarrow> \<not> is_array_index k"
    and "v \<notin> set (own_keys env)" "\<not> is_array_index v" "env_update env i EKey v = Inr env'"
  shows "i < length (own_keys env) \<and> own_keys env' = splice1 (own_keys env) i @ [v]"
proof -
  have keys: "own_keys env = map fst env"
    using assms(2) by (simp add: own_keys_def own_entries_no_index set_own_keys)
  let ?k = "map fst env ! i"
  have i: "i < length env"
    using assms(5) by (auto simp: env_update_def Let_def length_own_keys split: if_splits)
  then have ne: "?k \<noteq> v" using assms(3) keys by (metis length_map nth_mem)
  from env_rename_result [OF assms(5)] ne keys obtain x
    where env': "env' = obj_delete (env @ [(v, x)]) ?k"
    using assms(3) by (auto simp: obj_set_fresh keys)
  then have "map fst env' = filter (\<lambda>k. k \<noteq> ?k) (map fst env) @ [v]"
    using ne by (simp add: obj_delete_def filter_map comp_def)
  also have "\<dots> = splice1 (map fst env) i @ [v]"
    using assms(1) i filter_neq_splice1 [of "map fst env" i] by (simp add: wf_obj_def)
  finally have m: "map fst env' = splice1 (map fst env) i @ [v]" .
  have "fst ` set env' = set (map fst env')" by simp
  also have "\<dots> \<subseteq> insert v (set (own_keys env))"
    using m keys set_splice1_subset by fastforce
  finally have "own_entries env' = env'"
    using assms(2,4) by (intro own_entries_no_index) auto
  then show ?thesis using m keys i by (simp add: own_keys_def)
qed

section \<open>Properties of the upstream server editor\<close>

text \<open>
  Editing an upstream MCP server never breaks a router: if every router names a
  server or an upstream MCP server, then it does after \<open>updateServer\<close> is merged.
\<close>

theorem mcp_edit_keeps_references:
  assumes "router_refs_ok g" and "mcp_updateServer g i u = Inr p"
  shows "router_refs_ok (apply_patch g p)"
  using assms by (rule mcp_update_keeps_router_refs)

theorem mcp_edit_keeps_references_witness:
  "let g = (defaultConfig [])\<lparr>gw_mcpServers := Some [blank_mcp_server\<lparr>ms_name := ''fs''\<rparr>],
        gw_routers := Some [\<lparr>rt_server = ''fs'', rt_prefix = ''/a'', rt_ssePrefix = None,
          rt_cors = None, rt_auth = None\<rparr>]\<rparr>
   in \<exists>p. mcp_updateServer g 0 (M_name ''files'') = Inr p \<and> router_refs_ok (apply_patch g p)
        \<and> map rt_server (routers_of (apply_patch g p)) = [''files'']"
proof -
  let ?g = "(defaultConfig [])\<lparr>gw_mcpServers := Some [blank_mcp_server\<lparr>ms_name := ''fs''\<rparr>],
        gw_routers := Some [\<lparr>rt_server = ''fs'', rt_prefix = ''/a'', rt_ssePrefix = None,
          rt_cors = None, rt_auth = None\<rparr>]\<rparr>"
  have ok: "router_refs_ok ?g"
    by (simp add: router_refs_ok_def server_names_def opt_or_def)
  obtain p where p: "mcp_updateServer ?g 0 (M_name ''files'') = Inr p"
    by (simp add: mcp_updateServer_def mcp_servers_shown_def Let_def opt_or_def)
  have "map rt_server (routers_of (apply_patch ?g p)) = [''files'']"
    using mcp_updateServer_result [OF p]
    by (simp add: mcp_servers_shown_def opt_or_def redirect_router_def)
  then show ?thesis using mcp_edit_keeps_references [OF ok p] p by (auto simp: Let_def)
qed

text \<open>
  The command line field is stable: whatever text was committed to a server,
  showing it again and leaving the field without typing commits the same command and arguments.
\<close>

theorem command_field_stable:
  "command_of_text (text_of_command (set_mcp_field s (M_command v))) = command_of_text v"
proof -
  from command_of_text_cases [of v] consider
      "command_of_text v = ([], [])" "trim v = []"
    | c as where "command_of_text v = (c, as)" "list_all is_word (c # as)" by blast
  then show ?thesis
  proof cases
    case 1
    have "trim '' '' = []" by code_simp
    then have "text_of_command (set_mcp_field s (M_command v)) = []"
      using 1 by (simp add: text_of_command_def ostr_or_def str_or_def)
    with 1 show ?thesis by (simp add: command_of_text_def)
  next
    case 2
    then have "text_of_command (set_mcp_field s (M_command v)) = join '' '' (c # as)"
      by (intro text_of_command_words) auto
    with 2 command_of_text_words [of "c # as"] show ?thesis by simp
  qed
qed

text \<open>
  Property C36. The command line of a configured server survives the field when the command and
  every argument are non-empty and free of white space: focusing and leaving the field changes
  nothing.
\<close>

theorem command_field_roundtrip:
  assumes "i < length (mcp_servers_shown g)"
    and "ms_command (mcp_servers_shown g ! i) = Some c"
    and "ms_args (mcp_servers_shown g ! i) = Some as" and "list_all is_word (c # as)"
  shows "handleCommandInputBlur g (initialInputs (mcp_servers_shown g)) i
    = Inr (no_patch\<lparr>p_mcpServers := Some (mcp_servers_shown g)\<rparr>)"
proof -
  let ?s = "mcp_servers_shown g ! i"
  have "text_of_command ?s = join '' '' (c # as)"
    using assms(2-4) by (rule text_of_command_words)
  then have "set_mcp_field ?s (M_command (text_of_command ?s)) = ?s"
    using assms(2-4) command_of_text_words [of "c # as"] by simp
  with assms(1) show ?thesis
    by (simp add: handleCommandInputBlur_def initialInputs_def mcp_updateServer_def Let_def
        del: set_mcp_field.simps)
qed

theorem command_field_roundtrip_witness:
  "let s = blank_mcp_server\<lparr>ms_command := Some ''npx'', ms_args := Some [''-y'', ''srv'']\<rparr>;
       g = (defaultConfig [])\<lparr>gw_mcpServers := Some [s]\<rparr>
   in handleCommandInputBlur g (initialInputs (mcp_servers_shown g)) 0
      = Inr (no_patch\<lparr>p_mcpServers := Some [s]\<rparr>)"
proof -
  let ?s = "blank_mcp_server\<lparr>ms_command := Some ''npx'', ms_args := Some [''-y'', ''srv'']\<rparr>"
  let ?g = "(defaultConfig [])\<lparr>gw_mcpServers := Some [?s]\<rparr>"
  have sh: "mcp_servers_shown ?g = [?s]" by (simp add: mcp_servers_shown_def opt_or_def)
  have w: "list_all is_word [''npx'', ''-y'', ''srv'']" by code_simp
  have "handleCommandInputBlur ?g (initialInputs (mcp_servers_shown ?g)) 0
      = Inr (no_patch\<lparr>p_mcpServers := Some (mcp_servers_shown ?g)\<rparr>)"
    by (rule command_field_roundtrip [OF _ _ _ w]) (simp_all add: sh)
  then show ?thesis by (simp add: sh Let_def)
qed

text \<open>
  A finding: an argument with a space in it does not survive the field. Leaving the
  field without typing cuts it at the space.
\<close>

theorem command_field_splits_argument:
  assumes "is_word c" and "is_word a" and "is_word b"
    and "ms_command s = Some c" and "ms_args s = Some [a @ '' '' @ b]"
  shows "ms_args (set_mcp_field s (M_command (text_of_command s))) = Some [a, b]"
proof -
  have "text_of_command s = text_of_command (s\<lparr>ms_args := Some [a, b]\<rparr>)"
    using assms by (simp add: text_of_command_def)
  also have "\<dots> = join '' '' [c, a, b]"
    using assms by (intro text_of_command_words) auto
  finally show ?thesis using assms command_of_text_words [of "[c, a, b]"] by simp
qed

theorem command_field_splits_argument_witness:
  "let s = blank_mcp_server\<lparr>ms_command := Some ''sh'', ms_args := Some [''a b'']\<rparr>
   in ms_args (set_mcp_field s (M_command (text_of_command s))) = Some [''a'', ''b'']"
proof -
  let ?s = "blank_mcp_server\<lparr>ms_command := Some ''sh'', ms_args := Some [''a b'']\<rparr>"
  have "is_word ''sh''" "is_word ''a''" "is_word ''b''" by code_simp+
  then have "ms_args (set_mcp_field ?s (M_command (text_of_command ?s))) = Some [''a'', ''b'']"
    by (rule command_field_splits_argument) simp_all
  then show ?thesis by (simp only: Let_def)
qed

text \<open>
  A finding: renaming an environment variable moves its row to the end of the list,
  because the rows follow the keys of the \<open>env\<close> object. The row under the cursor then belongs
  to the next variable, and the next key stroke in it renames that one.
\<close>

theorem env_rename_moves_the_row_away:
  assumes "wf_obj env" and "list_all (\<lambda>k. \<not> is_array_index k) (v # own_keys env)"
    and "v \<notin> set (own_keys env)" and "Suc i < length (own_keys env)"
    and "env_update env i EKey v = Inr env'"
  shows "own_keys env' ! i = own_keys env ! Suc i \<and> last (own_keys env') = v"
proof -
  have "own_keys env' = splice1 (own_keys env) i @ [v]"
    using assms by (intro env_rename_moves_row [THEN conjunct2]) (auto simp: list_all_iff)
  with assms(4) show ?thesis by (simp add: splice1_def nth_append)
qed

theorem env_rename_moves_the_row_away_witness:
  "\<exists>env1 env2. env_update [(''A'', ''1''), (''B'', ''2'')] 0 EKey ''AX'' = Inr env1
     \<and> env_update env1 0 EKey ''BX'' = Inr env2
     \<and> own_keys env1 ! 0 = ''B'' \<and> last (own_keys env1) = ''AX''
     \<and> obj_get env2 ''AX'' = Some ''1'' \<and> obj_get env2 ''BX'' = Some ''2''"
proof -
  let ?env = "[(''A'', ''1''), (''B'', ''2'')]"
  have u: "env_update ?env 0 EKey ''AX'' = Inr [(''B'', ''2''), (''AX'', ''1'')]" by code_simp
  have k: "own_keys ?env = [''A'', ''B'']" by code_simp
  have "own_keys [(''B'', ''2''), (''AX'', ''1'')] ! 0 = own_keys ?env ! Suc 0
      \<and> last (own_keys [(''B'', ''2''), (''AX'', ''1'')]) = ''AX''"
  proof (rule env_rename_moves_the_row_away [OF _ _ _ _ u])
    show "wf_obj ?env" by (simp add: wf_obj_def)
    show "list_all (\<lambda>k. \<not> is_array_index k) (''AX'' # own_keys ?env)" by code_simp
  qed (simp_all add: k)
  moreover have "env_update [(''B'', ''2''), (''AX'', ''1'')] 0 EKey ''BX''
      = Inr [(''AX'', ''1''), (''BX'', ''2'')]" by code_simp
  ultimately show ?thesis using u k by (auto simp: obj_get_def)
qed

text \<open>
  \<open>addEnvVariable\<close> adds one variable whose name is new, with an empty value, and
  leaves the others and every other server as they are.
\<close>

theorem addEnvVariable_adds_one_fresh:
  assumes "addEnvVariable g si = Inr p"
  shows "\<exists>k env'. p = no_patch\<lparr>p_mcpServers := Some ((mcp_servers_shown g)
        [si := (mcp_servers_shown g ! si)\<lparr>ms_env := Some env'\<rparr>])\<rparr>
    \<and> obj_get (env_of (mcp_servers_shown g ! si)) k = None
    \<and> obj_get env' = (obj_get (env_of (mcp_servers_shown g ! si)))(k \<mapsto> [])"
proof (intro exI conjI)
  let ?env = "env_of (mcp_servers_shown g ! si)"
  show "p = no_patch\<lparr>p_mcpServers := Some ((mcp_servers_shown g)
        [si := (mcp_servers_shown g ! si)\<lparr>ms_env := Some (env_add ?env)\<rparr>])\<rparr>"
    using assms by (auto simp: addEnvVariable_def with_env_def Let_def split: if_splits)
  show "obj_get ?env (new_env_key (own_keys ?env)) = None"
    using new_env_key_fresh [of "own_keys ?env"] unfolding set_own_keys by (simp add: domIff)
  show "obj_get (env_add ?env) = (obj_get ?env)(new_env_key (own_keys ?env) \<mapsto> [])"
    by (simp add: env_add_def obj_get_set)
qed

theorem addEnvVariable_adds_one_fresh_witness:
  "let g = (defaultConfig [])\<lparr>gw_mcpServers := Some [blank_mcp_server]\<rparr> in
   \<exists>p k env'. addEnvVariable g 0 = Inr p
    \<and> p = no_patch\<lparr>p_mcpServers := Some [blank_mcp_server\<lparr>ms_env := Some env'\<rparr>]\<rparr>
    \<and> obj_get env' = [k \<mapsto> []]"
proof -
  let ?g = "(defaultConfig [])\<lparr>gw_mcpServers := Some [blank_mcp_server]\<rparr>"
  have sh: "mcp_servers_shown ?g = [blank_mcp_server]"
    by (simp add: mcp_servers_shown_def opt_or_def)
  have env: "obj_get (env_of blank_mcp_server) = Map.empty"
    by (rule ext) (simp add: env_of_def blank_mcp_server_def opt_or_def obj_get_def)
  obtain p where p: "addEnvVariable ?g 0 = Inr p"
    by (simp add: addEnvVariable_def with_env_def sh)
  from addEnvVariable_adds_one_fresh [OF p] p show ?thesis
    unfolding Let_def sh by (auto simp: env)
qed

end
