(* ===== verification/Router_Config.thy ===== *)
theory Router_Config
  imports Mcp_Servers_Config
begin

text \<open>
  The router editor, \<open>src/web/src/pages/gateway/components/RouterConfig.tsx\<close>: the prefix field
  shows and edits the part after the selected tenant's prefix, and the CORS lists are edited as
  sets of trimmed values.
\<close>

section \<open>The routers shown and the selected tenant\<close>

definition blank_router :: router_config where
  "blank_router = \<lparr>rt_server = [], rt_prefix = ''/'', rt_ssePrefix = None, rt_cors = None,
     rt_auth = None\<rparr>"

definition routers_shown :: "gateway \<Rightarrow> router_config list" where
  "routers_shown g = opt_or (gw_routers g) [blank_router]"

definition selectedTenant :: "gateway \<Rightarrow> tenant list \<Rightarrow> tenant option" where
  "selectedTenant g tenants = find (\<lambda>t. ten_name t = gw_tenant g) tenants"

text \<open>\<open>selectedTenant?.prefix\<close> put into a string, where a missing tenant reads
  \<open>undefined\<close>.\<close>

definition tenant_prefix_text :: "tenant option \<Rightarrow> string" where
  "tenant_prefix_text t = (case t of None \<Rightarrow> ''undefined'' | Some t \<Rightarrow> ten_prefix t)"

section \<open>Fields\<close>

datatype router_field = RF_server | RF_prefix | RF_ssePrefix

fun set_router_field :: "router_config \<Rightarrow> router_field \<Rightarrow> string \<Rightarrow> router_config" where
  "set_router_field r RF_server v = r\<lparr>rt_server := v\<rparr>"
| "set_router_field r RF_prefix v = r\<lparr>rt_prefix := v\<rparr>"
| "set_router_field r RF_ssePrefix v = r\<lparr>rt_ssePrefix := Some v\<rparr>"

definition updateRouter :: "gateway \<Rightarrow> nat \<Rightarrow> router_field \<Rightarrow> string \<Rightarrow> patch result" where
  "updateRouter g i field value =
     (let routers = routers_shown g in
      if i < length routers then
        Inr (no_patch\<lparr>p_routers := Some (routers[i := set_router_field (routers ! i) field value])\<rparr>)
      else Inl (IllTyped ''updatedRouters[index]''))"

definition shown_prefix :: "gateway \<Rightarrow> tenant list \<Rightarrow> router_config \<Rightarrow> string" where
  "shown_prefix g tenants r =
     replace_first (rt_prefix r)
       (case selectedTenant g tenants of None \<Rightarrow> [] | Some t \<Rightarrow> ten_prefix t) []"

definition change_prefix :: "gateway \<Rightarrow> tenant list \<Rightarrow> nat \<Rightarrow> string \<Rightarrow> patch result" where
  "change_prefix g tenants i v =
     (let pathPart = trim v; fullPrefix = tenant_prefix_text (selectedTenant g tenants) @ pathPart
      in updateRouter g i RF_prefix fullPrefix)"

definition change_server :: "gateway \<Rightarrow> nat \<Rightarrow> string \<Rightarrow> patch result" where
  "change_server g i v = updateRouter g i RF_server v"

definition change_sse_prefix :: "gateway \<Rightarrow> nat \<Rightarrow> string \<Rightarrow> patch result" where
  "change_sse_prefix g i v = updateRouter g i RF_ssePrefix (trim v)"

definition server_options :: "gateway \<Rightarrow> string list" where
  "server_options g = map srv_name (opt_or (gw_servers g) []) @ map ms_name (opt_or (gw_mcpServers g) [])"

section \<open>CORS\<close>

datatype cors_field = C_allowOrigins | C_allowMethods | C_allowHeaders | C_exposeHeaders

fun cors_values :: "cors_config \<Rightarrow> cors_field \<Rightarrow> string list" where
  "cors_values c C_allowOrigins = opt_or (cors_allowOrigins c) []"
| "cors_values c C_allowMethods = opt_or (cors_allowMethods c) []"
| "cors_values c C_allowHeaders = opt_or (cors_allowHeaders c) []"
| "cors_values c C_exposeHeaders = opt_or (cors_exposeHeaders c) []"

fun set_cors_values :: "cors_field \<Rightarrow> string list \<Rightarrow> cors_config \<Rightarrow> cors_config" where
  "set_cors_values C_allowOrigins vs c = c\<lparr>cors_allowOrigins := Some vs\<rparr>"
| "set_cors_values C_allowMethods vs c = c\<lparr>cors_allowMethods := Some vs\<rparr>"
| "set_cors_values C_allowHeaders vs c = c\<lparr>cors_allowHeaders := Some vs\<rparr>"
| "set_cors_values C_exposeHeaders vs c = c\<lparr>cors_exposeHeaders := Some vs\<rparr>"

text \<open>These handlers are rendered for a router that has a \<open>cors\<close> object, and close over it.\<close>

definition updateCors :: "gateway \<Rightarrow> nat \<Rightarrow> cors_config \<Rightarrow> (cors_config \<Rightarrow> cors_config) \<Rightarrow> patch" where
  "updateCors g i corsConfig updates =
     no_patch\<lparr>p_routers := Some (map_index i (\<lambda>r. r\<lparr>rt_cors := Some (updates corsConfig)\<rparr>)
       (routers_shown g))\<rparr>"

definition addCorsItem :: "gateway \<Rightarrow> nat \<Rightarrow> cors_config \<Rightarrow> cors_field \<Rightarrow> string \<Rightarrow> patch option" where
  "addCorsItem g i corsConfig field value =
     (if trim value = [] then None
      else let currentValues = cors_values corsConfig field in
        if trim value \<notin> set currentValues
        then Some (updateCors g i corsConfig (set_cors_values field (currentValues @ [trim value])))
        else None)"

definition removeCorsItem :: "gateway \<Rightarrow> nat \<Rightarrow> cors_config \<Rightarrow> cors_field \<Rightarrow> nat \<Rightarrow> patch" where
  "removeCorsItem g i corsConfig field j =
     updateCors g i corsConfig (set_cors_values field (filter_index (cors_values corsConfig field) j))"

definition set_credentials :: "gateway \<Rightarrow> nat \<Rightarrow> cors_config \<Rightarrow> bool \<Rightarrow> patch" where
  "set_credentials g i corsConfig b = updateCors g i corsConfig (\<lambda>c. c\<lparr>cors_allowCredentials := b\<rparr>)"

text \<open>The three text fields whose button (or Enter key) adds the text and clears the field.\<close>

record router_inputs =
  originInput :: string
  headerInput :: string
  exposeHeaderInput :: string

definition press_add_origin ::
    "gateway \<Rightarrow> nat \<Rightarrow> cors_config \<Rightarrow> router_inputs \<Rightarrow> patch option \<times> router_inputs" where
  "press_add_origin g i c inp =
     (addCorsItem g i c C_allowOrigins (originInput inp), inp\<lparr>originInput := []\<rparr>)"

definition press_add_header ::
    "gateway \<Rightarrow> nat \<Rightarrow> cors_config \<Rightarrow> router_inputs \<Rightarrow> patch option \<times> router_inputs" where
  "press_add_header g i c inp =
     (addCorsItem g i c C_allowHeaders (headerInput inp), inp\<lparr>headerInput := []\<rparr>)"

definition press_add_expose ::
    "gateway \<Rightarrow> nat \<Rightarrow> cors_config \<Rightarrow> router_inputs \<Rightarrow> patch option \<times> router_inputs" where
  "press_add_expose g i c inp =
     (addCorsItem g i c C_exposeHeaders (exposeHeaderInput inp), inp\<lparr>exposeHeaderInput := []\<rparr>)"

definition select_method :: "gateway \<Rightarrow> nat \<Rightarrow> cors_config \<Rightarrow> string \<Rightarrow> patch option" where
  "select_method g i c v = addCorsItem g i c C_allowMethods v"

definition default_cors :: cors_config where
  "default_cors = \<lparr>cors_allowOrigins = Some [''*''],
     cors_allowMethods = Some [''GET'', ''POST'', ''PUT'', ''OPTIONS''],
     cors_allowHeaders = Some [''Content-Type'', ''Authorization'', ''Mcp-Session-Id'',
       ''mcp-protocol-version''],
     cors_exposeHeaders = Some [''Mcp-Session-Id'', ''mcp-protocol-version''],
     cors_allowCredentials = True\<rparr>"

section \<open>Switches, adding and removing routers\<close>

definition toggle_cors :: "gateway \<Rightarrow> nat \<Rightarrow> bool \<Rightarrow> patch result" where
  "toggle_cors g i isSelected =
     (let routers = routers_shown g in
      if isSelected then
        Inr (no_patch\<lparr>p_routers := Some (map_index i (\<lambda>r. r\<lparr>rt_cors := Some default_cors\<rparr>) routers)\<rparr>)
      else if i < length routers then
        Inr (no_patch\<lparr>p_routers := Some (routers[i := (routers ! i)\<lparr>rt_cors := None\<rparr>])\<rparr>)
      else Inl (TypeError ''updatedRouters[index]''))"

definition toggle_auth :: "gateway \<Rightarrow> nat \<Rightarrow> bool \<Rightarrow> patch result" where
  "toggle_auth g i isSelected =
     (let routers = routers_shown g in
      if i < length routers then
        Inr (no_patch\<lparr>p_routers := Some (routers[i := (routers ! i)
          \<lparr>rt_auth := (if isSelected then Some \<lparr>auth_mode = ''oauth2''\<rparr> else None)\<rparr>])\<rparr>)
      else Inl (IllTyped ''updatedRouters[index]''))"

definition remove_router :: "gateway \<Rightarrow> nat \<Rightarrow> patch" where
  "remove_router g i = no_patch\<lparr>p_routers := Some (splice1 (routers_shown g) i)\<rparr>"

text \<open>\<open>random\<close> is the text \<open>Math.random().toString(36).substring(2, 6)\<close>.\<close>

definition add_router :: "gateway \<Rightarrow> tenant list \<Rightarrow> string \<Rightarrow> patch" where
  "add_router g tenants random =
     (let first_server = (case opt_or (gw_servers g) [] of [] \<Rightarrow> [] | s # _ \<Rightarrow> srv_name s);
          first_mcp = (case opt_or (gw_mcpServers g) [] of [] \<Rightarrow> [] | s # _ \<Rightarrow> ms_name s);
          serverName = str_or first_server (str_or first_mcp [])
      in no_patch\<lparr>p_routers := Some (routers_shown g @ [\<lparr>rt_server = serverName,
           rt_prefix = tenant_prefix_text (selectedTenant g tenants) @ ''/'' @ random,
           rt_ssePrefix = None, rt_cors = None, rt_auth = None\<rparr>])\<rparr>)"

section \<open>The CORS lists are sets of trimmed values\<close>

definition cors_list_ok :: "string list \<Rightarrow> bool" where
  "cors_list_ok vs \<longleftrightarrow> distinct vs \<and> list_all (\<lambda>v. v \<noteq> [] \<and> trimmed v) vs"

definition cors_ok :: "cors_config \<Rightarrow> bool" where
  "cors_ok c \<longleftrightarrow> (\<forall>f. cors_list_ok (cors_values c f))"

definition routers_cors_ok :: "gateway \<Rightarrow> bool" where
  "routers_cors_ok g \<longleftrightarrow> list_all (\<lambda>r. case rt_cors r of None \<Rightarrow> True | Some c \<Rightarrow> cors_ok c)
     (routers_shown g)"

lemma cors_values_set:
  "cors_values (set_cors_values f vs c) f' = (if f = f' then vs else cors_values c f')"
  by (cases f; cases f') (auto simp: opt_or_def)

lemma cors_values_credentials [simp]:
  "cors_values (c\<lparr>cors_allowCredentials := b\<rparr>) f = cors_values c f"
  by (cases f) auto

lemma cors_list_ok_add:
  "cors_list_ok vs \<Longrightarrow> trim v \<noteq> [] \<Longrightarrow> trim v \<notin> set vs \<Longrightarrow> cors_list_ok (vs @ [trim v])"
  by (simp add: cors_list_ok_def trimmed_trim)

lemma cors_list_ok_remove: "cors_list_ok vs \<Longrightarrow> cors_list_ok (splice1 vs j)"
  using set_splice1_subset [of vs j] distinct_splice1 [of vs j]
  by (auto simp: cors_list_ok_def list_all_iff)

lemma cors_ok_set: "cors_ok c \<Longrightarrow> cors_list_ok vs \<Longrightarrow> cors_ok (set_cors_values f vs c)"
  by (simp add: cors_ok_def cors_values_set)

lemma trimmed_nonspace: "v \<noteq> [] \<Longrightarrow> \<not> js_ws (hd v) \<Longrightarrow> \<not> js_ws (last v) \<Longrightarrow> trimmed v"
  by (simp add: trimmed_def)

lemma default_cors_ok [simp]: "cors_ok default_cors"
proof -
  have "cors_list_ok (cors_values default_cors f)" for f
    by (cases f) (simp_all add: default_cors_def opt_or_def cors_list_ok_def trimmed_def js_ws_def)
  then show ?thesis by (simp add: cors_ok_def)
qed

text \<open>What a user can do to the CORS part of a router that is shown.\<close>

datatype cors_click =
    Cors_switch nat bool
  | Cors_add nat cors_field string
  | Cors_remove nat cors_field nat
  | Cors_credentials nat bool

definition cors_click_step :: "gateway \<Rightarrow> cors_click \<Rightarrow> gateway result" where
  "cors_click_step g k =
     (let patched = (\<lambda>p. Inr (apply_patch g p));
          with_cors = (\<lambda>i h. if i < length (routers_shown g)
             then (case rt_cors (routers_shown g ! i) of None \<Rightarrow> Inl (TypeError ''router.cors'') | Some c \<Rightarrow> h c)
             else Inl (TypeError ''router.cors''))
      in case k of
           Cors_switch i b \<Rightarrow> (case toggle_cors g i b of Inl e \<Rightarrow> Inl e | Inr p \<Rightarrow> patched p)
         | Cors_add i f v \<Rightarrow> with_cors i (\<lambda>c. case addCorsItem g i c f v of None \<Rightarrow> Inr g | Some p \<Rightarrow> patched p)
         | Cors_remove i f j \<Rightarrow> with_cors i (\<lambda>c. patched (removeCorsItem g i c f j))
         | Cors_credentials i b \<Rightarrow> with_cors i (\<lambda>c. patched (set_credentials g i c b)))"

fun cors_clicks :: "gateway \<Rightarrow> cors_click list \<Rightarrow> gateway result" where
  "cors_clicks g [] = Inr g"
| "cors_clicks g (k # ks) = (case cors_click_step g k of Inl e \<Rightarrow> Inl e | Inr g' \<Rightarrow> cors_clicks g' ks)"

lemma routers_shown_patch [simp]:
  "routers_shown (apply_patch g (no_patch\<lparr>p_routers := Some rs\<rparr>)) = rs"
  by (simp add: routers_shown_def apply_patch_def over_def no_patch_def opt_or_def)

lemma routers_cors_ok_map:
  assumes "routers_cors_ok g" "\<And>r. rt_cors (h r) = Some c" "cors_ok c"
  shows "list_all (\<lambda>r. case rt_cors r of None \<Rightarrow> True | Some c \<Rightarrow> cors_ok c)
           (map_index i h (routers_shown g))"
  using assms by (auto simp: routers_cors_ok_def list_all_length nth_map_index)

lemma updateCors_ok:
  assumes "routers_cors_ok g" "cors_ok (f c)"
  shows "routers_cors_ok (apply_patch g (updateCors g i c f))"
  using assms routers_cors_ok_map [OF assms(1)]
  by (simp add: updateCors_def routers_cors_ok_def)

lemma toggle_cors_ok:
  assumes "routers_cors_ok g" "toggle_cors g i b = Inr p"
  shows "routers_cors_ok (apply_patch g p)"
proof (cases b)
  case True
  with assms routers_cors_ok_map [OF assms(1), of _ default_cors] show ?thesis
    by (auto simp: toggle_cors_def routers_cors_ok_def)
next
  case False
  with assms show ?thesis
    by (auto simp: toggle_cors_def routers_cors_ok_def list_all_length nth_list_update Let_def
        split: if_splits)
qed

lemma cors_of_shown:
  "routers_cors_ok g \<Longrightarrow> i < length (routers_shown g) \<Longrightarrow> rt_cors (routers_shown g ! i) = Some c
    \<Longrightarrow> cors_ok c"
  by (auto simp: routers_cors_ok_def list_all_length split: option.splits)

lemma cors_click_ok:
  assumes "routers_cors_ok g" "cors_click_step g k = Inr g'"
  shows "routers_cors_ok g'"
proof -
  note c = cors_of_shown [OF assms(1)]
  have add: "cors_ok (set_cors_values f (cors_values c f @ [trim v]) c)"
    if "cors_ok c" "trim v \<noteq> []" "trim v \<notin> set (cors_values c f)" for c f v
    using that by (simp add: cors_ok_set cors_list_ok_add cors_ok_def [of c])
  have rem: "cors_ok (set_cors_values f (splice1 (cors_values c f) j) c)"
    if "cors_ok c" for c f j
    using that by (simp add: cors_ok_set cors_list_ok_remove cors_ok_def [of c])
  show ?thesis
  proof (cases k)
    case (Cors_switch i b)
    with assms show ?thesis
      by (auto simp: cors_click_step_def intro: toggle_cors_ok split: sum.splits)
  next
    case (Cors_add i f v)
    with assms(2) obtain c where i: "i < length (routers_shown g)"
      "rt_cors (routers_shown g ! i) = Some c"
      and r: "(case addCorsItem g i c f v of None \<Rightarrow> Inr g | Some p \<Rightarrow> Inr (apply_patch g p)) = Inr g'"
      by (auto simp: cors_click_step_def split: if_splits option.splits)
    show ?thesis
    proof (cases "addCorsItem g i c f v")
      case None
      with r assms(1) show ?thesis by simp
    next
      case (Some p)
      then have "trim v \<noteq> []" "trim v \<notin> set (cors_values c f)"
        and p: "p = updateCors g i c (set_cors_values f (cors_values c f @ [trim v]))"
        by (auto simp: addCorsItem_def Let_def split: if_splits)
      then have "routers_cors_ok (apply_patch g p)"
        using assms(1) add c i by (auto intro: updateCors_ok)
      with Some r show ?thesis by simp
    qed
  next
    case (Cors_remove i f j)
    with assms rem c show ?thesis
      by (auto simp: cors_click_step_def removeCorsItem_def filter_index_splice1
          intro!: updateCors_ok split: if_splits option.splits)
  next
    case (Cors_credentials i b)
    with assms c show ?thesis
      by (auto simp: cors_click_step_def set_credentials_def cors_ok_def
          intro!: updateCors_ok split: if_splits option.splits)
  qed
qed

lemma cors_clicks_ok: "routers_cors_ok g \<Longrightarrow> cors_clicks g ks = Inr g' \<Longrightarrow> routers_cors_ok g'"
  by (induction ks arbitrary: g) (auto split: sum.splits intro: cors_click_ok)

section \<open>The prefix field\<close>

lemma replace_first_prefix: "replace_first (p @ s) p r = r @ s"
proof (cases "p @ s")
  case (Cons a l)
  then have "starts_with (a # l) p" by (metis starts_withI)
  then have "replace_first (a # l) p r = r @ drop (length p) (a # l)" by simp
  with Cons [symmetric] show ?thesis by simp
qed simp

lemma change_prefix_shown:
  assumes "change_prefix g tenants i v = Inr p" "selectedTenant g tenants = Some t"
  shows "shown_prefix (apply_patch g p) tenants (routers_shown (apply_patch g p) ! i) = trim v"
proof -
  from assms have i: "i < length (routers_shown g)"
    and p: "p = no_patch\<lparr>p_routers := Some ((routers_shown g)
        [i := (routers_shown g ! i)\<lparr>rt_prefix := ten_prefix t @ trim v\<rparr>])\<rparr>"
    by (auto simp: change_prefix_def updateRouter_def Let_def tenant_prefix_text_def split: if_splits)
  have "selectedTenant (apply_patch g p) tenants = selectedTenant g tenants"
    unfolding p by (simp add: selectedTenant_def apply_patch_def no_patch_def opt_or_def)
  with assms(2) have sel: "selectedTenant (apply_patch g p) tenants = Some t" by simp
  have "routers_shown (apply_patch g p) ! i = (routers_shown g ! i)\<lparr>rt_prefix := ten_prefix t @ trim v\<rparr>"
    unfolding p using i by simp
  with sel show ?thesis by (simp add: shown_prefix_def replace_first_prefix)
qed

section \<open>Properties of the router editor\<close>

text \<open>
  The prefix field shows what was typed: with a selected tenant, after typing \<open>v\<close>
  the stored prefix is the tenant's prefix followed by the trimmed text, and the field shows
  exactly the trimmed text.
\<close>

theorem prefix_field_roundtrip:
  assumes "change_prefix g tenants i v = Inr p" and "selectedTenant g tenants = Some t"
  shows "rt_prefix (routers_shown (apply_patch g p) ! i) = ten_prefix t @ trim v
    \<and> shown_prefix (apply_patch g p) tenants (routers_shown (apply_patch g p) ! i) = trim v"
  using change_prefix_shown [OF assms] assms
  by (auto simp: change_prefix_def updateRouter_def Let_def tenant_prefix_text_def split: if_splits)

theorem prefix_field_roundtrip_witness:
  "let g = defaultConfig [];
       t = \<lparr>ten_id = 1, ten_name = ''default'', ten_prefix = ''/gw'', ten_description = [],
            ten_isActive = True\<rparr>;
       g' = g\<lparr>gw_routers := None\<rparr>
   in \<exists>p. change_prefix g' [t] 0 '' /x '' = Inr p
     \<and> rt_prefix (routers_shown (apply_patch g' p) ! 0) = ''/gw/x''"
proof -
  let ?t = "\<lparr>ten_id = 1, ten_name = ''default'', ten_prefix = ''/gw'', ten_description = [],
            ten_isActive = True\<rparr>"
  let ?g = "(defaultConfig [])\<lparr>gw_routers := None\<rparr>"
  have sel: "selectedTenant ?g [?t] = Some ?t"
    by (simp add: selectedTenant_def defaultConfig_def)
  obtain p where p: "change_prefix ?g [?t] 0 '' /x '' = Inr p"
    by (simp add: change_prefix_def updateRouter_def routers_shown_def opt_or_def)
  have "trim '' /x '' = ''/x''" by code_simp
  with prefix_field_roundtrip [OF p sel] p show ?thesis by (auto simp: Let_def)
qed

text \<open>
  A finding: when the configuration's tenant is not in the list of tenants (not
  loaded yet, or renamed), the prefix typed is stored behind the word \<open>undefined\<close>, and so is
  the prefix of a router that is added.
\<close>

theorem prefix_without_tenant_is_undefined:
  assumes "\<forall>t \<in> set tenants. ten_name t \<noteq> gw_tenant g" and "change_prefix g tenants i v = Inr p"
  shows "rt_prefix (routers_shown (apply_patch g p) ! i) = ''undefined'' @ trim v
    \<and> rt_prefix (last (routers_shown (apply_patch g (add_router g tenants random))))
        = ''undefined/'' @ random"
proof -
  from assms(1) have "selectedTenant g tenants = None"
    unfolding selectedTenant_def by (simp add: find_None_iff)
  then have t: "tenant_prefix_text (selectedTenant g tenants) = ''undefined''"
    by (simp add: tenant_prefix_text_def)
  with assms(2) show ?thesis
    by (auto simp: change_prefix_def updateRouter_def add_router_def Let_def split: if_splits)
qed

theorem prefix_without_tenant_is_undefined_witness:
  "let g = (defaultConfig [])\<lparr>gw_routers := None\<rparr>
   in \<exists>p. change_prefix g [] 0 ''/x'' = Inr p
     \<and> rt_prefix (routers_shown (apply_patch g p) ! 0) = ''undefined/x''"
proof -
  let ?g = "(defaultConfig [])\<lparr>gw_routers := None\<rparr>"
  obtain p where p: "change_prefix ?g [] 0 ''/x'' = Inr p"
    by (simp add: change_prefix_def updateRouter_def routers_shown_def opt_or_def)
  have "trim ''/x'' = ''/x''" by code_simp
  with prefix_without_tenant_is_undefined [of "[]" ?g, OF _ p] p show ?thesis
    by (auto simp: Let_def)
qed

text \<open>
  Whatever CORS switches, values and chips are used on whatever routers, the four
  lists of every router stay free of duplicates, of empty values and of surrounding white space.
\<close>

theorem cors_lists_stay_sets:
  assumes "routers_cors_ok g" and "cors_clicks g ks = Inr g'"
  shows "routers_cors_ok g'"
  using assms by (rule cors_clicks_ok)

theorem cors_lists_stay_sets_witness:
  "let g = (defaultConfig [])\<lparr>gw_routers := None\<rparr>;
       ks = [Cors_switch 0 True, Cors_add 0 C_allowOrigins '' https://a.io '',
             Cors_add 0 C_allowOrigins ''https://a.io'', Cors_remove 0 C_allowOrigins 0]
   in \<exists>g'. cors_clicks g ks = Inr g' \<and> routers_cors_ok g'
        \<and> map_option (\<lambda>c. cors_values c C_allowOrigins) (rt_cors (routers_shown g' ! 0))
            = Some [''https://a.io'']"
proof -
  let ?g = "(defaultConfig [])\<lparr>gw_routers := None\<rparr>"
  let ?ks = "[Cors_switch 0 True, Cors_add 0 C_allowOrigins '' https://a.io '',
             Cors_add 0 C_allowOrigins ''https://a.io'', Cors_remove 0 C_allowOrigins 0]"
  have ok: "routers_cors_ok ?g"
    by (simp add: routers_cors_ok_def routers_shown_def opt_or_def blank_router_def)
  have "case cors_clicks ?g ?ks of Inl e \<Rightarrow> False | Inr g' \<Rightarrow>
      map_option (\<lambda>c. cors_values c C_allowOrigins) (rt_cors (routers_shown g' ! 0))
        = Some [''https://a.io'']" by code_simp
  then obtain g' where "cors_clicks ?g ?ks = Inr g'"
    and "map_option (\<lambda>c. cors_values c C_allowOrigins) (rt_cors (routers_shown g' ! 0))
        = Some [''https://a.io'']" by (auto split: sum.splits)
  with cors_lists_stay_sets [OF ok] show ?thesis unfolding Let_def by blast
qed

end
