(* ===== verification/Prompts_Config.thy ===== *)
theory Prompts_Config
  imports Router_Config
begin

text \<open>
  The prompt editor, \<open>src/web/src/pages/gateway/components/PromptsConfig.tsx\<close>. All handlers but
  one copy what they change. \<open>Add Response\<close> pushes onto the array the prompt already has, so it
  is modelled twice: on values, and on a store of arrays where sharing can be seen.
\<close>

section \<open>Prompts and their arguments\<close>

definition prompts_shown :: "gateway \<Rightarrow> prompt_config list" where
  "prompts_shown g = opt_or (gw_prompts g) []"

definition put_prompts :: "prompt_config list \<Rightarrow> patch" where
  "put_prompts ps = no_patch\<lparr>p_prompts := Some ps\<rparr>"

text \<open>Replacing one prompt; without it a spread of \<open>undefined\<close> would leave a prompt with
  members missing.\<close>

definition with_prompt :: "gateway \<Rightarrow> nat \<Rightarrow> (prompt_config \<Rightarrow> prompt_config result) \<Rightarrow> patch result" where
  "with_prompt g i f =
     (let prompts = prompts_shown g in
      if i < length prompts then
        (case f (prompts ! i) of
           Inl e \<Rightarrow> Inl e
         | Inr p \<Rightarrow> Inr (put_prompts (prompts[i := p])))
      else Inl (IllTyped ''updatedPrompts[index]''))"

datatype prompt_field = PF_name | PF_description

fun set_prompt_field :: "prompt_config \<Rightarrow> prompt_field \<Rightarrow> string \<Rightarrow> prompt_config" where
  "set_prompt_field p PF_name v = p\<lparr>pmt_name := v\<rparr>"
| "set_prompt_field p PF_description v = p\<lparr>pmt_description := v\<rparr>"

definition updatePrompt :: "gateway \<Rightarrow> nat \<Rightarrow> prompt_field \<Rightarrow> string \<Rightarrow> patch result" where
  "updatePrompt g i field v = with_prompt g i (\<lambda>p. Inr (set_prompt_field p field v))"

datatype arg_update = PA_name string | PA_description string | PA_required bool

fun set_argument_field :: "prompt_argument \<Rightarrow> arg_update \<Rightarrow> prompt_argument" where
  "set_argument_field a (PA_name v) = a\<lparr>pa_name := v\<rparr>"
| "set_argument_field a (PA_description v) = a\<lparr>pa_description := v\<rparr>"
| "set_argument_field a (PA_required b) = a\<lparr>pa_required := b\<rparr>"

abbreviation arguments_of :: "prompt_config \<Rightarrow> prompt_argument list" where
  "arguments_of p \<equiv> opt_or (pmt_arguments p) []"

definition updateArgument :: "gateway \<Rightarrow> nat \<Rightarrow> nat \<Rightarrow> arg_update \<Rightarrow> patch result" where
  "updateArgument g i j u = with_prompt g i (\<lambda>p.
     let args = arguments_of p in
     if j < length args
     then Inr (p\<lparr>pmt_arguments := Some (args[j := set_argument_field (args ! j) u])\<rparr>)
     else Inl (IllTyped ''updatedArgs[argIndex]''))"

definition addArgument :: "gateway \<Rightarrow> nat \<Rightarrow> patch result" where
  "addArgument g i = with_prompt g i (\<lambda>p. Inr (p\<lparr>pmt_arguments := Some (arguments_of p @
     [\<lparr>pa_name = [], pa_description = [], pa_required = False\<rparr>])\<rparr>))"

definition removeArgument :: "gateway \<Rightarrow> nat \<Rightarrow> nat \<Rightarrow> patch result" where
  "removeArgument g i j = with_prompt g i (\<lambda>p.
     Inr (p\<lparr>pmt_arguments := Some (splice1 (arguments_of p) j)\<rparr>))"

definition addPrompt :: "gateway \<Rightarrow> patch" where
  "addPrompt g = put_prompts (prompts_shown g @
     [\<lparr>pmt_name = [], pmt_description = [], pmt_arguments = Some [], pmt_response = None\<rparr>])"

definition removePrompt :: "gateway \<Rightarrow> nat \<Rightarrow> patch" where
  "removePrompt g i = put_prompts (splice1 (prompts_shown g) i)"

section \<open>Responses\<close>

abbreviation responses_of :: "prompt_config \<Rightarrow> prompt_response list" where
  "responses_of p \<equiv> opt_or (pmt_response p) []"

definition blank_response :: prompt_response where
  "blank_response = \<lparr>resp_role = [], resp_content = \<lparr>pc_type = ''text'', pc_text = []\<rparr>\<rparr>"

definition add_response :: "gateway \<Rightarrow> nat \<Rightarrow> patch result" where
  "add_response g i = with_prompt g i (\<lambda>p.
     Inr (p\<lparr>pmt_response := Some (responses_of p @ [blank_response])\<rparr>))"

definition with_response ::
    "gateway \<Rightarrow> nat \<Rightarrow> nat \<Rightarrow> (prompt_response \<Rightarrow> prompt_response) \<Rightarrow> patch result" where
  "with_response g i j f = with_prompt g i (\<lambda>p.
     let rs = responses_of p in
     if j < length rs then Inr (p\<lparr>pmt_response := Some (rs[j := f (rs ! j)])\<rparr>)
     else Inl (IllTyped ''promptResponse[retIdx]''))"

definition set_response_role :: "gateway \<Rightarrow> nat \<Rightarrow> nat \<Rightarrow> string \<Rightarrow> patch result" where
  "set_response_role g i j v = with_response g i j (\<lambda>r. r\<lparr>resp_role := v\<rparr>)"

definition set_response_type :: "gateway \<Rightarrow> nat \<Rightarrow> nat \<Rightarrow> string \<Rightarrow> patch result" where
  "set_response_type g i j v =
     with_response g i j (\<lambda>r. r\<lparr>resp_content := (resp_content r)\<lparr>pc_type := v\<rparr>\<rparr>)"

definition set_response_text :: "gateway \<Rightarrow> nat \<Rightarrow> nat \<Rightarrow> string \<Rightarrow> patch result" where
  "set_response_text g i j v =
     with_response g i j (\<lambda>r. r\<lparr>resp_content := (resp_content r)\<lparr>pc_text := v\<rparr>\<rparr>)"

definition remove_response :: "gateway \<Rightarrow> nat \<Rightarrow> nat \<Rightarrow> patch result" where
  "remove_response g i j = with_prompt g i (\<lambda>p.
     Inr (p\<lparr>pmt_response := Some (splice1 (responses_of p) j)\<rparr>))"

section \<open>Add Response on a store of arrays\<close>

text \<open>A prompt object together with the address of its \<open>promptResponse\<close> array; the store maps
  addresses to arrays and knows the next free address.\<close>

record response_store =
  array_at :: "nat \<Rightarrow> prompt_response list"
  next_addr :: nat

type_synonym ref_prompt = "prompt_config \<times> nat option"

definition deref :: "response_store \<Rightarrow> ref_prompt \<Rightarrow> prompt_config" where
  "deref h rp = (fst rp)\<lparr>pmt_response := map_option (array_at h) (snd rp)\<rparr>"

definition push_response ::
    "response_store \<Rightarrow> ref_prompt list \<Rightarrow> nat \<Rightarrow> response_store \<times> ref_prompt list" where
  "push_response h ps i =
     (case snd (ps ! i) of
        Some a \<Rightarrow> (h\<lparr>array_at := (array_at h)(a := array_at h a @ [blank_response])\<rparr>, ps)
      | None \<Rightarrow> let a = next_addr h in
          (h\<lparr>array_at := (array_at h)(a := [blank_response]), next_addr := Suc a\<rparr>,
           ps[i := (fst (ps ! i), Some a)]))"

definition addrs_ok :: "response_store \<Rightarrow> ref_prompt list \<Rightarrow> bool" where
  "addrs_ok h ps \<longleftrightarrow> (\<forall>j < length ps. \<forall>a. snd (ps ! j) = Some a \<longrightarrow> a < next_addr h)"

definition unshared :: "ref_prompt list \<Rightarrow> bool" where
  "unshared ps \<longleftrightarrow> (\<forall>i < length ps. \<forall>j < length ps. i \<noteq> j \<longrightarrow> snd (ps ! i) \<noteq> None
     \<longrightarrow> snd (ps ! i) \<noteq> snd (ps ! j))"

lemma deref_other:
  "snd rp \<noteq> Some a \<Longrightarrow> deref (h\<lparr>array_at := (array_at h)(a := x)\<rparr>) rp = deref h rp"
  by (cases "snd rp") (auto simp: deref_def)

lemma deref_next [simp]: "deref (h\<lparr>next_addr := n\<rparr>) rp = deref h rp"
  by (simp add: deref_def)

lemma push_response_values:
  assumes "i < length ps" "addrs_ok h ps" "unshared ps" "push_response h ps i = (h', ps')"
  shows "map (deref h') ps' = (map (deref h) ps)[i := (deref h (ps ! i))
    \<lparr>pmt_response := Some (responses_of (deref h (ps ! i)) @ [blank_response])\<rparr>]"
proof (rule nth_equalityI)
  show "length (map (deref h') ps') = length ((map (deref h) ps)[i := (deref h (ps ! i))
    \<lparr>pmt_response := Some (responses_of (deref h (ps ! i)) @ [blank_response])\<rparr>])"
    using assms(4) by (auto simp: push_response_def Let_def split: option.splits)
next
  fix j assume "j < length (map (deref h') ps')"
  then have j: "j < length ps"
    using assms(4) by (auto simp: push_response_def Let_def split: option.splits)
  show "map (deref h') ps' ! j = (map (deref h) ps)[i := (deref h (ps ! i))
    \<lparr>pmt_response := Some (responses_of (deref h (ps ! i)) @ [blank_response])\<rparr>] ! j"
  proof (cases "snd (ps ! i)")
    case None
    then have h': "h' = h\<lparr>array_at := (array_at h)(next_addr h := [blank_response]),
        next_addr := Suc (next_addr h)\<rparr>" and ps': "ps' = ps[i := (fst (ps ! i), Some (next_addr h))]"
      using assms(4) by (auto simp: push_response_def Let_def)
    have "snd (ps ! j) \<noteq> Some (next_addr h)" using assms(2) j by (auto simp: addrs_ok_def)
    then have "deref h' (ps ! j) = deref h (ps ! j)" by (simp add: h' deref_other)
    moreover have "deref h' (fst (ps ! i), Some (next_addr h))
        = (deref h (ps ! i))\<lparr>pmt_response := Some [blank_response]\<rparr>"
      by (simp add: h' deref_def)
    moreover have "responses_of (deref h (ps ! i)) = []"
      using None by (simp add: deref_def opt_or_def)
    ultimately show ?thesis using j assms(1) by (cases "i = j") (auto simp: ps')
  next
    case (Some a)
    then have h': "h' = h\<lparr>array_at := (array_at h)(a := array_at h a @ [blank_response])\<rparr>"
      and ps': "ps' = ps" using assms(4) by (auto simp: push_response_def)
    show ?thesis
    proof (cases "i = j")
      case True
      with Some j show ?thesis by (simp add: h' ps' deref_def opt_or_def)
    next
      case False
      with assms(1,3) j have "snd (ps ! i) \<noteq> None \<longrightarrow> snd (ps ! i) \<noteq> snd (ps ! j)"
        unfolding unshared_def by blast
      with Some have "snd (ps ! j) \<noteq> Some a" by simp
      with False j show ?thesis by (simp add: h' ps' deref_other)
    qed
  qed
qed

section \<open>Properties of the prompt editor\<close>

text \<open>
  Property C37. The in-place \<open>Add Response\<close> refines the copying one as long as no two prompts
  share a \<open>promptResponse\<close> array: read back from the store, its result is what
  \<open>add_response\<close> computes on values.
\<close>

theorem push_response_refines_add_response:
  assumes "map (deref h) ps = prompts_shown g" and "addrs_ok h ps" and "unshared ps"
    and "i < length ps"
  shows "case push_response h ps i of (h', ps') \<Rightarrow>
    add_response g i = Inr (put_prompts (map (deref h') ps'))"
proof -
  obtain h' ps' where r: "push_response h ps i = (h', ps')" by (cases "push_response h ps i") auto
  have i: "prompts_shown g ! i = deref h (ps ! i)" "i < length (prompts_shown g)"
    using assms(1,4) by (metis nth_map, metis length_map)
  show ?thesis
    using push_response_values [OF assms(4,2,3) r] assms(1) i
    by (simp add: r add_response_def with_prompt_def Let_def)
qed

theorem push_response_refines_add_response_witness:
  "let p = \<lparr>pmt_name = ''p'', pmt_description = [], pmt_arguments = None, pmt_response = None\<rparr>;
       q = p\<lparr>pmt_response := Some [blank_response]\<rparr>;
       h = \<lparr>array_at = (\<lambda>a. [blank_response]), next_addr = 1\<rparr>;
       g = (defaultConfig [])\<lparr>gw_prompts := Some [p, q]\<rparr>
   in case push_response h [(p, None), (p, Some 0)] 1 of (h', ps') \<Rightarrow>
        add_response g 1 = Inr (put_prompts (map (deref h') ps'))"
proof -
  let ?p = "\<lparr>pmt_name = ''p'', pmt_description = [], pmt_arguments = None, pmt_response = None\<rparr>"
  let ?h = "\<lparr>array_at = (\<lambda>a. [blank_response]), next_addr = 1\<rparr>"
  let ?g = "(defaultConfig [])\<lparr>gw_prompts := Some [?p, ?p\<lparr>pmt_response := Some [blank_response]\<rparr>]\<rparr>"
  let ?ps = "[(?p, None), (?p, Some 0)]"
  have "case push_response ?h ?ps 1 of (h', ps') \<Rightarrow>
        add_response ?g 1 = Inr (put_prompts (map (deref h') ps'))"
  proof (rule push_response_refines_add_response)
    show "map (deref ?h) ?ps = prompts_shown ?g"
      by (simp add: deref_def prompts_shown_def opt_or_def)
    show "addrs_ok ?h ?ps" by (auto simp: addrs_ok_def less_Suc_eq)
    show "unshared ?ps" by (auto simp: unshared_def less_Suc_eq)
  qed simp
  then show ?thesis by (simp only: Let_def)
qed

text \<open>
  A finding: the push happens on the array of the configuration being shown. The
  prompt of the old state has the new response too, and so does every other prompt that shares
  the array (YAML anchors load to shared arrays).
\<close>

theorem push_response_changes_shared_arrays:
  assumes "snd (ps ! i) = Some a" and "snd rp = Some a"
  shows "case push_response h ps i of (h', ps') \<Rightarrow>
    responses_of (deref h' rp) = responses_of (deref h rp) @ [blank_response]"
  using assms by (simp add: push_response_def deref_def opt_or_def)

theorem push_response_changes_shared_arrays_witness:
  "let p = \<lparr>pmt_name = ''p'', pmt_description = [], pmt_arguments = None, pmt_response = None\<rparr>;
       q = p\<lparr>pmt_name := ''q''\<rparr>; h = \<lparr>array_at = (\<lambda>a. []), next_addr = 1\<rparr>
   in case push_response h [(p, Some 0), (q, Some 0)] 0 of (h', ps') \<Rightarrow>
        responses_of (deref h' (q, Some 0)) = [blank_response]"
proof -
  let ?p = "\<lparr>pmt_name = ''p'', pmt_description = [], pmt_arguments = None, pmt_response = None\<rparr>"
  let ?h = "\<lparr>array_at = (\<lambda>a. []), next_addr = 1\<rparr>"
  have "case push_response ?h [(?p, Some 0), (?p\<lparr>pmt_name := ''q''\<rparr>, Some 0)] 0 of (h', ps') \<Rightarrow>
      responses_of (deref h' (?p\<lparr>pmt_name := ''q''\<rparr>, Some 0))
        = responses_of (deref ?h (?p\<lparr>pmt_name := ''q''\<rparr>, Some 0)) @ [blank_response]"
    by (rule push_response_changes_shared_arrays) simp_all
  then show ?thesis
    by (simp add: Let_def deref_def opt_or_def case_prod_unfold)
qed

end
