(* ===== verification/Config_Editor.thy ===== *)
theory Config_Editor
  imports Prompts_Config
begin

text \<open>
  The configuration editor, \<open>src/web/src/pages/gateway/components/ConfigEditor.tsx\<close>: it parses
  the YAML text its parent holds, hands the parsed configuration to the forms, merges what they
  change, prints it and gives the text back to the parent. The js-yaml functions \<open>load\<close> and
  \<open>dump\<close> are parameters; \<open>dump\<close> is partial because it may throw.
\<close>

section \<open>State\<close>

text \<open>What \<open>yaml.load\<close> answers: it throws, or gives a configuration, or \<open>null\<close> or
  \<open>undefined\<close> for a document without content.\<close>

datatype yaml_result = Throws | Loaded "gateway option"

record editor =
  ed_config :: string
  ed_isYamlMode :: bool
  ed_parsedConfig :: "gateway option"
  ed_tenants :: "tenant list"
  ed_isLoadingTenants :: bool
  ed_formName :: "string option"
  ed_formTenant :: "string option"

type_synonym yaml_dump = "gateway \<Rightarrow> string option"
type_synonym yaml_load = "string \<Rightarrow> yaml_result"

section \<open>Operations\<close>

text \<open>The effect on \<open>config\<close>.\<close>

definition parse_config :: "yaml_load \<Rightarrow> string \<Rightarrow> string \<Rightarrow> gateway option" where
  "parse_config load now config =
     (if trim config = [] then Some (defaultConfig now)
      else (case load config of
              Throws \<Rightarrow> Some (defaultConfig now)
            | Loaded parsed \<Rightarrow> parsed))"

text \<open>The parent's state setter for the text; the effect runs when the text is another one.\<close>

definition onChange :: "yaml_load \<Rightarrow> string \<Rightarrow> string \<Rightarrow> editor \<Rightarrow> editor" where
  "onChange load now y e =
     (if y = ed_config e then e
      else e\<lparr>ed_config := y, ed_parsedConfig := parse_config load now y\<rparr>)"

definition merged :: "string \<Rightarrow> bool \<Rightarrow> editor \<Rightarrow> patch \<Rightarrow> gateway" where
  "merged now isEditing e newData =
     (let baseConfig = opt_or (ed_parsedConfig e) (defaultConfig now);
          updated = apply_patch baseConfig newData
      in case ed_parsedConfig e of
           Some parsed \<Rightarrow> if ed_isYamlMode e \<and> isEditing \<and> trim (gw_name parsed) \<noteq> []
                         then updated\<lparr>gw_name := gw_name parsed\<rparr> else updated
         | None \<Rightarrow> updated)"

definition updateConfig ::
    "yaml_dump \<Rightarrow> yaml_load \<Rightarrow> string \<Rightarrow> bool \<Rightarrow> patch \<Rightarrow> editor \<Rightarrow> editor" where
  "updateConfig dump load now isEditing newData e =
     (let updated = merged now isEditing e newData in
      case dump updated of
        None \<Rightarrow> e
      | Some yamlString \<Rightarrow> onChange load now yamlString (e\<lparr>ed_parsedConfig := Some updated\<rparr>))"

definition editor_init :: "yaml_load \<Rightarrow> string \<Rightarrow> string \<Rightarrow> editor" where
  "editor_init load now config =
     \<lparr>ed_config = config, ed_isYamlMode = False, ed_parsedConfig = parse_config load now config,
      ed_tenants = [], ed_isLoadingTenants = True, ed_formName = None, ed_formTenant = None\<rparr>"

text \<open>The answer of \<open>getTenants\<close> (or its failure) arrives.\<close>

definition tenants_arrive :: "tenant list option \<Rightarrow> editor \<Rightarrow> editor" where
  "tenants_arrive answer e =
     (case answer of Some ts \<Rightarrow> e\<lparr>ed_tenants := ts, ed_isLoadingTenants := False\<rparr>
      | None \<Rightarrow> e\<lparr>ed_isLoadingTenants := False\<rparr>)"

definition name_locked :: "bool \<Rightarrow> editor \<Rightarrow> bool" where
  "name_locked isEditing e \<longleftrightarrow> isEditing
     \<and> (case ed_parsedConfig e of None \<Rightarrow> False | Some g \<Rightarrow> trim (gw_name g) \<noteq> [])"

definition shown_name :: "editor \<Rightarrow> string" where
  "shown_name e = (case ed_formName e of Some n \<Rightarrow> n
     | None \<Rightarrow> (case ed_parsedConfig e of None \<Rightarrow> [] | Some g \<Rightarrow> gw_name g))"

definition change_name ::
    "yaml_dump \<Rightarrow> yaml_load \<Rightarrow> string \<Rightarrow> bool \<Rightarrow> string \<Rightarrow> editor \<Rightarrow> editor" where
  "change_name dump load now isEditing newName e =
     (updateConfig dump load now isEditing (no_patch\<lparr>p_name := Some newName\<rparr>) e)
       \<lparr>ed_formName := Some newName\<rparr>"

definition shown_tenant :: "editor \<Rightarrow> string" where
  "shown_tenant e =
     (case ed_formTenant e of
        Some t \<Rightarrow> t
      | None \<Rightarrow>
          let configTenant = (case ed_parsedConfig e of None \<Rightarrow> None
                | Some g \<Rightarrow> Some (strip_leading_slash (gw_tenant g)));
              activeTenants = filter ten_isActive (ed_tenants e)
          in case activeTenants of
               [] \<Rightarrow> ''default''
             | a # _ \<Rightarrow>
                 if list_ex (\<lambda>t. Some (ten_name t) = configTenant) activeTenants
                    \<and> str_truthy configTenant
                 then the configTenant else ten_name a)"

text \<open>What the editors of the tools, servers, routers and prompts are given as \<open>parsedConfig\<close>.\<close>

definition given_to_editors :: "string \<Rightarrow> editor \<Rightarrow> gateway" where
  "given_to_editors now e = opt_or (ed_parsedConfig e) (defaultConfig now)"

definition change_tenant ::
    "yaml_dump \<Rightarrow> yaml_load \<Rightarrow> string \<Rightarrow> bool \<Rightarrow> string \<Rightarrow> editor \<Rightarrow> editor" where
  "change_tenant dump load now isEditing newTenant e =
     (updateConfig dump load now isEditing (no_patch\<lparr>p_tenant := Some newTenant\<rparr>) e)
       \<lparr>ed_formTenant := Some newTenant\<rparr>"

definition tenant_options :: "editor \<Rightarrow> string list" where
  "tenant_options e =
     (if length (ed_tenants e) > 0 then map ten_name (filter ten_isActive (ed_tenants e))
      else [''default''])"

section \<open>The editor as a step relation\<close>

text \<open>The forms are there in form mode, the text editor in YAML mode; a locked name field takes
  no input.\<close>

inductive editor_step ::
    "yaml_dump \<Rightarrow> yaml_load \<Rightarrow> string \<Rightarrow> bool \<Rightarrow> editor \<Rightarrow> editor \<Rightarrow> bool"
  for dump load now isEditing where
  yaml_mode: "editor_step dump load now isEditing e (e\<lparr>ed_isYamlMode := True\<rparr>)"
| form_mode: "editor_step dump load now isEditing e (e\<lparr>ed_isYamlMode := False\<rparr>)"
| type_yaml: "ed_isYamlMode e
    \<Longrightarrow> editor_step dump load now isEditing e (onChange load now y e)"
| form_edit: "\<not> ed_isYamlMode e \<Longrightarrow> p_name newData = None \<Longrightarrow> p_tenant newData = None
    \<Longrightarrow> editor_step dump load now isEditing e (updateConfig dump load now isEditing newData e)"
| type_name: "\<not> ed_isYamlMode e \<Longrightarrow> \<not> name_locked isEditing e
    \<Longrightarrow> editor_step dump load now isEditing e (change_name dump load now isEditing n e)"
| pick_tenant: "\<not> ed_isYamlMode e \<Longrightarrow> t \<in> set (tenant_options e)
    \<Longrightarrow> editor_step dump load now isEditing e (change_tenant dump load now isEditing t e)"
| tenants: "editor_step dump load now isEditing e (tenants_arrive answer e)"

inductive_cases editor_stepE: "editor_step dump load now isEditing e e'"

definition editor_reaches ::
    "yaml_dump \<Rightarrow> yaml_load \<Rightarrow> string \<Rightarrow> bool \<Rightarrow> editor \<Rightarrow> editor \<Rightarrow> bool" where
  "editor_reaches dump load now isEditing = (editor_step dump load now isEditing)\<^sup>*\<^sup>*"

section \<open>The parsed configuration follows the text\<close>

text \<open>What is relied on of js-yaml: a text it printed is not blank and loads back to the same
  configuration.\<close>

definition yaml_roundtrip :: "yaml_dump \<Rightarrow> yaml_load \<Rightarrow> bool" where
  "yaml_roundtrip dump load \<longleftrightarrow>
     (\<forall>g y. dump g = Some y \<longrightarrow> trim y \<noteq> [] \<and> load y = Loaded (Some g))"

definition in_step :: "yaml_load \<Rightarrow> string \<Rightarrow> editor \<Rightarrow> bool" where
  "in_step load now e \<longleftrightarrow> ed_parsedConfig e = parse_config load now (ed_config e)"

lemma in_step_cong [simp]:
  "in_step load now (e\<lparr>ed_isYamlMode := b\<rparr>) = in_step load now e"
  "in_step load now (e\<lparr>ed_formName := n\<rparr>) = in_step load now e"
  "in_step load now (e\<lparr>ed_formTenant := n\<rparr>) = in_step load now e"
  "in_step load now (tenants_arrive a e) = in_step load now e"
  by (auto simp: in_step_def tenants_arrive_def split: option.split)

lemma in_step_onChange: "in_step load now e \<Longrightarrow> in_step load now (onChange load now y e)"
  by (simp add: in_step_def onChange_def)

lemma printed_parses:
  assumes "yaml_roundtrip dump load" "dump g = Some y"
  shows "parse_config load now y = Some g"
  using assms by (simp add: yaml_roundtrip_def parse_config_def)

lemma updateConfig_result:
  assumes "yaml_roundtrip dump load" "dump (merged now isEditing e p) = Some y"
  shows "updateConfig dump load now isEditing p e
    = e\<lparr>ed_config := y, ed_parsedConfig := Some (merged now isEditing e p)\<rparr>"
  using assms(2) printed_parses [OF assms]
  by (cases e) (simp add: updateConfig_def onChange_def Let_def)

lemma in_step_updateConfig:
  assumes "yaml_roundtrip dump load" "in_step load now e"
  shows "in_step load now (updateConfig dump load now isEditing p e)"
proof (cases "dump (merged now isEditing e p)")
  case None
  with assms(2) show ?thesis by (simp add: updateConfig_def)
next
  case (Some y)
  with updateConfig_result [OF assms(1) Some] printed_parses [OF assms(1) Some] show ?thesis
    by (simp add: in_step_def)
qed

lemma in_step_editor_step:
  assumes "yaml_roundtrip dump load" "editor_step dump load now isEditing e e'" "in_step load now e"
  shows "in_step load now e'"
  using assms(2,3)
  by (cases rule: editor_step.cases)
     (auto simp: change_name_def change_tenant_def in_step_onChange
       in_step_updateConfig [OF assms(1)])

section \<open>Properties of the configuration editor\<close>

text \<open>
  Property C4. Given that js-yaml loads back what it printed, the configuration given to the editors
  of the tools, servers, routers and prompts is at every moment the one the YAML text stands for, or
  the default when it stands for none, through any sequence of form edits, YAML edits, mode switches
  and tenant loads, also when printing throws. The name field shows the text's name as long as no name
  was typed into it; after that it, and the tenant field after a choice, may show another.
\<close>

theorem editors_are_given_the_parsed_text:
  assumes "yaml_roundtrip dump load"
    and "editor_reaches dump load now isEditing (editor_init load now config) e"
  shows "given_to_editors now e = opt_or (parse_config load now (ed_config e)) (defaultConfig now)
    \<and> ed_parsedConfig e = parse_config load now (ed_config e)
    \<and> (ed_formName e = None \<longrightarrow> shown_name e =
         (case parse_config load now (ed_config e) of None \<Rightarrow> [] | Some g \<Rightarrow> gw_name g))"
proof -
  from assms(2) have "in_step load now e"
    unfolding editor_reaches_def
  proof (induction rule: rtranclp_induct)
    case base
    show ?case by (simp add: in_step_def editor_init_def)
  next
    case (step e e')
    then show ?case using in_step_editor_step [OF assms(1)] by blast
  qed
  then show ?thesis by (simp add: in_step_def given_to_editors_def shown_name_def)
qed

theorem editors_are_given_the_parsed_text_witness:
  "let g = (defaultConfig [])\<lparr>gw_name := ''n''\<rparr>;
       dump = (\<lambda>x. if x = g then Some ''name: n'' else None);
       load = (\<lambda>y. if y = ''name: n'' then Loaded (Some g) else Throws);
       e = change_name dump load [] False ''n'' (editor_init load [] [])
   in editor_reaches dump load [] False (editor_init load [] []) e
      \<and> ed_config e = ''name: n''
      \<and> given_to_editors [] e = opt_or (parse_config load [] (ed_config e)) (defaultConfig [])"
proof -
  let ?g = "(defaultConfig [])\<lparr>gw_name := ''n''\<rparr>"
  let ?dump = "\<lambda>x. if x = ?g then Some ''name: n'' else None"
  let ?load = "\<lambda>y. if y = ''name: n'' then Loaded (Some ?g) else Throws"
  let ?i = "editor_init ?load [] []"
  let ?e = "change_name ?dump ?load [] False ''n'' ?i"
  have rt: "yaml_roundtrip ?dump ?load" unfolding yaml_roundtrip_def by (auto simp: trim_def js_ws_def)
  have "editor_step ?dump ?load [] False ?i ?e"
    by (rule type_name) (simp_all add: editor_init_def name_locked_def)
  then have run: "editor_reaches ?dump ?load [] False ?i ?e"
    unfolding editor_reaches_def by (rule r_into_rtranclp)
  have "merged [] False ?i (no_patch\<lparr>p_name := Some ''n''\<rparr>) = ?g"
    by (simp add: merged_def editor_init_def parse_config_def opt_or_def apply_patch_def no_patch_def
        over_def defaultConfig_def)
  then have "ed_config ?e = ''name: n''"
    using updateConfig_result [OF rt, of "[]" False ?i "no_patch\<lparr>p_name := Some ''n''\<rparr>"]
    by (simp add: change_name_def)
  with run editors_are_given_the_parsed_text [OF rt run] show ?thesis by (simp only: Let_def)
qed

text \<open>
  A finding: the name lock does not hold in YAML mode. The guard that restores the
  name sits in \<open>updateConfig\<close>, which only the forms call; a text typed in YAML mode while editing
  an existing configuration is taken over with whatever name it has.
\<close>

theorem yaml_mode_ignores_name_lock:
  assumes "ed_isYamlMode e" and "name_locked isEditing e" and "trim y \<noteq> []"
    and "load y = Loaded (Some g)" and "y \<noteq> ed_config e"
  shows "\<exists>e'. editor_step dump load now isEditing e e' \<and> ed_config e' = y
    \<and> map_option gw_name (ed_parsedConfig e') = Some (gw_name g)"
proof (intro exI conjI)
  show "editor_step dump load now isEditing e (onChange load now y e)"
    using assms(1) by (rule type_yaml)
qed (use assms in \<open>simp_all add: onChange_def parse_config_def\<close>)

theorem yaml_mode_ignores_name_lock_witness:
  "let g = (defaultConfig [])\<lparr>gw_name := ''old''\<rparr>; g' = g\<lparr>gw_name := ''new''\<rparr>;
       load = (\<lambda>y. if y = ''name: old'' then Loaded (Some g)
                   else if y = ''name: new'' then Loaded (Some g') else Throws);
       e = (editor_init load [] ''name: old'')\<lparr>ed_isYamlMode := True\<rparr>
   in name_locked True e \<and> (\<exists>e'. editor_step (\<lambda>_. None) load [] True e e'
        \<and> map_option gw_name (ed_parsedConfig e') = Some ''new'')"
proof -
  let ?g = "(defaultConfig [])\<lparr>gw_name := ''old''\<rparr>"
  let ?load = "\<lambda>y. if y = ''name: old'' then Loaded (Some ?g)
                   else if y = ''name: new'' then Loaded (Some (?g\<lparr>gw_name := ''new''\<rparr>)) else Throws"
  let ?e = "(editor_init ?load [] ''name: old'')\<lparr>ed_isYamlMode := True\<rparr>"
  have t: "trim ''name: old'' = ''name: old''" "trim ''name: new'' = ''name: new''"
    "trim ''old'' = ''old''" by code_simp+
  have locked: "name_locked True ?e"
    by (simp add: name_locked_def editor_init_def parse_config_def t)
  have "\<exists>e'. editor_step (\<lambda>_. None) ?load [] True ?e e' \<and> ed_config e' = ''name: new''
      \<and> map_option gw_name (ed_parsedConfig e') = Some (gw_name (?g\<lparr>gw_name := ''new''\<rparr>))"
    by (rule yaml_mode_ignores_name_lock) (simp_all add: locked t, simp add: editor_init_def)
  with locked show ?thesis by (auto simp: Let_def)
qed

text \<open>
  A finding: once a name was typed in the form, the form keeps showing it whatever
  the text later says: after a YAML edit that loads to another name, the field and the
  configuration disagree.
\<close>

theorem typed_name_hides_later_names:
  assumes "e1 = change_name dump load now isEditing n e"
    and "e2 = onChange load now y (e1\<lparr>ed_isYamlMode := True\<rparr>)"
    and "trim y \<noteq> []" and "load y = Loaded (Some g)" and "y \<noteq> ed_config e1"
  shows "shown_name e2 = n \<and> map_option gw_name (ed_parsedConfig e2) = Some (gw_name g)"
  using assms by (simp add: onChange_def shown_name_def change_name_def parse_config_def)

theorem typed_name_hides_later_names_witness:
  "let g = (defaultConfig [])\<lparr>gw_name := ''b''\<rparr>;
       load = (\<lambda>y. if y = ''name: b'' then Loaded (Some g) else Throws);
       e1 = change_name (\<lambda>_. Some ''name: a'') load [] False ''a'' (editor_init load [] []);
       e2 = onChange load [] ''name: b'' (e1\<lparr>ed_isYamlMode := True\<rparr>)
   in shown_name e2 = ''a'' \<and> map_option gw_name (ed_parsedConfig e2) = Some ''b''"
proof -
  let ?g = "(defaultConfig [])\<lparr>gw_name := ''b''\<rparr>"
  let ?load = "\<lambda>y. if y = ''name: b'' then Loaded (Some ?g) else Throws"
  let ?e1 = "change_name (\<lambda>_. Some ''name: a'') ?load [] False ''a'' (editor_init ?load [] [])"
  have t: "trim ''name: b'' = ''name: b''" by code_simp
  have c: "ed_config ?e1 = ''name: a''"
    by (simp add: change_name_def updateConfig_def onChange_def editor_init_def Let_def)
  have "shown_name (onChange ?load [] ''name: b'' (?e1\<lparr>ed_isYamlMode := True\<rparr>)) = ''a''
     \<and> map_option gw_name (ed_parsedConfig (onChange ?load [] ''name: b''
          (?e1\<lparr>ed_isYamlMode := True\<rparr>))) = Some (gw_name ?g)"
    by (rule typed_name_hides_later_names [OF refl refl]) (simp_all add: t c)
  then show ?thesis by (simp add: Let_def)
qed

text \<open>
  A finding: when the configuration's tenant is not an active tenant, the form shows
  the first active tenant as selected although the configuration names another one.
\<close>

theorem inactive_tenant_shown_as_first_active:
  assumes "ed_formTenant e = None" and "ed_parsedConfig e = Some g"
    and "filter ten_isActive (ed_tenants e) = a # rest"
    and "strip_leading_slash (gw_tenant g) \<notin> ten_name ` set (a # rest)"
  shows "shown_tenant e = ten_name a \<and> shown_tenant e \<noteq> strip_leading_slash (gw_tenant g)"
proof -
  from assms(4) have "\<not> list_ex (\<lambda>t. Some (ten_name t) = Some (strip_leading_slash (gw_tenant g))) (a # rest)"
    unfolding list_ex_iff by (metis imageI option.inject)
  with assms show ?thesis by (simp add: shown_tenant_def Let_def)
qed

theorem inactive_tenant_shown_as_first_active_witness:
  "let t = (\<lambda>n b. \<lparr>ten_id = 1, ten_name = n, ten_prefix = ''/'' @ n, ten_description = [],
            ten_isActive = b\<rparr>);
       e = tenants_arrive (Some [t ''default'' False, t ''acme'' True]) (editor_init (\<lambda>_. Throws) [] [])
   in shown_tenant e = ''acme'' \<and> map_option gw_tenant (ed_parsedConfig e) = Some ''default''"
proof -
  let ?t = "\<lambda>n b. \<lparr>ten_id = 1, ten_name = n, ten_prefix = ''/'' @ n, ten_description = [],
            ten_isActive = b\<rparr>"
  let ?e = "tenants_arrive (Some [?t ''default'' False, ?t ''acme'' True])
              (editor_init (\<lambda>_. Throws) [] [])"
  have p: "ed_parsedConfig ?e = Some (defaultConfig [])"
    by (simp add: tenants_arrive_def editor_init_def parse_config_def)
  have "shown_tenant ?e = ten_name (?t ''acme'' True)
      \<and> shown_tenant ?e \<noteq> strip_leading_slash (gw_tenant (defaultConfig []))"
    by (rule inactive_tenant_shown_as_first_active [OF _ p, where rest = "[]"])
       (simp_all add: tenants_arrive_def editor_init_def defaultConfig_def strip_leading_slash_def)
  with p show ?thesis by (simp add: Let_def defaultConfig_def)
qed

end
