(* ===== verification/Js_Io.thy ===== *)
theory Js_Io
  imports Js_Json
begin

text \<open>
  The effects of the dashboard's asynchronous functions, passed explicitly: what is sent to the
  backend, the toasts shown, the local storage, the location. An \<open>async\<close> function is a
  function from the world to its outcome (a rejection or a value) and the world after it; the
  backend, which is not part of this code, is a function from the requests so far and the new
  request to an answer, and a parameter of everything that talks to it.
\<close>

section \<open>Requests and answers\<close>

datatype body = NoBody | JsonBody json | TextBody string | FormBody "(string \<times> string) list"

record request =
  rq_method :: string
  rq_url :: string
  rq_params :: "(string \<times> json) list"
  rq_body :: body
  rq_headers :: "string obj"

datatype answer = Answered nat jv | Unreachable string

type_synonym backend = "request list \<Rightarrow> request \<Rightarrow> answer"

section \<open>Rejections\<close>

text \<open>An axios error carries the response when there was one; \<open>new Error(m)\<close> and the
  errors of the language are the other kinds.\<close>

datatype js_exn =
    Axios_error string "(nat \<times> jv) option"
  | Error_exn string
  | Js_exn js_error

fun exn_message :: "js_exn \<Rightarrow> string" where
  "exn_message (Axios_error m r) = m"
| "exn_message (Error_exn m) = m"
| "exn_message (Js_exn (TypeError m)) = m"
| "exn_message (Js_exn (IllTyped m)) = m"

fun exn_response :: "js_exn \<Rightarrow> (nat \<times> jv) option" where
  "exn_response (Axios_error m r) = r"
| "exn_response _ = None"

definition isAxiosError :: "js_exn \<Rightarrow> bool" where
  "isAxiosError e = (case e of Axios_error m r \<Rightarrow> True | _ \<Rightarrow> False)"

text \<open>\<open>error.response?.status === n\<close> and \<open>error.response?.data?.error\<close>.\<close>

definition status_is :: "js_exn \<Rightarrow> nat \<Rightarrow> bool" where
  "status_is e n = (case exn_response e of Some (s, d) \<Rightarrow> s = n | None \<Rightarrow> False)"

definition server_error :: "js_exn \<Rightarrow> jv" where
  "server_error e = (case exn_response e of Some (s, d) \<Rightarrow> js_opt_field d ''error'' | None \<Rightarrow> None)"

section \<open>The world\<close>

text \<open>A toast shows a translated key or a text of the server.\<close>

datatype toast_kind = Success | Danger | Warning | Info
datatype toast_text = Tr string | Server json

record world =
  w_log :: "request list"
  w_toasts :: "(toast_kind \<times> toast_text) list"
  w_storage :: "string \<Rightarrow> string option"
  w_path :: string
  w_lang :: string
  w_downloads :: "(string \<times> string) list"

type_synonym 'a io = "world \<Rightarrow> (js_exn + 'a) \<times> world"

section \<open>Sequencing, throwing and catching\<close>

definition ret :: "'a \<Rightarrow> 'a io" where
  "ret x w = (Inr x, w)"

definition throw :: "js_exn \<Rightarrow> 'a io" where
  "throw e w = (Inl e, w)"

definition bnd :: "'a io \<Rightarrow> ('a \<Rightarrow> 'b io) \<Rightarrow> 'b io" where
  "bnd m f w = (case m w of (Inl e, w') \<Rightarrow> (Inl e, w') | (Inr x, w') \<Rightarrow> f x w')"

definition andthen :: "'a io \<Rightarrow> 'b io \<Rightarrow> 'b io" where
  "andthen m n = bnd m (\<lambda>_. n)"

definition catch :: "'a io \<Rightarrow> (js_exn \<Rightarrow> 'a io) \<Rightarrow> 'a io" where
  "catch m h w = (case m w of (Inl e, w') \<Rightarrow> h e w' | (Inr x, w') \<Rightarrow> (Inr x, w'))"

definition finally_do :: "'a io \<Rightarrow> (world \<Rightarrow> world) \<Rightarrow> 'a io" where
  "finally_do m f w = (case m w of (r, w') \<Rightarrow> (r, f w'))"

definition lift_res :: "'a result \<Rightarrow> 'a io" where
  "lift_res r w = (case r of Inl e \<Rightarrow> (Inl (Js_exn e), w) | Inr x \<Rightarrow> (Inr x, w))"

definition get_field :: "jv \<Rightarrow> string \<Rightarrow> jv io" where
  "get_field v k = lift_res (js_field v k)"

definition toast :: "toast_kind \<Rightarrow> toast_text \<Rightarrow> unit io" where
  "toast k m w = (Inr (), w\<lparr>w_toasts := w_toasts w @ [(k, m)]\<rparr>)"

named_theorems io_simps \<open>evaluation of sequences of effects\<close>

lemmas [io_simps] = ret_def throw_def bnd_def andthen_def catch_def lift_res_def get_field_def
  toast_def

lemma bnd_ret [simp]: "bnd (ret x) f = f x"
  by (rule ext) (simp add: bnd_def ret_def)

lemma bnd_assoc: "bnd (bnd m f) g = bnd m (\<lambda>x. bnd (f x) g)"
  by (rule ext) (simp add: bnd_def split: prod.split sum.split)

lemma catch_throw [simp]: "catch (throw e) h = h e"
  by (rule ext) (simp add: catch_def throw_def)

lemma catch_ret [simp]: "catch (ret x) h = ret x"
  by (rule ext) (simp add: catch_def ret_def)

section \<open>What an effect sends\<close>

text \<open>The requests an effect adds to the log all satisfy \<open>P\<close>; the rules follow the way effects
  are put together.\<close>

definition emits :: "(request \<Rightarrow> bool) \<Rightarrow> 'a io \<Rightarrow> bool" where
  "emits P m \<longleftrightarrow> (\<forall>w. \<exists>l. w_log (snd (m w)) = w_log w @ l \<and> list_all P l)"

named_theorems emit_rules \<open>which requests the building blocks send\<close>

lemma emitsD:
  assumes "emits P m" "m w = (r, w')"
  shows "\<exists>l. w_log w' = w_log w @ l \<and> list_all P l"
  using assms by (metis emits_def snd_conv)

lemma emits_silent:
  assumes "\<And>w. w_log (snd (m w)) = w_log w"
  shows "emits P m"
  unfolding emits_def using assms by (intro allI exI [of _ "[]"]) simp

lemma emits_ret [emit_rules]: "emits P (ret x)"
  by (rule emits_silent) (simp add: ret_def)

lemma emits_throw [emit_rules]: "emits P (throw e)"
  by (rule emits_silent) (simp add: throw_def)

lemma emits_toast [emit_rules]: "emits P (toast k m)"
  by (rule emits_silent) (simp add: toast_def)

lemma emits_lift [emit_rules]: "emits P (lift_res r)"
  by (rule emits_silent) (simp add: lift_res_def split: sum.split)

lemma emits_field [emit_rules]: "emits P (get_field v k)"
  unfolding get_field_def by (rule emits_lift)

lemma emits_bnd [emit_rules]:
  assumes "emits P m" "\<And>x. emits P (f x)"
  shows "emits P (bnd m f)"
  unfolding emits_def
proof
  fix w
  obtain r w' where m: "m w = (r, w')" by (cases "m w") auto
  from emitsD [OF assms(1) m] obtain l where l: "w_log w' = w_log w @ l" "list_all P l" by blast
  show "\<exists>l. w_log (snd (bnd m f w)) = w_log w @ l \<and> list_all P l"
  proof (cases r)
    case (Inl e)
    with m l show ?thesis by (simp add: bnd_def)
  next
    case (Inr x)
    obtain r2 w2 where f: "f x w' = (r2, w2)" by (cases "f x w'") auto
    from emitsD [OF assms(2) f] obtain l2 where "w_log w2 = w_log w' @ l2" "list_all P l2" by blast
    with m l Inr f show ?thesis by (simp add: bnd_def)
  qed
qed

lemma emits_andthen [emit_rules]: "emits P m \<Longrightarrow> emits P n \<Longrightarrow> emits P (andthen m n)"
  unfolding andthen_def by (rule emits_bnd)

lemma emits_catch [emit_rules]:
  assumes "emits P m" "\<And>e. emits P (h e)"
  shows "emits P (catch m h)"
  unfolding emits_def
proof
  fix w
  obtain r w' where m: "m w = (r, w')" by (cases "m w") auto
  from emitsD [OF assms(1) m] obtain l where l: "w_log w' = w_log w @ l" "list_all P l" by blast
  show "\<exists>l. w_log (snd (catch m h w)) = w_log w @ l \<and> list_all P l"
  proof (cases r)
    case (Inr x)
    with m l show ?thesis by (simp add: catch_def)
  next
    case (Inl e)
    obtain r2 w2 where f: "h e w' = (r2, w2)" by (cases "h e w'") auto
    from emitsD [OF assms(2) f] obtain l2 where "w_log w2 = w_log w' @ l2" "list_all P l2" by blast
    with m l Inl f show ?thesis by (simp add: catch_def)
  qed
qed

lemma log_grows:
  assumes "emits P m"
  shows "\<exists>l. w_log (snd (m w)) = w_log w @ l"
  using assms unfolding emits_def by blast

lemma log_after_first:
  assumes "\<And>x. emits P (f x)" "rq \<in> set (w_log (snd (m w)))"
  shows "rq \<in> set (w_log (snd (bnd m f w)))"
proof -
  obtain r w' where m: "m w = (r, w')" by (cases "m w")
  show ?thesis
  proof (cases r)
    case (Inr x)
    from log_grows [OF assms(1), of x w'] obtain l where "w_log (snd (f x w')) = w_log w' @ l" by blast
    with Inr m assms(2) show ?thesis by (simp add: bnd_def)
  qed (use m assms(2) in \<open>simp add: bnd_def\<close>)
qed

lemma log_through_catch:
  assumes "\<And>e. emits P (h e)" "rq \<in> set (w_log (snd (m w)))"
  shows "rq \<in> set (w_log (snd (catch m h w)))"
proof -
  obtain r w' where m: "m w = (r, w')" by (cases "m w")
  show ?thesis
  proof (cases r)
    case (Inl e)
    from log_grows [OF assms(1), of e w'] obtain l where "w_log (snd (h e w')) = w_log w' @ l" by blast
    with Inl m assms(2) show ?thesis by (simp add: catch_def)
  qed (use m assms(2) in \<open>simp add: catch_def\<close>)
qed

section \<open>Answers that arrive in the order of their requests\<close>

text \<open>A page asks for what it wants whenever that changes, without cancelling what is under way, and
  shows every answer that arrives; \<open>fits q a\<close> says that \<open>a\<close> may be an answer to \<open>q\<close>. Nothing goes
  wrong as long as answers keep the order of the requests and the last request is not lost.\<close>

locale latest_answer =
  fixes pending :: "'s \<Rightarrow> 'q list"
    and wanted :: "'s \<Rightarrow> 'q"
    and shown :: "'s \<Rightarrow> 'a"
    and fits :: "'q \<Rightarrow> 'a \<Rightarrow> bool"
    and ask :: "'s \<Rightarrow> 's"
    and arrive :: "'s \<Rightarrow> 's \<Rightarrow> bool"
  assumes pending_ask: "pending (ask s) = pending s @ [wanted s]"
    and wanted_ask: "wanted (ask s) = wanted s"
    and pending_arrive: "arrive s s' \<Longrightarrow> pending s \<noteq> [] \<and> pending s' = tl (pending s)"
    and shown_arrive: "arrive s s' \<Longrightarrow> fits (hd (pending s)) (shown s')"
    and wanted_arrive: "arrive s s' \<Longrightarrow> wanted s' = wanted s"
begin

definition latest :: "'s \<Rightarrow> bool" where
  "latest s \<longleftrightarrow> (if pending s = [] then fits (wanted s) (shown s) else last (pending s) = wanted s)"

lemma latest_ask: "latest (ask s)"
  by (simp add: latest_def pending_ask wanted_ask)

lemma latest_arrive:
  assumes "latest s" "arrive s s'"
  shows "latest s'"
proof -
  from pending_arrive [OF assms(2)] have p: "pending s \<noteq> []" "pending s' = tl (pending s)" by simp_all
  show ?thesis
  proof (cases "tl (pending s) = []")
    case True
    with p have "last (pending s) = hd (pending s)" by (cases "pending s") simp_all
    with assms p True show ?thesis
      using shown_arrive [OF assms(2)] wanted_arrive [OF assms(2)] by (simp add: latest_def)
  next
    case False
    with assms p show ?thesis using wanted_arrive [OF assms(2)] by (simp add: latest_def last_tl)
  qed
qed

text \<open>A request that is lost while a later one is under way.\<close>

lemma latest_lost:
  assumes "latest s" "pending s' = tl (pending s)" "tl (pending s) \<noteq> []" "wanted s' = wanted s"
  shows "latest s'"
  using assms by (cases "pending s") (simp_all add: latest_def)

lemma latest_shown: "latest s \<Longrightarrow> pending s = [] \<Longrightarrow> fits (wanted s) (shown s)"
  by (simp add: latest_def)

end

end
