(* ===== verification/Api_Client.thy ===== *)
theory Api_Client
  imports Js_Io Gateway_Types
begin

text \<open>
  The client of the backend, \<open>src/web/src/services/api.ts\<close> with
  \<open>utils/error-handler.ts\<close>: the two interceptors, every endpoint with its error handling, and the
  tenant operations with their prefix checks.
\<close>

section \<open>The axios instance\<close>

definition method_request :: "string \<Rightarrow> string \<Rightarrow> request" where
  "method_request m url = \<lparr>rq_method = m, rq_url = url, rq_params = [], rq_body = NoBody,
     rq_headers = [(''Content-Type'', ''application/json'')]\<rparr>"

text \<open>The request interceptor.\<close>

definition request_interceptor :: "world \<Rightarrow> request \<Rightarrow> request" where
  "request_interceptor w rq =
     (let h = obj_set (rq_headers rq) ''X-Lang'' (str_or (w_lang w) ''zh'');
          h' = (case w_storage w ''token'' of
                  Some token \<Rightarrow> if token \<noteq> [] then obj_set h ''Authorization'' (''Bearer '' @ token) else h
                | None \<Rightarrow> h)
      in rq\<lparr>rq_headers := h'\<rparr>)"

text \<open>The response interceptor for a rejection; it rejects with the same error.\<close>

definition response_interceptor :: "js_exn \<Rightarrow> world \<Rightarrow> world" where
  "response_interceptor e w =
     (if status_is e 401 then
        let w' = w\<lparr>w_storage := (w_storage w)(''token'' := None)\<rparr> in
        if w_path w' \<noteq> ''/login'' then w'\<lparr>w_path := ''/login''\<rparr> else w'
      else w)"

definition answer_outcome :: "answer \<Rightarrow> js_exn + jv" where
  "answer_outcome a =
     (case a of
        Answered s d \<Rightarrow> if 200 \<le> s \<and> s < 300 then Inr d
          else Inl (Axios_error (''Request failed with status code '' @ nat_str s) (Some (s, d)))
      | Unreachable m \<Rightarrow> Inl (Axios_error m None))"

text \<open>One request through the instance; the value is \<open>response.data\<close>.\<close>

definition send :: "backend \<Rightarrow> request \<Rightarrow> jv io" where
  "send be rq w =
     (let rq' = request_interceptor w rq; w' = w\<lparr>w_log := w_log w @ [rq']\<rparr> in
      case answer_outcome (be (w_log w) rq') of
        Inr d \<Rightarrow> (Inr d, w')
      | Inl e \<Rightarrow> (Inl e, response_interceptor e w'))"

definition api_get :: "backend \<Rightarrow> string \<Rightarrow> (string \<times> json) list \<Rightarrow> jv io" where
  "api_get be url params = send be ((method_request ''GET'' url)\<lparr>rq_params := params\<rparr>)"

definition api_delete :: "backend \<Rightarrow> string \<Rightarrow> jv io" where
  "api_delete be url = send be (method_request ''DELETE'' url)"

definition api_post :: "backend \<Rightarrow> string \<Rightarrow> body \<Rightarrow> jv io" where
  "api_post be url b = send be ((method_request ''POST'' url)\<lparr>rq_body := b\<rparr>)"

definition api_put :: "backend \<Rightarrow> string \<Rightarrow> body \<Rightarrow> jv io" where
  "api_put be url b = send be ((method_request ''PUT'' url)\<lparr>rq_body := b\<rparr>)"

definition with_content_type :: "string \<Rightarrow> request \<Rightarrow> request" where
  "with_content_type ct rq = rq\<lparr>rq_headers := obj_set (rq_headers rq) ''Content-Type'' ct\<rparr>"

section \<open>Error handling\<close>

definition handleApiError :: "js_exn \<Rightarrow> string \<Rightarrow> toast_text io" where
  "handleApiError e fallback =
     (if isAxiosError e \<and> js_truthy (server_error e) then
        andthen (toast Danger (Server (the (server_error e)))) (ret (Server (the (server_error e))))
      else andthen (toast Danger (Tr fallback)) (ret (Tr fallback)))"

text \<open>The two shapes of \<open>catch\<close> block the endpoints use: \<open>handleApiError\<close>, or a fixed
  toast; both rethrow.\<close>

definition api_try :: "string \<Rightarrow> 'a io \<Rightarrow> 'a io" where
  "api_try fallback m = catch m (\<lambda>e. andthen (handleApiError e fallback) (throw e))"

definition toast_try :: "string \<Rightarrow> 'a io \<Rightarrow> 'a io" where
  "toast_try key m = catch m (\<lambda>e. andthen (toast Danger (Tr key)) (throw e))"

text \<open>\<open>response.data.data\<close> and \<open>response.data.data || response.data\<close>.\<close>

definition inner_data :: "jv \<Rightarrow> jv io" where
  "inner_data d = get_field d ''data''"

definition data_or_whole :: "jv \<Rightarrow> jv io" where
  "data_or_whole d = bnd (get_field d ''data'') (\<lambda>x. ret (js_or x d))"

section \<open>Gateway configurations\<close>

definition tenant_params :: "int option \<Rightarrow> (string \<times> json) list" where
  "tenant_params tenantId =
     (case tenantId of Some n \<Rightarrow> if n \<noteq> 0 then [(''tenantId'', JInt n)] else [] | None \<Rightarrow> [])"

definition getMCPServers :: "backend \<Rightarrow> int option \<Rightarrow> jv io" where
  "getMCPServers be tenantId = api_try ''errors.fetch_mcp_servers''
     (bnd (api_get be ''/mcp/configs'' (tenant_params tenantId)) inner_data)"

definition createMCPServer :: "backend \<Rightarrow> string \<Rightarrow> jv io" where
  "createMCPServer be config = api_try ''errors.create_mcp_server''
     (send be (with_content_type ''application/yaml''
       ((method_request ''POST'' ''/mcp/configs'')\<lparr>rq_body := TextBody config\<rparr>)))"

definition updateMCPServer :: "backend \<Rightarrow> string \<Rightarrow> jv io" where
  "updateMCPServer be config = api_try ''errors.update_mcp_server''
     (send be (with_content_type ''application/yaml''
       ((method_request ''PUT'' ''/mcp/configs'')\<lparr>rq_body := TextBody config\<rparr>)))"

definition deleteMCPServer :: "backend \<Rightarrow> string \<Rightarrow> string \<Rightarrow> jv io" where
  "deleteMCPServer be tenant name = api_try ''errors.delete_mcp_server''
     (api_delete be (''/mcp/configs/'' @ tenant @ ''/'' @ name))"

text \<open>\<open>dump\<close> is js-yaml's; the blob, the link and the click save a file.\<close>

definition exportMCPServer :: "(gateway \<Rightarrow> string option) \<Rightarrow> gateway \<Rightarrow> unit io" where
  "exportMCPServer dump server = api_try ''errors.export_mcp_server''
     (case dump server of
        None \<Rightarrow> throw (Error_exn ''YAMLException'')
      | Some config \<Rightarrow> andthen (toast Info (Tr ''gateway.exporting''))
          (\<lambda>w. (Inr (), w\<lparr>w_downloads := w_downloads w @ [(gw_name server @ ''.yaml'', config)]\<rparr>)))"

definition syncMCPServers :: "backend \<Rightarrow> jv io" where
  "syncMCPServers be = api_try ''errors.sync_mcp_server'' (api_post be ''/mcp/configs/sync'' NoBody)"

section \<open>Chat history\<close>

definition getChatMessages :: "backend \<Rightarrow> string \<Rightarrow> int \<Rightarrow> int \<Rightarrow> jv io" where
  "getChatMessages be sessionId page pageSize = api_try ''errors.fetch_chat_messages''
     (bnd (api_get be (''/chat/sessions/'' @ sessionId @ ''/messages'')
        [(''page'', JInt page), (''pageSize'', JInt pageSize)]) data_or_whole)"

definition getChatSessions :: "backend \<Rightarrow> jv io" where
  "getChatSessions be = api_try ''errors.fetch_chat_sessions''
     (bnd (api_get be ''/chat/sessions'' []) data_or_whole)"

definition deleteChatSession :: "backend \<Rightarrow> string \<Rightarrow> jv io" where
  "deleteChatSession be sessionId = api_try ''errors.delete_chat_session''
     (bnd (api_delete be (''/chat/sessions/'' @ sessionId)) data_or_whole)"

definition updateChatSessionTitle :: "backend \<Rightarrow> string \<Rightarrow> string \<Rightarrow> jv io" where
  "updateChatSessionTitle be sessionId title = api_try ''errors.rename_chat_session''
     (bnd (api_put be (''/chat/sessions/'' @ sessionId @ ''/title'')
        (JsonBody (JObj [(''title'', JStr title)]))) data_or_whole)"

text \<open>A message is an object with the fields \<open>id\<close>, \<open>session_id\<close> and so on; the two
  structured fields are sent as JSON text when they are there (an \<open>undefined\<close> field is not sent).\<close>

definition stringified_field :: "(string \<times> json) list \<Rightarrow> string \<Rightarrow> (string \<times> json) list" where
  "stringified_field m k =
     (case obj_get m k of
        Some v \<Rightarrow> if json_truthy v then obj_set m k (JStr (stringify v)) else obj_delete m k
      | None \<Rightarrow> m)"

definition saveChatMessage :: "backend \<Rightarrow> (string \<times> json) list \<Rightarrow> jv io" where
  "saveChatMessage be message = api_try ''errors.save_chat_message''
     (bnd (api_post be ''/chat/messages''
        (JsonBody (JObj (stringified_field (stringified_field message ''toolCalls'') ''toolResult''))))
        data_or_whole)"

section \<open>OpenAPI import\<close>

definition importOpenAPI ::
    "backend \<Rightarrow> string \<Rightarrow> string option \<Rightarrow> string option \<Rightarrow> jv io" where
  "importOpenAPI be file tenantName prefix = api_try ''errors.import_openapi''
     (send be (with_content_type ''multipart/form-data''
       ((method_request ''POST'' ''/openapi/import'')\<lparr>rq_body := FormBody
          [(''file'', file), (''tenantName'', opt_or tenantName []), (''prefix'', opt_or prefix [])]\<rparr>)))"

section \<open>Users\<close>

definition getUsers :: "backend \<Rightarrow> jv io" where
  "getUsers be = toast_try ''errors.fetch_users'' (bnd (api_get be ''/auth/users'' []) data_or_whole)"

definition getUser :: "backend \<Rightarrow> string \<Rightarrow> jv io" where
  "getUser be username = toast_try ''errors.fetch_user''
     (bnd (api_get be (''/auth/users/'' @ username) []) data_or_whole)"

definition and_toast :: "jv io \<Rightarrow> string \<Rightarrow> jv io" where
  "and_toast m key = bnd m (\<lambda>d. andthen (toast Success (Tr key)) (ret d))"

definition createUser :: "backend \<Rightarrow> json \<Rightarrow> jv io" where
  "createUser be data = toast_try ''users.add_failed''
     (and_toast (api_post be ''/auth/users'' (JsonBody data)) ''users.add_success'')"

definition updateUser :: "backend \<Rightarrow> json \<Rightarrow> jv io" where
  "updateUser be data = toast_try ''users.edit_failed''
     (and_toast (api_put be ''/auth/users'' (JsonBody data)) ''users.edit_success'')"

definition deleteUser :: "backend \<Rightarrow> string \<Rightarrow> jv io" where
  "deleteUser be username = toast_try ''users.delete_failed''
     (and_toast (api_delete be (''/auth/users/'' @ username)) ''users.delete_success'')"

definition toggleUserStatus :: "backend \<Rightarrow> string \<Rightarrow> bool \<Rightarrow> jv io" where
  "toggleUserStatus be username isActive =
     toast_try (if isActive then ''users.enable_failed'' else ''users.disable_failed'')
       (and_toast (api_put be ''/auth/users''
          (JsonBody (JObj [(''username'', JStr username), (''isActive'', JBool isActive)])))
          (if isActive then ''users.enable_success'' else ''users.disable_success''))"

definition getUserWithTenants :: "backend \<Rightarrow> string \<Rightarrow> jv io" where
  "getUserWithTenants be username = toast_try ''errors.fetch_user''
     (bnd (api_get be (''/auth/users/'' @ username) []) data_or_whole)"

definition getUserAuthorizedTenants :: "backend \<Rightarrow> jv io" where
  "getUserAuthorizedTenants be =
     bnd (bnd (api_get be ''/auth/user'' []) data_or_whole)
       (\<lambda>data. bnd (get_field data ''tenants'') (\<lambda>ts. ret (js_or ts (Some (JArr [])))))"

definition updateUserTenants :: "backend \<Rightarrow> int \<Rightarrow> int list \<Rightarrow> jv io" where
  "updateUserTenants be userId tenantIds = toast_try ''users.update_tenants_failed''
     (and_toast (api_put be ''/auth/users/tenants''
        (JsonBody (JObj [(''userId'', JInt userId), (''tenantIds'', JArr (map JInt tenantIds))])))
        ''users.update_tenants_success'')"

definition getCurrentUser :: "backend \<Rightarrow> jv io" where
  "getCurrentUser be = api_get be ''/auth/user/info'' []"

section \<open>Configuration versions and capabilities\<close>

definition getMCPConfigNames :: "backend \<Rightarrow> string option \<Rightarrow> jv io" where
  "getMCPConfigNames be tenant = api_try ''errors.fetch_config_names''
     (bnd (api_get be ''/mcp/configs/names'' ((''includeDeleted'', JBool True) #
        (case tenant of Some t \<Rightarrow> [(''tenant'', JStr t)] | None \<Rightarrow> [])))
        (\<lambda>d. bnd (get_field d ''data'') (\<lambda>x. ret (js_or x (Some (JArr []))))))"

definition getMCPConfigVersions :: "backend \<Rightarrow> string option \<Rightarrow> string option \<Rightarrow> jv io" where
  "getMCPConfigVersions be tenant name = api_try ''errors.fetch_config_versions''
     (api_get be ''/mcp/configs/versions''
        ((if str_truthy tenant then [(''tenant'', JStr (the tenant))] else [])
         @ (if str_truthy name then [(''names'', JStr (the name))] else [])))"

definition setActiveVersion :: "backend \<Rightarrow> string \<Rightarrow> string \<Rightarrow> int \<Rightarrow> jv io" where
  "setActiveVersion be tenant name version = api_try ''errors.set_active_version''
     (andthen (api_post be (''/mcp/configs/'' @ tenant @ ''/'' @ name @ ''/versions/'' @ int_str version
        @ ''/active'') NoBody) (ret None))"

definition getMCPServerCapabilities :: "backend \<Rightarrow> string \<Rightarrow> string \<Rightarrow> jv io" where
  "getMCPServerCapabilities be tenant serverName = api_try ''errors.fetch_mcp_capabilities''
     (bnd (api_get be (''/mcp/capabilities/'' @ tenant @ ''/'' @ serverName) []) data_or_whole)"

section \<open>The contract of the catch blocks\<close>

text \<open>A \<open>quiet\<close> effect shows no toast; a reporting one shows exactly one error toast when it
  rejects and no error toast when it does not.\<close>

definition quiet :: "'a io \<Rightarrow> bool" where
  "quiet m \<longleftrightarrow> (\<forall>w. w_toasts (snd (m w)) = w_toasts w)"

definition reports :: "'a io \<Rightarrow> bool" where
  "reports m \<longleftrightarrow> (\<forall>w. case m w of
       (Inl e, w') \<Rightarrow> (\<exists>t. w_toasts w' = w_toasts w @ [(Danger, t)])
     | (Inr x, w') \<Rightarrow> (\<exists>ts. w_toasts w' = w_toasts w @ ts \<and> Danger \<notin> fst ` set ts))"

lemma reports_rejected: "reports m \<Longrightarrow> m w = (Inl e, w') \<Longrightarrow> \<exists>t. w_toasts w' = w_toasts w @ [(Danger, t)]"
  unfolding reports_def by (drule spec [of _ w]) simp

lemma reports_resolved:
  "reports m \<Longrightarrow> m w = (Inr x, w') \<Longrightarrow> \<exists>ts. w_toasts w' = w_toasts w @ ts \<and> Danger \<notin> fst ` set ts"
  unfolding reports_def by (drule spec [of _ w]) simp

definition one_request :: "'a io \<Rightarrow> bool" where
  "one_request m \<longleftrightarrow> (\<forall>w. \<exists>rq. w_log (snd (m w)) = w_log w @ [rq])"

definition no_request :: "'a io \<Rightarrow> bool" where
  "no_request m \<longleftrightarrow> (\<forall>w. w_log (snd (m w)) = w_log w)"

locale error_report =
  fixes report :: "js_exn \<Rightarrow> string \<Rightarrow> 'r io"
  assumes one_toast: "\<exists>r t. report e k w = (Inr r, w\<lparr>w_toasts := w_toasts w @ [(Danger, t)]\<rparr>)"
begin

definition guarded :: "string \<Rightarrow> 'a io \<Rightarrow> 'a io" where
  "guarded k m = catch m (\<lambda>e. andthen (report e k) (throw e))"

lemma guarded_reject:
  assumes "m w = (Inl e, w')"
  shows "\<exists>t. guarded k m w = (Inl e, w'\<lparr>w_toasts := w_toasts w' @ [(Danger, t)]\<rparr>)"
proof -
  obtain r t where "report e k w' = (Inr r, w'\<lparr>w_toasts := w_toasts w' @ [(Danger, t)]\<rparr>)"
    using one_toast by blast
  with assms show ?thesis by (auto simp: guarded_def io_simps)
qed

lemma guarded_resolve: "m w = (Inr x, w') \<Longrightarrow> guarded k m w = (Inr x, w')"
  by (simp add: guarded_def io_simps)

lemma guarded_reports:
  assumes "quiet m"
  shows "reports (guarded k m)"
  unfolding reports_def
proof
  fix w
  obtain r w' where m: "m w = (r, w')" by (cases "m w") auto
  then have q: "w_toasts w' = w_toasts w" using assms by (metis quiet_def snd_conv)
  show "case guarded k m w of
       (Inl e, w') \<Rightarrow> (\<exists>t. w_toasts w' = w_toasts w @ [(Danger, t)])
     | (Inr x, w') \<Rightarrow> (\<exists>ts. w_toasts w' = w_toasts w @ ts \<and> Danger \<notin> fst ` set ts)"
  proof (cases r)
    case (Inl e)
    then show ?thesis using guarded_reject [of m w e w' k] m q by auto
  next
    case (Inr x)
    then show ?thesis using guarded_resolve [of m w x w' k] m q by auto
  qed
qed

lemma guarded_and_toast_reports:
  assumes "quiet m"
  shows "reports (guarded k (and_toast m key))"
  unfolding reports_def
proof
  fix w
  obtain r w' where m: "m w = (r, w')" by (cases "m w") auto
  then have q: "w_toasts w' = w_toasts w" using assms by (metis quiet_def snd_conv)
  show "case guarded k (and_toast m key) w of
       (Inl e, w') \<Rightarrow> (\<exists>t. w_toasts w' = w_toasts w @ [(Danger, t)])
     | (Inr x, w') \<Rightarrow> (\<exists>ts. w_toasts w' = w_toasts w @ ts \<and> Danger \<notin> fst ` set ts)"
  proof (cases r)
    case (Inl e)
    then have "and_toast m key w = (Inl e, w')" using m by (simp add: and_toast_def io_simps)
    then show ?thesis using guarded_reject [of "and_toast m key" w e w' k] q by auto
  next
    case (Inr x)
    then have "and_toast m key w = (Inr x, w'\<lparr>w_toasts := w_toasts w' @ [(Success, Tr key)]\<rparr>)"
      using m by (simp add: and_toast_def io_simps)
    then have "guarded k (and_toast m key) w
        = (Inr x, w'\<lparr>w_toasts := w_toasts w' @ [(Success, Tr key)]\<rparr>)"
      by (rule guarded_resolve)
    then show ?thesis using q by simp
  qed
qed

lemma guarded_one_request:
  assumes "one_request m"
  shows "one_request (guarded k m)"
  unfolding one_request_def
proof
  fix w
  obtain r w' where m: "m w = (r, w')" by (cases "m w") auto
  then have "\<exists>rq. w_log w' = w_log w @ [rq]" using assms by (metis one_request_def snd_conv)
  then show "\<exists>rq. w_log (snd (guarded k m w)) = w_log w @ [rq]"
    using guarded_reject [of m w _ w' k] guarded_resolve [of m w _ w' k] m by (cases r) auto
qed

end

interpretation ae: error_report handleApiError
proof
  show "\<exists>r t. handleApiError e k w = (Inr r, w\<lparr>w_toasts := w_toasts w @ [(Danger, t)]\<rparr>)" for e k w
    unfolding handleApiError_def andthen_def bnd_def toast_def ret_def
    by (cases "isAxiosError e \<and> js_truthy (server_error e)") (auto intro: exI)
qed

interpretation te: error_report "\<lambda>e k. toast Danger (Tr k)"
  by unfold_locales (auto simp: toast_def)

lemma api_try_guarded: "api_try = ae.guarded"
  by (intro ext) (simp add: api_try_def ae.guarded_def)

lemma toast_try_guarded: "toast_try = te.guarded"
  by (intro ext) (simp add: toast_try_def te.guarded_def)

section \<open>Which effects are quiet, and how many requests they make\<close>

named_theorems client_rules \<open>toasts and requests of the client's building blocks\<close>

lemma interceptor_toasts [simp]: "w_toasts (response_interceptor e w) = w_toasts w"
  by (simp add: response_interceptor_def Let_def)

lemma interceptor_log [simp]: "w_log (response_interceptor e w) = w_log w"
  by (simp add: response_interceptor_def Let_def)

lemma quiet_send [client_rules]: "quiet (send be rq)"
  by (simp add: quiet_def send_def Let_def split: sum.split)

lemma one_request_send [client_rules]: "one_request (send be rq)"
  by (simp add: one_request_def send_def Let_def split: sum.split)

lemma quiet_field [client_rules]: "quiet (get_field v k)" "no_request (get_field v k)"
  by (cases "js_field v k"; simp add: quiet_def no_request_def io_simps)+

lemma quiet_ret [client_rules]: "quiet (ret x)" "no_request (ret x)"
  by (simp_all add: quiet_def no_request_def io_simps)

lemma quiet_bnd [client_rules]:
  assumes "quiet m" "\<And>x. quiet (f x)"
  shows "quiet (bnd m f)"
  unfolding quiet_def
proof
  fix w
  obtain r w' where m: "m w = (r, w')" by (cases "m w") auto
  then have "w_toasts w' = w_toasts w" using assms(1) by (metis quiet_def snd_conv)
  with m assms(2) show "w_toasts (snd (bnd m f w)) = w_toasts w"
    by (cases r) (auto simp: bnd_def quiet_def)
qed

lemma no_request_bnd [client_rules]:
  assumes "no_request m" "\<And>x. no_request (f x)"
  shows "no_request (bnd m f)"
  unfolding no_request_def
proof
  fix w
  obtain r w' where m: "m w = (r, w')" by (cases "m w") auto
  then have "w_log w' = w_log w" using assms(1) by (metis no_request_def snd_conv)
  with m assms(2) show "w_log (snd (bnd m f w)) = w_log w"
    by (cases r) (auto simp: bnd_def no_request_def)
qed

lemma one_request_bnd [client_rules]:
  assumes "one_request m" "\<And>x. no_request (f x)"
  shows "one_request (bnd m f)"
  unfolding one_request_def
proof
  fix w
  obtain r w' where m: "m w = (r, w')" by (cases "m w") auto
  then have "\<exists>rq. w_log w' = w_log w @ [rq]" using assms(1) by (metis one_request_def snd_conv)
  with m assms(2) show "\<exists>rq. w_log (snd (bnd m f w)) = w_log w @ [rq]"
    by (cases r) (auto simp: bnd_def no_request_def)
qed

lemma quiet_andthen [client_rules]: "quiet m \<Longrightarrow> quiet n \<Longrightarrow> quiet (andthen m n)"
  unfolding andthen_def by (rule quiet_bnd)

lemma one_request_andthen [client_rules]: "one_request m \<Longrightarrow> no_request n \<Longrightarrow> one_request (andthen m n)"
  unfolding andthen_def by (rule one_request_bnd)

lemma no_request_toast [client_rules]: "no_request (toast k m)"
  by (simp add: no_request_def toast_def)

lemma data_rules [client_rules]:
  "quiet (inner_data d)" "no_request (inner_data d)"
  "quiet (data_or_whole d)" "no_request (data_or_whole d)"
  by (simp_all add: inner_data_def data_or_whole_def client_rules)

lemma one_request_and_toast [client_rules]: "one_request m \<Longrightarrow> one_request (and_toast m key)"
  unfolding and_toast_def andthen_def
  by (intro one_request_bnd no_request_bnd) (simp_all add: client_rules)

lemma api_rules [client_rules]:
  "quiet (api_get be u p)" "one_request (api_get be u p)"
  "quiet (api_delete be u)" "one_request (api_delete be u)"
  "quiet (api_post be u b)" "one_request (api_post be u b)"
  "quiet (api_put be u b)" "one_request (api_put be u b)"
  by (simp_all add: api_get_def api_delete_def api_post_def api_put_def client_rules)

lemma emits_send [emit_rules]: "(\<And>w. P (request_interceptor w rq)) \<Longrightarrow> emits P (send be rq)"
  unfolding emits_def by (simp add: send_def Let_def split: sum.split)

lemma emits_handleApiError [emit_rules]: "emits P (handleApiError e k)"
  by (simp add: handleApiError_def emit_rules)

lemma emits_api_try [emit_rules]: "emits P m \<Longrightarrow> emits P (api_try k m)"
  unfolding api_try_def by (intro emit_rules)

lemma emits_data_or_whole [emit_rules]: "emits P (data_or_whole d)"
  unfolding data_or_whole_def by (intro emit_rules)

lemma interceptor_keeps [simp]:
  "rq_method (request_interceptor w rq) = rq_method rq"
  "rq_url (request_interceptor w rq) = rq_url rq"
  "rq_body (request_interceptor w rq) = rq_body rq"
  by (auto simp: request_interceptor_def Let_def split: option.split)

lemma send_log: "w_log (snd (send be rq w)) = w_log w @ [request_interceptor w rq]"
  by (simp add: send_def Let_def split: sum.split)

text \<open>The endpoints with a \<open>catch\<close> block that answer with data.\<close>

datatype endpoint =
    GetMCPServers "int option"
  | CreateMCPServer string
  | UpdateMCPServer string
  | DeleteMCPServer string string
  | SyncMCPServers
  | GetChatMessages string int int
  | GetChatSessions
  | DeleteChatSession string
  | UpdateChatSessionTitle string string
  | SaveChatMessage "(string \<times> json) list"
  | ImportOpenAPI string "string option" "string option"
  | GetUsers
  | GetUser string
  | CreateUser json
  | UpdateUser json
  | DeleteUser string
  | ToggleUserStatus string bool
  | GetUserWithTenants string
  | UpdateUserTenants int "int list"
  | GetMCPConfigNames "string option"
  | GetMCPConfigVersions "string option" "string option"
  | SetActiveVersion string string int
  | GetMCPServerCapabilities string string

fun call :: "backend \<Rightarrow> endpoint \<Rightarrow> jv io" where
  "call be (GetMCPServers t) = getMCPServers be t"
| "call be (CreateMCPServer c) = createMCPServer be c"
| "call be (UpdateMCPServer c) = updateMCPServer be c"
| "call be (DeleteMCPServer t n) = deleteMCPServer be t n"
| "call be SyncMCPServers = syncMCPServers be"
| "call be (GetChatMessages s p z) = getChatMessages be s p z"
| "call be GetChatSessions = getChatSessions be"
| "call be (DeleteChatSession s) = deleteChatSession be s"
| "call be (UpdateChatSessionTitle s t) = updateChatSessionTitle be s t"
| "call be (SaveChatMessage m) = saveChatMessage be m"
| "call be (ImportOpenAPI f t p) = importOpenAPI be f t p"
| "call be GetUsers = getUsers be"
| "call be (GetUser u) = getUser be u"
| "call be (CreateUser d) = createUser be d"
| "call be (UpdateUser d) = updateUser be d"
| "call be (DeleteUser u) = deleteUser be u"
| "call be (ToggleUserStatus u b) = toggleUserStatus be u b"
| "call be (GetUserWithTenants u) = getUserWithTenants be u"
| "call be (UpdateUserTenants u ts) = updateUserTenants be u ts"
| "call be (GetMCPConfigNames t) = getMCPConfigNames be t"
| "call be (GetMCPConfigVersions t n) = getMCPConfigVersions be t n"
| "call be (SetActiveVersion t n v) = setActiveVersion be t n v"
| "call be (GetMCPServerCapabilities t n) = getMCPServerCapabilities be t n"

lemmas endpoint_defs = getMCPServers_def createMCPServer_def updateMCPServer_def
  deleteMCPServer_def syncMCPServers_def getChatMessages_def getChatSessions_def
  deleteChatSession_def updateChatSessionTitle_def saveChatMessage_def importOpenAPI_def
  getUsers_def getUser_def createUser_def updateUser_def deleteUser_def toggleUserStatus_def
  getUserWithTenants_def updateUserTenants_def getMCPConfigNames_def getMCPConfigVersions_def
  setActiveVersion_def getMCPServerCapabilities_def

lemma call_reports: "reports (call be ep)"
  by (cases ep)
     (simp_all add: endpoint_defs api_try_guarded toast_try_guarded client_rules
       ae.guarded_reports te.guarded_reports te.guarded_and_toast_reports)

lemma call_one_request: "one_request (call be ep)"
  by (cases ep)
     (simp_all add: endpoint_defs api_try_guarded toast_try_guarded client_rules
       ae.guarded_one_request te.guarded_one_request)

section \<open>Properties of the client\<close>

text \<open>
  Each endpoint of the datatype makes exactly one request, shows exactly one error toast when it
  rejects and none when it resolves. The other functions of the client, among them those that create
  and update a tenant, have other bounds.
\<close>

theorem endpoint_contract:
  "(\<exists>rq. w_log (snd (call be ep w)) = w_log w @ [rq])
   \<and> (case call be ep w of
        (Inl e, w') \<Rightarrow> (\<exists>t. w_toasts w' = w_toasts w @ [(Danger, t)])
      | (Inr x, w') \<Rightarrow> (\<exists>ts. w_toasts w' = w_toasts w @ ts \<and> Danger \<notin> fst ` set ts))"
  using call_reports [of be ep] call_one_request [of be ep]
  by (simp add: reports_def one_request_def)

text \<open>
  Every request carries the language, \<open>zh\<close> when none is set, and a bearer token
  exactly when a non-empty one is stored.
\<close>

theorem requests_carry_language_and_token:
  assumes "obj_get (rq_headers rq) ''Authorization'' = None"
  shows "\<exists>rq'. w_log (snd (send be rq w)) = w_log w @ [rq']
    \<and> obj_get (rq_headers rq') ''X-Lang'' = Some (if w_lang w = [] then ''zh'' else w_lang w)
    \<and> obj_get (rq_headers rq') ''Authorization''
        = (if str_truthy (w_storage w ''token'')
           then Some (''Bearer '' @ the (w_storage w ''token'')) else None)"
proof (intro exI conjI)
  let ?rq = "request_interceptor w rq"
  show "w_log (snd (send be rq w)) = w_log w @ [?rq]"
    by (simp add: send_def Let_def split: sum.split)
  show "obj_get (rq_headers ?rq) ''X-Lang'' = Some (if w_lang w = [] then ''zh'' else w_lang w)"
    by (simp add: request_interceptor_def Let_def obj_get_set str_or_def split: option.split)
  show "obj_get (rq_headers ?rq) ''Authorization''
        = (if str_truthy (w_storage w ''token'')
           then Some (''Bearer '' @ the (w_storage w ''token'')) else None)"
    using assms
    by (simp add: request_interceptor_def Let_def obj_get_set str_truthy_def split: option.split)
qed

theorem requests_carry_language_and_token_witness:
  "let w = \<lparr>w_log = [], w_toasts = [], w_storage = [''token'' \<mapsto> ''abc''], w_path = ''/'', w_lang = [],
            w_downloads = []\<rparr>
   in \<exists>rq'. w_log (snd (send (\<lambda>_ _. Answered 200 None) (method_request ''GET'' ''/x'') w)) = [rq']
      \<and> obj_get (rq_headers rq') ''X-Lang'' = Some ''zh''
      \<and> obj_get (rq_headers rq') ''Authorization'' = Some ''Bearer abc''"
proof -
  let ?w = "\<lparr>w_log = [], w_toasts = [], w_storage = [''token'' \<mapsto> ''abc''], w_path = ''/'', w_lang = [],
            w_downloads = []\<rparr>"
  have "obj_get (rq_headers (method_request ''GET'' ''/x'')) ''Authorization'' = None"
    by (simp add: method_request_def obj_get_def)
  from requests_carry_language_and_token [OF this, of "\<lambda>_ _. Answered 200 None" ?w] show ?thesis
    by (auto simp: str_truthy_def)
qed

text \<open>
  Property C28. A 401 answer ends the session wherever it comes from: the token is gone, the
  location is the login page (and is not touched when it already is), and the caller still gets
  the error.
\<close>

theorem unauthorized_ends_session:
  assumes "be (w_log w) (request_interceptor w rq) = Answered 401 d"
  shows "case send be rq w of (r, w') \<Rightarrow> (\<exists>e. r = Inl e \<and> status_is e 401)
    \<and> w_storage w' = (w_storage w)(''token'' := None) \<and> w_path w' = ''/login''"
  using assms
  by (simp add: send_def answer_outcome_def response_interceptor_def status_is_def Let_def)

theorem unauthorized_ends_session_witness:
  "let w = \<lparr>w_log = [], w_toasts = [], w_storage = [''token'' \<mapsto> ''abc''], w_path = ''/gateway'',
            w_lang = [], w_downloads = []\<rparr>
   in case send (\<lambda>_ _. Answered 401 None) (method_request ''GET'' ''/x'') w of
        (r, w') \<Rightarrow> w_storage w' ''token'' = None \<and> w_path w' = ''/login''"
proof -
  let ?w = "\<lparr>w_log = [], w_toasts = [], w_storage = [''token'' \<mapsto> ''abc''], w_path = ''/gateway'',
            w_lang = [], w_downloads = []\<rparr>"
  have "(\<lambda>_ _. Answered 401 None) (w_log ?w) (request_interceptor ?w (method_request ''GET'' ''/x''))
      = Answered 401 None" by simp
  then have "case send (\<lambda>_ _. Answered 401 None) (method_request ''GET'' ''/x'') ?w of (r, w') \<Rightarrow>
      (\<exists>e. r = Inl e \<and> status_is e 401)
      \<and> w_storage w' = (w_storage ?w)(''token'' := None) \<and> w_path w' = ''/login''"
    by (rule unauthorized_ends_session)
  then show ?thesis unfolding Let_def by (simp only: case_prod_unfold) simp
qed

end
