(* ===== verification/Tenant_Api.thy ===== *)
theory Tenant_Api
  imports Api_Client "HOL-Library.Sublist"
begin

text \<open>
  The tenant operations of \<open>src/web/src/services/api.ts\<close>: reading tenants, the check that keeps
  the tenants' path prefixes apart, and creating, updating and deleting a tenant.
\<close>

section \<open>Reading\<close>

definition getTenants :: "backend \<Rightarrow> jv io" where
  "getTenants be = api_try ''errors.fetch_tenants''
     (bnd (api_get be ''/auth/tenants'' []) data_or_whole)"

definition getTenant :: "backend \<Rightarrow> string \<Rightarrow> jv io" where
  "getTenant be name = api_try ''errors.fetch_tenant''
     (bnd (api_get be (''/auth/tenants/'' @ name) []) data_or_whole)"

section \<open>The prefix check\<close>

fun checkPrefixConflict :: "string \<Rightarrow> string list \<Rightarrow> string option \<Rightarrow> bool" where
  "checkPrefixConflict pfx [] excludePrefix = False"
| "checkPrefixConflict pfx (existingPrefix # rest) excludePrefix =
     (if str_truthy excludePrefix \<and> Some existingPrefix = excludePrefix
      then checkPrefixConflict pfx rest excludePrefix
      else if starts_with pfx (existingPrefix @ ''/'') \<or> existingPrefix = pfx then True
      else if starts_with existingPrefix (pfx @ ''/'') then True
      else checkPrefixConflict pfx rest excludePrefix)"

text \<open>\<open>tenants.map((t) => t.prefix)\<close>: the answer must be an array of objects with a string
  \<open>prefix\<close>.\<close>

definition prefix_of_json :: "json \<Rightarrow> string result" where
  "prefix_of_json j =
     (case js_field (Some j) ''prefix'' of
        Inl e \<Rightarrow> Inl e
      | Inr (Some (JStr s)) \<Rightarrow> Inr s
      | Inr _ \<Rightarrow> Inl (IllTyped ''t.prefix''))"

fun prefixes_of_list :: "json list \<Rightarrow> string list result" where
  "prefixes_of_list [] = Inr []"
| "prefixes_of_list (j # js) =
     (case prefix_of_json j of
        Inl e \<Rightarrow> Inl e
      | Inr p \<Rightarrow> (case prefixes_of_list js of Inl e \<Rightarrow> Inl e | Inr ps \<Rightarrow> Inr (p # ps)))"

definition prefixes_of :: "jv \<Rightarrow> string list result" where
  "prefixes_of v = (case v of Some (JArr js) \<Rightarrow> prefixes_of_list js | _ \<Rightarrow> Inl (TypeError ''tenants.map''))"

section \<open>createTenant\<close>

definition slashed :: "string \<Rightarrow> string" where
  "slashed pfx = (if pfx \<noteq> [] \<and> \<not> starts_with pfx ''/'' then ''/'' @ pfx else pfx)"

definition refuse :: "string \<Rightarrow> string \<Rightarrow> 'a io" where
  "refuse key message = andthen (toast Danger (Tr key)) (throw (Error_exn message))"

definition create_body :: "string \<Rightarrow> string \<Rightarrow> string \<Rightarrow> body" where
  "create_body name prefixed description = JsonBody (JObj [(''name'', JStr name),
     (''prefix'', JStr prefixed), (''description'', JStr description)])"

definition createTenant :: "backend \<Rightarrow> string \<Rightarrow> string \<Rightarrow> string \<Rightarrow> jv io" where
  "createTenant be name pfx description =
     catch
       (bnd (getTenants be) (\<lambda>tenants.
        bnd (lift_res (prefixes_of tenants)) (\<lambda>existing.
          if checkPrefixConflict pfx existing None
          then refuse ''errors.prefix_conflict'' ''Prefix conflict''
          else let prefixed = slashed pfx in
            if prefixed = ''/''
            then refuse ''tenants.root_prefix_not_allowed'' ''Root prefix not allowed''
            else if checkPrefixConflict prefixed existing None
            then refuse ''tenants.prefix_path_conflict'' ''Prefix path conflict''
            else and_toast (api_post be ''/auth/tenants'' (create_body name prefixed description))
                   ''tenants.add_success'')))
       (\<lambda>e. andthen
          (if isAxiosError e \<and> js_truthy (server_error e) \<and> \<not> str_includes (exn_message e) ''Prefix''
           then toast Danger (Tr ''tenants.add_failed'') else ret ())
          (throw e))"

section \<open>updateTenant\<close>

record tenant_update =
  tu_name :: string
  tu_prefix :: "string option"
  tu_description :: "string option"
  tu_isActive :: "bool option"

definition update_body :: "tenant_update \<Rightarrow> body" where
  "update_body d = JsonBody (JObj ((''name'', JStr (tu_name d))
     # (case tu_prefix d of Some p \<Rightarrow> [(''prefix'', JStr p)] | None \<Rightarrow> [])
     @ (case tu_description d of Some p \<Rightarrow> [(''description'', JStr p)] | None \<Rightarrow> [])
     @ (case tu_isActive d of Some b \<Rightarrow> [(''isActive'', JBool b)] | None \<Rightarrow> [])))"

definition json_string :: "jv \<Rightarrow> string option" where
  "json_string v = (case v of Some (JStr s) \<Rightarrow> Some s | _ \<Rightarrow> None)"

text \<open>The check before the request, skipped without a prefix and when it did not change.\<close>

definition check_update_prefix :: "backend \<Rightarrow> tenant_update \<Rightarrow> unit io" where
  "check_update_prefix be d =
     (case tu_prefix d of
        None \<Rightarrow> ret ()
      | Some pfx \<Rightarrow>
          if pfx = [] then ret ()
          else bnd (getTenant be (tu_name d)) (\<lambda>currentTenant.
               bnd (get_field currentTenant ''prefix'') (\<lambda>current.
                 if current \<noteq> Some (JStr pfx)
                 then bnd (getTenants be) (\<lambda>tenants.
                      bnd (lift_res (prefixes_of tenants)) (\<lambda>existing.
                        if checkPrefixConflict pfx existing (json_string current)
                        then refuse ''errors.prefix_conflict'' ''Prefix conflict'' else ret ()))
                 else ret ())))"

definition update_error_toast :: "js_exn \<Rightarrow> unit io" where
  "update_error_toast e =
     (if isAxiosError e \<and> status_is e 409 then
        if server_error e = Some (JStr ''Tenant name already exists'')
        then toast Danger (Tr ''tenants.name_conflict'')
        else toast Danger (Tr ''tenants.prefix_conflict'')
      else if exn_message e \<noteq> ''Root prefix not allowed'' \<and> exn_message e \<noteq> ''Prefix path conflict''
      then toast Danger (Tr ''errors.update_tenant'') else ret ())"

definition updateTenant :: "backend \<Rightarrow> tenant_update \<Rightarrow> jv io" where
  "updateTenant be d =
     catch (andthen (check_update_prefix be d)
        (and_toast (api_put be ''/auth/tenants'' (update_body d)) ''tenants.edit_success''))
       (\<lambda>e. andthen (update_error_toast e) (throw e))"

section \<open>deleteTenant\<close>

definition deleteTenant :: "backend \<Rightarrow> string \<Rightarrow> jv io" where
  "deleteTenant be name =
     catch (and_toast (api_delete be (''/auth/tenants/'' @ name)) ''tenants.delete_success'')
       (\<lambda>e. andthen (if isAxiosError e \<and> js_truthy (server_error e)
                      then toast Danger (Tr ''errors.delete_tenant'')
                      else toast Danger (Tr ''tenants.delete_failed'')) (throw e))"

section \<open>Path prefixes as segment lists\<close>

text \<open>The specification of a conflict: as lists of segments one path is a prefix of the
  other.\<close>

abbreviation segments :: "string \<Rightarrow> string list" where
  "segments \<equiv> split_on (CHR ''/'')"

definition overlap :: "string \<Rightarrow> string \<Rightarrow> bool" where
  "overlap p q \<longleftrightarrow> prefix (segments p) (segments q) \<or> prefix (segments q) (segments p)"

lemma starts_with_segments:
  "starts_with p (q @ ''/'') \<or> q = p \<longleftrightarrow> prefix (segments q) (segments p)"
proof
  assume "starts_with p (q @ ''/'') \<or> q = p"
  then show "prefix (segments q) (segments p)"
  proof
    assume "starts_with p (q @ ''/'')"
    then obtain r where "p = q @ CHR ''/'' # r" by (auto simp: starts_with_iff)
    then show ?thesis by (simp add: split_on_append)
  qed simp
next
  assume "prefix (segments q) (segments p)"
  then obtain zs where zs: "segments p = segments q @ zs" by (auto simp: prefix_def)
  show "starts_with p (q @ ''/'') \<or> q = p"
  proof (cases "zs = []")
    case True
    with zs have "join ''/'' (segments p) = join ''/'' (segments q)" by simp
    then show ?thesis by simp
  next
    case False
    have "p = join ''/'' (segments q @ zs)" using zs join_split [of "CHR ''/''" p] by simp
    also have "\<dots> = (q @ ''/'') @ join ''/'' zs"
      using False join_append [of "segments q" zs "''/''"] by simp
    finally show ?thesis by (metis starts_withI)
  qed
qed

lemma overlap_sym: "overlap p q = overlap q p"
  by (auto simp: overlap_def)

lemma overlap_refl [simp]: "overlap p p"
  by (simp add: overlap_def)

lemma overlap_check:
  "overlap p q \<longleftrightarrow> starts_with p (q @ ''/'') \<or> q = p \<or> starts_with q (p @ ''/'')"
  unfolding overlap_def starts_with_segments [symmetric] by auto

lemma checkPrefixConflict_overlap:
  "checkPrefixConflict p qs ex \<longleftrightarrow>
     (\<exists>q \<in> set qs. \<not> (str_truthy ex \<and> Some q = ex) \<and> overlap p q)"
  by (induction p qs ex rule: checkPrefixConflict.induct) (auto simp: overlap_check)

section \<open>What createTenant sends\<close>

text \<open>No two prefixes of the list overlap.\<close>

fun apart :: "string list \<Rightarrow> bool" where
  "apart [] = True"
| "apart (p # ps) = (list_all (\<lambda>q. \<not> overlap p q) ps \<and> apart ps)"

lemma apart_snoc: "apart (ps @ [p]) \<longleftrightarrow> apart ps \<and> list_all (\<lambda>q. \<not> overlap p q) ps"
  by (induction ps) (auto simp: overlap_sym)

definition is_tenant_post :: "request \<Rightarrow> bool" where
  "is_tenant_post rq \<longleftrightarrow> rq_method rq = ''POST'' \<and> rq_url rq = ''/auth/tenants''"

lemma getTenants_log:
  "\<exists>rq. w_log (snd (getTenants be w)) = w_log w @ [rq] \<and> \<not> is_tenant_post rq"
proof -
  have get: "\<exists>rq. w_log (snd (bnd (api_get be ''/auth/tenants'' []) data_or_whole w)) = w_log w @ [rq]
      \<and> \<not> is_tenant_post rq"
  proof -
    obtain r w1 where s: "api_get be ''/auth/tenants'' [] w = (r, w1)"
      by (cases "api_get be ''/auth/tenants'' [] w") auto
    then have "w_log w1 = w_log w @ [request_interceptor w
        ((method_request ''GET'' ''/auth/tenants'')\<lparr>rq_params := []\<rparr>)]"
      using send_log [of be _ w] by (metis api_get_def snd_conv)
    then have l: "\<exists>rq. w_log w1 = w_log w @ [rq] \<and> \<not> is_tenant_post rq"
      by (auto simp: is_tenant_post_def method_request_def)
    show ?thesis
    proof (cases r)
      case (Inl e)
      with s l show ?thesis by (simp add: bnd_def)
    next
      case (Inr d)
      have "w_log (snd (data_or_whole d w1)) = w_log w1"
        using data_rules(4) by (simp add: no_request_def)
      with s l Inr show ?thesis by (simp add: bnd_def)
    qed
  qed
  obtain r w1 where m: "bnd (api_get be ''/auth/tenants'' []) data_or_whole w = (r, w1)"
    by (cases "bnd (api_get be ''/auth/tenants'' []) data_or_whole w") auto
  show ?thesis
  proof (cases r)
    case (Inl e)
    then obtain t where "getTenants be w = (Inl e, w1\<lparr>w_toasts := w_toasts w1 @ [(Danger, t)]\<rparr>)"
      unfolding getTenants_def api_try_guarded using ae.guarded_reject m by metis
    with get m show ?thesis by simp
  next
    case (Inr d)
    then have "getTenants be w = (Inr d, w1)"
      unfolding getTenants_def api_try_guarded by (intro ae.guarded_resolve) (simp add: m)
    with get m show ?thesis by simp
  qed
qed

lemma refuse_log [simp]: "w_log (snd (refuse k m w)) = w_log w" "\<exists>e. fst (refuse k m w) = Inl e"
  by (simp_all add: refuse_def io_simps)

lemma create_catch_log [simp]:
  "w_log (snd (andthen (if b then toast Danger (Tr k) else ret ()) (throw e) w)) = w_log w"
  by (simp add: io_simps)

lemma and_toast_post_log:
  "w_log (snd (and_toast (api_post be url b) key w))
    = w_log w @ [request_interceptor w ((method_request ''POST'' url)\<lparr>rq_body := b\<rparr>)]"
proof -
  obtain r w1 where s: "api_post be url b w = (r, w1)" by (cases "api_post be url b w") auto
  then have "w_log w1 = w_log w @ [request_interceptor w ((method_request ''POST'' url)\<lparr>rq_body := b\<rparr>)]"
    using send_log [of be _ w] by (metis api_post_def snd_conv)
  with s show ?thesis by (cases r) (simp_all add: and_toast_def io_simps)
qed

lemma catch_log:
  assumes "\<And>e w. w_log (snd (h e w)) = w_log w"
  shows "w_log (snd (catch m h w)) = w_log (snd (m w))"
  using assms by (simp add: catch_def split: prod.split sum.split)

lemma createTenant_cases:
  "(\<exists>rq. w_log (snd (createTenant be name p descr w)) = w_log w @ [rq] \<and> \<not> is_tenant_post rq)
   \<or> (\<exists>rq tenants ps w1. getTenants be w = (Inr tenants, w1) \<and> prefixes_of tenants = Inr ps
       \<and> w_log (snd (createTenant be name p descr w)) = w_log w @ [rq,
           request_interceptor w1 ((method_request ''POST'' ''/auth/tenants'')
             \<lparr>rq_body := create_body name (slashed p) descr\<rparr>)] \<and> \<not> is_tenant_post rq
       \<and> slashed p \<noteq> ''/'' \<and> \<not> checkPrefixConflict (slashed p) ps None)"
proof -
  obtain r w1 where g: "getTenants be w = (r, w1)" by (cases "getTenants be w") auto
  with getTenants_log [of be w] obtain rq where rq: "w_log w1 = w_log w @ [rq]" "\<not> is_tenant_post rq"
    by auto
  have log: "w_log (snd (createTenant be name p descr w))
      = w_log (snd (bnd (getTenants be) (\<lambda>tenants.
        bnd (lift_res (prefixes_of tenants)) (\<lambda>existing.
          if checkPrefixConflict p existing None
          then refuse ''errors.prefix_conflict'' ''Prefix conflict''
          else let prefixed = slashed p in
            if prefixed = ''/''
            then refuse ''tenants.root_prefix_not_allowed'' ''Root prefix not allowed''
            else if checkPrefixConflict prefixed existing None
            then refuse ''tenants.prefix_path_conflict'' ''Prefix path conflict''
            else and_toast (api_post be ''/auth/tenants'' (create_body name prefixed descr))
                   ''tenants.add_success'')) w))" (is "_ = w_log (snd (?m w))")
    unfolding createTenant_def by (rule catch_log) (rule create_catch_log)
  show ?thesis
  proof (cases r)
    case (Inl e)
    then have "?m w = (Inl e, w1)" using g by (simp add: bnd_def)
    with log rq show ?thesis by auto
  next
    case (Inr tenants)
    show ?thesis
    proof (cases "prefixes_of tenants")
      case (Inl e)
      then have "?m w = (Inl (Js_exn e), w1)" using g Inr by (simp add: bnd_def lift_res_def)
      with log rq show ?thesis by auto
    next
      case ps: (Inr ps)
      let ?c = "checkPrefixConflict p ps None \<or> slashed p = ''/'' \<or> checkPrefixConflict (slashed p) ps None"
      show ?thesis
      proof (cases ?c)
        case True
        then have "w_log (snd (?m w)) = w_log w1"
          using g Inr ps by (auto simp: bnd_def lift_res_def Let_def)
        with log rq show ?thesis by auto
      next
        case False
        then have "?m w = and_toast (api_post be ''/auth/tenants'' (create_body name (slashed p) descr))
            ''tenants.add_success'' w1"
          using g Inr ps by (simp add: bnd_def lift_res_def Let_def)
        then have "w_log (snd (?m w)) = w_log w @ [rq, request_interceptor w1
            ((method_request ''POST'' ''/auth/tenants'')\<lparr>rq_body := create_body name (slashed p) descr\<rparr>)]"
          using rq by (simp add: and_toast_post_log)
        with log rq g Inr ps False show ?thesis by auto
      qed
    qed
  qed
qed

section \<open>Properties of the tenant operations\<close>

text \<open>
  Property C19. The string tests of \<open>checkPrefixConflict\<close> decide overlap of paths: it answers
  true exactly when some existing prefix, other than the excluded one, is as a list of segments a
  prefix of the new one or the other way round.
\<close>

theorem checkPrefixConflict_is_path_overlap:
  "checkPrefixConflict p existing excl \<longleftrightarrow>
     (\<exists>q \<in> set existing. \<not> (excl = Some q \<and> q \<noteq> [])
        \<and> (prefix (segments q) (segments p) \<or> prefix (segments p) (segments q)))"
proof -
  have "str_truthy excl \<and> Some q = excl \<longleftrightarrow> excl = Some q \<and> q \<noteq> []" for q
    by (cases excl) (auto simp: str_truthy_def)
  then show ?thesis unfolding checkPrefixConflict_overlap overlap_def by (metis (no_types))
qed

text \<open>
  Property C3. \<open>createTenant\<close> keeps the tenants apart: it sends at most one creation, for the
  prefix with a leading slash, never for the root, and only when the list of prefixes the
  backend answered together with the new one has no two overlapping paths if it had none before.
\<close>

theorem createTenant_keeps_prefixes_apart:
  assumes "w_log (snd (createTenant be name p descr w)) = w_log w @ sent"
    and "rq \<in> set sent" and "is_tenant_post rq"
  shows "rq_body rq = create_body name (slashed p) descr \<and> slashed p \<noteq> ''/''
    \<and> (slashed p = [] \<or> starts_with (slashed p) ''/'')
    \<and> (\<exists>tenants ps. fst (getTenants be w) = Inr tenants \<and> prefixes_of tenants = Inr ps
         \<and> (apart ps \<longrightarrow> apart (ps @ [slashed p])))"
proof -
  have slash: "slashed p = [] \<or> starts_with (slashed p) ''/''"
    by (auto simp: slashed_def starts_with_iff)
  from createTenant_cases [of be name p descr w] assms obtain rq0 tenants ps w1
    where g: "getTenants be w = (Inr tenants, w1)" "prefixes_of tenants = Inr ps"
    and sent: "sent = [rq0, request_interceptor w1 ((method_request ''POST'' ''/auth/tenants'')
             \<lparr>rq_body := create_body name (slashed p) descr\<rparr>)]" "\<not> is_tenant_post rq0"
    and ok: "slashed p \<noteq> ''/''" "\<not> checkPrefixConflict (slashed p) ps None"
    by auto
  from ok(2) have "list_all (\<lambda>q. \<not> overlap (slashed p) q) ps"
    by (auto simp: checkPrefixConflict_overlap str_truthy_def list_all_iff)
  then have "apart ps \<longrightarrow> apart (ps @ [slashed p])" by (simp add: apart_snoc)
  moreover have "rq_body rq = create_body name (slashed p) descr"
    using assms(2,3) sent by auto
  ultimately show ?thesis using slash g ok(1) by auto
qed

text \<open>A backend that keeps the tenants it was sent; it answers the list, and a creation with no
  content.\<close>

definition tenant_json :: "string \<Rightarrow> json" where
  "tenant_json p = JObj [(''name'', JStr p), (''prefix'', JStr p)]"

definition listing_backend :: "string list \<Rightarrow> backend" where
  "listing_backend ps log rq = Answered 200
     (Some (if rq_method rq = ''GET'' then JArr (map tenant_json ps) else JObj []))"

definition start_world :: world where
  "start_world = \<lparr>w_log = [], w_toasts = [], w_storage = (\<lambda>_. None), w_path = ''/'',
     w_lang = ''en'', w_downloads = []\<rparr>"

theorem createTenant_keeps_prefixes_apart_witness:
  "\<exists>sent. w_log (snd (createTenant (listing_backend [''/a'']) ''n'' ''b/c'' [] start_world)) = sent
     \<and> length sent = 2 \<and> rq_body (sent ! 1) = create_body ''n'' ''/b/c'' []"
proof -
  let ?m = "createTenant (listing_backend [''/a'']) ''n'' ''b/c'' [] start_world"
  have "map rq_method (w_log (snd ?m)) = [''GET'', ''POST'']
      \<and> map rq_url (w_log (snd ?m)) = [''/auth/tenants'', ''/auth/tenants'']" by code_simp
  then obtain a b where log: "w_log (snd ?m) = [a, b]" and b: "is_tenant_post b"
    by (auto simp: map_eq_Cons_conv is_tenant_post_def)
  have "w_log (snd ?m) = w_log start_world @ [a, b]" by (subst log) (simp add: start_world_def)
  from createTenant_keeps_prefixes_apart [OF this _ b]
  have "rq_body b = create_body ''n'' (slashed ''b/c'') []" by simp
  moreover have "slashed ''b/c'' = ''/b/c''" by code_simp
  ultimately show ?thesis using log by simp
qed

text \<open>
  A finding: the refusal of a conflicting prefix by \<open>updateTenant\<close> is reported
  twice: the conflict is announced, and then the catch block, which spares two other messages but
  not this one, announces that the update failed.
\<close>

theorem updateTenant_reports_conflict_twice:
  assumes "check_update_prefix be d w = refuse ''errors.prefix_conflict'' ''Prefix conflict'' w1"
  shows "updateTenant be d w = (Inl (Error_exn ''Prefix conflict''),
    w1\<lparr>w_toasts := w_toasts w1 @ [(Danger, Tr ''errors.prefix_conflict''),
      (Danger, Tr ''errors.update_tenant'')]\<rparr>)"
  using assms
  by (simp add: updateTenant_def io_simps refuse_def update_error_toast_def isAxiosError_def)

theorem updateTenant_reports_conflict_twice_witness:
  "let be = (\<lambda>log rq. Answered 200 (Some (if rq_url rq = ''/auth/tenants''
              then JArr [tenant_json ''/a'', tenant_json ''/b''] else tenant_json ''/a'')));
       d = \<lparr>tu_name = ''a'', tu_prefix = Some ''/b'', tu_description = None, tu_isActive = None\<rparr>
   in map snd (w_toasts (snd (updateTenant be d start_world)))
      = [Tr ''errors.prefix_conflict'', Tr ''errors.update_tenant'']"
proof -
  let ?be = "\<lambda>log rq. Answered 200 (Some (if rq_url rq = ''/auth/tenants''
              then JArr [tenant_json ''/a'', tenant_json ''/b''] else tenant_json ''/a''))"
  let ?d = "\<lparr>tu_name = ''a'', tu_prefix = Some ''/b'', tu_description = None, tu_isActive = None\<rparr>"
  obtain w1 where g1: "getTenant ?be ''a'' start_world = (Inr (Some (tenant_json ''/a'')), w1)"
    by (simp add: getTenant_def api_try_def data_or_whole_def io_simps api_get_def send_def
        answer_outcome_def Let_def method_request_def tenant_json_def obj_get_def)
  obtain w2 where g2: "getTenants ?be w1
      = (Inr (Some (JArr [tenant_json ''/a'', tenant_json ''/b''])), w2)"
    by (simp add: getTenants_def api_try_def data_or_whole_def io_simps api_get_def send_def
        answer_outcome_def Let_def method_request_def)
  have f: "get_field (Some (tenant_json ''/a'')) ''prefix'' w = (Inr (Some (JStr ''/a'')), w)" for w
    by (simp add: io_simps tenant_json_def obj_get_def)
  have p: "prefixes_of (Some (JArr [tenant_json ''/a'', tenant_json ''/b''])) = Inr [''/a'', ''/b'']"
    by (simp add: prefixes_of_def prefix_of_json_def tenant_json_def obj_get_def)
  have c: "checkPrefixConflict ''/b'' [''/a'', ''/b''] (json_string (Some (JStr ''/a'')))"
    by code_simp
  have "check_update_prefix ?be ?d start_world
      = refuse ''errors.prefix_conflict'' ''Prefix conflict'' w2"
    unfolding check_update_prefix_def by (simp add: bnd_def g1 f g2 lift_res_def p c del: checkPrefixConflict.simps)
  from updateTenant_reports_conflict_twice [OF this]
  have "w_toasts (snd (updateTenant ?be ?d start_world)) = w_toasts w2 @
      [(Danger, Tr ''errors.prefix_conflict''), (Danger, Tr ''errors.update_tenant'')]" by simp
  moreover have "w_toasts (snd (getTenants ?be (snd (getTenant ?be ''a'' start_world)))) = []"
    by code_simp
  then have "w_toasts w2 = []" by (simp add: g1 g2)
  ultimately show ?thesis by (simp add: Let_def)
qed

text \<open>
  A finding: a stored prefix with a trailing slash escapes the check. A tenant below
  it is created without a conflict although the two paths overlap once the slash is dropped.
\<close>

theorem trailing_slash_escapes_conflict:
  assumes "b \<noteq> []" and "CHR ''/'' \<notin> set b"
  shows "\<not> checkPrefixConflict (''/'' @ a @ ''/'' @ b) [''/'' @ a @ ''/''] None
    \<and> checkPrefixConflict (''/'' @ a @ ''/'' @ b) [strip_trailing_slash (''/'' @ a @ ''/'')] None"
proof -
  have a: "segments (''/'' @ a @ ''/'' @ b) = [] # segments a @ [b]"
    and a1: "segments (''/'' @ a @ ''/'') = [] # segments a @ [[]]"
    and a2: "segments (''/'' @ a) = [] # segments a"
    using assms(2) by (simp_all add: split_on_append split_on_no_sep)
  have "strip_trailing_slash (''/'' @ a @ ''/'') = ''/'' @ a"
    by (simp add: strip_trailing_slash_def butlast_append)
  moreover have "\<not> overlap (''/'' @ a @ ''/'' @ b) (''/'' @ a @ ''/'')"
    using assms(1) unfolding overlap_def a a1 by simp
  moreover have "overlap (''/'' @ a @ ''/'' @ b) (''/'' @ a)"
    unfolding overlap_def a a2 by simp
  ultimately show ?thesis by (simp add: checkPrefixConflict_overlap str_truthy_def)
qed

theorem trailing_slash_escapes_conflict_witness:
  "\<not> checkPrefixConflict ''/a/b'' [''/a/''] None"
  using trailing_slash_escapes_conflict [of "''b''" "''a''"] by simp

end
