(* ===== verification/Runtime_Config.thy ===== *)
theory Runtime_Config
  imports Js_Io
begin

text \<open>
  Start-up, \<open>src/web/src/main.tsx\<close>: the modules are evaluated (and read
  \<open>window.RUNTIME_CONFIG\<close>), then the runtime configuration is fetched and merged with the defaults,
  then the application is rendered. The two base URLs of the gateway manager,
  \<open>pages/gateway/gateway-manager.tsx\<close>, and the base URL of the API client read it.
\<close>

section \<open>Merging the fetched configuration\<close>

type_synonym config = "json obj"

definition defaultRuntimeConfig :: config where
  "defaultRuntimeConfig = [
     (''apiBaseUrl'', JStr []), (''debugMode'', JBool False), (''version'', JStr ''0.0.0''),
     (''features'', JObj [(''enableExperimental'', JBool False)]),
     (''VITE_DIRECT_MCP_GATEWAY_MODIFIER'', JStr '':5235''),
     (''VITE_GATEWAY_SERVICE_BASE_URL'', JStr ''http://localhost:5235''),
     (''LLM_CONFIG_ADMIN_ONLY'', JBool False)]"

text \<open>The members \<open>{...v}\<close> takes over: those of an object, the elements of an array and the characters of a
  text under their numbers, and none of anything else.\<close>

fun numbered_from :: "nat \<Rightarrow> json list \<Rightarrow> config" where
  "numbered_from i [] = []"
| "numbered_from i (x # xs) = (nat_str i, x) # numbered_from (Suc i) xs"

fun spread_members :: "jv \<Rightarrow> config" where
  "spread_members (Some (JObj fs)) = fs"
| "spread_members (Some (JArr xs)) = numbered_from 0 xs"
| "spread_members (Some (JStr s)) = numbered_from 0 (map (\<lambda>c. JStr [c]) s)"
| "spread_members _ = []"

definition default_features :: config where
  "default_features = [(''enableExperimental'', JBool False)]"

definition or_default :: "jv \<Rightarrow> string \<Rightarrow> json \<Rightarrow> json" where
  "or_default data k d = (case js_opt_field data k of None \<Rightarrow> d | Some v \<Rightarrow> v)"

definition merge_runtime_config :: "jv \<Rightarrow> jv \<Rightarrow> config" where
  "merge_runtime_config data features =
     obj_set (obj_set (obj_set (obj_spread defaultRuntimeConfig (spread_members data))
       ''features'' (JObj (obj_spread default_features (spread_members (js_or features (Some (JObj [])))))))
       ''VITE_DIRECT_MCP_GATEWAY_MODIFIER''
         (or_default data ''VITE_DIRECT_MCP_GATEWAY_MODIFIER'' (JStr '':5235'')))
       ''LLM_CONFIG_ADMIN_ONLY'' (or_default data ''LLM_CONFIG_ADMIN_ONLY'' (JBool False))"

text \<open>\<open>answer\<close> is \<open>response.data\<close>, whatever its type, \<open>None\<close> when the request failed. Reading \<open>features\<close> of
  \<open>null\<close> throws and is caught like a failed request.\<close>

definition fetchRuntimeConfig :: "jv option \<Rightarrow> config" where
  "fetchRuntimeConfig answer =
     (let fallback = obj_set defaultRuntimeConfig ''LLM_CONFIG_ADMIN_ONLY'' (JBool False)
      in case answer of
           None \<Rightarrow> fallback
         | Some data \<Rightarrow> (case js_field data ''features'' of
              Inl e \<Rightarrow> fallback
            | Inr features \<Rightarrow> merge_runtime_config data features))"

section \<open>Start-up\<close>

record app =
  window_config :: "config option"
  manager_config :: config
  api_base :: string
  rendered :: bool

text \<open>A text field of the configuration; \<open>x || d\<close>.\<close>

fun text_or :: "jv \<Rightarrow> string \<Rightarrow> string" where
  "text_or (Some (JStr s)) d = (if s = [] then d else s)"
| "text_or _ d = d"

text \<open>Evaluating the modules: \<open>App\<close> imports the pages and these the API client before the first
  line of \<open>main.tsx\<close> runs; each keeps what it reads from \<open>window.RUNTIME_CONFIG\<close> then.\<close>

definition evaluate_modules :: "config option \<Rightarrow> app" where
  "evaluate_modules win =
     \<lparr>window_config = win, manager_config = opt_or win [],
      api_base = text_or (case win of None \<Rightarrow> None | Some c \<Rightarrow> obj_get c ''apiBaseUrl'') ''/api'',
      rendered = False\<rparr>"

definition start_app :: "config option \<Rightarrow> jv option \<Rightarrow> app" where
  "start_app win answer =
     (evaluate_modules win)\<lparr>window_config := Some (fetchRuntimeConfig answer), rendered := True\<rparr>"

section \<open>The base URLs\<close>

text \<open>\<open>s.replace(/:\d+$/, '')\<close>.\<close>

definition strip_port :: "string \<Rightarrow> string" where
  "strip_port s =
     (let r = rev s; ds = takeWhile is_digit r; rest = dropWhile is_digit r in
      case rest of
        [] \<Rightarrow> s
      | c # cs \<Rightarrow> if ds \<noteq> [] \<and> c = CHR '':'' then rev cs else s)"

definition getGatewayBaseUrl :: "config \<Rightarrow> string \<Rightarrow> string" where
  "getGatewayBaseUrl RUNTIME_CONFIG origin =
     (let base = strip_trailing_slashes (text_or (obj_get RUNTIME_CONFIG ''VITE_MCP_GATEWAY_BASE_URL'') []) in
      if starts_with base ''http'' then base
      else let origin' = strip_trailing_slashes origin;
               base' = (if base \<noteq> [] \<and> \<not> starts_with base ''/'' then ''/'' @ base else base)
           in origin' @ base')"

definition getDirectGatewayBaseUrl :: "config option \<Rightarrow> string \<Rightarrow> string" where
  "getDirectGatewayBaseUrl win origin =
     (let read = (\<lambda>k. case win of None \<Rightarrow> None | Some c \<Rightarrow> obj_get c k);
          explicitBaseUrl = text_or (read ''VITE_GATEWAY_SERVICE_BASE_URL'') []
      in if explicitBaseUrl \<noteq> [] then strip_trailing_slashes explicitBaseUrl
         else let modifier = text_or (read ''VITE_DIRECT_MCP_GATEWAY_MODIFIER'') '':5235'';
                  origin' = strip_trailing_slashes origin
              in if starts_with modifier ''http'' then strip_trailing_slashes modifier
                 else let modifier' = (if \<not> starts_with modifier ''/'' \<and> \<not> starts_with modifier '':''
                                       then ''/'' @ modifier else modifier)
                      in strip_trailing_slashes (strip_port origin' @ modifier'))"

section \<open>Lemmas\<close>

lemma ends_slash_strip: "\<not> ends_with (strip_trailing_slashes s) ''/''"
proof
  assume "ends_with (strip_trailing_slashes s) ''/''"
  then obtain t where t: "rev (dropWhile (\<lambda>c. c = CHR ''/'') (rev s)) = t @ ''/''"
    by (auto simp: ends_with_iff strip_trailing_slashes_def)
  then have "dropWhile (\<lambda>c. c = CHR ''/'') (rev s) = CHR ''/'' # rev t"
    by (metis append_Nil rev_append rev_rev_ident rev_singleton_conv append_Cons)
  moreover have "hd (dropWhile (\<lambda>c. c = CHR ''/'') (rev s)) \<noteq> CHR ''/''"
    using calculation hd_dropWhile [of "\<lambda>c. c = CHR ''/''" "rev s"] by auto
  ultimately show False by simp
qed

lemma spread_member:
  assumes "k \<in> {''VITE_DIRECT_MCP_GATEWAY_MODIFIER'', ''LLM_CONFIG_ADMIN_ONLY''}"
  shows "obj_get (spread_members data) k = js_opt_field data k"
proof -
  have k: "k \<noteq> nat_str i" for i
    using assms nat_str_digits [of i] by (auto simp: is_digit_def)
  then have num: "obj_get (numbered_from i xs) k = None" for i xs
    by (induction i xs rule: numbered_from.induct) (simp_all add: obj_get_def)
  show ?thesis
    by (cases data rule: spread_members.cases) (simp_all add: num js_opt_field_def, simp_all add: obj_get_def)
qed

lemma default_members:
  "obj_get defaultRuntimeConfig ''VITE_DIRECT_MCP_GATEWAY_MODIFIER'' = Some (JStr '':5235'')"
  "obj_get defaultRuntimeConfig ''LLM_CONFIG_ADMIN_ONLY'' = Some (JBool False)"
  by (simp_all add: obj_get_def defaultRuntimeConfig_def)

lemma merge_other:
  assumes "wf_obj (spread_members data)" "k \<noteq> ''features''"
  shows "obj_get (merge_runtime_config data features) k
    = (case obj_get (spread_members data) k of Some v \<Rightarrow> Some v | None \<Rightarrow> obj_get defaultRuntimeConfig k)"
proof -
  consider "k = ''VITE_DIRECT_MCP_GATEWAY_MODIFIER''" | "k = ''LLM_CONFIG_ADMIN_ONLY''"
    | "k \<noteq> ''VITE_DIRECT_MCP_GATEWAY_MODIFIER''" "k \<noteq> ''LLM_CONFIG_ADMIN_ONLY''" by blast
  then show ?thesis
  proof cases
    case 1
    then show ?thesis
      by (simp add: merge_runtime_config_def obj_get_set or_default_def default_members spread_member split: option.split)
  next
    case 2
    then show ?thesis
      by (simp add: merge_runtime_config_def obj_get_set or_default_def default_members spread_member split: option.split)
  next
    case 3
    with assms show ?thesis by (simp add: merge_runtime_config_def obj_get_set obj_get_spread)
  qed
qed

lemma merge_features:
  assumes "wf_obj (spread_members (js_or features (Some (JObj []))))"
  shows "\<exists>fs. obj_get (merge_runtime_config data features) ''features'' = Some (JObj fs)
    \<and> obj_get fs k = (case obj_get (spread_members (js_or features (Some (JObj [])))) k of
          Some v \<Rightarrow> Some v | None \<Rightarrow> obj_get default_features k)"
  using assms by (simp add: merge_runtime_config_def obj_get_set obj_get_spread)

lemma fallback_member:
  "obj_get (obj_set defaultRuntimeConfig ''LLM_CONFIG_ADMIN_ONLY'' (JBool False)) k = obj_get defaultRuntimeConfig k"
  by (simp add: obj_get_set default_members)

section \<open>Properties\<close>

text \<open>
  Property C40. The runtime configuration the application runs with is the fetched one over the defaults,
  whatever the answer is: every member but \<open>features\<close> is the answer's where it has one and the default
  otherwise, and so is every member of \<open>features\<close>. The members of an answer that is an array or a text
  are those under its numbers; null has none, and then, as without an answer, all are the defaults.
\<close>

theorem runtime_config_is_fetched_over_defaults:
  assumes "wf_obj (spread_members data)" and "wf_obj (spread_members (js_or (js_opt_field data ''features'') (Some (JObj []))))"
  shows "(if k = ''features'' then
       (\<exists>fs. obj_get (fetchRuntimeConfig (Some data)) k = Some (JObj fs)
          \<and> obj_get fs m = (case obj_get (spread_members (js_or (js_opt_field data ''features'') (Some (JObj [])))) m of
              Some v \<Rightarrow> Some v | None \<Rightarrow> obj_get default_features m))
     else obj_get (fetchRuntimeConfig (Some data)) k
       = (case obj_get (spread_members data) k of Some v \<Rightarrow> Some v | None \<Rightarrow> obj_get defaultRuntimeConfig k))
    \<and> obj_get (fetchRuntimeConfig None) k = obj_get defaultRuntimeConfig k"
proof -
  have none: "obj_get (fetchRuntimeConfig None) k = obj_get defaultRuntimeConfig k"
    by (simp add: fetchRuntimeConfig_def fallback_member)
  have features: "obj_get defaultRuntimeConfig ''features'' = Some (JObj default_features)"
    by (simp add: obj_get_def defaultRuntimeConfig_def default_features_def)
  show ?thesis
  proof (cases "js_field data ''features''")
    case (Inl e)
    then have "data = None \<or> data = Some JNull"
      by (auto simp: js_field_def split: option.splits json.splits)
    then have "spread_members data = []" "js_opt_field data ''features'' = None"
      by (auto simp: js_opt_field_def)
    with Inl none features show ?thesis
      by (simp add: fetchRuntimeConfig_def fallback_member obj_get_def [of "[]"])
  next
    case (Inr f)
    then have f: "js_opt_field data ''features'' = f"
      by (auto simp: js_field_def js_opt_field_def split: option.splits json.splits)
    have run: "fetchRuntimeConfig (Some data) = merge_runtime_config data f"
      using Inr by (simp add: fetchRuntimeConfig_def)
    show ?thesis
      using merge_other [OF assms(1), of k f] merge_features [OF assms(2) [unfolded f], of data m] none
      unfolding run f by auto
  qed
qed

theorem runtime_config_is_fetched_over_defaults_witness:
  "(let data = Some (JObj [(''version'', JStr ''1.2.3''), (''features'', JObj [(''beta'', JBool True)])])
    in obj_get (fetchRuntimeConfig (Some data)) ''version'' = Some (JStr ''1.2.3'')
     \<and> obj_get (fetchRuntimeConfig (Some data)) ''VITE_DIRECT_MCP_GATEWAY_MODIFIER'' = Some (JStr '':5235'')
     \<and> (\<exists>fs. obj_get (fetchRuntimeConfig (Some data)) ''features'' = Some (JObj fs)
          \<and> obj_get fs ''enableExperimental'' = Some (JBool False)))"
proof -
  let ?d = "Some (JObj [(''version'', JStr ''1.2.3''), (''features'', JObj [(''beta'', JBool True)])])"
  have w: "wf_obj (spread_members ?d)" "wf_obj (spread_members (js_or (js_opt_field ?d ''features'') (Some (JObj []))))"
    by (simp_all add: wf_obj_def js_opt_field_def js_or_def obj_get_def)
  note * = runtime_config_is_fetched_over_defaults [OF w]
  have "obj_get (fetchRuntimeConfig (Some ?d)) ''version'' = Some (JStr ''1.2.3'')"
    using * [where k = "''version''" and m = "[]"] by (simp add: obj_get_def)
  moreover have "obj_get (fetchRuntimeConfig (Some ?d)) ''VITE_DIRECT_MCP_GATEWAY_MODIFIER'' = Some (JStr '':5235'')"
    using * [where k = "''VITE_DIRECT_MCP_GATEWAY_MODIFIER''" and m = "[]"]
    by (simp add: obj_get_def) (simp add: defaultRuntimeConfig_def)
  moreover have "\<exists>fs. obj_get (fetchRuntimeConfig (Some ?d)) ''features'' = Some (JObj fs)
      \<and> obj_get fs ''enableExperimental'' = Some (JBool False)"
    using * [where k = "''features''" and m = "''enableExperimental''"]
    by (simp add: obj_get_def js_opt_field_def js_or_def) (simp add: default_features_def)
  ultimately show ?thesis by (simp add: Let_def)
qed

text \<open>
  A finding: the setting \<open>VITE_MCP_GATEWAY_BASE_URL\<close> and the setting
  \<open>apiBaseUrl\<close> of the fetched configuration have no effect. The gateway manager and the API
  client read \<open>window.RUNTIME_CONFIG\<close> when their modules are evaluated, which is before it is
  fetched: the gateway URL is always the page's origin and the API always under \<open>/api\<close>.
\<close>

theorem fetched_base_urls_are_ignored:
  "getGatewayBaseUrl (manager_config (start_app None answer)) origin = strip_trailing_slashes origin
   \<and> api_base (start_app None answer) = ''/api''"
  by (simp add: start_app_def evaluate_modules_def getGatewayBaseUrl_def opt_or_def obj_get_def
      strip_trailing_slashes_def starts_with_def Let_def)

text \<open>
  The two base URLs never end in a slash, so that a router prefix (which begins
  with one) can be appended, whatever slashes the configured values and the origin end in.
\<close>

theorem base_urls_have_no_trailing_slash:
  "\<not> ends_with (getDirectGatewayBaseUrl win origin) ''/''
   \<and> \<not> ends_with (getGatewayBaseUrl rc origin) ''/''"
proof
  show "\<not> ends_with (getDirectGatewayBaseUrl win origin) ''/''"
    unfolding getDirectGatewayBaseUrl_def Let_def using ends_slash_strip by simp
  show "\<not> ends_with (getGatewayBaseUrl rc origin) ''/''"
  proof (cases "strip_trailing_slashes (text_or (obj_get rc ''VITE_MCP_GATEWAY_BASE_URL'') []) = []")
    case True
    then show ?thesis
      using ends_slash_strip by (simp add: getGatewayBaseUrl_def starts_with_def)
  next
    case False
    let ?b = "strip_trailing_slashes (text_or (obj_get rc ''VITE_MCP_GATEWAY_BASE_URL'') [])"
    have e: "ends_with (x @ ?b) ''/'' = ends_with ?b ''/''" for x
      using False by (cases ?b rule: rev_cases) (auto simp: ends_with_iff)
    show ?thesis
      using ends_slash_strip e [of "strip_trailing_slashes origin"]
        e [of "strip_trailing_slashes origin @ ''/''"]
      by (simp add: getGatewayBaseUrl_def Let_def)
  qed
qed

end
