(* ===== verification/Gateway_Manager.thy ===== *)
theory Gateway_Manager
  imports Tenant_Api Runtime_Config
begin

text \<open>
  The gateway page, \<open>src/web/src/pages/gateway/gateway-manager.tsx\<close>: editing, creating, deleting,
  synchronising, exporting and importing configurations, and the check that router prefixes lie
  below their tenant's prefix. A handler reads the state of the render it belongs to and answers
  with the state change it makes; js-yaml's \<open>load\<close> and \<open>dump\<close> are parameters.
\<close>

section \<open>State\<close>

record manager =
  gm_mcpservers :: jv
  gm_currentMCPServer :: "gateway option"
  gm_editConfig :: string
  gm_newConfig :: string
  gm_isLoading :: bool
  gm_tenants :: "tenant list"
  gm_selectedTenant :: "string option"
  gm_viewMode :: string
  gm_isOpen :: bool
  gm_isCreateOpen :: bool
  gm_isImportOpen :: bool
  gm_isDeleteModalOpen :: bool
  gm_serverToDelete :: "gateway option"
  gm_copied :: "string \<Rightarrow> bool"

type_synonym change = "manager \<Rightarrow> manager"
type_synonym value_load = "string \<Rightarrow> js_exn + jv"
type_synonym value_dump = "jv \<Rightarrow> js_exn + string"

definition initial_manager :: "(string \<Rightarrow> string option) \<Rightarrow> manager" where
  "initial_manager localStorage = \<lparr>gm_mcpservers = Some (JArr []), gm_currentMCPServer = None,
     gm_editConfig = [], gm_newConfig = [], gm_isLoading = True, gm_tenants = [],
     gm_selectedTenant = None, gm_viewMode = ostr_or (localStorage ''gateway_view_mode'') ''table'',
     gm_isOpen = False, gm_isCreateOpen = False, gm_isImportOpen = False,
     gm_isDeleteModalOpen = False, gm_serverToDelete = None, gm_copied = (\<lambda>_. False)\<rparr>"

text \<open>\<open>tenants.find((t) => t.name === selectedTenant)?.id\<close>.\<close>

definition tenantId :: "manager \<Rightarrow> int option" where
  "tenantId st = map_option ten_id (find (\<lambda>t. Some (ten_name t) = gm_selectedTenant st) (gm_tenants st))"

definition reload :: "backend \<Rightarrow> manager \<Rightarrow> change io" where
  "reload be st = bnd (getMCPServers be (tenantId st)) (\<lambda>servers. ret (\<lambda>s. s\<lparr>gm_mcpservers := servers\<rparr>))"

section \<open>The router prefix check\<close>

definition norm_prefix :: "string \<Rightarrow> string" where
  "norm_prefix p = (let q = (if starts_with p ''/'' then p else ''/'' @ p) in
     if ends_with q ''/'' then butlast q else q)"

definition router_below :: "string \<Rightarrow> string \<Rightarrow> bool" where
  "router_below tenantPrefix routerPrefix =
     (let r = norm_prefix routerPrefix in
      starts_with r (tenantPrefix @ ''/'') \<and> drop (length tenantPrefix + 1) r \<noteq> [])"

text \<open>\<open>router.prefix\<close> of every element in turn; the first bad one ends the loop.\<close>

fun check_routers :: "string \<Rightarrow> json list \<Rightarrow> bool io" where
  "check_routers tenantPrefix [] = ret True"
| "check_routers tenantPrefix (router # rest) =
     bnd (get_field (Some router) ''prefix'') (\<lambda>p.
       case p of
         Some (JStr routerPrefix) \<Rightarrow>
           if router_below tenantPrefix routerPrefix then check_routers tenantPrefix rest
           else andthen (toast Danger (Tr ''errors.router_prefix_error'')) (ret False)
       | _ \<Rightarrow> throw (Js_exn (TypeError ''routerPrefix.startsWith'')))"

text \<open>The tenant's answer and the routers of the parsed text.\<close>

definition check_against_tenant :: "jv \<Rightarrow> jv \<Rightarrow> bool io" where
  "check_against_tenant tenant routers =
     (if \<not> js_truthy tenant then ret True
      else bnd (get_field tenant ''prefix'') (\<lambda>p.
        (case (p, routers) of
           (Some (JStr tenantPrefix), Some (JArr rs)) \<Rightarrow> check_routers (norm_prefix tenantPrefix) rs
         | _ \<Rightarrow> throw (Js_exn (TypeError ''tenantPrefix.startsWith'')))))"

definition validate_parsed :: "backend \<Rightarrow> jv \<Rightarrow> bool io" where
  "validate_parsed be parsedConfig =
     bnd (get_field parsedConfig ''tenant'') (\<lambda>tenantName.
       if \<not> js_truthy tenantName \<or> \<not> js_truthy (js_opt_field parsedConfig ''routers'') then ret True
       else bnd (getTenant be (json_text (the tenantName)))
         (\<lambda>tenant. check_against_tenant tenant (js_opt_field parsedConfig ''routers'')))"

definition validateRouterPrefixes :: "backend \<Rightarrow> value_load \<Rightarrow> string \<Rightarrow> bool io" where
  "validateRouterPrefixes be yload config =
     catch (case yload config of Inl e \<Rightarrow> throw e | Inr parsedConfig \<Rightarrow> validate_parsed be parsedConfig)
       (\<lambda>e. andthen (toast Danger (Tr ''errors.validate_router_prefix_failed'')) (ret False))"

section \<open>Reading and cleaning the edited text\<close>

definition clean_fields :: "json \<Rightarrow> json" where
  "clean_fields j =
     (case j of
        JObj fs \<Rightarrow> JObj (foldl (\<lambda>m k. if obj_get m k = Some JNull then obj_delete m k else m) fs
          [''mcpServers'', ''tools'', ''servers'', ''routers''])
      | other \<Rightarrow> other)"

text \<open>The part \<open>handleSave\<close> and \<open>handleCreate\<close> share word for word: parse, refuse a name of more
  than 50 characters, drop the null fields, print. \<open>None\<close> is the early return.\<close>

definition parse_and_clean :: "value_load \<Rightarrow> value_dump \<Rightarrow> string \<Rightarrow> string option io" where
  "parse_and_clean yload ydump text =
     (case yload text of
        Inl e \<Rightarrow> throw e
      | Inr parsedConfig \<Rightarrow>
          bnd (get_field parsedConfig ''name'') (\<lambda>name.
            if (case name of Some (JStr n) \<Rightarrow> length n > 50 | _ \<Rightarrow> False)
            then andthen (toast Danger (Tr ''gateway.name_length_error'')) (ret None)
            else (case ydump (map_option clean_fields parsedConfig) of
                    Inl e \<Rightarrow> throw e
                  | Inr cleanedConfig \<Rightarrow> ret (Some cleanedConfig))))"

section \<open>Handlers\<close>

definition handleEdit :: "string \<Rightarrow> (gateway \<Rightarrow> string option) \<Rightarrow> gateway \<Rightarrow> change io" where
  "handleEdit now dump server =
     (let completeConfig = server\<lparr>
            gw_prompts := over (gw_prompts server) (gw_prompts (defaultConfig now)),
            gw_mcpServers := Some (opt_or (gw_mcpServers server) []),
            gw_tools := Some (opt_or (gw_tools server) []),
            gw_servers := Some (opt_or (gw_servers server) []),
            gw_routers := Some (opt_or (gw_routers server) [])\<rparr>
      in case dump completeConfig of
           None \<Rightarrow> ret (\<lambda>s. s\<lparr>gm_currentMCPServer := Some completeConfig\<rparr>)
         | Some y \<Rightarrow> ret (\<lambda>s. s\<lparr>gm_currentMCPServer := Some completeConfig, gm_editConfig := y,
                             gm_isOpen := True\<rparr>))"

definition handleSave :: "backend \<Rightarrow> value_load \<Rightarrow> value_dump \<Rightarrow> manager \<Rightarrow> change io" where
  "handleSave be yload ydump st =
     catch
       (bnd (parse_and_clean yload ydump (gm_editConfig st)) (\<lambda>cleaned.
        case cleaned of
          None \<Rightarrow> ret id
        | Some cleanedConfig \<Rightarrow>
            bnd (validateRouterPrefixes be yload cleanedConfig) (\<lambda>isValidPrefix.
            if \<not> isValidPrefix then ret id
            else bnd
              (case gm_currentMCPServer st of
                 None \<Rightarrow> ret id
               | Some _ \<Rightarrow>
                   andthen (updateMCPServer be cleanedConfig)
                     (bnd (reload be st) (\<lambda>f.
                        andthen (toast Success (Tr ''gateway.edit_success'')) (ret f))))
              (\<lambda>f. ret (\<lambda>s. (f s)\<lparr>gm_isOpen := \<not> gm_isOpen st\<rparr>)))))
       (\<lambda>e. andthen (toast Danger (Tr ''gateway.edit_failed'')) (ret id))"

definition handleDelete :: "gateway \<Rightarrow> change" where
  "handleDelete server s = s\<lparr>gm_serverToDelete := Some server, gm_isDeleteModalOpen := True\<rparr>"

definition confirmDelete :: "backend \<Rightarrow> manager \<Rightarrow> change io" where
  "confirmDelete be st =
     (case gm_serverToDelete st of
        None \<Rightarrow> ret id
      | Some server \<Rightarrow>
          bnd (catch
            (andthen (deleteMCPServer be (gw_tenant server) (gw_name server))
               (bnd (reload be st) (\<lambda>f. andthen (toast Success (Tr ''gateway.delete_success'')) (ret f))))
            (\<lambda>e. andthen (toast Danger (Tr ''gateway.delete_failed'')) (ret id)))
          (\<lambda>f. ret (\<lambda>s. (f s)\<lparr>gm_isDeleteModalOpen := False, gm_serverToDelete := None\<rparr>)))"

definition handleExport :: "(gateway \<Rightarrow> string option) \<Rightarrow> gateway \<Rightarrow> unit io" where
  "handleExport dump server =
     catch (andthen (toast Success (Tr ''gateway.exporting''))
             (andthen (exportMCPServer dump server) (toast Success (Tr ''gateway.export_success''))))
       (\<lambda>e. toast Danger (Tr ''gateway.export_failed''))"

definition handleSync :: "backend \<Rightarrow> manager \<Rightarrow> change io" where
  "handleSync be st =
     bnd (catch
       (andthen (syncMCPServers be)
          (bnd (reload be st) (\<lambda>f. andthen (toast Success (Tr ''gateway.sync_success'')) (ret f))))
       (\<lambda>e. andthen (toast Danger (Tr ''gateway.sync_failed'')) (ret id)))
     (\<lambda>f. ret (\<lambda>s. (f s)\<lparr>gm_isLoading := False\<rparr>))"

text \<open>\<open>copy\<close> is copy-to-clipboard: whether it could put the text there, \<open>None\<close> when it throws.\<close>

definition handleCopyToClipboard :: "(string \<Rightarrow> bool option) \<Rightarrow> string \<Rightarrow> unit io" where
  "handleCopyToClipboard copy txt =
     (case copy txt of
        None \<Rightarrow> toast Danger (Tr ''common.copy_failed'')
      | Some success \<Rightarrow> if success then toast Success (Tr ''common.copied'')
                         else toast Danger (Tr ''common.copy_failed''))"

definition handleCreate :: "backend \<Rightarrow> value_load \<Rightarrow> value_dump \<Rightarrow> manager \<Rightarrow> change io" where
  "handleCreate be yload ydump st =
     catch
       (bnd (parse_and_clean yload ydump (gm_newConfig st)) (\<lambda>cleaned.
        case cleaned of
          None \<Rightarrow> ret id
        | Some cleanedConfig \<Rightarrow>
            bnd (validateRouterPrefixes be yload cleanedConfig) (\<lambda>isValidPrefix.
            if \<not> isValidPrefix then ret id
            else andthen (createMCPServer be cleanedConfig)
              (bnd (reload be st) (\<lambda>f.
                 andthen (toast Success (Tr ''gateway.add_success''))
                   (ret (\<lambda>s. (f s)\<lparr>gm_isCreateOpen := \<not> gm_isCreateOpen st, gm_newConfig := []\<rparr>)))))))
       (\<lambda>e. andthen (toast Danger (Tr ''gateway.add_failed'')) (ret id))"

definition handleImportSuccess :: "backend \<Rightarrow> manager \<Rightarrow> change io" where
  "handleImportSuccess be st =
     catch
       (bnd (reload be st) (\<lambda>f.
          andthen (toast Success (Tr ''gateway.import_success''))
            (ret (\<lambda>s. (f s)\<lparr>gm_isImportOpen := \<not> gm_isImportOpen st\<rparr>))))
       (\<lambda>e. andthen (toast Danger (Tr ''gateway.import_failed'')) (ret id))"

definition handleTenantSelectionChange :: "string \<Rightarrow> change" where
  "handleTenantSelectionChange tenantName s =
     (if tenantName \<noteq> [] then s\<lparr>gm_selectedTenant := Some tenantName\<rparr> else s)"

definition select_view :: "string \<Rightarrow> manager \<Rightarrow> world \<Rightarrow> manager \<times> world" where
  "select_view mode s w = (s\<lparr>gm_viewMode := mode\<rparr>, w\<lparr>w_storage := (w_storage w)(''gateway_view_mode'' \<mapsto> mode)\<rparr>)"

definition handleCopyWithIcon :: "(string \<Rightarrow> bool option) \<Rightarrow> string \<Rightarrow> string \<Rightarrow> change io" where
  "handleCopyWithIcon copy txt key =
     andthen (handleCopyToClipboard copy txt) (ret (\<lambda>s. s\<lparr>gm_copied := (gm_copied s)(key := True)\<rparr>))"

definition copy_timeout :: "string \<Rightarrow> change" where
  "copy_timeout key s = s\<lparr>gm_copied := (gm_copied s)(key := False)\<rparr>"

text \<open>The two loading effects. A rejection of the second is told apart by the status of its
  response; an error without a response has no such member.\<close>

definition fetchMCPServers :: "backend \<Rightarrow> manager \<Rightarrow> change io" where
  "fetchMCPServers be st =
     bnd (catch (reload be st)
            (\<lambda>e. andthen (toast Danger (Tr ''errors.fetch_mcp_servers'')) (ret id)))
       (\<lambda>f. ret (\<lambda>s. (f s)\<lparr>gm_isLoading := False\<rparr>))"

definition fetch_tenants_failed :: "js_exn \<Rightarrow> unit io" where
  "fetch_tenants_failed e =
     (case exn_response e of
        Some (status, d) \<Rightarrow>
          if status = 401 then toast Danger (Tr ''errors.authentication_required'')
          else toast Danger (Tr ''errors.fetch_authorized_tenants'')
      | None \<Rightarrow> toast Danger (Tr ''errors.fetch_authorized_tenants''))"

section \<open>Addresses and counts shown\<close>

definition router_url :: "string \<Rightarrow> router_config \<Rightarrow> string \<Rightarrow> string" where
  "router_url base r kind = base @ rt_prefix r @ ''/'' @ kind"

definition card_router_urls :: "config \<Rightarrow> config option \<Rightarrow> string \<Rightarrow> router_config \<Rightarrow> (string \<times> string) list" where
  "card_router_urls rc win origin r =
     [(''nginx-sse-'', router_url (getGatewayBaseUrl rc origin) r ''sse''),
      (''nginx-mcp-'', router_url (getGatewayBaseUrl rc origin) r ''mcp''),
      (''direct-sse-'', router_url (getDirectGatewayBaseUrl win origin) r ''sse''),
      (''direct-mcp-'', router_url (getDirectGatewayBaseUrl win origin) r ''mcp'')]"

definition copied_key :: "string \<Rightarrow> string \<Rightarrow> nat \<Rightarrow> string" where
  "copied_key kind serverName idx = kind @ serverName @ ''-'' @ nat_str idx"

definition tools_cell :: "gateway \<Rightarrow> nat \<times> nat" where
  "tools_cell server =
     (sum_list (map (\<lambda>s. length (opt_or (srv_allowedTools s) [])) (opt_or (gw_servers server) [])),
      length (opt_or (gw_tools server) []))"

definition routes_cell :: "gateway \<Rightarrow> nat" where
  "routes_cell server = length (opt_or (gw_routers server) [])"

definition description_cell :: "gateway \<Rightarrow> string option" where
  "description_cell server =
     (case opt_or (gw_servers server) [] of [] \<Rightarrow> None | s # _ \<Rightarrow> Some (srv_description s))"

section \<open>The rest of the page's state\<close>

text \<open>Dialogs, the two dialogs with the details of a server, the editors' texts, and the theme.\<close>

record manager_details =
  gd_isDark :: bool
  gd_isRoutingModalOpen :: bool
  gd_isToolsModalOpen :: bool
  gd_currentModalServer :: "gateway option"

definition initial_details :: "bool \<Rightarrow> manager_details" where
  "initial_details darkClass = \<lparr>gd_isDark = darkClass, gd_isRoutingModalOpen = False,
     gd_isToolsModalOpen = False, gd_currentModalServer = None\<rparr>"

definition observe_dark :: "bool \<Rightarrow> manager_details \<Rightarrow> manager_details" where
  "observe_dark darkClass d = d\<lparr>gd_isDark := darkClass\<rparr>"

definition open_routing_modal :: "gateway \<Rightarrow> manager_details \<Rightarrow> manager_details" where
  "open_routing_modal server d = d\<lparr>gd_currentModalServer := Some server, gd_isRoutingModalOpen := True\<rparr>"

definition open_tools_modal :: "gateway \<Rightarrow> manager_details \<Rightarrow> manager_details" where
  "open_tools_modal server d = d\<lparr>gd_currentModalServer := Some server, gd_isToolsModalOpen := True\<rparr>"

definition close_routing_modal :: "manager_details \<Rightarrow> manager_details" where
  "close_routing_modal d = d\<lparr>gd_isRoutingModalOpen := False\<rparr>"

definition close_tools_modal :: "manager_details \<Rightarrow> manager_details" where
  "close_tools_modal d = d\<lparr>gd_isToolsModalOpen := False\<rparr>"

text \<open>The tools listed as enabled and all tools in the dialog; without a server entry it is empty.\<close>

definition modal_enabled_tools :: "gateway \<Rightarrow> string list" where
  "modal_enabled_tools server =
     (case opt_or (gw_servers server) [] of [] \<Rightarrow> [] | s # _ \<Rightarrow> opt_or (srv_allowedTools s) [])"

definition modal_all_tools :: "gateway \<Rightarrow> string list" where
  "modal_all_tools server =
     (case opt_or (gw_servers server) [] of [] \<Rightarrow> [] | s # _ \<Rightarrow> map tool_name (opt_or (gw_tools server) []))"

definition type_editConfig :: "string \<Rightarrow> change" where
  "type_editConfig value s = s\<lparr>gm_editConfig := value\<rparr>"

definition type_newConfig :: "string \<Rightarrow> change" where
  "type_newConfig value s = s\<lparr>gm_newConfig := value\<rparr>"

definition edit_open_change :: change where
  "edit_open_change s = s\<lparr>gm_isOpen := \<not> gm_isOpen s\<rparr>"

definition create_open_change :: change where
  "create_open_change s = s\<lparr>gm_isCreateOpen := \<not> gm_isCreateOpen s\<rparr>"

definition import_open_change :: change where
  "import_open_change s = s\<lparr>gm_isImportOpen := \<not> gm_isImportOpen s\<rparr>"

definition delete_open_change :: change where
  "delete_open_change s = s\<lparr>gm_isDeleteModalOpen := False, gm_serverToDelete := None\<rparr>"

definition loading_begins :: change where
  "loading_begins s = s\<lparr>gm_isLoading := True\<rparr>"

section \<open>Several loads at once\<close>

text \<open>The list is loaded again whenever the selected tenant, the tenants or the language change, and by
  every handler that wrote something; nothing cancels a load that is under way, and each answer
  replaces the list when it arrives. A handler reloads for the tenant that was selected when it was
  called: \<open>ld_handlers\<close> are the tenants of the handlers under way that have not reloaded yet.\<close>

record loading =
  ld_manager :: manager
  ld_pending :: "int option list"
  ld_handlers :: "int option list"

definition start_load :: "loading \<Rightarrow> loading" where
  "start_load l = l\<lparr>ld_pending := ld_pending l @ [tenantId (ld_manager l)]\<rparr>"

definition select_tenant :: "string \<Rightarrow> loading \<Rightarrow> loading" where
  "select_tenant t l =
     (let m = handleTenantSelectionChange t (ld_manager l); l' = l\<lparr>ld_manager := m\<rparr> in
      if gm_selectedTenant m = gm_selectedTenant (ld_manager l) then l' else start_load l')"

definition tenants_loaded :: "tenant list \<Rightarrow> loading \<Rightarrow> loading" where
  "tenants_loaded ts l = start_load (l\<lparr>ld_manager := (ld_manager l)\<lparr>gm_tenants := ts\<rparr>\<rparr>)"

definition load_arrives :: "jv \<Rightarrow> nat \<Rightarrow> loading \<Rightarrow> loading" where
  "load_arrives servers i l =
     l\<lparr>ld_manager := (ld_manager l)\<lparr>gm_mcpservers := servers\<rparr>, ld_pending := splice1 (ld_pending l) i\<rparr>"

definition load_fails :: "nat \<Rightarrow> loading \<Rightarrow> loading" where
  "load_fails i l = l\<lparr>ld_pending := splice1 (ld_pending l) i\<rparr>"

definition handler_begins :: "loading \<Rightarrow> loading" where
  "handler_begins l = l\<lparr>ld_handlers := ld_handlers l @ [tenantId (ld_manager l)]\<rparr>"

definition handler_reloads :: "nat \<Rightarrow> loading \<Rightarrow> loading" where
  "handler_reloads k l =
     l\<lparr>ld_pending := ld_pending l @ [ld_handlers l ! k], ld_handlers := splice1 (ld_handlers l) k\<rparr>"

definition handler_gives_up :: "nat \<Rightarrow> loading \<Rightarrow> loading" where
  "handler_gives_up k l = l\<lparr>ld_handlers := splice1 (ld_handlers l) k\<rparr>"

text \<open>What the network and the user keep to: answers arrive in the order of the requests; a load fails
  only while a later one is under way; a handler reloads only while the tenant it was called for is
  the selected one.\<close>

record conditions =
  answers_in_order :: bool
  last_load_succeeds :: bool
  handlers_prompt :: bool

abbreviation careful :: conditions where
  "careful \<equiv> \<lparr>answers_in_order = True, last_load_succeeds = True, handlers_prompt = True\<rparr>"

text \<open>\<open>has i v\<close> says that the backend may answer \<open>v\<close> for the tenant \<open>i\<close>.\<close>

inductive loads :: "conditions \<Rightarrow> (int option \<Rightarrow> jv \<Rightarrow> bool) \<Rightarrow> loading \<Rightarrow> loading \<Rightarrow> bool"
  for c has l0 where
  mount: "loads c has l0 (start_load l0)"
| select: "loads c has l0 l \<Longrightarrow> loads c has l0 (select_tenant t l)"
| tenants: "loads c has l0 l \<Longrightarrow> loads c has l0 (tenants_loaded ts l)"
| language: "loads c has l0 l \<Longrightarrow> loads c has l0 (start_load l)"
| arrive: "loads c has l0 l \<Longrightarrow> i < length (ld_pending l) \<Longrightarrow> answers_in_order c \<longrightarrow> i = 0
    \<Longrightarrow> has (ld_pending l ! i) servers \<Longrightarrow> loads c has l0 (load_arrives servers i l)"
| fail: "loads c has l0 l \<Longrightarrow> i < length (ld_pending l) \<Longrightarrow> answers_in_order c \<longrightarrow> i = 0
    \<Longrightarrow> last_load_succeeds c \<longrightarrow> Suc i < length (ld_pending l) \<Longrightarrow> loads c has l0 (load_fails i l)"
| handler: "loads c has l0 l \<Longrightarrow> loads c has l0 (handler_begins l)"
| handler_load: "loads c has l0 l \<Longrightarrow> k < length (ld_handlers l)
    \<Longrightarrow> handlers_prompt c \<longrightarrow> ld_handlers l ! k = tenantId (ld_manager l) \<Longrightarrow> loads c has l0 (handler_reloads k l)"
| handler_stop: "loads c has l0 l \<Longrightarrow> k < length (ld_handlers l) \<Longrightarrow> loads c has l0 (handler_gives_up k l)"

lemma tenantId_cong [simp]: "tenantId (m\<lparr>gm_mcpservers := x\<rparr>) = tenantId m"
  by (simp add: tenantId_def)

text \<open>The steps are those of the loading effect and of the reload of the handlers.\<close>

lemma fetch_is_a_load:
  "getMCPServers be (tenantId st) w = (Inr servers, w') \<Longrightarrow>
     \<exists>f. fetchMCPServers be st w = (Inr f, w') \<and> gm_mcpservers (f s) = servers"
  "getMCPServers be (tenantId st) w = (Inl e, w') \<Longrightarrow>
     \<exists>f w''. fetchMCPServers be st w = (Inr f, w'') \<and> gm_mcpservers (f s) = gm_mcpservers s"
  "getMCPServers be (tenantId st) w = (Inr servers, w') \<Longrightarrow>
     \<exists>f. reload be st w = (Inr f, w') \<and> gm_mcpservers (f s) = servers"
  by (auto simp: fetchMCPServers_def reload_def io_simps)

interpretation ld: latest_answer ld_pending "\<lambda>l. tenantId (ld_manager l)"
    "\<lambda>l. gm_mcpservers (ld_manager l)" has start_load
    "\<lambda>l l'. \<exists>servers. ld_pending l \<noteq> [] \<and> has (hd (ld_pending l)) servers \<and> l' = load_arrives servers 0 l"
  for has :: "int option \<Rightarrow> jv \<Rightarrow> bool"
proof
  fix l l' :: loading
  assume "\<exists>servers. ld_pending l \<noteq> [] \<and> has (hd (ld_pending l)) servers \<and> l' = load_arrives servers 0 l"
  then show "ld_pending l \<noteq> [] \<and> ld_pending l' = tl (ld_pending l)"
    and "has (hd (ld_pending l)) (gm_mcpservers (ld_manager l'))"
    and "tenantId (ld_manager l') = tenantId (ld_manager l)"
    by (cases "ld_pending l"; auto simp: load_arrives_def splice1_def)+
qed (simp_all add: start_load_def)

lemma latest_select:
  assumes "ld.latest has l"
  shows "ld.latest has (select_tenant t l)"
proof (cases "gm_selectedTenant (handleTenantSelectionChange t (ld_manager l))
    = gm_selectedTenant (ld_manager l)")
  case True
  then have "handleTenantSelectionChange t (ld_manager l) = ld_manager l"
    by (cases "ld_manager l") (auto simp: handleTenantSelectionChange_def split: if_splits)
  with assms True show ?thesis by (simp add: select_tenant_def Let_def)
qed (simp add: select_tenant_def Let_def ld.latest_ask)

lemma latest_handlers [simp]: "ld.latest has (l\<lparr>ld_handlers := hs\<rparr>) = ld.latest has l"
  by (simp add: ld.latest_def)

lemma careful_loads_latest: "loads careful has l0 l \<Longrightarrow> ld.latest has l"
proof (induction rule: loads.induct)
  case (arrive l i servers)
  then have "i = 0" "ld_pending l \<noteq> []" by auto
  with arrive.hyps(4) have "\<exists>v. ld_pending l \<noteq> [] \<and> has (hd (ld_pending l)) v \<and> load_arrives servers i l = load_arrives v 0 l"
    by (intro exI [of _ servers]) (simp add: hd_conv_nth)
  with arrive.IH show ?case by (rule ld.latest_arrive)
next
  case (fail l i)
  from fail.hyps(3,4) have i: "i = 0" "Suc 0 < length (ld_pending l)" by simp_all
  have "ld_pending (load_fails i l) = tl (ld_pending l)"
    using i by (cases "ld_pending l") (simp_all add: load_fails_def splice1_def)
  moreover have "tl (ld_pending l) \<noteq> []" using i by (cases "ld_pending l") simp_all
  ultimately show ?case by (rule ld.latest_lost [OF fail.IH]) (simp add: load_fails_def)
next
  case (handler_load l k)
  then have "handler_reloads k l = (start_load l)\<lparr>ld_handlers := splice1 (ld_handlers l) k\<rparr>"
    by (simp add: handler_reloads_def start_load_def)
  then show ?case by (simp add: ld.latest_ask)
qed (simp_all add: ld.latest_ask latest_select tenants_loaded_def handler_begins_def handler_gives_up_def)

section \<open>The prefix check and its specification\<close>

lemma router_below_iff:
  "router_below t r \<longleftrightarrow> (\<exists>rest. rest \<noteq> [] \<and> norm_prefix r = t @ ''/'' @ rest)"
  by (auto simp: router_below_def Let_def starts_with_iff)

lemma router_below_segments:
  "router_below t r \<longleftrightarrow> strict_prefix (segments t) (segments (norm_prefix r))
     \<and> segments (norm_prefix r) \<noteq> segments t @ [[]]"
proof
  assume "router_below t r"
  then obtain rest where r: "rest \<noteq> []" "norm_prefix r = t @ CHR ''/'' # rest"
    by (auto simp: router_below_iff)
  then have s: "segments (norm_prefix r) = segments t @ segments rest"
    by (simp add: split_on_append)
  have "segments rest \<noteq> [[]]" using r(1) join_split [of "CHR ''/''" rest] by force
  with s show "strict_prefix (segments t) (segments (norm_prefix r))
     \<and> segments (norm_prefix r) \<noteq> segments t @ [[]]" by (auto simp: strict_prefix_def)
next
  assume a: "strict_prefix (segments t) (segments (norm_prefix r))
     \<and> segments (norm_prefix r) \<noteq> segments t @ [[]]"
  then obtain zs where zs: "segments (norm_prefix r) = segments t @ zs" "zs \<noteq> []"
    by (auto simp: strict_prefix_def prefix_def)
  let ?rest = "join ''/'' zs"
  have "norm_prefix r = join ''/'' (segments t @ zs)"
    using zs(1) join_split [of "CHR ''/''" "norm_prefix r"] by simp
  also have "\<dots> = t @ ''/'' @ ?rest" using zs(2) by (simp add: join_append)
  finally have n: "norm_prefix r = t @ ''/'' @ ?rest" .
  have "?rest \<noteq> []"
  proof
    assume "?rest = []"
    with n have "segments (norm_prefix r) = segments t @ [[]]" by (simp add: split_on_append)
    with a show False by simp
  qed
  with n show "router_below t r" by (auto simp: router_below_iff)
qed

lemma check_routers_True:
  "fst (check_routers tp rs w) = Inr True
   \<Longrightarrow> \<forall>r \<in> set rs. \<exists>p. js_field (Some r) ''prefix'' = Inr (Some (JStr p)) \<and> router_below tp p"
proof (induction tp rs arbitrary: w rule: check_routers.induct)
  case (2 tp r rest)
  from "2.prems" obtain p where p: "js_field (Some r) ''prefix'' = Inr (Some (JStr p))"
    and b: "router_below tp p" and rest: "fst (check_routers tp rest w) = Inr True"
    by (auto simp: io_simps split: sum.splits option.splits json.splits if_splits)
  have "\<forall>r \<in> set rest. \<exists>p. js_field (Some r) ''prefix'' = Inr (Some (JStr p)) \<and> router_below tp p"
    using "2.IH" b rest by blast
  with p b show ?case by auto
qed simp

section \<open>What a save or a creation sends\<close>

definition is_config_write :: "request \<Rightarrow> bool" where
  "is_config_write rq \<longleftrightarrow> rq_url rq = ''/mcp/configs'' \<and> rq_method rq \<noteq> ''GET''"

lemma getTenant_emits: "emits (\<lambda>rq. \<not> is_config_write rq) (getTenant be name)"
  unfolding getTenant_def api_get_def
  by (intro emit_rules) (simp add: is_config_write_def method_request_def)

lemma check_routers_emits: "emits P (check_routers tp rs)"
  by (induction tp rs rule: check_routers.induct)
     (auto intro!: emit_rules split: option.split json.split)

lemma validate_emits: "emits (\<lambda>rq. \<not> is_config_write rq) (validateRouterPrefixes be yload c)"
proof -
  have t: "emits P (check_against_tenant tn rs)" for P tn rs
    unfolding check_against_tenant_def
    by (auto intro!: emit_rules check_routers_emits split: option.split json.split)
  have "emits (\<lambda>rq. \<not> is_config_write rq) (validate_parsed be pc)" for pc
    unfolding validate_parsed_def
    by (auto intro!: emit_rules getTenant_emits t split: option.split json.split)
  then show ?thesis
    unfolding validateRouterPrefixes_def
    by (cases "yload c") (auto intro!: emit_rules)
qed

lemma validate_resolves: "\<exists>b w'. validateRouterPrefixes be yload c w = (Inr b, w')"
  unfolding validateRouterPrefixes_def
  by (auto simp: io_simps split: prod.split sum.split)

lemma parse_and_clean_log: "w_log (snd (parse_and_clean yload ydump t w)) = w_log w"
  unfolding parse_and_clean_def
  by (simp add: io_simps split: sum.split option.split json.split)

lemma parse_and_clean_Some:
  assumes "parse_and_clean yload ydump t w = (Inr (Some c), w')"
  shows "w' = w \<and> (\<exists>j. yload t = Inr j \<and> ydump (map_option clean_fields j) = Inr c)"
  using assms unfolding parse_and_clean_def
  by (auto simp: io_simps split: sum.splits if_splits)

lemma handler_gate:
  assumes log: "w_log (snd (catch (bnd (parse_and_clean yload ydump t) (\<lambda>cleaned.
        case cleaned of None \<Rightarrow> ret id
        | Some c \<Rightarrow> bnd (validateRouterPrefixes be yload c) (\<lambda>ok. if \<not> ok then ret id else k c)))
       (\<lambda>e. andthen (toast Danger m) (ret id)) w)) = w_log w @ sent"
    and rq: "rq \<in> set sent" "is_config_write rq"
  shows "\<exists>j c. yload t = Inr j \<and> ydump (map_option clean_fields j) = Inr c
    \<and> fst (validateRouterPrefixes be yload c w) = Inr True"
proof -
  obtain r1 w1 where p: "parse_and_clean yload ydump t w = (r1, w1)"
    by (cases "parse_and_clean yload ydump t w") auto
  then have l1: "w_log w1 = w_log w" using parse_and_clean_log [of yload ydump t w] by simp
  show ?thesis
  proof (cases "\<exists>c. r1 = Inr (Some c)")
    case False
    then have "r1 = Inr None \<or> (\<exists>e. r1 = Inl e)" by (cases r1) auto
    then have "sent = []" using log p l1 by (auto simp: io_simps)
    with rq show ?thesis by simp
  next
    case True
    then obtain c where r1: "r1 = Inr (Some c)" by blast
    note pc = parse_and_clean_Some [OF p [unfolded r1]]
    obtain b w2 where v: "validateRouterPrefixes be yload c w = (Inr b, w2)"
      using validate_resolves by blast
    obtain l where l: "w_log w2 = w_log w @ l" "list_all (\<lambda>rq. \<not> is_config_write rq) l"
      using emitsD [OF validate_emits v] by blast
    have b
    proof (rule ccontr)
      assume "\<not> b"
      then have "sent = l" using log p r1 pc v l by (simp add: io_simps)
      with l rq show False by (auto simp: list_all_iff)
    qed
    with pc v show ?thesis by auto
  qed
qed

lemma validate_True:
  assumes "fst (validateRouterPrefixes be yload c w) = Inr True" and "yload c = Inr cfg"
    and "js_field cfg ''tenant'' = Inr (Some (JStr name))" and "name \<noteq> []"
    and "js_opt_field cfg ''routers'' = Some (JArr rs)"
    and "fst (getTenant be name w) = Inr tenant" and "js_truthy tenant"
    and "js_field tenant ''prefix'' = Inr (Some (JStr tp))"
  shows "\<forall>r \<in> set rs. \<exists>p. js_field (Some r) ''prefix'' = Inr (Some (JStr p))
    \<and> router_below (norm_prefix tp) p"
proof -
  obtain w1 where g: "getTenant be name w = (Inr tenant, w1)"
    using assms(6) by (cases "getTenant be name w") auto
  have "validate_parsed be cfg w = check_routers (norm_prefix tp) rs w1"
    using assms g by (simp add: validate_parsed_def check_against_tenant_def io_simps)
  with assms(1,2) have "fst (check_routers (norm_prefix tp) rs w1) = Inr True"
    by (auto simp: validateRouterPrefixes_def io_simps split: prod.splits sum.splits)
  then show ?thesis by (rule check_routers_True)
qed

section \<open>Properties of the gateway page\<close>

text \<open>
  Property C18. A router prefix passes the check exactly when, both normalised (a slash in front, one at the
  end taken away), the tenant's segments are a proper prefix of the router's and what follows is not a
  lone empty segment: for the tenant's \<open>/t\<close> the router's \<open>/t//\<close> does not pass.
\<close>

theorem router_check_is_strictly_below_tenant:
  "router_below (norm_prefix tenant) router \<longleftrightarrow>
     strict_prefix (segments (norm_prefix tenant)) (segments (norm_prefix router))
     \<and> segments (norm_prefix router) \<noteq> segments (norm_prefix tenant) @ [[]]"
  by (rule router_below_segments)

text \<open>
  Property C1. Saving or creating writes a configuration to the backend only when every router
  of the cleaned text lies below the prefix the backend has for the text's tenant.
\<close>

theorem only_checked_configurations_are_written:
  assumes "w_log (snd (handleSave be yload ydump st w)) = w_log w @ sent
      \<and> t = gm_editConfig st
    \<or> w_log (snd (handleCreate be yload ydump st w)) = w_log w @ sent \<and> t = gm_newConfig st"
    and "rq \<in> set sent" and "is_config_write rq"
  shows "\<exists>j c. yload t = Inr j \<and> ydump (map_option clean_fields j) = Inr c
    \<and> (\<forall>cfg name rs tenant tp. yload c = Inr cfg \<longrightarrow> js_field cfg ''tenant'' = Inr (Some (JStr name))
         \<longrightarrow> name \<noteq> [] \<longrightarrow> js_opt_field cfg ''routers'' = Some (JArr rs)
         \<longrightarrow> fst (getTenant be name w) = Inr tenant \<longrightarrow> js_truthy tenant
         \<longrightarrow> js_field tenant ''prefix'' = Inr (Some (JStr tp))
         \<longrightarrow> (\<forall>r \<in> set rs. \<exists>p. js_field (Some r) ''prefix'' = Inr (Some (JStr p))
               \<and> router_below (norm_prefix tp) p))"
proof -
  have "\<exists>j c. yload t = Inr j \<and> ydump (map_option clean_fields j) = Inr c
    \<and> fst (validateRouterPrefixes be yload c w) = Inr True"
    using assms(1)
  proof
    assume a: "w_log (snd (handleSave be yload ydump st w)) = w_log w @ sent \<and> t = gm_editConfig st"
    show ?thesis unfolding conjunct2 [OF a]
      by (rule handler_gate [OF conjunct1 [OF a, unfolded handleSave_def] assms(2,3)])
  next
    assume a: "w_log (snd (handleCreate be yload ydump st w)) = w_log w @ sent \<and> t = gm_newConfig st"
    show ?thesis unfolding conjunct2 [OF a]
      by (rule handler_gate [OF conjunct1 [OF a, unfolded handleCreate_def] assms(2,3)])
  qed
  then obtain j c where jc: "yload t = Inr j" "ydump (map_option clean_fields j) = Inr c"
    "fst (validateRouterPrefixes be yload c w) = Inr True" by blast
  show ?thesis
    by (intro exI conjI) (use jc validate_True [OF jc(3)] in \<open>blast+\<close>)
qed

text \<open>A small backend: one tenant with prefix \<open>/t\<close>, everything else answers an empty object.\<close>

definition tenant_backend :: backend where
  "tenant_backend log rq = Answered 200 (Some (if rq_url rq = ''/auth/tenants/t''
     then tenant_json ''/t'' else JObj []))"

theorem only_checked_configurations_are_written_witness:
  "let cfg = JObj [(''tenant'', JStr ''t''), (''routers'', JArr [JObj [(''prefix'', JStr ''/t/a'')]])];
       yload = (\<lambda>_. Inr (Some cfg)); ydump = (\<lambda>_. Inr ''y'');
       st = (initial_manager (\<lambda>_. None))\<lparr>gm_newConfig := ''y''\<rparr>
   in \<exists>sent. w_log (snd (handleCreate tenant_backend yload ydump st start_world)) = sent
     \<and> list_ex is_config_write sent \<and> router_below (norm_prefix ''/t'') ''/t/a''"
proof -
  let ?cfg = "JObj [(''tenant'', JStr ''t''), (''routers'', JArr [JObj [(''prefix'', JStr ''/t/a'')]])]"
  let ?yload = "\<lambda>_::string. (Inr (Some ?cfg) :: js_exn + jv)"
  let ?ydump = "\<lambda>_::jv. (Inr ''y'' :: js_exn + string)"
  let ?st = "(initial_manager (\<lambda>_. None))\<lparr>gm_newConfig := ''y''\<rparr>"
  let ?log = "w_log (snd (handleCreate tenant_backend ?yload ?ydump ?st start_world))"
  have ex: "list_ex is_config_write ?log" by code_simp
  then obtain rq where rq: "rq \<in> set ?log" "is_config_write rq" by (auto simp: list_ex_iff)
  have g: "fst (getTenant tenant_backend ''t'' start_world) = Inr (Some (tenant_json ''/t''))"
    by code_simp
  have l: "w_log (snd (handleSave tenant_backend ?yload ?ydump ?st start_world)) = w_log start_world @ ?log
      \<and> ''y'' = gm_editConfig ?st
    \<or> ?log = w_log start_world @ ?log \<and> ''y'' = gm_newConfig ?st"
    by (rule disjI2) (simp add: start_world_def initial_manager_def)
  have "\<forall>r \<in> set [JObj [(''prefix'', JStr ''/t/a'')]]. \<exists>p. js_field (Some r) ''prefix''
      = Inr (Some (JStr p)) \<and> router_below (norm_prefix ''/t'') p"
    using only_checked_configurations_are_written [OF l rq] g
    by (auto simp: obj_get_def tenant_json_def js_opt_field_def)
  then have "router_below (norm_prefix ''/t'') ''/t/a''" by (simp add: obj_get_def)
  with ex show ?thesis by (simp add: Let_def)
qed

text \<open>
  Property C22. The list shown once no load is under way is one the backend has for the selected tenant,
  whatever was selected, written, and answered meanwhile, provided that answers arrive in the order
  of the requests, that a load fails only while a later one is under way, and that no handler
  reloads after the tenant it was called for is no longer the selected one.
\<close>

theorem careful_loads_show_selected_tenant:
  assumes "loads careful has l0 l" and "ld_pending l = []"
  shows "has (tenantId (ld_manager l)) (gm_mcpservers (ld_manager l))"
  using ld.latest_shown [OF careful_loads_latest [OF assms(1)] assms(2)] .

text \<open>A page with two tenants whose configurations are told apart by the tenant's identifier.\<close>

definition two_tenants :: loading where
  "two_tenants = \<lparr>ld_manager = (initial_manager (\<lambda>_. None))\<lparr>gm_tenants :=
     [\<lparr>ten_id = 1, ten_name = ''a'', ten_prefix = ''/a'', ten_description = [], ten_isActive = True\<rparr>,
      \<lparr>ten_id = 2, ten_name = ''b'', ten_prefix = ''/b'', ten_description = [], ten_isActive = True\<rparr>]\<rparr>,
     ld_pending = [], ld_handlers = []\<rparr>"

definition by_tenant :: "int option \<Rightarrow> jv \<Rightarrow> bool" where
  "by_tenant i v \<longleftrightarrow> v = map_option JInt i"

theorem careful_loads_show_selected_tenant_witness:
  "\<exists>l. loads careful by_tenant two_tenants l \<and> gm_selectedTenant (ld_manager l) = Some ''b''
     \<and> gm_mcpservers (ld_manager l) = Some (JInt 2)"
proof -
  let ?l1 = "handler_reloads 0 (handler_begins (select_tenant ''b'' (start_load two_tenants)))"
  let ?l2 = "load_fails 0 ?l1"
  let ?l3 = "load_arrives (Some (JInt 2)) 0 ?l2"
  let ?l4 = "load_arrives (Some (JInt 2)) 0 ?l3"
  have len: "length (ld_pending ?l1) = 3" "length (ld_pending ?l2) = 2" "length (ld_pending ?l3) = 1"
    "length (ld_handlers (handler_begins (select_tenant ''b'' (start_load two_tenants)))) = 1"
    "by_tenant (ld_pending ?l2 ! 0) (Some (JInt 2))" "by_tenant (ld_pending ?l3 ! 0) (Some (JInt 2))"
    "ld_handlers (handler_begins (select_tenant ''b'' (start_load two_tenants))) ! 0
      = tenantId (ld_manager (handler_begins (select_tenant ''b'' (start_load two_tenants))))"
    by code_simp+
  have run: "loads careful by_tenant two_tenants ?l4"
    by (intro loads.arrive loads.fail loads.handler_load loads.handler loads.select loads.mount)
       (simp_all only: len conditions.simps, simp_all)
  have "ld_pending ?l4 = []" by code_simp
  from careful_loads_show_selected_tenant [OF run this]
  have "by_tenant (tenantId (ld_manager ?l4)) (gm_mcpservers (ld_manager ?l4))" .
  moreover have "tenantId (ld_manager ?l4) = Some 2" "gm_selectedTenant (ld_manager ?l4) = Some ''b''" by code_simp+
  ultimately show ?thesis using run by (intro exI [of _ ?l4]) (simp add: by_tenant_def)
qed

text \<open>
  Findings: each of the three conditions is needed, for the page prevents none of these. An answer that
  arrives late, a load that fails after the tenant was changed, and a handler that reloads after the
  tenant was changed, with the tenant it was called for, leave the page at rest with the
  configurations of a tenant that is not the selected one.
\<close>

definition rests_on_other_tenant :: "loading \<Rightarrow> bool" where
  "rests_on_other_tenant l \<longleftrightarrow> ld_pending l = [] \<and> ld_handlers l = []
     \<and> \<not> by_tenant (tenantId (ld_manager l)) (gm_mcpservers (ld_manager l))"

theorem late_answer_shows_other_tenant:
  "\<exists>l. loads (careful\<lparr>answers_in_order := False\<rparr>) by_tenant two_tenants l \<and> rests_on_other_tenant l"
proof -
  let ?l1 = "select_tenant ''b'' (start_load two_tenants)"
  let ?l2 = "load_arrives (Some (JInt 2)) (Suc 0) ?l1"
  let ?l3 = "load_arrives None 0 ?l2"
  have len: "length (ld_pending ?l1) = 2" "length (ld_pending ?l2) = 1"
    "by_tenant (ld_pending ?l1 ! Suc 0) (Some (JInt 2))" "by_tenant (ld_pending ?l2 ! 0) None"
    by code_simp+
  have "loads (careful\<lparr>answers_in_order := False\<rparr>) by_tenant two_tenants ?l3"
    by (intro loads.arrive loads.select loads.mount) (simp_all add: len)
  moreover have "rests_on_other_tenant ?l3" by code_simp
  ultimately show ?thesis by blast
qed

theorem failed_load_keeps_other_tenants_list:
  "\<exists>l. loads (careful\<lparr>last_load_succeeds := False\<rparr>) by_tenant two_tenants l \<and> rests_on_other_tenant l"
proof -
  let ?l1 = "load_arrives None 0 (start_load two_tenants)"
  let ?l2 = "select_tenant ''b'' ?l1"
  have len: "length (ld_pending (start_load two_tenants)) = 1" "length (ld_pending ?l2) = 1"
    "by_tenant (ld_pending (start_load two_tenants) ! 0) None"
    by code_simp+
  have "loads (careful\<lparr>last_load_succeeds := False\<rparr>) by_tenant two_tenants (load_fails 0 ?l2)"
    by (intro loads.fail loads.arrive loads.select loads.mount) (simp_all add: len)
  moreover have "rests_on_other_tenant (load_fails 0 ?l2)" by code_simp
  ultimately show ?thesis by blast
qed

theorem stale_reload_shows_other_tenant:
  "\<exists>l. loads (careful\<lparr>handlers_prompt := False\<rparr>) by_tenant two_tenants l \<and> rests_on_other_tenant l"
proof -
  let ?l1 = "handler_begins (load_arrives None 0 (start_load two_tenants))"
  let ?l2 = "select_tenant ''b'' ?l1"
  let ?l3 = "load_arrives (Some (JInt 2)) 0 ?l2"
  let ?l4 = "handler_reloads 0 ?l3"
  have len: "length (ld_pending (start_load two_tenants)) = 1" "length (ld_pending ?l2) = 1"
    "by_tenant (ld_pending (start_load two_tenants) ! 0) None" "by_tenant (ld_pending ?l2 ! 0) (Some (JInt 2))"
    "length (ld_handlers ?l3) = 1" "length (ld_pending ?l4) = 1" "by_tenant (ld_pending ?l4 ! 0) None"
    by code_simp+
  have "loads (careful\<lparr>handlers_prompt := False\<rparr>) by_tenant two_tenants (load_arrives None 0 ?l4)"
    by (intro loads.arrive loads.handler_load loads.select loads.handler loads.mount) (simp_all add: len)
  moreover have "rests_on_other_tenant (load_arrives None 0 ?l4)" by code_simp
  ultimately show ?thesis by blast
qed

text \<open>
  A finding: \<open>handleSave\<close> reports a failure although the configuration was saved, when
  only the reload of the list fails; the editor stays open.
\<close>

theorem saved_but_reported_as_failed:
  assumes "parse_and_clean yload ydump (gm_editConfig st) w = (Inr (Some c), w1)"
    and "validateRouterPrefixes be yload c w1 = (Inr True, w2)"
    and "gm_currentMCPServer st = Some server"
    and "updateMCPServer be c w2 = (Inr d, w3)"
    and "getMCPServers be (tenantId st) w3 = (Inl e, w4)"
  shows "\<exists>f. handleSave be yload ydump st w = (Inr f,
      w4\<lparr>w_toasts := w_toasts w4 @ [(Danger, Tr ''gateway.edit_failed'')]\<rparr>) \<and> f s = s"
  using assms by (simp add: handleSave_def reload_def io_simps)

text \<open>A backend that saves but cannot list.\<close>

definition write_only_backend :: backend where
  "write_only_backend log rq =
     (if rq_method rq = ''PUT'' then Answered 200 (Some (JObj [])) else Unreachable ''Network Error'')"

theorem saved_but_reported_as_failed_witness:
  "let st = (initial_manager (\<lambda>_. None))\<lparr>gm_editConfig := ''y'', gm_currentMCPServer := Some (defaultConfig [])\<rparr>
   in (Danger, Tr ''gateway.edit_failed'') \<in> set (w_toasts (snd (handleSave write_only_backend
        (\<lambda>_. Inr (Some (JObj []))) (\<lambda>_. Inr ''y'') st start_world)))"
proof -
  let ?yload = "\<lambda>_::string. (Inr (Some (JObj [])) :: js_exn + jv)"
  let ?ydump = "\<lambda>_::jv. (Inr ''y'' :: js_exn + string)"
  let ?st = "(initial_manager (\<lambda>_. None))\<lparr>gm_editConfig := ''y'',
      gm_currentMCPServer := Some (defaultConfig [])\<rparr>"
  have p: "parse_and_clean ?yload ?ydump (gm_editConfig ?st) start_world = (Inr (Some ''y''), start_world)"
    by (simp add: parse_and_clean_def io_simps obj_get_def)
  have v: "validateRouterPrefixes write_only_backend ?yload ''y'' start_world = (Inr True, start_world)"
    by (simp add: validateRouterPrefixes_def validate_parsed_def io_simps obj_get_def)
  obtain d w3 where u: "updateMCPServer write_only_backend ''y'' start_world = (Inr d, w3)"
    by (simp add: updateMCPServer_def api_try_def io_simps send_def write_only_backend_def
        answer_outcome_def Let_def with_content_type_def method_request_def)
  obtain e w4 where g: "getMCPServers write_only_backend (tenantId ?st) w3 = (Inl e, w4)"
    by (simp add: getMCPServers_def api_try_def io_simps send_def write_only_backend_def
        answer_outcome_def Let_def api_get_def method_request_def handleApiError_def
        server_error_def isAxiosError_def)
  have "gm_currentMCPServer ?st = Some (defaultConfig [])" by simp
  from saved_but_reported_as_failed [OF p v this u g, where s = ?st]
  have "w_toasts (snd (handleSave write_only_backend ?yload ?ydump ?st start_world))
      = w_toasts w4 @ [(Danger, Tr ''gateway.edit_failed'')]" by auto
  then show ?thesis unfolding Let_def by (simp only: set_append) simp
qed

end
