(* ===== verification/Llm_Providers.thy ===== *)
theory Llm_Providers
  imports Js_Json Complex_Main
begin

text \<open>
  The catalogue of LLM providers and models, \<open>src/web/src/config/llm-providers-adapter.ts\<close>,
  \<open>config/llm-providers/index.ts\<close>, \<open>config/ai-models/index.ts\<close> and
  \<open>types/llm-legacy.ts\<close>. The tables of cards have theories of their own; here they are arguments.
\<close>

section \<open>Lookups in object literals\<close>

text \<open>\<open>table[key]\<close> on an object literal also finds what every object inherits; a value found
  that way is a function, not an entry.\<close>

definition object_members :: "string list" where
  "object_members = [''constructor'', ''hasOwnProperty'', ''isPrototypeOf'', ''propertyIsEnumerable'',
     ''toLocaleString'', ''toString'', ''valueOf'', ''__proto__'', ''__defineGetter__'',
     ''__defineSetter__'', ''__lookupGetter__'', ''__lookupSetter__'']"

definition table_get :: "(string \<times> 'a) list \<Rightarrow> string \<Rightarrow> 'a option result" where
  "table_get t k = (case map_of t k of
       Some v \<Rightarrow> Inr (Some v)
     | None \<Rightarrow> if k \<in> set object_members then Inl (IllTyped k) else Inr None)"

section \<open>Cards and models\<close>

datatype currency = CNY | USD

text \<open>\<open>ChatModelPricing\<close>, and the prices per resolution of the image models.\<close>

record pricing =
  price_currency :: "currency option"
  price_input :: "rat option"
  price_audioInput :: "rat option"
  price_audioOutput :: "rat option"
  price_cachedAudioInput :: "rat option"
  price_cachedInput :: "rat option"
  price_output :: "rat option"
  price_writeCacheInput :: "rat option"
  price_resolutions :: "(string \<times> rat) list"

record abilities =
  ab_files :: "bool option"
  ab_functionCall :: "bool option"
  ab_imageOutput :: "bool option"
  ab_reasoning :: "bool option"
  ab_search :: "bool option"
  ab_vision :: "bool option"

record model_config =
  mc_deploymentName :: "string option"
  mc_enabledSearch :: "bool option"

record model_settings =
  ms_extendParams :: "string list option"
  ms_searchImpl :: "string option"
  ms_searchProvider :: "string option"

text \<open>One record for the members of the union \<open>AllAIModelCard\<close>: what a kind of card does not have is
  absent. \<open>am_resolutions\<close> belongs to image models, \<open>am_maxDimension\<close> to embeddings,
  \<open>am_deploymentName\<close> to realtime models.\<close>

record ai_model =
  am_id :: string
  am_type :: string
  am_displayName :: "string option"
  am_description :: "string option"
  am_contextWindowTokens :: "int option"
  am_maxOutput :: "int option"
  am_pricing :: "pricing option"
  am_abilities :: "abilities option"
  am_enabled :: "bool option"
  am_legacy :: "bool option"
  am_organization :: "string option"
  am_releasedAt :: "string option"
  am_config :: "model_config option"
  am_settings :: "model_settings option"
  am_maxDimension :: "int option"
  am_resolutions :: "string list option"
  am_deploymentName :: "string option"

text \<open>The object literals of the data files, as updates of an object without optional members. The
  texts of a file that have characters outside the 8-bit ones are arguments, by their line.\<close>

named_theorems card_tables "the lists of cards of the data files"
named_theorems provider_cards "the provider cards of the data files"

type_synonym texts = "nat \<Rightarrow> string"

definition no_pricing :: pricing where
  "no_pricing = \<lparr>price_currency = None, price_input = None, price_audioInput = None,
     price_audioOutput = None, price_cachedAudioInput = None, price_cachedInput = None,
     price_output = None, price_writeCacheInput = None, price_resolutions = []\<rparr>"

definition no_abilities :: abilities where
  "no_abilities = \<lparr>ab_files = None, ab_functionCall = None, ab_imageOutput = None,
     ab_reasoning = None, ab_search = None, ab_vision = None\<rparr>"

definition no_config :: model_config where
  "no_config = \<lparr>mc_deploymentName = None, mc_enabledSearch = None\<rparr>"

definition no_settings :: model_settings where
  "no_settings = \<lparr>ms_extendParams = None, ms_searchImpl = None, ms_searchProvider = None\<rparr>"

definition model_of_type :: "string \<Rightarrow> string \<Rightarrow> ai_model" where
  "model_of_type ty i = \<lparr>am_id = i, am_type = ty, am_displayName = None, am_description = None,
     am_contextWindowTokens = None, am_maxOutput = None, am_pricing = None, am_abilities = None,
     am_enabled = None, am_legacy = None, am_organization = None, am_releasedAt = None,
     am_config = None, am_settings = None, am_maxDimension = None, am_resolutions = None,
     am_deploymentName = None\<rparr>"

lemma no_pricing_sel [simp]:
  "price_currency no_pricing = None" "price_input no_pricing = None"
  "price_audioInput no_pricing = None" "price_audioOutput no_pricing = None"
  "price_cachedAudioInput no_pricing = None" "price_cachedInput no_pricing = None"
  "price_output no_pricing = None" "price_writeCacheInput no_pricing = None"
  "price_resolutions no_pricing = []"
  by (simp_all add: no_pricing_def)

lemma model_of_type_sel [simp]:
  "am_id (model_of_type ty i) = i" "am_type (model_of_type ty i) = ty"
  "am_displayName (model_of_type ty i) = None" "am_description (model_of_type ty i) = None"
  "am_contextWindowTokens (model_of_type ty i) = None" "am_maxOutput (model_of_type ty i) = None"
  "am_pricing (model_of_type ty i) = None" "am_abilities (model_of_type ty i) = None"
  "am_enabled (model_of_type ty i) = None" "am_legacy (model_of_type ty i) = None"
  "am_organization (model_of_type ty i) = None" "am_releasedAt (model_of_type ty i) = None"
  "am_config (model_of_type ty i) = None" "am_settings (model_of_type ty i) = None"
  "am_maxDimension (model_of_type ty i) = None" "am_resolutions (model_of_type ty i) = None"
  "am_deploymentName (model_of_type ty i) = None"
  by (simp_all add: model_of_type_def)

datatype price_unit = Per_1k_tokens | Per_1m_tokens

record llm_model =
  lm_id :: string
  lm_name :: string
  lm_description :: "string option"
  lm_contextWindow :: "int option"
  lm_maxTokens :: "int option"
  lm_input :: rat
  lm_output :: rat
  lm_unit :: price_unit
  lm_vision :: bool
  lm_toolCalls :: bool
  lm_streaming :: bool
  lm_reasoning :: bool
  lm_enabled :: bool
  lm_isCustom :: bool
  lm_ownedBy :: string

record chat_card =
  cc_contextWindowTokens :: "int option"
  cc_deploymentName :: "string option"
  cc_description :: "string option"
  cc_displayName :: "string option"
  cc_enabled :: "bool option"
  cc_files :: "bool option"
  cc_functionCall :: "bool option"
  cc_id :: string
  cc_isCustom :: "bool option"
  cc_legacy :: "bool option"
  cc_maxOutput :: "int option"
  cc_pricing :: "pricing option"
  cc_reasoning :: "bool option"
  cc_releasedAt :: "string option"
  cc_vision :: "bool option"

record smoothing_params =
  sm_speed :: "int option"
  sm_text :: "bool option"
  sm_toolsCalling :: "bool option"

datatype proxy_url =
    No_proxy
  | Proxy_hint (px_desc: "string option") (px_placeholder: string) (px_title: "string option")

record ai_settings =
  st_defaultShowBrowserRequest :: "bool option"
  st_disableBrowserRequest :: "bool option"
  st_modelEditable :: "bool option"
  st_proxyUrl :: "proxy_url option"
  st_sdkType :: "string option"
  st_searchMode :: "string option"
  st_showAddNewModel :: "bool option"
  st_showApiKey :: "bool option"
  st_showChecker :: "bool option"
  st_showDeployName :: "bool option"
  st_showModelFetcher :: "bool option"
  st_smoothing :: "smoothing_params option"

record model_list_options =
  ml_azureDeployName :: "bool option"
  ml_notFoundContent :: "json option"
  ml_placeholder :: "string option"
  ml_showModelFetcher :: "bool option"

record provider_card =
  pcd_chatModels :: "chat_card list"
  pcd_checkModel :: "string option"
  pcd_defaultShowBrowserRequest :: "bool option"
  pcd_description :: "string option"
  pcd_disableBrowserRequest :: "bool option"
  pcd_enabled :: "bool option"
  pcd_id :: string
  pcd_modelList :: "model_list_options option"
  pcd_modelsUrl :: "string option"
  pcd_name :: string
  pcd_proxyUrl :: "proxy_url option"
  pcd_settings :: ai_settings
  pcd_showApiKey :: "bool option"
  pcd_showChecker :: "bool option"
  pcd_showConfig :: "bool option"
  pcd_smoothing :: "smoothing_params option"
  pcd_url :: string

definition chat_card_of :: "string \<Rightarrow> chat_card" where
  "chat_card_of i = \<lparr>cc_contextWindowTokens = None, cc_deploymentName = None, cc_description = None,
     cc_displayName = None, cc_enabled = None, cc_files = None, cc_functionCall = None, cc_id = i,
     cc_isCustom = None, cc_legacy = None, cc_maxOutput = None, cc_pricing = None,
     cc_reasoning = None, cc_releasedAt = None, cc_vision = None\<rparr>"

definition no_smoothing :: smoothing_params where
  "no_smoothing = \<lparr>sm_speed = None, sm_text = None, sm_toolsCalling = None\<rparr>"

definition plain_settings :: ai_settings where
  "plain_settings = \<lparr>st_defaultShowBrowserRequest = None, st_disableBrowserRequest = None,
     st_modelEditable = None, st_proxyUrl = None, st_sdkType = None, st_searchMode = None,
     st_showAddNewModel = None, st_showApiKey = None, st_showChecker = None,
     st_showDeployName = None, st_showModelFetcher = None, st_smoothing = None\<rparr>"

definition no_model_list :: model_list_options where
  "no_model_list = \<lparr>ml_azureDeployName = None, ml_notFoundContent = None, ml_placeholder = None,
     ml_showModelFetcher = None\<rparr>"

definition provider_of :: "string \<Rightarrow> string \<Rightarrow> string \<Rightarrow> chat_card list \<Rightarrow> provider_card" where
  "provider_of i name url ms = \<lparr>pcd_chatModels = ms, pcd_checkModel = None,
     pcd_defaultShowBrowserRequest = None, pcd_description = None, pcd_disableBrowserRequest = None,
     pcd_enabled = None, pcd_id = i, pcd_modelList = None, pcd_modelsUrl = None, pcd_name = name,
     pcd_proxyUrl = None, pcd_settings = plain_settings, pcd_showApiKey = None,
     pcd_showChecker = None, pcd_showConfig = None, pcd_smoothing = None, pcd_url = url\<rparr>"

lemma plain_settings_sel [simp]:
  "st_defaultShowBrowserRequest plain_settings = None"
  "st_disableBrowserRequest plain_settings = None" "st_modelEditable plain_settings = None"
  "st_proxyUrl plain_settings = None" "st_sdkType plain_settings = None"
  "st_searchMode plain_settings = None" "st_showAddNewModel plain_settings = None"
  "st_showApiKey plain_settings = None" "st_showChecker plain_settings = None"
  "st_showDeployName plain_settings = None" "st_showModelFetcher plain_settings = None"
  "st_smoothing plain_settings = None"
  by (simp_all add: plain_settings_def)

lemma provider_of_sel [simp]:
  "pcd_chatModels (provider_of i name url ms) = ms"
  "pcd_checkModel (provider_of i name url ms) = None"
  "pcd_defaultShowBrowserRequest (provider_of i name url ms) = None"
  "pcd_description (provider_of i name url ms) = None"
  "pcd_disableBrowserRequest (provider_of i name url ms) = None"
  "pcd_enabled (provider_of i name url ms) = None" "pcd_id (provider_of i name url ms) = i"
  "pcd_modelList (provider_of i name url ms) = None"
  "pcd_modelsUrl (provider_of i name url ms) = None" "pcd_name (provider_of i name url ms) = name"
  "pcd_proxyUrl (provider_of i name url ms) = None"
  "pcd_settings (provider_of i name url ms) = plain_settings"
  "pcd_showApiKey (provider_of i name url ms) = None"
  "pcd_showChecker (provider_of i name url ms) = None"
  "pcd_showConfig (provider_of i name url ms) = None"
  "pcd_smoothing (provider_of i name url ms) = None" "pcd_url (provider_of i name url ms) = url"
  by (simp_all add: provider_of_def)

record provider_settings =
  ps_showApiKey :: bool
  ps_showBaseURL :: bool
  ps_showOrganization :: bool
  ps_showTemperature :: bool
  ps_showTopP :: bool
  ps_showMaxTokens :: bool
  ps_showTimeout :: bool
  ps_allowClientFetch :: bool
  ps_defaultClientFetch :: bool
  ps_apiKeyRequired :: bool
  ps_baseURLRequired :: bool
  ps_checkModel :: "string option"

record provider_template =
  tpl_id :: string
  tpl_name :: string
  tpl_logo :: "string option"
  tpl_description :: string
  tpl_website :: "string option"
  tpl_documentation :: "string option"
  tpl_settings :: provider_settings
  tpl_defaultModels :: "llm_model list"

section \<open>convertToLLMModel\<close>

definition num_or_0 :: "rat option \<Rightarrow> rat" where
  "num_or_0 x = opt_or x 0"

definition flag :: "bool option \<Rightarrow> bool" where
  "flag b = opt_or b False"

text \<open>\<open>abilities?.f\<close>.\<close>

definition ability :: "ai_model \<Rightarrow> (abilities \<Rightarrow> bool option) \<Rightarrow> bool option" where
  "ability m f = (case am_abilities m of None \<Rightarrow> None | Some a \<Rightarrow> f a)"

definition convertToLLMModel :: "ai_model \<Rightarrow> string \<Rightarrow> llm_model" where
  "convertToLLMModel m providerId = \<lparr>
     lm_id = am_id m,
     lm_name = ostr_or (am_displayName m) (am_id m),
     lm_description = am_description m,
     lm_contextWindow = am_contextWindowTokens m,
     lm_maxTokens = am_maxOutput m,
     lm_input = (case am_pricing m of None \<Rightarrow> 0 | Some p \<Rightarrow> num_or_0 (price_input p)),
     lm_output = (case am_pricing m of None \<Rightarrow> 0 | Some p \<Rightarrow> num_or_0 (price_output p)),
     lm_unit = (case am_pricing m of
         None \<Rightarrow> Per_1k_tokens
       | Some p \<Rightarrow> (case price_input p of
           Some x \<Rightarrow> if x \<noteq> 0 \<and> x < 1 then Per_1k_tokens else Per_1m_tokens
         | None \<Rightarrow> Per_1m_tokens)),
     lm_vision = flag (ability m ab_vision),
     lm_toolCalls = (flag (ability m ab_functionCall) \<or> True),
     lm_streaming = True,
     lm_reasoning = flag (ability m ab_reasoning),
     lm_enabled = flag (am_enabled m),
     lm_isCustom = False,
     lm_ownedBy = providerId\<rparr>"

section \<open>Templates\<close>

definition default_check_models :: "(string \<times> string) list" where
  "default_check_models = [
     (''openai'', ''gpt-4o-mini''),
     (''anthropic'', ''claude-3-5-haiku-20241022''),
     (''google'', ''gemini-1.5-flash''),
     (''azure'', ''gpt-4o-mini''),
     (''bedrock'', ''anthropic.claude-3-5-sonnet-20241022-v2:0''),
     (''deepseek'', ''deepseek-chat''),
     (''qwen'', ''qwen-plus''),
     (''moonshot'', ''moonshot-v1-8k''),
     (''zhipu'', ''glm-4''),
     (''baichuan'', ''Baichuan2-Turbo''),
     (''minimax'', ''abab6.5s-chat''),
     (''openrouter'', ''openrouter/auto''),
     (''huggingface'', ''mistralai/Mistral-7B-Instruct-v0.3''),
     (''groq'', ''llama3-8b-8192''),
     (''perplexity'', ''llama-3.1-sonar-small-128k-online''),
     (''ollama'', ''llama3.1:8b''),
     (''lmstudio'', ''local-model''),
     (''vllm'', ''local-model''),
     (''mistral'', ''mistral-large-latest''),
     (''cohere'', ''command-r-plus''),
     (''ai21'', ''jamba-1.5-large''),
     (''xai'', ''grok-beta'')]"

definition getDefaultCheckModel :: "string \<Rightarrow> string result" where
  "getDefaultCheckModel providerId = map_sum id (\<lambda>v. ostr_or v ''gpt-3.5-turbo'')
     (table_get default_check_models providerId)"

text \<open>The check model is looked up only when the card has none.\<close>

definition convertLobeProviderToTemplate :: "provider_card \<Rightarrow> provider_template result" where
  "convertLobeProviderToTemplate p =
     (case (if str_truthy (pcd_checkModel p) then Inr (the (pcd_checkModel p))
            else getDefaultCheckModel (pcd_id p)) of
        Inl e \<Rightarrow> Inl e
      | Inr checkModel \<Rightarrow> Inr \<lparr>
          tpl_id = pcd_id p, tpl_name = pcd_name p, tpl_logo = None,
          tpl_description = ostr_or (pcd_description p) (pcd_name p @ '' AI models''),
          tpl_website = Some (pcd_url p), tpl_documentation = Some (pcd_url p),
          tpl_settings = \<lparr>
            ps_showApiKey = (pcd_showApiKey p \<noteq> Some False),
            ps_showBaseURL = True,
            ps_showOrganization = (pcd_id p = ''openai''),
            ps_showTemperature = True, ps_showTopP = True, ps_showMaxTokens = True,
            ps_showTimeout = True, ps_allowClientFetch = True,
            ps_defaultClientFetch = (pcd_id p \<in> {''ollama'', ''lmstudio'', ''vllm''}),
            ps_apiKeyRequired = (pcd_showApiKey p \<noteq> Some False \<and> pcd_id p \<noteq> ''ollama''),
            ps_baseURLRequired = (pcd_id p \<in> {''azure'', ''ollama'', ''lmstudio'', ''vllm''}),
            ps_checkModel = Some checkModel\<rparr>,
          tpl_defaultModels = []\<rparr>)"

fun builtin_providers :: "provider_card list \<Rightarrow> provider_template list result" where
  "builtin_providers [] = Inr []"
| "builtin_providers (p # ps) =
     (case convertLobeProviderToTemplate p of
        Inl e \<Rightarrow> Inl e
      | Inr t \<Rightarrow> map_sum id ((#) t) (builtin_providers ps))"

definition getProviderTemplate :: "provider_template list \<Rightarrow> string \<Rightarrow> provider_template option" where
  "getProviderTemplate BUILTIN_PROVIDERS providerId = find (\<lambda>t. tpl_id t = providerId) BUILTIN_PROVIDERS"

definition getAllProviderIds :: "provider_template list \<Rightarrow> string list" where
  "getAllProviderIds BUILTIN_PROVIDERS = map tpl_id BUILTIN_PROVIDERS"

section \<open>Model cards by provider\<close>

definition all_provider_ids :: "string list" where
  "all_provider_ids = [''ai21'', ''ai360'', ''anthropic'', ''azure'', ''azureai'', ''baichuan'',
     ''bedrock'', ''cloudflare'', ''cohere'', ''deepseek'', ''fireworksai'', ''giteeai'', ''github'',
     ''google'', ''groq'', ''higress'', ''huggingface'', ''hunyuan'', ''infiniai'', ''internlm'',
     ''jina'', ''lmstudio'', ''minimax'', ''mistral'', ''moonshot'', ''novita'', ''nvidia'',
     ''ollama'', ''openai'', ''openrouter'', ''perplexity'', ''ppio'', ''qiniu'', ''qwen'',
     ''sambanova'', ''search1api'', ''sensenova'', ''siliconcloud'', ''spark'', ''stepfun'',
     ''taichu'', ''tencentcloud'', ''togetherai'', ''upstage'', ''vertexai'', ''vllm'',
     ''volcengine'', ''wenxin'', ''xai'', ''xinference'', ''zeroone'', ''zhipu'']"

text \<open>\<open>cards\<close> are the imported data files. The keys of \<open>providerMap\<close> are written out a
  second time in the source.\<close>

definition provider_map_keys :: "string list" where
  "provider_map_keys = [''ai21'', ''ai360'', ''anthropic'', ''azure'', ''azureai'', ''baichuan'',
     ''bedrock'', ''cloudflare'', ''cohere'', ''deepseek'', ''fireworksai'', ''giteeai'', ''github'',
     ''google'', ''groq'', ''higress'', ''huggingface'', ''hunyuan'', ''infiniai'', ''internlm'',
     ''jina'', ''lmstudio'', ''minimax'', ''mistral'', ''moonshot'', ''novita'', ''nvidia'',
     ''ollama'', ''openai'', ''openrouter'', ''perplexity'', ''ppio'', ''qiniu'', ''qwen'',
     ''sambanova'', ''search1api'', ''sensenova'', ''siliconcloud'', ''spark'', ''stepfun'',
     ''taichu'', ''tencentcloud'', ''togetherai'', ''upstage'', ''vertexai'', ''vllm'',
     ''volcengine'', ''wenxin'', ''xai'', ''xinference'', ''zeroone'', ''zhipu'']"

definition getModelsByProvider :: "(string \<Rightarrow> ai_model list) \<Rightarrow> string \<Rightarrow> ai_model list result" where
  "getModelsByProvider cards providerId =
     map_sum id (\<lambda>v. opt_or v []) (table_get (map (\<lambda>k. (k, cards k)) provider_map_keys) providerId)"

definition getAllModels :: "(string \<Rightarrow> ai_model list) \<Rightarrow> ai_model list" where
  "getAllModels cards = concat (map (\<lambda>p. case getModelsByProvider cards p of Inr ms \<Rightarrow> ms | Inl _ \<Rightarrow> [])
     all_provider_ids)"

definition findModel ::
    "(string \<Rightarrow> ai_model list) \<Rightarrow> string \<Rightarrow> string option \<Rightarrow> ai_model option result" where
  "findModel cards modelId providerId =
     (if str_truthy providerId
      then map_sum id (find (\<lambda>m. am_id m = modelId)) (getModelsByProvider cards (the providerId))
      else Inr (find (\<lambda>m. am_id m = modelId) (getAllModels cards)))"

definition getProviderModels :: "(string \<Rightarrow> ai_model list) \<Rightarrow> string \<Rightarrow> llm_model list result" where
  "getProviderModels cards providerId =
     map_sum id (\<lambda>ms. map (\<lambda>m. convertToLLMModel m providerId) (filter (\<lambda>m. am_type m = ''chat'') ms))
       (getModelsByProvider cards providerId)"

definition filterEnabledModels :: "provider_card \<Rightarrow> string list" where
  "filterEnabledModels p = map cc_id (filter (\<lambda>m. flag (cc_enabled m)) (pcd_chatModels p))"

definition isProviderDisableBrowserRequest :: "provider_card list \<Rightarrow> string \<Rightarrow> bool" where
  "isProviderDisableBrowserRequest ps id' =
     (find (\<lambda>v. pcd_id v = id' \<and> flag (pcd_disableBrowserRequest v)) ps \<noteq> None)"

section \<open>Base URLs and endpoints\<close>

definition default_base_urls :: "(string \<times> string) list" where
  "default_base_urls = [
     (''openai'', ''https://api.openai.com/v1''),
     (''anthropic'', ''https://api.anthropic.com''),
     (''google'', ''https://generativelanguage.googleapis.com''),
     (''deepseek'', ''https://api.deepseek.com''),
     (''groq'', ''https://api.groq.com/openai/v1''),
     (''mistral'', ''https://api.mistral.ai''),
     (''perplexity'', ''https://api.perplexity.ai''),
     (''openrouter'', ''https://openrouter.ai/api/v1''),
     (''cohere'', ''https://api.cohere.ai/compatibility/v1''),
     (''nvidia'', ''https://integrate.api.nvidia.com/v1''),
     (''ollama'', ''http://localhost:11434''),
     (''lmstudio'', ''http://localhost:1234/v1''),
     (''vllm'', ''http://localhost:8000/v1''),
     (''qwen'', ''https://dashscope.aliyuncs.com/compatible-mode/v1''),
     (''moonshot'', ''https://api.moonshot.cn/v1''),
     (''siliconcloud'', ''https://api.siliconflow.cn/v1''),
     (''spark'', ''https://spark-api-open.xf-yun.com/v1''),
     (''qiniu'', ''https://api.qnaigc.com/v1''),
     (''search1api'', ''https://api.search1api.com/v1''),
     (''infiniai'', ''https://cloud.infini-ai.com/maas/v1''),
     (''sambanova'', ''https://api.sambanova.ai/v1''),
     (''jina'', ''https://deepsearch.jina.ai/v1''),
     (''xai'', ''https://api.x.ai/v1''),
     (''higress'', ''https://127.0.0.1:8080/v1''),
     (''xinference'', ''http://localhost:9997/v1''),
     (''zhipu'', []), (''baichuan'', []), (''minimax'', []),
     (''azure'', []), (''bedrock'', []), (''vertexai'', []), (''huggingface'', [])]"

definition getDefaultBaseURL :: "string \<Rightarrow> string result" where
  "getDefaultBaseURL providerId = map_sum id (\<lambda>v. ostr_or v []) (table_get default_base_urls providerId)"

text \<open>The loop keeps the largest \<open>i\<close> for which the last \<open>i\<close> segments of the base are the first
  \<open>i\<close> of the path.\<close>

definition overlaps_at :: "string list \<Rightarrow> string list \<Rightarrow> nat \<Rightarrow> bool" where
  "overlaps_at baseURLParts pathParts i \<longleftrightarrow>
     join ''/'' (drop (length baseURLParts - i) baseURLParts) = join ''/'' (take i pathParts)"

definition overlap_index :: "string list \<Rightarrow> string list \<Rightarrow> nat" where
  "overlap_index baseURLParts pathParts =
     foldl (\<lambda>acc i. if overlaps_at baseURLParts pathParts i then i else acc) 0
       [1..<Suc (min (length baseURLParts) (length pathParts))]"

definition buildEndpointURL :: "string \<Rightarrow> string \<Rightarrow> string" where
  "buildEndpointURL baseURL path =
     (let cleanBaseURL = strip_trailing_slash baseURL; cleanPath = strip_leading_slash path in
      if ends_with cleanBaseURL cleanPath then cleanBaseURL
      else let baseURLParts = split_on (CHR ''/'') cleanBaseURL;
               pathParts = split_on (CHR ''/'') cleanPath;
               overlapIndex = overlap_index baseURLParts pathParts
           in if overlapIndex > 0 then
                (let remainingPath = join ''/'' (drop overlapIndex pathParts) in
                 if remainingPath \<noteq> [] then cleanBaseURL @ ''/'' @ remainingPath else cleanBaseURL)
              else cleanBaseURL @ ''/'' @ cleanPath)"

record provider_defaults =
  pd_baseURL :: string
  pd_temperature :: rat
  pd_topP :: rat
  pd_maxTokens :: int
  pd_timeout :: int
  pd_fetchOnClient :: bool

text \<open>\<open>None\<close> is the empty object answered for an unknown provider.\<close>

definition getProviderDefaultConfig ::
    "provider_template list \<Rightarrow> string \<Rightarrow> provider_defaults option result" where
  "getProviderDefaultConfig BUILTIN_PROVIDERS providerId =
     (case getProviderTemplate BUILTIN_PROVIDERS providerId of
        None \<Rightarrow> Inr None
      | Some t \<Rightarrow> map_sum id (\<lambda>u. Some \<lparr>pd_baseURL = u,
          pd_temperature = 0.7, pd_topP = 1, pd_maxTokens = 2048, pd_timeout = 30000,
          pd_fetchOnClient = ps_defaultClientFetch (tpl_settings t)\<rparr>) (getDefaultBaseURL providerId))"

section \<open>Descriptions\<close>

text \<open>\<open>t\<close> is i18next's translation, which answers the key itself when it has none and may
  throw.\<close>

definition getI18nDescription :: "(string \<Rightarrow> string option) \<Rightarrow> string \<Rightarrow> string \<Rightarrow> string" where
  "getI18nDescription t key fallback =
     (case t key of None \<Rightarrow> fallback | Some translated \<Rightarrow> if translated = key then fallback else translated)"

definition getProviderDescription :: "(string \<Rightarrow> string option) \<Rightarrow> string \<Rightarrow> string \<Rightarrow> string" where
  "getProviderDescription t providerId fallback =
     getI18nDescription t (''llm.providerDescriptions.'' @ providerId) fallback"

definition getModelDescription ::
    "(string \<Rightarrow> string option) \<Rightarrow> string \<Rightarrow> string \<Rightarrow> string \<Rightarrow> string" where
  "getModelDescription t providerId modelId fallback =
     (let keyWithProvider = ''llm.modelDescriptions.'' @ providerId @ ''.'' @ modelId;
          keyWithoutProvider = ''llm.modelDescriptions.'' @ modelId;
          descWithProvider = getI18nDescription t keyWithProvider []
      in if descWithProvider \<noteq> [] then descWithProvider
         else getI18nDescription t keyWithoutProvider fallback)"

section \<open>Lemmas on endpoints\<close>

lemma foldl_last_hit:
  "foldl (\<lambda>acc i. if P i then i else acc) a xs = a \<and> (\<forall>i \<in> set xs. \<not> P i)
   \<or> foldl (\<lambda>acc i. if P i then i else acc) a xs \<in> set xs
      \<and> P (foldl (\<lambda>acc i. if P i then i else acc) a xs)"
proof (induction xs arbitrary: a)
  case (Cons x xs)
  show ?case
    using Cons.IH [of x] Cons.IH [of a] by (cases "P x") auto
qed simp

lemma overlap_index_spec:
  assumes "overlap_index bs ps > 0"
  shows "overlap_index bs ps \<le> length bs \<and> overlap_index bs ps \<le> length ps
    \<and> overlaps_at bs ps (overlap_index bs ps)"
  using foldl_last_hit [of "overlaps_at bs ps" 0 "[1..<Suc (min (length bs) (length ps))]"] assms
  unfolding overlap_index_def [symmetric] by auto

lemma overlap_segments:
  assumes "overlaps_at (split_on c b) (split_on c p) i" "0 < i"
    "i \<le> length (split_on c b)" "i \<le> length (split_on c p)" "c = CHR ''/''"
  shows "drop (length (split_on c b) - i) (split_on c b) = take i (split_on c p)"
proof -
  let ?x = "drop (length (split_on c b) - i) (split_on c b)" and ?y = "take i (split_on c p)"
  have "?x \<noteq> []" "?y \<noteq> []" using assms by auto
  moreover have "\<forall>s \<in> set ?x. c \<notin> set s" "\<forall>s \<in> set ?y. c \<notin> set s"
    using split_on_parts in_set_dropD in_set_takeD by metis+
  ultimately have "split_on c (join [c] ?x) = ?x" "split_on c (join [c] ?y) = ?y" by simp_all
  with assms(1,5) show ?thesis by (simp add: overlaps_at_def)
qed

text \<open>The cases of the result: it ends with the path, and what is added to the base is the part
  of the path the base does not end with.\<close>

lemma buildEndpointURL_cases:
  fixes b p :: string
  defines "cb \<equiv> strip_trailing_slash b" and "cp \<equiv> strip_leading_slash p"
  assumes last: "last (split_on (CHR ''/'') cp) \<noteq> []"
  shows "buildEndpointURL b p = cb \<and> ends_with cb cp
    \<or> (\<exists>pre i. 0 < i \<and> i \<le> length (split_on (CHR ''/'') cp)
         \<and> split_on (CHR ''/'') cb = pre @ take i (split_on (CHR ''/'') cp)
         \<and> buildEndpointURL b p = join ''/'' (pre @ split_on (CHR ''/'') cp))
    \<or> buildEndpointURL b p = cb @ ''/'' @ cp"
proof -
  let ?bs = "split_on (CHR ''/'') cb" and ?ps = "split_on (CHR ''/'') cp"
  let ?i = "overlap_index ?bs ?ps"
  consider "ends_with cb cp" | "\<not> ends_with cb cp" "?i = 0" | "\<not> ends_with cb cp" "?i > 0" by blast
  then show ?thesis
  proof cases
    case 1
    then show ?thesis by (simp add: buildEndpointURL_def cb_def cp_def Let_def)
  next
    case 2
    then show ?thesis by (simp add: buildEndpointURL_def cb_def cp_def Let_def)
  next
    case 3
    note sp = overlap_index_spec [OF 3(2)]
    then have seg: "drop (length ?bs - ?i) ?bs = take ?i ?ps"
      using 3(2) by (intro overlap_segments) auto
    let ?pre = "take (length ?bs - ?i) ?bs"
    have bs: "?bs = ?pre @ take ?i ?ps" using seg append_take_drop_id [of "length ?bs - ?i" ?bs] by simp
    have ne: "?pre @ take ?i ?ps \<noteq> []" using 3(2) sp by auto
    have cb: "cb = join ''/'' (?pre @ take ?i ?ps)" using bs join_split [of "CHR ''/''" cb] by simp
    have split: "?pre @ ?ps = (?pre @ take ?i ?ps) @ drop ?i ?ps" by simp
    have res: "buildEndpointURL b p
        = (if join ''/'' (drop ?i ?ps) \<noteq> [] then cb @ ''/'' @ join ''/'' (drop ?i ?ps) else cb)"
      using 3 by (simp add: buildEndpointURL_def cb_def cp_def Let_def)
    show ?thesis
    proof (cases "drop ?i ?ps = []")
      case True
      then have "?pre @ ?ps = ?pre @ take ?i ?ps" using split by simp
      with res cb True have "buildEndpointURL b p = join ''/'' (?pre @ ?ps)" by simp
      with 3(2) sp bs show ?thesis by blast
    next
      case False
      then have j: "join ''/'' (?pre @ ?ps) = cb @ ''/'' @ join ''/'' (drop ?i ?ps)"
        using split cb join_append [OF ne, of "drop ?i ?ps" "''/''"] by simp
      show ?thesis
      proof (cases "join ''/'' (drop ?i ?ps) = []")
        case True
        have "drop ?i ?ps = [[]]"
          using True False by (cases "drop ?i ?ps" rule: list.exhaust; cases "tl (drop ?i ?ps)") auto
        then have "last ?ps = []" by (metis False last_drop drop_eq_Nil last.simps not_le)
        with last show ?thesis by simp
      next
        case nz: False
        with res j have "buildEndpointURL b p = join ''/'' (?pre @ ?ps)" by simp
        with 3(2) sp bs show ?thesis by blast
      qed
    qed
  qed
qed

lemma last_no_slash:
  assumes "last (split_on c s) \<noteq> []"
  shows "s \<noteq> [] \<and> last s \<noteq> c"
proof -
  have s: "s = join [c] (split_on c s)" by simp
  obtain init l where sp: "split_on c s = init @ [l]"
    by (metis append_butlast_last_id split_on_nonempty)
  with assms have l: "l \<noteq> []" by simp
  have "c \<notin> set l" using split_on_parts [of l c s] sp by simp
  moreover have "last s = last l \<and> s \<noteq> []"
  proof (cases "init = []")
    case True
    with s sp l show ?thesis by simp
  next
    case False
    then have "s = join [c] init @ [c] @ l" using s sp join_append [of init "[l]" "[c]"] by simp
    with l show ?thesis by simp
  qed
  ultimately show ?thesis using l by (metis last_in_set)
qed

lemma buildEndpointURL_ends:
  assumes "last (split_on (CHR ''/'') (strip_leading_slash p)) \<noteq> []"
  shows "ends_with (buildEndpointURL b p) (strip_leading_slash p)"
proof -
  let ?cp = "strip_leading_slash p"
  consider "ends_with (buildEndpointURL b p) ?cp"
    | pre where "buildEndpointURL b p = join ''/'' (pre @ split_on (CHR ''/'') ?cp)"
    | "buildEndpointURL b p = strip_trailing_slash b @ ''/'' @ ?cp"
    using buildEndpointURL_cases [OF assms, of b] by metis
  then show ?thesis
  proof cases
    case 2
    then show ?thesis
    proof (cases "pre = []")
      case False
      with 2 join_append [of pre "split_on (CHR ''/'') ?cp" "''/''"]
      have "buildEndpointURL b p = (join ''/'' pre @ ''/'') @ ?cp" by simp
      then show ?thesis by (metis ends_with_appendI)
    qed (use ends_with_appendI [of "[]" ?cp] in simp)
  next
    case 3
    then have "buildEndpointURL b p = (strip_trailing_slash b @ ''/'') @ ?cp" by simp
    then show ?thesis by (metis ends_with_appendI)
  qed
qed

lemma buildEndpointURL_starts:
  assumes "last (split_on (CHR ''/'') (strip_leading_slash p)) \<noteq> []"
  shows "starts_with (buildEndpointURL b p) (strip_trailing_slash b)"
proof -
  let ?cp = "strip_leading_slash p" and ?cb = "strip_trailing_slash b"
  let ?ps = "split_on (CHR ''/'') ?cp"
  consider "buildEndpointURL b p = ?cb"
    | pre i where "0 < i" "split_on (CHR ''/'') ?cb = pre @ take i ?ps"
        "buildEndpointURL b p = join ''/'' (pre @ ?ps)"
    | "buildEndpointURL b p = ?cb @ ''/'' @ ?cp"
    using buildEndpointURL_cases [OF assms, of b] by metis
  then show ?thesis
  proof cases
    case 1
    then show ?thesis using starts_withI [of ?cb "[]"] by simp
  next
    case 2
    have cb: "?cb = join ''/'' (pre @ take i ?ps)"
      using 2(2) join_split [of "CHR ''/''" ?cb] by simp
    have ne: "pre @ take i ?ps \<noteq> []" using 2(1) by simp
    have all: "pre @ ?ps = (pre @ take i ?ps) @ drop i ?ps" by simp
    show ?thesis
    proof (cases "drop i ?ps = []")
      case True
      with all have "join ''/'' (pre @ ?ps) = ?cb" using cb by simp
      with 2(3) show ?thesis using starts_withI [of ?cb "[]"] by simp
    next
      case False
      with all cb join_append [OF ne, of "drop i ?ps" "''/''"]
      have "join ''/'' (pre @ ?ps) = ?cb @ ''/'' @ join ''/'' (drop i ?ps)" by simp
      with 2(3) show ?thesis by (metis starts_withI)
    qed
  next
    case 3
    then show ?thesis by (metis starts_withI)
  qed
qed

section \<open>Properties of the catalogue\<close>



text \<open>
  A finding: every converted model is marked as able to call tools, also when its
  card says that it is not, because the default is applied with \<open>|| true\<close>.
\<close>

theorem every_model_claims_tool_calls:
  "getProviderModels cards p = Inr ms \<Longrightarrow> m \<in> set ms \<Longrightarrow> lm_toolCalls m"
  by (cases "getModelsByProvider cards p") (auto simp: getProviderModels_def convertToLLMModel_def)

theorem every_model_claims_tool_calls_witness:
  "let card = (model_of_type ''chat'' ''m'')
       \<lparr>am_abilities := Some (no_abilities\<lparr>ab_functionCall := Some False\<rparr>)\<rparr>
   in \<exists>ms. getProviderModels (\<lambda>_. [card]) ''openai'' = Inr ms \<and> length ms = 1
        \<and> list_all lm_toolCalls ms"
proof -
  let ?card = "(model_of_type ''chat'' ''m'')
       \<lparr>am_abilities := Some (no_abilities\<lparr>ab_functionCall := Some False\<rparr>)\<rparr>"
  let ?ms = "[convertToLLMModel ?card ''openai'']"
  have ms: "getProviderModels (\<lambda>_. [?card]) ''openai'' = Inr ?ms"
    by (simp add: getProviderModels_def getModelsByProvider_def table_get_def provider_map_keys_def
        opt_or_def)
  then have "list_all lm_toolCalls ?ms"
    using every_model_claims_tool_calls [OF ms] by (simp only: list_all_iff) blast
  with ms show ?thesis unfolding Let_def by (intro exI [of _ ?ms]) simp
qed

lemma provider_map_keys_all: "provider_map_keys = all_provider_ids"
  by (simp add: provider_map_keys_def all_provider_ids_def)

lemma getModelsByProvider_listed:
  assumes "p \<in> set all_provider_ids"
  shows "getModelsByProvider cards p = Inr (cards p)"
proof -
  have "map_of (map (\<lambda>k. (k, cards k)) provider_map_keys) p = Some (cards p)"
    using assms by (simp add: provider_map_keys_all map_of_map_restrict)
  then show ?thesis by (simp add: getModelsByProvider_def table_get_def opt_or_def)
qed

lemma getAllModels_concat: "getAllModels cards = concat (map cards all_provider_ids)"
  unfolding getAllModels_def by (simp add: getModelsByProvider_listed cong: map_cong)

text \<open>
  The provider catalogue is closed: exactly the providers that are listed have model
  cards, each once, and every model that is found anywhere is found again by its provider.
\<close>

theorem catalogue_is_closed:
  "distinct all_provider_ids \<and> set all_provider_ids = set provider_map_keys
   \<and> (\<forall>p \<in> set all_provider_ids. getModelsByProvider cards p = Inr (cards p))
   \<and> (findModel cards i None = Inr (Some m)
        \<longrightarrow> (\<exists>p \<in> set all_provider_ids. m \<in> set (cards p) \<and> am_id m = i))"
proof -
  have "distinct all_provider_ids" by code_simp
  moreover have "findModel cards i None = Inr (Some m)
        \<longrightarrow> (\<exists>p \<in> set all_provider_ids. m \<in> set (cards p) \<and> am_id m = i)"
    by (auto simp: findModel_def str_truthy_def getAllModels_concat find_Some_iff dest: nth_mem)
  ultimately show ?thesis by (simp add: provider_map_keys_all getModelsByProvider_listed)
qed

theorem catalogue_is_closed_witness:
  "let card = model_of_type ''chat'' ''m'';
       cards = (\<lambda>p. if p = ''zhipu'' then [card] else [])
   in findModel cards ''m'' None = Inr (Some card)
      \<and> (\<exists>p \<in> set all_provider_ids. card \<in> set (cards p))"
proof -
  let ?card = "model_of_type ''chat'' ''m''"
  let ?cards = "\<lambda>p. if p = ''zhipu'' then [?card] else []"
  have "findModel ?cards ''m'' None = Inr (Some ?card)"
    by (simp add: findModel_def str_truthy_def getAllModels_concat all_provider_ids_def)
  with catalogue_is_closed [of ?cards "''m''" ?card] show ?thesis unfolding Let_def by blast
qed

end
