(* ===== verification/Llm_Chat.thy ===== *)
theory Llm_Chat
  imports Llm_Providers
begin

text \<open>
  The chat service, \<open>src/web/src/services/llm-chat.ts\<close>: the provider configurations, the
  conversion of messages and tools, the request, and the reading of the streamed answer. What
  \<open>fetch\<close> answers and what the reader delivers are inputs; the callbacks are recorded as events in
  the order they are made.
\<close>

section \<open>Data\<close>

record tool_call =
  tc_id :: string
  tc_type :: string
  tc_name :: string
  tc_arguments :: string

record available_tool =
  at_name :: string
  at_description :: string
  at_parameters :: "json obj"

record tool_definition =
  td_name :: string
  td_description :: string
  td_properties :: json
  td_required :: json

record chat_message =
  cm_role :: string
  cm_content :: string
  cm_tool_call_id :: "string option"
  cm_tool_calls :: "tool_call list option"

record chat_request =
  cr_model :: string
  cr_messages :: "chat_message list"
  cr_tools :: "tool_definition list option"
  cr_temperature :: jv
  cr_top_p :: jv
  cr_max_tokens :: "int option"
  cr_max_completion_tokens :: "int option"
  cr_stream :: "bool option"
  cr_frequency_penalty :: jv
  cr_presence_penalty :: jv

record tool_result =
  tr_toolCallId :: string
  tr_name :: string
  tr_result :: json

record message =
  msg_content :: string
  msg_sender :: string
  msg_toolCalls :: "tool_call list option"
  msg_toolResult :: "tool_result option"

record llm_provider =
  prov_id :: string
  prov_config :: "json obj"
  prov_models :: "llm_model list"

section \<open>Provider configurations\<close>

datatype provider_kind = OpenAI | Anthropic | Qwen | Other

text \<open>\<open>PROVIDER_CONFIGS[providerId] || PROVIDER_CONFIGS.default\<close>.\<close>

definition getProviderConfig :: "string \<Rightarrow> provider_kind result" where
  "getProviderConfig providerId = map_sum id (\<lambda>v. opt_or v Other)
     (table_get [(''openai'', OpenAI), (''anthropic'', Anthropic), (''qwen'', Qwen),
        (''default'', Other)] providerId)"

definition REASONING_MODEL_PREFIXES :: "string list" where
  "REASONING_MODEL_PREFIXES = [''o1'', ''o3'', ''o4'']"

definition SYSTEM_TO_USER_MODELS :: "string list" where
  "SYSTEM_TO_USER_MODELS = [''o1-preview'', ''o1-preview-2024-09-12'', ''o1-mini'',
     ''o1-mini-2024-09-12'', ''o4-mini'']"

definition openai_payload :: "chat_request \<Rightarrow> chat_request" where
  "openai_payload payload =
     (let modelName = cr_model payload in
      if list_ex (starts_with modelName) REASONING_MODEL_PREFIXES then
        payload\<lparr>cr_max_completion_tokens := cr_max_tokens payload, cr_max_tokens := None,
          cr_frequency_penalty := Some (JInt 0), cr_presence_penalty := Some (JInt 0),
          cr_temperature := Some (JInt 1), cr_top_p := Some (JInt 1),
          cr_messages := map (\<lambda>m. m\<lparr>cm_role :=
            (if cm_role m = ''system''
             then if modelName \<in> set SYSTEM_TO_USER_MODELS then ''user'' else ''developer''
             else cm_role m)\<rparr>) (cr_messages payload)\<rparr>
      else payload)"

definition int_or :: "int option \<Rightarrow> int \<Rightarrow> int" where
  "int_or x d = (case x of Some n \<Rightarrow> if n \<noteq> 0 then n else d | None \<Rightarrow> d)"

definition anthropic_payload :: "chat_request \<Rightarrow> chat_request" where
  "anthropic_payload payload =
     \<lparr>cr_model = cr_model payload,
      cr_messages = filter (\<lambda>m. cm_role m \<noteq> ''system'') (cr_messages payload),
      cr_tools = None, cr_temperature = cr_temperature payload, cr_top_p = cr_top_p payload,
      cr_max_tokens = Some (int_or (cr_max_completion_tokens payload) (int_or (cr_max_tokens payload) 2048)),
      cr_max_completion_tokens = None, cr_stream = cr_stream payload,
      cr_frequency_penalty = None, cr_presence_penalty = None\<rparr>"

fun handlePayload :: "provider_kind \<Rightarrow> chat_request \<Rightarrow> chat_request" where
  "handlePayload OpenAI payload = openai_payload payload"
| "handlePayload Anthropic payload = anthropic_payload payload"
| "handlePayload Qwen payload = payload\<lparr>cr_stream := Some True\<rparr>"
| "handlePayload Other payload = payload"

definition config_text :: "llm_provider \<Rightarrow> string \<Rightarrow> string option" where
  "config_text p k =
     (case obj_get (prov_config p) k of
        Some v \<Rightarrow> if json_truthy v then Some (json_text v) else None
      | None \<Rightarrow> None)"

definition bearer_headers :: "llm_provider \<Rightarrow> string obj" where
  "bearer_headers p =
     (''Content-Type'', ''application/json'') #
     (case config_text p ''apiKey'' of Some k \<Rightarrow> [(''Authorization'', ''Bearer '' @ k)] | None \<Rightarrow> [])"

fun buildHeaders :: "provider_kind \<Rightarrow> llm_provider \<Rightarrow> string obj" where
  "buildHeaders OpenAI p = bearer_headers p @
     (case config_text p ''organization'' of Some k \<Rightarrow> [(''OpenAI-Organization'', k)] | None \<Rightarrow> [])"
| "buildHeaders Anthropic p = (''Content-Type'', ''application/json'') #
     (case config_text p ''apiKey'' of
        Some k \<Rightarrow> [(''x-api-key'', k), (''anthropic-version'', ''2023-06-01'')] | None \<Rightarrow> [])"
| "buildHeaders Qwen p = bearer_headers p"
| "buildHeaders Other p = bearer_headers p"

fun endpoint_path :: "provider_kind \<Rightarrow> string" where
  "endpoint_path Anthropic = ''/v1/messages''"
| "endpoint_path _ = ''/chat/completions''"

text \<open>\<open>config.baseURL || getDefaultBaseURL(id)\<close>; a base URL that is not a text has no
  \<open>replace\<close>.\<close>

definition base_url :: "llm_provider \<Rightarrow> string result" where
  "base_url p =
     (case obj_get (prov_config p) ''baseURL'' of
        Some (JStr s) \<Rightarrow> if s \<noteq> [] then Inr s else getDefaultBaseURL (prov_id p)
      | Some j \<Rightarrow> if json_truthy j then Inl (TypeError ''baseURL.replace'')
                  else getDefaultBaseURL (prov_id p)
      | None \<Rightarrow> getDefaultBaseURL (prov_id p))"

definition getEndpoint :: "provider_kind \<Rightarrow> llm_provider \<Rightarrow> string result" where
  "getEndpoint k p = map_sum id (\<lambda>b. buildEndpointURL b (endpoint_path k)) (base_url p)"

section \<open>Tool names\<close>

definition mangle :: "string \<Rightarrow> string" where
  "mangle s = replace_char (CHR '':'') (CHR ''_'') s"

fun handleToolNames :: "provider_kind \<Rightarrow> tool_definition list \<Rightarrow> tool_definition list" where
  "handleToolNames OpenAI tools = map (\<lambda>t. t\<lparr>td_name := mangle (td_name t)\<rparr>) tools"
| "handleToolNames _ tools = tools"

definition restore_name :: "available_tool list \<Rightarrow> string \<Rightarrow> string" where
  "restore_name originalTools name =
     (case find (\<lambda>t. mangle (at_name t) = name) originalTools of
        Some t \<Rightarrow> at_name t
      | None \<Rightarrow> replace_char (CHR ''_'') (CHR '':'') name)"

fun restoreToolNames ::
    "provider_kind \<Rightarrow> tool_call list \<Rightarrow> available_tool list \<Rightarrow> tool_call list" where
  "restoreToolNames OpenAI toolCalls originalTools =
     map (\<lambda>c. c\<lparr>tc_name := restore_name originalTools (tc_name c)\<rparr>) toolCalls"
| "restoreToolNames _ toolCalls originalTools = toolCalls"

section \<open>Conversions\<close>

definition plain_message :: "string \<Rightarrow> string \<Rightarrow> chat_message" where
  "plain_message role content =
     \<lparr>cm_role = role, cm_content = content, cm_tool_call_id = None, cm_tool_calls = None\<rparr>"

definition convert_message :: "message \<Rightarrow> chat_message list" where
  "convert_message m =
     (case msg_toolResult m of
        Some r \<Rightarrow> [(plain_message ''tool'' (json_text (tr_result r)))
                    \<lparr>cm_tool_call_id := Some (tr_toolCallId r)\<rparr>]
      | None \<Rightarrow>
          if msg_sender m = ''user'' then
            (if trim (msg_content m) \<noteq> [] then [plain_message ''user'' (msg_content m)] else [])
          else if msg_sender m = ''bot'' then
            [(plain_message ''assistant'' (msg_content m))
              \<lparr>cm_tool_calls := (case msg_toolCalls m of
                 Some (c # cs) \<Rightarrow> Some (map (\<lambda>t. t\<lparr>tc_type := ''function''\<rparr>) (c # cs))
               | _ \<Rightarrow> None)\<rparr>]
          else [])"

definition convertToOpenAIFormat :: "message list \<Rightarrow> chat_message list" where
  "convertToOpenAIFormat messages = concat (map convert_message messages)"

definition convertToolsToOpenAIFormat :: "available_tool list \<Rightarrow> tool_definition list" where
  "convertToolsToOpenAIFormat tools = map (\<lambda>t. \<lparr>td_name = at_name t, td_description = at_description t,
     td_properties = the (js_or (obj_get (at_parameters t) ''properties'') (Some (JObj []))),
     td_required = the (js_or (obj_get (at_parameters t) ''required'') (Some (JArr [])))\<rparr>) tools"

section \<open>The request\<close>

record prepared_request =
  pq_endpoint :: string
  pq_headers :: "string obj"
  pq_body :: chat_request

definition request_body ::
    "llm_provider \<Rightarrow> message list \<Rightarrow> string option \<Rightarrow> available_tool list \<Rightarrow> provider_kind \<Rightarrow> chat_request" where
  "request_body provider messages modelId availableTools kind =
     (let openAITools = (if length availableTools > 0
                         then Some (convertToolsToOpenAIFormat availableTools) else None)
      in handlePayload kind
           \<lparr>cr_model = ostr_or modelId (str_or (case prov_models provider of [] \<Rightarrow> [] | m # _ \<Rightarrow> lm_id m)
              ''gpt-3.5-turbo''),
            cr_messages = convertToOpenAIFormat messages,
            cr_tools = map_option (handleToolNames kind) openAITools,
            cr_temperature = Some (JDec ''0.7''), cr_top_p = Some (JInt 1),
            cr_max_tokens = Some 4096, cr_max_completion_tokens = None, cr_stream = Some True,
            cr_frequency_penalty = None, cr_presence_penalty = None\<rparr>)"

definition prepare_request ::
    "llm_provider \<Rightarrow> message list \<Rightarrow> string option \<Rightarrow> available_tool list \<Rightarrow> prepared_request result" where
  "prepare_request provider messages modelId availableTools =
     (case getProviderConfig (prov_id provider) of
        Inl e \<Rightarrow> Inl e
      | Inr kind \<Rightarrow>
          (case getEndpoint kind provider of
             Inl e \<Rightarrow> Inl e
           | Inr endpoint \<Rightarrow> Inr \<lparr>pq_endpoint = endpoint, pq_headers = buildHeaders kind provider,
               pq_body = request_body provider messages modelId availableTools kind\<rparr>))"

section \<open>The streamed answer\<close>

datatype event =
    Chunk string
  | Reasoning string
  | Tool_calls "tool_call list"
  | Complete string
  | Error_event string

record stream =
  st_buffer :: string
  st_message :: string
  st_calls :: "tool_call obj"
  st_events :: "event list"

definition stream_start :: stream where
  "stream_start = \<lparr>st_buffer = [], st_message = [], st_calls = [], st_events = []\<rparr>"

definition emit :: "event \<Rightarrow> stream \<Rightarrow> stream" where
  "emit e st = st\<lparr>st_events := st_events st @ [e]\<rparr>"

text \<open>\<open>x || ''\<close> on a member that is a text.\<close>

definition text_or_empty :: "jv \<Rightarrow> string" where
  "text_or_empty v = (case v of Some j \<Rightarrow> if json_truthy j then json_text j else [] | None \<Rightarrow> [])"

definition call_index :: "json \<Rightarrow> string" where
  "call_index toolCall = (case js_member toolCall ''index'' of
     None \<Rightarrow> ''0'' | Some JNull \<Rightarrow> ''0'' | Some j \<Rightarrow> json_text j)"

definition accumulate_call :: "json \<Rightarrow> tool_call obj \<Rightarrow> tool_call obj" where
  "accumulate_call toolCall acc =
     (let index = call_index toolCall;
          func = js_member toolCall ''function'';
          name = text_or_empty (js_opt_field func ''name'');
          args = text_or_empty (js_opt_field func ''arguments'');
          cid = text_or_empty (js_member toolCall ''id'')
      in case obj_get acc index of
           None \<Rightarrow> obj_set acc index
             \<lparr>tc_id = str_or cid (''call_'' @ index),
              tc_type = str_or (text_or_empty (js_member toolCall ''type'')) ''function'',
              tc_name = name, tc_arguments = args\<rparr>
         | Some c \<Rightarrow> obj_set acc index
             (c\<lparr>tc_arguments := tc_arguments c @ args,
                tc_name := str_or name (tc_name c),
                tc_id := str_or cid (tc_id c)\<rparr>))"

text \<open>The loop over the deltas; a \<open>null\<close> element makes it throw, which ends the line.\<close>

fun accumulate_calls :: "json list \<Rightarrow> tool_call obj \<Rightarrow> tool_call obj" where
  "accumulate_calls [] acc = acc"
| "accumulate_calls (t # ts) acc = (if t = JNull then acc else accumulate_calls ts (accumulate_call t acc))"

definition iterate :: "json \<Rightarrow> json list" where
  "iterate j = (case j of JArr xs \<Rightarrow> xs | JStr s \<Rightarrow> map (\<lambda>c. JStr [c]) s | _ \<Rightarrow> [])"

definition process_choice :: "json \<Rightarrow> stream \<Rightarrow> stream" where
  "process_choice choice st =
     (let delta = js_member choice ''delta'';
          reasoning = js_opt_field delta ''reasoning_content'';
          content = js_opt_field delta ''content'';
          calls = js_opt_field delta ''tool_calls'';
          st1 = (if js_truthy reasoning then emit (Reasoning (json_text (the reasoning))) st else st);
          st2 = (if js_truthy content
                 then emit (Chunk (json_text (the content)))
                        (st1\<lparr>st_message := st_message st1 @ json_text (the content)\<rparr>)
                 else st1)
      in if js_truthy calls then st2\<lparr>st_calls := accumulate_calls (iterate (the calls)) (st_calls st2)\<rparr>
         else st2)"

text \<open>\<open>parsed.choices[0]\<close>, \<open>None\<close> when it is \<open>undefined\<close> or reading it throws; both leave the
  line without effect.\<close>

definition first_choice :: "json \<Rightarrow> jv" where
  "first_choice parsed =
     (case js_field (Some parsed) ''choices'' of
        Inl e \<Rightarrow> None
      | Inr v \<Rightarrow> (case v of
            Some (JArr (c # cs)) \<Rightarrow> Some c
          | Some (JObj fs) \<Rightarrow> obj_get fs ''0''
          | Some (JStr (c # cs)) \<Rightarrow> Some (JStr [c])
          | _ \<Rightarrow> None))"

definition process_data :: "string \<Rightarrow> stream \<Rightarrow> stream" where
  "process_data data st =
     (case JSON_parse data of
        None \<Rightarrow> st
      | Some parsed \<Rightarrow>
          (case first_choice parsed of
             Some choice \<Rightarrow> if json_truthy choice then process_choice choice st else st
           | None \<Rightarrow> st))"

definition finishStream :: "provider_kind \<Rightarrow> available_tool list \<Rightarrow> stream \<Rightarrow> stream" where
  "finishStream kind originalTools st =
     (let finalToolCalls = own_values (st_calls st);
          st1 = (if length finalToolCalls > 0
                 then emit (Tool_calls (restoreToolNames kind finalToolCalls originalTools)) st else st)
      in emit (Complete (st_message st)) st1)"

fun process_lines ::
    "provider_kind \<Rightarrow> available_tool list \<Rightarrow> stream \<Rightarrow> string list \<Rightarrow> stream \<times> bool" where
  "process_lines kind tools st [] = (st, False)"
| "process_lines kind tools st (line # ls) =
     (if starts_with line ''data: '' then
        (if drop 6 line = ''[DONE]'' then (finishStream kind tools st, True)
         else process_lines kind tools (process_data (drop 6 line) st) ls)
      else process_lines kind tools st ls)"

abbreviation newline :: char where
  "newline \<equiv> char_of (10::nat)"

text \<open>What the reader delivers: a decoded piece of text, or a failure (a broken connection, or the
  abort of the request); the end of the list is the end of the body.\<close>

datatype read = Read string | Read_fails

fun read_loop :: "provider_kind \<Rightarrow> available_tool list \<Rightarrow> stream \<Rightarrow> read list \<Rightarrow> stream" where
  "read_loop kind tools st [] = st"
| "read_loop kind tools st (Read v # rs) =
     (let parts = split_on newline (st_buffer st @ v) in
      case process_lines kind tools (st\<lparr>st_buffer := last parts\<rparr>) (butlast parts) of
        (st', True) \<Rightarrow> st'
      | (st', False) \<Rightarrow> read_loop kind tools st' rs)"
| "read_loop kind tools st (Read_fails # rs) = emit (Error_event ''Stream processing failed'') st"

definition handleStreamResponse ::
    "provider_kind \<Rightarrow> available_tool list \<Rightarrow> read list option \<Rightarrow> event list" where
  "handleStreamResponse kind tools body =
     (case body of
        None \<Rightarrow> [Error_event ''No response body'']
      | Some reads \<Rightarrow> st_events (read_loop kind tools stream_start reads))"

section \<open>sendMessage\<close>

datatype fetched =
    Fetch_aborted
  | Fetch_failed string
  | Fetch_answered nat string "read list option"

definition sendMessage ::
    "llm_provider \<Rightarrow> message list \<Rightarrow> string option \<Rightarrow> available_tool list
      \<Rightarrow> (prepared_request \<Rightarrow> fetched) \<Rightarrow> event list" where
  "sendMessage provider messages modelId availableTools fetch =
     (case (getProviderConfig (prov_id provider), prepare_request provider messages modelId availableTools) of
        (Inr kind, Inr rq) \<Rightarrow>
          (case fetch rq of
             Fetch_aborted \<Rightarrow> []
           | Fetch_failed m \<Rightarrow> [Error_event m]
           | Fetch_answered status text body \<Rightarrow>
               if 200 \<le> status \<and> status < 300 then handleStreamResponse kind availableTools body
               else [Error_event (''HTTP '' @ nat_str status @ '': '' @ text)])
      | _ \<Rightarrow> [Error_event ''TypeError''])"

section \<open>callTool\<close>

text \<open>The part of the name before the first colon is the server, the part up to the next colon the
  tool; without a colon the tool is \<open>undefined\<close>.\<close>

definition split_tool_name :: "string \<Rightarrow> string \<times> string option" where
  "split_tool_name toolName =
     (case split_on (CHR '':'') toolName of
        [] \<Rightarrow> ([], None)
      | [s] \<Rightarrow> (s, None)
      | s # t # _ \<Rightarrow> (s, Some t))"

text \<open>\<open>call\<close> is the MCP service, which rejects with a message or answers the text of the result,
  \<open>undefined\<close> when it has none; \<open>JSON.stringify(undefined)\<close> is \<open>undefined\<close>.\<close>

definition callTool ::
    "(string \<Rightarrow> string option \<Rightarrow> json obj \<Rightarrow> string + jv) \<Rightarrow> string \<Rightarrow> json obj \<Rightarrow> string option" where
  "callTool call toolName parameters =
     (case split_tool_name toolName of
        (serverName, actualToolName) \<Rightarrow>
          (case call serverName actualToolName parameters of
             Inr result \<Rightarrow> map_option stringify result
           | Inl m \<Rightarrow> Some (stringify (JObj [(''error'', JStr m)]))))"

section \<open>Lines and pieces\<close>

text \<open>The lines of a text that a line feed ends: what is left after the last one is never looked at.\<close>

definition complete_lines :: "string \<Rightarrow> string list" where
  "complete_lines s = butlast (split_on newline s)"

lemma split_on_rest:
  "split_on c (a @ b) = butlast (split_on c a) @ split_on c (last (split_on c a) @ b)"
proof (induction a)
  case Nil
  then show ?case by simp
next
  case (Cons x a)
  obtain y ys where sp: "split_on c a = y # ys" by (cases "split_on c a") auto
  show ?case
  proof (cases "ys = []")
    case True
    with Cons sp show ?thesis by (cases "split_on c (y @ b)") auto
  next
    case False
    with Cons sp show ?thesis by auto
  qed
qed

lemma emit_simps [simp]:
  "st_buffer (emit e st) = st_buffer st" "st_message (emit e st) = st_message st"
  "st_calls (emit e st) = st_calls st" "st_events (emit e st) = st_events st @ [e]"
  "emit e (st\<lparr>st_buffer := b\<rparr>) = (emit e st)\<lparr>st_buffer := b\<rparr>"
  by (simp_all add: emit_def)

lemma process_choice_buffer:
  "process_choice c (st\<lparr>st_buffer := b\<rparr>) = (process_choice c st)\<lparr>st_buffer := b\<rparr>"
  by (simp add: process_choice_def Let_def emit_def)

lemma process_data_buffer:
  "process_data d (st\<lparr>st_buffer := b\<rparr>) = (process_data d st)\<lparr>st_buffer := b\<rparr>"
  by (simp add: process_data_def process_choice_buffer split: option.splits)

lemma finishStream_buffer:
  "finishStream k ts (st\<lparr>st_buffer := b\<rparr>) = (finishStream k ts st)\<lparr>st_buffer := b\<rparr>"
  by (simp add: finishStream_def Let_def)

lemma process_lines_buffer:
  "process_lines k ts (st\<lparr>st_buffer := b\<rparr>) ls =
     ((fst (process_lines k ts st ls))\<lparr>st_buffer := b\<rparr>, snd (process_lines k ts st ls))"
  by (induction ls arbitrary: st) (simp_all add: process_data_buffer finishStream_buffer)

lemma process_lines_append:
  "process_lines k ts st (xs @ ys) =
     (if snd (process_lines k ts st xs) then (fst (process_lines k ts st xs), True)
      else process_lines k ts (fst (process_lines k ts st xs)) ys)"
  by (induction xs arbitrary: st) simp_all

lemma read_loop_step:
  "read_loop k ts st (Read v # rs) =
     (let parts = split_on newline (st_buffer st @ v); r = process_lines k ts (st\<lparr>st_buffer := last parts\<rparr>) (butlast parts)
      in if snd r then fst r else read_loop k ts (fst r) rs)"
  by (simp add: Let_def split: prod.splits bool.splits)

lemma process_lines_keeps_buffer: "st_buffer (fst (process_lines k ts (st\<lparr>st_buffer := b\<rparr>) ls)) = b"
  by (simp add: process_lines_buffer)

text \<open>What the pieces produce is what the complete lines of the whole text produce.\<close>

lemma read_loop_is_lines:
  assumes "newline \<notin> set (st_buffer st)"
  shows "st_events (read_loop k ts st (map Read cs)) =
         st_events (fst (process_lines k ts st (complete_lines (st_buffer st @ concat cs))))"
  using assms
proof (induction cs arbitrary: st)
  case Nil
  then show ?case by (simp add: complete_lines_def split_on_no_sep)
next
  case (Cons v vs)
  let ?parts = "split_on newline (st_buffer st @ v)"
  let ?s = "st\<lparr>st_buffer := last ?parts\<rparr>"
  let ?r = "process_lines k ts ?s (butlast ?parts)"
  have nl: "newline \<notin> set (st_buffer (fst ?r))"
    using split_on_parts [OF last_in_set [OF split_on_nonempty [of newline "st_buffer st @ v"]]]
    by (simp add: process_lines_keeps_buffer)
  have lines: "complete_lines (st_buffer st @ concat (v # vs)) =
      butlast ?parts @ complete_lines (last ?parts @ concat vs)"
    using split_on_rest [of newline "st_buffer st @ v" "concat vs"]
    by (simp add: complete_lines_def butlast_append)
  have same: "process_lines k ts st ls =
      ((fst (process_lines k ts ?s ls))\<lparr>st_buffer := st_buffer st\<rparr>, snd (process_lines k ts ?s ls))" for ls
    using process_lines_buffer [where st = st and b = "st_buffer st" and ls = ls and k = k and ts = ts]
    by (simp add: process_lines_buffer [where st = st and b = "last ?parts"])
  have rest: "read_loop k ts st (map Read (v # vs)) =
      (if snd ?r then fst ?r else read_loop k ts (fst ?r) (map Read vs))"
    by (simp only: list.map read_loop_step Let_def)
  have "st_events (read_loop k ts (fst ?r) (map Read vs)) =
      st_events (fst (process_lines k ts (fst ?r) (complete_lines (last ?parts @ concat vs))))"
    using Cons.IH [OF nl] by (simp add: process_lines_keeps_buffer)
  then show ?case
    unfolding rest lines same [of "butlast ?parts @ complete_lines (last ?parts @ concat vs)"]
    by (simp add: process_lines_append)
qed

text \<open>
  Property C7. How the network cuts the answer does not matter: however the body is split into pieces, in the
  middle of a line or of a field, the callbacks made are those made when it arrives at once.
\<close>

theorem stream_independent_of_pieces:
  "handleStreamResponse k ts (Some (map Read cs)) = handleStreamResponse k ts (Some [Read (concat cs)])"
proof -
  have "newline \<notin> set (st_buffer stream_start)" by (simp add: stream_start_def)
  from read_loop_is_lines [OF this, of k ts cs] read_loop_is_lines [OF this, of k ts "[concat cs]"]
  show ?thesis by (simp add: handleStreamResponse_def del: read_loop.simps)
qed

section \<open>Completion\<close>

fun completions :: "event list \<Rightarrow> string list" where
  "completions [] = []"
| "completions (Complete m # es) = m # completions es"
| "completions (_ # es) = completions es"

fun chunk_texts :: "event list \<Rightarrow> string" where
  "chunk_texts [] = []"
| "chunk_texts (Chunk c # es) = c @ chunk_texts es"
| "chunk_texts (_ # es) = chunk_texts es"

lemma completions_append [simp]: "completions (xs @ ys) = completions xs @ completions ys"
  by (induction xs rule: completions.induct) auto

lemma chunk_texts_append [simp]: "chunk_texts (xs @ ys) = chunk_texts xs @ chunk_texts ys"
  by (induction xs rule: chunk_texts.induct) auto

definition consistent :: "stream \<Rightarrow> bool" where
  "consistent st \<longleftrightarrow> st_message st = chunk_texts (st_events st) \<and> completions (st_events st) = []"

lemma consistent_choice: "consistent st \<Longrightarrow> consistent (process_choice c st)"
  by (simp add: consistent_def process_choice_def Let_def)

lemma consistent_data: "consistent st \<Longrightarrow> consistent (process_data d st)"
  by (simp add: process_data_def consistent_choice split: option.splits)

lemma finishStream_completes:
  "consistent st \<Longrightarrow>
     completions (st_events (finishStream k ts st)) = [chunk_texts (st_events (finishStream k ts st))]"
  by (simp add: finishStream_def consistent_def Let_def)

lemma done_line: "starts_with l ''data: '' \<and> drop 6 l = ''[DONE]'' \<longleftrightarrow> l = ''data: [DONE]''"
  by (auto simp: starts_with_iff)

lemma process_lines_completes:
  "consistent st \<Longrightarrow>
     completions (st_events (fst (process_lines k ts st ls))) =
       (if ''data: [DONE]'' \<in> set ls
        then [chunk_texts (st_events (fst (process_lines k ts st ls)))] else [])"
proof (induction ls arbitrary: st)
  case Nil
  then show ?case by (simp add: consistent_def)
next
  case (Cons l ls)
  have "l \<noteq> ''data: [DONE]'' \<longleftrightarrow> \<not> starts_with l ''data: '' \<or> drop 6 l \<noteq> ''[DONE]''"
    using done_line [of l] by blast
  then show ?case
    using Cons by (cases "l = ''data: [DONE]''") (auto simp: finishStream_completes consistent_data starts_with_iff)
qed

text \<open>
  Property C20. The answer is reported complete exactly when one of its complete lines is \<open>data: [DONE]\<close>, once,
  and the message reported is the concatenation of the pieces handed to \<open>onChunk\<close>, in order.
\<close>

theorem completion_reports_all_chunks:
  "completions (handleStreamResponse k ts (Some (map Read cs))) =
     (if ''data: [DONE]'' \<in> set (complete_lines (concat cs))
      then [chunk_texts (handleStreamResponse k ts (Some (map Read cs)))] else [])"
proof -
  have nl: "newline \<notin> set (st_buffer stream_start)" by (simp add: stream_start_def)
  have "consistent stream_start" by (simp add: stream_start_def consistent_def)
  from process_lines_completes [OF this] read_loop_is_lines [OF nl, of k ts cs]
  show ?thesis by (simp add: handleStreamResponse_def stream_start_def)
qed

lemma done_has_no_newline: "newline \<notin> set ''data: [DONE]''" "newline \<notin> set ''data: 1''"
  by code_simp+

fun is_tool_calls :: "event \<Rightarrow> bool" where
  "is_tool_calls (Tool_calls cs) = True"
| "is_tool_calls _ = False"

lemma undone_data: "filter is_tool_calls (st_events (process_data d st)) = filter is_tool_calls (st_events st)"
  by (simp add: process_data_def process_choice_def Let_def split: option.splits)

lemma process_lines_undone_calls:
  "''data: [DONE]'' \<notin> set ls \<Longrightarrow> filter is_tool_calls (st_events (fst (process_lines k ts st ls))) =
     filter is_tool_calls (st_events st)"
proof (induction ls arbitrary: st)
  case (Cons l ls)
  have "\<not> starts_with l ''data: '' \<or> drop 6 l \<noteq> ''[DONE]''"
    using Cons.prems done_line [of l] by auto
  then show ?case using Cons by (auto simp: undone_data)
qed simp

text \<open>
  A body that stops right after the end marker, without a line feed, is never reported complete, and
  the tool calls it carried are never handed over: the last line is only looked at when a line feed
  ends it, and what was accumulated is only delivered by the marker.
\<close>

theorem unterminated_marker_loses_the_answer:
  assumes "''data: [DONE]'' \<notin> set ls" and "\<And>l. l \<in> set ls \<Longrightarrow> newline \<notin> set l"
  shows "completions (handleStreamResponse k ts (Some [Read (join [newline] (ls @ [''data: [DONE]'']))])) = []
    \<and> filter is_tool_calls (handleStreamResponse k ts (Some [Read (join [newline] (ls @ [''data: [DONE]'']))])) = []"
proof -
  have nl: "newline \<notin> set (st_buffer stream_start)" by (simp add: stream_start_def)
  have sp: "complete_lines (join [newline] (ls @ [''data: [DONE]''])) = ls"
    using assms(2) done_has_no_newline by (subst complete_lines_def, subst split_join) auto
  have ev: "handleStreamResponse k ts (Some [Read (join [newline] (ls @ [''data: [DONE]'']))]) =
      st_events (fst (process_lines k ts stream_start ls))"
    using read_loop_is_lines [OF nl, of k ts "[join [newline] (ls @ [''data: [DONE]''])]"] sp
    by (simp only: handleStreamResponse_def option.case list.map concat.simps append_Nil2 append_Nil
        stream.select_convs stream_start_def)
  have "consistent stream_start" by (simp add: stream_start_def consistent_def)
  from process_lines_completes [OF this, of k ts ls] process_lines_undone_calls [OF assms(1), of k ts stream_start]
    assms(1)
  show ?thesis unfolding ev by (simp add: stream_start_def)
qed

theorem unterminated_marker_loses_the_answer_witness:
  "completions (handleStreamResponse OpenAI [] (Some [Read (join [newline] ([''data: 1''] @ [''data: [DONE]'']))])) = []"
  using unterminated_marker_loses_the_answer [of "[''data: 1'']" OpenAI "[]"] done_has_no_newline(2)
  by (simp only: list.set singleton_iff) simp

section \<open>Tool names\<close>

lemma find_inj:
  "inj_on f (g ` set xs) \<Longrightarrow> n \<in> g ` set xs \<Longrightarrow> map_option g (find (\<lambda>x. f (g x) = f n) xs) = Some n"
proof (induction xs)
  case (Cons x xs)
  show ?case
  proof (cases "f (g x) = f n")
    case True
    with Cons.prems have "g x = n" by (meson imageI inj_onD list.set_intros(1))
    with True show ?thesis by simp
  next
    case False
    with Cons show ?thesis by (auto simp: inj_on_def)
  qed
qed simp

text \<open>
  Property C31. The names under which the tools are offered to OpenAI have no colon, and a call that comes back
  under the name offered is restored to the tool it was offered for, as long as no two tools are
  offered under one name. The calls in the history of the messages are another matter, below.
\<close>

theorem tool_names_are_restored:
  assumes "inj_on mangle (at_name ` set tools)"
      and "\<And>c. c \<in> set calls \<Longrightarrow> tc_name c \<in> at_name ` set tools"
  shows "restoreToolNames OpenAI (map (\<lambda>c. c\<lparr>tc_name := mangle (tc_name c)\<rparr>) calls) tools = calls
    \<and> map td_name (handleToolNames OpenAI (convertToolsToOpenAIFormat tools)) = map (mangle \<circ> at_name) tools
    \<and> CHR '':'' \<notin> set (concat (map td_name (handleToolNames OpenAI (convertToolsToOpenAIFormat tools))))"
proof -
  have "restore_name tools (mangle (tc_name c)) = tc_name c" if "c \<in> set calls" for c
    using find_inj [OF assms(1) assms(2) [OF that]]
    by (auto simp: restore_name_def split: option.splits)
  then have "map (\<lambda>c. c\<lparr>tc_name := restore_name tools (mangle (tc_name c))\<rparr>) calls = calls"
    by (simp add: map_idI)
  then show ?thesis
    by (auto simp: convertToolsToOpenAIFormat_def mangle_def replace_char_def o_def)
qed

theorem tool_names_are_restored_witness:
  "restoreToolNames OpenAI
     [\<lparr>tc_id = ''1'', tc_type = ''function'', tc_name = ''srv_get'', tc_arguments = ''{}''\<rparr>]
     [\<lparr>at_name = ''srv:get'', at_description = [], at_parameters = []\<rparr>]
   = [\<lparr>tc_id = ''1'', tc_type = ''function'', tc_name = ''srv:get'', tc_arguments = ''{}''\<rparr>]"
  using tool_names_are_restored [of "[\<lparr>at_name = ''srv:get'', at_description = [], at_parameters = []\<rparr>]"
    "[\<lparr>tc_id = ''1'', tc_type = ''function'', tc_name = ''srv:get'', tc_arguments = ''{}''\<rparr>]"]
  by (simp add: mangle_def replace_char_def)

text \<open>
  A finding: the history is sent with the names as they were restored. A request to OpenAI that follows a
  call of a tool offers the tool without the colon and names it with the colon in the earlier call.
\<close>

theorem history_keeps_restored_names:
  assumes "msg_toolResult m = None" "msg_sender m = ''bot''" "msg_toolCalls m = Some calls" "calls \<noteq> []"
  shows "map (\<lambda>cm. map_option (map tc_name) (cm_tool_calls cm))
      (cr_messages (request_body provider [m] modelId tools OpenAI)) = [Some (map tc_name calls)]"
  using assms
  by (cases calls) (simp_all add: request_body_def openai_payload_def convertToOpenAIFormat_def
      convert_message_def plain_message_def Let_def comp_def)

text \<open>
  Two tools whose names differ only in a colon and an underscore are sent under one name, and a call
  to the second is restored to the first.
\<close>

theorem colliding_tool_names_call_the_first:
  assumes "mangle (at_name t) = mangle (at_name u)"
  shows "restoreToolNames OpenAI [c\<lparr>tc_name := mangle (at_name u)\<rparr>] (t # u # ts) = [c\<lparr>tc_name := at_name t\<rparr>]"
  using assms by (simp add: restore_name_def)

theorem colliding_tool_names_call_the_first_witness:
  "restoreToolNames OpenAI
     [\<lparr>tc_id = ''1'', tc_type = ''function'', tc_name = ''a_b_c'', tc_arguments = ''{}''\<rparr>]
     [\<lparr>at_name = ''a:b_c'', at_description = [], at_parameters = []\<rparr>,
      \<lparr>at_name = ''a_b:c'', at_description = [], at_parameters = []\<rparr>]
   = [\<lparr>tc_id = ''1'', tc_type = ''function'', tc_name = ''a:b_c'', tc_arguments = ''{}''\<rparr>]"
  using colliding_tool_names_call_the_first [of "\<lparr>at_name = ''a:b_c'', at_description = [], at_parameters = []\<rparr>"
      "\<lparr>at_name = ''a_b:c'', at_description = [], at_parameters = []\<rparr>"
      "\<lparr>tc_id = ''1'', tc_type = ''function'', tc_name = [], tc_arguments = ''{}''\<rparr>" "[]"]
  by (simp add: mangle_def replace_char_def)

text \<open>
  A tool whose own name has a colon cannot be called: only the part up to the next colon is passed on.
\<close>

theorem callTool_cuts_names_at_the_second_colon:
  assumes "CHR '':'' \<notin> set srv" and "CHR '':'' \<notin> set tool"
  shows "callTool call (srv @ '':'' @ tool @ '':'' @ rest) ps = callTool call (srv @ '':'' @ tool) ps"
proof -
  obtain y ys where "split_on (CHR '':'') rest = y # ys" by (cases "split_on (CHR '':'') rest") auto
  with assms have "split_tool_name (srv @ '':'' @ tool @ '':'' @ rest) = (srv, Some tool)"
    and "split_tool_name (srv @ '':'' @ tool) = (srv, Some tool)"
    by (simp_all add: split_tool_name_def split_on_cons split_on_no_sep)
  then show ?thesis by (simp add: callTool_def)
qed

theorem callTool_cuts_names_at_the_second_colon_witness:
  "callTool (\<lambda>s t p. Inl (s @ the t)) ''srv:ns:get'' [] = callTool (\<lambda>s t p. Inl (s @ the t)) ''srv:ns'' []"
  using callTool_cuts_names_at_the_second_colon [of "''srv''" "''ns''" "\<lambda>s t p. Inl (s @ the t)" "''get''" "[]"]
  by simp

section \<open>Cancelling\<close>

text \<open>
  The service keeps the controller of one request. \<open>Send\<close> is the start of \<open>sendMessage\<close>, which
  cancels and stores a new controller; \<open>Settle\<close> is its \<open>finally\<close>; \<open>Cancel\<close> is
  \<open>cancelCurrentRequest\<close>. Requests are numbered in the order they start.
\<close>

record chat_service =
  abortController :: "nat option"
  cs_aborted :: "nat list"
  cs_running :: "nat list"
  cs_count :: nat

definition service_start :: chat_service where
  "service_start = \<lparr>abortController = None, cs_aborted = [], cs_running = [], cs_count = 0\<rparr>"

definition cancelCurrentRequest :: "chat_service \<Rightarrow> chat_service" where
  "cancelCurrentRequest s =
     (case abortController s of
        Some c \<Rightarrow> s\<lparr>cs_aborted := c # cs_aborted s, abortController := None\<rparr>
      | None \<Rightarrow> s)"

definition start_request :: "chat_service \<Rightarrow> chat_service" where
  "start_request s = (let s1 = cancelCurrentRequest s in
     s1\<lparr>abortController := Some (cs_count s1), cs_running := cs_count s1 # cs_running s1,
        cs_count := Suc (cs_count s1)\<rparr>)"

definition settle_request :: "nat \<Rightarrow> chat_service \<Rightarrow> chat_service" where
  "settle_request n s = s\<lparr>abortController := None, cs_running := filter (\<lambda>m. m \<noteq> n) (cs_running s)\<rparr>"

datatype chat_action = Send | Settle nat | Cancel

inductive chat_step :: "chat_service \<Rightarrow> chat_action \<Rightarrow> chat_service \<Rightarrow> bool" where
  send: "chat_step s Send (start_request s)"
| settle: "n \<in> set (cs_running s) \<Longrightarrow> chat_step s (Settle n) (settle_request n s)"
| cancel: "chat_step s Cancel (cancelCurrentRequest s)"

inductive_cases chat_stepE: "chat_step s a s'"

inductive chat_run :: "chat_service \<Rightarrow> chat_action list \<Rightarrow> chat_service \<Rightarrow> bool" where
  start: "chat_run s [] s"
| step: "chat_run s as s' \<Longrightarrow> chat_step s' a s'' \<Longrightarrow> chat_run s (as @ [a]) s''"

text \<open>A run in which a request is only sent when the earlier ones have settled.\<close>

inductive serial_run :: "chat_service \<Rightarrow> chat_action list \<Rightarrow> chat_service \<Rightarrow> bool" where
  serial_start: "serial_run s [] s"
| serial_step: "serial_run s as s' \<Longrightarrow> chat_step s' a s'' \<Longrightarrow> (a = Send \<Longrightarrow> cs_running s' = []) \<Longrightarrow>
     serial_run s (as @ [a]) s''"

definition cancellable :: "chat_service \<Rightarrow> bool" where
  "cancellable s \<longleftrightarrow> length (cs_running s) \<le> 1 \<and>
     list_all (\<lambda>n. n \<in> set (cs_aborted s) \<or> abortController s = Some n) (cs_running s)"

lemma chat_step_cancellable:
  "chat_step s a s' \<Longrightarrow> (a = Send \<Longrightarrow> cs_running s = []) \<Longrightarrow> cancellable s \<Longrightarrow> cancellable s'"
proof (erule chat_stepE)
  fix n
  assume "cancellable s" "n \<in> set (cs_running s)" "s' = settle_request n s"
  then have "cs_running s = [n]" by (cases "cs_running s") (auto simp: cancellable_def)
  then show "cancellable s'" using \<open>s' = _\<close> by (simp add: settle_request_def cancellable_def)
qed (auto simp: cancellable_def start_request_def cancelCurrentRequest_def Let_def list_all_iff
       split: option.splits)

text \<open>
  Property C32. When requests do not overlap, \<open>cancelCurrentRequest\<close> reaches every request that is still running:
  at any moment of such a run, after it each of them has been aborted.
\<close>

theorem cancel_aborts_what_is_running:
  assumes "serial_run service_start as s"
  shows "set (cs_running s) \<subseteq> set (cs_aborted (cancelCurrentRequest s))"
proof -
  have "serial_run t as s \<Longrightarrow> cancellable t \<Longrightarrow> cancellable s" for t
    by (induction rule: serial_run.induct) (auto intro: chat_step_cancellable)
  with assms have "cancellable s" by (simp add: service_start_def cancellable_def)
  then show ?thesis
    by (auto simp: cancellable_def cancelCurrentRequest_def list_all_iff split: option.splits)
qed

theorem cancel_aborts_what_is_running_witness:
  "set (cs_running (start_request service_start)) \<subseteq>
     set (cs_aborted (cancelCurrentRequest (start_request service_start)))"
proof -
  have "serial_run service_start ([] @ [Send]) (start_request service_start)"
    by (rule serial_step [OF serial_start chat_step.send]) (simp add: service_start_def)
  from cancel_aborts_what_is_running [OF this] show ?thesis .
qed

text \<open>
  When they do overlap it does not: the first request, aborted by the second, clears the controller of
  the second when it settles, and from then on nothing can cancel the second one.
\<close>

theorem settling_loses_the_newer_controller:
  "\<exists>s. chat_run service_start [Send, Send, Settle 0] s \<and> cs_running s = [1] \<and> cs_aborted s = [0]
     \<and> cancelCurrentRequest s = s"
proof (intro exI conjI)
  let ?s1 = "start_request service_start" and ?s2 = "start_request (start_request service_start)"
  have "0 \<in> set (cs_running ?s2)"
    by (simp add: start_request_def cancelCurrentRequest_def service_start_def Let_def)
  then have "chat_run service_start ((([] @ [Send]) @ [Send]) @ [Settle 0]) (settle_request 0 ?s2)"
    by (rule chat_run.step [OF chat_run.step [OF chat_run.step [OF chat_run.start chat_step.send] chat_step.send] chat_step.settle])
  then show "chat_run service_start [Send, Send, Settle 0] (settle_request 0 ?s2)" by simp
qed (simp_all add: start_request_def cancelCurrentRequest_def service_start_def Let_def settle_request_def)

lemma process_lines_done: "snd (process_lines k ts st ls) = (''data: [DONE]'' \<in> set ls)"
proof (induction ls arbitrary: st)
  case (Cons l ls)
  then show ?case using done_line [of l] by (simp only: process_lines.simps) auto
qed simp

lemma read_loop_failure:
  "''data: [DONE]'' \<notin> set (complete_lines (st_buffer st @ concat cs)) \<Longrightarrow>
     Error_event ''Stream processing failed'' \<in> set (st_events (read_loop k ts st (map Read cs @ [Read_fails])))"
proof (induction cs arbitrary: st)
  case (Cons v vs)
  let ?parts = "split_on newline (st_buffer st @ v)"
  let ?r = "process_lines k ts (st\<lparr>st_buffer := last ?parts\<rparr>) (butlast ?parts)"
  have lines: "complete_lines (st_buffer st @ concat (v # vs)) =
      butlast ?parts @ complete_lines (last ?parts @ concat vs)"
    using split_on_rest [of newline "st_buffer st @ v" "concat vs"]
    by (simp add: complete_lines_def butlast_append)
  have rest: "read_loop k ts st (map Read (v # vs) @ [Read_fails]) =
      (if snd ?r then fst ?r else read_loop k ts (fst ?r) (map Read vs @ [Read_fails]))"
    by (simp only: list.map append_Cons read_loop_step Let_def)
  have "\<not> snd ?r" using Cons.prems unfolding lines process_lines_done by simp
  moreover have "''data: [DONE]'' \<notin> set (complete_lines (st_buffer (fst ?r) @ concat vs))"
    using Cons.prems unfolding lines process_lines_keeps_buffer by simp
  ultimately show ?case using Cons.IH [of "fst ?r"] unfolding rest by simp
qed simp

text \<open>
  Stopping an answer that is being streamed makes the reader fail, and that is reported as an error;
  only an abort before the answer has started is silent.
\<close>

theorem stopping_a_stream_reports_an_error:
  assumes "getProviderConfig (prov_id p) = Inr k" and "prepare_request p ms mid ts = Inr rq"
      and "fetch rq = Fetch_answered 200 [] (Some (map Read cs @ [Read_fails]))"
      and "''data: [DONE]'' \<notin> set (complete_lines (concat cs))"
  shows "Error_event ''Stream processing failed'' \<in> set (sendMessage p ms mid ts fetch)"
proof -
  show ?thesis
    using assms read_loop_failure [where st = stream_start and cs = cs and k = k and ts = ts]
    by (simp add: sendMessage_def handleStreamResponse_def stream_start_def)
qed
theorem stopping_a_stream_reports_an_error_witness:
  "Error_event ''Stream processing failed'' \<in> set (sendMessage
     \<lparr>prov_id = ''openai'', prov_config = [(''baseURL'', JStr ''https://h/v1'')], prov_models = []\<rparr>
     [] None [] (\<lambda>rq. Fetch_answered 200 [] (Some (map Read [''data''] @ [Read_fails]))))"
proof -
  let ?p = "\<lparr>prov_id = ''openai'', prov_config = [(''baseURL'', JStr ''https://h/v1'')], prov_models = []\<rparr>"
  have k: "getProviderConfig (prov_id ?p) = Inr OpenAI" by code_simp
  then obtain rq where rq: "prepare_request ?p [] None [] = Inr rq"
    by (simp add: prepare_request_def getEndpoint_def base_url_def obj_get_def)
  have "''data: [DONE]'' \<notin> set (complete_lines (concat [''data'']))" by code_simp
  from stopping_a_stream_reports_an_error [OF k rq, of "\<lambda>rq. Fetch_answered 200 [] (Some (map Read [''data''] @ [Read_fails]))", OF refl this]
  show ?thesis .
qed

end
