(* ===== verification/Mcp_Service.thy ===== *)
theory Mcp_Service
  imports Llm_Chat Js_Io
begin

text \<open>
  The MCP client service, \<open>src/web/src/services/mcp.ts\<close>: the maps of clients, transports, session
  identifiers, configurations and event identifiers, and every operation on them. The SDK's
  \<open>Client\<close> and \<open>StreamableHTTPClientTransport\<close> are third-party code: what their calls answer is
  the parameter \<open>sdk\<close>, a function of everything that was asked of them so far. A client and its
  transport share a number.
\<close>

section \<open>Data\<close>

record client_config =
  cc_name :: string
  cc_prefix :: string

record transport =
  tp_id :: nat
  tp_url :: string
  tp_session :: "string option"
  tp_headers :: "string obj"

datatype mcp_event =
    Ev_connect transport
  | Ev_connected nat
  | Ev_listTools nat
  | Ev_request nat "string option" "json obj" "string option"
  | Ev_terminate nat
  | Ev_close nat

text \<open>
  \<open>sdk_url\<close> is \<open>new URL(text, window.location.origin)\<close>, without a value where that throws. A
  rejection carries its message. Connecting and terminating answer the session identifier the
  transport has afterwards.
\<close>

record mcp_sdk =
  sdk_base :: string
  sdk_url :: "string \<Rightarrow> string option"
  sdk_connect :: "mcp_event list \<Rightarrow> string + string option"
  sdk_listTools :: "mcp_event list \<Rightarrow> string + jv"
  sdk_request :: "mcp_event list \<Rightarrow> string + json"
  sdk_terminate :: "mcp_event list \<Rightarrow> string + string option"
  sdk_close :: "mcp_event list \<Rightarrow> string + unit"

text \<open>A \<open>Map\<close> keeps its keys in the order they were first set.\<close>

record mcp_service =
  ms_clients :: "nat obj"
  ms_transports :: "transport obj"
  ms_sessionIds :: "string option obj"
  ms_configs :: "client_config obj"
  ms_lastEventIds :: "string obj"
  ms_count :: nat
  ms_events :: "mcp_event list"
  ms_toasts :: "string list"

definition MCPService :: mcp_service where
  "MCPService = \<lparr>ms_clients = [], ms_transports = [], ms_sessionIds = [], ms_configs = [],
     ms_lastEventIds = [], ms_count = 0, ms_events = [], ms_toasts = []\<rparr>"

interpretation mp: js_record obj_get obj_set obj_delete "map fst" wf_obj
proof unfold_locales
  fix m :: "'a obj" and k v
  show "set (map fst m) = dom (obj_get m)"
    using set_own_keys [of m] by (metis own_keys_def set_map set_own_entries)
  show "wf_obj m \<Longrightarrow> distinct (map fst m)" by (simp add: wf_obj_def)
qed (auto simp: obj_laws)

definition log_event :: "mcp_event \<Rightarrow> mcp_service \<Rightarrow> mcp_service" where
  "log_event e s = s\<lparr>ms_events := ms_events s @ [e]\<rparr>"

definition toast_error :: "string \<Rightarrow> mcp_service \<Rightarrow> mcp_service" where
  "toast_error m s = s\<lparr>ms_toasts := ms_toasts s @ [m]\<rparr>"

section \<open>connect\<close>

definition auth_headers :: "string option \<Rightarrow> string \<Rightarrow> string obj" where
  "auth_headers authToken headerName =
     (case authToken of
        None \<Rightarrow> []
      | Some tok \<Rightarrow>
          if tok = [] then []
          else if to_lower headerName \<noteq> ''authorization''
          then obj_set (obj_set [] headerName tok) ''x-custom-auth-header'' headerName
          else obj_set [] ''Authorization'' (''Bearer '' @ tok))"

definition connect_failed :: "string \<Rightarrow> mcp_service \<Rightarrow> (string + 'a) \<times> mcp_service" where
  "connect_failed m s = (Inl m, toast_error ''errors.connect_mcp_server'' s)"

text \<open>Up to the \<open>await\<close>: a known client is answered at once, otherwise the configuration is kept
  and a transport is made.\<close>

definition connect_start ::
    "mcp_sdk \<Rightarrow> client_config \<Rightarrow> string option \<Rightarrow> string \<Rightarrow> mcp_service
      \<Rightarrow> (string + nat + transport) \<times> mcp_service" where
  "connect_start sdk config authToken headerName s =
     (case obj_get (ms_clients s) (cc_name config) of
        Some c \<Rightarrow> (Inr (Inl c), s)
      | None \<Rightarrow>
          (let s1 = s\<lparr>ms_configs := obj_set (ms_configs s) (cc_name config) config\<rparr> in
           case sdk_url sdk (sdk_base sdk @ cc_prefix config @ ''/mcp'') of
             None \<Rightarrow> connect_failed ''Invalid URL'' s1
           | Some url \<Rightarrow>
               let tp = \<lparr>tp_id = ms_count s1, tp_url = url,
                         tp_session = (case obj_get (ms_sessionIds s1) (cc_name config) of
                            Some (Some i) \<Rightarrow> Some i | _ \<Rightarrow> None),
                         tp_headers = auth_headers authToken headerName\<rparr>
               in (Inr (Inr tp), log_event (Ev_connect tp) (s1\<lparr>ms_count := Suc (ms_count s1)\<rparr>))))"

text \<open>After it.\<close>

definition connect_finish ::
    "string \<Rightarrow> transport \<Rightarrow> string + string option \<Rightarrow> mcp_service \<Rightarrow> (string + nat) \<times> mcp_service" where
  "connect_finish serverName tp answer s =
     (case answer of
        Inl m \<Rightarrow> connect_failed m s
      | Inr sid \<Rightarrow> (Inr (tp_id tp),
          log_event (Ev_connected (tp_id tp))
            (s\<lparr>ms_clients := obj_set (ms_clients s) serverName (tp_id tp),
               ms_transports := obj_set (ms_transports s) serverName (tp\<lparr>tp_session := sid\<rparr>),
               ms_sessionIds := obj_set (ms_sessionIds s) serverName sid\<rparr>)))"

definition connect ::
    "mcp_sdk \<Rightarrow> client_config \<Rightarrow> string option \<Rightarrow> string option \<Rightarrow> mcp_service
      \<Rightarrow> (string + nat) \<times> mcp_service" where
  "connect sdk config authToken headerName s =
     (case connect_start sdk config authToken (opt_or headerName ''Authorization'') s of
        (Inl m, s') \<Rightarrow> (Inl m, s')
      | (Inr (Inl c), s') \<Rightarrow> (Inr c, s')
      | (Inr (Inr tp), s') \<Rightarrow> connect_finish (cc_name config) tp (sdk_connect sdk (ms_events s')) s')"

section \<open>Ending a connection\<close>

definition terminateSession :: "mcp_sdk \<Rightarrow> string \<Rightarrow> mcp_service \<Rightarrow> mcp_service" where
  "terminateSession sdk serverName s =
     (case obj_get (ms_transports s) serverName of
        None \<Rightarrow> s
      | Some tp \<Rightarrow>
          if str_truthy (tp_session tp) then
            let s1 = log_event (Ev_terminate (tp_id tp)) s in
            (case sdk_terminate sdk (ms_events s1) of
               Inl m \<Rightarrow> toast_error ''errors.terminate_session'' s1
             | Inr sid \<Rightarrow> s1\<lparr>ms_transports := obj_set (ms_transports s1) serverName (tp\<lparr>tp_session := sid\<rparr>),
                 ms_sessionIds := obj_delete (ms_sessionIds s1) serverName,
                 ms_lastEventIds := obj_delete (ms_lastEventIds s1) serverName\<rparr>)
          else s)"

definition close_transport :: "mcp_sdk \<Rightarrow> transport option \<Rightarrow> mcp_service \<Rightarrow> mcp_service" where
  "close_transport sdk tp s =
     (case tp of
        None \<Rightarrow> s
      | Some t \<Rightarrow>
          let s1 = log_event (Ev_close (tp_id t)) s in
          (case sdk_close sdk (ms_events s1) of
             Inl m \<Rightarrow> toast_error ''errors.disconnect_failed'' s1
           | Inr u \<Rightarrow> s1))"

definition disconnect :: "mcp_sdk \<Rightarrow> string \<Rightarrow> mcp_service \<Rightarrow> mcp_service" where
  "disconnect sdk serverName s =
     (let client = obj_get (ms_clients s) serverName;
          transport = obj_get (ms_transports s) serverName
      in if client \<noteq> None \<or> transport \<noteq> None then
           let s1 = close_transport sdk transport (terminateSession sdk serverName s) in
           s1\<lparr>ms_clients := obj_delete (ms_clients s1) serverName,
              ms_transports := obj_delete (ms_transports s1) serverName\<rparr>
         else s)"

text \<open>The disconnections of \<open>disconnectAll\<close> run interleaved; each touches its own keys only, and they
  are taken one after the other here.\<close>

definition disconnectAll :: "mcp_sdk \<Rightarrow> mcp_service \<Rightarrow> mcp_service" where
  "disconnectAll sdk s = fold (disconnect sdk) (map fst (ms_clients s)) s"

definition reconnect :: "mcp_sdk \<Rightarrow> string \<Rightarrow> mcp_service \<Rightarrow> (string + nat option) \<times> mcp_service" where
  "reconnect sdk serverName s =
     (case obj_get (ms_configs s) serverName of
        None \<Rightarrow> (Inr None, toast_error ''errors.no_server_config'' s)
      | Some config \<Rightarrow>
          (case connect sdk config None None (disconnect sdk serverName s) of
             (Inl m, s') \<Rightarrow> (Inl m, s')
           | (Inr c, s') \<Rightarrow> (Inr (Some c), s')))"

section \<open>Tools\<close>

definition no_client :: "string \<Rightarrow> string" where
  "no_client serverName = ''No client found for server '' @ serverName"

definition getTools :: "mcp_sdk \<Rightarrow> string \<Rightarrow> mcp_service \<Rightarrow> (string + jv) \<times> mcp_service" where
  "getTools sdk serverName s =
     (case obj_get (ms_clients s) serverName of
        None \<Rightarrow> (Inl (no_client serverName), s)
      | Some c \<Rightarrow>
          let s1 = log_event (Ev_listTools c) s in
          (case sdk_listTools sdk (ms_events s1) of
             Inl m \<Rightarrow> (Inl m, toast_error ''errors.get_tools_failed'' s1)
           | Inr result \<Rightarrow>
               (case js_field result ''tools'' of
                  Inl e \<Rightarrow> (Inl (exn_message (Js_exn e)), toast_error ''errors.get_tools_failed'' s1)
                | Inr tools \<Rightarrow> (Inr tools, s1))))"

text \<open>\<open>content[0]\<close>.\<close>

fun first_element :: "jv \<Rightarrow> jv result" where
  "first_element (Some (JArr (x # xs))) = Inr (Some x)"
| "first_element (Some (JObj fs)) = Inr (obj_get fs ''0'')"
| "first_element (Some (JStr (c # cs))) = Inr (Some (JStr [c]))"
| "first_element None = Inl (TypeError ''0'')"
| "first_element (Some JNull) = Inl (TypeError ''0'')"
| "first_element _ = Inr None"

definition result_text :: "json \<Rightarrow> jv result" where
  "result_text result =
     (case js_field (Some result) ''content'' of
        Inl e \<Rightarrow> Inl e
      | Inr content \<Rightarrow>
          (case first_element content of Inl e \<Rightarrow> Inl e | Inr c \<Rightarrow> js_field c ''text''))"

text \<open>The event identifier is only kept when the caller wants to hear of it (\<open>notify\<close>).\<close>

definition keep_event_id :: "bool \<Rightarrow> string \<Rightarrow> json \<Rightarrow> mcp_service \<Rightarrow> js_error + mcp_service" where
  "keep_event_id notify serverName result s =
     (if notify then
        (case js_field (Some result) ''_meta'' of
           Inl e \<Rightarrow> Inl e
         | Inr meta \<Rightarrow>
             (case js_opt_field meta ''resumptionToken'' of
                Some tok \<Rightarrow> Inr (if json_truthy tok
                   then s\<lparr>ms_lastEventIds := obj_set (ms_lastEventIds s) serverName (json_text tok)\<rparr> else s)
              | None \<Rightarrow> Inr s))
      else Inr s)"

definition call_failed :: "string \<Rightarrow> mcp_service \<Rightarrow> (string + jv) \<times> mcp_service" where
  "call_failed m s = (Inl m, toast_error ''errors.call_tool_failed'' s)"

definition service_callTool ::
    "mcp_sdk \<Rightarrow> string \<Rightarrow> string option \<Rightarrow> json obj \<Rightarrow> bool \<Rightarrow> mcp_service \<Rightarrow> (string + jv) \<times> mcp_service" where
  "service_callTool sdk serverName toolName args notify s =
     (case obj_get (ms_clients s) serverName of
        None \<Rightarrow> (Inl (no_client serverName), s)
      | Some c \<Rightarrow>
          let token = (case obj_get (ms_lastEventIds s) serverName of
                         Some i \<Rightarrow> if i \<noteq> [] then Some i else None | None \<Rightarrow> None);
              s1 = log_event (Ev_request c toolName args token) s
          in (case sdk_request sdk (ms_events s1) of
                Inl m \<Rightarrow> call_failed m s1
              | Inr result \<Rightarrow>
                  (case keep_event_id notify serverName result s1 of
                     Inl e \<Rightarrow> call_failed (exn_message (Js_exn e)) s1
                   | Inr s2 \<Rightarrow>
                       (case result_text result of
                          Inl e \<Rightarrow> call_failed (exn_message (Js_exn e)) s2
                        | Inr txt \<Rightarrow> (Inr txt, s2)))))"

definition getSessionId :: "mcp_service \<Rightarrow> string \<Rightarrow> string option" where
  "getSessionId s serverName = (case obj_get (ms_sessionIds s) serverName of Some i \<Rightarrow> i | None \<Rightarrow> None)"

text \<open>The error handler a client is given: the toast it shows.\<close>

definition client_onerror :: "mcp_service \<Rightarrow> mcp_service" where
  "client_onerror s = toast_error ''errors.mcp_server_error'' s"

text \<open>\<open>LLMChatService.callTool\<close> over this service: it asks for no event identifiers.\<close>

definition chat_callTool :: "mcp_sdk \<Rightarrow> mcp_service \<Rightarrow> string \<Rightarrow> json obj \<Rightarrow> string option" where
  "chat_callTool sdk s = callTool (\<lambda>srv tool args. fst (service_callTool sdk srv tool args False s))"

section \<open>Invariant\<close>

text \<open>
  Clients and transports are kept in step, every connected server has its configuration, numbers are
  not used twice, and a transport that was connected is kept or has been closed.
\<close>

definition sound :: "mcp_service \<Rightarrow> bool" where
  "sound s \<longleftrightarrow>
     (\<forall>n. map_option tp_id (obj_get (ms_transports s) n) = obj_get (ms_clients s) n) \<and>
     (\<forall>n i. obj_get (ms_clients s) n = Some i \<longrightarrow> i < ms_count s \<and> obj_get (ms_configs s) n \<noteq> None) \<and>
     (\<forall>n m i. obj_get (ms_clients s) n = Some i \<longrightarrow> obj_get (ms_clients s) m = Some i \<longrightarrow> n = m) \<and>
     (\<forall>i. Ev_connected i \<in> set (ms_events s) \<longrightarrow>
        Ev_close i \<in> set (ms_events s) \<or> (\<exists>n. obj_get (ms_clients s) n = Some i))"

named_theorems service_simps \<open>what the small steps of the service change\<close>

lemma log_event_simps [service_simps]:
  "ms_clients (log_event e s) = ms_clients s" "ms_transports (log_event e s) = ms_transports s"
  "ms_sessionIds (log_event e s) = ms_sessionIds s" "ms_configs (log_event e s) = ms_configs s"
  "ms_lastEventIds (log_event e s) = ms_lastEventIds s" "ms_count (log_event e s) = ms_count s"
  "ms_events (log_event e s) = ms_events s @ [e]" "ms_toasts (log_event e s) = ms_toasts s"
  by (simp_all add: log_event_def)

lemma toast_error_simps [service_simps]:
  "ms_clients (toast_error m s) = ms_clients s" "ms_transports (toast_error m s) = ms_transports s"
  "ms_sessionIds (toast_error m s) = ms_sessionIds s" "ms_configs (toast_error m s) = ms_configs s"
  "ms_lastEventIds (toast_error m s) = ms_lastEventIds s" "ms_count (toast_error m s) = ms_count s"
  "ms_events (toast_error m s) = ms_events s"
  by (simp_all add: toast_error_def)

lemma connect_failed_simps [service_simps]:
  "snd (connect_failed m s) = toast_error ''errors.connect_mcp_server'' s"
  "fst (connect_failed m s) = Inl m"
  by (simp_all add: connect_failed_def)

lemma sound_congI:
  assumes "sound s" "ms_clients s' = ms_clients s" "ms_transports s' = ms_transports s"
    "ms_configs s' = ms_configs s" "ms_count s' = ms_count s"
    "ms_events s' = ms_events s @ es" "\<And>i. Ev_connected i \<notin> set es"
  shows "sound s'"
  using assms unfolding sound_def by auto

lemma sound_start: "sound MCPService"
  by (simp add: sound_def MCPService_def obj_get_def)

lemma sound_config:
  "sound s \<Longrightarrow> sound (s\<lparr>ms_configs := obj_set (ms_configs s) n c\<rparr>)"
  by (auto simp: sound_def obj_get_set)

lemma sound_connect:
  assumes "sound s"
  shows "sound (snd (connect sdk config tok hdr s))"
proof (cases "obj_get (ms_clients s) (cc_name config)")
  case (Some c)
  with assms show ?thesis by (simp add: connect_def connect_start_def)
next
  case None
  let ?n = "cc_name config"
  let ?s1 = "s\<lparr>ms_configs := obj_set (ms_configs s) ?n config\<rparr>"
  have s1: "sound ?s1" using assms by (rule sound_config)
  show ?thesis
  proof (cases "sdk_url sdk (sdk_base sdk @ cc_prefix config @ ''/mcp'')")
    case u: None
    have "sound (toast_error m ?s1)" for m
      by (rule sound_congI [OF s1, where es = "[]"]) (simp_all add: service_simps)
    with None u show ?thesis by (simp add: connect_def connect_start_def service_simps connect_failed_def)
  next
    case (Some url)
    from None Some obtain tp s2 where cs: "connect_start sdk config tok (opt_or hdr ''Authorization'') s = (Inr (Inr tp), s2)"
      and s2: "s2 = log_event (Ev_connect tp) (?s1\<lparr>ms_count := Suc (ms_count ?s1)\<rparr>)"
      and tp: "tp_id tp = ms_count s"
      by (simp add: connect_start_def Let_def)
    have cl: "ms_clients s2 = ms_clients s" "ms_transports s2 = ms_transports s"
      "ms_configs s2 = ms_configs ?s1" "ms_count s2 = Suc (ms_count s)"
      "ms_events s2 = ms_events s @ [Ev_connect tp]"
      unfolding s2 by (simp_all add: service_simps)
    have sound2: "sound s2"
      using s1 unfolding sound_def cl by (auto simp: less_SucI)
    show ?thesis
    proof (cases "sdk_connect sdk (ms_events s2)")
      case (Inl m)
      have "sound (toast_error x s2)" for x
        by (rule sound_congI [OF sound2, where es = "[]"]) (simp_all add: service_simps)
      with Inl cs show ?thesis by (simp add: connect_def connect_finish_def connect_failed_def)
    next
      case (Inr sid)
      have fin: "snd (connect sdk config tok hdr s) = snd (connect_finish ?n tp (Inr sid) s2)"
        using cs Inr by (simp add: connect_def)
      have new: "\<And>n. obj_get (ms_clients s) n \<noteq> Some (ms_count s)"
        using assms unfolding sound_def by (metis less_irrefl)
      have conf: "obj_get (ms_configs s2) ?n \<noteq> None" by (simp add: cl obj_get_set)
      show ?thesis
        using sound2 new None conf unfolding fin
        by (simp add: connect_finish_def sound_def service_simps obj_get_set tp cl) (metis option.distinct(1))
    qed
  qed
qed

lemma sound_terminate: "sound s \<Longrightarrow> sound (terminateSession sdk n s)"
proof (cases "obj_get (ms_transports s) n")
  case (Some tp)
  assume s: "sound s"
  let ?s1 = "log_event (Ev_terminate (tp_id tp)) s"
  have s1: "sound ?s1"
    by (rule sound_congI [OF s, where es = "[Ev_terminate (tp_id tp)]"]) (simp_all add: service_simps)
  have t: "sound (toast_error x ?s1)" for x
    by (rule sound_congI [OF s1, where es = "[]"]) (simp_all add: service_simps)
  have "map_option tp_id (obj_get (ms_transports s) n) = obj_get (ms_clients s) n"
    using s by (simp add: sound_def)
  then have c: "obj_get (ms_clients s) n = Some (tp_id tp)" using Some by simp
  have "sound (?s1\<lparr>ms_transports := obj_set (ms_transports ?s1) n (tp\<lparr>tp_session := sid\<rparr>),
      ms_sessionIds := d, ms_lastEventIds := l\<rparr>)" for sid d l
    using s1 c by (simp add: sound_def obj_get_set service_simps)
  with s t Some show ?thesis
    by (auto simp: terminateSession_def Let_def split: sum.split)
qed (simp add: terminateSession_def)

lemma terminate_clients [service_simps]:
  "ms_clients (terminateSession sdk n s) = ms_clients s"
  "ms_configs (terminateSession sdk n s) = ms_configs s"
  "ms_count (terminateSession sdk n s) = ms_count s"
  by (simp_all add: terminateSession_def Let_def service_simps split: option.split sum.split)

lemma close_transport_simps [service_simps]:
  "ms_clients (close_transport sdk tp s) = ms_clients s"
  "ms_transports (close_transport sdk tp s) = ms_transports s"
  "ms_configs (close_transport sdk tp s) = ms_configs s"
  "ms_count (close_transport sdk tp s) = ms_count s"
  "ms_sessionIds (close_transport sdk tp s) = ms_sessionIds s"
  "ms_events (close_transport sdk tp s) = ms_events s @ (case tp of None \<Rightarrow> [] | Some t \<Rightarrow> [Ev_close (tp_id t)])"
  by (simp_all add: close_transport_def Let_def service_simps split: option.split sum.split)

lemma sound_disconnect:
  assumes "sound s"
  shows "sound (disconnect sdk n s)"
proof (cases "obj_get (ms_clients s) n")
  case None
  moreover have "obj_get (ms_transports s) n = None"
    using assms None by (metis option.map_disc_iff sound_def)
  ultimately show ?thesis using assms by (simp add: disconnect_def)
next
  case (Some i)
  moreover have "map_option tp_id (obj_get (ms_transports s) n) = obj_get (ms_clients s) n"
    using assms by (simp add: sound_def)
  ultimately obtain tp where tp: "obj_get (ms_transports s) n = Some tp" "tp_id tp = i"
    by auto
  let ?t = "terminateSession sdk n s"
  have t: "sound ?t" using assms by (rule sound_terminate)
  have c: "obj_get (ms_clients ?t) n = Some i" using Some by (simp add: service_simps)
  have d: "disconnect sdk n s = (let s1 = close_transport sdk (Some tp) ?t in
      s1\<lparr>ms_clients := obj_delete (ms_clients s1) n, ms_transports := obj_delete (ms_transports s1) n\<rparr>)"
    using tp Some by (simp add: disconnect_def)
  show ?thesis
    using t c unfolding d Let_def sound_def
    by (auto simp: service_simps obj_get_delete tp(2)) (metis option.inject)
qed

lemma sound_fold_disconnect: "sound s \<Longrightarrow> sound (fold (disconnect sdk) ns s)"
  by (induction ns arbitrary: s) (simp_all add: sound_disconnect)

lemma sound_reconnect: "sound s \<Longrightarrow> sound (snd (reconnect sdk n s))"
proof (cases "obj_get (ms_configs s) n")
  case None
  assume s: "sound s"
  have "sound (toast_error m s)" for m
    by (rule sound_congI [OF s, where es = "[]"]) (simp_all add: service_simps)
  with None show ?thesis by (simp add: reconnect_def)
next
  case (Some c)
  assume "sound s"
  then have "sound (snd (connect sdk c None None (disconnect sdk n s)))"
    by (intro sound_connect sound_disconnect)
  with Some show ?thesis
    by (cases "connect sdk c None None (disconnect sdk n s)") (simp add: reconnect_def split: sum.split)
qed

lemma sound_getTools: "sound s \<Longrightarrow> sound (snd (getTools sdk n s))"
proof (cases "obj_get (ms_clients s) n")
  case (Some c)
  assume s: "sound s"
  let ?s1 = "log_event (Ev_listTools c) s"
  have s1: "sound ?s1"
    by (rule sound_congI [OF s, where es = "[Ev_listTools c]"]) (simp_all add: service_simps)
  have "sound (toast_error x ?s1)" for x
    by (rule sound_congI [OF s1, where es = "[]"]) (simp_all add: service_simps)
  with s1 Some show ?thesis by (simp add: getTools_def Let_def split: sum.split)
qed (simp add: getTools_def)

lemma sound_toast: "sound s \<Longrightarrow> sound (toast_error m s)"
  by (rule sound_congI [where es = "[]"]) (simp_all add: service_simps)

lemma sound_keep: "sound s \<Longrightarrow> keep_event_id b n r s = Inr s' \<Longrightarrow> sound s'"
  by (auto simp: keep_event_id_def sound_def split: if_splits sum.splits option.splits)

lemma sound_callTool: "sound s \<Longrightarrow> sound (snd (service_callTool sdk n t a b s))"
proof (cases "obj_get (ms_clients s) n")
  case (Some c)
  assume s: "sound s"
  have s1: "sound (log_event (Ev_request c t a tok) s)" for tok
    by (rule sound_congI [OF s, where es = "[Ev_request c t a tok]"]) (simp_all add: service_simps)
  show ?thesis
    using Some
    by (auto simp: service_callTool_def Let_def call_failed_def
        intro: sound_toast s1 sound_keep [OF s1] split: sum.split)
qed (simp add: service_callTool_def)

lemmas sound_operations = sound_connect sound_reconnect sound_getTools sound_callTool
  sound_terminate sound_disconnect sound_fold_disconnect sound_toast

section \<open>Runs of the service\<close>

text \<open>One operation after the other, whatever the SDK answers.\<close>

inductive mcp_step :: "mcp_service \<Rightarrow> mcp_service \<Rightarrow> bool" where
  "mcp_step s (snd (connect sdk config tok hdr s))"
| "mcp_step s (snd (reconnect sdk n s))"
| "mcp_step s (snd (getTools sdk n s))"
| "mcp_step s (snd (service_callTool sdk n t a b s))"
| "mcp_step s (terminateSession sdk n s)"
| "mcp_step s (disconnect sdk n s)"
| "mcp_step s (disconnectAll sdk s)"
| "mcp_step s (client_onerror s)"

inductive mcp_reachable :: "mcp_service \<Rightarrow> bool" where
  fresh: "mcp_reachable MCPService"
| next_step: "mcp_reachable s \<Longrightarrow> mcp_step s s' \<Longrightarrow> mcp_reachable s'"

lemma reachable_sound: "mcp_reachable s \<Longrightarrow> sound s"
proof (induction rule: mcp_reachable.induct)
  case fresh
  show ?case by (rule sound_start)
next
  case (next_step s s')
  from next_step(2) next_step.IH show ?case
    by (cases rule: mcp_step.cases) (simp_all add: sound_operations disconnectAll_def client_onerror_def)
qed

lemma disconnect_clients:
  "sound s \<Longrightarrow> obj_get (ms_clients (disconnect sdk n s)) = (obj_get (ms_clients s))(n := None)"
proof (cases "obj_get (ms_clients s) n")
  case None
  assume "sound s"
  then have "obj_get (ms_transports s) n = None" by (metis None option.map_disc_iff sound_def)
  with None show ?thesis by (auto simp: disconnect_def)
next
  case (Some c)
  then show ?thesis by (simp add: disconnect_def Let_def obj_get_delete service_simps)
qed

lemma fold_disconnect_clients:
  "sound s \<Longrightarrow> obj_get (ms_clients (fold (disconnect sdk) ns s)) k =
     (if k \<in> set ns then None else obj_get (ms_clients s) k)"
  by (induction ns arbitrary: s) (simp_all add: disconnect_clients sound_disconnect)

lemma obj_get_all_None: "(\<And>k. obj_get m k = None) \<Longrightarrow> m = []"
  using mp.keys_dom [of m] by (cases m) auto

text \<open>
  Property C10. Operations that do not overlap never leave a connection open: after \<open>disconnectAll\<close>, in any
  reachable state and whatever the SDK answers, no client and no transport is kept and \<open>close\<close> has
  been called on every transport that ever connected.
\<close>

theorem disconnectAll_closes_every_connection:
  assumes "mcp_reachable s"
  shows "ms_clients (disconnectAll sdk s) = [] \<and> ms_transports (disconnectAll sdk s) = []
    \<and> {i. Ev_connected i \<in> set (ms_events (disconnectAll sdk s))}
        \<subseteq> {i. Ev_close i \<in> set (ms_events (disconnectAll sdk s))}"
proof -
  let ?s = "disconnectAll sdk s"
  have s: "sound s" using assms by (rule reachable_sound)
  then have d: "sound ?s" unfolding disconnectAll_def by (rule sound_fold_disconnect)
  have c: "obj_get (ms_clients ?s) k = None" for k
  proof (cases "k \<in> set (map fst (ms_clients s))")
    case False
    then have "obj_get (ms_clients s) k = None"
      using mp.keys_dom [of "ms_clients s"] by (metis domIff)
    then show ?thesis using s by (simp add: disconnectAll_def fold_disconnect_clients)
  qed (simp add: disconnectAll_def fold_disconnect_clients [OF s])
  have "obj_get (ms_transports ?s) k = None" for k
    using c [of k] d by (metis option.map_disc_iff sound_def)
  with c d show ?thesis by (auto intro: obj_get_all_None simp: sound_def)
qed

text \<open>A concrete SDK whose calls all succeed.\<close>

definition agreeable_sdk :: mcp_sdk where
  "agreeable_sdk = \<lparr>sdk_base = ''/gateway'', sdk_url = (\<lambda>u. Some (''https://h'' @ u)),
     sdk_connect = (\<lambda>es. Inr (Some ''sid'')), sdk_listTools = (\<lambda>es. Inr (Some (JObj [(''tools'', JArr [])]))),
     sdk_request = (\<lambda>es. Inr (JObj [(''content'', JArr [JObj [(''text'', JStr ''ok'')]])])),
     sdk_terminate = (\<lambda>es. Inr None), sdk_close = (\<lambda>es. Inr ())\<rparr>"

theorem disconnectAll_closes_every_connection_witness:
  "let s = snd (connect agreeable_sdk \<lparr>cc_name = ''a'', cc_prefix = ''/a''\<rparr> None None MCPService) in
   ms_clients s = [(''a'', 0)] \<and> ms_clients (disconnectAll agreeable_sdk s) = []"
proof -
  let ?s = "snd (connect agreeable_sdk \<lparr>cc_name = ''a'', cc_prefix = ''/a''\<rparr> None None MCPService)"
  have "mcp_reachable ?s" by (rule next_step [OF fresh mcp_step.intros(1)])
  from disconnectAll_closes_every_connection [OF this, of agreeable_sdk]
  have "ms_clients (disconnectAll agreeable_sdk ?s) = []" by blast
  moreover have "ms_clients ?s = [(''a'', 0)]" by code_simp
  ultimately show ?thesis by (simp add: Let_def)
qed

text \<open>
  Two connections to one server that overlap do not find each other: both run, the second replaces the
  first in the maps, and the first stays connected with no key under which it could be closed.
\<close>

theorem overlapping_connects_leak_a_connection:
  assumes "connect_start sdk cfg tok hdr s = (Inr (Inr tp1), s1)"
      and "connect_start sdk cfg tok hdr s1 = (Inr (Inr tp2), s2)"
      and "connect_finish (cc_name cfg) tp1 (Inr sid1) s2 = (r1, s3)"
      and "connect_finish (cc_name cfg) tp2 (Inr sid2) s3 = (r2, s4)"
      and "sound s"
  shows "tp_id tp1 \<noteq> tp_id tp2 \<and> Ev_connected (tp_id tp1) \<in> set (ms_events s4)
    \<and> obj_get (ms_clients s4) (cc_name cfg) = Some (tp_id tp2)
    \<and> \<not> (\<exists>n. obj_get (ms_clients s4) n = Some (tp_id tp1))"
proof -
  let ?n = "cc_name cfg"
  from assms(1) have 1: "obj_get (ms_clients s) ?n = None" "tp_id tp1 = ms_count s"
    "ms_clients s1 = ms_clients s" "ms_count s1 = Suc (ms_count s)"
    by (auto simp: connect_start_def connect_failed_def Let_def service_simps split: option.splits)
  from assms(2) have 2: "tp_id tp2 = ms_count s1" "ms_clients s2 = ms_clients s1"
    by (auto simp: connect_start_def connect_failed_def Let_def service_simps split: option.splits)
  from assms(3) have 3: "ms_clients s3 = obj_set (ms_clients s2) ?n (tp_id tp1)"
    "Ev_connected (tp_id tp1) \<in> set (ms_events s3)"
    by (auto simp: connect_finish_def service_simps)
  from assms(4) have 4: "ms_clients s4 = obj_set (ms_clients s3) ?n (tp_id tp2)"
    "set (ms_events s3) \<subseteq> set (ms_events s4)"
    by (auto simp: connect_finish_def service_simps)
  have "obj_get (ms_clients s) n \<noteq> Some (ms_count s)" for n
    using assms(5) unfolding sound_def by (metis less_irrefl)
  with 1 2 3 4 show ?thesis by (auto simp: obj_get_set)
qed

theorem overlapping_connects_leak_a_connection_witness:
  "\<exists>s4 :: mcp_service. obj_get (ms_clients s4) ''a'' = Some 1 \<and> Ev_connected 0 \<in> set (ms_events s4)
     \<and> \<not> (\<exists>n. obj_get (ms_clients s4) n = Some 0)"
proof -
  let ?cfg = "\<lparr>cc_name = ''a'', cc_prefix = ''/a''\<rparr>"
  let ?c = "\<lambda>s. connect_start agreeable_sdk ?cfg None ''Authorization'' s"
  obtain tp1 s1 where 1: "?c MCPService = (Inr (Inr tp1), s1)" "tp_id tp1 = 0" "ms_clients s1 = []" "ms_count s1 = 1"
    by (simp add: connect_start_def agreeable_sdk_def MCPService_def obj_get_def service_simps Let_def)
  from 1(3,4) obtain tp2 s2 where 2: "?c s1 = (Inr (Inr tp2), s2)" "tp_id tp2 = 1"
    by (simp add: connect_start_def agreeable_sdk_def obj_get_def service_simps Let_def)
  obtain r1 s3 where 3: "connect_finish (cc_name ?cfg) tp1 (Inr None) s2 = (r1, s3)" by fastforce
  obtain r2 s4 where 4: "connect_finish (cc_name ?cfg) tp2 (Inr None) s3 = (r2, s4)" by fastforce
  from overlapping_connects_leak_a_connection [OF 1(1) 2(1) 3 4 sound_start] 1(2) 2(2)
  have "obj_get (ms_clients s4) ''a'' = Some 1 \<and> Ev_connected 0 \<in> set (ms_events s4)
     \<and> \<not> (\<exists>n. obj_get (ms_clients s4) n = Some 0)" by simp
  then show ?thesis by (rule exI)
qed

section \<open>Reconnecting\<close>

lemma terminate_sessionIds:
  "obj_get (ms_sessionIds (terminateSession sdk n s)) n =
     (case obj_get (ms_transports s) n of
        Some tp \<Rightarrow> if str_truthy (tp_session tp) \<and> \<not> isl (sdk_terminate sdk (ms_events s @ [Ev_terminate (tp_id tp)]))
          then None else obj_get (ms_sessionIds s) n
      | None \<Rightarrow> obj_get (ms_sessionIds s) n)"
  by (simp add: terminateSession_def Let_def service_simps obj_get_delete split: option.split sum.split)

lemma disconnect_simps [service_simps]:
  "ms_configs (disconnect sdk n s) = ms_configs s" "ms_count (disconnect sdk n s) = ms_count s"
  by (simp_all add: disconnect_def Let_def service_simps)

text \<open>
  Reconnecting a known server drops the old client and, when the SDK connects, installs a fresh one
  for the configuration kept; but the token and the header name \<open>connect\<close> was given are not kept, so
  the new transport sends no authorization header, whatever the first one sent.
\<close>

theorem reconnect_drops_authorization:
  assumes "sound s" and "obj_get (ms_configs s) n = Some cfg" and "cc_name cfg = n"
      and "sdk_url sdk (sdk_base sdk @ cc_prefix cfg @ ''/mcp'') = Some url"
      and "\<And>es. sdk_connect sdk es = Inr sid"
  shows "\<exists>s' tp. reconnect sdk n s = (Inr (Some (ms_count s)), s')
    \<and> obj_get (ms_clients s') n = Some (ms_count s)
    \<and> obj_get (ms_transports s') n = Some tp \<and> tp_url tp = url \<and> tp_headers tp = []"
proof -
  let ?d = "disconnect sdk n s"
  have "obj_get (ms_clients ?d) n = None" by (simp add: disconnect_clients [OF assms(1)])
  with assms(2-5) show ?thesis
    by (simp add: reconnect_def connect_def connect_start_def connect_finish_def Let_def service_simps
        obj_get_set auth_headers_def)
qed

theorem reconnect_drops_authorization_witness:
  "let cfg = \<lparr>cc_name = ''a'', cc_prefix = ''/a''\<rparr>;
       s = snd (connect agreeable_sdk cfg (Some ''tok'') None MCPService)
   in map_option tp_headers (obj_get (ms_transports s) ''a'') = Some [(''Authorization'', ''Bearer tok'')]
      \<and> (\<exists>s' tp. reconnect agreeable_sdk ''a'' s = (Inr (Some 1), s')
          \<and> obj_get (ms_transports s') ''a'' = Some tp \<and> tp_headers tp = [])"
proof -
  let ?cfg = "\<lparr>cc_name = ''a'', cc_prefix = ''/a''\<rparr>"
  let ?s = "snd (connect agreeable_sdk ?cfg (Some ''tok'') None MCPService)"
  have "sound ?s" by (intro sound_connect sound_start)
  moreover have "obj_get (ms_configs ?s) ''a'' = Some ?cfg" by code_simp
  moreover have "cc_name ?cfg = ''a''" by simp
  moreover have "sdk_url agreeable_sdk (sdk_base agreeable_sdk @ cc_prefix ?cfg @ ''/mcp'')
      = Some ''https://h/gateway/a/mcp''" by code_simp
  moreover have "\<And>es. sdk_connect agreeable_sdk es = Inr (Some ''sid'')" by (simp add: agreeable_sdk_def)
  moreover have "ms_count ?s = 1" by code_simp
  moreover have "map_option tp_headers (obj_get (ms_transports ?s) ''a'') = Some [(''Authorization'', ''Bearer tok'')]"
    by code_simp
  ultimately show ?thesis
    using reconnect_drops_authorization [of ?s "''a''" ?cfg agreeable_sdk] unfolding Let_def by metis
qed

section \<open>Calling tools\<close>

text \<open>
  A call made from the chat reaches the SDK only for a connected server; for any other name the answer
  is the error text, and nothing is asked of the SDK. A call the SDK answers yields the text of the
  first content item.
\<close>

theorem chat_call_result:
  assumes "CHR '':'' \<notin> set srv" and "CHR '':'' \<notin> set tool"
  shows "chat_callTool sdk s (srv @ '':'' @ tool) args =
    (case obj_get (ms_clients s) srv of
       None \<Rightarrow> Some (stringify (JObj [(''error'', JStr (''No client found for server '' @ srv))]))
     | Some c \<Rightarrow>
         (case sdk_request sdk (ms_events s @ [Ev_request c (Some tool) args
                 (case obj_get (ms_lastEventIds s) srv of Some i \<Rightarrow> if i \<noteq> [] then Some i else None | None \<Rightarrow> None)]) of
            Inl m \<Rightarrow> Some (stringify (JObj [(''error'', JStr m)]))
          | Inr result \<Rightarrow>
              (case result_text result of
                 Inl e \<Rightarrow> Some (stringify (JObj [(''error'', JStr (exn_message (Js_exn e)))]))
               | Inr txt \<Rightarrow> map_option stringify txt)))"
proof -
  have "split_tool_name (srv @ '':'' @ tool) = (srv, Some tool)"
    using assms by (simp add: split_tool_name_def split_on_cons split_on_no_sep)
  then show ?thesis
    by (simp add: chat_callTool_def callTool_def service_callTool_def Let_def call_failed_def
        keep_event_id_def no_client_def service_simps split: option.split sum.split)
qed

theorem chat_call_result_witness:
  "chat_callTool agreeable_sdk (snd (connect agreeable_sdk \<lparr>cc_name = ''a'', cc_prefix = ''/a''\<rparr> None None MCPService))
     ''a:get'' [] = Some (stringify (JStr ''ok''))
   \<and> chat_callTool agreeable_sdk MCPService ''a:get'' []
      = Some (stringify (JObj [(''error'', JStr ''No client found for server a'')]))"
proof -
  let ?s = "snd (connect agreeable_sdk \<lparr>cc_name = ''a'', cc_prefix = ''/a''\<rparr> None None MCPService)"
  have c: "obj_get (ms_clients ?s) ''a'' = Some 0" by code_simp
  have "obj_get (ms_clients MCPService) ''a'' = None" by code_simp
  moreover have "result_text (JObj [(''content'', JArr [JObj [(''text'', JStr ''ok'')]])]) = Inr (Some (JStr ''ok''))"
    by code_simp
  ultimately show ?thesis
    using chat_call_result [of "''a''" "''get''" agreeable_sdk ?s "[]"] c
      chat_call_result [of "''a''" "''get''" agreeable_sdk MCPService "[]"]
    by (simp add: agreeable_sdk_def)
qed

text \<open>
  A result without content makes a successful call fail: the request has been made and answered, and
  the caller is told it failed.
\<close>

theorem empty_result_is_reported_as_failure:
  assumes "obj_get (ms_clients s) srv = Some c"
      and "\<And>es. sdk_request sdk es = Inr (JObj [(''content'', JArr [])])"
  shows "\<exists>s'. service_callTool sdk srv tool args notify s = (Inl ''text'', s')
    \<and> ms_toasts s' = ms_toasts s @ [''errors.call_tool_failed'']"
  using assms
  by (simp add: service_callTool_def Let_def keep_event_id_def result_text_def call_failed_def
      obj_get_def js_opt_field_def toast_error_def log_event_def)

theorem empty_result_is_reported_as_failure_witness:
  "\<exists>s'. service_callTool (agreeable_sdk\<lparr>sdk_request := \<lambda>es. Inr (JObj [(''content'', JArr [])])\<rparr>) ''a'' (Some ''t'') [] False
     (MCPService\<lparr>ms_clients := [(''a'', 0)]\<rparr>) = (Inl ''text'', s')"
  using empty_result_is_reported_as_failure [of "MCPService\<lparr>ms_clients := [(''a'', 0)]\<rparr>" "''a''" 0
    "agreeable_sdk\<lparr>sdk_request := \<lambda>es. Inr (JObj [(''content'', JArr [])])\<rparr>" "Some ''t''" "[]" False]
  by (auto simp: obj_get_def)

end
