(* ===== verification/Config_Versions.thy ===== *)
theory Config_Versions
  imports Tenant_Api
begin

text \<open>
  The version history of configurations, \<open>src/web/src/pages/gateway/config-versions.tsx\<close>: choosing a
  tenant and a configuration (kept in the address's query), loading, comparing with the previous or
  the active version, and rolling back. Rendering, dates and the diff viewer are not modelled.
\<close>

section \<open>State\<close>

record config_version =
  cv_version :: int
  cv_created_by :: string
  cv_created_at :: string
  cv_action_type :: string
  cv_name :: string
  cv_tenant :: string
  cv_routers :: string
  cv_servers :: string
  cv_tools :: string
  cv_mcp_servers :: string
  cv_is_active :: bool
  cv_hash :: string

record versions_page =
  vp_versions :: "config_version list"
  vp_loading :: bool
  vp_configNames :: "json list"
  vp_tenants :: jv
  vp_selectedConfig :: "string option"
  vp_selectedTenant :: "string option"
  vp_compareModalVisible :: bool
  vp_selectedVersions :: "config_version option \<times> config_version option"
  vp_showDiffOnly :: bool
  vp_searchParams :: "string obj"

text \<open>\<open>x || undefined\<close> on a text.\<close>

definition nonempty :: "string option \<Rightarrow> string option" where
  "nonempty x = (if str_truthy x then x else None)"

definition open_page :: "string obj \<Rightarrow> versions_page" where
  "open_page searchParams = \<lparr>vp_versions = [], vp_loading = False, vp_configNames = [],
     vp_tenants = Some (JArr []), vp_selectedConfig = nonempty (obj_get searchParams ''name''),
     vp_selectedTenant = nonempty (obj_get searchParams ''tenant''), vp_compareModalVisible = False,
     vp_selectedVersions = (None, None), vp_showDiffOnly = True, vp_searchParams = searchParams\<rparr>"

section \<open>Loading\<close>

definition as_version :: "json \<Rightarrow> config_version" where
  "as_version j = \<lparr>
     cv_version = (case js_member j ''version'' of Some (JInt n) \<Rightarrow> n | _ \<Rightarrow> 0),
     cv_created_by = text_member j ''created_by'', cv_created_at = text_member j ''created_at'',
     cv_action_type = text_member j ''action_type'', cv_name = text_member j ''name'',
     cv_tenant = text_member j ''tenant'', cv_routers = text_member j ''routers'',
     cv_servers = text_member j ''servers'', cv_tools = text_member j ''tools'',
     cv_mcp_servers = text_member j ''mcp_servers'',
     cv_is_active = (js_member j ''is_active'' = Some (JBool True)), cv_hash = text_member j ''hash''\<rparr>"

definition fetchConfigNames :: "backend \<Rightarrow> versions_page \<Rightarrow> (versions_page \<Rightarrow> versions_page) io" where
  "fetchConfigNames be st =
     catch (bnd (getMCPConfigNames be (vp_selectedTenant st))
              (\<lambda>names. ret (\<lambda>s. s\<lparr>vp_configNames := elements names\<rparr>)))
       (\<lambda>e. ret id)"

definition fetchTenants :: "backend \<Rightarrow> (versions_page \<Rightarrow> versions_page) io" where
  "fetchTenants be =
     catch (bnd (getTenants be) (\<lambda>data. ret (\<lambda>s. s\<lparr>vp_tenants := data\<rparr>))) (\<lambda>e. ret id)"

definition fetch_started :: "versions_page \<Rightarrow> versions_page" where
  "fetch_started st = st\<lparr>vp_loading := True\<rparr>"

definition fetchVersions ::
    "backend \<Rightarrow> versions_page \<Rightarrow> string option \<Rightarrow> (versions_page \<Rightarrow> versions_page) io" where
  "fetchVersions be st name =
     bnd (catch
       (bnd (getMCPConfigVersions be (vp_selectedTenant st) name) (\<lambda>response.
        bnd (get_field response ''data'') (\<lambda>data.
          ret (\<lambda>s. s\<lparr>vp_versions := map as_version (elements (js_or data (Some (JArr []))))\<rparr>))))
       (\<lambda>e. ret id))
     (\<lambda>f. ret (\<lambda>s. (f s)\<lparr>vp_loading := False\<rparr>))"

text \<open>The effect on the selected tenant; without one the list of names is emptied.\<close>

definition names_effect :: "backend \<Rightarrow> versions_page \<Rightarrow> (versions_page \<Rightarrow> versions_page) io" where
  "names_effect be st =
     (if str_truthy (vp_selectedTenant st) then fetchConfigNames be st
      else ret (\<lambda>s. s\<lparr>vp_configNames := []\<rparr>))"

definition versions_effect :: "backend \<Rightarrow> versions_page \<Rightarrow> (versions_page \<Rightarrow> versions_page) io" where
  "versions_effect be st = fetchVersions be st (vp_selectedConfig st)"

section \<open>Handlers\<close>

definition handleSetActive ::
    "backend \<Rightarrow> versions_page \<Rightarrow> string \<Rightarrow> int \<Rightarrow> (versions_page \<Rightarrow> versions_page) io" where
  "handleSetActive be st name version =
     catch (andthen (setActiveVersion be (ostr_or (vp_selectedTenant st) ''default'') name version)
              (fetchVersions be st (vp_selectedConfig st)))
       (\<lambda>e. ret id)"

text \<open>A chosen key is \<open>undefined\<close> when the selection is cleared.\<close>

definition handleConfigChange :: "string option \<Rightarrow> versions_page \<Rightarrow> versions_page" where
  "handleConfigChange value st = st\<lparr>vp_selectedConfig := value, vp_searchParams :=
     (if str_truthy value then [(''name'', the value)] else [])
     @ (if str_truthy (vp_selectedTenant st) then [(''tenant'', the (vp_selectedTenant st))] else [])\<rparr>"

definition handleTenantChange :: "string option \<Rightarrow> versions_page \<Rightarrow> versions_page" where
  "handleTenantChange value st = st\<lparr>vp_selectedTenant := value, vp_selectedConfig := None,
     vp_searchParams := (if str_truthy value then [(''tenant'', the value)] else [])\<rparr>"

text \<open>\<open>sort((a, b) => b.version - a.version)\<close> is stable; \<open>findIndex\<close> answers \<open>-1\<close> when there is
  none.\<close>

definition sameConfigVersions :: "config_version \<Rightarrow> config_version list \<Rightarrow> config_version list" where
  "sameConfigVersions record versions =
     sort_key (\<lambda>v. - cv_version v) (filter (\<lambda>v. cv_name v = cv_name record) versions)"

definition find_index :: "('a \<Rightarrow> bool) \<Rightarrow> 'a list \<Rightarrow> int" where
  "find_index P xs = (let n = length (takeWhile (\<lambda>x. \<not> P x) xs) in if n < length xs then int n else - 1)"

definition handleCompareWithPrevious :: "config_version \<Rightarrow> versions_page \<Rightarrow> versions_page" where
  "handleCompareWithPrevious record st =
     (let same = sameConfigVersions record (vp_versions st);
          currentIndex = find_index (\<lambda>v. cv_version v = cv_version record) same
      in if currentIndex < int (length same) - 1
         then st\<lparr>vp_selectedVersions := (Some (same ! nat (currentIndex + 1)), Some record),
                vp_compareModalVisible := True\<rparr>
         else st)"

definition handleCompareWithLatest :: "config_version \<Rightarrow> versions_page \<Rightarrow> versions_page" where
  "handleCompareWithLatest record st =
     (case find (\<lambda>v. cv_name v = cv_name record \<and> cv_is_active v) (vp_versions st) of
        Some latestVersion \<Rightarrow>
          if cv_version latestVersion \<noteq> cv_version record
          then st\<lparr>vp_selectedVersions := (Some record, Some latestVersion), vp_compareModalVisible := True\<rparr>
          else st
      | None \<Rightarrow> st)"

definition close_compare :: "versions_page \<Rightarrow> versions_page" where
  "close_compare st = st\<lparr>vp_compareModalVisible := False\<rparr>"

definition toggle_diff_only :: "versions_page \<Rightarrow> versions_page" where
  "toggle_diff_only st = st\<lparr>vp_showDiffOnly := \<not> vp_showDiffOnly st\<rparr>"

section \<open>What is shown\<close>

definition parseJsonString :: "string \<Rightarrow> json" where
  "parseJsonString jsonStr = (case JSON_parse jsonStr of Some j \<Rightarrow> j | None \<Rightarrow> JArr [])"

text \<open>The object \<open>yaml.dump\<close> is given.\<close>

definition getConfigContent :: "config_version \<Rightarrow> json" where
  "getConfigContent v = JObj [(''name'', JStr (cv_name v)), (''tenant'', JStr (cv_tenant v)),
     (''createdAt'', JStr (cv_created_at v)), (''routers'', parseJsonString (cv_routers v)),
     (''servers'', parseJsonString (cv_servers v)), (''tools'', parseJsonString (cv_tools v)),
     (''mcp_servers'', parseJsonString (cv_mcp_servers v))]"

definition shows_rollback :: "config_version \<Rightarrow> bool" where
  "shows_rollback record \<longleftrightarrow> \<not> cv_is_active record"

definition shows_compare_previous :: "config_version \<Rightarrow> bool" where
  "shows_compare_previous record \<longleftrightarrow> \<not> cv_is_active record \<and> cv_version record > 1"

definition shows_compare_latest :: "versions_page \<Rightarrow> config_version \<Rightarrow> bool" where
  "shows_compare_latest st record \<longleftrightarrow>
     \<not> cv_is_active record \<and> cv_version record < int (length (vp_versions st))"

section \<open>The address keeps the selection\<close>

datatype page_action = Choose_config "string option" | Choose_tenant "string option"

fun page_do :: "page_action \<Rightarrow> versions_page \<Rightarrow> versions_page" where
  "page_do (Choose_config v) st = handleConfigChange v st"
| "page_do (Choose_tenant v) st = handleTenantChange v st"

definition address_ok :: "versions_page \<Rightarrow> bool" where
  "address_ok st \<longleftrightarrow>
     nonempty (obj_get (vp_searchParams st) ''name'') = nonempty (vp_selectedConfig st) \<and>
     nonempty (obj_get (vp_searchParams st) ''tenant'') = nonempty (vp_selectedTenant st)"

lemma nonempty_idem [simp]: "nonempty (nonempty x) = nonempty x"
  by (auto simp: nonempty_def)

lemma address_ok_do: "address_ok st \<Longrightarrow> address_ok (page_do a st)"
  by (cases a)
     (auto simp: address_ok_def handleConfigChange_def handleTenantChange_def nonempty_def obj_get_def
       str_truthy_def split: option.splits)

text \<open>
  The address always holds the selection: after any choices of tenant and configuration, opening the
  page anew at its address selects the same tenant and the same configuration.
\<close>

theorem address_restores_selection:
  "nonempty (vp_selectedTenant (open_page (vp_searchParams (fold page_do as (open_page p)))))
     = nonempty (vp_selectedTenant (fold page_do as (open_page p)))
   \<and> nonempty (vp_selectedConfig (open_page (vp_searchParams (fold page_do as (open_page p)))))
     = nonempty (vp_selectedConfig (fold page_do as (open_page p)))"
proof -
  have "address_ok (open_page p)" by (simp add: address_ok_def open_page_def)
  then have "address_ok (fold page_do as (open_page p))"
    by (induction as arbitrary: p rule: rev_induct) (simp_all add: address_ok_do)
  then show ?thesis by (simp add: address_ok_def open_page_def)
qed

section \<open>Comparing with the previous version\<close>

lemma sort_desc_split:
  assumes "distinct (map cv_version xs)" "sort_key (\<lambda>v. - cv_version v) xs = ys @ r # zs"
  shows "list_all (\<lambda>v. cv_version r < cv_version v) ys \<and> list_all (\<lambda>v. cv_version v < cv_version r) zs"
    and "zs = z # zs' \<Longrightarrow> list_all (\<lambda>v. cv_version v < cv_version z) zs'"
proof -
  have s: "sorted (map (\<lambda>v. - cv_version v) (ys @ r # zs))" by (metis assms(2) sorted_sort_key)
  have "mset (map cv_version (ys @ r # zs)) = mset (map cv_version xs)"
    by (metis assms(2) mset_map mset_sort)
  then have d: "distinct (map cv_version (ys @ r # zs))"
    using assms(1) mset_eq_imp_distinct_iff by blast
  have "\<forall>v \<in> set ys. cv_version r \<le> cv_version v \<and> cv_version v \<noteq> cv_version r"
    using s d by (auto simp: sorted_append image_iff)
  moreover have z: "\<forall>v \<in> set zs. cv_version v \<le> cv_version r \<and> cv_version v \<noteq> cv_version r"
    using s d by (auto simp: sorted_append image_iff)
  ultimately show "list_all (\<lambda>v. cv_version r < cv_version v) ys \<and> list_all (\<lambda>v. cv_version v < cv_version r) zs"
    by (auto simp: list_all_iff order.order_iff_strict)
  assume "zs = z # zs'"
  with s d have "\<forall>v \<in> set zs'. cv_version v \<le> cv_version z \<and> cv_version v \<noteq> cv_version z"
    by (auto simp: sorted_append image_iff)
  then show "list_all (\<lambda>v. cv_version v < cv_version z) zs'"
    by (auto simp: list_all_iff order.order_iff_strict)
qed

lemma split_at_version:
  assumes "record \<in> set xs" "distinct (map cv_version xs)"
  shows "\<exists>ys zs. sort_key (\<lambda>v. - cv_version v) xs = ys @ record # zs
    \<and> find_index (\<lambda>v. cv_version v = cv_version record) (sort_key (\<lambda>v. - cv_version v) xs) = int (length ys)"
proof -
  from assms(1) have "record \<in> set (sort_key (\<lambda>v. - cv_version v) xs)" by simp
  then obtain ys zs where sp: "sort_key (\<lambda>v. - cv_version v) xs = ys @ record # zs"
    by (meson split_list)
  from sort_desc_split(1) [OF assms(2) sp] have "list_all (\<lambda>v. cv_version v \<noteq> cv_version record) ys"
    by (auto simp: list_all_iff)
  then have "takeWhile (\<lambda>v. cv_version v \<noteq> cv_version record) (ys @ record # zs) = ys"
    by (induction ys) auto
  with sp show ?thesis by (auto simp: find_index_def)
qed

text \<open>Versions are matched by name only.\<close>

lemma previous_by_name:
  assumes "record \<in> set (vp_versions st)"
      and "distinct (map cv_version (filter (\<lambda>v. cv_name v = cv_name record) (vp_versions st)))"
  shows "if list_ex (\<lambda>v. cv_name v = cv_name record \<and> cv_version v < cv_version record) (vp_versions st)
    then \<exists>old. handleCompareWithPrevious record st
           = st\<lparr>vp_selectedVersions := (Some old, Some record), vp_compareModalVisible := True\<rparr>
         \<and> old \<in> set (vp_versions st) \<and> cv_name old = cv_name record \<and> cv_version old < cv_version record
         \<and> \<not> list_ex (\<lambda>v. cv_name v = cv_name record \<and> cv_version old < cv_version v
                \<and> cv_version v < cv_version record) (vp_versions st)
    else handleCompareWithPrevious record st = st"
proof -
  let ?same = "filter (\<lambda>v. cv_name v = cv_name record) (vp_versions st)"
  have "record \<in> set ?same" using assms(1) by simp
  from split_at_version [OF this assms(2)] obtain ys zs where
    sp: "sort_key (\<lambda>v. - cv_version v) ?same = ys @ record # zs"
    and ix: "find_index (\<lambda>v. cv_version v = cv_version record) (sort_key (\<lambda>v. - cv_version v) ?same)
      = int (length ys)" by blast
  have all: "set ?same = set ys \<union> {record} \<union> set zs"
    by (metis Un_insert_right list.simps(15) set_append set_sort sp sup_bot.right_neutral Un_assoc insert_is_Un)
  have mem: "v \<in> set (vp_versions st) \<and> cv_name v = cv_name record \<longleftrightarrow> v \<in> set ys \<or> v = record \<or> v \<in> set zs" for v
    using all by auto
  note ord = sort_desc_split(1) [OF assms(2) sp]
  show ?thesis
  proof (cases zs)
    case Nil
    have "handleCompareWithPrevious record st = st"
      using sp ix Nil by (simp add: handleCompareWithPrevious_def sameConfigVersions_def)
    moreover have "\<not> list_ex (\<lambda>v. cv_name v = cv_name record \<and> cv_version v < cv_version record) (vp_versions st)"
      using ord mem Nil unfolding list_ex_iff list_all_iff by (metis empty_iff empty_set less_asym less_irrefl)
    ultimately show ?thesis by simp
  next
    case (Cons z zs')
    have low: "cv_version z < cv_version record" and z: "z \<in> set (vp_versions st)" "cv_name z = cv_name record"
      using ord Cons mem [of z] by auto
    have "handleCompareWithPrevious record st
        = st\<lparr>vp_selectedVersions := (Some z, Some record), vp_compareModalVisible := True\<rparr>"
      using sp ix Cons
      by (simp add: handleCompareWithPrevious_def sameConfigVersions_def nth_append nat_add_distrib)
    moreover have "\<not> list_ex (\<lambda>v. cv_name v = cv_name record \<and> cv_version z < cv_version v
        \<and> cv_version v < cv_version record) (vp_versions st)"
      using ord mem sort_desc_split(2) [OF assms(2) sp Cons] Cons
      unfolding list_ex_iff list_all_iff by (metis less_asym less_irrefl set_ConsD)
    moreover have "list_ex (\<lambda>v. cv_name v = cv_name record \<and> cv_version v < cv_version record) (vp_versions st)"
      using low z by (auto simp: list_ex_iff)
    ultimately show ?thesis using low z by auto
  qed
qed

definition sample_version :: "int \<Rightarrow> string \<Rightarrow> config_version" where
  "sample_version n tenant = \<lparr>cv_version = n, cv_created_by = [], cv_created_at = [],
     cv_action_type = ''Update'', cv_name = ''a'', cv_tenant = tenant, cv_routers = ''[]'', cv_servers = ''[]'',
     cv_tools = ''[]'', cv_mcp_servers = ''[]'', cv_is_active = False, cv_hash = []\<rparr>"

text \<open>
  Property C27. Comparing with the previous version finds it: for a version in a list that is of one tenant and
  has each version of the configuration once, the old side is the next lower version of the same
  configuration (name and tenant); without one nothing opens.
\<close>

theorem previous_version_is_next_lower:
  assumes "record \<in> set (vp_versions st)"
      and "list_all (\<lambda>v. cv_tenant v = cv_tenant record) (vp_versions st)"
      and "distinct (map cv_version (filter (\<lambda>v. cv_name v = cv_name record) (vp_versions st)))"
  shows "let same = (\<lambda>v. cv_name v = cv_name record \<and> cv_tenant v = cv_tenant record) in
    if list_ex (\<lambda>v. same v \<and> cv_version v < cv_version record) (vp_versions st)
    then \<exists>old. handleCompareWithPrevious record st
           = st\<lparr>vp_selectedVersions := (Some old, Some record), vp_compareModalVisible := True\<rparr>
         \<and> old \<in> set (vp_versions st) \<and> same old \<and> cv_version old < cv_version record
         \<and> \<not> list_ex (\<lambda>v. same v \<and> cv_version old < cv_version v
                \<and> cv_version v < cv_version record) (vp_versions st)
    else handleCompareWithPrevious record st = st"
proof -
  have "(cv_name v = cv_name record \<and> cv_tenant v = cv_tenant record) = (cv_name v = cv_name record)"
    if "v \<in> set (vp_versions st)" for v
    using assms(2) that by (auto simp: list_all_iff)
  then have ex: "list_ex (\<lambda>v. (cv_name v = cv_name record \<and> cv_tenant v = cv_tenant record) \<and> P v) (vp_versions st)
      = list_ex (\<lambda>v. cv_name v = cv_name record \<and> P v) (vp_versions st)" for P
    unfolding list_ex_iff by blast
  from previous_by_name [OF assms(1,3)] show ?thesis
    unfolding Let_def ex using assms(2) by (auto simp: list_all_iff split: if_splits)
qed

theorem previous_version_is_next_lower_witness:
  "\<exists>old. handleCompareWithPrevious (sample_version 4 [])
       ((open_page [])\<lparr>vp_versions := [sample_version 1 [], sample_version 4 [], sample_version 2 []]\<rparr>)
     = (open_page [])\<lparr>vp_versions := [sample_version 1 [], sample_version 4 [], sample_version 2 []],
         vp_selectedVersions := (Some old, Some (sample_version 4 [])), vp_compareModalVisible := True\<rparr>
     \<and> old \<in> {sample_version 1 [], sample_version 4 [], sample_version 2 []}"
  using previous_version_is_next_lower [of "sample_version 4 []"
    "(open_page [])\<lparr>vp_versions := [sample_version 1 [], sample_version 4 [], sample_version 2 []]\<rparr>"]
  by (auto simp: sample_version_def)

text \<open>
  A finding: the list shows every tenant's configurations while no tenant is selected, but versions
  are matched by name only, so the version of one tenant is compared with that of another.
\<close>

theorem comparison_crosses_tenants:
  "vp_selectedVersions (handleCompareWithPrevious (sample_version 2 ''t1'')
     ((open_page [])\<lparr>vp_versions := [sample_version 2 ''t1'', sample_version 1 ''t2'']\<rparr>))
   = (Some (sample_version 1 ''t2''), Some (sample_version 2 ''t1''))"
  by code_simp

lemma emits_fetchVersions: "emits (\<lambda>_. True) (fetchVersions be st name)"
  unfolding fetchVersions_def getMCPConfigVersions_def api_get_def
  by (intro emit_rules) simp

text \<open>
  A finding: rolling back a listed version while no tenant is selected is asked for the tenant
  \<open>default\<close>, whatever tenant the version belongs to.
\<close>

theorem rollback_goes_to_default_tenant:
  assumes "\<not> str_truthy (vp_selectedTenant st)"
  shows "list_ex (\<lambda>rq. rq_method rq = ''POST''
      \<and> rq_url rq = ''/mcp/configs/default/'' @ cv_name record @ ''/versions/'' @ int_str (cv_version record) @ ''/active'')
    (w_log (snd (handleSetActive be st (cv_name record) (cv_version record) w)))"
proof -
  let ?u = "''/mcp/configs/'' @ ''default'' @ ''/'' @ cv_name record @ ''/versions/'' @ int_str (cv_version record) @ ''/active''"
  let ?rq = "request_interceptor w ((method_request ''POST'' ?u)\<lparr>rq_body := NoBody\<rparr>)"
  have "?rq \<in> set (w_log (snd (api_post be ?u NoBody w)))"
    by (simp add: api_post_def send_log)
  then have "?rq \<in> set (w_log (snd (setActiveVersion be ''default'' (cv_name record) (cv_version record) w)))"
    unfolding setActiveVersion_def api_try_def andthen_def
    by (intro log_through_catch [where P = "\<lambda>_. True"] log_after_first [where P = "\<lambda>_. True"] emit_rules)
  moreover have "ostr_or (vp_selectedTenant st) ''default'' = ''default''"
    using assms by (auto simp: ostr_or_def str_or_def str_truthy_def split: option.splits)
  ultimately have "?rq \<in> set (w_log (snd (handleSetActive be st (cv_name record) (cv_version record) w)))"
    unfolding handleSetActive_def andthen_def
    by (simp only:) (intro log_through_catch [where P = "\<lambda>_. True"] log_after_first [where P = "\<lambda>_. True"]
        emits_fetchVersions emits_ret)
  moreover have "rq_method ?rq = ''POST'' \<and> rq_url ?rq = ?u" by (simp add: method_request_def)
  ultimately show ?thesis unfolding list_ex_iff by (intro bexI [of _ ?rq]) simp_all
qed

theorem rollback_goes_to_default_tenant_witness:
  "list_ex (\<lambda>rq. rq_method rq = ''POST'' \<and> rq_url rq = ''/mcp/configs/default/a/versions/2/active'')
    (w_log (snd (handleSetActive (\<lambda>_ _. Answered 200 None) (open_page []) ''a'' 2 start_world)))
   \<and> cv_tenant (sample_version 2 ''t1'') = ''t1''"
proof -
  have "\<not> str_truthy (vp_selectedTenant (open_page []))" by code_simp
  moreover have "int_str 2 = ''2''" by code_simp
  ultimately show ?thesis
    using rollback_goes_to_default_tenant [of "open_page []" "sample_version 2 ''t1''" "\<lambda>_ _. Answered 200 None" start_world]
    by (simp add: sample_version_def)
qed

end
