(* ===== verification/Highlight_Text.thy ===== *)
theory Highlight_Text
  imports Js_Prelude
begin

text \<open>
  The two regular expressions of \<open>src/web/src/pages/gateway/components/CapabilitiesViewer.tsx\<close>:
  \<open>HighlightText\<close>, which marks the search term in a text, and \<open>extractTemplateParams\<close>. Of the
  language's regular expressions the model has what these two use: a literal in one capture group,
  matched as \<open>split\<close> and the stateful \<open>test\<close> of a global expression do.
\<close>

section \<open>The escaped search term\<close>

text \<open>\<open>replace(/[.*+?^${}()|[\]\\]/g, '\\$&')\<close>.\<close>

definition syntax_char :: "char \<Rightarrow> bool" where
  "syntax_char c \<longleftrightarrow> c \<in> set (CHR 0x5C # ''.*+?^${}()|[]'')"

definition escape_regex :: "string \<Rightarrow> string" where
  "escape_regex s = concat (map (\<lambda>c. if syntax_char c then [CHR 0x5C, c] else [c]) s)"

text \<open>The text a pattern of plain characters and identity escapes stands for; any other pattern
  would need more of the regular expressions than is modelled.\<close>

fun pattern_literal :: "string \<Rightarrow> string option" where
  "pattern_literal [] = Some []"
| "pattern_literal (c # cs) =
     (if c = CHR 0x5C
      then (case cs of [] \<Rightarrow> None
            | d # ds \<Rightarrow> if syntax_char d then map_option ((#) d) (pattern_literal ds) else None)
      else if syntax_char c then None else map_option ((#) c) (pattern_literal cs))"

lemma escape_regex_Cons [simp]:
  "escape_regex (c # cs) = (if syntax_char c then [CHR 0x5C, c] else [c]) @ escape_regex cs"
  by (simp add: escape_regex_def)

lemma pattern_literal_escape: "pattern_literal (escape_regex s) = Some s"
proof (induction s)
  case Nil
  then show ?case by (simp add: escape_regex_def)
next
  case (Cons c s)
  have "syntax_char (CHR 0x5C)" by (simp add: syntax_char_def)
  with Cons show ?case by auto
qed

section \<open>Matching\<close>

text \<open>Without the flag \<open>i\<close> characters are compared as they are; with it after case mapping, which
  on the characters modelled identifies exactly what lower-casing does.\<close>

definition canon :: "bool \<Rightarrow> char \<Rightarrow> char" where
  "canon caseSensitive = (if caseSensitive then id else lower_char)"

definition match_at :: "bool \<Rightarrow> string \<Rightarrow> string \<Rightarrow> bool" where
  "match_at cs lit s \<longleftrightarrow> starts_with (map (canon cs) s) (map (canon cs) lit)"

definition occurs :: "bool \<Rightarrow> string \<Rightarrow> string \<Rightarrow> bool" where
  "occurs cs lit s \<longleftrightarrow> str_includes (map (canon cs) s) (map (canon cs) lit)"

definition same_text :: "bool \<Rightarrow> string \<Rightarrow> string \<Rightarrow> bool" where
  "same_text cs a b \<longleftrightarrow> map (canon cs) a = map (canon cs) b"

text \<open>\<open>text.split(regex)\<close>: the text between the matches and, because of the group, the matches. The
  literal is never empty where it is used.\<close>

function split_re :: "bool \<Rightarrow> string \<Rightarrow> string \<Rightarrow> string \<Rightarrow> string list" where
  "split_re cs lit acc s =
     (if s = [] then [acc]
      else if lit \<noteq> [] \<and> match_at cs lit s
      then acc # take (length lit) s # split_re cs lit [] (drop (length lit) s)
      else split_re cs lit (acc @ [hd s]) (tl s))"
  by pat_completeness auto

termination split_re
  by (relation "measure (\<lambda>(cs, lit, acc, s). length s)") auto

declare split_re.simps [simp del]

text \<open>\<open>regex.test(part)\<close> of a global expression starts at \<open>lastIndex\<close>, leaves it behind the match,
  and sets it to zero when there is none.\<close>

definition re_test :: "bool \<Rightarrow> string \<Rightarrow> nat \<Rightarrow> string \<Rightarrow> bool \<times> nat" where
  "re_test cs lit lastIndex s =
     (case find (\<lambda>i. match_at cs lit (drop i s)) [lastIndex ..< Suc (length s)] of
        Some i \<Rightarrow> (True, i + length lit)
      | None \<Rightarrow> (False, 0))"

fun mark_parts :: "bool \<Rightarrow> string \<Rightarrow> nat \<Rightarrow> string list \<Rightarrow> (bool \<times> string) list" where
  "mark_parts cs lit lastIndex [] = []"
| "mark_parts cs lit lastIndex (part # parts) =
     (let (hit, next_index) = re_test cs lit lastIndex part
      in (hit, part) # mark_parts cs lit next_index parts)"

text \<open>The pieces that are shown, with those in a \<open>mark\<close> element flagged.\<close>

definition highlight :: "string \<Rightarrow> string \<Rightarrow> bool \<Rightarrow> (bool \<times> string) list" where
  "highlight txt searchTerm caseSensitive =
     (if trim searchTerm = [] then [(False, txt)]
      else (case pattern_literal (escape_regex searchTerm) of
          Some lit \<Rightarrow> mark_parts caseSensitive lit 0 (split_re caseSensitive lit [] txt)
        | None \<Rightarrow> [(False, txt)]))"

section \<open>Lemmas on the pieces\<close>

lemma occurs_iff: "occurs cs lit s \<longleftrightarrow> (\<exists>i \<le> length s. match_at cs lit (drop i s))"
proof
  assume "occurs cs lit s"
  then obtain a b where e: "map (canon cs) s = a @ map (canon cs) lit @ b"
    by (auto simp: occurs_def str_includes_iff)
  then have "length a \<le> length s" by (metis length_append length_map le_add1)
  moreover from e have "map (canon cs) (drop (length a) s) = map (canon cs) lit @ b"
    by (metis append_eq_conv_conj drop_map)
  then have "match_at cs lit (drop (length a) s)" by (auto simp: match_at_def starts_with_iff)
  ultimately show "\<exists>i \<le> length s. match_at cs lit (drop i s)" by blast
next
  assume "\<exists>i \<le> length s. match_at cs lit (drop i s)"
  then obtain i b where "map (canon cs) (drop i s) = map (canon cs) lit @ b"
    by (auto simp: match_at_def starts_with_iff)
  moreover have "map (canon cs) s = map (canon cs) (take i s) @ map (canon cs) (drop i s)"
    by (metis append_take_drop_id map_append)
  ultimately show "occurs cs lit s" by (auto simp: occurs_def str_includes_iff)
qed

lemma match_at_length: "match_at cs lit s \<Longrightarrow> length lit \<le> length s"
  by (auto simp: match_at_def starts_with_iff dest: arg_cong [where f = length])

lemma match_at_append: "match_at cs lit s \<Longrightarrow> match_at cs lit (s @ t)"
  by (auto simp: match_at_def starts_with_iff)

lemma match_at_take: "match_at cs lit s \<Longrightarrow> same_text cs lit (take (length lit) s)"
  by (simp add: match_at_def starts_with_def same_text_def take_map)

lemma same_text_match: "same_text cs lit m \<Longrightarrow> match_at cs lit m \<and> length m = length lit"
  by (auto simp: match_at_def starts_with_iff same_text_def dest: map_eq_imp_length_eq)

text \<open>What \<open>split\<close> answers: stretches free of the term, with a match between any two.\<close>

fun alternates :: "bool \<Rightarrow> string \<Rightarrow> string list \<Rightarrow> bool" where
  "alternates cs lit [] \<longleftrightarrow> False"
| "alternates cs lit [p] \<longleftrightarrow> \<not> occurs cs lit p"
| "alternates cs lit (p # m # ps) \<longleftrightarrow> \<not> occurs cs lit p \<and> same_text cs lit m \<and> alternates cs lit ps"

lemma no_match_inside:
  assumes "lit \<noteq> []" "\<And>i. i < length acc \<Longrightarrow> \<not> match_at cs lit (drop i (acc @ s))"
  shows "\<not> occurs cs lit acc"
proof
  assume "occurs cs lit acc"
  then obtain i where i: "match_at cs lit (drop i acc)" by (auto simp: occurs_iff)
  from match_at_length [OF this] assms(1) have "i < length acc" by (cases "i < length acc") auto
  with assms(2) [OF this] match_at_append [OF i, of s] show False by simp
qed

lemma split_re_alternates:
  assumes "lit \<noteq> []" "\<And>i. i < length acc \<Longrightarrow> \<not> match_at cs lit (drop i (acc @ s))"
  shows "alternates cs lit (split_re cs lit acc s)"
  using assms
proof (induction cs lit acc s rule: split_re.induct)
  case (1 cs lit acc s)
  note free = no_match_inside [OF 1(3,4)]
  show ?case
  proof (cases "s = []")
    case True
    with free show ?thesis by (simp add: split_re.simps)
  next
    case False
    show ?thesis
    proof (cases "match_at cs lit s")
      case True
      with False 1(3) have "alternates cs lit (split_re cs lit [] (drop (length lit) s))"
        by (intro 1(1)) auto
      with False True 1(3) free match_at_take [OF True] show ?thesis
        by (subst split_re.simps) simp
    next
      case no: False
      have "\<not> match_at cs lit (drop i ((acc @ [hd s]) @ tl s))" if "i < length (acc @ [hd s])" for i
        using that 1(4) [of i] no False by (cases "i = length acc") auto
      with 1(2) [OF False _ 1(3)] no have "alternates cs lit (split_re cs lit (acc @ [hd s]) (tl s))"
        by simp
      with False no show ?thesis by (subst split_re.simps) simp
    qed
  qed
qed

lemma concat_split_re: "lit \<noteq> [] \<Longrightarrow> concat (split_re cs lit acc s) = acc @ s"
proof (induction cs lit acc s rule: split_re.induct)
  case (1 cs lit acc s)
  then show ?case by (subst split_re.simps) auto
qed

text \<open>The index left by one test is harmless for the next: after a match comes a stretch without
  one, whose test fails from any index and sets it to zero again.\<close>

lemma re_test_free: "\<not> occurs cs lit p \<Longrightarrow> re_test cs lit i p = (False, 0)"
proof -
  assume "\<not> occurs cs lit p"
  then have "find (\<lambda>i. match_at cs lit (drop i p)) [i ..< Suc (length p)] = None"
    by (auto simp: find_None_iff occurs_iff)
  then show ?thesis by (simp add: re_test_def del: upt_Suc)
qed

lemma re_test_match: "same_text cs lit m \<Longrightarrow> re_test cs lit 0 m = (True, length lit)"
proof -
  assume "same_text cs lit m"
  then have "match_at cs lit m" using same_text_match by blast
  moreover have "[0 ..< Suc (length m)] = 0 # [1 ..< Suc (length m)]" by (simp add: upt_conv_Cons del: upt_Suc)
  ultimately show ?thesis by (simp add: re_test_def del: upt_Suc)
qed

lemma mark_parts_ok:
  "alternates cs lit parts \<Longrightarrow>
     list_all (\<lambda>(hit, p). if hit then same_text cs lit p else \<not> occurs cs lit p)
       (mark_parts cs lit i parts)"
  by (induction cs lit parts arbitrary: i rule: alternates.induct)
     (auto simp: re_test_free re_test_match Let_def)

lemma map_snd_mark_parts: "map snd (mark_parts cs lit i parts) = parts"
  by (induction parts arbitrary: i) (auto simp: Let_def split: prod.split)

text \<open>
  Property C6. Highlighting loses no text and marks exactly the search term: put together the pieces are the
  text, every marked piece is the term (up to case unless the search is case sensitive) and no
  other piece contains it, although the one expression that tests the pieces keeps an index
  between the tests.
\<close>

theorem highlight_marks_the_term:
  "concat (map snd (highlight txt searchTerm cs)) = txt
   \<and> (if trim searchTerm = [] then highlight txt searchTerm cs = [(False, txt)]
      else list_all (\<lambda>(marked, piece). if marked then same_text cs searchTerm piece
               else \<not> occurs cs searchTerm piece) (highlight txt searchTerm cs))"
proof (cases "trim searchTerm = []")
  case True
  then show ?thesis by (simp add: highlight_def)
next
  case False
  then have ne: "searchTerm \<noteq> []" by auto
  have "alternates cs searchTerm (split_re cs searchTerm [] txt)"
    by (rule split_re_alternates) (use ne in auto)
  from mark_parts_ok [OF this, of 0] False show ?thesis
    by (simp add: highlight_def pattern_literal_escape map_snd_mark_parts concat_split_re ne)
qed

lemma occurs_in_piece: "occurs cs lit p \<Longrightarrow> occurs cs lit (a @ p @ b)"
  unfolding occurs_def str_includes_iff by (metis append.assoc map_append)

lemma same_text_occurs: "same_text cs lit p \<Longrightarrow> occurs cs lit p"
  unfolding same_text_def occurs_def str_includes_iff by (metis append.right_neutral append_Nil)

lemma marked_iff_occurs:
  assumes "trim searchTerm \<noteq> []"
  shows "list_ex fst (highlight txt searchTerm cs) \<longleftrightarrow> occurs cs searchTerm txt"
proof -
  let ?ps = "split_re cs searchTerm [] txt" and ?h = "highlight txt searchTerm cs"
  from assms have ne: "searchTerm \<noteq> []" by auto
  have alt: "alternates cs searchTerm ?ps" by (rule split_re_alternates) (use ne in auto)
  from mark_parts_ok [OF alt, of 0] assms
  have ok: "list_all (\<lambda>(hit, p). if hit then same_text cs searchTerm p else \<not> occurs cs searchTerm p) ?h"
    by (simp add: highlight_def pattern_literal_escape)
  have snd: "map snd ?h = ?ps"
    using assms by (simp add: highlight_def pattern_literal_escape map_snd_mark_parts)
  have cat: "concat ?ps = txt" using concat_split_re [OF ne] by simp
  show ?thesis
  proof
    assume "list_ex fst ?h"
    then obtain p where p: "(True, p) \<in> set ?h" by (auto simp: list_ex_iff)
    with ok have "occurs cs searchTerm p" by (auto simp: list_all_iff same_text_occurs)
    moreover from p snd have "p \<in> set ?ps" by (metis image_eqI set_map snd_conv)
    then obtain xs ys where "?ps = xs @ p # ys" by (meson split_list)
    with cat have "txt = concat xs @ p @ concat ys" by auto
    ultimately show "occurs cs searchTerm txt" by (simp add: occurs_in_piece)
  next
    assume oc: "occurs cs searchTerm txt"
    show "list_ex fst ?h"
    proof (rule ccontr)
      assume no: "\<not> list_ex fst ?h"
      with ok have none: "\<forall>p \<in> set ?ps. \<not> occurs cs searchTerm p"
        unfolding snd [symmetric] by (fastforce simp: list_all_iff list_ex_iff)
      with alt have "\<exists>p. ?ps = [p]"
        by (cases "(cs, searchTerm, ?ps)" rule: alternates.cases) (auto simp: same_text_occurs)
      with cat none oc show False by auto
    qed
  qed
qed

section \<open>Parameters of a URI template\<close>

text \<open>\<open>uriTemplate.match(/\{([^}]+)\}/g)\<close>: the matches from left to right; the greedy run ends at the
  first closing brace or not at all.\<close>

function template_matches :: "string \<Rightarrow> string list" where
  "template_matches [] = []"
| "template_matches (c # cs) =
     (let run = takeWhile (\<lambda>d. d \<noteq> CHR ''}'') cs; rest = dropWhile (\<lambda>d. d \<noteq> CHR ''}'') cs
      in if c = CHR ''{'' \<and> run \<noteq> [] \<and> rest \<noteq> []
         then (CHR ''{'' # run @ [CHR ''}'']) # template_matches (tl rest)
         else template_matches cs)"
  by pat_completeness auto

termination template_matches
proof (relation "measure length")
  fix c :: char and cs :: string and x xa :: string
  have "length (tl (dropWhile (\<lambda>d. d \<noteq> CHR ''}'') cs)) \<le> length cs"
    by (metis diff_le_self dual_order.trans length_dropWhile_le length_tl)
  then show "xa = dropWhile (\<lambda>d. d \<noteq> CHR ''}'') cs \<Longrightarrow> (tl xa, c # cs) \<in> measure length"
    by simp
qed auto

definition extractTemplateParams :: "string \<Rightarrow> string list" where
  "extractTemplateParams uriTemplate = map (\<lambda>m. butlast (tl m)) (template_matches uriTemplate)"

datatype piece = Lit string | Par string

fun render_piece :: "piece \<Rightarrow> string" where
  "render_piece (Lit s) = s"
| "render_piece (Par p) = CHR ''{'' # p @ [CHR ''}'']"

fun piece_ok :: "piece \<Rightarrow> bool" where
  "piece_ok (Lit s) \<longleftrightarrow> CHR ''{'' \<notin> set s"
| "piece_ok (Par p) \<longleftrightarrow> p \<noteq> [] \<and> CHR ''}'' \<notin> set p"

fun piece_params :: "piece \<Rightarrow> string list" where
  "piece_params (Lit s) = []"
| "piece_params (Par p) = [p]"

lemma template_matches_lit: "CHR ''{'' \<notin> set s \<Longrightarrow> template_matches (s @ t) = template_matches t"
  by (induction s) (auto simp: Let_def)

lemma template_matches_par:
  assumes "p \<noteq> []" "CHR ''}'' \<notin> set p"
  shows "template_matches (CHR ''{'' # p @ CHR ''}'' # t) = (CHR ''{'' # p @ [CHR ''}'']) # template_matches t"
proof -
  have "takeWhile (\<lambda>d. d \<noteq> CHR ''}'') (p @ CHR ''}'' # t) = p"
    "dropWhile (\<lambda>d. d \<noteq> CHR ''}'') (p @ CHR ''}'' # t) = CHR ''}'' # t"
    using assms(2) by (induction p) auto
  with assms(1) show ?thesis by (simp add: Let_def)
qed

text \<open>
  The parameters of a URI template are read off as they were written: for a template put together
  from literal text without opening braces and parameters in braces, they are exactly the
  parameters, in order, repetitions included.
\<close>

theorem template_params_roundtrip:
  assumes "list_all piece_ok ps"
  shows "extractTemplateParams (concat (map render_piece ps)) = concat (map piece_params ps)"
  using assms
proof (induction ps)
  case Nil
  then show ?case by (simp add: extractTemplateParams_def)
next
  case (Cons p ps)
  then show ?case
    by (cases p) (simp_all add: extractTemplateParams_def template_matches_lit template_matches_par
        butlast_append del: template_matches.simps(2))
qed

theorem template_params_roundtrip_witness:
  "extractTemplateParams ''file:///{dir}/x}/{name}'' = [''dir'', ''name'']"
  using template_params_roundtrip [of "[Lit ''file:///'', Par ''dir'', Lit ''/x}/'', Par ''name'']"]
  by simp

lemma template_matches_shape:
  "list_all (\<lambda>m. \<exists>p. m = CHR ''{'' # p @ [CHR ''}''] \<and> p \<noteq> [] \<and> CHR ''}'' \<notin> set p \<and> str_includes s m)
     (template_matches s)"
proof (induction s rule: template_matches.induct)
  case (2 c cs)
  let ?run = "takeWhile (\<lambda>d. d \<noteq> CHR ''}'') cs" and ?rest = "dropWhile (\<lambda>d. d \<noteq> CHR ''}'') cs"
  have inc: "str_includes t m \<Longrightarrow> str_includes (a @ t) m" for t a m :: string
    by (metis append.assoc str_includes_iff)
  show ?case
  proof (cases "c = CHR ''{'' \<and> ?run \<noteq> [] \<and> ?rest \<noteq> []")
    case True
    then have "hd ?rest = CHR ''}''" using hd_dropWhile [of "\<lambda>d. d \<noteq> CHR ''}''" cs] by simp
    with True have split: "c # cs = (CHR ''{'' # ?run @ [CHR ''}'']) @ tl ?rest"
      by (metis append.assoc append_Cons append_Nil list.collapse takeWhile_dropWhile_id)
    have "str_includes (c # cs) (CHR ''{'' # ?run @ [CHR ''}''])"
      by (metis append_Nil split str_includes_iff)
    moreover have "CHR ''}'' \<notin> set ?run" by (auto dest: set_takeWhileD)
    moreover have "str_includes (tl ?rest) m \<Longrightarrow> str_includes (c # cs) m" for m
      using inc [of "tl ?rest" m "CHR ''{'' # ?run @ [CHR ''}'']"] split by simp
    moreover from True have "template_matches (c # cs)
        = (CHR ''{'' # ?run @ [CHR ''}'']) # template_matches (tl ?rest)" by (simp add: Let_def)
    ultimately show ?thesis using True 2(1) [OF refl refl True]
      by (auto simp: list_all_iff simp del: str_includes.simps template_matches.simps)
  next
    case False
    then have "template_matches (c # cs) = template_matches cs" by (auto simp: Let_def)
    moreover have "str_includes cs m \<Longrightarrow> str_includes (c # cs) m" for m
      using inc [of cs m "[c]"] by simp
    ultimately show ?thesis using 2(2) [OF refl refl False]
      by (auto simp: list_all_iff simp del: str_includes.simps template_matches.simps)
  qed
qed simp

lemma template_matches_length: "sum_list (map length (template_matches s)) \<le> length s"
proof (induction s rule: template_matches.induct)
  case (2 c cs)
  let ?run = "takeWhile (\<lambda>d. d \<noteq> CHR ''}'') cs" and ?rest = "dropWhile (\<lambda>d. d \<noteq> CHR ''}'') cs"
  have len: "length ?run + length ?rest = length cs" by (metis length_append takeWhile_dropWhile_id)
  show ?case
  proof (cases "c = CHR ''{'' \<and> ?run \<noteq> [] \<and> ?rest \<noteq> []")
    case True
    then have "template_matches (c # cs) = (CHR ''{'' # ?run @ [CHR ''}'']) # template_matches (tl ?rest)"
      by (simp add: Let_def)
    moreover from True have "Suc (length (tl ?rest)) = length ?rest" by (cases ?rest) auto
    ultimately show ?thesis using 2(1) [OF refl refl True] len by simp
  next
    case False
    then have "template_matches (c # cs) = template_matches cs" by (auto simp: Let_def)
    with 2(2) [OF refl refl False] show ?thesis by simp
  qed
qed simp

text \<open>
  Bounds on what is extracted from any text whatever: no parameter is empty or holds a closing
  brace, each stands between braces in the text, and together with their braces they are no longer
  than the text.
\<close>

theorem template_params_bounds:
  "list_all (\<lambda>p. p \<noteq> [] \<and> CHR ''}'' \<notin> set p \<and> str_includes s (CHR ''{'' # p @ [CHR ''}'']))
     (extractTemplateParams s)
   \<and> sum_list (map (\<lambda>p. length p + 2) (extractTemplateParams s)) \<le> length s"
proof
  show "list_all (\<lambda>p. p \<noteq> [] \<and> CHR ''}'' \<notin> set p \<and> str_includes s (CHR ''{'' # p @ [CHR ''}'']))
     (extractTemplateParams s)"
    using template_matches_shape [of s]
    by (fastforce simp: extractTemplateParams_def list_all_iff butlast_append)
  have "map (\<lambda>p. length p + 2) (extractTemplateParams s) = map length (template_matches s)"
    using template_matches_shape [of s]
    by (fastforce simp: extractTemplateParams_def list_all_iff butlast_append)
  with template_matches_length [of s]
  show "sum_list (map (\<lambda>p. length p + 2) (extractTemplateParams s)) \<le> length s" by simp
qed

end
