(* ===== verification/Capabilities.thy ===== *)
theory Capabilities
  imports Api_Client Highlight_Text "HOL-Library.Product_Lexorder" "HOL-Library.List_Lexorder" "HOL-Library.Char_ord"
    "HOL-Library.Sublist"
begin

text \<open>
  The capabilities page: \<open>src/web/src/pages/gateway/components/CapabilitiesViewer.tsx\<close>,
  \<open>capabilities.tsx\<close> and the capability types of \<open>types/mcp.ts\<close>. Loading, searching, filtering, the
  tabs, the details and the export; what a card looks like is not modelled. The items are kept as the
  JSON objects the backend sent, since the code passes unknown members through.
\<close>

section \<open>Data\<close>

datatype capability_type = CapTools | CapPrompts | CapResources | CapResourceTemplates

fun type_key :: "capability_type \<Rightarrow> string" where
  "type_key CapTools = ''tools''"
| "type_key CapPrompts = ''prompts''"
| "type_key CapResources = ''resources''"
| "type_key CapResourceTemplates = ''resourceTemplates''"

datatype type_choice = AllTypes | OnlyType capability_type

record capabilities =
  cap_tools :: "json list option"
  cap_prompts :: "json list option"
  cap_resources :: "json list option"
  cap_resourceTemplates :: "json list option"

datatype param_filter = AllCounts | NoParams | FewParams | ManyParams

record advanced_search =
  as_enabled :: bool
  as_paramCountFilter :: param_filter
  as_mimeTypeFilter :: string
  as_serverNameFilter :: string
  as_tenantFilter :: string
  as_searchInDescription :: bool
  as_caseSensitive :: bool

definition initial_filters :: advanced_search where
  "initial_filters = \<lparr>as_enabled = False, as_paramCountFilter = AllCounts, as_mimeTypeFilter = [],
     as_serverNameFilter = [], as_tenantFilter = [], as_searchInDescription = True,
     as_caseSensitive = False\<rparr>"

definition reset_filters :: advanced_search where
  "reset_filters = initial_filters\<lparr>as_enabled := True\<rparr>"

fun items_of :: "capability_type \<Rightarrow> capabilities \<Rightarrow> json list option" where
  "items_of CapTools caps = cap_tools caps"
| "items_of CapPrompts caps = cap_prompts caps"
| "items_of CapResources caps = cap_resources caps"
| "items_of CapResourceTemplates caps = cap_resourceTemplates caps"

text \<open>\<open>if (!state.data)\<close> is the only test of the answer.\<close>

definition as_capabilities :: "jv \<Rightarrow> capabilities option" where
  "as_capabilities v =
     (let member = (\<lambda>k. case js_opt_field v k of Some (JArr xs) \<Rightarrow> Some xs | _ \<Rightarrow> None)
      in if js_truthy v
         then Some \<lparr>cap_tools = member ''tools'', cap_prompts = member ''prompts'',
                cap_resources = member ''resources'', cap_resourceTemplates = member ''resourceTemplates''\<rparr>
         else None)"

definition item_name :: "json \<Rightarrow> string" where
  "item_name item = text_member item ''name''"

definition item_description :: "json \<Rightarrow> string" where
  "item_description item = text_member item ''description''"

section \<open>Filtering\<close>

definition matchesSearch :: "string \<Rightarrow> advanced_search \<Rightarrow> json \<Rightarrow> bool" where
  "matchesSearch searchTerm f item =
     (let searchIn = if as_searchInDescription f then item_name item @ '' '' @ item_description item
            else item_name item;
          searchText = if as_caseSensitive f then searchIn else to_lower searchIn;
          searchPattern = if as_caseSensitive f then searchTerm else to_lower searchTerm
      in str_includes searchText searchPattern)"

fun key_count :: "jv \<Rightarrow> nat" where
  "key_count (Some (JObj flds)) = length (own_keys flds)"
| "key_count _ = 0"

fun element_count :: "jv \<Rightarrow> nat" where
  "element_count (Some (JArr xs)) = length xs"
| "element_count _ = 0"

definition param_count :: "capability_type \<Rightarrow> json \<Rightarrow> nat" where
  "param_count type item =
     (if type = CapTools then key_count (js_opt_field (js_member item ''inputSchema'') ''properties'')
      else if type = CapPrompts then element_count (js_member item ''arguments'')
      else 0)"

fun matchesParamFilter :: "param_filter \<Rightarrow> nat \<Rightarrow> bool" where
  "matchesParamFilter AllCounts n = True"
| "matchesParamFilter NoParams n = (n = 0)"
| "matchesParamFilter FewParams n = (0 < n \<and> n \<le> 3)"
| "matchesParamFilter ManyParams n = (3 < n)"

definition contains_lower :: "string \<Rightarrow> string \<Rightarrow> bool" where
  "contains_lower txt pat = str_includes (to_lower txt) (to_lower pat)"

definition keeps_item ::
    "string \<Rightarrow> string \<Rightarrow> string \<Rightarrow> advanced_search \<Rightarrow> capability_type \<Rightarrow> json \<Rightarrow> bool" where
  "keeps_item serverName tenant searchTerm f type item =
     (if searchTerm \<noteq> [] \<and> \<not> matchesSearch searchTerm f item then False
      else if \<not> as_enabled f then True
      else if \<not> matchesParamFilter (as_paramCountFilter f) (param_count type item) then False
      else if (type = CapResources \<or> type = CapResourceTemplates) \<and> as_mimeTypeFilter f \<noteq> []
              \<and> \<not> contains_lower (text_member item ''mimeType'') (as_mimeTypeFilter f) then False
      else if as_serverNameFilter f \<noteq> [] \<and> \<not> contains_lower serverName (as_serverNameFilter f) then False
      else if as_tenantFilter f \<noteq> [] \<and> \<not> contains_lower tenant (as_tenantFilter f) then False
      else True)"

definition filterArray ::
    "string \<Rightarrow> string \<Rightarrow> string \<Rightarrow> type_choice \<Rightarrow> advanced_search \<Rightarrow> json list option \<Rightarrow> capability_type
     \<Rightarrow> json list" where
  "filterArray serverName tenant searchTerm selectedType f items type =
     (case items of None \<Rightarrow> []
      | Some xs \<Rightarrow> if selectedType \<noteq> AllTypes \<and> selectedType \<noteq> OnlyType type then []
          else filter (keeps_item serverName tenant searchTerm f type) xs)"

definition filterCapabilities ::
    "string \<Rightarrow> string \<Rightarrow> capabilities \<Rightarrow> string \<Rightarrow> type_choice \<Rightarrow> advanced_search \<Rightarrow> capabilities" where
  "filterCapabilities serverName tenant data searchTerm selectedType f =
     (let array = filterArray serverName tenant searchTerm selectedType f
      in \<lparr>cap_tools = Some (array (cap_tools data) CapTools),
          cap_prompts = Some (array (cap_prompts data) CapPrompts),
          cap_resources = Some (array (cap_resources data) CapResources),
          cap_resourceTemplates = Some (array (cap_resourceTemplates data) CapResourceTemplates)\<rparr>)"

section \<open>The page's state\<close>

record viewer =
  v_tenant :: string
  v_serverName :: string
  v_loading :: bool
  v_error :: "string option"
  v_data :: "capabilities option"
  v_filteredData :: "capabilities option"
  v_searchTerm :: string
  v_selectedType :: type_choice
  v_advanced :: advanced_search
  v_expandedParams :: "string set"
  v_isOpen :: bool
  v_selectedCapability :: "json option"
  v_selectedCapabilityType :: capability_type

definition open_viewer :: "string \<Rightarrow> string \<Rightarrow> viewer" where
  "open_viewer tenant serverName = \<lparr>v_tenant = tenant, v_serverName = serverName, v_loading = True,
     v_error = None, v_data = None, v_filteredData = None, v_searchTerm = [], v_selectedType = AllTypes,
     v_advanced = initial_filters, v_expandedParams = {}, v_isOpen = False,
     v_selectedCapability = None, v_selectedCapabilityType = CapTools\<rparr>"

text \<open>The page itself opens the viewer only when both parts of the address are there.\<close>

definition CapabilitiesPage :: "string option \<Rightarrow> string option \<Rightarrow> viewer option" where
  "CapabilitiesPage tenant serverName =
     (if \<not> str_truthy tenant \<or> \<not> str_truthy serverName then None
      else Some (open_viewer (the tenant) (the serverName)))"

section \<open>Loading\<close>

definition fetch_begins :: "viewer \<Rightarrow> viewer" where
  "fetch_begins st = st\<lparr>v_loading := True, v_error := None\<rparr>"

definition loaded :: "capabilities option \<Rightarrow> viewer \<Rightarrow> viewer" where
  "loaded data st = st\<lparr>v_loading := False, v_data := data, v_filteredData := data\<rparr>"

definition load_failed :: "string \<Rightarrow> viewer \<Rightarrow> viewer" where
  "load_failed message st = st\<lparr>v_loading := False, v_error := Some message\<rparr>"

definition fetchCapabilities :: "backend \<Rightarrow> string \<Rightarrow> string \<Rightarrow> (viewer \<Rightarrow> viewer) io" where
  "fetchCapabilities be tenant serverName =
     catch (bnd (getMCPServerCapabilities be tenant serverName)
              (\<lambda>data. ret (loaded (as_capabilities data))))
       (\<lambda>e. andthen (toast Danger (Tr ''errors.fetch_mcp_capabilities''))
              (ret (load_failed (exn_message e))))"

text \<open>The effect that filters anew whenever the data or one of the settings has changed.\<close>

definition filter_effect :: "viewer \<Rightarrow> viewer" where
  "filter_effect st =
     (case v_data st of None \<Rightarrow> st
      | Some data \<Rightarrow> st\<lparr>v_filteredData := Some (filterCapabilities (v_serverName st) (v_tenant st) data
            (v_searchTerm st) (v_selectedType st) (v_advanced st))\<rparr>)"

section \<open>Handlers\<close>

definition handleSearch :: "string \<Rightarrow> viewer \<Rightarrow> viewer" where
  "handleSearch value st = st\<lparr>v_searchTerm := value\<rparr>"

definition handleTypeSelection :: "type_choice \<Rightarrow> viewer \<Rightarrow> viewer" where
  "handleTypeSelection type st = st\<lparr>v_selectedType := type\<rparr>"

definition handleOpenDetail :: "json \<Rightarrow> capability_type \<Rightarrow> viewer \<Rightarrow> viewer" where
  "handleOpenDetail capability type st = st\<lparr>v_selectedCapability := Some capability,
     v_selectedCapabilityType := type, v_isOpen := True\<rparr>"

definition close_detail :: "viewer \<Rightarrow> viewer" where
  "close_detail st = st\<lparr>v_isOpen := False\<rparr>"

definition toggleParamExpansion :: "string \<Rightarrow> viewer \<Rightarrow> viewer" where
  "toggleParamExpansion itemName st = st\<lparr>v_expandedParams :=
     (if itemName \<in> v_expandedParams st then v_expandedParams st - {itemName}
      else insert itemName (v_expandedParams st))\<rparr>"

definition setAdvancedSearch :: "(advanced_search \<Rightarrow> advanced_search) \<Rightarrow> viewer \<Rightarrow> viewer" where
  "setAdvancedSearch g st = st\<lparr>v_advanced := g (v_advanced st)\<rparr>"

text \<open>What the user and the network do to the page; another server in the address starts a load.\<close>

datatype viewer_action =
    Search string
  | Choose_type type_choice
  | Toggle_advanced
  | Choose_param_filter param_filter
  | Type_server_filter string
  | Type_tenant_filter string
  | Type_mime_filter string
  | Check_in_description bool
  | Check_case_sensitive bool
  | Reset_filters
  | Open_detail json capability_type
  | Close_detail
  | Toggle_params string
  | Retry
  | Navigate string string
  | Load_arrives "capabilities option"
  | Load_fails string

fun viewer_do :: "viewer_action \<Rightarrow> viewer \<Rightarrow> viewer" where
  "viewer_do (Search s) st = handleSearch s st"
| "viewer_do (Choose_type c) st = handleTypeSelection c st"
| "viewer_do Toggle_advanced st = setAdvancedSearch (\<lambda>f. f\<lparr>as_enabled := \<not> as_enabled f\<rparr>) st"
| "viewer_do (Choose_param_filter p) st = setAdvancedSearch (\<lambda>f. f\<lparr>as_paramCountFilter := p\<rparr>) st"
| "viewer_do (Type_server_filter s) st = setAdvancedSearch (\<lambda>f. f\<lparr>as_serverNameFilter := s\<rparr>) st"
| "viewer_do (Type_tenant_filter s) st = setAdvancedSearch (\<lambda>f. f\<lparr>as_tenantFilter := s\<rparr>) st"
| "viewer_do (Type_mime_filter s) st = setAdvancedSearch (\<lambda>f. f\<lparr>as_mimeTypeFilter := s\<rparr>) st"
| "viewer_do (Check_in_description b) st = setAdvancedSearch (\<lambda>f. f\<lparr>as_searchInDescription := b\<rparr>) st"
| "viewer_do (Check_case_sensitive b) st = setAdvancedSearch (\<lambda>f. f\<lparr>as_caseSensitive := b\<rparr>) st"
| "viewer_do Reset_filters st = setAdvancedSearch (\<lambda>f. reset_filters) st"
| "viewer_do (Open_detail item type) st = handleOpenDetail item type st"
| "viewer_do Close_detail st = close_detail st"
| "viewer_do (Toggle_params n) st = toggleParamExpansion n st"
| "viewer_do Retry st = fetch_begins st"
| "viewer_do (Navigate t s) st = fetch_begins (st\<lparr>v_tenant := t, v_serverName := s\<rparr>)"
| "viewer_do (Load_arrives data) st = loaded data st"
| "viewer_do (Load_fails m) st = load_failed m st"

text \<open>The actions that change none of the effect's dependencies.\<close>

fun leaves_filter :: "viewer_action \<Rightarrow> bool" where
  "leaves_filter (Open_detail item type) = True"
| "leaves_filter Close_detail = True"
| "leaves_filter (Toggle_params n) = True"
| "leaves_filter Retry = True"
| "leaves_filter (Load_fails m) = True"
| "leaves_filter _ = False"

definition viewer_step :: "viewer_action \<Rightarrow> viewer \<Rightarrow> viewer" where
  "viewer_step a st = (if leaves_filter a then viewer_do a st else filter_effect (viewer_do a st))"

section \<open>What is shown\<close>

text \<open>\<open>{...item, type}\<close>.\<close>

fun with_type :: "capability_type \<Rightarrow> json \<Rightarrow> json" where
  "with_type type (JObj flds) = JObj (obj_set (obj_spread [] flds) ''type'' (JStr (type_key type)))"
| "with_type type j = JObj [(''type'', JStr (type_key type))]"

definition typed_items :: "capability_type \<Rightarrow> json list option \<Rightarrow> (capability_type \<times> json) list" where
  "typed_items type items = map (\<lambda>i. (type, with_type type i)) (opt_or items [])"

definition allItems :: "capabilities \<Rightarrow> (capability_type \<times> json) list" where
  "allItems caps = typed_items CapTools (cap_tools caps) @ typed_items CapPrompts (cap_prompts caps)
     @ typed_items CapResources (cap_resources caps)
     @ typed_items CapResourceTemplates (cap_resourceTemplates caps)"

definition renderTabContent :: "capability_type \<Rightarrow> capabilities option \<Rightarrow> (capability_type \<times> json) list" where
  "renderTabContent type filtered =
     (case filtered of None \<Rightarrow> [] | Some caps \<Rightarrow> typed_items type (items_of type caps))"

definition no_capabilities :: capabilities where
  "no_capabilities = \<lparr>cap_tools = None, cap_prompts = None, cap_resources = None, cap_resourceTemplates = None\<rparr>"

datatype viewer_view = Spinner_shown | Error_shown string | Cards_shown "(capability_type \<times> json) list"

definition shown_cards :: "viewer \<Rightarrow> (capability_type \<times> json) list" where
  "shown_cards st =
     (case v_selectedType st of AllTypes \<Rightarrow> allItems (opt_or (v_filteredData st) no_capabilities)
      | OnlyType type \<Rightarrow> renderTabContent type (v_filteredData st))"

definition viewer_view :: "viewer \<Rightarrow> viewer_view" where
  "viewer_view st = (if v_loading st then Spinner_shown
     else if str_truthy (v_error st) then Error_shown (the (v_error st))
     else Cards_shown (shown_cards st))"

text \<open>The parameters of a tool on its card: the required ones first, each group by
  \<open>localeCompare\<close>, whose collation keys are a parameter.\<close>

definition sorted_params ::
    "(string \<Rightarrow> string) \<Rightarrow> (string \<Rightarrow> bool) \<Rightarrow> json obj \<Rightarrow> (string \<times> json) list" where
  "sorted_params collation required properties =
     sort_key (\<lambda>e. (\<not> required (fst e), collation (fst e))) (own_entries properties)"

fun type_color :: "capability_type \<Rightarrow> string" where
  "type_color CapTools = ''primary''"
| "type_color CapPrompts = ''secondary''"
| "type_color CapResources = ''success''"
| "type_color CapResourceTemplates = ''warning''"

fun type_icon :: "capability_type \<Rightarrow> string" where
  "type_icon CapTools = ''lucide:wrench''"
| "type_icon CapPrompts = ''lucide:message-square''"
| "type_icon CapResources = ''lucide:file''"
| "type_icon CapResourceTemplates = ''lucide:file-code''"

section \<open>Details and export\<close>

definition prompt_required_count :: "json \<Rightarrow> nat" where
  "prompt_required_count prompt = length (filter (\<lambda>a. js_truthy (js_member a ''required''))
     (elements (js_member prompt ''arguments'')))"

text \<open>\<open>JSON.stringify(data, null, 2)\<close>.\<close>

definition line_at :: "nat \<Rightarrow> string" where
  "line_at depth = CHR 0x0A # replicate (2 * depth) (CHR '' '')"

fun stringify_at :: "nat \<Rightarrow> json \<Rightarrow> string" where
  "stringify_at n (JArr xs) = (if xs = [] then ''[]''
     else ''['' @ line_at (Suc n) @ join ('','' @ line_at (Suc n)) (map (stringify_at (Suc n)) xs)
       @ line_at n @ '']'')"
| "stringify_at n (JObj fs) = (if fs = [] then ''{}''
     else ''{'' @ line_at (Suc n) @ join ('','' @ line_at (Suc n))
       (map (\<lambda>e. quote (fst e) @ '': '' @ snd e)
         (own_entries (map (\<lambda>e. (fst e, stringify_at (Suc n) (snd e))) fs)))
       @ line_at n @ ''}'')"
| "stringify_at n j = stringify j"

datatype export_format = Export_json | Export_yaml

text \<open>\<open>YAML.dump\<close> is a parameter; \<open>None\<close> is its exception.\<close>

definition handleExport ::
    "(json \<Rightarrow> string option) \<Rightarrow> json \<Rightarrow> string \<Rightarrow> export_format \<Rightarrow> unit io" where
  "handleExport yaml_dump data filename format =
     (case (case format of Export_json \<Rightarrow> Some (stringify_at 0 data, ''.json'')
            | Export_yaml \<Rightarrow> map_option (\<lambda>c. (c, ''.yaml'')) (yaml_dump data)) of
        Some (content, extension) \<Rightarrow>
          andthen (\<lambda>w. (Inr (), w\<lparr>w_downloads := w_downloads w @ [(filename @ extension, content)]\<rparr>))
            (toast Success (Tr ''capabilities.export_success''))
      | None \<Rightarrow> toast Danger (Tr ''capabilities.export_failed''))"

section \<open>The list shown follows the settings\<close>

definition view_ok :: "viewer \<Rightarrow> bool" where
  "view_ok st \<longleftrightarrow> v_filteredData st = map_option (\<lambda>data.
     filterCapabilities (v_serverName st) (v_tenant st) data (v_searchTerm st) (v_selectedType st)
       (v_advanced st)) (v_data st)"

lemmas viewer_defs = handleSearch_def handleTypeSelection_def handleOpenDetail_def close_detail_def
  toggleParamExpansion_def setAdvancedSearch_def fetch_begins_def loaded_def load_failed_def

lemma view_ok_effect: "v_data st = None \<longrightarrow> v_filteredData st = None \<Longrightarrow> view_ok (filter_effect st)"
  by (auto simp: view_ok_def filter_effect_def split: option.split)

lemma view_ok_step: "view_ok st \<Longrightarrow> view_ok (viewer_step a st)"
proof (cases "leaves_filter a")
  case True
  moreover assume "view_ok st"
  ultimately show ?thesis
    by (cases a) (simp_all add: viewer_step_def view_ok_def viewer_defs)
next
  case False
  moreover assume "view_ok st"
  then have "v_data (viewer_do a st) = None \<longrightarrow> v_filteredData (viewer_do a st) = None"
    using False by (cases a) (simp_all add: view_ok_def viewer_defs)
  ultimately show ?thesis by (simp add: viewer_step_def view_ok_effect)
qed

text \<open>
  Property C11. Whatever the user does and whenever answers arrive, the capabilities the page holds ready to show
  are those of the last answer that pass the current search, tab and filters.
\<close>

theorem shown_follow_the_settings:
  "v_filteredData (fold viewer_step as (open_viewer tenant serverName))
   = (let st = fold viewer_step as (open_viewer tenant serverName)
      in map_option (\<lambda>data. filterCapabilities (v_serverName st) (v_tenant st) data (v_searchTerm st)
           (v_selectedType st) (v_advanced st)) (v_data st))"
proof -
  have "view_ok (open_viewer tenant serverName)" by (simp add: view_ok_def open_viewer_def)
  then have "view_ok (fold viewer_step as (open_viewer tenant serverName))"
    by (induction as rule: rev_induct) (simp_all add: view_ok_step)
  then show ?thesis by (simp add: view_ok_def Let_def)
qed

section \<open>Tabs, counts and search\<close>

lemma items_of_filter:
  "items_of type (filterCapabilities s t data q c f) = Some (filterArray s t q c f (items_of type data) type)"
  by (cases type) (simp_all add: filterCapabilities_def Let_def)

lemma filter_typed_items: "filter (\<lambda>e. fst e = a) (typed_items b xs) = (if a = b then typed_items b xs else [])"
  by (simp add: typed_items_def filter_map comp_def)

lemma filter_allItems: "filter (\<lambda>e. fst e = type) (allItems caps) = typed_items type (items_of type caps)"
  by (cases type) (simp_all add: allItems_def filter_typed_items)

lemma filterArray_tab:
  "filterArray s t q (OnlyType type) f items type = filterArray s t q AllTypes f items type"
  by (simp add: filterArray_def split: option.split)

text \<open>
  The tabs agree: a tab of one type shows exactly those cards of the tab for everything that have
  this type, in the same order, under any search and filters.
\<close>

theorem tabs_agree_with_all:
  "shown_cards (viewer_step (Choose_type (OnlyType type)) st)
   = filter (\<lambda>e. fst e = type) (shown_cards (viewer_step (Choose_type AllTypes) st))"
proof (cases "v_data st")
  case None
  then show ?thesis
    by (cases "v_filteredData st")
       (simp_all add: viewer_step_def handleTypeSelection_def filter_effect_def shown_cards_def
          renderTabContent_def filter_allItems opt_or_def,
        cases type, simp_all add: typed_items_def no_capabilities_def opt_or_def)
next
  case (Some data)
  then show ?thesis
    by (simp add: viewer_step_def handleTypeSelection_def filter_effect_def shown_cards_def
          renderTabContent_def filter_allItems opt_or_def items_of_filter filterArray_tab)
qed

lemma mset_filter_three:
  assumes "\<And>x. P x \<longleftrightarrow> A x \<or> B x \<or> C x" "\<And>x. \<not> (A x \<and> B x) \<and> \<not> (A x \<and> C x) \<and> \<not> (B x \<and> C x)"
  shows "mset (filter P xs) = mset (filter A xs) + mset (filter B xs) + mset (filter C xs)"
proof (induction xs)
  case (Cons x xs)
  with assms(1) [of x] assms(2) [of x] show ?case by auto
qed simp

lemma param_filter_cases:
  "matchesParamFilter NoParams n \<or> matchesParamFilter FewParams n \<or> matchesParamFilter ManyParams n"
  "\<not> (matchesParamFilter NoParams n \<and> matchesParamFilter FewParams n)
   \<and> \<not> (matchesParamFilter NoParams n \<and> matchesParamFilter ManyParams n)
   \<and> \<not> (matchesParamFilter FewParams n \<and> matchesParamFilter ManyParams n)"
  by auto

text \<open>
  The filter on the number of parameters divides the items: with the filters on, the items without,
  with few and with many parameters together are the items shown for all counts, each once.
\<close>

theorem param_filters_divide_the_items:
  "mset (filterArray s t q c (f\<lparr>as_enabled := True, as_paramCountFilter := AllCounts\<rparr>) items type)
   = mset (filterArray s t q c (f\<lparr>as_enabled := True, as_paramCountFilter := NoParams\<rparr>) items type)
   + mset (filterArray s t q c (f\<lparr>as_enabled := True, as_paramCountFilter := FewParams\<rparr>) items type)
   + mset (filterArray s t q c (f\<lparr>as_enabled := True, as_paramCountFilter := ManyParams\<rparr>) items type)"
proof (cases items)
  case None
  then show ?thesis by (simp add: filterArray_def)
next
  case (Some xs)
  let ?k = "\<lambda>p. keeps_item s t q (f\<lparr>as_enabled := True, as_paramCountFilter := p\<rparr>) type"
  have split: "?k p x \<longleftrightarrow> ?k AllCounts x \<and> matchesParamFilter p (param_count type x)" for p x
    by (simp add: keeps_item_def matchesSearch_def)
  have "mset (filter (?k AllCounts) xs)
      = mset (filter (?k NoParams) xs) + mset (filter (?k FewParams) xs) + mset (filter (?k ManyParams) xs)"
  proof (rule mset_filter_three)
    fix x
    show "?k AllCounts x \<longleftrightarrow> ?k NoParams x \<or> ?k FewParams x \<or> ?k ManyParams x"
      using param_filter_cases(1) [of "param_count type x"] split [of NoParams x] split [of FewParams x]
        split [of ManyParams x] by blast
    show "\<not> (?k NoParams x \<and> ?k FewParams x) \<and> \<not> (?k NoParams x \<and> ?k ManyParams x)
        \<and> \<not> (?k FewParams x \<and> ?k ManyParams x)"
      using param_filter_cases(2) [of "param_count type x"] split [of NoParams x] split [of FewParams x]
        split [of ManyParams x] by blast
  qed
  with Some show ?thesis by (simp add: filterArray_def)
qed

text \<open>
  Filtering answers a well-formed record: all four lists are there whatever the backend left out, each
  is the backend's list with some items left out and the others in order, with neither search nor
  filter every item is kept, and filtering what was filtered changes nothing.
\<close>

lemma filtering_is_well_formed:
  "(\<forall>type. \<exists>xs. items_of type (filterCapabilities s t data q c f) = Some xs
       \<and> subseq xs (opt_or (items_of type data) [])
       \<and> opt_or (items_of type (filterCapabilities s t data [] AllTypes (f\<lparr>as_enabled := False\<rparr>))) []
           = opt_or (items_of type data) [])
   \<and> filterCapabilities s t (filterCapabilities s t data q c f) q c f = filterCapabilities s t data q c f"
proof (intro conjI allI)
  fix type
  have "subseq (filterArray s t q c f items type) (opt_or items [])" for items
    by (simp add: filterArray_def opt_or_def split: option.split)
  moreover have "filterArray s t [] AllTypes (f\<lparr>as_enabled := False\<rparr>) items type = opt_or items []" for items
    by (simp add: filterArray_def keeps_item_def opt_or_def split: option.split)
  ultimately show "\<exists>xs. items_of type (filterCapabilities s t data q c f) = Some xs
       \<and> subseq xs (opt_or (items_of type data) [])
       \<and> opt_or (items_of type (filterCapabilities s t data [] AllTypes (f\<lparr>as_enabled := False\<rparr>))) []
           = opt_or (items_of type data) []"
    by (simp add: items_of_filter opt_or_def)
next
  have "filterArray s t q c f (Some (filterArray s t q c f items type)) type = filterArray s t q c f items type"
    for items type by (cases items) (simp_all add: filterArray_def)
  then show "filterCapabilities s t (filterCapabilities s t data q c f) q c f = filterCapabilities s t data q c f"
    by (simp add: filterCapabilities_def Let_def)
qed

definition searched_text :: "advanced_search \<Rightarrow> json \<Rightarrow> string" where
  "searched_text f item = (if as_searchInDescription f then item_name item @ '' '' @ item_description item else item_name item)"

lemma matches_iff_occurs: "matchesSearch q f item \<longleftrightarrow> occurs (as_caseSensitive f) q (searched_text f item)"
  by (simp add: matchesSearch_def occurs_def canon_def searched_text_def Let_def)

lemma filterArray_search:
  assumes "q \<noteq> []"
  shows "filterArray s t q c f items type
    = filter (\<lambda>item. occurs (as_caseSensitive f) q (searched_text f item)) (filterArray s t [] c f items type)"
proof -
  have "keeps_item s t q f type item
      \<longleftrightarrow> occurs (as_caseSensitive f) q (searched_text f item) \<and> keeps_item s t [] f type item" for item
    using assms by (simp add: keeps_item_def matches_iff_occurs)
  then have "keeps_item s t q f type = (\<lambda>item. keeps_item s t [] f type item
      \<and> occurs (as_caseSensitive f) q (searched_text f item))" by (intro ext) blast
  then show ?thesis by (simp add: filterArray_def split: option.split)
qed

lemma occurs_part: "occurs cs q a \<Longrightarrow> occurs cs q (a @ b)" "occurs cs q b \<Longrightarrow> occurs cs q (a @ b)"
  unfolding occurs_def str_includes_iff by (auto, (metis append.assoc)+)

text \<open>
  Property C25. What is found is what is highlighted, though the one is decided by the filter and the other by a
  regular expression: for a search term that is not blank, under any tab and filters, the items shown
  are those shown without the term in which highlighting the searched text marks a piece. The searched
  text is the name, or name and description with a blank between, so that with descriptions every item
  whose name or description is shown with a mark is among them.
\<close>

theorem found_items_are_highlighted:
  assumes "trim searchTerm \<noteq> []"
  shows "let marked = (\<lambda>txt. list_ex fst (highlight txt searchTerm (as_caseSensitive f)));
      others = filterArray serverName tenant [] selectedType f items type;
      found = filterArray serverName tenant searchTerm selectedType f items type
    in if as_searchInDescription f
       then found = filter (\<lambda>item. marked (item_name item @ '' '' @ item_description item)) others
         \<and> subseq (filter (\<lambda>item. marked (item_name item) \<or> marked (item_description item)) others) found
       else found = filter (\<lambda>item. marked (item_name item)) others"
proof -
  let ?cs = "as_caseSensitive f" and ?others = "filterArray serverName tenant [] selectedType f items type"
  from assms have "searchTerm \<noteq> []" by auto
  note found = filterArray_search [OF this, of serverName tenant selectedType f items type]
  have part: "occurs ?cs searchTerm (item_name item) \<or> occurs ?cs searchTerm (item_description item)
      \<Longrightarrow> occurs ?cs searchTerm (item_name item @ '' '' @ item_description item)" for item
    using occurs_part(1) occurs_part(2) [of ?cs searchTerm "'' '' @ item_description item"]
      occurs_part(2) [of ?cs searchTerm "item_description item" "'' ''"] by blast
  have "filter (\<lambda>item. occurs ?cs searchTerm (item_name item) \<or> occurs ?cs searchTerm (item_description item)) ?others
      = filter (\<lambda>item. occurs ?cs searchTerm (item_name item) \<or> occurs ?cs searchTerm (item_description item))
          (filter (\<lambda>item. occurs ?cs searchTerm (item_name item @ '' '' @ item_description item)) ?others)"
    unfolding filter_filter using part by (intro filter_cong) auto
  then have "subseq (filter (\<lambda>item. occurs ?cs searchTerm (item_name item) \<or> occurs ?cs searchTerm (item_description item)) ?others)
      (filter (\<lambda>item. occurs ?cs searchTerm (item_name item @ '' '' @ item_description item)) ?others)"
    by (simp only: subseq_filter_left)
  then show ?thesis
    unfolding Let_def marked_iff_occurs [OF assms] found by (simp add: searched_text_def)
qed

theorem found_items_are_highlighted_witness:
  "filterArray ''s'' ''t'' ''GET'' AllTypes (initial_filters\<lparr>as_searchInDescription := False\<rparr>)
     (Some [JObj [(''name'', JStr ''get_user'')], JObj [(''name'', JStr ''list'')]]) CapTools
   = [JObj [(''name'', JStr ''get_user'')]]
   \<and> filter (\<lambda>item. list_ex fst (highlight (item_name item) ''GET'' False))
       [JObj [(''name'', JStr ''get_user'')], JObj [(''name'', JStr ''list'')]]
     = [JObj [(''name'', JStr ''get_user'')]]"
proof -
  let ?f = "initial_filters\<lparr>as_searchInDescription := False\<rparr>"
  let ?items = "[JObj [(''name'', JStr ''get_user'')], JObj [(''name'', JStr ''list'')]]"
  have t: "trim ''GET'' \<noteq> []" by code_simp
  have others: "filterArray ''s'' ''t'' [] AllTypes ?f (Some ?items) CapTools = ?items"
    by (simp add: filterArray_def keeps_item_def initial_filters_def)
  have "filterArray ''s'' ''t'' ''GET'' AllTypes ?f (Some ?items) CapTools
      = filter (\<lambda>item. list_ex fst (highlight (item_name item) ''GET'' False)) ?items"
    using found_items_are_highlighted [OF t, where f = ?f and serverName = "''s''" and tenant = "''t''" and selectedType = AllTypes and items = "Some ?items" and type = CapTools]
    unfolding others by (simp add: initial_filters_def)
  moreover have "filter (\<lambda>item. list_ex fst (highlight (item_name item) ''GET'' False)) ?items
      = [JObj [(''name'', JStr ''get_user'')]]" by code_simp
  ultimately show ?thesis by simp
qed

text \<open>
  A finding: name and description are searched as one text, so that an item is found for a term that
  stands in neither of them, and is shown without a mark.
\<close>

lemma found_but_not_marked:
  "(let item = JObj [(''name'', JStr ''user''), (''description'', JStr ''list'')]
    in filterArray ''s'' ''t'' ''r l'' AllTypes initial_filters (Some [item]) CapTools = [item]
     \<and> \<not> list_ex fst (highlight (item_name item) ''r l'' False)
     \<and> \<not> list_ex fst (highlight (item_description item) ''r l'' False))"
  by code_simp

lemma set_sorted_params: "set (sorted_params collation required properties) = set properties"
  by (simp add: sorted_params_def)

section \<open>Loads end\<close>

text \<open>
  Property C26. Whatever the backend answers, a load ends: the handler itself never rejects, the page is no longer
  loading, and it shows either the answer or an error. A failed load is reported twice, by the
  client's own toast and by the page's.
\<close>

theorem loads_always_end:
  "\<exists>update. fst (fetchCapabilities be tenant serverName w) = Inr update \<and> \<not> v_loading (update st)
    \<and> (case fst (getMCPServerCapabilities be tenant serverName w) of
         Inr data \<Rightarrow> update st = loaded (as_capabilities data) st
       | Inl e \<Rightarrow> v_error (update st) = Some (exn_message e)
           \<and> (\<exists>t. w_toasts (snd (fetchCapabilities be tenant serverName w))
                  = w_toasts w @ [(Danger, t), (Danger, Tr ''errors.fetch_mcp_capabilities'')]))"
proof -
  obtain r w' where g: "getMCPServerCapabilities be tenant serverName w = (r, w')"
    by (cases "getMCPServerCapabilities be tenant serverName w")
  show ?thesis
  proof (cases r)
    case (Inl e)
    from call_reports [of be "GetMCPServerCapabilities tenant serverName"]
    have "reports (getMCPServerCapabilities be tenant serverName)" by simp
    from reports_rejected [OF this] g Inl
    obtain t where "w_toasts w' = w_toasts w @ [(Danger, t)]" by blast
    with g Inl show ?thesis
      by (simp add: fetchCapabilities_def io_simps load_failed_def)
  next
    case (Inr data)
    with g show ?thesis by (simp add: fetchCapabilities_def io_simps loaded_def)
  qed
qed

end
