(* ===== verification/Users_Admin.thy ===== *)
theory Users_Admin
  imports Tenant_Api
begin

text \<open>
  Administration of users and tenants: \<open>src/web/src/pages/users/user-management.tsx\<close>,
  \<open>tenant-management.tsx\<close>, the multiple choice field \<open>components/ui/MultiSelectAutocomplete.tsx\<close>
  and \<open>types/user.ts\<close>. An asynchronous handler answers the change of the page's state; the reloads it
  does not wait for touch only the list and the loading flag, which nothing else in it does.
\<close>

section \<open>Data\<close>

datatype user_role = Admin | Normal

fun role_key :: "user_role \<Rightarrow> string" where
  "role_key Admin = ''admin''"
| "role_key Normal = ''normal''"

definition as_role :: "jv \<Rightarrow> user_role option" where
  "as_role v = (if v = Some (JStr ''admin'') then Some Admin
     else if v = Some (JStr ''normal'') then Some Normal else None)"

record tenant =
  tn_id :: int
  tn_name :: string
  tn_prefix :: string
  tn_description :: string
  tn_isActive :: bool
  tn_createdAt :: string
  tn_updatedAt :: string

record user =
  us_id :: int
  us_username :: string
  us_role :: "user_role option"
  us_isActive :: bool
  us_createdAt :: string
  us_updatedAt :: string
  us_tenants :: "tenant list option"

definition int_member :: "json \<Rightarrow> string \<Rightarrow> int" where
  "int_member j k = (case js_member j k of Some (JInt n) \<Rightarrow> n | _ \<Rightarrow> 0)"

definition as_tenant :: "json \<Rightarrow> tenant" where
  "as_tenant j = \<lparr>tn_id = int_member j ''id'', tn_name = text_member j ''name'',
     tn_prefix = text_member j ''prefix'', tn_description = text_member j ''description'',
     tn_isActive = js_truthy (js_member j ''isActive''), tn_createdAt = text_member j ''createdAt'',
     tn_updatedAt = text_member j ''updatedAt''\<rparr>"

definition as_user :: "json \<Rightarrow> user" where
  "as_user j = \<lparr>us_id = int_member j ''id'', us_username = text_member j ''username'',
     us_role = as_role (js_member j ''role''), us_isActive = js_truthy (js_member j ''isActive''),
     us_createdAt = text_member j ''createdAt'', us_updatedAt = text_member j ''updatedAt'',
     us_tenants = (case js_member j ''tenants'' of Some (JArr xs) \<Rightarrow> Some (map as_tenant xs) | _ \<Rightarrow> None)\<rparr>"

text \<open>A choice of role can be cleared in the select; the form then holds \<open>undefined\<close>.\<close>

record create_user_form =
  cu_username :: string
  cu_password :: string
  cu_role :: "user_role option"
  cu_tenantIds :: "int list"

record update_user_form =
  uu_username :: string
  uu_password :: "string option"
  uu_role :: "user_role option"
  uu_isActive :: "bool option"
  uu_tenantIds :: "int list"

definition empty_create_form :: create_user_form where
  "empty_create_form = \<lparr>cu_username = [], cu_password = [], cu_role = Some Normal, cu_tenantIds = []\<rparr>"

definition empty_update_form :: update_user_form where
  "empty_update_form = \<lparr>uu_username = [], uu_password = None, uu_role = None, uu_isActive = None,
     uu_tenantIds = []\<rparr>"

definition role_field :: "user_role option \<Rightarrow> (string \<times> json) list" where
  "role_field r = (case r of None \<Rightarrow> [] | Some x \<Rightarrow> [(''role'', JStr (role_key x))])"

definition create_json :: "create_user_form \<Rightarrow> json" where
  "create_json f = JObj ([(''username'', JStr (cu_username f)), (''password'', JStr (cu_password f))]
     @ role_field (cu_role f) @ [(''tenantIds'', JArr (map JInt (cu_tenantIds f)))])"

definition update_json :: "update_user_form \<Rightarrow> json" where
  "update_json f = JObj ([(''username'', JStr (uu_username f))]
     @ (case uu_password f of None \<Rightarrow> [] | Some p \<Rightarrow> [(''password'', JStr p)])
     @ role_field (uu_role f)
     @ (case uu_isActive f of None \<Rightarrow> [] | Some b \<Rightarrow> [(''isActive'', JBool b)])
     @ [(''tenantIds'', JArr (map JInt (uu_tenantIds f)))])"

section \<open>The multiple choice field\<close>

record multi_select =
  ms_selectedItems :: "string list"
  ms_inputValue :: string

text \<open>Both answer the field's state and what \<open>onSelectionChange\<close> is called with, if it is.\<close>

definition handleSelectItem :: "string \<Rightarrow> multi_select \<Rightarrow> multi_select \<times> string list option" where
  "handleSelectItem item st =
     (if item = [] then (st, None)
      else let new = (if item \<notin> set (ms_selectedItems st) then ms_selectedItems st @ [item]
             else filter (\<lambda>f. f \<noteq> item) (ms_selectedItems st))
        in (st\<lparr>ms_selectedItems := new, ms_inputValue := []\<rparr>, Some new))"

definition handleRemoveItem :: "string \<Rightarrow> multi_select \<Rightarrow> multi_select \<times> string list option" where
  "handleRemoveItem item st =
     (let new = filter (\<lambda>f. f \<noteq> item) (ms_selectedItems st)
      in (st\<lparr>ms_selectedItems := new\<rparr>, Some new))"

definition clear_items :: "multi_select \<Rightarrow> multi_select \<times> string list option" where
  "clear_items st = (st\<lparr>ms_selectedItems := []\<rparr>, Some [])"

definition filteredItems :: "string list \<Rightarrow> multi_select \<Rightarrow> string list" where
  "filteredItems items st =
     (if ms_inputValue st \<noteq> []
      then filter (\<lambda>i. str_includes (to_lower i) (to_lower (ms_inputValue st))) items else items)"

definition visible_chips :: "nat option \<Rightarrow> multi_select \<Rightarrow> string list" where
  "visible_chips maxVisibleItems st =
     (case maxVisibleItems of None \<Rightarrow> ms_selectedItems st
      | Some n \<Rightarrow> if n = 0 then ms_selectedItems st else take n (ms_selectedItems st))"

definition follow_external :: "string list option \<Rightarrow> multi_select \<Rightarrow> multi_select" where
  "follow_external ext st = (case ext of None \<Rightarrow> st | Some xs \<Rightarrow> st\<lparr>ms_selectedItems := xs\<rparr>)"

section \<open>Tenants by their labels\<close>

definition label :: "tenant \<Rightarrow> string" where
  "label t = tn_name t @ ''('' @ tn_prefix t @ '')''"

definition tenantsMap :: "tenant list \<Rightarrow> int \<Rightarrow> tenant option" where
  "tenantsMap tenants = map_of (rev (map (\<lambda>t. (tn_id t, t)) tenants))"

definition getTenantItems :: "tenant list \<Rightarrow> string list" where
  "getTenantItems tenants = map label (filter tn_isActive tenants)"

definition getSelectedTenantItems :: "tenant list \<Rightarrow> int list \<Rightarrow> string list" where
  "getSelectedTenantItems tenants tenantIds =
     filter (\<lambda>s. s \<noteq> []) (map (\<lambda>id. case tenantsMap tenants id of Some t \<Rightarrow> label t | None \<Rightarrow> []) tenantIds)"

definition tenants_named :: "tenant list \<Rightarrow> string list \<Rightarrow> int list" where
  "tenants_named tenants names =
     map the (filter (\<lambda>i. i \<noteq> None)
       (map (\<lambda>name. map_option tn_id (find (\<lambda>t. label t = name) tenants)) names))"

definition handleCreateTenantSelect :: "tenant list \<Rightarrow> string list \<Rightarrow> create_user_form \<Rightarrow> create_user_form" where
  "handleCreateTenantSelect tenants names form = form\<lparr>cu_tenantIds := tenants_named tenants names\<rparr>"

definition handleUpdateTenantSelect :: "tenant list \<Rightarrow> string list \<Rightarrow> update_user_form \<Rightarrow> update_user_form" where
  "handleUpdateTenantSelect tenants names form = form\<lparr>uu_tenantIds := tenants_named tenants names\<rparr>"

section \<open>The forms\<close>

definition choose_create_role :: "user_role option \<Rightarrow> create_user_form \<Rightarrow> create_user_form" where
  "choose_create_role newRole form = form\<lparr>cu_role := newRole,
     cu_tenantIds := (if newRole = Some Admin then [] else cu_tenantIds form)\<rparr>"

definition choose_update_role :: "user_role option \<Rightarrow> update_user_form \<Rightarrow> update_user_form" where
  "choose_update_role newRole form = form\<lparr>uu_role := newRole,
     uu_tenantIds := (if newRole = Some Admin then [] else uu_tenantIds form)\<rparr>"

definition create_enabled :: "create_user_form \<Rightarrow> bool" where
  "create_enabled form \<longleftrightarrow> \<not> (cu_username form = [] \<or> cu_password form = []
     \<or> (cu_role form = Some Normal \<and> cu_tenantIds form = []))"

text \<open>What the user does in the form; the tenants can be chosen only for the role \<open>normal\<close>. The field
  shows what the form selects before every action.\<close>

datatype form_action = Type_username string | Type_password string | Choose_role "user_role option"
  | Pick_tenant string | Remove_tenant string | Clear_tenants

definition tenant_field :: "tenant list \<Rightarrow> create_user_form \<Rightarrow> multi_select" where
  "tenant_field tenants form =
     follow_external (Some (getSelectedTenantItems tenants (cu_tenantIds form)))
       \<lparr>ms_selectedItems = [], ms_inputValue = []\<rparr>"

definition selection_made ::
    "tenant list \<Rightarrow> multi_select \<times> string list option \<Rightarrow> create_user_form \<Rightarrow> create_user_form" where
  "selection_made tenants r form =
     (case snd r of None \<Rightarrow> form | Some names \<Rightarrow> handleCreateTenantSelect tenants names form)"

fun create_form_do :: "tenant list \<Rightarrow> form_action \<Rightarrow> create_user_form \<Rightarrow> create_user_form" where
  "create_form_do tenants (Type_username s) form = form\<lparr>cu_username := s\<rparr>"
| "create_form_do tenants (Type_password s) form = form\<lparr>cu_password := s\<rparr>"
| "create_form_do tenants (Choose_role r) form = choose_create_role r form"
| "create_form_do tenants (Pick_tenant item) form =
     (if cu_role form = Some Normal
      then selection_made tenants (handleSelectItem item (tenant_field tenants form)) form else form)"
| "create_form_do tenants (Remove_tenant item) form =
     (if cu_role form = Some Normal
      then selection_made tenants (handleRemoveItem item (tenant_field tenants form)) form else form)"
| "create_form_do tenants Clear_tenants form =
     (if cu_role form = Some Normal
      then selection_made tenants (clear_items (tenant_field tenants form)) form else form)"

section \<open>The page of the users\<close>

record users_page =
  up_users :: "user list"
  up_tenants :: "tenant list"
  up_loading :: bool
  up_selectedUser :: "user option"
  up_userToDelete :: string
  up_createForm :: create_user_form
  up_updateForm :: update_user_form
  up_isCreateOpen :: bool
  up_isUpdateOpen :: bool
  up_isDeleteOpen :: bool

definition open_users :: users_page where
  "open_users = \<lparr>up_users = [], up_tenants = [], up_loading = True, up_selectedUser = None,
     up_userToDelete = [], up_createForm = empty_create_form, up_updateForm = empty_update_form,
     up_isCreateOpen = False, up_isUpdateOpen = False, up_isDeleteOpen = False\<rparr>"

type_synonym users_io = "(users_page \<Rightarrow> users_page) io"

definition fetchUserTenants :: "backend \<Rightarrow> users_io" where
  "fetchUserTenants be =
     catch (bnd (getTenants be) (\<lambda>data. ret (\<lambda>s. s\<lparr>up_tenants := map as_tenant (elements data)\<rparr>)))
       (\<lambda>e. ret id)"

definition fetchUsers :: "backend \<Rightarrow> users_io" where
  "fetchUsers be =
     bnd (catch (bnd (getUsers be) (\<lambda>data. ret (\<lambda>s. s\<lparr>up_users := map as_user (elements data)\<rparr>)))
            (\<lambda>e. ret id))
       (\<lambda>f. ret (\<lambda>s. (f s)\<lparr>up_loading := False\<rparr>))"

definition load_users_page :: "backend \<Rightarrow> users_io" where
  "load_users_page be = bnd (fetchUsers be) (\<lambda>f. bnd (fetchUserTenants be) (\<lambda>g. ret (g \<circ> f)))"

definition handleCreateUser :: "backend \<Rightarrow> users_page \<Rightarrow> users_io" where
  "handleCreateUser be st =
     catch (andthen (createUser be (create_json (up_createForm st)))
       (bnd (fetchUsers be) (\<lambda>f. ret (\<lambda>s. (f s)\<lparr>up_isCreateOpen := False, up_createForm := empty_create_form\<rparr>))))
       (\<lambda>e. ret id)"

definition handleUpdateUser :: "backend \<Rightarrow> users_page \<Rightarrow> users_io" where
  "handleUpdateUser be st =
     (if up_selectedUser st = None then ret id
      else catch (andthen (updateUser be (update_json (up_updateForm st)))
        (bnd (fetchUsers be) (\<lambda>f. ret (\<lambda>s. (f s)\<lparr>up_isUpdateOpen := False, up_selectedUser := None,
           up_updateForm := empty_update_form\<rparr>))))
        (\<lambda>e. ret id))"

definition openDeleteConfirm :: "string \<Rightarrow> users_page \<Rightarrow> users_page" where
  "openDeleteConfirm username st = st\<lparr>up_userToDelete := username, up_isDeleteOpen := True\<rparr>"

definition handleDeleteUser :: "backend \<Rightarrow> users_page \<Rightarrow> users_io" where
  "handleDeleteUser be st =
     catch (andthen (deleteUser be (up_userToDelete st))
       (bnd (fetchUsers be) (\<lambda>f. ret (\<lambda>s. (f s)\<lparr>up_isDeleteOpen := False\<rparr>))))
       (\<lambda>e. ret id)"

definition edit_user :: "user \<Rightarrow> users_page \<Rightarrow> users_page" where
  "edit_user u st = st\<lparr>up_selectedUser := Some u,
     up_updateForm := \<lparr>uu_username = us_username u, uu_password = None, uu_role = us_role u,
       uu_isActive = Some (us_isActive u), uu_tenantIds = map tn_id (opt_or (us_tenants u) [])\<rparr>,
     up_isUpdateOpen := True\<rparr>"

text \<open>\<open>setSelectedUser(userData)\<close> comes before the first member is read.\<close>

definition handleEditUser :: "backend \<Rightarrow> string \<Rightarrow> users_io" where
  "handleEditUser be username =
     catch (bnd (getUserWithTenants be username) (\<lambda>userData.
        ret (case userData of None \<Rightarrow> (\<lambda>s. s\<lparr>up_selectedUser := None\<rparr>)
           | Some JNull \<Rightarrow> (\<lambda>s. s\<lparr>up_selectedUser := None\<rparr>)
           | Some j \<Rightarrow> edit_user (as_user j))))
       (\<lambda>e. ret id)"

definition handleToggleUser :: "backend \<Rightarrow> user \<Rightarrow> users_io" where
  "handleToggleUser be u =
     catch (andthen (toggleUserStatus be (us_username u) (\<not> us_isActive u)) (fetchUsers be))
       (\<lambda>e. ret id)"

definition open_create_user :: "users_page \<Rightarrow> users_page" where
  "open_create_user st = st\<lparr>up_isCreateOpen := True\<rparr>"

definition close_create_user :: "users_page \<Rightarrow> users_page" where
  "close_create_user st = st\<lparr>up_isCreateOpen := False\<rparr>"

definition close_update_user :: "users_page \<Rightarrow> users_page" where
  "close_update_user st = st\<lparr>up_isUpdateOpen := False\<rparr>"

definition close_delete_user :: "users_page \<Rightarrow> users_page" where
  "close_delete_user st = st\<lparr>up_isDeleteOpen := False\<rparr>"

definition type_update_password :: "string \<Rightarrow> update_user_form \<Rightarrow> update_user_form" where
  "type_update_password s form = form\<lparr>uu_password := Some s\<rparr>"

definition switch_update_active :: "bool \<Rightarrow> update_user_form \<Rightarrow> update_user_form" where
  "switch_update_active b form = form\<lparr>uu_isActive := Some b\<rparr>"

section \<open>The page of the tenants\<close>

record tenants_page =
  tp_tenants :: "tenant list"
  tp_loading :: bool
  tp_selectedTenant :: "tenant option"
  tp_tenantToDelete :: string
  tp_createForm :: "string \<times> string \<times> string"
  tp_updateForm :: tenant_update
  tp_isCreateOpen :: bool
  tp_isUpdateOpen :: bool
  tp_isDeleteOpen :: bool

definition empty_tenant_update :: tenant_update where
  "empty_tenant_update = \<lparr>tu_name = [], tu_prefix = None, tu_description = None, tu_isActive = None\<rparr>"

definition open_tenants :: tenants_page where
  "open_tenants = \<lparr>tp_tenants = [], tp_loading = True, tp_selectedTenant = None, tp_tenantToDelete = [],
     tp_createForm = ([], [], []), tp_updateForm = empty_tenant_update, tp_isCreateOpen = False,
     tp_isUpdateOpen = False, tp_isDeleteOpen = False\<rparr>"

type_synonym tenants_io = "(tenants_page \<Rightarrow> tenants_page) io"

definition fetchTenantList :: "backend \<Rightarrow> tenants_io" where
  "fetchTenantList be =
     bnd (catch (bnd (getTenants be) (\<lambda>data. ret (\<lambda>s. s\<lparr>tp_tenants := map as_tenant (elements data)\<rparr>)))
            (\<lambda>e. ret id))
       (\<lambda>f. ret (\<lambda>s. (f s)\<lparr>tp_loading := False\<rparr>))"

definition handleCreateTenant :: "backend \<Rightarrow> tenants_page \<Rightarrow> tenants_io" where
  "handleCreateTenant be st =
     (case tp_createForm st of (name, pfx, description) \<Rightarrow>
       catch (andthen (createTenant be name pfx description)
         (bnd (fetchTenantList be) (\<lambda>f. ret (\<lambda>s. (f s)\<lparr>tp_isCreateOpen := False, tp_createForm := ([], [], [])\<rparr>))))
         (\<lambda>e. ret id))"

definition handleUpdateTenant :: "backend \<Rightarrow> tenants_page \<Rightarrow> tenants_io" where
  "handleUpdateTenant be st =
     (if tp_selectedTenant st = None then ret id
      else catch (andthen (updateTenant be (tp_updateForm st))
        (bnd (fetchTenantList be) (\<lambda>f. ret (\<lambda>s. (f s)\<lparr>tp_isUpdateOpen := False, tp_selectedTenant := None,
           tp_updateForm := empty_tenant_update\<rparr>))))
        (\<lambda>e. ret id))"

definition openDeleteTenant :: "string \<Rightarrow> tenants_page \<Rightarrow> tenants_page" where
  "openDeleteTenant name st = st\<lparr>tp_tenantToDelete := name, tp_isDeleteOpen := True\<rparr>"

definition handleDeleteTenant :: "backend \<Rightarrow> tenants_page \<Rightarrow> tenants_io" where
  "handleDeleteTenant be st =
     catch (andthen (deleteTenant be (tp_tenantToDelete st))
       (bnd (fetchTenantList be) (\<lambda>f. ret (\<lambda>s. (f s)\<lparr>tp_isDeleteOpen := False\<rparr>))))
       (\<lambda>e. ret id)"

definition handleEditTenant :: "tenant \<Rightarrow> tenants_page \<Rightarrow> tenants_page" where
  "handleEditTenant t st = st\<lparr>tp_selectedTenant := Some t,
     tp_updateForm := \<lparr>tu_name = tn_name t, tu_prefix = Some (tn_prefix t),
       tu_description = Some (tn_description t), tu_isActive = Some (tn_isActive t)\<rparr>,
     tp_isUpdateOpen := True\<rparr>"

definition handleToggleTenant :: "backend \<Rightarrow> tenant \<Rightarrow> tenants_io" where
  "handleToggleTenant be t =
     catch (andthen (updateTenant be \<lparr>tu_name = tn_name t, tu_prefix = None, tu_description = None,
         tu_isActive = Some (\<not> tn_isActive t)\<rparr>)
       (fetchTenantList be))
       (\<lambda>e. ret id)"

text \<open>What the prefix fields of both dialogs store.\<close>

definition typed_prefix :: "string \<Rightarrow> string" where
  "typed_prefix v = (if v = ''/'' then v
     else if v \<noteq> [] \<and> \<not> starts_with v ''/'' \<and> trim v \<noteq> [] then ''/'' @ v else v)"

definition type_create_prefix :: "string \<Rightarrow> tenants_page \<Rightarrow> tenants_page" where
  "type_create_prefix v st = st\<lparr>tp_createForm :=
     (case tp_createForm st of (name, pfx, description) \<Rightarrow> (name, typed_prefix v, description))\<rparr>"

definition type_create_name :: "string \<Rightarrow> tenants_page \<Rightarrow> tenants_page" where
  "type_create_name v st = st\<lparr>tp_createForm :=
     (case tp_createForm st of (name, pfx, description) \<Rightarrow> (v, pfx, description))\<rparr>"

definition type_create_description :: "string \<Rightarrow> tenants_page \<Rightarrow> tenants_page" where
  "type_create_description v st = st\<lparr>tp_createForm :=
     (case tp_createForm st of (name, pfx, description) \<Rightarrow> (name, pfx, v))\<rparr>"

definition type_update_prefix :: "string \<Rightarrow> tenants_page \<Rightarrow> tenants_page" where
  "type_update_prefix v st = st\<lparr>tp_updateForm := (tp_updateForm st)\<lparr>tu_prefix := Some (typed_prefix v)\<rparr>\<rparr>"

definition type_update_description :: "string \<Rightarrow> tenants_page \<Rightarrow> tenants_page" where
  "type_update_description v st = st\<lparr>tp_updateForm := (tp_updateForm st)\<lparr>tu_description := Some v\<rparr>\<rparr>"

definition switch_tenant_active :: "bool \<Rightarrow> tenants_page \<Rightarrow> tenants_page" where
  "switch_tenant_active b st = st\<lparr>tp_updateForm := (tp_updateForm st)\<lparr>tu_isActive := Some b\<rparr>\<rparr>"

definition open_create_tenant :: "tenants_page \<Rightarrow> tenants_page" where
  "open_create_tenant st = st\<lparr>tp_isCreateOpen := True\<rparr>"

definition close_create_tenant :: "tenants_page \<Rightarrow> tenants_page" where
  "close_create_tenant st = st\<lparr>tp_isCreateOpen := False\<rparr>"

definition close_update_tenant :: "tenants_page \<Rightarrow> tenants_page" where
  "close_update_tenant st = st\<lparr>tp_isUpdateOpen := False\<rparr>"

definition close_delete_tenant :: "tenants_page \<Rightarrow> tenants_page" where
  "close_delete_tenant st = st\<lparr>tp_isDeleteOpen := False\<rparr>"

section \<open>Choosing tenants\<close>

lemma label_nonempty [simp]: "label t \<noteq> []"
  by (simp add: label_def)

lemma tenantsMap_own:
  assumes "distinct (map tn_id ts)" "t \<in> set ts"
  shows "tenantsMap ts (tn_id t) = Some t"
proof -
  have "distinct (map fst (rev (map (\<lambda>t. (tn_id t, t)) ts)))"
    using assms(1) by (simp add: rev_map [symmetric] comp_def)
  then show ?thesis
    using assms(2) by (simp add: tenantsMap_def map_of_eq_Some_iff)
qed

lemma find_label:
  assumes "distinct (map label ts)" "t \<in> set ts"
  shows "find (\<lambda>u. label u = label t) ts = Some t"
  using assms
proof (induction ts)
  case (Cons u ts)
  then show ?case by (cases "u = t") (auto simp: image_iff)
qed simp

lemma selected_labels:
  assumes "distinct (map tn_id ts)" "set us \<subseteq> set ts"
  shows "getSelectedTenantItems ts (map tn_id us) = map label us"
  using assms(2) by (induction us) (auto simp: getSelectedTenantItems_def tenantsMap_own [OF assms(1)])

lemma tenants_named_labels:
  assumes "distinct (map label ts)" "set us \<subseteq> set ts"
  shows "tenants_named ts (map label us) = map tn_id us"
  using assms(2) by (induction us) (auto simp: tenants_named_def find_label [OF assms(1)])

lemma chosen_tenants:
  fixes ts :: "tenant list"
  assumes "set ids \<subseteq> tn_id ` set ts"
  shows "\<exists>us :: tenant list. ids = map tn_id us \<and> set us \<subseteq> set ts"
  using assms
proof (induction ids)
  case (Cons i ids)
  then obtain us t where "ids = map tn_id us" "set us \<subseteq> set ts" "t \<in> set ts" "i = tn_id t" by auto
  then show ?case by (intro exI [of _ "t # us"]) simp
qed simp

text \<open>
  Choosing by label chooses the tenant: when the listed tenants have different ids and labels,
  picking the entry of a tenant adds exactly its id to the form, or takes exactly that id out when it
  was chosen before, and the other choices stay as they are.
\<close>

theorem picking_toggles_one_tenant:
  assumes "distinct (map tn_id ts)" "distinct (map label ts)" "t \<in> set ts"
      and "cu_role form = Some Normal" "set (cu_tenantIds form) \<subseteq> tn_id ` set ts"
  shows "cu_tenantIds (create_form_do ts (Pick_tenant (label t)) form)
    = (if tn_id t \<in> set (cu_tenantIds form) then filter (\<lambda>i. i \<noteq> tn_id t) (cu_tenantIds form)
       else cu_tenantIds form @ [tn_id t])"
proof -
  from chosen_tenants [OF assms(5)] obtain us where
    us: "cu_tenantIds form = map tn_id us" "set us \<subseteq> set ts" by blast
  have lab: "label u = label t \<longleftrightarrow> u = t" and idt: "tn_id u = tn_id t \<longleftrightarrow> u = t" if "u \<in> set us" for u
    using that us(2) assms(1,2,3) by (auto simp: distinct_map inj_on_def)
  have "label t \<in> set (map label us) \<longleftrightarrow> t \<in> set us" "tn_id t \<in> set (map tn_id us) \<longleftrightarrow> t \<in> set us"
    using lab idt by (auto simp: image_iff) (metis lab, metis idt)
  moreover have "filter (\<lambda>l. l \<noteq> label t) (map label us) = map label (filter (\<lambda>u. u \<noteq> t) us)"
    "filter (\<lambda>i. i \<noteq> tn_id t) (map tn_id us) = map tn_id (filter (\<lambda>u. u \<noteq> t) us)"
    using filter_cong [OF refl, of us "\<lambda>u. label u \<noteq> label t" "\<lambda>u. u \<noteq> t"]
      filter_cong [OF refl, of us "\<lambda>u. tn_id u \<noteq> tn_id t" "\<lambda>u. u \<noteq> t"] lab idt
    by (simp_all add: filter_map comp_def)
  moreover have "tenants_named ts (map label us @ [label t]) = map tn_id us @ [tn_id t]"
    using tenants_named_labels [OF assms(2), of "us @ [t]"] us(2) assms(3) by simp
  moreover have "tenants_named ts (map label (filter (\<lambda>u. u \<noteq> t) us)) = map tn_id (filter (\<lambda>u. u \<noteq> t) us)"
    by (rule tenants_named_labels [OF assms(2)]) (use us(2) in auto)
  ultimately show ?thesis
    using assms(4) us
    by (simp add: handleSelectItem_def tenant_field_def follow_external_def selected_labels [OF assms(1)]
        selection_made_def handleCreateTenantSelect_def Let_def)
qed

definition sample_tenant :: "int \<Rightarrow> string \<Rightarrow> tenant" where
  "sample_tenant i n = \<lparr>tn_id = i, tn_name = n, tn_prefix = ''/'' @ n, tn_description = [],
     tn_isActive = True, tn_createdAt = [], tn_updatedAt = []\<rparr>"

theorem picking_toggles_one_tenant_witness:
  "cu_tenantIds (create_form_do [sample_tenant 1 ''a'', sample_tenant 2 ''b'']
     (Pick_tenant (label (sample_tenant 2 ''b''))) (empty_create_form\<lparr>cu_tenantIds := [1]\<rparr>)) = [1, 2]"
  using picking_toggles_one_tenant [of "[sample_tenant 1 ''a'', sample_tenant 2 ''b'']"
      "sample_tenant 2 ''b''" "empty_create_form\<lparr>cu_tenantIds := [1]\<rparr>"]
  by (simp add: sample_tenant_def empty_create_form_def label_def)

section \<open>What is created\<close>

definition form_ok :: "create_user_form \<Rightarrow> bool" where
  "form_ok form \<longleftrightarrow> (if cu_role form = Some Admin then cu_tenantIds form = [] else True)"

lemma form_ok_do: "form_ok form \<Longrightarrow> form_ok (create_form_do ts a form)"
  by (cases a) (auto simp: form_ok_def choose_create_role_def selection_made_def
      handleCreateTenantSelect_def split: option.split)

text \<open>
  Property C33. Whatever is done in the dialog, and whichever tenants are listed meanwhile, the button creates a
  user only with a name and a password, an administrator only without tenants and a normal user only
  with at least one.
\<close>

theorem created_users_fit_their_role:
  "let form = fold (\<lambda>(ts, a). create_form_do ts a) actions empty_create_form
   in (if create_enabled form
       then cu_username form \<noteq> [] \<and> cu_password form \<noteq> []
         \<and> (case cu_role form of Some Admin \<Rightarrow> cu_tenantIds form = []
              | Some Normal \<Rightarrow> cu_tenantIds form \<noteq> [] | None \<Rightarrow> True)
       else True)"
proof -
  have "form_ok (fold (\<lambda>(ts, a). create_form_do ts a) actions empty_create_form)"
  proof (induction actions rule: rev_induct)
    case Nil
    then show ?case by (simp add: form_ok_def empty_create_form_def)
  next
    case (snoc a as)
    then show ?case by (cases a) (simp add: form_ok_do)
  qed
  then show ?thesis
    by (auto simp: Let_def create_enabled_def form_ok_def split: option.split user_role.split)
qed

text \<open>
  A finding: the role can be cleared in the select, and then neither condition applies: the button is
  enabled without a tenant and the request has no role.
\<close>

theorem cleared_role_skips_the_tenant_check:
  "let form = fold (create_form_do []) [Type_username ''u'', Type_password ''p'', Choose_role None]
        empty_create_form
   in create_enabled form \<and> create_json form
        = JObj [(''username'', JStr ''u''), (''password'', JStr ''p''), (''tenantIds'', JArr [])]"
  by (simp add: create_enabled_def choose_create_role_def empty_create_form_def create_json_def
      role_field_def Let_def)

section \<open>Deleting what was confirmed\<close>

text \<open>
  Both pages handle a button the same way: one action on the backend, then the list is loaded again
  and the dialog is put away, and a failure is caught and changes nothing. The contract of such a page
  is that loading the list never rejects and sends one request; the lemmas of the locale say what a
  handler built on it does.
\<close>

definition then_reload :: "'a io \<Rightarrow> ('s \<Rightarrow> 's) io \<Rightarrow> ('s \<Rightarrow> 's) \<Rightarrow> ('s \<Rightarrow> 's) io" where
  "then_reload act load closing =
     catch (andthen act (bnd load (\<lambda>f. ret (\<lambda>s. closing (f s))))) (\<lambda>e. ret id)"

locale reloading_page =
  fixes load :: "backend \<Rightarrow> ('s \<Rightarrow> 's) io"
  assumes load_settles: "\<exists>f. fst (load be w) = Inr f"
    and load_log: "\<exists>rq. w_log (snd (load be w)) = w_log w @ [rq]"
begin

lemma failed: "act w = (Inl e, w') \<Longrightarrow> then_reload act (load be) closing w = (Inr id, w')"
  by (simp add: then_reload_def io_simps)

lemma done_and_reloaded:
  assumes "act w = (Inr x, w')"
  obtains f w2 rq where "then_reload act (load be) closing w = (Inr (\<lambda>s. closing (f s)), w2)"
    "load be w' = (Inr f, w2)" "w_log w2 = w_log w' @ [rq]"
proof -
  obtain f rq where "fst (load be w') = Inr f" "w_log (snd (load be w')) = w_log w' @ [rq]"
    using load_settles load_log by metis
  then obtain w2 where "load be w' = (Inr f, w2)" "w_log w2 = w_log w' @ [rq]"
    by (cases "load be w'") auto
  with assms show ?thesis by (intro that [of f w2 rq]) (simp_all add: then_reload_def io_simps)
qed

lemma outcome:
  "\<exists>u. fst (then_reload act (load be) closing w) = Inr u
     \<and> (case fst (act w) of Inl e \<Rightarrow> u = id | Inr x \<Rightarrow> \<exists>f. u = closing \<circ> f)"
proof (cases "act w")
  case (Pair r w')
  show ?thesis
  proof (cases r)
    case (Inl e)
    with Pair failed [of act w e w' be closing] show ?thesis by simp
  next
    case (Inr x)
    with Pair have act: "act w = (Inr x, w')" by simp
    then obtain f w2 rq where "then_reload act (load be) closing w = (Inr (\<lambda>s. closing (f s)), w2)"
      by (rule done_and_reloaded [of act w x w' be closing])
    with act show ?thesis by (auto simp: comp_def)
  qed
qed

lemma log_after:
  "\<exists>l. w_log (snd (then_reload act (load be) closing w)) = w_log (snd (act w)) @ l \<and> length l \<le> 1"
proof (cases "act w")
  case (Pair r w')
  show ?thesis
  proof (cases r)
    case (Inl e)
    with Pair failed [of act w e w' be closing] show ?thesis by simp
  next
    case (Inr x)
    with Pair have act: "act w = (Inr x, w')" by simp
    then obtain f w2 rq where "then_reload act (load be) closing w = (Inr (\<lambda>s. closing (f s)), w2)"
      "w_log w2 = w_log w' @ [rq]"
      by (rule done_and_reloaded [of act w x w' be closing])
    with act show ?thesis by simp
  qed
qed

end

lemma one_request_log: "one_request m \<Longrightarrow> \<exists>rq. w_log (snd (m w)) = w_log w @ [rq]"
  by (simp add: one_request_def)

lemma fetchUsers_total: "\<exists>f. fst (fetchUsers be w) = Inr f"
proof -
  obtain r w' where "getUsers be w = (r, w')" by (cases "getUsers be w")
  then show ?thesis by (cases r) (simp_all add: fetchUsers_def io_simps)
qed

lemma fetchUsers_log: "\<exists>rq. w_log (snd (fetchUsers be w)) = w_log w @ [rq]"
proof -
  have "one_request (getUsers be)" using call_one_request [of be GetUsers] by simp
  moreover have "w_log (snd (fetchUsers be w)) = w_log (snd (getUsers be w))"
    by (cases "getUsers be w"; cases "fst (getUsers be w)") (simp_all add: fetchUsers_def io_simps)
  ultimately show ?thesis using one_request_log by metis
qed

interpretation ul: reloading_page fetchUsers
  by unfold_locales (rule fetchUsers_total fetchUsers_log)+

lemma fetchTenantList_total: "\<exists>f. fst (fetchTenantList be w) = Inr f"
proof -
  obtain r w' where "getTenants be w = (r, w')" by (cases "getTenants be w")
  then show ?thesis by (cases r) (simp_all add: fetchTenantList_def io_simps)
qed

lemma fetchTenantList_log: "\<exists>rq. w_log (snd (fetchTenantList be w)) = w_log w @ [rq]"
proof -
  have "one_request (getTenants be)"
    by (simp add: getTenants_def api_try_guarded client_rules ae.guarded_one_request)
  moreover have "w_log (snd (fetchTenantList be w)) = w_log (snd (getTenants be w))"
    by (cases "getTenants be w"; cases "fst (getTenants be w)") (simp_all add: fetchTenantList_def io_simps)
  ultimately show ?thesis using one_request_log by metis
qed

interpretation tl: reloading_page fetchTenantList
  by unfold_locales (rule fetchTenantList_total fetchTenantList_log)+

text \<open>The handlers of both pages are of that shape.\<close>

lemma bnd_unchanged: "bnd m (\<lambda>f. ret (\<lambda>s. f s)) = m"
  by (rule ext) (simp add: bnd_def ret_def split: prod.split sum.split)

lemma reloading_handlers:
  "handleCreateUser be st = then_reload (createUser be (create_json (up_createForm st))) (fetchUsers be)
     (\<lambda>s. s\<lparr>up_isCreateOpen := False, up_createForm := empty_create_form\<rparr>)"
  "up_selectedUser st \<noteq> None \<Longrightarrow>
   handleUpdateUser be st = then_reload (updateUser be (update_json (up_updateForm st))) (fetchUsers be)
     (\<lambda>s. s\<lparr>up_isUpdateOpen := False, up_selectedUser := None, up_updateForm := empty_update_form\<rparr>)"
  "handleDeleteUser be st = then_reload (deleteUser be (up_userToDelete st)) (fetchUsers be)
     (\<lambda>s. s\<lparr>up_isDeleteOpen := False\<rparr>)"
  "handleToggleUser be u = then_reload (toggleUserStatus be (us_username u) (\<not> us_isActive u))
     (fetchUsers be) (\<lambda>s. s)"
  by (auto simp: then_reload_def handleCreateUser_def handleUpdateUser_def handleDeleteUser_def
      handleToggleUser_def bnd_unchanged)

lemma reloading_tenant_handlers:
  "tp_createForm tst = (name, pfx, description) \<Longrightarrow>
   handleCreateTenant be tst = then_reload (createTenant be name pfx description) (fetchTenantList be)
     (\<lambda>s. s\<lparr>tp_isCreateOpen := False, tp_createForm := ([], [], [])\<rparr>)"
  "tp_selectedTenant tst \<noteq> None \<Longrightarrow>
   handleUpdateTenant be tst = then_reload (updateTenant be (tp_updateForm tst)) (fetchTenantList be)
     (\<lambda>s. s\<lparr>tp_isUpdateOpen := False, tp_selectedTenant := None, tp_updateForm := empty_tenant_update\<rparr>)"
  "handleDeleteTenant be tst = then_reload (deleteTenant be (tp_tenantToDelete tst)) (fetchTenantList be)
     (\<lambda>s. s\<lparr>tp_isDeleteOpen := False\<rparr>)"
  "handleToggleTenant be t = then_reload (updateTenant be \<lparr>tu_name = tn_name t, tu_prefix = None,
       tu_description = None, tu_isActive = Some (\<not> tn_isActive t)\<rparr>)
     (fetchTenantList be) (\<lambda>s. s)"
  by (auto simp: then_reload_def handleCreateTenant_def handleUpdateTenant_def handleDeleteTenant_def
      handleToggleTenant_def bnd_unchanged)

text \<open>
  A failed creation keeps what was typed: no handler of the two pages lets a rejection escape, and a
  creation that fails leaves the page, its open dialog and its form as they were, while one that
  succeeds closes the dialog and empties the form.
\<close>

theorem failed_creation_keeps_the_form:
  "(\<exists>u. fst (handleCreateUser be st w) = Inr u
      \<and> (case fst (createUser be (create_json (up_createForm st)) w) of
           Inl e \<Rightarrow> u st' = st'
         | Inr d \<Rightarrow> \<not> up_isCreateOpen (u st') \<and> up_createForm (u st') = empty_create_form))
   \<and> (\<exists>u. fst (handleCreateTenant be tst w) = Inr u
      \<and> (case tp_createForm tst of (name, pfx, description) \<Rightarrow>
           case fst (createTenant be name pfx description w) of
             Inl e \<Rightarrow> u tst' = tst'
           | Inr d \<Rightarrow> \<not> tp_isCreateOpen (u tst') \<and> tp_createForm (u tst') = ([], [], [])))"
proof
  let ?c = "\<lambda>s :: users_page. s\<lparr>up_isCreateOpen := False, up_createForm := empty_create_form\<rparr>"
  obtain u where "fst (then_reload (createUser be (create_json (up_createForm st))) (fetchUsers be) ?c w) = Inr u"
    "case fst (createUser be (create_json (up_createForm st)) w) of Inl e \<Rightarrow> u = id | Inr d \<Rightarrow> \<exists>f. u = ?c \<circ> f"
    using ul.outcome by blast
  then show "\<exists>u. fst (handleCreateUser be st w) = Inr u
      \<and> (case fst (createUser be (create_json (up_createForm st)) w) of
           Inl e \<Rightarrow> u st' = st'
         | Inr d \<Rightarrow> \<not> up_isCreateOpen (u st') \<and> up_createForm (u st') = empty_create_form)"
    unfolding reloading_handlers(1) by (intro exI [of _ u]) (auto split: sum.splits)
next
  let ?c = "\<lambda>s :: tenants_page. s\<lparr>tp_isCreateOpen := False, tp_createForm := ([], [], [])\<rparr>"
  obtain name pfx description where form: "tp_createForm tst = (name, pfx, description)"
    by (cases "tp_createForm tst")
  obtain u where "fst (then_reload (createTenant be name pfx description) (fetchTenantList be) ?c w) = Inr u"
    "case fst (createTenant be name pfx description w) of Inl e \<Rightarrow> u = id | Inr d \<Rightarrow> \<exists>f. u = ?c \<circ> f"
    using tl.outcome by blast
  then show "\<exists>u. fst (handleCreateTenant be tst w) = Inr u
      \<and> (case tp_createForm tst of (name, pfx, description) \<Rightarrow>
           case fst (createTenant be name pfx description w) of
             Inl e \<Rightarrow> u tst' = tst'
           | Inr d \<Rightarrow> \<not> tp_isCreateOpen (u tst') \<and> tp_createForm (u tst') = ([], [], []))"
    unfolding reloading_tenant_handlers(1) [OF form] form prod.case by (intro exI [of _ u]) (auto split: sum.splits)
qed

lemma deleteUser_log:
  "w_log (snd (deleteUser be name w))
   = w_log w @ [request_interceptor w (method_request ''DELETE'' (''/auth/users/'' @ name))]"
proof -
  obtain r w' where m: "api_delete be (''/auth/users/'' @ name) w = (r, w')"
    by (cases "api_delete be (''/auth/users/'' @ name) w")
  then have "w_log w' = w_log w @ [request_interceptor w (method_request ''DELETE'' (''/auth/users/'' @ name))]"
    by (metis api_delete_def send_log snd_conv)
  with m show ?thesis by (cases r) (simp_all add: deleteUser_def toast_try_def and_toast_def io_simps)
qed

text \<open>
  Deleting removes the user that was confirmed: after the dialog was opened for a name, the first
  request is the deletion of that name; when it succeeds the list is loaded once more and the dialog
  closes, and when it fails nothing more is sent and the page stays as it is.
\<close>

theorem delete_removes_the_confirmed_user:
  "\<exists>rq l update. fst (handleDeleteUser be (openDeleteConfirm name st) w) = Inr update
     \<and> w_log (snd (handleDeleteUser be (openDeleteConfirm name st) w)) = w_log w @ rq # l
     \<and> rq_method rq = ''DELETE'' \<and> rq_url rq = ''/auth/users/'' @ name
     \<and> (case fst (deleteUser be name w) of
          Inr d \<Rightarrow> length l = 1 \<and> \<not> up_isDeleteOpen (update st')
        | Inl e \<Rightarrow> l = [] \<and> update st' = st')"
proof -
  let ?rq = "request_interceptor w (method_request ''DELETE'' (''/auth/users/'' @ name))"
  obtain r w' where d: "deleteUser be name w = (r, w')" by (cases "deleteUser be name w")
  with deleteUser_log [of be name w] have log: "w_log w' = w_log w @ [?rq]" by simp
  have rq: "rq_method ?rq = ''DELETE'' \<and> rq_url ?rq = ''/auth/users/'' @ name"
    by (simp add: request_interceptor_def method_request_def Let_def)
  let ?c = "\<lambda>s :: users_page. s\<lparr>up_isDeleteOpen := False\<rparr>"
  have run: "handleDeleteUser be (openDeleteConfirm name st) = then_reload (deleteUser be name) (fetchUsers be) ?c"
    unfolding reloading_handlers(3) by (simp add: openDeleteConfirm_def)
  show ?thesis
  proof (cases r)
    case (Inl e)
    with d have act: "deleteUser be name w = (Inl e, w')" by simp
    from ul.failed [of "deleteUser be name" w e w' be ?c, OF act] log rq act show ?thesis
      unfolding run by (intro exI [of _ ?rq] exI [of _ "[]"] exI [of _ id]) simp
  next
    case (Inr x)
    with d have act: "deleteUser be name w = (Inr x, w')" by simp
    then obtain f w2 rq2 where "then_reload (deleteUser be name) (fetchUsers be) ?c w = (Inr (\<lambda>s. ?c (f s)), w2)"
      "w_log w2 = w_log w' @ [rq2]"
      by (rule ul.done_and_reloaded [of _ _ _ _ be ?c])
    with act log rq show ?thesis
      unfolding run by (intro exI [of _ ?rq] exI [of _ "[rq2]"] exI [of _ "\<lambda>s. ?c (f s)"]) simp
  qed
qed

section \<open>Tenants\<close>

text \<open>
  The prefix field and the client agree on how a prefix is written: what the field stores is a fixed
  point of the field, begins with a slash unless it is blank, and leads to the same request as the
  text that was typed.
\<close>

theorem typed_prefix_agrees_with_client:
  "typed_prefix (typed_prefix v) = typed_prefix v
   \<and> slashed (typed_prefix v) = slashed v
   \<and> (if trim v = [] then typed_prefix v = v else starts_with (typed_prefix v) ''/'')"
proof -
  have "trim ''/'' \<noteq> []" by code_simp
  then show ?thesis
    by (auto simp: typed_prefix_def slashed_def starts_with_def)
qed

text \<open>
  Switching a tenant on or off is never refused by the prefix rules: the first request is the update
  itself, with the name and the new status and nothing else.
\<close>

theorem switching_sends_only_the_status:
  "\<exists>rq l. w_log (snd (handleToggleTenant be t w)) = w_log w @ rq # l \<and> rq_method rq = ''PUT''
     \<and> rq_url rq = ''/auth/tenants''
     \<and> rq_body rq = JsonBody (JObj [(''name'', JStr (tn_name t)), (''isActive'', JBool (\<not> tn_isActive t))])"
proof -
  let ?d = "\<lparr>tu_name = tn_name t, tu_prefix = None, tu_description = None, tu_isActive = Some (\<not> tn_isActive t)\<rparr>"
  let ?rq = "request_interceptor w ((method_request ''PUT'' ''/auth/tenants'')\<lparr>rq_body := update_body ?d\<rparr>)"
  obtain r w' where m: "api_put be ''/auth/tenants'' (update_body ?d) w = (r, w')"
    by (cases "api_put be ''/auth/tenants'' (update_body ?d) w")
  then have log: "w_log w' = w_log w @ [?rq]" by (metis api_put_def send_log snd_conv)
  have rq: "rq_method ?rq = ''PUT'' \<and> rq_url ?rq = ''/auth/tenants''
      \<and> rq_body ?rq = JsonBody (JObj [(''name'', JStr (tn_name t)), (''isActive'', JBool (\<not> tn_isActive t))])"
    by (simp add: request_interceptor_def method_request_def update_body_def Let_def)
  have "w_log (snd (updateTenant be ?d w)) = w_log w @ [?rq]"
    using m log by (cases r) (simp_all add: updateTenant_def check_update_prefix_def and_toast_def
        update_error_toast_def io_simps)
  with tl.log_after [of "updateTenant be ?d" be "\<lambda>s. s" w] rq show ?thesis
    unfolding reloading_tenant_handlers(4) by fastforce
qed

end
