(* ===== verification/Api_Contract.thy ===== *)
theory Api_Contract
  imports Tenant_Api
begin

text \<open>
  The contract of \<open>src/web/src/services/api.ts\<close> as a whole: for every function it exports, how many
  requests it makes, and which error toasts it shows when it rejects. Most functions make one request
  and show one toast; those of the tenants make up to three requests and may show none or two.
\<close>

section \<open>The functions of the client\<close>

datatype api_call =
    Plain endpoint
  | GetTenants
  | GetTenant string
  | CreateTenant string string string
  | UpdateTenant tenant_update
  | DeleteTenant string
  | GetUserAuthorizedTenants
  | GetCurrentUser
  | ExportMCPServer "gateway \<Rightarrow> string option" gateway

fun run_call :: "backend \<Rightarrow> api_call \<Rightarrow> jv io" where
  "run_call be (Plain ep) = call be ep"
| "run_call be GetTenants = getTenants be"
| "run_call be (GetTenant name) = getTenant be name"
| "run_call be (CreateTenant name pfx description) = createTenant be name pfx description"
| "run_call be (UpdateTenant d) = updateTenant be d"
| "run_call be (DeleteTenant name) = deleteTenant be name"
| "run_call be GetUserAuthorizedTenants = getUserAuthorizedTenants be"
| "run_call be GetCurrentUser = getCurrentUser be"
| "run_call be (ExportMCPServer dump server) = andthen (exportMCPServer dump server) (ret None)"

section \<open>What each may show\<close>

definition errors_of :: "(toast_kind \<times> toast_text) list \<Rightarrow> toast_text list" where
  "errors_of ts = map snd (filter (\<lambda>t. fst t = Danger) ts)"

lemma errors_of_simps [simp]:
  "errors_of [] = []"
  "errors_of (t # ts) = (if fst t = Danger then snd t # errors_of ts else errors_of ts)"
  "errors_of (ts @ us) = errors_of ts @ errors_of us"
  by (simp_all add: errors_of_def)

text \<open>The text of \<open>handleApiError\<close>.\<close>

definition said :: "string \<Rightarrow> js_exn \<Rightarrow> toast_text" where
  "said k e = (if isAxiosError e \<and> js_truthy (server_error e) then Server (the (server_error e)) else Tr k)"

fun error_key :: "endpoint \<Rightarrow> string" where
  "error_key (GetMCPServers t) = ''errors.fetch_mcp_servers''"
| "error_key (CreateMCPServer c) = ''errors.create_mcp_server''"
| "error_key (UpdateMCPServer c) = ''errors.update_mcp_server''"
| "error_key (DeleteMCPServer t n) = ''errors.delete_mcp_server''"
| "error_key SyncMCPServers = ''errors.sync_mcp_server''"
| "error_key (GetChatMessages s p z) = ''errors.fetch_chat_messages''"
| "error_key GetChatSessions = ''errors.fetch_chat_sessions''"
| "error_key (DeleteChatSession s) = ''errors.delete_chat_session''"
| "error_key (UpdateChatSessionTitle s t) = ''errors.rename_chat_session''"
| "error_key (SaveChatMessage m) = ''errors.save_chat_message''"
| "error_key (ImportOpenAPI f t p) = ''errors.import_openapi''"
| "error_key GetUsers = ''errors.fetch_users''"
| "error_key (GetUser u) = ''errors.fetch_user''"
| "error_key (CreateUser d) = ''users.add_failed''"
| "error_key (UpdateUser d) = ''users.edit_failed''"
| "error_key (DeleteUser u) = ''users.delete_failed''"
| "error_key (ToggleUserStatus u b) = (if b then ''users.enable_failed'' else ''users.disable_failed'')"
| "error_key (GetUserWithTenants u) = ''errors.fetch_user''"
| "error_key (UpdateUserTenants u ts) = ''users.update_tenants_failed''"
| "error_key (GetMCPConfigNames t) = ''errors.fetch_config_names''"
| "error_key (GetMCPConfigVersions t n) = ''errors.fetch_config_versions''"
| "error_key (SetActiveVersion t n v) = ''errors.set_active_version''"
| "error_key (GetMCPServerCapabilities t n) = ''errors.fetch_mcp_capabilities''"

text \<open>The functions of the users show their own text and never that of the server.\<close>

fun own_text_only :: "endpoint \<Rightarrow> bool" where
  "own_text_only GetUsers = True"
| "own_text_only (GetUser u) = True"
| "own_text_only (CreateUser d) = True"
| "own_text_only (UpdateUser d) = True"
| "own_text_only (DeleteUser u) = True"
| "own_text_only (ToggleUserStatus u b) = True"
| "own_text_only (GetUserWithTenants u) = True"
| "own_text_only (UpdateUserTenants u ts) = True"
| "own_text_only _ = False"

text \<open>What the \<open>catch\<close> blocks of \<open>createTenant\<close> and \<open>updateTenant\<close> add to what was shown before.\<close>

definition create_adds :: "js_exn \<Rightarrow> toast_text list" where
  "create_adds e = (if isAxiosError e \<and> js_truthy (server_error e) \<and> \<not> str_includes (exn_message e) ''Prefix''
     then [Tr ''tenants.add_failed''] else [])"

definition update_adds :: "js_exn \<Rightarrow> toast_text list" where
  "update_adds e =
     (if isAxiosError e \<and> status_is e 409 then
        [Tr (if server_error e = Some (JStr ''Tenant name already exists'') then ''tenants.name_conflict''
             else ''tenants.prefix_conflict'')]
      else if exn_message e \<noteq> ''Root prefix not allowed'' \<and> exn_message e \<noteq> ''Prefix path conflict''
      then [Tr ''errors.update_tenant''] else [])"

definition thrown :: "js_exn \<Rightarrow> bool" where
  "thrown e = (case e of Error_exn m \<Rightarrow> True | _ \<Rightarrow> False)"

text \<open>The lists of error toasts a function may show when it rejects with \<open>e\<close>, and the least and
  greatest number of its requests.\<close>

fun failure_texts :: "api_call \<Rightarrow> js_exn \<Rightarrow> toast_text list list" where
  "failure_texts (Plain ep) e = [[if own_text_only ep then Tr (error_key ep) else said (error_key ep) e]]"
| "failure_texts GetTenants e = [[said ''errors.fetch_tenants'' e]]"
| "failure_texts (GetTenant name) e = [[said ''errors.fetch_tenant'' e]]"
| "failure_texts (CreateTenant name pfx description) e =
     (if thrown e then [[Tr ''errors.prefix_conflict''], [Tr ''tenants.root_prefix_not_allowed''],
         [Tr ''tenants.prefix_path_conflict'']]
      else [create_adds e, said ''errors.fetch_tenants'' e # create_adds e])"
| "failure_texts (UpdateTenant d) e =
     (if thrown e then [[Tr ''errors.prefix_conflict'', Tr ''errors.update_tenant'']]
      else [update_adds e, said ''errors.fetch_tenant'' e # update_adds e,
         said ''errors.fetch_tenants'' e # update_adds e])"
| "failure_texts (DeleteTenant name) e =
     [[Tr (if isAxiosError e \<and> js_truthy (server_error e) then ''errors.delete_tenant'' else ''tenants.delete_failed'')]]"
| "failure_texts GetUserAuthorizedTenants e = [[]]"
| "failure_texts GetCurrentUser e = [[]]"
| "failure_texts (ExportMCPServer dump server) e = [[said ''errors.export_mcp_server'' e]]"

fun request_bounds :: "api_call \<Rightarrow> nat \<times> nat" where
  "request_bounds (CreateTenant name pfx description) = (1, 2)"
| "request_bounds (UpdateTenant d) = (if str_truthy (tu_prefix d) then (1, 3) else (1, 1))"
| "request_bounds (ExportMCPServer dump server) = (0, 0)"
| "request_bounds _ = (1, 1)"

section \<open>A calculus of requests and reports\<close>

text \<open>An effect that behaves makes between \<open>lo\<close> and \<open>hi\<close> requests, shows error toasts allowed by \<open>S\<close>
  when it rejects, and none when it does not.\<close>

definition behaves :: "nat \<Rightarrow> nat \<Rightarrow> (js_exn \<Rightarrow> toast_text list \<Rightarrow> bool) \<Rightarrow> 'a io \<Rightarrow> bool" where
  "behaves lo hi S m \<longleftrightarrow> (\<forall>w r w'. m w = (r, w') \<longrightarrow> (\<exists>l ts.
     w_log w' = w_log w @ l \<and> lo \<le> length l \<and> length l \<le> hi \<and> w_toasts w' = w_toasts w @ ts
     \<and> (case r of Inl e \<Rightarrow> S e (errors_of ts) | Inr x \<Rightarrow> errors_of ts = [])))"

named_theorems behave_rules \<open>requests and reports of the client's building blocks\<close>

lemma behavesI:
  assumes "\<And>w r w'. m w = (r, w') \<Longrightarrow> \<exists>l ts. w_log w' = w_log w @ l \<and> lo \<le> length l \<and> length l \<le> hi
     \<and> w_toasts w' = w_toasts w @ ts
     \<and> (case r of Inl e \<Rightarrow> S e (errors_of ts) | Inr x \<Rightarrow> errors_of ts = [])"
  shows "behaves lo hi S m"
  using assms unfolding behaves_def by blast

lemma behavesE:
  assumes "behaves lo hi S m" "m w = (r, w')"
  obtains l ts where "w_log w' = w_log w @ l" "lo \<le> length l" "length l \<le> hi"
    "w_toasts w' = w_toasts w @ ts" "case r of Inl e \<Rightarrow> S e (errors_of ts) | Inr x \<Rightarrow> errors_of ts = []"
  using assms unfolding behaves_def by blast

lemma behaves_weaken:
  assumes "behaves lo hi S m" "lo' \<le> lo" "hi \<le> hi'" "\<And>e ts. S e ts \<Longrightarrow> S' e ts"
  shows "behaves lo' hi' S' m"
proof (rule behavesI)
  fix w r w'
  assume "m w = (r, w')"
  with assms(1) obtain l ts where *: "w_log w' = w_log w @ l" "lo \<le> length l" "length l \<le> hi"
    "w_toasts w' = w_toasts w @ ts" "case r of Inl e \<Rightarrow> S e (errors_of ts) | Inr x \<Rightarrow> errors_of ts = []"
    by (rule behavesE)
  have "case r of Inl e \<Rightarrow> S' e (errors_of ts) | Inr x \<Rightarrow> errors_of ts = []"
    using *(5) assms(4) by (cases r) simp_all
  moreover have "lo' \<le> length l" "length l \<le> hi'" using *(2,3) assms(2,3) by simp_all
  ultimately show "\<exists>l ts. w_log w' = w_log w @ l \<and> lo' \<le> length l \<and> length l \<le> hi'
     \<and> w_toasts w' = w_toasts w @ ts
     \<and> (case r of Inl e \<Rightarrow> S' e (errors_of ts) | Inr x \<Rightarrow> errors_of ts = [])"
    using *(1,4) by blast
qed

text \<open>An effect that neither sends nor shows an error.\<close>

lemma behaves_silent:
  assumes "\<And>w. w_log (snd (m w)) = w_log w"
    and "\<And>w. \<exists>ts. w_toasts (snd (m w)) = w_toasts w @ ts \<and> errors_of ts = []"
    and "\<And>w e. fst (m w) = Inl e \<Longrightarrow> S e []"
  shows "behaves 0 0 S m"
proof (rule behavesI)
  fix w r w'
  assume m: "m w = (r, w')"
  with assms(2) [of w] obtain ts where ts: "w_toasts w' = w_toasts w @ ts" "errors_of ts = []" by auto
  from m assms(3) [of w] ts(2) have "case r of Inl e \<Rightarrow> S e (errors_of ts) | Inr x \<Rightarrow> errors_of ts = []"
    by (cases r) simp_all
  with m assms(1) [of w] ts(1) show "\<exists>l ts. w_log w' = w_log w @ l \<and> 0 \<le> length l \<and> length l \<le> 0
     \<and> w_toasts w' = w_toasts w @ ts \<and> (case r of Inl e \<Rightarrow> S e (errors_of ts) | Inr x \<Rightarrow> errors_of ts = [])"
    by (intro exI [of _ "[]"] exI [of _ ts]) simp
qed

lemma behaves_ret [behave_rules]: "behaves 0 0 S (ret x)"
  by (rule behaves_silent) (simp_all add: ret_def)

lemma behaves_success [behave_rules]: "k \<noteq> Danger \<Longrightarrow> behaves 0 0 S (toast k t)"
  by (rule behaves_silent) (simp_all add: toast_def)

lemma behaves_throw: "S e [] \<Longrightarrow> behaves 0 0 S (throw e)"
  by (rule behaves_silent) (simp_all add: throw_def)

lemma behaves_lift: "(\<And>e. S (Js_exn e) []) \<Longrightarrow> behaves 0 0 S (lift_res r)"
  by (rule behaves_silent) (auto simp: lift_res_def split: sum.splits)

lemma behaves_field: "(\<And>e. S (Js_exn e) []) \<Longrightarrow> behaves 0 0 S (get_field v k)"
  unfolding get_field_def by (rule behaves_lift)

lemma behaves_send:
  assumes "\<And>e. \<not> thrown e \<Longrightarrow> S e []"
  shows "behaves 1 1 S (send be rq)"
proof (rule behavesI)
  fix w r w'
  assume m: "send be rq w = (r, w')"
  have "w_toasts w' = w_toasts w" using m quiet_send [of be rq] by (metis quiet_def snd_conv)
  moreover have "w_log w' = w_log w @ [request_interceptor w rq]" using m send_log [of be rq w] by simp
  moreover have "case r of Inl e \<Rightarrow> S e [] | Inr x \<Rightarrow> True"
    using m by (auto simp: send_def Let_def answer_outcome_def thrown_def intro!: assms
        split: sum.splits answer.splits if_splits)
  then have "case r of Inl e \<Rightarrow> S e (errors_of []) | Inr x \<Rightarrow> errors_of [] = []"
    by (cases r) simp_all
  ultimately show "\<exists>l ts. w_log w' = w_log w @ l \<and> 1 \<le> length l \<and> length l \<le> 1
     \<and> w_toasts w' = w_toasts w @ ts \<and> (case r of Inl e \<Rightarrow> S e (errors_of ts) | Inr x \<Rightarrow> errors_of ts = [])"
    by (intro exI [of _ "[request_interceptor w rq]"] exI [of _ "[]"]) simp
qed

lemma behaves_bnd:
  assumes "behaves l1 h1 S m" "\<And>x. behaves l2 h2 S (f x)" "h = h1 + h2"
  shows "behaves l1 h S (bnd m f)"
proof (rule behavesI)
  fix w r w'
  assume run: "bnd m f w = (r, w')"
  obtain r1 w1 where m: "m w = (r1, w1)" by (cases "m w")
  from assms(1) m obtain l ts where *: "w_log w1 = w_log w @ l" "l1 \<le> length l" "length l \<le> h1"
    "w_toasts w1 = w_toasts w @ ts" "case r1 of Inl e \<Rightarrow> S e (errors_of ts) | Inr x \<Rightarrow> errors_of ts = []"
    by (rule behavesE)
  show "\<exists>l ts. w_log w' = w_log w @ l \<and> l1 \<le> length l \<and> length l \<le> h
     \<and> w_toasts w' = w_toasts w @ ts \<and> (case r of Inl e \<Rightarrow> S e (errors_of ts) | Inr x \<Rightarrow> errors_of ts = [])"
  proof (cases r1)
    case (Inl e)
    with run m have "r = Inl e" "w' = w1" by (simp_all add: bnd_def)
    with * Inl assms(3) show ?thesis by (intro exI [of _ l] exI [of _ ts]) simp
  next
    case (Inr x)
    with run m have "f x w1 = (r, w')" by (simp add: bnd_def)
    with assms(2) [of x] obtain l' ts' where **: "w_log w' = w_log w1 @ l'" "length l' \<le> h2"
      "w_toasts w' = w_toasts w1 @ ts'" "case r of Inl e \<Rightarrow> S e (errors_of ts') | Inr x \<Rightarrow> errors_of ts' = []"
      by (rule behavesE)
    from *(5) Inr have "errors_of ts = []" by simp
    with ** * assms(3) show ?thesis
      by (intro exI [of _ "l @ l'"] exI [of _ "ts @ ts'"]) (cases r; simp)
  qed
qed

lemma behaves_andthen:
  "behaves l1 h1 S m \<Longrightarrow> behaves l2 h2 S n \<Longrightarrow> h = h1 + h2 \<Longrightarrow> behaves l1 h S (andthen m n)"
  unfolding andthen_def by (rule behaves_bnd)

lemma behaves_catch:
  assumes "behaves lo hi S m"
    and "\<And>e w. \<exists>ts. h e w = (Inl e, w\<lparr>w_toasts := w_toasts w @ ts\<rparr>) \<and> errors_of ts = X e"
    and "\<And>e ts. S e ts \<Longrightarrow> S' e (ts @ X e)"
  shows "behaves lo hi S' (catch m h)"
proof (rule behavesI)
  fix w r w'
  assume run: "catch m h w = (r, w')"
  obtain r1 w1 where m: "m w = (r1, w1)" by (cases "m w")
  from assms(1) m obtain l ts where *: "w_log w1 = w_log w @ l" "lo \<le> length l" "length l \<le> hi"
    "w_toasts w1 = w_toasts w @ ts" "case r1 of Inl e \<Rightarrow> S e (errors_of ts) | Inr x \<Rightarrow> errors_of ts = []"
    by (rule behavesE)
  show "\<exists>l ts. w_log w' = w_log w @ l \<and> lo \<le> length l \<and> length l \<le> hi
     \<and> w_toasts w' = w_toasts w @ ts \<and> (case r of Inl e \<Rightarrow> S' e (errors_of ts) | Inr x \<Rightarrow> errors_of ts = [])"
  proof (cases r1)
    case (Inl e)
    from assms(2) [of e w1] obtain us
      where us: "h e w1 = (Inl e, w1\<lparr>w_toasts := w_toasts w1 @ us\<rparr>)" "errors_of us = X e" by blast
    with run m Inl have "r = Inl e" "w' = w1\<lparr>w_toasts := w_toasts w1 @ us\<rparr>" by (simp_all add: catch_def)
    moreover have "S' e (errors_of (ts @ us))" using *(5) Inl us(2) assms(3) by simp
    ultimately show ?thesis using * by (intro exI [of _ l] exI [of _ "ts @ us"]) simp
  next
    case (Inr x)
    with run m have "r = Inr x" "w' = w1" by (simp_all add: catch_def)
    with * Inr show ?thesis by (intro exI [of _ l] exI [of _ ts]) simp
  qed
qed

section \<open>The functions one by one\<close>

abbreviation calm :: "js_exn \<Rightarrow> toast_text list \<Rightarrow> bool" where
  "calm \<equiv> \<lambda>e ts. ts = []"

lemma behaves_quiet:
  assumes "quiet m" "one_request m"
  shows "behaves 1 1 calm m"
proof (rule behavesI)
  fix w r w'
  assume m: "m w = (r, w')"
  from assms(2) obtain rq where "w_log (snd (m w)) = w_log w @ [rq]" unfolding one_request_def by blast
  moreover have "w_toasts (snd (m w)) = w_toasts w" using assms(1) unfolding quiet_def by blast
  ultimately show "\<exists>l ts. w_log w' = w_log w @ l \<and> 1 \<le> length l \<and> length l \<le> 1
     \<and> w_toasts w' = w_toasts w @ ts \<and> (case r of Inl e \<Rightarrow> errors_of ts = [] | Inr x \<Rightarrow> errors_of ts = [])"
    using m by (intro exI [of _ "[rq]"] exI [of _ "[]"]) (cases r; simp)
qed

lemma behaves_and_toast: "behaves lo hi S m \<Longrightarrow> behaves lo hi S (and_toast m key)"
  unfolding and_toast_def
  by (rule behaves_bnd [of lo hi S m 0 0], assumption,
      rule behaves_andthen [of 0 0 _ _ 0 0]) (simp_all add: behave_rules)

lemma behaves_api_try:
  assumes "behaves lo hi calm m"
  shows "behaves lo hi (\<lambda>e ts. ts = [said k e]) (api_try k m)"
  unfolding api_try_def
proof (rule behaves_catch [OF assms, of _ "\<lambda>e. [said k e]"])
  show "\<exists>ts. andthen (handleApiError e k) (throw e) w = (Inl e, w\<lparr>w_toasts := w_toasts w @ ts\<rparr>)
      \<and> errors_of ts = [said k e]" for e :: js_exn and w
    by (rule exI [of _ "[(Danger, said k e)]"]) (simp add: handleApiError_def said_def io_simps)
qed simp

lemma behaves_toast_try:
  assumes "behaves lo hi calm m"
  shows "behaves lo hi (\<lambda>e ts. ts = [Tr k]) (toast_try k m)"
  unfolding toast_try_def
proof (rule behaves_catch [OF assms, of _ "\<lambda>e. [Tr k]"])
  show "\<exists>ts. andthen (toast Danger (Tr k)) (throw e) w = (Inl e, w\<lparr>w_toasts := w_toasts w @ ts\<rparr>)
      \<and> errors_of ts = [Tr k]" for e :: js_exn and w
    by (rule exI [of _ "[(Danger, Tr k)]"]) (simp add: io_simps)
qed simp

lemma behaves_endpoint:
  "behaves 1 1 (\<lambda>e ts. ts = [if own_text_only ep then Tr (error_key ep) else said (error_key ep) e]) (call be ep)"
  by (cases ep)
     (simp_all add: endpoint_defs behaves_api_try behaves_toast_try behaves_and_toast behaves_quiet client_rules del: One_nat_def)

abbreviation single :: "string \<Rightarrow> js_exn \<Rightarrow> toast_text list \<Rightarrow> bool" where
  "single k \<equiv> \<lambda>e ts. ts = [said k e]"

lemma behaves_getTenants: "behaves 1 1 (single ''errors.fetch_tenants'') (getTenants be)"
  by (simp add: getTenants_def behaves_api_try behaves_quiet client_rules del: One_nat_def)

lemma behaves_getTenant: "behaves 1 1 (single ''errors.fetch_tenant'') (getTenant be name)"
  by (simp add: getTenant_def behaves_api_try behaves_quiet client_rules del: One_nat_def)

lemma behaves_deleteTenant:
  "behaves 1 1 (\<lambda>e ts. ts = [Tr (if isAxiosError e \<and> js_truthy (server_error e) then ''errors.delete_tenant''
     else ''tenants.delete_failed'')]) (deleteTenant be name)"
proof -
  let ?k = "\<lambda>e. Tr (if isAxiosError e \<and> js_truthy (server_error e) then ''errors.delete_tenant''
     else ''tenants.delete_failed'')"
  have "behaves 1 1 calm (and_toast (api_delete be (''/auth/tenants/'' @ name)) ''tenants.delete_success'')"
    by (simp add: behaves_and_toast behaves_quiet client_rules del: One_nat_def)
  then show ?thesis
    unfolding deleteTenant_def
  proof (rule behaves_catch [where X = "\<lambda>e. [?k e]"])
    show "\<exists>ts. andthen (if isAxiosError e \<and> js_truthy (server_error e)
         then toast Danger (Tr ''errors.delete_tenant'') else toast Danger (Tr ''tenants.delete_failed''))
         (throw e) w = (Inl e, w\<lparr>w_toasts := w_toasts w @ ts\<rparr>) \<and> errors_of ts = [?k e]" for e :: js_exn and w
      by (rule exI [of _ "[(Danger, ?k e)]"]) (simp add: io_simps)
  qed simp
qed

lemma behaves_current:
  "behaves 1 1 calm (getUserAuthorizedTenants be)" "behaves 1 1 calm (getCurrentUser be)"
  unfolding getUserAuthorizedTenants_def getCurrentUser_def
  by (rule behaves_quiet; simp add: client_rules)+

lemma behaves_export:
  "behaves 0 0 (single ''errors.export_mcp_server'') (andthen (exportMCPServer dump server) (ret None))"
proof (rule behaves_andthen [of 0 0 _ _ 0 0])
  have "behaves 0 0 calm (case dump server of None \<Rightarrow> throw (Error_exn ''YAMLException'')
      | Some config \<Rightarrow> andthen (toast Info (Tr ''gateway.exporting''))
          (\<lambda>w. (Inr (), w\<lparr>w_downloads := w_downloads w @ [(gw_name server @ ''.yaml'', config)]\<rparr>)))"
    by (cases "dump server")
       (auto intro!: behaves_throw behaves_silent simp: io_simps)
  then show "behaves 0 0 (single ''errors.export_mcp_server'') (exportMCPServer dump server)"
    unfolding exportMCPServer_def by (rule behaves_api_try)
qed (simp_all add: behave_rules)

section \<open>Creating and updating a tenant\<close>

lemma behaves_refuse:
  assumes "S (Error_exn m) [Tr k]"
  shows "behaves 0 0 S (refuse k m)"
proof (rule behavesI)
  fix w :: world and r :: "js_exn + 'a" and w'
  assume "refuse k m w = (r, w')"
  then have "r = Inl (Error_exn m)" "w' = w\<lparr>w_toasts := w_toasts w @ [(Danger, Tr k)]\<rparr>"
    by (auto simp: refuse_def io_simps)
  with assms show "\<exists>l ts. w_log w' = w_log w @ l \<and> 0 \<le> length l \<and> length l \<le> 0
     \<and> w_toasts w' = w_toasts w @ ts \<and> (case r of Inl e \<Rightarrow> S e (errors_of ts) | Inr x \<Rightarrow> errors_of ts = [])"
    by (intro exI [of _ "[]"] exI [of _ "[(Danger, Tr k)]"]) simp
qed

lemma behaves_post:
  assumes "\<And>e. \<not> thrown e \<Longrightarrow> S e []"
  shows "behaves 1 1 S (and_toast (api_post be url b) key)" "behaves 1 1 S (and_toast (api_put be url b) key)"
  unfolding api_post_def api_put_def by (intro behaves_and_toast behaves_send assms; assumption)+

text \<open>A tenant list that fails to load rejects with an error the code did not throw.\<close>

lemma not_thrown_try:
  assumes "\<And>w e. fst (m w) = Inl e \<Longrightarrow> \<not> thrown e" "fst (api_try k m w) = Inl e"
  shows "\<not> thrown e"
proof -
  obtain r w1 where m: "m w = (r, w1)" by (cases "m w")
  show ?thesis
  proof (cases r)
    case (Inl e1)
    with m assms(2) have "e = e1" by (auto simp: api_try_def handleApiError_def io_simps split: if_splits)
    with assms(1) [of w e1] m Inl show ?thesis by simp
  next
    case (Inr x)
    with m assms(2) show ?thesis by (simp add: api_try_def catch_def)
  qed
qed

lemma not_thrown_read:
  assumes "fst (bnd (api_get be url ps) data_or_whole w) = Inl e"
  shows "\<not> thrown e"
  using assms
  by (auto simp: bnd_def api_get_def send_def Let_def answer_outcome_def thrown_def data_or_whole_def
      get_field_def lift_res_def ret_def split: sum.splits answer.splits if_splits)

lemma behaves_known:
  assumes "behaves lo hi S m" "\<And>w e. fst (m w) = Inl e \<Longrightarrow> P e"
  shows "behaves lo hi (\<lambda>e ts. P e \<and> S e ts) m"
proof (rule behavesI)
  fix w r w'
  assume m: "m w = (r, w')"
  with assms(1) obtain l ts where *: "w_log w' = w_log w @ l" "lo \<le> length l" "length l \<le> hi"
    "w_toasts w' = w_toasts w @ ts" "case r of Inl e \<Rightarrow> S e (errors_of ts) | Inr x \<Rightarrow> errors_of ts = []"
    by (rule behavesE)
  then show "\<exists>l ts. w_log w' = w_log w @ l \<and> lo \<le> length l \<and> length l \<le> hi \<and> w_toasts w' = w_toasts w @ ts
     \<and> (case r of Inl e \<Rightarrow> P e \<and> S e (errors_of ts) | Inr x \<Rightarrow> errors_of ts = [])"
    using assms(2) [of w] m by (intro exI [of _ l] exI [of _ ts]) (cases r; simp)
qed

lemma behaves_readers:
  "behaves 1 1 (\<lambda>e ts. \<not> thrown e \<and> ts = [said ''errors.fetch_tenants'' e]) (getTenants be)"
  "behaves 1 1 (\<lambda>e ts. \<not> thrown e \<and> ts = [said ''errors.fetch_tenant'' e]) (getTenant be name)"
proof -
  have "\<not> thrown e" if "fst (getTenants be w) = Inl e" for w e
    using that unfolding getTenants_def by (rule not_thrown_try [rotated]) (rule not_thrown_read)
  then show "behaves 1 1 (\<lambda>e ts. \<not> thrown e \<and> ts = [said ''errors.fetch_tenants'' e]) (getTenants be)"
    by (rule behaves_known [OF behaves_getTenants])
  have "\<not> thrown e" if "fst (getTenant be name w) = Inl e" for w e
    using that unfolding getTenant_def by (rule not_thrown_try [rotated]) (rule not_thrown_read)
  then show "behaves 1 1 (\<lambda>e ts. \<not> thrown e \<and> ts = [said ''errors.fetch_tenant'' e]) (getTenant be name)"
    by (rule behaves_known [OF behaves_getTenant])
qed

text \<open>What is shown before the \<open>catch\<close> block is reached.\<close>

definition create_shown :: "js_exn \<Rightarrow> toast_text list \<Rightarrow> bool" where
  "create_shown e ts \<longleftrightarrow>
     (if thrown e then ts \<in> {[Tr ''errors.prefix_conflict''], [Tr ''tenants.root_prefix_not_allowed''],
         [Tr ''tenants.prefix_path_conflict'']}
      else ts \<in> {[], [said ''errors.fetch_tenants'' e]})"

definition update_shown :: "js_exn \<Rightarrow> toast_text list \<Rightarrow> bool" where
  "update_shown e ts \<longleftrightarrow>
     (if thrown e then e = Error_exn ''Prefix conflict'' \<and> ts = [Tr ''errors.prefix_conflict'']
      else ts \<in> {[], [said ''errors.fetch_tenant'' e], [said ''errors.fetch_tenants'' e]})"

lemma shown_nothing [simp]:
  "\<not> thrown e \<Longrightarrow> create_shown e []" "\<not> thrown e \<Longrightarrow> update_shown e []"
  "create_shown (Js_exn j) []" "update_shown (Js_exn j) []"
  by (simp_all add: create_shown_def update_shown_def thrown_def)

lemma behaves_create_body:
  "behaves 1 2 create_shown
     (bnd (getTenants be) (\<lambda>tenants.
      bnd (lift_res (prefixes_of tenants)) (\<lambda>existing.
        if checkPrefixConflict pfx existing None
        then refuse ''errors.prefix_conflict'' ''Prefix conflict''
        else let prefixed = slashed pfx in
          if prefixed = ''/''
          then refuse ''tenants.root_prefix_not_allowed'' ''Root prefix not allowed''
          else if checkPrefixConflict prefixed existing None
          then refuse ''tenants.prefix_path_conflict'' ''Prefix path conflict''
          else and_toast (api_post be ''/auth/tenants'' (create_body name prefixed description))
                 ''tenants.add_success'')))"
proof (rule behaves_bnd [of 1 1 _ _ 0 1])
  show "behaves 1 1 create_shown (getTenants be)"
    by (rule behaves_weaken [OF behaves_readers(1)]) (simp_all add: create_shown_def)
  have r: "behaves 0 1 create_shown (refuse k m :: jv io)"
    if "k \<in> {''errors.prefix_conflict'', ''tenants.root_prefix_not_allowed'', ''tenants.prefix_path_conflict''}"
    for k m
    by (rule behaves_weaken [of 0 0 create_shown], rule behaves_refuse) (use that in \<open>simp_all add: create_shown_def thrown_def\<close>)
  have p: "behaves 0 1 create_shown (and_toast (api_post be url b) key)" for url b key
    by (rule behaves_weaken [of 1 1 create_shown], rule behaves_post) simp_all
  show "behaves 0 1 create_shown (bnd (lift_res (prefixes_of tenants)) (\<lambda>existing.
        if checkPrefixConflict pfx existing None
        then refuse ''errors.prefix_conflict'' ''Prefix conflict''
        else let prefixed = slashed pfx in
          if prefixed = ''/''
          then refuse ''tenants.root_prefix_not_allowed'' ''Root prefix not allowed''
          else if checkPrefixConflict prefixed existing None
          then refuse ''tenants.prefix_path_conflict'' ''Prefix path conflict''
          else and_toast (api_post be ''/auth/tenants'' (create_body name prefixed description))
                 ''tenants.add_success''))" for tenants
  proof (rule behaves_bnd [of 0 0 _ _ 0 1])
    show "behaves 0 0 create_shown (lift_res (prefixes_of tenants))"
      by (rule behaves_lift) simp
  qed (simp_all add: Let_def r p del: One_nat_def)
qed simp

lemma behaves_createTenant:
  "behaves 1 2 (\<lambda>e ts. ts \<in> set (failure_texts (CreateTenant name pfx description) e))
     (createTenant be name pfx description)"
  unfolding createTenant_def
proof (rule behaves_catch [OF behaves_create_body, where X = create_adds])
  show "\<exists>ts. andthen (if isAxiosError e \<and> js_truthy (server_error e) \<and> \<not> str_includes (exn_message e) ''Prefix''
       then toast Danger (Tr ''tenants.add_failed'') else ret ()) (throw e) w
       = (Inl e, w\<lparr>w_toasts := w_toasts w @ ts\<rparr>) \<and> errors_of ts = create_adds e" for e :: js_exn and w
    by (rule exI [of _ "map (Pair Danger) (create_adds e)"]) (simp add: create_adds_def io_simps)
  show "create_shown e ts \<Longrightarrow> ts @ create_adds e \<in> set (failure_texts (CreateTenant name pfx description) e)" for e ts
    by (cases e) (auto simp: create_shown_def thrown_def create_adds_def isAxiosError_def split: if_splits)
qed

lemma behaves_check:
  assumes "str_truthy (tu_prefix d)"
  shows "behaves 1 2 update_shown (check_update_prefix be d)"
proof -
  from assms obtain pfx where pfx: "tu_prefix d = Some pfx" "pfx \<noteq> []"
    by (auto simp: str_truthy_def split: option.splits)
  let ?list = "\<lambda>current. bnd (getTenants be) (\<lambda>tenants. bnd (lift_res (prefixes_of tenants)) (\<lambda>existing.
      if checkPrefixConflict pfx existing (json_string current)
      then refuse ''errors.prefix_conflict'' ''Prefix conflict'' else ret ()))"
  have 1: "behaves 0 0 update_shown (if c then refuse ''errors.prefix_conflict'' ''Prefix conflict'' else ret ())" for c
    by (auto intro!: behaves_refuse behaves_ret simp: update_shown_def thrown_def)
  have 2: "behaves 0 1 update_shown (?list current)" for current
  proof (rule behaves_weaken [of 1 1 update_shown])
    show "behaves 1 1 update_shown (?list current)"
    proof (rule behaves_bnd [of 1 1 _ _ 0 0])
      show "behaves 1 1 update_shown (getTenants be)"
        by (rule behaves_weaken [OF behaves_readers(1)]) (simp_all add: update_shown_def)
      show "behaves 0 0 update_shown (bnd (lift_res (prefixes_of tenants)) (\<lambda>existing.
          if checkPrefixConflict pfx existing (json_string current)
          then refuse ''errors.prefix_conflict'' ''Prefix conflict'' else ret ()))" for tenants
        by (rule behaves_bnd [of 0 0 _ _ 0 0], rule behaves_lift) (simp_all add: 1 del: One_nat_def)
    qed simp
  qed simp_all
  have 3: "behaves 0 1 update_shown (ret ())"
    by (rule behaves_weaken [of 0 0 update_shown]) (simp_all add: behaves_ret)
  have "behaves 1 2 update_shown (bnd (getTenant be (tu_name d)) (\<lambda>currentTenant.
      bnd (get_field currentTenant ''prefix'') (\<lambda>current.
        if current \<noteq> Some (JStr pfx) then ?list current else ret ())))"
  proof (rule behaves_bnd [of 1 1 _ _ 0 1])
    show "behaves 1 1 update_shown (getTenant be (tu_name d))"
      by (rule behaves_weaken [OF behaves_readers(2)]) (simp_all add: update_shown_def)
    show "behaves 0 1 update_shown (bnd (get_field currentTenant ''prefix'') (\<lambda>current.
        if current \<noteq> Some (JStr pfx) then ?list current else ret ()))" for currentTenant
    proof (rule behaves_bnd [of 0 0 _ _ 0 1])
      show "behaves 0 0 update_shown (get_field currentTenant ''prefix'')"
        by (rule behaves_field) simp
      show "behaves 0 1 update_shown (if current \<noteq> Some (JStr pfx) then ?list current else ret ())" for current
        by (cases "current \<noteq> Some (JStr pfx)") (simp_all only: 2 3 if_True if_False not_True_eq_False not_False_eq_True simp_thms)
    qed simp
  qed simp
  then show ?thesis using pfx by (simp add: check_update_prefix_def)
qed

lemma behaves_updateTenant:
  "behaves (fst (request_bounds (UpdateTenant d))) (snd (request_bounds (UpdateTenant d)))
     (\<lambda>e ts. ts \<in> set (failure_texts (UpdateTenant d) e)) (updateTenant be d)"
  unfolding updateTenant_def
proof (rule behaves_catch [where X = update_adds and S = update_shown])
  have put: "behaves 1 1 update_shown (and_toast (api_put be ''/auth/tenants'' (update_body d)) ''tenants.edit_success'')"
    by (rule behaves_post) simp
  show "behaves (fst (request_bounds (UpdateTenant d))) (snd (request_bounds (UpdateTenant d))) update_shown
     (andthen (check_update_prefix be d) (and_toast (api_put be ''/auth/tenants'' (update_body d)) ''tenants.edit_success''))"
  proof (cases "str_truthy (tu_prefix d)")
    case True
    have "behaves 1 3 update_shown
       (andthen (check_update_prefix be d) (and_toast (api_put be ''/auth/tenants'' (update_body d)) ''tenants.edit_success''))"
      by (rule behaves_andthen [OF behaves_check [OF True] put]) simp
    with True show ?thesis by simp
  next
    case False
    then have "check_update_prefix be d = ret ()"
      by (auto simp: check_update_prefix_def str_truthy_def split: option.splits)
    with False put show ?thesis by (simp add: andthen_def)
  qed
  show "\<exists>ts. andthen (update_error_toast e) (throw e) w
       = (Inl e, w\<lparr>w_toasts := w_toasts w @ ts\<rparr>) \<and> errors_of ts = update_adds e" for e :: js_exn and w
    by (rule exI [of _ "map (Pair Danger) (update_adds e)"])
       (simp add: update_adds_def update_error_toast_def io_simps)
  show "update_shown e ts \<Longrightarrow> ts @ update_adds e \<in> set (failure_texts (UpdateTenant d) e)" for e ts
    by (cases e) (auto simp: update_shown_def thrown_def update_adds_def isAxiosError_def split: if_splits)
qed

section \<open>The contract\<close>

lemma behaves_call:
  "behaves (fst (request_bounds c)) (snd (request_bounds c)) (\<lambda>e ts. ts \<in> set (failure_texts c e)) (run_call be c)"
proof (cases c)
  case (CreateTenant name pfx description)
  then show ?thesis using behaves_createTenant [of name pfx description be] by (simp del: failure_texts.simps)
next
  case (UpdateTenant d)
  then show ?thesis using behaves_updateTenant [of d be] by (simp del: failure_texts.simps request_bounds.simps)
qed (simp_all add: behaves_endpoint behaves_getTenants behaves_getTenant behaves_deleteTenant behaves_current
       behaves_export del: One_nat_def)

text \<open>
  Property C5. Every function of the API client keeps its contract: it makes one request, except that
  creating a tenant makes one or two, updating one to three, and exporting none; when it resolves it
  shows no error toast, and when it rejects it shows exactly one of the lists of error toasts named
  for it, of which those of the tenants' changes may be empty or hold two.
\<close>

theorem api_contract:
  "(case run_call be c w of (r, w') \<Rightarrow>
      \<exists>l ts. w_log w' = w_log w @ l \<and> w_toasts w' = w_toasts w @ ts
        \<and> fst (request_bounds c) \<le> length l \<and> length l \<le> snd (request_bounds c)
        \<and> (case r of Inl e \<Rightarrow> errors_of ts \<in> set (failure_texts c e) | Inr x \<Rightarrow> errors_of ts = []))"
proof -
  obtain r w' where "run_call be c w = (r, w')" by (cases "run_call be c w")
  with behavesE [OF behaves_call this] show ?thesis by (simp only: prod.case) metis
qed

text \<open>How many toasts that makes: exactly one for every function but the four named.\<close>

lemma failures_shown_once:
  "(case c of CreateTenant name pfx description \<Rightarrow> False | UpdateTenant d \<Rightarrow> False
      | GetUserAuthorizedTenants \<Rightarrow> False | GetCurrentUser \<Rightarrow> False | _ \<Rightarrow> True)
   \<Longrightarrow> list_all (\<lambda>ts. length ts = 1) (failure_texts c e)"
  by (cases c) simp_all

lemma tenant_failures_shown:
  "list_all (\<lambda>ts. length ts \<le> 2) (failure_texts (CreateTenant name pfx description) e)"
  "list_all (\<lambda>ts. length ts \<le> 2) (failure_texts (UpdateTenant d) e)"
  by (simp_all add: create_adds_def update_adds_def)

end
