(* ===== verification/Session_Auth.thy ===== *)
theory Session_Auth
  imports Api_Contract
begin

text \<open>
  The session: \<open>src/web/src/pages/auth/login.tsx\<close>, the routes and their guard in \<open>App.tsx\<close>, the frame
  around every page in \<open>components/Layout.tsx\<close>, \<open>ChangePasswordDialog.tsx\<close>, \<open>LanguageSwitcher.tsx\<close> and
  the theme (\<open>main.tsx\<close>, \<open>hooks/useTheme.ts\<close>). The address is kept without the configured base; the
  parsed query and fragment of an address are arguments.
\<close>

section \<open>Routes\<close>

datatype page = Login_page | Gateway_page | Capabilities_page string string | Versions_page
  | Users_page | Tenants_page | Empty_page

definition path_segments :: "string \<Rightarrow> string list" where
  "path_segments p = filter (\<lambda>s. s \<noteq> []) (split_on (CHR ''/'') p)"

text \<open>The routes of \<open>MainLayout\<close>, matched as documented for the router: the fixed segments in any case, and
  of several routes that match the most specific one.\<close>

definition main_route :: "string list \<Rightarrow> page" where
  "main_route segs =
     (let low = map to_lower segs in
      if segs = [] then Gateway_page
      else if length segs = 4 \<and> take 2 low = [''gateway'', ''capabilities'']
      then Capabilities_page (segs ! 2) (segs ! 3)
      else if length segs = 4 \<and> take 2 low = [''gateway'', ''configs''] \<and> low ! 3 = ''versions''
      then Versions_page
      else if hd low = ''gateway'' then Gateway_page
      else if low = [''config-versions''] then Versions_page
      else if low = [''users''] then Users_page
      else if low = [''tenants''] then Tenants_page
      else Empty_page)"

lemma main_route_capabilities: "main_route [''gateway'', ''capabilities'', t, n] = Capabilities_page t n"
proof -
  have "to_lower ''gatewaycpblis'' = ''gatewaycpblis''" by code_simp
  then show ?thesis by (simp add: main_route_def)
qed

text \<open>The guard is at the outer route and again around most inner ones, with the same condition at the
  same time; the model has it once.\<close>

definition logged_in :: "world \<Rightarrow> bool" where
  "logged_in w \<longleftrightarrow> str_truthy (w_storage w ''token'')"

definition navigate :: "string \<Rightarrow> world \<Rightarrow> world" where
  "navigate p w = w\<lparr>w_path := p\<rparr>"

definition PrivateRoute :: "page \<Rightarrow> world \<Rightarrow> world \<times> page" where
  "PrivateRoute child w = (if \<not> logged_in w then (navigate ''/login'' w, Login_page) else (w, child))"

definition App :: "world \<Rightarrow> world \<times> page" where
  "App w = (let segs = path_segments (w_path w)
     in if map to_lower segs = [''login''] then (w, Login_page) else PrivateRoute (main_route segs) w)"

section \<open>Storage, toasts\<close>

definition set_item :: "string \<Rightarrow> string \<Rightarrow> unit io" where
  "set_item k v w = (Inr (), w\<lparr>w_storage := (w_storage w)(k \<mapsto> v)\<rparr>)"

definition remove_item :: "string \<Rightarrow> unit io" where
  "remove_item k w = (Inr (), w\<lparr>w_storage := (w_storage w)(k := None)\<rparr>)"

definition go :: "string \<Rightarrow> unit io" where
  "go p w = (Inr (), navigate p w)"

text \<open>\<open>setItem\<close> stores \<open>String(v)\<close>.\<close>

definition storage_text :: "jv \<Rightarrow> string" where
  "storage_text v = (case v of None \<Rightarrow> ''undefined'' | Some j \<Rightarrow> json_text j)"

definition error_toast :: "js_exn \<Rightarrow> string \<Rightarrow> unit io" where
  "error_toast e fallback =
     (if isAxiosError e \<and> js_truthy (server_error e) then toast Danger (Server (the (server_error e)))
      else toast Danger (Tr fallback))"

section \<open>Login\<close>

record login_page =
  lp_username :: string
  lp_password :: string
  lp_loading :: bool
  lp_oauthProviders :: jv

definition open_login :: login_page where
  "open_login = \<lparr>lp_username = [], lp_password = [], lp_loading = False, lp_oauthProviders = Some (JObj [])\<rparr>"

definition login_body :: "string \<Rightarrow> string \<Rightarrow> body" where
  "login_body username password = JsonBody (JObj [(''username'', JStr username), (''password'', JStr password)])"

definition handleLogin :: "backend \<Rightarrow> login_page \<Rightarrow> (login_page \<Rightarrow> login_page) io" where
  "handleLogin be st =
     andthen
       (catch
         (bnd (api_post be ''/auth/login'' (login_body (lp_username st) (lp_password st))) (\<lambda>data.
          bnd (get_field data ''token'') (\<lambda>token.
          andthen (set_item ''token'' (storage_text token))
            (andthen (toast Success (Tr ''auth.login_success'')) (go ''/'')))))
         (\<lambda>e. error_toast e ''auth.login_failed''))
       (ret (\<lambda>s. s\<lparr>lp_loading := False\<rparr>))"

definition login_begins :: "login_page \<Rightarrow> login_page" where
  "login_begins st = st\<lparr>lp_loading := True\<rparr>"

definition loadOAuthProviders :: "backend \<Rightarrow> (login_page \<Rightarrow> login_page) io" where
  "loadOAuthProviders be =
     catch (bnd (api_get be ''/auth/oauth/providers'' []) (\<lambda>data.
            bnd (get_field data ''providers'') (\<lambda>p.
              ret (\<lambda>s. s\<lparr>lp_oauthProviders := js_or p (Some (JObj []))\<rparr>))))
       (\<lambda>e. ret id)"

definition shows_provider :: "login_page \<Rightarrow> string \<Rightarrow> bool" where
  "shows_provider st provider =
     js_truthy (js_opt_field (js_opt_field (lp_oauthProviders st) provider) ''enabled'')"

definition handleOAuthLogin :: "backend \<Rightarrow> string \<Rightarrow> unit io" where
  "handleOAuthLogin be provider =
     catch (bnd (api_get be (''/auth/oauth/'' @ provider @ ''/login'') []) (\<lambda>data.
            bnd (get_field data ''auth_url'') (\<lambda>authUrl.
            bnd (get_field data ''state'') (\<lambda>state.
            andthen (set_item ''oauth_state'' (storage_text state)) (go (storage_text authUrl))))))
       (\<lambda>e. error_toast e ''auth.oauth_login_failed'')"

definition oauth_message :: "string \<Rightarrow> string" where
  "oauth_message message =
     (if message = ''oauth_not_enabled'' then ''OAuth is not enabled on this server''
      else if message = ''invalid_state'' then ''Invalid OAuth state. Please try again.''
      else if message = ''missing_parameters'' then ''Missing OAuth parameters''
      else if message = ''token_exchange_failed'' then ''Failed to exchange OAuth code for token''
      else if message = ''user_info_failed'' then ''Failed to get user information''
      else if message = ''user_creation_failed'' then ''Failed to create or update user account''
      else ''OAuth error: '' @ message)"

definition handleOAuthCallback :: "string obj \<Rightarrow> string obj \<Rightarrow> unit io" where
  "handleOAuthCallback urlParams fragmentParams =
     (let oauth = obj_get urlParams ''oauth'';
          token = obj_get fragmentParams ''token''
      in if oauth = Some ''success'' then
           if str_truthy token \<and> str_truthy (obj_get fragmentParams ''user_id'')
              \<and> str_truthy (obj_get fragmentParams ''username'') \<and> str_truthy (obj_get fragmentParams ''role'')
           then andthen (set_item ''token'' (the token)) (andthen (remove_item ''oauth_state'')
             (andthen (toast Success (Tr ''auth.login_success'')) (go ''/'')))
           else andthen (toast Danger (Tr ''auth.oauth_login_failed'')) (go ''/login'')
         else if oauth = Some ''error'' then
           andthen (remove_item ''oauth_state'')
             (andthen (toast Danger (Server (JStr (oauth_message (ostr_or (obj_get urlParams ''message'') ''unknown_error'')))))
               (go ''/login''))
         else ret ())"

text \<open>The effect when the login page opens; the theme is below.\<close>

definition login_effect :: "backend \<Rightarrow> string obj \<Rightarrow> string obj \<Rightarrow> (login_page \<Rightarrow> login_page) io" where
  "login_effect be urlParams fragmentParams =
     andthen (\<lambda>w. (Inr (), if logged_in w then navigate ''/'' w else w))
       (andthen (handleOAuthCallback urlParams fragmentParams) (loadOAuthProviders be))"

section \<open>The frame\<close>

record layout =
  ly_isCollapsed :: bool
  ly_isDark :: bool
  ly_isChangePasswordOpen :: bool
  ly_isWechatQRCodeOpen :: bool
  ly_userInfo :: jv
  ly_darkClass :: bool

text \<open>The class \<open>dark\<close> of the document: at start-up, when the application and the login page mount,
  in the frame's effect, and in the hook that watches it.\<close>

definition startup_class :: "string option \<Rightarrow> bool \<Rightarrow> bool" where
  "startup_class savedTheme class =
     (if savedTheme = Some ''dark'' then True else if savedTheme = Some ''light'' then False else class)"

definition ThemeInitializer :: "string option \<Rightarrow> bool" where
  "ThemeInitializer savedTheme \<longleftrightarrow> savedTheme = Some ''dark''"

definition login_theme :: "string option \<Rightarrow> bool" where
  "login_theme savedTheme \<longleftrightarrow> savedTheme = Some ''dark''"

definition useTheme :: "string option \<Rightarrow> bool" where
  "useTheme savedTheme \<longleftrightarrow> savedTheme = Some ''dark''"

definition useTheme_observer :: "bool \<Rightarrow> bool" where
  "useTheme_observer class = class"

definition theme_effect :: "layout \<Rightarrow> layout" where
  "theme_effect ly = ly\<lparr>ly_darkClass := ly_isDark ly\<rparr>"

definition open_layout :: "world \<Rightarrow> layout" where
  "open_layout w = theme_effect \<lparr>ly_isCollapsed = False, ly_isDark = (w_storage w ''theme'' = Some ''dark''),
     ly_isChangePasswordOpen = False, ly_isWechatQRCodeOpen = False, ly_userInfo = Some JNull,
     ly_darkClass = ThemeInitializer (w_storage w ''theme'')\<rparr>"

definition toggleTheme :: "layout \<times> world \<Rightarrow> layout \<times> world" where
  "toggleTheme s = (case s of (ly, w) \<Rightarrow>
     (theme_effect (ly\<lparr>ly_isDark := \<not> ly_isDark ly, ly_darkClass := \<not> ly_darkClass ly\<rparr>),
      w\<lparr>w_storage := (w_storage w)(''theme'' \<mapsto> (if \<not> ly_isDark ly then ''dark'' else ''light''))\<rparr>))"

definition fetchUserInfo :: "backend \<Rightarrow> (layout \<Rightarrow> layout) io" where
  "fetchUserInfo be =
     catch (bnd (getCurrentUser be) (\<lambda>data. ret (\<lambda>ly. ly\<lparr>ly_userInfo := data\<rparr>)))
       (\<lambda>e. andthen (toast Danger (Tr ''errors.fetch_user'')) (ret id))"

text \<open>The entries of the menu, as pairs of their key and path.\<close>

definition menuGroups :: "layout \<Rightarrow> (string \<times> (string \<times> string) list) list" where
  "menuGroups ly =
     [(''gateway-config'', [(''gateway'', ''/gateway''), (''config-versions'', ''/config-versions'')])]
     @ (if js_opt_field (ly_userInfo ly) ''role'' = Some (JStr ''admin'')
        then [(''management'', [(''users'', ''/users''), (''tenants'', ''/tenants'')])] else [])"

definition item_active :: "string \<Rightarrow> string \<Rightarrow> bool" where
  "item_active pathname path = (if path = ''/'' then pathname = ''/'' else starts_with pathname path)"

definition handleLogout :: "unit io" where
  "handleLogout = andthen (remove_item ''token'') (go ''/login'')"

definition toggle_sidebar :: "layout \<Rightarrow> layout" where
  "toggle_sidebar ly = ly\<lparr>ly_isCollapsed := \<not> ly_isCollapsed ly\<rparr>"

definition open_wechat :: "bool \<Rightarrow> layout \<Rightarrow> layout" where
  "open_wechat b ly = ly\<lparr>ly_isWechatQRCodeOpen := b\<rparr>"

definition open_change_password :: "bool \<Rightarrow> layout \<Rightarrow> layout" where
  "open_change_password b ly = ly\<lparr>ly_isChangePasswordOpen := b\<rparr>"

section \<open>Language\<close>

definition languages :: "string list" where
  "languages = [''en'', ''zh'']"

definition handleLanguageChange :: "string \<Rightarrow> unit io" where
  "handleLanguageChange languageCode =
     andthen (\<lambda>w. (Inr (), w\<lparr>w_lang := languageCode\<rparr>)) (set_item ''i18nextLng'' languageCode)"

definition currentLanguage :: "world \<Rightarrow> string" where
  "currentLanguage w = (case find (\<lambda>l. l = w_lang w) languages of Some l \<Rightarrow> l | None \<Rightarrow> hd languages)"

section \<open>Changing the password\<close>

record password_dialog =
  pd_oldPassword :: string
  pd_newPassword :: string
  pd_confirmPassword :: string
  pd_loading :: bool

definition empty_dialog :: password_dialog where
  "empty_dialog = \<lparr>pd_oldPassword = [], pd_newPassword = [], pd_confirmPassword = [], pd_loading = False\<rparr>"

definition submit_begins :: "password_dialog \<Rightarrow> password_dialog" where
  "submit_begins st = st\<lparr>pd_loading := True\<rparr>"

text \<open>The changes of the dialog and, by \<open>onOpenChange\<close>, of the frame.\<close>

definition handleSubmit ::
    "backend \<Rightarrow> password_dialog \<Rightarrow> ((password_dialog \<Rightarrow> password_dialog) \<times> (layout \<Rightarrow> layout)) io" where
  "handleSubmit be st =
     (if pd_newPassword st \<noteq> pd_confirmPassword st
      then andthen (toast Danger (Tr ''auth.password_mismatch'')) (ret (id, id))
      else bnd
        (catch
          (andthen (api_post be ''/auth/change-password'' (JsonBody (JObj
              [(''oldPassword'', JStr (pd_oldPassword st)), (''newPassword'', JStr (pd_newPassword st))])))
            (andthen (toast Success (Tr ''auth.password_change_success''))
              (ret (\<lambda>s. empty_dialog, open_change_password False))))
          (\<lambda>e. andthen (error_toast e ''auth.password_change_failed'') (ret (id, id))))
        (\<lambda>(f, g). ret (\<lambda>s. (f s)\<lparr>pd_loading := False\<rparr>, g)))"

section \<open>Sessions\<close>

datatype session_action =
    Log_in string string
  | Oauth_return "string obj" "string obj"
  | Log_out
  | Visit string
  | Use_client api_call
  | Load_user
  | Load_providers
  | Choose_language string
  | Submit_password password_dialog

fun session_do :: "backend \<Rightarrow> session_action \<Rightarrow> world \<Rightarrow> world" where
  "session_do be (Log_in u p) w = snd (handleLogin be (open_login\<lparr>lp_username := u, lp_password := p\<rparr>) w)"
| "session_do be (Oauth_return q f) w = snd (handleOAuthCallback q f w)"
| "session_do be Log_out w = snd (handleLogout w)"
| "session_do be (Visit p) w = fst (App (navigate p w))"
| "session_do be (Use_client c) w = snd (run_call be c w)"
| "session_do be Load_user w = snd (fetchUserInfo be w)"
| "session_do be Load_providers w = snd (loadOAuthProviders be w)"
| "session_do be (Choose_language l) w = snd (handleLanguageChange l w)"
| "session_do be (Submit_password d) w = snd (handleSubmit be d w)"

fun signs_in :: "session_action \<Rightarrow> bool" where
  "signs_in (Log_in u p) = True"
| "signs_in (Oauth_return q f) = True"
| "signs_in _ = False"

text \<open>An effect that, started without a token, stores none and sends none.\<close>

definition no_auth :: "request \<Rightarrow> bool" where
  "no_auth rq \<longleftrightarrow> obj_get (rq_headers rq) ''Authorization'' = None"

definition stays_out :: "world \<Rightarrow> world \<Rightarrow> bool" where
  "stays_out w w' \<longleftrightarrow> w_storage w' ''token'' = None \<and> (\<exists>l. w_log w' = w_log w @ l \<and> list_all no_auth l)"

definition anonymous :: "'a io \<Rightarrow> bool" where
  "anonymous m \<longleftrightarrow> (\<forall>w. w_storage w ''token'' = None \<longrightarrow> stays_out w (snd (m w)))"

named_theorems anon_rules \<open>effects that keep a session anonymous\<close>

lemma stays_out_refl: "w_storage w ''token'' = None \<Longrightarrow> stays_out w w"
  by (simp add: stays_out_def)

lemma stays_out_trans: "stays_out w w' \<Longrightarrow> stays_out w' w'' \<Longrightarrow> stays_out w w''"
  by (auto simp: stays_out_def)

lemma stays_out_token: "stays_out w w' \<Longrightarrow> w_storage w' ''token'' = None"
  by (simp add: stays_out_def)

lemma anonymousI: "(\<And>w. w_storage w ''token'' = None \<Longrightarrow> stays_out w (snd (m w))) \<Longrightarrow> anonymous m"
  by (simp add: anonymous_def)

lemma anonymousD: "anonymous m \<Longrightarrow> w_storage w ''token'' = None \<Longrightarrow> m w = (r, w') \<Longrightarrow> stays_out w w'"
  unfolding anonymous_def by (metis snd_conv)

lemma anon_silent [anon_rules]: "anonymous (ret x)" "anonymous (throw e)" "anonymous (toast k m)" "anonymous (go p)"
  by (auto simp: anonymous_def stays_out_def ret_def throw_def toast_def go_def navigate_def)

lemma anon_lift [anon_rules]: "anonymous (lift_res r)"
  by (auto simp: anonymous_def stays_out_def lift_res_def split: sum.split)

lemma anon_field [anon_rules]: "anonymous (get_field v k)"
  unfolding get_field_def by (rule anon_lift)

lemma anon_set_item [anon_rules]: "k \<noteq> ''token'' \<Longrightarrow> anonymous (set_item k v)"
  by (simp add: anonymous_def stays_out_def set_item_def)

lemma anon_bnd [anon_rules]:
  assumes "anonymous m" "\<And>x. anonymous (f x)"
  shows "anonymous (bnd m f)"
proof (rule anonymousI)
  fix w :: world assume w: "w_storage w ''token'' = None"
  obtain r w' where m: "m w = (r, w')" by (cases "m w")
  from anonymousD [OF assms(1) w m] have s: "stays_out w w'" .
  show "stays_out w (snd (bnd m f w))"
  proof (cases r)
    case (Inr x)
    obtain r2 w2 where f: "f x w' = (r2, w2)" by (cases "f x w'")
    from anonymousD [OF assms(2) stays_out_token [OF s] f] s have "stays_out w w2"
      by (blast intro: stays_out_trans)
    with m f Inr show ?thesis by (simp add: bnd_def)
  qed (use m s in \<open>simp add: bnd_def\<close>)
qed

lemma anon_andthen [anon_rules]: "anonymous m \<Longrightarrow> anonymous n \<Longrightarrow> anonymous (andthen m n)"
  unfolding andthen_def by (rule anon_bnd)

lemma anon_catch [anon_rules]:
  assumes "anonymous m" "\<And>e. anonymous (h e)"
  shows "anonymous (catch m h)"
proof (rule anonymousI)
  fix w :: world assume w: "w_storage w ''token'' = None"
  obtain r w' where m: "m w = (r, w')" by (cases "m w")
  from anonymousD [OF assms(1) w m] have s: "stays_out w w'" .
  show "stays_out w (snd (catch m h w))"
  proof (cases r)
    case (Inl e)
    obtain r2 w2 where h: "h e w' = (r2, w2)" by (cases "h e w'")
    from anonymousD [OF assms(2) stays_out_token [OF s] h] s have "stays_out w w2"
      by (blast intro: stays_out_trans)
    with m h Inl show ?thesis by (simp add: catch_def)
  qed (use m s in \<open>simp add: catch_def\<close>)
qed

lemma anon_send [anon_rules]:
  assumes "no_auth rq"
  shows "anonymous (send be rq)"
proof (rule anonymousI)
  fix w :: world assume "w_storage w ''token'' = None"
  with assms show "stays_out w (snd (send be rq w))"
    by (auto simp: stays_out_def send_def response_interceptor_def request_interceptor_def no_auth_def
        Let_def obj_get_set split: sum.split)
qed

lemma no_auth_requests [simp]:
  "no_auth (method_request m u)" "no_auth (rq\<lparr>rq_body := b\<rparr>) = no_auth rq"
  "no_auth (rq\<lparr>rq_params := ps\<rparr>) = no_auth rq" "no_auth (with_content_type c rq) = no_auth rq"
  by (simp_all add: no_auth_def method_request_def with_content_type_def obj_get_set obj_get_def)

lemma anon_api [anon_rules]:
  "anonymous (api_get be u ps)" "anonymous (api_delete be u)" "anonymous (api_post be u b)"
  "anonymous (api_put be u b)"
  by (simp_all add: api_get_def api_delete_def api_post_def api_put_def anon_send)

lemma anon_handlers [anon_rules]:
  "anonymous (handleApiError e k)" "anonymous (error_toast e k)"
  "anonymous (data_or_whole d)" "anonymous (inner_data d)"
  by (simp_all add: handleApiError_def error_toast_def data_or_whole_def inner_data_def anon_rules)

lemma anon_try [anon_rules]: "anonymous m \<Longrightarrow> anonymous (api_try k m)" "anonymous m \<Longrightarrow> anonymous (toast_try k m)"
  unfolding api_try_def toast_try_def by (intro anon_rules; assumption)+

lemma anon_and_toast [anon_rules]: "anonymous m \<Longrightarrow> anonymous (and_toast m k)"
  unfolding and_toast_def by (intro anon_rules)

lemma anon_call: "anonymous (call be ep)"
  by (cases ep) (simp_all add: endpoint_defs anon_rules)

lemma anon_tenants [anon_rules]:
  "anonymous (getTenants be)" "anonymous (getTenant be name)" "anonymous (refuse k m)"
  by (simp_all add: getTenants_def getTenant_def refuse_def anon_rules)

lemma anon_if: "anonymous m \<Longrightarrow> anonymous n \<Longrightarrow> anonymous (if b then m else n)"
  by simp

lemma anon_createTenant: "anonymous (createTenant be name pfx description)"
  unfolding createTenant_def Let_def by (intro anon_rules anon_if)

lemma anon_updateTenant: "anonymous (updateTenant be d)"
proof -
  have "anonymous (check_update_prefix be d)"
    unfolding check_update_prefix_def by (cases "tu_prefix d") (simp_all add: anon_rules)
  moreover have "anonymous (update_error_toast e)" for e
    unfolding update_error_toast_def by (intro anon_if anon_rules)
  ultimately show ?thesis unfolding updateTenant_def by (intro anon_rules)
qed

lemma anon_deleteTenant: "anonymous (deleteTenant be name)"
  unfolding deleteTenant_def by (intro anon_rules anon_if)

lemma anon_export: "anonymous (exportMCPServer dump server)"
proof -
  have "anonymous (\<lambda>w. (Inr (), w\<lparr>w_downloads := ds w\<rparr>))" for ds
    by (simp add: anonymous_def stays_out_def)
  then show ?thesis
    unfolding exportMCPServer_def by (cases "dump server") (simp_all add: anon_rules)
qed

lemma anon_run_call: "anonymous (run_call be c)"
  by (cases c) (simp_all add: anon_call anon_rules anon_createTenant anon_updateTenant anon_deleteTenant
      anon_export getUserAuthorizedTenants_def getCurrentUser_def)

lemma anon_session:
  assumes "\<not> signs_in a" "w_storage w ''token'' = None"
  shows "stays_out w (session_do be a w)"
proof -
  have "anonymous (fetchUserInfo be)" "anonymous (loadOAuthProviders be)"
    "anonymous (handleLanguageChange l)" "anonymous (handleSubmit be d)" for l d
    by (auto simp: fetchUserInfo_def loadOAuthProviders_def handleLanguageChange_def handleSubmit_def
        getCurrentUser_def intro!: anon_rules simp: anonymous_def [of "\<lambda>w. (Inr (), w\<lparr>w_lang := l\<rparr>)"] stays_out_def)
  with assms anon_run_call show ?thesis
    by (cases a) (auto simp: anonymous_def stays_out_def handleLogout_def io_simps remove_item_def go_def
        navigate_def App_def PrivateRoute_def Let_def)
qed

lemma anon_fold:
  "list_all (\<lambda>a. \<not> signs_in a) as \<Longrightarrow> w_storage w ''token'' = None \<Longrightarrow> stays_out w (fold (session_do be) as w)"
proof (induction as arbitrary: w)
  case (Cons a as)
  then have s: "stays_out w (session_do be a w)" by (simp add: anon_session)
  with Cons have "stays_out (session_do be a w) (fold (session_do be) as (session_do be a w))"
    by (simp add: stays_out_token)
  with s show ?case by (auto intro: stays_out_trans)
qed (simp add: stays_out_refl)

text \<open>
  Property C2. Logging out ends the session: whatever is visited, called or changed afterwards, until somebody
  signs in again no request carries an authorization header and every address shows the login page.
\<close>

theorem logout_ends_the_session:
  assumes "list_all (\<lambda>a. \<not> signs_in a) actions"
  shows "let w' = fold (session_do be) actions (session_do be Log_out w)
    in (\<exists>l. w_log w' = w_log w @ l \<and> list_all (\<lambda>rq. obj_get (rq_headers rq) ''Authorization'' = None) l)
       \<and> snd (App (navigate p w')) = Login_page"
proof -
  let ?w = "session_do be Log_out w"
  have "w_storage ?w ''token'' = None" "w_log ?w = w_log w"
    by (simp_all add: handleLogout_def io_simps remove_item_def go_def navigate_def)
  with anon_fold [OF assms, of ?w be] show ?thesis
    by (auto simp: Let_def stays_out_def no_auth_def [abs_def] App_def PrivateRoute_def logged_in_def
        navigate_def str_truthy_def)
qed

theorem logout_ends_the_session_witness:
  "let w = start_world\<lparr>w_storage := [''token'' \<mapsto> ''abc'']\<rparr>;
       w' = fold (session_do (\<lambda>_ _. Answered 200 None)) [Use_client (Plain GetUsers), Visit ''/users'']
              (session_do (\<lambda>_ _. Answered 200 None) Log_out w)
   in snd (App (navigate ''/gateway'' w')) = Login_page"
  using logout_ends_the_session [of "[Use_client (Plain GetUsers), Visit ''/users'']" "\<lambda>_ _. Answered 200 None"
      "start_world\<lparr>w_storage := [''token'' \<mapsto> ''abc'']\<rparr>" "''/gateway''"]
  by (simp add: Let_def del: fold_simps session_do.simps)

section \<open>Signing in\<close>

lemma api_post_storage:
  "api_post be u b w = (Inr d, w') \<Longrightarrow> w_storage w' = w_storage w \<and> w_path w' = w_path w \<and> w_toasts w' = w_toasts w"
  by (auto simp: api_post_def send_def Let_def split: sum.splits)

text \<open>
  A login the backend accepts starts a session: the token of the answer is stored, the gateway page is
  shown, and every request from then on carries the token.
\<close>

theorem accepted_login_starts_session:
  assumes "fst (api_post be ''/auth/login'' (login_body (lp_username st) (lp_password st)) w) = Inr (Some (JObj answer))"
      and "obj_get answer ''token'' = Some (JStr token)" "token \<noteq> []"
  shows "let w' = snd (handleLogin be st w)
    in snd (App w') = Gateway_page \<and> w_storage w' ''token'' = Some token
       \<and> w_toasts w' = w_toasts w @ [(Success, Tr ''auth.login_success'')]
       \<and> obj_get (rq_headers (request_interceptor w' rq)) ''Authorization'' = Some (''Bearer '' @ token)"
proof -
  obtain w1 where post: "api_post be ''/auth/login'' (login_body (lp_username st) (lp_password st)) w
      = (Inr (Some (JObj answer)), w1)"
    using assms(1) by (cases "api_post be ''/auth/login'' (login_body (lp_username st) (lp_password st)) w") simp
  have field: "js_field (Some (JObj answer)) ''token'' = Inr (Some (JStr token))"
    using assms(2) by (simp add: js_field_def)
  have "handleLogin be st w = (Inr (\<lambda>s. s\<lparr>lp_loading := False\<rparr>),
      navigate ''/'' (w1\<lparr>w_storage := (w_storage w1)(''token'' \<mapsto> token), w_toasts := w_toasts w1 @ [(Success, Tr ''auth.login_success'')]\<rparr>))"
    by (simp add: handleLogin_def io_simps post field assms(2) set_item_def go_def storage_text_def)
  moreover have "path_segments ''/'' = []" by code_simp
  ultimately show ?thesis
    using api_post_storage [OF post] assms(3)
    by (simp add: Let_def App_def PrivateRoute_def logged_in_def navigate_def str_truthy_def main_route_def
        request_interceptor_def obj_get_set)
qed

theorem accepted_login_starts_session_witness:
  "snd (App (snd (handleLogin (\<lambda>_ _. Answered 200 (Some (JObj [(''token'', JStr ''abc'')]))) open_login start_world)))
   = Gateway_page"
proof -
  have "fst (api_post (\<lambda>_ _. Answered 200 (Some (JObj [(''token'', JStr ''abc'')]))) ''/auth/login''
      (login_body (lp_username open_login) (lp_password open_login)) start_world)
    = Inr (Some (JObj [(''token'', JStr ''abc'')]))"
    by (simp add: api_post_def send_def answer_outcome_def Let_def)
  from accepted_login_starts_session [OF this] show ?thesis by (simp add: Let_def obj_get_def)
qed

text \<open>
  A login the backend refuses starts none: without a token stored before, none is stored after, the
  login page stays, and exactly one error is shown.
\<close>

theorem refused_login_stays_out:
  assumes "fst (api_post be ''/auth/login'' (login_body (lp_username st) (lp_password st)) w) = Inl e"
      and "w_path w = ''/login''" "w_storage w ''token'' = None"
  shows "let w' = snd (handleLogin be st w)
    in w_storage w' ''token'' = None \<and> w_path w' = ''/login''
       \<and> (\<exists>t. w_toasts w' = w_toasts w @ [(Danger, t)])
       \<and> (\<exists>u. fst (handleLogin be st w) = Inr u \<and> \<not> lp_loading (u st))"
proof -
  obtain w1 where post: "api_post be ''/auth/login'' (login_body (lp_username st) (lp_password st)) w = (Inl e, w1)"
    using assms(1) by (cases "api_post be ''/auth/login'' (login_body (lp_username st) (lp_password st)) w") simp
  then have "w_storage w1 ''token'' = None" "w_path w1 = ''/login''" "w_toasts w1 = w_toasts w"
    using assms(2,3)
    by (auto simp: api_post_def send_def response_interceptor_def Let_def split: sum.splits if_splits)
  with post show ?thesis
    by (simp add: handleLogin_def io_simps error_toast_def Let_def)
qed

theorem refused_login_stays_out_witness:
  "let w' = snd (handleLogin (\<lambda>_ _. Answered 401 None) open_login (start_world\<lparr>w_path := ''/login'', w_storage := Map.empty\<rparr>))
   in w_storage w' ''token'' = None \<and> w_path w' = ''/login''"
proof -
  let ?w = "start_world\<lparr>w_path := ''/login'', w_storage := Map.empty\<rparr>"
  have "fst (api_post (\<lambda>_ _. Answered 401 None) ''/auth/login''
      (login_body (lp_username open_login) (lp_password open_login)) ?w)
    = Inl (Axios_error (''Request failed with status code '' @ nat_str 401) (Some (401, None)))"
    by (simp add: api_post_def send_def answer_outcome_def Let_def)
  from refused_login_stays_out [OF this] show ?thesis by (simp add: Let_def)
qed

text \<open>
  A finding: the state kept for the round trip through the OAuth provider is never looked at. Any
  address with the success parameters signs in with the token it names, whatever state is stored.
\<close>

theorem oauth_callback_ignores_state:
  "w_storage (snd (handleOAuthCallback [(''oauth'', ''success'')]
      [(''token'', token), (''user_id'', ''1''), (''username'', ''u''), (''role'', ''normal'')]
      (w\<lparr>w_storage := (w_storage w)(''oauth_state'' := state)\<rparr>))) ''token''
   = (if token = [] then w_storage w ''token'' else Some token)"
  by (simp add: handleOAuthCallback_def Let_def obj_get_def str_truthy_def io_simps set_item_def
      remove_item_def go_def navigate_def)

text \<open>
  A finding: an answer to the login without a token is stored as the text \<open>undefined\<close>; the login is
  reported as successful and the guard lets the user in.
\<close>

theorem login_without_token_signs_in:
  "let w' = snd (handleLogin (\<lambda>_ _. Answered 200 (Some (JObj []))) st w)
   in w_storage w' ''token'' = Some ''undefined'' \<and> snd (App w') = Gateway_page"
proof -
  have "path_segments ''/'' = []" by code_simp
  then show ?thesis
    by (simp add: handleLogin_def api_post_def send_def answer_outcome_def io_simps js_field_def obj_get_def
        set_item_def go_def navigate_def storage_text_def App_def PrivateRoute_def logged_in_def str_truthy_def
        main_route_def Let_def)
qed

section \<open>Theme and password\<close>

lemma toggle_theme_inv:
  assumes "ly_darkClass (fst s) = ly_isDark (fst s)"
    "ly_isDark (fst s) = (w_storage (snd s) ''theme'' = Some ''dark'')"
  shows "ly_darkClass (fst (toggleTheme s)) = ly_isDark (fst (toggleTheme s))
    \<and> ly_isDark (fst (toggleTheme s)) = (w_storage (snd (toggleTheme s)) ''theme'' = Some ''dark'')"
  using assms by (cases s) (simp add: toggleTheme_def theme_effect_def)

text \<open>
  The theme is remembered: however often it is switched, the document has the class the frame shows,
  and the frame, the login page, the start-up code and the theme hook come up with the same theme
  when the application is opened again.
\<close>

theorem theme_is_remembered:
  "let (ly, w') = (toggleTheme ^^ n) (open_layout w, w); saved = w_storage w' ''theme''
   in ly_darkClass ly = ly_isDark ly \<and> ly_isDark (open_layout w') = ly_isDark ly
      \<and> login_theme saved = ly_isDark ly \<and> ThemeInitializer saved = ly_isDark ly
      \<and> useTheme saved = ly_isDark ly
      \<and> (n = 0 \<or> startup_class saved class = ly_isDark ly)"
proof -
  let ?s = "(toggleTheme ^^ n) (open_layout w, w)"
  have inv: "ly_darkClass (fst ?s) = ly_isDark (fst ?s)
      \<and> ly_isDark (fst ?s) = (w_storage (snd ?s) ''theme'' = Some ''dark'')"
  proof (induction n)
    case 0
    then show ?case by (simp add: open_layout_def theme_effect_def)
  next
    case (Suc n)
    then show ?case using toggle_theme_inv by auto
  qed
  have "n = 0 \<or> w_storage (snd ?s) ''theme'' \<in> {Some ''dark'', Some ''light''}"
    by (cases n) (auto simp: toggleTheme_def split: prod.split)
  with inv show ?thesis
    by (cases ?s) (auto simp: open_layout_def theme_effect_def login_theme_def ThemeInitializer_def
        useTheme_def startup_class_def Let_def)
qed

text \<open>
  Changing the password, on every branch: when the two entries differ nothing is sent and nothing
  changes; otherwise exactly one request is made, and the dialog is emptied and closed when it
  succeeds and kept as it was, with one error shown, when it fails.
\<close>

theorem password_change_branches:
  "\<exists>f g. fst (handleSubmit be st w) = Inr (f, g)
    \<and> (if pd_newPassword st \<noteq> pd_confirmPassword st
       then w_log (snd (handleSubmit be st w)) = w_log w \<and> f = id \<and> g = id
       else length (w_log (snd (handleSubmit be st w))) = Suc (length (w_log w))
         \<and> (case fst (api_post be ''/auth/change-password'' (JsonBody (JObj
                [(''oldPassword'', JStr (pd_oldPassword st)), (''newPassword'', JStr (pd_newPassword st))])) w) of
              Inr d \<Rightarrow> f st = empty_dialog \<and> \<not> ly_isChangePasswordOpen (g ly)
            | Inl e \<Rightarrow> f st = st\<lparr>pd_loading := False\<rparr> \<and> g = id
                \<and> (\<exists>t. w_toasts (snd (handleSubmit be st w)) = w_toasts w @ [(Danger, t)])))"
proof (cases "pd_newPassword st = pd_confirmPassword st")
  case True
  let ?b = "JsonBody (JObj [(''oldPassword'', JStr (pd_oldPassword st)), (''newPassword'', JStr (pd_newPassword st))])"
  obtain r w1 where post: "api_post be ''/auth/change-password'' ?b w = (r, w1)"
    by (cases "api_post be ''/auth/change-password'' ?b w")
  then have log: "length (w_log w1) = Suc (length (w_log w))"
    using send_log by (metis api_post_def length_append_singleton snd_conv)
  have "quiet (api_post be ''/auth/change-password'' ?b)" by (rule client_rules)
  with post have "w_toasts w1 = w_toasts w" by (metis quiet_def snd_conv)
  with True post log show ?thesis
    by (cases r) (simp_all add: handleSubmit_def io_simps error_toast_def open_change_password_def empty_dialog_def)
next
  case False
  then show ?thesis by (simp add: handleSubmit_def io_simps)
qed

text \<open>Every entry of the menu leads to a page of its own.\<close>

lemma menu_entries_lead_somewhere:
  "list_all (\<lambda>g. list_all (\<lambda>i. main_route (path_segments (snd i)) \<noteq> Empty_page \<and> item_active (snd i) (snd i)) (snd g))
     (menuGroups ly)"
proof -
  have "main_route (path_segments ''/gateway'') = Gateway_page" "main_route (path_segments ''/config-versions'') = Versions_page"
    "main_route (path_segments ''/users'') = Users_page" "main_route (path_segments ''/tenants'') = Tenants_page"
    by code_simp+
  then show ?thesis by (simp add: menuGroups_def item_active_def starts_with_def)
qed

end
