(* ===== verification/OpenAPI_Import.thy ===== *)
theory OpenAPI_Import
  imports Tenant_Api
begin

text \<open>
  The import of an OpenAPI file, \<open>src/web/src/pages/gateway/components/OpenAPIImport.tsx\<close>: the list of
  tenants with its default choice, and dropping a file. Files are their texts; the drop zone and the
  look of the form are not modelled.
\<close>

record import_form =
  im_tenants :: "json list"
  im_selectedTenant :: string
  im_prefix :: string
  im_loadingTenants :: bool

definition open_import :: import_form where
  "open_import = \<lparr>im_tenants = [], im_selectedTenant = [], im_prefix = [], im_loadingTenants = False\<rparr>"

definition find_tenant :: "string \<Rightarrow> json list \<Rightarrow> json option" where
  "find_tenant n tenants = find (\<lambda>t. text_member t ''name'' = n) tenants"

text \<open>The choice made when the list arrives: the tenant of the gateway page when one is selected there
  and listed, the first one when none is selected there.\<close>

definition default_tenant :: "string option \<Rightarrow> json list \<Rightarrow> import_form \<Rightarrow> import_form" where
  "default_tenant inherited data st =
     (if str_truthy inherited then
        (case find_tenant (the inherited) data of
           Some t \<Rightarrow> st\<lparr>im_selectedTenant := text_member t ''name''\<rparr>
         | None \<Rightarrow> st)
      else (case data of [] \<Rightarrow> st | t # ts \<Rightarrow> st\<lparr>im_selectedTenant := text_member t ''name''\<rparr>))"

definition tenants_begin :: "import_form \<Rightarrow> import_form" where
  "tenants_begin st = st\<lparr>im_loadingTenants := True\<rparr>"

definition tenants_effect :: "backend \<Rightarrow> string option \<Rightarrow> import_form \<Rightarrow> (import_form \<Rightarrow> import_form) io" where
  "tenants_effect be inherited st =
     (if im_tenants st \<noteq> [] then ret id
      else bnd (catch
          (bnd (getTenants be) (\<lambda>data.
            ret (\<lambda>s. default_tenant inherited (elements data) (s\<lparr>im_tenants := elements data\<rparr>))))
          (\<lambda>e. andthen (toast Danger (Tr ''errors.fetch_tenants'')) (ret id)))
        (\<lambda>f. ret (\<lambda>s. (f s)\<lparr>im_loadingTenants := False\<rparr>)))"

definition choose_tenant :: "string \<Rightarrow> import_form \<Rightarrow> import_form" where
  "choose_tenant key st = st\<lparr>im_selectedTenant := key\<rparr>"

definition type_prefix :: "string \<Rightarrow> import_form \<Rightarrow> import_form" where
  "type_prefix v st = st\<lparr>im_prefix := v\<rparr>"

text \<open>Answers whether \<open>onSuccess\<close> was called.\<close>

definition onDrop :: "backend \<Rightarrow> import_form \<Rightarrow> string list \<Rightarrow> bool io" where
  "onDrop be st acceptedFiles =
     (case acceptedFiles of
        [] \<Rightarrow> andthen (toast Danger (Tr ''errors.invalid_openapi_file'')) (ret False)
      | f1 # rest \<Rightarrow>
          catch
            (case find_tenant (im_selectedTenant st) (im_tenants st) of
               None \<Rightarrow> andthen (toast Danger (Tr ''errors.select_tenant_required'')) (ret False)
             | Some t \<Rightarrow>
                 andthen (importOpenAPI be f1 (Some (text_member t ''name'')) (Some (im_prefix st)))
                   (andthen (toast Success (Tr ''errors.import_openapi_success'')) (ret True)))
            (\<lambda>e. andthen (toast Danger (Tr ''errors.import_openapi_failed'')) (ret False)))"

section \<open>Properties\<close>

lemma find_tenant_name: "find_tenant n ts = Some t \<Longrightarrow> text_member t ''name'' = n \<and> t \<in> set ts"
  by (auto simp: find_tenant_def find_Some_iff)

lemma import_log:
  "w_log (snd (importOpenAPI be f1 tn pfx w)) = w_log w @ [request_interceptor w
     (with_content_type ''multipart/form-data'' ((method_request ''POST'' ''/openapi/import'')\<lparr>rq_body := FormBody
        [(''file'', f1), (''tenantName'', opt_or tn []), (''prefix'', opt_or pfx [])]\<rparr>))]"
proof -
  let ?m = "send be (with_content_type ''multipart/form-data'' ((method_request ''POST'' ''/openapi/import'')\<lparr>rq_body := FormBody
        [(''file'', f1), (''tenantName'', opt_or tn []), (''prefix'', opt_or pfx [])]\<rparr>))"
  obtain r w' where m: "?m w = (r, w')" by (cases "?m w")
  then have "w_log w' = w_log w @ [request_interceptor w (with_content_type ''multipart/form-data''
      ((method_request ''POST'' ''/openapi/import'')\<lparr>rq_body := FormBody
        [(''file'', f1), (''tenantName'', opt_or tn []), (''prefix'', opt_or pfx [])]\<rparr>))]"
    by (metis send_log snd_conv)
  with m show ?thesis
    by (cases r) (simp_all add: importOpenAPI_def api_try_def handleApiError_def io_simps)
qed

text \<open>
  Property C38. Dropping a file, on every branch: without a file or with no listed tenant selected nothing is sent
  and one error is shown; otherwise exactly one request carries the first file, the selected tenant
  and the prefix, and the page is told of the success exactly when the request succeeded. A failed
  import is reported twice, by the client and by the form.
\<close>

theorem drop_imports_for_the_selected_tenant:
  "case files of
     [] \<Rightarrow> onDrop be st files w = (Inr False, w\<lparr>w_toasts := w_toasts w @ [(Danger, Tr ''errors.invalid_openapi_file'')]\<rparr>)
   | f1 # rest \<Rightarrow>
       if find_tenant (im_selectedTenant st) (im_tenants st) = None
       then onDrop be st files w = (Inr False, w\<lparr>w_toasts := w_toasts w @ [(Danger, Tr ''errors.select_tenant_required'')]\<rparr>)
       else (\<exists>rq. w_log (snd (onDrop be st files w)) = w_log w @ [rq] \<and> rq_method rq = ''POST''
          \<and> rq_url rq = ''/openapi/import'' \<and> rq_body rq = FormBody
             [(''file'', f1), (''tenantName'', im_selectedTenant st), (''prefix'', im_prefix st)])
         \<and> (case fst (importOpenAPI be f1 (Some (im_selectedTenant st)) (Some (im_prefix st)) w) of
              Inr d \<Rightarrow> fst (onDrop be st files w) = Inr True
            | Inl e \<Rightarrow> fst (onDrop be st files w) = Inr False
                \<and> (\<exists>t. w_toasts (snd (onDrop be st files w))
                      = w_toasts w @ [(Danger, t), (Danger, Tr ''errors.import_openapi_failed'')]))"
proof (cases files)
  case Nil
  then show ?thesis by (simp add: onDrop_def io_simps)
next
  case (Cons f1 rest)
  show ?thesis
  proof (cases "find_tenant (im_selectedTenant st) (im_tenants st)")
    case None
    with Cons show ?thesis by (simp add: onDrop_def io_simps)
  next
    case (Some t)
    then have n: "text_member t ''name'' = im_selectedTenant st" using find_tenant_name by blast
    obtain r w' where i: "importOpenAPI be f1 (Some (im_selectedTenant st)) (Some (im_prefix st)) w = (r, w')"
      by (cases "importOpenAPI be f1 (Some (im_selectedTenant st)) (Some (im_prefix st)) w")
    let ?rq = "request_interceptor w (with_content_type ''multipart/form-data''
        ((method_request ''POST'' ''/openapi/import'')\<lparr>rq_body := FormBody
          [(''file'', f1), (''tenantName'', im_selectedTenant st), (''prefix'', im_prefix st)]\<rparr>))"
    have log: "w_log w' = w_log w @ [?rq]"
      using import_log [of be f1 "Some (im_selectedTenant st)" "Some (im_prefix st)" w] i by (simp add: opt_or_def)
    have rq: "rq_method ?rq = ''POST'' \<and> rq_url ?rq = ''/openapi/import'' \<and> rq_body ?rq = FormBody
        [(''file'', f1), (''tenantName'', im_selectedTenant st), (''prefix'', im_prefix st)]"
      by (simp add: with_content_type_def method_request_def)
    have sent: "w_log (snd (onDrop be st files w)) = w_log w @ [?rq]"
      using Cons Some n i log by (cases r) (simp_all add: onDrop_def io_simps)
    have "case r of Inr d \<Rightarrow> fst (onDrop be st files w) = Inr True
        | Inl e \<Rightarrow> fst (onDrop be st files w) = Inr False \<and> (\<exists>t. w_toasts (snd (onDrop be st files w))
            = w_toasts w @ [(Danger, t), (Danger, Tr ''errors.import_openapi_failed'')])"
    proof (cases r)
      case (Inl e)
      have "reports (importOpenAPI be f1 (Some (im_selectedTenant st)) (Some (im_prefix st)))"
        using call_reports [of be "ImportOpenAPI f1 (Some (im_selectedTenant st)) (Some (im_prefix st))"] by simp
      from reports_rejected [OF this] i Inl obtain t where "w_toasts w' = w_toasts w @ [(Danger, t)]" by blast
      with Cons Some n i Inl show ?thesis by (simp add: onDrop_def io_simps)
    qed (use Cons Some n i in \<open>simp add: onDrop_def io_simps\<close>)
    with Cons Some i sent rq show ?thesis by auto
  qed
qed

text \<open>
  The choice the form opens with: the tenant selected on the gateway page when the backend lists it,
  no tenant when it does not, and the first one listed when none is selected there; when the list
  cannot be loaded the form stays as it was.
\<close>

theorem default_tenant_is_the_pages:
  "case fst (getTenants be w) of
     Inl e \<Rightarrow> (\<exists>f. fst (tenants_effect be inherited open_import w) = Inr f
        \<and> f open_import = open_import)
   | Inr data \<Rightarrow> (\<exists>f. fst (tenants_effect be inherited open_import w) = Inr f
        \<and> im_tenants (f open_import) = elements data \<and> \<not> im_loadingTenants (f open_import)
        \<and> im_selectedTenant (f open_import) =
          (case inherited of
             Some (c # cs) \<Rightarrow> if find_tenant (c # cs) (elements data) \<noteq> None then c # cs else []
           | _ \<Rightarrow> (case elements data of [] \<Rightarrow> [] | t # ts \<Rightarrow> text_member t ''name'')))"
proof -
  obtain r w' where g: "getTenants be w = (r, w')" by (cases "getTenants be w")
  show ?thesis
  proof (cases r)
    case (Inl e)
    with g show ?thesis by (simp add: tenants_effect_def open_import_def io_simps)
  next
    case (Inr data)
    with g show ?thesis
      by (auto simp: tenants_effect_def open_import_def io_simps default_tenant_def str_truthy_def
          dest: find_tenant_name split: option.splits list.splits)
  qed
qed

end
