(* ===== verification/Navigation_Links.thy ===== *)
theory Navigation_Links
  imports Gateway_Manager Session_Auth Capabilities Config_Versions
begin

text \<open>
  The links of the gateway page (\<open>gateway-manager.tsx\<close>) to the capabilities page and to the version
  history, together with the pages they open: the encoding of the names, the routes of \<open>App.tsx\<close>, the
  parameters of the path and the query as the pages read them. \<open>encodeURIComponent\<close>, its inverse and
  the parsing of a query are the language's, on the characters below 256.
\<close>

section \<open>encodeURIComponent\<close>

definition unreserved :: "char \<Rightarrow> bool" where
  "unreserved c \<longleftrightarrow> c \<in> set ''ABCDEFGHIJKLMNOPQRSTUVWXYZabcdefghijklmnopqrstuvwxyz0123456789-_.!~*()'' \<or> c = CHR 0x27"

definition percent_escape :: "nat \<Rightarrow> string" where
  "percent_escape n = [CHR ''%'', ''0123456789ABCDEF'' ! (n div 16), ''0123456789ABCDEF'' ! (n mod 16)]"

definition encode_char :: "char \<Rightarrow> string" where
  "encode_char c = (let n = (of_char c :: nat) in
     if unreserved c then [c]
     else if n < 128 then percent_escape n
     else percent_escape (192 + n div 64) @ percent_escape (128 + n mod 64))"

definition encodeURIComponent :: "string \<Rightarrow> string" where
  "encodeURIComponent s = concat (map encode_char s)"

fun percent_byte :: "string \<Rightarrow> (nat \<times> string) option" where
  "percent_byte (p # a # b # rest) =
     (if p = CHR ''%'' then (case (hex_val a, hex_val b) of
         (Some h, Some l) \<Rightarrow> Some (16 * h + l, rest) | _ \<Rightarrow> None)
      else None)"
| "percent_byte _ = None"

lemma percent_byte_shorter: "percent_byte s = Some (n, rest) \<Longrightarrow> length rest < length s"
  by (induction s rule: percent_byte.induct) (auto split: if_splits option.splits)

text \<open>\<open>None\<close> is a malformed escape or a character beyond the model.\<close>

function decodeURIComponent :: "string \<Rightarrow> string option" where
  "decodeURIComponent s =
     (case s of [] \<Rightarrow> Some []
      | c # cs \<Rightarrow>
        if c \<noteq> CHR ''%'' then map_option ((#) c) (decodeURIComponent cs)
        else (case percent_byte s of None \<Rightarrow> None
              | Some (n, rest) \<Rightarrow>
                if n < 128 then map_option ((#) (char_of n)) (decodeURIComponent rest)
                else if n = 194 \<or> n = 195 then
                  (case percent_byte rest of None \<Rightarrow> None
                   | Some (m, rest') \<Rightarrow>
                     if 128 \<le> m \<and> m < 192
                     then map_option ((#) (char_of (64 * (n - 192) + (m - 128)))) (decodeURIComponent rest')
                     else None)
                else None))"
  by pat_completeness auto

termination decodeURIComponent
  by (relation "measure length") (auto dest!: percent_byte_shorter)

declare decodeURIComponent.simps [simp del]

lemma hex_digits: "d < 16 \<Longrightarrow> hex_val (''0123456789ABCDEF'' ! d) = Some d"
proof -
  have "list_all (\<lambda>d. hex_val (''0123456789ABCDEF'' ! d) = Some d) [0..<16]" by code_simp
  then show "d < 16 \<Longrightarrow> hex_val (''0123456789ABCDEF'' ! d) = Some d" by (simp add: list_all_iff)
qed

lemma percent_byte_escape: "n < 256 \<Longrightarrow> percent_byte (percent_escape n @ rest) = Some (n, rest)"
  by (simp add: percent_escape_def hex_digits div_less less_mult_imp_div_less)

lemma unreserved_not: "unreserved c \<Longrightarrow> c \<noteq> CHR ''%'' \<and> c \<noteq> CHR ''/'' \<and> c \<noteq> CHR ''#'' \<and> c \<noteq> CHR ''?'' \<and> c \<noteq> CHR ''&''
    \<and> c \<noteq> CHR ''='' \<and> c \<noteq> CHR ''+''"
proof -
  have "\<not> unreserved (CHR ''%'')" "\<not> unreserved (CHR ''/'')" "\<not> unreserved (CHR ''#'')" "\<not> unreserved (CHR ''?'')"
    "\<not> unreserved (CHR ''&'')" "\<not> unreserved (CHR ''='')" "\<not> unreserved (CHR ''+'')"
    by code_simp+
  then show "unreserved c \<Longrightarrow> c \<noteq> CHR ''%'' \<and> c \<noteq> CHR ''/'' \<and> c \<noteq> CHR ''#'' \<and> c \<noteq> CHR ''?'' \<and> c \<noteq> CHR ''&''
    \<and> c \<noteq> CHR ''='' \<and> c \<noteq> CHR ''+''" by auto
qed

lemma of_char_less: "(of_char c :: nat) < 256"
  by (metis (no_types, lifting) mod_less_divisor of_char_mod_256 zero_less_numeral)

lemma decode_encode_char:
  "decodeURIComponent (encode_char c @ rest) = map_option ((#) c) (decodeURIComponent rest)"
proof -
  let ?n = "of_char c :: nat"
  have n: "?n < 256" by (rule of_char_less)
  show ?thesis
  proof (cases "unreserved c")
    case True
    then show ?thesis using unreserved_not [OF True]
      by (simp add: encode_char_def decodeURIComponent.simps [of "c # rest"])
  next
    case nr: False
    show ?thesis
    proof (cases "?n < 128")
      case True
      then have "decodeURIComponent (percent_escape ?n @ rest)
          = map_option ((#) (char_of ?n)) (decodeURIComponent rest)"
        using percent_byte_escape [of ?n rest] n
        by (subst decodeURIComponent.simps) (simp add: percent_escape_def)
      with nr True show ?thesis by (simp add: encode_char_def)
    next
      case False
      let ?h = "192 + ?n div 64" and ?l = "128 + ?n mod 64"
      from False n have h: "?h = 194 \<or> ?h = 195" "\<not> ?h < 128" "?h < 256" by linarith+
      have l: "128 \<le> ?l" "?l < 192" "?l < 256" using mod_less_divisor [of 64 ?n] by linarith+
      have whole: "64 * (?h - 192) + (?l - 128) = ?n" by simp
      have "decodeURIComponent (percent_escape ?h @ percent_escape ?l @ rest)
          = map_option ((#) (char_of (64 * (?h - 192) + (?l - 128)))) (decodeURIComponent rest)"
        using percent_byte_escape [OF h(3), of "percent_escape ?l @ rest"] percent_byte_escape [OF l(3), of rest] h(1,2) l
        by (subst decodeURIComponent.simps) (simp add: percent_escape_def [of ?h])
      with nr False show ?thesis by (simp add: encode_char_def Let_def whole)
    qed
  qed
qed

lemma decode_encode: "decodeURIComponent (encodeURIComponent s) = Some s"
proof (induction s)
  case Nil
  then show ?case by (simp add: encodeURIComponent_def decodeURIComponent.simps)
next
  case (Cons c s)
  then show ?case by (simp add: encodeURIComponent_def decode_encode_char)
qed

lemma hex_char_not: "d < 16 \<Longrightarrow> ''0123456789ABCDEF'' ! d \<noteq> CHR ''/'' \<and> ''0123456789ABCDEF'' ! d \<noteq> CHR ''?''
    \<and> ''0123456789ABCDEF'' ! d \<noteq> CHR ''#''"
proof -
  have "list_all (\<lambda>d. ''0123456789ABCDEF'' ! d \<noteq> CHR ''/'' \<and> ''0123456789ABCDEF'' ! d \<noteq> CHR ''?''
    \<and> ''0123456789ABCDEF'' ! d \<noteq> CHR ''#'') [0..<16]" by code_simp
  then show "d < 16 \<Longrightarrow> ''0123456789ABCDEF'' ! d \<noteq> CHR ''/'' \<and> ''0123456789ABCDEF'' ! d \<noteq> CHR ''?''
    \<and> ''0123456789ABCDEF'' ! d \<noteq> CHR ''#''" by (simp add: list_all_iff)
qed

lemma encoded_char_clean: "x \<in> set (encode_char c) \<Longrightarrow> x \<noteq> CHR ''/'' \<and> x \<noteq> CHR ''?'' \<and> x \<noteq> CHR ''#''"
proof -
  have n: "(of_char c :: nat) < 256" by (rule of_char_less)
  have esc: "m < 256 \<Longrightarrow> x \<in> set (percent_escape m) \<Longrightarrow> x \<noteq> CHR ''/'' \<and> x \<noteq> CHR ''?'' \<and> x \<noteq> CHR ''#''" for m
    using hex_char_not [of "m div 16"] hex_char_not [of "m mod 16"]
    by (auto simp: percent_escape_def less_mult_imp_div_less)
  assume "x \<in> set (encode_char c)"
  then consider "unreserved c" "x = c" | "x \<in> set (percent_escape (of_char c :: nat))"
    | "x \<in> set (percent_escape (192 + (of_char c :: nat) div 64))"
    | "x \<in> set (percent_escape (128 + (of_char c :: nat) mod 64))"
    by (auto simp: encode_char_def Let_def split: if_splits)
  then show ?thesis
  proof cases
    case 1
    then show ?thesis using unreserved_not by blast
  next
    case 2
    then show ?thesis using esc n by blast
  next
    case 3
    moreover have "192 + (of_char c :: nat) div 64 < 256" using n by linarith
    ultimately show ?thesis using esc by blast
  next
    case 4
    moreover have "128 + (of_char c :: nat) mod 64 < 256"
      using mod_less_divisor [of 64 "of_char c :: nat"] by linarith
    ultimately show ?thesis using esc by blast
  qed
qed

lemma encoded_clean: "CHR ''/'' \<notin> set (encodeURIComponent s)"
  using encoded_char_clean by (auto simp: encodeURIComponent_def)

lemma encode_nonempty: "s \<noteq> [] \<Longrightarrow> encodeURIComponent s \<noteq> []"
proof -
  have "encode_char c \<noteq> []" for c by (simp add: encode_char_def percent_escape_def Let_def)
  then show "s \<noteq> [] \<Longrightarrow> encodeURIComponent s \<noteq> []" by (cases s) (auto simp: encodeURIComponent_def)
qed

section \<open>Addresses\<close>

text \<open>An address is cut at the first number sign and then at the first question mark; a query is cut
  at the ampersands and each part at its first equals sign, and decoded.\<close>

definition address_path :: "string \<Rightarrow> string" where
  "address_path a = takeWhile (\<lambda>c. c \<noteq> CHR ''?'') (takeWhile (\<lambda>c. c \<noteq> CHR ''#'') a)"

definition address_query :: "string \<Rightarrow> string" where
  "address_query a = drop 1 (dropWhile (\<lambda>c. c \<noteq> CHR ''?'') (takeWhile (\<lambda>c. c \<noteq> CHR ''#'') a))"

definition query_part :: "string \<Rightarrow> (string \<times> string) list" where
  "query_part s = (if s = [] then [] else
     let k = takeWhile (\<lambda>c. c \<noteq> CHR ''='') s; v = drop 1 (dropWhile (\<lambda>c. c \<noteq> CHR ''='') s)
     in case (decodeURIComponent (replace_char (CHR ''+'') (CHR '' '') k),
              decodeURIComponent (replace_char (CHR ''+'') (CHR '' '') v)) of
          (Some k', Some v') \<Rightarrow> [(k', v')] | _ \<Rightarrow> [])"

definition URLSearchParams :: "string \<Rightarrow> string obj" where
  "URLSearchParams q = concat (map query_part (split_on (CHR ''&'') q))"

section \<open>The links of the gateway page\<close>

definition capabilities_link :: "gateway \<Rightarrow> string" where
  "capabilities_link server = ''/gateway/capabilities/'' @ encodeURIComponent (str_or (gw_tenant server) ''default'')
     @ ''/'' @ encodeURIComponent (gw_name server)"

definition versions_link :: "gateway \<Rightarrow> string" where
  "versions_link server = ''/config-versions?name='' @ gw_name server"

text \<open>\<open>useParams\<close> is the router's: \<open>param\<close> is the value it hands the page for a segment of the
  address.\<close>

definition open_capabilities :: "(string \<Rightarrow> string option) \<Rightarrow> page \<Rightarrow> viewer option" where
  "open_capabilities param p = (case p of
     Capabilities_page tenant serverName \<Rightarrow> CapabilitiesPage (param tenant) (param serverName)
   | _ \<Rightarrow> None)"

definition follow :: "string \<Rightarrow> world \<Rightarrow> world \<times> page" where
  "follow a w = App (navigate (address_path a) w)"

lemma address_path_clean:
  assumes "\<And>x. x \<in> set p \<Longrightarrow> x \<noteq> CHR ''#'' \<and> x \<noteq> CHR ''?''"
  shows "address_path p = p"
proof -
  have "takeWhile (\<lambda>c. c \<noteq> CHR ''#'') p = p" "takeWhile (\<lambda>c. c \<noteq> CHR ''?'') p = p"
    using assms by (simp_all add: takeWhile_eq_all_conv)
  then show ?thesis by (simp only: address_path_def)
qed

lemma link_clean: "x \<in> set (capabilities_link server) \<Longrightarrow> x \<noteq> CHR ''#'' \<and> x \<noteq> CHR ''?''"
  using encoded_char_clean by (auto simp: capabilities_link_def encodeURIComponent_def)

lemma link_segments:
  "split_on (CHR ''/'') (capabilities_link server) = [[], ''gateway'', ''capabilities'',
     encodeURIComponent (str_or (gw_tenant server) ''default''), encodeURIComponent (gw_name server)]"
proof -
  let ?t = "encodeURIComponent (str_or (gw_tenant server) ''default'')" and ?n = "encodeURIComponent (gw_name server)"
  have "split_on (CHR ''/'') (?t @ CHR ''/'' # ?n) = [?t, ?n]"
    using encoded_clean split_on_cons [of "CHR ''/''" ?t ?n] split_on_no_sep [of "CHR ''/''" ?n] by simp
  then show ?thesis by (simp add: capabilities_link_def)
qed

text \<open>
  Property C9. The link to the capabilities page names one server and nothing else: whatever characters the
  name and the tenant have, the address is all path, without query or fragment, it has the four
  segments of the route of \<open>App.tsx\<close> after the leading slash, and the last two decode to the tenant
  (\<open>default\<close> without one) and the name; so two configurations with one link have one tenant and name.
\<close>

theorem capabilities_link_names_the_server:
  "(let link = capabilities_link server; tenant = str_or (gw_tenant server) ''default''
    in address_path link = link \<and> address_query link = []
     \<and> (\<exists>t n. split_on (CHR ''/'') link = [[], ''gateway'', ''capabilities'', t, n]
         \<and> decodeURIComponent t = Some tenant \<and> decodeURIComponent n = Some (gw_name server))
     \<and> (capabilities_link other = link
         \<longleftrightarrow> str_or (gw_tenant other) ''default'' = tenant \<and> gw_name other = gw_name server))"
proof -
  let ?l = "capabilities_link server"
  have path: "address_path ?l = ?l" by (rule address_path_clean) (rule link_clean)
  have h: "takeWhile (\<lambda>c. c \<noteq> CHR ''#'') ?l = ?l" and d: "dropWhile (\<lambda>c. c \<noteq> CHR ''?'') ?l = []"
    using link_clean by (simp_all add: takeWhile_eq_all_conv dropWhile_eq_Nil_conv)
  have query: "address_query ?l = []" unfolding address_query_def h d by simp
  have "capabilities_link other = ?l \<longleftrightarrow> str_or (gw_tenant other) ''default'' = str_or (gw_tenant server) ''default''
      \<and> gw_name other = gw_name server"
  proof
    assume "capabilities_link other = ?l"
    then have "split_on (CHR ''/'') (capabilities_link other) = split_on (CHR ''/'') ?l" by simp
    then have "encodeURIComponent (str_or (gw_tenant other) ''default'') = encodeURIComponent (str_or (gw_tenant server) ''default'')"
      "encodeURIComponent (gw_name other) = encodeURIComponent (gw_name server)"
      unfolding link_segments by simp_all
    then show "str_or (gw_tenant other) ''default'' = str_or (gw_tenant server) ''default'' \<and> gw_name other = gw_name server"
      by (metis decode_encode option.inject)
  qed (simp add: capabilities_link_def)
  with path query show ?thesis unfolding Let_def link_segments using decode_encode by blast
qed

text \<open>
  What the page makes of it rests on the router. Where it hands the page the tenant and the name for
  their encoded segments, following the link with a session opens the capabilities of the server. The
  router in use matches a path after decoding its segments and then replaces a \<open>%2F\<close> that is left
  by a slash: for a name that holds these three characters it does not, nor for one that is a dot or
  two dots, which the browser takes out of the address.
\<close>

theorem capabilities_link_opens_the_server:
  assumes "gw_name server \<noteq> []" "logged_in w"
    and "param (encodeURIComponent (str_or (gw_tenant server) ''default'')) = Some (str_or (gw_tenant server) ''default'')"
    and "param (encodeURIComponent (gw_name server)) = Some (gw_name server)"
  shows "open_capabilities param (snd (follow (capabilities_link server) w))
    = Some (open_viewer (str_or (gw_tenant server) ''default'') (gw_name server))"
proof -
  let ?t = "str_or (gw_tenant server) ''default''" and ?n = "gw_name server"
  have t: "?t \<noteq> []" by (simp add: str_or_def)
  have "address_path (capabilities_link server) = capabilities_link server"
    by (rule address_path_clean) (rule link_clean)
  moreover have "path_segments (capabilities_link server)
      = [''gateway'', ''capabilities'', encodeURIComponent ?t, encodeURIComponent ?n]"
    unfolding path_segments_def link_segments using assms(1) t by (simp add: encode_nonempty)
  ultimately have "snd (follow (capabilities_link server) w)
      = Capabilities_page (encodeURIComponent ?t) (encodeURIComponent ?n)"
    using assms(2) by (simp add: follow_def App_def PrivateRoute_def main_route_capabilities navigate_def logged_in_def Let_def)
  then show ?thesis
    by (simp add: open_capabilities_def assms(3,4) CapabilitiesPage_def str_truthy_def t assms(1))
qed

definition sample_gateway :: "string \<Rightarrow> gateway" where
  "sample_gateway n = (defaultConfig [])\<lparr>gw_name := n, gw_tenant := ''acme/eu''\<rparr>"

theorem capabilities_link_opens_the_server_witness:
  "open_capabilities decodeURIComponent (snd (follow (capabilities_link (sample_gateway ''a b?''))
     (start_world\<lparr>w_storage := [''token'' \<mapsto> ''abc'']\<rparr>)))
   = Some (open_viewer ''acme/eu'' ''a b?'')"
proof -
  have "gw_name (sample_gateway ''a b?'') \<noteq> []" "logged_in (start_world\<lparr>w_storage := [''token'' \<mapsto> ''abc'']\<rparr>)"
    by (simp_all add: sample_gateway_def logged_in_def str_truthy_def)
  from capabilities_link_opens_the_server [OF this decode_encode decode_encode] show ?thesis
    by (simp add: sample_gateway_def str_or_def)
qed

lemma decode_plain: "list_all unreserved s \<Longrightarrow> decodeURIComponent s = Some s"
proof (induction s)
  case Nil
  then show ?case by (simp add: decodeURIComponent.simps)
next
  case (Cons c s)
  then show ?case using unreserved_not [of c] by (simp add: decodeURIComponent.simps [of "c # s"])
qed

lemma plain_chars:
  assumes "list_all unreserved s"
  shows "CHR ''&'' \<notin> set s" "CHR ''#'' \<notin> set s" "CHR ''?'' \<notin> set s" "replace_char (CHR ''+'') (CHR '' '') s = s"
proof -
  from assms have u: "\<forall>c \<in> set s. unreserved c" by (simp add: list_all_iff)
  then show "CHR ''&'' \<notin> set s" "CHR ''#'' \<notin> set s" "CHR ''?'' \<notin> set s"
    using unreserved_not by blast+
  have "\<forall>c \<in> set s. c \<noteq> CHR ''+''" using u unreserved_not by blast
  then show "replace_char (CHR ''+'') (CHR '' '') s = s"
    unfolding replace_char_def by (intro map_idI) auto
qed

text \<open>
  A finding: the link to the version history names the configuration but not its tenant. The page it
  opens, for a name of plain characters, has this configuration selected and no tenant, so that it
  lists the versions of every tenant's configuration of the name.
\<close>

theorem versions_link_drops_the_tenant:
  assumes "gw_name server \<noteq> []" "list_all unreserved (gw_name server)" "logged_in w"
  shows "snd (follow (versions_link server) w) = Versions_page
    \<and> vp_selectedConfig (open_page (URLSearchParams (address_query (versions_link server)))) = Some (gw_name server)
    \<and> vp_selectedTenant (open_page (URLSearchParams (address_query (versions_link server)))) = None"
proof -
  let ?n = "gw_name server"
  note plain = plain_chars [OF assms(2)]
  have nohash: "takeWhile (\<lambda>c. c \<noteq> CHR ''#'') (versions_link server) = versions_link server"
  proof (rule takeWhile_eq_all_conv [THEN iffD2])
    have "list_all (\<lambda>c. c \<noteq> CHR ''#'') ''/config-versions?name=''" by simp
    with plain(2) show "\<forall>c \<in> set (versions_link server). c \<noteq> CHR ''#''"
      unfolding versions_link_def list_all_iff set_append by (metis Un_iff)
  qed
  have path: "address_path (versions_link server) = ''/config-versions''"
    "address_query (versions_link server) = ''name='' @ ?n"
    unfolding address_path_def address_query_def nohash by (simp_all add: versions_link_def)
  have "main_route (path_segments ''/config-versions'') = Versions_page" "map to_lower (path_segments ''/config-versions'') \<noteq> [''login'']"
    by code_simp+
  then have page: "snd (follow (versions_link server) w) = Versions_page"
    using assms(3) by (simp add: follow_def path App_def PrivateRoute_def navigate_def logged_in_def Let_def)
  have "split_on (CHR ''&'') (''name='' @ ?n) = [''name='' @ ?n]"
    using plain(1) by (intro split_on_no_sep) simp
  moreover have "decodeURIComponent (replace_char (CHR ''+'') (CHR '' '') ''name'') = Some ''name''" by code_simp
  ultimately have "URLSearchParams (''name='' @ ?n) = [(''name'', ?n)]"
    using decode_plain [OF assms(2)] plain(4)
    by (simp add: URLSearchParams_def query_part_def Let_def)
  then show ?thesis
    using page assms(1) by (simp add: path open_page_def nonempty_def obj_get_def str_truthy_def)
qed

theorem versions_link_drops_the_tenant_witness:
  "vp_selectedTenant (open_page (URLSearchParams (address_query (versions_link (sample_gateway ''a'')))))
     = None \<and> gw_tenant (sample_gateway ''a'') = ''acme/eu''"
proof -
  have "gw_name (sample_gateway ''a'') \<noteq> []" "list_all unreserved (gw_name (sample_gateway ''a''))"
    "logged_in (start_world\<lparr>w_storage := [''token'' \<mapsto> ''abc'']\<rparr>)"
    by (simp_all add: sample_gateway_def logged_in_def str_truthy_def unreserved_def)
  from versions_link_drops_the_tenant [OF this] show ?thesis by (simp add: sample_gateway_def)
qed

text \<open>
  A finding: the name is put into the query as it is. A name with an ampersand is cut there, and the
  page shows another configuration's versions.
\<close>

theorem versions_link_cuts_the_name:
  "vp_selectedConfig (open_page (URLSearchParams (address_query (versions_link (sample_gateway ''a&b''))))) = Some ''a''"
  by code_simp

text \<open>
  A finding: the number of enabled tools in a row counts every server of the configuration, the dialog
  it opens lists those of the first one only.
\<close>

theorem tools_dialog_shows_first_server_only:
  "length (modal_enabled_tools server) \<le> fst (tools_cell server)
   \<and> fst (tools_cell server) = length (modal_enabled_tools server)
       + sum_list (map (\<lambda>s. length (opt_or (srv_allowedTools s) [])) (tl (opt_or (gw_servers server) [])))"
  by (cases "opt_or (gw_servers server) []") (simp_all add: modal_enabled_tools_def tools_cell_def)

end
