(* ===== verification/Model_Data_A.thy ===== *)
theory Model_Data_A
  imports Llm_Providers
begin

text \<open>
  The model cards of \<open>src/web/src/config/ai-models\<close>, the files \<open>ai21.ts\<close> to \<open>groq.ts\<close>. A card
  is written as the update of a card without optional members, with the members in the order of
  the source; \<open>tx n\<close> is the text that stands on line \<open>n\<close> of the file and has characters outside
  the 8-bit ones of \<open>char\<close>. A list of more than 150 lines is cut into numbered pieces.
\<close>

section \<open>ai21\<close>

definition ai21ChatModels :: "texts \<Rightarrow> ai_model list" where
  [card_tables]: "ai21ChatModels tx = [
     (model_of_type ''chat'' ''jamba-mini'')\<lparr>am_abilities := Some (no_abilities\<lparr>ab_functionCall := Some True\<rparr>),
       am_contextWindowTokens := Some 256000, am_description := Some (tx 9),
       am_displayName := Some ''Jamba Mini'', am_enabled := Some True,
       am_pricing := Some (no_pricing\<lparr>price_input := Some 0.2, price_output := Some 0.4\<rparr>),
       am_releasedAt := Some ''2025-03-06''\<rparr>,
     (model_of_type ''chat'' ''jamba-large'')\<lparr>am_abilities := Some (no_abilities\<lparr>ab_functionCall := Some True\<rparr>),
       am_contextWindowTokens := Some 256000, am_description := Some (tx 25),
       am_displayName := Some ''Jamba Large'', am_enabled := Some True,
       am_pricing := Some (no_pricing\<lparr>price_input := Some 2, price_output := Some 8\<rparr>),
       am_releasedAt := Some ''2025-03-06''\<rparr>]"

section \<open>ai360\<close>

definition ai360ChatModels :: "texts \<Rightarrow> ai_model list" where
  [card_tables]: "ai360ChatModels tx = [
     (model_of_type ''chat'' ''360zhinao2-o1'')\<lparr>am_abilities := Some (no_abilities\<lparr>ab_reasoning := Some True\<rparr>),
       am_contextWindowTokens := Some 8000, am_description := Some (tx 10),
       am_displayName := Some ''360Zhinao2 o1'', am_enabled := Some True,
       am_pricing := Some (no_pricing\<lparr>price_currency := Some CNY, price_input := Some 4,
       price_output := Some 10\<rparr>)\<rparr>,
     (model_of_type ''chat'' ''360gpt2-o1'')\<lparr>am_abilities := Some (no_abilities\<lparr>ab_reasoning := Some True\<rparr>),
       am_contextWindowTokens := Some 8000, am_description := Some (tx 27),
       am_displayName := Some ''360GPT2 o1'',
       am_pricing := Some (no_pricing\<lparr>price_currency := Some CNY, price_input := Some 4,
       price_output := Some 10\<rparr>)\<rparr>,
     (model_of_type ''chat'' ''360gpt2-pro'')\<lparr>am_abilities := Some (no_abilities\<lparr>ab_functionCall := Some True,
       ab_search := Some True\<rparr>), am_contextWindowTokens := Some 8000,
       am_description := Some (tx 43), am_displayName := Some ''360GPT2 Pro'',
       am_enabled := Some True, am_pricing := Some (no_pricing\<lparr>price_currency := Some CNY,
       price_input := Some 2, price_output := Some 5\<rparr>),
       am_settings := Some (no_settings\<lparr>ms_searchImpl := Some ''params''\<rparr>)\<rparr>,
     (model_of_type ''chat'' ''360gpt-pro'')\<lparr>am_abilities := Some (no_abilities\<lparr>ab_functionCall := Some True,
       ab_search := Some True\<rparr>), am_contextWindowTokens := Some 8000,
       am_description := Some (tx 63), am_displayName := Some ''360GPT Pro'',
       am_pricing := Some (no_pricing\<lparr>price_currency := Some CNY, price_input := Some 2,
       price_output := Some 5\<rparr>),
       am_settings := Some (no_settings\<lparr>ms_searchImpl := Some ''params''\<rparr>)\<rparr>,
     (model_of_type ''chat'' ''360gpt-pro-trans'')\<lparr>am_contextWindowTokens := Some 16000,
       am_description := Some (tx 78), am_displayName := Some ''360GPT Pro Trans'',
       am_pricing := Some (no_pricing\<lparr>price_currency := Some CNY, price_input := Some 2,
       price_output := Some 5\<rparr>)\<rparr>,
     (model_of_type ''chat'' ''360gpt-turbo'')\<lparr>am_contextWindowTokens := Some 7000,
       am_description := Some (tx 90), am_displayName := Some ''360GPT Turbo'',
       am_enabled := Some True, am_pricing := Some (no_pricing\<lparr>price_currency := Some CNY,
       price_input := Some 1, price_output := Some 2\<rparr>)\<rparr>,
     (model_of_type ''chat'' ''360/deepseek-r1'')\<lparr>am_abilities := Some (no_abilities\<lparr>ab_reasoning := Some True\<rparr>),
       am_contextWindowTokens := Some 64000, am_description := Some (tx 107),
       am_displayName := Some ''DeepSeek R1'',
       am_pricing := Some (no_pricing\<lparr>price_currency := Some CNY, price_input := Some 4,
       price_output := Some 16\<rparr>)\<rparr>]"

section \<open>anthropic\<close>

definition anthropicChatModels_1 :: "texts \<Rightarrow> ai_model list" where
  [card_tables]: "anthropicChatModels_1 tx = [
     (model_of_type ''chat'' ''claude-3-7-sonnet-20250219'')\<lparr>am_abilities := Some (no_abilities\<lparr>ab_functionCall := Some True,
       ab_reasoning := Some True, ab_vision := Some True\<rparr>), am_contextWindowTokens := Some 200000,
       am_description := Some (tx 12), am_displayName := Some ''Claude 3.7 Sonnet 0219'',
       am_enabled := Some True, am_maxOutput := Some 8192,
       am_pricing := Some (no_pricing\<lparr>price_cachedInput := Some 0.3, price_input := Some 3,
       price_output := Some 15, price_writeCacheInput := Some 3.75\<rparr>),
       am_releasedAt := Some ''2025-02-24'',
       am_settings := Some (no_settings\<lparr>ms_extendParams := Some [''disableContextCaching'', ''enableReasoning'', ''reasoningBudgetToken'']\<rparr>)\<rparr>,
     (model_of_type ''chat'' ''claude-3-5-haiku-20241022'')\<lparr>am_abilities := Some (no_abilities\<lparr>ab_functionCall := Some True,
       ab_vision := Some True\<rparr>), am_contextWindowTokens := Some 200000,
       am_description := Some (tx 36), am_displayName := Some ''Claude 3.5 Haiku'',
       am_enabled := Some True, am_maxOutput := Some 8192,
       am_pricing := Some (no_pricing\<lparr>price_cachedInput := Some 0.1, price_input := Some 1,
       price_output := Some 5, price_writeCacheInput := Some 1.25\<rparr>),
       am_releasedAt := Some ''2024-11-05'',
       am_settings := Some (no_settings\<lparr>ms_extendParams := Some [''disableContextCaching'']\<rparr>)\<rparr>,
     (model_of_type ''chat'' ''claude-3-5-sonnet-20241022'')\<lparr>am_abilities := Some (no_abilities\<lparr>ab_functionCall := Some True,
       ab_vision := Some True\<rparr>), am_contextWindowTokens := Some 200000,
       am_description := Some (tx 60), am_displayName := Some ''Claude 3.5 Sonnet'',
       am_enabled := Some True, am_maxOutput := Some 8192,
       am_pricing := Some (no_pricing\<lparr>price_cachedInput := Some 0.3, price_input := Some 3,
       price_output := Some 15, price_writeCacheInput := Some 3.75\<rparr>),
       am_releasedAt := Some ''2024-10-22'',
       am_settings := Some (no_settings\<lparr>ms_extendParams := Some [''disableContextCaching'']\<rparr>)\<rparr>,
     (model_of_type ''chat'' ''claude-3-5-sonnet-20240620'')\<lparr>am_abilities := Some (no_abilities\<lparr>ab_functionCall := Some True,
       ab_vision := Some True\<rparr>), am_contextWindowTokens := Some 200000,
       am_description := Some (tx 84), am_displayName := Some ''Claude 3.5 Sonnet 0620'',
       am_maxOutput := Some 8192, am_pricing := Some (no_pricing\<lparr>price_cachedInput := Some 0.3,
       price_input := Some 3, price_output := Some 15, price_writeCacheInput := Some 3.75\<rparr>),
       am_releasedAt := Some ''2024-06-20'',
       am_settings := Some (no_settings\<lparr>ms_extendParams := Some [''disableContextCaching'']\<rparr>)\<rparr>,
     (model_of_type ''chat'' ''claude-3-haiku-20240307'')\<lparr>am_abilities := Some (no_abilities\<lparr>ab_functionCall := Some True,
       ab_vision := Some True\<rparr>), am_contextWindowTokens := Some 200000,
       am_description := Some (tx 107), am_displayName := Some ''Claude 3 Haiku'',
       am_maxOutput := Some 4096, am_pricing := Some (no_pricing\<lparr>price_input := Some 0.25,
       price_output := Some 1.25\<rparr>), am_releasedAt := Some ''2024-03-07'',
       am_settings := Some (no_settings\<lparr>ms_extendParams := Some [''disableContextCaching'']\<rparr>)\<rparr>,
     (model_of_type ''chat'' ''claude-3-sonnet-20240229'')\<lparr>am_abilities := Some (no_abilities\<lparr>ab_functionCall := Some True,
       ab_vision := Some True\<rparr>), am_contextWindowTokens := Some 200000,
       am_description := Some (tx 128), am_displayName := Some ''Claude 3 Sonnet'',
       am_maxOutput := Some 4096, am_pricing := Some (no_pricing\<lparr>price_input := Some 3,
       price_output := Some 15\<rparr>), am_releasedAt := Some ''2024-02-29''\<rparr>]"

definition anthropicChatModels_2 :: "texts \<Rightarrow> ai_model list" where
  [card_tables]: "anthropicChatModels_2 tx = [
     (model_of_type ''chat'' ''claude-3-opus-20240229'')\<lparr>am_abilities := Some (no_abilities\<lparr>ab_functionCall := Some True,
       ab_vision := Some True\<rparr>), am_contextWindowTokens := Some 200000,
       am_description := Some (tx 146), am_displayName := Some ''Claude 3 Opus'',
       am_enabled := Some True, am_maxOutput := Some 4096,
       am_pricing := Some (no_pricing\<lparr>price_input := Some 15, price_output := Some 75\<rparr>),
       am_releasedAt := Some ''2024-02-29'',
       am_settings := Some (no_settings\<lparr>ms_extendParams := Some [''disableContextCaching'']\<rparr>)\<rparr>,
     (model_of_type ''chat'' ''claude-2.1'')\<lparr>am_contextWindowTokens := Some 200000,
       am_description := Some (tx 164), am_displayName := Some ''Claude 2.1'',
       am_maxOutput := Some 4096, am_pricing := Some (no_pricing\<lparr>price_input := Some 8,
       price_output := Some 24\<rparr>), am_releasedAt := Some ''2023-11-21''\<rparr>,
     (model_of_type ''chat'' ''claude-2.0'')\<lparr>am_contextWindowTokens := Some 100000,
       am_description := Some (tx 178), am_displayName := Some ''Claude 2.0'',
       am_maxOutput := Some 4096, am_pricing := Some (no_pricing\<lparr>price_input := Some 8,
       price_output := Some 24\<rparr>), am_releasedAt := Some ''2023-07-11''\<rparr>]"

definition anthropicChatModels :: "texts \<Rightarrow> ai_model list" where
  [card_tables]: "anthropicChatModels tx =
     anthropicChatModels_1 tx @ anthropicChatModels_2 tx"

section \<open>azure\<close>

definition azureChatModels_1 :: "texts \<Rightarrow> ai_model list" where
  [card_tables]: "azureChatModels_1 tx = [
     (model_of_type ''chat'' ''o3'')\<lparr>am_abilities := Some (no_abilities\<lparr>ab_functionCall := Some True,
       ab_reasoning := Some True, ab_vision := Some True\<rparr>),
       am_config := Some (no_config\<lparr>mc_deploymentName := Some ''o3''\<rparr>),
       am_contextWindowTokens := Some 200000, am_description := Some (tx 15),
       am_displayName := Some ''o3'', am_enabled := Some True, am_maxOutput := Some 100000,
       am_pricing := Some (no_pricing\<lparr>price_cachedInput := Some 2.5, price_input := Some 10,
       price_output := Some 40\<rparr>), am_releasedAt := Some ''2025-04-17''\<rparr>,
     (model_of_type ''chat'' ''o4-mini'')\<lparr>am_abilities := Some (no_abilities\<lparr>ab_functionCall := Some True,
       ab_reasoning := Some True, ab_vision := Some True\<rparr>),
       am_config := Some (no_config\<lparr>mc_deploymentName := Some ''o4-mini''\<rparr>),
       am_contextWindowTokens := Some 200000, am_description := Some (tx 39),
       am_displayName := Some ''o4-mini'', am_enabled := Some True, am_maxOutput := Some 100000,
       am_pricing := Some (no_pricing\<lparr>price_cachedInput := Some 0.275, price_input := Some 1.1,
       price_output := Some 4.4\<rparr>), am_releasedAt := Some ''2025-04-17''\<rparr>,
     (model_of_type ''chat'' ''gpt-4.1'')\<lparr>am_abilities := Some (no_abilities\<lparr>ab_functionCall := Some True,
       ab_vision := Some True\<rparr>),
       am_config := Some (no_config\<lparr>mc_deploymentName := Some ''gpt-4.1''\<rparr>),
       am_contextWindowTokens := Some 1047576, am_description := Some (tx 61),
       am_displayName := Some ''GPT-4.1'', am_enabled := Some True, am_maxOutput := Some 32768,
       am_pricing := Some (no_pricing\<lparr>price_cachedInput := Some 0.5, price_input := Some 2,
       price_output := Some 8\<rparr>), am_releasedAt := Some ''2025-04-14''\<rparr>,
     (model_of_type ''chat'' ''gpt-4.1-mini'')\<lparr>am_abilities := Some (no_abilities\<lparr>ab_functionCall := Some True,
       ab_vision := Some True\<rparr>),
       am_config := Some (no_config\<lparr>mc_deploymentName := Some ''gpt-4.1-mini''\<rparr>),
       am_contextWindowTokens := Some 1047576, am_description := Some (tx 84),
       am_displayName := Some ''GPT-4.1 mini'', am_enabled := Some True, am_maxOutput := Some 32768,
       am_pricing := Some (no_pricing\<lparr>price_cachedInput := Some 0.1, price_input := Some 0.4,
       price_output := Some 1.6\<rparr>), am_releasedAt := Some ''2025-04-14''\<rparr>,
     (model_of_type ''chat'' ''gpt-4.1-nano'')\<lparr>am_abilities := Some (no_abilities\<lparr>ab_functionCall := Some True,
       ab_vision := Some True\<rparr>),
       am_config := Some (no_config\<lparr>mc_deploymentName := Some ''gpt-4.1-nano''\<rparr>),
       am_contextWindowTokens := Some 1047576, am_description := Some (tx 107),
       am_displayName := Some ''GPT-4.1 nano'', am_maxOutput := Some 32768,
       am_pricing := Some (no_pricing\<lparr>price_cachedInput := Some 0.025, price_input := Some 0.1,
       price_output := Some 0.4\<rparr>), am_releasedAt := Some ''2025-04-14''\<rparr>,
     (model_of_type ''chat'' ''o3-mini'')\<lparr>am_abilities := Some (no_abilities\<lparr>ab_functionCall := Some True,
       ab_reasoning := Some True\<rparr>),
       am_config := Some (no_config\<lparr>mc_deploymentName := Some ''o3-mini''\<rparr>),
       am_contextWindowTokens := Some 200000, am_description := Some (tx 129),
       am_displayName := Some ''o3-mini'', am_maxOutput := Some 100000,
       am_pricing := Some (no_pricing\<lparr>price_cachedInput := Some 0.55, price_input := Some 1.1,
       price_output := Some 4.4\<rparr>), am_releasedAt := Some ''2025-01-31''\<rparr>]"

definition azureChatModels_2 :: "texts \<Rightarrow> ai_model list" where
  [card_tables]: "azureChatModels_2 tx = [
     (model_of_type ''chat'' ''o1-mini'')\<lparr>am_abilities := Some (no_abilities\<lparr>ab_reasoning := Some True\<rparr>),
       am_config := Some (no_config\<lparr>mc_deploymentName := Some ''o1-mini''\<rparr>),
       am_contextWindowTokens := Some 128000, am_description := Some (tx 150),
       am_displayName := Some ''o1-mini'', am_maxOutput := Some 65536,
       am_pricing := Some (no_pricing\<lparr>price_cachedInput := Some 0.55, price_input := Some 1.1,
       price_output := Some 4.4\<rparr>), am_releasedAt := Some ''2024-09-12''\<rparr>,
     (model_of_type ''chat'' ''o1'')\<lparr>am_abilities := Some (no_abilities\<lparr>ab_reasoning := Some True\<rparr>),
       am_config := Some (no_config\<lparr>mc_deploymentName := Some ''o1''\<rparr>),
       am_contextWindowTokens := Some 200000, am_description := Some (tx 171),
       am_displayName := Some ''o1'', am_maxOutput := Some 100000,
       am_pricing := Some (no_pricing\<lparr>price_cachedInput := Some 7.5, price_input := Some 15,
       price_output := Some 60\<rparr>), am_releasedAt := Some ''2024-12-17''\<rparr>,
     (model_of_type ''chat'' ''o1-preview'')\<lparr>am_abilities := Some (no_abilities\<lparr>ab_reasoning := Some True\<rparr>),
       am_config := Some (no_config\<lparr>mc_deploymentName := Some ''o1-preview''\<rparr>),
       am_contextWindowTokens := Some 128000, am_description := Some (tx 192),
       am_displayName := Some ''o1-preview'', am_maxOutput := Some 32768,
       am_pricing := Some (no_pricing\<lparr>price_input := Some 15, price_output := Some 60\<rparr>),
       am_releasedAt := Some ''2024-09-12''\<rparr>,
     (model_of_type ''chat'' ''gpt-4o'')\<lparr>am_abilities := Some (no_abilities\<lparr>ab_functionCall := Some True,
       ab_vision := Some True\<rparr>),
       am_config := Some (no_config\<lparr>mc_deploymentName := Some ''gpt-4o''\<rparr>),
       am_contextWindowTokens := Some 128000, am_description := Some (tx 213),
       am_displayName := Some ''GPT-4o'', am_enabled := Some True, am_maxOutput := Some 4096,
       am_pricing := Some (no_pricing\<lparr>price_cachedInput := Some 1.25, price_input := Some 2.5,
       price_output := Some 10\<rparr>), am_releasedAt := Some ''2024-05-13''\<rparr>,
     (model_of_type ''chat'' ''gpt-4'')\<lparr>am_abilities := Some (no_abilities\<lparr>ab_functionCall := Some True,
       ab_vision := Some True\<rparr>),
       am_config := Some (no_config\<lparr>mc_deploymentName := Some ''gpt-4-turbo''\<rparr>),
       am_contextWindowTokens := Some 128000, am_description := Some (tx 235),
       am_displayName := Some ''GPT 4 Turbo'', am_maxOutput := Some 4096\<rparr>,
     (model_of_type ''chat'' ''gpt-4o-mini'')\<lparr>am_abilities := Some (no_abilities\<lparr>ab_functionCall := Some True,
       ab_vision := Some True\<rparr>),
       am_config := Some (no_config\<lparr>mc_deploymentName := Some ''gpt-4o-mini''\<rparr>),
       am_contextWindowTokens := Some 128000, am_description := Some (tx 250),
       am_displayName := Some ''GPT 4o Mini'', am_maxOutput := Some 4096,
       am_pricing := Some (no_pricing\<lparr>price_cachedInput := Some 0.075, price_input := Some 0.15,
       price_output := Some 0.6\<rparr>)\<rparr>]"

definition azureChatModels :: "texts \<Rightarrow> ai_model list" where
  [card_tables]: "azureChatModels tx =
     azureChatModels_1 tx @ azureChatModels_2 tx"

section \<open>azureai\<close>

definition azureaiChatModels_1 :: "texts \<Rightarrow> ai_model list" where
  [card_tables]: "azureaiChatModels_1 tx = [
     (model_of_type ''chat'' ''DeepSeek-R1'')\<lparr>am_abilities := Some (no_abilities\<lparr>ab_reasoning := Some True\<rparr>),
       am_contextWindowTokens := Some 128000, am_displayName := Some ''DeepSeek R1'',
       am_pricing := Some (no_pricing\<lparr>price_input := Some 1.35, price_output := Some 5.4\<rparr>)\<rparr>,
     (model_of_type ''chat'' ''DeepSeek-V3'')\<lparr>am_abilities := Some (no_abilities\<lparr>ab_functionCall := Some True\<rparr>),
       am_contextWindowTokens := Some 128000, am_displayName := Some ''DeepSeek V3'',
       am_pricing := Some (no_pricing\<lparr>price_input := Some 1.14, price_output := Some 4.56\<rparr>)\<rparr>,
     (model_of_type ''chat'' ''o3'')\<lparr>am_abilities := Some (no_abilities\<lparr>ab_functionCall := Some True,
       ab_reasoning := Some True, ab_vision := Some True\<rparr>), am_contextWindowTokens := Some 200000,
       am_description := Some (tx 38), am_displayName := Some ''o3'', am_maxOutput := Some 100000,
       am_pricing := Some (no_pricing\<lparr>price_cachedInput := Some 2.5, price_input := Some 10,
       price_output := Some 40\<rparr>), am_releasedAt := Some ''2025-04-17''\<rparr>,
     (model_of_type ''chat'' ''o4-mini'')\<lparr>am_abilities := Some (no_abilities\<lparr>ab_functionCall := Some True,
       ab_reasoning := Some True, ab_vision := Some True\<rparr>), am_contextWindowTokens := Some 200000,
       am_description := Some (tx 58), am_displayName := Some ''o4-mini'',
       am_maxOutput := Some 100000, am_pricing := Some (no_pricing\<lparr>price_cachedInput := Some 0.275,
       price_input := Some 1.1, price_output := Some 4.4\<rparr>), am_releasedAt := Some ''2025-04-17''\<rparr>,
     (model_of_type ''chat'' ''gpt-4.1'')\<lparr>am_abilities := Some (no_abilities\<lparr>ab_functionCall := Some True,
       ab_vision := Some True\<rparr>), am_contextWindowTokens := Some 1047576,
       am_description := Some (tx 76), am_displayName := Some ''GPT-4.1'', am_enabled := Some True,
       am_maxOutput := Some 32768, am_pricing := Some (no_pricing\<lparr>price_cachedInput := Some 0.5,
       price_input := Some 2, price_output := Some 8\<rparr>), am_releasedAt := Some ''2025-04-14''\<rparr>,
     (model_of_type ''chat'' ''gpt-4.1-mini'')\<lparr>am_abilities := Some (no_abilities\<lparr>ab_functionCall := Some True,
       ab_vision := Some True\<rparr>), am_contextWindowTokens := Some 1047576,
       am_description := Some (tx 96), am_displayName := Some ''GPT-4.1 mini'',
       am_enabled := Some True, am_maxOutput := Some 32768,
       am_pricing := Some (no_pricing\<lparr>price_cachedInput := Some 0.1, price_input := Some 0.4,
       price_output := Some 1.6\<rparr>), am_releasedAt := Some ''2025-04-14''\<rparr>,
     (model_of_type ''chat'' ''gpt-4.1-nano'')\<lparr>am_abilities := Some (no_abilities\<lparr>ab_functionCall := Some True,
       ab_vision := Some True\<rparr>), am_contextWindowTokens := Some 1047576,
       am_description := Some (tx 116), am_displayName := Some ''GPT-4.1 nano'',
       am_maxOutput := Some 32768, am_pricing := Some (no_pricing\<lparr>price_cachedInput := Some 0.025,
       price_input := Some 0.1, price_output := Some 0.4\<rparr>), am_releasedAt := Some ''2025-04-14''\<rparr>,
     (model_of_type ''chat'' ''gpt-4.5-preview'')\<lparr>am_abilities := Some (no_abilities\<lparr>ab_functionCall := Some True\<rparr>),
       am_contextWindowTokens := Some 128000, am_description := Some (tx 134),
       am_displayName := Some ''GPT 4.5 Preview'',
       am_pricing := Some (no_pricing\<lparr>price_cachedInput := Some 37.5, price_input := Some 75,
       price_output := Some 150\<rparr>), am_releasedAt := Some ''2025-02-27''\<rparr>]"

definition azureaiChatModels_2 :: "texts \<Rightarrow> ai_model list" where
  [card_tables]: "azureaiChatModels_2 tx = [
     (model_of_type ''chat'' ''o3-mini'')\<lparr>am_abilities := Some (no_abilities\<lparr>ab_functionCall := Some True,
       ab_reasoning := Some True\<rparr>), am_contextWindowTokens := Some 200000,
       am_description := Some (tx 152), am_displayName := Some ''o3-mini'',
       am_pricing := Some (no_pricing\<lparr>price_cachedInput := Some 0.55, price_input := Some 1.1,
       price_output := Some 4.4\<rparr>), am_releasedAt := Some ''2025-01-31''\<rparr>,
     (model_of_type ''chat'' ''o1-mini'')\<lparr>am_abilities := Some (no_abilities\<lparr>ab_reasoning := Some True\<rparr>),
       am_contextWindowTokens := Some 128000, am_description := Some (tx 169),
       am_displayName := Some ''o1-mini'',
       am_pricing := Some (no_pricing\<lparr>price_cachedInput := Some 0.55, price_input := Some 1.1,
       price_output := Some 4.4\<rparr>), am_releasedAt := Some ''2024-09-12''\<rparr>,
     (model_of_type ''chat'' ''o1'')\<lparr>am_abilities := Some (no_abilities\<lparr>ab_reasoning := Some True\<rparr>),
       am_contextWindowTokens := Some 200000, am_description := Some (tx 186),
       am_displayName := Some ''o1'', am_pricing := Some (no_pricing\<lparr>price_cachedInput := Some 7.5,
       price_input := Some 15, price_output := Some 60\<rparr>), am_releasedAt := Some ''2024-12-17''\<rparr>,
     (model_of_type ''chat'' ''gpt-4o'')\<lparr>am_abilities := Some (no_abilities\<lparr>ab_functionCall := Some True,
       ab_vision := Some True\<rparr>), am_contextWindowTokens := Some 128000,
       am_description := Some (tx 204), am_displayName := Some ''GPT-4o'',
       am_maxOutput := Some 4096, am_pricing := Some (no_pricing\<lparr>price_cachedInput := Some 1.25,
       price_input := Some 2.5, price_output := Some 10\<rparr>), am_releasedAt := Some ''2024-05-13''\<rparr>,
     (model_of_type ''chat'' ''gpt-4o-mini'')\<lparr>am_abilities := Some (no_abilities\<lparr>ab_functionCall := Some True,
       ab_vision := Some True\<rparr>), am_contextWindowTokens := Some 128000,
       am_description := Some (tx 222), am_displayName := Some ''GPT 4o Mini'',
       am_maxOutput := Some 16384, am_pricing := Some (no_pricing\<lparr>price_cachedInput := Some 0.075,
       price_input := Some 0.15, price_output := Some 0.6\<rparr>)\<rparr>]"

definition azureaiChatModels :: "texts \<Rightarrow> ai_model list" where
  [card_tables]: "azureaiChatModels tx =
     azureaiChatModels_1 tx @ azureaiChatModels_2 tx"

section \<open>baichuan\<close>

definition baichuanChatModels :: "texts \<Rightarrow> ai_model list" where
  [card_tables]: "baichuanChatModels tx = [
     (model_of_type ''chat'' ''Baichuan4'')\<lparr>am_abilities := Some (no_abilities\<lparr>ab_functionCall := Some True,
       ab_search := Some True\<rparr>), am_contextWindowTokens := Some 32768,
       am_description := Some (tx 11), am_displayName := Some ''Baichuan 4'',
       am_enabled := Some True, am_maxOutput := Some 4096,
       am_pricing := Some (no_pricing\<lparr>price_currency := Some CNY, price_input := Some 100,
       price_output := Some 100\<rparr>),
       am_settings := Some (no_settings\<lparr>ms_searchImpl := Some ''params''\<rparr>)\<rparr>,
     (model_of_type ''chat'' ''Baichuan4-Turbo'')\<lparr>am_abilities := Some (no_abilities\<lparr>ab_functionCall := Some True,
       ab_search := Some True\<rparr>), am_contextWindowTokens := Some 32768,
       am_description := Some (tx 33), am_displayName := Some ''Baichuan 4 Turbo'',
       am_enabled := Some True, am_maxOutput := Some 4096,
       am_pricing := Some (no_pricing\<lparr>price_currency := Some CNY, price_input := Some 15,
       price_output := Some 15\<rparr>),
       am_settings := Some (no_settings\<lparr>ms_searchImpl := Some ''params''\<rparr>)\<rparr>,
     (model_of_type ''chat'' ''Baichuan4-Air'')\<lparr>am_abilities := Some (no_abilities\<lparr>ab_functionCall := Some True,
       ab_search := Some True\<rparr>), am_contextWindowTokens := Some 32768,
       am_description := Some (tx 55), am_displayName := Some ''Baichuan 4 Air'',
       am_enabled := Some True, am_maxOutput := Some 4096,
       am_pricing := Some (no_pricing\<lparr>price_currency := Some CNY, price_input := Some 0.98,
       price_output := Some 0.98\<rparr>),
       am_settings := Some (no_settings\<lparr>ms_searchImpl := Some ''params''\<rparr>)\<rparr>,
     (model_of_type ''chat'' ''Baichuan3-Turbo'')\<lparr>am_abilities := Some (no_abilities\<lparr>ab_functionCall := Some True,
       ab_search := Some True\<rparr>), am_contextWindowTokens := Some 32768,
       am_description := Some (tx 77), am_displayName := Some ''Baichuan 3 Turbo'',
       am_maxOutput := Some 8192, am_pricing := Some (no_pricing\<lparr>price_currency := Some CNY,
       price_input := Some 12, price_output := Some 12\<rparr>),
       am_settings := Some (no_settings\<lparr>ms_searchImpl := Some ''params''\<rparr>)\<rparr>,
     (model_of_type ''chat'' ''Baichuan3-Turbo-128k'')\<lparr>am_contextWindowTokens := Some 128000,
       am_description := Some (tx 94), am_displayName := Some ''Baichuan 3 Turbo 128k'',
       am_maxOutput := Some 4096, am_pricing := Some (no_pricing\<lparr>price_currency := Some CNY,
       price_input := Some 24, price_output := Some 24\<rparr>)\<rparr>,
     (model_of_type ''chat'' ''Baichuan2-Turbo'')\<lparr>am_contextWindowTokens := Some 32768,
       am_description := Some (tx 108), am_displayName := Some ''Baichuan 2 Turbo'',
       am_maxOutput := Some 8192, am_pricing := Some (no_pricing\<lparr>price_currency := Some CNY,
       price_input := Some 8, price_output := Some 8\<rparr>)\<rparr>]"

section \<open>bedrock\<close>

definition bedrockChatModels_1 :: "texts \<Rightarrow> ai_model list" where
  [card_tables]: "bedrockChatModels_1 tx = [
     (model_of_type ''chat'' ''us.anthropic.claude-3-7-sonnet-20250219-v1:0'')\<lparr>am_abilities := Some (no_abilities\<lparr>ab_functionCall := Some True,
       ab_reasoning := Some True, ab_vision := Some True\<rparr>), am_contextWindowTokens := Some 200000,
       am_description := Some (tx 33), am_displayName := Some ''Claude 3.7 Sonnet'',
       am_enabled := Some True, am_maxOutput := Some 8192,
       am_pricing := Some (no_pricing\<lparr>price_input := Some 3, price_output := Some 15\<rparr>),
       am_releasedAt := Some ''2025-02-24''\<rparr>,
     (model_of_type ''chat'' ''anthropic.claude-3-5-sonnet-20241022-v2:0'')\<lparr>am_abilities := Some (no_abilities\<lparr>ab_functionCall := Some True,
       ab_vision := Some True\<rparr>), am_contextWindowTokens := Some 200000,
       am_description := Some (tx 52), am_displayName := Some ''Claude 3.5 Sonnet'',
       am_enabled := Some True, am_maxOutput := Some 8192,
       am_pricing := Some (no_pricing\<lparr>price_input := Some 3, price_output := Some 15\<rparr>),
       am_releasedAt := Some ''2024-10-22''\<rparr>,
     (model_of_type ''chat'' ''us.anthropic.claude-3-5-sonnet-20241022-v2:0'')\<lparr>am_abilities := Some (no_abilities\<lparr>ab_functionCall := Some True,
       ab_vision := Some True\<rparr>), am_contextWindowTokens := Some 200000,
       am_description := Some (tx 71),
       am_displayName := Some ''Claude 3.5 Sonnet v2 (Inference profile)'', am_enabled := Some True,
       am_maxOutput := Some 8192, am_pricing := Some (no_pricing\<lparr>price_input := Some 3,
       price_output := Some 15\<rparr>), am_releasedAt := Some ''2024-10-22''\<rparr>,
     (model_of_type ''chat'' ''anthropic.claude-3-5-sonnet-20240620-v1:0'')\<lparr>am_abilities := Some (no_abilities\<lparr>ab_functionCall := Some True,
       ab_vision := Some True\<rparr>), am_contextWindowTokens := Some 200000,
       am_description := Some (tx 90), am_displayName := Some ''Claude 3.5 Sonnet 0620'',
       am_enabled := Some True, am_maxOutput := Some 8192,
       am_pricing := Some (no_pricing\<lparr>price_input := Some 3, price_output := Some 15\<rparr>),
       am_releasedAt := Some ''2024-06-20''\<rparr>,
     (model_of_type ''chat'' ''anthropic.claude-3-haiku-20240307-v1:0'')\<lparr>am_abilities := Some (no_abilities\<lparr>ab_functionCall := Some True,
       ab_vision := Some True\<rparr>), am_contextWindowTokens := Some 200000,
       am_description := Some (tx 109), am_displayName := Some ''Claude 3 Haiku'',
       am_enabled := Some True, am_maxOutput := Some 4096,
       am_pricing := Some (no_pricing\<lparr>price_input := Some 0.25, price_output := Some 1.25\<rparr>),
       am_releasedAt := Some ''2024-03-07''\<rparr>,
     (model_of_type ''chat'' ''anthropic.claude-3-sonnet-20240229-v1:0'')\<lparr>am_abilities := Some (no_abilities\<lparr>ab_functionCall := Some True,
       ab_vision := Some True\<rparr>), am_contextWindowTokens := Some 200000,
       am_description := Some (tx 128), am_displayName := Some ''Claude 3 Sonnet'',
       am_enabled := Some True, am_pricing := Some (no_pricing\<lparr>price_input := Some 3,
       price_output := Some 15\<rparr>)\<rparr>,
     (model_of_type ''chat'' ''anthropic.claude-3-opus-20240229-v1:0'')\<lparr>am_abilities := Some (no_abilities\<lparr>ab_functionCall := Some True\<rparr>),
       am_contextWindowTokens := Some 200000, am_description := Some (tx 144),
       am_displayName := Some ''Claude 3 Opus'', am_enabled := Some True, am_maxOutput := Some 4096,
       am_pricing := Some (no_pricing\<lparr>price_input := Some 15, price_output := Some 75\<rparr>),
       am_releasedAt := Some ''2024-02-29''\<rparr>,
     (model_of_type ''chat'' ''anthropic.claude-v2:1'')\<lparr>am_contextWindowTokens := Some 200000,
       am_description := Some (tx 159), am_displayName := Some ''Claude 2.1'',
       am_pricing := Some (no_pricing\<lparr>price_input := Some 8, price_output := Some 24\<rparr>)\<rparr>]"

definition bedrockChatModels_2 :: "texts \<Rightarrow> ai_model list" where
  [card_tables]: "bedrockChatModels_2 tx = [
     (model_of_type ''chat'' ''anthropic.claude-v2'')\<lparr>am_contextWindowTokens := Some 100000,
       am_description := Some (tx 171), am_displayName := Some ''Claude 2.0'',
       am_pricing := Some (no_pricing\<lparr>price_input := Some 8, price_output := Some 24\<rparr>)\<rparr>,
     (model_of_type ''chat'' ''anthropic.claude-instant-v1'')\<lparr>am_contextWindowTokens := Some 100000,
       am_description := Some (tx 183), am_displayName := Some ''Claude Instant'',
       am_pricing := Some (no_pricing\<lparr>price_input := Some 0.8, price_output := Some 2.4\<rparr>)\<rparr>,
     (model_of_type ''chat'' ''meta.llama3-1-8b-instruct-v1:0'')\<lparr>am_abilities := Some (no_abilities\<lparr>ab_functionCall := Some True\<rparr>),
       am_contextWindowTokens := Some 128000, am_description := Some (tx 198),
       am_displayName := Some ''Llama 3.1 8B Instruct'', am_enabled := Some True,
       am_pricing := Some (no_pricing\<lparr>price_input := Some 0.22, price_output := Some 0.22\<rparr>)\<rparr>,
     (model_of_type ''chat'' ''meta.llama3-1-70b-instruct-v1:0'')\<lparr>am_abilities := Some (no_abilities\<lparr>ab_functionCall := Some True\<rparr>),
       am_contextWindowTokens := Some 128000, am_description := Some (tx 214),
       am_displayName := Some ''Llama 3.1 70B Instruct'', am_enabled := Some True,
       am_pricing := Some (no_pricing\<lparr>price_input := Some 0.99, price_output := Some 0.99\<rparr>)\<rparr>,
     (model_of_type ''chat'' ''meta.llama3-1-405b-instruct-v1:0'')\<lparr>am_abilities := Some (no_abilities\<lparr>ab_functionCall := Some True\<rparr>),
       am_contextWindowTokens := Some 128000, am_description := Some (tx 230),
       am_displayName := Some ''Llama 3.1 405B Instruct'', am_enabled := Some True,
       am_pricing := Some (no_pricing\<lparr>price_input := Some 5.32, price_output := Some 16\<rparr>)\<rparr>,
     (model_of_type ''chat'' ''meta.llama3-8b-instruct-v1:0'')\<lparr>am_contextWindowTokens := Some 8000,
       am_description := Some (tx 243), am_displayName := Some ''Llama 3 8B Instruct'',
       am_pricing := Some (no_pricing\<lparr>price_input := Some 0.3, price_output := Some 0.6\<rparr>)\<rparr>,
     (model_of_type ''chat'' ''meta.llama3-70b-instruct-v1:0'')\<lparr>am_contextWindowTokens := Some 8000,
       am_description := Some (tx 255), am_displayName := Some ''Llama 3 70B Instruct'',
       am_pricing := Some (no_pricing\<lparr>price_input := Some 2.65, price_output := Some 3.5\<rparr>)\<rparr>]"

definition bedrockChatModels :: "texts \<Rightarrow> ai_model list" where
  [card_tables]: "bedrockChatModels tx =
     bedrockChatModels_1 tx @ bedrockChatModels_2 tx"

section \<open>cloudflare\<close>

definition cloudflareChatModels :: "texts \<Rightarrow> ai_model list" where
  [card_tables]: "cloudflareChatModels tx = [
     (model_of_type ''chat'' ''@cf/deepseek-ai/deepseek-r1-distill-qwen-32b'')\<lparr>am_abilities := Some (no_abilities\<lparr>ab_reasoning := Some True\<rparr>),
       am_contextWindowTokens := Some 80000,
       am_displayName := Some ''deepseek r1 (distill qwen 32b)'', am_enabled := Some True\<rparr>,
     (model_of_type ''chat'' ''@cf/qwen/qwq-32b'')\<lparr>am_abilities := Some (no_abilities\<lparr>ab_reasoning := Some True\<rparr>),
       am_contextWindowTokens := Some 24000, am_displayName := Some ''qwq 32b'',
       am_enabled := Some True\<rparr>,
     (model_of_type ''chat'' ''@cf/qwen/qwen2.5-coder-32b-instruct'')\<lparr>am_contextWindowTokens := Some 32768,
       am_displayName := Some ''qwen2.5 coder 32b''\<rparr>,
     (model_of_type ''chat'' ''@cf/google/gemma-3-12b-it'')\<lparr>am_contextWindowTokens := Some 80000,
       am_displayName := Some ''gemma 3 12b''\<rparr>,
     (model_of_type ''chat'' ''@cf/meta/llama-3.3-70b-instruct-fp8-fast'')\<lparr>am_abilities := Some (no_abilities\<lparr>ab_functionCall := Some True\<rparr>),
       am_contextWindowTokens := Some 24000, am_displayName := Some ''llama 3.3 70b''\<rparr>,
     (model_of_type ''chat'' ''@cf/meta/llama-4-scout-17b-16e-instruct'')\<lparr>am_abilities := Some (no_abilities\<lparr>ab_functionCall := Some True\<rparr>),
       am_contextWindowTokens := Some 131000, am_displayName := Some ''llama 4 17b''\<rparr>,
     (model_of_type ''chat'' ''@cf/mistralai/mistral-small-3.1-24b-instruct'')\<lparr>am_abilities := Some (no_abilities\<lparr>ab_functionCall := Some True\<rparr>),
       am_contextWindowTokens := Some 128000, am_displayName := Some ''mistral small 3.1 24b''\<rparr>,
     (model_of_type ''chat'' ''@cf/openchat/openchat-3.5-0106'')\<lparr>am_contextWindowTokens := Some 8192,
       am_displayName := Some ''openchat-3.5-0106''\<rparr>,
     (model_of_type ''chat'' ''@cf/qwen/qwen1.5-14b-chat-awq'')\<lparr>am_contextWindowTokens := Some 7500,
       am_displayName := Some ''qwen1.5-14b-chat-awq'', am_enabled := Some True\<rparr>,
     (model_of_type ''chat'' ''@cf/meta/llama-3.1-8b-instruct-fast'')\<lparr>am_contextWindowTokens := Some 128000,
       am_displayName := Some ''llama 3.1 8b''\<rparr>]"

section \<open>cohere\<close>

definition cohereChatModels_1 :: "texts \<Rightarrow> ai_model list" where
  [card_tables]: "cohereChatModels_1 tx = [
     (model_of_type ''chat'' ''command-a-03-2025'')\<lparr>am_abilities := Some (no_abilities\<lparr>ab_functionCall := Some True\<rparr>),
       am_contextWindowTokens := Some 256000, am_description := Some (tx 10),
       am_displayName := Some ''Command A 2503'', am_enabled := Some True,
       am_maxOutput := Some 8000, am_pricing := Some (no_pricing\<lparr>price_input := Some 2.5,
       price_output := Some 10\<rparr>)\<rparr>,
     (model_of_type ''chat'' ''command-r-plus-04-2024'')\<lparr>am_abilities := Some (no_abilities\<lparr>ab_functionCall := Some True\<rparr>),
       am_contextWindowTokens := Some 128000, am_description := Some (tx 27),
       am_displayName := Some ''Command R+ 2404'', am_maxOutput := Some 4000,
       am_pricing := Some (no_pricing\<lparr>price_input := Some 3, price_output := Some 15\<rparr>)\<rparr>,
     (model_of_type ''chat'' ''command-r-plus-08-2024'')\<lparr>am_abilities := Some (no_abilities\<lparr>ab_functionCall := Some True\<rparr>),
       am_contextWindowTokens := Some 128000, am_description := Some (tx 43),
       am_displayName := Some ''Command R+ 2408'', am_enabled := Some True,
       am_maxOutput := Some 4000, am_pricing := Some (no_pricing\<lparr>price_input := Some 2.5,
       price_output := Some 10\<rparr>)\<rparr>,
     (model_of_type ''chat'' ''command-r-03-2024'')\<lparr>am_abilities := Some (no_abilities\<lparr>ab_functionCall := Some True\<rparr>),
       am_contextWindowTokens := Some 128000, am_description := Some (tx 60),
       am_displayName := Some ''Command R 2403'', am_maxOutput := Some 4000,
       am_pricing := Some (no_pricing\<lparr>price_input := Some 0.15, price_output := Some 0.6\<rparr>)\<rparr>,
     (model_of_type ''chat'' ''command-r-08-2024'')\<lparr>am_abilities := Some (no_abilities\<lparr>ab_functionCall := Some True\<rparr>),
       am_contextWindowTokens := Some 128000, am_description := Some (tx 75),
       am_displayName := Some ''Command R 2408'', am_enabled := Some True,
       am_maxOutput := Some 4000, am_pricing := Some (no_pricing\<lparr>price_input := Some 0.15,
       price_output := Some 0.6\<rparr>)\<rparr>,
     (model_of_type ''chat'' ''command-r-03-2024'')\<lparr>am_abilities := Some (no_abilities\<lparr>ab_functionCall := Some True\<rparr>),
       am_contextWindowTokens := Some 128000, am_description := Some (tx 92),
       am_displayName := Some ''Command R 2403'', am_maxOutput := Some 4000,
       am_pricing := Some (no_pricing\<lparr>price_input := Some 0.5, price_output := Some 1.5\<rparr>)\<rparr>,
     (model_of_type ''chat'' ''command-r7b-12-2024'')\<lparr>am_abilities := Some (no_abilities\<lparr>ab_functionCall := Some True\<rparr>),
       am_contextWindowTokens := Some 128000, am_description := Some (tx 108),
       am_displayName := Some ''Command R7B 2412'', am_maxOutput := Some 4000,
       am_pricing := Some (no_pricing\<lparr>price_input := Some 0.0375, price_output := Some 0.15\<rparr>)\<rparr>,
     (model_of_type ''chat'' ''command'')\<lparr>am_contextWindowTokens := Some 4000,
       am_description := Some (tx 121), am_displayName := Some ''Command'',
       am_maxOutput := Some 4000, am_pricing := Some (no_pricing\<lparr>price_input := Some 1,
       price_output := Some 2\<rparr>)\<rparr>,
     (model_of_type ''chat'' ''command-nightly'')\<lparr>am_abilities := Some (no_abilities\<lparr>ab_functionCall := Some True\<rparr>),
       am_contextWindowTokens := Some 128000, am_description := Some (tx 137),
       am_displayName := Some ''Command Nightly'', am_maxOutput := Some 4000,
       am_pricing := Some (no_pricing\<lparr>price_input := Some 1, price_output := Some 2\<rparr>)\<rparr>]"

definition cohereChatModels_2 :: "texts \<Rightarrow> ai_model list" where
  [card_tables]: "cohereChatModels_2 tx = [
     (model_of_type ''chat'' ''command-light'')\<lparr>am_contextWindowTokens := Some 4000,
       am_description := Some (tx 149), am_displayName := Some ''Command Light'',
       am_maxOutput := Some 4000, am_pricing := Some (no_pricing\<lparr>price_input := Some 0.3,
       price_output := Some 0.6\<rparr>)\<rparr>,
     (model_of_type ''chat'' ''command-light-nightly'')\<lparr>am_contextWindowTokens := Some 4000,
       am_description := Some (tx 162), am_displayName := Some ''Command Light Nightly'',
       am_maxOutput := Some 4000, am_pricing := Some (no_pricing\<lparr>price_input := Some 0.3,
       price_output := Some 0.6\<rparr>)\<rparr>,
     (model_of_type ''chat'' ''c4ai-aya-expanse-32b'')\<lparr>am_contextWindowTokens := Some 128000,
       am_description := Some (tx 175), am_displayName := Some ''Aya Expanse 32B'',
       am_enabled := Some True, am_maxOutput := Some 4000,
       am_pricing := Some (no_pricing\<lparr>price_input := Some 0.5, price_output := Some 1.5\<rparr>)\<rparr>,
     (model_of_type ''chat'' ''c4ai-aya-expanse-8b'')\<lparr>am_contextWindowTokens := Some 8000,
       am_description := Some (tx 189), am_displayName := Some ''Aya Expanse 8B'',
       am_enabled := Some True, am_maxOutput := Some 4000,
       am_pricing := Some (no_pricing\<lparr>price_input := Some 0.5, price_output := Some 1.5\<rparr>)\<rparr>,
     (model_of_type ''chat'' ''c4ai-aya-vision-32b'')\<lparr>am_abilities := Some (no_abilities\<lparr>ab_vision := Some True\<rparr>),
       am_contextWindowTokens := Some 16000, am_description := Some (tx 206),
       am_displayName := Some ''Aya Vision 32B'', am_enabled := Some True,
       am_maxOutput := Some 4000, am_pricing := Some (no_pricing\<lparr>price_input := Some 0.5,
       price_output := Some 1.5\<rparr>)\<rparr>,
     (model_of_type ''chat'' ''c4ai-aya-vision-8b'')\<lparr>am_abilities := Some (no_abilities\<lparr>ab_vision := Some True\<rparr>),
       am_contextWindowTokens := Some 16000, am_description := Some (tx 223),
       am_displayName := Some ''Aya Vision 8B'', am_enabled := Some True, am_maxOutput := Some 4000,
       am_pricing := Some (no_pricing\<lparr>price_input := Some 0.5, price_output := Some 1.5\<rparr>)\<rparr>]"

definition cohereChatModels :: "texts \<Rightarrow> ai_model list" where
  [card_tables]: "cohereChatModels tx =
     cohereChatModels_1 tx @ cohereChatModels_2 tx"

section \<open>deepseek\<close>

definition deepseekChatModels :: "texts \<Rightarrow> ai_model list" where
  [card_tables]: "deepseekChatModels tx = [
     (model_of_type ''chat'' ''deepseek-chat'')\<lparr>am_abilities := Some (no_abilities\<lparr>ab_functionCall := Some True\<rparr>),
       am_contextWindowTokens := Some 65536, am_description := Some (tx 10),
       am_displayName := Some ''DeepSeek V3'', am_enabled := Some True,
       am_pricing := Some (no_pricing\<lparr>price_cachedInput := Some 0.5, price_currency := Some CNY,
       price_input := Some 2, price_output := Some 8\<rparr>), am_releasedAt := Some ''2024-12-26''\<rparr>,
     (model_of_type ''chat'' ''deepseek-reasoner'')\<lparr>am_abilities := Some (no_abilities\<lparr>ab_reasoning := Some True\<rparr>),
       am_contextWindowTokens := Some 65536, am_description := Some (tx 29),
       am_displayName := Some ''DeepSeek R1'', am_enabled := Some True,
       am_pricing := Some (no_pricing\<lparr>price_cachedInput := Some 1, price_currency := Some CNY,
       price_input := Some 4, price_output := Some 16\<rparr>), am_releasedAt := Some ''2025-01-20''\<rparr>]"

section \<open>fireworksai\<close>

definition fireworksaiChatModels_1 :: "texts \<Rightarrow> ai_model list" where
  [card_tables]: "fireworksaiChatModels_1 tx = [
     (model_of_type ''chat'' ''accounts/fireworks/models/llama-v3p3-70b-instruct'')\<lparr>am_contextWindowTokens := Some 131072,
       am_description := Some (tx 7), am_displayName := Some ''Llama 3.3 70B Instruct'',
       am_enabled := Some True, am_pricing := Some (no_pricing\<lparr>price_input := Some 0.9,
       price_output := Some 0.9\<rparr>)\<rparr>,
     (model_of_type ''chat'' ''accounts/fireworks/models/llama-v3p2-3b-instruct'')\<lparr>am_contextWindowTokens := Some 131072,
       am_description := Some (tx 20), am_displayName := Some ''Llama 3.2 3B Instruct'',
       am_enabled := Some True, am_pricing := Some (no_pricing\<lparr>price_input := Some 0.1,
       price_output := Some 0.1\<rparr>)\<rparr>,
     (model_of_type ''chat'' ''accounts/fireworks/models/llama-v3p2-11b-vision-instruct'')\<lparr>am_abilities := Some (no_abilities\<lparr>ab_vision := Some True\<rparr>),
       am_contextWindowTokens := Some 131072, am_description := Some (tx 36),
       am_displayName := Some ''Llama 3.2 11B Vision Instruct'', am_enabled := Some True,
       am_pricing := Some (no_pricing\<lparr>price_input := Some 0.2, price_output := Some 0.2\<rparr>)\<rparr>,
     (model_of_type ''chat'' ''accounts/fireworks/models/llama-v3p2-90b-vision-instruct'')\<lparr>am_abilities := Some (no_abilities\<lparr>ab_vision := Some True\<rparr>),
       am_contextWindowTokens := Some 131072, am_description := Some (tx 52),
       am_displayName := Some ''Llama 3.2 90B Vision Instruct'', am_enabled := Some True,
       am_pricing := Some (no_pricing\<lparr>price_input := Some 0.9, price_output := Some 0.9\<rparr>)\<rparr>,
     (model_of_type ''chat'' ''accounts/fireworks/models/llama-v3p1-8b-instruct'')\<lparr>am_contextWindowTokens := Some 131072,
       am_description := Some (tx 65), am_displayName := Some ''Llama 3.1 8B Instruct'',
       am_pricing := Some (no_pricing\<lparr>price_input := Some 0.2, price_output := Some 0.2\<rparr>)\<rparr>,
     (model_of_type ''chat'' ''accounts/fireworks/models/llama-v3p1-70b-instruct'')\<lparr>am_abilities := Some (no_abilities\<lparr>ab_functionCall := Some True\<rparr>),
       am_contextWindowTokens := Some 131072, am_description := Some (tx 80),
       am_displayName := Some ''Llama 3.1 70B Instruct'',
       am_pricing := Some (no_pricing\<lparr>price_input := Some 0.9, price_output := Some 0.9\<rparr>)\<rparr>,
     (model_of_type ''chat'' ''accounts/fireworks/models/llama-v3p1-405b-instruct'')\<lparr>am_abilities := Some (no_abilities\<lparr>ab_functionCall := Some True\<rparr>),
       am_contextWindowTokens := Some 131072, am_description := Some (tx 95),
       am_displayName := Some ''Llama 3.1 405B Instruct'',
       am_pricing := Some (no_pricing\<lparr>price_input := Some 3, price_output := Some 3\<rparr>)\<rparr>,
     (model_of_type ''chat'' ''accounts/fireworks/models/llama-v3-8b-instruct'')\<lparr>am_contextWindowTokens := Some 8192,
       am_description := Some (tx 107), am_displayName := Some ''Llama 3 8B Instruct'',
       am_pricing := Some (no_pricing\<lparr>price_input := Some 0.2, price_output := Some 0.2\<rparr>)\<rparr>,
     (model_of_type ''chat'' ''accounts/fireworks/models/llama-v3-70b-instruct'')\<lparr>am_contextWindowTokens := Some 8192,
       am_description := Some (tx 119), am_displayName := Some ''Llama 3 70B Instruct'',
       am_pricing := Some (no_pricing\<lparr>price_input := Some 0.9, price_output := Some 0.9\<rparr>)\<rparr>,
     (model_of_type ''chat'' ''accounts/fireworks/models/llama-v3-8b-instruct-hf'')\<lparr>am_contextWindowTokens := Some 8192,
       am_description := Some (tx 131), am_displayName := Some ''Llama 3 8B Instruct (HF version)'',
       am_pricing := Some (no_pricing\<lparr>price_input := Some 0.2, price_output := Some 0.2\<rparr>)\<rparr>,
     (model_of_type ''chat'' ''accounts/fireworks/models/mistral-small-24b-instruct-2501'')\<lparr>am_contextWindowTokens := Some 32768,
       am_description := Some (tx 142), am_displayName := Some ''Mistral Small 3 Instruct'',
       am_enabled := Some True, am_pricing := Some (no_pricing\<lparr>price_input := Some 0.9,
       price_output := Some 0.9\<rparr>)\<rparr>]"

definition fireworksaiChatModels_2 :: "texts \<Rightarrow> ai_model list" where
  [card_tables]: "fireworksaiChatModels_2 tx = [
     (model_of_type ''chat'' ''accounts/fireworks/models/mixtral-8x7b-instruct'')\<lparr>am_contextWindowTokens := Some 32768,
       am_description := Some (tx 155), am_displayName := Some ''Mixtral MoE 8x7B Instruct'',
       am_pricing := Some (no_pricing\<lparr>price_input := Some 0.5, price_output := Some 0.5\<rparr>)\<rparr>,
     (model_of_type ''chat'' ''accounts/fireworks/models/mixtral-8x22b-instruct'')\<lparr>am_abilities := Some (no_abilities\<lparr>ab_functionCall := Some True\<rparr>),
       am_contextWindowTokens := Some 65536, am_description := Some (tx 170),
       am_displayName := Some ''Mixtral MoE 8x22B Instruct'',
       am_pricing := Some (no_pricing\<lparr>price_input := Some 1.2, price_output := Some 1.2\<rparr>)\<rparr>,
     (model_of_type ''chat'' ''accounts/fireworks/models/phi-3-vision-128k-instruct'')\<lparr>am_abilities := Some (no_abilities\<lparr>ab_vision := Some True\<rparr>),
       am_contextWindowTokens := Some 32064, am_description := Some (tx 185),
       am_displayName := Some ''Phi 3.5 Vision Instruct'', am_enabled := Some True,
       am_pricing := Some (no_pricing\<lparr>price_input := Some 0.2, price_output := Some 0.2\<rparr>)\<rparr>,
     (model_of_type ''chat'' ''accounts/fireworks/models/mythomax-l2-13b'')\<lparr>am_contextWindowTokens := Some 32768,
       am_description := Some (tx 198), am_displayName := Some ''MythoMax L2 13b'',
       am_pricing := Some (no_pricing\<lparr>price_input := Some 0.2, price_output := Some 0.2\<rparr>)\<rparr>,
     (model_of_type ''chat'' ''accounts/fireworks/models/deepseek-v3'')\<lparr>am_contextWindowTokens := Some 131072,
       am_description := Some (tx 210), am_displayName := Some ''Deepseek V3'',
       am_enabled := Some True, am_pricing := Some (no_pricing\<lparr>price_input := Some 0.9,
       price_output := Some 0.9\<rparr>)\<rparr>,
     (model_of_type ''chat'' ''accounts/fireworks/models/deepseek-r1'')\<lparr>am_abilities := Some (no_abilities\<lparr>ab_reasoning := Some True\<rparr>),
       am_contextWindowTokens := Some 163840, am_description := Some (tx 226),
       am_displayName := Some ''Deepseek R1'', am_enabled := Some True,
       am_pricing := Some (no_pricing\<lparr>price_input := Some 8, price_output := Some 8\<rparr>)\<rparr>,
     (model_of_type ''chat'' ''accounts/fireworks/models/qwen-qwq-32b-preview'')\<lparr>am_abilities := Some (no_abilities\<lparr>ab_reasoning := Some True\<rparr>),
       am_contextWindowTokens := Some 32768, am_description := Some (tx 242),
       am_displayName := Some ''Qwen Qwq 32b Preview'', am_enabled := Some True,
       am_pricing := Some (no_pricing\<lparr>price_input := Some 0.9, price_output := Some 0.9\<rparr>)\<rparr>,
     (model_of_type ''chat'' ''accounts/fireworks/models/qwen2p5-72b-instruct'')\<lparr>am_contextWindowTokens := Some 32768,
       am_description := Some (tx 255), am_displayName := Some ''Qwen2.5 72B Instruct'',
       am_enabled := Some True, am_pricing := Some (no_pricing\<lparr>price_input := Some 0.9,
       price_output := Some 0.9\<rparr>)\<rparr>,
     (model_of_type ''chat'' ''accounts/fireworks/models/qwen2-vl-72b-instruct'')\<lparr>am_abilities := Some (no_abilities\<lparr>ab_vision := Some True\<rparr>),
       am_contextWindowTokens := Some 32768, am_description := Some (tx 270),
       am_displayName := Some ''Qwen2 VL 72B Instruct'', am_enabled := Some True,
       am_pricing := Some (no_pricing\<lparr>price_input := Some 0.9, price_output := Some 0.9\<rparr>)\<rparr>,
     (model_of_type ''chat'' ''accounts/fireworks/models/qwen2p5-coder-32b-instruct'')\<lparr>am_contextWindowTokens := Some 32768,
       am_description := Some (tx 283), am_displayName := Some ''Qwen2.5-Coder-32B-Instruct'',
       am_enabled := Some True, am_pricing := Some (no_pricing\<lparr>price_input := Some 0.9,
       price_output := Some 0.9\<rparr>)\<rparr>]"

definition fireworksaiChatModels_3 :: "texts \<Rightarrow> ai_model list" where
  [card_tables]: "fireworksaiChatModels_3 tx = [
     (model_of_type ''chat'' ''accounts/yi-01-ai/models/yi-large'')\<lparr>am_contextWindowTokens := Some 32768,
       am_description := Some (tx 296), am_displayName := Some ''Yi-Large'',
       am_enabled := Some True, am_pricing := Some (no_pricing\<lparr>price_input := Some 3,
       price_output := Some 3\<rparr>)\<rparr>]"

definition fireworksaiChatModels :: "texts \<Rightarrow> ai_model list" where
  [card_tables]: "fireworksaiChatModels tx =
     fireworksaiChatModels_1 tx @ fireworksaiChatModels_2 tx @ fireworksaiChatModels_3 tx"

section \<open>giteeai\<close>

definition giteeaiChatModels_1 :: "texts \<Rightarrow> ai_model list" where
  [card_tables]: "giteeaiChatModels_1 tx = [
     (model_of_type ''chat'' ''DeepSeek-R1-Distill-Qwen-1.5B'')\<lparr>am_abilities := Some (no_abilities\<lparr>ab_reasoning := Some True\<rparr>),
       am_contextWindowTokens := Some 32000, am_description := Some (tx 10),
       am_displayName := Some ''DeepSeek R1 Distill Qwen 1.5B'', am_enabled := Some True\<rparr>,
     (model_of_type ''chat'' ''DeepSeek-R1-Distill-Qwen-7B'')\<lparr>am_abilities := Some (no_abilities\<lparr>ab_reasoning := Some True\<rparr>),
       am_contextWindowTokens := Some 32000, am_description := Some (tx 22),
       am_displayName := Some ''DeepSeek R1 Distill Qwen 7B'', am_enabled := Some True\<rparr>,
     (model_of_type ''chat'' ''DeepSeek-R1-Distill-Qwen-14B'')\<lparr>am_abilities := Some (no_abilities\<lparr>ab_reasoning := Some True\<rparr>),
       am_contextWindowTokens := Some 32000, am_description := Some (tx 34),
       am_displayName := Some ''DeepSeek R1 Distill Qwen 14B'', am_enabled := Some True\<rparr>,
     (model_of_type ''chat'' ''DeepSeek-R1-Distill-Qwen-32B'')\<lparr>am_abilities := Some (no_abilities\<lparr>ab_reasoning := Some True\<rparr>),
       am_contextWindowTokens := Some 32000, am_description := Some (tx 46),
       am_displayName := Some ''DeepSeek R1 Distill Qwen 32B'', am_enabled := Some True\<rparr>,
     (model_of_type ''chat'' ''QwQ-32B-Preview'')\<lparr>am_abilities := Some (no_abilities\<lparr>ab_reasoning := Some True\<rparr>),
       am_contextWindowTokens := Some 32000, am_description := Some (tx 58),
       am_displayName := Some ''QwQ 32B Preview'', am_enabled := Some True\<rparr>,
     (model_of_type ''chat'' ''Qwen2.5-72B-Instruct'')\<lparr>am_abilities := Some (no_abilities\<lparr>ab_functionCall := Some True\<rparr>),
       am_contextWindowTokens := Some 16000, am_description := Some (tx 70),
       am_displayName := Some ''Qwen2.5 72B Instruct'', am_enabled := Some True\<rparr>,
     (model_of_type ''chat'' ''Qwen2.5-32B-Instruct'')\<lparr>am_contextWindowTokens := Some 32000,
       am_description := Some (tx 79), am_displayName := Some ''Qwen2.5 32B Instruct'',
       am_enabled := Some True\<rparr>,
     (model_of_type ''chat'' ''Qwen2.5-14B-Instruct'')\<lparr>am_contextWindowTokens := Some 24000,
       am_description := Some (tx 88), am_displayName := Some ''Qwen2.5 14B Instruct'',
       am_enabled := Some True\<rparr>,
     (model_of_type ''chat'' ''Qwen2.5-7B-Instruct'')\<lparr>am_abilities := Some (no_abilities\<lparr>ab_functionCall := Some True\<rparr>),
       am_contextWindowTokens := Some 32000, am_description := Some (tx 100),
       am_displayName := Some ''Qwen2.5 7B Instruct'', am_enabled := Some True\<rparr>,
     (model_of_type ''chat'' ''Qwen2-72B-Instruct'')\<lparr>am_contextWindowTokens := Some 32000,
       am_description := Some (tx 109), am_displayName := Some ''Qwen2 72B Instruct''\<rparr>,
     (model_of_type ''chat'' ''Qwen2-7B-Instruct'')\<lparr>am_contextWindowTokens := Some 24000,
       am_description := Some (tx 117), am_displayName := Some ''Qwen2 7B Instruct''\<rparr>,
     (model_of_type ''chat'' ''Qwen2.5-Coder-32B-Instruct'')\<lparr>am_contextWindowTokens := Some 32000,
       am_description := Some (tx 125), am_displayName := Some ''Qwen2.5 Coder 32B Instruct'',
       am_enabled := Some True\<rparr>,
     (model_of_type ''chat'' ''Qwen2.5-Coder-14B-Instruct'')\<lparr>am_contextWindowTokens := Some 24000,
       am_description := Some (tx 134), am_displayName := Some ''Qwen2.5 Coder 14B Instruct'',
       am_enabled := Some True\<rparr>,
     (model_of_type ''chat'' ''Qwen2-VL-72B'')\<lparr>am_abilities := Some (no_abilities\<lparr>ab_vision := Some True\<rparr>),
       am_contextWindowTokens := Some 32000, am_description := Some (tx 146),
       am_displayName := Some ''Qwen2 VL 72B'', am_enabled := Some True\<rparr>]"

definition giteeaiChatModels_2 :: "texts \<Rightarrow> ai_model list" where
  [card_tables]: "giteeaiChatModels_2 tx = [
     (model_of_type ''chat'' ''InternVL2.5-26B'')\<lparr>am_abilities := Some (no_abilities\<lparr>ab_vision := Some True\<rparr>),
       am_contextWindowTokens := Some 32000, am_description := Some (tx 158),
       am_displayName := Some ''InternVL2.5 26B'', am_enabled := Some True\<rparr>,
     (model_of_type ''chat'' ''InternVL2-8B'')\<lparr>am_abilities := Some (no_abilities\<lparr>ab_vision := Some True\<rparr>),
       am_contextWindowTokens := Some 32000, am_description := Some (tx 170),
       am_displayName := Some ''InternVL2 8B'', am_enabled := Some True\<rparr>,
     (model_of_type ''chat'' ''glm-4-9b-chat'')\<lparr>am_contextWindowTokens := Some 32000,
       am_description := Some (tx 179), am_displayName := Some ''GLM4 9B Chat'',
       am_enabled := Some True\<rparr>,
     (model_of_type ''chat'' ''Yi-34B-Chat'')\<lparr>am_contextWindowTokens := Some 4000,
       am_description := Some (tx 188), am_displayName := Some ''Yi 34B Chat'',
       am_enabled := Some True\<rparr>,
     (model_of_type ''chat'' ''deepseek-coder-33B-instruct'')\<lparr>am_contextWindowTokens := Some 8000,
       am_description := Some (tx 208), am_displayName := Some ''DeepSeek Coder 33B Instruct'',
       am_enabled := Some True\<rparr>,
     (model_of_type ''chat'' ''codegeex4-all-9b'')\<lparr>am_contextWindowTokens := Some 32000,
       am_description := Some (tx 217), am_displayName := Some ''CodeGeeX4 All 9B'',
       am_enabled := Some True\<rparr>]"

definition giteeaiChatModels :: "texts \<Rightarrow> ai_model list" where
  [card_tables]: "giteeaiChatModels tx =
     giteeaiChatModels_1 tx @ giteeaiChatModels_2 tx"

section \<open>github\<close>

definition githubChatModels_1 :: "texts \<Rightarrow> ai_model list" where
  [card_tables]: "githubChatModels_1 tx = [
     (model_of_type ''chat'' ''o3'')\<lparr>am_abilities := Some (no_abilities\<lparr>ab_functionCall := Some True,
       ab_reasoning := Some True, ab_vision := Some True\<rparr>), am_contextWindowTokens := Some 200000,
       am_description := Some (tx 12), am_displayName := Some ''o3'', am_maxOutput := Some 100000,
       am_pricing := Some (no_pricing\<lparr>price_cachedInput := Some 2.5, price_input := Some 10,
       price_output := Some 40\<rparr>), am_releasedAt := Some ''2025-04-17''\<rparr>,
     (model_of_type ''chat'' ''o4-mini'')\<lparr>am_abilities := Some (no_abilities\<lparr>ab_functionCall := Some True,
       ab_reasoning := Some True, ab_vision := Some True\<rparr>), am_contextWindowTokens := Some 200000,
       am_description := Some (tx 32), am_displayName := Some ''o4-mini'', am_enabled := Some True,
       am_maxOutput := Some 100000, am_pricing := Some (no_pricing\<lparr>price_cachedInput := Some 0.275,
       price_input := Some 1.1, price_output := Some 4.4\<rparr>), am_releasedAt := Some ''2025-04-17''\<rparr>,
     (model_of_type ''chat'' ''gpt-4.1'')\<lparr>am_abilities := Some (no_abilities\<lparr>ab_functionCall := Some True,
       ab_vision := Some True\<rparr>), am_contextWindowTokens := Some 1047576,
       am_description := Some (tx 51), am_displayName := Some ''GPT-4.1'', am_enabled := Some True,
       am_maxOutput := Some 32768, am_pricing := Some (no_pricing\<lparr>price_cachedInput := Some 0.5,
       price_input := Some 2, price_output := Some 8\<rparr>), am_releasedAt := Some ''2025-04-14''\<rparr>,
     (model_of_type ''chat'' ''gpt-4.1-mini'')\<lparr>am_abilities := Some (no_abilities\<lparr>ab_functionCall := Some True,
       ab_vision := Some True\<rparr>), am_contextWindowTokens := Some 1047576,
       am_description := Some (tx 71), am_displayName := Some ''GPT-4.1 mini'',
       am_enabled := Some True, am_maxOutput := Some 32768,
       am_pricing := Some (no_pricing\<lparr>price_cachedInput := Some 0.1, price_input := Some 0.4,
       price_output := Some 1.6\<rparr>), am_releasedAt := Some ''2025-04-14''\<rparr>,
     (model_of_type ''chat'' ''gpt-4.1-nano'')\<lparr>am_abilities := Some (no_abilities\<lparr>ab_functionCall := Some True,
       ab_vision := Some True\<rparr>), am_contextWindowTokens := Some 1047576,
       am_description := Some (tx 90), am_displayName := Some ''GPT-4.1 nano'',
       am_maxOutput := Some 32768, am_pricing := Some (no_pricing\<lparr>price_cachedInput := Some 0.025,
       price_input := Some 0.1, price_output := Some 0.4\<rparr>), am_releasedAt := Some ''2025-04-14''\<rparr>,
     (model_of_type ''chat'' ''o4-mini'')\<lparr>am_abilities := Some (no_abilities\<lparr>ab_functionCall := Some True,
       ab_reasoning := Some True\<rparr>), am_contextWindowTokens := Some 200000,
       am_displayName := Some ''OpenAI o4-mini'', am_maxOutput := Some 100000\<rparr>,
     (model_of_type ''chat'' ''o3'')\<lparr>am_abilities := Some (no_abilities\<lparr>ab_functionCall := Some True,
       ab_reasoning := Some True\<rparr>), am_contextWindowTokens := Some 200000,
       am_displayName := Some ''OpenAI o3'', am_enabled := Some True, am_maxOutput := Some 100000\<rparr>,
     (model_of_type ''chat'' ''o3-mini'')\<lparr>am_abilities := Some (no_abilities\<lparr>ab_functionCall := Some True,
       ab_reasoning := Some True\<rparr>), am_contextWindowTokens := Some 200000,
       am_description := Some (tx 132), am_displayName := Some ''o3-mini'',
       am_maxOutput := Some 100000, am_pricing := Some (no_pricing\<lparr>price_cachedInput := Some 0.55,
       price_input := Some 1.1, price_output := Some 4.4\<rparr>), am_releasedAt := Some ''2025-01-31''\<rparr>]"

definition githubChatModels_2 :: "texts \<Rightarrow> ai_model list" where
  [card_tables]: "githubChatModels_2 tx = [
     (model_of_type ''chat'' ''o1-mini'')\<lparr>am_abilities := Some (no_abilities\<lparr>ab_reasoning := Some True\<rparr>),
       am_contextWindowTokens := Some 128000, am_description := Some (tx 150),
       am_displayName := Some ''o1-mini'', am_maxOutput := Some 65536,
       am_pricing := Some (no_pricing\<lparr>price_cachedInput := Some 0.55, price_input := Some 1.1,
       price_output := Some 4.4\<rparr>), am_releasedAt := Some ''2024-09-12''\<rparr>,
     (model_of_type ''chat'' ''o1'')\<lparr>am_abilities := Some (no_abilities\<lparr>ab_reasoning := Some True,
       ab_vision := Some True\<rparr>), am_contextWindowTokens := Some 200000,
       am_description := Some (tx 169), am_displayName := Some ''o1'', am_maxOutput := Some 100000,
       am_pricing := Some (no_pricing\<lparr>price_cachedInput := Some 7.5, price_input := Some 15,
       price_output := Some 60\<rparr>), am_releasedAt := Some ''2024-12-17''\<rparr>,
     (model_of_type ''chat'' ''o1-preview'')\<lparr>am_abilities := Some (no_abilities\<lparr>ab_reasoning := Some True\<rparr>),
       am_contextWindowTokens := Some 128000, am_description := Some (tx 187),
       am_displayName := Some ''o1-preview'', am_maxOutput := Some 32768,
       am_pricing := Some (no_pricing\<lparr>price_input := Some 15, price_output := Some 60\<rparr>),
       am_releasedAt := Some ''2024-09-12''\<rparr>,
     (model_of_type ''chat'' ''gpt-4.1'')\<lparr>am_abilities := Some (no_abilities\<lparr>ab_functionCall := Some True,
       ab_vision := Some True\<rparr>), am_contextWindowTokens := Some 1074176,
       am_displayName := Some ''OpenAI GPT-4.1'', am_maxOutput := Some 33792\<rparr>,
     (model_of_type ''chat'' ''gpt-4.1-mini'')\<lparr>am_abilities := Some (no_abilities\<lparr>ab_functionCall := Some True,
       ab_vision := Some True\<rparr>), am_contextWindowTokens := Some 1074176,
       am_displayName := Some ''OpenAI GPT-4.1 mini'', am_maxOutput := Some 33792\<rparr>,
     (model_of_type ''chat'' ''gpt-4.1-nano'')\<lparr>am_abilities := Some (no_abilities\<lparr>ab_functionCall := Some True,
       ab_vision := Some True\<rparr>), am_contextWindowTokens := Some 1074176,
       am_displayName := Some ''OpenAI GPT-4.1 nano'', am_maxOutput := Some 33792\<rparr>,
     (model_of_type ''chat'' ''gpt-4o-mini'')\<lparr>am_abilities := Some (no_abilities\<lparr>ab_functionCall := Some True,
       ab_vision := Some True\<rparr>), am_contextWindowTokens := Some 134144,
       am_description := Some (tx 237), am_displayName := Some ''GPT-4o mini'',
       am_maxOutput := Some 4096\<rparr>,
     (model_of_type ''chat'' ''gpt-4o'')\<lparr>am_abilities := Some (no_abilities\<lparr>ab_functionCall := Some True,
       ab_vision := Some True\<rparr>), am_contextWindowTokens := Some 134144,
       am_description := Some (tx 249), am_displayName := Some ''GPT-4o'',
       am_maxOutput := Some 16384\<rparr>,
     (model_of_type ''chat'' ''MAI-DS-R1'')\<lparr>am_abilities := Some (no_abilities\<lparr>ab_reasoning := Some True\<rparr>),
       am_contextWindowTokens := Some 128000, am_displayName := Some ''MAI DS R1'',
       am_maxOutput := Some 4096\<rparr>,
     (model_of_type ''chat'' ''DeepSeek-R1'')\<lparr>am_abilities := Some (no_abilities\<lparr>ab_reasoning := Some True\<rparr>),
       am_contextWindowTokens := Some 128000, am_displayName := Some ''DeepSeek R1'',
       am_maxOutput := Some 4096\<rparr>,
     (model_of_type ''chat'' ''DeepSeek-V3-0324'')\<lparr>am_abilities := Some (no_abilities\<lparr>ab_functionCall := Some True\<rparr>),
       am_contextWindowTokens := Some 128000, am_displayName := Some ''DeepSeek V3'',
       am_maxOutput := Some 4096\<rparr>]"

definition githubChatModels_3 :: "texts \<Rightarrow> ai_model list" where
  [card_tables]: "githubChatModels_3 tx = [
     (model_of_type ''chat'' ''ai21-jamba-1.5-mini'')\<lparr>am_abilities := Some (no_abilities\<lparr>ab_functionCall := Some True\<rparr>),
       am_contextWindowTokens := Some 262144, am_description := Some (tx 291),
       am_displayName := Some ''AI21 Jamba 1.5 Mini'', am_maxOutput := Some 4096\<rparr>,
     (model_of_type ''chat'' ''ai21-jamba-1.5-large'')\<lparr>am_abilities := Some (no_abilities\<lparr>ab_functionCall := Some True\<rparr>),
       am_contextWindowTokens := Some 262144, am_description := Some (tx 303),
       am_displayName := Some ''AI21 Jamba 1.5 Large'', am_maxOutput := Some 4096\<rparr>,
     (model_of_type ''chat'' ''cohere-command-r'')\<lparr>am_contextWindowTokens := Some 131072,
       am_description := Some (tx 311), am_displayName := Some ''Cohere Command R'',
       am_maxOutput := Some 4096\<rparr>,
     (model_of_type ''chat'' ''cohere-command-r-plus'')\<lparr>am_contextWindowTokens := Some 131072,
       am_description := Some (tx 319), am_displayName := Some ''Cohere Command R+'',
       am_maxOutput := Some 4096\<rparr>,
     (model_of_type ''chat'' ''mistral-nemo'')\<lparr>am_contextWindowTokens := Some 131072,
       am_description := Some (tx 328), am_displayName := Some ''Mistral Nemo'',
       am_maxOutput := Some 4096\<rparr>,
     (model_of_type ''chat'' ''mistral-small'')\<lparr>am_contextWindowTokens := Some 131072,
       am_description := Some (tx 336), am_displayName := Some ''Mistral Small'',
       am_maxOutput := Some 4096\<rparr>,
     (model_of_type ''chat'' ''mistral-large'')\<lparr>am_contextWindowTokens := Some 131072,
       am_description := Some (tx 345), am_displayName := Some ''Mistral Large'',
       am_maxOutput := Some 4096\<rparr>,
     (model_of_type ''chat'' ''Codestral-2501'')\<lparr>am_contextWindowTokens := Some 262144,
       am_displayName := Some ''Codestral'', am_maxOutput := Some 4096\<rparr>,
     (model_of_type ''chat'' ''llama-3.2-11b-vision-instruct'')\<lparr>am_abilities := Some (no_abilities\<lparr>ab_vision := Some True\<rparr>),
       am_contextWindowTokens := Some 131072, am_description := Some (tx 363),
       am_displayName := Some ''Llama 3.2 11B Vision'', am_maxOutput := Some 4096\<rparr>,
     (model_of_type ''chat'' ''llama-3.2-90b-vision-instruct'')\<lparr>am_abilities := Some (no_abilities\<lparr>ab_vision := Some True\<rparr>),
       am_contextWindowTokens := Some 131072, am_description := Some (tx 374),
       am_displayName := Some ''Llama 3.2 90B Vision'', am_maxOutput := Some 4096\<rparr>,
     (model_of_type ''chat'' ''llama-3.3-70b-instruct'')\<lparr>am_abilities := Some (no_abilities\<lparr>ab_functionCall := Some True\<rparr>),
       am_contextWindowTokens := Some 32768, am_description := Some (tx 386),
       am_displayName := Some ''Llama 3.3 70B Instruct'', am_enabled := Some True\<rparr>,
     (model_of_type ''chat'' ''llama-4-Scout-17B-16E-Instruct'')\<lparr>am_contextWindowTokens := Some 10240000,
       am_displayName := Some ''Meta Llama 4 Scout 17B'', am_maxOutput := Some 4096\<rparr>,
     (model_of_type ''chat'' ''llama-4-Maverick-17B-128E-Instruct-FP8'')\<lparr>am_contextWindowTokens := Some 10240000,
       am_displayName := Some ''Meta Llama 4 Maverick 17B'', am_maxOutput := Some 4096\<rparr>,
     (model_of_type ''chat'' ''meta-llama-3.1-8b-instruct'')\<lparr>am_contextWindowTokens := Some 131072,
       am_description := Some (tx 409), am_displayName := Some ''Meta Llama 3.1 8B'',
       am_maxOutput := Some 4096\<rparr>,
     (model_of_type ''chat'' ''meta-llama-3.1-70b-instruct'')\<lparr>am_contextWindowTokens := Some 131072,
       am_description := Some (tx 418), am_displayName := Some ''Meta Llama 3.1 70B'',
       am_maxOutput := Some 4096\<rparr>,
     (model_of_type ''chat'' ''meta-llama-3.1-405b-instruct'')\<lparr>am_contextWindowTokens := Some 131072,
       am_description := Some (tx 427), am_displayName := Some ''Meta Llama 3.1 405B'',
       am_maxOutput := Some 4096\<rparr>]"

definition githubChatModels_4 :: "texts \<Rightarrow> ai_model list" where
  [card_tables]: "githubChatModels_4 tx = [
     (model_of_type ''chat'' ''meta-llama-3-8b-instruct'')\<lparr>am_contextWindowTokens := Some 8192,
       am_description := Some (tx 435), am_displayName := Some ''Meta Llama 3 8B'',
       am_maxOutput := Some 4096\<rparr>,
     (model_of_type ''chat'' ''meta-llama-3-70b-instruct'')\<lparr>am_contextWindowTokens := Some 8192,
       am_description := Some (tx 443), am_displayName := Some ''Meta Llama 3 70B'',
       am_maxOutput := Some 4096\<rparr>,
     (model_of_type ''chat'' ''Phi-4'')\<lparr>am_contextWindowTokens := Some 16384,
       am_displayName := Some ''Phi 4'', am_maxOutput := Some 16384\<rparr>,
     (model_of_type ''chat'' ''Phi-3.5-MoE-instruct'')\<lparr>am_contextWindowTokens := Some 131072,
       am_displayName := Some ''Phi 3.5 MoE'', am_maxOutput := Some 4096\<rparr>,
     (model_of_type ''chat'' ''Phi-3.5-mini-instruct'')\<lparr>am_contextWindowTokens := Some 131072,
       am_description := Some (tx 465), am_displayName := Some ''Phi-3.5-mini 128K'',
       am_maxOutput := Some 4096\<rparr>,
     (model_of_type ''chat'' ''Phi-3.5-vision-instrust'')\<lparr>am_abilities := Some (no_abilities\<lparr>ab_vision := Some True\<rparr>),
       am_contextWindowTokens := Some 131072, am_description := Some (tx 476),
       am_displayName := Some ''Phi-3.5-vision 128K'', am_maxOutput := Some 4096\<rparr>,
     (model_of_type ''chat'' ''Phi-3-mini-4k-instruct'')\<lparr>am_contextWindowTokens := Some 4096,
       am_description := Some (tx 484), am_displayName := Some ''Phi-3-mini 4K'',
       am_maxOutput := Some 4096\<rparr>,
     (model_of_type ''chat'' ''Phi-3-mini-128k-instruct'')\<lparr>am_contextWindowTokens := Some 131072,
       am_description := Some (tx 492), am_displayName := Some ''Phi-3-mini 128K'',
       am_maxOutput := Some 4096\<rparr>,
     (model_of_type ''chat'' ''Phi-3-small-8k-instruct'')\<lparr>am_contextWindowTokens := Some 8192,
       am_description := Some (tx 500), am_displayName := Some ''Phi-3-small 8K'',
       am_maxOutput := Some 4096\<rparr>,
     (model_of_type ''chat'' ''Phi-3-small-128k-instruct'')\<lparr>am_contextWindowTokens := Some 131072,
       am_description := Some (tx 508), am_displayName := Some ''Phi-3-small 128K'',
       am_maxOutput := Some 4096\<rparr>,
     (model_of_type ''chat'' ''Phi-3-medium-4k-instruct'')\<lparr>am_contextWindowTokens := Some 4096,
       am_description := Some (tx 516), am_displayName := Some ''Phi-3-medium 4K'',
       am_maxOutput := Some 4096\<rparr>,
     (model_of_type ''chat'' ''Phi-3-medium-128k-instruct'')\<lparr>am_contextWindowTokens := Some 131072,
       am_description := Some (tx 524), am_displayName := Some ''Phi-3-medium 128K'',
       am_maxOutput := Some 4096\<rparr>]"

definition githubChatModels :: "texts \<Rightarrow> ai_model list" where
  [card_tables]: "githubChatModels tx =
     githubChatModels_1 tx @ githubChatModels_2 tx @ githubChatModels_3 tx @ githubChatModels_4
     tx"

section \<open>google\<close>

definition googleChatModels_1 :: "texts \<Rightarrow> ai_model list" where
  [card_tables]: "googleChatModels_1 tx = [
     (model_of_type ''chat'' ''gemini-2.5-pro-preview-05-06'')\<lparr>am_abilities := Some (no_abilities\<lparr>ab_functionCall := Some True,
       ab_reasoning := Some True, ab_search := Some True, ab_vision := Some True\<rparr>),
       am_contextWindowTokens := Some (1048576 + 65536), am_description := Some (tx 13),
       am_displayName := Some ''Gemini 2.5 Pro Preview 05-06 (Paid)'', am_maxOutput := Some 65536,
       am_pricing := Some (no_pricing\<lparr>price_input := Some 1.25, price_output := Some 10\<rparr>),
       am_releasedAt := Some ''2025-05-06'',
       am_settings := Some (no_settings\<lparr>ms_searchImpl := Some ''params'',
       ms_searchProvider := Some ''google''\<rparr>)\<rparr>,
     (model_of_type ''chat'' ''gemini-2.5-pro-exp-03-25'')\<lparr>am_abilities := Some (no_abilities\<lparr>ab_functionCall := Some True,
       ab_reasoning := Some True, ab_search := Some True, ab_vision := Some True\<rparr>),
       am_contextWindowTokens := Some (1048576 + 65536), am_description := Some (tx 37),
       am_displayName := Some ''Gemini 2.5 Pro Experimental 03-25'', am_maxOutput := Some 65536,
       am_pricing := Some (no_pricing\<lparr>price_input := Some 0, price_output := Some 0\<rparr>),
       am_releasedAt := Some ''2025-03-25'',
       am_settings := Some (no_settings\<lparr>ms_searchImpl := Some ''params'',
       ms_searchProvider := Some ''google''\<rparr>)\<rparr>,
     (model_of_type ''chat'' ''gemini-2.5-flash-preview-04-17'')\<lparr>am_abilities := Some (no_abilities\<lparr>ab_functionCall := Some True,
       ab_reasoning := Some True, ab_search := Some True, ab_vision := Some True\<rparr>),
       am_contextWindowTokens := Some (1048576 + 65536), am_description := Some (tx 60),
       am_displayName := Some ''Gemini 2.5 Flash Preview 04-17'', am_enabled := Some True,
       am_maxOutput := Some 65536, am_pricing := Some (no_pricing\<lparr>price_input := Some 0.15,
       price_output := Some 3.5\<rparr>), am_releasedAt := Some ''2025-04-17'',
       am_settings := Some (no_settings\<lparr>ms_searchImpl := Some ''params'',
       ms_searchProvider := Some ''google''\<rparr>)\<rparr>,
     (model_of_type ''chat'' ''gemini-2.0-flash'')\<lparr>am_abilities := Some (no_abilities\<lparr>ab_functionCall := Some True,
       ab_search := Some True, ab_vision := Some True\<rparr>),
       am_contextWindowTokens := Some (1048576 + 8192), am_description := Some (tx 84),
       am_displayName := Some ''Gemini 2.0 Flash'', am_maxOutput := Some 8192,
       am_pricing := Some (no_pricing\<lparr>price_cachedInput := Some 0.025, price_input := Some 0.1,
       price_output := Some 0.4\<rparr>), am_releasedAt := Some ''2025-02-05'',
       am_settings := Some (no_settings\<lparr>ms_searchImpl := Some ''params'',
       ms_searchProvider := Some ''google''\<rparr>)\<rparr>,
     (model_of_type ''chat'' ''gemini-2.0-flash-001'')\<lparr>am_abilities := Some (no_abilities\<lparr>ab_functionCall := Some True,
       ab_search := Some True, ab_vision := Some True\<rparr>),
       am_contextWindowTokens := Some (1048576 + 8192), am_description := Some (tx 108),
       am_displayName := Some ''Gemini 2.0 Flash 001'', am_maxOutput := Some 8192,
       am_pricing := Some (no_pricing\<lparr>price_cachedInput := Some 0.025, price_input := Some 0.1,
       price_output := Some 0.4\<rparr>), am_releasedAt := Some ''2025-02-05'',
       am_settings := Some (no_settings\<lparr>ms_searchImpl := Some ''params'',
       ms_searchProvider := Some ''google''\<rparr>)\<rparr>,
     (model_of_type ''chat'' ''gemini-2.0-flash-preview-image-generation'')\<lparr>am_abilities := Some (no_abilities\<lparr>ab_imageOutput := Some True,
       ab_vision := Some True\<rparr>), am_contextWindowTokens := Some (32768 + 8192),
       am_description := Some (tx 130),
       am_displayName := Some ''Gemini 2.0 Flash Preview Image Generation'',
       am_enabled := Some True, am_maxOutput := Some 8192,
       am_pricing := Some (no_pricing\<lparr>price_input := Some 0.1, price_output := Some 0.039\<rparr>),
       am_releasedAt := Some ''2025-05-07''\<rparr>]"

definition googleChatModels_2 :: "texts \<Rightarrow> ai_model list" where
  [card_tables]: "googleChatModels_2 tx = [
     (model_of_type ''chat'' ''gemini-2.0-flash-exp-image-generation'')\<lparr>am_abilities := Some (no_abilities\<lparr>ab_imageOutput := Some True,
       ab_vision := Some True\<rparr>), am_contextWindowTokens := Some (1048576 + 8192),
       am_description := Some (tx 148),
       am_displayName := Some ''Gemini 2.0 Flash (Image Generation) Experimental'',
       am_maxOutput := Some 8192, am_pricing := Some (no_pricing\<lparr>price_input := Some 0,
       price_output := Some 0\<rparr>), am_releasedAt := Some ''2025-03-14''\<rparr>,
     (model_of_type ''chat'' ''gemini-2.0-flash-lite'')\<lparr>am_abilities := Some (no_abilities\<lparr>ab_vision := Some True\<rparr>),
       am_contextWindowTokens := Some (1048576 + 8192), am_description := Some (tx 164),
       am_displayName := Some ''Gemini 2.0 Flash-Lite'', am_maxOutput := Some 8192,
       am_pricing := Some (no_pricing\<lparr>price_cachedInput := Some 0.01875, price_input := Some 0.075,
       price_output := Some 0.3\<rparr>), am_releasedAt := Some ''2025-02-05''\<rparr>,
     (model_of_type ''chat'' ''gemini-2.0-flash-lite-001'')\<lparr>am_abilities := Some (no_abilities\<lparr>ab_vision := Some True\<rparr>),
       am_contextWindowTokens := Some (1048576 + 8192), am_description := Some (tx 181),
       am_displayName := Some ''Gemini 2.0 Flash-Lite 001'', am_maxOutput := Some 8192,
       am_pricing := Some (no_pricing\<lparr>price_cachedInput := Some 0.01875, price_input := Some 0.075,
       price_output := Some 0.3\<rparr>), am_releasedAt := Some ''2025-02-05''\<rparr>,
     (model_of_type ''chat'' ''gemini-2.0-flash-exp'')\<lparr>am_abilities := Some (no_abilities\<lparr>ab_imageOutput := Some True,
       ab_vision := Some True\<rparr>), am_contextWindowTokens := Some (1048576 + 8192),
       am_description := Some (tx 199), am_displayName := Some ''Gemini 2.0 Flash Exp'',
       am_maxOutput := Some 8192, am_pricing := Some (no_pricing\<lparr>price_input := Some 0,
       price_output := Some 0\<rparr>), am_releasedAt := Some ''2025-02-05''\<rparr>,
     (model_of_type ''chat'' ''learnlm-2.0-flash-experimental'')\<lparr>am_abilities := Some (no_abilities\<lparr>ab_vision := Some True\<rparr>),
       am_contextWindowTokens := Some (1048576 + 32768), am_description := Some (tx 216),
       am_displayName := Some ''LearnLM 2.0 Flash Experimental'', am_maxOutput := Some 32768,
       am_pricing := Some (no_pricing\<lparr>price_cachedInput := Some 0, price_input := Some 0,
       price_output := Some 0\<rparr>)\<rparr>,
     (model_of_type ''chat'' ''learnlm-1.5-pro-experimental'')\<lparr>am_abilities := Some (no_abilities\<lparr>ab_vision := Some True\<rparr>),
       am_contextWindowTokens := Some 40959, am_description := Some (tx 233),
       am_displayName := Some ''LearnLM 1.5 Pro Experimental'', am_maxOutput := Some 8192,
       am_pricing := Some (no_pricing\<lparr>price_cachedInput := Some 0, price_input := Some 0,
       price_output := Some 0\<rparr>), am_releasedAt := Some ''2024-11-19''\<rparr>,
     (model_of_type ''chat'' ''gemini-1.5-flash-002'')\<lparr>am_abilities := Some (no_abilities\<lparr>ab_functionCall := Some True,
       ab_vision := Some True\<rparr>), am_contextWindowTokens := Some 1008192,
       am_description := Some (tx 251), am_displayName := Some ''Gemini 1.5 Flash 002'',
       am_maxOutput := Some 8192, am_pricing := Some (no_pricing\<lparr>price_cachedInput := Some 0.01875,
       price_input := Some 0.075, price_output := Some 0.3\<rparr>), am_releasedAt := Some ''2024-09-25''\<rparr>,
     (model_of_type ''chat'' ''gemini-1.5-flash-001'')\<lparr>am_abilities := Some (no_abilities\<lparr>ab_functionCall := Some True,
       ab_vision := Some True\<rparr>), am_contextWindowTokens := Some 1008192,
       am_description := Some (tx 269), am_displayName := Some ''Gemini 1.5 Flash 001'',
       am_maxOutput := Some 8192, am_pricing := Some (no_pricing\<lparr>price_cachedInput := Some 0.01875,
       price_input := Some 0.075, price_output := Some 0.3\<rparr>)\<rparr>]"

definition googleChatModels_3 :: "texts \<Rightarrow> ai_model list" where
  [card_tables]: "googleChatModels_3 tx = [
     (model_of_type ''chat'' ''gemini-1.5-pro-002'')\<lparr>am_abilities := Some (no_abilities\<lparr>ab_functionCall := Some True,
       ab_vision := Some True\<rparr>), am_contextWindowTokens := Some 2008192,
       am_description := Some (tx 287), am_displayName := Some ''Gemini 1.5 Pro 002'',
       am_maxOutput := Some 8192, am_pricing := Some (no_pricing\<lparr>price_cachedInput := Some 0.3125,
       price_input := Some 1.25, price_output := Some 5\<rparr>), am_releasedAt := Some ''2024-09-24''\<rparr>,
     (model_of_type ''chat'' ''gemini-1.5-pro-001'')\<lparr>am_abilities := Some (no_abilities\<lparr>ab_functionCall := Some True,
       ab_vision := Some True\<rparr>), am_contextWindowTokens := Some 2008192,
       am_description := Some (tx 305), am_displayName := Some ''Gemini 1.5 Pro 001'',
       am_maxOutput := Some 8192, am_pricing := Some (no_pricing\<lparr>price_cachedInput := Some 0.3125,
       price_input := Some 1.25, price_output := Some 5\<rparr>), am_releasedAt := Some ''2024-02-15''\<rparr>,
     (model_of_type ''chat'' ''gemini-1.5-flash-8b-latest'')\<lparr>am_abilities := Some (no_abilities\<lparr>ab_functionCall := Some True,
       ab_vision := Some True\<rparr>), am_contextWindowTokens := Some 1008192,
       am_description := Some (tx 323), am_displayName := Some ''Gemini 1.5 Flash 8B'',
       am_maxOutput := Some 8192, am_pricing := Some (no_pricing\<lparr>price_cachedInput := Some 0.01,
       price_input := Some 0.0375, price_output := Some 0.15\<rparr>),
       am_releasedAt := Some ''2024-10-03''\<rparr>,
     (model_of_type ''chat'' ''gemma-3-1b-it'')\<lparr>am_contextWindowTokens := Some (32768 + 8192),
       am_displayName := Some ''Gemma 3 1B'', am_maxOutput := Some 8192,
       am_pricing := Some (no_pricing\<lparr>price_cachedInput := Some 0, price_input := Some 0,
       price_output := Some 0\<rparr>)\<rparr>,
     (model_of_type ''chat'' ''gemma-3-4b-it'')\<lparr>am_contextWindowTokens := Some (32768 + 8192),
       am_displayName := Some ''Gemma 3 4B'', am_maxOutput := Some 8192,
       am_pricing := Some (no_pricing\<lparr>price_cachedInput := Some 0, price_input := Some 0,
       price_output := Some 0\<rparr>)\<rparr>,
     (model_of_type ''chat'' ''gemma-3-12b-it'')\<lparr>am_contextWindowTokens := Some (32768 + 8192),
       am_displayName := Some ''Gemma 3 12B'', am_maxOutput := Some 8192,
       am_pricing := Some (no_pricing\<lparr>price_cachedInput := Some 0, price_input := Some 0,
       price_output := Some 0\<rparr>)\<rparr>]"

definition googleChatModels :: "texts \<Rightarrow> ai_model list" where
  [card_tables]: "googleChatModels tx =
     googleChatModels_1 tx @ googleChatModels_2 tx @ googleChatModels_3 tx"

section \<open>groq\<close>

definition groqChatModels_1 :: "texts \<Rightarrow> ai_model list" where
  [card_tables]: "groqChatModels_1 tx = [
     (model_of_type ''chat'' ''compound-beta'')\<lparr>am_contextWindowTokens := Some 131072,
       am_description := Some (tx 10), am_displayName := Some ''Compound Beta'',
       am_enabled := Some True, am_maxOutput := Some 8192\<rparr>,
     (model_of_type ''chat'' ''compound-beta-mini'')\<lparr>am_contextWindowTokens := Some 131072,
       am_description := Some (tx 20), am_displayName := Some ''Compound Beta Mini'',
       am_maxOutput := Some 8192\<rparr>,
     (model_of_type ''chat'' ''meta-llama/llama-4-scout-17b-16e-instruct'')\<lparr>am_contextWindowTokens := Some 131072,
       am_displayName := Some ''Llama 4 Scout (17Bx16E)'', am_enabled := Some True,
       am_maxOutput := Some 8192, am_pricing := Some (no_pricing\<lparr>price_input := Some 0.11,
       price_output := Some 0.34\<rparr>)\<rparr>,
     (model_of_type ''chat'' ''meta-llama/llama-4-maverick-17b-128e-instruct'')\<lparr>am_contextWindowTokens := Some 131072,
       am_displayName := Some ''Llama 4 Maverick (17Bx128E)'', am_enabled := Some True,
       am_maxOutput := Some 8192, am_pricing := Some (no_pricing\<lparr>price_input := Some 0.5,
       price_output := Some 0.77\<rparr>)\<rparr>,
     (model_of_type ''chat'' ''qwen-qwq-32b'')\<lparr>am_abilities := Some (no_abilities\<lparr>ab_functionCall := Some True,
       ab_reasoning := Some True\<rparr>), am_contextWindowTokens := Some 131072,
       am_displayName := Some ''Qwen QwQ 32B'', am_enabled := Some True,
       am_pricing := Some (no_pricing\<lparr>price_input := Some 0.29, price_output := Some 0.39\<rparr>)\<rparr>,
     (model_of_type ''chat'' ''deepseek-r1-distill-llama-70b'')\<lparr>am_abilities := Some (no_abilities\<lparr>ab_functionCall := Some True,
       ab_reasoning := Some True\<rparr>), am_contextWindowTokens := Some 131072,
       am_displayName := Some ''DeepSeek R1 Distill Llama 70B'',
       am_pricing := Some (no_pricing\<lparr>price_input := Some 0.75, price_output := Some 0.99\<rparr>)\<rparr>,
     (model_of_type ''chat'' ''deepseek-r1-distill-llama-70b-specdec'')\<lparr>am_contextWindowTokens := Some 131072,
       am_displayName := Some ''DeepSeek R1 Distill Llama 70B SpecDec'', am_maxOutput := Some 16384,
       am_pricing := Some (no_pricing\<lparr>price_input := Some 0.75, price_output := Some 0.99\<rparr>)\<rparr>,
     (model_of_type ''chat'' ''gemma2-9b-it'')\<lparr>am_abilities := Some (no_abilities\<lparr>ab_functionCall := Some True\<rparr>),
       am_contextWindowTokens := Some 8192, am_description := Some (tx 95),
       am_displayName := Some ''Gemma 2 9B'',
       am_pricing := Some (no_pricing\<lparr>price_input := Some 0.2, price_output := Some 0.2\<rparr>)\<rparr>,
     (model_of_type ''chat'' ''llama-3.1-8b-instant'')\<lparr>am_abilities := Some (no_abilities\<lparr>ab_functionCall := Some True\<rparr>),
       am_contextWindowTokens := Some 131072, am_description := Some (tx 110),
       am_displayName := Some ''Llama 3.1 8B Instant'', am_maxOutput := Some 8192,
       am_pricing := Some (no_pricing\<lparr>price_input := Some 0.05, price_output := Some 0.08\<rparr>)\<rparr>,
     (model_of_type ''chat'' ''llama-3.3-70b-versatile'')\<lparr>am_abilities := Some (no_abilities\<lparr>ab_functionCall := Some True\<rparr>),
       am_contextWindowTokens := Some 131072, am_description := Some (tx 126),
       am_displayName := Some ''Llama 3.3 70B Versatile'', am_maxOutput := Some 32768,
       am_pricing := Some (no_pricing\<lparr>price_input := Some 0.59, price_output := Some 0.79\<rparr>)\<rparr>,
     (model_of_type ''chat'' ''llama3-70b-8192'')\<lparr>am_contextWindowTokens := Some 8192,
       am_description := Some (tx 138), am_displayName := Some ''Llama 3 70B'',
       am_pricing := Some (no_pricing\<lparr>price_input := Some 0.59, price_output := Some 0.79\<rparr>)\<rparr>]"

definition groqChatModels_2 :: "texts \<Rightarrow> ai_model list" where
  [card_tables]: "groqChatModels_2 tx = [
     (model_of_type ''chat'' ''llama3-8b-8192'')\<lparr>am_contextWindowTokens := Some 8192,
       am_description := Some (tx 149), am_displayName := Some ''Llama 3 8B'',
       am_pricing := Some (no_pricing\<lparr>price_input := Some 0.05, price_output := Some 0.08\<rparr>)\<rparr>,
     (model_of_type ''chat'' ''mistral-saba-24b'')\<lparr>am_contextWindowTokens := Some 32768,
       am_displayName := Some ''Mixtral Saba 24B'',
       am_pricing := Some (no_pricing\<lparr>price_input := Some 0.79, price_output := Some 0.79\<rparr>)\<rparr>,
     (model_of_type ''chat'' ''mixtral-8x7b-32768'')\<lparr>am_abilities := Some (no_abilities\<lparr>ab_functionCall := Some True\<rparr>),
       am_contextWindowTokens := Some 32768, am_description := Some (tx 173),
       am_displayName := Some ''Mixtral 8x7B Instruct'',
       am_pricing := Some (no_pricing\<lparr>price_input := Some 0.24, price_output := Some 0.24\<rparr>)\<rparr>,
     (model_of_type ''chat'' ''meta-llama/Llama-Guard-4-12B'')\<lparr>am_contextWindowTokens := Some 131072,
       am_displayName := Some ''Llama Guard 4 12B'', am_maxOutput := Some 128,
       am_pricing := Some (no_pricing\<lparr>price_input := Some 0.2, price_output := Some 0.2\<rparr>)\<rparr>,
     (model_of_type ''chat'' ''llama-guard-3-8b'')\<lparr>am_contextWindowTokens := Some 8192,
       am_displayName := Some ''Llama Guard 3 8B'',
       am_pricing := Some (no_pricing\<lparr>price_input := Some 0.2, price_output := Some 0.2\<rparr>)\<rparr>,
     (model_of_type ''chat'' ''allam-2-7b'')\<lparr>am_contextWindowTokens := Some 4096,
       am_displayName := Some ''ALLaM 2 7B''\<rparr>]"

definition groqChatModels :: "texts \<Rightarrow> ai_model list" where
  [card_tables]: "groqChatModels tx =
     groqChatModels_1 tx @ groqChatModels_2 tx"

end
