(* ===== verification/Model_Data_B.thy ===== *)
theory Model_Data_B
  imports Llm_Providers
begin

text \<open>
  The model cards of \<open>src/web/src/config/ai-models\<close>, the files \<open>higress.ts\<close> to \<open>novita.ts\<close>. A card
  is written as the update of a card without optional members, with the members in the order of
  the source; \<open>tx n\<close> is the text that stands on line \<open>n\<close> of the file and has characters outside
  the 8-bit ones of \<open>char\<close>. A list of more than 150 lines is cut into numbered pieces.
\<close>

section \<open>higress\<close>

definition higressChatModels_1 :: "texts \<Rightarrow> ai_model list" where
  [card_tables]: "higressChatModels_1 tx = [
     (model_of_type ''chat'' ''qwen-turbo'')\<lparr>am_abilities := Some (no_abilities\<lparr>ab_functionCall := Some True\<rparr>),
       am_contextWindowTokens := Some 131072, am_description := Some (tx 9),
       am_displayName := Some ''Qwen Turbo'', am_enabled := Some True,
       am_pricing := Some (no_pricing\<lparr>price_currency := Some CNY, price_input := Some 0.3,
       price_output := Some 0.6\<rparr>)\<rparr>,
     (model_of_type ''chat'' ''qwen-plus'')\<lparr>am_abilities := Some (no_abilities\<lparr>ab_functionCall := Some True\<rparr>),
       am_contextWindowTokens := Some 131072, am_description := Some (tx 25),
       am_displayName := Some ''Qwen Plus'', am_enabled := Some True,
       am_pricing := Some (no_pricing\<lparr>price_currency := Some CNY, price_input := Some 0.8,
       price_output := Some 2\<rparr>)\<rparr>,
     (model_of_type ''chat'' ''qwen-max'')\<lparr>am_abilities := Some (no_abilities\<lparr>ab_functionCall := Some True\<rparr>),
       am_contextWindowTokens := Some 32768, am_description := Some (tx 42),
       am_displayName := Some ''Qwen Max'', am_enabled := Some True,
       am_pricing := Some (no_pricing\<lparr>price_currency := Some CNY, price_input := Some 20,
       price_output := Some 60\<rparr>)\<rparr>,
     (model_of_type ''chat'' ''qwen-long'')\<lparr>am_contextWindowTokens := Some 1000000,
       am_description := Some (tx 56), am_displayName := Some ''Qwen Long'',
       am_pricing := Some (no_pricing\<lparr>price_currency := Some CNY, price_input := Some 0.5,
       price_output := Some 2\<rparr>)\<rparr>,
     (model_of_type ''chat'' ''qwen-vl-plus-latest'')\<lparr>am_abilities := Some (no_abilities\<lparr>ab_vision := Some True\<rparr>),
       am_contextWindowTokens := Some 32000, am_description := Some (tx 72),
       am_displayName := Some ''Qwen VL Plus'', am_enabled := Some True,
       am_pricing := Some (no_pricing\<lparr>price_currency := Some CNY, price_input := Some 8,
       price_output := Some 8\<rparr>)\<rparr>,
     (model_of_type ''chat'' ''qwen-vl-max-latest'')\<lparr>am_abilities := Some (no_abilities\<lparr>ab_vision := Some True\<rparr>),
       am_contextWindowTokens := Some 32000, am_description := Some (tx 89),
       am_displayName := Some ''Qwen VL Max'', am_enabled := Some True,
       am_pricing := Some (no_pricing\<lparr>price_currency := Some CNY, price_input := Some 20,
       price_output := Some 20\<rparr>)\<rparr>,
     (model_of_type ''chat'' ''qwen-math-turbo-latest'')\<lparr>am_contextWindowTokens := Some 4096,
       am_description := Some (tx 102), am_displayName := Some ''Qwen Math Turbo'',
       am_pricing := Some (no_pricing\<lparr>price_currency := Some CNY, price_input := Some 2,
       price_output := Some 6\<rparr>)\<rparr>,
     (model_of_type ''chat'' ''qwen-math-plus-latest'')\<lparr>am_contextWindowTokens := Some 4096,
       am_description := Some (tx 114), am_displayName := Some ''Qwen Math Plus'',
       am_pricing := Some (no_pricing\<lparr>price_currency := Some CNY, price_input := Some 4,
       price_output := Some 12\<rparr>)\<rparr>,
     (model_of_type ''chat'' ''qwen-coder-turbo-latest'')\<lparr>am_contextWindowTokens := Some 131072,
       am_description := Some (tx 126), am_displayName := Some ''Qwen Coder Turbo'',
       am_pricing := Some (no_pricing\<lparr>price_currency := Some CNY, price_input := Some 2,
       price_output := Some 6\<rparr>)\<rparr>,
     (model_of_type ''chat'' ''qwen2.5-7b-instruct'')\<lparr>am_abilities := Some (no_abilities\<lparr>ab_functionCall := Some True\<rparr>),
       am_contextWindowTokens := Some 131072, am_description := Some (tx 141),
       am_displayName := Some ''Qwen2.5 7B'',
       am_pricing := Some (no_pricing\<lparr>price_currency := Some CNY, price_input := Some 1,
       price_output := Some 2\<rparr>)\<rparr>]"

definition higressChatModels_2 :: "texts \<Rightarrow> ai_model list" where
  [card_tables]: "higressChatModels_2 tx = [
     (model_of_type ''chat'' ''qwen2.5-14b-instruct'')\<lparr>am_abilities := Some (no_abilities\<lparr>ab_functionCall := Some True\<rparr>),
       am_contextWindowTokens := Some 131072, am_description := Some (tx 156),
       am_displayName := Some ''Qwen2.5 14B'',
       am_pricing := Some (no_pricing\<lparr>price_currency := Some CNY, price_input := Some 2,
       price_output := Some 6\<rparr>)\<rparr>,
     (model_of_type ''chat'' ''qwen2.5-32b-instruct'')\<lparr>am_abilities := Some (no_abilities\<lparr>ab_functionCall := Some True\<rparr>),
       am_contextWindowTokens := Some 131072, am_description := Some (tx 171),
       am_displayName := Some ''Qwen2.5 32B'',
       am_pricing := Some (no_pricing\<lparr>price_currency := Some CNY, price_input := Some 3.5,
       price_output := Some 7\<rparr>)\<rparr>,
     (model_of_type ''chat'' ''qwen2.5-72b-instruct'')\<lparr>am_abilities := Some (no_abilities\<lparr>ab_functionCall := Some True\<rparr>),
       am_contextWindowTokens := Some 131072, am_description := Some (tx 186),
       am_displayName := Some ''Qwen2.5 72B'',
       am_pricing := Some (no_pricing\<lparr>price_currency := Some CNY, price_input := Some 4,
       price_output := Some 12\<rparr>)\<rparr>,
     (model_of_type ''chat'' ''qwen2.5-math-1.5b-instruct'')\<lparr>am_contextWindowTokens := Some 4096,
       am_description := Some (tx 198), am_displayName := Some ''Qwen2.5 Math 1.5B'',
       am_pricing := Some (no_pricing\<lparr>price_currency := Some CNY, price_input := Some 0,
       price_output := Some 0\<rparr>)\<rparr>,
     (model_of_type ''chat'' ''qwen2.5-math-7b-instruct'')\<lparr>am_contextWindowTokens := Some 4096,
       am_description := Some (tx 210), am_displayName := Some ''Qwen2.5 Math 7B'',
       am_pricing := Some (no_pricing\<lparr>price_currency := Some CNY, price_input := Some 1,
       price_output := Some 2\<rparr>)\<rparr>,
     (model_of_type ''chat'' ''qwen2.5-math-72b-instruct'')\<lparr>am_contextWindowTokens := Some 4096,
       am_description := Some (tx 222), am_displayName := Some ''Qwen2.5 Math 72B'',
       am_pricing := Some (no_pricing\<lparr>price_currency := Some CNY, price_input := Some 4,
       price_output := Some 12\<rparr>)\<rparr>,
     (model_of_type ''chat'' ''qwen2.5-coder-1.5b-instruct'')\<lparr>am_contextWindowTokens := Some 131072,
       am_description := Some (tx 234), am_displayName := Some ''Qwen2.5 Coder 1.5B'',
       am_pricing := Some (no_pricing\<lparr>price_currency := Some CNY, price_input := Some 0,
       price_output := Some 0\<rparr>)\<rparr>,
     (model_of_type ''chat'' ''qwen2.5-coder-7b-instruct'')\<lparr>am_contextWindowTokens := Some 131072,
       am_description := Some (tx 246), am_displayName := Some ''Qwen2.5 Coder 7B'',
       am_pricing := Some (no_pricing\<lparr>price_currency := Some CNY, price_input := Some 1,
       price_output := Some 2\<rparr>)\<rparr>,
     (model_of_type ''chat'' ''qwen-vl-v1'')\<lparr>am_abilities := Some (no_abilities\<lparr>ab_vision := Some True\<rparr>),
       am_contextWindowTokens := Some 8000, am_description := Some (tx 261),
       am_displayName := Some ''Qwen VL'',
       am_pricing := Some (no_pricing\<lparr>price_currency := Some CNY, price_input := Some 0,
       price_output := Some 0\<rparr>)\<rparr>,
     (model_of_type ''chat'' ''qwen-vl-chat-v1'')\<lparr>am_abilities := Some (no_abilities\<lparr>ab_vision := Some True\<rparr>),
       am_contextWindowTokens := Some 8000, am_description := Some (tx 276),
       am_displayName := Some ''Qwen VL Chat'',
       am_pricing := Some (no_pricing\<lparr>price_currency := Some CNY, price_input := Some 0,
       price_output := Some 0\<rparr>)\<rparr>,
     (model_of_type ''chat'' ''moonshot-v1-8k'')\<lparr>am_abilities := Some (no_abilities\<lparr>ab_functionCall := Some True\<rparr>),
       am_contextWindowTokens := Some 8192, am_description := Some (tx 292),
       am_displayName := Some ''Moonshot V1 8K'', am_enabled := Some True\<rparr>]"

definition higressChatModels_3 :: "texts \<Rightarrow> ai_model list" where
  [card_tables]: "higressChatModels_3 tx = [
     (model_of_type ''chat'' ''moonshot-v1-32k'')\<lparr>am_abilities := Some (no_abilities\<lparr>ab_functionCall := Some True\<rparr>),
       am_contextWindowTokens := Some 32768, am_description := Some (tx 304),
       am_displayName := Some ''Moonshot V1 32K'', am_enabled := Some True\<rparr>,
     (model_of_type ''chat'' ''moonshot-v1-128k'')\<lparr>am_abilities := Some (no_abilities\<lparr>ab_functionCall := Some True\<rparr>),
       am_contextWindowTokens := Some 128000, am_description := Some (tx 316),
       am_displayName := Some ''Moonshot V1 128K'', am_enabled := Some True\<rparr>,
     (model_of_type ''chat'' ''Baichuan4'')\<lparr>am_abilities := Some (no_abilities\<lparr>ab_functionCall := Some True\<rparr>),
       am_contextWindowTokens := Some 32768, am_description := Some (tx 328),
       am_displayName := Some ''Baichuan 4'', am_enabled := Some True, am_maxOutput := Some 4096,
       am_pricing := Some (no_pricing\<lparr>price_currency := Some CNY, price_input := Some 100,
       price_output := Some 100\<rparr>)\<rparr>,
     (model_of_type ''chat'' ''Baichuan4-Turbo'')\<lparr>am_abilities := Some (no_abilities\<lparr>ab_functionCall := Some True\<rparr>),
       am_description := Some '''', am_displayName := Some ''Baichuan 4 Turbo'',
       am_enabled := Some True\<rparr>,
     (model_of_type ''chat'' ''Baichuan4-Air'')\<lparr>am_abilities := Some (no_abilities\<lparr>ab_functionCall := Some True\<rparr>),
       am_description := Some '''', am_displayName := Some ''Baichuan 4 Air'',
       am_enabled := Some True\<rparr>,
     (model_of_type ''chat'' ''Baichuan3-Turbo'')\<lparr>am_abilities := Some (no_abilities\<lparr>ab_functionCall := Some True\<rparr>),
       am_contextWindowTokens := Some 32768, am_description := Some (tx 366),
       am_displayName := Some ''Baichuan 3 Turbo'', am_enabled := Some True,
       am_maxOutput := Some 8192, am_pricing := Some (no_pricing\<lparr>price_currency := Some CNY,
       price_input := Some 12, price_output := Some 12\<rparr>)\<rparr>,
     (model_of_type ''chat'' ''Baichuan3-Turbo-128k'')\<lparr>am_contextWindowTokens := Some 128000,
       am_description := Some (tx 381), am_displayName := Some ''Baichuan 3 Turbo 128k'',
       am_enabled := Some True, am_maxOutput := Some 4096,
       am_pricing := Some (no_pricing\<lparr>price_currency := Some CNY, price_input := Some 24,
       price_output := Some 24\<rparr>)\<rparr>,
     (model_of_type ''chat'' ''Baichuan2-Turbo'')\<lparr>am_contextWindowTokens := Some 32768,
       am_description := Some (tx 396), am_displayName := Some ''Baichuan 2 Turbo'',
       am_maxOutput := Some 8192, am_pricing := Some (no_pricing\<lparr>price_currency := Some CNY,
       price_input := Some 8, price_output := Some 8\<rparr>)\<rparr>,
     (model_of_type ''chat'' ''yi-lightning'')\<lparr>am_contextWindowTokens := Some 16384,
       am_description := Some (tx 409), am_displayName := Some ''Yi Lightning'',
       am_enabled := Some True, am_pricing := Some (no_pricing\<lparr>price_currency := Some CNY,
       price_input := Some 0.99, price_output := Some 0.99\<rparr>)\<rparr>,
     (model_of_type ''chat'' ''yi-spark'')\<lparr>am_contextWindowTokens := Some 16384,
       am_description := Some (tx 422), am_displayName := Some ''Yi Spark'',
       am_enabled := Some True, am_pricing := Some (no_pricing\<lparr>price_currency := Some CNY,
       price_input := Some 1, price_output := Some 1\<rparr>)\<rparr>,
     (model_of_type ''chat'' ''yi-medium'')\<lparr>am_contextWindowTokens := Some 16384,
       am_description := Some (tx 435), am_displayName := Some ''Yi Medium'',
       am_enabled := Some True, am_pricing := Some (no_pricing\<lparr>price_currency := Some CNY,
       price_input := Some 2.5, price_output := Some 2.5\<rparr>)\<rparr>]"

definition higressChatModels_4 :: "texts \<Rightarrow> ai_model list" where
  [card_tables]: "higressChatModels_4 tx = [
     (model_of_type ''chat'' ''yi-medium-200k'')\<lparr>am_contextWindowTokens := Some 200000,
       am_description := Some (tx 448), am_displayName := Some ''Yi Medium 200K'',
       am_enabled := Some True, am_pricing := Some (no_pricing\<lparr>price_currency := Some CNY,
       price_input := Some 12, price_output := Some 12\<rparr>)\<rparr>,
     (model_of_type ''chat'' ''yi-large-turbo'')\<lparr>am_contextWindowTokens := Some 16384,
       am_description := Some (tx 461), am_displayName := Some ''Yi Large Turbo'',
       am_enabled := Some True, am_pricing := Some (no_pricing\<lparr>price_currency := Some CNY,
       price_input := Some 12, price_output := Some 12\<rparr>)\<rparr>,
     (model_of_type ''chat'' ''yi-large-rag'')\<lparr>am_contextWindowTokens := Some 16384,
       am_description := Some (tx 475), am_displayName := Some ''Yi Large RAG'',
       am_enabled := Some True, am_pricing := Some (no_pricing\<lparr>price_currency := Some CNY,
       price_input := Some 25, price_output := Some 25\<rparr>)\<rparr>,
     (model_of_type ''chat'' ''yi-large-fc'')\<lparr>am_abilities := Some (no_abilities\<lparr>ab_functionCall := Some True\<rparr>),
       am_contextWindowTokens := Some 32768, am_description := Some (tx 492),
       am_displayName := Some ''Yi Large FC'', am_enabled := Some True,
       am_pricing := Some (no_pricing\<lparr>price_currency := Some CNY, price_input := Some 20,
       price_output := Some 20\<rparr>)\<rparr>,
     (model_of_type ''chat'' ''yi-large'')\<lparr>am_contextWindowTokens := Some 32768,
       am_description := Some (tx 505), am_displayName := Some ''Yi Large'',
       am_pricing := Some (no_pricing\<lparr>price_currency := Some CNY, price_input := Some 20,
       price_output := Some 20\<rparr>)\<rparr>,
     (model_of_type ''chat'' ''yi-vision'')\<lparr>am_abilities := Some (no_abilities\<lparr>ab_vision := Some True\<rparr>),
       am_contextWindowTokens := Some 16384, am_description := Some (tx 520),
       am_displayName := Some ''Yi Vision'', am_enabled := Some True,
       am_pricing := Some (no_pricing\<lparr>price_currency := Some CNY, price_input := Some 6,
       price_output := Some 6\<rparr>)\<rparr>,
     (model_of_type ''chat'' ''yi-large-preview'')\<lparr>am_contextWindowTokens := Some 16384,
       am_description := Some (tx 533), am_displayName := Some ''Yi Large Preview'',
       am_pricing := Some (no_pricing\<lparr>price_currency := Some CNY, price_input := Some 20,
       price_output := Some 20\<rparr>)\<rparr>,
     (model_of_type ''chat'' ''yi-lightning-lite'')\<lparr>am_contextWindowTokens := Some 16384,
       am_description := Some (tx 545), am_displayName := Some ''Yi Lightning Lite'',
       am_pricing := Some (no_pricing\<lparr>price_currency := Some CNY, price_input := Some 0.99,
       price_output := Some 0.99\<rparr>)\<rparr>,
     (model_of_type ''chat'' ''glm-4-flash'')\<lparr>am_abilities := Some (no_abilities\<lparr>ab_functionCall := Some True\<rparr>),
       am_contextWindowTokens := Some 128000, am_description := Some (tx 560),
       am_displayName := Some ''GLM-4-Flash'', am_enabled := Some True,
       am_pricing := Some (no_pricing\<lparr>price_currency := Some CNY, price_input := Some 0,
       price_output := Some 0\<rparr>)\<rparr>,
     (model_of_type ''chat'' ''glm-4-flashx'')\<lparr>am_abilities := Some (no_abilities\<lparr>ab_functionCall := Some True\<rparr>),
       am_contextWindowTokens := Some 128000, am_description := Some (tx 576),
       am_displayName := Some ''GLM-4-FlashX'', am_enabled := Some True,
       am_pricing := Some (no_pricing\<lparr>price_currency := Some CNY, price_input := Some 0.1,
       price_output := Some 0.1\<rparr>)\<rparr>]"

definition higressChatModels_5 :: "texts \<Rightarrow> ai_model list" where
  [card_tables]: "higressChatModels_5 tx = [
     (model_of_type ''chat'' ''glm-4-long'')\<lparr>am_abilities := Some (no_abilities\<lparr>ab_functionCall := Some True\<rparr>),
       am_contextWindowTokens := Some 1024000, am_description := Some (tx 592),
       am_displayName := Some ''GLM-4-Long'',
       am_pricing := Some (no_pricing\<lparr>price_currency := Some CNY, price_input := Some 1,
       price_output := Some 1\<rparr>)\<rparr>,
     (model_of_type ''chat'' ''glm-4-air'')\<lparr>am_abilities := Some (no_abilities\<lparr>ab_functionCall := Some True\<rparr>),
       am_contextWindowTokens := Some 128000, am_description := Some (tx 607),
       am_displayName := Some ''GLM-4-Air'', am_enabled := Some True,
       am_pricing := Some (no_pricing\<lparr>price_currency := Some CNY, price_input := Some 1,
       price_output := Some 1\<rparr>)\<rparr>,
     (model_of_type ''chat'' ''glm-4-airx'')\<lparr>am_abilities := Some (no_abilities\<lparr>ab_functionCall := Some True\<rparr>),
       am_contextWindowTokens := Some 8192, am_description := Some (tx 623),
       am_displayName := Some ''GLM-4-AirX'', am_enabled := Some True,
       am_pricing := Some (no_pricing\<lparr>price_currency := Some CNY, price_input := Some 10,
       price_output := Some 10\<rparr>)\<rparr>,
     (model_of_type ''chat'' ''glm-4-alltools'')\<lparr>am_abilities := Some (no_abilities\<lparr>ab_functionCall := Some True\<rparr>),
       am_contextWindowTokens := Some 128000, am_description := Some (tx 640),
       am_displayName := Some ''GLM-4-AllTools'',
       am_pricing := Some (no_pricing\<lparr>price_currency := Some CNY, price_input := Some 100,
       price_output := Some 100\<rparr>)\<rparr>,
     (model_of_type ''chat'' ''glm-4-plus'')\<lparr>am_abilities := Some (no_abilities\<lparr>ab_functionCall := Some True\<rparr>),
       am_contextWindowTokens := Some 128000, am_description := Some (tx 655),
       am_displayName := Some ''GLM-4-Plus'', am_enabled := Some True,
       am_pricing := Some (no_pricing\<lparr>price_currency := Some CNY, price_input := Some 50,
       price_output := Some 50\<rparr>)\<rparr>,
     (model_of_type ''chat'' ''glm-4-0520'')\<lparr>am_abilities := Some (no_abilities\<lparr>ab_functionCall := Some True\<rparr>),
       am_contextWindowTokens := Some 128000, am_description := Some (tx 671),
       am_displayName := Some ''GLM-4-0520'',
       am_pricing := Some (no_pricing\<lparr>price_currency := Some CNY, price_input := Some 100,
       price_output := Some 100\<rparr>)\<rparr>,
     (model_of_type ''chat'' ''glm-4'')\<lparr>am_abilities := Some (no_abilities\<lparr>ab_functionCall := Some True\<rparr>),
       am_contextWindowTokens := Some 128000, am_description := Some (tx 686),
       am_displayName := Some ''GLM-4'', am_pricing := Some (no_pricing\<lparr>price_currency := Some CNY,
       price_input := Some 100, price_output := Some 100\<rparr>)\<rparr>,
     (model_of_type ''chat'' ''glm-4v-plus'')\<lparr>am_abilities := Some (no_abilities\<lparr>ab_vision := Some True\<rparr>),
       am_contextWindowTokens := Some 8192, am_description := Some (tx 701),
       am_displayName := Some ''GLM-4V-Plus'', am_enabled := Some True,
       am_pricing := Some (no_pricing\<lparr>price_currency := Some CNY, price_input := Some 10,
       price_output := Some 10\<rparr>)\<rparr>,
     (model_of_type ''chat'' ''glm-4v'')\<lparr>am_abilities := Some (no_abilities\<lparr>ab_vision := Some True\<rparr>),
       am_contextWindowTokens := Some 2048, am_description := Some (tx 717),
       am_displayName := Some ''GLM-4V'', am_pricing := Some (no_pricing\<lparr>price_currency := Some CNY,
       price_input := Some 50, price_output := Some 50\<rparr>)\<rparr>]"

definition higressChatModels_6 :: "texts \<Rightarrow> ai_model list" where
  [card_tables]: "higressChatModels_6 tx = [
     (model_of_type ''chat'' ''charglm-3'')\<lparr>am_contextWindowTokens := Some 4096,
       am_description := Some (tx 729), am_displayName := Some ''CharGLM-3'',
       am_pricing := Some (no_pricing\<lparr>price_currency := Some CNY, price_input := Some 15,
       price_output := Some 15\<rparr>)\<rparr>,
     (model_of_type ''chat'' ''emohaa'')\<lparr>am_contextWindowTokens := Some 8192,
       am_description := Some (tx 741), am_displayName := Some ''Emohaa'',
       am_pricing := Some (no_pricing\<lparr>price_currency := Some CNY, price_input := Some 15,
       price_output := Some 15\<rparr>)\<rparr>,
     (model_of_type ''chat'' ''360gpt2-pro'')\<lparr>am_contextWindowTokens := Some 8192,
       am_description := Some (tx 754), am_displayName := Some ''360GPT2 Pro'',
       am_enabled := Some True, am_maxOutput := Some 7000,
       am_pricing := Some (no_pricing\<lparr>price_currency := Some CNY, price_input := Some 5,
       price_output := Some 5\<rparr>)\<rparr>,
     (model_of_type ''chat'' ''360gpt-pro'')\<lparr>am_abilities := Some (no_abilities\<lparr>ab_functionCall := Some True\<rparr>),
       am_contextWindowTokens := Some 8192, am_description := Some (tx 772),
       am_displayName := Some ''360GPT Pro'', am_enabled := Some True, am_maxOutput := Some 7000,
       am_pricing := Some (no_pricing\<lparr>price_currency := Some CNY, price_input := Some 5,
       price_output := Some 5\<rparr>)\<rparr>,
     (model_of_type ''chat'' ''360gpt-turbo'')\<lparr>am_contextWindowTokens := Some 8192,
       am_description := Some (tx 787), am_displayName := Some ''360GPT Turbo'',
       am_enabled := Some True, am_maxOutput := Some 7000,
       am_pricing := Some (no_pricing\<lparr>price_currency := Some CNY, price_input := Some 2,
       price_output := Some 2\<rparr>)\<rparr>,
     (model_of_type ''chat'' ''360gpt-turbo-responsibility-8k'')\<lparr>am_contextWindowTokens := Some 8192,
       am_description := Some (tx 802), am_displayName := Some ''360GPT Turbo Responsibility 8K'',
       am_enabled := Some True, am_maxOutput := Some 2048,
       am_pricing := Some (no_pricing\<lparr>price_currency := Some CNY, price_input := Some 2,
       price_output := Some 2\<rparr>)\<rparr>,
     (model_of_type ''chat'' ''ERNIE-3.5-8K'')\<lparr>am_contextWindowTokens := Some 8192,
       am_description := Some (tx 817), am_displayName := Some ''ERNIE 3.5 8K'',
       am_enabled := Some True, am_pricing := Some (no_pricing\<lparr>price_currency := Some CNY,
       price_input := Some 0.8, price_output := Some 2\<rparr>)\<rparr>,
     (model_of_type ''chat'' ''ERNIE-3.5-8K-Preview'')\<lparr>am_contextWindowTokens := Some 8192,
       am_description := Some (tx 831), am_displayName := Some ''ERNIE 3.5 8K Preview'',
       am_pricing := Some (no_pricing\<lparr>price_currency := Some CNY, price_input := Some 0.8,
       price_output := Some 2\<rparr>)\<rparr>,
     (model_of_type ''chat'' ''ERNIE-3.5-128K'')\<lparr>am_contextWindowTokens := Some 128000,
       am_description := Some (tx 844), am_displayName := Some ''ERNIE 3.5 128K'',
       am_enabled := Some True, am_pricing := Some (no_pricing\<lparr>price_currency := Some CNY,
       price_input := Some 0.8, price_output := Some 2\<rparr>)\<rparr>,
     (model_of_type ''chat'' ''ERNIE-4.0-8K-Latest'')\<lparr>am_contextWindowTokens := Some 8192,
       am_description := Some (tx 858), am_displayName := Some ''ERNIE 4.0 8K'',
       am_enabled := Some True, am_pricing := Some (no_pricing\<lparr>price_currency := Some CNY,
       price_input := Some 30, price_output := Some 90\<rparr>)\<rparr>]"

definition higressChatModels_7 :: "texts \<Rightarrow> ai_model list" where
  [card_tables]: "higressChatModels_7 tx = [
     (model_of_type ''chat'' ''ERNIE-4.0-8K-Preview'')\<lparr>am_contextWindowTokens := Some 8192,
       am_description := Some (tx 872), am_displayName := Some ''ERNIE 4.0 8K Preview'',
       am_pricing := Some (no_pricing\<lparr>price_currency := Some CNY, price_input := Some 30,
       price_output := Some 90\<rparr>)\<rparr>,
     (model_of_type ''chat'' ''ERNIE-4.0-Turbo-8K-Latest'')\<lparr>am_contextWindowTokens := Some 8192,
       am_description := Some (tx 885), am_displayName := Some ''ERNIE 4.0 Turbo 8K'',
       am_enabled := Some True, am_pricing := Some (no_pricing\<lparr>price_currency := Some CNY,
       price_input := Some 20, price_output := Some 60\<rparr>)\<rparr>,
     (model_of_type ''chat'' ''ERNIE-4.0-Turbo-8K-Preview'')\<lparr>am_contextWindowTokens := Some 8192,
       am_description := Some (tx 899), am_displayName := Some ''ERNIE 4.0 Turbo 8K Preview'',
       am_pricing := Some (no_pricing\<lparr>price_currency := Some CNY, price_input := Some 20,
       price_output := Some 60\<rparr>)\<rparr>,
     (model_of_type ''chat'' ''ERNIE-Lite-Pro-128K'')\<lparr>am_contextWindowTokens := Some 128000,
       am_description := Some (tx 912), am_displayName := Some ''ERNIE Lite Pro 128K'',
       am_enabled := Some True, am_pricing := Some (no_pricing\<lparr>price_currency := Some CNY,
       price_input := Some 0.2, price_output := Some 0.4\<rparr>)\<rparr>,
     (model_of_type ''chat'' ''ERNIE-Speed-Pro-128K'')\<lparr>am_contextWindowTokens := Some 128000,
       am_description := Some (tx 926), am_displayName := Some ''ERNIE Speed Pro 128K'',
       am_enabled := Some True, am_pricing := Some (no_pricing\<lparr>price_currency := Some CNY,
       price_input := Some 0.3, price_output := Some 0.6\<rparr>)\<rparr>,
     (model_of_type ''chat'' ''ERNIE-Speed-128K'')\<lparr>am_contextWindowTokens := Some 128000,
       am_description := Some (tx 940), am_displayName := Some ''ERNIE Speed 128K'',
       am_pricing := Some (no_pricing\<lparr>price_currency := Some CNY, price_input := Some 0,
       price_output := Some 0\<rparr>)\<rparr>,
     (model_of_type ''chat'' ''ERNIE-Character-8K'')\<lparr>am_contextWindowTokens := Some 8192,
       am_description := Some (tx 953), am_displayName := Some ''ERNIE Character 8K'',
       am_pricing := Some (no_pricing\<lparr>price_currency := Some CNY, price_input := Some 4,
       price_output := Some 8\<rparr>)\<rparr>,
     (model_of_type ''chat'' ''hunyuan-lite'')\<lparr>am_contextWindowTokens := Some 256000,
       am_description := Some (tx 966), am_displayName := Some ''Hunyuan Lite'',
       am_enabled := Some True, am_maxOutput := Some 6000,
       am_pricing := Some (no_pricing\<lparr>price_currency := Some CNY, price_input := Some 0,
       price_output := Some 0\<rparr>)\<rparr>,
     (model_of_type ''chat'' ''hunyuan-standard'')\<lparr>am_contextWindowTokens := Some 32000,
       am_description := Some (tx 981), am_displayName := Some ''Hunyuan Standard'',
       am_enabled := Some True, am_maxOutput := Some 2000,
       am_pricing := Some (no_pricing\<lparr>price_currency := Some CNY, price_input := Some 4.5,
       price_output := Some 5\<rparr>)\<rparr>,
     (model_of_type ''chat'' ''hunyuan-standard-256K'')\<lparr>am_contextWindowTokens := Some 256000,
       am_description := Some (tx 996), am_displayName := Some ''Hunyuan Standard 256K'',
       am_enabled := Some True, am_maxOutput := Some 6000,
       am_pricing := Some (no_pricing\<lparr>price_currency := Some CNY, price_input := Some 15,
       price_output := Some 60\<rparr>)\<rparr>]"

definition higressChatModels_8 :: "texts \<Rightarrow> ai_model list" where
  [card_tables]: "higressChatModels_8 tx = [
     (model_of_type ''chat'' ''hunyuan-turbo'')\<lparr>am_abilities := Some (no_abilities\<lparr>ab_functionCall := Some True\<rparr>),
       am_contextWindowTokens := Some 32000, am_description := Some (tx 1014),
       am_displayName := Some ''Hunyuan Turbo'', am_enabled := Some True, am_maxOutput := Some 4000,
       am_pricing := Some (no_pricing\<lparr>price_currency := Some CNY, price_input := Some 15,
       price_output := Some 50\<rparr>)\<rparr>,
     (model_of_type ''chat'' ''hunyuan-pro'')\<lparr>am_abilities := Some (no_abilities\<lparr>ab_functionCall := Some True\<rparr>),
       am_contextWindowTokens := Some 32000, am_description := Some (tx 1032),
       am_displayName := Some ''Hunyuan Pro'', am_enabled := Some True, am_maxOutput := Some 4000,
       am_pricing := Some (no_pricing\<lparr>price_currency := Some CNY, price_input := Some 30,
       price_output := Some 100\<rparr>)\<rparr>,
     (model_of_type ''chat'' ''hunyuan-large'')\<lparr>am_abilities := Some (no_abilities\<lparr>ab_functionCall := Some True\<rparr>),
       am_description := Some '''', am_displayName := Some ''Hunyuan Large'',
       am_enabled := Some True\<rparr>,
     (model_of_type ''chat'' ''hunyuan-vision'')\<lparr>am_abilities := Some (no_abilities\<lparr>ab_vision := Some True\<rparr>),
       am_contextWindowTokens := Some 8000, am_description := Some (tx 1059),
       am_displayName := Some ''Hunyuan Vision'', am_enabled := Some True,
       am_maxOutput := Some 4000, am_pricing := Some (no_pricing\<lparr>price_currency := Some CNY,
       price_input := Some 18, price_output := Some 18\<rparr>)\<rparr>,
     (model_of_type ''chat'' ''hunyuan-code'')\<lparr>am_contextWindowTokens := Some 8000,
       am_description := Some (tx 1074), am_displayName := Some ''Hunyuan Code'',
       am_maxOutput := Some 4000, am_pricing := Some (no_pricing\<lparr>price_currency := Some CNY,
       price_input := Some 4, price_output := Some 8\<rparr>)\<rparr>,
     (model_of_type ''chat'' ''hunyuan-functioncall'')\<lparr>am_abilities := Some (no_abilities\<lparr>ab_functionCall := Some True\<rparr>),
       am_contextWindowTokens := Some 32000, am_description := Some (tx 1091),
       am_displayName := Some ''Hunyuan FunctionCall'', am_maxOutput := Some 4000,
       am_pricing := Some (no_pricing\<lparr>price_currency := Some CNY, price_input := Some 4,
       price_output := Some 8\<rparr>)\<rparr>,
     (model_of_type ''chat'' ''hunyuan-role'')\<lparr>am_contextWindowTokens := Some 8000,
       am_description := Some (tx 1105), am_displayName := Some ''Hunyuan Role'',
       am_maxOutput := Some 4000, am_pricing := Some (no_pricing\<lparr>price_currency := Some CNY,
       price_input := Some 4, price_output := Some 8\<rparr>)\<rparr>,
     (model_of_type ''chat'' ''step-1-flash'')\<lparr>am_abilities := Some (no_abilities\<lparr>ab_functionCall := Some True\<rparr>),
       am_contextWindowTokens := Some 8000, am_description := Some (tx 1121),
       am_displayName := Some ''Step 1 Flash'', am_enabled := Some True,
       am_pricing := Some (no_pricing\<lparr>price_currency := Some CNY, price_input := Some 1,
       price_output := Some 4\<rparr>)\<rparr>,
     (model_of_type ''chat'' ''step-1-8k'')\<lparr>am_abilities := Some (no_abilities\<lparr>ab_functionCall := Some True\<rparr>),
       am_contextWindowTokens := Some 8000, am_description := Some (tx 1137),
       am_displayName := Some ''Step 1 8K'', am_enabled := Some True,
       am_pricing := Some (no_pricing\<lparr>price_currency := Some CNY, price_input := Some 5,
       price_output := Some 20\<rparr>)\<rparr>]"

definition higressChatModels_9 :: "texts \<Rightarrow> ai_model list" where
  [card_tables]: "higressChatModels_9 tx = [
     (model_of_type ''chat'' ''step-1-32k'')\<lparr>am_abilities := Some (no_abilities\<lparr>ab_functionCall := Some True\<rparr>),
       am_contextWindowTokens := Some 32000, am_description := Some (tx 1153),
       am_displayName := Some ''Step 1 32K'', am_enabled := Some True,
       am_pricing := Some (no_pricing\<lparr>price_currency := Some CNY, price_input := Some 15,
       price_output := Some 70\<rparr>)\<rparr>,
     (model_of_type ''chat'' ''step-1-128k'')\<lparr>am_abilities := Some (no_abilities\<lparr>ab_functionCall := Some True\<rparr>),
       am_contextWindowTokens := Some 128000, am_description := Some (tx 1169),
       am_displayName := Some ''Step 1 128K'', am_enabled := Some True,
       am_pricing := Some (no_pricing\<lparr>price_currency := Some CNY, price_input := Some 40,
       price_output := Some 200\<rparr>)\<rparr>,
     (model_of_type ''chat'' ''step-1-256k'')\<lparr>am_abilities := Some (no_abilities\<lparr>ab_functionCall := Some True\<rparr>),
       am_contextWindowTokens := Some 256000, am_description := Some (tx 1185),
       am_displayName := Some ''Step 1 256K'',
       am_pricing := Some (no_pricing\<lparr>price_currency := Some CNY, price_input := Some 95,
       price_output := Some 300\<rparr>)\<rparr>,
     (model_of_type ''chat'' ''step-2-16k'')\<lparr>am_abilities := Some (no_abilities\<lparr>ab_functionCall := Some True\<rparr>),
       am_contextWindowTokens := Some 16000, am_description := Some (tx 1200),
       am_displayName := Some ''Step 2 16K'', am_enabled := Some True,
       am_pricing := Some (no_pricing\<lparr>price_currency := Some CNY, price_input := Some 38,
       price_output := Some 120\<rparr>)\<rparr>,
     (model_of_type ''chat'' ''step-1v-8k'')\<lparr>am_abilities := Some (no_abilities\<lparr>ab_functionCall := Some True,
       ab_vision := Some True\<rparr>), am_contextWindowTokens := Some 8000,
       am_description := Some (tx 1217), am_displayName := Some ''Step 1V 8K'',
       am_enabled := Some True, am_pricing := Some (no_pricing\<lparr>price_currency := Some CNY,
       price_input := Some 5, price_output := Some 20\<rparr>)\<rparr>,
     (model_of_type ''chat'' ''step-1v-32k'')\<lparr>am_abilities := Some (no_abilities\<lparr>ab_functionCall := Some True,
       ab_vision := Some True\<rparr>), am_contextWindowTokens := Some 32000,
       am_description := Some (tx 1234), am_displayName := Some ''Step 1V 32K'',
       am_enabled := Some True, am_pricing := Some (no_pricing\<lparr>price_currency := Some CNY,
       price_input := Some 15, price_output := Some 70\<rparr>)\<rparr>,
     (model_of_type ''chat'' ''step-1.5v-mini'')\<lparr>am_abilities := Some (no_abilities\<lparr>ab_vision := Some True\<rparr>),
       am_contextWindowTokens := Some 32000, am_description := Some (tx 1250),
       am_displayName := Some ''Step 1.5V Mini'', am_enabled := Some True,
       am_pricing := Some (no_pricing\<lparr>price_currency := Some CNY, price_input := Some 8,
       price_output := Some 35\<rparr>)\<rparr>,
     (model_of_type ''chat'' ''lite'')\<lparr>am_contextWindowTokens := Some 8192,
       am_description := Some (tx 1264), am_displayName := Some ''Spark Lite'',
       am_enabled := Some True, am_maxOutput := Some 4096\<rparr>,
     (model_of_type ''chat'' ''generalv3'')\<lparr>am_contextWindowTokens := Some 8192,
       am_description := Some (tx 1274), am_displayName := Some ''Spark Pro'',
       am_enabled := Some True, am_maxOutput := Some 8192\<rparr>,
     (model_of_type ''chat'' ''pro-128k'')\<lparr>am_contextWindowTokens := Some 131072,
       am_description := Some (tx 1284), am_displayName := Some ''Spark Pro 128K'',
       am_enabled := Some True, am_maxOutput := Some 4096\<rparr>]"

definition higressChatModels_10 :: "texts \<Rightarrow> ai_model list" where
  [card_tables]: "higressChatModels_10 tx = [
     (model_of_type ''chat'' ''generalv3.5'')\<lparr>am_contextWindowTokens := Some 8192,
       am_description := Some (tx 1294), am_displayName := Some ''Spark Max'',
       am_enabled := Some True, am_maxOutput := Some 8192\<rparr>,
     (model_of_type ''chat'' ''max-32k'')\<lparr>am_contextWindowTokens := Some 32768,
       am_description := Some (tx 1304), am_displayName := Some ''Spark Max 32K'',
       am_enabled := Some True, am_maxOutput := Some 8192\<rparr>,
     (model_of_type ''chat'' ''4.0Ultra'')\<lparr>am_contextWindowTokens := Some 8192,
       am_description := Some (tx 1314), am_displayName := Some ''Spark 4.0 Ultra'',
       am_enabled := Some True, am_maxOutput := Some 8192\<rparr>,
     (model_of_type ''chat'' ''o1-mini'')\<lparr>am_contextWindowTokens := Some 128000,
       am_description := Some (tx 1324), am_displayName := Some ''OpenAI o1-mini'',
       am_enabled := Some True, am_maxOutput := Some 65536,
       am_pricing := Some (no_pricing\<lparr>price_input := Some 3, price_output := Some 12\<rparr>),
       am_releasedAt := Some ''2024-09-12''\<rparr>,
     (model_of_type ''chat'' ''o1-preview'')\<lparr>am_contextWindowTokens := Some 128000,
       am_description := Some (tx 1339), am_displayName := Some ''OpenAI o1-preview'',
       am_enabled := Some True, am_maxOutput := Some 32768,
       am_pricing := Some (no_pricing\<lparr>price_input := Some 15, price_output := Some 60\<rparr>),
       am_releasedAt := Some ''2024-09-12''\<rparr>,
     (model_of_type ''chat'' ''gpt-4o-mini'')\<lparr>am_abilities := Some (no_abilities\<lparr>ab_functionCall := Some True,
       ab_vision := Some True\<rparr>), am_contextWindowTokens := Some 128000,
       am_description := Some (tx 1358), am_displayName := Some ''GPT-4o mini'',
       am_enabled := Some True, am_maxOutput := Some 16385,
       am_pricing := Some (no_pricing\<lparr>price_input := Some 0.15, price_output := Some 0.6\<rparr>)\<rparr>,
     (model_of_type ''chat'' ''gpt-4o'')\<lparr>am_abilities := Some (no_abilities\<lparr>ab_functionCall := Some True,
       ab_vision := Some True\<rparr>), am_contextWindowTokens := Some 128000,
       am_description := Some (tx 1376), am_displayName := Some ''GPT-4o'', am_enabled := Some True,
       am_pricing := Some (no_pricing\<lparr>price_input := Some 2.5, price_output := Some 10\<rparr>)\<rparr>,
     (model_of_type ''chat'' ''gpt-4o-2024-08-06'')\<lparr>am_abilities := Some (no_abilities\<lparr>ab_functionCall := Some True,
       ab_vision := Some True\<rparr>), am_contextWindowTokens := Some 128000,
       am_description := Some (tx 1393), am_displayName := Some ''GPT-4o 0806'',
       am_pricing := Some (no_pricing\<lparr>price_input := Some 2.5, price_output := Some 10\<rparr>)\<rparr>,
     (model_of_type ''chat'' ''gpt-4o-2024-05-13'')\<lparr>am_abilities := Some (no_abilities\<lparr>ab_functionCall := Some True,
       ab_vision := Some True\<rparr>), am_contextWindowTokens := Some 128000,
       am_description := Some (tx 1409), am_displayName := Some ''GPT-4o 0513'',
       am_pricing := Some (no_pricing\<lparr>price_input := Some 5, price_output := Some 15\<rparr>)\<rparr>,
     (model_of_type ''chat'' ''chatgpt-4o-latest'')\<lparr>am_abilities := Some (no_abilities\<lparr>ab_vision := Some True\<rparr>),
       am_contextWindowTokens := Some 128000, am_description := Some (tx 1424),
       am_displayName := Some ''ChatGPT-4o'', am_enabled := Some True,
       am_pricing := Some (no_pricing\<lparr>price_input := Some 5, price_output := Some 15\<rparr>)\<rparr>]"

definition higressChatModels_11 :: "texts \<Rightarrow> ai_model list" where
  [card_tables]: "higressChatModels_11 tx = [
     (model_of_type ''chat'' ''gpt-4-turbo'')\<lparr>am_abilities := Some (no_abilities\<lparr>ab_functionCall := Some True,
       ab_vision := Some True\<rparr>), am_contextWindowTokens := Some 128000,
       am_description := Some (tx 1441), am_displayName := Some ''GPT-4 Turbo'',
       am_pricing := Some (no_pricing\<lparr>price_input := Some 10, price_output := Some 30\<rparr>)\<rparr>,
     (model_of_type ''chat'' ''gpt-4-turbo-2024-04-09'')\<lparr>am_abilities := Some (no_abilities\<lparr>ab_functionCall := Some True,
       ab_vision := Some True\<rparr>), am_contextWindowTokens := Some 128000,
       am_description := Some (tx 1457), am_displayName := Some ''GPT-4 Turbo Vision 0409'',
       am_pricing := Some (no_pricing\<lparr>price_input := Some 10, price_output := Some 30\<rparr>)\<rparr>,
     (model_of_type ''chat'' ''gpt-4-turbo-preview'')\<lparr>am_abilities := Some (no_abilities\<lparr>ab_functionCall := Some True\<rparr>),
       am_contextWindowTokens := Some 128000, am_description := Some (tx 1472),
       am_displayName := Some ''GPT-4 Turbo Preview'',
       am_pricing := Some (no_pricing\<lparr>price_input := Some 10, price_output := Some 30\<rparr>)\<rparr>,
     (model_of_type ''chat'' ''gpt-4-0125-preview'')\<lparr>am_abilities := Some (no_abilities\<lparr>ab_functionCall := Some True\<rparr>),
       am_contextWindowTokens := Some 128000, am_description := Some (tx 1487),
       am_displayName := Some ''GPT-4 Turbo Preview 0125'',
       am_pricing := Some (no_pricing\<lparr>price_input := Some 10, price_output := Some 30\<rparr>)\<rparr>,
     (model_of_type ''chat'' ''gpt-4-1106-preview'')\<lparr>am_abilities := Some (no_abilities\<lparr>ab_functionCall := Some True\<rparr>),
       am_contextWindowTokens := Some 128000, am_description := Some (tx 1502),
       am_displayName := Some ''GPT-4 Turbo Preview 1106'',
       am_pricing := Some (no_pricing\<lparr>price_input := Some 10, price_output := Some 30\<rparr>)\<rparr>,
     (model_of_type ''chat'' ''gpt-4'')\<lparr>am_abilities := Some (no_abilities\<lparr>ab_functionCall := Some True\<rparr>),
       am_contextWindowTokens := Some 8192, am_description := Some (tx 1517),
       am_displayName := Some ''GPT-4'', am_pricing := Some (no_pricing\<lparr>price_input := Some 30,
       price_output := Some 60\<rparr>)\<rparr>,
     (model_of_type ''chat'' ''gpt-4-0613'')\<lparr>am_abilities := Some (no_abilities\<lparr>ab_functionCall := Some True\<rparr>),
       am_contextWindowTokens := Some 8192, am_description := Some (tx 1532),
       am_displayName := Some ''GPT-4 0613'', am_pricing := Some (no_pricing\<lparr>price_input := Some 30,
       price_output := Some 60\<rparr>)\<rparr>,
     (model_of_type ''chat'' ''gpt-4-32k'')\<lparr>am_abilities := Some (no_abilities\<lparr>ab_functionCall := Some True\<rparr>),
       am_contextWindowTokens := Some 32768, am_description := Some (tx 1547),
       am_displayName := Some ''GPT-4 32K'', am_pricing := Some (no_pricing\<lparr>price_input := Some 60,
       price_output := Some 120\<rparr>)\<rparr>,
     (model_of_type ''chat'' ''gpt-4-32k-0613'')\<lparr>am_abilities := Some (no_abilities\<lparr>ab_functionCall := Some True\<rparr>),
       am_contextWindowTokens := Some 32768, am_description := Some (tx 1562),
       am_displayName := Some ''GPT-4 32K 0613'',
       am_pricing := Some (no_pricing\<lparr>price_input := Some 60, price_output := Some 120\<rparr>)\<rparr>]"

definition higressChatModels_12 :: "texts \<Rightarrow> ai_model list" where
  [card_tables]: "higressChatModels_12 tx = [
     (model_of_type ''chat'' ''gpt-3.5-turbo'')\<lparr>am_abilities := Some (no_abilities\<lparr>ab_functionCall := Some True\<rparr>),
       am_contextWindowTokens := Some 16385, am_description := Some (tx 1577),
       am_displayName := Some ''GPT-3.5 Turbo'',
       am_pricing := Some (no_pricing\<lparr>price_input := Some 0.5, price_output := Some 1.5\<rparr>)\<rparr>,
     (model_of_type ''chat'' ''gpt-3.5-turbo-0125'')\<lparr>am_abilities := Some (no_abilities\<lparr>ab_functionCall := Some True\<rparr>),
       am_contextWindowTokens := Some 16385, am_description := Some (tx 1592),
       am_displayName := Some ''GPT-3.5 Turbo 0125'',
       am_pricing := Some (no_pricing\<lparr>price_input := Some 0.5, price_output := Some 1.5\<rparr>)\<rparr>,
     (model_of_type ''chat'' ''gpt-3.5-turbo-1106'')\<lparr>am_abilities := Some (no_abilities\<lparr>ab_functionCall := Some True\<rparr>),
       am_contextWindowTokens := Some 16385, am_description := Some (tx 1607),
       am_displayName := Some ''GPT-3.5 Turbo 1106'',
       am_pricing := Some (no_pricing\<lparr>price_input := Some 1, price_output := Some 2\<rparr>)\<rparr>,
     (model_of_type ''chat'' ''gpt-3.5-turbo-instruct'')\<lparr>am_contextWindowTokens := Some 4096,
       am_description := Some (tx 1619), am_displayName := Some ''GPT-3.5 Turbo Instruct'',
       am_pricing := Some (no_pricing\<lparr>price_input := Some 1.5, price_output := Some 2\<rparr>)\<rparr>,
     (model_of_type ''chat'' ''gpt-35-turbo'')\<lparr>am_abilities := Some (no_abilities\<lparr>ab_functionCall := Some True\<rparr>),
       am_contextWindowTokens := Some 16385, am_description := Some (tx 1634),
       am_displayName := Some ''GPT 3.5 Turbo'', am_enabled := Some True, am_maxOutput := Some 4096\<rparr>,
     (model_of_type ''chat'' ''gpt-35-turbo-16k'')\<lparr>am_abilities := Some (no_abilities\<lparr>ab_functionCall := Some True\<rparr>),
       am_contextWindowTokens := Some 16384, am_description := Some (tx 1646),
       am_displayName := Some ''GPT 3.5 Turbo''\<rparr>,
     (model_of_type ''chat'' ''gpt-4'')\<lparr>am_abilities := Some (no_abilities\<lparr>ab_functionCall := Some True,
       ab_vision := Some True\<rparr>), am_contextWindowTokens := Some 128000,
       am_description := Some (tx 1657), am_displayName := Some ''GPT 4 Turbo'',
       am_enabled := Some True\<rparr>,
     (model_of_type ''chat'' ''gpt-4-vision-preview'')\<lparr>am_abilities := Some (no_abilities\<lparr>ab_vision := Some True\<rparr>),
       am_contextWindowTokens := Some 128000, am_description := Some (tx 1668),
       am_displayName := Some ''GPT 4 Turbo with Vision Preview''\<rparr>,
     (model_of_type ''chat'' ''gpt-4o-mini'')\<lparr>am_abilities := Some (no_abilities\<lparr>ab_functionCall := Some True,
       ab_vision := Some True\<rparr>), am_contextWindowTokens := Some 128000,
       am_description := Some (tx 1679), am_displayName := Some ''GPT 4o Mini'',
       am_enabled := Some True\<rparr>,
     (model_of_type ''chat'' ''gpt-4o'')\<lparr>am_abilities := Some (no_abilities\<lparr>ab_functionCall := Some True,
       ab_vision := Some True\<rparr>), am_contextWindowTokens := Some 128000,
       am_description := Some (tx 1691), am_displayName := Some ''GPT 4o'', am_enabled := Some True\<rparr>,
     (model_of_type ''chat'' ''o1-mini'')\<lparr>am_abilities := Some (no_abilities\<lparr>ab_functionCall := Some False,
       ab_vision := Some True\<rparr>), am_contextWindowTokens := Some 128000,
       am_description := Some (tx 1703), am_displayName := Some ''OpenAI o1-mini'',
       am_enabled := Some True, am_maxOutput := Some 65536\<rparr>]"

definition higressChatModels_13 :: "texts \<Rightarrow> ai_model list" where
  [card_tables]: "higressChatModels_13 tx = [
     (model_of_type ''chat'' ''o1-preview'')\<lparr>am_abilities := Some (no_abilities\<lparr>ab_functionCall := Some False,
       ab_vision := Some True\<rparr>), am_contextWindowTokens := Some 128000,
       am_description := Some (tx 1717), am_displayName := Some ''OpenAI o1-preview'',
       am_enabled := Some True, am_maxOutput := Some 32768\<rparr>,
     (model_of_type ''chat'' ''gpt-4o-mini'')\<lparr>am_abilities := Some (no_abilities\<lparr>ab_functionCall := Some True,
       ab_vision := Some True\<rparr>), am_contextWindowTokens := Some 128000,
       am_description := Some (tx 1730), am_displayName := Some ''OpenAI GPT-4o mini'',
       am_enabled := Some True, am_maxOutput := Some 4096\<rparr>,
     (model_of_type ''chat'' ''gpt-4o'')\<lparr>am_abilities := Some (no_abilities\<lparr>ab_functionCall := Some True,
       ab_vision := Some True\<rparr>), am_contextWindowTokens := Some 128000,
       am_description := Some (tx 1743), am_displayName := Some ''OpenAI GPT-4o'',
       am_enabled := Some True, am_maxOutput := Some 4096\<rparr>,
     (model_of_type ''chat'' ''ai21-jamba-1.5-mini'')\<lparr>am_abilities := Some (no_abilities\<lparr>ab_functionCall := Some True\<rparr>),
       am_contextWindowTokens := Some 262144, am_description := Some (tx 1756),
       am_displayName := Some ''AI21 Jamba 1.5 Mini'', am_maxOutput := Some 4096\<rparr>,
     (model_of_type ''chat'' ''ai21-jamba-1.5-large'')\<lparr>am_abilities := Some (no_abilities\<lparr>ab_functionCall := Some True\<rparr>),
       am_contextWindowTokens := Some 262144, am_description := Some (tx 1768),
       am_displayName := Some ''AI21 Jamba 1.5 Large'', am_maxOutput := Some 4096\<rparr>,
     (model_of_type ''chat'' ''cohere-command-r'')\<lparr>am_contextWindowTokens := Some 131072,
       am_description := Some (tx 1776), am_displayName := Some ''Cohere Command R'',
       am_maxOutput := Some 4096\<rparr>,
     (model_of_type ''chat'' ''cohere-command-r-plus'')\<lparr>am_contextWindowTokens := Some 131072,
       am_description := Some (tx 1784), am_displayName := Some ''Cohere Command R+'',
       am_maxOutput := Some 4096\<rparr>,
     (model_of_type ''chat'' ''mistral-nemo'')\<lparr>am_contextWindowTokens := Some 131072,
       am_description := Some (tx 1793), am_displayName := Some ''Mistral Nemo'',
       am_maxOutput := Some 4096\<rparr>,
     (model_of_type ''chat'' ''mistral-small'')\<lparr>am_contextWindowTokens := Some 131072,
       am_description := Some (tx 1801), am_displayName := Some ''Mistral Small'',
       am_maxOutput := Some 4096\<rparr>,
     (model_of_type ''chat'' ''mistral-large'')\<lparr>am_contextWindowTokens := Some 131072,
       am_description := Some (tx 1810), am_displayName := Some ''Mistral Large'',
       am_maxOutput := Some 4096\<rparr>,
     (model_of_type ''chat'' ''llama-3.2-11b-vision-instruct'')\<lparr>am_abilities := Some (no_abilities\<lparr>ab_vision := Some True\<rparr>),
       am_contextWindowTokens := Some 131072, am_description := Some (tx 1821),
       am_displayName := Some ''Llama 3.2 11B Vision'', am_maxOutput := Some 4096\<rparr>,
     (model_of_type ''chat'' ''llama-3.2-90b-vision-instruct'')\<lparr>am_abilities := Some (no_abilities\<lparr>ab_vision := Some True\<rparr>),
       am_contextWindowTokens := Some 131072, am_description := Some (tx 1832),
       am_displayName := Some ''Llama 3.2 90B Vision'', am_maxOutput := Some 4096\<rparr>,
     (model_of_type ''chat'' ''meta-llama-3.1-8b-instruct'')\<lparr>am_contextWindowTokens := Some 131072,
       am_description := Some (tx 1841), am_displayName := Some ''Meta Llama 3.1 8B'',
       am_maxOutput := Some 4096\<rparr>,
     (model_of_type ''chat'' ''meta-llama-3.1-70b-instruct'')\<lparr>am_contextWindowTokens := Some 131072,
       am_description := Some (tx 1850), am_displayName := Some ''Meta Llama 3.1 70B'',
       am_maxOutput := Some 4096\<rparr>]"

definition higressChatModels_14 :: "texts \<Rightarrow> ai_model list" where
  [card_tables]: "higressChatModels_14 tx = [
     (model_of_type ''chat'' ''meta-llama-3.1-405b-instruct'')\<lparr>am_contextWindowTokens := Some 131072,
       am_description := Some (tx 1859), am_displayName := Some ''Meta Llama 3.1 405B'',
       am_maxOutput := Some 4096\<rparr>,
     (model_of_type ''chat'' ''meta-llama-3-8b-instruct'')\<lparr>am_contextWindowTokens := Some 8192,
       am_description := Some (tx 1867), am_displayName := Some ''Meta Llama 3 8B'',
       am_maxOutput := Some 4096\<rparr>,
     (model_of_type ''chat'' ''meta-llama-3-70b-instruct'')\<lparr>am_contextWindowTokens := Some 8192,
       am_description := Some (tx 1875), am_displayName := Some ''Meta Llama 3 70B'',
       am_maxOutput := Some 4096\<rparr>,
     (model_of_type ''chat'' ''Phi-3.5-mini-instruct'')\<lparr>am_contextWindowTokens := Some 131072,
       am_description := Some (tx 1883), am_displayName := Some ''Phi-3.5-mini 128K'',
       am_maxOutput := Some 4096\<rparr>,
     (model_of_type ''chat'' ''Phi-3.5-vision-instrust'')\<lparr>am_abilities := Some (no_abilities\<lparr>ab_vision := Some True\<rparr>),
       am_contextWindowTokens := Some 131072, am_description := Some (tx 1894),
       am_displayName := Some ''Phi-3.5-vision 128K'', am_maxOutput := Some 4096\<rparr>,
     (model_of_type ''chat'' ''Phi-3-mini-4k-instruct'')\<lparr>am_contextWindowTokens := Some 4096,
       am_description := Some (tx 1902), am_displayName := Some ''Phi-3-mini 4K'',
       am_maxOutput := Some 4096\<rparr>,
     (model_of_type ''chat'' ''Phi-3-mini-128k-instruct'')\<lparr>am_contextWindowTokens := Some 131072,
       am_description := Some (tx 1910), am_displayName := Some ''Phi-3-mini 128K'',
       am_maxOutput := Some 4096\<rparr>,
     (model_of_type ''chat'' ''Phi-3-small-8k-instruct'')\<lparr>am_contextWindowTokens := Some 8192,
       am_description := Some (tx 1918), am_displayName := Some ''Phi-3-small 8K'',
       am_maxOutput := Some 4096\<rparr>,
     (model_of_type ''chat'' ''Phi-3-small-128k-instruct'')\<lparr>am_contextWindowTokens := Some 131072,
       am_description := Some (tx 1926), am_displayName := Some ''Phi-3-small 128K'',
       am_maxOutput := Some 4096\<rparr>,
     (model_of_type ''chat'' ''Phi-3-medium-4k-instruct'')\<lparr>am_contextWindowTokens := Some 4096,
       am_description := Some (tx 1934), am_displayName := Some ''Phi-3-medium 4K'',
       am_maxOutput := Some 4096\<rparr>,
     (model_of_type ''chat'' ''Phi-3-medium-128k-instruct'')\<lparr>am_contextWindowTokens := Some 131072,
       am_description := Some (tx 1942), am_displayName := Some ''Phi-3-medium 128K'',
       am_maxOutput := Some 4096\<rparr>,
     (model_of_type ''chat'' ''llama-3.2-11b-vision-preview'')\<lparr>am_abilities := Some (no_abilities\<lparr>ab_vision := Some True\<rparr>),
       am_contextWindowTokens := Some 8192, am_description := Some (tx 1954),
       am_displayName := Some ''Llama 3.2 11B Vision (Preview)'', am_enabled := Some True,
       am_maxOutput := Some 8192, am_pricing := Some (no_pricing\<lparr>price_input := Some 0.05,
       price_output := Some 0.08\<rparr>)\<rparr>,
     (model_of_type ''chat'' ''llama-3.2-90b-vision-preview'')\<lparr>am_abilities := Some (no_abilities\<lparr>ab_vision := Some True\<rparr>),
       am_contextWindowTokens := Some 8192, am_description := Some (tx 1971),
       am_displayName := Some ''Llama 3.2 90B Vision (Preview)'', am_enabled := Some True,
       am_maxOutput := Some 8192, am_pricing := Some (no_pricing\<lparr>price_input := Some 0.59,
       price_output := Some 0.79\<rparr>)\<rparr>,
     (model_of_type ''chat'' ''llama-3.1-8b-instant'')\<lparr>am_abilities := Some (no_abilities\<lparr>ab_functionCall := Some True\<rparr>),
       am_contextWindowTokens := Some 131072, am_description := Some (tx 1988),
       am_displayName := Some ''Llama 3.1 8B'', am_enabled := Some True, am_maxOutput := Some 8192,
       am_pricing := Some (no_pricing\<lparr>price_input := Some 0.05, price_output := Some 0.08\<rparr>)\<rparr>]"

definition higressChatModels_15 :: "texts \<Rightarrow> ai_model list" where
  [card_tables]: "higressChatModels_15 tx = [
     (model_of_type ''chat'' ''llama-3.1-70b-versatile'')\<lparr>am_abilities := Some (no_abilities\<lparr>ab_functionCall := Some True\<rparr>),
       am_contextWindowTokens := Some 131072, am_description := Some (tx 2005),
       am_displayName := Some ''Llama 3.1 70B'', am_enabled := Some True, am_maxOutput := Some 8192,
       am_pricing := Some (no_pricing\<lparr>price_input := Some 0.59, price_output := Some 0.79\<rparr>)\<rparr>,
     (model_of_type ''chat'' ''llama3-groq-8b-8192-tool-use-preview'')\<lparr>am_abilities := Some (no_abilities\<lparr>ab_functionCall := Some True\<rparr>),
       am_contextWindowTokens := Some 8192, am_description := Some (tx 2021),
       am_displayName := Some ''Llama 3 Groq 8B Tool Use (Preview)'',
       am_pricing := Some (no_pricing\<lparr>price_input := Some 0.19, price_output := Some 0.19\<rparr>)\<rparr>,
     (model_of_type ''chat'' ''llama3-groq-70b-8192-tool-use-preview'')\<lparr>am_abilities := Some (no_abilities\<lparr>ab_functionCall := Some True\<rparr>),
       am_contextWindowTokens := Some 8192, am_description := Some (tx 2035),
       am_displayName := Some ''Llama 3 Groq 70B Tool Use (Preview)'',
       am_pricing := Some (no_pricing\<lparr>price_input := Some 0.89, price_output := Some 0.89\<rparr>)\<rparr>,
     (model_of_type ''chat'' ''llama3-8b-8192'')\<lparr>am_abilities := Some (no_abilities\<lparr>ab_functionCall := Some True\<rparr>),
       am_contextWindowTokens := Some 8192, am_description := Some (tx 2049),
       am_displayName := Some ''Meta Llama 3 8B'',
       am_pricing := Some (no_pricing\<lparr>price_input := Some 0.05, price_output := Some 0.08\<rparr>)\<rparr>,
     (model_of_type ''chat'' ''llama3-70b-8192'')\<lparr>am_abilities := Some (no_abilities\<lparr>ab_functionCall := Some True\<rparr>),
       am_contextWindowTokens := Some 8192, am_description := Some (tx 2063),
       am_displayName := Some ''Meta Llama 3 70B'',
       am_pricing := Some (no_pricing\<lparr>price_input := Some 0.59, price_output := Some 0.79\<rparr>)\<rparr>,
     (model_of_type ''chat'' ''gemma2-9b-it'')\<lparr>am_abilities := Some (no_abilities\<lparr>ab_functionCall := Some True\<rparr>),
       am_contextWindowTokens := Some 8192, am_description := Some (tx 2077),
       am_displayName := Some ''Gemma 2 9B'', am_enabled := Some True,
       am_pricing := Some (no_pricing\<lparr>price_input := Some 0.2, price_output := Some 0.2\<rparr>)\<rparr>,
     (model_of_type ''chat'' ''gemma-7b-it'')\<lparr>am_abilities := Some (no_abilities\<lparr>ab_functionCall := Some True\<rparr>),
       am_contextWindowTokens := Some 8192, am_description := Some (tx 2092),
       am_displayName := Some ''Gemma 7B'', am_pricing := Some (no_pricing\<lparr>price_input := Some 0.07,
       price_output := Some 0.07\<rparr>)\<rparr>,
     (model_of_type ''chat'' ''mixtral-8x7b-32768'')\<lparr>am_abilities := Some (no_abilities\<lparr>ab_functionCall := Some True\<rparr>),
       am_contextWindowTokens := Some 32768, am_description := Some (tx 2106),
       am_displayName := Some ''Mixtral 8x7B'',
       am_pricing := Some (no_pricing\<lparr>price_input := Some 0.24, price_output := Some 0.24\<rparr>)\<rparr>,
     (model_of_type ''chat'' ''llava-v1.5-7b-4096-preview'')\<lparr>am_abilities := Some (no_abilities\<lparr>ab_vision := Some True\<rparr>),
       am_contextWindowTokens := Some 4096, am_description := Some (tx 2120),
       am_displayName := Some ''LLaVA 1.5 7B''\<rparr>,
     (model_of_type ''chat'' ''deepseek-chat'')\<lparr>am_abilities := Some (no_abilities\<lparr>ab_functionCall := Some True\<rparr>),
       am_contextWindowTokens := Some 128000, am_description := Some (tx 2131),
       am_displayName := Some ''DeepSeek V2.5'', am_enabled := Some True,
       am_pricing := Some (no_pricing\<lparr>price_cachedInput := Some 0.014, price_input := Some 0.14,
       price_output := Some 0.28\<rparr>), am_releasedAt := Some ''2024-09-05''\<rparr>]"

definition higressChatModels_16 :: "texts \<Rightarrow> ai_model list" where
  [card_tables]: "higressChatModels_16 tx = [
     (model_of_type ''chat'' ''claude-3-5-haiku-20241022'')\<lparr>am_abilities := Some (no_abilities\<lparr>ab_functionCall := Some True\<rparr>),
       am_contextWindowTokens := Some 200000, am_description := Some (tx 2149),
       am_displayName := Some ''Claude 3.5 Haiku'', am_enabled := Some True,
       am_maxOutput := Some 8192, am_pricing := Some (no_pricing\<lparr>price_cachedInput := Some 0.1,
       price_input := Some 1, price_output := Some 5, price_writeCacheInput := Some 1.25\<rparr>),
       am_releasedAt := Some ''2024-11-05''\<rparr>,
     (model_of_type ''chat'' ''claude-3-5-sonnet-20241022'')\<lparr>am_abilities := Some (no_abilities\<lparr>ab_functionCall := Some True,
       ab_vision := Some True\<rparr>), am_contextWindowTokens := Some 200000,
       am_description := Some (tx 2170), am_displayName := Some ''Claude 3.5 Sonnet'',
       am_enabled := Some True, am_maxOutput := Some 8192,
       am_pricing := Some (no_pricing\<lparr>price_cachedInput := Some 0.3, price_input := Some 3,
       price_output := Some 15, price_writeCacheInput := Some 3.75\<rparr>),
       am_releasedAt := Some ''2024-10-22''\<rparr>,
     (model_of_type ''chat'' ''claude-3-5-sonnet-20240620'')\<lparr>am_abilities := Some (no_abilities\<lparr>ab_functionCall := Some True,
       ab_vision := Some True\<rparr>), am_contextWindowTokens := Some 200000,
       am_description := Some (tx 2191), am_displayName := Some ''Claude 3.5 Sonnet 0620'',
       am_maxOutput := Some 8192, am_pricing := Some (no_pricing\<lparr>price_cachedInput := Some 0.3,
       price_input := Some 3, price_output := Some 15, price_writeCacheInput := Some 3.75\<rparr>),
       am_releasedAt := Some ''2024-06-20''\<rparr>,
     (model_of_type ''chat'' ''claude-3-haiku-20240307'')\<lparr>am_abilities := Some (no_abilities\<lparr>ab_functionCall := Some True,
       ab_vision := Some True\<rparr>), am_contextWindowTokens := Some 200000,
       am_description := Some (tx 2211), am_displayName := Some ''Claude 3 Haiku'',
       am_maxOutput := Some 4096, am_pricing := Some (no_pricing\<lparr>price_input := Some 0.25,
       price_output := Some 1.25\<rparr>), am_releasedAt := Some ''2024-03-07''\<rparr>,
     (model_of_type ''chat'' ''claude-3-sonnet-20240229'')\<lparr>am_abilities := Some (no_abilities\<lparr>ab_functionCall := Some True,
       ab_vision := Some True\<rparr>), am_contextWindowTokens := Some 200000,
       am_description := Some (tx 2229), am_displayName := Some ''Claude 3 Sonnet'',
       am_maxOutput := Some 4096, am_pricing := Some (no_pricing\<lparr>price_input := Some 3,
       price_output := Some 15\<rparr>), am_releasedAt := Some ''2024-02-29''\<rparr>,
     (model_of_type ''chat'' ''claude-3-opus-20240229'')\<lparr>am_abilities := Some (no_abilities\<lparr>ab_functionCall := Some True,
       ab_vision := Some True\<rparr>), am_contextWindowTokens := Some 200000,
       am_description := Some (tx 2247), am_displayName := Some ''Claude 3 Opus'',
       am_enabled := Some True, am_maxOutput := Some 4096,
       am_pricing := Some (no_pricing\<lparr>price_input := Some 15, price_output := Some 75\<rparr>),
       am_releasedAt := Some ''2024-02-29''\<rparr>,
     (model_of_type ''chat'' ''claude-2.1'')\<lparr>am_contextWindowTokens := Some 200000,
       am_description := Some (tx 2262), am_displayName := Some ''Claude 2.1'',
       am_maxOutput := Some 4096, am_pricing := Some (no_pricing\<lparr>price_input := Some 8,
       price_output := Some 24\<rparr>), am_releasedAt := Some ''2023-11-21''\<rparr>,
     (model_of_type ''chat'' ''claude-2.0'')\<lparr>am_contextWindowTokens := Some 100000,
       am_description := Some (tx 2276), am_displayName := Some ''Claude 2.0'',
       am_maxOutput := Some 4096, am_pricing := Some (no_pricing\<lparr>price_input := Some 8,
       price_output := Some 24\<rparr>), am_releasedAt := Some ''2023-07-11''\<rparr>]"

definition higressChatModels_17 :: "texts \<Rightarrow> ai_model list" where
  [card_tables]: "higressChatModels_17 tx = [
     (model_of_type ''chat'' ''gemini-1.5-flash-latest'')\<lparr>am_abilities := Some (no_abilities\<lparr>ab_functionCall := Some True,
       ab_vision := Some True\<rparr>), am_contextWindowTokens := Some 1008192,
       am_description := Some (tx 2294), am_displayName := Some ''Gemini 1.5 Flash'',
       am_enabled := Some True, am_maxOutput := Some 8192,
       am_pricing := Some (no_pricing\<lparr>price_cachedInput := Some 0.01875, price_input := Some 0.075,
       price_output := Some 0.3\<rparr>)\<rparr>,
     (model_of_type ''chat'' ''gemini-1.5-flash-002'')\<lparr>am_abilities := Some (no_abilities\<lparr>ab_functionCall := Some True,
       ab_vision := Some True\<rparr>), am_contextWindowTokens := Some 1008192,
       am_description := Some (tx 2312), am_displayName := Some ''Gemini 1.5 Flash 002'',
       am_enabled := Some True, am_maxOutput := Some 8192,
       am_pricing := Some (no_pricing\<lparr>price_cachedInput := Some 0.01875, price_input := Some 0.075,
       price_output := Some 0.3\<rparr>), am_releasedAt := Some ''2024-09-25''\<rparr>,
     (model_of_type ''chat'' ''gemini-1.5-flash-001'')\<lparr>am_abilities := Some (no_abilities\<lparr>ab_functionCall := Some True,
       ab_vision := Some True\<rparr>), am_contextWindowTokens := Some 1008192,
       am_description := Some (tx 2331), am_displayName := Some ''Gemini 1.5 Flash 001'',
       am_maxOutput := Some 8192, am_pricing := Some (no_pricing\<lparr>price_cachedInput := Some 0.01875,
       price_input := Some 0.075, price_output := Some 0.3\<rparr>)\<rparr>,
     (model_of_type ''chat'' ''gemini-1.5-flash-exp-0827'')\<lparr>am_abilities := Some (no_abilities\<lparr>ab_functionCall := Some True,
       ab_vision := Some True\<rparr>), am_contextWindowTokens := Some 1008192,
       am_description := Some (tx 2348), am_displayName := Some ''Gemini 1.5 Flash 0827'',
       am_maxOutput := Some 8192, am_pricing := Some (no_pricing\<lparr>price_cachedInput := Some 0.01875,
       price_input := Some 0.075, price_output := Some 0.3\<rparr>), am_releasedAt := Some ''2024-08-27''\<rparr>,
     (model_of_type ''chat'' ''gemini-1.5-flash-8b'')\<lparr>am_abilities := Some (no_abilities\<lparr>ab_functionCall := Some True,
       ab_vision := Some True\<rparr>), am_contextWindowTokens := Some 1008192,
       am_description := Some (tx 2366), am_displayName := Some ''Gemini 1.5 Flash 8B'',
       am_enabled := Some True, am_maxOutput := Some 8192,
       am_pricing := Some (no_pricing\<lparr>price_cachedInput := Some 0.02, price_input := Some 0.075,
       price_output := Some 0.3\<rparr>), am_releasedAt := Some ''2024-10-03''\<rparr>,
     (model_of_type ''chat'' ''gemini-1.5-flash-8b-exp-0924'')\<lparr>am_abilities := Some (no_abilities\<lparr>ab_functionCall := Some True,
       ab_vision := Some True\<rparr>), am_contextWindowTokens := Some 1008192,
       am_description := Some (tx 2386), am_displayName := Some ''Gemini 1.5 Flash 8B 0924'',
       am_maxOutput := Some 8192, am_pricing := Some (no_pricing\<lparr>price_cachedInput := Some 0.01875,
       price_input := Some 0.075, price_output := Some 0.3\<rparr>), am_releasedAt := Some ''2024-09-24''\<rparr>,
     (model_of_type ''chat'' ''gemini-1.5-pro-latest'')\<lparr>am_abilities := Some (no_abilities\<lparr>ab_functionCall := Some True,
       ab_vision := Some True\<rparr>), am_contextWindowTokens := Some 2008192,
       am_description := Some (tx 2405), am_displayName := Some ''Gemini 1.5 Pro'',
       am_enabled := Some True, am_maxOutput := Some 8192,
       am_pricing := Some (no_pricing\<lparr>price_cachedInput := Some 0.875, price_input := Some 3.5,
       price_output := Some 10.5\<rparr>), am_releasedAt := Some ''2024-02-15''\<rparr>]"

definition higressChatModels_18 :: "texts \<Rightarrow> ai_model list" where
  [card_tables]: "higressChatModels_18 tx = [
     (model_of_type ''chat'' ''gemini-1.5-pro-002'')\<lparr>am_abilities := Some (no_abilities\<lparr>ab_functionCall := Some True,
       ab_vision := Some True\<rparr>), am_contextWindowTokens := Some 2008192,
       am_description := Some (tx 2425), am_displayName := Some ''Gemini 1.5 Pro 002'',
       am_enabled := Some True, am_maxOutput := Some 8192,
       am_pricing := Some (no_pricing\<lparr>price_cachedInput := Some 0.315, price_input := Some 1.25,
       price_output := Some 2.5\<rparr>), am_releasedAt := Some ''2024-09-24''\<rparr>,
     (model_of_type ''chat'' ''gemini-1.5-pro-001'')\<lparr>am_abilities := Some (no_abilities\<lparr>ab_functionCall := Some True,
       ab_vision := Some True\<rparr>), am_contextWindowTokens := Some 2008192,
       am_description := Some (tx 2444), am_displayName := Some ''Gemini 1.5 Pro 001'',
       am_maxOutput := Some 8192, am_pricing := Some (no_pricing\<lparr>price_cachedInput := Some 0.875,
       price_input := Some 3.5, price_output := Some 10.5\<rparr>), am_releasedAt := Some ''2024-02-15''\<rparr>,
     (model_of_type ''chat'' ''gemini-1.5-pro-exp-0827'')\<lparr>am_abilities := Some (no_abilities\<lparr>ab_functionCall := Some True,
       ab_vision := Some True\<rparr>), am_contextWindowTokens := Some 2008192,
       am_description := Some (tx 2462), am_displayName := Some ''Gemini 1.5 Pro 0827'',
       am_maxOutput := Some 8192, am_pricing := Some (no_pricing\<lparr>price_cachedInput := Some 0.875,
       price_input := Some 3.5, price_output := Some 10.5\<rparr>), am_releasedAt := Some ''2024-08-27''\<rparr>,
     (model_of_type ''chat'' ''gemini-1.5-pro-exp-0801'')\<lparr>am_abilities := Some (no_abilities\<lparr>ab_functionCall := Some True,
       ab_vision := Some True\<rparr>), am_contextWindowTokens := Some 2008192,
       am_description := Some (tx 2480), am_displayName := Some ''Gemini 1.5 Pro 0801'',
       am_maxOutput := Some 8192, am_pricing := Some (no_pricing\<lparr>price_cachedInput := Some 0.875,
       price_input := Some 3.5, price_output := Some 10.5\<rparr>), am_releasedAt := Some ''2024-08-01''\<rparr>,
     (model_of_type ''chat'' ''gemini-1.0-pro-latest'')\<lparr>am_contextWindowTokens := Some 32768,
       am_description := Some (tx 2494), am_displayName := Some ''Gemini 1.0 Pro'',
       am_maxOutput := Some 2048, am_pricing := Some (no_pricing\<lparr>price_input := Some 0.5,
       price_output := Some 1.5\<rparr>), am_releasedAt := Some ''2023-12-06''\<rparr>,
     (model_of_type ''chat'' ''gemini-1.0-pro-001'')\<lparr>am_abilities := Some (no_abilities\<lparr>ab_functionCall := Some True\<rparr>),
       am_contextWindowTokens := Some 32768, am_description := Some (tx 2511),
       am_displayName := Some ''Gemini 1.0 Pro 001 (Tuning)'', am_maxOutput := Some 2048,
       am_pricing := Some (no_pricing\<lparr>price_input := Some 0.5, price_output := Some 1.5\<rparr>),
       am_releasedAt := Some ''2023-12-06''\<rparr>,
     (model_of_type ''chat'' ''gemini-1.0-pro-002'')\<lparr>am_contextWindowTokens := Some 32768,
       am_description := Some (tx 2524), am_displayName := Some ''Gemini 1.0 Pro 002 (Tuning)'',
       am_maxOutput := Some 2048, am_pricing := Some (no_pricing\<lparr>price_input := Some 0.5,
       price_output := Some 1.5\<rparr>), am_releasedAt := Some ''2023-12-06''\<rparr>,
     (model_of_type ''chat'' ''open-mistral-nemo'')\<lparr>am_abilities := Some (no_abilities\<lparr>ab_functionCall := Some True\<rparr>),
       am_contextWindowTokens := Some 128000, am_description := Some (tx 2541),
       am_displayName := Some ''Mistral Nemo'', am_enabled := Some True,
       am_pricing := Some (no_pricing\<lparr>price_input := Some 0.15, price_output := Some 0.15\<rparr>)\<rparr>,
     (model_of_type ''chat'' ''mistral-small-latest'')\<lparr>am_abilities := Some (no_abilities\<lparr>ab_functionCall := Some True\<rparr>),
       am_contextWindowTokens := Some 128000, am_description := Some (tx 2556),
       am_displayName := Some ''Mistral Small'', am_enabled := Some True,
       am_pricing := Some (no_pricing\<lparr>price_input := Some 0.2, price_output := Some 0.6\<rparr>)\<rparr>]"

definition higressChatModels_19 :: "texts \<Rightarrow> ai_model list" where
  [card_tables]: "higressChatModels_19 tx = [
     (model_of_type ''chat'' ''mistral-large-latest'')\<lparr>am_abilities := Some (no_abilities\<lparr>ab_functionCall := Some True\<rparr>),
       am_contextWindowTokens := Some 128000, am_description := Some (tx 2572),
       am_displayName := Some ''Mistral Large'', am_enabled := Some True,
       am_pricing := Some (no_pricing\<lparr>price_input := Some 2, price_output := Some 6\<rparr>)\<rparr>,
     (model_of_type ''chat'' ''codestral-latest'')\<lparr>am_contextWindowTokens := Some 32768,
       am_description := Some (tx 2584), am_displayName := Some ''Codestral'',
       am_pricing := Some (no_pricing\<lparr>price_input := Some 0.2, price_output := Some 0.6\<rparr>)\<rparr>,
     (model_of_type ''chat'' ''pixtral-12b-2409'')\<lparr>am_abilities := Some (no_abilities\<lparr>ab_vision := Some True\<rparr>),
       am_contextWindowTokens := Some 128000, am_description := Some (tx 2599),
       am_displayName := Some ''Pixtral 12B'', am_enabled := Some True,
       am_pricing := Some (no_pricing\<lparr>price_input := Some 0.15, price_output := Some 0.15\<rparr>)\<rparr>,
     (model_of_type ''chat'' ''ministral-3b-latest'')\<lparr>am_contextWindowTokens := Some 128000,
       am_description := Some (tx 2611), am_displayName := Some ''Ministral 3B'',
       am_pricing := Some (no_pricing\<lparr>price_input := Some 0.04, price_output := Some 0.04\<rparr>)\<rparr>,
     (model_of_type ''chat'' ''ministral-8b-latest'')\<lparr>am_contextWindowTokens := Some 128000,
       am_description := Some (tx 2622), am_displayName := Some ''Ministral 8B'',
       am_pricing := Some (no_pricing\<lparr>price_input := Some 0.1, price_output := Some 0.1\<rparr>)\<rparr>,
     (model_of_type ''chat'' ''open-mistral-7b'')\<lparr>am_contextWindowTokens := Some 32768,
       am_description := Some (tx 2634), am_displayName := Some ''Mistral 7B'',
       am_pricing := Some (no_pricing\<lparr>price_input := Some 0.25, price_output := Some 0.25\<rparr>)\<rparr>,
     (model_of_type ''chat'' ''open-mixtral-8x7b'')\<lparr>am_contextWindowTokens := Some 32768,
       am_description := Some (tx 2646), am_displayName := Some ''Mixtral 8x7B'',
       am_pricing := Some (no_pricing\<lparr>price_input := Some 0.7, price_output := Some 0.7\<rparr>)\<rparr>,
     (model_of_type ''chat'' ''open-mixtral-8x22b'')\<lparr>am_abilities := Some (no_abilities\<lparr>ab_functionCall := Some True\<rparr>),
       am_contextWindowTokens := Some 65536, am_description := Some (tx 2661),
       am_displayName := Some ''Mixtral 8x22B'',
       am_pricing := Some (no_pricing\<lparr>price_input := Some 2, price_output := Some 6\<rparr>)\<rparr>,
     (model_of_type ''chat'' ''open-codestral-mamba'')\<lparr>am_contextWindowTokens := Some 256000,
       am_description := Some (tx 2673), am_displayName := Some ''Codestral Mamba'',
       am_pricing := Some (no_pricing\<lparr>price_input := Some 0.15, price_output := Some 0.15\<rparr>)\<rparr>,
     (model_of_type ''chat'' ''abab6.5s-chat'')\<lparr>am_abilities := Some (no_abilities\<lparr>ab_functionCall := Some True\<rparr>),
       am_contextWindowTokens := Some 245760, am_description := Some (tx 2687),
       am_displayName := Some ''abab6.5s'', am_enabled := Some True\<rparr>,
     (model_of_type ''chat'' ''abab6.5g-chat'')\<lparr>am_abilities := Some (no_abilities\<lparr>ab_functionCall := Some True\<rparr>),
       am_contextWindowTokens := Some 8192, am_description := Some (tx 2698),
       am_displayName := Some ''abab6.5g'', am_enabled := Some True\<rparr>,
     (model_of_type ''chat'' ''abab6.5t-chat'')\<lparr>am_abilities := Some (no_abilities\<lparr>ab_functionCall := Some True\<rparr>),
       am_contextWindowTokens := Some 8192, am_description := Some (tx 2709),
       am_displayName := Some ''abab6.5t'', am_enabled := Some True\<rparr>]"

definition higressChatModels_20 :: "texts \<Rightarrow> ai_model list" where
  [card_tables]: "higressChatModels_20 tx = [
     (model_of_type ''chat'' ''abab5.5-chat'')\<lparr>am_contextWindowTokens := Some 16384,
       am_description := Some (tx 2717), am_displayName := Some ''abab5.5''\<rparr>,
     (model_of_type ''chat'' ''abab5.5s-chat'')\<lparr>am_contextWindowTokens := Some 8192,
       am_description := Some (tx 2724), am_displayName := Some ''abab5.5s''\<rparr>,
     (model_of_type ''chat'' ''command-r'')\<lparr>am_description := Some '''',
       am_displayName := Some ''command-r''\<rparr>,
     (model_of_type ''chat'' ''command-r-plus'')\<lparr>am_description := Some '''',
       am_displayName := Some ''command-r-plus''\<rparr>,
     (model_of_type ''chat'' ''command-light'')\<lparr>am_description := Some '''',
       am_displayName := Some ''command-light''\<rparr>,
     (model_of_type ''chat'' ''Doubao-lite-4k'')\<lparr>am_description := Some (tx 2749),
       am_displayName := Some ''Doubao-lite-4k''\<rparr>,
     (model_of_type ''chat'' ''Doubao-lite-32k'')\<lparr>am_description := Some (tx 2756),
       am_displayName := Some ''Doubao-lite-32k''\<rparr>,
     (model_of_type ''chat'' ''Doubao-lite-128k'')\<lparr>am_description := Some (tx 2763),
       am_displayName := Some ''Doubao-lite-128k''\<rparr>,
     (model_of_type ''chat'' ''Doubao-pro-4k'')\<lparr>am_description := Some (tx 2770),
       am_displayName := Some ''Doubao-pro-4k''\<rparr>,
     (model_of_type ''chat'' ''Doubao-pro-32k'')\<lparr>am_description := Some (tx 2777),
       am_displayName := Some ''Doubao-pro-32k''\<rparr>,
     (model_of_type ''chat'' ''Doubao-pro-128k'')\<lparr>am_description := Some (tx 2784),
       am_displayName := Some ''Doubao-pro-128k''\<rparr>,
     (model_of_type ''chat'' ''Skylark2-pro-character-4k'')\<lparr>am_description := Some (tx 2791),
       am_displayName := Some ''Skylark2-pro-character-4k''\<rparr>,
     (model_of_type ''chat'' ''Skylark2-pro-32k'')\<lparr>am_description := Some (tx 2798),
       am_displayName := Some ''Skylark2-pro-32k''\<rparr>,
     (model_of_type ''chat'' ''Skylark2-pro-4k'')\<lparr>am_description := Some (tx 2805),
       am_displayName := Some ''Skylark2-pro-4k''\<rparr>,
     (model_of_type ''chat'' ''Skylark2-pro-turbo-8k'')\<lparr>am_description := Some (tx 2812),
       am_displayName := Some ''Skylark2-pro-turbo-8k''\<rparr>,
     (model_of_type ''chat'' ''Skylark2-lite-8k'')\<lparr>am_description := Some (tx 2819),
       am_displayName := Some ''Skylark2-lite-8k''\<rparr>]"

definition higressChatModels :: "texts \<Rightarrow> ai_model list" where
  [card_tables]: "higressChatModels tx =
     higressChatModels_1 tx @ higressChatModels_2 tx @ higressChatModels_3 tx @
     higressChatModels_4 tx @ higressChatModels_5 tx @ higressChatModels_6 tx @
     higressChatModels_7 tx @ higressChatModels_8 tx @ higressChatModels_9 tx @
     higressChatModels_10 tx @ higressChatModels_11 tx @ higressChatModels_12 tx @
     higressChatModels_13 tx @ higressChatModels_14 tx @ higressChatModels_15 tx @
     higressChatModels_16 tx @ higressChatModels_17 tx @ higressChatModels_18 tx @
     higressChatModels_19 tx @ higressChatModels_20 tx"

section \<open>huggingface\<close>

definition huggingfaceChatModels :: "texts \<Rightarrow> ai_model list" where
  [card_tables]: "huggingfaceChatModels tx = [
     (model_of_type ''chat'' ''mistralai/Mistral-7B-Instruct-v0.3'')\<lparr>am_contextWindowTokens := Some 32768,
       am_description := Some (tx 6), am_displayName := Some ''Mistral 7B Instruct v0.3''\<rparr>,
     (model_of_type ''chat'' ''google/gemma-2-2b-it'')\<lparr>am_contextWindowTokens := Some 8192,
       am_description := Some (tx 13), am_displayName := Some ''Gemma 2 2B Instruct''\<rparr>,
     (model_of_type ''chat'' ''Qwen/Qwen2.5-72B-Instruct'')\<lparr>am_contextWindowTokens := Some 32768,
       am_description := Some (tx 20), am_displayName := Some ''Qwen 2.5 72B Instruct''\<rparr>,
     (model_of_type ''chat'' ''Qwen/Qwen2.5-Coder-32B-Instruct'')\<lparr>am_contextWindowTokens := Some 32768,
       am_description := Some (tx 27), am_displayName := Some ''Qwen 2.5 Coder 32B Instruct''\<rparr>,
     (model_of_type ''chat'' ''Qwen/QwQ-32B-Preview'')\<lparr>am_abilities := Some (no_abilities\<lparr>ab_reasoning := Some True\<rparr>),
       am_contextWindowTokens := Some 32768, am_description := Some (tx 37),
       am_displayName := Some ''QwQ 32B Preview'', am_enabled := Some True\<rparr>,
     (model_of_type ''chat'' ''microsoft/Phi-3.5-mini-instruct'')\<lparr>am_contextWindowTokens := Some 32768,
       am_displayName := Some ''Phi 3.5 mini instruct''\<rparr>,
     (model_of_type ''chat'' ''NousResearch/Hermes-3-Llama-3.1-8B'')\<lparr>am_contextWindowTokens := Some 16384,
       am_displayName := Some ''Hermes 3 Llama 3.1 8B''\<rparr>,
     (model_of_type ''chat'' ''deepseek-ai/DeepSeek-R1-Distill-Qwen-32B'')\<lparr>am_abilities := Some (no_abilities\<lparr>ab_reasoning := Some True\<rparr>),
       am_contextWindowTokens := Some 16384,
       am_displayName := Some ''DeepSeek R1 (Distill Qwen 32B)''\<rparr>,
     (model_of_type ''chat'' ''deepseek-ai/DeepSeek-R1'')\<lparr>am_abilities := Some (no_abilities\<lparr>ab_reasoning := Some True\<rparr>),
       am_contextWindowTokens := Some 128000, am_displayName := Some ''DeepSeek R1'',
       am_enabled := Some True\<rparr>]"

section \<open>hunyuan\<close>

definition hunyuanChatModels_1 :: "texts \<Rightarrow> ai_model list" where
  [card_tables]: "hunyuanChatModels_1 tx = [
     (model_of_type ''chat'' ''hunyuan-t1-latest'')\<lparr>am_abilities := Some (no_abilities\<lparr>ab_reasoning := Some True,
       ab_search := Some True\<rparr>), am_contextWindowTokens := Some 92000,
       am_description := Some (tx 13), am_displayName := Some ''Hunyuan T1'',
       am_enabled := Some True, am_maxOutput := Some 64000,
       am_pricing := Some (no_pricing\<lparr>price_currency := Some CNY, price_input := Some 1,
       price_output := Some 4\<rparr>), am_releasedAt := Some ''2025-04-03'',
       am_settings := Some (no_settings\<lparr>ms_searchImpl := Some ''params''\<rparr>)\<rparr>,
     (model_of_type ''chat'' ''hunyuan-t1-20250321'')\<lparr>am_abilities := Some (no_abilities\<lparr>ab_reasoning := Some True,
       ab_search := Some True\<rparr>), am_contextWindowTokens := Some 92000,
       am_description := Some (tx 36), am_displayName := Some ''Hunyuan T1 20250321'',
       am_maxOutput := Some 64000, am_pricing := Some (no_pricing\<lparr>price_currency := Some CNY,
       price_input := Some 1, price_output := Some 4\<rparr>), am_releasedAt := Some ''2025-03-21'',
       am_settings := Some (no_settings\<lparr>ms_searchImpl := Some ''params''\<rparr>)\<rparr>,
     (model_of_type ''chat'' ''hunyuan-lite'')\<lparr>am_contextWindowTokens := Some 256000,
       am_description := Some (tx 54), am_displayName := Some ''Hunyuan Lite'',
       am_enabled := Some True, am_maxOutput := Some 6000,
       am_pricing := Some (no_pricing\<lparr>price_currency := Some CNY, price_input := Some 0,
       price_output := Some 0\<rparr>), am_releasedAt := Some ''2024-10-30''\<rparr>,
     (model_of_type ''chat'' ''hunyuan-standard'')\<lparr>am_abilities := Some (no_abilities\<lparr>ab_search := Some True\<rparr>),
       am_contextWindowTokens := Some 32000, am_description := Some (tx 73),
       am_displayName := Some ''Hunyuan Standard'', am_maxOutput := Some 2000,
       am_pricing := Some (no_pricing\<lparr>price_currency := Some CNY, price_input := Some 0.8,
       price_output := Some 2\<rparr>), am_releasedAt := Some ''2025-02-10'',
       am_settings := Some (no_settings\<lparr>ms_searchImpl := Some ''params''\<rparr>)\<rparr>,
     (model_of_type ''chat'' ''hunyuan-standard-256K'')\<lparr>am_abilities := Some (no_abilities\<lparr>ab_search := Some True\<rparr>),
       am_contextWindowTokens := Some 256000, am_description := Some (tx 94),
       am_displayName := Some ''Hunyuan Standard 256K'', am_maxOutput := Some 6000,
       am_pricing := Some (no_pricing\<lparr>price_currency := Some CNY, price_input := Some 0.5,
       price_output := Some 2\<rparr>), am_releasedAt := Some ''2025-02-10'',
       am_settings := Some (no_settings\<lparr>ms_searchImpl := Some ''params''\<rparr>)\<rparr>,
     (model_of_type ''chat'' ''hunyuan-large'')\<lparr>am_abilities := Some (no_abilities\<lparr>ab_search := Some True\<rparr>),
       am_contextWindowTokens := Some 32000, am_description := Some (tx 115),
       am_displayName := Some ''Hunyuan Large'', am_enabled := Some True, am_maxOutput := Some 4000,
       am_pricing := Some (no_pricing\<lparr>price_currency := Some CNY, price_input := Some 4,
       price_output := Some 12\<rparr>), am_releasedAt := Some ''2025-02-10'',
       am_settings := Some (no_settings\<lparr>ms_searchImpl := Some ''params''\<rparr>)\<rparr>,
     (model_of_type ''chat'' ''hunyuan-large-longcontext'')\<lparr>am_abilities := Some (no_abilities\<lparr>ab_search := Some True\<rparr>),
       am_contextWindowTokens := Some 134000, am_description := Some (tx 137),
       am_displayName := Some ''Hunyuan Large Longcontext'', am_maxOutput := Some 6000,
       am_pricing := Some (no_pricing\<lparr>price_currency := Some CNY, price_input := Some 6,
       price_output := Some 18\<rparr>), am_releasedAt := Some ''2024-12-18'',
       am_settings := Some (no_settings\<lparr>ms_searchImpl := Some ''params''\<rparr>)\<rparr>]"

definition hunyuanChatModels_2 :: "texts \<Rightarrow> ai_model list" where
  [card_tables]: "hunyuanChatModels_2 tx = [
     (model_of_type ''chat'' ''hunyuan-turbo-latest'')\<lparr>am_abilities := Some (no_abilities\<lparr>ab_functionCall := Some True,
       ab_search := Some True\<rparr>), am_contextWindowTokens := Some 32000,
       am_description := Some (tx 159), am_displayName := Some ''Hunyuan Turbo'',
       am_maxOutput := Some 4000, am_pricing := Some (no_pricing\<lparr>price_currency := Some CNY,
       price_input := Some 2.4, price_output := Some 9.6\<rparr>), am_releasedAt := Some ''2025-01-10'',
       am_settings := Some (no_settings\<lparr>ms_searchImpl := Some ''params''\<rparr>)\<rparr>,
     (model_of_type ''chat'' ''hunyuan-turbo-20241223'')\<lparr>am_abilities := Some (no_abilities\<lparr>ab_functionCall := Some True,
       ab_search := Some True\<rparr>), am_contextWindowTokens := Some 32000,
       am_description := Some (tx 181), am_displayName := Some ''Hunyuan Turbo 20241223'',
       am_maxOutput := Some 4000, am_pricing := Some (no_pricing\<lparr>price_currency := Some CNY,
       price_input := Some 2.4, price_output := Some 9.6\<rparr>), am_releasedAt := Some ''2025-01-10'',
       am_settings := Some (no_settings\<lparr>ms_searchImpl := Some ''params''\<rparr>)\<rparr>,
     (model_of_type ''chat'' ''hunyuan-turbos-longtext-128k-20250325'')\<lparr>am_abilities := Some (no_abilities\<lparr>ab_functionCall := Some True,
       ab_search := Some True\<rparr>), am_contextWindowTokens := Some 134000,
       am_description := Some (tx 203), am_displayName := Some ''Hunyuan TurboS LongText 128K'',
       am_maxOutput := Some 6000, am_pricing := Some (no_pricing\<lparr>price_currency := Some CNY,
       price_input := Some 1.5, price_output := Some 6\<rparr>), am_releasedAt := Some ''2025-03-25'',
       am_settings := Some (no_settings\<lparr>ms_searchImpl := Some ''params''\<rparr>)\<rparr>,
     (model_of_type ''chat'' ''hunyuan-turbos-latest'')\<lparr>am_abilities := Some (no_abilities\<lparr>ab_functionCall := Some True,
       ab_search := Some True\<rparr>), am_contextWindowTokens := Some 32000,
       am_description := Some (tx 224), am_displayName := Some ''Hunyuan TurboS'',
       am_enabled := Some True, am_maxOutput := Some 8000,
       am_pricing := Some (no_pricing\<lparr>price_currency := Some CNY, price_input := Some 0.8,
       price_output := Some 2\<rparr>), am_releasedAt := Some ''2025-04-16'',
       am_settings := Some (no_settings\<lparr>ms_searchImpl := Some ''params''\<rparr>)\<rparr>,
     (model_of_type ''chat'' ''hunyuan-turbos-20250226'')\<lparr>am_abilities := Some (no_abilities\<lparr>ab_functionCall := Some True,
       ab_search := Some True\<rparr>), am_contextWindowTokens := Some 32000,
       am_description := Some (tx 270), am_displayName := Some ''Hunyuan TurboS 20250226'',
       am_maxOutput := Some 8000, am_pricing := Some (no_pricing\<lparr>price_currency := Some CNY,
       price_input := Some 0.8, price_output := Some 2\<rparr>), am_releasedAt := Some ''2025-02-25'',
       am_settings := Some (no_settings\<lparr>ms_searchImpl := Some ''params''\<rparr>)\<rparr>,
     (model_of_type ''chat'' ''hunyuan-lite-vision'')\<lparr>am_abilities := Some (no_abilities\<lparr>ab_vision := Some True\<rparr>),
       am_contextWindowTokens := Some 36000, am_description := Some (tx 291),
       am_displayName := Some ''Hunyuan Lite Vision'', am_maxOutput := Some 4000,
       am_releasedAt := Some ''2024-12-12''\<rparr>]"

definition hunyuanChatModels_3 :: "texts \<Rightarrow> ai_model list" where
  [card_tables]: "hunyuanChatModels_3 tx = [
     (model_of_type ''chat'' ''hunyuan-standard-vision'')\<lparr>am_abilities := Some (no_abilities\<lparr>ab_vision := Some True\<rparr>),
       am_contextWindowTokens := Some 8000, am_description := Some (tx 303),
       am_displayName := Some ''Hunyuan Standard Vision'', am_enabled := Some True,
       am_maxOutput := Some 2000, am_releasedAt := Some ''2024-12-31''\<rparr>,
     (model_of_type ''chat'' ''hunyuan-turbo-vision'')\<lparr>am_abilities := Some (no_abilities\<lparr>ab_vision := Some True\<rparr>),
       am_contextWindowTokens := Some 8000, am_description := Some (tx 317),
       am_displayName := Some ''Hunyuan Turbo Vision'', am_maxOutput := Some 2000,
       am_pricing := Some (no_pricing\<lparr>price_currency := Some CNY, price_input := Some 80,
       price_output := Some 80\<rparr>), am_releasedAt := Some ''2024-11-26''\<rparr>,
     (model_of_type ''chat'' ''hunyuan-turbos-vision'')\<lparr>am_abilities := Some (no_abilities\<lparr>ab_vision := Some True\<rparr>),
       am_contextWindowTokens := Some 8000, am_description := Some (tx 335),
       am_displayName := Some ''Hunyuan TurboS Vision'', am_enabled := Some True,
       am_maxOutput := Some 2000, am_pricing := Some (no_pricing\<lparr>price_currency := Some CNY,
       price_input := Some 3, price_output := Some 9\<rparr>), am_releasedAt := Some ''2025-04-07''\<rparr>,
     (model_of_type ''chat'' ''hunyuan-vision'')\<lparr>am_abilities := Some (no_abilities\<lparr>ab_vision := Some True\<rparr>),
       am_contextWindowTokens := Some 32000, am_description := Some (tx 353),
       am_displayName := Some ''Hunyuan Vision'', am_enabled := Some True,
       am_maxOutput := Some 16000, am_pricing := Some (no_pricing\<lparr>price_currency := Some CNY,
       price_input := Some 18, price_output := Some 18\<rparr>), am_releasedAt := Some ''2025-01-03''\<rparr>,
     (model_of_type ''chat'' ''hunyuan-code'')\<lparr>am_contextWindowTokens := Some 8000,
       am_description := Some (tx 369), am_displayName := Some ''Hunyuan Code'',
       am_maxOutput := Some 4000, am_pricing := Some (no_pricing\<lparr>price_currency := Some CNY,
       price_input := Some 3.5, price_output := Some 7\<rparr>), am_releasedAt := Some ''2024-11-12''\<rparr>,
     (model_of_type ''chat'' ''hunyuan-functioncall'')\<lparr>am_abilities := Some (no_abilities\<lparr>ab_functionCall := Some True\<rparr>),
       am_contextWindowTokens := Some 32000, am_description := Some (tx 387),
       am_displayName := Some ''Hunyuan FunctionCall'', am_maxOutput := Some 4000,
       am_pricing := Some (no_pricing\<lparr>price_currency := Some CNY, price_input := Some 4,
       price_output := Some 8\<rparr>), am_releasedAt := Some ''2025-04-22''\<rparr>,
     (model_of_type ''chat'' ''hunyuan-role'')\<lparr>am_contextWindowTokens := Some 32000,
       am_description := Some (tx 402), am_displayName := Some ''Hunyuan Role'',
       am_maxOutput := Some 4000, am_pricing := Some (no_pricing\<lparr>price_currency := Some CNY,
       price_input := Some 4, price_output := Some 8\<rparr>), am_releasedAt := Some ''2024-07-04''\<rparr>,
     (model_of_type ''chat'' ''hunyuan-translation-lite'')\<lparr>am_contextWindowTokens := Some 8000,
       am_description := Some (tx 417), am_displayName := Some ''Hunyuan Translation Lite'',
       am_maxOutput := Some 4000, am_pricing := Some (no_pricing\<lparr>price_currency := Some CNY,
       price_input := Some 1, price_output := Some 3\<rparr>), am_releasedAt := Some ''2024-11-25''\<rparr>,
     (model_of_type ''chat'' ''hunyuan-translation'')\<lparr>am_contextWindowTokens := Some 8000,
       am_description := Some (tx 432), am_displayName := Some ''Hunyuan Translation'',
       am_maxOutput := Some 4000, am_pricing := Some (no_pricing\<lparr>price_currency := Some CNY,
       price_input := Some 15, price_output := Some 45\<rparr>), am_releasedAt := Some ''2024-10-25''\<rparr>]"

definition hunyuanChatModels :: "texts \<Rightarrow> ai_model list" where
  [card_tables]: "hunyuanChatModels tx =
     hunyuanChatModels_1 tx @ hunyuanChatModels_2 tx @ hunyuanChatModels_3 tx"

section \<open>infiniai\<close>

definition infiniaiChatModels_1 :: "texts \<Rightarrow> ai_model list" where
  [card_tables]: "infiniaiChatModels_1 tx = [
     (model_of_type ''chat'' ''deepseek-r1'')\<lparr>am_abilities := Some (no_abilities\<lparr>ab_reasoning := Some True\<rparr>),
       am_contextWindowTokens := Some 65536, am_description := Some (tx 14),
       am_displayName := Some ''DeepSeek R1'', am_enabled := Some True,
       am_pricing := Some (no_pricing\<lparr>price_currency := Some CNY, price_input := Some 0,
       price_output := Some 0\<rparr>)\<rparr>,
     (model_of_type ''chat'' ''deepseek-v3'')\<lparr>am_contextWindowTokens := Some 65536,
       am_description := Some (tx 28), am_displayName := Some ''DeepSeek V3 0324'',
       am_enabled := Some True, am_pricing := Some (no_pricing\<lparr>price_currency := Some CNY,
       price_input := Some 0, price_output := Some 0\<rparr>)\<rparr>,
     (model_of_type ''chat'' ''qwen3-235b-a22b'')\<lparr>am_abilities := Some (no_abilities\<lparr>ab_functionCall := Some True,
       ab_reasoning := Some True\<rparr>), am_contextWindowTokens := Some 128000,
       am_description := Some (tx 46), am_displayName := Some ''Qwen3 235B A22B'',
       am_enabled := Some True, am_pricing := Some (no_pricing\<lparr>price_currency := Some CNY,
       price_input := Some 0, price_output := Some 0\<rparr>)\<rparr>,
     (model_of_type ''chat'' ''qwen3-30b-a3b'')\<lparr>am_abilities := Some (no_abilities\<lparr>ab_functionCall := Some True,
       ab_reasoning := Some True\<rparr>), am_contextWindowTokens := Some 128000,
       am_description := Some (tx 64), am_displayName := Some ''Qwen3 30B A3B'',
       am_enabled := Some True, am_pricing := Some (no_pricing\<lparr>price_currency := Some CNY,
       price_input := Some 0, price_output := Some 0\<rparr>)\<rparr>,
     (model_of_type ''chat'' ''qwen3-32b'')\<lparr>am_abilities := Some (no_abilities\<lparr>ab_functionCall := Some True,
       ab_reasoning := Some True\<rparr>), am_contextWindowTokens := Some 128000,
       am_description := Some (tx 82), am_displayName := Some ''Qwen3 32B'',
       am_enabled := Some True, am_pricing := Some (no_pricing\<lparr>price_currency := Some CNY,
       price_input := Some 0, price_output := Some 0\<rparr>)\<rparr>,
     (model_of_type ''chat'' ''qwen3-14b'')\<lparr>am_abilities := Some (no_abilities\<lparr>ab_functionCall := Some True,
       ab_reasoning := Some True\<rparr>), am_contextWindowTokens := Some 128000,
       am_description := Some (tx 100), am_displayName := Some ''Qwen3 14B'',
       am_enabled := Some False, am_pricing := Some (no_pricing\<lparr>price_currency := Some CNY,
       price_input := Some 0, price_output := Some 0\<rparr>)\<rparr>,
     (model_of_type ''chat'' ''qwen3-8b'')\<lparr>am_abilities := Some (no_abilities\<lparr>ab_functionCall := Some True,
       ab_reasoning := Some True\<rparr>), am_contextWindowTokens := Some 128000,
       am_description := Some (tx 118), am_displayName := Some ''Qwen3 8B'',
       am_enabled := Some False, am_pricing := Some (no_pricing\<lparr>price_currency := Some CNY,
       price_input := Some 0, price_output := Some 0\<rparr>)\<rparr>,
     (model_of_type ''chat'' ''qwen2.5-vl-72b-instruct'')\<lparr>am_abilities := Some (no_abilities\<lparr>ab_vision := Some True\<rparr>),
       am_contextWindowTokens := Some 125000, am_description := Some (tx 135),
       am_displayName := Some ''Qwen2.5 VL 72B Instruct'', am_enabled := Some True,
       am_pricing := Some (no_pricing\<lparr>price_currency := Some CNY, price_input := Some 0,
       price_output := Some 0\<rparr>)\<rparr>]"

definition infiniaiChatModels_2 :: "texts \<Rightarrow> ai_model list" where
  [card_tables]: "infiniaiChatModels_2 tx = [
     (model_of_type ''chat'' ''qwen2.5-vl-32b-instruct'')\<lparr>am_abilities := Some (no_abilities\<lparr>ab_vision := Some True\<rparr>),
       am_contextWindowTokens := Some 125000, am_description := Some (tx 152),
       am_displayName := Some ''Qwen2.5 VL 32B Instruct'', am_enabled := Some True,
       am_pricing := Some (no_pricing\<lparr>price_currency := Some CNY, price_input := Some 0,
       price_output := Some 0\<rparr>)\<rparr>,
     (model_of_type ''chat'' ''qwen2.5-vl-7b-instruct'')\<lparr>am_abilities := Some (no_abilities\<lparr>ab_vision := Some True\<rparr>),
       am_contextWindowTokens := Some 125000, am_description := Some (tx 169),
       am_displayName := Some ''Qwen2.5 VL 7B Instruct'',
       am_pricing := Some (no_pricing\<lparr>price_currency := Some CNY, price_input := Some 0,
       price_output := Some 0\<rparr>)\<rparr>,
     (model_of_type ''chat'' ''qwen2.5-72b-instruct'')\<lparr>am_abilities := Some (no_abilities\<lparr>ab_functionCall := Some True\<rparr>),
       am_contextWindowTokens := Some 32768, am_description := Some (tx 185),
       am_displayName := Some ''Qwen2.5 72B Instruct'', am_enabled := Some True,
       am_pricing := Some (no_pricing\<lparr>price_currency := Some CNY, price_input := Some 0,
       price_output := Some 0\<rparr>)\<rparr>,
     (model_of_type ''chat'' ''qwen2.5-32b-instruct'')\<lparr>am_abilities := Some (no_abilities\<lparr>ab_functionCall := Some True\<rparr>),
       am_contextWindowTokens := Some 32768, am_description := Some (tx 202),
       am_displayName := Some ''Qwen2.5 32B Instruct'', am_enabled := Some True,
       am_pricing := Some (no_pricing\<lparr>price_currency := Some CNY, price_input := Some 0,
       price_output := Some 0\<rparr>)\<rparr>,
     (model_of_type ''chat'' ''qwen2.5-coder-32b-instruct'')\<lparr>am_contextWindowTokens := Some 32768,
       am_description := Some (tx 216), am_displayName := Some ''Qwen2.5 Coder 32B Instruct'',
       am_pricing := Some (no_pricing\<lparr>price_currency := Some CNY, price_input := Some 0,
       price_output := Some 0\<rparr>)\<rparr>,
     (model_of_type ''chat'' ''qwen2.5-14b-instruct'')\<lparr>am_contextWindowTokens := Some 32768,
       am_description := Some (tx 229), am_displayName := Some ''Qwen2.5 14B Instruct'',
       am_pricing := Some (no_pricing\<lparr>price_currency := Some CNY, price_input := Some 0,
       price_output := Some 0\<rparr>)\<rparr>,
     (model_of_type ''chat'' ''qwen2.5-7b-instruct'')\<lparr>am_abilities := Some (no_abilities\<lparr>ab_functionCall := Some True\<rparr>),
       am_contextWindowTokens := Some 32768, am_description := Some (tx 245),
       am_displayName := Some ''Qwen2.5 7B Instruct'',
       am_pricing := Some (no_pricing\<lparr>price_currency := Some CNY, price_input := Some 0,
       price_output := Some 0\<rparr>)\<rparr>,
     (model_of_type ''chat'' ''qwq-32b'')\<lparr>am_abilities := Some (no_abilities\<lparr>ab_functionCall := Some True,
       ab_reasoning := Some True\<rparr>), am_contextWindowTokens := Some 65536,
       am_description := Some (tx 262), am_displayName := Some ''QwQ 32B'',
       am_enabled := Some False, am_pricing := Some (no_pricing\<lparr>price_currency := Some CNY,
       price_input := Some 0, price_output := Some 0\<rparr>)\<rparr>,
     (model_of_type ''chat'' ''deepseek-r1-distill-qwen-32b'')\<lparr>am_contextWindowTokens := Some 32768,
       am_description := Some (tx 276), am_displayName := Some ''DeepSeek R1 Distill Qwen 32B'',
       am_enabled := Some False, am_pricing := Some (no_pricing\<lparr>price_currency := Some CNY,
       price_input := Some 0, price_output := Some 0\<rparr>)\<rparr>]"

definition infiniaiChatModels_3 :: "texts \<Rightarrow> ai_model list" where
  [card_tables]: "infiniaiChatModels_3 tx = [
     (model_of_type ''chat'' ''llama-3.3-70b-instruct'')\<lparr>am_contextWindowTokens := Some 8192,
       am_description := Some (tx 290), am_displayName := Some ''LLaMA 3.3 70B'',
       am_enabled := Some False, am_pricing := Some (no_pricing\<lparr>price_currency := Some CNY,
       price_input := Some 0, price_output := Some 0\<rparr>)\<rparr>,
     (model_of_type ''chat'' ''qwen2-72b-instruct'')\<lparr>am_contextWindowTokens := Some 32768,
       am_description := Some (tx 304), am_displayName := Some ''Qwen 2 72B Instruct'',
       am_pricing := Some (no_pricing\<lparr>price_currency := Some CNY, price_input := Some 0,
       price_output := Some 0\<rparr>)\<rparr>,
     (model_of_type ''chat'' ''qwen2-7b-instruct'')\<lparr>am_contextWindowTokens := Some 32768,
       am_description := Some (tx 317), am_displayName := Some ''Qwen 2 7B Instruct'',
       am_pricing := Some (no_pricing\<lparr>price_currency := Some CNY, price_input := Some 0,
       price_output := Some 0\<rparr>)\<rparr>,
     (model_of_type ''chat'' ''yi-1.5-34b-chat'')\<lparr>am_contextWindowTokens := Some 4096,
       am_description := Some (tx 330), am_displayName := Some ''Yi-1.5 34B Chat'',
       am_pricing := Some (no_pricing\<lparr>price_currency := Some CNY, price_input := Some 0,
       price_output := Some 0\<rparr>)\<rparr>,
     (model_of_type ''chat'' ''glm-4-9b-chat'')\<lparr>am_contextWindowTokens := Some 16384,
       am_description := Some (tx 342), am_displayName := Some ''GLM-4 9B Chat'',
       am_pricing := Some (no_pricing\<lparr>price_currency := Some CNY, price_input := Some 0,
       price_output := Some 0\<rparr>)\<rparr>,
     (model_of_type ''chat'' ''chatglm3'')\<lparr>am_contextWindowTokens := Some 8192,
       am_description := Some (tx 355), am_displayName := Some ''ChatGLM3'',
       am_pricing := Some (no_pricing\<lparr>price_currency := Some CNY, price_input := Some 0,
       price_output := Some 0\<rparr>)\<rparr>,
     (model_of_type ''chat'' ''chatglm3-6b-base'')\<lparr>am_contextWindowTokens := Some 32768,
       am_description := Some (tx 368), am_displayName := Some ''ChatGLM3 6B Base'',
       am_pricing := Some (no_pricing\<lparr>price_currency := Some CNY, price_input := Some 0,
       price_output := Some 0\<rparr>)\<rparr>,
     (model_of_type ''chat'' ''llama-2-7b-chat'')\<lparr>am_contextWindowTokens := Some 4096,
       am_description := Some (tx 381), am_displayName := Some ''Llama 2 7B Chat'',
       am_pricing := Some (no_pricing\<lparr>price_currency := Some CNY, price_input := Some 0,
       price_output := Some 0\<rparr>)\<rparr>,
     (model_of_type ''chat'' ''megrez-3b-instruct'')\<lparr>am_contextWindowTokens := Some 4096,
       am_description := Some (tx 394), am_displayName := Some ''Megrez 3B Instruct'',
       am_pricing := Some (no_pricing\<lparr>price_currency := Some CNY, price_input := Some 0,
       price_output := Some 0\<rparr>)\<rparr>]"

definition infiniaiChatModels :: "texts \<Rightarrow> ai_model list" where
  [card_tables]: "infiniaiChatModels tx =
     infiniaiChatModels_1 tx @ infiniaiChatModels_2 tx @ infiniaiChatModels_3 tx"

section \<open>internlm\<close>

definition internlmChatModels :: "texts \<Rightarrow> ai_model list" where
  [card_tables]: "internlmChatModels tx = [
     (model_of_type ''chat'' ''internlm3-latest'')\<lparr>am_abilities := Some (no_abilities\<lparr>ab_functionCall := Some True\<rparr>),
       am_contextWindowTokens := Some 32768, am_description := Some (tx 12),
       am_displayName := Some ''InternLM3'', am_enabled := Some True,
       am_pricing := Some (no_pricing\<lparr>price_input := Some 0, price_output := Some 0\<rparr>)\<rparr>,
     (model_of_type ''chat'' ''internlm2.5-latest'')\<lparr>am_abilities := Some (no_abilities\<lparr>ab_functionCall := Some True\<rparr>),
       am_contextWindowTokens := Some 32768, am_description := Some (tx 28),
       am_displayName := Some ''InternLM2.5'', am_pricing := Some (no_pricing\<lparr>price_input := Some 0,
       price_output := Some 0\<rparr>)\<rparr>,
     (model_of_type ''chat'' ''internvl3-latest'')\<lparr>am_abilities := Some (no_abilities\<lparr>ab_vision := Some True\<rparr>),
       am_contextWindowTokens := Some 32768, am_description := Some (tx 43),
       am_displayName := Some ''InternVL3'', am_enabled := Some True,
       am_pricing := Some (no_pricing\<lparr>price_input := Some 0, price_output := Some 0\<rparr>)\<rparr>,
     (model_of_type ''chat'' ''internvl2.5-latest'')\<lparr>am_abilities := Some (no_abilities\<lparr>ab_vision := Some True\<rparr>),
       am_contextWindowTokens := Some 32768, am_description := Some (tx 59),
       am_displayName := Some ''InternVL2.5'', am_pricing := Some (no_pricing\<lparr>price_input := Some 0,
       price_output := Some 0\<rparr>)\<rparr>]"

section \<open>jina\<close>

definition jinaChatModels :: "texts \<Rightarrow> ai_model list" where
  [card_tables]: "jinaChatModels tx = [
     (model_of_type ''chat'' ''jina-deepsearch-v1'')\<lparr>am_abilities := Some (no_abilities\<lparr>ab_reasoning := Some True,
       ab_search := Some True\<rparr>), am_contextWindowTokens := Some 1000000,
       am_description := Some (tx 11), am_displayName := Some ''Jina DeepSearch v1'',
       am_enabled := Some True, am_pricing := Some (no_pricing\<lparr>price_input := Some 0.02,
       price_output := Some 0.02\<rparr>),
       am_settings := Some (no_settings\<lparr>ms_searchImpl := Some ''internal''\<rparr>)\<rparr>]"

section \<open>lmstudio\<close>

definition lmStudioChatModels :: "texts \<Rightarrow> ai_model list" where
  [card_tables]: "lmStudioChatModels tx = [
     (model_of_type ''chat'' ''llama3.1'')\<lparr>am_abilities := Some (no_abilities),
       am_contextWindowTokens := Some 128000, am_description := Some (tx 8),
       am_displayName := Some ''Llama 3.1 8B'', am_enabled := Some True\<rparr>,
     (model_of_type ''chat'' ''qwen2.5-14b-instruct'')\<lparr>am_abilities := Some (no_abilities),
       am_contextWindowTokens := Some 128000, am_description := Some (tx 17),
       am_displayName := Some ''Qwen2.5 14B'', am_enabled := Some True\<rparr>]"

section \<open>minimax\<close>

definition minimaxChatModels :: "texts \<Rightarrow> ai_model list" where
  [card_tables]: "minimaxChatModels tx = [
     (model_of_type ''chat'' ''MiniMax-Text-01'')\<lparr>am_abilities := Some (no_abilities\<lparr>ab_functionCall := Some True,
       ab_vision := Some True\<rparr>), am_contextWindowTokens := Some 1000192,
       am_description := Some (tx 11), am_displayName := Some ''MiniMax-Text-01'',
       am_enabled := Some True, am_maxOutput := Some 1000192,
       am_pricing := Some (no_pricing\<lparr>price_currency := Some CNY, price_input := Some 1,
       price_output := Some 8\<rparr>), am_releasedAt := Some ''2025-01-15''\<rparr>,
     (model_of_type ''chat'' ''abab6.5s-chat'')\<lparr>am_abilities := Some (no_abilities\<lparr>ab_functionCall := Some True,
       ab_vision := Some True\<rparr>), am_contextWindowTokens := Some 245760,
       am_description := Some (tx 30), am_displayName := Some ''abab6.5s'', am_enabled := Some True,
       am_maxOutput := Some 245760, am_pricing := Some (no_pricing\<lparr>price_currency := Some CNY,
       price_input := Some 1, price_output := Some 1\<rparr>)\<rparr>,
     (model_of_type ''chat'' ''DeepSeek-R1'')\<lparr>am_abilities := Some (no_abilities\<lparr>ab_reasoning := Some True\<rparr>),
       am_contextWindowTokens := Some 64000, am_description := Some (tx 48),
       am_displayName := Some ''DeepSeek R1'', am_maxOutput := Some 64000,
       am_pricing := Some (no_pricing\<lparr>price_currency := Some CNY, price_input := Some 4,
       price_output := Some 16\<rparr>)\<rparr>]"

section \<open>mistral\<close>

definition mistralChatModels_1 :: "texts \<Rightarrow> ai_model list" where
  [card_tables]: "mistralChatModels_1 tx = [
     (model_of_type ''chat'' ''mistral-medium-latest'')\<lparr>am_abilities := Some (no_abilities\<lparr>ab_functionCall := Some True\<rparr>),
       am_contextWindowTokens := Some 128000, am_description := Some (tx 13),
       am_displayName := Some ''Mistral Medium 3'', am_enabled := Some True,
       am_pricing := Some (no_pricing\<lparr>price_input := Some 0.4, price_output := Some 2\<rparr>)\<rparr>,
     (model_of_type ''chat'' ''open-mistral-nemo'')\<lparr>am_abilities := Some (no_abilities\<lparr>ab_functionCall := Some True\<rparr>),
       am_contextWindowTokens := Some 128000, am_description := Some (tx 29),
       am_displayName := Some ''Mistral Nemo'',
       am_pricing := Some (no_pricing\<lparr>price_input := Some 0.15, price_output := Some 0.15\<rparr>)\<rparr>,
     (model_of_type ''chat'' ''mistral-small-latest'')\<lparr>am_abilities := Some (no_abilities\<lparr>ab_functionCall := Some True\<rparr>),
       am_contextWindowTokens := Some 32000, am_description := Some (tx 43),
       am_displayName := Some ''Mistral Small 3.1'', am_enabled := Some True,
       am_pricing := Some (no_pricing\<lparr>price_input := Some 0.1, price_output := Some 0.3\<rparr>)\<rparr>,
     (model_of_type ''chat'' ''mistral-large-latest'')\<lparr>am_abilities := Some (no_abilities\<lparr>ab_functionCall := Some True\<rparr>),
       am_contextWindowTokens := Some 131072, am_description := Some (tx 59),
       am_displayName := Some ''Mistral Large 24.11'', am_enabled := Some True,
       am_pricing := Some (no_pricing\<lparr>price_input := Some 2, price_output := Some 6\<rparr>)\<rparr>,
     (model_of_type ''chat'' ''codestral-latest'')\<lparr>am_abilities := Some (no_abilities\<lparr>ab_functionCall := Some True\<rparr>),
       am_contextWindowTokens := Some 256000, am_description := Some (tx 75),
       am_displayName := Some ''Codestral'', am_pricing := Some (no_pricing\<lparr>price_input := Some 0.3,
       price_output := Some 0.9\<rparr>), am_releasedAt := Some ''2025-01-13''\<rparr>,
     (model_of_type ''chat'' ''pixtral-large-latest'')\<lparr>am_abilities := Some (no_abilities\<lparr>ab_functionCall := Some True,
       ab_vision := Some True\<rparr>), am_contextWindowTokens := Some 131072,
       am_description := Some (tx 92), am_displayName := Some ''Pixtral Large'',
       am_enabled := Some True, am_pricing := Some (no_pricing\<lparr>price_input := Some 2,
       price_output := Some 6\<rparr>)\<rparr>,
     (model_of_type ''chat'' ''pixtral-12b-2409'')\<lparr>am_abilities := Some (no_abilities\<lparr>ab_functionCall := Some True,
       ab_vision := Some True\<rparr>), am_contextWindowTokens := Some 131072,
       am_description := Some (tx 109), am_displayName := Some ''Pixtral 12B'',
       am_pricing := Some (no_pricing\<lparr>price_input := Some 0.15, price_output := Some 0.15\<rparr>)\<rparr>,
     (model_of_type ''chat'' ''ministral-3b-latest'')\<lparr>am_abilities := Some (no_abilities\<lparr>ab_functionCall := Some True\<rparr>),
       am_contextWindowTokens := Some 131072, am_description := Some (tx 123),
       am_displayName := Some ''Ministral 3B'',
       am_pricing := Some (no_pricing\<lparr>price_input := Some 0.04, price_output := Some 0.04\<rparr>)\<rparr>,
     (model_of_type ''chat'' ''ministral-8b-latest'')\<lparr>am_abilities := Some (no_abilities\<lparr>ab_functionCall := Some True\<rparr>),
       am_contextWindowTokens := Some 131072, am_description := Some (tx 137),
       am_displayName := Some ''Ministral 8B'',
       am_pricing := Some (no_pricing\<lparr>price_input := Some 0.1, price_output := Some 0.1\<rparr>)\<rparr>]"

definition mistralChatModels_2 :: "texts \<Rightarrow> ai_model list" where
  [card_tables]: "mistralChatModels_2 tx = [
     (model_of_type ''chat'' ''open-codestral-mamba'')\<lparr>am_contextWindowTokens := Some 256000,
       am_description := Some (tx 149), am_displayName := Some ''Codestral Mamba'',
       am_pricing := Some (no_pricing\<lparr>price_input := Some 0, price_output := Some 0\<rparr>)\<rparr>]"

definition mistralChatModels :: "texts \<Rightarrow> ai_model list" where
  [card_tables]: "mistralChatModels tx =
     mistralChatModels_1 tx @ mistralChatModels_2 tx"

section \<open>moonshot\<close>

definition moonshotChatModels_1 :: "texts \<Rightarrow> ai_model list" where
  [card_tables]: "moonshotChatModels_1 tx = [
     (model_of_type ''chat'' ''kimi-latest'')\<lparr>am_abilities := Some (no_abilities\<lparr>ab_functionCall := Some True,
       ab_search := Some True, ab_vision := Some True\<rparr>), am_contextWindowTokens := Some 131072,
       am_description := Some (tx 13), am_displayName := Some ''Kimi Latest'',
       am_enabled := Some True, am_pricing := Some (no_pricing\<lparr>price_cachedInput := Some 1,
       price_currency := Some CNY, price_input := Some 10, price_output := Some 30\<rparr>),
       am_releasedAt := Some ''2025-02-17'',
       am_settings := Some (no_settings\<lparr>ms_searchImpl := Some ''params''\<rparr>)\<rparr>,
     (model_of_type ''chat'' ''moonshot-v1-auto'')\<lparr>am_abilities := Some (no_abilities\<lparr>ab_functionCall := Some True,
       ab_search := Some True\<rparr>), am_contextWindowTokens := Some 131072,
       am_description := Some (tx 35), am_displayName := Some ''Moonshot V1 Auto'',
       am_pricing := Some (no_pricing\<lparr>price_currency := Some CNY, price_input := Some 10,
       price_output := Some 30\<rparr>),
       am_settings := Some (no_settings\<lparr>ms_searchImpl := Some ''params''\<rparr>)\<rparr>,
     (model_of_type ''chat'' ''moonshot-v1-8k'')\<lparr>am_abilities := Some (no_abilities\<lparr>ab_functionCall := Some True,
       ab_search := Some True\<rparr>), am_contextWindowTokens := Some 8192,
       am_description := Some (tx 55), am_displayName := Some ''Moonshot V1 8K'',
       am_pricing := Some (no_pricing\<lparr>price_currency := Some CNY, price_input := Some 2,
       price_output := Some 10\<rparr>),
       am_settings := Some (no_settings\<lparr>ms_searchImpl := Some ''params''\<rparr>)\<rparr>,
     (model_of_type ''chat'' ''moonshot-v1-32k'')\<lparr>am_abilities := Some (no_abilities\<lparr>ab_functionCall := Some True,
       ab_search := Some True\<rparr>), am_contextWindowTokens := Some 32768,
       am_description := Some (tx 75), am_displayName := Some ''Moonshot V1 32K'',
       am_pricing := Some (no_pricing\<lparr>price_currency := Some CNY, price_input := Some 5,
       price_output := Some 20\<rparr>),
       am_settings := Some (no_settings\<lparr>ms_searchImpl := Some ''params''\<rparr>)\<rparr>,
     (model_of_type ''chat'' ''moonshot-v1-128k'')\<lparr>am_abilities := Some (no_abilities\<lparr>ab_functionCall := Some True,
       ab_search := Some True\<rparr>), am_contextWindowTokens := Some 131072,
       am_description := Some (tx 95), am_displayName := Some ''Moonshot V1 128K'',
       am_pricing := Some (no_pricing\<lparr>price_currency := Some CNY, price_input := Some 10,
       price_output := Some 30\<rparr>),
       am_settings := Some (no_settings\<lparr>ms_searchImpl := Some ''params''\<rparr>)\<rparr>,
     (model_of_type ''chat'' ''moonshot-v1-8k-vision-preview'')\<lparr>am_abilities := Some (no_abilities\<lparr>ab_functionCall := Some True,
       ab_search := Some True, ab_vision := Some True\<rparr>), am_contextWindowTokens := Some 8192,
       am_description := Some (tx 116), am_displayName := Some ''Moonshot V1 8K Vision Preview'',
       am_pricing := Some (no_pricing\<lparr>price_currency := Some CNY, price_input := Some 2,
       price_output := Some 10\<rparr>), am_releasedAt := Some ''2025-01-14'',
       am_settings := Some (no_settings\<lparr>ms_searchImpl := Some ''params''\<rparr>)\<rparr>,
     (model_of_type ''chat'' ''moonshot-v1-32k-vision-preview'')\<lparr>am_abilities := Some (no_abilities\<lparr>ab_functionCall := Some True,
       ab_search := Some True, ab_vision := Some True\<rparr>), am_contextWindowTokens := Some 32768,
       am_description := Some (tx 138), am_displayName := Some ''Moonshot V1 32K Vision Preview'',
       am_pricing := Some (no_pricing\<lparr>price_currency := Some CNY, price_input := Some 5,
       price_output := Some 20\<rparr>), am_releasedAt := Some ''2025-01-14'',
       am_settings := Some (no_settings\<lparr>ms_searchImpl := Some ''params''\<rparr>)\<rparr>]"

definition moonshotChatModels_2 :: "texts \<Rightarrow> ai_model list" where
  [card_tables]: "moonshotChatModels_2 tx = [
     (model_of_type ''chat'' ''moonshot-v1-128k-vision-preview'')\<lparr>am_abilities := Some (no_abilities\<lparr>ab_functionCall := Some True,
       ab_search := Some True, ab_vision := Some True\<rparr>), am_contextWindowTokens := Some 131072,
       am_description := Some (tx 160), am_displayName := Some ''Moonshot V1 128K Vision Preview'',
       am_pricing := Some (no_pricing\<lparr>price_currency := Some CNY, price_input := Some 10,
       price_output := Some 30\<rparr>), am_releasedAt := Some ''2025-01-14'',
       am_settings := Some (no_settings\<lparr>ms_searchImpl := Some ''params''\<rparr>)\<rparr>]"

definition moonshotChatModels :: "texts \<Rightarrow> ai_model list" where
  [card_tables]: "moonshotChatModels tx =
     moonshotChatModels_1 tx @ moonshotChatModels_2 tx"

section \<open>novita\<close>

definition novitaChatModels_1 :: "texts \<Rightarrow> ai_model list" where
  [card_tables]: "novitaChatModels_1 tx = [
     (model_of_type ''chat'' ''qwen/qwen3-0.6b-fp8'')\<lparr>am_contextWindowTokens := Some 32000,
       am_displayName := Some ''Qwen3 0.6B FP8'',
       am_pricing := Some (no_pricing\<lparr>price_input := Some 0, price_output := Some 0\<rparr>)\<rparr>,
     (model_of_type ''chat'' ''qwen/qwen3-1.7b-fp8'')\<lparr>am_contextWindowTokens := Some 32000,
       am_displayName := Some ''Qwen3 1.7B FP8'',
       am_pricing := Some (no_pricing\<lparr>price_input := Some 0, price_output := Some 0\<rparr>)\<rparr>,
     (model_of_type ''chat'' ''qwen/qwen3-4b-fp8'')\<lparr>am_contextWindowTokens := Some 128000,
       am_displayName := Some ''Qwen3 4B FP8'',
       am_pricing := Some (no_pricing\<lparr>price_input := Some 0, price_output := Some 0\<rparr>)\<rparr>,
     (model_of_type ''chat'' ''deepseek/deepseek-prover-v2-671b'')\<lparr>am_contextWindowTokens := Some 160000,
       am_displayName := Some ''Deepseek Prover V2 671B'',
       am_pricing := Some (no_pricing\<lparr>price_input := Some 0.7, price_output := Some 2.5\<rparr>)\<rparr>,
     (model_of_type ''chat'' ''qwen/qwen3-235b-a22b-fp8'')\<lparr>am_contextWindowTokens := Some 40960,
       am_displayName := Some ''Qwen3 235B A22B FP8'',
       am_pricing := Some (no_pricing\<lparr>price_input := Some 0.2, price_output := Some 0.8\<rparr>)\<rparr>,
     (model_of_type ''chat'' ''qwen/qwen3-30b-a3b-fp8'')\<lparr>am_contextWindowTokens := Some 40960,
       am_displayName := Some ''Qwen3 30B A3B FP8'',
       am_pricing := Some (no_pricing\<lparr>price_input := Some 0.1, price_output := Some 0.45\<rparr>)\<rparr>,
     (model_of_type ''chat'' ''qwen/qwen3-32b-fp8'')\<lparr>am_contextWindowTokens := Some 40960,
       am_displayName := Some ''Qwen3 32B FP8'',
       am_pricing := Some (no_pricing\<lparr>price_input := Some 0.1, price_output := Some 0.45\<rparr>)\<rparr>,
     (model_of_type ''chat'' ''meta-llama/llama-3.3-70b-instruct'')\<lparr>am_contextWindowTokens := Some 131072,
       am_displayName := Some ''Llama 3.3 70B Instruct'',
       am_pricing := Some (no_pricing\<lparr>price_input := Some 0.13, price_output := Some 0.39\<rparr>)\<rparr>,
     (model_of_type ''chat'' ''qwen/qwen3-8b-fp8'')\<lparr>am_contextWindowTokens := Some 128000,
       am_displayName := Some ''Qwen3 8B FP8'',
       am_pricing := Some (no_pricing\<lparr>price_input := Some 0.035, price_output := Some 0.138\<rparr>)\<rparr>,
     (model_of_type ''chat'' ''qwen/qwen3-14b-fp8'')\<lparr>am_contextWindowTokens := Some 40960,
       am_displayName := Some ''Qwen3 14B FP8'',
       am_pricing := Some (no_pricing\<lparr>price_input := Some 0.07, price_output := Some 0.275\<rparr>)\<rparr>,
     (model_of_type ''chat'' ''meta-llama/llama-4-scout-17b-16e-instruct'')\<lparr>am_contextWindowTokens := Some 131072,
       am_displayName := Some ''Llama 4 Scout 17B Instruct'', am_enabled := Some True,
       am_pricing := Some (no_pricing\<lparr>price_input := Some 0.1, price_output := Some 0.5\<rparr>)\<rparr>,
     (model_of_type ''chat'' ''meta-llama/llama-4-maverick-17b-128e-instruct-fp8'')\<lparr>am_contextWindowTokens := Some 1048576,
       am_displayName := Some ''Llama 4 Maverick 17B Instruct'', am_enabled := Some True,
       am_pricing := Some (no_pricing\<lparr>price_input := Some 0.2, price_output := Some 0.85\<rparr>)\<rparr>,
     (model_of_type ''chat'' ''meta-llama/llama-3.1-8b-instruct'')\<lparr>am_contextWindowTokens := Some 16384,
       am_description := Some (tx 128), am_displayName := Some ''Llama 3.1 8B Instruct'',
       am_pricing := Some (no_pricing\<lparr>price_input := Some 0.02, price_output := Some 0.05\<rparr>)\<rparr>,
     (model_of_type ''chat'' ''meta-llama/llama-3.1-70b-instruct'')\<lparr>am_contextWindowTokens := Some 32768,
       am_description := Some (tx 140), am_displayName := Some ''Llama 3.1 70B Instruct'',
       am_pricing := Some (no_pricing\<lparr>price_input := Some 0.34, price_output := Some 0.39\<rparr>)\<rparr>]"

definition novitaChatModels_2 :: "texts \<Rightarrow> ai_model list" where
  [card_tables]: "novitaChatModels_2 tx = [
     (model_of_type ''chat'' ''meta-llama/llama-3-8b-instruct'')\<lparr>am_contextWindowTokens := Some 8192,
       am_description := Some (tx 151), am_displayName := Some ''Llama 3 8B Instruct'',
       am_pricing := Some (no_pricing\<lparr>price_input := Some 0.04, price_output := Some 0.04\<rparr>)\<rparr>,
     (model_of_type ''chat'' ''meta-llama/llama-3-70b-instruct'')\<lparr>am_contextWindowTokens := Some 8192,
       am_description := Some (tx 162), am_displayName := Some ''Llama 3 70B Instruct'',
       am_pricing := Some (no_pricing\<lparr>price_input := Some 0.51, price_output := Some 0.74\<rparr>)\<rparr>,
     (model_of_type ''chat'' ''google/gemma-2-9b-it'')\<lparr>am_contextWindowTokens := Some 8192,
       am_description := Some (tx 173), am_displayName := Some ''Gemma 2 9B'',
       am_pricing := Some (no_pricing\<lparr>price_input := Some 0.08, price_output := Some 0.08\<rparr>)\<rparr>,
     (model_of_type ''chat'' ''google/gemma-3-27b-it'')\<lparr>am_contextWindowTokens := Some 32000,
       am_description := Some (tx 184), am_displayName := Some ''Gemma 3 27B'',
       am_pricing := Some (no_pricing\<lparr>price_input := Some 0.2, price_output := Some 0.2\<rparr>)\<rparr>,
     (model_of_type ''chat'' ''mistralai/mistral-nemo'')\<lparr>am_contextWindowTokens := Some 131072,
       am_description := Some (tx 195), am_displayName := Some ''Mistral Nemo'',
       am_pricing := Some (no_pricing\<lparr>price_input := Some 0.17, price_output := Some 0.17\<rparr>)\<rparr>,
     (model_of_type ''chat'' ''mistralai/mistral-7b-instruct'')\<lparr>am_contextWindowTokens := Some 32768,
       am_description := Some (tx 206), am_displayName := Some ''Mistral 7B Instruct'',
       am_pricing := Some (no_pricing\<lparr>price_input := Some 0.059, price_output := Some 0.059\<rparr>)\<rparr>,
     (model_of_type ''chat'' ''microsoft/wizardlm-2-8x22b'')\<lparr>am_contextWindowTokens := Some 65535,
       am_description := Some (tx 217), am_displayName := Some ''WizardLM-2 8x22B'',
       am_pricing := Some (no_pricing\<lparr>price_input := Some 0.62, price_output := Some 0.62\<rparr>)\<rparr>,
     (model_of_type ''chat'' ''cognitivecomputations/dolphin-mixtral-8x22b'')\<lparr>am_contextWindowTokens := Some 16000,
       am_description := Some (tx 228), am_displayName := Some ''Dolphin Mixtral 8x22B'',
       am_pricing := Some (no_pricing\<lparr>price_input := Some 0.9, price_output := Some 0.9\<rparr>)\<rparr>,
     (model_of_type ''chat'' ''nousresearch/hermes-2-pro-llama-3-8b'')\<lparr>am_contextWindowTokens := Some 8192,
       am_description := Some (tx 239), am_displayName := Some ''Hermes 2 Pro Llama 3 8B'',
       am_pricing := Some (no_pricing\<lparr>price_input := Some 0.14, price_output := Some 0.14\<rparr>)\<rparr>,
     (model_of_type ''chat'' ''gryphe/mythomax-l2-13b'')\<lparr>am_contextWindowTokens := Some 4096,
       am_description := Some (tx 250), am_displayName := Some ''MythoMax l2 13B'',
       am_pricing := Some (no_pricing\<lparr>price_input := Some 0.09, price_output := Some 0.09\<rparr>)\<rparr>,
     (model_of_type ''chat'' ''deepseek/deepseek-v3-turbo'')\<lparr>am_contextWindowTokens := Some 64000,
       am_displayName := Some ''Deepseek V3 Turbo'',
       am_pricing := Some (no_pricing\<lparr>price_input := Some 0.4, price_output := Some 1.3\<rparr>)\<rparr>,
     (model_of_type ''chat'' ''deepseek/deepseek-r1-turbo'')\<lparr>am_abilities := Some (no_abilities\<lparr>ab_reasoning := Some True\<rparr>),
       am_contextWindowTokens := Some 64000, am_displayName := Some ''Deepseek R1 Turbo'',
       am_enabled := Some True, am_pricing := Some (no_pricing\<lparr>price_input := Some 0.7,
       price_output := Some 2.5\<rparr>)\<rparr>,
     (model_of_type ''chat'' ''deepseek/deepseek-r1'')\<lparr>am_abilities := Some (no_abilities\<lparr>ab_reasoning := Some True\<rparr>),
       am_contextWindowTokens := Some 64000, am_displayName := Some ''Deepseek R1'',
       am_pricing := Some (no_pricing\<lparr>price_input := Some 4, price_output := Some 4\<rparr>)\<rparr>]"

definition novitaChatModels_3 :: "texts \<Rightarrow> ai_model list" where
  [card_tables]: "novitaChatModels_3 tx = [
     (model_of_type ''chat'' ''deepseek/deepseek-v3-0324'')\<lparr>am_contextWindowTokens := Some 128000,
       am_displayName := Some ''Deepseek V3 0324'', am_enabled := Some True,
       am_pricing := Some (no_pricing\<lparr>price_input := Some 0.37, price_output := Some 1.3\<rparr>)\<rparr>,
     (model_of_type ''chat'' ''deepseek/deepseek_v3'')\<lparr>am_contextWindowTokens := Some 64000,
       am_displayName := Some ''Deepseek V3'',
       am_pricing := Some (no_pricing\<lparr>price_input := Some 0.89, price_output := Some 0.89\<rparr>)\<rparr>,
     (model_of_type ''chat'' ''deepseek/deepseek-r1-distill-llama-70b'')\<lparr>am_abilities := Some (no_abilities\<lparr>ab_reasoning := Some True\<rparr>),
       am_contextWindowTokens := Some 32000,
       am_displayName := Some ''Deepseek R1 Distill Llama 70B'',
       am_pricing := Some (no_pricing\<lparr>price_input := Some 0.8, price_output := Some 0.8\<rparr>)\<rparr>,
     (model_of_type ''chat'' ''deepseek/deepseek-r1-distill-qwen-14b'')\<lparr>am_abilities := Some (no_abilities\<lparr>ab_reasoning := Some True\<rparr>),
       am_contextWindowTokens := Some 64000,
       am_displayName := Some ''Deepseek R1 Distill Qwen 14B'',
       am_pricing := Some (no_pricing\<lparr>price_input := Some 0.15, price_output := Some 0.15\<rparr>)\<rparr>,
     (model_of_type ''chat'' ''deepseek/deepseek-r1-distill-qwen-32b'')\<lparr>am_abilities := Some (no_abilities\<lparr>ab_reasoning := Some True\<rparr>),
       am_contextWindowTokens := Some 64000,
       am_displayName := Some ''Deepseek R1 Distill Qwen 32B'',
       am_pricing := Some (no_pricing\<lparr>price_input := Some 0.3, price_output := Some 0.3\<rparr>)\<rparr>,
     (model_of_type ''chat'' ''Sao10K/L3-8B-Stheno-v3.2'')\<lparr>am_contextWindowTokens := Some 8192,
       am_displayName := Some ''L3 8B Stheno v3.2'',
       am_pricing := Some (no_pricing\<lparr>price_input := Some 0.05, price_output := Some 0.05\<rparr>)\<rparr>,
     (model_of_type ''chat'' ''deepseek/deepseek-r1-distill-llama-8b'')\<lparr>am_abilities := Some (no_abilities\<lparr>ab_reasoning := Some True\<rparr>),
       am_contextWindowTokens := Some 32000,
       am_displayName := Some ''Deepseek R1 Distill Llama 8B'',
       am_pricing := Some (no_pricing\<lparr>price_input := Some 0.04, price_output := Some 0.04\<rparr>)\<rparr>,
     (model_of_type ''chat'' ''qwen/qwen-2.5-72b-instruct'')\<lparr>am_contextWindowTokens := Some 32000,
       am_displayName := Some ''Qwen2.5 72B Instruct'',
       am_pricing := Some (no_pricing\<lparr>price_input := Some 0.38, price_output := Some 0.4\<rparr>)\<rparr>,
     (model_of_type ''chat'' ''sao10k/l3-70b-euryale-v2.1'')\<lparr>am_contextWindowTokens := Some 16000,
       am_displayName := Some ''L3 70B Euryale v2.1'',
       am_pricing := Some (no_pricing\<lparr>price_input := Some 1.48, price_output := Some 1.48\<rparr>)\<rparr>,
     (model_of_type ''chat'' ''jondurbin/airoboros-l2-70b'')\<lparr>am_contextWindowTokens := Some 4096,
       am_displayName := Some ''Airoboros L2 70B'',
       am_pricing := Some (no_pricing\<lparr>price_input := Some 0.5, price_output := Some 0.5\<rparr>)\<rparr>,
     (model_of_type ''chat'' ''sophosympatheia/midnight-rose-70b'')\<lparr>am_contextWindowTokens := Some 4096,
       am_displayName := Some ''Midnight Rose 70B'',
       am_pricing := Some (no_pricing\<lparr>price_input := Some 0.8, price_output := Some 0.8\<rparr>)\<rparr>,
     (model_of_type ''chat'' ''sao10k/l3-8b-lunaris'')\<lparr>am_contextWindowTokens := Some 8192,
       am_displayName := Some ''L3 8B Lunaris'',
       am_pricing := Some (no_pricing\<lparr>price_input := Some 0.05, price_output := Some 0.05\<rparr>)\<rparr>,
     (model_of_type ''chat'' ''qwen/qwen2.5-vl-72b-instruct'')\<lparr>am_abilities := Some (no_abilities\<lparr>ab_vision := Some True\<rparr>),
       am_contextWindowTokens := Some 96000, am_displayName := Some ''Qwen2.5 VL 72B Instruct'',
       am_enabled := Some True, am_pricing := Some (no_pricing\<lparr>price_input := Some 0.8,
       price_output := Some 0.8\<rparr>)\<rparr>]"

definition novitaChatModels_4 :: "texts \<Rightarrow> ai_model list" where
  [card_tables]: "novitaChatModels_4 tx = [
     (model_of_type ''chat'' ''meta-llama/llama-3.2-1b-instruct'')\<lparr>am_contextWindowTokens := Some 131000,
       am_displayName := Some ''Llama 3.2 1B Instruct'',
       am_pricing := Some (no_pricing\<lparr>price_input := Some 0, price_output := Some 0\<rparr>)\<rparr>,
     (model_of_type ''chat'' ''meta-llama/llama-3.2-11b-vision-instruct'')\<lparr>am_contextWindowTokens := Some 32768,
       am_displayName := Some ''Llama 3.2 11B Vision Instruct'',
       am_pricing := Some (no_pricing\<lparr>price_input := Some 0.06, price_output := Some 0.06\<rparr>)\<rparr>,
     (model_of_type ''chat'' ''meta-llama/llama-3.2-3b-instruct'')\<lparr>am_contextWindowTokens := Some 32768,
       am_displayName := Some ''Llama 3.2 3B Instruct'',
       am_pricing := Some (no_pricing\<lparr>price_input := Some 0.03, price_output := Some 0.05\<rparr>)\<rparr>,
     (model_of_type ''chat'' ''meta-llama/llama-3.1-8b-instruct-bf16'')\<lparr>am_contextWindowTokens := Some 8192,
       am_displayName := Some ''Llama 3.1 8B Instruct BF16'',
       am_pricing := Some (no_pricing\<lparr>price_input := Some 0.06, price_output := Some 0.06\<rparr>)\<rparr>,
     (model_of_type ''chat'' ''sao10k/l31-70b-euryale-v2.2'')\<lparr>am_contextWindowTokens := Some 8192,
       am_displayName := Some ''L31 70B Euryale v2.2'',
       am_pricing := Some (no_pricing\<lparr>price_input := Some 1.48, price_output := Some 1.48\<rparr>)\<rparr>,
     (model_of_type ''chat'' ''qwen/qwq-32b'')\<lparr>am_abilities := Some (no_abilities\<lparr>ab_reasoning := Some True\<rparr>),
       am_contextWindowTokens := Some 32768, am_displayName := Some ''QwQ 32B'',
       am_enabled := Some True, am_pricing := Some (no_pricing\<lparr>price_input := Some 0.18,
       price_output := Some 0.2\<rparr>)\<rparr>,
     (model_of_type ''chat'' ''qwen/qwen2.5-7b-instruct'')\<lparr>am_contextWindowTokens := Some 32000,
       am_displayName := Some ''Qwen2.5 7B Instruct'',
       am_pricing := Some (no_pricing\<lparr>price_input := Some 0, price_output := Some 0\<rparr>)\<rparr>,
     (model_of_type ''chat'' ''thudm/glm-4-9b-0414'')\<lparr>am_contextWindowTokens := Some 32000,
       am_displayName := Some ''GLM 4 9B 0414'',
       am_pricing := Some (no_pricing\<lparr>price_input := Some 0, price_output := Some 0\<rparr>)\<rparr>,
     (model_of_type ''chat'' ''thudm/glm-z1-9b-0414'')\<lparr>am_contextWindowTokens := Some 32000,
       am_displayName := Some ''GLM Z1 9B 0414'',
       am_pricing := Some (no_pricing\<lparr>price_input := Some 0, price_output := Some 0\<rparr>)\<rparr>,
     (model_of_type ''chat'' ''thudm/glm-z1-32b-0414'')\<lparr>am_contextWindowTokens := Some 32000,
       am_displayName := Some ''GLM Z1 32B 0414'',
       am_pricing := Some (no_pricing\<lparr>price_input := Some 0.24, price_output := Some 0.24\<rparr>)\<rparr>,
     (model_of_type ''chat'' ''thudm/glm-4-32b-0414'')\<lparr>am_contextWindowTokens := Some 32000,
       am_displayName := Some ''GLM 4 32B 0414'',
       am_pricing := Some (no_pricing\<lparr>price_input := Some 0.24, price_output := Some 0.24\<rparr>)\<rparr>,
     (model_of_type ''chat'' ''thudm/glm-z1-rumination-32b-0414'')\<lparr>am_contextWindowTokens := Some 32000,
       am_displayName := Some ''GLM Z1 Rumination 32B 0414'',
       am_pricing := Some (no_pricing\<lparr>price_input := Some 0.24, price_output := Some 0.24\<rparr>)\<rparr>]"

definition novitaChatModels :: "texts \<Rightarrow> ai_model list" where
  [card_tables]: "novitaChatModels tx =
     novitaChatModels_1 tx @ novitaChatModels_2 tx @ novitaChatModels_3 tx @ novitaChatModels_4
     tx"

end
