(* ===== verification/Model_Data_C.thy ===== *)
theory Model_Data_C
  imports Llm_Providers
begin

text \<open>
  The model cards of \<open>src/web/src/config/ai-models\<close>, the files \<open>nvidia.ts\<close> to \<open>sensenova.ts\<close>. A card
  is written as the update of a card without optional members, with the members in the order of
  the source; \<open>tx n\<close> is the text that stands on line \<open>n\<close> of the file and has characters outside
  the 8-bit ones of \<open>char\<close>. A list of more than 150 lines is cut into numbered pieces.
\<close>

section \<open>nvidia\<close>

definition nvidiaChatModels :: "texts \<Rightarrow> ai_model list" where
  [card_tables]: "nvidiaChatModels tx = [
     (model_of_type ''chat'' ''meta/llama-3.3-70b-instruct'')\<lparr>am_abilities := Some (no_abilities\<lparr>ab_functionCall := Some True\<rparr>),
       am_contextWindowTokens := Some 128000, am_description := Some (tx 9),
       am_displayName := Some ''Llama 3.3 70B Instruct'', am_enabled := Some True\<rparr>,
     (model_of_type ''chat'' ''meta/llama-3.2-1b-instruct'')\<lparr>am_contextWindowTokens := Some 128000,
       am_description := Some (tx 17), am_displayName := Some ''Llama 3.2 1B Instruct''\<rparr>,
     (model_of_type ''chat'' ''meta/llama-3.2-3b-instruct'')\<lparr>am_contextWindowTokens := Some 128000,
       am_description := Some (tx 24), am_displayName := Some ''Llama 3.2 3B Instruct''\<rparr>,
     (model_of_type ''chat'' ''meta/llama-3.2-11b-vision-instruct'')\<lparr>am_abilities := Some (no_abilities\<lparr>ab_vision := Some True\<rparr>),
       am_contextWindowTokens := Some 128000, am_description := Some (tx 34),
       am_displayName := Some ''Llama 3.2 11B Vision Instruct'', am_enabled := Some True\<rparr>,
     (model_of_type ''chat'' ''meta/llama-3.2-90b-vision-instruct'')\<lparr>am_abilities := Some (no_abilities\<lparr>ab_vision := Some True\<rparr>),
       am_contextWindowTokens := Some 128000, am_description := Some (tx 45),
       am_displayName := Some ''Llama 3.2 90B Vision Instruct''\<rparr>,
     (model_of_type ''chat'' ''meta/llama-3.1-8b-instruct'')\<lparr>am_abilities := Some (no_abilities\<lparr>ab_functionCall := Some True\<rparr>),
       am_contextWindowTokens := Some 128000, am_description := Some (tx 55),
       am_displayName := Some ''Llama 3.1 8B Instruct''\<rparr>,
     (model_of_type ''chat'' ''meta/llama-3.1-70b-instruct'')\<lparr>am_abilities := Some (no_abilities\<lparr>ab_functionCall := Some True\<rparr>),
       am_contextWindowTokens := Some 128000, am_description := Some (tx 65),
       am_displayName := Some ''Llama 3.1 70B Instruct''\<rparr>,
     (model_of_type ''chat'' ''meta/llama-3.1-405b-instruct'')\<lparr>am_abilities := Some (no_abilities\<lparr>ab_functionCall := Some True\<rparr>),
       am_contextWindowTokens := Some 128000, am_description := Some (tx 76),
       am_displayName := Some ''Llama 3.1 405B Instruct''\<rparr>,
     (model_of_type ''chat'' ''nvidia/llama-3.1-nemotron-51b-instruct'')\<lparr>am_contextWindowTokens := Some 32768,
       am_description := Some (tx 83), am_displayName := Some ''Llama 3.1 Nemotron 51B Instruct''\<rparr>,
     (model_of_type ''chat'' ''nvidia/llama-3.1-nemotron-70b-instruct'')\<lparr>am_contextWindowTokens := Some 32768,
       am_description := Some (tx 91), am_displayName := Some ''Llama 3.1 Nemotron 70B Instruct''\<rparr>,
     (model_of_type ''chat'' ''google/gemma-2-2b-it'')\<lparr>am_contextWindowTokens := Some 8192,
       am_description := Some (tx 98), am_displayName := Some ''Gemma 2 2B Instruct''\<rparr>,
     (model_of_type ''chat'' ''google/gemma-2-9b-it'')\<lparr>am_contextWindowTokens := Some 8192,
       am_description := Some (tx 105), am_displayName := Some ''Gemma 2 9B Instruct''\<rparr>,
     (model_of_type ''chat'' ''google/gemma-2-27b-it'')\<lparr>am_contextWindowTokens := Some 8192,
       am_description := Some (tx 112), am_displayName := Some ''Gemma 2 27B Instruct''\<rparr>,
     (model_of_type ''chat'' ''deepseek-ai/deepseek-r1'')\<lparr>am_abilities := Some (no_abilities\<lparr>ab_reasoning := Some True\<rparr>),
       am_contextWindowTokens := Some 128000, am_description := Some (tx 122),
       am_displayName := Some ''DeepSeek R1'', am_enabled := Some True\<rparr>,
     (model_of_type ''chat'' ''qwen/qwen2.5-7b-instruct'')\<lparr>am_abilities := Some (no_abilities\<lparr>ab_functionCall := Some True\<rparr>),
       am_contextWindowTokens := Some 32768, am_description := Some (tx 133),
       am_displayName := Some ''Qwen2.5 7B Instruct'', am_enabled := Some True\<rparr>,
     (model_of_type ''chat'' ''qwen/qwen2.5-coder-7b-instruct'')\<lparr>am_contextWindowTokens := Some 32768,
       am_description := Some (tx 141), am_displayName := Some ''Qwen2.5 Coder 7B Instruct''\<rparr>,
     (model_of_type ''chat'' ''qwen/qwen2.5-coder-32b-instruct'')\<lparr>am_contextWindowTokens := Some 32768,
       am_description := Some (tx 148), am_displayName := Some ''Qwen2.5 Coder 32B Instruct''\<rparr>]"

section \<open>ollama\<close>

definition ollamaChatModels_1 :: "texts \<Rightarrow> ai_model list" where
  [card_tables]: "ollamaChatModels_1 tx = [
     (model_of_type ''chat'' ''deepseek-r1'')\<lparr>am_abilities := Some (no_abilities\<lparr>ab_reasoning := Some True\<rparr>),
       am_contextWindowTokens := Some 65536, am_description := Some (tx 10),
       am_displayName := Some ''DeepSeek R1'', am_enabled := Some True\<rparr>,
     (model_of_type ''chat'' ''deepseek-v3'')\<lparr>am_contextWindowTokens := Some 65536,
       am_description := Some (tx 19), am_displayName := Some ''DeepSeek V3 671B''\<rparr>,
     (model_of_type ''chat'' ''llama3.1'')\<lparr>am_abilities := Some (no_abilities\<lparr>ab_functionCall := Some True\<rparr>),
       am_contextWindowTokens := Some 128000, am_description := Some (tx 30),
       am_displayName := Some ''Llama 3.1 8B''\<rparr>,
     (model_of_type ''chat'' ''llama3.1:70b'')\<lparr>am_contextWindowTokens := Some 128000,
       am_description := Some (tx 38), am_displayName := Some ''Llama 3.1 70B''\<rparr>,
     (model_of_type ''chat'' ''llama3.1:405b'')\<lparr>am_contextWindowTokens := Some 128000,
       am_description := Some (tx 46), am_displayName := Some ''Llama 3.1 405B''\<rparr>,
     (model_of_type ''chat'' ''codellama'')\<lparr>am_contextWindowTokens := Some 16384,
       am_description := Some (tx 54), am_displayName := Some ''Code Llama 7B''\<rparr>,
     (model_of_type ''chat'' ''codellama:13b'')\<lparr>am_contextWindowTokens := Some 16384,
       am_description := Some (tx 62), am_displayName := Some ''Code Llama 13B''\<rparr>,
     (model_of_type ''chat'' ''codellama:34b'')\<lparr>am_contextWindowTokens := Some 16384,
       am_description := Some (tx 70), am_displayName := Some ''Code Llama 34B''\<rparr>,
     (model_of_type ''chat'' ''codellama:70b'')\<lparr>am_contextWindowTokens := Some 16384,
       am_description := Some (tx 78), am_displayName := Some ''Code Llama 70B''\<rparr>,
     (model_of_type ''chat'' ''qwq'')\<lparr>am_abilities := Some (no_abilities\<lparr>ab_functionCall := Some True,
       ab_reasoning := Some True\<rparr>), am_contextWindowTokens := Some 128000,
       am_description := Some (tx 90), am_displayName := Some ''QwQ 32B'',
       am_releasedAt := Some ''2024-11-28''\<rparr>,
     (model_of_type ''chat'' ''qwen3'')\<lparr>am_abilities := Some (no_abilities\<lparr>ab_functionCall := Some True\<rparr>),
       am_contextWindowTokens := Some 65536, am_description := Some (tx 101),
       am_displayName := Some ''Qwen3 7B'', am_enabled := Some True\<rparr>,
     (model_of_type ''chat'' ''qwen2.5:0.5b'')\<lparr>am_contextWindowTokens := Some 128000,
       am_description := Some (tx 110), am_displayName := Some ''Qwen2.5 0.5B''\<rparr>,
     (model_of_type ''chat'' ''qwen2.5:1.5b'')\<lparr>am_contextWindowTokens := Some 128000,
       am_description := Some (tx 117), am_displayName := Some ''Qwen2.5 1.5B''\<rparr>,
     (model_of_type ''chat'' ''qwen2.5'')\<lparr>am_abilities := Some (no_abilities\<lparr>ab_functionCall := Some True\<rparr>),
       am_contextWindowTokens := Some 128000, am_description := Some (tx 127),
       am_displayName := Some ''Qwen2.5 7B''\<rparr>,
     (model_of_type ''chat'' ''qwen2.5:72b'')\<lparr>am_contextWindowTokens := Some 128000,
       am_description := Some (tx 134), am_displayName := Some ''Qwen2.5 72B''\<rparr>,
     (model_of_type ''chat'' ''codeqwen'')\<lparr>am_abilities := Some (no_abilities\<lparr>ab_functionCall := Some True\<rparr>),
       am_contextWindowTokens := Some 65536, am_description := Some (tx 144),
       am_displayName := Some ''CodeQwen1.5 7B''\<rparr>]"

definition ollamaChatModels_2 :: "texts \<Rightarrow> ai_model list" where
  [card_tables]: "ollamaChatModels_2 tx = [
     (model_of_type ''chat'' ''qwen2:0.5b'')\<lparr>am_abilities := Some (no_abilities\<lparr>ab_functionCall := Some True\<rparr>),
       am_contextWindowTokens := Some 128000, am_description := Some (tx 154),
       am_displayName := Some ''Qwen2 0.5B''\<rparr>,
     (model_of_type ''chat'' ''qwen2:1.5b'')\<lparr>am_abilities := Some (no_abilities\<lparr>ab_functionCall := Some True\<rparr>),
       am_contextWindowTokens := Some 128000, am_description := Some (tx 164),
       am_displayName := Some ''Qwen2 1.5B''\<rparr>,
     (model_of_type ''chat'' ''qwen2'')\<lparr>am_abilities := Some (no_abilities\<lparr>ab_functionCall := Some True\<rparr>),
       am_contextWindowTokens := Some 128000, am_description := Some (tx 174),
       am_displayName := Some ''Qwen2 7B''\<rparr>,
     (model_of_type ''chat'' ''qwen2:72b'')\<lparr>am_abilities := Some (no_abilities\<lparr>ab_functionCall := Some True\<rparr>),
       am_contextWindowTokens := Some 128000, am_description := Some (tx 184),
       am_displayName := Some ''Qwen2 72B''\<rparr>,
     (model_of_type ''chat'' ''gemma2:2b'')\<lparr>am_contextWindowTokens := Some 8192,
       am_description := Some (tx 191), am_displayName := Some ''Gemma 2 2B''\<rparr>,
     (model_of_type ''chat'' ''gemma2'')\<lparr>am_contextWindowTokens := Some 8192,
       am_description := Some (tx 198), am_displayName := Some ''Gemma 2 9B''\<rparr>,
     (model_of_type ''chat'' ''gemma2:27b'')\<lparr>am_contextWindowTokens := Some 8192,
       am_description := Some (tx 205), am_displayName := Some ''Gemma 2 27B''\<rparr>,
     (model_of_type ''chat'' ''codegemma:2b'')\<lparr>am_contextWindowTokens := Some 8192,
       am_description := Some (tx 212), am_displayName := Some ''CodeGemma 2B''\<rparr>,
     (model_of_type ''chat'' ''codegemma'')\<lparr>am_contextWindowTokens := Some 8192,
       am_description := Some (tx 219), am_displayName := Some ''CodeGemma 7B''\<rparr>,
     (model_of_type ''chat'' ''phi3'')\<lparr>am_contextWindowTokens := Some 128000,
       am_description := Some (tx 226), am_displayName := Some ''Phi-3 3.8B''\<rparr>,
     (model_of_type ''chat'' ''phi3:14b'')\<lparr>am_contextWindowTokens := Some 128000,
       am_description := Some (tx 233), am_displayName := Some ''Phi-3 14B''\<rparr>,
     (model_of_type ''chat'' ''wizardlm2'')\<lparr>am_contextWindowTokens := Some 32768,
       am_description := Some (tx 241), am_displayName := Some ''WizardLM 2 7B''\<rparr>,
     (model_of_type ''chat'' ''wizardlm2:8x22b'')\<lparr>am_contextWindowTokens := Some 65536,
       am_description := Some (tx 249), am_displayName := Some ''WizardLM 2 8x22B''\<rparr>,
     (model_of_type ''chat'' ''mathstral'')\<lparr>am_contextWindowTokens := Some 32768,
       am_description := Some (tx 256), am_displayName := Some (tx 257)\<rparr>,
     (model_of_type ''chat'' ''mistral'')\<lparr>am_abilities := Some (no_abilities\<lparr>ab_functionCall := Some True\<rparr>),
       am_contextWindowTokens := Some 32768, am_description := Some (tx 266),
       am_displayName := Some ''Mistral 7B''\<rparr>,
     (model_of_type ''chat'' ''mixtral'')\<lparr>am_abilities := Some (no_abilities\<lparr>ab_functionCall := Some True\<rparr>),
       am_contextWindowTokens := Some 32768, am_description := Some (tx 277),
       am_displayName := Some ''Mixtral 8x7B''\<rparr>,
     (model_of_type ''chat'' ''mixtral:8x22b'')\<lparr>am_abilities := Some (no_abilities\<lparr>ab_functionCall := Some True\<rparr>),
       am_contextWindowTokens := Some 65536, am_description := Some (tx 288),
       am_displayName := Some ''Mixtral 8x22B''\<rparr>]"

definition ollamaChatModels_3 :: "texts \<Rightarrow> ai_model list" where
  [card_tables]: "ollamaChatModels_3 tx = [
     (model_of_type ''chat'' ''mistral-large'')\<lparr>am_contextWindowTokens := Some 128000,
       am_description := Some (tx 296), am_displayName := Some ''Mixtral Large 123B''\<rparr>,
     (model_of_type ''chat'' ''mistral-nemo'')\<lparr>am_abilities := Some (no_abilities\<lparr>ab_functionCall := Some True\<rparr>),
       am_contextWindowTokens := Some 128000, am_description := Some (tx 306),
       am_displayName := Some ''Mixtral Nemo 12B''\<rparr>,
     (model_of_type ''chat'' ''codestral'')\<lparr>am_contextWindowTokens := Some 32768,
       am_description := Some (tx 313), am_displayName := Some ''Codestral 22B''\<rparr>,
     (model_of_type ''chat'' ''aya'')\<lparr>am_contextWindowTokens := Some 8192,
       am_description := Some (tx 320), am_displayName := Some ''Aya 23 8B''\<rparr>,
     (model_of_type ''chat'' ''aya:35b'')\<lparr>am_contextWindowTokens := Some 8192,
       am_description := Some (tx 327), am_displayName := Some ''Aya 23 35B''\<rparr>,
     (model_of_type ''chat'' ''command-r'')\<lparr>am_abilities := Some (no_abilities\<lparr>ab_functionCall := Some True\<rparr>),
       am_contextWindowTokens := Some 131072, am_description := Some (tx 337),
       am_displayName := Some ''Command R 35B''\<rparr>,
     (model_of_type ''chat'' ''command-r-plus'')\<lparr>am_abilities := Some (no_abilities\<lparr>ab_functionCall := Some True\<rparr>),
       am_contextWindowTokens := Some 131072, am_description := Some (tx 347),
       am_displayName := Some ''Command R+ 104B''\<rparr>,
     (model_of_type ''chat'' ''deepseek-v2'')\<lparr>am_contextWindowTokens := Some 32768,
       am_description := Some (tx 354), am_displayName := Some ''DeepSeek V2 16B''\<rparr>,
     (model_of_type ''chat'' ''deepseek-v2:236b'')\<lparr>am_contextWindowTokens := Some 128000,
       am_description := Some (tx 361), am_displayName := Some ''DeepSeek V2 236B''\<rparr>,
     (model_of_type ''chat'' ''deepseek-coder-v2'')\<lparr>am_contextWindowTokens := Some 128000,
       am_description := Some (tx 369), am_displayName := Some ''DeepSeek Coder V2 16B''\<rparr>,
     (model_of_type ''chat'' ''deepseek-coder-v2:236b'')\<lparr>am_contextWindowTokens := Some 128000,
       am_description := Some (tx 377), am_displayName := Some ''DeepSeek Coder V2 236B''\<rparr>,
     (model_of_type ''chat'' ''llava'')\<lparr>am_abilities := Some (no_abilities\<lparr>ab_vision := Some True\<rparr>),
       am_contextWindowTokens := Some 4096, am_description := Some (tx 387),
       am_displayName := Some ''LLaVA 7B''\<rparr>,
     (model_of_type ''chat'' ''llava:13b'')\<lparr>am_abilities := Some (no_abilities\<lparr>ab_vision := Some True\<rparr>),
       am_contextWindowTokens := Some 4096, am_description := Some (tx 397),
       am_displayName := Some ''LLaVA 13B''\<rparr>,
     (model_of_type ''chat'' ''llava:34b'')\<lparr>am_abilities := Some (no_abilities\<lparr>ab_vision := Some True\<rparr>),
       am_contextWindowTokens := Some 4096, am_description := Some (tx 407),
       am_displayName := Some ''LLaVA 34B''\<rparr>,
     (model_of_type ''chat'' ''minicpm-v'')\<lparr>am_abilities := Some (no_abilities\<lparr>ab_vision := Some True\<rparr>),
       am_contextWindowTokens := Some 128000, am_description := Some (tx 418),
       am_displayName := Some ''MiniCPM-V 8B''\<rparr>]"

definition ollamaChatModels :: "texts \<Rightarrow> ai_model list" where
  [card_tables]: "ollamaChatModels tx =
     ollamaChatModels_1 tx @ ollamaChatModels_2 tx @ ollamaChatModels_3 tx"

section \<open>openai\<close>

definition openaiChatModels_1 :: "texts \<Rightarrow> ai_model list" where
  [card_tables]: "openaiChatModels_1 tx = [
     (model_of_type ''chat'' ''o3'')\<lparr>am_abilities := Some (no_abilities\<lparr>ab_functionCall := Some True,
       ab_reasoning := Some True, ab_vision := Some True\<rparr>), am_contextWindowTokens := Some 200000,
       am_description := Some (tx 19), am_displayName := Some ''o3'', am_enabled := Some True,
       am_maxOutput := Some 100000, am_pricing := Some (no_pricing\<lparr>price_cachedInput := Some 2.5,
       price_input := Some 10, price_output := Some 40\<rparr>), am_releasedAt := Some ''2025-04-17''\<rparr>,
     (model_of_type ''chat'' ''o4-mini'')\<lparr>am_abilities := Some (no_abilities\<lparr>ab_functionCall := Some True,
       ab_reasoning := Some True, ab_vision := Some True\<rparr>), am_contextWindowTokens := Some 200000,
       am_description := Some (tx 40), am_displayName := Some ''o4-mini'', am_enabled := Some True,
       am_maxOutput := Some 100000, am_pricing := Some (no_pricing\<lparr>price_cachedInput := Some 0.275,
       price_input := Some 1.1, price_output := Some 4.4\<rparr>), am_releasedAt := Some ''2025-04-17''\<rparr>,
     (model_of_type ''chat'' ''gpt-4.1'')\<lparr>am_abilities := Some (no_abilities\<lparr>ab_functionCall := Some True,
       ab_vision := Some True\<rparr>), am_contextWindowTokens := Some 1047576,
       am_description := Some (tx 59), am_displayName := Some ''GPT-4.1'', am_enabled := Some True,
       am_maxOutput := Some 32768, am_pricing := Some (no_pricing\<lparr>price_cachedInput := Some 0.5,
       price_input := Some 2, price_output := Some 8\<rparr>), am_releasedAt := Some ''2025-04-14''\<rparr>,
     (model_of_type ''chat'' ''gpt-4.1-mini'')\<lparr>am_abilities := Some (no_abilities\<lparr>ab_functionCall := Some True,
       ab_vision := Some True\<rparr>), am_contextWindowTokens := Some 1047576,
       am_description := Some (tx 79), am_displayName := Some ''GPT-4.1 mini'',
       am_enabled := Some True, am_maxOutput := Some 32768,
       am_pricing := Some (no_pricing\<lparr>price_cachedInput := Some 0.1, price_input := Some 0.4,
       price_output := Some 1.6\<rparr>), am_releasedAt := Some ''2025-04-14''\<rparr>,
     (model_of_type ''chat'' ''gpt-4.1-nano'')\<lparr>am_abilities := Some (no_abilities\<lparr>ab_functionCall := Some True,
       ab_vision := Some True\<rparr>), am_contextWindowTokens := Some 1047576,
       am_description := Some (tx 98), am_displayName := Some ''GPT-4.1 nano'',
       am_maxOutput := Some 32768, am_pricing := Some (no_pricing\<lparr>price_cachedInput := Some 0.025,
       price_input := Some 0.1, price_output := Some 0.4\<rparr>), am_releasedAt := Some ''2025-04-14''\<rparr>,
     (model_of_type ''chat'' ''o3-mini'')\<lparr>am_abilities := Some (no_abilities\<lparr>ab_functionCall := Some True,
       ab_reasoning := Some True\<rparr>), am_contextWindowTokens := Some 200000,
       am_description := Some (tx 117), am_displayName := Some ''o3-mini'',
       am_maxOutput := Some 100000, am_pricing := Some (no_pricing\<lparr>price_cachedInput := Some 0.55,
       price_input := Some 1.1, price_output := Some 4.4\<rparr>), am_releasedAt := Some ''2025-01-31''\<rparr>,
     (model_of_type ''chat'' ''o1-mini'')\<lparr>am_abilities := Some (no_abilities\<lparr>ab_reasoning := Some True\<rparr>),
       am_contextWindowTokens := Some 128000, am_description := Some (tx 135),
       am_displayName := Some ''o1-mini'', am_maxOutput := Some 65536,
       am_pricing := Some (no_pricing\<lparr>price_cachedInput := Some 0.55, price_input := Some 1.1,
       price_output := Some 4.4\<rparr>), am_releasedAt := Some ''2024-09-12''\<rparr>]"

definition openaiChatModels_2 :: "texts \<Rightarrow> ai_model list" where
  [card_tables]: "openaiChatModels_2 tx = [
     (model_of_type ''chat'' ''o1'')\<lparr>am_abilities := Some (no_abilities\<lparr>ab_reasoning := Some True,
       ab_vision := Some True\<rparr>), am_contextWindowTokens := Some 200000,
       am_description := Some (tx 154), am_displayName := Some ''o1'', am_maxOutput := Some 100000,
       am_pricing := Some (no_pricing\<lparr>price_cachedInput := Some 7.5, price_input := Some 15,
       price_output := Some 60\<rparr>), am_releasedAt := Some ''2024-12-17''\<rparr>,
     (model_of_type ''chat'' ''o1-preview'')\<lparr>am_abilities := Some (no_abilities\<lparr>ab_reasoning := Some True\<rparr>),
       am_contextWindowTokens := Some 128000, am_description := Some (tx 172),
       am_displayName := Some ''o1-preview'', am_maxOutput := Some 32768,
       am_pricing := Some (no_pricing\<lparr>price_input := Some 15, price_output := Some 60\<rparr>),
       am_releasedAt := Some ''2024-09-12''\<rparr>,
     (model_of_type ''chat'' ''gpt-4.5-preview'')\<lparr>am_abilities := Some (no_abilities\<lparr>ab_functionCall := Some True,
       ab_vision := Some True\<rparr>), am_contextWindowTokens := Some 128000,
       am_description := Some (tx 190), am_displayName := Some ''GPT-4.5 Preview'',
       am_maxOutput := Some 16384, am_pricing := Some (no_pricing\<lparr>price_cachedInput := Some 37.5,
       price_input := Some 75, price_output := Some 150\<rparr>), am_releasedAt := Some ''2025-02-27''\<rparr>,
     (model_of_type ''chat'' ''gpt-4o-mini'')\<lparr>am_abilities := Some (no_abilities\<lparr>ab_functionCall := Some True,
       ab_vision := Some True\<rparr>), am_contextWindowTokens := Some 128000,
       am_description := Some (tx 209), am_displayName := Some ''GPT-4o mini'',
       am_maxOutput := Some 16384, am_pricing := Some (no_pricing\<lparr>price_cachedInput := Some 0.075,
       price_input := Some 0.15, price_output := Some 0.6\<rparr>), am_releasedAt := Some ''2024-07-18''\<rparr>,
     (model_of_type ''chat'' ''gpt-4o-2024-11-20'')\<lparr>am_abilities := Some (no_abilities\<lparr>ab_functionCall := Some True,
       ab_vision := Some True\<rparr>), am_contextWindowTokens := Some 128000,
       am_description := Some (tx 228), am_displayName := Some ''GPT-4o 1120'',
       am_pricing := Some (no_pricing\<lparr>price_cachedInput := Some 1.25, price_input := Some 2.5,
       price_output := Some 10\<rparr>), am_releasedAt := Some ''2024-11-20''\<rparr>,
     (model_of_type ''chat'' ''gpt-4o'')\<lparr>am_abilities := Some (no_abilities\<lparr>ab_functionCall := Some True,
       ab_vision := Some True\<rparr>), am_contextWindowTokens := Some 128000,
       am_description := Some (tx 246), am_displayName := Some ''GPT-4o'',
       am_pricing := Some (no_pricing\<lparr>price_cachedInput := Some 1.25, price_input := Some 2.5,
       price_output := Some 10\<rparr>), am_releasedAt := Some ''2024-05-13''\<rparr>,
     (model_of_type ''chat'' ''gpt-4o-2024-05-13'')\<lparr>am_abilities := Some (no_abilities\<lparr>ab_functionCall := Some True,
       ab_vision := Some True\<rparr>), am_contextWindowTokens := Some 128000,
       am_description := Some (tx 264), am_displayName := Some ''GPT-4o 0513'',
       am_pricing := Some (no_pricing\<lparr>price_input := Some 5, price_output := Some 15\<rparr>),
       am_releasedAt := Some ''2024-05-13''\<rparr>,
     (model_of_type ''chat'' ''gpt-4o-audio-preview'')\<lparr>am_contextWindowTokens := Some 128000,
       am_description := Some (tx 276), am_displayName := Some ''GPT-4o Audio'',
       am_maxOutput := Some 16384, am_pricing := Some (no_pricing\<lparr>price_input := Some 2.5,
       price_output := Some 10\<rparr>), am_releasedAt := Some ''2024-10-01''\<rparr>]"

definition openaiChatModels_3 :: "texts \<Rightarrow> ai_model list" where
  [card_tables]: "openaiChatModels_3 tx = [
     (model_of_type ''chat'' ''chatgpt-4o-latest'')\<lparr>am_abilities := Some (no_abilities\<lparr>ab_vision := Some True\<rparr>),
       am_contextWindowTokens := Some 128000, am_description := Some (tx 293),
       am_displayName := Some ''ChatGPT-4o'', am_enabled := Some True,
       am_pricing := Some (no_pricing\<lparr>price_input := Some 5, price_output := Some 15\<rparr>),
       am_releasedAt := Some ''2024-08-14''\<rparr>,
     (model_of_type ''chat'' ''gpt-4-turbo'')\<lparr>am_abilities := Some (no_abilities\<lparr>ab_functionCall := Some True,
       ab_vision := Some True\<rparr>), am_contextWindowTokens := Some 128000,
       am_description := Some (tx 311), am_displayName := Some ''GPT-4 Turbo'',
       am_pricing := Some (no_pricing\<lparr>price_input := Some 10, price_output := Some 30\<rparr>)\<rparr>,
     (model_of_type ''chat'' ''gpt-4-turbo-2024-04-09'')\<lparr>am_abilities := Some (no_abilities\<lparr>ab_functionCall := Some True,
       ab_vision := Some True\<rparr>), am_contextWindowTokens := Some 128000,
       am_description := Some (tx 327), am_displayName := Some ''GPT-4 Turbo Vision 0409'',
       am_pricing := Some (no_pricing\<lparr>price_input := Some 10, price_output := Some 30\<rparr>),
       am_releasedAt := Some ''2024-04-09''\<rparr>,
     (model_of_type ''chat'' ''gpt-4-turbo-preview'')\<lparr>am_abilities := Some (no_abilities\<lparr>ab_functionCall := Some True\<rparr>),
       am_contextWindowTokens := Some 128000, am_description := Some (tx 343),
       am_displayName := Some ''GPT-4 Turbo Preview'',
       am_pricing := Some (no_pricing\<lparr>price_input := Some 10, price_output := Some 30\<rparr>)\<rparr>,
     (model_of_type ''chat'' ''gpt-4-0125-preview'')\<lparr>am_abilities := Some (no_abilities\<lparr>ab_functionCall := Some True\<rparr>),
       am_contextWindowTokens := Some 128000, am_description := Some (tx 358),
       am_displayName := Some ''GPT-4 Turbo Preview 0125'',
       am_pricing := Some (no_pricing\<lparr>price_input := Some 10, price_output := Some 30\<rparr>),
       am_releasedAt := Some ''2024-01-25''\<rparr>,
     (model_of_type ''chat'' ''gpt-4-1106-preview'')\<lparr>am_abilities := Some (no_abilities\<lparr>ab_functionCall := Some True\<rparr>),
       am_contextWindowTokens := Some 128000, am_description := Some (tx 374),
       am_displayName := Some ''GPT-4 Turbo Preview 1106'',
       am_pricing := Some (no_pricing\<lparr>price_input := Some 10, price_output := Some 30\<rparr>),
       am_releasedAt := Some ''2023-11-06''\<rparr>,
     (model_of_type ''chat'' ''gpt-4'')\<lparr>am_abilities := Some (no_abilities\<lparr>ab_functionCall := Some True\<rparr>),
       am_contextWindowTokens := Some 8192, am_description := Some (tx 390),
       am_displayName := Some ''GPT-4'', am_pricing := Some (no_pricing\<lparr>price_input := Some 30,
       price_output := Some 60\<rparr>)\<rparr>,
     (model_of_type ''chat'' ''gpt-4-0613'')\<lparr>am_abilities := Some (no_abilities\<lparr>ab_functionCall := Some True\<rparr>),
       am_contextWindowTokens := Some 8192, am_description := Some (tx 405),
       am_displayName := Some ''GPT-4 0613'', am_pricing := Some (no_pricing\<lparr>price_input := Some 30,
       price_output := Some 60\<rparr>), am_releasedAt := Some ''2023-06-13''\<rparr>,
     (model_of_type ''chat'' ''gpt-4-32k'')\<lparr>am_abilities := Some (no_abilities\<lparr>ab_functionCall := Some True\<rparr>),
       am_contextWindowTokens := Some 32768, am_description := Some (tx 422),
       am_displayName := Some ''GPT-4 32K'', am_legacy := Some True,
       am_pricing := Some (no_pricing\<lparr>price_input := Some 60, price_output := Some 120\<rparr>)\<rparr>]"

definition openaiChatModels_4 :: "texts \<Rightarrow> ai_model list" where
  [card_tables]: "openaiChatModels_4 tx = [
     (model_of_type ''chat'' ''gpt-3.5-turbo'')\<lparr>am_abilities := Some (no_abilities\<lparr>ab_functionCall := Some True\<rparr>),
       am_contextWindowTokens := Some 16384, am_description := Some (tx 438),
       am_displayName := Some ''GPT-3.5 Turbo'',
       am_pricing := Some (no_pricing\<lparr>price_input := Some 0.5, price_output := Some 1.5\<rparr>)\<rparr>,
     (model_of_type ''chat'' ''gpt-3.5-turbo-0125'')\<lparr>am_abilities := Some (no_abilities\<lparr>ab_functionCall := Some True\<rparr>),
       am_contextWindowTokens := Some 16384, am_description := Some (tx 453),
       am_displayName := Some ''GPT-3.5 Turbo 0125'',
       am_pricing := Some (no_pricing\<lparr>price_input := Some 0.5, price_output := Some 1.5\<rparr>),
       am_releasedAt := Some ''2024-01-25''\<rparr>,
     (model_of_type ''chat'' ''gpt-3.5-turbo-1106'')\<lparr>am_abilities := Some (no_abilities\<lparr>ab_functionCall := Some True\<rparr>),
       am_contextWindowTokens := Some 16384, am_description := Some (tx 469),
       am_displayName := Some ''GPT-3.5 Turbo 1106'',
       am_pricing := Some (no_pricing\<lparr>price_input := Some 1, price_output := Some 2\<rparr>),
       am_releasedAt := Some ''2023-11-06''\<rparr>,
     (model_of_type ''chat'' ''gpt-3.5-turbo-instruct'')\<lparr>am_contextWindowTokens := Some 4096,
       am_description := Some (tx 482), am_displayName := Some ''GPT-3.5 Turbo Instruct'',
       am_pricing := Some (no_pricing\<lparr>price_input := Some 1.5, price_output := Some 2\<rparr>)\<rparr>]"

definition openaiChatModels :: "texts \<Rightarrow> ai_model list" where
  [card_tables]: "openaiChatModels tx =
     openaiChatModels_1 tx @ openaiChatModels_2 tx @ openaiChatModels_3 tx @ openaiChatModels_4
     tx"

definition openaiEmbeddingModels :: "texts \<Rightarrow> ai_model list" where
  [card_tables]: "openaiEmbeddingModels tx = [
     (model_of_type ''embedding'' ''text-embedding-3-large'')\<lparr>am_contextWindowTokens := Some 8192,
       am_description := Some (tx 496), am_displayName := Some ''Text Embedding 3 Large'',
       am_maxDimension := Some 3072, am_pricing := Some (no_pricing\<lparr>price_currency := Some USD,
       price_input := Some 0.13\<rparr>), am_releasedAt := Some ''2024-01-25''\<rparr>,
     (model_of_type ''embedding'' ''text-embedding-3-small'')\<lparr>am_contextWindowTokens := Some 8192,
       am_description := Some (tx 509), am_displayName := Some ''Text Embedding 3 Small'',
       am_maxDimension := Some 1536, am_pricing := Some (no_pricing\<lparr>price_currency := Some USD,
       price_input := Some 0.02\<rparr>), am_releasedAt := Some ''2024-01-25''\<rparr>]"

definition openaiTTSModels :: "texts \<Rightarrow> ai_model list" where
  [card_tables]: "openaiTTSModels tx = [
     (model_of_type ''tts'' ''tts-1'')\<lparr>am_description := Some (tx 525),
       am_displayName := Some ''TTS-1'', am_pricing := Some (no_pricing\<lparr>price_input := Some 15\<rparr>)\<rparr>,
     (model_of_type ''tts'' ''tts-1-hd'')\<lparr>am_description := Some (tx 534),
       am_displayName := Some ''TTS-1 HD'', am_pricing := Some (no_pricing\<lparr>price_input := Some 30\<rparr>)\<rparr>,
     (model_of_type ''tts'' ''gpt-4o-mini-tts'')\<lparr>am_description := Some (tx 544),
       am_displayName := Some ''GPT-4o Mini TTS'',
       am_pricing := Some (no_pricing\<lparr>price_input := Some 10\<rparr>)\<rparr>]"

definition openaiSTTModels :: "texts \<Rightarrow> ai_model list" where
  [card_tables]: "openaiSTTModels tx = [
     (model_of_type ''stt'' ''whisper-1'')\<lparr>am_description := Some (tx 557),
       am_displayName := Some ''Whisper'',
       am_pricing := Some (no_pricing\<lparr>price_input := Some 0.006\<rparr>)\<rparr>]"

definition openaiImageModels :: "texts \<Rightarrow> ai_model list" where
  [card_tables]: "openaiImageModels tx = [
     (model_of_type ''image'' ''dall-e-3'')\<lparr>am_description := Some (tx 571),
       am_displayName := Some (tx 572),
       am_pricing := Some (no_pricing\<lparr>price_resolutions := [(''hd'', 0.08), (''standard'', 0.04)]\<rparr>),
       am_resolutions := Some [''1024x1024'', ''1024x1792'', ''1792x1024'']\<rparr>,
     (model_of_type ''image'' ''dall-e-2'')\<lparr>am_description := Some (tx 582),
       am_displayName := Some (tx 583), am_pricing := Some (no_pricing\<lparr>price_input := Some 0.02\<rparr>),
       am_resolutions := Some [''256x256'', ''512x512'', ''1024x1024'']\<rparr>]"

definition openaiRealtimeModels :: "texts \<Rightarrow> ai_model list" where
  [card_tables]: "openaiRealtimeModels tx = [
     (model_of_type ''realtime'' ''gpt-4o-realtime-preview'')\<lparr>am_contextWindowTokens := Some 128000,
       am_description := Some (tx 597), am_displayName := Some ''GPT-4o Realtime'',
       am_maxOutput := Some 4096, am_pricing := Some (no_pricing\<lparr>price_audioInput := Some 100,
       price_audioOutput := Some 200, price_cachedAudioInput := Some 20,
       price_cachedInput := Some 2.5, price_input := Some 5, price_output := Some 20\<rparr>),
       am_releasedAt := Some ''2024-10-01''\<rparr>,
     (model_of_type ''realtime'' ''gpt-4o-realtime-preview-2024-10-01'')\<lparr>am_contextWindowTokens := Some 128000,
       am_description := Some (tx 614), am_displayName := Some ''GPT-4o Realtime 10-01'',
       am_maxOutput := Some 4096, am_pricing := Some (no_pricing\<lparr>price_audioInput := Some 100,
       price_audioOutput := Some 200, price_cachedAudioInput := Some 20,
       price_cachedInput := Some 2.5, price_input := Some 5, price_output := Some 20\<rparr>),
       am_releasedAt := Some ''2024-10-01''\<rparr>,
     (model_of_type ''realtime'' ''gpt-4o-realtime-preview-2024-12-17'')\<lparr>am_contextWindowTokens := Some 128000,
       am_description := Some (tx 631), am_displayName := Some ''GPT-4o Realtime 12-17'',
       am_maxOutput := Some 4096, am_pricing := Some (no_pricing\<lparr>price_audioInput := Some 40,
       price_audioOutput := Some 80, price_cachedAudioInput := Some 2.5,
       price_cachedInput := Some 2.5, price_input := Some 5, price_output := Some 20\<rparr>),
       am_releasedAt := Some ''2024-12-17''\<rparr>,
     (model_of_type ''realtime'' ''gpt-4o-mini-realtime-preview'')\<lparr>am_contextWindowTokens := Some 128000,
       am_description := Some (tx 648), am_displayName := Some ''GPT-4o Mini Realtime'',
       am_maxOutput := Some 4096, am_pricing := Some (no_pricing\<lparr>price_audioInput := Some 10,
       price_audioOutput := Some 20, price_cachedAudioInput := Some 0.3,
       price_cachedInput := Some 0.3, price_input := Some 0.6, price_output := Some 2.4\<rparr>),
       am_releasedAt := Some ''2024-12-17''\<rparr>]"

definition openai_allModels :: "texts \<Rightarrow> ai_model list" where
  [card_tables]: "openai_allModels tx =
     openaiChatModels tx @ openaiEmbeddingModels tx @ openaiTTSModels tx @ openaiSTTModels tx @
     openaiImageModels tx @ openaiRealtimeModels tx"

section \<open>openrouter\<close>

definition openrouterChatModels_1 :: "texts \<Rightarrow> ai_model list" where
  [card_tables]: "openrouterChatModels_1 tx = [
     (model_of_type ''chat'' ''openrouter/auto'')\<lparr>am_contextWindowTokens := Some 128000,
       am_description := Some (tx 7), am_displayName := Some ''Auto (best for prompt)'',
       am_enabled := Some True\<rparr>,
     (model_of_type ''chat'' ''qwen/qwen3-30b-a3b:free'')\<lparr>am_abilities := Some (no_abilities\<lparr>ab_reasoning := Some True\<rparr>),
       am_contextWindowTokens := Some 40960, am_description := Some (tx 19),
       am_displayName := Some ''Qwen3 30B A3B (Free)''\<rparr>,
     (model_of_type ''chat'' ''qwen/qwen3-30b-a3b'')\<lparr>am_abilities := Some (no_abilities\<lparr>ab_reasoning := Some True\<rparr>),
       am_contextWindowTokens := Some 40960, am_description := Some (tx 30),
       am_displayName := Some ''Qwen3 30B A3B'', am_maxOutput := Some 40960,
       am_pricing := Some (no_pricing\<lparr>price_input := Some 0.1, price_output := Some 0.3\<rparr>)\<rparr>,
     (model_of_type ''chat'' ''qwen/qwen3-8b:free'')\<lparr>am_abilities := Some (no_abilities\<lparr>ab_reasoning := Some True\<rparr>),
       am_contextWindowTokens := Some 40960, am_description := Some (tx 46),
       am_displayName := Some ''Qwen3 8B (Free)'', am_maxOutput := Some 40960\<rparr>,
     (model_of_type ''chat'' ''qwen/qwen3-14b:free'')\<lparr>am_abilities := Some (no_abilities\<lparr>ab_reasoning := Some True\<rparr>),
       am_contextWindowTokens := Some 40960, am_description := Some (tx 58),
       am_displayName := Some ''Qwen3 14B (Free)''\<rparr>,
     (model_of_type ''chat'' ''qwen/qwen3-14b'')\<lparr>am_abilities := Some (no_abilities\<lparr>ab_reasoning := Some True\<rparr>),
       am_contextWindowTokens := Some 40960, am_description := Some (tx 69),
       am_displayName := Some ''Qwen3 14B'', am_maxOutput := Some 40960,
       am_pricing := Some (no_pricing\<lparr>price_input := Some 0.08, price_output := Some 0.24\<rparr>)\<rparr>,
     (model_of_type ''chat'' ''qwen/qwen3-32b:free'')\<lparr>am_abilities := Some (no_abilities\<lparr>ab_reasoning := Some True\<rparr>),
       am_contextWindowTokens := Some 40960, am_description := Some (tx 85),
       am_displayName := Some ''Qwen3 32B (Free)''\<rparr>,
     (model_of_type ''chat'' ''qwen/qwen3-32b'')\<lparr>am_abilities := Some (no_abilities\<lparr>ab_reasoning := Some True\<rparr>),
       am_contextWindowTokens := Some 40960, am_description := Some (tx 96),
       am_displayName := Some ''Qwen3 32B'', am_pricing := Some (no_pricing\<lparr>price_input := Some 0.1,
       price_output := Some 0.3\<rparr>)\<rparr>,
     (model_of_type ''chat'' ''qwen/qwen3-235b-a22b:free'')\<lparr>am_abilities := Some (no_abilities\<lparr>ab_reasoning := Some True\<rparr>),
       am_contextWindowTokens := Some 40960, am_description := Some (tx 111),
       am_displayName := Some ''Qwen3 235B A22B (Free)''\<rparr>,
     (model_of_type ''chat'' ''qwen/qwen3-235b-a22b'')\<lparr>am_abilities := Some (no_abilities\<lparr>ab_reasoning := Some True\<rparr>),
       am_contextWindowTokens := Some 40960, am_description := Some (tx 122),
       am_displayName := Some ''Qwen3 235B A22B'', am_maxOutput := Some 40960,
       am_pricing := Some (no_pricing\<lparr>price_input := Some 0.2, price_output := Some 0.6\<rparr>)\<rparr>,
     (model_of_type ''chat'' ''tngtech/deepseek-r1t-chimera:free'')\<lparr>am_abilities := Some (no_abilities\<lparr>ab_reasoning := Some True\<rparr>),
       am_contextWindowTokens := Some 163840, am_description := Some (tx 138),
       am_displayName := Some ''DeepSeek R1T Chimera (Free)''\<rparr>]"

definition openrouterChatModels_2 :: "texts \<Rightarrow> ai_model list" where
  [card_tables]: "openrouterChatModels_2 tx = [
     (model_of_type ''chat'' ''thudm/glm-z1-rumination-32b'')\<lparr>am_abilities := Some (no_abilities\<lparr>ab_reasoning := Some True\<rparr>),
       am_contextWindowTokens := Some 32000, am_description := Some (tx 149),
       am_displayName := Some ''GLM Z1 Rumination 32B'',
       am_pricing := Some (no_pricing\<lparr>price_input := Some 0.24, price_output := Some 0.24\<rparr>)\<rparr>,
     (model_of_type ''chat'' ''thudm/glm-z1-9b:free'')\<lparr>am_abilities := Some (no_abilities\<lparr>ab_reasoning := Some True\<rparr>),
       am_contextWindowTokens := Some 32000, am_description := Some (tx 164),
       am_displayName := Some ''GLM Z1 9B (Free)''\<rparr>,
     (model_of_type ''chat'' ''thudm/glm-4-9b:free'')\<lparr>am_contextWindowTokens := Some 32000,
       am_description := Some (tx 172), am_displayName := Some ''GLM 4 9B (Free)''\<rparr>,
     (model_of_type ''chat'' ''google/gemini-2.5-pro-preview-03-25'')\<lparr>am_abilities := Some (no_abilities\<lparr>ab_functionCall := Some True,
       ab_reasoning := Some True, ab_vision := Some True\<rparr>), am_contextWindowTokens := Some 1048576,
       am_description := Some (tx 185), am_displayName := Some ''Gemini 2.5 Pro Preview'',
       am_maxOutput := Some 65535, am_pricing := Some (no_pricing\<lparr>price_cachedInput := Some 0.625,
       price_input := Some 1.25, price_output := Some 10\<rparr>)\<rparr>,
     (model_of_type ''chat'' ''thudm/glm-z1-32b:free'')\<lparr>am_abilities := Some (no_abilities\<lparr>ab_reasoning := Some True\<rparr>),
       am_contextWindowTokens := Some 32768, am_description := Some (tx 202),
       am_displayName := Some ''GLM Z1 32B (Free)''\<rparr>,
     (model_of_type ''chat'' ''thudm/glm-z1-32b'')\<lparr>am_abilities := Some (no_abilities\<lparr>ab_reasoning := Some True\<rparr>),
       am_contextWindowTokens := Some 32000, am_description := Some (tx 213),
       am_displayName := Some ''GLM Z1 32B'',
       am_pricing := Some (no_pricing\<lparr>price_input := Some 0.24, price_output := Some 0.24\<rparr>)\<rparr>,
     (model_of_type ''chat'' ''thudm/glm-4-32b:free'')\<lparr>am_abilities := Some (no_abilities\<lparr>ab_reasoning := Some True\<rparr>),
       am_contextWindowTokens := Some 32768, am_description := Some (tx 228),
       am_displayName := Some ''GLM 4 32B (Free)''\<rparr>,
     (model_of_type ''chat'' ''thudm/glm-4-32b'')\<lparr>am_abilities := Some (no_abilities\<lparr>ab_reasoning := Some True\<rparr>),
       am_contextWindowTokens := Some 32000, am_description := Some (tx 239),
       am_displayName := Some ''GLM 4 32B'',
       am_pricing := Some (no_pricing\<lparr>price_input := Some 0.24, price_output := Some 0.24\<rparr>)\<rparr>,
     (model_of_type ''chat'' ''google/gemini-2.5-flash-preview'')\<lparr>am_abilities := Some (no_abilities\<lparr>ab_functionCall := Some True,
       ab_reasoning := Some True, ab_vision := Some True\<rparr>), am_contextWindowTokens := Some 1048576,
       am_description := Some (tx 256), am_displayName := Some ''Gemini 2.5 Flash Preview'',
       am_maxOutput := Some 65535, am_pricing := Some (no_pricing\<lparr>price_input := Some 0.15,
       price_output := Some 0.6\<rparr>)\<rparr>,
     (model_of_type ''chat'' ''google/gemini-2.5-flash-preview:thinking'')\<lparr>am_abilities := Some (no_abilities\<lparr>ab_functionCall := Some True,
       ab_reasoning := Some True, ab_vision := Some True\<rparr>), am_contextWindowTokens := Some 1048576,
       am_description := Some (tx 274),
       am_displayName := Some ''Gemini 2.5 Flash Preview (thinking)'', am_maxOutput := Some 65535,
       am_pricing := Some (no_pricing\<lparr>price_input := Some 0.15, price_output := Some 3.5\<rparr>)\<rparr>]"

definition openrouterChatModels_3 :: "texts \<Rightarrow> ai_model list" where
  [card_tables]: "openrouterChatModels_3 tx = [
     (model_of_type ''chat'' ''openai/o3'')\<lparr>am_abilities := Some (no_abilities\<lparr>ab_functionCall := Some True,
       ab_reasoning := Some True, ab_vision := Some True\<rparr>), am_contextWindowTokens := Some 200000,
       am_description := Some (tx 292), am_displayName := Some ''o3'', am_maxOutput := Some 100000,
       am_pricing := Some (no_pricing\<lparr>price_cachedInput := Some 2.5, price_input := Some 10,
       price_output := Some 40\<rparr>), am_releasedAt := Some ''2025-04-17''\<rparr>,
     (model_of_type ''chat'' ''openai/o4-mini-high'')\<lparr>am_abilities := Some (no_abilities\<lparr>ab_functionCall := Some True,
       ab_reasoning := Some True, ab_vision := Some True\<rparr>), am_contextWindowTokens := Some 200000,
       am_description := Some (tx 312), am_displayName := Some ''o4-mini (high)'',
       am_maxOutput := Some 100000, am_pricing := Some (no_pricing\<lparr>price_cachedInput := Some 0.275,
       price_input := Some 1.1, price_output := Some 4.4\<rparr>), am_releasedAt := Some ''2025-04-17''\<rparr>,
     (model_of_type ''chat'' ''openai/o4-mini'')\<lparr>am_abilities := Some (no_abilities\<lparr>ab_functionCall := Some True,
       ab_reasoning := Some True, ab_vision := Some True\<rparr>), am_contextWindowTokens := Some 200000,
       am_description := Some (tx 331), am_displayName := Some ''o4-mini'',
       am_maxOutput := Some 100000, am_pricing := Some (no_pricing\<lparr>price_cachedInput := Some 0.275,
       price_input := Some 1.1, price_output := Some 4.4\<rparr>), am_releasedAt := Some ''2025-04-17''\<rparr>,
     (model_of_type ''chat'' ''openai/gpt-4.1'')\<lparr>am_abilities := Some (no_abilities\<lparr>ab_functionCall := Some True,
       ab_vision := Some True\<rparr>), am_contextWindowTokens := Some 1047576,
       am_description := Some (tx 349), am_displayName := Some ''GPT-4.1'',
       am_maxOutput := Some 32768, am_pricing := Some (no_pricing\<lparr>price_cachedInput := Some 0.5,
       price_input := Some 2, price_output := Some 8\<rparr>), am_releasedAt := Some ''2025-04-14''\<rparr>,
     (model_of_type ''chat'' ''openai/gpt-4.1-mini'')\<lparr>am_abilities := Some (no_abilities\<lparr>ab_functionCall := Some True,
       ab_vision := Some True\<rparr>), am_contextWindowTokens := Some 1047576,
       am_description := Some (tx 368), am_displayName := Some ''GPT-4.1 mini'',
       am_maxOutput := Some 32768, am_pricing := Some (no_pricing\<lparr>price_cachedInput := Some 0.1,
       price_input := Some 0.4, price_output := Some 1.6\<rparr>), am_releasedAt := Some ''2025-04-14''\<rparr>,
     (model_of_type ''chat'' ''openai/gpt-4.1-nano'')\<lparr>am_abilities := Some (no_abilities\<lparr>ab_functionCall := Some True,
       ab_vision := Some True\<rparr>), am_contextWindowTokens := Some 1047576,
       am_description := Some (tx 386), am_displayName := Some ''GPT-4.1 nano'',
       am_maxOutput := Some 32768, am_pricing := Some (no_pricing\<lparr>price_cachedInput := Some 0.025,
       price_input := Some 0.1, price_output := Some 0.4\<rparr>), am_releasedAt := Some ''2025-04-14''\<rparr>,
     (model_of_type ''chat'' ''openai/o3-mini-high'')\<lparr>am_abilities := Some (no_abilities\<lparr>ab_functionCall := Some True,
       ab_reasoning := Some True\<rparr>), am_contextWindowTokens := Some 200000,
       am_description := Some (tx 404), am_displayName := Some ''o3-mini (high)'',
       am_maxOutput := Some 100000, am_pricing := Some (no_pricing\<lparr>price_cachedInput := Some 0.55,
       price_input := Some 1.1, price_output := Some 4.4\<rparr>), am_releasedAt := Some ''2025-01-31''\<rparr>,
     (model_of_type ''chat'' ''openai/o3-mini'')\<lparr>am_abilities := Some (no_abilities\<lparr>ab_functionCall := Some True,
       ab_reasoning := Some True\<rparr>), am_contextWindowTokens := Some 200000,
       am_description := Some (tx 422), am_displayName := Some ''o3-mini'',
       am_maxOutput := Some 100000, am_pricing := Some (no_pricing\<lparr>price_cachedInput := Some 0.55,
       price_input := Some 1.1, price_output := Some 4.4\<rparr>), am_releasedAt := Some ''2025-01-31''\<rparr>]"

definition openrouterChatModels_4 :: "texts \<Rightarrow> ai_model list" where
  [card_tables]: "openrouterChatModels_4 tx = [
     (model_of_type ''chat'' ''openai/o1-mini'')\<lparr>am_abilities := Some (no_abilities\<lparr>ab_reasoning := Some True\<rparr>),
       am_contextWindowTokens := Some 128000, am_description := Some (tx 440),
       am_displayName := Some ''o1-mini'', am_maxOutput := Some 65536,
       am_pricing := Some (no_pricing\<lparr>price_input := Some 3, price_output := Some 12\<rparr>),
       am_releasedAt := Some ''2024-09-12''\<rparr>,
     (model_of_type ''chat'' ''openai/o1-preview'')\<lparr>am_abilities := Some (no_abilities\<lparr>ab_reasoning := Some True\<rparr>),
       am_contextWindowTokens := Some 128000, am_description := Some (tx 457),
       am_displayName := Some ''o1-preview'', am_maxOutput := Some 32768,
       am_pricing := Some (no_pricing\<lparr>price_input := Some 15, price_output := Some 60\<rparr>),
       am_releasedAt := Some ''2024-09-12''\<rparr>,
     (model_of_type ''chat'' ''openai/gpt-4o-mini'')\<lparr>am_abilities := Some (no_abilities\<lparr>ab_functionCall := Some True,
       ab_vision := Some True\<rparr>), am_contextWindowTokens := Some 128000,
       am_description := Some (tx 475), am_displayName := Some ''GPT-4o mini'',
       am_maxOutput := Some 16385, am_pricing := Some (no_pricing\<lparr>price_input := Some 0.15,
       price_output := Some 0.6\<rparr>)\<rparr>,
     (model_of_type ''chat'' ''openai/gpt-4o'')\<lparr>am_abilities := Some (no_abilities\<lparr>ab_functionCall := Some True,
       ab_vision := Some True\<rparr>), am_contextWindowTokens := Some 128000,
       am_description := Some (tx 492), am_displayName := Some ''GPT-4o'',
       am_pricing := Some (no_pricing\<lparr>price_input := Some 2.5, price_output := Some 10\<rparr>)\<rparr>,
     (model_of_type ''chat'' ''deepseek/deepseek-chat-v3-0324:free'')\<lparr>am_contextWindowTokens := Some 163840,
       am_description := Some (tx 504), am_displayName := Some ''DeepSeek V3 0324 (Free)''\<rparr>,
     (model_of_type ''chat'' ''deepseek/deepseek-chat-v3-0324'')\<lparr>am_contextWindowTokens := Some 64000,
       am_description := Some (tx 512), am_displayName := Some ''DeepSeek V3 0324'',
       am_pricing := Some (no_pricing\<lparr>price_cachedInput := Some 0.07, price_input := Some 0.27,
       price_output := Some 1.1\<rparr>)\<rparr>,
     (model_of_type ''chat'' ''anthropic/claude-3-haiku'')\<lparr>am_abilities := Some (no_abilities\<lparr>ab_functionCall := Some True,
       ab_vision := Some True\<rparr>), am_contextWindowTokens := Some 200000,
       am_description := Some (tx 529), am_displayName := Some ''Claude 3 Haiku'',
       am_maxOutput := Some 4096, am_pricing := Some (no_pricing\<lparr>price_cachedInput := Some 0.025,
       price_input := Some 0.25, price_output := Some 1.25, price_writeCacheInput := Some 0.3125\<rparr>),
       am_releasedAt := Some ''2024-03-07''\<rparr>,
     (model_of_type ''chat'' ''anthropic/claude-3.5-haiku'')\<lparr>am_abilities := Some (no_abilities\<lparr>ab_functionCall := Some True\<rparr>),
       am_contextWindowTokens := Some 200000, am_description := Some (tx 548),
       am_displayName := Some ''Claude 3.5 Haiku'', am_maxOutput := Some 8192,
       am_pricing := Some (no_pricing\<lparr>price_cachedInput := Some 0.1, price_input := Some 1,
       price_output := Some 5, price_writeCacheInput := Some 1.25\<rparr>),
       am_releasedAt := Some ''2024-11-05''\<rparr>,
     (model_of_type ''chat'' ''anthropic/claude-3.5-sonnet'')\<lparr>am_abilities := Some (no_abilities\<lparr>ab_functionCall := Some True,
       ab_vision := Some True\<rparr>), am_contextWindowTokens := Some 200000,
       am_description := Some (tx 568), am_displayName := Some ''Claude 3.5 Sonnet'',
       am_maxOutput := Some 8192, am_pricing := Some (no_pricing\<lparr>price_cachedInput := Some 0.3,
       price_input := Some 3, price_output := Some 15, price_writeCacheInput := Some 3.75\<rparr>),
       am_releasedAt := Some ''2024-06-20''\<rparr>]"

definition openrouterChatModels_5 :: "texts \<Rightarrow> ai_model list" where
  [card_tables]: "openrouterChatModels_5 tx = [
     (model_of_type ''chat'' ''anthropic/claude-3.7-sonnet'')\<lparr>am_abilities := Some (no_abilities\<lparr>ab_functionCall := Some True,
       ab_reasoning := Some True, ab_vision := Some True\<rparr>), am_contextWindowTokens := Some 200000,
       am_description := Some (tx 589), am_displayName := Some ''Claude 3.7 Sonnet'',
       am_maxOutput := Some 8192, am_pricing := Some (no_pricing\<lparr>price_cachedInput := Some 0.3,
       price_input := Some 3, price_output := Some 15, price_writeCacheInput := Some 3.75\<rparr>),
       am_releasedAt := Some ''2025-02-24'',
       am_settings := Some (no_settings\<lparr>ms_extendParams := Some [''enableReasoning'', ''reasoningBudgetToken'']\<rparr>)\<rparr>,
     (model_of_type ''chat'' ''anthropic/claude-3-opus'')\<lparr>am_abilities := Some (no_abilities\<lparr>ab_functionCall := Some True,
       ab_vision := Some True\<rparr>), am_contextWindowTokens := Some 200000,
       am_description := Some (tx 612), am_displayName := Some ''Claude 3 Opus'',
       am_maxOutput := Some 4096, am_pricing := Some (no_pricing\<lparr>price_cachedInput := Some 1.5,
       price_input := Some 15, price_output := Some 75, price_writeCacheInput := Some 18.75\<rparr>),
       am_releasedAt := Some ''2024-02-29''\<rparr>,
     (model_of_type ''chat'' ''google/gemini-flash-1.5'')\<lparr>am_abilities := Some (no_abilities\<lparr>ab_functionCall := Some True,
       ab_vision := Some True\<rparr>), am_contextWindowTokens := Some 1008192,
       am_description := Some (tx 631), am_displayName := Some ''Gemini 1.5 Flash'',
       am_maxOutput := Some 8192, am_pricing := Some (no_pricing\<lparr>price_input := Some 0.075,
       price_output := Some 0.3\<rparr>)\<rparr>,
     (model_of_type ''chat'' ''google/gemini-2.0-flash-001'')\<lparr>am_abilities := Some (no_abilities\<lparr>ab_functionCall := Some True,
       ab_vision := Some True\<rparr>), am_contextWindowTokens := Some (1048576 + 8192),
       am_description := Some (tx 648), am_displayName := Some ''Gemini 2.0 Flash'',
       am_maxOutput := Some 8192, am_pricing := Some (no_pricing\<lparr>price_cachedInput := Some 0.025,
       price_input := Some 0.1, price_output := Some 0.4\<rparr>), am_releasedAt := Some ''2025-02-05''\<rparr>,
     (model_of_type ''chat'' ''google/gemini-pro-1.5'')\<lparr>am_abilities := Some (no_abilities\<lparr>ab_functionCall := Some True,
       ab_vision := Some True\<rparr>), am_contextWindowTokens := Some 2008192,
       am_description := Some (tx 666), am_displayName := Some ''Gemini 1.5 Pro'',
       am_maxOutput := Some 8192, am_pricing := Some (no_pricing\<lparr>price_input := Some 3.5,
       price_output := Some 10.5\<rparr>)\<rparr>,
     (model_of_type ''chat'' ''deepseek/deepseek-chat'')\<lparr>am_abilities := Some (no_abilities\<lparr>ab_functionCall := Some True\<rparr>),
       am_contextWindowTokens := Some 128000, am_description := Some (tx 682),
       am_displayName := Some ''DeepSeek V2.5'',
       am_pricing := Some (no_pricing\<lparr>price_input := Some 0.14, price_output := Some 0.28\<rparr>),
       am_releasedAt := Some ''2024-09-05''\<rparr>,
     (model_of_type ''chat'' ''deepseek/deepseek-r1'')\<lparr>am_abilities := Some (no_abilities\<lparr>ab_reasoning := Some True\<rparr>),
       am_contextWindowTokens := Some 163840, am_description := Some (tx 698),
       am_displayName := Some ''DeepSeek R1'', am_pricing := Some (no_pricing\<lparr>price_input := Some 3,
       price_output := Some 8\<rparr>), am_releasedAt := Some ''2025-01-20''\<rparr>,
     (model_of_type ''chat'' ''deepseek/deepseek-r1:free'')\<lparr>am_abilities := Some (no_abilities\<lparr>ab_reasoning := Some True\<rparr>),
       am_contextWindowTokens := Some 163840, am_description := Some (tx 714),
       am_displayName := Some ''DeepSeek R1 (Free)'', am_releasedAt := Some ''2025-01-20''\<rparr>]"

definition openrouterChatModels_6 :: "texts \<Rightarrow> ai_model list" where
  [card_tables]: "openrouterChatModels_6 tx = [
     (model_of_type ''chat'' ''meta-llama/llama-3.2-11b-vision-instruct'')\<lparr>am_abilities := Some (no_abilities\<lparr>ab_vision := Some True\<rparr>),
       am_contextWindowTokens := Some 131072, am_description := Some (tx 726),
       am_displayName := Some ''Llama 3.2 11B Vision'',
       am_pricing := Some (no_pricing\<lparr>price_input := Some 0.162, price_output := Some 0.162\<rparr>)\<rparr>,
     (model_of_type ''chat'' ''meta-llama/llama-3.2-90b-vision-instruct'')\<lparr>am_abilities := Some (no_abilities\<lparr>ab_vision := Some True\<rparr>),
       am_contextWindowTokens := Some 131072, am_description := Some (tx 741),
       am_displayName := Some ''Llama 3.2 90B Vision'',
       am_pricing := Some (no_pricing\<lparr>price_input := Some 0.4, price_output := Some 0.4\<rparr>)\<rparr>,
     (model_of_type ''chat'' ''meta-llama/llama-3.3-70b-instruct'')\<lparr>am_abilities := Some (no_abilities\<lparr>ab_functionCall := Some True\<rparr>),
       am_contextWindowTokens := Some 32768, am_description := Some (tx 756),
       am_displayName := Some ''Llama 3.3 70B Instruct'',
       am_pricing := Some (no_pricing\<lparr>price_input := Some 0.12, price_output := Some 0.3\<rparr>)\<rparr>,
     (model_of_type ''chat'' ''meta-llama/llama-3.3-70b-instruct:free'')\<lparr>am_abilities := Some (no_abilities\<lparr>ab_functionCall := Some True\<rparr>),
       am_contextWindowTokens := Some 32768, am_description := Some (tx 771),
       am_displayName := Some ''Llama 3.3 70B Instruct (Free)''\<rparr>,
     (model_of_type ''chat'' ''qwen/qwen-2-7b-instruct:free'')\<lparr>am_contextWindowTokens := Some 32768,
       am_description := Some (tx 778), am_displayName := Some ''Qwen2 7B (Free)''\<rparr>,
     (model_of_type ''chat'' ''meta-llama/llama-3.1-8b-instruct:free'')\<lparr>am_contextWindowTokens := Some 32768,
       am_description := Some (tx 785), am_displayName := Some ''Llama 3.1 8B (Free)''\<rparr>,
     (model_of_type ''chat'' ''google/gemma-2-9b-it:free'')\<lparr>am_contextWindowTokens := Some 8192,
       am_description := Some (tx 792), am_displayName := Some ''Gemma 2 9B (Free)''\<rparr>,
     (model_of_type ''chat'' ''google/gemini-2.0-flash-exp:free'')\<lparr>am_abilities := Some (no_abilities\<lparr>ab_functionCall := Some True,
       ab_vision := Some True\<rparr>), am_contextWindowTokens := Some (1048576 + 8192),
       am_description := Some (tx 804),
       am_displayName := Some ''Gemini 2.0 Flash Experimental (Free)'', am_maxOutput := Some 8192,
       am_releasedAt := Some ''2024-12-11''\<rparr>]"

definition openrouterChatModels :: "texts \<Rightarrow> ai_model list" where
  [card_tables]: "openrouterChatModels tx =
     openrouterChatModels_1 tx @ openrouterChatModels_2 tx @ openrouterChatModels_3 tx @
     openrouterChatModels_4 tx @ openrouterChatModels_5 tx @ openrouterChatModels_6 tx"

section \<open>perplexity\<close>

definition perplexityChatModels :: "texts \<Rightarrow> ai_model list" where
  [card_tables]: "perplexityChatModels tx = [
     (model_of_type ''chat'' ''sonar-deep-research'')\<lparr>am_abilities := Some (no_abilities\<lparr>ab_reasoning := Some True,
       ab_search := Some True\<rparr>), am_contextWindowTokens := Some 127072,
       am_description := Some (tx 10), am_displayName := Some ''Sonar Deep Research'',
       am_enabled := Some True, am_maxOutput := Some 8192,
       am_pricing := Some (no_pricing\<lparr>price_input := Some 2, price_output := Some 8\<rparr>),
       am_releasedAt := Some ''2025-02-14'',
       am_settings := Some (no_settings\<lparr>ms_searchImpl := Some ''internal''\<rparr>)\<rparr>,
     (model_of_type ''chat'' ''sonar-reasoning-pro'')\<lparr>am_abilities := Some (no_abilities\<lparr>ab_reasoning := Some True,
       ab_search := Some True\<rparr>), am_contextWindowTokens := Some 127072,
       am_description := Some (tx 28), am_displayName := Some ''Sonar Reasoning Pro'',
       am_enabled := Some True, am_maxOutput := Some 8192,
       am_pricing := Some (no_pricing\<lparr>price_input := Some 2, price_output := Some 8\<rparr>),
       am_releasedAt := Some ''2025-01-21'',
       am_settings := Some (no_settings\<lparr>ms_searchImpl := Some ''internal''\<rparr>)\<rparr>,
     (model_of_type ''chat'' ''sonar-reasoning'')\<lparr>am_abilities := Some (no_abilities\<lparr>ab_reasoning := Some True,
       ab_search := Some True\<rparr>), am_contextWindowTokens := Some 127072,
       am_description := Some (tx 46), am_displayName := Some ''Sonar Reasoning'',
       am_enabled := Some True, am_maxOutput := Some 8192,
       am_pricing := Some (no_pricing\<lparr>price_input := Some 1, price_output := Some 5\<rparr>),
       am_releasedAt := Some ''2025-01-21'',
       am_settings := Some (no_settings\<lparr>ms_searchImpl := Some ''internal''\<rparr>)\<rparr>,
     (model_of_type ''chat'' ''sonar-pro'')\<lparr>am_abilities := Some (no_abilities\<lparr>ab_search := Some True\<rparr>),
       am_contextWindowTokens := Some 200000, am_description := Some (tx 63),
       am_displayName := Some ''Sonar Pro'', am_enabled := Some True,
       am_pricing := Some (no_pricing\<lparr>price_input := Some 3, price_output := Some 15\<rparr>),
       am_releasedAt := Some ''2025-01-21'',
       am_settings := Some (no_settings\<lparr>ms_searchImpl := Some ''internal''\<rparr>)\<rparr>,
     (model_of_type ''chat'' ''sonar'')\<lparr>am_abilities := Some (no_abilities\<lparr>ab_search := Some True\<rparr>),
       am_contextWindowTokens := Some 127072, am_description := Some (tx 79),
       am_displayName := Some ''Sonar'', am_enabled := Some True,
       am_pricing := Some (no_pricing\<lparr>price_input := Some 1, price_output := Some 1\<rparr>),
       am_releasedAt := Some ''2025-01-21'',
       am_settings := Some (no_settings\<lparr>ms_searchImpl := Some ''internal''\<rparr>)\<rparr>,
     (model_of_type ''chat'' ''r1-1776'')\<lparr>am_abilities := Some (no_abilities\<lparr>ab_reasoning := Some True\<rparr>),
       am_contextWindowTokens := Some 127072, am_description := Some (tx 97),
       am_displayName := Some ''R1 1776'', am_pricing := Some (no_pricing\<lparr>price_input := Some 2,
       price_output := Some 8\<rparr>), am_releasedAt := Some ''2025-02-18''\<rparr>]"

section \<open>ppio\<close>

definition ppioChatModels_1 :: "texts \<Rightarrow> ai_model list" where
  [card_tables]: "ppioChatModels_1 tx = [
     (model_of_type ''chat'' ''deepseek/deepseek-r1/community'')\<lparr>am_abilities := Some (no_abilities\<lparr>ab_reasoning := Some True\<rparr>),
       am_contextWindowTokens := Some 64000, am_description := Some (tx 10),
       am_displayName := Some ''DeepSeek: DeepSeek R1 (Community)'', am_enabled := Some True,
       am_pricing := Some (no_pricing\<lparr>price_currency := Some CNY, price_input := Some 4,
       price_output := Some 16\<rparr>)\<rparr>,
     (model_of_type ''chat'' ''deepseek/deepseek-v3/community'')\<lparr>am_contextWindowTokens := Some 64000,
       am_description := Some (tx 24), am_displayName := Some ''DeepSeek: DeepSeek V3 (Community)'',
       am_enabled := Some True, am_pricing := Some (no_pricing\<lparr>price_currency := Some CNY,
       price_input := Some 1, price_output := Some 2\<rparr>)\<rparr>,
     (model_of_type ''chat'' ''deepseek/deepseek-r1'')\<lparr>am_abilities := Some (no_abilities\<lparr>ab_reasoning := Some True\<rparr>),
       am_contextWindowTokens := Some 64000, am_description := Some (tx 41),
       am_displayName := Some ''DeepSeek R1'', am_enabled := Some True,
       am_pricing := Some (no_pricing\<lparr>price_currency := Some CNY, price_input := Some 4,
       price_output := Some 16\<rparr>)\<rparr>,
     (model_of_type ''chat'' ''deepseek/deepseek-v3'')\<lparr>am_contextWindowTokens := Some 64000,
       am_description := Some (tx 55), am_displayName := Some ''DeepSeek V3'',
       am_enabled := Some True, am_pricing := Some (no_pricing\<lparr>price_currency := Some CNY,
       price_input := Some 1, price_output := Some 2\<rparr>)\<rparr>,
     (model_of_type ''chat'' ''deepseek/deepseek-r1-distill-llama-70b'')\<lparr>am_abilities := Some (no_abilities\<lparr>ab_reasoning := Some True\<rparr>),
       am_contextWindowTokens := Some 32000, am_description := Some (tx 72),
       am_displayName := Some ''DeepSeek R1 Distill Llama 70B'', am_enabled := Some True,
       am_pricing := Some (no_pricing\<lparr>price_currency := Some CNY, price_input := Some 5.8,
       price_output := Some 5.8\<rparr>)\<rparr>,
     (model_of_type ''chat'' ''deepseek/deepseek-r1-distill-qwen-32b'')\<lparr>am_abilities := Some (no_abilities\<lparr>ab_reasoning := Some True\<rparr>),
       am_contextWindowTokens := Some 64000, am_description := Some (tx 89),
       am_displayName := Some ''DeepSeek: DeepSeek R1 Distill Qwen 32B'', am_enabled := Some True,
       am_pricing := Some (no_pricing\<lparr>price_currency := Some CNY, price_input := Some 2.18,
       price_output := Some 2.18\<rparr>)\<rparr>,
     (model_of_type ''chat'' ''deepseek/deepseek-r1-distill-qwen-14b'')\<lparr>am_abilities := Some (no_abilities\<lparr>ab_reasoning := Some True\<rparr>),
       am_contextWindowTokens := Some 64000, am_description := Some (tx 106),
       am_displayName := Some ''DeepSeek: DeepSeek R1 Distill Qwen 14B'', am_enabled := Some True,
       am_pricing := Some (no_pricing\<lparr>price_currency := Some CNY, price_input := Some 1,
       price_output := Some 1\<rparr>)\<rparr>,
     (model_of_type ''chat'' ''deepseek/deepseek-r1-distill-llama-8b'')\<lparr>am_abilities := Some (no_abilities\<lparr>ab_reasoning := Some True\<rparr>),
       am_contextWindowTokens := Some 32000, am_description := Some (tx 123),
       am_displayName := Some ''DeepSeek: DeepSeek R1 Distill Llama 8B'', am_enabled := Some True,
       am_pricing := Some (no_pricing\<lparr>price_currency := Some CNY, price_input := Some 0.3,
       price_output := Some 0.3\<rparr>)\<rparr>,
     (model_of_type ''chat'' ''qwen/qwen-2.5-72b-instruct'')\<lparr>am_contextWindowTokens := Some 32768,
       am_description := Some (tx 137), am_displayName := Some ''qwen/qwen-2.5-72b-instruct'',
       am_enabled := Some True, am_pricing := Some (no_pricing\<lparr>price_currency := Some CNY,
       price_input := Some 2.75, price_output := Some 2.88\<rparr>)\<rparr>]"

definition ppioChatModels_2 :: "texts \<Rightarrow> ai_model list" where
  [card_tables]: "ppioChatModels_2 tx = [
     (model_of_type ''chat'' ''qwen/qwen-2-vl-72b-instruct'')\<lparr>am_abilities := Some (no_abilities\<lparr>ab_vision := Some True\<rparr>),
       am_contextWindowTokens := Some 32768, am_description := Some (tx 154),
       am_displayName := Some ''qwen/qwen-2-vl-72b-instruct'', am_enabled := Some True,
       am_pricing := Some (no_pricing\<lparr>price_currency := Some CNY, price_input := Some 4.5,
       price_output := Some 4.5\<rparr>)\<rparr>,
     (model_of_type ''chat'' ''meta-llama/llama-3.2-3b-instruct'')\<lparr>am_contextWindowTokens := Some 32768,
       am_description := Some ''meta-llama/llama-3.2-3b-instruct'',
       am_displayName := Some ''meta-llama/llama-3.2-3b-instruct'', am_enabled := Some True,
       am_pricing := Some (no_pricing\<lparr>price_currency := Some CNY, price_input := Some 0.216,
       price_output := Some 0.36\<rparr>)\<rparr>,
     (model_of_type ''chat'' ''qwen/qwen2.5-32b-instruct'')\<lparr>am_contextWindowTokens := Some 32000,
       am_description := Some (tx 181), am_displayName := Some ''qwen/qwen2.5-32b-instruct'',
       am_enabled := Some True, am_pricing := Some (no_pricing\<lparr>price_currency := Some CNY,
       price_input := Some 1.26, price_output := Some 1.26\<rparr>)\<rparr>,
     (model_of_type ''chat'' ''baichuan/baichuan2-13b-chat'')\<lparr>am_contextWindowTokens := Some 14336,
       am_description := Some (tx 195), am_displayName := Some ''baichuan/baichuan2-13b-chat'',
       am_enabled := Some True, am_pricing := Some (no_pricing\<lparr>price_currency := Some CNY,
       price_input := Some 1.75, price_output := Some 1.75\<rparr>)\<rparr>,
     (model_of_type ''chat'' ''meta-llama/llama-3.1-70b-instruct'')\<lparr>am_contextWindowTokens := Some 32768,
       am_description := Some (tx 209),
       am_displayName := Some ''meta-llama/llama-3.1-70b-instruct'', am_enabled := Some True,
       am_pricing := Some (no_pricing\<lparr>price_currency := Some CNY, price_input := Some 2.45,
       price_output := Some 2.82\<rparr>)\<rparr>,
     (model_of_type ''chat'' ''meta-llama/llama-3.1-8b-instruct'')\<lparr>am_contextWindowTokens := Some 32768,
       am_description := Some (tx 223), am_displayName := Some ''meta-llama/llama-3.1-8b-instruct'',
       am_enabled := Some True, am_pricing := Some (no_pricing\<lparr>price_currency := Some CNY,
       price_input := Some 0.4, price_output := Some 0.4\<rparr>)\<rparr>,
     (model_of_type ''chat'' ''01-ai/yi-1.5-34b-chat'')\<lparr>am_contextWindowTokens := Some 16384,
       am_description := Some (tx 237), am_displayName := Some ''01-ai/yi-1.5-34b-chat'',
       am_enabled := Some True, am_pricing := Some (no_pricing\<lparr>price_currency := Some CNY,
       price_input := Some 1.1, price_output := Some 1.1\<rparr>)\<rparr>,
     (model_of_type ''chat'' ''01-ai/yi-1.5-9b-chat'')\<lparr>am_contextWindowTokens := Some 16384,
       am_description := Some (tx 251), am_displayName := Some ''01-ai/yi-1.5-9b-chat'',
       am_enabled := Some True, am_pricing := Some (no_pricing\<lparr>price_currency := Some CNY,
       price_input := Some 0.4, price_output := Some 0.4\<rparr>)\<rparr>,
     (model_of_type ''chat'' ''thudm/glm-4-9b-chat'')\<lparr>am_contextWindowTokens := Some 32768,
       am_description := Some (tx 264), am_displayName := Some ''thudm/glm-4-9b-chat'',
       am_enabled := Some True, am_pricing := Some (no_pricing\<lparr>price_currency := Some CNY,
       price_input := Some 0.5, price_output := Some 0.5\<rparr>)\<rparr>,
     (model_of_type ''chat'' ''qwen/qwen-2-7b-instruct'')\<lparr>am_contextWindowTokens := Some 32768,
       am_description := Some (tx 278), am_displayName := Some ''qwen/qwen-2-7b-instruct'',
       am_enabled := Some True, am_pricing := Some (no_pricing\<lparr>price_currency := Some CNY,
       price_input := Some 0.32, price_output := Some 0.32\<rparr>)\<rparr>]"

definition ppioChatModels :: "texts \<Rightarrow> ai_model list" where
  [card_tables]: "ppioChatModels tx =
     ppioChatModels_1 tx @ ppioChatModels_2 tx"

section \<open>qiniu\<close>

definition qiniuChatModels :: "texts \<Rightarrow> ai_model list" where
  [card_tables]: "qiniuChatModels tx = [
     (model_of_type ''chat'' ''deepseek-v3'')\<lparr>am_abilities := Some (no_abilities\<lparr>ab_functionCall := Some True\<rparr>),
       am_contextWindowTokens := Some 131072, am_description := Some (tx 12),
       am_displayName := Some ''DeepSeek V3'', am_enabled := Some True\<rparr>,
     (model_of_type ''chat'' ''deepseek-r1'')\<lparr>am_abilities := Some (no_abilities\<lparr>ab_reasoning := Some True\<rparr>),
       am_contextWindowTokens := Some 65536, am_description := Some (tx 24),
       am_displayName := Some ''DeepSeek R1'', am_enabled := Some True\<rparr>]"

section \<open>qwen\<close>

definition qwenChatModels_1 :: "texts \<Rightarrow> ai_model list" where
  [card_tables]: "qwenChatModels_1 tx = [
     (model_of_type ''chat'' ''qwen3-235b-a22b'')\<lparr>am_abilities := Some (no_abilities\<lparr>ab_functionCall := Some True,
       ab_reasoning := Some True\<rparr>), am_contextWindowTokens := Some 131072,
       am_description := Some (tx 13), am_displayName := Some ''Qwen3 235B A22B'',
       am_enabled := Some True, am_maxOutput := Some 8192, am_organization := Some ''Qwen'',
       am_pricing := Some (no_pricing\<lparr>price_currency := Some CNY, price_input := Some 4,
       price_output := Some 40\<rparr>), am_releasedAt := Some ''2025-04-28'',
       am_settings := Some (no_settings\<lparr>ms_extendParams := Some [''enableReasoning'', ''reasoningBudgetToken'']\<rparr>)\<rparr>,
     (model_of_type ''chat'' ''qwen3-32b'')\<lparr>am_abilities := Some (no_abilities\<lparr>ab_functionCall := Some True,
       ab_reasoning := Some True\<rparr>), am_contextWindowTokens := Some 131072,
       am_description := Some (tx 37), am_displayName := Some ''Qwen3 32B'',
       am_enabled := Some True, am_maxOutput := Some 8192, am_organization := Some ''Qwen'',
       am_pricing := Some (no_pricing\<lparr>price_currency := Some CNY, price_input := Some 2,
       price_output := Some 20\<rparr>), am_releasedAt := Some ''2025-04-28'',
       am_settings := Some (no_settings\<lparr>ms_extendParams := Some [''enableReasoning'', ''reasoningBudgetToken'']\<rparr>)\<rparr>,
     (model_of_type ''chat'' ''qwen3-30b-a3b'')\<lparr>am_abilities := Some (no_abilities\<lparr>ab_functionCall := Some True,
       ab_reasoning := Some True\<rparr>), am_contextWindowTokens := Some 131072,
       am_description := Some (tx 61), am_displayName := Some ''Qwen3 30B'',
       am_enabled := Some True, am_maxOutput := Some 8192, am_organization := Some ''Qwen'',
       am_pricing := Some (no_pricing\<lparr>price_currency := Some CNY, price_input := Some 1.5,
       price_output := Some 15\<rparr>), am_releasedAt := Some ''2025-04-28'',
       am_settings := Some (no_settings\<lparr>ms_extendParams := Some [''enableReasoning'', ''reasoningBudgetToken'']\<rparr>)\<rparr>,
     (model_of_type ''chat'' ''qwen3-14b'')\<lparr>am_abilities := Some (no_abilities\<lparr>ab_functionCall := Some True,
       ab_reasoning := Some True\<rparr>), am_contextWindowTokens := Some 131072,
       am_description := Some (tx 85), am_displayName := Some ''Qwen3 14B'',
       am_maxOutput := Some 8192, am_organization := Some ''Qwen'',
       am_pricing := Some (no_pricing\<lparr>price_currency := Some CNY, price_input := Some 1,
       price_output := Some 10\<rparr>), am_releasedAt := Some ''2025-04-28'',
       am_settings := Some (no_settings\<lparr>ms_extendParams := Some [''enableReasoning'', ''reasoningBudgetToken'']\<rparr>)\<rparr>,
     (model_of_type ''chat'' ''qwen3-8b'')\<lparr>am_abilities := Some (no_abilities\<lparr>ab_functionCall := Some True,
       ab_reasoning := Some True\<rparr>), am_contextWindowTokens := Some 131072,
       am_description := Some (tx 108), am_displayName := Some ''Qwen3 8B'',
       am_maxOutput := Some 8192, am_organization := Some ''Qwen'',
       am_pricing := Some (no_pricing\<lparr>price_currency := Some CNY, price_input := Some 0.5,
       price_output := Some 5\<rparr>), am_releasedAt := Some ''2025-04-28'',
       am_settings := Some (no_settings\<lparr>ms_extendParams := Some [''enableReasoning'', ''reasoningBudgetToken'']\<rparr>)\<rparr>,
     (model_of_type ''chat'' ''qwen3-4b'')\<lparr>am_abilities := Some (no_abilities\<lparr>ab_functionCall := Some True,
       ab_reasoning := Some True\<rparr>), am_contextWindowTokens := Some 131072,
       am_description := Some (tx 131), am_displayName := Some ''Qwen3 4B'',
       am_maxOutput := Some 8192, am_organization := Some ''Qwen'',
       am_pricing := Some (no_pricing\<lparr>price_currency := Some CNY, price_input := Some 0.3,
       price_output := Some 3\<rparr>), am_releasedAt := Some ''2025-04-28'',
       am_settings := Some (no_settings\<lparr>ms_extendParams := Some [''enableReasoning'', ''reasoningBudgetToken'']\<rparr>)\<rparr>]"

definition qwenChatModels_2 :: "texts \<Rightarrow> ai_model list" where
  [card_tables]: "qwenChatModels_2 tx = [
     (model_of_type ''chat'' ''qwen3-1.7b'')\<lparr>am_abilities := Some (no_abilities\<lparr>ab_functionCall := Some True,
       ab_reasoning := Some True\<rparr>), am_contextWindowTokens := Some 32768,
       am_description := Some (tx 154), am_displayName := Some ''Qwen3 1.7B'',
       am_maxOutput := Some 8192, am_organization := Some ''Qwen'',
       am_pricing := Some (no_pricing\<lparr>price_currency := Some CNY, price_input := Some 0.3,
       price_output := Some 3\<rparr>), am_releasedAt := Some ''2025-04-28'',
       am_settings := Some (no_settings\<lparr>ms_extendParams := Some [''enableReasoning'', ''reasoningBudgetToken'']\<rparr>)\<rparr>,
     (model_of_type ''chat'' ''qwen3-0.6b'')\<lparr>am_abilities := Some (no_abilities\<lparr>ab_functionCall := Some True,
       ab_reasoning := Some True\<rparr>), am_contextWindowTokens := Some 32768,
       am_description := Some (tx 177), am_displayName := Some ''Qwen3 0.6B'',
       am_maxOutput := Some 8192, am_organization := Some ''Qwen'',
       am_pricing := Some (no_pricing\<lparr>price_currency := Some CNY, price_input := Some 0.3,
       price_output := Some 3\<rparr>), am_releasedAt := Some ''2025-04-28'',
       am_settings := Some (no_settings\<lparr>ms_extendParams := Some [''enableReasoning'', ''reasoningBudgetToken'']\<rparr>)\<rparr>,
     (model_of_type ''chat'' ''qwq-plus-latest'')\<lparr>am_abilities := Some (no_abilities\<lparr>ab_functionCall := Some True,
       ab_reasoning := Some True, ab_search := Some True\<rparr>), am_contextWindowTokens := Some 131072,
       am_description := Some (tx 201), am_displayName := Some ''QwQ Plus'',
       am_enabled := Some True, am_maxOutput := Some 8192, am_organization := Some ''Qwen'',
       am_pricing := Some (no_pricing\<lparr>price_currency := Some CNY, price_input := Some 1.6,
       price_output := Some 4\<rparr>), am_releasedAt := Some ''2025-03-06'',
       am_settings := Some (no_settings\<lparr>ms_searchImpl := Some ''params''\<rparr>)\<rparr>,
     (model_of_type ''chat'' ''qwen-turbo-latest'')\<lparr>am_abilities := Some (no_abilities\<lparr>ab_functionCall := Some True,
       ab_reasoning := Some True, ab_search := Some True\<rparr>), am_contextWindowTokens := Some 1000000,
       am_description := Some (tx 225), am_displayName := Some ''Qwen Turbo'',
       am_enabled := Some True, am_maxOutput := Some 8192, am_organization := Some ''Qwen'',
       am_pricing := Some (no_pricing\<lparr>price_currency := Some CNY, price_input := Some 0.3,
       price_output := Some 6\<rparr>), am_releasedAt := Some ''2025-04-28'',
       am_settings := Some (no_settings\<lparr>ms_extendParams := Some [''enableReasoning'', ''reasoningBudgetToken''],
       ms_searchImpl := Some ''params''\<rparr>)\<rparr>,
     (model_of_type ''chat'' ''qwen-plus-latest'')\<lparr>am_abilities := Some (no_abilities\<lparr>ab_functionCall := Some True,
       ab_reasoning := Some True, ab_search := Some True\<rparr>), am_contextWindowTokens := Some 131072,
       am_description := Some (tx 250), am_displayName := Some ''Qwen Plus'',
       am_enabled := Some True, am_maxOutput := Some 8192, am_organization := Some ''Qwen'',
       am_pricing := Some (no_pricing\<lparr>price_currency := Some CNY, price_input := Some 0.8,
       price_output := Some 16\<rparr>), am_releasedAt := Some ''2025-04-28'',
       am_settings := Some (no_settings\<lparr>ms_extendParams := Some [''enableReasoning'', ''reasoningBudgetToken''],
       ms_searchImpl := Some ''params''\<rparr>)\<rparr>,
     (model_of_type ''chat'' ''qwen-max-latest'')\<lparr>am_abilities := Some (no_abilities\<lparr>ab_functionCall := Some True,
       ab_search := Some True\<rparr>), am_contextWindowTokens := Some 131072,
       am_description := Some (tx 275), am_displayName := Some ''Qwen Max'',
       am_enabled := Some True, am_maxOutput := Some 8192, am_organization := Some ''Qwen'',
       am_pricing := Some (no_pricing\<lparr>price_currency := Some CNY, price_input := Some 2.4,
       price_output := Some 9.6\<rparr>),
       am_settings := Some (no_settings\<lparr>ms_searchImpl := Some ''params''\<rparr>)\<rparr>]"

definition qwenChatModels_3 :: "texts \<Rightarrow> ai_model list" where
  [card_tables]: "qwenChatModels_3 tx = [
     (model_of_type ''chat'' ''qwen-long'')\<lparr>am_abilities := Some (no_abilities\<lparr>ab_functionCall := Some True\<rparr>),
       am_contextWindowTokens := Some 10000000, am_description := Some (tx 297),
       am_displayName := Some ''Qwen Long'', am_enabled := Some True, am_maxOutput := Some 8192,
       am_organization := Some ''Qwen'', am_pricing := Some (no_pricing\<lparr>price_currency := Some CNY,
       price_input := Some 0.5, price_output := Some 2\<rparr>)\<rparr>,
     (model_of_type ''chat'' ''qwen-omni-turbo-latest'')\<lparr>am_abilities := Some (no_abilities\<lparr>ab_vision := Some True\<rparr>),
       am_contextWindowTokens := Some 32768, am_description := Some (tx 316),
       am_displayName := Some ''Qwen Omni Turbo'', am_enabled := Some True,
       am_maxOutput := Some 2048, am_organization := Some ''Qwen'',
       am_pricing := Some (no_pricing\<lparr>price_currency := Some CNY, price_input := Some 1.5,
       price_output := Some 4.5\<rparr>)\<rparr>,
     (model_of_type ''chat'' ''qwen2.5-omni-7b'')\<lparr>am_abilities := Some (no_abilities\<lparr>ab_vision := Some True\<rparr>),
       am_contextWindowTokens := Some 32768, am_description := Some (tx 335),
       am_displayName := Some ''Qwen2.5 Omni 7B'', am_maxOutput := Some 2048,
       am_organization := Some ''Qwen'', am_pricing := Some (no_pricing\<lparr>price_currency := Some CNY,
       price_input := Some 0.6, price_output := Some 6\<rparr>)\<rparr>,
     (model_of_type ''chat'' ''qwen-vl-plus-latest'')\<lparr>am_abilities := Some (no_abilities\<lparr>ab_vision := Some True\<rparr>),
       am_contextWindowTokens := Some 131072, am_description := Some (tx 353),
       am_displayName := Some ''Qwen VL Plus'', am_maxOutput := Some 8192,
       am_organization := Some ''Qwen'', am_pricing := Some (no_pricing\<lparr>price_currency := Some CNY,
       price_input := Some 1.5, price_output := Some 4.5\<rparr>)\<rparr>,
     (model_of_type ''chat'' ''qwen-vl-max-latest'')\<lparr>am_abilities := Some (no_abilities\<lparr>ab_vision := Some True\<rparr>),
       am_contextWindowTokens := Some 131072, am_description := Some (tx 371),
       am_displayName := Some ''Qwen VL Max'', am_enabled := Some True, am_maxOutput := Some 8192,
       am_organization := Some ''Qwen'', am_pricing := Some (no_pricing\<lparr>price_currency := Some CNY,
       price_input := Some 3, price_output := Some 9\<rparr>)\<rparr>,
     (model_of_type ''chat'' ''qwen-vl-ocr-latest'')\<lparr>am_abilities := Some (no_abilities\<lparr>ab_vision := Some True\<rparr>),
       am_contextWindowTokens := Some 34096, am_description := Some (tx 390),
       am_displayName := Some ''Qwen VL OCR'', am_maxOutput := Some 4096,
       am_organization := Some ''Qwen'', am_pricing := Some (no_pricing\<lparr>price_currency := Some CNY,
       price_input := Some 5, price_output := Some 5\<rparr>)\<rparr>,
     (model_of_type ''chat'' ''qwen-math-turbo-latest'')\<lparr>am_contextWindowTokens := Some 4096,
       am_description := Some (tx 404), am_displayName := Some ''Qwen Math Turbo'',
       am_maxOutput := Some 3072, am_organization := Some ''Qwen'',
       am_pricing := Some (no_pricing\<lparr>price_currency := Some CNY, price_input := Some 2,
       price_output := Some 6\<rparr>)\<rparr>,
     (model_of_type ''chat'' ''qwen-math-plus-latest'')\<lparr>am_contextWindowTokens := Some 4096,
       am_description := Some (tx 418), am_displayName := Some ''Qwen Math Plus'',
       am_maxOutput := Some 3072, am_organization := Some ''Qwen'',
       am_pricing := Some (no_pricing\<lparr>price_currency := Some CNY, price_input := Some 4,
       price_output := Some 12\<rparr>)\<rparr>]"

definition qwenChatModels_4 :: "texts \<Rightarrow> ai_model list" where
  [card_tables]: "qwenChatModels_4 tx = [
     (model_of_type ''chat'' ''qwen-coder-turbo-latest'')\<lparr>am_contextWindowTokens := Some 131072,
       am_description := Some (tx 432), am_displayName := Some ''Qwen Coder Turbo'',
       am_maxOutput := Some 8192, am_organization := Some ''Qwen'',
       am_pricing := Some (no_pricing\<lparr>price_currency := Some CNY, price_input := Some 2,
       price_output := Some 6\<rparr>)\<rparr>,
     (model_of_type ''chat'' ''qwen-coder-plus-latest'')\<lparr>am_contextWindowTokens := Some 131072,
       am_description := Some (tx 446), am_displayName := Some ''Qwen Coder Plus'',
       am_maxOutput := Some 8192, am_organization := Some ''Qwen'',
       am_pricing := Some (no_pricing\<lparr>price_currency := Some CNY, price_input := Some 3.5,
       price_output := Some 7\<rparr>)\<rparr>,
     (model_of_type ''chat'' ''qwq-32b'')\<lparr>am_abilities := Some (no_abilities\<lparr>ab_reasoning := Some True,
       ab_search := Some True\<rparr>), am_contextWindowTokens := Some 131072,
       am_description := Some (tx 465), am_displayName := Some ''QwQ 32B'',
       am_maxOutput := Some 8192, am_organization := Some ''Qwen'',
       am_pricing := Some (no_pricing\<lparr>price_currency := Some CNY, price_input := Some 2,
       price_output := Some 6\<rparr>), am_releasedAt := Some ''2025-03-06'',
       am_settings := Some (no_settings\<lparr>ms_searchImpl := Some ''params''\<rparr>)\<rparr>,
     (model_of_type ''chat'' ''qwq-32b-preview'')\<lparr>am_abilities := Some (no_abilities\<lparr>ab_reasoning := Some True\<rparr>),
       am_contextWindowTokens := Some 32768, am_description := Some (tx 486),
       am_displayName := Some ''QwQ 32B Preview'', am_maxOutput := Some 16384,
       am_organization := Some ''Qwen'', am_pricing := Some (no_pricing\<lparr>price_currency := Some CNY,
       price_input := Some 2, price_output := Some 6\<rparr>), am_releasedAt := Some ''2024-11-28''\<rparr>,
     (model_of_type ''chat'' ''qvq-max-latest'')\<lparr>am_abilities := Some (no_abilities\<lparr>ab_reasoning := Some True,
       ab_vision := Some True\<rparr>), am_contextWindowTokens := Some 122880,
       am_description := Some (tx 506), am_displayName := Some ''QVQ Max'',
       am_maxOutput := Some 8192, am_organization := Some ''Qwen'',
       am_pricing := Some (no_pricing\<lparr>price_currency := Some CNY, price_input := Some 8,
       price_output := Some 32\<rparr>), am_releasedAt := Some ''2025-03-25''\<rparr>,
     (model_of_type ''chat'' ''qvq-72b-preview'')\<lparr>am_abilities := Some (no_abilities\<lparr>ab_reasoning := Some True,
       ab_vision := Some True\<rparr>), am_contextWindowTokens := Some 32768,
       am_description := Some (tx 526), am_displayName := Some ''QVQ 72B Preview'',
       am_maxOutput := Some 16384, am_organization := Some ''Qwen'',
       am_pricing := Some (no_pricing\<lparr>price_currency := Some CNY, price_input := Some 12,
       price_output := Some 36\<rparr>), am_releasedAt := Some ''2024-12-25''\<rparr>,
     (model_of_type ''chat'' ''qwen2.5-7b-instruct'')\<lparr>am_abilities := Some (no_abilities\<lparr>ab_functionCall := Some True\<rparr>),
       am_contextWindowTokens := Some 131072, am_description := Some (tx 544),
       am_displayName := Some ''Qwen2.5 7B'', am_maxOutput := Some 8192,
       am_organization := Some ''Qwen'', am_pricing := Some (no_pricing\<lparr>price_currency := Some CNY,
       price_input := Some 0.5, price_output := Some 1\<rparr>)\<rparr>,
     (model_of_type ''chat'' ''qwen2.5-14b-instruct'')\<lparr>am_abilities := Some (no_abilities\<lparr>ab_functionCall := Some True\<rparr>),
       am_contextWindowTokens := Some 131072, am_description := Some (tx 561),
       am_displayName := Some ''Qwen2.5 14B'', am_maxOutput := Some 8192,
       am_organization := Some ''Qwen'', am_pricing := Some (no_pricing\<lparr>price_currency := Some CNY,
       price_input := Some 1, price_output := Some 3\<rparr>)\<rparr>]"

definition qwenChatModels_5 :: "texts \<Rightarrow> ai_model list" where
  [card_tables]: "qwenChatModels_5 tx = [
     (model_of_type ''chat'' ''qwen2.5-32b-instruct'')\<lparr>am_abilities := Some (no_abilities\<lparr>ab_functionCall := Some True\<rparr>),
       am_contextWindowTokens := Some 131072, am_description := Some (tx 578),
       am_displayName := Some ''Qwen2.5 32B'', am_maxOutput := Some 8192,
       am_organization := Some ''Qwen'', am_pricing := Some (no_pricing\<lparr>price_currency := Some CNY,
       price_input := Some 2, price_output := Some 6\<rparr>)\<rparr>,
     (model_of_type ''chat'' ''qwen2.5-72b-instruct'')\<lparr>am_abilities := Some (no_abilities\<lparr>ab_functionCall := Some True\<rparr>),
       am_contextWindowTokens := Some 131072, am_description := Some (tx 595),
       am_displayName := Some ''Qwen2.5 72B'', am_maxOutput := Some 8192,
       am_organization := Some ''Qwen'', am_pricing := Some (no_pricing\<lparr>price_currency := Some CNY,
       price_input := Some 4, price_output := Some 12\<rparr>)\<rparr>,
     (model_of_type ''chat'' ''qwen2.5-14b-instruct-1m'')\<lparr>am_abilities := Some (no_abilities\<lparr>ab_functionCall := Some True\<rparr>),
       am_contextWindowTokens := Some 1000000, am_description := Some (tx 612),
       am_displayName := Some ''Qwen2.5 14B 1M'', am_maxOutput := Some 8192,
       am_organization := Some ''Qwen'', am_pricing := Some (no_pricing\<lparr>price_currency := Some CNY,
       price_input := Some 1, price_output := Some 3\<rparr>), am_releasedAt := Some ''2025-01-27''\<rparr>,
     (model_of_type ''chat'' ''qwen2.5-math-7b-instruct'')\<lparr>am_contextWindowTokens := Some 4096,
       am_description := Some (tx 627), am_displayName := Some ''Qwen2.5 Math 7B'',
       am_maxOutput := Some 3072, am_organization := Some ''Qwen'',
       am_pricing := Some (no_pricing\<lparr>price_currency := Some CNY, price_input := Some 1,
       price_output := Some 2\<rparr>)\<rparr>,
     (model_of_type ''chat'' ''qwen2.5-math-72b-instruct'')\<lparr>am_contextWindowTokens := Some 4096,
       am_description := Some (tx 641), am_displayName := Some ''Qwen2.5 Math 72B'',
       am_maxOutput := Some 3072, am_organization := Some ''Qwen'',
       am_pricing := Some (no_pricing\<lparr>price_currency := Some CNY, price_input := Some 4,
       price_output := Some 12\<rparr>)\<rparr>,
     (model_of_type ''chat'' ''qwen2.5-coder-7b-instruct'')\<lparr>am_contextWindowTokens := Some 131072,
       am_description := Some (tx 655), am_displayName := Some ''Qwen2.5 Coder 7B'',
       am_maxOutput := Some 8192, am_organization := Some ''Qwen'',
       am_pricing := Some (no_pricing\<lparr>price_currency := Some CNY, price_input := Some 1,
       price_output := Some 2\<rparr>)\<rparr>,
     (model_of_type ''chat'' ''qwen2.5-coder-32b-instruct'')\<lparr>am_contextWindowTokens := Some 131072,
       am_description := Some (tx 669), am_displayName := Some ''Qwen2.5 Coder 32B'',
       am_maxOutput := Some 8192, am_organization := Some ''Qwen'',
       am_pricing := Some (no_pricing\<lparr>price_currency := Some CNY, price_input := Some 2,
       price_output := Some 6\<rparr>)\<rparr>,
     (model_of_type ''chat'' ''qwen-vl-v1'')\<lparr>am_abilities := Some (no_abilities\<lparr>ab_vision := Some True\<rparr>),
       am_contextWindowTokens := Some 8000, am_description := Some (tx 686),
       am_displayName := Some ''Qwen VL'', am_maxOutput := Some 1500,
       am_organization := Some ''Qwen'', am_pricing := Some (no_pricing\<lparr>price_currency := Some CNY,
       price_input := Some 0, price_output := Some 0\<rparr>)\<rparr>,
     (model_of_type ''chat'' ''qwen-vl-chat-v1'')\<lparr>am_abilities := Some (no_abilities\<lparr>ab_vision := Some True\<rparr>),
       am_contextWindowTokens := Some 8000, am_description := Some (tx 703),
       am_displayName := Some ''Qwen VL Chat'', am_maxOutput := Some 1500,
       am_organization := Some ''Qwen'', am_pricing := Some (no_pricing\<lparr>price_currency := Some CNY,
       price_input := Some 0, price_output := Some 0\<rparr>)\<rparr>]"

definition qwenChatModels_6 :: "texts \<Rightarrow> ai_model list" where
  [card_tables]: "qwenChatModels_6 tx = [
     (model_of_type ''chat'' ''qwen2.5-vl-72b-instruct'')\<lparr>am_abilities := Some (no_abilities\<lparr>ab_vision := Some True\<rparr>),
       am_contextWindowTokens := Some 131072, am_description := Some (tx 721),
       am_displayName := Some ''Qwen2.5 VL 72B'', am_maxOutput := Some 8192,
       am_organization := Some ''Qwen'', am_pricing := Some (no_pricing\<lparr>price_currency := Some CNY,
       price_input := Some 16, price_output := Some 48\<rparr>), am_releasedAt := Some ''2025-01-27''\<rparr>,
     (model_of_type ''chat'' ''qwen2.5-vl-32b-instruct'')\<lparr>am_abilities := Some (no_abilities\<lparr>ab_vision := Some True\<rparr>),
       am_contextWindowTokens := Some 131072, am_description := Some (tx 740),
       am_displayName := Some ''Qwen2.5 VL 32B'', am_maxOutput := Some 8192,
       am_organization := Some ''Qwen'', am_pricing := Some (no_pricing\<lparr>price_currency := Some CNY,
       price_input := Some 8, price_output := Some 24\<rparr>), am_releasedAt := Some ''2025-03-24''\<rparr>,
     (model_of_type ''chat'' ''qwen2.5-vl-7b-instruct'')\<lparr>am_abilities := Some (no_abilities\<lparr>ab_vision := Some True\<rparr>),
       am_contextWindowTokens := Some 131072, am_description := Some (tx 759),
       am_displayName := Some ''Qwen2.5 VL 7B'', am_maxOutput := Some 8192,
       am_organization := Some ''Qwen'', am_pricing := Some (no_pricing\<lparr>price_currency := Some CNY,
       price_input := Some 2, price_output := Some 5\<rparr>), am_releasedAt := Some ''2025-01-27''\<rparr>,
     (model_of_type ''chat'' ''deepseek-r1'')\<lparr>am_abilities := Some (no_abilities\<lparr>ab_reasoning := Some True\<rparr>),
       am_contextWindowTokens := Some 65792, am_description := Some (tx 778),
       am_displayName := Some ''DeepSeek R1'', am_maxOutput := Some 8192,
       am_organization := Some ''DeepSeek'',
       am_pricing := Some (no_pricing\<lparr>price_currency := Some CNY, price_input := Some 4,
       price_output := Some 16\<rparr>), am_releasedAt := Some ''2025-01-27''\<rparr>,
     (model_of_type ''chat'' ''deepseek-v3'')\<lparr>am_contextWindowTokens := Some 65792,
       am_description := Some (tx 794), am_displayName := Some ''DeepSeek V3'',
       am_maxOutput := Some 8192, am_organization := Some ''DeepSeek'',
       am_pricing := Some (no_pricing\<lparr>price_currency := Some CNY, price_input := Some 2,
       price_output := Some 8\<rparr>), am_releasedAt := Some ''2025-01-27''\<rparr>,
     (model_of_type ''chat'' ''deepseek-r1-distill-qwen-1.5b'')\<lparr>am_abilities := Some (no_abilities\<lparr>ab_reasoning := Some True\<rparr>),
       am_contextWindowTokens := Some 32768, am_description := Some (tx 813),
       am_displayName := Some ''DeepSeek R1 Distill Qwen 1.5B'', am_maxOutput := Some 16384,
       am_organization := Some ''DeepSeek'',
       am_pricing := Some (no_pricing\<lparr>price_currency := Some CNY, price_input := Some 0,
       price_output := Some 0\<rparr>)\<rparr>,
     (model_of_type ''chat'' ''deepseek-r1-distill-qwen-7b'')\<lparr>am_abilities := Some (no_abilities\<lparr>ab_reasoning := Some True\<rparr>),
       am_contextWindowTokens := Some 32768, am_description := Some (tx 831),
       am_displayName := Some ''DeepSeek R1 Distill Qwen 7B'', am_maxOutput := Some 16384,
       am_organization := Some ''DeepSeek'',
       am_pricing := Some (no_pricing\<lparr>price_currency := Some CNY, price_input := Some 0.5,
       price_output := Some 1\<rparr>)\<rparr>,
     (model_of_type ''chat'' ''deepseek-r1-distill-qwen-14b'')\<lparr>am_abilities := Some (no_abilities\<lparr>ab_reasoning := Some True\<rparr>),
       am_contextWindowTokens := Some 32768, am_description := Some (tx 849),
       am_displayName := Some ''DeepSeek R1 Distill Qwen 14B'', am_maxOutput := Some 16384,
       am_organization := Some ''DeepSeek'',
       am_pricing := Some (no_pricing\<lparr>price_currency := Some CNY, price_input := Some 1,
       price_output := Some 3\<rparr>)\<rparr>]"

definition qwenChatModels_7 :: "texts \<Rightarrow> ai_model list" where
  [card_tables]: "qwenChatModels_7 tx = [
     (model_of_type ''chat'' ''deepseek-r1-distill-qwen-32b'')\<lparr>am_abilities := Some (no_abilities\<lparr>ab_reasoning := Some True\<rparr>),
       am_contextWindowTokens := Some 32768, am_description := Some (tx 867),
       am_displayName := Some ''DeepSeek R1 Distill Qwen 32B'', am_maxOutput := Some 16384,
       am_organization := Some ''DeepSeek'',
       am_pricing := Some (no_pricing\<lparr>price_currency := Some CNY, price_input := Some 2,
       price_output := Some 6\<rparr>)\<rparr>,
     (model_of_type ''chat'' ''deepseek-r1-distill-llama-8b'')\<lparr>am_abilities := Some (no_abilities\<lparr>ab_reasoning := Some True\<rparr>),
       am_contextWindowTokens := Some 32768, am_description := Some (tx 885),
       am_displayName := Some ''DeepSeek R1 Distill Llama 8B'', am_maxOutput := Some 16384,
       am_organization := Some ''DeepSeek'',
       am_pricing := Some (no_pricing\<lparr>price_currency := Some CNY, price_input := Some 0,
       price_output := Some 0\<rparr>)\<rparr>,
     (model_of_type ''chat'' ''deepseek-r1-distill-llama-70b'')\<lparr>am_abilities := Some (no_abilities\<lparr>ab_reasoning := Some True\<rparr>),
       am_contextWindowTokens := Some 32768, am_description := Some (tx 903),
       am_displayName := Some ''DeepSeek R1 Distill Llama 70B'', am_maxOutput := Some 16384,
       am_organization := Some ''DeepSeek'',
       am_pricing := Some (no_pricing\<lparr>price_currency := Some CNY, price_input := Some 0,
       price_output := Some 0\<rparr>)\<rparr>]"

definition qwenChatModels :: "texts \<Rightarrow> ai_model list" where
  [card_tables]: "qwenChatModels tx =
     qwenChatModels_1 tx @ qwenChatModels_2 tx @ qwenChatModels_3 tx @ qwenChatModels_4 tx @
     qwenChatModels_5 tx @ qwenChatModels_6 tx @ qwenChatModels_7 tx"

section \<open>sambanova\<close>

definition sambanovaChatModels_1 :: "texts \<Rightarrow> ai_model list" where
  [card_tables]: "sambanovaChatModels_1 tx = [
     (model_of_type ''chat'' ''Meta-Llama-3.3-70B-Instruct'')\<lparr>am_abilities := Some (no_abilities\<lparr>ab_functionCall := Some True\<rparr>),
       am_contextWindowTokens := Some 16000, am_description := Some (tx 10),
       am_displayName := Some ''Meta Llama 3.3 70B Instruct'', am_enabled := Some True,
       am_pricing := Some (no_pricing\<lparr>price_input := Some 0.6, price_output := Some 1.2\<rparr>)\<rparr>,
     (model_of_type ''chat'' ''Meta-Llama-3.2-1B-Instruct'')\<lparr>am_contextWindowTokens := Some 16000,
       am_description := Some (tx 22), am_displayName := Some ''Meta Llama 3.2 1B Instruct'',
       am_pricing := Some (no_pricing\<lparr>price_input := Some 0.04, price_output := Some 0.08\<rparr>)\<rparr>,
     (model_of_type ''chat'' ''Meta-Llama-3.2-3B-Instruct'')\<lparr>am_contextWindowTokens := Some 8000,
       am_description := Some (tx 33), am_displayName := Some ''Meta Llama 3.2 3B Instruct'',
       am_pricing := Some (no_pricing\<lparr>price_input := Some 0.08, price_output := Some 0.16\<rparr>)\<rparr>,
     (model_of_type ''chat'' ''Llama-3.2-11B-Vision-Instruct'')\<lparr>am_abilities := Some (no_abilities\<lparr>ab_vision := Some True\<rparr>),
       am_contextWindowTokens := Some 4000, am_description := Some (tx 47),
       am_displayName := Some ''Meta Llama 3.2 11B Vision Instruct'', am_enabled := Some True,
       am_pricing := Some (no_pricing\<lparr>price_input := Some 0.15, price_output := Some 0.3\<rparr>)\<rparr>,
     (model_of_type ''chat'' ''Llama-3.2-90B-Vision-Instruct	'')\<lparr>am_abilities := Some (no_abilities\<lparr>ab_vision := Some True\<rparr>),
       am_contextWindowTokens := Some 4000, am_description := Some (tx 62),
       am_displayName := Some ''Meta Llama 3.2 90B Vision Instruct'', am_enabled := Some True,
       am_pricing := Some (no_pricing\<lparr>price_input := Some 0.8, price_output := Some 1.6\<rparr>)\<rparr>,
     (model_of_type ''chat'' ''Meta-Llama-3.1-8B-Instruct'')\<lparr>am_abilities := Some (no_abilities\<lparr>ab_functionCall := Some True\<rparr>),
       am_contextWindowTokens := Some 16000, am_description := Some (tx 78),
       am_displayName := Some ''Meta Llama 3.1 8B Instruct'',
       am_pricing := Some (no_pricing\<lparr>price_input := Some 0.1, price_output := Some 0.2\<rparr>)\<rparr>,
     (model_of_type ''chat'' ''Meta-Llama-3.1-70B-Instruct'')\<lparr>am_abilities := Some (no_abilities\<lparr>ab_functionCall := Some True\<rparr>),
       am_contextWindowTokens := Some 128000, am_description := Some (tx 93),
       am_displayName := Some ''Meta Llama 3.1 70B Instruct'',
       am_pricing := Some (no_pricing\<lparr>price_input := Some 0.6, price_output := Some 1.2\<rparr>)\<rparr>,
     (model_of_type ''chat'' ''Meta-Llama-3.1-405B-Instruct'')\<lparr>am_abilities := Some (no_abilities\<lparr>ab_functionCall := Some True\<rparr>),
       am_contextWindowTokens := Some 16000, am_description := Some (tx 108),
       am_displayName := Some ''Meta Llama 3.1 405B Instruct'',
       am_pricing := Some (no_pricing\<lparr>price_input := Some 5, price_output := Some 10\<rparr>)\<rparr>,
     (model_of_type ''chat'' ''Llama-3.1-Tulu-3-405B'')\<lparr>am_contextWindowTokens := Some 16000,
       am_displayName := Some ''Llama 3.1 Tulu 3 405B'',
       am_pricing := Some (no_pricing\<lparr>price_input := Some 0.7, price_output := Some 1.4\<rparr>)\<rparr>,
     (model_of_type ''chat'' ''DeepSeek-R1'')\<lparr>am_abilities := Some (no_abilities\<lparr>ab_reasoning := Some True\<rparr>),
       am_contextWindowTokens := Some 4000, am_description := Some (tx 132),
       am_displayName := Some ''DeepSeek R1'', am_pricing := Some (no_pricing\<lparr>price_input := Some 5,
       price_output := Some 7\<rparr>)\<rparr>]"

definition sambanovaChatModels_2 :: "texts \<Rightarrow> ai_model list" where
  [card_tables]: "sambanovaChatModels_2 tx = [
     (model_of_type ''chat'' ''DeepSeek-R1-Distill-Llama-70B'')\<lparr>am_abilities := Some (no_abilities\<lparr>ab_reasoning := Some True\<rparr>),
       am_contextWindowTokens := Some 32000, am_description := Some (tx 147),
       am_displayName := Some ''DeepSeek R1 Distill Llama 70B'', am_enabled := Some True,
       am_pricing := Some (no_pricing\<lparr>price_input := Some 0.7, price_output := Some 1.4\<rparr>)\<rparr>,
     (model_of_type ''chat'' ''QwQ-32B-Preview'')\<lparr>am_abilities := Some (no_abilities\<lparr>ab_reasoning := Some True\<rparr>),
       am_contextWindowTokens := Some 16000, am_description := Some (tx 162),
       am_displayName := Some ''QwQ 32B Preview'', am_enabled := Some True,
       am_pricing := Some (no_pricing\<lparr>price_input := Some 1.5, price_output := Some 3\<rparr>)\<rparr>,
     (model_of_type ''chat'' ''Qwen2.5-72B-Instruct'')\<lparr>am_contextWindowTokens := Some 16000,
       am_description := Some (tx 174), am_displayName := Some ''Qwen2.5 72B Instruct'',
       am_enabled := Some True, am_pricing := Some (no_pricing\<lparr>price_input := Some 2,
       price_output := Some 4\<rparr>)\<rparr>,
     (model_of_type ''chat'' ''Qwen2.5-Coder-32B-Instruct'')\<lparr>am_contextWindowTokens := Some 16000,
       am_description := Some (tx 186), am_displayName := Some ''Qwen2.5 Coder 32B Instruct'',
       am_enabled := Some True, am_pricing := Some (no_pricing\<lparr>price_input := Some 1.5,
       price_output := Some 3\<rparr>)\<rparr>]"

definition sambanovaChatModels :: "texts \<Rightarrow> ai_model list" where
  [card_tables]: "sambanovaChatModels tx =
     sambanovaChatModels_1 tx @ sambanovaChatModels_2 tx"

section \<open>search1api\<close>

definition search1apiChatModels :: "texts \<Rightarrow> ai_model list" where
  [card_tables]: "search1apiChatModels tx = [
     (model_of_type ''chat'' ''deepseek-r1-70b-online'')\<lparr>am_abilities := Some (no_abilities\<lparr>ab_reasoning := Some True,
       ab_search := Some True\<rparr>), am_contextWindowTokens := Some 131072,
       am_description := Some (tx 10), am_displayName := Some ''DeepSeek R1 70B'',
       am_enabled := Some True, am_maxOutput := Some 16384\<rparr>,
     (model_of_type ''chat'' ''deepseek-r1-online'')\<lparr>am_abilities := Some (no_abilities\<lparr>ab_reasoning := Some True,
       ab_search := Some True\<rparr>), am_contextWindowTokens := Some 65536,
       am_description := Some (tx 24), am_displayName := Some ''DeepSeek R1'',
       am_enabled := Some True, am_maxOutput := Some 8192\<rparr>,
     (model_of_type ''chat'' ''deepseek-r1-70b-fast-online'')\<lparr>am_abilities := Some (no_abilities\<lparr>ab_reasoning := Some True,
       ab_search := Some True\<rparr>), am_contextWindowTokens := Some 131072,
       am_description := Some (tx 38), am_displayName := Some ''DeepSeek R1 70B Fast'',
       am_enabled := Some True, am_maxOutput := Some 16384\<rparr>,
     (model_of_type ''chat'' ''deepseek-r1-fast-online'')\<lparr>am_abilities := Some (no_abilities\<lparr>ab_reasoning := Some True,
       ab_search := Some True\<rparr>), am_contextWindowTokens := Some 163840,
       am_description := Some (tx 52), am_displayName := Some ''DeepSeek R1 Fast'',
       am_enabled := Some True, am_maxOutput := Some 16384\<rparr>]"

section \<open>sensenova\<close>

definition sensenovaChatModels_1 :: "texts \<Rightarrow> ai_model list" where
  [card_tables]: "sensenovaChatModels_1 tx = [
     (model_of_type ''chat'' ''SenseNova-V6-Reasoner'')\<lparr>am_abilities := Some (no_abilities\<lparr>ab_reasoning := Some True,
       ab_vision := Some True\<rparr>), am_contextWindowTokens := Some 32768,
       am_description := Some (tx 13), am_displayName := Some ''SenseNova V6 Reasoner'',
       am_enabled := Some True, am_pricing := Some (no_pricing\<lparr>price_currency := Some CNY,
       price_input := Some 4, price_output := Some 16\<rparr>), am_releasedAt := Some ''2025-04-14''\<rparr>,
     (model_of_type ''chat'' ''SenseNova-V6-Turbo'')\<lparr>am_abilities := Some (no_abilities\<lparr>ab_vision := Some True\<rparr>),
       am_contextWindowTokens := Some 32768, am_description := Some (tx 31),
       am_displayName := Some ''SenseNova V6 Turbo'', am_enabled := Some True,
       am_pricing := Some (no_pricing\<lparr>price_currency := Some CNY, price_input := Some 1.5,
       price_output := Some 4.5\<rparr>), am_releasedAt := Some ''2025-04-14''\<rparr>,
     (model_of_type ''chat'' ''SenseNova-V6-Pro'')\<lparr>am_abilities := Some (no_abilities\<lparr>ab_vision := Some True\<rparr>),
       am_contextWindowTokens := Some 32768, am_description := Some (tx 49),
       am_displayName := Some ''SenseNova V6 Pro'', am_enabled := Some True,
       am_pricing := Some (no_pricing\<lparr>price_currency := Some CNY, price_input := Some 3,
       price_output := Some 9\<rparr>), am_releasedAt := Some ''2025-04-14''\<rparr>,
     (model_of_type ''chat'' ''SenseChat-5-beta'')\<lparr>am_contextWindowTokens := Some 32768,
       am_description := Some (tx 63), am_displayName := Some ''SenseChat 5.5 Beta'',
       am_pricing := Some (no_pricing\<lparr>price_currency := Some CNY, price_input := Some 8,
       price_output := Some 20\<rparr>)\<rparr>,
     (model_of_type ''chat'' ''SenseCat-5-1202'')\<lparr>am_abilities := Some (no_abilities\<lparr>ab_functionCall := Some True\<rparr>),
       am_contextWindowTokens := Some 32768, am_description := Some (tx 79),
       am_displayName := Some ''SenseChat 5.5 1202'',
       am_pricing := Some (no_pricing\<lparr>price_currency := Some CNY, price_input := Some 8,
       price_output := Some 20\<rparr>), am_releasedAt := Some ''2024-12-30''\<rparr>,
     (model_of_type ''chat'' ''SenseChat-Turbo-1202'')\<lparr>am_abilities := Some (no_abilities\<lparr>ab_functionCall := Some True\<rparr>),
       am_contextWindowTokens := Some 32768, am_description := Some (tx 95),
       am_displayName := Some ''SenseChat Turbo 1202'',
       am_pricing := Some (no_pricing\<lparr>price_currency := Some CNY, price_input := Some 0.3,
       price_output := Some 0.6\<rparr>), am_releasedAt := Some ''2024-12-30''\<rparr>,
     (model_of_type ''chat'' ''SenseChat-5'')\<lparr>am_abilities := Some (no_abilities\<lparr>ab_functionCall := Some True\<rparr>),
       am_contextWindowTokens := Some 131072, am_description := Some (tx 112),
       am_displayName := Some ''SenseChat 5.5'', am_maxOutput := Some 131072,
       am_pricing := Some (no_pricing\<lparr>price_currency := Some CNY, price_input := Some 8,
       price_output := Some 20\<rparr>)\<rparr>,
     (model_of_type ''chat'' ''SenseChat-Vision'')\<lparr>am_abilities := Some (no_abilities\<lparr>ab_vision := Some True\<rparr>),
       am_contextWindowTokens := Some 16384, am_description := Some (tx 129),
       am_displayName := Some ''SenseChat 5.5 Vision'', am_maxOutput := Some 16384,
       am_pricing := Some (no_pricing\<lparr>price_currency := Some CNY, price_input := Some 10,
       price_output := Some 60\<rparr>), am_releasedAt := Some ''2024-09-12''\<rparr>,
     (model_of_type ''chat'' ''SenseChat-Turbo'')\<lparr>am_abilities := Some (no_abilities\<lparr>ab_functionCall := Some True\<rparr>),
       am_contextWindowTokens := Some 32768, am_description := Some (tx 146),
       am_displayName := Some ''SenseChat 5.0 Turbo'', am_maxOutput := Some 32768,
       am_pricing := Some (no_pricing\<lparr>price_currency := Some CNY, price_input := Some 0.3,
       price_output := Some 0.6\<rparr>)\<rparr>]"

definition sensenovaChatModels_2 :: "texts \<Rightarrow> ai_model list" where
  [card_tables]: "sensenovaChatModels_2 tx = [
     (model_of_type ''chat'' ''SenseChat-128K'')\<lparr>am_contextWindowTokens := Some 131072,
       am_description := Some (tx 159), am_displayName := Some ''SenseChat 4.0 128K'',
       am_maxOutput := Some 131072, am_pricing := Some (no_pricing\<lparr>price_currency := Some CNY,
       price_input := Some 60, price_output := Some 60\<rparr>)\<rparr>,
     (model_of_type ''chat'' ''SenseChat-32K'')\<lparr>am_contextWindowTokens := Some 32768,
       am_description := Some (tx 172), am_displayName := Some ''SenseChat 4.0 32K'',
       am_maxOutput := Some 32768, am_pricing := Some (no_pricing\<lparr>price_currency := Some CNY,
       price_input := Some 36, price_output := Some 36\<rparr>)\<rparr>,
     (model_of_type ''chat'' ''SenseChat'')\<lparr>am_contextWindowTokens := Some 4096,
       am_description := Some (tx 185), am_displayName := Some ''SenseChat 4.0 4K'',
       am_maxOutput := Some 4096, am_pricing := Some (no_pricing\<lparr>price_currency := Some CNY,
       price_input := Some 12, price_output := Some 12\<rparr>)\<rparr>,
     (model_of_type ''chat'' ''SenseChat-5-Cantonese'')\<lparr>am_contextWindowTokens := Some 32768,
       am_description := Some (tx 199), am_displayName := Some ''SenseChat 5.0 Cantonese'',
       am_maxOutput := Some 32768, am_pricing := Some (no_pricing\<lparr>price_currency := Some CNY,
       price_input := Some 27, price_output := Some 27\<rparr>)\<rparr>,
     (model_of_type ''chat'' ''SenseChat-Character'')\<lparr>am_contextWindowTokens := Some 8192,
       am_description := Some (tx 212), am_displayName := Some ''SenseChat Character'',
       am_maxOutput := Some 1024, am_pricing := Some (no_pricing\<lparr>price_currency := Some CNY,
       price_input := Some 12, price_output := Some 12\<rparr>)\<rparr>,
     (model_of_type ''chat'' ''SenseChat-Character-Pro'')\<lparr>am_contextWindowTokens := Some 32768,
       am_description := Some (tx 225), am_displayName := Some ''SenseChat Character Pro'',
       am_maxOutput := Some 4096, am_pricing := Some (no_pricing\<lparr>price_currency := Some CNY,
       price_input := Some 15, price_output := Some 15\<rparr>)\<rparr>,
     (model_of_type ''chat'' ''DeepSeek-V3'')\<lparr>am_contextWindowTokens := Some 32768,
       am_description := Some (tx 239), am_displayName := Some ''DeepSeek V3'',
       am_pricing := Some (no_pricing\<lparr>price_currency := Some CNY, price_input := Some 2,
       price_output := Some 8\<rparr>)\<rparr>,
     (model_of_type ''chat'' ''DeepSeek-R1'')\<lparr>am_abilities := Some (no_abilities\<lparr>ab_reasoning := Some True\<rparr>),
       am_contextWindowTokens := Some 32768, am_description := Some (tx 255),
       am_displayName := Some ''DeepSeek R1'',
       am_pricing := Some (no_pricing\<lparr>price_currency := Some CNY, price_input := Some 4,
       price_output := Some 16\<rparr>)\<rparr>,
     (model_of_type ''chat'' ''DeepSeek-R1-Distill-Qwen-14B'')\<lparr>am_abilities := Some (no_abilities\<lparr>ab_reasoning := Some True\<rparr>),
       am_contextWindowTokens := Some 32768, am_description := Some (tx 271),
       am_displayName := Some ''DeepSeek R1 Distill Qwen 14B'',
       am_pricing := Some (no_pricing\<lparr>price_currency := Some CNY, price_input := Some 0,
       price_output := Some 0\<rparr>)\<rparr>,
     (model_of_type ''chat'' ''DeepSeek-R1-Distill-Qwen-32B'')\<lparr>am_abilities := Some (no_abilities\<lparr>ab_reasoning := Some True\<rparr>),
       am_contextWindowTokens := Some 8192, am_description := Some (tx 287),
       am_displayName := Some ''DeepSeek R1 Distill Qwen 32B'',
       am_pricing := Some (no_pricing\<lparr>price_currency := Some CNY, price_input := Some 0,
       price_output := Some 0\<rparr>)\<rparr>]"

definition sensenovaChatModels :: "texts \<Rightarrow> ai_model list" where
  [card_tables]: "sensenovaChatModels tx =
     sensenovaChatModels_1 tx @ sensenovaChatModels_2 tx"

end
