(* ===== verification/Model_Data_D.thy ===== *)
theory Model_Data_D
  imports Llm_Providers
begin

text \<open>
  The model cards of \<open>src/web/src/config/ai-models\<close>, the files \<open>siliconcloud.ts\<close> to \<open>zhipu.ts\<close>. A card
  is written as the update of a card without optional members, with the members in the order of
  the source; \<open>tx n\<close> is the text that stands on line \<open>n\<close> of the file and has characters outside
  the 8-bit ones of \<open>char\<close>. A list of more than 150 lines is cut into numbered pieces.
\<close>

section \<open>siliconcloud\<close>

definition siliconcloudChatModels_1 :: "texts \<Rightarrow> ai_model list" where
  [card_tables]: "siliconcloudChatModels_1 tx = [
     (model_of_type ''chat'' ''Qwen/Qwen3-235B-A22B'')\<lparr>am_abilities := Some (no_abilities\<lparr>ab_functionCall := Some True,
       ab_reasoning := Some True\<rparr>), am_contextWindowTokens := Some 131072,
       am_description := Some (tx 13), am_displayName := Some ''Qwen3 235B A22B'',
       am_organization := Some ''Qwen'', am_pricing := Some (no_pricing\<lparr>price_currency := Some CNY,
       price_input := Some 1.25, price_output := Some 5\<rparr>), am_releasedAt := Some ''2025-04-28'',
       am_settings := Some (no_settings\<lparr>ms_extendParams := Some [''enableReasoning'', ''reasoningBudgetToken'']\<rparr>)\<rparr>,
     (model_of_type ''chat'' ''Qwen/Qwen3-32B'')\<lparr>am_abilities := Some (no_abilities\<lparr>ab_functionCall := Some True,
       ab_reasoning := Some True\<rparr>), am_contextWindowTokens := Some 131072,
       am_description := Some (tx 35), am_displayName := Some ''Qwen3 32B'',
       am_organization := Some ''Qwen'', am_pricing := Some (no_pricing\<lparr>price_currency := Some CNY,
       price_input := Some 0.5, price_output := Some 2\<rparr>), am_releasedAt := Some ''2025-04-28'',
       am_settings := Some (no_settings\<lparr>ms_extendParams := Some [''enableReasoning'', ''reasoningBudgetToken'']\<rparr>)\<rparr>,
     (model_of_type ''chat'' ''Qwen/Qwen3-30B-A3B'')\<lparr>am_abilities := Some (no_abilities\<lparr>ab_functionCall := Some True,
       ab_reasoning := Some True\<rparr>), am_contextWindowTokens := Some 131072,
       am_description := Some (tx 57), am_displayName := Some ''Qwen3 30B A3B'',
       am_organization := Some ''Qwen'', am_pricing := Some (no_pricing\<lparr>price_currency := Some CNY,
       price_input := Some 0.35, price_output := Some 1.4\<rparr>), am_releasedAt := Some ''2025-04-28'',
       am_settings := Some (no_settings\<lparr>ms_extendParams := Some [''enableReasoning'', ''reasoningBudgetToken'']\<rparr>)\<rparr>,
     (model_of_type ''chat'' ''Qwen/Qwen3-14B'')\<lparr>am_abilities := Some (no_abilities\<lparr>ab_functionCall := Some True,
       ab_reasoning := Some True\<rparr>), am_contextWindowTokens := Some 131072,
       am_description := Some (tx 79), am_displayName := Some ''Qwen3 14B'',
       am_organization := Some ''Qwen'', am_pricing := Some (no_pricing\<lparr>price_currency := Some CNY,
       price_input := Some 0.25, price_output := Some 1\<rparr>), am_releasedAt := Some ''2025-04-28'',
       am_settings := Some (no_settings\<lparr>ms_extendParams := Some [''enableReasoning'', ''reasoningBudgetToken'']\<rparr>)\<rparr>,
     (model_of_type ''chat'' ''Qwen/Qwen3-8B'')\<lparr>am_abilities := Some (no_abilities\<lparr>ab_functionCall := Some True,
       ab_reasoning := Some True\<rparr>), am_contextWindowTokens := Some 131072,
       am_description := Some (tx 101), am_displayName := Some ''Qwen3 8B'',
       am_enabled := Some True, am_organization := Some ''Qwen'',
       am_pricing := Some (no_pricing\<lparr>price_currency := Some CNY, price_input := Some 0,
       price_output := Some 0\<rparr>), am_releasedAt := Some ''2025-04-28'',
       am_settings := Some (no_settings\<lparr>ms_extendParams := Some [''enableReasoning'', ''reasoningBudgetToken'']\<rparr>)\<rparr>,
     (model_of_type ''chat'' ''THUDM/GLM-Z1-Rumination-32B-0414'')\<lparr>am_abilities := Some (no_abilities\<lparr>ab_reasoning := Some True\<rparr>),
       am_contextWindowTokens := Some 32768, am_description := Some (tx 123),
       am_displayName := Some ''GLM-Z1-Rumination 32B 0414'',
       am_pricing := Some (no_pricing\<lparr>price_currency := Some CNY, price_input := Some 1,
       price_output := Some 4\<rparr>)\<rparr>,
     (model_of_type ''chat'' ''THUDM/GLM-Z1-32B-0414'')\<lparr>am_abilities := Some (no_abilities\<lparr>ab_functionCall := Some True,
       ab_reasoning := Some True\<rparr>), am_contextWindowTokens := Some 32768,
       am_description := Some (tx 140), am_displayName := Some ''GLM-Z1 32B 0414'',
       am_pricing := Some (no_pricing\<lparr>price_currency := Some CNY, price_input := Some 1,
       price_output := Some 4\<rparr>)\<rparr>]"

definition siliconcloudChatModels_2 :: "texts \<Rightarrow> ai_model list" where
  [card_tables]: "siliconcloudChatModels_2 tx = [
     (model_of_type ''chat'' ''THUDM/GLM-Z1-9B-0414'')\<lparr>am_abilities := Some (no_abilities\<lparr>ab_functionCall := Some True,
       ab_reasoning := Some True\<rparr>), am_contextWindowTokens := Some 32768,
       am_description := Some (tx 157), am_displayName := Some ''GLM-Z1 9B 0414'',
       am_enabled := Some True, am_pricing := Some (no_pricing\<lparr>price_currency := Some CNY,
       price_input := Some 0, price_output := Some 0\<rparr>)\<rparr>,
     (model_of_type ''chat'' ''THUDM/GLM-4-32B-0414'')\<lparr>am_abilities := Some (no_abilities\<lparr>ab_functionCall := Some True\<rparr>),
       am_contextWindowTokens := Some 32768, am_description := Some (tx 174),
       am_displayName := Some ''GLM-4 32B 0414'',
       am_pricing := Some (no_pricing\<lparr>price_currency := Some CNY, price_input := Some 1.89,
       price_output := Some 1.89\<rparr>)\<rparr>,
     (model_of_type ''chat'' ''THUDM/GLM-4-9B-0414'')\<lparr>am_abilities := Some (no_abilities\<lparr>ab_functionCall := Some True\<rparr>),
       am_contextWindowTokens := Some 32768, am_description := Some (tx 190),
       am_displayName := Some ''GLM-4 9B 0414'', am_enabled := Some True,
       am_pricing := Some (no_pricing\<lparr>price_currency := Some CNY, price_input := Some 0,
       price_output := Some 0\<rparr>)\<rparr>,
     (model_of_type ''chat'' ''deepseek-ai/DeepSeek-R1'')\<lparr>am_abilities := Some (no_abilities\<lparr>ab_reasoning := Some True\<rparr>),
       am_contextWindowTokens := Some 65536, am_description := Some (tx 207),
       am_displayName := Some ''DeepSeek R1'',
       am_pricing := Some (no_pricing\<lparr>price_currency := Some CNY, price_input := Some 4,
       price_output := Some 16\<rparr>)\<rparr>,
     (model_of_type ''chat'' ''deepseek-ai/DeepSeek-V3'')\<lparr>am_abilities := Some (no_abilities\<lparr>ab_functionCall := Some True\<rparr>),
       am_contextWindowTokens := Some 65536, am_description := Some (tx 223),
       am_displayName := Some ''DeepSeek V3'',
       am_pricing := Some (no_pricing\<lparr>price_currency := Some CNY, price_input := Some 2,
       price_output := Some 8\<rparr>)\<rparr>,
     (model_of_type ''chat'' ''Pro/deepseek-ai/DeepSeek-R1'')\<lparr>am_abilities := Some (no_abilities\<lparr>ab_reasoning := Some True\<rparr>),
       am_contextWindowTokens := Some 65536, am_description := Some (tx 239),
       am_displayName := Some ''DeepSeek R1 (Pro)'',
       am_pricing := Some (no_pricing\<lparr>price_currency := Some CNY, price_input := Some 4,
       price_output := Some 16\<rparr>)\<rparr>,
     (model_of_type ''chat'' ''Pro/deepseek-ai/DeepSeek-V3'')\<lparr>am_abilities := Some (no_abilities\<lparr>ab_functionCall := Some True\<rparr>),
       am_contextWindowTokens := Some 65536, am_description := Some (tx 255),
       am_displayName := Some ''DeepSeek V3 (Pro)'',
       am_pricing := Some (no_pricing\<lparr>price_currency := Some CNY, price_input := Some 2,
       price_output := Some 8\<rparr>)\<rparr>,
     (model_of_type ''chat'' ''Pro/deepseek-ai/DeepSeek-V3-1226'')\<lparr>am_abilities := Some (no_abilities\<lparr>ab_functionCall := Some True\<rparr>),
       am_contextWindowTokens := Some 65536, am_description := Some (tx 271),
       am_displayName := Some ''DeepSeek V3 1226 (Pro)'',
       am_pricing := Some (no_pricing\<lparr>price_currency := Some CNY, price_input := Some 2,
       price_output := Some 8\<rparr>)\<rparr>,
     (model_of_type ''chat'' ''deepseek-ai/DeepSeek-R1-Distill-Qwen-32B'')\<lparr>am_abilities := Some (no_abilities\<lparr>ab_functionCall := Some True,
       ab_reasoning := Some True\<rparr>), am_contextWindowTokens := Some 32768,
       am_description := Some (tx 288), am_displayName := Some ''DeepSeek R1 Distill Qwen 32B'',
       am_pricing := Some (no_pricing\<lparr>price_currency := Some CNY, price_input := Some 1.26,
       price_output := Some 1.26\<rparr>)\<rparr>]"

definition siliconcloudChatModels_3 :: "texts \<Rightarrow> ai_model list" where
  [card_tables]: "siliconcloudChatModels_3 tx = [
     (model_of_type ''chat'' ''deepseek-ai/DeepSeek-R1-Distill-Qwen-14B'')\<lparr>am_abilities := Some (no_abilities\<lparr>ab_functionCall := Some True,
       ab_reasoning := Some True\<rparr>), am_contextWindowTokens := Some 32768,
       am_description := Some (tx 305), am_displayName := Some ''DeepSeek R1 Distill Qwen 14B'',
       am_pricing := Some (no_pricing\<lparr>price_currency := Some CNY, price_input := Some 0.7,
       price_output := Some 0.7\<rparr>)\<rparr>,
     (model_of_type ''chat'' ''deepseek-ai/DeepSeek-R1-Distill-Qwen-7B'')\<lparr>am_abilities := Some (no_abilities\<lparr>ab_functionCall := Some True,
       ab_reasoning := Some True\<rparr>), am_contextWindowTokens := Some 32768,
       am_description := Some (tx 322),
       am_displayName := Some ''DeepSeek R1 Distill Qwen 7B (Free)'',
       am_pricing := Some (no_pricing\<lparr>price_currency := Some CNY, price_input := Some 0,
       price_output := Some 0\<rparr>)\<rparr>,
     (model_of_type ''chat'' ''deepseek-ai/DeepSeek-R1-Distill-Qwen-1.5B'')\<lparr>am_abilities := Some (no_abilities\<lparr>ab_functionCall := Some True,
       ab_reasoning := Some True\<rparr>), am_contextWindowTokens := Some 32768,
       am_description := Some (tx 339),
       am_displayName := Some ''DeepSeek-R1-Distill-Qwen-1.5B (Free)'',
       am_pricing := Some (no_pricing\<lparr>price_currency := Some CNY, price_input := Some 0,
       price_output := Some 0\<rparr>)\<rparr>,
     (model_of_type ''chat'' ''Pro/deepseek-ai/DeepSeek-R1-Distill-Qwen-7B'')\<lparr>am_abilities := Some (no_abilities\<lparr>ab_functionCall := Some True,
       ab_reasoning := Some True\<rparr>), am_contextWindowTokens := Some 32768,
       am_description := Some (tx 356),
       am_displayName := Some ''DeepSeek R1 Distill Qwen 7B (Pro)'',
       am_pricing := Some (no_pricing\<lparr>price_currency := Some CNY, price_input := Some 0.35,
       price_output := Some 0.35\<rparr>)\<rparr>,
     (model_of_type ''chat'' ''Pro/deepseek-ai/DeepSeek-R1-Distill-Qwen-1.5B'')\<lparr>am_abilities := Some (no_abilities\<lparr>ab_functionCall := Some True,
       ab_reasoning := Some True\<rparr>), am_contextWindowTokens := Some 32768,
       am_description := Some (tx 373),
       am_displayName := Some ''DeepSeek-R1-Distill-Qwen-1.5B (Pro)'',
       am_pricing := Some (no_pricing\<lparr>price_currency := Some CNY, price_input := Some 0.14,
       price_output := Some 0.14\<rparr>)\<rparr>,
     (model_of_type ''chat'' ''deepseek-ai/DeepSeek-V2.5'')\<lparr>am_abilities := Some (no_abilities\<lparr>ab_functionCall := Some True\<rparr>),
       am_contextWindowTokens := Some 32768, am_description := Some (tx 389),
       am_displayName := Some ''DeepSeek V2.5'',
       am_pricing := Some (no_pricing\<lparr>price_currency := Some CNY, price_input := Some 1.33,
       price_output := Some 1.33\<rparr>)\<rparr>,
     (model_of_type ''chat'' ''deepseek-ai/deepseek-vl2'')\<lparr>am_abilities := Some (no_abilities\<lparr>ab_vision := Some True\<rparr>),
       am_contextWindowTokens := Some 4096, am_description := Some (tx 405),
       am_displayName := Some ''DeepSeek VL2'',
       am_pricing := Some (no_pricing\<lparr>price_currency := Some CNY, price_input := Some 0.99,
       price_output := Some 0.99\<rparr>)\<rparr>,
     (model_of_type ''chat'' ''Qwen/QVQ-72B-Preview'')\<lparr>am_abilities := Some (no_abilities\<lparr>ab_reasoning := Some True,
       ab_vision := Some True\<rparr>), am_contextWindowTokens := Some 32768,
       am_description := Some (tx 422), am_displayName := Some ''QVQ 72B Preview'',
       am_pricing := Some (no_pricing\<lparr>price_currency := Some CNY, price_input := Some 9.9,
       price_output := Some 9.9\<rparr>)\<rparr>]"

definition siliconcloudChatModels_4 :: "texts \<Rightarrow> ai_model list" where
  [card_tables]: "siliconcloudChatModels_4 tx = [
     (model_of_type ''chat'' ''Qwen/QwQ-32B'')\<lparr>am_abilities := Some (no_abilities\<lparr>ab_functionCall := Some True,
       ab_reasoning := Some True\<rparr>), am_contextWindowTokens := Some 32768,
       am_description := Some (tx 439), am_displayName := Some ''QwQ 32B'',
       am_pricing := Some (no_pricing\<lparr>price_currency := Some CNY, price_input := Some 1,
       price_output := Some 4\<rparr>)\<rparr>,
     (model_of_type ''chat'' ''Qwen/QwQ-32B-Preview'')\<lparr>am_abilities := Some (no_abilities\<lparr>ab_reasoning := Some True\<rparr>),
       am_contextWindowTokens := Some 32768, am_description := Some (tx 455),
       am_displayName := Some ''QwQ 32B Preview'',
       am_pricing := Some (no_pricing\<lparr>price_currency := Some CNY, price_input := Some 1.26,
       price_output := Some 1.26\<rparr>)\<rparr>,
     (model_of_type ''chat'' ''Qwen/Qwen2.5-7B-Instruct'')\<lparr>am_abilities := Some (no_abilities\<lparr>ab_functionCall := Some True\<rparr>),
       am_contextWindowTokens := Some 32768, am_description := Some (tx 471),
       am_displayName := Some ''Qwen2.5 7B Instruct (Free)'',
       am_pricing := Some (no_pricing\<lparr>price_currency := Some CNY, price_input := Some 0,
       price_output := Some 0\<rparr>)\<rparr>,
     (model_of_type ''chat'' ''Pro/Qwen/Qwen2.5-7B-Instruct'')\<lparr>am_abilities := Some (no_abilities\<lparr>ab_functionCall := Some True\<rparr>),
       am_contextWindowTokens := Some 32768, am_description := Some (tx 487),
       am_displayName := Some ''Qwen2.5 7B Instruct (Pro)'',
       am_pricing := Some (no_pricing\<lparr>price_currency := Some CNY, price_input := Some 0.35,
       price_output := Some 0.35\<rparr>)\<rparr>,
     (model_of_type ''chat'' ''Qwen/Qwen2.5-14B-Instruct'')\<lparr>am_abilities := Some (no_abilities\<lparr>ab_functionCall := Some True\<rparr>),
       am_contextWindowTokens := Some 32768, am_description := Some (tx 503),
       am_displayName := Some ''Qwen2.5 14B Instruct'',
       am_pricing := Some (no_pricing\<lparr>price_currency := Some CNY, price_input := Some 0.7,
       price_output := Some 0.7\<rparr>)\<rparr>,
     (model_of_type ''chat'' ''Qwen/Qwen2.5-32B-Instruct'')\<lparr>am_abilities := Some (no_abilities\<lparr>ab_functionCall := Some True\<rparr>),
       am_contextWindowTokens := Some 32768, am_description := Some (tx 519),
       am_displayName := Some ''Qwen2.5 32B Instruct'',
       am_pricing := Some (no_pricing\<lparr>price_currency := Some CNY, price_input := Some 1.26,
       price_output := Some 1.26\<rparr>)\<rparr>,
     (model_of_type ''chat'' ''Qwen/Qwen2.5-72B-Instruct'')\<lparr>am_abilities := Some (no_abilities\<lparr>ab_functionCall := Some True\<rparr>),
       am_contextWindowTokens := Some 32768, am_description := Some (tx 535),
       am_displayName := Some ''Qwen2.5 72B Instruct'',
       am_pricing := Some (no_pricing\<lparr>price_currency := Some CNY, price_input := Some 4.13,
       price_output := Some 4.13\<rparr>)\<rparr>,
     (model_of_type ''chat'' ''Vendor-A/Qwen/Qwen2.5-72B-Instruct'')\<lparr>am_abilities := Some (no_abilities\<lparr>ab_functionCall := Some True\<rparr>),
       am_contextWindowTokens := Some 32768, am_description := Some (tx 551),
       am_displayName := Some ''Qwen2.5 72B Instruct (Vendor-A)'',
       am_pricing := Some (no_pricing\<lparr>price_currency := Some CNY, price_input := Some 1,
       price_output := Some 1\<rparr>)\<rparr>,
     (model_of_type ''chat'' ''Qwen/Qwen2.5-72B-Instruct-128K'')\<lparr>am_abilities := Some (no_abilities\<lparr>ab_functionCall := Some True\<rparr>),
       am_contextWindowTokens := Some 131072, am_description := Some (tx 567),
       am_displayName := Some ''Qwen2.5 72B Instruct 128K'',
       am_pricing := Some (no_pricing\<lparr>price_currency := Some CNY, price_input := Some 4.13,
       price_output := Some 4.13\<rparr>)\<rparr>]"

definition siliconcloudChatModels_5 :: "texts \<Rightarrow> ai_model list" where
  [card_tables]: "siliconcloudChatModels_5 tx = [
     (model_of_type ''chat'' ''Qwen/Qwen2.5-Coder-7B-Instruct'')\<lparr>am_contextWindowTokens := Some 32768,
       am_description := Some (tx 580), am_displayName := Some ''Qwen2.5 Coder 7B Instruct (Free)'',
       am_pricing := Some (no_pricing\<lparr>price_currency := Some CNY, price_input := Some 0,
       price_output := Some 0\<rparr>)\<rparr>,
     (model_of_type ''chat'' ''Pro/Qwen/Qwen2.5-Coder-7B-Instruct'')\<lparr>am_contextWindowTokens := Some 32768,
       am_description := Some (tx 593), am_displayName := Some ''Qwen2.5 Coder 7B Instruct (Pro)'',
       am_pricing := Some (no_pricing\<lparr>price_currency := Some CNY, price_input := Some 0.35,
       price_output := Some 0.35\<rparr>)\<rparr>,
     (model_of_type ''chat'' ''Qwen/Qwen2.5-Coder-32B-Instruct'')\<lparr>am_contextWindowTokens := Some 32768,
       am_description := Some (tx 606), am_displayName := Some ''Qwen2.5 Coder 32B Instruct'',
       am_pricing := Some (no_pricing\<lparr>price_currency := Some CNY, price_input := Some 1.26,
       price_output := Some 1.26\<rparr>)\<rparr>,
     (model_of_type ''chat'' ''Qwen/Qwen2-1.5B-Instruct'')\<lparr>am_contextWindowTokens := Some 32768,
       am_description := Some (tx 619), am_displayName := Some ''Qwen2 1.5B Instruct (Free)'',
       am_pricing := Some (no_pricing\<lparr>price_currency := Some CNY, price_input := Some 0,
       price_output := Some 0\<rparr>)\<rparr>,
     (model_of_type ''chat'' ''Pro/Qwen/Qwen2-1.5B-Instruct'')\<lparr>am_contextWindowTokens := Some 32768,
       am_description := Some (tx 632), am_displayName := Some ''Qwen2 1.5B Instruct (Pro)'',
       am_pricing := Some (no_pricing\<lparr>price_currency := Some CNY, price_input := Some 0.14,
       price_output := Some 0.14\<rparr>)\<rparr>,
     (model_of_type ''chat'' ''Qwen/Qwen2-7B-Instruct'')\<lparr>am_contextWindowTokens := Some 32768,
       am_description := Some (tx 645), am_displayName := Some ''Qwen2 7B Instruct (Free)'',
       am_pricing := Some (no_pricing\<lparr>price_currency := Some CNY, price_input := Some 0,
       price_output := Some 0\<rparr>)\<rparr>,
     (model_of_type ''chat'' ''Pro/Qwen/Qwen2-7B-Instruct'')\<lparr>am_contextWindowTokens := Some 32768,
       am_description := Some (tx 658), am_displayName := Some ''Qwen2 7B Instruct (Pro)'',
       am_pricing := Some (no_pricing\<lparr>price_currency := Some CNY, price_input := Some 0.35,
       price_output := Some 0.35\<rparr>)\<rparr>,
     (model_of_type ''chat'' ''Pro/Qwen/Qwen2-VL-7B-Instruct'')\<lparr>am_abilities := Some (no_abilities\<lparr>ab_vision := Some True\<rparr>),
       am_contextWindowTokens := Some 32768, am_description := Some (tx 674),
       am_displayName := Some ''Qwen2 VL 7B Instruct (Pro)'',
       am_pricing := Some (no_pricing\<lparr>price_currency := Some CNY, price_input := Some 0.35,
       price_output := Some 0.35\<rparr>)\<rparr>,
     (model_of_type ''chat'' ''Qwen/Qwen2-VL-72B-Instruct'')\<lparr>am_abilities := Some (no_abilities\<lparr>ab_vision := Some True\<rparr>),
       am_contextWindowTokens := Some 32768, am_description := Some (tx 690),
       am_displayName := Some ''Qwen2 VL 72B Instruct'',
       am_pricing := Some (no_pricing\<lparr>price_currency := Some CNY, price_input := Some 4.13,
       price_output := Some 4.13\<rparr>)\<rparr>,
     (model_of_type ''chat'' ''Pro/Qwen/Qwen2.5-VL-7B-Instruct'')\<lparr>am_abilities := Some (no_abilities\<lparr>ab_vision := Some True\<rparr>),
       am_contextWindowTokens := Some 32768, am_description := Some (tx 706),
       am_displayName := Some ''Qwen2.5 VL 7B Instruct (Pro)'',
       am_pricing := Some (no_pricing\<lparr>price_currency := Some CNY, price_input := Some 0.35,
       price_output := Some 0.35\<rparr>)\<rparr>]"

definition siliconcloudChatModels_6 :: "texts \<Rightarrow> ai_model list" where
  [card_tables]: "siliconcloudChatModels_6 tx = [
     (model_of_type ''chat'' ''Qwen/Qwen2.5-VL-32B-Instruct'')\<lparr>am_abilities := Some (no_abilities\<lparr>ab_vision := Some True\<rparr>),
       am_contextWindowTokens := Some 131072, am_description := Some (tx 722),
       am_displayName := Some ''Qwen2.5 VL 32B Instruct'',
       am_pricing := Some (no_pricing\<lparr>price_currency := Some CNY, price_input := Some 1.89,
       price_output := Some 1.89\<rparr>)\<rparr>,
     (model_of_type ''chat'' ''Qwen/Qwen2.5-VL-72B-Instruct'')\<lparr>am_abilities := Some (no_abilities\<lparr>ab_vision := Some True\<rparr>),
       am_contextWindowTokens := Some 131072, am_description := Some (tx 738),
       am_displayName := Some ''Qwen2.5 VL 72B Instruct'',
       am_pricing := Some (no_pricing\<lparr>price_currency := Some CNY, price_input := Some 4.13,
       price_output := Some 4.13\<rparr>)\<rparr>,
     (model_of_type ''chat'' ''internlm/internlm2_5-7b-chat'')\<lparr>am_abilities := Some (no_abilities\<lparr>ab_functionCall := Some True\<rparr>),
       am_contextWindowTokens := Some 32768, am_description := Some (tx 754),
       am_displayName := Some ''InternLM2.5 7B Chat (Free)'',
       am_pricing := Some (no_pricing\<lparr>price_currency := Some CNY, price_input := Some 0,
       price_output := Some 0\<rparr>)\<rparr>,
     (model_of_type ''chat'' ''internlm/internlm2_5-20b-chat'')\<lparr>am_abilities := Some (no_abilities\<lparr>ab_functionCall := Some True\<rparr>),
       am_contextWindowTokens := Some 32768, am_description := Some (tx 770),
       am_displayName := Some ''InternLM2.5 20B Chat'',
       am_pricing := Some (no_pricing\<lparr>price_currency := Some CNY, price_input := Some 1,
       price_output := Some 1\<rparr>)\<rparr>,
     (model_of_type ''chat'' ''THUDM/glm-4-9b-chat'')\<lparr>am_abilities := Some (no_abilities\<lparr>ab_functionCall := Some True\<rparr>),
       am_contextWindowTokens := Some 131072, am_description := Some (tx 786),
       am_displayName := Some ''GLM-4 9B Chat (Free)'',
       am_pricing := Some (no_pricing\<lparr>price_currency := Some CNY, price_input := Some 0,
       price_output := Some 0\<rparr>)\<rparr>,
     (model_of_type ''chat'' ''Pro/THUDM/glm-4-9b-chat'')\<lparr>am_abilities := Some (no_abilities\<lparr>ab_functionCall := Some True\<rparr>),
       am_contextWindowTokens := Some 131072, am_description := Some (tx 802),
       am_displayName := Some ''GLM-4 9B Chat (Pro)'',
       am_pricing := Some (no_pricing\<lparr>price_currency := Some CNY, price_input := Some 0.6,
       price_output := Some 0.6\<rparr>)\<rparr>,
     (model_of_type ''chat'' ''THUDM/chatglm3-6b'')\<lparr>am_contextWindowTokens := Some 32768,
       am_description := Some (tx 815), am_displayName := Some ''ChatGLM3 6B (Free)'',
       am_pricing := Some (no_pricing\<lparr>price_currency := Some CNY, price_input := Some 0,
       price_output := Some 0\<rparr>)\<rparr>]"

definition siliconcloudChatModels :: "texts \<Rightarrow> ai_model list" where
  [card_tables]: "siliconcloudChatModels tx =
     siliconcloudChatModels_1 tx @ siliconcloudChatModels_2 tx @ siliconcloudChatModels_3 tx @
     siliconcloudChatModels_4 tx @ siliconcloudChatModels_5 tx @ siliconcloudChatModels_6 tx"

section \<open>spark\<close>

definition sparkChatModels :: "texts \<Rightarrow> ai_model list" where
  [card_tables]: "sparkChatModels tx = [
     (model_of_type ''chat'' ''x1'')\<lparr>am_abilities := Some (no_abilities\<lparr>ab_reasoning := Some True,
       ab_search := Some True\<rparr>), am_contextWindowTokens := Some 32768,
       am_description := Some (tx 11), am_displayName := Some ''Spark X1'',
       am_maxOutput := Some 32768,
       am_settings := Some (no_settings\<lparr>ms_searchImpl := Some ''params''\<rparr>)\<rparr>,
     (model_of_type ''chat'' ''lite'')\<lparr>am_contextWindowTokens := Some 8192,
       am_description := Some (tx 23), am_displayName := Some ''Spark Lite'',
       am_enabled := Some True, am_maxOutput := Some 4096\<rparr>,
     (model_of_type ''chat'' ''generalv3'')\<lparr>am_abilities := Some (no_abilities\<lparr>ab_search := Some True\<rparr>),
       am_contextWindowTokens := Some 8192, am_description := Some (tx 36),
       am_displayName := Some ''Spark Pro'', am_enabled := Some True, am_maxOutput := Some 8192,
       am_settings := Some (no_settings\<lparr>ms_searchImpl := Some ''params''\<rparr>)\<rparr>,
     (model_of_type ''chat'' ''pro-128k'')\<lparr>am_contextWindowTokens := Some 131072,
       am_description := Some (tx 49), am_displayName := Some ''Spark Pro 128K'',
       am_maxOutput := Some 4096\<rparr>,
     (model_of_type ''chat'' ''generalv3.5'')\<lparr>am_abilities := Some (no_abilities\<lparr>ab_functionCall := Some True,
       ab_search := Some True\<rparr>), am_contextWindowTokens := Some 8192,
       am_description := Some (tx 62), am_displayName := Some ''Spark Max'',
       am_enabled := Some True, am_maxOutput := Some 8192,
       am_settings := Some (no_settings\<lparr>ms_searchImpl := Some ''params''\<rparr>)\<rparr>,
     (model_of_type ''chat'' ''max-32k'')\<lparr>am_abilities := Some (no_abilities\<lparr>ab_functionCall := Some True,
       ab_search := Some True\<rparr>), am_contextWindowTokens := Some 32768,
       am_description := Some (tx 79), am_displayName := Some ''Spark Max 32K'',
       am_maxOutput := Some 8192,
       am_settings := Some (no_settings\<lparr>ms_searchImpl := Some ''internal''\<rparr>)\<rparr>,
     (model_of_type ''chat'' ''4.0Ultra'')\<lparr>am_abilities := Some (no_abilities\<lparr>ab_functionCall := Some True,
       ab_search := Some True\<rparr>), am_contextWindowTokens := Some 8192,
       am_description := Some (tx 95), am_displayName := Some ''Spark 4.0 Ultra'',
       am_enabled := Some True, am_maxOutput := Some 8192,
       am_settings := Some (no_settings\<lparr>ms_searchImpl := Some ''params''\<rparr>)\<rparr>]"

section \<open>stepfun\<close>

definition stepfunChatModels_1 :: "texts \<Rightarrow> ai_model list" where
  [card_tables]: "stepfunChatModels_1 tx = [
     (model_of_type ''chat'' ''step-r1-v-mini'')\<lparr>am_abilities := Some (no_abilities\<lparr>ab_reasoning := Some True,
       ab_vision := Some True\<rparr>), am_contextWindowTokens := Some 100000,
       am_description := Some (tx 15), am_displayName := Some ''Step R1 V Mini'',
       am_enabled := Some True, am_pricing := Some (no_pricing\<lparr>price_currency := Some CNY,
       price_input := Some 2.5, price_output := Some 8\<rparr>)\<rparr>,
     (model_of_type ''chat'' ''step-1-flash'')\<lparr>am_abilities := Some (no_abilities\<lparr>ab_functionCall := Some True,
       ab_search := Some True\<rparr>), am_contextWindowTokens := Some 8000,
       am_description := Some (tx 35), am_displayName := Some ''Step 1 Flash'',
       am_pricing := Some (no_pricing\<lparr>price_currency := Some CNY, price_input := Some 1,
       price_output := Some 4\<rparr>),
       am_settings := Some (no_settings\<lparr>ms_searchImpl := Some ''params''\<rparr>)\<rparr>,
     (model_of_type ''chat'' ''step-1-8k'')\<lparr>am_abilities := Some (no_abilities\<lparr>ab_functionCall := Some True,
       ab_search := Some True\<rparr>), am_contextWindowTokens := Some 8000,
       am_description := Some (tx 54), am_displayName := Some ''Step 1 8K'',
       am_pricing := Some (no_pricing\<lparr>price_currency := Some CNY, price_input := Some 5,
       price_output := Some 20\<rparr>),
       am_settings := Some (no_settings\<lparr>ms_searchImpl := Some ''params''\<rparr>)\<rparr>,
     (model_of_type ''chat'' ''step-1-32k'')\<lparr>am_abilities := Some (no_abilities\<lparr>ab_functionCall := Some True,
       ab_search := Some True\<rparr>), am_contextWindowTokens := Some 32000,
       am_description := Some (tx 73), am_displayName := Some ''Step 1 32K'',
       am_pricing := Some (no_pricing\<lparr>price_currency := Some CNY, price_input := Some 15,
       price_output := Some 70\<rparr>),
       am_settings := Some (no_settings\<lparr>ms_searchImpl := Some ''params''\<rparr>)\<rparr>,
     (model_of_type ''chat'' ''step-1-128k'')\<lparr>am_abilities := Some (no_abilities\<lparr>ab_functionCall := Some True,
       ab_search := Some True\<rparr>), am_contextWindowTokens := Some 128000,
       am_description := Some (tx 92), am_displayName := Some ''Step 1 128K'',
       am_pricing := Some (no_pricing\<lparr>price_currency := Some CNY, price_input := Some 40,
       price_output := Some 200\<rparr>),
       am_settings := Some (no_settings\<lparr>ms_searchImpl := Some ''params''\<rparr>)\<rparr>,
     (model_of_type ''chat'' ''step-1-256k'')\<lparr>am_abilities := Some (no_abilities\<lparr>ab_functionCall := Some True,
       ab_search := Some True\<rparr>), am_contextWindowTokens := Some 256000,
       am_description := Some (tx 111), am_displayName := Some ''Step 1 256K'',
       am_pricing := Some (no_pricing\<lparr>price_currency := Some CNY, price_input := Some 95,
       price_output := Some 300\<rparr>),
       am_settings := Some (no_settings\<lparr>ms_searchImpl := Some ''params''\<rparr>)\<rparr>,
     (model_of_type ''chat'' ''step-2-mini'')\<lparr>am_abilities := Some (no_abilities\<lparr>ab_functionCall := Some True,
       ab_search := Some True\<rparr>), am_contextWindowTokens := Some 8000,
       am_description := Some (tx 131), am_displayName := Some ''Step 2 Mini'',
       am_enabled := Some True, am_pricing := Some (no_pricing\<lparr>price_currency := Some CNY,
       price_input := Some 1, price_output := Some 2\<rparr>), am_releasedAt := Some ''2025-01-14'',
       am_settings := Some (no_settings\<lparr>ms_searchImpl := Some ''params''\<rparr>)\<rparr>]"

definition stepfunChatModels_2 :: "texts \<Rightarrow> ai_model list" where
  [card_tables]: "stepfunChatModels_2 tx = [
     (model_of_type ''chat'' ''step-2-16k'')\<lparr>am_abilities := Some (no_abilities\<lparr>ab_functionCall := Some True,
       ab_search := Some True\<rparr>), am_contextWindowTokens := Some 16000,
       am_description := Some (tx 152), am_displayName := Some ''Step 2 16K'',
       am_pricing := Some (no_pricing\<lparr>price_currency := Some CNY, price_input := Some 38,
       price_output := Some 120\<rparr>),
       am_settings := Some (no_settings\<lparr>ms_searchImpl := Some ''params''\<rparr>)\<rparr>,
     (model_of_type ''chat'' ''step-2-16k-exp'')\<lparr>am_abilities := Some (no_abilities\<lparr>ab_functionCall := Some True,
       ab_search := Some True\<rparr>), am_contextWindowTokens := Some 16000,
       am_description := Some (tx 171), am_displayName := Some ''Step 2 16K Exp'',
       am_enabled := Some True, am_pricing := Some (no_pricing\<lparr>price_currency := Some CNY,
       price_input := Some 38, price_output := Some 120\<rparr>), am_releasedAt := Some ''2025-01-15'',
       am_settings := Some (no_settings\<lparr>ms_searchImpl := Some ''params''\<rparr>)\<rparr>,
     (model_of_type ''chat'' ''step-1v-8k'')\<lparr>am_abilities := Some (no_abilities\<lparr>ab_functionCall := Some True,
       ab_search := Some True, ab_vision := Some True\<rparr>), am_contextWindowTokens := Some 8000,
       am_description := Some (tx 193), am_displayName := Some ''Step 1V 8K'',
       am_pricing := Some (no_pricing\<lparr>price_currency := Some CNY, price_input := Some 5,
       price_output := Some 20\<rparr>),
       am_settings := Some (no_settings\<lparr>ms_searchImpl := Some ''params''\<rparr>)\<rparr>,
     (model_of_type ''chat'' ''step-1v-32k'')\<lparr>am_abilities := Some (no_abilities\<lparr>ab_functionCall := Some True,
       ab_search := Some True, ab_vision := Some True\<rparr>), am_contextWindowTokens := Some 32000,
       am_description := Some (tx 213), am_displayName := Some ''Step 1V 32K'',
       am_pricing := Some (no_pricing\<lparr>price_currency := Some CNY, price_input := Some 15,
       price_output := Some 70\<rparr>),
       am_settings := Some (no_settings\<lparr>ms_searchImpl := Some ''params''\<rparr>)\<rparr>,
     (model_of_type ''chat'' ''step-1o-vision-32k'')\<lparr>am_abilities := Some (no_abilities\<lparr>ab_vision := Some True\<rparr>),
       am_contextWindowTokens := Some 32000, am_description := Some (tx 231),
       am_displayName := Some ''Step 1o Vision 32K'', am_enabled := Some True,
       am_pricing := Some (no_pricing\<lparr>price_currency := Some CNY, price_input := Some 15,
       price_output := Some 70\<rparr>), am_releasedAt := Some ''2025-01-22''\<rparr>,
     (model_of_type ''chat'' ''step-1.5v-mini'')\<lparr>am_abilities := Some (no_abilities\<lparr>ab_vision := Some True\<rparr>),
       am_contextWindowTokens := Some 32000, am_description := Some (tx 248),
       am_displayName := Some ''Step 1.5V Mini'',
       am_pricing := Some (no_pricing\<lparr>price_currency := Some CNY, price_input := Some 8,
       price_output := Some 35\<rparr>)\<rparr>,
     (model_of_type ''chat'' ''step-1o-turbo-vision'')\<lparr>am_abilities := Some (no_abilities\<lparr>ab_vision := Some True\<rparr>),
       am_contextWindowTokens := Some 32000, am_description := Some (tx 264),
       am_displayName := Some ''Step 1o Turbo Vision'', am_enabled := Some True,
       am_pricing := Some (no_pricing\<lparr>price_currency := Some CNY, price_input := Some 8,
       price_output := Some 35\<rparr>), am_releasedAt := Some ''2025-02-14''\<rparr>]"

definition stepfunChatModels :: "texts \<Rightarrow> ai_model list" where
  [card_tables]: "stepfunChatModels tx =
     stepfunChatModels_1 tx @ stepfunChatModels_2 tx"

section \<open>taichu\<close>

definition taichuChatModels :: "texts \<Rightarrow> ai_model list" where
  [card_tables]: "taichuChatModels tx = [
     (model_of_type ''chat'' ''taichu_o1'')\<lparr>am_abilities := Some (no_abilities\<lparr>ab_reasoning := Some True\<rparr>),
       am_contextWindowTokens := Some 32768, am_description := Some (tx 12),
       am_displayName := Some ''Taichu O1'', am_enabled := Some True\<rparr>,
     (model_of_type ''chat'' ''taichu_llm'')\<lparr>am_abilities := Some (no_abilities\<lparr>ab_functionCall := Some True\<rparr>),
       am_contextWindowTokens := Some 32768, am_description := Some (tx 23),
       am_displayName := Some ''Taichu 2.0'', am_enabled := Some True,
       am_pricing := Some (no_pricing\<lparr>price_currency := Some CNY, price_input := Some 2,
       price_output := Some 2\<rparr>)\<rparr>,
     (model_of_type ''chat'' ''taichu_vl'')\<lparr>am_abilities := Some (no_abilities\<lparr>ab_vision := Some True\<rparr>),
       am_contextWindowTokens := Some 4096, am_description := Some (tx 39),
       am_displayName := Some ''Taichu 2.0 VL'', am_enabled := Some True,
       am_pricing := Some (no_pricing\<lparr>price_currency := Some CNY, price_input := Some 5,
       price_output := Some 5\<rparr>)\<rparr>,
     (model_of_type ''chat'' ''deepseek_r1'')\<lparr>am_abilities := Some (no_abilities\<lparr>ab_reasoning := Some True\<rparr>),
       am_contextWindowTokens := Some 131072, am_description := Some (tx 56),
       am_displayName := Some ''DeepSeek R1''\<rparr>,
     (model_of_type ''chat'' ''deepseek_r1_distill_qwen_14b'')\<lparr>am_abilities := Some (no_abilities\<lparr>ab_reasoning := Some True\<rparr>),
       am_contextWindowTokens := Some 131072, am_description := Some (tx 67),
       am_displayName := Some ''DeepSeek R1 Distill Qwen 14B''\<rparr>,
     (model_of_type ''chat'' ''deepseek_r1_distill_qwen_32b'')\<lparr>am_abilities := Some (no_abilities\<lparr>ab_reasoning := Some True\<rparr>),
       am_contextWindowTokens := Some 131072, am_description := Some (tx 78),
       am_displayName := Some ''DeepSeek R1 Distill Qwen 32B''\<rparr>,
     (model_of_type ''chat'' ''deepseek_r1_distill_llama_70b'')\<lparr>am_abilities := Some (no_abilities\<lparr>ab_reasoning := Some True\<rparr>),
       am_contextWindowTokens := Some 131072, am_description := Some (tx 89),
       am_displayName := Some ''DeepSeek R1 Distill Llama 70B''\<rparr>,
     (model_of_type ''chat'' ''qwq_32b'')\<lparr>am_abilities := Some (no_abilities\<lparr>ab_reasoning := Some True\<rparr>),
       am_contextWindowTokens := Some 32768, am_description := Some (tx 100),
       am_displayName := Some ''QwQ 32B''\<rparr>]"

section \<open>tencentcloud\<close>

definition tencentCloudChatModels :: "texts \<Rightarrow> ai_model list" where
  [card_tables]: "tencentCloudChatModels tx = [
     (model_of_type ''chat'' ''deepseek-r1'')\<lparr>am_abilities := Some (no_abilities\<lparr>ab_reasoning := Some True\<rparr>),
       am_contextWindowTokens := Some 65536, am_description := Some (tx 11),
       am_displayName := Some ''DeepSeek R1'', am_enabled := Some True, am_maxOutput := Some 16000,
       am_pricing := Some (no_pricing\<lparr>price_currency := Some CNY, price_input := Some 4,
       price_output := Some 16\<rparr>)\<rparr>,
     (model_of_type ''chat'' ''deepseek-v3-0324'')\<lparr>am_contextWindowTokens := Some 65536,
       am_description := Some (tx 26), am_displayName := Some ''DeepSeek V3 0324'',
       am_enabled := Some True, am_maxOutput := Some 16000,
       am_pricing := Some (no_pricing\<lparr>price_currency := Some CNY, price_input := Some 2,
       price_output := Some 8\<rparr>)\<rparr>,
     (model_of_type ''chat'' ''deepseek-v3'')\<lparr>am_contextWindowTokens := Some 65536,
       am_description := Some (tx 40), am_displayName := Some ''DeepSeek V3'',
       am_maxOutput := Some 16000, am_pricing := Some (no_pricing\<lparr>price_currency := Some CNY,
       price_input := Some 2, price_output := Some 8\<rparr>)\<rparr>]"

section \<open>togetherai\<close>

definition togetheraiChatModels_1 :: "texts \<Rightarrow> ai_model list" where
  [card_tables]: "togetheraiChatModels_1 tx = [
     (model_of_type ''chat'' ''meta-llama/Llama-3.3-70B-Instruct-Turbo'')\<lparr>am_abilities := Some (no_abilities\<lparr>ab_functionCall := Some True\<rparr>),
       am_contextWindowTokens := Some 131072, am_description := Some (tx 10),
       am_displayName := Some ''Llama 3.3 70B Instruct Turbo'', am_enabled := Some True\<rparr>,
     (model_of_type ''chat'' ''meta-llama/Llama-3.2-3B-Instruct-Turbo'')\<lparr>am_contextWindowTokens := Some 131072,
       am_description := Some (tx 19), am_displayName := Some ''Llama 3.2 3B Instruct Turbo'',
       am_enabled := Some True\<rparr>,
     (model_of_type ''chat'' ''meta-llama/Llama-Vision-Free'')\<lparr>am_abilities := Some (no_abilities\<lparr>ab_vision := Some True\<rparr>),
       am_contextWindowTokens := Some 131072, am_description := Some (tx 31),
       am_displayName := Some ''Llama 3.2 11B Vision Instruct Turbo (Free)'',
       am_enabled := Some True\<rparr>,
     (model_of_type ''chat'' ''meta-llama/Llama-3.2-11B-Vision-Instruct-Turbo'')\<lparr>am_abilities := Some (no_abilities\<lparr>ab_vision := Some True\<rparr>),
       am_contextWindowTokens := Some 131072, am_description := Some (tx 43),
       am_displayName := Some ''Llama 3.2 11B Vision Instruct Turbo''\<rparr>,
     (model_of_type ''chat'' ''meta-llama/Llama-3.2-90B-Vision-Instruct-Turbo'')\<lparr>am_abilities := Some (no_abilities\<lparr>ab_vision := Some True\<rparr>),
       am_contextWindowTokens := Some 131072, am_description := Some (tx 54),
       am_displayName := Some ''Llama 3.2 90B Vision Instruct Turbo'', am_enabled := Some True\<rparr>,
     (model_of_type ''chat'' ''meta-llama/Meta-Llama-3.1-8B-Instruct-Turbo'')\<lparr>am_abilities := Some (no_abilities\<lparr>ab_functionCall := Some True\<rparr>),
       am_contextWindowTokens := Some 131072, am_description := Some (tx 66),
       am_displayName := Some ''Llama 3.1 8B Instruct Turbo'', am_enabled := Some True\<rparr>,
     (model_of_type ''chat'' ''meta-llama/Meta-Llama-3.1-70B-Instruct-Turbo'')\<lparr>am_abilities := Some (no_abilities\<lparr>ab_functionCall := Some True\<rparr>),
       am_contextWindowTokens := Some 131072, am_description := Some (tx 78),
       am_displayName := Some ''Llama 3.1 70B Instruct Turbo'', am_enabled := Some True\<rparr>,
     (model_of_type ''chat'' ''meta-llama/Meta-Llama-3.1-405B-Instruct-Turbo'')\<lparr>am_abilities := Some (no_abilities\<lparr>ab_functionCall := Some True\<rparr>),
       am_contextWindowTokens := Some 130815, am_description := Some (tx 90),
       am_displayName := Some ''Llama 3.1 405B Instruct Turbo'', am_enabled := Some True\<rparr>,
     (model_of_type ''chat'' ''nvidia/Llama-3.1-Nemotron-70B-Instruct-HF'')\<lparr>am_contextWindowTokens := Some 32768,
       am_description := Some (tx 99), am_displayName := Some ''Llama 3.1 Nemotron 70B'',
       am_enabled := Some True\<rparr>,
     (model_of_type ''chat'' ''meta-llama/Meta-Llama-3-8B-Instruct-Turbo'')\<lparr>am_contextWindowTokens := Some 8192,
       am_description := Some (tx 107), am_displayName := Some ''Llama 3 8B Instruct Turbo''\<rparr>,
     (model_of_type ''chat'' ''meta-llama/Meta-Llama-3-70B-Instruct-Turbo'')\<lparr>am_contextWindowTokens := Some 8192,
       am_description := Some (tx 114), am_displayName := Some ''Llama 3 70B Instruct Turbo''\<rparr>,
     (model_of_type ''chat'' ''meta-llama/Meta-Llama-3-8B-Instruct-Lite'')\<lparr>am_contextWindowTokens := Some 8192,
       am_description := Some (tx 121), am_displayName := Some ''Llama 3 8B Instruct Lite''\<rparr>,
     (model_of_type ''chat'' ''meta-llama/Meta-Llama-3-70B-Instruct-Lite'')\<lparr>am_contextWindowTokens := Some 8192,
       am_description := Some (tx 128), am_displayName := Some ''Llama 3 70B Instruct Lite''\<rparr>,
     (model_of_type ''chat'' ''meta-llama/Llama-3-8b-chat-hf'')\<lparr>am_contextWindowTokens := Some 8192,
       am_description := Some (tx 135), am_displayName := Some ''Llama 3 8B Instruct Reference''\<rparr>,
     (model_of_type ''chat'' ''meta-llama/Llama-3-70b-chat-hf'')\<lparr>am_contextWindowTokens := Some 8192,
       am_description := Some (tx 142), am_displayName := Some ''Llama 3 70B Instruct Reference''\<rparr>,
     (model_of_type ''chat'' ''meta-llama/Llama-2-13b-chat-hf'')\<lparr>am_contextWindowTokens := Some 4096,
       am_description := Some (tx 149), am_displayName := Some ''LLaMA-2 Chat (13B)''\<rparr>]"

definition togetheraiChatModels_2 :: "texts \<Rightarrow> ai_model list" where
  [card_tables]: "togetheraiChatModels_2 tx = [
     (model_of_type ''chat'' ''meta-llama/Llama-2-70b-hf'')\<lparr>am_contextWindowTokens := Some 4096,
       am_description := Some (tx 156), am_displayName := Some ''LLaMA-2 (70B)''\<rparr>,
     (model_of_type ''chat'' ''codellama/CodeLlama-34b-Instruct-hf'')\<lparr>am_contextWindowTokens := Some 16384,
       am_description := Some (tx 164), am_displayName := Some ''CodeLlama 34B Instruct''\<rparr>,
     (model_of_type ''chat'' ''google/gemma-2-9b-it'')\<lparr>am_contextWindowTokens := Some 8192,
       am_description := Some (tx 171), am_displayName := Some ''Gemma 2 9B'',
       am_enabled := Some True\<rparr>,
     (model_of_type ''chat'' ''google/gemma-2-27b-it'')\<lparr>am_contextWindowTokens := Some 8192,
       am_description := Some (tx 179), am_displayName := Some ''Gemma 2 27B'',
       am_enabled := Some True\<rparr>,
     (model_of_type ''chat'' ''google/gemma-2b-it'')\<lparr>am_contextWindowTokens := Some 8192,
       am_description := Some (tx 187), am_displayName := Some ''Gemma Instruct (2B)''\<rparr>,
     (model_of_type ''chat'' ''mistralai/Mistral-7B-Instruct-v0.3'')\<lparr>am_contextWindowTokens := Some 32768,
       am_description := Some (tx 194), am_displayName := Some ''Mistral (7B) Instruct v0.3'',
       am_enabled := Some True\<rparr>,
     (model_of_type ''chat'' ''mistralai/Mistral-7B-Instruct-v0.2'')\<lparr>am_contextWindowTokens := Some 32768,
       am_description := Some (tx 202), am_displayName := Some ''Mistral (7B) Instruct v0.2''\<rparr>,
     (model_of_type ''chat'' ''mistralai/Mistral-7B-Instruct-v0.1'')\<lparr>am_abilities := Some (no_abilities\<lparr>ab_functionCall := Some True\<rparr>),
       am_contextWindowTokens := Some 8192, am_description := Some (tx 212),
       am_displayName := Some ''Mistral (7B) Instruct''\<rparr>,
     (model_of_type ''chat'' ''mistralai/Mistral-7B-v0.1'')\<lparr>am_contextWindowTokens := Some 8192,
       am_description := Some (tx 220), am_displayName := Some ''Mistral (7B)''\<rparr>,
     (model_of_type ''chat'' ''mistralai/Mixtral-8x7B-Instruct-v0.1'')\<lparr>am_abilities := Some (no_abilities\<lparr>ab_functionCall := Some True\<rparr>),
       am_contextWindowTokens := Some 32768, am_description := Some (tx 230),
       am_displayName := Some ''Mixtral-8x7B Instruct (46.7B)'', am_enabled := Some True\<rparr>,
     (model_of_type ''chat'' ''mistralai/Mixtral-8x7B-v0.1'')\<lparr>am_contextWindowTokens := Some 32768,
       am_description := Some (tx 239), am_displayName := Some ''Mixtral-8x7B (46.7B)''\<rparr>,
     (model_of_type ''chat'' ''mistralai/Mixtral-8x22B-Instruct-v0.1'')\<lparr>am_contextWindowTokens := Some 65536,
       am_description := Some (tx 246), am_displayName := Some ''Mixtral-8x22B Instruct (141B)'',
       am_enabled := Some True\<rparr>,
     (model_of_type ''chat'' ''microsoft/WizardLM-2-8x22B'')\<lparr>am_contextWindowTokens := Some 65536,
       am_description := Some (tx 255), am_displayName := Some ''WizardLM-2 8x22B''\<rparr>,
     (model_of_type ''chat'' ''deepseek-ai/DeepSeek-R1'')\<lparr>am_abilities := Some (no_abilities\<lparr>ab_reasoning := Some True\<rparr>),
       am_contextWindowTokens := Some 32768, am_description := Some (tx 266),
       am_displayName := Some ''DeepSeek-R1'', am_enabled := Some True\<rparr>,
     (model_of_type ''chat'' ''deepseek-ai/DeepSeek-R1-Distill-Qwen-1.5B'')\<lparr>am_abilities := Some (no_abilities\<lparr>ab_reasoning := Some True\<rparr>),
       am_contextWindowTokens := Some 131072, am_description := Some (tx 278),
       am_displayName := Some ''DeepSeek R1 Distill Qwen 1.5B''\<rparr>,
     (model_of_type ''chat'' ''deepseek-ai/DeepSeek-R1-Distill-Qwen-14B'')\<lparr>am_abilities := Some (no_abilities\<lparr>ab_reasoning := Some True\<rparr>),
       am_contextWindowTokens := Some 131072, am_description := Some (tx 289),
       am_displayName := Some ''DeepSeek R1 Distill Qwen 14B''\<rparr>]"

definition togetheraiChatModels_3 :: "texts \<Rightarrow> ai_model list" where
  [card_tables]: "togetheraiChatModels_3 tx = [
     (model_of_type ''chat'' ''deepseek-ai/DeepSeek-R1-Distill-Llama-70B'')\<lparr>am_abilities := Some (no_abilities\<lparr>ab_reasoning := Some True\<rparr>),
       am_contextWindowTokens := Some 131072, am_description := Some (tx 300),
       am_displayName := Some ''DeepSeek R1 Distill Llama 70B''\<rparr>,
     (model_of_type ''chat'' ''deepseek-ai/DeepSeek-V3'')\<lparr>am_contextWindowTokens := Some 16384,
       am_description := Some (tx 308), am_displayName := Some ''DeepSeek-V3'',
       am_enabled := Some True\<rparr>,
     (model_of_type ''chat'' ''deepseek-ai/deepseek-llm-67b-chat'')\<lparr>am_contextWindowTokens := Some 4096,
       am_description := Some (tx 316), am_displayName := Some ''DeepSeek LLM Chat (67B)''\<rparr>,
     (model_of_type ''chat'' ''Qwen/QwQ-32B-Preview'')\<lparr>am_abilities := Some (no_abilities\<lparr>ab_reasoning := Some True\<rparr>),
       am_contextWindowTokens := Some 32768, am_description := Some (tx 326),
       am_displayName := Some ''QwQ 32B Preview'', am_enabled := Some True\<rparr>,
     (model_of_type ''chat'' ''Qwen/Qwen2.5-7B-Instruct-Turbo'')\<lparr>am_contextWindowTokens := Some 32768,
       am_description := Some (tx 334), am_displayName := Some ''Qwen 2.5 7B Instruct Turbo'',
       am_enabled := Some True\<rparr>,
     (model_of_type ''chat'' ''Qwen/Qwen2.5-72B-Instruct-Turbo'')\<lparr>am_contextWindowTokens := Some 32768,
       am_description := Some (tx 342), am_displayName := Some ''Qwen 2.5 72B Instruct Turbo'',
       am_enabled := Some True\<rparr>,
     (model_of_type ''chat'' ''Qwen/Qwen2.5-Coder-32B-Instruct'')\<lparr>am_contextWindowTokens := Some 32768,
       am_description := Some (tx 351), am_displayName := Some ''Qwen 2.5 Coder 32B Instruct''\<rparr>,
     (model_of_type ''chat'' ''Qwen/Qwen2-72B-Instruct'')\<lparr>am_contextWindowTokens := Some 32768,
       am_description := Some (tx 358), am_displayName := Some ''Qwen 2 Instruct (72B)''\<rparr>,
     (model_of_type ''chat'' ''databricks/dbrx-instruct'')\<lparr>am_contextWindowTokens := Some 32768,
       am_description := Some (tx 365), am_displayName := Some ''DBRX Instruct''\<rparr>,
     (model_of_type ''chat'' ''upstage/SOLAR-10.7B-Instruct-v1.0'')\<lparr>am_contextWindowTokens := Some 4096,
       am_description := Some (tx 372), am_displayName := Some ''Upstage SOLAR Instruct v1 (11B)''\<rparr>,
     (model_of_type ''chat'' ''NousResearch/Nous-Hermes-2-Mixtral-8x7B-DPO'')\<lparr>am_contextWindowTokens := Some 32768,
       am_description := Some (tx 379),
       am_displayName := Some ''Nous Hermes 2 - Mixtral 8x7B-DPO (46.7B)''\<rparr>,
     (model_of_type ''chat'' ''Gryphe/MythoMax-L2-13b'')\<lparr>am_contextWindowTokens := Some 4096,
       am_description := Some (tx 386), am_displayName := Some ''MythoMax-L2 (13B)''\<rparr>,
     (model_of_type ''chat'' ''togethercomputer/StripedHyena-Nous-7B'')\<lparr>am_contextWindowTokens := Some 32768,
       am_description := Some (tx 393), am_displayName := Some ''StripedHyena Nous (7B)''\<rparr>]"

definition togetheraiChatModels :: "texts \<Rightarrow> ai_model list" where
  [card_tables]: "togetheraiChatModels tx =
     togetheraiChatModels_1 tx @ togetheraiChatModels_2 tx @ togetheraiChatModels_3 tx"

section \<open>upstage\<close>

definition upstageChatModels :: "texts \<Rightarrow> ai_model list" where
  [card_tables]: "upstageChatModels tx = [
     (model_of_type ''chat'' ''solar-pro'')\<lparr>am_contextWindowTokens := Some 32768,
       am_description := Some (tx 9), am_displayName := Some ''Solar Pro'', am_enabled := Some True,
       am_pricing := Some (no_pricing\<lparr>price_input := Some 0.25, price_output := Some 0.25\<rparr>),
       am_releasedAt := Some ''2024-11-26''\<rparr>,
     (model_of_type ''chat'' ''solar-mini'')\<lparr>am_abilities := Some (no_abilities\<lparr>ab_functionCall := Some True\<rparr>),
       am_contextWindowTokens := Some 32768, am_description := Some (tx 26),
       am_displayName := Some ''Solar Mini'', am_enabled := Some True,
       am_pricing := Some (no_pricing\<lparr>price_input := Some 0.15, price_output := Some 0.15\<rparr>),
       am_releasedAt := Some ''2025-01-23''\<rparr>,
     (model_of_type ''chat'' ''solar-mini-ja'')\<lparr>am_contextWindowTokens := Some 32768,
       am_description := Some (tx 40), am_displayName := Some ''Solar Mini (Ja)'',
       am_releasedAt := Some ''2025-01-23''\<rparr>]"

section \<open>vertexai\<close>

definition vertexaiChatModels :: "texts \<Rightarrow> ai_model list" where
  [card_tables]: "vertexaiChatModels tx = [
     (model_of_type ''chat'' ''gemini-2.5-pro-preview-05-06'')\<lparr>am_abilities := Some (no_abilities\<lparr>ab_functionCall := Some True,
       ab_reasoning := Some True, ab_vision := Some True\<rparr>),
       am_contextWindowTokens := Some (1048576 + 65536), am_description := Some (tx 13),
       am_displayName := Some ''Gemini 2.5 Pro Preview 05-06'', am_enabled := Some True,
       am_maxOutput := Some 65536, am_pricing := Some (no_pricing\<lparr>price_input := Some 1.25,
       price_output := Some 10\<rparr>), am_releasedAt := Some ''2025-05-06''\<rparr>,
     (model_of_type ''chat'' ''gemini-2.5-pro-preview-03-25'')\<lparr>am_abilities := Some (no_abilities\<lparr>ab_functionCall := Some True,
       ab_reasoning := Some True, ab_vision := Some True\<rparr>),
       am_contextWindowTokens := Some (1048576 + 65536), am_description := Some (tx 33),
       am_displayName := Some ''Gemini 2.5 Pro Preview 03-25'', am_maxOutput := Some 65536,
       am_pricing := Some (no_pricing\<lparr>price_input := Some 1.25, price_output := Some 10\<rparr>),
       am_releasedAt := Some ''2025-04-09''\<rparr>,
     (model_of_type ''chat'' ''gemini-2.5-flash-preview-04-17'')\<lparr>am_abilities := Some (no_abilities\<lparr>ab_functionCall := Some True,
       ab_reasoning := Some True, ab_vision := Some True\<rparr>),
       am_contextWindowTokens := Some (1048576 + 65536), am_description := Some (tx 51),
       am_displayName := Some ''Gemini 2.5 Flash Preview 04-17'', am_enabled := Some True,
       am_maxOutput := Some 65536, am_pricing := Some (no_pricing\<lparr>price_input := Some 0.15,
       price_output := Some 3.5\<rparr>), am_releasedAt := Some ''2025-04-17''\<rparr>,
     (model_of_type ''chat'' ''gemini-2.0-flash'')\<lparr>am_abilities := Some (no_abilities\<lparr>ab_functionCall := Some True,
       ab_vision := Some True\<rparr>), am_contextWindowTokens := Some (1048576 + 8192),
       am_description := Some (tx 70), am_displayName := Some ''Gemini 2.0 Flash'',
       am_maxOutput := Some 8192, am_pricing := Some (no_pricing\<lparr>price_cachedInput := Some 0.0375,
       price_input := Some 0.15, price_output := Some 0.6\<rparr>), am_releasedAt := Some ''2025-02-05''\<rparr>,
     (model_of_type ''chat'' ''gemini-2.0-flash-lite'')\<lparr>am_abilities := Some (no_abilities\<lparr>ab_functionCall := Some True,
       ab_vision := Some True\<rparr>), am_contextWindowTokens := Some (1048576 + 8192),
       am_description := Some (tx 88), am_displayName := Some ''Gemini 2.0 Flash-Lite'',
       am_maxOutput := Some 8192, am_pricing := Some (no_pricing\<lparr>price_cachedInput := Some 0.01875,
       price_input := Some 0.075, price_output := Some 0.3\<rparr>), am_releasedAt := Some ''2025-02-05''\<rparr>,
     (model_of_type ''chat'' ''gemini-1.5-flash-002'')\<lparr>am_abilities := Some (no_abilities\<lparr>ab_functionCall := Some True,
       ab_vision := Some True\<rparr>), am_contextWindowTokens := Some (1000000 + 8192),
       am_description := Some (tx 106), am_displayName := Some ''Gemini 1.5 Flash 002'',
       am_maxOutput := Some 8192, am_pricing := Some (no_pricing\<lparr>price_input := Some 0.075,
       price_output := Some 0.3\<rparr>), am_releasedAt := Some ''2024-09-25''\<rparr>,
     (model_of_type ''chat'' ''gemini-1.5-pro-002'')\<lparr>am_abilities := Some (no_abilities\<lparr>ab_functionCall := Some True,
       ab_vision := Some True\<rparr>), am_contextWindowTokens := Some (2000000 + 8192),
       am_description := Some (tx 124), am_displayName := Some ''Gemini 1.5 Pro 002'',
       am_maxOutput := Some 8192, am_pricing := Some (no_pricing\<lparr>price_input := Some 1.25,
       price_output := Some 2.5\<rparr>), am_releasedAt := Some ''2024-09-24''\<rparr>]"

section \<open>vllm\<close>

definition vllmChatModels :: "texts \<Rightarrow> ai_model list" where
  [card_tables]: "vllmChatModels tx = [
     (model_of_type ''chat'' ''meta-llama/Meta-Llama-3.1-70B'')\<lparr>am_abilities := Some (no_abilities\<lparr>ab_functionCall := Some True\<rparr>),
       am_contextWindowTokens := Some 128000, am_description := Some (tx 10),
       am_displayName := Some ''Llama 3.1 70B'', am_enabled := Some True\<rparr>,
     (model_of_type ''chat'' ''meta-llama/Meta-Llama-3.1-405B-Instruct'')\<lparr>am_abilities := Some (no_abilities\<lparr>ab_functionCall := Some True\<rparr>),
       am_contextWindowTokens := Some 128000, am_description := Some (tx 22),
       am_displayName := Some ''Llama 3.1 405B Instruct''\<rparr>,
     (model_of_type ''chat'' ''google/gemma-2-9b'')\<lparr>am_contextWindowTokens := Some 8192,
       am_description := Some (tx 29), am_displayName := Some ''Gemma 2 9B''\<rparr>,
     (model_of_type ''chat'' ''google/gemma-2-27b'')\<lparr>am_contextWindowTokens := Some 8192,
       am_description := Some (tx 36), am_displayName := Some ''Gemma 2 27B''\<rparr>,
     (model_of_type ''chat'' ''mistralai/Mistral-7B-Instruct-v0.1'')\<lparr>am_contextWindowTokens := Some 8192,
       am_description := Some (tx 43), am_displayName := Some ''Mistral 7B Instruct v0.1''\<rparr>,
     (model_of_type ''chat'' ''mistralai/Mixtral-8x7B-Instruct-v0.1'')\<lparr>am_contextWindowTokens := Some 32768,
       am_description := Some (tx 50), am_displayName := Some ''Mistral 8x7B Instruct v0.1''\<rparr>,
     (model_of_type ''chat'' ''deepseek-ai/DeepSeek-V3'')\<lparr>am_abilities := Some (no_abilities\<lparr>ab_functionCall := Some True\<rparr>),
       am_contextWindowTokens := Some 65536, am_description := Some (tx 61),
       am_displayName := Some ''DeepSeek V3'', am_enabled := Some True\<rparr>,
     (model_of_type ''chat'' ''Qwen/QwQ-32B-Preview'')\<lparr>am_abilities := Some (no_abilities\<lparr>ab_reasoning := Some True\<rparr>),
       am_contextWindowTokens := Some 32768, am_description := Some (tx 72),
       am_displayName := Some ''QwQ 32B Preview'', am_enabled := Some True\<rparr>,
     (model_of_type ''chat'' ''Qwen/Qwen2-7B-Instruct'')\<lparr>am_contextWindowTokens := Some 32768,
       am_description := Some (tx 81), am_displayName := Some ''Qwen2 7B Instruct'',
       am_enabled := Some True\<rparr>]"

section \<open>volcengine\<close>

definition doubaoChatModels_1 :: "texts \<Rightarrow> ai_model list" where
  [card_tables]: "doubaoChatModels_1 tx = [
     (model_of_type ''chat'' ''Doubao-1.5-thinking-vision-pro'')\<lparr>am_abilities := Some (no_abilities\<lparr>ab_functionCall := Some True,
       ab_reasoning := Some True, ab_vision := Some True\<rparr>),
       am_config := Some (no_config\<lparr>mc_deploymentName := Some ''doubao-1-5-thinking-vision-pro-250428''\<rparr>),
       am_contextWindowTokens := Some 131072, am_description := Some (tx 18),
       am_displayName := Some ''Doubao 1.5 Thinking Vision Pro'', am_enabled := Some True,
       am_maxOutput := Some 16000, am_pricing := Some (no_pricing\<lparr>price_currency := Some CNY,
       price_input := Some 3, price_output := Some 9\<rparr>),
       am_settings := Some (no_settings\<lparr>ms_extendParams := Some [''enableReasoning'']\<rparr>)\<rparr>,
     (model_of_type ''chat'' ''doubao-1.5-thinking-pro'')\<lparr>am_abilities := Some (no_abilities\<lparr>ab_functionCall := Some True,
       ab_reasoning := Some True\<rparr>),
       am_config := Some (no_config\<lparr>mc_deploymentName := Some ''doubao-1-5-thinking-pro-250415''\<rparr>),
       am_contextWindowTokens := Some 131072, am_description := Some (tx 43),
       am_displayName := Some ''Doubao 1.5 Thinking Pro'', am_enabled := Some True,
       am_maxOutput := Some 16000, am_pricing := Some (no_pricing\<lparr>price_currency := Some CNY,
       price_input := Some 4, price_output := Some 16\<rparr>)\<rparr>,
     (model_of_type ''chat'' ''Doubao-1.5-thinking-pro-m'')\<lparr>am_abilities := Some (no_abilities\<lparr>ab_functionCall := Some True,
       ab_reasoning := Some True, ab_vision := Some True\<rparr>),
       am_config := Some (no_config\<lparr>mc_deploymentName := Some ''doubao-1-5-thinking-pro-m-250415''\<rparr>),
       am_contextWindowTokens := Some 131072, am_description := Some (tx 66),
       am_displayName := Some ''Doubao 1.5 Thinking Pro M'', am_maxOutput := Some 16000,
       am_pricing := Some (no_pricing\<lparr>price_currency := Some CNY, price_input := Some 4,
       price_output := Some 16\<rparr>)\<rparr>,
     (model_of_type ''chat'' ''deepseek-r1'')\<lparr>am_abilities := Some (no_abilities\<lparr>ab_functionCall := Some True,
       ab_reasoning := Some True\<rparr>),
       am_config := Some (no_config\<lparr>mc_deploymentName := Some ''deepseek-r1-250120''\<rparr>),
       am_contextWindowTokens := Some 98304, am_description := Some (tx 87),
       am_displayName := Some ''DeepSeek R1'', am_maxOutput := Some 16384,
       am_pricing := Some (no_pricing\<lparr>price_currency := Some CNY, price_input := Some 4,
       price_output := Some 16\<rparr>)\<rparr>,
     (model_of_type ''chat'' ''deepseek-r1-distill-qwen-32b'')\<lparr>am_abilities := Some (no_abilities\<lparr>ab_functionCall := Some True,
       ab_reasoning := Some True\<rparr>),
       am_config := Some (no_config\<lparr>mc_deploymentName := Some ''deepseek-r1-distill-qwen-32b-250120''\<rparr>),
       am_contextWindowTokens := Some 65536, am_description := Some (tx 108),
       am_displayName := Some ''DeepSeek R1 Distill Qwen 32B'', am_maxOutput := Some 8192,
       am_pricing := Some (no_pricing\<lparr>price_currency := Some CNY, price_input := Some 1.5,
       price_output := Some 6\<rparr>)\<rparr>,
     (model_of_type ''chat'' ''deepseek-r1-distill-qwen-7b'')\<lparr>am_abilities := Some (no_abilities\<lparr>ab_functionCall := Some True,
       ab_reasoning := Some True\<rparr>),
       am_config := Some (no_config\<lparr>mc_deploymentName := Some ''deepseek-r1-distill-qwen-7b-250120''\<rparr>),
       am_contextWindowTokens := Some 65536, am_description := Some (tx 129),
       am_displayName := Some ''DeepSeek R1 Distill Qwen 7B'', am_maxOutput := Some 8192,
       am_pricing := Some (no_pricing\<lparr>price_currency := Some CNY, price_input := Some 0.6,
       price_output := Some 2.4\<rparr>)\<rparr>]"

definition doubaoChatModels_2 :: "texts \<Rightarrow> ai_model list" where
  [card_tables]: "doubaoChatModels_2 tx = [
     (model_of_type ''chat'' ''deepseek-v3'')\<lparr>am_abilities := Some (no_abilities\<lparr>ab_functionCall := Some True\<rparr>),
       am_config := Some (no_config\<lparr>mc_deploymentName := Some ''deepseek-v3-250324''\<rparr>),
       am_contextWindowTokens := Some 128000, am_description := Some (tx 149),
       am_displayName := Some ''DeepSeek V3'', am_maxOutput := Some 16384,
       am_pricing := Some (no_pricing\<lparr>price_currency := Some CNY, price_input := Some 2,
       price_output := Some 8\<rparr>)\<rparr>,
     (model_of_type ''chat'' ''doubao-1.5-pro-32k'')\<lparr>am_abilities := Some (no_abilities\<lparr>ab_functionCall := Some True\<rparr>),
       am_config := Some (no_config\<lparr>mc_deploymentName := Some ''doubao-1-5-pro-32k-250115''\<rparr>),
       am_contextWindowTokens := Some 32768, am_description := Some (tx 169),
       am_displayName := Some ''Doubao 1.5 Pro 32k'', am_enabled := Some True,
       am_maxOutput := Some 12288, am_pricing := Some (no_pricing\<lparr>price_currency := Some CNY,
       price_input := Some 0.8, price_output := Some 2\<rparr>)\<rparr>,
     (model_of_type ''chat'' ''doubao-1.5-pro-256k'')\<lparr>am_config := Some (no_config\<lparr>mc_deploymentName := Some ''doubao-1-5-pro-256k-250115''\<rparr>),
       am_contextWindowTokens := Some 256000, am_description := Some (tx 187),
       am_displayName := Some ''Doubao 1.5 Pro 256k'', am_maxOutput := Some 12288,
       am_pricing := Some (no_pricing\<lparr>price_currency := Some CNY, price_input := Some 5,
       price_output := Some 9\<rparr>)\<rparr>,
     (model_of_type ''chat'' ''doubao-1.5-lite-32k'')\<lparr>am_abilities := Some (no_abilities\<lparr>ab_functionCall := Some True\<rparr>),
       am_config := Some (no_config\<lparr>mc_deploymentName := Some ''doubao-1-5-lite-32k-250115''\<rparr>),
       am_contextWindowTokens := Some 32768, am_description := Some (tx 206),
       am_displayName := Some ''Doubao 1.5 Lite 32k'', am_enabled := Some True,
       am_maxOutput := Some 12288, am_pricing := Some (no_pricing\<lparr>price_currency := Some CNY,
       price_input := Some 0.3, price_output := Some 0.6\<rparr>)\<rparr>,
     (model_of_type ''chat'' ''Doubao-1.5-vision-pro-32k'')\<lparr>am_abilities := Some (no_abilities\<lparr>ab_functionCall := Some True,
       ab_vision := Some True\<rparr>),
       am_config := Some (no_config\<lparr>mc_deploymentName := Some ''doubao-1-5-vision-pro-32k-250115''\<rparr>),
       am_contextWindowTokens := Some 32768, am_description := Some (tx 228),
       am_displayName := Some ''Doubao 1.5 Vision Pro 32k'', am_maxOutput := Some 12288,
       am_pricing := Some (no_pricing\<lparr>price_currency := Some CNY, price_input := Some 3,
       price_output := Some 9\<rparr>), am_releasedAt := Some ''2025-01-15''\<rparr>,
     (model_of_type ''chat'' ''Doubao-1.5-vision-pro'')\<lparr>am_abilities := Some (no_abilities\<lparr>ab_functionCall := Some True,
       ab_vision := Some True\<rparr>),
       am_config := Some (no_config\<lparr>mc_deploymentName := Some ''doubao-1-5-vision-pro-250328''\<rparr>),
       am_contextWindowTokens := Some 128000, am_description := Some (tx 250),
       am_displayName := Some ''Doubao 1.5 Vision Pro'', am_maxOutput := Some 16384,
       am_pricing := Some (no_pricing\<lparr>price_currency := Some CNY, price_input := Some 3,
       price_output := Some 9\<rparr>), am_releasedAt := Some ''2025-03-28''\<rparr>,
     (model_of_type ''chat'' ''doubao-1.5-vision-lite'')\<lparr>am_abilities := Some (no_abilities\<lparr>ab_functionCall := Some True,
       ab_vision := Some True\<rparr>),
       am_config := Some (no_config\<lparr>mc_deploymentName := Some ''doubao-1-5-vision-lite-250315''\<rparr>),
       am_contextWindowTokens := Some 128000, am_description := Some (tx 272),
       am_displayName := Some ''Doubao 1.5 Vision Lite'', am_maxOutput := Some 16384,
       am_pricing := Some (no_pricing\<lparr>price_currency := Some CNY, price_input := Some 1.5,
       price_output := Some 4.5\<rparr>), am_releasedAt := Some ''2025-03-15''\<rparr>]"

definition doubaoChatModels_3 :: "texts \<Rightarrow> ai_model list" where
  [card_tables]: "doubaoChatModels_3 tx = [
     (model_of_type ''chat'' ''Doubao-vision-pro-32k'')\<lparr>am_abilities := Some (no_abilities\<lparr>ab_vision := Some True\<rparr>),
       am_config := Some (no_config\<lparr>mc_deploymentName := Some ''doubao-vision-pro-32k-241028''\<rparr>),
       am_contextWindowTokens := Some 32768, am_description := Some (tx 293),
       am_displayName := Some ''Doubao Vision Pro 32k'', am_maxOutput := Some 4096,
       am_pricing := Some (no_pricing\<lparr>price_currency := Some CNY, price_input := Some 3,
       price_output := Some 9\<rparr>), am_releasedAt := Some ''2024-10-28''\<rparr>,
     (model_of_type ''chat'' ''Doubao-vision-lite-32k'')\<lparr>am_abilities := Some (no_abilities\<lparr>ab_vision := Some True\<rparr>),
       am_config := Some (no_config\<lparr>mc_deploymentName := Some ''doubao-vision-lite-32k-241015''\<rparr>),
       am_contextWindowTokens := Some 32768, am_description := Some (tx 314),
       am_displayName := Some ''Doubao Vision Lite 32k'', am_maxOutput := Some 4096,
       am_pricing := Some (no_pricing\<lparr>price_currency := Some CNY, price_input := Some 1.5,
       price_output := Some 4.5\<rparr>), am_releasedAt := Some ''2024-10-15''\<rparr>,
     (model_of_type ''chat'' ''Doubao-lite-4k'')\<lparr>am_contextWindowTokens := Some 4096,
       am_description := Some (tx 329), am_displayName := Some ''Doubao Lite 4k'',
       am_maxOutput := Some 4096, am_pricing := Some (no_pricing\<lparr>price_currency := Some CNY,
       price_input := Some 0.3, price_output := Some 0.6\<rparr>)\<rparr>,
     (model_of_type ''chat'' ''Doubao-lite-32k'')\<lparr>am_config := Some (no_config\<lparr>mc_deploymentName := Some ''doubao-lite-32k-240828''\<rparr>),
       am_contextWindowTokens := Some 32768, am_description := Some (tx 346),
       am_displayName := Some ''Doubao Lite 32k'', am_maxOutput := Some 4096,
       am_pricing := Some (no_pricing\<lparr>price_currency := Some CNY, price_input := Some 0.3,
       price_output := Some 0.6\<rparr>)\<rparr>,
     (model_of_type ''chat'' ''Doubao-lite-128k'')\<lparr>am_config := Some (no_config\<lparr>mc_deploymentName := Some ''doubao-lite-128k-240828''\<rparr>),
       am_contextWindowTokens := Some 128000, am_description := Some (tx 363),
       am_displayName := Some ''Doubao Lite 128k'', am_maxOutput := Some 4096,
       am_pricing := Some (no_pricing\<lparr>price_currency := Some CNY, price_input := Some 0.8,
       price_output := Some 1\<rparr>)\<rparr>,
     (model_of_type ''chat'' ''Doubao-pro-4k'')\<lparr>am_contextWindowTokens := Some 4096,
       am_description := Some (tx 377), am_displayName := Some ''Doubao Pro 4k'',
       am_maxOutput := Some 4096, am_pricing := Some (no_pricing\<lparr>price_currency := Some CNY,
       price_input := Some 0.8, price_output := Some 2\<rparr>)\<rparr>,
     (model_of_type ''chat'' ''Doubao-pro-32k'')\<lparr>am_config := Some (no_config\<lparr>mc_deploymentName := Some ''doubao-pro-32k-241215''\<rparr>),
       am_contextWindowTokens := Some 32768, am_description := Some (tx 394),
       am_displayName := Some ''Doubao Pro 32k'', am_maxOutput := Some 4096,
       am_pricing := Some (no_pricing\<lparr>price_currency := Some CNY, price_input := Some 0.8,
       price_output := Some 2\<rparr>)\<rparr>,
     (model_of_type ''chat'' ''Doubao-pro-128k'')\<lparr>am_contextWindowTokens := Some 128000,
       am_description := Some (tx 408), am_displayName := Some ''Doubao Pro 128k'',
       am_maxOutput := Some 4096, am_pricing := Some (no_pricing\<lparr>price_currency := Some CNY,
       price_input := Some 5, price_output := Some 9\<rparr>)\<rparr>]"

definition doubaoChatModels_4 :: "texts \<Rightarrow> ai_model list" where
  [card_tables]: "doubaoChatModels_4 tx = [
     (model_of_type ''chat'' ''Doubao-pro-256k'')\<lparr>am_config := Some (no_config\<lparr>mc_deploymentName := Some ''doubao-pro-256k-241115''\<rparr>),
       am_contextWindowTokens := Some 256000, am_description := Some (tx 425),
       am_displayName := Some ''Doubao Pro 256k'', am_maxOutput := Some 4096,
       am_pricing := Some (no_pricing\<lparr>price_currency := Some CNY, price_input := Some 5,
       price_output := Some 9\<rparr>)\<rparr>]"

definition doubaoChatModels :: "texts \<Rightarrow> ai_model list" where
  [card_tables]: "doubaoChatModels tx =
     doubaoChatModels_1 tx @ doubaoChatModels_2 tx @ doubaoChatModels_3 tx @ doubaoChatModels_4
     tx"

section \<open>wenxin\<close>

definition wenxinChatModels_1 :: "texts \<Rightarrow> ai_model list" where
  [card_tables]: "wenxinChatModels_1 tx = [
     (model_of_type ''chat'' ''ernie-x1-turbo-32k'')\<lparr>am_abilities := Some (no_abilities\<lparr>ab_reasoning := Some True\<rparr>),
       am_contextWindowTokens := Some 32768, am_description := Some (tx 10),
       am_displayName := Some ''ERNIE X1 Turbo 32K'', am_enabled := Some True,
       am_pricing := Some (no_pricing\<lparr>price_currency := Some CNY, price_input := Some 1,
       price_output := Some 4\<rparr>), am_releasedAt := Some ''2025-04-24''\<rparr>,
     (model_of_type ''chat'' ''ernie-x1-32k'')\<lparr>am_abilities := Some (no_abilities\<lparr>ab_reasoning := Some True\<rparr>),
       am_contextWindowTokens := Some 32768, am_description := Some (tx 28),
       am_displayName := Some ''ERNIE X1 32K'',
       am_pricing := Some (no_pricing\<lparr>price_currency := Some CNY, price_input := Some 2,
       price_output := Some 8\<rparr>), am_releasedAt := Some ''2025-04-15''\<rparr>,
     (model_of_type ''chat'' ''ernie-x1-32k-preview'')\<lparr>am_abilities := Some (no_abilities\<lparr>ab_reasoning := Some True\<rparr>),
       am_contextWindowTokens := Some 32768, am_description := Some (tx 45),
       am_displayName := Some ''ERNIE X1 32K Preview'',
       am_pricing := Some (no_pricing\<lparr>price_currency := Some CNY, price_input := Some 2,
       price_output := Some 8\<rparr>), am_releasedAt := Some ''2025-03-16''\<rparr>,
     (model_of_type ''chat'' ''ernie-4.5-turbo-128k'')\<lparr>am_abilities := Some (no_abilities\<lparr>ab_functionCall := Some True,
       ab_search := Some True\<rparr>), am_contextWindowTokens := Some 131072,
       am_description := Some (tx 63), am_displayName := Some ''ERNIE 4.5 Turbo 128K'',
       am_enabled := Some True, am_pricing := Some (no_pricing\<lparr>price_currency := Some CNY,
       price_input := Some 0.8, price_output := Some 3.2\<rparr>), am_releasedAt := Some ''2025-04-24'',
       am_settings := Some (no_settings\<lparr>ms_searchImpl := Some ''params''\<rparr>)\<rparr>,
     (model_of_type ''chat'' ''ernie-4.5-turbo-32k'')\<lparr>am_abilities := Some (no_abilities\<lparr>ab_functionCall := Some True,
       ab_search := Some True\<rparr>), am_contextWindowTokens := Some 32768,
       am_description := Some (tx 85), am_displayName := Some ''ERNIE 4.5 Turbo 32K'',
       am_pricing := Some (no_pricing\<lparr>price_currency := Some CNY, price_input := Some 0.8,
       price_output := Some 3.2\<rparr>), am_releasedAt := Some ''2025-04-24'',
       am_settings := Some (no_settings\<lparr>ms_searchImpl := Some ''params''\<rparr>)\<rparr>,
     (model_of_type ''chat'' ''ernie-4.5-turbo-vl-32k'')\<lparr>am_abilities := Some (no_abilities\<lparr>ab_vision := Some True\<rparr>),
       am_contextWindowTokens := Some 32768, am_description := Some (tx 105),
       am_displayName := Some ''ERNIE 4.5 Turbo VL 32K'', am_enabled := Some True,
       am_pricing := Some (no_pricing\<lparr>price_currency := Some CNY, price_input := Some 3,
       price_output := Some 9\<rparr>), am_releasedAt := Some ''2025-04-24''\<rparr>,
     (model_of_type ''chat'' ''ernie-4.5-8k-preview'')\<lparr>am_abilities := Some (no_abilities\<lparr>ab_vision := Some True\<rparr>),
       am_contextWindowTokens := Some 8192, am_description := Some (tx 123),
       am_displayName := Some ''ERNIE 4.5 8K Preview'',
       am_pricing := Some (no_pricing\<lparr>price_currency := Some CNY, price_input := Some 4,
       price_output := Some 16\<rparr>), am_releasedAt := Some ''2025-03-16''\<rparr>,
     (model_of_type ''chat'' ''ernie-4.0-8k-latest'')\<lparr>am_abilities := Some (no_abilities\<lparr>ab_functionCall := Some True,
       ab_search := Some True\<rparr>), am_contextWindowTokens := Some 8192,
       am_description := Some (tx 141), am_displayName := Some ''ERNIE 4.0 8K'',
       am_pricing := Some (no_pricing\<lparr>price_currency := Some CNY, price_input := Some 30,
       price_output := Some 90\<rparr>),
       am_settings := Some (no_settings\<lparr>ms_searchImpl := Some ''params''\<rparr>)\<rparr>]"

definition wenxinChatModels_2 :: "texts \<Rightarrow> ai_model list" where
  [card_tables]: "wenxinChatModels_2 tx = [
     (model_of_type ''chat'' ''ernie-4.0-8k-preview'')\<lparr>am_abilities := Some (no_abilities\<lparr>ab_functionCall := Some True,
       ab_search := Some True\<rparr>), am_contextWindowTokens := Some 8192,
       am_description := Some (tx 161), am_displayName := Some ''ERNIE 4.0 8K Preview'',
       am_pricing := Some (no_pricing\<lparr>price_currency := Some CNY, price_input := Some 30,
       price_output := Some 90\<rparr>),
       am_settings := Some (no_settings\<lparr>ms_searchImpl := Some ''params''\<rparr>)\<rparr>,
     (model_of_type ''chat'' ''ernie-4.0-turbo-8k-latest'')\<lparr>am_abilities := Some (no_abilities\<lparr>ab_functionCall := Some True,
       ab_search := Some True\<rparr>), am_contextWindowTokens := Some 8192,
       am_description := Some (tx 181), am_displayName := Some ''ERNIE 4.0 Turbo 8K'',
       am_pricing := Some (no_pricing\<lparr>price_currency := Some CNY, price_input := Some 20,
       price_output := Some 60\<rparr>),
       am_settings := Some (no_settings\<lparr>ms_searchImpl := Some ''params''\<rparr>)\<rparr>,
     (model_of_type ''chat'' ''ernie-4.0-turbo-128k'')\<lparr>am_abilities := Some (no_abilities\<lparr>ab_functionCall := Some True,
       ab_search := Some True\<rparr>), am_contextWindowTokens := Some 128000,
       am_description := Some (tx 201), am_displayName := Some ''ERNIE 4.0 Turbo 128K'',
       am_pricing := Some (no_pricing\<lparr>price_currency := Some CNY, price_input := Some 20,
       price_output := Some 60\<rparr>),
       am_settings := Some (no_settings\<lparr>ms_searchImpl := Some ''params''\<rparr>)\<rparr>,
     (model_of_type ''chat'' ''ernie-4.0-turbo-8k-preview'')\<lparr>am_abilities := Some (no_abilities\<lparr>ab_functionCall := Some True,
       ab_search := Some True\<rparr>), am_contextWindowTokens := Some 8192,
       am_description := Some (tx 221), am_displayName := Some ''ERNIE 4.0 Turbo 8K Preview'',
       am_pricing := Some (no_pricing\<lparr>price_currency := Some CNY, price_input := Some 20,
       price_output := Some 60\<rparr>),
       am_settings := Some (no_settings\<lparr>ms_searchImpl := Some ''params''\<rparr>)\<rparr>,
     (model_of_type ''chat'' ''ernie-3.5-8k'')\<lparr>am_abilities := Some (no_abilities\<lparr>ab_functionCall := Some True,
       ab_search := Some True\<rparr>), am_contextWindowTokens := Some 8192,
       am_description := Some (tx 241), am_displayName := Some ''ERNIE 3.5 8K'',
       am_pricing := Some (no_pricing\<lparr>price_currency := Some CNY, price_input := Some 0.8,
       price_output := Some 2\<rparr>),
       am_settings := Some (no_settings\<lparr>ms_searchImpl := Some ''params''\<rparr>)\<rparr>,
     (model_of_type ''chat'' ''ernie-3.5-8k-preview'')\<lparr>am_abilities := Some (no_abilities\<lparr>ab_functionCall := Some True,
       ab_search := Some True\<rparr>), am_contextWindowTokens := Some 8192,
       am_description := Some (tx 261), am_displayName := Some ''ERNIE 3.5 8K Preview'',
       am_pricing := Some (no_pricing\<lparr>price_currency := Some CNY, price_input := Some 0.8,
       price_output := Some 2\<rparr>),
       am_settings := Some (no_settings\<lparr>ms_searchImpl := Some ''params''\<rparr>)\<rparr>,
     (model_of_type ''chat'' ''ernie-3.5-128k'')\<lparr>am_abilities := Some (no_abilities\<lparr>ab_functionCall := Some True,
       ab_search := Some True\<rparr>), am_contextWindowTokens := Some 128000,
       am_description := Some (tx 281), am_displayName := Some ''ERNIE 3.5 128K'',
       am_pricing := Some (no_pricing\<lparr>price_currency := Some CNY, price_input := Some 0.8,
       price_output := Some 2\<rparr>),
       am_settings := Some (no_settings\<lparr>ms_searchImpl := Some ''params''\<rparr>)\<rparr>]"

definition wenxinChatModels_3 :: "texts \<Rightarrow> ai_model list" where
  [card_tables]: "wenxinChatModels_3 tx = [
     (model_of_type ''chat'' ''ernie-lite-8k'')\<lparr>am_contextWindowTokens := Some 8192,
       am_description := Some (tx 297), am_displayName := Some ''ERNIE Lite 8K'',
       am_pricing := Some (no_pricing\<lparr>price_currency := Some CNY, price_input := Some 0,
       price_output := Some 0\<rparr>)\<rparr>,
     (model_of_type ''chat'' ''ernie-lite-pro-128k'')\<lparr>am_abilities := Some (no_abilities\<lparr>ab_functionCall := Some True\<rparr>),
       am_contextWindowTokens := Some 128000, am_description := Some (tx 313),
       am_displayName := Some ''ERNIE Lite Pro 128K'',
       am_pricing := Some (no_pricing\<lparr>price_currency := Some CNY, price_input := Some 0.2,
       price_output := Some 0.4\<rparr>)\<rparr>,
     (model_of_type ''chat'' ''ernie-tiny-8k'')\<lparr>am_contextWindowTokens := Some 8192,
       am_description := Some (tx 325), am_displayName := Some ''ERNIE Tiny 8K'',
       am_pricing := Some (no_pricing\<lparr>price_currency := Some CNY, price_input := Some 0,
       price_output := Some 0\<rparr>)\<rparr>,
     (model_of_type ''chat'' ''ernie-speed-128k'')\<lparr>am_contextWindowTokens := Some 128000,
       am_description := Some (tx 338), am_displayName := Some ''ERNIE Speed 128K'',
       am_pricing := Some (no_pricing\<lparr>price_currency := Some CNY, price_input := Some 0,
       price_output := Some 0\<rparr>)\<rparr>,
     (model_of_type ''chat'' ''ernie-speed-pro-128k'')\<lparr>am_contextWindowTokens := Some 128000,
       am_description := Some (tx 351), am_displayName := Some ''ERNIE Speed Pro 128K'',
       am_pricing := Some (no_pricing\<lparr>price_currency := Some CNY, price_input := Some 0.3,
       price_output := Some 0.6\<rparr>)\<rparr>,
     (model_of_type ''chat'' ''ernie-char-8k'')\<lparr>am_contextWindowTokens := Some 8192,
       am_description := Some (tx 364), am_displayName := Some ''ERNIE Character 8K'',
       am_pricing := Some (no_pricing\<lparr>price_currency := Some CNY, price_input := Some 4,
       price_output := Some 8\<rparr>)\<rparr>,
     (model_of_type ''chat'' ''ernie-char-fiction-8k'')\<lparr>am_contextWindowTokens := Some 8192,
       am_description := Some (tx 377), am_displayName := Some ''ERNIE Character Fiction 8K'',
       am_pricing := Some (no_pricing\<lparr>price_currency := Some CNY, price_input := Some 4,
       price_output := Some 8\<rparr>)\<rparr>,
     (model_of_type ''chat'' ''ernie-novel-8k'')\<lparr>am_contextWindowTokens := Some 8192,
       am_description := Some (tx 389), am_displayName := Some ''ERNIE Novel 8K'',
       am_pricing := Some (no_pricing\<lparr>price_currency := Some CNY, price_input := Some 40,
       price_output := Some 120\<rparr>)\<rparr>,
     (model_of_type ''chat'' ''deepseek-v3'')\<lparr>am_contextWindowTokens := Some 65536,
       am_description := Some (tx 402), am_displayName := Some ''DeepSeek V3'',
       am_pricing := Some (no_pricing\<lparr>price_currency := Some CNY, price_input := Some 0.8,
       price_output := Some 1.6\<rparr>)\<rparr>,
     (model_of_type ''chat'' ''deepseek-r1'')\<lparr>am_abilities := Some (no_abilities\<lparr>ab_reasoning := Some True\<rparr>),
       am_contextWindowTokens := Some 65536, am_description := Some (tx 418),
       am_displayName := Some ''DeepSeek R1'',
       am_pricing := Some (no_pricing\<lparr>price_currency := Some CNY, price_input := Some 2,
       price_output := Some 8\<rparr>)\<rparr>,
     (model_of_type ''chat'' ''deepseek-r1-distill-qwen-1.5b'')\<lparr>am_abilities := Some (no_abilities\<lparr>ab_reasoning := Some True\<rparr>),
       am_contextWindowTokens := Some 32768, am_description := Some (tx 433),
       am_displayName := Some ''DeepSeek R1 Distill Qwen 1.5B'',
       am_pricing := Some (no_pricing\<lparr>price_currency := Some CNY, price_input := Some 2,
       price_output := Some 8\<rparr>)\<rparr>]"

definition wenxinChatModels_4 :: "texts \<Rightarrow> ai_model list" where
  [card_tables]: "wenxinChatModels_4 tx = [
     (model_of_type ''chat'' ''deepseek-r1-distill-qwen-7b'')\<lparr>am_abilities := Some (no_abilities\<lparr>ab_reasoning := Some True\<rparr>),
       am_contextWindowTokens := Some 32768, am_description := Some (tx 448),
       am_displayName := Some ''DeepSeek R1 Distill Qwen 7B'',
       am_pricing := Some (no_pricing\<lparr>price_currency := Some CNY, price_input := Some 0.6,
       price_output := Some 2.4\<rparr>)\<rparr>,
     (model_of_type ''chat'' ''deepseek-r1-distill-qwen-14b'')\<lparr>am_abilities := Some (no_abilities\<lparr>ab_reasoning := Some True\<rparr>),
       am_contextWindowTokens := Some 32768, am_description := Some (tx 463),
       am_displayName := Some ''DeepSeek R1 Distill Qwen 14B'',
       am_pricing := Some (no_pricing\<lparr>price_currency := Some CNY, price_input := Some 0.6,
       price_output := Some 2.4\<rparr>)\<rparr>,
     (model_of_type ''chat'' ''deepseek-r1-distill-qwen-32b'')\<lparr>am_abilities := Some (no_abilities\<lparr>ab_reasoning := Some True\<rparr>),
       am_contextWindowTokens := Some 32768, am_description := Some (tx 478),
       am_displayName := Some ''DeepSeek R1 Distill Qwen 32B'',
       am_pricing := Some (no_pricing\<lparr>price_currency := Some CNY, price_input := Some 1.5,
       price_output := Some 6\<rparr>)\<rparr>,
     (model_of_type ''chat'' ''deepseek-r1-distill-llama-8b'')\<lparr>am_abilities := Some (no_abilities\<lparr>ab_reasoning := Some True\<rparr>),
       am_contextWindowTokens := Some 32768, am_description := Some (tx 493),
       am_displayName := Some ''DeepSeek R1 Distill Llama 8B'',
       am_pricing := Some (no_pricing\<lparr>price_currency := Some CNY, price_input := Some 1.5,
       price_output := Some 6\<rparr>)\<rparr>,
     (model_of_type ''chat'' ''deepseek-r1-distill-llama-70b'')\<lparr>am_abilities := Some (no_abilities\<lparr>ab_reasoning := Some True\<rparr>),
       am_contextWindowTokens := Some 32768, am_description := Some (tx 508),
       am_displayName := Some ''DeepSeek R1 Distill Llama 70B'',
       am_pricing := Some (no_pricing\<lparr>price_currency := Some CNY, price_input := Some 2,
       price_output := Some 8\<rparr>)\<rparr>,
     (model_of_type ''chat'' ''deepseek-r1-distill-qianfan-llama-8b'')\<lparr>am_abilities := Some (no_abilities\<lparr>ab_reasoning := Some True\<rparr>),
       am_contextWindowTokens := Some 32768, am_description := Some (tx 524),
       am_displayName := Some ''DeepSeek R1 Distill Qianfan Llama 8B'',
       am_pricing := Some (no_pricing\<lparr>price_currency := Some CNY, price_input := Some 1,
       price_output := Some 4\<rparr>)\<rparr>,
     (model_of_type ''chat'' ''deepseek-r1-distill-qianfan-llama-70b'')\<lparr>am_abilities := Some (no_abilities\<lparr>ab_reasoning := Some True\<rparr>),
       am_contextWindowTokens := Some 32768, am_description := Some (tx 540),
       am_displayName := Some ''DeepSeek R1 Distill Qianfan Llama 70B'',
       am_pricing := Some (no_pricing\<lparr>price_currency := Some CNY, price_input := Some 2,
       price_output := Some 8\<rparr>)\<rparr>,
     (model_of_type ''chat'' ''qwq-32b'')\<lparr>am_abilities := Some (no_abilities\<lparr>ab_reasoning := Some True\<rparr>),
       am_contextWindowTokens := Some 32768, am_description := Some (tx 556),
       am_displayName := Some ''QwQ 32B'',
       am_pricing := Some (no_pricing\<lparr>price_currency := Some CNY, price_input := Some 2,
       price_output := Some 8\<rparr>)\<rparr>]"

definition wenxinChatModels :: "texts \<Rightarrow> ai_model list" where
  [card_tables]: "wenxinChatModels tx =
     wenxinChatModels_1 tx @ wenxinChatModels_2 tx @ wenxinChatModels_3 tx @ wenxinChatModels_4
     tx"

section \<open>xai\<close>

definition xaiChatModels :: "texts \<Rightarrow> ai_model list" where
  [card_tables]: "xaiChatModels tx = [
     (model_of_type ''chat'' ''grok-3-beta'')\<lparr>am_abilities := Some (no_abilities\<lparr>ab_functionCall := Some True\<rparr>),
       am_contextWindowTokens := Some 131072, am_description := Some (tx 11),
       am_displayName := Some ''Grok 3 Beta'', am_enabled := Some True,
       am_pricing := Some (no_pricing\<lparr>price_input := Some 3, price_output := Some 15\<rparr>),
       am_releasedAt := Some ''2025-04-03''\<rparr>,
     (model_of_type ''chat'' ''grok-3-fast-beta'')\<lparr>am_abilities := Some (no_abilities\<lparr>ab_functionCall := Some True\<rparr>),
       am_contextWindowTokens := Some 131072, am_description := Some (tx 28),
       am_displayName := Some ''Grok 3 Beta (Fast mode)'',
       am_pricing := Some (no_pricing\<lparr>price_input := Some 5, price_output := Some 25\<rparr>),
       am_releasedAt := Some ''2025-04-03''\<rparr>,
     (model_of_type ''chat'' ''grok-3-mini-beta'')\<lparr>am_abilities := Some (no_abilities\<lparr>ab_functionCall := Some True,
       ab_reasoning := Some True\<rparr>), am_contextWindowTokens := Some 131072,
       am_description := Some (tx 45), am_displayName := Some ''Grok 3 Mini Beta'',
       am_enabled := Some True, am_pricing := Some (no_pricing\<lparr>price_input := Some 0.3,
       price_output := Some 0.5\<rparr>), am_releasedAt := Some ''2025-04-03''\<rparr>,
     (model_of_type ''chat'' ''grok-3-mini-fast-beta'')\<lparr>am_abilities := Some (no_abilities\<lparr>ab_functionCall := Some True,
       ab_reasoning := Some True\<rparr>), am_contextWindowTokens := Some 131072,
       am_description := Some (tx 63), am_displayName := Some ''Grok 3 Mini Beta (Fast mode)'',
       am_pricing := Some (no_pricing\<lparr>price_input := Some 0.6, price_output := Some 4\<rparr>),
       am_releasedAt := Some ''2025-04-03''\<rparr>,
     (model_of_type ''chat'' ''grok-2-vision-1212'')\<lparr>am_abilities := Some (no_abilities\<lparr>ab_functionCall := Some True,
       ab_vision := Some True\<rparr>), am_contextWindowTokens := Some 32768,
       am_description := Some (tx 79), am_displayName := Some ''Grok 2 Vision 1212'',
       am_enabled := Some True, am_pricing := Some (no_pricing\<lparr>price_input := Some 2,
       price_output := Some 10\<rparr>), am_releasedAt := Some ''2024-12-12''\<rparr>,
     (model_of_type ''chat'' ''grok-2-1212'')\<lparr>am_abilities := Some (no_abilities\<lparr>ab_functionCall := Some True\<rparr>),
       am_contextWindowTokens := Some 131072, am_description := Some (tx 95),
       am_displayName := Some ''Grok 2 1212'', am_pricing := Some (no_pricing\<lparr>price_input := Some 2,
       price_output := Some 10\<rparr>), am_releasedAt := Some ''2024-12-12''\<rparr>,
     (model_of_type ''chat'' ''grok-beta'')\<lparr>am_abilities := Some (no_abilities\<lparr>ab_functionCall := Some True\<rparr>),
       am_contextWindowTokens := Some 131072, am_description := Some (tx 110),
       am_displayName := Some ''Grok Beta'', am_pricing := Some (no_pricing\<lparr>price_input := Some 5,
       price_output := Some 15\<rparr>)\<rparr>,
     (model_of_type ''chat'' ''grok-vision-beta'')\<lparr>am_abilities := Some (no_abilities\<lparr>ab_functionCall := Some True,
       ab_vision := Some True\<rparr>), am_contextWindowTokens := Some 8192,
       am_description := Some (tx 125), am_displayName := Some ''Grok Vision Beta'',
       am_pricing := Some (no_pricing\<lparr>price_input := Some 5, price_output := Some 15\<rparr>)\<rparr>]"

section \<open>xinference\<close>

definition xinferenceChatModels_1 :: "texts \<Rightarrow> ai_model list" where
  [card_tables]: "xinferenceChatModels_1 tx = [
     (model_of_type ''chat'' ''deepseek-v3'')\<lparr>am_abilities := Some (no_abilities\<lparr>ab_functionCall := Some True\<rparr>),
       am_contextWindowTokens := Some 163840, am_description := Some (tx 10),
       am_displayName := Some ''DeepSeek V3'', am_enabled := Some True\<rparr>,
     (model_of_type ''chat'' ''deepseek-r1'')\<lparr>am_abilities := Some (no_abilities\<lparr>ab_reasoning := Some True\<rparr>),
       am_contextWindowTokens := Some 163840, am_description := Some (tx 22),
       am_displayName := Some ''DeepSeek R1'', am_enabled := Some True\<rparr>,
     (model_of_type ''chat'' ''deepseek-r1-distill-llama'')\<lparr>am_abilities := Some (no_abilities\<lparr>ab_reasoning := Some True\<rparr>),
       am_contextWindowTokens := Some 131072, am_description := Some (tx 33),
       am_displayName := Some ''DeepSeek R1 Distill Llama'', am_enabled := Some True\<rparr>,
     (model_of_type ''chat'' ''deepseek-r1-distill-qwen'')\<lparr>am_abilities := Some (no_abilities\<lparr>ab_reasoning := Some True\<rparr>),
       am_contextWindowTokens := Some 131072, am_description := Some (tx 44),
       am_displayName := Some ''DeepSeek R1 Distill Qwen'', am_enabled := Some True\<rparr>,
     (model_of_type ''chat'' ''qwq-32b'')\<lparr>am_abilities := Some (no_abilities\<lparr>ab_reasoning := Some True\<rparr>),
       am_contextWindowTokens := Some 32768, am_description := Some (tx 56),
       am_displayName := Some ''QwQ 32B'', am_enabled := Some True\<rparr>,
     (model_of_type ''chat'' ''qvq-72b-preview'')\<lparr>am_abilities := Some (no_abilities\<lparr>ab_reasoning := Some True,
       ab_vision := Some True\<rparr>), am_contextWindowTokens := Some 32768,
       am_description := Some (tx 68), am_displayName := Some ''QVQ 72B Preview'',
       am_enabled := Some True\<rparr>,
     (model_of_type ''chat'' ''qwen2.5-instruct'')\<lparr>am_abilities := Some (no_abilities\<lparr>ab_functionCall := Some True\<rparr>),
       am_contextWindowTokens := Some 32768, am_description := Some (tx 80),
       am_displayName := Some ''Qwen2.5 Instruct'', am_enabled := Some True\<rparr>,
     (model_of_type ''chat'' ''qwen2.5-coder-instruct'')\<lparr>am_abilities := Some (no_abilities\<lparr>ab_functionCall := Some True\<rparr>),
       am_contextWindowTokens := Some 32768, am_description := Some (tx 91),
       am_displayName := Some ''Qwen2.5 Coder Instruct'', am_enabled := Some True\<rparr>,
     (model_of_type ''chat'' ''qwen2.5-vl-instruct'')\<lparr>am_abilities := Some (no_abilities\<lparr>ab_vision := Some True\<rparr>),
       am_contextWindowTokens := Some 128000, am_description := Some (tx 102),
       am_displayName := Some ''Qwen2.5 VL Instruct'', am_enabled := Some True\<rparr>,
     (model_of_type ''chat'' ''mistral-nemo-instruct'')\<lparr>am_contextWindowTokens := Some 1024000,
       am_description := Some (tx 111), am_displayName := Some ''Mistral Nemo Instruct'',
       am_enabled := Some True\<rparr>,
     (model_of_type ''chat'' ''mistral-large-instruct'')\<lparr>am_contextWindowTokens := Some 131072,
       am_description := Some (tx 120), am_displayName := Some ''Mistral Large Instruct'',
       am_enabled := Some True\<rparr>,
     (model_of_type ''chat'' ''llama-3.3-instruct'')\<lparr>am_abilities := Some (no_abilities\<lparr>ab_functionCall := Some True\<rparr>),
       am_contextWindowTokens := Some 131072, am_description := Some (tx 132),
       am_displayName := Some ''Llama 3.3 Instruct'', am_enabled := Some True\<rparr>,
     (model_of_type ''chat'' ''llama-3.2-vision-instruct'')\<lparr>am_abilities := Some (no_abilities\<lparr>ab_vision := Some True\<rparr>),
       am_contextWindowTokens := Some 163840, am_description := Some (tx 144),
       am_displayName := Some ''Llama 3.2 Vision Instruct'', am_enabled := Some True\<rparr>]"

definition xinferenceChatModels_2 :: "texts \<Rightarrow> ai_model list" where
  [card_tables]: "xinferenceChatModels_2 tx = [
     (model_of_type ''chat'' ''llama-3.1-instruct'')\<lparr>am_abilities := Some (no_abilities\<lparr>ab_functionCall := Some True\<rparr>),
       am_contextWindowTokens := Some 131072, am_description := Some (tx 156),
       am_displayName := Some ''Llama 3.1 Instruct'', am_enabled := Some True\<rparr>]"

definition xinferenceChatModels :: "texts \<Rightarrow> ai_model list" where
  [card_tables]: "xinferenceChatModels tx =
     xinferenceChatModels_1 tx @ xinferenceChatModels_2 tx"

section \<open>zeroone\<close>

definition zerooneChatModels_1 :: "texts \<Rightarrow> ai_model list" where
  [card_tables]: "zerooneChatModels_1 tx = [
     (model_of_type ''chat'' ''yi-lightning'')\<lparr>am_contextWindowTokens := Some 16384,
       am_description := Some (tx 6), am_displayName := Some ''Yi Lightning'',
       am_enabled := Some True, am_pricing := Some (no_pricing\<lparr>price_currency := Some CNY,
       price_input := Some 0.99, price_output := Some 0.99\<rparr>)\<rparr>,
     (model_of_type ''chat'' ''yi-vision-v2'')\<lparr>am_abilities := Some (no_abilities\<lparr>ab_vision := Some True\<rparr>),
       am_contextWindowTokens := Some 16384, am_description := Some (tx 22),
       am_displayName := Some ''Yi Vision V2'', am_enabled := Some True,
       am_pricing := Some (no_pricing\<lparr>price_currency := Some CNY, price_input := Some 6,
       price_output := Some 6\<rparr>)\<rparr>,
     (model_of_type ''chat'' ''yi-spark'')\<lparr>am_contextWindowTokens := Some 16384,
       am_description := Some (tx 35), am_displayName := Some ''Yi Spark'',
       am_pricing := Some (no_pricing\<lparr>price_currency := Some CNY, price_input := Some 1,
       price_output := Some 1\<rparr>)\<rparr>,
     (model_of_type ''chat'' ''yi-medium'')\<lparr>am_contextWindowTokens := Some 16384,
       am_description := Some (tx 47), am_displayName := Some ''Yi Medium'',
       am_pricing := Some (no_pricing\<lparr>price_currency := Some CNY, price_input := Some 2.5,
       price_output := Some 2.5\<rparr>)\<rparr>,
     (model_of_type ''chat'' ''yi-medium-200k'')\<lparr>am_contextWindowTokens := Some 200000,
       am_description := Some (tx 59), am_displayName := Some ''Yi Medium 200K'',
       am_pricing := Some (no_pricing\<lparr>price_currency := Some CNY, price_input := Some 12,
       price_output := Some 12\<rparr>)\<rparr>,
     (model_of_type ''chat'' ''yi-large-turbo'')\<lparr>am_contextWindowTokens := Some 16384,
       am_description := Some (tx 71), am_displayName := Some ''Yi Large Turbo'',
       am_pricing := Some (no_pricing\<lparr>price_currency := Some CNY, price_input := Some 12,
       price_output := Some 12\<rparr>)\<rparr>,
     (model_of_type ''chat'' ''yi-large-rag'')\<lparr>am_contextWindowTokens := Some 16384,
       am_description := Some (tx 84), am_displayName := Some ''Yi Large RAG'',
       am_pricing := Some (no_pricing\<lparr>price_currency := Some CNY, price_input := Some 25,
       price_output := Some 25\<rparr>)\<rparr>,
     (model_of_type ''chat'' ''yi-large-fc'')\<lparr>am_abilities := Some (no_abilities\<lparr>ab_functionCall := Some True\<rparr>),
       am_contextWindowTokens := Some 32768, am_description := Some (tx 100),
       am_displayName := Some ''Yi Large FC'',
       am_pricing := Some (no_pricing\<lparr>price_currency := Some CNY, price_input := Some 20,
       price_output := Some 20\<rparr>)\<rparr>,
     (model_of_type ''chat'' ''yi-large'')\<lparr>am_contextWindowTokens := Some 32768,
       am_description := Some (tx 112), am_displayName := Some ''Yi Large'',
       am_pricing := Some (no_pricing\<lparr>price_currency := Some CNY, price_input := Some 20,
       price_output := Some 20\<rparr>)\<rparr>,
     (model_of_type ''chat'' ''yi-vision'')\<lparr>am_abilities := Some (no_abilities\<lparr>ab_vision := Some True\<rparr>),
       am_contextWindowTokens := Some 16384, am_description := Some (tx 127),
       am_displayName := Some ''Yi Vision'',
       am_pricing := Some (no_pricing\<lparr>price_currency := Some CNY, price_input := Some 6,
       price_output := Some 6\<rparr>)\<rparr>,
     (model_of_type ''chat'' ''yi-large-preview'')\<lparr>am_contextWindowTokens := Some 16384,
       am_description := Some (tx 139), am_displayName := Some ''Yi Large Preview'',
       am_pricing := Some (no_pricing\<lparr>price_currency := Some CNY, price_input := Some 20,
       price_output := Some 20\<rparr>)\<rparr>]"

definition zerooneChatModels_2 :: "texts \<Rightarrow> ai_model list" where
  [card_tables]: "zerooneChatModels_2 tx = [
     (model_of_type ''chat'' ''yi-lightning-lite'')\<lparr>am_contextWindowTokens := Some 16384,
       am_description := Some (tx 151), am_displayName := Some ''Yi Lightning Lite'',
       am_pricing := Some (no_pricing\<lparr>price_currency := Some CNY, price_input := Some 0.99,
       price_output := Some 0.99\<rparr>)\<rparr>]"

definition zerooneChatModels :: "texts \<Rightarrow> ai_model list" where
  [card_tables]: "zerooneChatModels tx =
     zerooneChatModels_1 tx @ zerooneChatModels_2 tx"

section \<open>zhipu\<close>

definition zhipuChatModels_1 :: "texts \<Rightarrow> ai_model list" where
  [card_tables]: "zhipuChatModels_1 tx = [
     (model_of_type ''chat'' ''glm-zero-preview'')\<lparr>am_abilities := Some (no_abilities\<lparr>ab_reasoning := Some True\<rparr>),
       am_contextWindowTokens := Some 16384, am_description := Some (tx 9),
       am_displayName := Some ''GLM-Zero-Preview'',
       am_pricing := Some (no_pricing\<lparr>price_currency := Some CNY, price_input := Some 10,
       price_output := Some 10\<rparr>)\<rparr>,
     (model_of_type ''chat'' ''glm-z1-air'')\<lparr>am_abilities := Some (no_abilities\<lparr>ab_reasoning := Some True,
       ab_search := Some True\<rparr>), am_contextWindowTokens := Some 32000,
       am_description := Some (tx 25), am_displayName := Some ''GLM-Z1-Air'',
       am_maxOutput := Some 30000, am_pricing := Some (no_pricing\<lparr>price_currency := Some CNY,
       price_input := Some 0.5, price_output := Some 0.5\<rparr>),
       am_settings := Some (no_settings\<lparr>ms_searchImpl := Some ''params''\<rparr>)\<rparr>,
     (model_of_type ''chat'' ''glm-z1-airx'')\<lparr>am_abilities := Some (no_abilities\<lparr>ab_reasoning := Some True,
       ab_search := Some True\<rparr>), am_contextWindowTokens := Some 32000,
       am_description := Some (tx 45), am_displayName := Some ''GLM-Z1-AirX'',
       am_maxOutput := Some 30000, am_pricing := Some (no_pricing\<lparr>price_currency := Some CNY,
       price_input := Some 5, price_output := Some 5\<rparr>),
       am_settings := Some (no_settings\<lparr>ms_searchImpl := Some ''params''\<rparr>)\<rparr>,
     (model_of_type ''chat'' ''glm-z1-flash'')\<lparr>am_abilities := Some (no_abilities\<lparr>ab_reasoning := Some True,
       ab_search := Some True\<rparr>), am_contextWindowTokens := Some 32000,
       am_description := Some (tx 66), am_displayName := Some ''GLM-Z1-Flash'',
       am_enabled := Some True, am_maxOutput := Some 30000,
       am_pricing := Some (no_pricing\<lparr>price_currency := Some CNY, price_input := Some 0,
       price_output := Some 0\<rparr>),
       am_settings := Some (no_settings\<lparr>ms_searchImpl := Some ''params''\<rparr>)\<rparr>,
     (model_of_type ''chat'' ''glm-4-flash-250414'')\<lparr>am_abilities := Some (no_abilities\<lparr>ab_functionCall := Some True,
       ab_search := Some True\<rparr>), am_contextWindowTokens := Some 128000,
       am_description := Some (tx 87), am_displayName := Some ''GLM-4-Flash-250414'',
       am_enabled := Some True, am_maxOutput := Some 4000,
       am_pricing := Some (no_pricing\<lparr>price_currency := Some CNY, price_input := Some 0,
       price_output := Some 0\<rparr>),
       am_settings := Some (no_settings\<lparr>ms_searchImpl := Some ''params''\<rparr>)\<rparr>,
     (model_of_type ''chat'' ''glm-4-flashx'')\<lparr>am_abilities := Some (no_abilities\<lparr>ab_functionCall := Some True,
       ab_search := Some True\<rparr>), am_contextWindowTokens := Some 128000,
       am_description := Some (tx 108), am_displayName := Some ''GLM-4-FlashX'',
       am_maxOutput := Some 4000, am_pricing := Some (no_pricing\<lparr>price_currency := Some CNY,
       price_input := Some 0.1, price_output := Some 0.1\<rparr>),
       am_settings := Some (no_settings\<lparr>ms_searchImpl := Some ''params''\<rparr>)\<rparr>,
     (model_of_type ''chat'' ''glm-4-long'')\<lparr>am_abilities := Some (no_abilities\<lparr>ab_functionCall := Some True,
       ab_search := Some True\<rparr>), am_contextWindowTokens := Some 1024000,
       am_description := Some (tx 128), am_displayName := Some ''GLM-4-Long'',
       am_maxOutput := Some 4000, am_pricing := Some (no_pricing\<lparr>price_currency := Some CNY,
       price_input := Some 1, price_output := Some 1\<rparr>),
       am_settings := Some (no_settings\<lparr>ms_searchImpl := Some ''params''\<rparr>)\<rparr>]"

definition zhipuChatModels_2 :: "texts \<Rightarrow> ai_model list" where
  [card_tables]: "zhipuChatModels_2 tx = [
     (model_of_type ''chat'' ''glm-4-air-250414'')\<lparr>am_abilities := Some (no_abilities\<lparr>ab_functionCall := Some True,
       ab_search := Some True\<rparr>), am_contextWindowTokens := Some 32000,
       am_description := Some (tx 148), am_displayName := Some ''GLM-4-Air-250414'',
       am_maxOutput := Some 4000, am_pricing := Some (no_pricing\<lparr>price_currency := Some CNY,
       price_input := Some 0.5, price_output := Some 0.5\<rparr>),
       am_settings := Some (no_settings\<lparr>ms_searchImpl := Some ''params''\<rparr>)\<rparr>,
     (model_of_type ''chat'' ''glm-4-airx'')\<lparr>am_abilities := Some (no_abilities\<lparr>ab_functionCall := Some True,
       ab_search := Some True\<rparr>), am_contextWindowTokens := Some 8192,
       am_description := Some (tx 168), am_displayName := Some ''GLM-4-AirX'',
       am_maxOutput := Some 4000, am_pricing := Some (no_pricing\<lparr>price_currency := Some CNY,
       price_input := Some 10, price_output := Some 10\<rparr>),
       am_settings := Some (no_settings\<lparr>ms_searchImpl := Some ''params''\<rparr>)\<rparr>,
     (model_of_type ''chat'' ''glm-4-alltools'')\<lparr>am_abilities := Some (no_abilities\<lparr>ab_functionCall := Some True,
       ab_search := Some True\<rparr>), am_contextWindowTokens := Some 128000,
       am_description := Some (tx 189), am_displayName := Some ''GLM-4-AllTools'',
       am_pricing := Some (no_pricing\<lparr>price_currency := Some CNY, price_input := Some 100,
       price_output := Some 100\<rparr>),
       am_settings := Some (no_settings\<lparr>ms_searchImpl := Some ''params''\<rparr>)\<rparr>,
     (model_of_type ''chat'' ''glm-4-plus'')\<lparr>am_abilities := Some (no_abilities\<lparr>ab_functionCall := Some True,
       ab_search := Some True\<rparr>), am_contextWindowTokens := Some 128000,
       am_description := Some (tx 208), am_displayName := Some ''GLM-4-Plus'',
       am_maxOutput := Some 4000, am_pricing := Some (no_pricing\<lparr>price_currency := Some CNY,
       price_input := Some 50, price_output := Some 50\<rparr>),
       am_settings := Some (no_settings\<lparr>ms_searchImpl := Some ''params''\<rparr>)\<rparr>,
     (model_of_type ''chat'' ''glm-4-0520'')\<lparr>am_abilities := Some (no_abilities\<lparr>ab_functionCall := Some True,
       ab_search := Some True\<rparr>), am_contextWindowTokens := Some 128000,
       am_description := Some (tx 228), am_displayName := Some ''GLM-4-0520'',
       am_pricing := Some (no_pricing\<lparr>price_currency := Some CNY, price_input := Some 100,
       price_output := Some 100\<rparr>),
       am_settings := Some (no_settings\<lparr>ms_searchImpl := Some ''params''\<rparr>)\<rparr>,
     (model_of_type ''chat'' ''glm-4'')\<lparr>am_abilities := Some (no_abilities\<lparr>ab_functionCall := Some True,
       ab_search := Some True\<rparr>), am_contextWindowTokens := Some 128000,
       am_description := Some (tx 247), am_displayName := Some ''GLM-4'',
       am_pricing := Some (no_pricing\<lparr>price_currency := Some CNY, price_input := Some 100,
       price_output := Some 100\<rparr>),
       am_settings := Some (no_settings\<lparr>ms_searchImpl := Some ''params''\<rparr>)\<rparr>,
     (model_of_type ''chat'' ''glm-4v-flash'')\<lparr>am_abilities := Some (no_abilities\<lparr>ab_vision := Some True\<rparr>),
       am_contextWindowTokens := Some 4096, am_description := Some (tx 266),
       am_displayName := Some ''GLM-4V-Flash'', am_enabled := Some True,
       am_pricing := Some (no_pricing\<lparr>price_currency := Some CNY, price_input := Some 0,
       price_output := Some 0\<rparr>), am_releasedAt := Some ''2024-12-09''\<rparr>]"

definition zhipuChatModels_3 :: "texts \<Rightarrow> ai_model list" where
  [card_tables]: "zhipuChatModels_3 tx = [
     (model_of_type ''chat'' ''glm-4v-plus-0111'')\<lparr>am_abilities := Some (no_abilities\<lparr>ab_vision := Some True\<rparr>),
       am_contextWindowTokens := Some 8192, am_description := Some (tx 283),
       am_displayName := Some ''GLM-4V-Plus-0111'',
       am_pricing := Some (no_pricing\<lparr>price_currency := Some CNY, price_input := Some 4,
       price_output := Some 4\<rparr>)\<rparr>,
     (model_of_type ''chat'' ''glm-4v'')\<lparr>am_abilities := Some (no_abilities\<lparr>ab_vision := Some True\<rparr>),
       am_contextWindowTokens := Some 4096, am_description := Some (tx 298),
       am_displayName := Some ''GLM-4V'', am_pricing := Some (no_pricing\<lparr>price_currency := Some CNY,
       price_input := Some 50, price_output := Some 50\<rparr>)\<rparr>,
     (model_of_type ''chat'' ''codegeex-4'')\<lparr>am_contextWindowTokens := Some 128000,
       am_description := Some (tx 311), am_displayName := Some ''CodeGeeX-4'',
       am_maxOutput := Some 32000, am_pricing := Some (no_pricing\<lparr>price_currency := Some CNY,
       price_input := Some 0.1, price_output := Some 0.1\<rparr>)\<rparr>,
     (model_of_type ''chat'' ''charglm-4'')\<lparr>am_contextWindowTokens := Some 8192,
       am_description := Some (tx 324), am_displayName := Some ''CharGLM-4'',
       am_maxOutput := Some 4000, am_pricing := Some (no_pricing\<lparr>price_currency := Some CNY,
       price_input := Some 1, price_output := Some 1\<rparr>)\<rparr>,
     (model_of_type ''chat'' ''emohaa'')\<lparr>am_contextWindowTokens := Some 8192,
       am_description := Some (tx 337), am_displayName := Some ''Emohaa'',
       am_maxOutput := Some 4000, am_pricing := Some (no_pricing\<lparr>price_currency := Some CNY,
       price_input := Some 15, price_output := Some 15\<rparr>)\<rparr>]"

definition zhipuChatModels :: "texts \<Rightarrow> ai_model list" where
  [card_tables]: "zhipuChatModels tx =
     zhipuChatModels_1 tx @ zhipuChatModels_2 tx @ zhipuChatModels_3 tx"

end
