(* ===== verification/Provider_Data_A.thy ===== *)
theory Provider_Data_A
  imports Llm_Providers
begin

text \<open>
  The provider cards of \<open>src/web/src/config/llm-providers\<close>, the files \<open>ai21.ts\<close> to \<open>groq.ts\<close>: for
  each file the deprecated list of chat models and the card itself, under the name
  \<open>config/llm-providers/index.ts\<close> imports it by. The conventions are those of the model cards.
\<close>

section \<open>ai21\<close>

definition ai21_chatModels :: "texts \<Rightarrow> chat_card list" where
  [card_tables]: "ai21_chatModels tx = [
     (chat_card_of ''jamba-1.5-mini'')\<lparr>cc_contextWindowTokens := Some 256000,
       cc_displayName := Some ''Jamba 1.5 Mini'', cc_enabled := Some True,
       cc_functionCall := Some True, cc_pricing := Some (no_pricing\<lparr>price_input := Some 0.2,
       price_output := Some 0.4\<rparr>)\<rparr>,
     (chat_card_of ''jamba-1.5-large'')\<lparr>cc_contextWindowTokens := Some 256000,
       cc_displayName := Some ''Jamba 1.5 Large'', cc_enabled := Some True,
       cc_functionCall := Some True, cc_pricing := Some (no_pricing\<lparr>price_input := Some 2,
       price_output := Some 8\<rparr>)\<rparr>]"

definition Ai21Provider :: "texts \<Rightarrow> provider_card" where
  [provider_cards]: "Ai21Provider tx =
     (provider_of ''ai21'' ''Ai21Labs'' ''https://studio.ai21.com'' (ai21_chatModels tx))\<lparr>pcd_checkModel := Some ''jamba-mini'',
       pcd_description := Some (tx 30), pcd_modelsUrl := Some ''https://docs.ai21.com/reference'',
       pcd_settings := plain_settings\<lparr>st_sdkType := Some ''openai''\<rparr>\<rparr>"

section \<open>ai360\<close>

definition ai360_chatModels :: "texts \<Rightarrow> chat_card list" where
  [card_tables]: "ai360_chatModels tx = [
     (chat_card_of ''360gpt2-o1'')\<lparr>cc_contextWindowTokens := Some 8000,
       cc_description := Some (tx 9), cc_displayName := Some ''360GPT2 o1'',
       cc_enabled := Some True, cc_pricing := Some (no_pricing\<lparr>price_currency := Some CNY,
       price_input := Some 20, price_output := Some 50\<rparr>)\<rparr>,
     (chat_card_of ''360gpt2-pro'')\<lparr>cc_contextWindowTokens := Some 8000,
       cc_description := Some (tx 21), cc_displayName := Some ''360GPT2 Pro'',
       cc_enabled := Some True, cc_pricing := Some (no_pricing\<lparr>price_currency := Some CNY,
       price_input := Some 2, price_output := Some 5\<rparr>)\<rparr>,
     (chat_card_of ''360gpt-pro'')\<lparr>cc_contextWindowTokens := Some 8000,
       cc_description := Some (tx 33), cc_displayName := Some ''360GPT Pro'',
       cc_enabled := Some True, cc_functionCall := Some True,
       cc_pricing := Some (no_pricing\<lparr>price_currency := Some CNY, price_input := Some 2,
       price_output := Some 5\<rparr>)\<rparr>,
     (chat_card_of ''360gpt-turbo'')\<lparr>cc_contextWindowTokens := Some 7000,
       cc_description := Some (tx 46), cc_displayName := Some ''360GPT Turbo'',
       cc_enabled := Some True, cc_pricing := Some (no_pricing\<lparr>price_currency := Some CNY,
       price_input := Some 1, price_output := Some 2\<rparr>)\<rparr>]"

definition Ai360Provider :: "texts \<Rightarrow> provider_card" where
  [provider_cards]: "Ai360Provider tx =
     (provider_of ''ai360'' ''360 AI'' ''https://ai.360.com'' (ai360_chatModels tx))\<lparr>pcd_checkModel := Some ''360gpt-turbo'',
       pcd_description := Some (tx 59), pcd_disableBrowserRequest := Some True,
       pcd_modelList := Some (no_model_list\<lparr>ml_showModelFetcher := Some True\<rparr>),
       pcd_modelsUrl := Some ''https://ai.360.cn/platform/docs/overview'',
       pcd_settings := plain_settings\<lparr>st_disableBrowserRequest := Some True,
       st_sdkType := Some ''openai'', st_showModelFetcher := Some True\<rparr>\<rparr>"

section \<open>anthropic\<close>

definition anthropic_chatModels_1 :: "texts \<Rightarrow> chat_card list" where
  [card_tables]: "anthropic_chatModels_1 tx = [
     (chat_card_of ''claude-3-7-sonnet-20250219'')\<lparr>cc_contextWindowTokens := Some 200000,
       cc_description := Some (tx 9), cc_displayName := Some ''Claude 3.7 Sonnet'',
       cc_enabled := Some True, cc_functionCall := Some True, cc_maxOutput := Some 8192,
       cc_pricing := Some (no_pricing\<lparr>price_cachedInput := Some 0.1, price_input := Some 1,
       price_output := Some 5, price_writeCacheInput := Some 1.25\<rparr>),
       cc_releasedAt := Some ''2025-02-24''\<rparr>,
     (chat_card_of ''claude-3-7-sonnet-20250219'')\<lparr>cc_contextWindowTokens := Some 200000,
       cc_description := Some (tx 26),
       cc_displayName := Some ''Claude 3.7 Sonnet Extended thinking'', cc_enabled := Some True,
       cc_functionCall := Some True, cc_maxOutput := Some 64000,
       cc_pricing := Some (no_pricing\<lparr>price_cachedInput := Some 0.1, price_input := Some 1,
       price_output := Some 5, price_writeCacheInput := Some 1.25\<rparr>),
       cc_releasedAt := Some ''2025-02-24''\<rparr>,
     (chat_card_of ''claude-3-5-haiku-20241022'')\<lparr>cc_contextWindowTokens := Some 200000,
       cc_description := Some (tx 43), cc_displayName := Some ''Claude 3.5 Haiku'',
       cc_enabled := Some True, cc_functionCall := Some True, cc_maxOutput := Some 8192,
       cc_pricing := Some (no_pricing\<lparr>price_cachedInput := Some 0.1, price_input := Some 1,
       price_output := Some 5, price_writeCacheInput := Some 1.25\<rparr>),
       cc_releasedAt := Some ''2024-11-05''\<rparr>,
     (chat_card_of ''claude-3-5-sonnet-20241022'')\<lparr>cc_contextWindowTokens := Some 200000,
       cc_description := Some (tx 60), cc_displayName := Some ''Claude 3.5 Sonnet'',
       cc_enabled := Some True, cc_functionCall := Some True, cc_maxOutput := Some 8192,
       cc_pricing := Some (no_pricing\<lparr>price_cachedInput := Some 0.3, price_input := Some 3,
       price_output := Some 15, price_writeCacheInput := Some 3.75\<rparr>),
       cc_releasedAt := Some ''2024-10-22'', cc_vision := Some True\<rparr>,
     (chat_card_of ''claude-3-5-sonnet-20240620'')\<lparr>cc_contextWindowTokens := Some 200000,
       cc_description := Some (tx 78), cc_displayName := Some ''Claude 3.5 Sonnet 0620'',
       cc_functionCall := Some True, cc_maxOutput := Some 8192,
       cc_pricing := Some (no_pricing\<lparr>price_cachedInput := Some 0.3, price_input := Some 3,
       price_output := Some 15, price_writeCacheInput := Some 3.75\<rparr>),
       cc_releasedAt := Some ''2024-06-20'', cc_vision := Some True\<rparr>,
     (chat_card_of ''claude-3-haiku-20240307'')\<lparr>cc_contextWindowTokens := Some 200000,
       cc_description := Some (tx 95), cc_displayName := Some ''Claude 3 Haiku'',
       cc_functionCall := Some True, cc_maxOutput := Some 4096,
       cc_pricing := Some (no_pricing\<lparr>price_input := Some 0.25, price_output := Some 1.25\<rparr>),
       cc_releasedAt := Some ''2024-03-07'', cc_vision := Some True\<rparr>,
     (chat_card_of ''claude-3-sonnet-20240229'')\<lparr>cc_contextWindowTokens := Some 200000,
       cc_description := Some (tx 110), cc_displayName := Some ''Claude 3 Sonnet'',
       cc_functionCall := Some True, cc_maxOutput := Some 4096,
       cc_pricing := Some (no_pricing\<lparr>price_input := Some 3, price_output := Some 15\<rparr>),
       cc_releasedAt := Some ''2024-02-29'', cc_vision := Some True\<rparr>,
     (chat_card_of ''claude-3-opus-20240229'')\<lparr>cc_contextWindowTokens := Some 200000,
       cc_description := Some (tx 125), cc_displayName := Some ''Claude 3 Opus'',
       cc_enabled := Some True, cc_functionCall := Some True, cc_maxOutput := Some 4096,
       cc_pricing := Some (no_pricing\<lparr>price_input := Some 15, price_output := Some 75\<rparr>),
       cc_releasedAt := Some ''2024-02-29'', cc_vision := Some True\<rparr>,
     (chat_card_of ''claude-2.1'')\<lparr>cc_contextWindowTokens := Some 200000,
       cc_description := Some (tx 141), cc_displayName := Some ''Claude 2.1'',
       cc_maxOutput := Some 4096, cc_pricing := Some (no_pricing\<lparr>price_input := Some 8,
       price_output := Some 24\<rparr>), cc_releasedAt := Some ''2023-11-21''\<rparr>]"

definition anthropic_chatModels_2 :: "texts \<Rightarrow> chat_card list" where
  [card_tables]: "anthropic_chatModels_2 tx = [
     (chat_card_of ''claude-2.0'')\<lparr>cc_contextWindowTokens := Some 100000,
       cc_description := Some (tx 154), cc_displayName := Some ''Claude 2.0'',
       cc_maxOutput := Some 4096, cc_pricing := Some (no_pricing\<lparr>price_input := Some 8,
       price_output := Some 24\<rparr>), cc_releasedAt := Some ''2023-07-11''\<rparr>]"

definition anthropic_chatModels :: "texts \<Rightarrow> chat_card list" where
  [card_tables]: "anthropic_chatModels tx =
     anthropic_chatModels_1 tx @ anthropic_chatModels_2 tx"

definition AnthropicProvider :: "texts \<Rightarrow> provider_card" where
  [provider_cards]: "AnthropicProvider tx =
     (provider_of ''anthropic'' ''Anthropic'' ''https://anthropic.com'' (anthropic_chatModels tx))\<lparr>pcd_checkModel := Some ''claude-3-haiku-20240307'',
       pcd_description := Some (tx 167), pcd_enabled := Some True,
       pcd_modelList := Some (no_model_list\<lparr>ml_showModelFetcher := Some True\<rparr>),
       pcd_modelsUrl := Some ''https://docs.anthropic.com/en/docs/about-claude/models#model-names'',
       pcd_proxyUrl := Some (Proxy_hint None ''https://api.anthropic.com'' None),
       pcd_settings := plain_settings\<lparr>st_proxyUrl := Some (Proxy_hint None ''https://api.anthropic.com'' None),
       st_sdkType := Some ''anthropic'', st_showModelFetcher := Some True,
       st_smoothing := Some (no_smoothing\<lparr>sm_text := Some True\<rparr>)\<rparr>,
       pcd_smoothing := Some (no_smoothing\<lparr>sm_text := Some True\<rparr>)\<rparr>"

section \<open>azure\<close>

definition azure_chatModels :: "texts \<Rightarrow> chat_card list" where
  [card_tables]: "azure_chatModels tx = [
     (chat_card_of ''gpt-35-turbo'')\<lparr>cc_contextWindowTokens := Some 16385,
       cc_deploymentName := Some ''gpt-35-turbo'', cc_description := Some (tx 10),
       cc_displayName := Some ''GPT 3.5 Turbo'', cc_enabled := Some True,
       cc_functionCall := Some True, cc_maxOutput := Some 4096\<rparr>,
     (chat_card_of ''gpt-35-turbo-16k'')\<lparr>cc_contextWindowTokens := Some 16384,
       cc_deploymentName := Some ''gpt-35-turbo-16k'', cc_description := Some (tx 20),
       cc_displayName := Some ''GPT 3.5 Turbo'', cc_functionCall := Some True\<rparr>,
     (chat_card_of ''gpt-4'')\<lparr>cc_contextWindowTokens := Some 128000,
       cc_deploymentName := Some ''gpt-4-turbo'', cc_description := Some (tx 28),
       cc_displayName := Some ''GPT 4 Turbo'', cc_enabled := Some True,
       cc_functionCall := Some True, cc_vision := Some True\<rparr>,
     (chat_card_of ''gpt-4o-mini'')\<lparr>cc_contextWindowTokens := Some 128000,
       cc_deploymentName := Some ''gpt-4o-mini'', cc_description := Some (tx 38),
       cc_displayName := Some ''GPT 4o Mini'', cc_enabled := Some True,
       cc_functionCall := Some True, cc_vision := Some True\<rparr>,
     (chat_card_of ''gpt-4o'')\<lparr>cc_contextWindowTokens := Some 128000,
       cc_deploymentName := Some ''gpt-4o'', cc_description := Some (tx 48),
       cc_displayName := Some ''GPT 4o'', cc_enabled := Some True, cc_functionCall := Some True,
       cc_vision := Some True\<rparr>]"

definition AzureProvider :: "texts \<Rightarrow> provider_card" where
  [provider_cards]: "AzureProvider tx =
     (provider_of ''azure'' ''Azure OpenAI'' ''https://azure.microsoft.com'' (azure_chatModels tx))\<lparr>pcd_defaultShowBrowserRequest := Some True,
       pcd_description := Some (tx 58),
       pcd_modelsUrl := Some ''https://learn.microsoft.com/azure/ai-services/openai/concepts/models'',
       pcd_settings := plain_settings\<lparr>st_defaultShowBrowserRequest := Some True,
       st_sdkType := Some ''azure'', st_showDeployName := Some True\<rparr>\<rparr>"

section \<open>azureai\<close>

definition AzureAIProvider :: "texts \<Rightarrow> provider_card" where
  [provider_cards]: "AzureAIProvider tx =
     (provider_of ''azureai'' ''Azure AI'' ''https://ai.azure.com'' [])\<lparr>pcd_description := Some (tx 7),
       pcd_modelsUrl := Some ''https://ai.azure.com/explore/models'',
       pcd_settings := plain_settings\<lparr>st_defaultShowBrowserRequest := Some True,
       st_sdkType := Some ''azureai'', st_showDeployName := Some True\<rparr>\<rparr>"

section \<open>baichuan\<close>

definition baichuan_chatModels :: "texts \<Rightarrow> chat_card list" where
  [card_tables]: "baichuan_chatModels tx = [
     (chat_card_of ''Baichuan4'')\<lparr>cc_contextWindowTokens := Some 32768,
       cc_description := Some (tx 9), cc_displayName := Some ''Baichuan 4'',
       cc_enabled := Some True, cc_functionCall := Some True, cc_maxOutput := Some 4096,
       cc_pricing := Some (no_pricing\<lparr>price_currency := Some CNY, price_input := Some 100,
       price_output := Some 100\<rparr>)\<rparr>,
     (chat_card_of ''Baichuan4-Turbo'')\<lparr>cc_contextWindowTokens := Some 32768,
       cc_description := Some (tx 24), cc_displayName := Some ''Baichuan 4 Turbo'',
       cc_enabled := Some True, cc_functionCall := Some True, cc_maxOutput := Some 4096,
       cc_pricing := Some (no_pricing\<lparr>price_currency := Some CNY, price_input := Some 15,
       price_output := Some 15\<rparr>)\<rparr>,
     (chat_card_of ''Baichuan4-Air'')\<lparr>cc_contextWindowTokens := Some 32768,
       cc_description := Some (tx 39), cc_displayName := Some ''Baichuan 4 Air'',
       cc_enabled := Some True, cc_functionCall := Some True, cc_maxOutput := Some 4096,
       cc_pricing := Some (no_pricing\<lparr>price_currency := Some CNY, price_input := Some 0.98,
       price_output := Some 0.98\<rparr>)\<rparr>,
     (chat_card_of ''Baichuan3-Turbo'')\<lparr>cc_contextWindowTokens := Some 32768,
       cc_description := Some (tx 54), cc_displayName := Some ''Baichuan 3 Turbo'',
       cc_functionCall := Some True, cc_maxOutput := Some 8192,
       cc_pricing := Some (no_pricing\<lparr>price_currency := Some CNY, price_input := Some 12,
       price_output := Some 12\<rparr>)\<rparr>,
     (chat_card_of ''Baichuan3-Turbo-128k'')\<lparr>cc_contextWindowTokens := Some 128000,
       cc_description := Some (tx 68), cc_displayName := Some ''Baichuan 3 Turbo 128k'',
       cc_maxOutput := Some 4096, cc_pricing := Some (no_pricing\<lparr>price_currency := Some CNY,
       price_input := Some 24, price_output := Some 24\<rparr>)\<rparr>,
     (chat_card_of ''Baichuan2-Turbo'')\<lparr>cc_contextWindowTokens := Some 32768,
       cc_description := Some (tx 81), cc_displayName := Some ''Baichuan 2 Turbo'',
       cc_maxOutput := Some 8192, cc_pricing := Some (no_pricing\<lparr>price_currency := Some CNY,
       price_input := Some 8, price_output := Some 8\<rparr>)\<rparr>]"

definition BaichuanProvider :: "texts \<Rightarrow> provider_card" where
  [provider_cards]: "BaichuanProvider tx =
     (provider_of ''baichuan'' ''Baichuan'' ''https://platform.baichuan-ai.com'' (baichuan_chatModels tx))\<lparr>pcd_checkModel := Some ''Baichuan3-Turbo'',
       pcd_description := Some (tx 94),
       pcd_modelList := Some (no_model_list\<lparr>ml_showModelFetcher := Some True\<rparr>),
       pcd_modelsUrl := Some ''https://platform.baichuan-ai.com/price'',
       pcd_settings := plain_settings\<lparr>st_sdkType := Some ''openai'',
       st_showModelFetcher := Some True, st_smoothing := Some (no_smoothing\<lparr>sm_speed := Some 2,
       sm_text := Some True\<rparr>)\<rparr>, pcd_smoothing := Some (no_smoothing\<lparr>sm_speed := Some 2,
       sm_text := Some True\<rparr>)\<rparr>"

section \<open>bedrock\<close>

definition bedrock_chatModels_1 :: "texts \<Rightarrow> chat_card list" where
  [card_tables]: "bedrock_chatModels_1 tx = [
     (chat_card_of ''us.anthropic.claude-3-7-sonnet-20250219-v1:0'')\<lparr>cc_contextWindowTokens := Some 200000,
       cc_description := Some (tx 32), cc_displayName := Some ''Claude 3.7 Sonnet'',
       cc_enabled := Some True, cc_functionCall := Some True, cc_maxOutput := Some 8192,
       cc_pricing := Some (no_pricing\<lparr>price_cachedInput := Some 0.1, price_input := Some 1,
       price_output := Some 5, price_writeCacheInput := Some 1.25\<rparr>),
       cc_releasedAt := Some ''2025-02-24''\<rparr>,
     (chat_card_of ''us.anthropic.claude-3-7-sonnet-20250219-v1:0'')\<lparr>cc_contextWindowTokens := Some 200000,
       cc_description := Some (tx 49),
       cc_displayName := Some ''Claude 3.7 Sonnet Extended thinking'', cc_enabled := Some True,
       cc_functionCall := Some True, cc_maxOutput := Some 64000,
       cc_pricing := Some (no_pricing\<lparr>price_cachedInput := Some 0.1, price_input := Some 1,
       price_output := Some 5, price_writeCacheInput := Some 1.25\<rparr>),
       cc_releasedAt := Some ''2025-02-24''\<rparr>,
     (chat_card_of ''anthropic.claude-3-5-haiku-20241022-v1:0'')\<lparr>cc_contextWindowTokens := Some 200000,
       cc_description := Some (tx 66), cc_displayName := Some ''Claude 3.5 Haiku'',
       cc_enabled := Some True, cc_functionCall := Some True, cc_maxOutput := Some 8192,
       cc_pricing := Some (no_pricing\<lparr>price_cachedInput := Some 0.1, price_input := Some 1,
       price_output := Some 5, price_writeCacheInput := Some 1.25\<rparr>),
       cc_releasedAt := Some ''2024-11-05''\<rparr>,
     (chat_card_of ''anthropic.claude-3-5-sonnet-20241022-v2:0'')\<lparr>cc_contextWindowTokens := Some 200000,
       cc_description := Some (tx 83), cc_displayName := Some ''Claude 3.5 Sonnet'',
       cc_enabled := Some True, cc_functionCall := Some True,
       cc_pricing := Some (no_pricing\<lparr>price_input := Some 3, price_output := Some 15\<rparr>),
       cc_vision := Some True\<rparr>,
     (chat_card_of ''us.anthropic.claude-3-5-sonnet-20241022-v2:0'')\<lparr>cc_contextWindowTokens := Some 200000,
       cc_description := Some (tx 97),
       cc_displayName := Some ''Claude 3.5 Sonnet v2 (Inference profile)'', cc_enabled := Some True,
       cc_functionCall := Some True, cc_pricing := Some (no_pricing\<lparr>price_input := Some 3,
       price_output := Some 15\<rparr>), cc_vision := Some True\<rparr>,
     (chat_card_of ''anthropic.claude-3-5-sonnet-20240620-v1:0'')\<lparr>cc_contextWindowTokens := Some 200000,
       cc_description := Some (tx 111), cc_displayName := Some ''Claude 3.5 Sonnet 0620'',
       cc_enabled := Some True, cc_functionCall := Some True,
       cc_pricing := Some (no_pricing\<lparr>price_input := Some 3, price_output := Some 15\<rparr>),
       cc_vision := Some True\<rparr>,
     (chat_card_of ''anthropic.claude-3-haiku-20240307-v1:0'')\<lparr>cc_contextWindowTokens := Some 200000,
       cc_description := Some (tx 125), cc_displayName := Some ''Claude 3 Haiku'',
       cc_enabled := Some True, cc_functionCall := Some True,
       cc_pricing := Some (no_pricing\<lparr>price_input := Some 0.25, price_output := Some 1.25\<rparr>),
       cc_vision := Some True\<rparr>,
     (chat_card_of ''anthropic.claude-3-sonnet-20240229-v1:0'')\<lparr>cc_contextWindowTokens := Some 200000,
       cc_description := Some (tx 139), cc_displayName := Some ''Claude 3 Sonnet'',
       cc_enabled := Some True, cc_functionCall := Some True,
       cc_pricing := Some (no_pricing\<lparr>price_input := Some 3, price_output := Some 15\<rparr>),
       cc_vision := Some True\<rparr>,
     (chat_card_of ''anthropic.claude-3-opus-20240229-v1:0'')\<lparr>cc_contextWindowTokens := Some 200000,
       cc_description := Some (tx 153), cc_displayName := Some ''Claude 3 Opus'',
       cc_enabled := Some True, cc_functionCall := Some True,
       cc_pricing := Some (no_pricing\<lparr>price_input := Some 15, price_output := Some 75\<rparr>),
       cc_vision := Some True\<rparr>,
     (chat_card_of ''anthropic.claude-v2:1'')\<lparr>cc_contextWindowTokens := Some 200000,
       cc_description := Some (tx 167), cc_displayName := Some ''Claude 2.1'',
       cc_pricing := Some (no_pricing\<lparr>price_input := Some 8, price_output := Some 24\<rparr>)\<rparr>]"

definition bedrock_chatModels_2 :: "texts \<Rightarrow> chat_card list" where
  [card_tables]: "bedrock_chatModels_2 tx = [
     (chat_card_of ''anthropic.claude-v2'')\<lparr>cc_contextWindowTokens := Some 100000,
       cc_description := Some (tx 178), cc_displayName := Some ''Claude 2.0'',
       cc_pricing := Some (no_pricing\<lparr>price_input := Some 8, price_output := Some 24\<rparr>)\<rparr>,
     (chat_card_of ''anthropic.claude-instant-v1'')\<lparr>cc_contextWindowTokens := Some 100000,
       cc_description := Some (tx 189), cc_displayName := Some ''Claude Instant'',
       cc_pricing := Some (no_pricing\<lparr>price_input := Some 0.8, price_output := Some 2.4\<rparr>)\<rparr>,
     (chat_card_of ''meta.llama3-1-8b-instruct-v1:0'')\<lparr>cc_contextWindowTokens := Some 128000,
       cc_description := Some (tx 200), cc_displayName := Some ''Llama 3.1 8B Instruct'',
       cc_enabled := Some True, cc_functionCall := Some True,
       cc_pricing := Some (no_pricing\<lparr>price_input := Some 0.22, price_output := Some 0.22\<rparr>)\<rparr>,
     (chat_card_of ''meta.llama3-1-70b-instruct-v1:0'')\<lparr>cc_contextWindowTokens := Some 128000,
       cc_description := Some (tx 213), cc_displayName := Some ''Llama 3.1 70B Instruct'',
       cc_enabled := Some True, cc_functionCall := Some True,
       cc_pricing := Some (no_pricing\<lparr>price_input := Some 0.99, price_output := Some 0.99\<rparr>)\<rparr>,
     (chat_card_of ''meta.llama3-1-405b-instruct-v1:0'')\<lparr>cc_contextWindowTokens := Some 128000,
       cc_description := Some (tx 226), cc_displayName := Some ''Llama 3.1 405B Instruct'',
       cc_enabled := Some True, cc_functionCall := Some True,
       cc_pricing := Some (no_pricing\<lparr>price_input := Some 5.32, price_output := Some 16\<rparr>)\<rparr>,
     (chat_card_of ''meta.llama3-8b-instruct-v1:0'')\<lparr>cc_contextWindowTokens := Some 8000,
       cc_description := Some (tx 239), cc_displayName := Some ''Llama 3 8B Instruct'',
       cc_pricing := Some (no_pricing\<lparr>price_input := Some 0.3, price_output := Some 0.6\<rparr>)\<rparr>,
     (chat_card_of ''meta.llama3-70b-instruct-v1:0'')\<lparr>cc_contextWindowTokens := Some 8000,
       cc_description := Some (tx 250), cc_displayName := Some ''Llama 3 70B Instruct'',
       cc_pricing := Some (no_pricing\<lparr>price_input := Some 2.65, price_output := Some 3.5\<rparr>)\<rparr>]"

definition bedrock_chatModels :: "texts \<Rightarrow> chat_card list" where
  [card_tables]: "bedrock_chatModels tx =
     bedrock_chatModels_1 tx @ bedrock_chatModels_2 tx"

definition BedrockProvider :: "texts \<Rightarrow> provider_card" where
  [provider_cards]: "BedrockProvider tx =
     (provider_of ''bedrock'' ''Bedrock'' ''https://docs.aws.amazon.com/bedrock/latest/userguide/what-is-bedrock.html'' (bedrock_chatModels tx))\<lparr>pcd_checkModel := Some ''anthropic.claude-instant-v1'',
       pcd_description := Some (tx 359),
       pcd_modelsUrl := Some ''https://docs.aws.amazon.com/bedrock/latest/userguide/model-ids.html'',
       pcd_settings := plain_settings\<lparr>st_sdkType := Some ''bedrock''\<rparr>\<rparr>"

section \<open>cloudflare\<close>

definition cloudflare_chatModels :: "texts \<Rightarrow> chat_card list" where
  [card_tables]: "cloudflare_chatModels tx = [
     (chat_card_of ''@cf/deepseek-ai/deepseek-r1-distill-qwen-32b'')\<lparr>cc_contextWindowTokens := Some 16384,
       cc_displayName := Some ''DeepSeek R1 (Distill Qwen 32B)'', cc_enabled := Some True\<rparr>,
     (chat_card_of ''@hf/google/gemma-7b-it'')\<lparr>cc_contextWindowTokens := Some 2048,
       cc_displayName := Some ''gemma-7b-it''\<rparr>,
     (chat_card_of ''@hf/nousresearch/hermes-2-pro-mistral-7b'')\<lparr>cc_contextWindowTokens := Some 4096,
       cc_displayName := Some ''hermes-2-pro-mistral-7b''\<rparr>,
     (chat_card_of ''@cf/meta/llama-3.3-70b-instruct-fp8-fast'')\<lparr>cc_contextWindowTokens := Some 131072,
       cc_displayName := Some ''llama 3.3 70b''\<rparr>,
     (chat_card_of ''@hf/mistral/mistral-7b-instruct-v0.2'')\<lparr>cc_contextWindowTokens := Some 4096,
       cc_displayName := Some ''mistral-7b-instruct-v0.2''\<rparr>,
     (chat_card_of ''@hf/thebloke/neural-chat-7b-v3-1-awq'')\<lparr>cc_contextWindowTokens := Some 32768,
       cc_displayName := Some ''neural-chat-7b-v3-1-awq''\<rparr>,
     (chat_card_of ''@cf/openchat/openchat-3.5-0106'')\<lparr>cc_contextWindowTokens := Some 8192,
       cc_displayName := Some ''openchat-3.5-0106''\<rparr>,
     (chat_card_of ''@hf/thebloke/openhermes-2.5-mistral-7b-awq'')\<lparr>cc_contextWindowTokens := Some 32768,
       cc_displayName := Some ''openhermes-2.5-mistral-7b-awq''\<rparr>,
     (chat_card_of ''@cf/qwen/qwen1.5-14b-chat-awq'')\<lparr>cc_contextWindowTokens := Some 32768,
       cc_displayName := Some ''qwen1.5-14b-chat-awq'', cc_enabled := Some True\<rparr>,
     (chat_card_of ''@hf/nexusflow/starling-lm-7b-beta'')\<lparr>cc_contextWindowTokens := Some 4096,
       cc_displayName := Some ''starling-lm-7b-beta''\<rparr>,
     (chat_card_of ''@hf/thebloke/zephyr-7b-beta-awq'')\<lparr>cc_contextWindowTokens := Some 32768,
       cc_displayName := Some ''zephyr-7b-beta-awq''\<rparr>,
     (chat_card_of ''@hf/meta-llama/meta-llama-3-8b-instruct'')\<lparr>cc_displayName := Some ''meta-llama-3-8b-instruct''\<rparr>]"

definition CloudflareProvider :: "texts \<Rightarrow> provider_card" where
  [provider_cards]: "CloudflareProvider tx =
     (provider_of ''cloudflare'' ''Cloudflare Workers AI'' ''https://developers.cloudflare.com/workers-ai/models'' (cloudflare_chatModels tx))\<lparr>pcd_checkModel := Some ''@hf/meta-llama/meta-llama-3-8b-instruct'',
       pcd_description := Some (tx 71), pcd_disableBrowserRequest := Some True,
       pcd_modelList := Some (no_model_list\<lparr>ml_showModelFetcher := Some True\<rparr>),
       pcd_settings := plain_settings\<lparr>st_disableBrowserRequest := Some True,
       st_sdkType := Some ''cloudflare'', st_showModelFetcher := Some True\<rparr>\<rparr>"

section \<open>cohere\<close>

definition CohereProvider :: "texts \<Rightarrow> provider_card" where
  [provider_cards]: "CohereProvider tx =
     (provider_of ''cohere'' ''Cohere'' ''https://cohere.com'' [])\<lparr>pcd_checkModel := Some ''command-r7b-12-2024'',
       pcd_description := Some (tx 7),
       pcd_modelsUrl := Some ''https://docs.cohere.com/v2/docs/models'',
       pcd_settings := plain_settings\<lparr>st_proxyUrl := Some (Proxy_hint None ''https://api.cohere.ai/compatibility/v1'' None),
       st_sdkType := Some ''openai''\<rparr>\<rparr>"

section \<open>deepseek\<close>

definition deepseek_chatModels :: "texts \<Rightarrow> chat_card list" where
  [card_tables]: "deepseek_chatModels tx = [
     (chat_card_of ''deepseek-chat'')\<lparr>cc_contextWindowTokens := Some 65536,
       cc_description := Some (tx 9), cc_displayName := Some ''DeepSeek V3'',
       cc_enabled := Some True, cc_functionCall := Some True,
       cc_pricing := Some (no_pricing\<lparr>price_cachedInput := Some 0.1, price_currency := Some CNY,
       price_input := Some 1, price_output := Some 2\<rparr>), cc_releasedAt := Some ''2024-12-26''\<rparr>,
     (chat_card_of ''deepseek-reasoner'')\<lparr>cc_contextWindowTokens := Some 65536,
       cc_description := Some (tx 26), cc_displayName := Some ''DeepSeek R1'',
       cc_enabled := Some True, cc_pricing := Some (no_pricing\<lparr>price_cachedInput := Some 1,
       price_currency := Some CNY, price_input := Some 4, price_output := Some 16\<rparr>),
       cc_releasedAt := Some ''2025-01-20''\<rparr>]"

definition DeepSeekProvider :: "texts \<Rightarrow> provider_card" where
  [provider_cards]: "DeepSeekProvider tx =
     (provider_of ''deepseek'' ''DeepSeek'' ''https://deepseek.com'' (deepseek_chatModels tx))\<lparr>pcd_checkModel := Some ''deepseek-chat'',
       pcd_description := Some (tx 41),
       pcd_modelList := Some (no_model_list\<lparr>ml_showModelFetcher := Some True\<rparr>),
       pcd_modelsUrl := Some ''https://platform.deepseek.com/api-docs/zh-cn/quick_start/pricing'',
       pcd_settings := plain_settings\<lparr>st_proxyUrl := Some (Proxy_hint None ''https://api.deepseek.com'' None),
       st_sdkType := Some ''openai'', st_showModelFetcher := Some True\<rparr>\<rparr>"

section \<open>fireworksai\<close>

definition fireworksai_chatModels_1 :: "texts \<Rightarrow> chat_card list" where
  [card_tables]: "fireworksai_chatModels_1 tx = [
     (chat_card_of ''accounts/fireworks/models/llama-v3p3-70b-instruct'')\<lparr>cc_contextWindowTokens := Some 131072,
       cc_description := Some (tx 10), cc_displayName := Some ''Llama 3.3 70B Instruct'',
       cc_enabled := Some True, cc_pricing := Some (no_pricing\<lparr>price_input := Some 0.9,
       price_output := Some 0.9\<rparr>)\<rparr>,
     (chat_card_of ''accounts/fireworks/models/llama-v3p2-3b-instruct'')\<lparr>cc_contextWindowTokens := Some 131072,
       cc_description := Some (tx 22), cc_displayName := Some ''Llama 3.2 3B Instruct'',
       cc_enabled := Some True, cc_pricing := Some (no_pricing\<lparr>price_input := Some 0.1,
       price_output := Some 0.1\<rparr>)\<rparr>,
     (chat_card_of ''accounts/fireworks/models/llama-v3p2-11b-vision-instruct'')\<lparr>cc_contextWindowTokens := Some 131072,
       cc_description := Some (tx 34), cc_displayName := Some ''Llama 3.2 11B Vision Instruct'',
       cc_enabled := Some True, cc_pricing := Some (no_pricing\<lparr>price_input := Some 0.2,
       price_output := Some 0.2\<rparr>), cc_vision := Some True\<rparr>,
     (chat_card_of ''accounts/fireworks/models/llama-v3p2-90b-vision-instruct'')\<lparr>cc_contextWindowTokens := Some 131072,
       cc_description := Some (tx 47), cc_displayName := Some ''Llama 3.2 90B Vision Instruct'',
       cc_enabled := Some True, cc_pricing := Some (no_pricing\<lparr>price_input := Some 0.9,
       price_output := Some 0.9\<rparr>), cc_vision := Some True\<rparr>,
     (chat_card_of ''accounts/fireworks/models/llama-v3p1-8b-instruct'')\<lparr>cc_contextWindowTokens := Some 131072,
       cc_description := Some (tx 60), cc_displayName := Some ''Llama 3.1 8B Instruct'',
       cc_pricing := Some (no_pricing\<lparr>price_input := Some 0.2, price_output := Some 0.2\<rparr>)\<rparr>,
     (chat_card_of ''accounts/fireworks/models/llama-v3p1-70b-instruct'')\<lparr>cc_contextWindowTokens := Some 131072,
       cc_description := Some (tx 71), cc_displayName := Some ''Llama 3.1 70B Instruct'',
       cc_functionCall := Some True, cc_pricing := Some (no_pricing\<lparr>price_input := Some 0.9,
       price_output := Some 0.9\<rparr>)\<rparr>,
     (chat_card_of ''accounts/fireworks/models/llama-v3p1-405b-instruct'')\<lparr>cc_contextWindowTokens := Some 131072,
       cc_description := Some (tx 83), cc_displayName := Some ''Llama 3.1 405B Instruct'',
       cc_functionCall := Some True, cc_pricing := Some (no_pricing\<lparr>price_input := Some 3,
       price_output := Some 3\<rparr>)\<rparr>,
     (chat_card_of ''accounts/fireworks/models/llama-v3-8b-instruct'')\<lparr>cc_contextWindowTokens := Some 8192,
       cc_description := Some (tx 95), cc_displayName := Some ''Llama 3 8B Instruct'',
       cc_pricing := Some (no_pricing\<lparr>price_input := Some 0.2, price_output := Some 0.2\<rparr>)\<rparr>,
     (chat_card_of ''accounts/fireworks/models/llama-v3-70b-instruct'')\<lparr>cc_contextWindowTokens := Some 8192,
       cc_description := Some (tx 106), cc_displayName := Some ''Llama 3 70B Instruct'',
       cc_pricing := Some (no_pricing\<lparr>price_input := Some 0.9, price_output := Some 0.9\<rparr>)\<rparr>,
     (chat_card_of ''accounts/fireworks/models/llama-v3-8b-instruct-hf'')\<lparr>cc_contextWindowTokens := Some 8192,
       cc_description := Some (tx 117), cc_displayName := Some ''Llama 3 8B Instruct (HF version)'',
       cc_pricing := Some (no_pricing\<lparr>price_input := Some 0.2, price_output := Some 0.2\<rparr>)\<rparr>,
     (chat_card_of ''accounts/fireworks/models/mistral-small-24b-instruct-2501'')\<lparr>cc_contextWindowTokens := Some 32768,
       cc_description := Some (tx 127), cc_displayName := Some ''Mistral Small 3 Instruct'',
       cc_enabled := Some True, cc_pricing := Some (no_pricing\<lparr>price_input := Some 0.9,
       price_output := Some 0.9\<rparr>)\<rparr>,
     (chat_card_of ''accounts/fireworks/models/mixtral-8x7b-instruct'')\<lparr>cc_contextWindowTokens := Some 32768,
       cc_description := Some (tx 139), cc_displayName := Some ''Mixtral MoE 8x7B Instruct'',
       cc_pricing := Some (no_pricing\<lparr>price_input := Some 0.5, price_output := Some 0.5\<rparr>)\<rparr>]"

definition fireworksai_chatModels_2 :: "texts \<Rightarrow> chat_card list" where
  [card_tables]: "fireworksai_chatModels_2 tx = [
     (chat_card_of ''accounts/fireworks/models/mixtral-8x22b-instruct'')\<lparr>cc_contextWindowTokens := Some 65536,
       cc_description := Some (tx 150), cc_displayName := Some ''Mixtral MoE 8x22B Instruct'',
       cc_functionCall := Some True, cc_pricing := Some (no_pricing\<lparr>price_input := Some 1.2,
       price_output := Some 1.2\<rparr>)\<rparr>,
     (chat_card_of ''accounts/fireworks/models/phi-3-vision-128k-instruct'')\<lparr>cc_contextWindowTokens := Some 32064,
       cc_description := Some (tx 162), cc_displayName := Some ''Phi 3.5 Vision Instruct'',
       cc_enabled := Some True, cc_pricing := Some (no_pricing\<lparr>price_input := Some 0.2,
       price_output := Some 0.2\<rparr>), cc_vision := Some True\<rparr>,
     (chat_card_of ''accounts/fireworks/models/mythomax-l2-13b'')\<lparr>cc_contextWindowTokens := Some 32768,
       cc_description := Some (tx 175), cc_displayName := Some ''MythoMax L2 13b'',
       cc_pricing := Some (no_pricing\<lparr>price_input := Some 0.2, price_output := Some 0.2\<rparr>)\<rparr>,
     (chat_card_of ''accounts/fireworks/models/deepseek-v3'')\<lparr>cc_contextWindowTokens := Some 131072,
       cc_description := Some (tx 186), cc_displayName := Some ''Deepseek V3'',
       cc_enabled := Some True, cc_pricing := Some (no_pricing\<lparr>price_input := Some 0.9,
       price_output := Some 0.9\<rparr>)\<rparr>,
     (chat_card_of ''accounts/fireworks/models/deepseek-r1'')\<lparr>cc_contextWindowTokens := Some 163840,
       cc_description := Some (tx 198), cc_displayName := Some ''Deepseek R1'',
       cc_enabled := Some True, cc_pricing := Some (no_pricing\<lparr>price_input := Some 8,
       price_output := Some 8\<rparr>)\<rparr>,
     (chat_card_of ''accounts/fireworks/models/qwen-qwq-32b-preview'')\<lparr>cc_contextWindowTokens := Some 32768,
       cc_description := Some (tx 210), cc_displayName := Some ''Qwen Qwq 32b Preview'',
       cc_enabled := Some True, cc_pricing := Some (no_pricing\<lparr>price_input := Some 0.9,
       price_output := Some 0.9\<rparr>)\<rparr>,
     (chat_card_of ''accounts/fireworks/models/qwen2p5-72b-instruct'')\<lparr>cc_contextWindowTokens := Some 32768,
       cc_description := Some (tx 222), cc_displayName := Some ''Qwen2.5 72B Instruct'',
       cc_enabled := Some True, cc_pricing := Some (no_pricing\<lparr>price_input := Some 0.9,
       price_output := Some 0.9\<rparr>)\<rparr>,
     (chat_card_of ''accounts/fireworks/models/qwen2-vl-72b-instruct'')\<lparr>cc_contextWindowTokens := Some 32768,
       cc_description := Some (tx 233), cc_displayName := Some ''Qwen2 VL 72B Instruct'',
       cc_enabled := Some True, cc_pricing := Some (no_pricing\<lparr>price_input := Some 0.9,
       price_output := Some 0.9\<rparr>), cc_vision := Some True\<rparr>,
     (chat_card_of ''accounts/fireworks/models/qwen2p5-coder-32b-instruct'')\<lparr>cc_contextWindowTokens := Some 32768,
       cc_description := Some (tx 246), cc_displayName := Some ''Qwen2.5-Coder-32B-Instruct'',
       cc_enabled := Some True, cc_pricing := Some (no_pricing\<lparr>price_input := Some 0.9,
       price_output := Some 0.9\<rparr>)\<rparr>,
     (chat_card_of ''accounts/yi-01-ai/models/yi-large'')\<lparr>cc_contextWindowTokens := Some 32768,
       cc_description := Some (tx 258), cc_displayName := Some ''Yi-Large'',
       cc_enabled := Some True, cc_pricing := Some (no_pricing\<lparr>price_input := Some 3,
       price_output := Some 3\<rparr>)\<rparr>]"

definition fireworksai_chatModels :: "texts \<Rightarrow> chat_card list" where
  [card_tables]: "fireworksai_chatModels tx =
     fireworksai_chatModels_1 tx @ fireworksai_chatModels_2 tx"

definition FireworksAIProvider :: "texts \<Rightarrow> provider_card" where
  [provider_cards]: "FireworksAIProvider tx =
     (provider_of ''fireworksai'' ''Fireworks AI'' ''https://fireworks.ai'' (fireworksai_chatModels tx))\<lparr>pcd_checkModel := Some ''accounts/fireworks/models/llama-v3p2-3b-instruct'',
       pcd_description := Some (tx 270),
       pcd_modelList := Some (no_model_list\<lparr>ml_showModelFetcher := Some True\<rparr>),
       pcd_modelsUrl := Some ''https://fireworks.ai/models?show=Serverless'',
       pcd_settings := plain_settings\<lparr>st_sdkType := Some ''openai'',
       st_showModelFetcher := Some True\<rparr>\<rparr>"

section \<open>giteeai\<close>

definition giteeai_chatModels :: "texts \<Rightarrow> chat_card list" where
  [card_tables]: "giteeai_chatModels tx = [
     (chat_card_of ''Qwen2.5-72B-Instruct'')\<lparr>cc_contextWindowTokens := Some 16000,
       cc_description := Some (tx 9), cc_displayName := Some ''Qwen2.5 72B Instruct'',
       cc_enabled := Some True, cc_functionCall := Some True\<rparr>,
     (chat_card_of ''Qwen2.5-32B-Instruct'')\<lparr>cc_contextWindowTokens := Some 32000,
       cc_description := Some (tx 18), cc_displayName := Some ''Qwen2.5 32B Instruct'',
       cc_enabled := Some True\<rparr>,
     (chat_card_of ''Qwen2.5-14B-Instruct'')\<lparr>cc_contextWindowTokens := Some 24000,
       cc_description := Some (tx 26), cc_displayName := Some ''Qwen2.5 14B Instruct'',
       cc_enabled := Some True\<rparr>,
     (chat_card_of ''Qwen2.5-7B-Instruct'')\<lparr>cc_contextWindowTokens := Some 32000,
       cc_description := Some (tx 34), cc_displayName := Some ''Qwen2.5 7B Instruct'',
       cc_enabled := Some True, cc_functionCall := Some True\<rparr>,
     (chat_card_of ''Qwen2-72B-Instruct'')\<lparr>cc_contextWindowTokens := Some 32000,
       cc_description := Some (tx 43), cc_displayName := Some ''Qwen2 72B Instruct''\<rparr>,
     (chat_card_of ''Qwen2-7B-Instruct'')\<lparr>cc_contextWindowTokens := Some 24000,
       cc_description := Some (tx 50), cc_displayName := Some ''Qwen2 7B Instruct''\<rparr>,
     (chat_card_of ''Qwen2.5-Coder-32B-Instruct'')\<lparr>cc_contextWindowTokens := Some 32000,
       cc_description := Some (tx 57), cc_displayName := Some ''Qwen2.5 Coder 32B Instruct'',
       cc_enabled := Some True\<rparr>,
     (chat_card_of ''Qwen2.5-Coder-14B-Instruct'')\<lparr>cc_contextWindowTokens := Some 24000,
       cc_description := Some (tx 65), cc_displayName := Some ''Qwen2.5 Coder 14B Instruct'',
       cc_enabled := Some True\<rparr>,
     (chat_card_of ''Qwen2-VL-72B'')\<lparr>cc_contextWindowTokens := Some 32000,
       cc_description := Some (tx 73), cc_displayName := Some ''Qwen2 VL 72B'',
       cc_enabled := Some True, cc_vision := Some True\<rparr>,
     (chat_card_of ''InternVL2.5-26B'')\<lparr>cc_contextWindowTokens := Some 32000,
       cc_description := Some (tx 82), cc_displayName := Some ''InternVL2.5 26B'',
       cc_enabled := Some True, cc_vision := Some True\<rparr>,
     (chat_card_of ''InternVL2-8B'')\<lparr>cc_contextWindowTokens := Some 32000,
       cc_description := Some (tx 91), cc_displayName := Some ''InternVL2 8B'',
       cc_enabled := Some True, cc_vision := Some True\<rparr>,
     (chat_card_of ''glm-4-9b-chat'')\<lparr>cc_contextWindowTokens := Some 32000,
       cc_description := Some (tx 100), cc_displayName := Some ''GLM4 9B Chat'',
       cc_enabled := Some True\<rparr>,
     (chat_card_of ''Yi-34B-Chat'')\<lparr>cc_contextWindowTokens := Some 4000,
       cc_description := Some (tx 108), cc_displayName := Some ''Yi 34B Chat'',
       cc_enabled := Some True\<rparr>,
     (chat_card_of ''deepseek-coder-33B-instruct'')\<lparr>cc_contextWindowTokens := Some 8000,
       cc_description := Some (tx 126), cc_displayName := Some ''DeepSeek Coder 33B Instruct'',
       cc_enabled := Some True\<rparr>,
     (chat_card_of ''codegeex4-all-9b'')\<lparr>cc_contextWindowTokens := Some 32000,
       cc_description := Some (tx 134), cc_displayName := Some ''CodeGeeX4 All 9B'',
       cc_enabled := Some True\<rparr>]"

definition GiteeAIProvider :: "texts \<Rightarrow> provider_card" where
  [provider_cards]: "GiteeAIProvider tx =
     (provider_of ''giteeai'' ''Gitee AI'' ''https://ai.gitee.com'' (giteeai_chatModels tx))\<lparr>pcd_checkModel := Some ''Qwen2.5-72B-Instruct'',
       pcd_description := Some (tx 141), pcd_disableBrowserRequest := Some True,
       pcd_modelList := Some (no_model_list\<lparr>ml_showModelFetcher := Some True\<rparr>),
       pcd_modelsUrl := Some ''https://ai.gitee.com/docs/openapi/v1#tag/serverless/POST/chat/completions'',
       pcd_settings := plain_settings\<lparr>st_disableBrowserRequest := Some True,
       st_sdkType := Some ''openai'', st_showModelFetcher := Some True\<rparr>\<rparr>"

section \<open>github\<close>

definition github_chatModels_1 :: "texts \<Rightarrow> chat_card list" where
  [card_tables]: "github_chatModels_1 tx = [
     (chat_card_of ''o1'')\<lparr>cc_contextWindowTokens := Some 200000, cc_description := Some (tx 10),
       cc_displayName := Some ''OpenAI o1'', cc_enabled := Some True, cc_functionCall := Some False,
       cc_maxOutput := Some 100000, cc_vision := Some True\<rparr>,
     (chat_card_of ''o1-mini'')\<lparr>cc_contextWindowTokens := Some 128000,
       cc_description := Some (tx 20), cc_displayName := Some ''OpenAI o1-mini'',
       cc_enabled := Some True, cc_functionCall := Some False, cc_maxOutput := Some 65536,
       cc_vision := Some True\<rparr>,
     (chat_card_of ''o1-preview'')\<lparr>cc_contextWindowTokens := Some 128000,
       cc_description := Some (tx 31), cc_displayName := Some ''OpenAI o1-preview'',
       cc_enabled := Some True, cc_functionCall := Some False, cc_maxOutput := Some 32768,
       cc_vision := Some True\<rparr>,
     (chat_card_of ''gpt-4o-mini'')\<lparr>cc_contextWindowTokens := Some 134144,
       cc_description := Some (tx 41), cc_displayName := Some ''OpenAI GPT-4o mini'',
       cc_enabled := Some True, cc_functionCall := Some True, cc_maxOutput := Some 4096,
       cc_vision := Some True\<rparr>,
     (chat_card_of ''gpt-4o'')\<lparr>cc_contextWindowTokens := Some 134144,
       cc_description := Some (tx 51), cc_displayName := Some ''OpenAI GPT-4o'',
       cc_enabled := Some True, cc_functionCall := Some True, cc_maxOutput := Some 16384,
       cc_vision := Some True\<rparr>,
     (chat_card_of ''DeepSeek-R1'')\<lparr>cc_contextWindowTokens := Some 128000,
       cc_displayName := Some ''DeepSeek R1'', cc_maxOutput := Some 4096\<rparr>,
     (chat_card_of ''ai21-jamba-1.5-mini'')\<lparr>cc_contextWindowTokens := Some 262144,
       cc_description := Some (tx 68), cc_displayName := Some ''AI21 Jamba 1.5 Mini'',
       cc_functionCall := Some True, cc_maxOutput := Some 4096\<rparr>,
     (chat_card_of ''ai21-jamba-1.5-large'')\<lparr>cc_contextWindowTokens := Some 262144,
       cc_description := Some (tx 77), cc_displayName := Some ''AI21 Jamba 1.5 Large'',
       cc_functionCall := Some True, cc_maxOutput := Some 4096\<rparr>,
     (chat_card_of ''cohere-command-r'')\<lparr>cc_contextWindowTokens := Some 131072,
       cc_description := Some (tx 86), cc_displayName := Some ''Cohere Command R'',
       cc_maxOutput := Some 4096\<rparr>,
     (chat_card_of ''cohere-command-r-plus'')\<lparr>cc_contextWindowTokens := Some 131072,
       cc_description := Some (tx 93), cc_displayName := Some ''Cohere Command R+'',
       cc_maxOutput := Some 4096\<rparr>,
     (chat_card_of ''mistral-nemo'')\<lparr>cc_contextWindowTokens := Some 131072,
       cc_description := Some (tx 101), cc_displayName := Some ''Mistral Nemo'',
       cc_maxOutput := Some 4096\<rparr>,
     (chat_card_of ''mistral-small'')\<lparr>cc_contextWindowTokens := Some 131072,
       cc_description := Some (tx 108), cc_displayName := Some ''Mistral Small'',
       cc_maxOutput := Some 4096\<rparr>,
     (chat_card_of ''mistral-large'')\<lparr>cc_contextWindowTokens := Some 131072,
       cc_description := Some (tx 116), cc_displayName := Some ''Mistral Large'',
       cc_maxOutput := Some 4096\<rparr>,
     (chat_card_of ''Codestral-2501'')\<lparr>cc_contextWindowTokens := Some 262144,
       cc_displayName := Some ''Codestral'', cc_maxOutput := Some 4096\<rparr>,
     (chat_card_of ''llama-3.2-11b-vision-instruct'')\<lparr>cc_contextWindowTokens := Some 131072,
       cc_description := Some (tx 129), cc_displayName := Some ''Llama 3.2 11B Vision'',
       cc_maxOutput := Some 4096, cc_vision := Some True\<rparr>,
     (chat_card_of ''llama-3.2-90b-vision-instruct'')\<lparr>cc_contextWindowTokens := Some 131072,
       cc_description := Some (tx 137), cc_displayName := Some ''Llama 3.2 90B Vision'',
       cc_maxOutput := Some 4096, cc_vision := Some True\<rparr>,
     (chat_card_of ''llama-3.3-70b-instruct'')\<lparr>cc_contextWindowTokens := Some 32768,
       cc_description := Some (tx 146), cc_displayName := Some ''Llama 3.3 70B Instruct'',
       cc_enabled := Some True, cc_functionCall := Some True\<rparr>]"

definition github_chatModels_2 :: "texts \<Rightarrow> chat_card list" where
  [card_tables]: "github_chatModels_2 tx = [
     (chat_card_of ''meta-llama-3.1-8b-instruct'')\<lparr>cc_contextWindowTokens := Some 131072,
       cc_description := Some (tx 155), cc_displayName := Some ''Meta Llama 3.1 8B'',
       cc_maxOutput := Some 4096\<rparr>,
     (chat_card_of ''meta-llama-3.1-70b-instruct'')\<lparr>cc_contextWindowTokens := Some 131072,
       cc_description := Some (tx 163), cc_displayName := Some ''Meta Llama 3.1 70B'',
       cc_maxOutput := Some 4096\<rparr>,
     (chat_card_of ''meta-llama-3.1-405b-instruct'')\<lparr>cc_contextWindowTokens := Some 131072,
       cc_description := Some (tx 171), cc_displayName := Some ''Meta Llama 3.1 405B'',
       cc_maxOutput := Some 4096\<rparr>,
     (chat_card_of ''meta-llama-3-8b-instruct'')\<lparr>cc_contextWindowTokens := Some 8192,
       cc_description := Some (tx 178), cc_displayName := Some ''Meta Llama 3 8B'',
       cc_maxOutput := Some 4096\<rparr>,
     (chat_card_of ''meta-llama-3-70b-instruct'')\<lparr>cc_contextWindowTokens := Some 8192,
       cc_description := Some (tx 185), cc_displayName := Some ''Meta Llama 3 70B'',
       cc_maxOutput := Some 4096\<rparr>,
     (chat_card_of ''Phi-4'')\<lparr>cc_contextWindowTokens := Some 16384,
       cc_displayName := Some ''Phi 4'', cc_maxOutput := Some 16384\<rparr>,
     (chat_card_of ''Phi-3.5-MoE-instruct'')\<lparr>cc_contextWindowTokens := Some 131072,
       cc_displayName := Some ''Phi 3.5 MoE'', cc_maxOutput := Some 4096\<rparr>,
     (chat_card_of ''Phi-3.5-mini-instruct'')\<lparr>cc_contextWindowTokens := Some 131072,
       cc_description := Some (tx 204), cc_displayName := Some ''Phi-3.5-mini 128K'',
       cc_maxOutput := Some 4096\<rparr>,
     (chat_card_of ''Phi-3.5-vision-instrust'')\<lparr>cc_contextWindowTokens := Some 131072,
       cc_description := Some (tx 211), cc_displayName := Some ''Phi-3.5-vision 128K'',
       cc_maxOutput := Some 4096, cc_vision := Some True\<rparr>,
     (chat_card_of ''Phi-3-mini-4k-instruct'')\<lparr>cc_contextWindowTokens := Some 4096,
       cc_description := Some (tx 219), cc_displayName := Some ''Phi-3-mini 4K'',
       cc_maxOutput := Some 4096\<rparr>,
     (chat_card_of ''Phi-3-mini-128k-instruct'')\<lparr>cc_contextWindowTokens := Some 131072,
       cc_description := Some (tx 226), cc_displayName := Some ''Phi-3-mini 128K'',
       cc_maxOutput := Some 4096\<rparr>,
     (chat_card_of ''Phi-3-small-8k-instruct'')\<lparr>cc_contextWindowTokens := Some 8192,
       cc_description := Some (tx 233), cc_displayName := Some ''Phi-3-small 8K'',
       cc_maxOutput := Some 4096\<rparr>,
     (chat_card_of ''Phi-3-small-128k-instruct'')\<lparr>cc_contextWindowTokens := Some 131072,
       cc_description := Some (tx 240), cc_displayName := Some ''Phi-3-small 128K'',
       cc_maxOutput := Some 4096\<rparr>,
     (chat_card_of ''Phi-3-medium-4k-instruct'')\<lparr>cc_contextWindowTokens := Some 4096,
       cc_description := Some (tx 247), cc_displayName := Some ''Phi-3-medium 4K'',
       cc_maxOutput := Some 4096\<rparr>,
     (chat_card_of ''Phi-3-medium-128k-instruct'')\<lparr>cc_contextWindowTokens := Some 131072,
       cc_description := Some (tx 254), cc_displayName := Some ''Phi-3-medium 128K'',
       cc_maxOutput := Some 4096\<rparr>]"

definition github_chatModels :: "texts \<Rightarrow> chat_card list" where
  [card_tables]: "github_chatModels tx =
     github_chatModels_1 tx @ github_chatModels_2 tx"

definition GithubProvider :: "texts \<Rightarrow> provider_card" where
  [provider_cards]: "GithubProvider tx =
     (provider_of ''github'' ''GitHub'' ''https://github.com/marketplace/models'' (github_chatModels tx))\<lparr>pcd_checkModel := Some ''Phi-3-mini-4k-instruct'',
       pcd_description := Some (tx 262),
       pcd_modelList := Some (no_model_list\<lparr>ml_showModelFetcher := Some True\<rparr>),
       pcd_settings := plain_settings\<lparr>st_sdkType := Some ''azure'',
       st_showModelFetcher := Some True\<rparr>\<rparr>"

section \<open>google\<close>

definition google_chatModels_1 :: "texts \<Rightarrow> chat_card list" where
  [card_tables]: "google_chatModels_1 tx = [
     (chat_card_of ''gemini-2.5-pro-exp-03-25'')\<lparr>cc_contextWindowTokens := Some (1048576 + 65536),
       cc_description := Some (tx 9), cc_displayName := Some ''Gemini 2.5 Pro Experimental 03-25'',
       cc_enabled := Some True, cc_functionCall := Some True, cc_maxOutput := Some 65536,
       cc_pricing := Some (no_pricing\<lparr>price_input := Some 0, price_output := Some 0\<rparr>),
       cc_releasedAt := Some ''2025-03-25'', cc_vision := Some True\<rparr>,
     (chat_card_of ''gemini-2.0-pro-exp-02-05'')\<lparr>cc_contextWindowTokens := Some (2097152 + 8192),
       cc_description := Some (tx 25), cc_displayName := Some ''Gemini 2.0 Pro Experimental 02-05'',
       cc_enabled := Some True, cc_functionCall := Some True, cc_maxOutput := Some 8192,
       cc_pricing := Some (no_pricing\<lparr>price_cachedInput := Some 0, price_input := Some 0,
       price_output := Some 0\<rparr>), cc_releasedAt := Some ''2025-02-05'', cc_vision := Some True\<rparr>,
     (chat_card_of ''gemini-2.0-flash'')\<lparr>cc_contextWindowTokens := Some (1048576 + 8192),
       cc_description := Some (tx 42), cc_displayName := Some ''Gemini 2.0 Flash'',
       cc_enabled := Some True, cc_functionCall := Some True, cc_maxOutput := Some 8192,
       cc_pricing := Some (no_pricing\<lparr>price_cachedInput := Some 0.025, price_input := Some 0.1,
       price_output := Some 0.4\<rparr>), cc_releasedAt := Some ''2025-02-05'', cc_vision := Some True\<rparr>,
     (chat_card_of ''gemini-2.0-flash-001'')\<lparr>cc_contextWindowTokens := Some (1048576 + 8192),
       cc_description := Some (tx 59), cc_displayName := Some ''Gemini 2.0 Flash 001'',
       cc_functionCall := Some True, cc_maxOutput := Some 8192,
       cc_pricing := Some (no_pricing\<lparr>price_cachedInput := Some 0.025, price_input := Some 0.1,
       price_output := Some 0.4\<rparr>), cc_releasedAt := Some ''2025-02-05'', cc_vision := Some True\<rparr>,
     (chat_card_of ''gemini-2.0-flash-lite-preview-02-05'')\<lparr>cc_contextWindowTokens := Some (1048576 + 8192),
       cc_description := Some (tx 74),
       cc_displayName := Some ''Gemini 2.0 Flash-Lite Preview 02-05'', cc_maxOutput := Some 8192,
       cc_pricing := Some (no_pricing\<lparr>price_cachedInput := Some 0.01875, price_input := Some 0.075,
       price_output := Some 0.3\<rparr>), cc_releasedAt := Some ''2025-02-05'', cc_vision := Some True\<rparr>,
     (chat_card_of ''gemini-2.0-flash-thinking-exp-01-21'')\<lparr>cc_contextWindowTokens := Some (1048576 + 65536),
       cc_description := Some (tx 89),
       cc_displayName := Some ''Gemini 2.0 Flash Thinking Experimental 01-21'',
       cc_enabled := Some True, cc_maxOutput := Some 65536,
       cc_pricing := Some (no_pricing\<lparr>price_cachedInput := Some 0, price_input := Some 0,
       price_output := Some 0\<rparr>), cc_releasedAt := Some ''2025-01-21'', cc_vision := Some True\<rparr>,
     (chat_card_of ''learnlm-1.5-pro-experimental'')\<lparr>cc_contextWindowTokens := Some 40959,
       cc_description := Some (tx 105), cc_displayName := Some ''LearnLM 1.5 Pro Experimental'',
       cc_functionCall := Some True, cc_maxOutput := Some 8192,
       cc_pricing := Some (no_pricing\<lparr>price_cachedInput := Some 0, price_input := Some 0,
       price_output := Some 0\<rparr>), cc_releasedAt := Some ''2024-11-19'', cc_vision := Some True\<rparr>,
     (chat_card_of ''gemini-1.5-flash-002'')\<lparr>cc_contextWindowTokens := Some 1008192,
       cc_description := Some (tx 120), cc_displayName := Some ''Gemini 1.5 Flash 002'',
       cc_functionCall := Some True, cc_maxOutput := Some 8192,
       cc_pricing := Some (no_pricing\<lparr>price_cachedInput := Some 0.01875, price_input := Some 0.075,
       price_output := Some 0.3\<rparr>), cc_releasedAt := Some ''2024-09-25'', cc_vision := Some True\<rparr>,
     (chat_card_of ''gemini-1.5-flash-001'')\<lparr>cc_contextWindowTokens := Some 1008192,
       cc_description := Some (tx 135), cc_displayName := Some ''Gemini 1.5 Flash 001'',
       cc_functionCall := Some True, cc_maxOutput := Some 8192,
       cc_pricing := Some (no_pricing\<lparr>price_cachedInput := Some 0.01875, price_input := Some 0.075,
       price_output := Some 0.3\<rparr>), cc_vision := Some True\<rparr>]"

definition google_chatModels_2 :: "texts \<Rightarrow> chat_card list" where
  [card_tables]: "google_chatModels_2 tx = [
     (chat_card_of ''gemini-1.5-pro-002'')\<lparr>cc_contextWindowTokens := Some 2008192,
       cc_description := Some (tx 150), cc_displayName := Some ''Gemini 1.5 Pro 002'',
       cc_functionCall := Some True, cc_maxOutput := Some 8192,
       cc_pricing := Some (no_pricing\<lparr>price_cachedInput := Some 0.315, price_input := Some 1.25,
       price_output := Some 2.5\<rparr>), cc_releasedAt := Some ''2024-09-24'', cc_vision := Some True\<rparr>,
     (chat_card_of ''gemini-1.5-pro-001'')\<lparr>cc_contextWindowTokens := Some 2008192,
       cc_description := Some (tx 165), cc_displayName := Some ''Gemini 1.5 Pro 001'',
       cc_functionCall := Some True, cc_maxOutput := Some 8192,
       cc_pricing := Some (no_pricing\<lparr>price_cachedInput := Some 0.875, price_input := Some 3.5,
       price_output := Some 10.5\<rparr>), cc_releasedAt := Some ''2024-02-15'', cc_vision := Some True\<rparr>,
     (chat_card_of ''gemini-1.5-flash-8b'')\<lparr>cc_contextWindowTokens := Some 1008192,
       cc_description := Some (tx 180), cc_displayName := Some ''Gemini 1.5 Flash 8B'',
       cc_functionCall := Some True, cc_maxOutput := Some 8192,
       cc_pricing := Some (no_pricing\<lparr>price_cachedInput := Some 0.02, price_input := Some 0.075,
       price_output := Some 0.3\<rparr>), cc_releasedAt := Some ''2024-10-03'', cc_vision := Some True\<rparr>]"

definition google_chatModels :: "texts \<Rightarrow> chat_card list" where
  [card_tables]: "google_chatModels tx =
     google_chatModels_1 tx @ google_chatModels_2 tx"

definition GoogleProvider :: "texts \<Rightarrow> provider_card" where
  [provider_cards]: "GoogleProvider tx =
     (provider_of ''google'' ''Google'' ''https://ai.google.dev'' (google_chatModels tx))\<lparr>pcd_checkModel := Some ''gemini-2.0-flash'',
       pcd_description := Some (tx 196), pcd_enabled := Some True,
       pcd_modelList := Some (no_model_list\<lparr>ml_showModelFetcher := Some True\<rparr>),
       pcd_modelsUrl := Some ''https://ai.google.dev/gemini-api/docs/models/gemini'',
       pcd_proxyUrl := Some (Proxy_hint None ''https://generativelanguage.googleapis.com'' None),
       pcd_settings := plain_settings\<lparr>st_proxyUrl := Some (Proxy_hint None ''https://generativelanguage.googleapis.com'' None),
       st_sdkType := Some ''google'', st_showModelFetcher := Some True,
       st_smoothing := Some (no_smoothing\<lparr>sm_speed := Some 50, sm_text := Some True\<rparr>)\<rparr>\<rparr>"

section \<open>groq\<close>

definition groq_chatModels_1 :: "texts \<Rightarrow> chat_card list" where
  [card_tables]: "groq_chatModels_1 tx = [
     (chat_card_of ''llama-3.3-70b-versatile'')\<lparr>cc_contextWindowTokens := Some 131072,
       cc_description := Some (tx 10), cc_displayName := Some ''Llama 3.3 70B'',
       cc_enabled := Some True, cc_functionCall := Some True, cc_maxOutput := Some 8192,
       cc_pricing := Some (no_pricing\<lparr>price_input := Some 0.05, price_output := Some 0.08\<rparr>)\<rparr>,
     (chat_card_of ''llama-3.2-11b-vision-preview'')\<lparr>cc_contextWindowTokens := Some 8192,
       cc_description := Some (tx 24), cc_displayName := Some ''Llama 3.2 11B Vision (Preview)'',
       cc_enabled := Some True, cc_maxOutput := Some 8192,
       cc_pricing := Some (no_pricing\<lparr>price_input := Some 0.05, price_output := Some 0.08\<rparr>),
       cc_vision := Some True\<rparr>,
     (chat_card_of ''llama-3.2-90b-vision-preview'')\<lparr>cc_contextWindowTokens := Some 8192,
       cc_description := Some (tx 38), cc_displayName := Some ''Llama 3.2 90B Vision (Preview)'',
       cc_enabled := Some True, cc_maxOutput := Some 8192,
       cc_pricing := Some (no_pricing\<lparr>price_input := Some 0.59, price_output := Some 0.79\<rparr>),
       cc_vision := Some True\<rparr>,
     (chat_card_of ''llama-3.1-8b-instant'')\<lparr>cc_contextWindowTokens := Some 131072,
       cc_description := Some (tx 52), cc_displayName := Some ''Llama 3.1 8B'',
       cc_enabled := Some True, cc_functionCall := Some True, cc_maxOutput := Some 8192,
       cc_pricing := Some (no_pricing\<lparr>price_input := Some 0.05, price_output := Some 0.08\<rparr>)\<rparr>,
     (chat_card_of ''llama-3.1-70b-versatile'')\<lparr>cc_contextWindowTokens := Some 131072,
       cc_description := Some (tx 66), cc_displayName := Some ''Llama 3.1 70B'',
       cc_enabled := Some True, cc_functionCall := Some True, cc_maxOutput := Some 8192,
       cc_pricing := Some (no_pricing\<lparr>price_input := Some 0.59, price_output := Some 0.79\<rparr>)\<rparr>,
     (chat_card_of ''llama3-groq-8b-8192-tool-use-preview'')\<lparr>cc_contextWindowTokens := Some 8192,
       cc_description := Some (tx 88),
       cc_displayName := Some ''Llama 3 Groq 8B Tool Use (Preview)'', cc_functionCall := Some True,
       cc_pricing := Some (no_pricing\<lparr>price_input := Some 0.19, price_output := Some 0.19\<rparr>)\<rparr>,
     (chat_card_of ''llama3-groq-70b-8192-tool-use-preview'')\<lparr>cc_contextWindowTokens := Some 8192,
       cc_description := Some (tx 99),
       cc_displayName := Some ''Llama 3 Groq 70B Tool Use (Preview)'', cc_functionCall := Some True,
       cc_pricing := Some (no_pricing\<lparr>price_input := Some 0.89, price_output := Some 0.89\<rparr>)\<rparr>,
     (chat_card_of ''llama3-8b-8192'')\<lparr>cc_contextWindowTokens := Some 8192,
       cc_description := Some (tx 110), cc_displayName := Some ''Meta Llama 3 8B'',
       cc_functionCall := Some True, cc_pricing := Some (no_pricing\<lparr>price_input := Some 0.05,
       price_output := Some 0.08\<rparr>)\<rparr>,
     (chat_card_of ''llama3-70b-8192'')\<lparr>cc_contextWindowTokens := Some 8192,
       cc_description := Some (tx 121), cc_displayName := Some ''Meta Llama 3 70B'',
       cc_functionCall := Some True, cc_pricing := Some (no_pricing\<lparr>price_input := Some 0.59,
       price_output := Some 0.79\<rparr>)\<rparr>,
     (chat_card_of ''gemma2-9b-it'')\<lparr>cc_contextWindowTokens := Some 8192,
       cc_description := Some (tx 132), cc_displayName := Some ''Gemma 2 9B'',
       cc_enabled := Some True, cc_functionCall := Some True,
       cc_pricing := Some (no_pricing\<lparr>price_input := Some 0.2, price_output := Some 0.2\<rparr>)\<rparr>,
     (chat_card_of ''gemma-7b-it'')\<lparr>cc_contextWindowTokens := Some 8192,
       cc_description := Some (tx 144), cc_displayName := Some ''Gemma 7B'',
       cc_functionCall := Some True, cc_pricing := Some (no_pricing\<lparr>price_input := Some 0.07,
       price_output := Some 0.07\<rparr>)\<rparr>]"

definition groq_chatModels_2 :: "texts \<Rightarrow> chat_card list" where
  [card_tables]: "groq_chatModels_2 tx = [
     (chat_card_of ''mixtral-8x7b-32768'')\<lparr>cc_contextWindowTokens := Some 32768,
       cc_description := Some (tx 155), cc_displayName := Some ''Mixtral 8x7B'',
       cc_functionCall := Some True, cc_pricing := Some (no_pricing\<lparr>price_input := Some 0.24,
       price_output := Some 0.24\<rparr>)\<rparr>,
     (chat_card_of ''llava-v1.5-7b-4096-preview'')\<lparr>cc_contextWindowTokens := Some 4096,
       cc_description := Some (tx 166), cc_displayName := Some ''LLaVA 1.5 7B'',
       cc_vision := Some True\<rparr>]"

definition groq_chatModels :: "texts \<Rightarrow> chat_card list" where
  [card_tables]: "groq_chatModels tx =
     groq_chatModels_1 tx @ groq_chatModels_2 tx"

definition GroqProvider :: "texts \<Rightarrow> provider_card" where
  [provider_cards]: "GroqProvider tx =
     (provider_of ''groq'' ''Groq'' ''https://groq.com'' (groq_chatModels tx))\<lparr>pcd_checkModel := Some ''llama-3.1-8b-instant'',
       pcd_description := Some (tx 174),
       pcd_modelList := Some (no_model_list\<lparr>ml_showModelFetcher := Some True\<rparr>),
       pcd_modelsUrl := Some ''https://console.groq.com/docs/models'',
       pcd_proxyUrl := Some (Proxy_hint None ''https://api.groq.com/openai/v1'' None),
       pcd_settings := plain_settings\<lparr>st_proxyUrl := Some (Proxy_hint None ''https://api.groq.com/openai/v1'' None),
       st_sdkType := Some ''openai'', st_showModelFetcher := Some True\<rparr>\<rparr>"

end
