(* ===== verification/Provider_Data_B.thy ===== *)
theory Provider_Data_B
  imports Llm_Providers
begin

text \<open>
  The provider cards of \<open>src/web/src/config/llm-providers\<close>, the files \<open>higress.ts\<close> to \<open>hunyuan.ts\<close>: for
  each file the deprecated list of chat models and the card itself, under the name
  \<open>config/llm-providers/index.ts\<close> imports it by. The conventions are those of the model cards.
\<close>

section \<open>higress\<close>

definition higress_chatModels_1 :: "texts \<Rightarrow> chat_card list" where
  [card_tables]: "higress_chatModels_1 tx = [
     (chat_card_of ''qwen-turbo'')\<lparr>cc_contextWindowTokens := Some 131072,
       cc_description := Some (tx 8), cc_displayName := Some ''Qwen Turbo'',
       cc_enabled := Some True, cc_functionCall := Some True,
       cc_pricing := Some (no_pricing\<lparr>price_currency := Some CNY, price_input := Some 0.3,
       price_output := Some 0.6\<rparr>)\<rparr>,
     (chat_card_of ''qwen-plus'')\<lparr>cc_contextWindowTokens := Some 131072,
       cc_description := Some (tx 21), cc_displayName := Some ''Qwen Plus'',
       cc_enabled := Some True, cc_functionCall := Some True,
       cc_pricing := Some (no_pricing\<lparr>price_currency := Some CNY, price_input := Some 0.8,
       price_output := Some 2\<rparr>)\<rparr>,
     (chat_card_of ''qwen-max'')\<lparr>cc_contextWindowTokens := Some 32768,
       cc_description := Some (tx 35), cc_displayName := Some ''Qwen Max'', cc_enabled := Some True,
       cc_functionCall := Some True, cc_pricing := Some (no_pricing\<lparr>price_currency := Some CNY,
       price_input := Some 20, price_output := Some 60\<rparr>)\<rparr>,
     (chat_card_of ''qwen-long'')\<lparr>cc_contextWindowTokens := Some 1000000,
       cc_description := Some (tx 49), cc_displayName := Some ''Qwen Long'',
       cc_pricing := Some (no_pricing\<lparr>price_currency := Some CNY, price_input := Some 0.5,
       price_output := Some 2\<rparr>)\<rparr>,
     (chat_card_of ''qwen-vl-plus-latest'')\<lparr>cc_contextWindowTokens := Some 32000,
       cc_description := Some (tx 62), cc_displayName := Some ''Qwen VL Plus'',
       cc_enabled := Some True, cc_pricing := Some (no_pricing\<lparr>price_currency := Some CNY,
       price_input := Some 8, price_output := Some 8\<rparr>), cc_vision := Some True\<rparr>,
     (chat_card_of ''qwen-vl-max-latest'')\<lparr>cc_contextWindowTokens := Some 32000,
       cc_description := Some (tx 76), cc_displayName := Some ''Qwen VL Max'',
       cc_enabled := Some True, cc_pricing := Some (no_pricing\<lparr>price_currency := Some CNY,
       price_input := Some 20, price_output := Some 20\<rparr>), cc_vision := Some True\<rparr>,
     (chat_card_of ''qwen-math-turbo-latest'')\<lparr>cc_contextWindowTokens := Some 4096,
       cc_description := Some (tx 89), cc_displayName := Some ''Qwen Math Turbo'',
       cc_pricing := Some (no_pricing\<lparr>price_currency := Some CNY, price_input := Some 2,
       price_output := Some 6\<rparr>)\<rparr>,
     (chat_card_of ''qwen-math-plus-latest'')\<lparr>cc_contextWindowTokens := Some 4096,
       cc_description := Some (tx 100), cc_displayName := Some ''Qwen Math Plus'',
       cc_pricing := Some (no_pricing\<lparr>price_currency := Some CNY, price_input := Some 4,
       price_output := Some 12\<rparr>)\<rparr>,
     (chat_card_of ''qwen-coder-turbo-latest'')\<lparr>cc_contextWindowTokens := Some 131072,
       cc_description := Some (tx 111), cc_displayName := Some ''Qwen Coder Turbo'',
       cc_pricing := Some (no_pricing\<lparr>price_currency := Some CNY, price_input := Some 2,
       price_output := Some 6\<rparr>)\<rparr>,
     (chat_card_of ''qwen2.5-7b-instruct'')\<lparr>cc_contextWindowTokens := Some 131072,
       cc_description := Some (tx 122), cc_displayName := Some ''Qwen2.5 7B'',
       cc_functionCall := Some True, cc_pricing := Some (no_pricing\<lparr>price_currency := Some CNY,
       price_input := Some 1, price_output := Some 2\<rparr>)\<rparr>,
     (chat_card_of ''qwen2.5-14b-instruct'')\<lparr>cc_contextWindowTokens := Some 131072,
       cc_description := Some (tx 134), cc_displayName := Some ''Qwen2.5 14B'',
       cc_functionCall := Some True, cc_pricing := Some (no_pricing\<lparr>price_currency := Some CNY,
       price_input := Some 2, price_output := Some 6\<rparr>)\<rparr>,
     (chat_card_of ''qwen2.5-32b-instruct'')\<lparr>cc_contextWindowTokens := Some 131072,
       cc_description := Some (tx 146), cc_displayName := Some ''Qwen2.5 32B'',
       cc_functionCall := Some True, cc_pricing := Some (no_pricing\<lparr>price_currency := Some CNY,
       price_input := Some 3.5, price_output := Some 7\<rparr>)\<rparr>]"

definition higress_chatModels_2 :: "texts \<Rightarrow> chat_card list" where
  [card_tables]: "higress_chatModels_2 tx = [
     (chat_card_of ''qwen2.5-72b-instruct'')\<lparr>cc_contextWindowTokens := Some 131072,
       cc_description := Some (tx 158), cc_displayName := Some ''Qwen2.5 72B'',
       cc_functionCall := Some True, cc_pricing := Some (no_pricing\<lparr>price_currency := Some CNY,
       price_input := Some 4, price_output := Some 12\<rparr>)\<rparr>,
     (chat_card_of ''qwen2.5-math-1.5b-instruct'')\<lparr>cc_contextWindowTokens := Some 4096,
       cc_description := Some (tx 170), cc_displayName := Some ''Qwen2.5 Math 1.5B'',
       cc_pricing := Some (no_pricing\<lparr>price_currency := Some CNY, price_input := Some 0,
       price_output := Some 0\<rparr>)\<rparr>,
     (chat_card_of ''qwen2.5-math-7b-instruct'')\<lparr>cc_contextWindowTokens := Some 4096,
       cc_description := Some (tx 181), cc_displayName := Some ''Qwen2.5 Math 7B'',
       cc_pricing := Some (no_pricing\<lparr>price_currency := Some CNY, price_input := Some 1,
       price_output := Some 2\<rparr>)\<rparr>,
     (chat_card_of ''qwen2.5-math-72b-instruct'')\<lparr>cc_contextWindowTokens := Some 4096,
       cc_description := Some (tx 192), cc_displayName := Some ''Qwen2.5 Math 72B'',
       cc_pricing := Some (no_pricing\<lparr>price_currency := Some CNY, price_input := Some 4,
       price_output := Some 12\<rparr>)\<rparr>,
     (chat_card_of ''qwen2.5-coder-1.5b-instruct'')\<lparr>cc_contextWindowTokens := Some 131072,
       cc_description := Some (tx 203), cc_displayName := Some ''Qwen2.5 Coder 1.5B'',
       cc_pricing := Some (no_pricing\<lparr>price_currency := Some CNY, price_input := Some 0,
       price_output := Some 0\<rparr>)\<rparr>,
     (chat_card_of ''qwen2.5-coder-7b-instruct'')\<lparr>cc_contextWindowTokens := Some 131072,
       cc_description := Some (tx 214), cc_displayName := Some ''Qwen2.5 Coder 7B'',
       cc_pricing := Some (no_pricing\<lparr>price_currency := Some CNY, price_input := Some 1,
       price_output := Some 2\<rparr>)\<rparr>,
     (chat_card_of ''qwen-vl-v1'')\<lparr>cc_contextWindowTokens := Some 8000,
       cc_description := Some (tx 225), cc_displayName := Some ''Qwen VL'',
       cc_pricing := Some (no_pricing\<lparr>price_currency := Some CNY, price_input := Some 0,
       price_output := Some 0\<rparr>), cc_vision := Some True\<rparr>,
     (chat_card_of ''qwen-vl-chat-v1'')\<lparr>cc_contextWindowTokens := Some 8000,
       cc_description := Some (tx 237), cc_displayName := Some ''Qwen VL Chat'',
       cc_pricing := Some (no_pricing\<lparr>price_currency := Some CNY, price_input := Some 0,
       price_output := Some 0\<rparr>), cc_vision := Some True\<rparr>,
     (chat_card_of ''moonshot-v1-8k'')\<lparr>cc_contextWindowTokens := Some 8192,
       cc_description := Some (tx 252), cc_displayName := Some ''Moonshot V1 8K'',
       cc_enabled := Some True, cc_functionCall := Some True\<rparr>,
     (chat_card_of ''moonshot-v1-32k'')\<lparr>cc_contextWindowTokens := Some 32768,
       cc_description := Some (tx 261), cc_displayName := Some ''Moonshot V1 32K'',
       cc_enabled := Some True, cc_functionCall := Some True\<rparr>,
     (chat_card_of ''moonshot-v1-128k'')\<lparr>cc_contextWindowTokens := Some 128000,
       cc_description := Some (tx 270), cc_displayName := Some ''Moonshot V1 128K'',
       cc_enabled := Some True, cc_functionCall := Some True\<rparr>,
     (chat_card_of ''Baichuan4'')\<lparr>cc_contextWindowTokens := Some 32768,
       cc_description := Some (tx 280), cc_displayName := Some ''Baichuan 4'',
       cc_enabled := Some True, cc_functionCall := Some True, cc_maxOutput := Some 4096,
       cc_pricing := Some (no_pricing\<lparr>price_currency := Some CNY, price_input := Some 100,
       price_output := Some 100\<rparr>)\<rparr>,
     (chat_card_of ''Baichuan4-Turbo'')\<lparr>cc_description := Some '''',
       cc_displayName := Some ''Baichuan 4 Turbo'', cc_enabled := Some True,
       cc_functionCall := Some True\<rparr>]"

definition higress_chatModels_3 :: "texts \<Rightarrow> chat_card list" where
  [card_tables]: "higress_chatModels_3 tx = [
     (chat_card_of ''Baichuan4-Air'')\<lparr>cc_description := Some '''',
       cc_displayName := Some ''Baichuan 4 Air'', cc_enabled := Some True,
       cc_functionCall := Some True\<rparr>,
     (chat_card_of ''Baichuan3-Turbo'')\<lparr>cc_contextWindowTokens := Some 32768,
       cc_description := Some (tx 323), cc_displayName := Some ''Baichuan 3 Turbo'',
       cc_enabled := Some True, cc_functionCall := Some True, cc_maxOutput := Some 8192,
       cc_pricing := Some (no_pricing\<lparr>price_currency := Some CNY, price_input := Some 12,
       price_output := Some 12\<rparr>)\<rparr>,
     (chat_card_of ''Baichuan3-Turbo-128k'')\<lparr>cc_contextWindowTokens := Some 128000,
       cc_description := Some (tx 338), cc_displayName := Some ''Baichuan 3 Turbo 128k'',
       cc_enabled := Some True, cc_maxOutput := Some 4096,
       cc_pricing := Some (no_pricing\<lparr>price_currency := Some CNY, price_input := Some 24,
       price_output := Some 24\<rparr>)\<rparr>,
     (chat_card_of ''Baichuan2-Turbo'')\<lparr>cc_contextWindowTokens := Some 32768,
       cc_description := Some (tx 352), cc_displayName := Some ''Baichuan 2 Turbo'',
       cc_maxOutput := Some 8192, cc_pricing := Some (no_pricing\<lparr>price_currency := Some CNY,
       price_input := Some 8, price_output := Some 8\<rparr>)\<rparr>,
     (chat_card_of ''yi-lightning'')\<lparr>cc_contextWindowTokens := Some 16384,
       cc_description := Some (tx 365), cc_displayName := Some ''Yi Lightning'',
       cc_enabled := Some True, cc_pricing := Some (no_pricing\<lparr>price_currency := Some CNY,
       price_input := Some 0.99, price_output := Some 0.99\<rparr>)\<rparr>,
     (chat_card_of ''yi-spark'')\<lparr>cc_contextWindowTokens := Some 16384,
       cc_description := Some (tx 377), cc_displayName := Some ''Yi Spark'',
       cc_enabled := Some True, cc_pricing := Some (no_pricing\<lparr>price_currency := Some CNY,
       price_input := Some 1, price_output := Some 1\<rparr>)\<rparr>,
     (chat_card_of ''yi-medium'')\<lparr>cc_contextWindowTokens := Some 16384,
       cc_description := Some (tx 389), cc_displayName := Some ''Yi Medium'',
       cc_enabled := Some True, cc_pricing := Some (no_pricing\<lparr>price_currency := Some CNY,
       price_input := Some 2.5, price_output := Some 2.5\<rparr>)\<rparr>,
     (chat_card_of ''yi-medium-200k'')\<lparr>cc_contextWindowTokens := Some 200000,
       cc_description := Some (tx 401), cc_displayName := Some ''Yi Medium 200K'',
       cc_enabled := Some True, cc_pricing := Some (no_pricing\<lparr>price_currency := Some CNY,
       price_input := Some 12, price_output := Some 12\<rparr>)\<rparr>,
     (chat_card_of ''yi-large-turbo'')\<lparr>cc_contextWindowTokens := Some 16384,
       cc_description := Some (tx 413), cc_displayName := Some ''Yi Large Turbo'',
       cc_enabled := Some True, cc_pricing := Some (no_pricing\<lparr>price_currency := Some CNY,
       price_input := Some 12, price_output := Some 12\<rparr>)\<rparr>,
     (chat_card_of ''yi-large-rag'')\<lparr>cc_contextWindowTokens := Some 16384,
       cc_description := Some (tx 426), cc_displayName := Some ''Yi Large RAG'',
       cc_enabled := Some True, cc_pricing := Some (no_pricing\<lparr>price_currency := Some CNY,
       price_input := Some 25, price_output := Some 25\<rparr>)\<rparr>,
     (chat_card_of ''yi-large-fc'')\<lparr>cc_contextWindowTokens := Some 32768,
       cc_description := Some (tx 439), cc_displayName := Some ''Yi Large FC'',
       cc_enabled := Some True, cc_functionCall := Some True,
       cc_pricing := Some (no_pricing\<lparr>price_currency := Some CNY, price_input := Some 20,
       price_output := Some 20\<rparr>)\<rparr>]"

definition higress_chatModels_4 :: "texts \<Rightarrow> chat_card list" where
  [card_tables]: "higress_chatModels_4 tx = [
     (chat_card_of ''yi-large'')\<lparr>cc_contextWindowTokens := Some 32768,
       cc_description := Some (tx 452), cc_displayName := Some ''Yi Large'',
       cc_pricing := Some (no_pricing\<lparr>price_currency := Some CNY, price_input := Some 20,
       price_output := Some 20\<rparr>)\<rparr>,
     (chat_card_of ''yi-vision'')\<lparr>cc_contextWindowTokens := Some 16384,
       cc_description := Some (tx 463), cc_displayName := Some ''Yi Vision'',
       cc_enabled := Some True, cc_pricing := Some (no_pricing\<lparr>price_currency := Some CNY,
       price_input := Some 6, price_output := Some 6\<rparr>), cc_vision := Some True\<rparr>,
     (chat_card_of ''yi-large-preview'')\<lparr>cc_contextWindowTokens := Some 16384,
       cc_description := Some (tx 476), cc_displayName := Some ''Yi Large Preview'',
       cc_pricing := Some (no_pricing\<lparr>price_currency := Some CNY, price_input := Some 20,
       price_output := Some 20\<rparr>)\<rparr>,
     (chat_card_of ''yi-lightning-lite'')\<lparr>cc_contextWindowTokens := Some 16384,
       cc_description := Some (tx 487), cc_displayName := Some ''Yi Lightning Lite'',
       cc_pricing := Some (no_pricing\<lparr>price_currency := Some CNY, price_input := Some 0.99,
       price_output := Some 0.99\<rparr>)\<rparr>,
     (chat_card_of ''glm-4-flash'')\<lparr>cc_contextWindowTokens := Some 128000,
       cc_description := Some (tx 499), cc_displayName := Some ''GLM-4-Flash'',
       cc_enabled := Some True, cc_functionCall := Some True,
       cc_pricing := Some (no_pricing\<lparr>price_currency := Some CNY, price_input := Some 0,
       price_output := Some 0\<rparr>)\<rparr>,
     (chat_card_of ''glm-4-flashx'')\<lparr>cc_contextWindowTokens := Some 128000,
       cc_description := Some (tx 512), cc_displayName := Some ''GLM-4-FlashX'',
       cc_enabled := Some True, cc_functionCall := Some True,
       cc_pricing := Some (no_pricing\<lparr>price_currency := Some CNY, price_input := Some 0.1,
       price_output := Some 0.1\<rparr>)\<rparr>,
     (chat_card_of ''glm-4-long'')\<lparr>cc_contextWindowTokens := Some 1024000,
       cc_description := Some (tx 525), cc_displayName := Some ''GLM-4-Long'',
       cc_functionCall := Some True, cc_pricing := Some (no_pricing\<lparr>price_currency := Some CNY,
       price_input := Some 1, price_output := Some 1\<rparr>)\<rparr>,
     (chat_card_of ''glm-4-air'')\<lparr>cc_contextWindowTokens := Some 128000,
       cc_description := Some (tx 537), cc_displayName := Some ''GLM-4-Air'',
       cc_enabled := Some True, cc_functionCall := Some True,
       cc_pricing := Some (no_pricing\<lparr>price_currency := Some CNY, price_input := Some 1,
       price_output := Some 1\<rparr>)\<rparr>,
     (chat_card_of ''glm-4-airx'')\<lparr>cc_contextWindowTokens := Some 8192,
       cc_description := Some (tx 550), cc_displayName := Some ''GLM-4-AirX'',
       cc_enabled := Some True, cc_functionCall := Some True,
       cc_pricing := Some (no_pricing\<lparr>price_currency := Some CNY, price_input := Some 10,
       price_output := Some 10\<rparr>)\<rparr>,
     (chat_card_of ''glm-4-alltools'')\<lparr>cc_contextWindowTokens := Some 128000,
       cc_description := Some (tx 564), cc_displayName := Some ''GLM-4-AllTools'',
       cc_functionCall := Some True, cc_pricing := Some (no_pricing\<lparr>price_currency := Some CNY,
       price_input := Some 100, price_output := Some 100\<rparr>)\<rparr>,
     (chat_card_of ''glm-4-plus'')\<lparr>cc_contextWindowTokens := Some 128000,
       cc_description := Some (tx 577), cc_displayName := Some ''GLM-4-Plus'',
       cc_enabled := Some True, cc_functionCall := Some True,
       cc_pricing := Some (no_pricing\<lparr>price_currency := Some CNY, price_input := Some 50,
       price_output := Some 50\<rparr>)\<rparr>,
     (chat_card_of ''glm-4-0520'')\<lparr>cc_contextWindowTokens := Some 128000,
       cc_description := Some (tx 590), cc_displayName := Some ''GLM-4-0520'',
       cc_functionCall := Some True, cc_pricing := Some (no_pricing\<lparr>price_currency := Some CNY,
       price_input := Some 100, price_output := Some 100\<rparr>)\<rparr>]"

definition higress_chatModels_5 :: "texts \<Rightarrow> chat_card list" where
  [card_tables]: "higress_chatModels_5 tx = [
     (chat_card_of ''glm-4'')\<lparr>cc_contextWindowTokens := Some 128000,
       cc_description := Some (tx 602), cc_displayName := Some ''GLM-4'',
       cc_functionCall := Some True, cc_pricing := Some (no_pricing\<lparr>price_currency := Some CNY,
       price_input := Some 100, price_output := Some 100\<rparr>)\<rparr>,
     (chat_card_of ''glm-4v-plus'')\<lparr>cc_contextWindowTokens := Some 8192,
       cc_description := Some (tx 614), cc_displayName := Some ''GLM-4V-Plus'',
       cc_enabled := Some True, cc_pricing := Some (no_pricing\<lparr>price_currency := Some CNY,
       price_input := Some 10, price_output := Some 10\<rparr>), cc_vision := Some True\<rparr>,
     (chat_card_of ''glm-4v'')\<lparr>cc_contextWindowTokens := Some 2048,
       cc_description := Some (tx 627), cc_displayName := Some ''GLM-4V'',
       cc_pricing := Some (no_pricing\<lparr>price_currency := Some CNY, price_input := Some 50,
       price_output := Some 50\<rparr>), cc_vision := Some True\<rparr>,
     (chat_card_of ''charglm-3'')\<lparr>cc_contextWindowTokens := Some 4096,
       cc_description := Some (tx 639), cc_displayName := Some ''CharGLM-3'',
       cc_pricing := Some (no_pricing\<lparr>price_currency := Some CNY, price_input := Some 15,
       price_output := Some 15\<rparr>)\<rparr>,
     (chat_card_of ''emohaa'')\<lparr>cc_contextWindowTokens := Some 8192,
       cc_description := Some (tx 650), cc_displayName := Some ''Emohaa'',
       cc_pricing := Some (no_pricing\<lparr>price_currency := Some CNY, price_input := Some 15,
       price_output := Some 15\<rparr>)\<rparr>,
     (chat_card_of ''360gpt2-pro'')\<lparr>cc_contextWindowTokens := Some 8192,
       cc_description := Some (tx 663), cc_displayName := Some ''360GPT2 Pro'',
       cc_enabled := Some True, cc_maxOutput := Some 7000,
       cc_pricing := Some (no_pricing\<lparr>price_currency := Some CNY, price_input := Some 5,
       price_output := Some 5\<rparr>)\<rparr>,
     (chat_card_of ''360gpt-pro'')\<lparr>cc_contextWindowTokens := Some 8192,
       cc_description := Some (tx 677), cc_displayName := Some ''360GPT Pro'',
       cc_enabled := Some True, cc_functionCall := Some True, cc_maxOutput := Some 7000,
       cc_pricing := Some (no_pricing\<lparr>price_currency := Some CNY, price_input := Some 5,
       price_output := Some 5\<rparr>)\<rparr>,
     (chat_card_of ''360gpt-turbo'')\<lparr>cc_contextWindowTokens := Some 8192,
       cc_description := Some (tx 692), cc_displayName := Some ''360GPT Turbo'',
       cc_enabled := Some True, cc_maxOutput := Some 7000,
       cc_pricing := Some (no_pricing\<lparr>price_currency := Some CNY, price_input := Some 2,
       price_output := Some 2\<rparr>)\<rparr>,
     (chat_card_of ''360gpt-turbo-responsibility-8k'')\<lparr>cc_contextWindowTokens := Some 8192,
       cc_description := Some (tx 706), cc_displayName := Some ''360GPT Turbo Responsibility 8K'',
       cc_enabled := Some True, cc_maxOutput := Some 2048,
       cc_pricing := Some (no_pricing\<lparr>price_currency := Some CNY, price_input := Some 2,
       price_output := Some 2\<rparr>)\<rparr>,
     (chat_card_of ''ERNIE-3.5-8K'')\<lparr>cc_contextWindowTokens := Some 8192,
       cc_description := Some (tx 721), cc_displayName := Some ''ERNIE 3.5 8K'',
       cc_enabled := Some True, cc_pricing := Some (no_pricing\<lparr>price_currency := Some CNY,
       price_input := Some 0.8, price_output := Some 2\<rparr>)\<rparr>,
     (chat_card_of ''ERNIE-3.5-8K-Preview'')\<lparr>cc_contextWindowTokens := Some 8192,
       cc_description := Some (tx 734), cc_displayName := Some ''ERNIE 3.5 8K Preview'',
       cc_pricing := Some (no_pricing\<lparr>price_currency := Some CNY, price_input := Some 0.8,
       price_output := Some 2\<rparr>)\<rparr>]"

definition higress_chatModels_6 :: "texts \<Rightarrow> chat_card list" where
  [card_tables]: "higress_chatModels_6 tx = [
     (chat_card_of ''ERNIE-3.5-128K'')\<lparr>cc_contextWindowTokens := Some 128000,
       cc_description := Some (tx 746), cc_displayName := Some ''ERNIE 3.5 128K'',
       cc_enabled := Some True, cc_pricing := Some (no_pricing\<lparr>price_currency := Some CNY,
       price_input := Some 0.8, price_output := Some 2\<rparr>)\<rparr>,
     (chat_card_of ''ERNIE-4.0-8K-Latest'')\<lparr>cc_contextWindowTokens := Some 8192,
       cc_description := Some (tx 759), cc_displayName := Some ''ERNIE 4.0 8K'',
       cc_enabled := Some True, cc_pricing := Some (no_pricing\<lparr>price_currency := Some CNY,
       price_input := Some 30, price_output := Some 90\<rparr>)\<rparr>,
     (chat_card_of ''ERNIE-4.0-8K-Preview'')\<lparr>cc_contextWindowTokens := Some 8192,
       cc_description := Some (tx 772), cc_displayName := Some ''ERNIE 4.0 8K Preview'',
       cc_pricing := Some (no_pricing\<lparr>price_currency := Some CNY, price_input := Some 30,
       price_output := Some 90\<rparr>)\<rparr>,
     (chat_card_of ''ERNIE-4.0-Turbo-8K-Latest'')\<lparr>cc_contextWindowTokens := Some 8192,
       cc_description := Some (tx 784), cc_displayName := Some ''ERNIE 4.0 Turbo 8K'',
       cc_enabled := Some True, cc_pricing := Some (no_pricing\<lparr>price_currency := Some CNY,
       price_input := Some 20, price_output := Some 60\<rparr>)\<rparr>,
     (chat_card_of ''ERNIE-4.0-Turbo-8K-Preview'')\<lparr>cc_contextWindowTokens := Some 8192,
       cc_description := Some (tx 797), cc_displayName := Some ''ERNIE 4.0 Turbo 8K Preview'',
       cc_pricing := Some (no_pricing\<lparr>price_currency := Some CNY, price_input := Some 20,
       price_output := Some 60\<rparr>)\<rparr>,
     (chat_card_of ''ERNIE-Lite-Pro-128K'')\<lparr>cc_contextWindowTokens := Some 128000,
       cc_description := Some (tx 809), cc_displayName := Some ''ERNIE Lite Pro 128K'',
       cc_enabled := Some True, cc_pricing := Some (no_pricing\<lparr>price_currency := Some CNY,
       price_input := Some 0.2, price_output := Some 0.4\<rparr>)\<rparr>,
     (chat_card_of ''ERNIE-Speed-Pro-128K'')\<lparr>cc_contextWindowTokens := Some 128000,
       cc_description := Some (tx 822), cc_displayName := Some ''ERNIE Speed Pro 128K'',
       cc_enabled := Some True, cc_pricing := Some (no_pricing\<lparr>price_currency := Some CNY,
       price_input := Some 0.3, price_output := Some 0.6\<rparr>)\<rparr>,
     (chat_card_of ''ERNIE-Speed-128K'')\<lparr>cc_contextWindowTokens := Some 128000,
       cc_description := Some (tx 835), cc_displayName := Some ''ERNIE Speed 128K'',
       cc_pricing := Some (no_pricing\<lparr>price_currency := Some CNY, price_input := Some 0,
       price_output := Some 0\<rparr>)\<rparr>,
     (chat_card_of ''ERNIE-Character-8K'')\<lparr>cc_contextWindowTokens := Some 8192,
       cc_description := Some (tx 847), cc_displayName := Some ''ERNIE Character 8K'',
       cc_pricing := Some (no_pricing\<lparr>price_currency := Some CNY, price_input := Some 4,
       price_output := Some 8\<rparr>)\<rparr>,
     (chat_card_of ''hunyuan-lite'')\<lparr>cc_contextWindowTokens := Some 256000,
       cc_description := Some (tx 860), cc_displayName := Some ''Hunyuan Lite'',
       cc_enabled := Some True, cc_maxOutput := Some 6000,
       cc_pricing := Some (no_pricing\<lparr>price_currency := Some CNY, price_input := Some 0,
       price_output := Some 0\<rparr>)\<rparr>,
     (chat_card_of ''hunyuan-standard'')\<lparr>cc_contextWindowTokens := Some 32000,
       cc_description := Some (tx 874), cc_displayName := Some ''Hunyuan Standard'',
       cc_enabled := Some True, cc_maxOutput := Some 2000,
       cc_pricing := Some (no_pricing\<lparr>price_currency := Some CNY, price_input := Some 4.5,
       price_output := Some 5\<rparr>)\<rparr>]"

definition higress_chatModels_7 :: "texts \<Rightarrow> chat_card list" where
  [card_tables]: "higress_chatModels_7 tx = [
     (chat_card_of ''hunyuan-standard-256K'')\<lparr>cc_contextWindowTokens := Some 256000,
       cc_description := Some (tx 888), cc_displayName := Some ''Hunyuan Standard 256K'',
       cc_enabled := Some True, cc_maxOutput := Some 6000,
       cc_pricing := Some (no_pricing\<lparr>price_currency := Some CNY, price_input := Some 15,
       price_output := Some 60\<rparr>)\<rparr>,
     (chat_card_of ''hunyuan-turbo'')\<lparr>cc_contextWindowTokens := Some 32000,
       cc_description := Some (tx 902), cc_displayName := Some ''Hunyuan Turbo'',
       cc_enabled := Some True, cc_functionCall := Some True, cc_maxOutput := Some 4000,
       cc_pricing := Some (no_pricing\<lparr>price_currency := Some CNY, price_input := Some 15,
       price_output := Some 50\<rparr>)\<rparr>,
     (chat_card_of ''hunyuan-pro'')\<lparr>cc_contextWindowTokens := Some 32000,
       cc_description := Some (tx 917), cc_displayName := Some ''Hunyuan Pro'',
       cc_enabled := Some True, cc_functionCall := Some True, cc_maxOutput := Some 4000,
       cc_pricing := Some (no_pricing\<lparr>price_currency := Some CNY, price_input := Some 30,
       price_output := Some 100\<rparr>)\<rparr>,
     (chat_card_of ''hunyuan-large'')\<lparr>cc_description := Some '''',
       cc_displayName := Some ''Hunyuan Large'', cc_enabled := Some True,
       cc_functionCall := Some True\<rparr>,
     (chat_card_of ''hunyuan-vision'')\<lparr>cc_contextWindowTokens := Some 8000,
       cc_description := Some (tx 945), cc_displayName := Some ''Hunyuan Vision'',
       cc_enabled := Some True, cc_maxOutput := Some 4000,
       cc_pricing := Some (no_pricing\<lparr>price_currency := Some CNY, price_input := Some 18,
       price_output := Some 18\<rparr>), cc_vision := Some True\<rparr>,
     (chat_card_of ''hunyuan-code'')\<lparr>cc_contextWindowTokens := Some 8000,
       cc_description := Some (tx 960), cc_displayName := Some ''Hunyuan Code'',
       cc_maxOutput := Some 4000, cc_pricing := Some (no_pricing\<lparr>price_currency := Some CNY,
       price_input := Some 4, price_output := Some 8\<rparr>)\<rparr>,
     (chat_card_of ''hunyuan-functioncall'')\<lparr>cc_contextWindowTokens := Some 32000,
       cc_description := Some (tx 973), cc_displayName := Some ''Hunyuan FunctionCall'',
       cc_functionCall := Some True, cc_maxOutput := Some 4000,
       cc_pricing := Some (no_pricing\<lparr>price_currency := Some CNY, price_input := Some 4,
       price_output := Some 8\<rparr>)\<rparr>,
     (chat_card_of ''hunyuan-role'')\<lparr>cc_contextWindowTokens := Some 8000,
       cc_description := Some (tx 987), cc_displayName := Some ''Hunyuan Role'',
       cc_maxOutput := Some 4000, cc_pricing := Some (no_pricing\<lparr>price_currency := Some CNY,
       price_input := Some 4, price_output := Some 8\<rparr>)\<rparr>,
     (chat_card_of ''step-1-flash'')\<lparr>cc_contextWindowTokens := Some 8000,
       cc_description := Some (tx 1000), cc_displayName := Some ''Step 1 Flash'',
       cc_enabled := Some True, cc_functionCall := Some True,
       cc_pricing := Some (no_pricing\<lparr>price_currency := Some CNY, price_input := Some 1,
       price_output := Some 4\<rparr>)\<rparr>,
     (chat_card_of ''step-1-8k'')\<lparr>cc_contextWindowTokens := Some 8000,
       cc_description := Some (tx 1013), cc_displayName := Some ''Step 1 8K'',
       cc_enabled := Some True, cc_functionCall := Some True,
       cc_pricing := Some (no_pricing\<lparr>price_currency := Some CNY, price_input := Some 5,
       price_output := Some 20\<rparr>)\<rparr>]"

definition higress_chatModels_8 :: "texts \<Rightarrow> chat_card list" where
  [card_tables]: "higress_chatModels_8 tx = [
     (chat_card_of ''step-1-32k'')\<lparr>cc_contextWindowTokens := Some 32000,
       cc_description := Some (tx 1026), cc_displayName := Some ''Step 1 32K'',
       cc_enabled := Some True, cc_functionCall := Some True,
       cc_pricing := Some (no_pricing\<lparr>price_currency := Some CNY, price_input := Some 15,
       price_output := Some 70\<rparr>)\<rparr>,
     (chat_card_of ''step-1-128k'')\<lparr>cc_contextWindowTokens := Some 128000,
       cc_description := Some (tx 1039), cc_displayName := Some ''Step 1 128K'',
       cc_enabled := Some True, cc_functionCall := Some True,
       cc_pricing := Some (no_pricing\<lparr>price_currency := Some CNY, price_input := Some 40,
       price_output := Some 200\<rparr>)\<rparr>,
     (chat_card_of ''step-1-256k'')\<lparr>cc_contextWindowTokens := Some 256000,
       cc_description := Some (tx 1052), cc_displayName := Some ''Step 1 256K'',
       cc_functionCall := Some True, cc_pricing := Some (no_pricing\<lparr>price_currency := Some CNY,
       price_input := Some 95, price_output := Some 300\<rparr>)\<rparr>,
     (chat_card_of ''step-2-16k'')\<lparr>cc_contextWindowTokens := Some 16000,
       cc_description := Some (tx 1064), cc_displayName := Some ''Step 2 16K'',
       cc_enabled := Some True, cc_functionCall := Some True,
       cc_pricing := Some (no_pricing\<lparr>price_currency := Some CNY, price_input := Some 38,
       price_output := Some 120\<rparr>)\<rparr>,
     (chat_card_of ''step-1v-8k'')\<lparr>cc_contextWindowTokens := Some 8000,
       cc_description := Some (tx 1077), cc_displayName := Some ''Step 1V 8K'',
       cc_enabled := Some True, cc_functionCall := Some True,
       cc_pricing := Some (no_pricing\<lparr>price_currency := Some CNY, price_input := Some 5,
       price_output := Some 20\<rparr>), cc_vision := Some True\<rparr>,
     (chat_card_of ''step-1v-32k'')\<lparr>cc_contextWindowTokens := Some 32000,
       cc_description := Some (tx 1091), cc_displayName := Some ''Step 1V 32K'',
       cc_enabled := Some True, cc_functionCall := Some True,
       cc_pricing := Some (no_pricing\<lparr>price_currency := Some CNY, price_input := Some 15,
       price_output := Some 70\<rparr>), cc_vision := Some True\<rparr>,
     (chat_card_of ''step-1.5v-mini'')\<lparr>cc_contextWindowTokens := Some 32000,
       cc_description := Some (tx 1105), cc_displayName := Some ''Step 1.5V Mini'',
       cc_enabled := Some True, cc_pricing := Some (no_pricing\<lparr>price_currency := Some CNY,
       price_input := Some 8, price_output := Some 35\<rparr>), cc_vision := Some True\<rparr>,
     (chat_card_of ''lite'')\<lparr>cc_contextWindowTokens := Some 8192,
       cc_description := Some (tx 1119), cc_displayName := Some ''Spark Lite'',
       cc_enabled := Some True, cc_functionCall := Some False, cc_maxOutput := Some 4096\<rparr>,
     (chat_card_of ''generalv3'')\<lparr>cc_contextWindowTokens := Some 8192,
       cc_description := Some (tx 1129), cc_displayName := Some ''Spark Pro'',
       cc_enabled := Some True, cc_functionCall := Some False, cc_maxOutput := Some 8192\<rparr>,
     (chat_card_of ''pro-128k'')\<lparr>cc_contextWindowTokens := Some 131072,
       cc_description := Some (tx 1139), cc_displayName := Some ''Spark Pro 128K'',
       cc_enabled := Some True, cc_functionCall := Some False, cc_maxOutput := Some 4096\<rparr>,
     (chat_card_of ''generalv3.5'')\<lparr>cc_contextWindowTokens := Some 8192,
       cc_description := Some (tx 1149), cc_displayName := Some ''Spark Max'',
       cc_enabled := Some True, cc_functionCall := Some False, cc_maxOutput := Some 8192\<rparr>,
     (chat_card_of ''max-32k'')\<lparr>cc_contextWindowTokens := Some 32768,
       cc_description := Some (tx 1159), cc_displayName := Some ''Spark Max 32K'',
       cc_enabled := Some True, cc_functionCall := Some False, cc_maxOutput := Some 8192\<rparr>]"

definition higress_chatModels_9 :: "texts \<Rightarrow> chat_card list" where
  [card_tables]: "higress_chatModels_9 tx = [
     (chat_card_of ''4.0Ultra'')\<lparr>cc_contextWindowTokens := Some 8192,
       cc_description := Some (tx 1169), cc_displayName := Some ''Spark 4.0 Ultra'',
       cc_enabled := Some True, cc_functionCall := Some False, cc_maxOutput := Some 8192\<rparr>,
     (chat_card_of ''o1-mini'')\<lparr>cc_contextWindowTokens := Some 128000,
       cc_description := Some (tx 1180), cc_displayName := Some ''OpenAI o1-mini'',
       cc_enabled := Some True, cc_maxOutput := Some 65536,
       cc_pricing := Some (no_pricing\<lparr>price_input := Some 3, price_output := Some 12\<rparr>),
       cc_releasedAt := Some ''2024-09-12''\<rparr>,
     (chat_card_of ''o1-preview'')\<lparr>cc_contextWindowTokens := Some 128000,
       cc_description := Some (tx 1194), cc_displayName := Some ''OpenAI o1-preview'',
       cc_enabled := Some True, cc_maxOutput := Some 32768,
       cc_pricing := Some (no_pricing\<lparr>price_input := Some 15, price_output := Some 60\<rparr>),
       cc_releasedAt := Some ''2024-09-12''\<rparr>,
     (chat_card_of ''gpt-4o-mini'')\<lparr>cc_contextWindowTokens := Some 128000,
       cc_description := Some (tx 1208), cc_displayName := Some ''GPT-4o mini'',
       cc_enabled := Some True, cc_functionCall := Some True, cc_maxOutput := Some 16385,
       cc_pricing := Some (no_pricing\<lparr>price_input := Some 0.15, price_output := Some 0.6\<rparr>),
       cc_vision := Some True\<rparr>,
     (chat_card_of ''gpt-4o'')\<lparr>cc_contextWindowTokens := Some 128000,
       cc_description := Some (tx 1223), cc_displayName := Some ''GPT-4o'', cc_enabled := Some True,
       cc_functionCall := Some True, cc_pricing := Some (no_pricing\<lparr>price_input := Some 2.5,
       price_output := Some 10\<rparr>), cc_vision := Some True\<rparr>,
     (chat_card_of ''gpt-4o-2024-08-06'')\<lparr>cc_contextWindowTokens := Some 128000,
       cc_description := Some (tx 1237), cc_displayName := Some ''GPT-4o 0806'',
       cc_functionCall := Some True, cc_pricing := Some (no_pricing\<lparr>price_input := Some 2.5,
       price_output := Some 10\<rparr>), cc_vision := Some True\<rparr>,
     (chat_card_of ''gpt-4o-2024-05-13'')\<lparr>cc_contextWindowTokens := Some 128000,
       cc_description := Some (tx 1250), cc_displayName := Some ''GPT-4o 0513'',
       cc_functionCall := Some True, cc_pricing := Some (no_pricing\<lparr>price_input := Some 5,
       price_output := Some 15\<rparr>), cc_vision := Some True\<rparr>,
     (chat_card_of ''chatgpt-4o-latest'')\<lparr>cc_contextWindowTokens := Some 128000,
       cc_description := Some (tx 1263), cc_displayName := Some ''ChatGPT-4o'',
       cc_enabled := Some True, cc_pricing := Some (no_pricing\<lparr>price_input := Some 5,
       price_output := Some 15\<rparr>), cc_vision := Some True\<rparr>,
     (chat_card_of ''gpt-4-turbo'')\<lparr>cc_contextWindowTokens := Some 128000,
       cc_description := Some (tx 1276), cc_displayName := Some ''GPT-4 Turbo'',
       cc_functionCall := Some True, cc_pricing := Some (no_pricing\<lparr>price_input := Some 10,
       price_output := Some 30\<rparr>), cc_vision := Some True\<rparr>,
     (chat_card_of ''gpt-4-turbo-2024-04-09'')\<lparr>cc_contextWindowTokens := Some 128000,
       cc_description := Some (tx 1289), cc_displayName := Some ''GPT-4 Turbo Vision 0409'',
       cc_functionCall := Some True, cc_pricing := Some (no_pricing\<lparr>price_input := Some 10,
       price_output := Some 30\<rparr>), cc_vision := Some True\<rparr>,
     (chat_card_of ''gpt-4-turbo-preview'')\<lparr>cc_contextWindowTokens := Some 128000,
       cc_description := Some (tx 1302), cc_displayName := Some ''GPT-4 Turbo Preview'',
       cc_functionCall := Some True, cc_pricing := Some (no_pricing\<lparr>price_input := Some 10,
       price_output := Some 30\<rparr>)\<rparr>]"

definition higress_chatModels_10 :: "texts \<Rightarrow> chat_card list" where
  [card_tables]: "higress_chatModels_10 tx = [
     (chat_card_of ''gpt-4-0125-preview'')\<lparr>cc_contextWindowTokens := Some 128000,
       cc_description := Some (tx 1314), cc_displayName := Some ''GPT-4 Turbo Preview 0125'',
       cc_functionCall := Some True, cc_pricing := Some (no_pricing\<lparr>price_input := Some 10,
       price_output := Some 30\<rparr>)\<rparr>,
     (chat_card_of ''gpt-4-1106-preview'')\<lparr>cc_contextWindowTokens := Some 128000,
       cc_description := Some (tx 1326), cc_displayName := Some ''GPT-4 Turbo Preview 1106'',
       cc_functionCall := Some True, cc_pricing := Some (no_pricing\<lparr>price_input := Some 10,
       price_output := Some 30\<rparr>)\<rparr>,
     (chat_card_of ''gpt-4'')\<lparr>cc_contextWindowTokens := Some 8192,
       cc_description := Some (tx 1338), cc_displayName := Some ''GPT-4'',
       cc_functionCall := Some True, cc_pricing := Some (no_pricing\<lparr>price_input := Some 30,
       price_output := Some 60\<rparr>)\<rparr>,
     (chat_card_of ''gpt-4-0613'')\<lparr>cc_contextWindowTokens := Some 8192,
       cc_description := Some (tx 1350), cc_displayName := Some ''GPT-4 0613'',
       cc_functionCall := Some True, cc_pricing := Some (no_pricing\<lparr>price_input := Some 30,
       price_output := Some 60\<rparr>)\<rparr>,
     (chat_card_of ''gpt-4-32k'')\<lparr>cc_contextWindowTokens := Some 32768,
       cc_description := Some (tx 1362), cc_displayName := Some ''GPT-4 32K'',
       cc_functionCall := Some True, cc_pricing := Some (no_pricing\<lparr>price_input := Some 60,
       price_output := Some 120\<rparr>)\<rparr>,
     (chat_card_of ''gpt-4-32k-0613'')\<lparr>cc_contextWindowTokens := Some 32768,
       cc_description := Some (tx 1376), cc_displayName := Some ''GPT-4 32K 0613'',
       cc_functionCall := Some True, cc_pricing := Some (no_pricing\<lparr>price_input := Some 60,
       price_output := Some 120\<rparr>)\<rparr>,
     (chat_card_of ''gpt-3.5-turbo'')\<lparr>cc_contextWindowTokens := Some 16385,
       cc_description := Some (tx 1388), cc_displayName := Some ''GPT-3.5 Turbo'',
       cc_functionCall := Some True, cc_pricing := Some (no_pricing\<lparr>price_input := Some 0.5,
       price_output := Some 1.5\<rparr>)\<rparr>,
     (chat_card_of ''gpt-3.5-turbo-0125'')\<lparr>cc_contextWindowTokens := Some 16385,
       cc_description := Some (tx 1400), cc_displayName := Some ''GPT-3.5 Turbo 0125'',
       cc_functionCall := Some True, cc_pricing := Some (no_pricing\<lparr>price_input := Some 0.5,
       price_output := Some 1.5\<rparr>)\<rparr>,
     (chat_card_of ''gpt-3.5-turbo-1106'')\<lparr>cc_contextWindowTokens := Some 16385,
       cc_description := Some (tx 1412), cc_displayName := Some ''GPT-3.5 Turbo 1106'',
       cc_functionCall := Some True, cc_pricing := Some (no_pricing\<lparr>price_input := Some 1,
       price_output := Some 2\<rparr>)\<rparr>,
     (chat_card_of ''gpt-3.5-turbo-instruct'')\<lparr>cc_contextWindowTokens := Some 4096,
       cc_description := Some (tx 1424), cc_displayName := Some ''GPT-3.5 Turbo Instruct'',
       cc_pricing := Some (no_pricing\<lparr>price_input := Some 1.5, price_output := Some 2\<rparr>)\<rparr>,
     (chat_card_of ''gpt-35-turbo'')\<lparr>cc_contextWindowTokens := Some 16385,
       cc_deploymentName := Some ''gpt-35-turbo'', cc_description := Some (tx 1437),
       cc_displayName := Some ''GPT 3.5 Turbo'', cc_enabled := Some True,
       cc_functionCall := Some True, cc_maxOutput := Some 4096\<rparr>,
     (chat_card_of ''gpt-35-turbo-16k'')\<lparr>cc_contextWindowTokens := Some 16384,
       cc_deploymentName := Some ''gpt-35-turbo-16k'', cc_description := Some (tx 1447),
       cc_displayName := Some ''GPT 3.5 Turbo'', cc_functionCall := Some True\<rparr>]"

definition higress_chatModels_11 :: "texts \<Rightarrow> chat_card list" where
  [card_tables]: "higress_chatModels_11 tx = [
     (chat_card_of ''gpt-4'')\<lparr>cc_contextWindowTokens := Some 128000,
       cc_deploymentName := Some ''gpt-4-turbo'', cc_description := Some (tx 1455),
       cc_displayName := Some ''GPT 4 Turbo'', cc_enabled := Some True,
       cc_functionCall := Some True, cc_vision := Some True\<rparr>,
     (chat_card_of ''gpt-4-vision-preview'')\<lparr>cc_contextWindowTokens := Some 128000,
       cc_deploymentName := Some ''gpt-4-vision'', cc_description := Some (tx 1465),
       cc_displayName := Some ''GPT 4 Turbo with Vision Preview'', cc_vision := Some True\<rparr>,
     (chat_card_of ''gpt-4o-mini'')\<lparr>cc_contextWindowTokens := Some 128000,
       cc_deploymentName := Some ''gpt-4o-mini'', cc_description := Some (tx 1473),
       cc_displayName := Some ''GPT 4o Mini'', cc_enabled := Some True,
       cc_functionCall := Some True, cc_vision := Some True\<rparr>,
     (chat_card_of ''gpt-4o'')\<lparr>cc_contextWindowTokens := Some 128000,
       cc_deploymentName := Some ''gpt-4o'', cc_description := Some (tx 1483),
       cc_displayName := Some ''GPT 4o'', cc_enabled := Some True, cc_functionCall := Some True,
       cc_vision := Some True\<rparr>,
     (chat_card_of ''o1-mini'')\<lparr>cc_contextWindowTokens := Some 128000,
       cc_description := Some (tx 1493), cc_displayName := Some ''OpenAI o1-mini'',
       cc_enabled := Some True, cc_functionCall := Some False, cc_maxOutput := Some 65536,
       cc_vision := Some True\<rparr>,
     (chat_card_of ''o1-preview'')\<lparr>cc_contextWindowTokens := Some 128000,
       cc_description := Some (tx 1504), cc_displayName := Some ''OpenAI o1-preview'',
       cc_enabled := Some True, cc_functionCall := Some False, cc_maxOutput := Some 32768,
       cc_vision := Some True\<rparr>,
     (chat_card_of ''gpt-4o-mini'')\<lparr>cc_contextWindowTokens := Some 128000,
       cc_description := Some (tx 1514), cc_displayName := Some ''OpenAI GPT-4o mini'',
       cc_enabled := Some True, cc_functionCall := Some True, cc_maxOutput := Some 4096,
       cc_vision := Some True\<rparr>,
     (chat_card_of ''gpt-4o'')\<lparr>cc_contextWindowTokens := Some 128000,
       cc_description := Some (tx 1524), cc_displayName := Some ''OpenAI GPT-4o'',
       cc_enabled := Some True, cc_functionCall := Some True, cc_maxOutput := Some 4096,
       cc_vision := Some True\<rparr>,
     (chat_card_of ''ai21-jamba-1.5-mini'')\<lparr>cc_contextWindowTokens := Some 262144,
       cc_description := Some (tx 1535), cc_displayName := Some ''AI21 Jamba 1.5 Mini'',
       cc_functionCall := Some True, cc_maxOutput := Some 4096\<rparr>,
     (chat_card_of ''ai21-jamba-1.5-large'')\<lparr>cc_contextWindowTokens := Some 262144,
       cc_description := Some (tx 1544), cc_displayName := Some ''AI21 Jamba 1.5 Large'',
       cc_functionCall := Some True, cc_maxOutput := Some 4096\<rparr>,
     (chat_card_of ''cohere-command-r'')\<lparr>cc_contextWindowTokens := Some 131072,
       cc_description := Some (tx 1553), cc_displayName := Some ''Cohere Command R'',
       cc_maxOutput := Some 4096\<rparr>,
     (chat_card_of ''cohere-command-r-plus'')\<lparr>cc_contextWindowTokens := Some 131072,
       cc_description := Some (tx 1560), cc_displayName := Some ''Cohere Command R+'',
       cc_maxOutput := Some 4096\<rparr>,
     (chat_card_of ''mistral-nemo'')\<lparr>cc_contextWindowTokens := Some 131072,
       cc_description := Some (tx 1568), cc_displayName := Some ''Mistral Nemo'',
       cc_maxOutput := Some 4096\<rparr>,
     (chat_card_of ''mistral-small'')\<lparr>cc_contextWindowTokens := Some 131072,
       cc_description := Some (tx 1575), cc_displayName := Some ''Mistral Small'',
       cc_maxOutput := Some 4096\<rparr>,
     (chat_card_of ''mistral-large'')\<lparr>cc_contextWindowTokens := Some 131072,
       cc_description := Some (tx 1583), cc_displayName := Some ''Mistral Large'',
       cc_maxOutput := Some 4096\<rparr>,
     (chat_card_of ''llama-3.2-11b-vision-instruct'')\<lparr>cc_contextWindowTokens := Some 131072,
       cc_description := Some (tx 1590), cc_displayName := Some ''Llama 3.2 11B Vision'',
       cc_maxOutput := Some 4096, cc_vision := Some True\<rparr>]"

definition higress_chatModels_12 :: "texts \<Rightarrow> chat_card list" where
  [card_tables]: "higress_chatModels_12 tx = [
     (chat_card_of ''llama-3.2-90b-vision-instruct'')\<lparr>cc_contextWindowTokens := Some 131072,
       cc_description := Some (tx 1598), cc_displayName := Some ''Llama 3.2 90B Vision'',
       cc_maxOutput := Some 4096, cc_vision := Some True\<rparr>,
     (chat_card_of ''meta-llama-3.1-8b-instruct'')\<lparr>cc_contextWindowTokens := Some 131072,
       cc_description := Some (tx 1607), cc_displayName := Some ''Meta Llama 3.1 8B'',
       cc_maxOutput := Some 4096\<rparr>,
     (chat_card_of ''meta-llama-3.1-70b-instruct'')\<lparr>cc_contextWindowTokens := Some 131072,
       cc_description := Some (tx 1615), cc_displayName := Some ''Meta Llama 3.1 70B'',
       cc_maxOutput := Some 4096\<rparr>,
     (chat_card_of ''meta-llama-3.1-405b-instruct'')\<lparr>cc_contextWindowTokens := Some 131072,
       cc_description := Some (tx 1623), cc_displayName := Some ''Meta Llama 3.1 405B'',
       cc_maxOutput := Some 4096\<rparr>,
     (chat_card_of ''meta-llama-3-8b-instruct'')\<lparr>cc_contextWindowTokens := Some 8192,
       cc_description := Some (tx 1630), cc_displayName := Some ''Meta Llama 3 8B'',
       cc_maxOutput := Some 4096\<rparr>,
     (chat_card_of ''meta-llama-3-70b-instruct'')\<lparr>cc_contextWindowTokens := Some 8192,
       cc_description := Some (tx 1637), cc_displayName := Some ''Meta Llama 3 70B'',
       cc_maxOutput := Some 4096\<rparr>,
     (chat_card_of ''Phi-3.5-mini-instruct'')\<lparr>cc_contextWindowTokens := Some 131072,
       cc_description := Some (tx 1644), cc_displayName := Some ''Phi-3.5-mini 128K'',
       cc_maxOutput := Some 4096\<rparr>,
     (chat_card_of ''Phi-3.5-vision-instrust'')\<lparr>cc_contextWindowTokens := Some 131072,
       cc_description := Some (tx 1651), cc_displayName := Some ''Phi-3.5-vision 128K'',
       cc_maxOutput := Some 4096, cc_vision := Some True\<rparr>,
     (chat_card_of ''Phi-3-mini-4k-instruct'')\<lparr>cc_contextWindowTokens := Some 4096,
       cc_description := Some (tx 1659), cc_displayName := Some ''Phi-3-mini 4K'',
       cc_maxOutput := Some 4096\<rparr>,
     (chat_card_of ''Phi-3-mini-128k-instruct'')\<lparr>cc_contextWindowTokens := Some 131072,
       cc_description := Some (tx 1666), cc_displayName := Some ''Phi-3-mini 128K'',
       cc_maxOutput := Some 4096\<rparr>,
     (chat_card_of ''Phi-3-small-8k-instruct'')\<lparr>cc_contextWindowTokens := Some 8192,
       cc_description := Some (tx 1673), cc_displayName := Some ''Phi-3-small 8K'',
       cc_maxOutput := Some 4096\<rparr>,
     (chat_card_of ''Phi-3-small-128k-instruct'')\<lparr>cc_contextWindowTokens := Some 131072,
       cc_description := Some (tx 1680), cc_displayName := Some ''Phi-3-small 128K'',
       cc_maxOutput := Some 4096\<rparr>,
     (chat_card_of ''Phi-3-medium-4k-instruct'')\<lparr>cc_contextWindowTokens := Some 4096,
       cc_description := Some (tx 1687), cc_displayName := Some ''Phi-3-medium 4K'',
       cc_maxOutput := Some 4096\<rparr>,
     (chat_card_of ''Phi-3-medium-128k-instruct'')\<lparr>cc_contextWindowTokens := Some 131072,
       cc_description := Some (tx 1694), cc_displayName := Some ''Phi-3-medium 128K'',
       cc_maxOutput := Some 4096\<rparr>,
     (chat_card_of ''llama-3.2-11b-vision-preview'')\<lparr>cc_contextWindowTokens := Some 8192,
       cc_description := Some (tx 1704), cc_displayName := Some ''Llama 3.2 11B Vision (Preview)'',
       cc_enabled := Some True, cc_maxOutput := Some 8192,
       cc_pricing := Some (no_pricing\<lparr>price_input := Some 0.05, price_output := Some 0.08\<rparr>),
       cc_vision := Some True\<rparr>,
     (chat_card_of ''llama-3.2-90b-vision-preview'')\<lparr>cc_contextWindowTokens := Some 8192,
       cc_description := Some (tx 1718), cc_displayName := Some ''Llama 3.2 90B Vision (Preview)'',
       cc_enabled := Some True, cc_maxOutput := Some 8192,
       cc_pricing := Some (no_pricing\<lparr>price_input := Some 0.59, price_output := Some 0.79\<rparr>),
       cc_vision := Some True\<rparr>,
     (chat_card_of ''llama-3.1-8b-instant'')\<lparr>cc_contextWindowTokens := Some 131072,
       cc_description := Some (tx 1732), cc_displayName := Some ''Llama 3.1 8B'',
       cc_enabled := Some True, cc_functionCall := Some True, cc_maxOutput := Some 8192,
       cc_pricing := Some (no_pricing\<lparr>price_input := Some 0.05, price_output := Some 0.08\<rparr>)\<rparr>]"

definition higress_chatModels_13 :: "texts \<Rightarrow> chat_card list" where
  [card_tables]: "higress_chatModels_13 tx = [
     (chat_card_of ''llama-3.1-70b-versatile'')\<lparr>cc_contextWindowTokens := Some 131072,
       cc_description := Some (tx 1746), cc_displayName := Some ''Llama 3.1 70B'',
       cc_enabled := Some True, cc_functionCall := Some True, cc_maxOutput := Some 8192,
       cc_pricing := Some (no_pricing\<lparr>price_input := Some 0.59, price_output := Some 0.79\<rparr>)\<rparr>,
     (chat_card_of ''llama3-groq-8b-8192-tool-use-preview'')\<lparr>cc_contextWindowTokens := Some 8192,
       cc_description := Some (tx 1768),
       cc_displayName := Some ''Llama 3 Groq 8B Tool Use (Preview)'', cc_functionCall := Some True,
       cc_pricing := Some (no_pricing\<lparr>price_input := Some 0.19, price_output := Some 0.19\<rparr>)\<rparr>,
     (chat_card_of ''llama3-groq-70b-8192-tool-use-preview'')\<lparr>cc_contextWindowTokens := Some 8192,
       cc_description := Some (tx 1779),
       cc_displayName := Some ''Llama 3 Groq 70B Tool Use (Preview)'', cc_functionCall := Some True,
       cc_pricing := Some (no_pricing\<lparr>price_input := Some 0.89, price_output := Some 0.89\<rparr>)\<rparr>,
     (chat_card_of ''llama3-8b-8192'')\<lparr>cc_contextWindowTokens := Some 8192,
       cc_description := Some (tx 1790), cc_displayName := Some ''Meta Llama 3 8B'',
       cc_functionCall := Some True, cc_pricing := Some (no_pricing\<lparr>price_input := Some 0.05,
       price_output := Some 0.08\<rparr>)\<rparr>,
     (chat_card_of ''llama3-70b-8192'')\<lparr>cc_contextWindowTokens := Some 8192,
       cc_description := Some (tx 1801), cc_displayName := Some ''Meta Llama 3 70B'',
       cc_functionCall := Some True, cc_pricing := Some (no_pricing\<lparr>price_input := Some 0.59,
       price_output := Some 0.79\<rparr>)\<rparr>,
     (chat_card_of ''gemma2-9b-it'')\<lparr>cc_contextWindowTokens := Some 8192,
       cc_description := Some (tx 1812), cc_displayName := Some ''Gemma 2 9B'',
       cc_enabled := Some True, cc_functionCall := Some True,
       cc_pricing := Some (no_pricing\<lparr>price_input := Some 0.2, price_output := Some 0.2\<rparr>)\<rparr>,
     (chat_card_of ''gemma-7b-it'')\<lparr>cc_contextWindowTokens := Some 8192,
       cc_description := Some (tx 1824), cc_displayName := Some ''Gemma 7B'',
       cc_functionCall := Some True, cc_pricing := Some (no_pricing\<lparr>price_input := Some 0.07,
       price_output := Some 0.07\<rparr>)\<rparr>,
     (chat_card_of ''mixtral-8x7b-32768'')\<lparr>cc_contextWindowTokens := Some 32768,
       cc_description := Some (tx 1835), cc_displayName := Some ''Mixtral 8x7B'',
       cc_functionCall := Some True, cc_pricing := Some (no_pricing\<lparr>price_input := Some 0.24,
       price_output := Some 0.24\<rparr>)\<rparr>,
     (chat_card_of ''llava-v1.5-7b-4096-preview'')\<lparr>cc_contextWindowTokens := Some 4096,
       cc_description := Some (tx 1846), cc_displayName := Some ''LLaVA 1.5 7B'',
       cc_vision := Some True\<rparr>,
     (chat_card_of ''deepseek-chat'')\<lparr>cc_contextWindowTokens := Some 128000,
       cc_description := Some (tx 1855), cc_displayName := Some ''DeepSeek V2.5'',
       cc_enabled := Some True, cc_functionCall := Some True,
       cc_pricing := Some (no_pricing\<lparr>price_cachedInput := Some 0.014, price_input := Some 0.14,
       price_output := Some 0.28\<rparr>), cc_releasedAt := Some ''2024-09-05''\<rparr>,
     (chat_card_of ''claude-3-5-haiku-20241022'')\<lparr>cc_contextWindowTokens := Some 200000,
       cc_description := Some (tx 1871), cc_displayName := Some ''Claude 3.5 Haiku'',
       cc_enabled := Some True, cc_functionCall := Some True, cc_maxOutput := Some 8192,
       cc_pricing := Some (no_pricing\<lparr>price_cachedInput := Some 0.1, price_input := Some 1,
       price_output := Some 5, price_writeCacheInput := Some 1.25\<rparr>),
       cc_releasedAt := Some ''2024-11-05''\<rparr>]"

definition higress_chatModels_14 :: "texts \<Rightarrow> chat_card list" where
  [card_tables]: "higress_chatModels_14 tx = [
     (chat_card_of ''claude-3-5-sonnet-20241022'')\<lparr>cc_contextWindowTokens := Some 200000,
       cc_description := Some (tx 1888), cc_displayName := Some ''Claude 3.5 Sonnet'',
       cc_enabled := Some True, cc_functionCall := Some True, cc_maxOutput := Some 8192,
       cc_pricing := Some (no_pricing\<lparr>price_cachedInput := Some 0.3, price_input := Some 3,
       price_output := Some 15, price_writeCacheInput := Some 3.75\<rparr>),
       cc_releasedAt := Some ''2024-10-22'', cc_vision := Some True\<rparr>,
     (chat_card_of ''claude-3-5-sonnet-20240620'')\<lparr>cc_contextWindowTokens := Some 200000,
       cc_description := Some (tx 1906), cc_displayName := Some ''Claude 3.5 Sonnet 0620'',
       cc_functionCall := Some True, cc_maxOutput := Some 8192,
       cc_pricing := Some (no_pricing\<lparr>price_cachedInput := Some 0.3, price_input := Some 3,
       price_output := Some 15, price_writeCacheInput := Some 3.75\<rparr>),
       cc_releasedAt := Some ''2024-06-20'', cc_vision := Some True\<rparr>,
     (chat_card_of ''claude-3-haiku-20240307'')\<lparr>cc_contextWindowTokens := Some 200000,
       cc_description := Some (tx 1923), cc_displayName := Some ''Claude 3 Haiku'',
       cc_functionCall := Some True, cc_maxOutput := Some 4096,
       cc_pricing := Some (no_pricing\<lparr>price_input := Some 0.25, price_output := Some 1.25\<rparr>),
       cc_releasedAt := Some ''2024-03-07'', cc_vision := Some True\<rparr>,
     (chat_card_of ''claude-3-sonnet-20240229'')\<lparr>cc_contextWindowTokens := Some 200000,
       cc_description := Some (tx 1938), cc_displayName := Some ''Claude 3 Sonnet'',
       cc_functionCall := Some True, cc_maxOutput := Some 4096,
       cc_pricing := Some (no_pricing\<lparr>price_input := Some 3, price_output := Some 15\<rparr>),
       cc_releasedAt := Some ''2024-02-29'', cc_vision := Some True\<rparr>,
     (chat_card_of ''claude-3-opus-20240229'')\<lparr>cc_contextWindowTokens := Some 200000,
       cc_description := Some (tx 1953), cc_displayName := Some ''Claude 3 Opus'',
       cc_enabled := Some True, cc_functionCall := Some True, cc_maxOutput := Some 4096,
       cc_pricing := Some (no_pricing\<lparr>price_input := Some 15, price_output := Some 75\<rparr>),
       cc_releasedAt := Some ''2024-02-29'', cc_vision := Some True\<rparr>,
     (chat_card_of ''claude-2.1'')\<lparr>cc_contextWindowTokens := Some 200000,
       cc_description := Some (tx 1969), cc_displayName := Some ''Claude 2.1'',
       cc_maxOutput := Some 4096, cc_pricing := Some (no_pricing\<lparr>price_input := Some 8,
       price_output := Some 24\<rparr>), cc_releasedAt := Some ''2023-11-21''\<rparr>,
     (chat_card_of ''claude-2.0'')\<lparr>cc_contextWindowTokens := Some 100000,
       cc_description := Some (tx 1982), cc_displayName := Some ''Claude 2.0'',
       cc_maxOutput := Some 4096, cc_pricing := Some (no_pricing\<lparr>price_input := Some 8,
       price_output := Some 24\<rparr>), cc_releasedAt := Some ''2023-07-11''\<rparr>,
     (chat_card_of ''gemini-1.5-flash-latest'')\<lparr>cc_contextWindowTokens := Some (1000000 + 8192),
       cc_description := Some (tx 1996), cc_displayName := Some ''Gemini 1.5 Flash'',
       cc_enabled := Some True, cc_functionCall := Some True, cc_maxOutput := Some 8192,
       cc_pricing := Some (no_pricing\<lparr>price_cachedInput := Some 0.01875, price_input := Some 0.075,
       price_output := Some 0.3\<rparr>), cc_vision := Some True\<rparr>,
     (chat_card_of ''gemini-1.5-flash-002'')\<lparr>cc_contextWindowTokens := Some (1000000 + 8192),
       cc_description := Some (tx 2011), cc_displayName := Some ''Gemini 1.5 Flash 002'',
       cc_enabled := Some True, cc_functionCall := Some True, cc_maxOutput := Some 8192,
       cc_pricing := Some (no_pricing\<lparr>price_cachedInput := Some 0.01875, price_input := Some 0.075,
       price_output := Some 0.3\<rparr>), cc_releasedAt := Some ''2024-09-25'', cc_vision := Some True\<rparr>]"

definition higress_chatModels_15 :: "texts \<Rightarrow> chat_card list" where
  [card_tables]: "higress_chatModels_15 tx = [
     (chat_card_of ''gemini-1.5-flash-001'')\<lparr>cc_contextWindowTokens := Some (1000000 + 8192),
       cc_description := Some (tx 2027), cc_displayName := Some ''Gemini 1.5 Flash 001'',
       cc_functionCall := Some True, cc_maxOutput := Some 8192,
       cc_pricing := Some (no_pricing\<lparr>price_cachedInput := Some 0.01875, price_input := Some 0.075,
       price_output := Some 0.3\<rparr>), cc_vision := Some True\<rparr>,
     (chat_card_of ''gemini-1.5-flash-exp-0827'')\<lparr>cc_contextWindowTokens := Some (1000000 + 8192),
       cc_description := Some (tx 2041), cc_displayName := Some ''Gemini 1.5 Flash 0827'',
       cc_functionCall := Some True, cc_maxOutput := Some 8192,
       cc_pricing := Some (no_pricing\<lparr>price_cachedInput := Some 0.01875, price_input := Some 0.075,
       price_output := Some 0.3\<rparr>), cc_releasedAt := Some ''2024-08-27'', cc_vision := Some True\<rparr>,
     (chat_card_of ''gemini-1.5-flash-8b'')\<lparr>cc_contextWindowTokens := Some (1000000 + 8192),
       cc_description := Some (tx 2056), cc_displayName := Some ''Gemini 1.5 Flash 8B'',
       cc_enabled := Some True, cc_functionCall := Some True, cc_maxOutput := Some 8192,
       cc_pricing := Some (no_pricing\<lparr>price_cachedInput := Some 0.02, price_input := Some 0.075,
       price_output := Some 0.3\<rparr>), cc_releasedAt := Some ''2024-10-03'', cc_vision := Some True\<rparr>,
     (chat_card_of ''gemini-1.5-flash-8b-exp-0924'')\<lparr>cc_contextWindowTokens := Some (1000000 + 8192),
       cc_description := Some (tx 2073), cc_displayName := Some ''Gemini 1.5 Flash 8B 0924'',
       cc_functionCall := Some True, cc_maxOutput := Some 8192,
       cc_pricing := Some (no_pricing\<lparr>price_cachedInput := Some 0.01875, price_input := Some 0.075,
       price_output := Some 0.3\<rparr>), cc_releasedAt := Some ''2024-09-24'', cc_vision := Some True\<rparr>,
     (chat_card_of ''gemini-1.5-pro-latest'')\<lparr>cc_contextWindowTokens := Some (2000000 + 8192),
       cc_description := Some (tx 2089), cc_displayName := Some ''Gemini 1.5 Pro'',
       cc_enabled := Some True, cc_functionCall := Some True, cc_maxOutput := Some 8192,
       cc_pricing := Some (no_pricing\<lparr>price_cachedInput := Some 0.875, price_input := Some 3.5,
       price_output := Some 10.5\<rparr>), cc_releasedAt := Some ''2024-02-15'', cc_vision := Some True\<rparr>,
     (chat_card_of ''gemini-1.5-pro-002'')\<lparr>cc_contextWindowTokens := Some (2000000 + 8192),
       cc_description := Some (tx 2106), cc_displayName := Some ''Gemini 1.5 Pro 002'',
       cc_enabled := Some True, cc_functionCall := Some True, cc_maxOutput := Some 8192,
       cc_pricing := Some (no_pricing\<lparr>price_cachedInput := Some 0.315, price_input := Some 1.25,
       price_output := Some 2.5\<rparr>), cc_releasedAt := Some ''2024-09-24'', cc_vision := Some True\<rparr>,
     (chat_card_of ''gemini-1.5-pro-001'')\<lparr>cc_contextWindowTokens := Some (2000000 + 8192),
       cc_description := Some (tx 2122), cc_displayName := Some ''Gemini 1.5 Pro 001'',
       cc_functionCall := Some True, cc_maxOutput := Some 8192,
       cc_pricing := Some (no_pricing\<lparr>price_cachedInput := Some 0.875, price_input := Some 3.5,
       price_output := Some 10.5\<rparr>), cc_releasedAt := Some ''2024-02-15'', cc_vision := Some True\<rparr>,
     (chat_card_of ''gemini-1.5-pro-exp-0827'')\<lparr>cc_contextWindowTokens := Some (2000000 + 8192),
       cc_description := Some (tx 2137), cc_displayName := Some ''Gemini 1.5 Pro 0827'',
       cc_functionCall := Some True, cc_maxOutput := Some 8192,
       cc_pricing := Some (no_pricing\<lparr>price_cachedInput := Some 0.875, price_input := Some 3.5,
       price_output := Some 10.5\<rparr>), cc_releasedAt := Some ''2024-08-27'', cc_vision := Some True\<rparr>,
     (chat_card_of ''gemini-1.5-pro-exp-0801'')\<lparr>cc_contextWindowTokens := Some (2000000 + 8192),
       cc_description := Some (tx 2152), cc_displayName := Some ''Gemini 1.5 Pro 0801'',
       cc_functionCall := Some True, cc_maxOutput := Some 8192,
       cc_pricing := Some (no_pricing\<lparr>price_cachedInput := Some 0.875, price_input := Some 3.5,
       price_output := Some 10.5\<rparr>), cc_releasedAt := Some ''2024-08-01'', cc_vision := Some True\<rparr>]"

definition higress_chatModels_16 :: "texts \<Rightarrow> chat_card list" where
  [card_tables]: "higress_chatModels_16 tx = [
     (chat_card_of ''gemini-1.0-pro-latest'')\<lparr>cc_contextWindowTokens := Some (30720 + 2048),
       cc_description := Some (tx 2167), cc_displayName := Some ''Gemini 1.0 Pro'',
       cc_maxOutput := Some 2048, cc_pricing := Some (no_pricing\<lparr>price_input := Some 0.5,
       price_output := Some 1.5\<rparr>), cc_releasedAt := Some ''2023-12-06''\<rparr>,
     (chat_card_of ''gemini-1.0-pro-001'')\<lparr>cc_contextWindowTokens := Some (30720 + 2048),
       cc_description := Some (tx 2180), cc_displayName := Some ''Gemini 1.0 Pro 001 (Tuning)'',
       cc_functionCall := Some True, cc_maxOutput := Some 2048,
       cc_pricing := Some (no_pricing\<lparr>price_input := Some 0.5, price_output := Some 1.5\<rparr>),
       cc_releasedAt := Some ''2023-12-06''\<rparr>,
     (chat_card_of ''gemini-1.0-pro-002'')\<lparr>cc_contextWindowTokens := Some (30720 + 2048),
       cc_description := Some (tx 2193), cc_displayName := Some ''Gemini 1.0 Pro 002 (Tuning)'',
       cc_maxOutput := Some 2048, cc_pricing := Some (no_pricing\<lparr>price_input := Some 0.5,
       price_output := Some 1.5\<rparr>), cc_releasedAt := Some ''2023-12-06''\<rparr>,
     (chat_card_of ''open-mistral-nemo'')\<lparr>cc_contextWindowTokens := Some 128000,
       cc_description := Some (tx 2208), cc_displayName := Some ''Mistral Nemo'',
       cc_enabled := Some True, cc_functionCall := Some True,
       cc_pricing := Some (no_pricing\<lparr>price_input := Some 0.15, price_output := Some 0.15\<rparr>)\<rparr>,
     (chat_card_of ''mistral-small-latest'')\<lparr>cc_contextWindowTokens := Some 128000,
       cc_description := Some (tx 2221), cc_displayName := Some ''Mistral Small'',
       cc_enabled := Some True, cc_functionCall := Some True,
       cc_pricing := Some (no_pricing\<lparr>price_input := Some 0.2, price_output := Some 0.6\<rparr>)\<rparr>,
     (chat_card_of ''mistral-large-latest'')\<lparr>cc_contextWindowTokens := Some 128000,
       cc_description := Some (tx 2234), cc_displayName := Some ''Mistral Large'',
       cc_enabled := Some True, cc_functionCall := Some True,
       cc_pricing := Some (no_pricing\<lparr>price_input := Some 2, price_output := Some 6\<rparr>)\<rparr>,
     (chat_card_of ''codestral-latest'')\<lparr>cc_contextWindowTokens := Some 32768,
       cc_description := Some (tx 2246), cc_displayName := Some ''Codestral'',
       cc_pricing := Some (no_pricing\<lparr>price_input := Some 0.2, price_output := Some 0.6\<rparr>)\<rparr>,
     (chat_card_of ''pixtral-12b-2409'')\<lparr>cc_contextWindowTokens := Some 128000,
       cc_description := Some (tx 2257), cc_displayName := Some ''Pixtral 12B'',
       cc_enabled := Some True, cc_pricing := Some (no_pricing\<lparr>price_input := Some 0.15,
       price_output := Some 0.15\<rparr>), cc_vision := Some True\<rparr>,
     (chat_card_of ''ministral-3b-latest'')\<lparr>cc_contextWindowTokens := Some 128000,
       cc_description := Some (tx 2269), cc_displayName := Some ''Ministral 3B'',
       cc_pricing := Some (no_pricing\<lparr>price_input := Some 0.04, price_output := Some 0.04\<rparr>)\<rparr>,
     (chat_card_of ''ministral-8b-latest'')\<lparr>cc_contextWindowTokens := Some 128000,
       cc_description := Some (tx 2279), cc_displayName := Some ''Ministral 8B'',
       cc_pricing := Some (no_pricing\<lparr>price_input := Some 0.1, price_output := Some 0.1\<rparr>)\<rparr>,
     (chat_card_of ''open-mistral-7b'')\<lparr>cc_contextWindowTokens := Some 32768,
       cc_description := Some (tx 2290), cc_displayName := Some ''Mistral 7B'',
       cc_pricing := Some (no_pricing\<lparr>price_input := Some 0.25, price_output := Some 0.25\<rparr>)\<rparr>,
     (chat_card_of ''open-mixtral-8x7b'')\<lparr>cc_contextWindowTokens := Some 32768,
       cc_description := Some (tx 2301), cc_displayName := Some ''Mixtral 8x7B'',
       cc_pricing := Some (no_pricing\<lparr>price_input := Some 0.7, price_output := Some 0.7\<rparr>)\<rparr>]"

definition higress_chatModels_17 :: "texts \<Rightarrow> chat_card list" where
  [card_tables]: "higress_chatModels_17 tx = [
     (chat_card_of ''open-mixtral-8x22b'')\<lparr>cc_contextWindowTokens := Some 65536,
       cc_description := Some (tx 2312), cc_displayName := Some ''Mixtral 8x22B'',
       cc_functionCall := Some True, cc_pricing := Some (no_pricing\<lparr>price_input := Some 2,
       price_output := Some 6\<rparr>)\<rparr>,
     (chat_card_of ''open-codestral-mamba'')\<lparr>cc_contextWindowTokens := Some 256000,
       cc_description := Some (tx 2324), cc_displayName := Some ''Codestral Mamba'',
       cc_pricing := Some (no_pricing\<lparr>price_input := Some 0.15, price_output := Some 0.15\<rparr>)\<rparr>,
     (chat_card_of ''abab6.5s-chat'')\<lparr>cc_contextWindowTokens := Some 245760,
       cc_description := Some (tx 2335), cc_displayName := Some ''abab6.5s'',
       cc_enabled := Some True, cc_functionCall := Some True\<rparr>,
     (chat_card_of ''abab6.5g-chat'')\<lparr>cc_contextWindowTokens := Some 8192,
       cc_description := Some (tx 2343), cc_displayName := Some ''abab6.5g'',
       cc_enabled := Some True, cc_functionCall := Some True\<rparr>,
     (chat_card_of ''abab6.5t-chat'')\<lparr>cc_contextWindowTokens := Some 8192,
       cc_description := Some (tx 2351), cc_displayName := Some ''abab6.5t'',
       cc_enabled := Some True, cc_functionCall := Some True\<rparr>,
     (chat_card_of ''abab5.5-chat'')\<lparr>cc_contextWindowTokens := Some 16384,
       cc_description := Some (tx 2359), cc_displayName := Some ''abab5.5''\<rparr>,
     (chat_card_of ''abab5.5s-chat'')\<lparr>cc_contextWindowTokens := Some 8192,
       cc_description := Some (tx 2365), cc_displayName := Some ''abab5.5s''\<rparr>,
     (chat_card_of ''command-r'')\<lparr>cc_description := Some '''',
       cc_displayName := Some ''command-r''\<rparr>,
     (chat_card_of ''command-r-plus'')\<lparr>cc_description := Some '''',
       cc_displayName := Some ''command-r-plus''\<rparr>,
     (chat_card_of ''command-light'')\<lparr>cc_description := Some '''',
       cc_displayName := Some ''command-light''\<rparr>,
     (chat_card_of ''Doubao-lite-4k'')\<lparr>cc_description := Some (tx 2391),
       cc_displayName := Some ''Doubao-lite-4k''\<rparr>,
     (chat_card_of ''Doubao-lite-32k'')\<lparr>cc_description := Some (tx 2398),
       cc_displayName := Some ''Doubao-lite-32k''\<rparr>,
     (chat_card_of ''Doubao-lite-128k'')\<lparr>cc_description := Some (tx 2405),
       cc_displayName := Some ''Doubao-lite-128k''\<rparr>,
     (chat_card_of ''Doubao-pro-4k'')\<lparr>cc_description := Some (tx 2412),
       cc_displayName := Some ''Doubao-pro-4k''\<rparr>,
     (chat_card_of ''Doubao-pro-32k'')\<lparr>cc_description := Some (tx 2419),
       cc_displayName := Some ''Doubao-pro-32k''\<rparr>,
     (chat_card_of ''Doubao-pro-128k'')\<lparr>cc_description := Some (tx 2426),
       cc_displayName := Some ''Doubao-pro-128k''\<rparr>,
     (chat_card_of ''Skylark2-pro-character-4k'')\<lparr>cc_description := Some (tx 2433),
       cc_displayName := Some ''Skylark2-pro-character-4k''\<rparr>,
     (chat_card_of ''Skylark2-pro-32k'')\<lparr>cc_description := Some (tx 2440),
       cc_displayName := Some ''Skylark2-pro-32k''\<rparr>,
     (chat_card_of ''Skylark2-pro-4k'')\<lparr>cc_description := Some (tx 2447),
       cc_displayName := Some ''Skylark2-pro-4k''\<rparr>,
     (chat_card_of ''Skylark2-pro-turbo-8k'')\<lparr>cc_description := Some (tx 2454),
       cc_displayName := Some ''Skylark2-pro-turbo-8k''\<rparr>]"

definition higress_chatModels_18 :: "texts \<Rightarrow> chat_card list" where
  [card_tables]: "higress_chatModels_18 tx = [
     (chat_card_of ''Skylark2-lite-8k'')\<lparr>cc_description := Some (tx 2461),
       cc_displayName := Some ''Skylark2-lite-8k''\<rparr>]"

definition higress_chatModels :: "texts \<Rightarrow> chat_card list" where
  [card_tables]: "higress_chatModels tx =
     higress_chatModels_1 tx @ higress_chatModels_2 tx @ higress_chatModels_3 tx @
     higress_chatModels_4 tx @ higress_chatModels_5 tx @ higress_chatModels_6 tx @
     higress_chatModels_7 tx @ higress_chatModels_8 tx @ higress_chatModels_9 tx @
     higress_chatModels_10 tx @ higress_chatModels_11 tx @ higress_chatModels_12 tx @
     higress_chatModels_13 tx @ higress_chatModels_14 tx @ higress_chatModels_15 tx @
     higress_chatModels_16 tx @ higress_chatModels_17 tx @ higress_chatModels_18 tx"

definition HigressProvider :: "texts \<Rightarrow> provider_card" where
  [provider_cards]: "HigressProvider tx =
     (provider_of ''higress'' ''Higress'' ''https://apig.console.aliyun.com/'' (higress_chatModels tx))\<lparr>pcd_checkModel := Some ''qwen-max'',
       pcd_description := Some (tx 2469),
       pcd_modelList := Some (no_model_list\<lparr>ml_showModelFetcher := Some True\<rparr>),
       pcd_modelsUrl := Some ''https://higress.cn/'',
       pcd_proxyUrl := Some (Proxy_hint (Some (tx 2475)) ''https://127.0.0.1:8080/v1'' (Some (tx 2477))),
       pcd_settings := plain_settings\<lparr>st_proxyUrl := Some (Proxy_hint (Some (tx 2481)) ''https://127.0.0.1:8080/v1'' (Some (tx 2483))),
       st_sdkType := Some ''openai'', st_showModelFetcher := Some True\<rparr>\<rparr>"

section \<open>huggingface\<close>

definition huggingface_chatModels :: "texts \<Rightarrow> chat_card list" where
  [card_tables]: "huggingface_chatModels tx = [
     (chat_card_of ''mistralai/Mistral-7B-Instruct-v0.3'')\<lparr>cc_contextWindowTokens := Some 32768,
       cc_description := Some (tx 7), cc_displayName := Some ''Mistral 7B Instruct v0.3''\<rparr>,
     (chat_card_of ''google/gemma-2-2b-it'')\<lparr>cc_contextWindowTokens := Some 8192,
       cc_description := Some (tx 13), cc_displayName := Some ''Gemma 2 2B Instruct''\<rparr>,
     (chat_card_of ''Qwen/Qwen2.5-72B-Instruct'')\<lparr>cc_contextWindowTokens := Some 32768,
       cc_description := Some (tx 19), cc_displayName := Some ''Qwen 2.5 72B Instruct''\<rparr>,
     (chat_card_of ''Qwen/Qwen2.5-Coder-32B-Instruct'')\<lparr>cc_contextWindowTokens := Some 32768,
       cc_description := Some (tx 25), cc_displayName := Some ''Qwen 2.5 Coder 32B Instruct''\<rparr>,
     (chat_card_of ''Qwen/QwQ-32B-Preview'')\<lparr>cc_contextWindowTokens := Some 32768,
       cc_description := Some (tx 31), cc_displayName := Some ''QwQ 32B Preview'',
       cc_enabled := Some True\<rparr>,
     (chat_card_of ''microsoft/Phi-3.5-mini-instruct'')\<lparr>cc_contextWindowTokens := Some 32768,
       cc_displayName := Some ''Phi 3.5 mini instruct''\<rparr>,
     (chat_card_of ''NousResearch/Hermes-3-Llama-3.1-8B'')\<lparr>cc_contextWindowTokens := Some 16384,
       cc_displayName := Some ''Hermes 3 Llama 3.1 8B''\<rparr>,
     (chat_card_of ''deepseek-ai/DeepSeek-R1-Distill-Qwen-32B'')\<lparr>cc_contextWindowTokens := Some 16384,
       cc_displayName := Some ''DeepSeek R1 (Distill Qwen 32B)''\<rparr>,
     (chat_card_of ''deepseek-ai/DeepSeek-R1'')\<lparr>cc_contextWindowTokens := Some 128000,
       cc_displayName := Some ''DeepSeek R1'', cc_enabled := Some True\<rparr>]"

definition HuggingFaceProvider :: "texts \<Rightarrow> provider_card" where
  [provider_cards]: "HuggingFaceProvider tx =
     (provider_of ''huggingface'' ''HuggingFace'' ''https://huggingface.co'' (huggingface_chatModels tx))\<lparr>pcd_checkModel := Some ''mistralai/Mistral-7B-Instruct-v0.2'',
       pcd_description := Some (tx 60), pcd_disableBrowserRequest := Some True,
       pcd_modelList := Some (no_model_list\<lparr>ml_showModelFetcher := Some True\<rparr>),
       pcd_modelsUrl := Some ''https://huggingface.co/docs/api-inference/en/supported-models'',
       pcd_settings := plain_settings\<lparr>st_disableBrowserRequest := Some True,
       st_sdkType := Some ''huggingface'', st_showModelFetcher := Some True\<rparr>\<rparr>"

section \<open>hunyuan\<close>

definition hunyuan_chatModels :: "texts \<Rightarrow> chat_card list" where
  [card_tables]: "hunyuan_chatModels tx = [
     (chat_card_of ''hunyuan-lite'')\<lparr>cc_contextWindowTokens := Some 256000,
       cc_description := Some (tx 9), cc_displayName := Some ''Hunyuan Lite'',
       cc_enabled := Some True, cc_maxOutput := Some 6000,
       cc_pricing := Some (no_pricing\<lparr>price_currency := Some CNY, price_input := Some 0,
       price_output := Some 0\<rparr>)\<rparr>,
     (chat_card_of ''hunyuan-standard'')\<lparr>cc_contextWindowTokens := Some 32000,
       cc_description := Some (tx 23), cc_displayName := Some ''Hunyuan Standard'',
       cc_enabled := Some True, cc_maxOutput := Some 2000,
       cc_pricing := Some (no_pricing\<lparr>price_currency := Some CNY, price_input := Some 4.5,
       price_output := Some 5\<rparr>)\<rparr>,
     (chat_card_of ''hunyuan-standard-256K'')\<lparr>cc_contextWindowTokens := Some 256000,
       cc_description := Some (tx 37), cc_displayName := Some ''Hunyuan Standard 256K'',
       cc_enabled := Some True, cc_maxOutput := Some 6000,
       cc_pricing := Some (no_pricing\<lparr>price_currency := Some CNY, price_input := Some 15,
       price_output := Some 60\<rparr>)\<rparr>,
     (chat_card_of ''hunyuan-turbo'')\<lparr>cc_contextWindowTokens := Some 32000,
       cc_description := Some (tx 51), cc_displayName := Some ''Hunyuan Turbo'',
       cc_enabled := Some True, cc_functionCall := Some True, cc_maxOutput := Some 4000,
       cc_pricing := Some (no_pricing\<lparr>price_currency := Some CNY, price_input := Some 15,
       price_output := Some 50\<rparr>)\<rparr>,
     (chat_card_of ''hunyuan-pro'')\<lparr>cc_contextWindowTokens := Some 32000,
       cc_description := Some (tx 66), cc_displayName := Some ''Hunyuan Pro'',
       cc_enabled := Some True, cc_functionCall := Some True, cc_maxOutput := Some 4000,
       cc_pricing := Some (no_pricing\<lparr>price_currency := Some CNY, price_input := Some 30,
       price_output := Some 100\<rparr>)\<rparr>,
     (chat_card_of ''hunyuan-vision'')\<lparr>cc_contextWindowTokens := Some 8000,
       cc_description := Some (tx 80), cc_displayName := Some ''Hunyuan Vision'',
       cc_enabled := Some True, cc_maxOutput := Some 4000,
       cc_pricing := Some (no_pricing\<lparr>price_currency := Some CNY, price_input := Some 18,
       price_output := Some 18\<rparr>), cc_vision := Some True\<rparr>,
     (chat_card_of ''hunyuan-code'')\<lparr>cc_contextWindowTokens := Some 8000,
       cc_description := Some (tx 95), cc_displayName := Some ''Hunyuan Code'',
       cc_maxOutput := Some 4000, cc_pricing := Some (no_pricing\<lparr>price_currency := Some CNY,
       price_input := Some 4, price_output := Some 8\<rparr>)\<rparr>,
     (chat_card_of ''hunyuan-functioncall'')\<lparr>cc_contextWindowTokens := Some 32000,
       cc_description := Some (tx 108), cc_displayName := Some ''Hunyuan FunctionCall'',
       cc_functionCall := Some True, cc_maxOutput := Some 4000,
       cc_pricing := Some (no_pricing\<lparr>price_currency := Some CNY, price_input := Some 4,
       price_output := Some 8\<rparr>)\<rparr>,
     (chat_card_of ''hunyuan-role'')\<lparr>cc_contextWindowTokens := Some 8000,
       cc_description := Some (tx 122), cc_displayName := Some ''Hunyuan Role'',
       cc_maxOutput := Some 4000, cc_pricing := Some (no_pricing\<lparr>price_currency := Some CNY,
       price_input := Some 4, price_output := Some 8\<rparr>)\<rparr>]"

definition HunyuanProvider :: "texts \<Rightarrow> provider_card" where
  [provider_cards]: "HunyuanProvider tx =
     (provider_of ''hunyuan'' ''Hunyuan'' ''https://hunyuan.tencent.com'' (hunyuan_chatModels tx))\<lparr>pcd_checkModel := Some ''hunyuan-lite'',
       pcd_description := Some (tx 135), pcd_disableBrowserRequest := Some True,
       pcd_modelList := Some (no_model_list\<lparr>ml_showModelFetcher := Some True\<rparr>),
       pcd_modelsUrl := Some ''https://cloud.tencent.com/document/product/1729/104753'',
       pcd_settings := plain_settings\<lparr>st_disableBrowserRequest := Some True,
       st_sdkType := Some ''openai'', st_showModelFetcher := Some True\<rparr>\<rparr>"

end
