(* ===== verification/Provider_Data_C.thy ===== *)
theory Provider_Data_C
  imports Llm_Providers
begin

text \<open>
  The provider cards of \<open>src/web/src/config/llm-providers\<close>, the files \<open>infiniai.ts\<close> to \<open>qwen.ts\<close>: for
  each file the deprecated list of chat models and the card itself, under the name
  \<open>config/llm-providers/index.ts\<close> imports it by. The conventions are those of the model cards.
\<close>

section \<open>infiniai\<close>

definition infiniai_chatModels_1 :: "texts \<Rightarrow> chat_card list" where
  [card_tables]: "infiniai_chatModels_1 tx = [
     (chat_card_of ''deepseek-r1'')\<lparr>cc_contextWindowTokens := Some 65536,
       cc_description := Some (tx 10), cc_displayName := Some ''DeepSeek R1'',
       cc_enabled := Some True, cc_pricing := Some (no_pricing\<lparr>price_currency := Some CNY,
       price_input := Some 0, price_output := Some 0\<rparr>)\<rparr>,
     (chat_card_of ''deepseek-v3'')\<lparr>cc_contextWindowTokens := Some 65536,
       cc_description := Some (tx 23), cc_displayName := Some ''DeepSeek V3'',
       cc_enabled := Some True, cc_pricing := Some (no_pricing\<lparr>price_currency := Some CNY,
       price_input := Some 0, price_output := Some 0\<rparr>)\<rparr>,
     (chat_card_of ''qwq-32b'')\<lparr>cc_contextWindowTokens := Some 65536,
       cc_description := Some (tx 36), cc_displayName := Some ''QwQ'', cc_enabled := Some True,
       cc_pricing := Some (no_pricing\<lparr>price_currency := Some CNY, price_input := Some 0,
       price_output := Some 0\<rparr>)\<rparr>,
     (chat_card_of ''deepseek-r1-distill-qwen-32b'')\<lparr>cc_contextWindowTokens := Some 32768,
       cc_description := Some (tx 49), cc_displayName := Some ''DeepSeek R1 Distill Qwen 32B'',
       cc_enabled := Some True, cc_pricing := Some (no_pricing\<lparr>price_currency := Some CNY,
       price_input := Some 0, price_output := Some 0\<rparr>)\<rparr>,
     (chat_card_of ''qwen2.5-72b-instruct'')\<lparr>cc_contextWindowTokens := Some 32768,
       cc_description := Some (tx 62), cc_displayName := Some ''Qwen2.5 72B Instruct'',
       cc_enabled := Some True, cc_pricing := Some (no_pricing\<lparr>price_currency := Some CNY,
       price_input := Some 0, price_output := Some 0\<rparr>)\<rparr>,
     (chat_card_of ''qwen2.5-32b-instruct'')\<lparr>cc_contextWindowTokens := Some 32768,
       cc_description := Some (tx 75), cc_displayName := Some ''Qwen2.5 32B Instruct'',
       cc_enabled := Some True, cc_pricing := Some (no_pricing\<lparr>price_currency := Some CNY,
       price_input := Some 0, price_output := Some 0\<rparr>)\<rparr>,
     (chat_card_of ''qwen2.5-coder-32b-instruct'')\<lparr>cc_contextWindowTokens := Some 32768,
       cc_description := Some (tx 88), cc_displayName := Some ''Qwen2.5 Coder 32B Instruct'',
       cc_enabled := Some True, cc_pricing := Some (no_pricing\<lparr>price_currency := Some CNY,
       price_input := Some 0, price_output := Some 0\<rparr>)\<rparr>,
     (chat_card_of ''qwen2.5-14b-instruct'')\<lparr>cc_contextWindowTokens := Some 32768,
       cc_description := Some (tx 101), cc_displayName := Some ''Qwen2.5 14B Instruct'',
       cc_enabled := Some True, cc_pricing := Some (no_pricing\<lparr>price_currency := Some CNY,
       price_input := Some 0, price_output := Some 0\<rparr>)\<rparr>,
     (chat_card_of ''qwen2.5-7b-instruct'')\<lparr>cc_contextWindowTokens := Some 32768,
       cc_description := Some (tx 114), cc_displayName := Some ''Qwen2.5 7B Instruct'',
       cc_enabled := Some True, cc_pricing := Some (no_pricing\<lparr>price_currency := Some CNY,
       price_input := Some 0, price_output := Some 0\<rparr>)\<rparr>,
     (chat_card_of ''qwen2-72b-instruct'')\<lparr>cc_contextWindowTokens := Some 32768,
       cc_description := Some (tx 127), cc_displayName := Some ''Qwen 2 72B Instruct'',
       cc_enabled := Some True, cc_pricing := Some (no_pricing\<lparr>price_currency := Some CNY,
       price_input := Some 0, price_output := Some 0\<rparr>)\<rparr>,
     (chat_card_of ''qwen2-7b-instruct'')\<lparr>cc_contextWindowTokens := Some 32768,
       cc_description := Some (tx 140), cc_displayName := Some ''Qwen 2 7B Instruct'',
       cc_enabled := Some True, cc_pricing := Some (no_pricing\<lparr>price_currency := Some CNY,
       price_input := Some 0, price_output := Some 0\<rparr>)\<rparr>]"

definition infiniai_chatModels_2 :: "texts \<Rightarrow> chat_card list" where
  [card_tables]: "infiniai_chatModels_2 tx = [
     (chat_card_of ''yi-1.5-34b-chat'')\<lparr>cc_contextWindowTokens := Some 4096,
       cc_description := Some (tx 153), cc_displayName := Some ''Yi-1.5 34B Chat'',
       cc_enabled := Some True, cc_pricing := Some (no_pricing\<lparr>price_currency := Some CNY,
       price_input := Some 0, price_output := Some 0\<rparr>)\<rparr>]"

definition infiniai_chatModels :: "texts \<Rightarrow> chat_card list" where
  [card_tables]: "infiniai_chatModels tx =
     infiniai_chatModels_1 tx @ infiniai_chatModels_2 tx"

definition InfiniAIProvider :: "texts \<Rightarrow> provider_card" where
  [provider_cards]: "InfiniAIProvider tx =
     (provider_of ''infiniai'' ''InfiniAI'' ''https://cloud.infini-ai.com/genstudio'' (infiniai_chatModels tx))\<lparr>pcd_checkModel := Some ''qwen2.5-7b-instruct'',
       pcd_description := Some (tx 166),
       pcd_modelList := Some (no_model_list\<lparr>ml_showModelFetcher := Some True\<rparr>),
       pcd_modelsUrl := Some ''https://cloud.infini-ai.com/genstudio/model'',
       pcd_proxyUrl := Some (Proxy_hint None ''https://cloud.infini-ai.com/maas/v1'' None),
       pcd_settings := plain_settings\<lparr>st_proxyUrl := Some (Proxy_hint None ''https://cloud.infini-ai.com/maas/v1'' None),
       st_sdkType := Some ''openai'', st_showModelFetcher := Some True\<rparr>\<rparr>"

section \<open>internlm\<close>

definition internlm_chatModels :: "texts \<Rightarrow> chat_card list" where
  [card_tables]: "internlm_chatModels tx = [
     (chat_card_of ''internlm2.5-latest'')\<lparr>cc_contextWindowTokens := Some 32768,
       cc_description := Some (tx 8), cc_displayName := Some ''InternLM2.5'',
       cc_enabled := Some True, cc_functionCall := Some True, cc_maxOutput := Some 4096,
       cc_pricing := Some (no_pricing\<lparr>price_input := Some 0, price_output := Some 0\<rparr>)\<rparr>,
     (chat_card_of ''internlm2-pro-chat'')\<lparr>cc_contextWindowTokens := Some 32768,
       cc_description := Some (tx 21), cc_displayName := Some ''InternLM2 Pro Chat'',
       cc_functionCall := Some True, cc_maxOutput := Some 4096,
       cc_pricing := Some (no_pricing\<lparr>price_input := Some 0, price_output := Some 0\<rparr>)\<rparr>]"

definition InternLMProvider :: "texts \<Rightarrow> provider_card" where
  [provider_cards]: "InternLMProvider tx =
     (provider_of ''internlm'' ''InternLM'' ''https://internlm.intern-ai.org.cn'' (internlm_chatModels tx))\<lparr>pcd_checkModel := Some ''internlm2.5-latest'',
       pcd_description := Some (tx 34), pcd_disableBrowserRequest := Some True,
       pcd_modelList := Some (no_model_list\<lparr>ml_showModelFetcher := Some True\<rparr>),
       pcd_modelsUrl := Some ''https://internlm.intern-ai.org.cn/doc/docs/Models#%E8%8E%B7%E5%8F%96%E6%A8%A1%E5%9E%8B%E5%88%97%E8%A1%A8'',
       pcd_settings := plain_settings\<lparr>st_disableBrowserRequest := Some True,
       st_sdkType := Some ''openai'', st_showModelFetcher := Some True\<rparr>\<rparr>"

section \<open>jina\<close>

definition JinaProvider :: "texts \<Rightarrow> provider_card" where
  [provider_cards]: "JinaProvider tx =
     (provider_of ''jina'' ''Jina AI'' ''https://jina.ai'' [])\<lparr>pcd_checkModel := Some ''jina-deepsearch-v1'',
       pcd_description := Some (tx 7),
       pcd_modelList := Some (no_model_list\<lparr>ml_showModelFetcher := Some True\<rparr>),
       pcd_modelsUrl := Some ''https://jina.ai/models'',
       pcd_settings := plain_settings\<lparr>st_proxyUrl := Some (Proxy_hint None ''https://deepsearch.jina.ai/v1'' None),
       st_sdkType := Some ''openai'', st_showModelFetcher := Some True\<rparr>\<rparr>"

section \<open>lmstudio\<close>

definition LMStudioProvider :: "texts \<Rightarrow> provider_card" where
  [provider_cards]: "LMStudioProvider tx =
     (provider_of ''lmstudio'' ''LM Studio'' ''https://lmstudio.ai'' [])\<lparr>pcd_description := Some (tx 6),
       pcd_modelsUrl := Some ''https://lmstudio.ai/models'',
       pcd_settings := plain_settings\<lparr>st_defaultShowBrowserRequest := Some True,
       st_proxyUrl := Some (Proxy_hint None ''http://127.0.0.1:1234/v1'' None),
       st_showApiKey := Some False, st_showModelFetcher := Some True,
       st_smoothing := Some (no_smoothing\<lparr>sm_speed := Some 2, sm_text := Some True\<rparr>)\<rparr>\<rparr>"

section \<open>minimax\<close>

definition minimax_chatModels :: "texts \<Rightarrow> chat_card list" where
  [card_tables]: "minimax_chatModels tx = [
     (chat_card_of ''abab6.5s-chat'')\<lparr>cc_contextWindowTokens := Some 245760,
       cc_description := Some (tx 8), cc_displayName := Some ''abab6.5s'', cc_enabled := Some True,
       cc_functionCall := Some True\<rparr>,
     (chat_card_of ''abab6.5g-chat'')\<lparr>cc_contextWindowTokens := Some 8192,
       cc_description := Some (tx 16), cc_displayName := Some ''abab6.5g'', cc_enabled := Some True,
       cc_functionCall := Some True\<rparr>,
     (chat_card_of ''abab6.5t-chat'')\<lparr>cc_contextWindowTokens := Some 8192,
       cc_description := Some (tx 24), cc_displayName := Some ''abab6.5t'', cc_enabled := Some True,
       cc_functionCall := Some True\<rparr>,
     (chat_card_of ''abab5.5-chat'')\<lparr>cc_contextWindowTokens := Some 16384,
       cc_description := Some (tx 32), cc_displayName := Some ''abab5.5''\<rparr>,
     (chat_card_of ''abab5.5s-chat'')\<lparr>cc_contextWindowTokens := Some 8192,
       cc_description := Some (tx 38), cc_displayName := Some ''abab5.5s''\<rparr>]"

definition MinimaxProvider :: "texts \<Rightarrow> provider_card" where
  [provider_cards]: "MinimaxProvider tx =
     (provider_of ''minimax'' ''Minimax'' ''https://www.minimaxi.com'' (minimax_chatModels tx))\<lparr>pcd_checkModel := Some ''abab6.5s-chat'',
       pcd_description := Some (tx 45),
       pcd_modelsUrl := Some ''https://platform.minimaxi.com/document/Models'',
       pcd_settings := plain_settings\<lparr>st_sdkType := Some ''openai'',
       st_smoothing := Some (no_smoothing\<lparr>sm_speed := Some 2, sm_text := Some True\<rparr>)\<rparr>,
       pcd_smoothing := Some (no_smoothing\<lparr>sm_speed := Some 2, sm_text := Some True\<rparr>)\<rparr>"

section \<open>mistral\<close>

definition mistral_chatModels :: "texts \<Rightarrow> chat_card list" where
  [card_tables]: "mistral_chatModels tx = [
     (chat_card_of ''open-mistral-nemo'')\<lparr>cc_contextWindowTokens := Some 128000,
       cc_description := Some (tx 10), cc_displayName := Some ''Mistral Nemo'',
       cc_enabled := Some True, cc_functionCall := Some True,
       cc_pricing := Some (no_pricing\<lparr>price_input := Some 0.15, price_output := Some 0.15\<rparr>)\<rparr>,
     (chat_card_of ''mistral-small-latest'')\<lparr>cc_contextWindowTokens := Some 128000,
       cc_description := Some (tx 23), cc_displayName := Some ''Mistral Small'',
       cc_enabled := Some True, cc_functionCall := Some True,
       cc_pricing := Some (no_pricing\<lparr>price_input := Some 0.2, price_output := Some 0.6\<rparr>)\<rparr>,
     (chat_card_of ''mistral-large-latest'')\<lparr>cc_contextWindowTokens := Some 128000,
       cc_description := Some (tx 36), cc_displayName := Some ''Mistral Large'',
       cc_enabled := Some True, cc_functionCall := Some True,
       cc_pricing := Some (no_pricing\<lparr>price_input := Some 2, price_output := Some 6\<rparr>)\<rparr>,
     (chat_card_of ''codestral-latest'')\<lparr>cc_contextWindowTokens := Some 32768,
       cc_description := Some (tx 48), cc_displayName := Some ''Codestral'',
       cc_pricing := Some (no_pricing\<lparr>price_input := Some 0.2, price_output := Some 0.6\<rparr>)\<rparr>,
     (chat_card_of ''pixtral-large-latest'')\<lparr>cc_contextWindowTokens := Some 128000,
       cc_description := Some (tx 59), cc_displayName := Some ''Pixtral Large'',
       cc_enabled := Some True, cc_functionCall := Some True,
       cc_pricing := Some (no_pricing\<lparr>price_input := Some 2, price_output := Some 6\<rparr>),
       cc_vision := Some True\<rparr>,
     (chat_card_of ''pixtral-12b-2409'')\<lparr>cc_contextWindowTokens := Some 128000,
       cc_description := Some (tx 73), cc_displayName := Some ''Pixtral 12B'',
       cc_enabled := Some True, cc_pricing := Some (no_pricing\<lparr>price_input := Some 0.15,
       price_output := Some 0.15\<rparr>), cc_vision := Some True\<rparr>,
     (chat_card_of ''ministral-3b-latest'')\<lparr>cc_contextWindowTokens := Some 128000,
       cc_description := Some (tx 85), cc_displayName := Some ''Ministral 3B'',
       cc_pricing := Some (no_pricing\<lparr>price_input := Some 0.04, price_output := Some 0.04\<rparr>)\<rparr>,
     (chat_card_of ''ministral-8b-latest'')\<lparr>cc_contextWindowTokens := Some 128000,
       cc_description := Some (tx 95), cc_displayName := Some ''Ministral 8B'',
       cc_pricing := Some (no_pricing\<lparr>price_input := Some 0.1, price_output := Some 0.1\<rparr>)\<rparr>,
     (chat_card_of ''open-mistral-7b'')\<lparr>cc_contextWindowTokens := Some 32768,
       cc_description := Some (tx 106), cc_displayName := Some ''Mistral 7B'',
       cc_pricing := Some (no_pricing\<lparr>price_input := Some 0.25, price_output := Some 0.25\<rparr>)\<rparr>,
     (chat_card_of ''open-mixtral-8x7b'')\<lparr>cc_contextWindowTokens := Some 32768,
       cc_description := Some (tx 117), cc_displayName := Some ''Mixtral 8x7B'',
       cc_pricing := Some (no_pricing\<lparr>price_input := Some 0.7, price_output := Some 0.7\<rparr>)\<rparr>,
     (chat_card_of ''open-mixtral-8x22b'')\<lparr>cc_contextWindowTokens := Some 65536,
       cc_description := Some (tx 128), cc_displayName := Some ''Mixtral 8x22B'',
       cc_functionCall := Some True, cc_pricing := Some (no_pricing\<lparr>price_input := Some 2,
       price_output := Some 6\<rparr>)\<rparr>,
     (chat_card_of ''open-codestral-mamba'')\<lparr>cc_contextWindowTokens := Some 256000,
       cc_description := Some (tx 140), cc_displayName := Some ''Codestral Mamba'',
       cc_pricing := Some (no_pricing\<lparr>price_input := Some 0.15, price_output := Some 0.15\<rparr>)\<rparr>]"

definition MistralProvider :: "texts \<Rightarrow> provider_card" where
  [provider_cards]: "MistralProvider tx =
     (provider_of ''mistral'' ''Mistral'' ''https://mistral.ai'' (mistral_chatModels tx))\<lparr>pcd_checkModel := Some ''ministral-3b-latest'',
       pcd_description := Some (tx 151),
       pcd_modelList := Some (no_model_list\<lparr>ml_showModelFetcher := Some True\<rparr>),
       pcd_modelsUrl := Some ''https://docs.mistral.ai/getting-started/models'',
       pcd_settings := plain_settings\<lparr>st_proxyUrl := Some (Proxy_hint None ''https://api.mistral.ai'' None),
       st_sdkType := Some ''openai'', st_showModelFetcher := Some True\<rparr>\<rparr>"

section \<open>moonshot\<close>

definition moonshot_chatModels :: "texts \<Rightarrow> chat_card list" where
  [card_tables]: "moonshot_chatModels tx = [
     (chat_card_of ''moonshot-v1-8k'')\<lparr>cc_contextWindowTokens := Some 8192,
       cc_description := Some (tx 9), cc_displayName := Some ''Moonshot V1 8K'',
       cc_enabled := Some True, cc_functionCall := Some True\<rparr>,
     (chat_card_of ''moonshot-v1-32k'')\<lparr>cc_contextWindowTokens := Some 32768,
       cc_description := Some (tx 18), cc_displayName := Some ''Moonshot V1 32K'',
       cc_enabled := Some True, cc_functionCall := Some True\<rparr>,
     (chat_card_of ''moonshot-v1-128k'')\<lparr>cc_contextWindowTokens := Some 128000,
       cc_description := Some (tx 27), cc_displayName := Some ''Moonshot V1 128K'',
       cc_enabled := Some True, cc_functionCall := Some True\<rparr>]"

definition MoonshotProvider :: "texts \<Rightarrow> provider_card" where
  [provider_cards]: "MoonshotProvider tx =
     (provider_of ''moonshot'' ''Moonshot'' ''https://www.moonshot.cn'' (moonshot_chatModels tx))\<lparr>pcd_checkModel := Some ''kimi-latest'',
       pcd_description := Some (tx 36),
       pcd_modelList := Some (no_model_list\<lparr>ml_showModelFetcher := Some True\<rparr>),
       pcd_modelsUrl := Some ''https://platform.moonshot.cn/docs/intro'',
       pcd_proxyUrl := Some (Proxy_hint None ''https://api.moonshot.cn/v1'' None),
       pcd_settings := plain_settings\<lparr>st_proxyUrl := Some (Proxy_hint None ''https://api.moonshot.cn/v1'' None),
       st_sdkType := Some ''openai'', st_showModelFetcher := Some True,
       st_smoothing := Some (no_smoothing\<lparr>sm_speed := Some 2, sm_text := Some True\<rparr>)\<rparr>,
       pcd_smoothing := Some (no_smoothing\<lparr>sm_speed := Some 2, sm_text := Some True\<rparr>)\<rparr>"

section \<open>novita\<close>

definition novita_chatModels :: "texts \<Rightarrow> chat_card list" where
  [card_tables]: "novita_chatModels tx = [
     (chat_card_of ''meta-llama/llama-3.1-8b-instruct'')\<lparr>cc_contextWindowTokens := Some 8192,
       cc_description := Some (tx 9), cc_displayName := Some ''Llama 3.1 8B Instruct'',
       cc_enabled := Some True\<rparr>,
     (chat_card_of ''meta-llama/llama-3.1-70b-instruct'')\<lparr>cc_contextWindowTokens := Some 131072,
       cc_description := Some (tx 17), cc_displayName := Some ''Llama 3.1 70B Instruct'',
       cc_enabled := Some True\<rparr>,
     (chat_card_of ''meta-llama/llama-3.1-405b-instruct'')\<lparr>cc_contextWindowTokens := Some 32768,
       cc_description := Some (tx 25), cc_displayName := Some ''Llama 3.1 405B Instruct'',
       cc_enabled := Some True\<rparr>,
     (chat_card_of ''meta-llama/llama-3-8b-instruct'')\<lparr>cc_contextWindowTokens := Some 8192,
       cc_description := Some (tx 32), cc_displayName := Some ''Llama 3 8B Instruct''\<rparr>,
     (chat_card_of ''meta-llama/llama-3-70b-instruct'')\<lparr>cc_contextWindowTokens := Some 8192,
       cc_description := Some (tx 38), cc_displayName := Some ''Llama 3 70B Instruct''\<rparr>,
     (chat_card_of ''google/gemma-2-9b-it'')\<lparr>cc_contextWindowTokens := Some 8192,
       cc_description := Some (tx 44), cc_displayName := Some ''Gemma 2 9B'',
       cc_enabled := Some True\<rparr>,
     (chat_card_of ''mistralai/mistral-nemo'')\<lparr>cc_contextWindowTokens := Some 32768,
       cc_description := Some (tx 51), cc_displayName := Some ''Mistral Nemo'',
       cc_enabled := Some True\<rparr>,
     (chat_card_of ''mistralai/mistral-7b-instruct'')\<lparr>cc_contextWindowTokens := Some 32768,
       cc_description := Some (tx 58), cc_displayName := Some ''Mistral 7B Instruct'',
       cc_enabled := Some True\<rparr>,
     (chat_card_of ''microsoft/wizardlm 2-7b'')\<lparr>cc_contextWindowTokens := Some 32768,
       cc_description := Some (tx 65), cc_displayName := Some ''WizardLM 2 7B'',
       cc_enabled := Some True\<rparr>,
     (chat_card_of ''microsoft/wizardlm-2-8x22b'')\<lparr>cc_contextWindowTokens := Some 65535,
       cc_description := Some (tx 72), cc_displayName := Some ''WizardLM-2 8x22B'',
       cc_enabled := Some True\<rparr>,
     (chat_card_of ''cognitivecomputations/dolphin-mixtral-8x22b'')\<lparr>cc_contextWindowTokens := Some 16000,
       cc_description := Some (tx 79), cc_displayName := Some ''Dolphin Mixtral 8x22B''\<rparr>,
     (chat_card_of ''nousresearch/hermes-2-pro-llama-3-8b'')\<lparr>cc_contextWindowTokens := Some 8192,
       cc_description := Some (tx 86), cc_displayName := Some ''Hermes 2 Pro Llama 3 8B''\<rparr>,
     (chat_card_of ''Nous-Hermes-2-Mixtral-8x7B-DPO'')\<lparr>cc_contextWindowTokens := Some 32768,
       cc_description := Some (tx 93), cc_displayName := Some ''Hermes 2 Mixtral 8x7B DPO''\<rparr>,
     (chat_card_of ''gryphe/mythomax-l2-13b'')\<lparr>cc_contextWindowTokens := Some 4096,
       cc_description := Some (tx 99), cc_displayName := Some ''MythoMax l2 13B''\<rparr>,
     (chat_card_of ''openchat/openchat-7b'')\<lparr>cc_contextWindowTokens := Some 4096,
       cc_description := Some (tx 105), cc_displayName := Some ''OpenChat 7B''\<rparr>]"

definition NovitaProvider :: "texts \<Rightarrow> provider_card" where
  [provider_cards]: "NovitaProvider tx =
     (provider_of ''novita'' ''Novita'' ''https://novita.ai'' (novita_chatModels tx))\<lparr>pcd_checkModel := Some ''meta-llama/llama-3.1-8b-instruct'',
       pcd_description := Some (tx 112), pcd_disableBrowserRequest := Some True,
       pcd_modelList := Some (no_model_list\<lparr>ml_showModelFetcher := Some True\<rparr>),
       pcd_modelsUrl := Some ''https://novita.ai/model-api/product/llm-api'',
       pcd_settings := plain_settings\<lparr>st_disableBrowserRequest := Some True,
       st_sdkType := Some ''openai'', st_showModelFetcher := Some True\<rparr>\<rparr>"

section \<open>nvidia\<close>

definition NvidiaProvider :: "texts \<Rightarrow> provider_card" where
  [provider_cards]: "NvidiaProvider tx =
     (provider_of ''nvidia'' ''Nvidia'' ''https://build.nvidia.com'' [])\<lparr>pcd_checkModel := Some ''meta/llama-3.2-1b-instruct'',
       pcd_description := Some (tx 7),
       pcd_modelList := Some (no_model_list\<lparr>ml_showModelFetcher := Some True\<rparr>),
       pcd_modelsUrl := Some ''https://build.nvidia.com/models'',
       pcd_settings := plain_settings\<lparr>st_proxyUrl := Some (Proxy_hint None ''https://integrate.api.nvidia.com/v1'' None),
       st_sdkType := Some ''openai'', st_showModelFetcher := Some True\<rparr>\<rparr>"

section \<open>ollama\<close>

definition ollama_chatModels_1 :: "texts \<Rightarrow> chat_card list" where
  [card_tables]: "ollama_chatModels_1 tx = [
     (chat_card_of ''llama3.1'')\<lparr>cc_contextWindowTokens := Some 128000,
       cc_description := Some (tx 8), cc_displayName := Some ''Llama 3.1 8B'',
       cc_enabled := Some True, cc_functionCall := Some True\<rparr>,
     (chat_card_of ''llama3.1:70b'')\<lparr>cc_contextWindowTokens := Some 128000,
       cc_description := Some (tx 17), cc_displayName := Some ''Llama 3.1 70B''\<rparr>,
     (chat_card_of ''llama3.1:405b'')\<lparr>cc_contextWindowTokens := Some 128000,
       cc_description := Some (tx 24), cc_displayName := Some ''Llama 3.1 405B''\<rparr>,
     (chat_card_of ''codellama'')\<lparr>cc_contextWindowTokens := Some 16384,
       cc_description := Some (tx 31), cc_displayName := Some ''Code Llama 7B'',
       cc_enabled := Some True\<rparr>,
     (chat_card_of ''codellama:13b'')\<lparr>cc_contextWindowTokens := Some 16384,
       cc_description := Some (tx 39), cc_displayName := Some ''Code Llama 13B''\<rparr>,
     (chat_card_of ''codellama:34b'')\<lparr>cc_contextWindowTokens := Some 16384,
       cc_description := Some (tx 46), cc_displayName := Some ''Code Llama 34B''\<rparr>,
     (chat_card_of ''codellama:70b'')\<lparr>cc_contextWindowTokens := Some 16384,
       cc_description := Some (tx 53), cc_displayName := Some ''Code Llama 70B''\<rparr>,
     (chat_card_of ''qwq'')\<lparr>cc_contextWindowTokens := Some 128000, cc_description := Some (tx 59),
       cc_displayName := Some ''QwQ 32B'', cc_enabled := Some True, cc_functionCall := Some True,
       cc_releasedAt := Some ''2024-11-28''\<rparr>,
     (chat_card_of ''qwen2.5:0.5b'')\<lparr>cc_contextWindowTokens := Some 128000,
       cc_description := Some (tx 68), cc_displayName := Some ''Qwen2.5 0.5B''\<rparr>,
     (chat_card_of ''qwen2.5:1.5b'')\<lparr>cc_contextWindowTokens := Some 128000,
       cc_description := Some (tx 74), cc_displayName := Some ''Qwen2.5 1.5B''\<rparr>,
     (chat_card_of ''qwen2.5'')\<lparr>cc_contextWindowTokens := Some 128000,
       cc_description := Some (tx 80), cc_displayName := Some ''Qwen2.5 7B'',
       cc_enabled := Some True, cc_functionCall := Some True\<rparr>,
     (chat_card_of ''qwen2.5:72b'')\<lparr>cc_contextWindowTokens := Some 128000,
       cc_description := Some (tx 88), cc_displayName := Some ''Qwen2.5 72B''\<rparr>,
     (chat_card_of ''codeqwen'')\<lparr>cc_contextWindowTokens := Some 65536,
       cc_description := Some (tx 94), cc_displayName := Some ''CodeQwen1.5 7B'',
       cc_functionCall := Some True\<rparr>,
     (chat_card_of ''qwen2:0.5b'')\<lparr>cc_contextWindowTokens := Some 128000,
       cc_description := Some (tx 101), cc_displayName := Some ''Qwen2 0.5B'',
       cc_functionCall := Some True\<rparr>,
     (chat_card_of ''qwen2:1.5b'')\<lparr>cc_contextWindowTokens := Some 128000,
       cc_description := Some (tx 108), cc_displayName := Some ''Qwen2 1.5B'',
       cc_functionCall := Some True\<rparr>,
     (chat_card_of ''qwen2'')\<lparr>cc_contextWindowTokens := Some 128000,
       cc_description := Some (tx 115), cc_displayName := Some ''Qwen2 7B'',
       cc_functionCall := Some True\<rparr>,
     (chat_card_of ''qwen2:72b'')\<lparr>cc_contextWindowTokens := Some 128000,
       cc_description := Some (tx 122), cc_displayName := Some ''Qwen2 72B'',
       cc_functionCall := Some True\<rparr>,
     (chat_card_of ''gemma2:2b'')\<lparr>cc_contextWindowTokens := Some 8192,
       cc_description := Some (tx 129), cc_displayName := Some ''Gemma 2 2B''\<rparr>,
     (chat_card_of ''gemma2'')\<lparr>cc_contextWindowTokens := Some 8192,
       cc_description := Some (tx 135), cc_displayName := Some ''Gemma 2 9B''\<rparr>,
     (chat_card_of ''gemma2:27b'')\<lparr>cc_contextWindowTokens := Some 8192,
       cc_description := Some (tx 141), cc_displayName := Some ''Gemma 2 27B''\<rparr>,
     (chat_card_of ''codegemma:2b'')\<lparr>cc_contextWindowTokens := Some 8192,
       cc_description := Some (tx 147), cc_displayName := Some ''CodeGemma 2B''\<rparr>]"

definition ollama_chatModels_2 :: "texts \<Rightarrow> chat_card list" where
  [card_tables]: "ollama_chatModels_2 tx = [
     (chat_card_of ''codegemma'')\<lparr>cc_contextWindowTokens := Some 8192,
       cc_description := Some (tx 153), cc_displayName := Some ''CodeGemma 7B''\<rparr>,
     (chat_card_of ''phi3'')\<lparr>cc_contextWindowTokens := Some 128000,
       cc_description := Some (tx 159), cc_displayName := Some ''Phi-3 3.8B'',
       cc_enabled := Some True\<rparr>,
     (chat_card_of ''phi3:14b'')\<lparr>cc_contextWindowTokens := Some 128000,
       cc_description := Some (tx 166), cc_displayName := Some ''Phi-3 14B''\<rparr>,
     (chat_card_of ''wizardlm2'')\<lparr>cc_contextWindowTokens := Some 32768,
       cc_description := Some (tx 173), cc_displayName := Some ''WizardLM 2 7B'',
       cc_enabled := Some True\<rparr>,
     (chat_card_of ''wizardlm2:8x22b'')\<lparr>cc_contextWindowTokens := Some 65536,
       cc_description := Some (tx 181), cc_displayName := Some ''WizardLM 2 8x22B''\<rparr>,
     (chat_card_of ''mathstral'')\<lparr>cc_contextWindowTokens := Some 32768,
       cc_description := Some (tx 187), cc_displayName := Some (tx 188), cc_enabled := Some True\<rparr>,
     (chat_card_of ''mistral'')\<lparr>cc_contextWindowTokens := Some 32768,
       cc_description := Some (tx 194), cc_displayName := Some ''Mistral 7B'',
       cc_enabled := Some True, cc_functionCall := Some True\<rparr>,
     (chat_card_of ''mixtral'')\<lparr>cc_contextWindowTokens := Some 32768,
       cc_description := Some (tx 203), cc_displayName := Some ''Mixtral 8x7B'',
       cc_enabled := Some True, cc_functionCall := Some True\<rparr>,
     (chat_card_of ''mixtral:8x22b'')\<lparr>cc_contextWindowTokens := Some 65536,
       cc_description := Some (tx 212), cc_displayName := Some ''Mixtral 8x22B'',
       cc_functionCall := Some True\<rparr>,
     (chat_card_of ''mistral-large'')\<lparr>cc_contextWindowTokens := Some 128000,
       cc_description := Some (tx 220), cc_displayName := Some ''Mixtral Large 123B'',
       cc_enabled := Some True\<rparr>,
     (chat_card_of ''mistral-nemo'')\<lparr>cc_contextWindowTokens := Some 128000,
       cc_description := Some (tx 227), cc_displayName := Some ''Mixtral Nemo 12B'',
       cc_enabled := Some True, cc_functionCall := Some True\<rparr>,
     (chat_card_of ''codestral'')\<lparr>cc_contextWindowTokens := Some 32768,
       cc_description := Some (tx 235), cc_displayName := Some ''Codestral 22B'',
       cc_enabled := Some True\<rparr>,
     (chat_card_of ''aya'')\<lparr>cc_contextWindowTokens := Some 8192, cc_description := Some (tx 242),
       cc_displayName := Some ''Aya 23 8B'', cc_enabled := Some True\<rparr>,
     (chat_card_of ''aya:35b'')\<lparr>cc_contextWindowTokens := Some 8192,
       cc_description := Some (tx 249), cc_displayName := Some ''Aya 23 35B''\<rparr>,
     (chat_card_of ''command-r'')\<lparr>cc_contextWindowTokens := Some 131072,
       cc_description := Some (tx 255), cc_displayName := Some ''Command R 35B'',
       cc_enabled := Some True, cc_functionCall := Some True\<rparr>,
     (chat_card_of ''command-r-plus'')\<lparr>cc_contextWindowTokens := Some 131072,
       cc_description := Some (tx 263), cc_displayName := Some ''Command R+ 104B'',
       cc_enabled := Some True, cc_functionCall := Some True\<rparr>,
     (chat_card_of ''deepseek-v2'')\<lparr>cc_contextWindowTokens := Some 32768,
       cc_description := Some (tx 271), cc_displayName := Some ''DeepSeek V2 16B'',
       cc_enabled := Some True\<rparr>,
     (chat_card_of ''deepseek-v2:236b'')\<lparr>cc_contextWindowTokens := Some 128000,
       cc_description := Some (tx 278), cc_displayName := Some ''DeepSeek V2 236B''\<rparr>,
     (chat_card_of ''deepseek-coder-v2'')\<lparr>cc_contextWindowTokens := Some 128000,
       cc_description := Some (tx 285), cc_displayName := Some ''DeepSeek Coder V2 16B'',
       cc_enabled := Some True\<rparr>,
     (chat_card_of ''deepseek-coder-v2:236b'')\<lparr>cc_contextWindowTokens := Some 128000,
       cc_description := Some (tx 293), cc_displayName := Some ''DeepSeek Coder V2 236B''\<rparr>]"

definition ollama_chatModels_3 :: "texts \<Rightarrow> chat_card list" where
  [card_tables]: "ollama_chatModels_3 tx = [
     (chat_card_of ''llava'')\<lparr>cc_contextWindowTokens := Some 4096,
       cc_description := Some (tx 299), cc_displayName := Some ''LLaVA 7B'',
       cc_enabled := Some True, cc_vision := Some True\<rparr>,
     (chat_card_of ''llava:13b'')\<lparr>cc_contextWindowTokens := Some 4096,
       cc_description := Some (tx 307), cc_displayName := Some ''LLaVA 13B'',
       cc_vision := Some True\<rparr>,
     (chat_card_of ''llava:34b'')\<lparr>cc_contextWindowTokens := Some 4096,
       cc_description := Some (tx 314), cc_displayName := Some ''LLaVA 34B'',
       cc_vision := Some True\<rparr>,
     (chat_card_of ''minicpm-v'')\<lparr>cc_contextWindowTokens := Some 128000,
       cc_description := Some (tx 322), cc_displayName := Some ''MiniCPM-V 8B'',
       cc_enabled := Some True, cc_vision := Some True\<rparr>]"

definition ollama_chatModels :: "texts \<Rightarrow> chat_card list" where
  [card_tables]: "ollama_chatModels tx =
     ollama_chatModels_1 tx @ ollama_chatModels_2 tx @ ollama_chatModels_3 tx"

definition OllamaProvider :: "texts \<Rightarrow> provider_card" where
  [provider_cards]: "OllamaProvider tx =
     (provider_of ''ollama'' ''Ollama'' ''https://ollama.com'' (ollama_chatModels tx))\<lparr>pcd_checkModel := Some ''deepseek-r1'',
       pcd_defaultShowBrowserRequest := Some True, pcd_description := Some (tx 332),
       pcd_modelList := Some (no_model_list\<lparr>ml_showModelFetcher := Some True\<rparr>),
       pcd_modelsUrl := Some ''https://ollama.com/library'',
       pcd_settings := plain_settings\<lparr>st_defaultShowBrowserRequest := Some True,
       st_sdkType := Some ''ollama'', st_showApiKey := Some False,
       st_showModelFetcher := Some True\<rparr>, pcd_showApiKey := Some False\<rparr>"

section \<open>openai\<close>

definition openai_chatModels_1 :: "texts \<Rightarrow> chat_card list" where
  [card_tables]: "openai_chatModels_1 tx = [
     (chat_card_of ''gpt-4.1-mini'')\<lparr>cc_contextWindowTokens := Some 1047576,
       cc_description := Some (tx 9), cc_displayName := Some ''GPT-4.1 mini'',
       cc_enabled := Some True, cc_functionCall := Some True, cc_maxOutput := Some 32768,
       cc_pricing := Some (no_pricing\<lparr>price_cachedInput := Some 0.1, price_input := Some 0.4,
       price_output := Some 1.6\<rparr>), cc_releasedAt := Some ''2025-04-14'', cc_vision := Some True\<rparr>,
     (chat_card_of ''o1-mini'')\<lparr>cc_contextWindowTokens := Some 128000,
       cc_description := Some (tx 26), cc_displayName := Some ''OpenAI o1-mini'',
       cc_enabled := Some True, cc_maxOutput := Some 65536,
       cc_pricing := Some (no_pricing\<lparr>price_input := Some 3, price_output := Some 12\<rparr>),
       cc_releasedAt := Some ''2024-09-12''\<rparr>,
     (chat_card_of ''o1-2024-12-17'')\<lparr>cc_contextWindowTokens := Some 200000,
       cc_description := Some (tx 40), cc_displayName := Some ''OpenAI o1'',
       cc_enabled := Some True, cc_maxOutput := Some 100000,
       cc_pricing := Some (no_pricing\<lparr>price_input := Some 15, price_output := Some 60\<rparr>),
       cc_releasedAt := Some ''2024-12-17'', cc_vision := Some True\<rparr>,
     (chat_card_of ''o1-preview'')\<lparr>cc_contextWindowTokens := Some 128000,
       cc_description := Some (tx 55), cc_displayName := Some ''OpenAI o1-preview'',
       cc_enabled := Some True, cc_maxOutput := Some 32768,
       cc_pricing := Some (no_pricing\<lparr>price_input := Some 15, price_output := Some 60\<rparr>),
       cc_releasedAt := Some ''2024-09-12''\<rparr>,
     (chat_card_of ''gpt-4o-mini'')\<lparr>cc_contextWindowTokens := Some 128000,
       cc_description := Some (tx 69), cc_displayName := Some ''GPT-4o mini'',
       cc_enabled := Some True, cc_functionCall := Some True, cc_maxOutput := Some 16385,
       cc_pricing := Some (no_pricing\<lparr>price_input := Some 0.15, price_output := Some 0.6\<rparr>),
       cc_vision := Some True\<rparr>,
     (chat_card_of ''gpt-4o-2024-11-20'')\<lparr>cc_contextWindowTokens := Some 128000,
       cc_description := Some (tx 84), cc_displayName := Some ''GPT-4o 1120'',
       cc_enabled := Some True, cc_functionCall := Some True,
       cc_pricing := Some (no_pricing\<lparr>price_input := Some 2.5, price_output := Some 10\<rparr>),
       cc_releasedAt := Some ''2024-11-20'', cc_vision := Some True\<rparr>,
     (chat_card_of ''gpt-4o'')\<lparr>cc_contextWindowTokens := Some 128000,
       cc_description := Some (tx 99), cc_displayName := Some ''GPT-4o'', cc_enabled := Some True,
       cc_functionCall := Some True, cc_pricing := Some (no_pricing\<lparr>price_input := Some 2.5,
       price_output := Some 10\<rparr>), cc_vision := Some True\<rparr>,
     (chat_card_of ''gpt-4o-2024-08-06'')\<lparr>cc_contextWindowTokens := Some 128000,
       cc_description := Some (tx 113), cc_displayName := Some ''GPT-4o 0806'',
       cc_functionCall := Some True, cc_pricing := Some (no_pricing\<lparr>price_input := Some 2.5,
       price_output := Some 10\<rparr>), cc_releasedAt := Some ''2024-08-06'', cc_vision := Some True\<rparr>,
     (chat_card_of ''gpt-4o-2024-05-13'')\<lparr>cc_contextWindowTokens := Some 128000,
       cc_description := Some (tx 127), cc_displayName := Some ''GPT-4o 0513'',
       cc_functionCall := Some True, cc_pricing := Some (no_pricing\<lparr>price_input := Some 5,
       price_output := Some 15\<rparr>), cc_releasedAt := Some ''2024-05-13'', cc_vision := Some True\<rparr>,
     (chat_card_of ''chatgpt-4o-latest'')\<lparr>cc_contextWindowTokens := Some 128000,
       cc_description := Some (tx 141), cc_displayName := Some ''ChatGPT-4o'',
       cc_enabled := Some True, cc_pricing := Some (no_pricing\<lparr>price_input := Some 5,
       price_output := Some 15\<rparr>), cc_vision := Some True\<rparr>]"

definition openai_chatModels_2 :: "texts \<Rightarrow> chat_card list" where
  [card_tables]: "openai_chatModels_2 tx = [
     (chat_card_of ''gpt-4-turbo'')\<lparr>cc_contextWindowTokens := Some 128000,
       cc_description := Some (tx 154), cc_displayName := Some ''GPT-4 Turbo'',
       cc_functionCall := Some True, cc_pricing := Some (no_pricing\<lparr>price_input := Some 10,
       price_output := Some 30\<rparr>), cc_vision := Some True\<rparr>,
     (chat_card_of ''gpt-4-turbo-2024-04-09'')\<lparr>cc_contextWindowTokens := Some 128000,
       cc_description := Some (tx 167), cc_displayName := Some ''GPT-4 Turbo Vision 0409'',
       cc_functionCall := Some True, cc_pricing := Some (no_pricing\<lparr>price_input := Some 10,
       price_output := Some 30\<rparr>), cc_vision := Some True\<rparr>,
     (chat_card_of ''gpt-4-turbo-preview'')\<lparr>cc_contextWindowTokens := Some 128000,
       cc_description := Some (tx 180), cc_displayName := Some ''GPT-4 Turbo Preview'',
       cc_functionCall := Some True, cc_pricing := Some (no_pricing\<lparr>price_input := Some 10,
       price_output := Some 30\<rparr>)\<rparr>,
     (chat_card_of ''gpt-4-0125-preview'')\<lparr>cc_contextWindowTokens := Some 128000,
       cc_description := Some (tx 192), cc_displayName := Some ''GPT-4 Turbo Preview 0125'',
       cc_functionCall := Some True, cc_pricing := Some (no_pricing\<lparr>price_input := Some 10,
       price_output := Some 30\<rparr>)\<rparr>,
     (chat_card_of ''gpt-4-1106-preview'')\<lparr>cc_contextWindowTokens := Some 128000,
       cc_description := Some (tx 204), cc_displayName := Some ''GPT-4 Turbo Preview 1106'',
       cc_functionCall := Some True, cc_pricing := Some (no_pricing\<lparr>price_input := Some 10,
       price_output := Some 30\<rparr>)\<rparr>,
     (chat_card_of ''gpt-4'')\<lparr>cc_contextWindowTokens := Some 8192,
       cc_description := Some (tx 216), cc_displayName := Some ''GPT-4'',
       cc_functionCall := Some True, cc_pricing := Some (no_pricing\<lparr>price_input := Some 30,
       price_output := Some 60\<rparr>)\<rparr>,
     (chat_card_of ''gpt-4-0613'')\<lparr>cc_contextWindowTokens := Some 8192,
       cc_description := Some (tx 228), cc_displayName := Some ''GPT-4 0613'',
       cc_functionCall := Some True, cc_pricing := Some (no_pricing\<lparr>price_input := Some 30,
       price_output := Some 60\<rparr>)\<rparr>,
     (chat_card_of ''gpt-4-32k'')\<lparr>cc_contextWindowTokens := Some 32768,
       cc_description := Some (tx 240), cc_displayName := Some ''GPT-4 32K'',
       cc_functionCall := Some True, cc_pricing := Some (no_pricing\<lparr>price_input := Some 60,
       price_output := Some 120\<rparr>)\<rparr>,
     (chat_card_of ''gpt-4-32k-0613'')\<lparr>cc_contextWindowTokens := Some 32768,
       cc_description := Some (tx 254), cc_displayName := Some ''GPT-4 32K 0613'',
       cc_functionCall := Some True, cc_pricing := Some (no_pricing\<lparr>price_input := Some 60,
       price_output := Some 120\<rparr>)\<rparr>,
     (chat_card_of ''gpt-3.5-turbo'')\<lparr>cc_contextWindowTokens := Some 16385,
       cc_description := Some (tx 266), cc_displayName := Some ''GPT-3.5 Turbo'',
       cc_functionCall := Some True, cc_pricing := Some (no_pricing\<lparr>price_input := Some 0.5,
       price_output := Some 1.5\<rparr>)\<rparr>,
     (chat_card_of ''gpt-3.5-turbo-0125'')\<lparr>cc_contextWindowTokens := Some 16385,
       cc_description := Some (tx 278), cc_displayName := Some ''GPT-3.5 Turbo 0125'',
       cc_functionCall := Some True, cc_pricing := Some (no_pricing\<lparr>price_input := Some 0.5,
       price_output := Some 1.5\<rparr>)\<rparr>,
     (chat_card_of ''gpt-3.5-turbo-1106'')\<lparr>cc_contextWindowTokens := Some 16385,
       cc_description := Some (tx 290), cc_displayName := Some ''GPT-3.5 Turbo 1106'',
       cc_functionCall := Some True, cc_pricing := Some (no_pricing\<lparr>price_input := Some 1,
       price_output := Some 2\<rparr>)\<rparr>]"

definition openai_chatModels_3 :: "texts \<Rightarrow> chat_card list" where
  [card_tables]: "openai_chatModels_3 tx = [
     (chat_card_of ''gpt-3.5-turbo-instruct'')\<lparr>cc_contextWindowTokens := Some 4096,
       cc_description := Some (tx 302), cc_displayName := Some ''GPT-3.5 Turbo Instruct'',
       cc_pricing := Some (no_pricing\<lparr>price_input := Some 1.5, price_output := Some 2\<rparr>)\<rparr>]"

definition openai_chatModels :: "texts \<Rightarrow> chat_card list" where
  [card_tables]: "openai_chatModels tx =
     openai_chatModels_1 tx @ openai_chatModels_2 tx @ openai_chatModels_3 tx"

definition OpenAIProvider :: "texts \<Rightarrow> provider_card" where
  [provider_cards]: "OpenAIProvider tx =
     (provider_of ''openai'' ''OpenAI'' ''https://openai.com'' (openai_chatModels tx))\<lparr>pcd_checkModel := Some ''gpt-4o-mini'',
       pcd_description := Some (tx 313), pcd_enabled := Some True,
       pcd_modelList := Some (no_model_list\<lparr>ml_showModelFetcher := Some True\<rparr>),
       pcd_modelsUrl := Some ''https://platform.openai.com/docs/models'',
       pcd_settings := plain_settings\<lparr>st_showModelFetcher := Some True,
       st_smoothing := Some (no_smoothing\<lparr>sm_text := Some True\<rparr>)\<rparr>\<rparr>"

section \<open>openrouter\<close>

definition openrouter_chatModels_1 :: "texts \<Rightarrow> chat_card list" where
  [card_tables]: "openrouter_chatModels_1 tx = [
     (chat_card_of ''openrouter/auto'')\<lparr>cc_contextWindowTokens := Some 128000,
       cc_description := Some (tx 9), cc_displayName := Some ''Auto (best for prompt)'',
       cc_enabled := Some True, cc_functionCall := Some False, cc_vision := Some False\<rparr>,
     (chat_card_of ''openai/o1-mini'')\<lparr>cc_contextWindowTokens := Some 128000,
       cc_description := Some (tx 19), cc_displayName := Some ''OpenAI o1-mini'',
       cc_enabled := Some True, cc_maxOutput := Some 65536,
       cc_pricing := Some (no_pricing\<lparr>price_input := Some 3, price_output := Some 12\<rparr>),
       cc_releasedAt := Some ''2024-09-12''\<rparr>,
     (chat_card_of ''openai/o1'')\<lparr>cc_contextWindowTokens := Some 200000,
       cc_description := Some (tx 33), cc_displayName := Some ''OpenAI o1'',
       cc_enabled := Some True, cc_maxOutput := Some 100000,
       cc_pricing := Some (no_pricing\<lparr>price_input := Some 15, price_output := Some 60\<rparr>),
       cc_releasedAt := Some ''2024-12-17'', cc_vision := Some True\<rparr>,
     (chat_card_of ''openai/o1-preview'')\<lparr>cc_contextWindowTokens := Some 128000,
       cc_description := Some (tx 48), cc_displayName := Some ''OpenAI o1-preview'',
       cc_enabled := Some True, cc_maxOutput := Some 32768,
       cc_pricing := Some (no_pricing\<lparr>price_input := Some 15, price_output := Some 60\<rparr>),
       cc_releasedAt := Some ''2024-09-12''\<rparr>,
     (chat_card_of ''openai/gpt-4o-mini'')\<lparr>cc_contextWindowTokens := Some 128000,
       cc_description := Some (tx 62), cc_displayName := Some ''GPT-4o mini'',
       cc_enabled := Some True, cc_functionCall := Some True, cc_maxOutput := Some 16385,
       cc_pricing := Some (no_pricing\<lparr>price_input := Some 0.15, price_output := Some 0.6\<rparr>),
       cc_vision := Some True\<rparr>,
     (chat_card_of ''openai/gpt-4o'')\<lparr>cc_contextWindowTokens := Some 128000,
       cc_description := Some (tx 77), cc_displayName := Some ''GPT-4o'', cc_enabled := Some True,
       cc_functionCall := Some True, cc_pricing := Some (no_pricing\<lparr>price_input := Some 2.5,
       price_output := Some 10\<rparr>), cc_vision := Some True\<rparr>,
     (chat_card_of ''anthropic/claude-3-haiku'')\<lparr>cc_contextWindowTokens := Some 200000,
       cc_description := Some (tx 91), cc_displayName := Some ''Claude 3 Haiku'',
       cc_enabled := Some True, cc_functionCall := Some True, cc_maxOutput := Some 4096,
       cc_pricing := Some (no_pricing\<lparr>price_cachedInput := Some 0.025, price_input := Some 0.25,
       price_output := Some 1.25, price_writeCacheInput := Some 0.3125\<rparr>),
       cc_releasedAt := Some ''2024-03-07'', cc_vision := Some True\<rparr>,
     (chat_card_of ''anthropic/claude-3.5-haiku'')\<lparr>cc_contextWindowTokens := Some 200000,
       cc_description := Some (tx 109), cc_displayName := Some ''Claude 3.5 Haiku'',
       cc_enabled := Some True, cc_functionCall := Some True, cc_maxOutput := Some 8192,
       cc_pricing := Some (no_pricing\<lparr>price_cachedInput := Some 0.1, price_input := Some 1,
       price_output := Some 5, price_writeCacheInput := Some 1.25\<rparr>),
       cc_releasedAt := Some ''2024-11-05''\<rparr>,
     (chat_card_of ''anthropic/claude-3.5-sonnet'')\<lparr>cc_contextWindowTokens := Some 200000,
       cc_description := Some (tx 126), cc_displayName := Some ''Claude 3.5 Sonnet'',
       cc_enabled := Some True, cc_functionCall := Some True, cc_maxOutput := Some 8192,
       cc_pricing := Some (no_pricing\<lparr>price_cachedInput := Some 0.3, price_input := Some 3,
       price_output := Some 15, price_writeCacheInput := Some 3.75\<rparr>),
       cc_releasedAt := Some ''2024-06-20'', cc_vision := Some True\<rparr>]"

definition openrouter_chatModels_2 :: "texts \<Rightarrow> chat_card list" where
  [card_tables]: "openrouter_chatModels_2 tx = [
     (chat_card_of ''anthropic/claude-3-opus'')\<lparr>cc_contextWindowTokens := Some 200000,
       cc_description := Some (tx 144), cc_displayName := Some ''Claude 3 Opus'',
       cc_enabled := Some True, cc_functionCall := Some True, cc_maxOutput := Some 4096,
       cc_pricing := Some (no_pricing\<lparr>price_cachedInput := Some 1.5, price_input := Some 15,
       price_output := Some 75, price_writeCacheInput := Some 18.75\<rparr>),
       cc_releasedAt := Some ''2024-02-29'', cc_vision := Some True\<rparr>,
     (chat_card_of ''google/gemini-flash-1.5'')\<lparr>cc_contextWindowTokens := Some (1000000 + 8192),
       cc_description := Some (tx 161), cc_displayName := Some ''Gemini 1.5 Flash'',
       cc_enabled := Some True, cc_functionCall := Some True, cc_maxOutput := Some 8192,
       cc_pricing := Some (no_pricing\<lparr>price_input := Some 0.075, price_output := Some 0.3\<rparr>),
       cc_vision := Some True\<rparr>,
     (chat_card_of ''google/gemini-2.0-flash-001'')\<lparr>cc_contextWindowTokens := Some (1048576 + 8192),
       cc_description := Some (tx 176), cc_displayName := Some ''Gemini 2.0 Flash'',
       cc_enabled := Some True, cc_functionCall := Some True, cc_maxOutput := Some 8192,
       cc_pricing := Some (no_pricing\<lparr>price_cachedInput := Some 0.025, price_input := Some 0.1,
       price_output := Some 0.4\<rparr>), cc_releasedAt := Some ''2025-02-05'', cc_vision := Some True\<rparr>,
     (chat_card_of ''google/gemini-pro-1.5'')\<lparr>cc_contextWindowTokens := Some (2000000 + 8192),
       cc_description := Some (tx 192), cc_displayName := Some ''Gemini 1.5 Pro'',
       cc_enabled := Some True, cc_functionCall := Some True, cc_maxOutput := Some 8192,
       cc_pricing := Some (no_pricing\<lparr>price_input := Some 3.5, price_output := Some 10.5\<rparr>),
       cc_vision := Some True\<rparr>,
     (chat_card_of ''deepseek/deepseek-chat'')\<lparr>cc_contextWindowTokens := Some 128000,
       cc_description := Some (tx 207), cc_displayName := Some ''DeepSeek V2.5'',
       cc_enabled := Some True, cc_functionCall := Some True,
       cc_pricing := Some (no_pricing\<lparr>price_input := Some 0.14, price_output := Some 0.28\<rparr>),
       cc_releasedAt := Some ''2024-09-05''\<rparr>,
     (chat_card_of ''deepseek/deepseek-r1'')\<lparr>cc_contextWindowTokens := Some 163840,
       cc_description := Some ''DeepSeek-R1'', cc_displayName := Some ''DeepSeek R1'',
       cc_enabled := Some True, cc_functionCall := Some False,
       cc_pricing := Some (no_pricing\<lparr>price_input := Some 3, price_output := Some 8\<rparr>),
       cc_releasedAt := Some ''2025-01-20''\<rparr>,
     (chat_card_of ''deepseek/deepseek-r1:free'')\<lparr>cc_contextWindowTokens := Some 163840,
       cc_description := Some ''DeepSeek-R1'', cc_displayName := Some ''DeepSeek R1 (Free)'',
       cc_enabled := Some True, cc_functionCall := Some False, cc_releasedAt := Some ''2025-01-20''\<rparr>,
     (chat_card_of ''meta-llama/llama-3.2-11b-vision-instruct'')\<lparr>cc_contextWindowTokens := Some 131072,
       cc_description := Some (tx 243), cc_displayName := Some ''Llama 3.2 11B Vision'',
       cc_enabled := Some True, cc_pricing := Some (no_pricing\<lparr>price_input := Some 0.162,
       price_output := Some 0.162\<rparr>), cc_vision := Some True\<rparr>,
     (chat_card_of ''meta-llama/llama-3.2-90b-vision-instruct'')\<lparr>cc_contextWindowTokens := Some 131072,
       cc_description := Some (tx 256), cc_displayName := Some ''Llama 3.2 90B Vision'',
       cc_enabled := Some True, cc_pricing := Some (no_pricing\<lparr>price_input := Some 0.4,
       price_output := Some 0.4\<rparr>), cc_vision := Some True\<rparr>,
     (chat_card_of ''meta-llama/llama-3.3-70b-instruct'')\<lparr>cc_contextWindowTokens := Some 32768,
       cc_description := Some (tx 269), cc_displayName := Some ''Llama 3.3 70B Instruct'',
       cc_enabled := Some True, cc_functionCall := Some True,
       cc_pricing := Some (no_pricing\<lparr>price_input := Some 0.12, price_output := Some 0.3\<rparr>)\<rparr>,
     (chat_card_of ''meta-llama/llama-3.3-70b-instruct:free'')\<lparr>cc_contextWindowTokens := Some 32768,
       cc_description := Some (tx 282), cc_displayName := Some ''Llama 3.3 70B Instruct (Free)'',
       cc_enabled := Some True, cc_functionCall := Some True\<rparr>]"

definition openrouter_chatModels_3 :: "texts \<Rightarrow> chat_card list" where
  [card_tables]: "openrouter_chatModels_3 tx = [
     (chat_card_of ''qwen/qwen-2-7b-instruct:free'')\<lparr>cc_contextWindowTokens := Some 32768,
       cc_description := Some (tx 290), cc_displayName := Some ''Qwen2 7B (Free)'',
       cc_enabled := Some True\<rparr>,
     (chat_card_of ''meta-llama/llama-3.1-8b-instruct:free'')\<lparr>cc_contextWindowTokens := Some 32768,
       cc_description := Some (tx 297), cc_displayName := Some ''Llama 3.1 8B (Free)'',
       cc_enabled := Some True\<rparr>,
     (chat_card_of ''google/gemma-2-9b-it:free'')\<lparr>cc_contextWindowTokens := Some 8192,
       cc_description := Some (tx 304), cc_displayName := Some ''Gemma 2 9B (Free)'',
       cc_enabled := Some True\<rparr>,
     (chat_card_of ''google/gemini-2.0-pro-exp-02-05:free'')\<lparr>cc_contextWindowTokens := Some (2097152 + 8192),
       cc_description := Some (tx 312),
       cc_displayName := Some ''Gemini 2.0 Pro Experimental 02-05 (Free)'', cc_enabled := Some True,
       cc_functionCall := Some True, cc_maxOutput := Some 8192,
       cc_releasedAt := Some ''2025-02-05'', cc_vision := Some True\<rparr>]"

definition openrouter_chatModels :: "texts \<Rightarrow> chat_card list" where
  [card_tables]: "openrouter_chatModels tx =
     openrouter_chatModels_1 tx @ openrouter_chatModels_2 tx @ openrouter_chatModels_3 tx"

definition OpenRouterProvider :: "texts \<Rightarrow> provider_card" where
  [provider_cards]: "OpenRouterProvider tx =
     (provider_of ''openrouter'' ''OpenRouter'' ''https://openrouter.ai'' (openrouter_chatModels tx))\<lparr>pcd_checkModel := Some ''google/gemma-2-9b-it:free'',
       pcd_description := Some (tx 324),
       pcd_modelList := Some (no_model_list\<lparr>ml_showModelFetcher := Some True\<rparr>),
       pcd_modelsUrl := Some ''https://openrouter.ai/models'',
       pcd_proxyUrl := Some (Proxy_hint None ''https://openrouter.ai/api/v1'' None),
       pcd_settings := plain_settings\<lparr>st_disableBrowserRequest := Some True,
       st_proxyUrl := Some (Proxy_hint None ''https://openrouter.ai/api/v1'' None),
       st_sdkType := Some ''openai'', st_searchMode := Some ''params'',
       st_showModelFetcher := Some True\<rparr>\<rparr>"

section \<open>perplexity\<close>

definition perplexity_chatModels :: "texts \<Rightarrow> chat_card list" where
  [card_tables]: "perplexity_chatModels tx = [
     (chat_card_of ''sonar-reasoning'')\<lparr>cc_contextWindowTokens := Some 127072,
       cc_description := Some (tx 8), cc_displayName := Some ''Sonar Reasoning'',
       cc_enabled := Some True\<rparr>,
     (chat_card_of ''sonar-pro'')\<lparr>cc_contextWindowTokens := Some 200000,
       cc_description := Some (tx 15), cc_displayName := Some ''Sonar Pro'',
       cc_enabled := Some True\<rparr>,
     (chat_card_of ''sonar'')\<lparr>cc_contextWindowTokens := Some 127072,
       cc_description := Some (tx 22), cc_displayName := Some ''Sonar'', cc_enabled := Some True\<rparr>,
     (chat_card_of ''llama-3.1-sonar-small-128k-online'')\<lparr>cc_contextWindowTokens := Some 127072,
       cc_description := Some (tx 31), cc_displayName := Some ''Llama 3.1 Sonar Small Online''\<rparr>,
     (chat_card_of ''llama-3.1-sonar-large-128k-online'')\<lparr>cc_contextWindowTokens := Some 127072,
       cc_description := Some (tx 38), cc_displayName := Some ''Llama 3.1 Sonar Large Online''\<rparr>,
     (chat_card_of ''llama-3.1-sonar-huge-128k-online'')\<lparr>cc_contextWindowTokens := Some 127072,
       cc_description := Some (tx 45), cc_displayName := Some ''Llama 3.1 Sonar Huge Online''\<rparr>]"

definition PerplexityProvider :: "texts \<Rightarrow> provider_card" where
  [provider_cards]: "PerplexityProvider tx =
     (provider_of ''perplexity'' ''Perplexity'' ''https://www.perplexity.ai'' (perplexity_chatModels tx))\<lparr>pcd_checkModel := Some ''sonar'',
       pcd_description := Some (tx 52),
       pcd_modelsUrl := Some ''https://docs.perplexity.ai/guides/model-cards'',
       pcd_proxyUrl := Some (Proxy_hint None ''https://api.perplexity.ai'' None),
       pcd_settings := plain_settings\<lparr>st_disableBrowserRequest := Some True,
       st_proxyUrl := Some (Proxy_hint None ''https://api.perplexity.ai'' None),
       st_sdkType := Some ''openai'', st_smoothing := Some (no_smoothing\<lparr>sm_speed := Some 2,
       sm_text := Some True\<rparr>)\<rparr>\<rparr>"

section \<open>ppio\<close>

definition ppio_chatModels_1 :: "texts \<Rightarrow> chat_card list" where
  [card_tables]: "ppio_chatModels_1 tx = [
     (chat_card_of ''deepseek/deepseek-r1/community'')\<lparr>cc_contextWindowTokens := Some 64000,
       cc_description := Some (tx 8), cc_displayName := Some ''DeepSeek: DeepSeek R1 (community)'',
       cc_enabled := Some True, cc_pricing := Some (no_pricing\<lparr>price_currency := Some CNY,
       price_input := Some 4, price_output := Some 16\<rparr>)\<rparr>,
     (chat_card_of ''deepseek/deepseek-v3/community'')\<lparr>cc_contextWindowTokens := Some 64000,
       cc_description := Some (tx 21), cc_displayName := Some ''DeepSeek: DeepSeek V3 (community)'',
       cc_enabled := Some True, cc_pricing := Some (no_pricing\<lparr>price_currency := Some CNY,
       price_input := Some 1, price_output := Some 2\<rparr>)\<rparr>,
     (chat_card_of ''deepseek/deepseek-r1'')\<lparr>cc_contextWindowTokens := Some 64000,
       cc_description := Some (tx 34), cc_displayName := Some ''DeepSeek R1'',
       cc_enabled := Some True, cc_pricing := Some (no_pricing\<lparr>price_currency := Some CNY,
       price_input := Some 4, price_output := Some 16\<rparr>)\<rparr>,
     (chat_card_of ''deepseek/deepseek-v3'')\<lparr>cc_contextWindowTokens := Some 64000,
       cc_description := Some (tx 47), cc_displayName := Some ''DeepSeek V3'',
       cc_enabled := Some True, cc_pricing := Some (no_pricing\<lparr>price_currency := Some CNY,
       price_input := Some 1, price_output := Some 2\<rparr>)\<rparr>,
     (chat_card_of ''deepseek/deepseek-r1-distill-llama-70b'')\<lparr>cc_contextWindowTokens := Some 32000,
       cc_description := Some (tx 60), cc_displayName := Some ''DeepSeek R1 Distill Llama 70B'',
       cc_enabled := Some True, cc_pricing := Some (no_pricing\<lparr>price_currency := Some CNY,
       price_input := Some 5.8, price_output := Some 5.8\<rparr>)\<rparr>,
     (chat_card_of ''deepseek/deepseek-r1-distill-qwen-32b'')\<lparr>cc_contextWindowTokens := Some 64000,
       cc_description := Some (tx 73),
       cc_displayName := Some ''DeepSeek: DeepSeek R1 Distill Qwen 32B'', cc_enabled := Some True,
       cc_pricing := Some (no_pricing\<lparr>price_currency := Some CNY, price_input := Some 2.18,
       price_output := Some 2.18\<rparr>)\<rparr>,
     (chat_card_of ''deepseek/deepseek-r1-distill-qwen-14b'')\<lparr>cc_contextWindowTokens := Some 64000,
       cc_description := Some (tx 86),
       cc_displayName := Some ''DeepSeek: DeepSeek R1 Distill Qwen 14B'', cc_enabled := Some True,
       cc_pricing := Some (no_pricing\<lparr>price_currency := Some CNY, price_input := Some 1,
       price_output := Some 1\<rparr>)\<rparr>,
     (chat_card_of ''deepseek/deepseek-r1-distill-llama-8b'')\<lparr>cc_contextWindowTokens := Some 32000,
       cc_description := Some (tx 99),
       cc_displayName := Some ''DeepSeek: DeepSeek R1 Distill Llama 8B'', cc_enabled := Some True,
       cc_pricing := Some (no_pricing\<lparr>price_currency := Some CNY, price_input := Some 0.3,
       price_output := Some 0.3\<rparr>)\<rparr>,
     (chat_card_of ''qwen/qwen-2.5-72b-instruct'')\<lparr>cc_contextWindowTokens := Some 32768,
       cc_description := Some (tx 112), cc_displayName := Some ''qwen/qwen-2.5-72b-instruct'',
       cc_enabled := Some True, cc_pricing := Some (no_pricing\<lparr>price_currency := Some CNY,
       price_input := Some 2.75, price_output := Some 2.88\<rparr>)\<rparr>,
     (chat_card_of ''qwen/qwen-2-vl-72b-instruct'')\<lparr>cc_contextWindowTokens := Some 32768,
       cc_description := Some (tx 125), cc_displayName := Some ''qwen/qwen-2-vl-72b-instruct'',
       cc_enabled := Some True, cc_pricing := Some (no_pricing\<lparr>price_currency := Some CNY,
       price_input := Some 4.5, price_output := Some 4.5\<rparr>)\<rparr>,
     (chat_card_of ''meta-llama/llama-3.2-3b-instruct'')\<lparr>cc_contextWindowTokens := Some 32768,
       cc_description := Some ''meta-llama/llama-3.2-3b-instruct'',
       cc_displayName := Some ''meta-llama/llama-3.2-3b-instruct'', cc_enabled := Some True,
       cc_pricing := Some (no_pricing\<lparr>price_currency := Some CNY, price_input := Some 0.216,
       price_output := Some 0.36\<rparr>)\<rparr>]"

definition ppio_chatModels_2 :: "texts \<Rightarrow> chat_card list" where
  [card_tables]: "ppio_chatModels_2 tx = [
     (chat_card_of ''qwen/qwen2.5-32b-instruct'')\<lparr>cc_contextWindowTokens := Some 32000,
       cc_description := Some (tx 150), cc_displayName := Some ''qwen/qwen2.5-32b-instruct'',
       cc_enabled := Some True, cc_pricing := Some (no_pricing\<lparr>price_currency := Some CNY,
       price_input := Some 1.26, price_output := Some 1.26\<rparr>)\<rparr>,
     (chat_card_of ''baichuan/baichuan2-13b-chat'')\<lparr>cc_contextWindowTokens := Some 14336,
       cc_description := Some (tx 163), cc_displayName := Some ''baichuan/baichuan2-13b-chat'',
       cc_enabled := Some True, cc_pricing := Some (no_pricing\<lparr>price_currency := Some CNY,
       price_input := Some 1.75, price_output := Some 1.75\<rparr>)\<rparr>,
     (chat_card_of ''meta-llama/llama-3.1-70b-instruct'')\<lparr>cc_contextWindowTokens := Some 32768,
       cc_description := Some (tx 176),
       cc_displayName := Some ''meta-llama/llama-3.1-70b-instruct'', cc_enabled := Some True,
       cc_pricing := Some (no_pricing\<lparr>price_currency := Some CNY, price_input := Some 2.45,
       price_output := Some 2.82\<rparr>)\<rparr>,
     (chat_card_of ''meta-llama/llama-3.1-8b-instruct'')\<lparr>cc_contextWindowTokens := Some 32768,
       cc_description := Some (tx 189), cc_displayName := Some ''meta-llama/llama-3.1-8b-instruct'',
       cc_enabled := Some True, cc_pricing := Some (no_pricing\<lparr>price_currency := Some CNY,
       price_input := Some 0.4, price_output := Some 0.4\<rparr>)\<rparr>,
     (chat_card_of ''01-ai/yi-1.5-34b-chat'')\<lparr>cc_contextWindowTokens := Some 16384,
       cc_description := Some (tx 202), cc_displayName := Some ''01-ai/yi-1.5-34b-chat'',
       cc_enabled := Some True, cc_pricing := Some (no_pricing\<lparr>price_currency := Some CNY,
       price_input := Some 1.1, price_output := Some 1.1\<rparr>)\<rparr>,
     (chat_card_of ''01-ai/yi-1.5-9b-chat'')\<lparr>cc_contextWindowTokens := Some 16384,
       cc_description := Some (tx 215), cc_displayName := Some ''01-ai/yi-1.5-9b-chat'',
       cc_enabled := Some True, cc_pricing := Some (no_pricing\<lparr>price_currency := Some CNY,
       price_input := Some 0.4, price_output := Some 0.4\<rparr>)\<rparr>,
     (chat_card_of ''thudm/glm-4-9b-chat'')\<lparr>cc_contextWindowTokens := Some 32768,
       cc_description := Some (tx 227), cc_displayName := Some ''thudm/glm-4-9b-chat'',
       cc_enabled := Some True, cc_pricing := Some (no_pricing\<lparr>price_currency := Some CNY,
       price_input := Some 0.5, price_output := Some 0.5\<rparr>)\<rparr>,
     (chat_card_of ''qwen/qwen-2-7b-instruct'')\<lparr>cc_contextWindowTokens := Some 32768,
       cc_description := Some (tx 240), cc_displayName := Some ''qwen/qwen-2-7b-instruct'',
       cc_enabled := Some True, cc_pricing := Some (no_pricing\<lparr>price_currency := Some CNY,
       price_input := Some 0.32, price_output := Some 0.32\<rparr>)\<rparr>]"

definition ppio_chatModels :: "texts \<Rightarrow> chat_card list" where
  [card_tables]: "ppio_chatModels tx =
     ppio_chatModels_1 tx @ ppio_chatModels_2 tx"

definition PPIOProvider :: "texts \<Rightarrow> provider_card" where
  [provider_cards]: "PPIOProvider tx =
     (provider_of ''ppio'' ''PPIO'' ''https://ppinfra.com/user/register?invited_by=RQIMOC&utm_source=github_lobechat'' (ppio_chatModels tx))\<lparr>pcd_checkModel := Some ''deepseek/deepseek-r1-distill-qwen-32b'',
       pcd_description := Some (tx 253), pcd_disableBrowserRequest := Some True,
       pcd_modelList := Some (no_model_list\<lparr>ml_showModelFetcher := Some True\<rparr>),
       pcd_modelsUrl := Some ''https://ppinfra.com/llm-api?utm_source=github_lobe-chat&utm_medium=github_readme&utm_campaign=link'',
       pcd_settings := plain_settings\<lparr>st_disableBrowserRequest := Some True,
       st_sdkType := Some ''openai'', st_showModelFetcher := Some True\<rparr>\<rparr>"

section \<open>qiniu\<close>

definition qiniu_chatModels :: "texts \<Rightarrow> chat_card list" where
  [card_tables]: "qiniu_chatModels tx = [
     (chat_card_of ''deepseek-v3'')\<lparr>cc_contextWindowTokens := Some 131072,
       cc_description := Some (tx 9), cc_displayName := Some ''DeepSeek V3'',
       cc_enabled := Some True\<rparr>,
     (chat_card_of ''deepseek-r1'')\<lparr>cc_contextWindowTokens := Some 65536,
       cc_description := Some (tx 17), cc_displayName := Some ''DeepSeek R1'',
       cc_enabled := Some True\<rparr>]"

definition QiniuProvider :: "texts \<Rightarrow> provider_card" where
  [provider_cards]: "QiniuProvider tx =
     (provider_of ''qiniu'' ''Qiniu'' ''https://www.qiniu.com'' (qiniu_chatModels tx))\<lparr>pcd_checkModel := Some ''deepseek-r1'',
       pcd_description := Some (tx 24),
       pcd_modelList := Some (no_model_list\<lparr>ml_showModelFetcher := Some True\<rparr>),
       pcd_modelsUrl := Some ''https://developer.qiniu.com/aitokenapi/12882/ai-inference-api'',
       pcd_proxyUrl := Some (Proxy_hint None ''https://api.qnaigc.com/v1'' None),
       pcd_settings := plain_settings\<lparr>st_proxyUrl := Some (Proxy_hint None ''https://api.qnaigc.com/v1'' None),
       st_sdkType := Some ''openai'', st_showModelFetcher := Some True\<rparr>\<rparr>"

section \<open>qwen\<close>

definition qwen_chatModels_1 :: "texts \<Rightarrow> chat_card list" where
  [card_tables]: "qwen_chatModels_1 tx = [
     (chat_card_of ''qwen-turbo-latest'')\<lparr>cc_contextWindowTokens := Some 1000000,
       cc_description := Some (tx 8), cc_displayName := Some ''Qwen Turbo'',
       cc_enabled := Some True, cc_functionCall := Some True,
       cc_pricing := Some (no_pricing\<lparr>price_currency := Some CNY, price_input := Some 0.3,
       price_output := Some 0.6\<rparr>)\<rparr>,
     (chat_card_of ''qwen-plus-latest'')\<lparr>cc_contextWindowTokens := Some 131072,
       cc_description := Some (tx 21), cc_displayName := Some ''Qwen Plus'',
       cc_enabled := Some True, cc_functionCall := Some True,
       cc_pricing := Some (no_pricing\<lparr>price_currency := Some CNY, price_input := Some 0.8,
       price_output := Some 2\<rparr>)\<rparr>,
     (chat_card_of ''qwen-max-latest'')\<lparr>cc_contextWindowTokens := Some 32768,
       cc_description := Some (tx 35), cc_displayName := Some ''Qwen Max'', cc_enabled := Some True,
       cc_functionCall := Some True, cc_pricing := Some (no_pricing\<lparr>price_currency := Some CNY,
       price_input := Some 20, price_output := Some 60\<rparr>)\<rparr>,
     (chat_card_of ''qwen-long'')\<lparr>cc_contextWindowTokens := Some 1000000,
       cc_description := Some (tx 49), cc_displayName := Some ''Qwen Long'',
       cc_pricing := Some (no_pricing\<lparr>price_currency := Some CNY, price_input := Some 0.5,
       price_output := Some 2\<rparr>)\<rparr>,
     (chat_card_of ''qwen-vl-plus-latest'')\<lparr>cc_contextWindowTokens := Some 32000,
       cc_description := Some (tx 61), cc_displayName := Some ''Qwen VL Plus'',
       cc_enabled := Some True, cc_pricing := Some (no_pricing\<lparr>price_currency := Some CNY,
       price_input := Some 1.5, price_output := Some 4.5\<rparr>), cc_vision := Some True\<rparr>,
     (chat_card_of ''qwen-vl-max-latest'')\<lparr>cc_contextWindowTokens := Some 32768,
       cc_description := Some (tx 75), cc_displayName := Some ''Qwen VL Max'',
       cc_enabled := Some True, cc_pricing := Some (no_pricing\<lparr>price_currency := Some CNY,
       price_input := Some 3, price_output := Some 9\<rparr>), cc_vision := Some True\<rparr>,
     (chat_card_of ''qwen-vl-ocr-latest'')\<lparr>cc_contextWindowTokens := Some 34096,
       cc_description := Some (tx 89), cc_displayName := Some ''Qwen VL OCR'',
       cc_pricing := Some (no_pricing\<lparr>price_currency := Some CNY, price_input := Some 5,
       price_output := Some 5\<rparr>), cc_vision := Some True\<rparr>,
     (chat_card_of ''qwen-math-turbo-latest'')\<lparr>cc_contextWindowTokens := Some 4096,
       cc_description := Some (tx 101), cc_displayName := Some ''Qwen Math Turbo'',
       cc_pricing := Some (no_pricing\<lparr>price_currency := Some CNY, price_input := Some 2,
       price_output := Some 6\<rparr>)\<rparr>,
     (chat_card_of ''qwen-math-plus-latest'')\<lparr>cc_contextWindowTokens := Some 4096,
       cc_description := Some (tx 112), cc_displayName := Some ''Qwen Math Plus'',
       cc_pricing := Some (no_pricing\<lparr>price_currency := Some CNY, price_input := Some 4,
       price_output := Some 12\<rparr>)\<rparr>,
     (chat_card_of ''qwen-coder-turbo-latest'')\<lparr>cc_contextWindowTokens := Some 131072,
       cc_description := Some (tx 123), cc_displayName := Some ''Qwen Coder Turbo'',
       cc_pricing := Some (no_pricing\<lparr>price_currency := Some CNY, price_input := Some 2,
       price_output := Some 6\<rparr>)\<rparr>,
     (chat_card_of ''qwen-coder-plus-latest'')\<lparr>cc_contextWindowTokens := Some 131072,
       cc_description := Some (tx 134), cc_displayName := Some ''Qwen Coder Plus'',
       cc_pricing := Some (no_pricing\<lparr>price_currency := Some CNY, price_input := Some 3.5,
       price_output := Some 7\<rparr>)\<rparr>,
     (chat_card_of ''qwq-32b-preview'')\<lparr>cc_contextWindowTokens := Some 32768,
       cc_description := Some (tx 145), cc_displayName := Some ''QwQ 32B Preview'',
       cc_pricing := Some (no_pricing\<lparr>price_currency := Some CNY, price_input := Some 3.5,
       price_output := Some 7\<rparr>)\<rparr>]"

definition qwen_chatModels_2 :: "texts \<Rightarrow> chat_card list" where
  [card_tables]: "qwen_chatModels_2 tx = [
     (chat_card_of ''qvq-72b-preview'')\<lparr>cc_contextWindowTokens := Some 32768,
       cc_description := Some (tx 157), cc_displayName := Some ''QVQ 72B Preview'',
       cc_pricing := Some (no_pricing\<lparr>price_currency := Some CNY, price_input := Some 12,
       price_output := Some 36\<rparr>), cc_releasedAt := Some ''2024-12-25'', cc_vision := Some True\<rparr>,
     (chat_card_of ''qwen2.5-7b-instruct'')\<lparr>cc_contextWindowTokens := Some 131072,
       cc_description := Some (tx 170), cc_displayName := Some ''Qwen2.5 7B'',
       cc_functionCall := Some True, cc_pricing := Some (no_pricing\<lparr>price_currency := Some CNY,
       price_input := Some 0.5, price_output := Some 1\<rparr>)\<rparr>,
     (chat_card_of ''qwen2.5-14b-instruct'')\<lparr>cc_contextWindowTokens := Some 131072,
       cc_description := Some (tx 182), cc_displayName := Some ''Qwen2.5 14B'',
       cc_functionCall := Some True, cc_pricing := Some (no_pricing\<lparr>price_currency := Some CNY,
       price_input := Some 1, price_output := Some 3\<rparr>)\<rparr>,
     (chat_card_of ''qwen2.5-32b-instruct'')\<lparr>cc_contextWindowTokens := Some 131072,
       cc_description := Some (tx 194), cc_displayName := Some ''Qwen2.5 32B'',
       cc_functionCall := Some True, cc_pricing := Some (no_pricing\<lparr>price_currency := Some CNY,
       price_input := Some 3.5, price_output := Some 7\<rparr>)\<rparr>,
     (chat_card_of ''qwen2.5-72b-instruct'')\<lparr>cc_contextWindowTokens := Some 131072,
       cc_description := Some (tx 206), cc_displayName := Some ''Qwen2.5 72B'',
       cc_functionCall := Some True, cc_pricing := Some (no_pricing\<lparr>price_currency := Some CNY,
       price_input := Some 4, price_output := Some 12\<rparr>)\<rparr>,
     (chat_card_of ''qwen2.5-14b-instruct-1m'')\<lparr>cc_contextWindowTokens := Some 1000000,
       cc_description := Some (tx 218), cc_displayName := Some ''Qwen2.5 14B 1M'',
       cc_functionCall := Some True, cc_pricing := Some (no_pricing\<lparr>price_currency := Some CNY,
       price_input := Some 1, price_output := Some 3\<rparr>)\<rparr>,
     (chat_card_of ''qwen2.5-math-7b-instruct'')\<lparr>cc_contextWindowTokens := Some 4096,
       cc_description := Some (tx 230), cc_displayName := Some ''Qwen2.5 Math 7B'',
       cc_pricing := Some (no_pricing\<lparr>price_currency := Some CNY, price_input := Some 1,
       price_output := Some 2\<rparr>)\<rparr>,
     (chat_card_of ''qwen2.5-math-72b-instruct'')\<lparr>cc_contextWindowTokens := Some 4096,
       cc_description := Some (tx 241), cc_displayName := Some ''Qwen2.5 Math 72B'',
       cc_pricing := Some (no_pricing\<lparr>price_currency := Some CNY, price_input := Some 4,
       price_output := Some 12\<rparr>)\<rparr>,
     (chat_card_of ''qwen2.5-coder-7b-instruct'')\<lparr>cc_contextWindowTokens := Some 131072,
       cc_description := Some (tx 252), cc_displayName := Some ''Qwen2.5 Coder 7B'',
       cc_pricing := Some (no_pricing\<lparr>price_currency := Some CNY, price_input := Some 1,
       price_output := Some 2\<rparr>)\<rparr>,
     (chat_card_of ''qwen2.5-coder-32b-instruct'')\<lparr>cc_contextWindowTokens := Some 131072,
       cc_description := Some (tx 263), cc_displayName := Some ''Qwen2.5 Coder 32B'',
       cc_pricing := Some (no_pricing\<lparr>price_currency := Some CNY, price_input := Some 3.5,
       price_output := Some 7\<rparr>)\<rparr>,
     (chat_card_of ''qwen-vl-v1'')\<lparr>cc_contextWindowTokens := Some 8000,
       cc_description := Some (tx 274), cc_displayName := Some ''Qwen VL'',
       cc_pricing := Some (no_pricing\<lparr>price_currency := Some CNY, price_input := Some 0,
       price_output := Some 0\<rparr>), cc_vision := Some True\<rparr>,
     (chat_card_of ''qwen-vl-chat-v1'')\<lparr>cc_contextWindowTokens := Some 8000,
       cc_description := Some (tx 286), cc_displayName := Some ''Qwen VL Chat'',
       cc_pricing := Some (no_pricing\<lparr>price_currency := Some CNY, price_input := Some 0,
       price_output := Some 0\<rparr>), cc_vision := Some True\<rparr>]"

definition qwen_chatModels_3 :: "texts \<Rightarrow> chat_card list" where
  [card_tables]: "qwen_chatModels_3 tx = [
     (chat_card_of ''qwen2.5-vl-72b-instruct'')\<lparr>cc_contextWindowTokens := Some 128000,
       cc_description := Some (tx 299), cc_displayName := Some ''Qwen2.5 VL 72B'',
       cc_pricing := Some (no_pricing\<lparr>price_currency := Some CNY, price_input := Some 16,
       price_output := Some 48\<rparr>), cc_releasedAt := Some ''2025-01-26'', cc_vision := Some True\<rparr>,
     (chat_card_of ''deepseek-r1'')\<lparr>cc_contextWindowTokens := Some 131072,
       cc_description := Some (tx 313), cc_displayName := Some ''DeepSeek R1'',
       cc_pricing := Some (no_pricing\<lparr>price_currency := Some CNY, price_input := Some 0,
       price_output := Some 0\<rparr>), cc_releasedAt := Some ''2025-01-27''\<rparr>,
     (chat_card_of ''deepseek-v3'')\<lparr>cc_contextWindowTokens := Some 131072,
       cc_description := Some (tx 326), cc_displayName := Some ''DeepSeek V3'',
       cc_pricing := Some (no_pricing\<lparr>price_currency := Some CNY, price_input := Some 0,
       price_output := Some 0\<rparr>), cc_releasedAt := Some ''2025-01-27''\<rparr>,
     (chat_card_of ''deepseek-r1-distill-qwen-1.5b'')\<lparr>cc_contextWindowTokens := Some 131072,
       cc_description := Some (tx 339), cc_displayName := Some ''DeepSeek R1 Distill Qwen 1.5B'',
       cc_pricing := Some (no_pricing\<lparr>price_currency := Some CNY, price_input := Some 0,
       price_output := Some 0\<rparr>), cc_releasedAt := Some ''2025-02-05''\<rparr>,
     (chat_card_of ''deepseek-r1-distill-qwen-7b'')\<lparr>cc_contextWindowTokens := Some 131072,
       cc_description := Some (tx 352), cc_displayName := Some ''DeepSeek R1 Distill Qwen 7B'',
       cc_pricing := Some (no_pricing\<lparr>price_currency := Some CNY, price_input := Some 0,
       price_output := Some 0\<rparr>), cc_releasedAt := Some ''2025-02-05''\<rparr>,
     (chat_card_of ''deepseek-r1-distill-qwen-14b'')\<lparr>cc_contextWindowTokens := Some 131072,
       cc_description := Some (tx 365), cc_displayName := Some ''DeepSeek R1 Distill Qwen 14B'',
       cc_pricing := Some (no_pricing\<lparr>price_currency := Some CNY, price_input := Some 0,
       price_output := Some 0\<rparr>), cc_releasedAt := Some ''2025-02-05''\<rparr>,
     (chat_card_of ''deepseek-r1-distill-qwen-32b'')\<lparr>cc_contextWindowTokens := Some 131072,
       cc_description := Some (tx 378), cc_displayName := Some ''DeepSeek R1 Distill Qwen 32B'',
       cc_pricing := Some (no_pricing\<lparr>price_currency := Some CNY, price_input := Some 0,
       price_output := Some 0\<rparr>), cc_releasedAt := Some ''2025-02-05''\<rparr>,
     (chat_card_of ''deepseek-r1-distill-llama-8b'')\<lparr>cc_contextWindowTokens := Some 131072,
       cc_description := Some (tx 391), cc_displayName := Some ''DeepSeek R1 Distill Llama 8B'',
       cc_pricing := Some (no_pricing\<lparr>price_currency := Some CNY, price_input := Some 0,
       price_output := Some 0\<rparr>), cc_releasedAt := Some ''2025-02-05''\<rparr>,
     (chat_card_of ''deepseek-r1-distill-llama-70b'')\<lparr>cc_contextWindowTokens := Some 131072,
       cc_description := Some (tx 404), cc_displayName := Some ''DeepSeek R1 Distill Llama 70B'',
       cc_pricing := Some (no_pricing\<lparr>price_currency := Some CNY, price_input := Some 0,
       price_output := Some 0\<rparr>), cc_releasedAt := Some ''2025-02-05''\<rparr>]"

definition qwen_chatModels :: "texts \<Rightarrow> chat_card list" where
  [card_tables]: "qwen_chatModels tx =
     qwen_chatModels_1 tx @ qwen_chatModels_2 tx @ qwen_chatModels_3 tx"

definition QwenProvider :: "texts \<Rightarrow> provider_card" where
  [provider_cards]: "QwenProvider tx =
     (provider_of ''qwen'' ''Qwen'' ''https://www.aliyun.com/product/bailian'' (qwen_chatModels tx))\<lparr>pcd_checkModel := Some ''qwen-turbo-latest'',
       pcd_description := Some (tx 417), pcd_disableBrowserRequest := Some True,
       pcd_modelList := Some (no_model_list\<lparr>ml_showModelFetcher := Some True\<rparr>),
       pcd_modelsUrl := Some ''https://help.aliyun.com/zh/dashscope/developer-reference/api-details'',
       pcd_proxyUrl := Some (Proxy_hint None ''https://dashscope.aliyuncs.com/compatible-mode/v1'' None),
       pcd_settings := plain_settings\<lparr>st_disableBrowserRequest := Some True,
       st_proxyUrl := Some (Proxy_hint None ''https://dashscope.aliyuncs.com/compatible-mode/v1'' None),
       st_sdkType := Some ''openai'', st_showModelFetcher := Some True,
       st_smoothing := Some (no_smoothing\<lparr>sm_speed := Some 2, sm_text := Some True\<rparr>)\<rparr>,
       pcd_smoothing := Some (no_smoothing\<lparr>sm_speed := Some 2, sm_text := Some True\<rparr>)\<rparr>"

end
