(* ===== verification/Provider_Data_D.thy ===== *)
theory Provider_Data_D
  imports Llm_Providers
begin

text \<open>
  The provider cards of \<open>src/web/src/config/llm-providers\<close>, the files \<open>sambanova.ts\<close> to \<open>zhipu.ts\<close>: for
  each file the deprecated list of chat models and the card itself, under the name
  \<open>config/llm-providers/index.ts\<close> imports it by. The conventions are those of the model cards.
\<close>

section \<open>sambanova\<close>

definition SambaNovaProvider :: "texts \<Rightarrow> provider_card" where
  [provider_cards]: "SambaNovaProvider tx =
     (provider_of ''sambanova'' ''SambaNova'' ''https://cloud.sambanova.ai'' [])\<lparr>pcd_checkModel := Some ''Meta-Llama-3.2-1B-Instruct'',
       pcd_description := Some (tx 6), pcd_disableBrowserRequest := Some True,
       pcd_modelsUrl := Some ''https://cloud.sambanova.ai/plans/pricing'',
       pcd_settings := plain_settings\<lparr>st_disableBrowserRequest := Some True,
       st_proxyUrl := Some (Proxy_hint None ''https://api.sambanova.ai/v1'' None),
       st_sdkType := Some ''openai''\<rparr>\<rparr>"

section \<open>search1api\<close>

definition search1api_chatModels :: "texts \<Rightarrow> chat_card list" where
  [card_tables]: "search1api_chatModels tx = [
     (chat_card_of ''deepseek-r1-70b-online'')\<lparr>cc_contextWindowTokens := Some 65536,
       cc_description := Some (tx 8), cc_displayName := Some ''DeepSeek R1 70B'',
       cc_enabled := Some True\<rparr>,
     (chat_card_of ''deepseek-r1-online'')\<lparr>cc_contextWindowTokens := Some 65536,
       cc_description := Some (tx 16), cc_displayName := Some ''DeepSeek R1'',
       cc_enabled := Some True\<rparr>,
     (chat_card_of ''deepseek-r1-70b-fast-online'')\<lparr>cc_contextWindowTokens := Some 131072,
       cc_description := Some (tx 24), cc_displayName := Some ''DeepSeek R1 70B Fast'',
       cc_enabled := Some True\<rparr>,
     (chat_card_of ''deepseek-r1-fast-online'')\<lparr>cc_contextWindowTokens := Some 163840,
       cc_description := Some (tx 32), cc_displayName := Some ''DeepSeek R1 Fast'',
       cc_enabled := Some False\<rparr>]"

definition Search1APIProvider :: "texts \<Rightarrow> provider_card" where
  [provider_cards]: "Search1APIProvider tx =
     (provider_of ''search1api'' ''Search1API'' ''https://www.search1api.com'' (search1api_chatModels tx))\<lparr>pcd_checkModel := Some ''deepseek-r1-70b-fast-online'',
       pcd_description := Some (tx 40),
       pcd_modelList := Some (no_model_list\<lparr>ml_showModelFetcher := Some True\<rparr>),
       pcd_settings := plain_settings\<lparr>st_proxyUrl := Some (Proxy_hint None ''https://api.search1api.com/v1'' None),
       st_sdkType := Some ''openai'', st_showModelFetcher := Some True,
       st_smoothing := Some (no_smoothing\<lparr>sm_speed := Some 2, sm_text := Some True\<rparr>)\<rparr>\<rparr>"

section \<open>sensenova\<close>

definition sensenova_chatModels :: "texts \<Rightarrow> chat_card list" where
  [card_tables]: "sensenova_chatModels tx = [
     (chat_card_of ''SenseChat-5'')\<lparr>cc_contextWindowTokens := Some 131072,
       cc_description := Some (tx 10), cc_displayName := Some ''SenseChat 5.5'',
       cc_enabled := Some True, cc_functionCall := Some True,
       cc_pricing := Some (no_pricing\<lparr>price_currency := Some CNY, price_input := Some 40,
       price_output := Some 100\<rparr>)\<rparr>,
     (chat_card_of ''SenseChat-Turbo'')\<lparr>cc_contextWindowTokens := Some 32768,
       cc_description := Some (tx 39), cc_displayName := Some ''SenseChat 5.0 Turbo'',
       cc_enabled := Some True, cc_pricing := Some (no_pricing\<lparr>price_currency := Some CNY,
       price_input := Some 2, price_output := Some 5\<rparr>)\<rparr>,
     (chat_card_of ''SenseChat-5-Cantonese'')\<lparr>cc_contextWindowTokens := Some 32768,
       cc_description := Some (tx 52), cc_displayName := Some ''SenseChat 5.0 Cantonese'',
       cc_pricing := Some (no_pricing\<lparr>price_currency := Some CNY, price_input := Some 27,
       price_output := Some 27\<rparr>)\<rparr>,
     (chat_card_of ''SenseChat-128K'')\<lparr>cc_contextWindowTokens := Some 131072,
       cc_description := Some (tx 63), cc_displayName := Some ''SenseChat 4.0 128K'',
       cc_enabled := Some True, cc_pricing := Some (no_pricing\<lparr>price_currency := Some CNY,
       price_input := Some 60, price_output := Some 60\<rparr>)\<rparr>,
     (chat_card_of ''SenseChat-32K'')\<lparr>cc_contextWindowTokens := Some 32768,
       cc_description := Some (tx 75), cc_displayName := Some ''SenseChat 4.0 32K'',
       cc_enabled := Some True, cc_pricing := Some (no_pricing\<lparr>price_currency := Some CNY,
       price_input := Some 36, price_output := Some 36\<rparr>)\<rparr>,
     (chat_card_of ''SenseChat'')\<lparr>cc_contextWindowTokens := Some 4096,
       cc_description := Some (tx 87), cc_displayName := Some ''SenseChat 4.0 4K'',
       cc_enabled := Some True, cc_pricing := Some (no_pricing\<lparr>price_currency := Some CNY,
       price_input := Some 12, price_output := Some 12\<rparr>)\<rparr>,
     (chat_card_of ''SenseChat-Character'')\<lparr>cc_contextWindowTokens := Some 8192,
       cc_description := Some (tx 99), cc_displayName := Some ''SenseChat Character'',
       cc_pricing := Some (no_pricing\<lparr>price_currency := Some CNY, price_input := Some 12,
       price_output := Some 12\<rparr>)\<rparr>,
     (chat_card_of ''SenseChat-Character-Pro'')\<lparr>cc_contextWindowTokens := Some 32768,
       cc_description := Some (tx 110), cc_displayName := Some ''SenseChat Character Pro'',
       cc_pricing := Some (no_pricing\<lparr>price_currency := Some CNY, price_input := Some 15,
       price_output := Some 15\<rparr>)\<rparr>]"

definition SenseNovaProvider :: "texts \<Rightarrow> provider_card" where
  [provider_cards]: "SenseNovaProvider tx =
     (provider_of ''sensenova'' ''SenseNova'' ''https://platform.sensenova.cn/home'' (sensenova_chatModels tx))\<lparr>pcd_checkModel := Some ''SenseChat-Turbo'',
       pcd_description := Some (tx 121), pcd_disableBrowserRequest := Some True,
       pcd_modelList := Some (no_model_list\<lparr>ml_showModelFetcher := Some True\<rparr>),
       pcd_modelsUrl := Some ''https://platform.sensenova.cn/pricing'',
       pcd_settings := plain_settings\<lparr>st_disableBrowserRequest := Some True,
       st_sdkType := Some ''openai'', st_showModelFetcher := Some True\<rparr>\<rparr>"

section \<open>siliconcloud\<close>

definition siliconcloud_chatModels_1 :: "texts \<Rightarrow> chat_card list" where
  [card_tables]: "siliconcloud_chatModels_1 tx = [
     (chat_card_of ''deepseek-ai/DeepSeek-R1'')\<lparr>cc_contextWindowTokens := Some 65536,
       cc_description := Some (tx 9), cc_displayName := Some ''DeepSeek R1'',
       cc_enabled := Some True, cc_pricing := Some (no_pricing\<lparr>price_currency := Some CNY,
       price_input := Some 4, price_output := Some 16\<rparr>)\<rparr>,
     (chat_card_of ''deepseek-ai/DeepSeek-V3'')\<lparr>cc_contextWindowTokens := Some 65536,
       cc_description := Some (tx 22), cc_displayName := Some ''DeepSeek V3'',
       cc_enabled := Some True, cc_functionCall := Some True,
       cc_pricing := Some (no_pricing\<lparr>price_currency := Some CNY, price_input := Some 1,
       price_output := Some 2\<rparr>)\<rparr>,
     (chat_card_of ''Pro/deepseek-ai/DeepSeek-R1'')\<lparr>cc_contextWindowTokens := Some 65536,
       cc_description := Some (tx 37), cc_displayName := Some ''DeepSeek R1 (Pro)'',
       cc_pricing := Some (no_pricing\<lparr>price_currency := Some CNY, price_input := Some 4,
       price_output := Some 16\<rparr>)\<rparr>,
     (chat_card_of ''Pro/deepseek-ai/DeepSeek-V3'')\<lparr>cc_contextWindowTokens := Some 65536,
       cc_description := Some (tx 49), cc_displayName := Some ''DeepSeek V3 (Pro)'',
       cc_functionCall := Some True, cc_pricing := Some (no_pricing\<lparr>price_currency := Some CNY,
       price_input := Some 2, price_output := Some 8\<rparr>)\<rparr>,
     (chat_card_of ''deepseek-ai/DeepSeek-R1-Distill-Llama-70B'')\<lparr>cc_contextWindowTokens := Some 32768,
       cc_description := Some (tx 62), cc_displayName := Some ''DeepSeek R1 Distill Llama 70B'',
       cc_enabled := Some True, cc_pricing := Some (no_pricing\<lparr>price_currency := Some CNY,
       price_input := Some 4.13, price_output := Some 4.13\<rparr>)\<rparr>,
     (chat_card_of ''deepseek-ai/DeepSeek-R1-Distill-Qwen-32B'')\<lparr>cc_contextWindowTokens := Some 32768,
       cc_description := Some (tx 75), cc_displayName := Some ''DeepSeek R1 Distill Qwen 32B'',
       cc_enabled := Some True, cc_pricing := Some (no_pricing\<lparr>price_currency := Some CNY,
       price_input := Some 1.26, price_output := Some 1.26\<rparr>)\<rparr>,
     (chat_card_of ''deepseek-ai/DeepSeek-R1-Distill-Qwen-14B'')\<lparr>cc_contextWindowTokens := Some 32768,
       cc_description := Some (tx 88), cc_displayName := Some ''DeepSeek R1 Distill Qwen 14B'',
       cc_enabled := Some True, cc_pricing := Some (no_pricing\<lparr>price_currency := Some CNY,
       price_input := Some 0.7, price_output := Some 0.7\<rparr>)\<rparr>,
     (chat_card_of ''deepseek-ai/DeepSeek-R1-Distill-Llama-8B'')\<lparr>cc_contextWindowTokens := Some 32768,
       cc_description := Some (tx 101),
       cc_displayName := Some ''DeepSeek R1 Distill Llama 8B (Free)'', cc_enabled := Some True,
       cc_pricing := Some (no_pricing\<lparr>price_currency := Some CNY, price_input := Some 0,
       price_output := Some 0\<rparr>)\<rparr>,
     (chat_card_of ''deepseek-ai/DeepSeek-R1-Distill-Qwen-7B'')\<lparr>cc_contextWindowTokens := Some 32768,
       cc_description := Some (tx 114),
       cc_displayName := Some ''DeepSeek R1 Distill Qwen 7B (Free)'', cc_enabled := Some True,
       cc_pricing := Some (no_pricing\<lparr>price_currency := Some CNY, price_input := Some 0,
       price_output := Some 0\<rparr>)\<rparr>,
     (chat_card_of ''deepseek-ai/DeepSeek-R1-Distill-Qwen-1.5B'')\<lparr>cc_contextWindowTokens := Some 32768,
       cc_description := Some (tx 127),
       cc_displayName := Some ''DeepSeek-R1-Distill-Qwen-1.5B (Free)'',
       cc_pricing := Some (no_pricing\<lparr>price_currency := Some CNY, price_input := Some 0,
       price_output := Some 0\<rparr>)\<rparr>,
     (chat_card_of ''deepseek-ai/DeepSeek-V2.5'')\<lparr>cc_contextWindowTokens := Some 32768,
       cc_description := Some (tx 139), cc_displayName := Some ''DeepSeek V2.5'',
       cc_enabled := Some True, cc_functionCall := Some True,
       cc_pricing := Some (no_pricing\<lparr>price_currency := Some CNY, price_input := Some 1.33,
       price_output := Some 1.33\<rparr>)\<rparr>]"

definition siliconcloud_chatModels_2 :: "texts \<Rightarrow> chat_card list" where
  [card_tables]: "siliconcloud_chatModels_2 tx = [
     (chat_card_of ''deepseek-ai/deepseek-vl2'')\<lparr>cc_contextWindowTokens := Some 4096,
       cc_description := Some (tx 153), cc_displayName := Some ''DeepSeek VL2'',
       cc_pricing := Some (no_pricing\<lparr>price_currency := Some CNY, price_input := Some 0.99,
       price_output := Some 0.99\<rparr>), cc_vision := Some True\<rparr>,
     (chat_card_of ''Qwen/QVQ-72B-Preview'')\<lparr>cc_contextWindowTokens := Some 32768,
       cc_description := Some (tx 166), cc_displayName := Some ''QVQ 72B Preview'',
       cc_enabled := Some True, cc_pricing := Some (no_pricing\<lparr>price_currency := Some CNY,
       price_input := Some 9.9, price_output := Some 9.9\<rparr>), cc_vision := Some True\<rparr>,
     (chat_card_of ''Qwen/QwQ-32B-Preview'')\<lparr>cc_contextWindowTokens := Some 32768,
       cc_description := Some (tx 180), cc_displayName := Some ''QwQ 32B Preview'',
       cc_enabled := Some True, cc_pricing := Some (no_pricing\<lparr>price_currency := Some CNY,
       price_input := Some 1.26, price_output := Some 1.26\<rparr>)\<rparr>,
     (chat_card_of ''Qwen/Qwen2.5-7B-Instruct'')\<lparr>cc_contextWindowTokens := Some 32768,
       cc_description := Some (tx 193), cc_displayName := Some ''Qwen2.5 7B Instruct (Free)'',
       cc_enabled := Some True, cc_functionCall := Some True,
       cc_pricing := Some (no_pricing\<lparr>price_currency := Some CNY, price_input := Some 0,
       price_output := Some 0\<rparr>)\<rparr>,
     (chat_card_of ''LoRA/Qwen/Qwen2.5-7B-Instruct'')\<lparr>cc_contextWindowTokens := Some 32768,
       cc_description := Some (tx 207), cc_displayName := Some ''Qwen2.5 7B Instruct (LoRA)'',
       cc_pricing := Some (no_pricing\<lparr>price_currency := Some CNY, price_input := Some 0.53,
       price_output := Some 0.53\<rparr>)\<rparr>,
     (chat_card_of ''Pro/Qwen/Qwen2.5-7B-Instruct'')\<lparr>cc_contextWindowTokens := Some 32768,
       cc_description := Some (tx 219), cc_displayName := Some ''Qwen2.5 7B Instruct (Pro)'',
       cc_functionCall := Some True, cc_pricing := Some (no_pricing\<lparr>price_currency := Some CNY,
       price_input := Some 0.35, price_output := Some 0.35\<rparr>)\<rparr>,
     (chat_card_of ''Qwen/Qwen2.5-14B-Instruct'')\<lparr>cc_contextWindowTokens := Some 32768,
       cc_description := Some (tx 232), cc_displayName := Some ''Qwen2.5 14B Instruct'',
       cc_functionCall := Some True, cc_pricing := Some (no_pricing\<lparr>price_currency := Some CNY,
       price_input := Some 0.7, price_output := Some 0.7\<rparr>)\<rparr>,
     (chat_card_of ''Qwen/Qwen2.5-32B-Instruct'')\<lparr>cc_contextWindowTokens := Some 32768,
       cc_description := Some (tx 245), cc_displayName := Some ''Qwen2.5 32B Instruct'',
       cc_functionCall := Some True, cc_pricing := Some (no_pricing\<lparr>price_currency := Some CNY,
       price_input := Some 1.26, price_output := Some 1.26\<rparr>)\<rparr>,
     (chat_card_of ''Qwen/Qwen2.5-72B-Instruct'')\<lparr>cc_contextWindowTokens := Some 32768,
       cc_description := Some (tx 258), cc_displayName := Some ''Qwen2.5 72B Instruct'',
       cc_functionCall := Some True, cc_pricing := Some (no_pricing\<lparr>price_currency := Some CNY,
       price_input := Some 4.13, price_output := Some 4.13\<rparr>)\<rparr>,
     (chat_card_of ''LoRA/Qwen/Qwen2.5-72B-Instruct'')\<lparr>cc_contextWindowTokens := Some 32768,
       cc_description := Some (tx 271), cc_displayName := Some ''Qwen2.5 72B Instruct (LoRA)'',
       cc_pricing := Some (no_pricing\<lparr>price_currency := Some CNY, price_input := Some 6.2,
       price_output := Some 6.2\<rparr>)\<rparr>,
     (chat_card_of ''Vendor-A/Qwen/Qwen2.5-72B-Instruct'')\<lparr>cc_contextWindowTokens := Some 32768,
       cc_description := Some (tx 283), cc_displayName := Some ''Qwen2.5 72B Instruct (Vendor-A)'',
       cc_functionCall := Some True, cc_pricing := Some (no_pricing\<lparr>price_currency := Some CNY,
       price_input := Some 1, price_output := Some 1\<rparr>)\<rparr>]"

definition siliconcloud_chatModels_3 :: "texts \<Rightarrow> chat_card list" where
  [card_tables]: "siliconcloud_chatModels_3 tx = [
     (chat_card_of ''Qwen/Qwen2.5-72B-Instruct-128K'')\<lparr>cc_contextWindowTokens := Some 131072,
       cc_description := Some (tx 296), cc_displayName := Some ''Qwen2.5 72B Instruct 128K'',
       cc_enabled := Some True, cc_functionCall := Some True,
       cc_pricing := Some (no_pricing\<lparr>price_currency := Some CNY, price_input := Some 4.13,
       price_output := Some 4.13\<rparr>)\<rparr>,
     (chat_card_of ''Qwen/Qwen2.5-Coder-7B-Instruct'')\<lparr>cc_contextWindowTokens := Some 32768,
       cc_description := Some (tx 310), cc_displayName := Some ''Qwen2.5 Coder 7B Instruct (Free)'',
       cc_pricing := Some (no_pricing\<lparr>price_currency := Some CNY, price_input := Some 0,
       price_output := Some 0\<rparr>)\<rparr>,
     (chat_card_of ''Pro/Qwen/Qwen2.5-Coder-7B-Instruct'')\<lparr>cc_contextWindowTokens := Some 32768,
       cc_description := Some (tx 322), cc_displayName := Some ''Qwen2.5 Coder 7B Instruct (Pro)'',
       cc_pricing := Some (no_pricing\<lparr>price_currency := Some CNY, price_input := Some 0.35,
       price_output := Some 0.35\<rparr>)\<rparr>,
     (chat_card_of ''Qwen/Qwen2.5-Coder-32B-Instruct'')\<lparr>cc_contextWindowTokens := Some 32768,
       cc_description := Some (tx 334), cc_displayName := Some ''Qwen2.5 Coder 32B Instruct'',
       cc_pricing := Some (no_pricing\<lparr>price_currency := Some CNY, price_input := Some 1.26,
       price_output := Some 1.26\<rparr>)\<rparr>,
     (chat_card_of ''Qwen/Qwen2-1.5B-Instruct'')\<lparr>cc_contextWindowTokens := Some 32768,
       cc_description := Some (tx 346), cc_displayName := Some ''Qwen2 1.5B Instruct (Free)'',
       cc_pricing := Some (no_pricing\<lparr>price_currency := Some CNY, price_input := Some 0,
       price_output := Some 0\<rparr>)\<rparr>,
     (chat_card_of ''Pro/Qwen/Qwen2-1.5B-Instruct'')\<lparr>cc_contextWindowTokens := Some 32768,
       cc_description := Some (tx 358), cc_displayName := Some ''Qwen2 1.5B Instruct (Pro)'',
       cc_pricing := Some (no_pricing\<lparr>price_currency := Some CNY, price_input := Some 0.14,
       price_output := Some 0.14\<rparr>)\<rparr>,
     (chat_card_of ''Qwen/Qwen2-7B-Instruct'')\<lparr>cc_contextWindowTokens := Some 32768,
       cc_description := Some (tx 370), cc_displayName := Some ''Qwen2 7B Instruct (Free)'',
       cc_pricing := Some (no_pricing\<lparr>price_currency := Some CNY, price_input := Some 0,
       price_output := Some 0\<rparr>)\<rparr>,
     (chat_card_of ''Pro/Qwen/Qwen2-7B-Instruct'')\<lparr>cc_contextWindowTokens := Some 32768,
       cc_description := Some (tx 382), cc_displayName := Some ''Qwen2 7B Instruct (Pro)'',
       cc_pricing := Some (no_pricing\<lparr>price_currency := Some CNY, price_input := Some 0.35,
       price_output := Some 0.35\<rparr>)\<rparr>,
     (chat_card_of ''Qwen/Qwen2-7B-Instruct'')\<lparr>cc_contextWindowTokens := Some 32768,
       cc_description := Some (tx 394), cc_displayName := Some ''Qwen2 72B Instruct'',
       cc_pricing := Some (no_pricing\<lparr>price_currency := Some CNY, price_input := Some 4.13,
       price_output := Some 4.13\<rparr>)\<rparr>,
     (chat_card_of ''Pro/Qwen/Qwen2-VL-7B-Instruct'')\<lparr>cc_contextWindowTokens := Some 32768,
       cc_description := Some (tx 406), cc_displayName := Some ''Qwen2 VL 7B Instruct (Pro)'',
       cc_enabled := Some True, cc_pricing := Some (no_pricing\<lparr>price_currency := Some CNY,
       price_input := Some 0.35, price_output := Some 0.35\<rparr>), cc_vision := Some True\<rparr>,
     (chat_card_of ''Qwen/Qwen2-VL-72B-Instruct'')\<lparr>cc_contextWindowTokens := Some 32768,
       cc_description := Some (tx 420), cc_displayName := Some ''Qwen2 VL 72B Instruct'',
       cc_enabled := Some True, cc_pricing := Some (no_pricing\<lparr>price_currency := Some CNY,
       price_input := Some 4.13, price_output := Some 4.13\<rparr>), cc_vision := Some True\<rparr>]"

definition siliconcloud_chatModels_4 :: "texts \<Rightarrow> chat_card list" where
  [card_tables]: "siliconcloud_chatModels_4 tx = [
     (chat_card_of ''internlm/internlm2_5-7b-chat'')\<lparr>cc_contextWindowTokens := Some 32768,
       cc_description := Some (tx 434), cc_displayName := Some ''InternLM2.5 7B Chat (Free)'',
       cc_functionCall := Some True, cc_pricing := Some (no_pricing\<lparr>price_currency := Some CNY,
       price_input := Some 0, price_output := Some 0\<rparr>)\<rparr>,
     (chat_card_of ''internlm/internlm2_5-20b-chat'')\<lparr>cc_contextWindowTokens := Some 32768,
       cc_description := Some (tx 447), cc_displayName := Some ''InternLM2.5 20B Chat'',
       cc_functionCall := Some True, cc_pricing := Some (no_pricing\<lparr>price_currency := Some CNY,
       price_input := Some 1, price_output := Some 1\<rparr>)\<rparr>,
     (chat_card_of ''Pro/OpenGVLab/InternVL2-8B'')\<lparr>cc_contextWindowTokens := Some 32768,
       cc_description := Some (tx 460), cc_displayName := Some ''InternVL2 8B (Pro)'',
       cc_pricing := Some (no_pricing\<lparr>price_currency := Some CNY, price_input := Some 0.35,
       price_output := Some 0.35\<rparr>), cc_vision := Some True\<rparr>,
     (chat_card_of ''OpenGVLab/InternVL2-26B'')\<lparr>cc_contextWindowTokens := Some 32768,
       cc_description := Some (tx 473), cc_displayName := Some ''InternVL2 26B'',
       cc_pricing := Some (no_pricing\<lparr>price_currency := Some CNY, price_input := Some 1,
       price_output := Some 1\<rparr>), cc_vision := Some True\<rparr>,
     (chat_card_of ''THUDM/glm-4-9b-chat'')\<lparr>cc_contextWindowTokens := Some 131072,
       cc_description := Some (tx 486), cc_displayName := Some ''GLM-4 9B Chat (Free)'',
       cc_functionCall := Some True, cc_pricing := Some (no_pricing\<lparr>price_currency := Some CNY,
       price_input := Some 0, price_output := Some 0\<rparr>)\<rparr>,
     (chat_card_of ''Pro/THUDM/glm-4-9b-chat'')\<lparr>cc_contextWindowTokens := Some 131072,
       cc_description := Some (tx 499), cc_displayName := Some ''GLM-4 9B Chat (Pro)'',
       cc_functionCall := Some True, cc_pricing := Some (no_pricing\<lparr>price_currency := Some CNY,
       price_input := Some 0.6, price_output := Some 0.6\<rparr>)\<rparr>,
     (chat_card_of ''THUDM/chatglm3-6b'')\<lparr>cc_contextWindowTokens := Some 32768,
       cc_description := Some (tx 512), cc_displayName := Some ''ChatGLM3 6B (Free)'',
       cc_pricing := Some (no_pricing\<lparr>price_currency := Some CNY, price_input := Some 0,
       price_output := Some 0\<rparr>)\<rparr>,
     (chat_card_of ''01-ai/Yi-1.5-6B-Chat'')\<lparr>cc_contextWindowTokens := Some 4096,
       cc_description := Some (tx 524), cc_displayName := Some ''Yi-1.5 6B Chat (Free)'',
       cc_pricing := Some (no_pricing\<lparr>price_currency := Some CNY, price_input := Some 0,
       price_output := Some 0\<rparr>)\<rparr>,
     (chat_card_of ''01-ai/Yi-1.5-9B-Chat-16K'')\<lparr>cc_contextWindowTokens := Some 16384,
       cc_description := Some (tx 536), cc_displayName := Some ''Yi-1.5 9B Chat 16K (Free)'',
       cc_pricing := Some (no_pricing\<lparr>price_currency := Some CNY, price_input := Some 0,
       price_output := Some 0\<rparr>)\<rparr>,
     (chat_card_of ''01-ai/Yi-1.5-34B-Chat-16K'')\<lparr>cc_contextWindowTokens := Some 16384,
       cc_description := Some (tx 548), cc_displayName := Some ''Yi-1.5 34B Chat 16K'',
       cc_pricing := Some (no_pricing\<lparr>price_currency := Some CNY, price_input := Some 1.26,
       price_output := Some 1.26\<rparr>)\<rparr>,
     (chat_card_of ''google/gemma-2-9b-it'')\<lparr>cc_contextWindowTokens := Some 8192,
       cc_description := Some (tx 560), cc_displayName := Some ''Gemma 2 9B (Free)'',
       cc_enabled := Some True, cc_pricing := Some (no_pricing\<lparr>price_currency := Some CNY,
       price_input := Some 0, price_output := Some 0\<rparr>)\<rparr>]"

definition siliconcloud_chatModels_5 :: "texts \<Rightarrow> chat_card list" where
  [card_tables]: "siliconcloud_chatModels_5 tx = [
     (chat_card_of ''Pro/google/gemma-2-9b-it'')\<lparr>cc_contextWindowTokens := Some 8192,
       cc_description := Some (tx 573), cc_displayName := Some ''Gemma 2 9B (Pro)'',
       cc_pricing := Some (no_pricing\<lparr>price_currency := Some CNY, price_input := Some 0.6,
       price_output := Some 0.6\<rparr>)\<rparr>,
     (chat_card_of ''google/gemma-2-27b-it'')\<lparr>cc_contextWindowTokens := Some 8192,
       cc_description := Some (tx 585), cc_displayName := Some ''Gemma 2 27B'',
       cc_enabled := Some True, cc_pricing := Some (no_pricing\<lparr>price_currency := Some CNY,
       price_input := Some 1.26, price_output := Some 1.26\<rparr>)\<rparr>,
     (chat_card_of ''meta-llama/Meta-Llama-3.1-8B-Instruct'')\<lparr>cc_contextWindowTokens := Some 32768,
       cc_description := Some (tx 598), cc_displayName := Some ''Llama 3.1 8B Instruct (Free)'',
       cc_enabled := Some True, cc_functionCall := Some True,
       cc_pricing := Some (no_pricing\<lparr>price_currency := Some CNY, price_input := Some 0,
       price_output := Some 0\<rparr>)\<rparr>,
     (chat_card_of ''Pro/meta-llama/Meta-Llama-3.1-8B-Instruct'')\<lparr>cc_contextWindowTokens := Some 32768,
       cc_description := Some (tx 612), cc_displayName := Some ''Llama 3.1 8B Instruct (Pro)'',
       cc_pricing := Some (no_pricing\<lparr>price_currency := Some CNY, price_input := Some 0.42,
       price_output := Some 0.42\<rparr>)\<rparr>,
     (chat_card_of ''meta-llama/Meta-Llama-3.1-70B-Instruct'')\<lparr>cc_contextWindowTokens := Some 32768,
       cc_description := Some (tx 624), cc_displayName := Some ''Llama 3.1 70B Instruct'',
       cc_enabled := Some True, cc_functionCall := Some True,
       cc_pricing := Some (no_pricing\<lparr>price_currency := Some CNY, price_input := Some 4.13,
       price_output := Some 4.13\<rparr>)\<rparr>,
     (chat_card_of ''meta-llama/Meta-Llama-3.1-405B-Instruct'')\<lparr>cc_contextWindowTokens := Some 32768,
       cc_description := Some (tx 638), cc_displayName := Some ''Llama 3.1 405B Instruct'',
       cc_enabled := Some True, cc_pricing := Some (no_pricing\<lparr>price_currency := Some CNY,
       price_input := Some 21, price_output := Some 21\<rparr>)\<rparr>,
     (chat_card_of ''meta-llama/Llama-3.3-70B-Instruct'')\<lparr>cc_contextWindowTokens := Some 32768,
       cc_description := Some (tx 651), cc_displayName := Some ''Llama 3.3 70B Instruct'',
       cc_enabled := Some True, cc_functionCall := Some True,
       cc_pricing := Some (no_pricing\<lparr>price_currency := Some CNY, price_input := Some 4.13,
       price_output := Some 4.13\<rparr>)\<rparr>,
     (chat_card_of ''TeleAI/TeleChat2'')\<lparr>cc_contextWindowTokens := Some 8192,
       cc_description := Some (tx 665), cc_displayName := Some ''TeleChat2'',
       cc_pricing := Some (no_pricing\<lparr>price_currency := Some CNY, price_input := Some 1.33,
       price_output := Some 1.33\<rparr>)\<rparr>,
     (chat_card_of ''TeleAI/TeleMM'')\<lparr>cc_contextWindowTokens := Some 32768,
       cc_description := Some (tx 677), cc_displayName := Some ''TeleMM'',
       cc_pricing := Some (no_pricing\<lparr>price_currency := Some CNY, price_input := Some 1.33,
       price_output := Some 1.33\<rparr>), cc_vision := Some True\<rparr>]"

definition siliconcloud_chatModels :: "texts \<Rightarrow> chat_card list" where
  [card_tables]: "siliconcloud_chatModels tx =
     siliconcloud_chatModels_1 tx @ siliconcloud_chatModels_2 tx @ siliconcloud_chatModels_3 tx
     @ siliconcloud_chatModels_4 tx @ siliconcloud_chatModels_5 tx"

definition SiliconCloudProvider :: "texts \<Rightarrow> provider_card" where
  [provider_cards]: "SiliconCloudProvider tx =
     (provider_of ''siliconcloud'' ''SiliconCloud'' ''https://siliconflow.cn/zh-cn/siliconcloud'' (siliconcloud_chatModels tx))\<lparr>pcd_checkModel := Some ''Pro/Qwen/Qwen2-1.5B-Instruct'',
       pcd_description := Some (tx 689),
       pcd_modelList := Some (no_model_list\<lparr>ml_showModelFetcher := Some True\<rparr>),
       pcd_modelsUrl := Some ''https://siliconflow.cn/zh-cn/models'',
       pcd_proxyUrl := Some (Proxy_hint None ''https://api.siliconflow.cn/v1'' None),
       pcd_settings := plain_settings\<lparr>st_proxyUrl := Some (Proxy_hint None ''https://api.siliconflow.cn/v1'' None),
       st_sdkType := Some ''openai'', st_showModelFetcher := Some True\<rparr>\<rparr>"

section \<open>spark\<close>

definition spark_chatModels :: "texts \<Rightarrow> chat_card list" where
  [card_tables]: "spark_chatModels tx = [
     (chat_card_of ''lite'')\<lparr>cc_contextWindowTokens := Some 8192, cc_description := Some (tx 10),
       cc_displayName := Some ''Spark Lite'', cc_enabled := Some True, cc_maxOutput := Some 4096\<rparr>,
     (chat_card_of ''generalv3'')\<lparr>cc_contextWindowTokens := Some 8192,
       cc_description := Some (tx 19), cc_displayName := Some ''Spark Pro'',
       cc_enabled := Some True, cc_maxOutput := Some 8192\<rparr>,
     (chat_card_of ''pro-128k'')\<lparr>cc_contextWindowTokens := Some 131072,
       cc_description := Some (tx 28), cc_displayName := Some ''Spark Pro 128K'',
       cc_enabled := Some True, cc_maxOutput := Some 4096\<rparr>,
     (chat_card_of ''generalv3.5'')\<lparr>cc_contextWindowTokens := Some 8192,
       cc_description := Some (tx 37), cc_displayName := Some ''Spark Max'',
       cc_enabled := Some True, cc_functionCall := Some True, cc_maxOutput := Some 8192\<rparr>,
     (chat_card_of ''max-32k'')\<lparr>cc_contextWindowTokens := Some 32768,
       cc_description := Some (tx 47), cc_displayName := Some ''Spark Max 32K'',
       cc_enabled := Some True, cc_functionCall := Some True, cc_maxOutput := Some 8192\<rparr>,
     (chat_card_of ''4.0Ultra'')\<lparr>cc_contextWindowTokens := Some 8192,
       cc_description := Some (tx 57), cc_displayName := Some ''Spark 4.0 Ultra'',
       cc_enabled := Some True, cc_functionCall := Some True, cc_maxOutput := Some 8192\<rparr>]"

definition SparkProvider :: "texts \<Rightarrow> provider_card" where
  [provider_cards]: "SparkProvider tx =
     (provider_of ''spark'' ''Spark'' ''https://www.xfyun.cn'' (spark_chatModels tx))\<lparr>pcd_checkModel := Some ''lite'',
       pcd_description := Some (tx 67), pcd_modelsUrl := Some ''https://xinghuo.xfyun.cn/spark'',
       pcd_settings := plain_settings\<lparr>st_disableBrowserRequest := Some True,
       st_modelEditable := Some False,
       st_proxyUrl := Some (Proxy_hint None ''https://spark-api-open.xf-yun.com/v1'' None),
       st_sdkType := Some ''openai'', st_showModelFetcher := Some False,
       st_smoothing := Some (no_smoothing\<lparr>sm_speed := Some 2, sm_text := Some True\<rparr>)\<rparr>,
       pcd_smoothing := Some (no_smoothing\<lparr>sm_speed := Some 2, sm_text := Some True\<rparr>)\<rparr>"

section \<open>stepfun\<close>

definition stepfun_chatModels_1 :: "texts \<Rightarrow> chat_card list" where
  [card_tables]: "stepfun_chatModels_1 tx = [
     (chat_card_of ''step-1-flash'')\<lparr>cc_contextWindowTokens := Some 8000,
       cc_description := Some (tx 9), cc_displayName := Some ''Step 1 Flash'',
       cc_enabled := Some True, cc_functionCall := Some True,
       cc_pricing := Some (no_pricing\<lparr>price_currency := Some CNY, price_input := Some 1,
       price_output := Some 4\<rparr>)\<rparr>,
     (chat_card_of ''step-1-8k'')\<lparr>cc_contextWindowTokens := Some 8000,
       cc_description := Some (tx 22), cc_displayName := Some ''Step 1 8K'',
       cc_enabled := Some True, cc_functionCall := Some True,
       cc_pricing := Some (no_pricing\<lparr>price_currency := Some CNY, price_input := Some 5,
       price_output := Some 20\<rparr>)\<rparr>,
     (chat_card_of ''step-1-32k'')\<lparr>cc_contextWindowTokens := Some 32000,
       cc_description := Some (tx 35), cc_displayName := Some ''Step 1 32K'',
       cc_enabled := Some True, cc_functionCall := Some True,
       cc_pricing := Some (no_pricing\<lparr>price_currency := Some CNY, price_input := Some 15,
       price_output := Some 70\<rparr>)\<rparr>,
     (chat_card_of ''step-1-128k'')\<lparr>cc_contextWindowTokens := Some 128000,
       cc_description := Some (tx 48), cc_displayName := Some ''Step 1 128K'',
       cc_enabled := Some True, cc_functionCall := Some True,
       cc_pricing := Some (no_pricing\<lparr>price_currency := Some CNY, price_input := Some 40,
       price_output := Some 200\<rparr>)\<rparr>,
     (chat_card_of ''step-1-256k'')\<lparr>cc_contextWindowTokens := Some 256000,
       cc_description := Some (tx 61), cc_displayName := Some ''Step 1 256K'',
       cc_functionCall := Some True, cc_pricing := Some (no_pricing\<lparr>price_currency := Some CNY,
       price_input := Some 95, price_output := Some 300\<rparr>)\<rparr>,
     (chat_card_of ''step-2-16k'')\<lparr>cc_contextWindowTokens := Some 16000,
       cc_description := Some (tx 73), cc_displayName := Some ''Step 2 16K'',
       cc_enabled := Some True, cc_functionCall := Some True,
       cc_pricing := Some (no_pricing\<lparr>price_currency := Some CNY, price_input := Some 38,
       price_output := Some 120\<rparr>)\<rparr>,
     (chat_card_of ''step-2-mini'')\<lparr>cc_contextWindowTokens := Some 8000,
       cc_description := Some (tx 87), cc_displayName := Some ''Step 2 Mini'',
       cc_enabled := Some True, cc_functionCall := Some True,
       cc_pricing := Some (no_pricing\<lparr>price_currency := Some CNY, price_input := Some 1,
       price_output := Some 2\<rparr>)\<rparr>,
     (chat_card_of ''step-2-16k-exp'')\<lparr>cc_contextWindowTokens := Some 16000,
       cc_description := Some (tx 100), cc_displayName := Some ''Step 2 16K Exp'',
       cc_functionCall := Some True, cc_pricing := Some (no_pricing\<lparr>price_currency := Some CNY,
       price_input := Some 38, price_output := Some 120\<rparr>)\<rparr>,
     (chat_card_of ''step-1v-8k'')\<lparr>cc_contextWindowTokens := Some 8000,
       cc_description := Some (tx 112), cc_displayName := Some ''Step 1V 8K'',
       cc_enabled := Some True, cc_functionCall := Some True,
       cc_pricing := Some (no_pricing\<lparr>price_currency := Some CNY, price_input := Some 5,
       price_output := Some 20\<rparr>), cc_vision := Some True\<rparr>,
     (chat_card_of ''step-1v-32k'')\<lparr>cc_contextWindowTokens := Some 32000,
       cc_description := Some (tx 126), cc_displayName := Some ''Step 1V 32K'',
       cc_functionCall := Some True, cc_pricing := Some (no_pricing\<lparr>price_currency := Some CNY,
       price_input := Some 15, price_output := Some 70\<rparr>), cc_vision := Some True\<rparr>,
     (chat_card_of ''step-1o-vision-32k'')\<lparr>cc_contextWindowTokens := Some 32000,
       cc_description := Some (tx 139), cc_displayName := Some ''Step 1o Vision 32K'',
       cc_enabled := Some True, cc_pricing := Some (no_pricing\<lparr>price_currency := Some CNY,
       price_input := Some 15, price_output := Some 70\<rparr>), cc_vision := Some True\<rparr>]"

definition stepfun_chatModels_2 :: "texts \<Rightarrow> chat_card list" where
  [card_tables]: "stepfun_chatModels_2 tx = [
     (chat_card_of ''step-1.5v-mini'')\<lparr>cc_contextWindowTokens := Some 32000,
       cc_description := Some (tx 152), cc_displayName := Some ''Step 1.5V Mini'',
       cc_enabled := Some True, cc_pricing := Some (no_pricing\<lparr>price_currency := Some CNY,
       price_input := Some 8, price_output := Some 35\<rparr>), cc_vision := Some True\<rparr>]"

definition stepfun_chatModels :: "texts \<Rightarrow> chat_card list" where
  [card_tables]: "stepfun_chatModels tx =
     stepfun_chatModels_1 tx @ stepfun_chatModels_2 tx"

definition StepfunProvider :: "texts \<Rightarrow> provider_card" where
  [provider_cards]: "StepfunProvider tx =
     (provider_of ''stepfun'' ''Stepfun'' ''https://stepfun.com'' (stepfun_chatModels tx))\<lparr>pcd_checkModel := Some ''step-2-mini'',
       pcd_description := Some (tx 166), pcd_disableBrowserRequest := Some True,
       pcd_modelList := Some (no_model_list\<lparr>ml_showModelFetcher := Some True\<rparr>),
       pcd_modelsUrl := Some ''https://platform.stepfun.com/docs/llm/text'',
       pcd_settings := plain_settings\<lparr>st_disableBrowserRequest := Some True,
       st_sdkType := Some ''openai'', st_showModelFetcher := Some True,
       st_smoothing := Some (no_smoothing\<lparr>sm_speed := Some 2, sm_text := Some True\<rparr>)\<rparr>,
       pcd_smoothing := Some (no_smoothing\<lparr>sm_speed := Some 2, sm_text := Some True\<rparr>)\<rparr>"

section \<open>taichu\<close>

definition taichu_chatModels :: "texts \<Rightarrow> chat_card list" where
  [card_tables]: "taichu_chatModels tx = [
     (chat_card_of ''taichu_llm'')\<lparr>cc_contextWindowTokens := Some 32768,
       cc_description := Some (tx 8), cc_displayName := Some ''Taichu 2.0'',
       cc_enabled := Some True, cc_functionCall := Some True,
       cc_pricing := Some (no_pricing\<lparr>price_currency := Some CNY, price_input := Some 2,
       price_output := Some 2\<rparr>)\<rparr>,
     (chat_card_of ''taichu2_mm'')\<lparr>cc_contextWindowTokens := Some 4096,
       cc_description := Some (tx 21), cc_displayName := Some ''Taichu 2.0V'',
       cc_enabled := Some True, cc_pricing := Some (no_pricing\<lparr>price_currency := Some CNY,
       price_input := Some 5, price_output := Some 5\<rparr>), cc_vision := Some True\<rparr>]"

definition TaichuProvider :: "texts \<Rightarrow> provider_card" where
  [provider_cards]: "TaichuProvider tx =
     (provider_of ''taichu'' ''Taichu'' ''https://ai-maas.wair.ac.cn'' (taichu_chatModels tx))\<lparr>pcd_checkModel := Some ''taichu_llm'',
       pcd_description := Some (tx 35), pcd_modelsUrl := Some ''https://ai-maas.wair.ac.cn/#/doc'',
       pcd_settings := plain_settings\<lparr>st_sdkType := Some ''openai''\<rparr>\<rparr>"

section \<open>tencentcloud\<close>

definition TencentcloudProvider :: "texts \<Rightarrow> provider_card" where
  [provider_cards]: "TencentcloudProvider tx =
     (provider_of ''tencentcloud'' ''TencentCloud'' ''https://cloud.tencent.com/document/api/1772/115365'' [])\<lparr>pcd_checkModel := Some ''deepseek-v3'',
       pcd_description := Some (tx 7),
       pcd_modelsUrl := Some ''https://cloud.tencent.com/document/api/1772/115963'',
       pcd_settings := plain_settings\<lparr>st_disableBrowserRequest := Some True,
       st_sdkType := Some ''openai'', st_showModelFetcher := Some True\<rparr>\<rparr>"

section \<open>togetherai\<close>

definition togetherai_chatModels_1 :: "texts \<Rightarrow> chat_card list" where
  [card_tables]: "togetherai_chatModels_1 tx = [
     (chat_card_of ''meta-llama/Llama-3.2-3B-Instruct-Turbo'')\<lparr>cc_contextWindowTokens := Some 131072,
       cc_description := Some (tx 10), cc_displayName := Some ''Llama 3.2 3B Instruct Turbo'',
       cc_enabled := Some True\<rparr>,
     (chat_card_of ''meta-llama/Llama-Vision-Free'')\<lparr>cc_contextWindowTokens := Some 131072,
       cc_description := Some (tx 18),
       cc_displayName := Some ''Llama 3.2 11B Vision Instruct Turbo (Free)'',
       cc_enabled := Some True, cc_vision := Some True\<rparr>,
     (chat_card_of ''meta-llama/Llama-3.2-11B-Vision-Instruct-Turbo'')\<lparr>cc_contextWindowTokens := Some 131072,
       cc_description := Some (tx 27),
       cc_displayName := Some ''Llama 3.2 11B Vision Instruct Turbo'', cc_vision := Some True\<rparr>,
     (chat_card_of ''meta-llama/Llama-3.2-90B-Vision-Instruct-Turbo'')\<lparr>cc_contextWindowTokens := Some 131072,
       cc_description := Some (tx 35),
       cc_displayName := Some ''Llama 3.2 90B Vision Instruct Turbo'', cc_enabled := Some True,
       cc_vision := Some True\<rparr>,
     (chat_card_of ''meta-llama/Meta-Llama-3.1-8B-Instruct-Turbo'')\<lparr>cc_contextWindowTokens := Some 131072,
       cc_description := Some (tx 44), cc_displayName := Some ''Llama 3.1 8B Instruct Turbo'',
       cc_enabled := Some True, cc_functionCall := Some True\<rparr>,
     (chat_card_of ''meta-llama/Meta-Llama-3.1-70B-Instruct-Turbo'')\<lparr>cc_contextWindowTokens := Some 131072,
       cc_description := Some (tx 53), cc_displayName := Some ''Llama 3.1 70B Instruct Turbo'',
       cc_enabled := Some True, cc_functionCall := Some True\<rparr>,
     (chat_card_of ''meta-llama/Meta-Llama-3.1-405B-Instruct-Turbo'')\<lparr>cc_contextWindowTokens := Some 130815,
       cc_description := Some (tx 62), cc_displayName := Some ''Llama 3.1 405B Instruct Turbo'',
       cc_enabled := Some True, cc_functionCall := Some True\<rparr>,
     (chat_card_of ''nvidia/Llama-3.1-Nemotron-70B-Instruct-HF'')\<lparr>cc_contextWindowTokens := Some 32768,
       cc_description := Some (tx 71), cc_displayName := Some ''Llama 3.1 Nemotron 70B'',
       cc_enabled := Some True\<rparr>,
     (chat_card_of ''meta-llama/Meta-Llama-3-8B-Instruct-Turbo'')\<lparr>cc_contextWindowTokens := Some 8192,
       cc_description := Some (tx 78), cc_displayName := Some ''Llama 3 8B Instruct Turbo''\<rparr>,
     (chat_card_of ''meta-llama/Meta-Llama-3-70B-Instruct-Turbo'')\<lparr>cc_contextWindowTokens := Some 8192,
       cc_description := Some (tx 85), cc_displayName := Some ''Llama 3 70B Instruct Turbo''\<rparr>,
     (chat_card_of ''meta-llama/Meta-Llama-3-8B-Instruct-Lite'')\<lparr>cc_contextWindowTokens := Some 8192,
       cc_description := Some (tx 91), cc_displayName := Some ''Llama 3 8B Instruct Lite''\<rparr>,
     (chat_card_of ''meta-llama/Meta-Llama-3-70B-Instruct-Lite'')\<lparr>cc_contextWindowTokens := Some 8192,
       cc_description := Some (tx 97), cc_displayName := Some ''Llama 3 70B Instruct Lite''\<rparr>,
     (chat_card_of ''meta-llama/Llama-3-8b-chat-hf'')\<lparr>cc_contextWindowTokens := Some 8192,
       cc_description := Some (tx 103), cc_displayName := Some ''Llama 3 8B Instruct Reference''\<rparr>,
     (chat_card_of ''meta-llama/Llama-3-70b-chat-hf'')\<lparr>cc_contextWindowTokens := Some 8192,
       cc_description := Some (tx 109), cc_displayName := Some ''Llama 3 70B Instruct Reference''\<rparr>,
     (chat_card_of ''meta-llama/Llama-2-13b-chat-hf'')\<lparr>cc_contextWindowTokens := Some 4096,
       cc_description := Some (tx 115), cc_displayName := Some ''LLaMA-2 Chat (13B)''\<rparr>,
     (chat_card_of ''meta-llama/Llama-2-70b-hf'')\<lparr>cc_contextWindowTokens := Some 4096,
       cc_description := Some (tx 121), cc_displayName := Some ''LLaMA-2 (70B)''\<rparr>,
     (chat_card_of ''codellama/CodeLlama-34b-Instruct-hf'')\<lparr>cc_contextWindowTokens := Some 16384,
       cc_description := Some (tx 128), cc_displayName := Some ''CodeLlama 34B Instruct''\<rparr>,
     (chat_card_of ''google/gemma-2-9b-it'')\<lparr>cc_contextWindowTokens := Some 8192,
       cc_description := Some (tx 134), cc_displayName := Some ''Gemma 2 9B'',
       cc_enabled := Some True\<rparr>,
     (chat_card_of ''google/gemma-2-27b-it'')\<lparr>cc_contextWindowTokens := Some 8192,
       cc_description := Some (tx 141), cc_displayName := Some ''Gemma 2 27B'',
       cc_enabled := Some True\<rparr>,
     (chat_card_of ''google/gemma-2b-it'')\<lparr>cc_contextWindowTokens := Some 8192,
       cc_description := Some (tx 148), cc_displayName := Some ''Gemma Instruct (2B)''\<rparr>]"

definition togetherai_chatModels_2 :: "texts \<Rightarrow> chat_card list" where
  [card_tables]: "togetherai_chatModels_2 tx = [
     (chat_card_of ''mistralai/Mistral-7B-Instruct-v0.3'')\<lparr>cc_contextWindowTokens := Some 32768,
       cc_description := Some (tx 154), cc_displayName := Some ''Mistral (7B) Instruct v0.3'',
       cc_enabled := Some True\<rparr>,
     (chat_card_of ''mistralai/Mistral-7B-Instruct-v0.2'')\<lparr>cc_contextWindowTokens := Some 32768,
       cc_description := Some (tx 161), cc_displayName := Some ''Mistral (7B) Instruct v0.2''\<rparr>,
     (chat_card_of ''mistralai/Mistral-7B-Instruct-v0.1'')\<lparr>cc_contextWindowTokens := Some 8192,
       cc_description := Some (tx 167), cc_displayName := Some ''Mistral (7B) Instruct'',
       cc_functionCall := Some True\<rparr>,
     (chat_card_of ''mistralai/Mistral-7B-v0.1'')\<lparr>cc_contextWindowTokens := Some 8192,
       cc_description := Some (tx 175), cc_displayName := Some ''Mistral (7B)''\<rparr>,
     (chat_card_of ''mistralai/Mixtral-8x7B-Instruct-v0.1'')\<lparr>cc_contextWindowTokens := Some 32768,
       cc_description := Some (tx 181), cc_displayName := Some ''Mixtral-8x7B Instruct (46.7B)'',
       cc_enabled := Some True, cc_functionCall := Some True\<rparr>,
     (chat_card_of ''mistralai/Mixtral-8x7B-v0.1'')\<lparr>cc_contextWindowTokens := Some 32768,
       cc_description := Some (tx 190), cc_displayName := Some ''Mixtral-8x7B (46.7B)''\<rparr>,
     (chat_card_of ''mistralai/Mixtral-8x22B-Instruct-v0.1'')\<lparr>cc_contextWindowTokens := Some 65536,
       cc_description := Some (tx 196), cc_displayName := Some ''Mixtral-8x22B Instruct (141B)'',
       cc_enabled := Some True\<rparr>,
     (chat_card_of ''microsoft/WizardLM-2-8x22B'')\<lparr>cc_contextWindowTokens := Some 65536,
       cc_description := Some (tx 204), cc_displayName := Some ''WizardLM-2 8x22B''\<rparr>,
     (chat_card_of ''deepseek-ai/deepseek-llm-67b-chat'')\<lparr>cc_contextWindowTokens := Some 4096,
       cc_description := Some (tx 210), cc_displayName := Some ''DeepSeek LLM Chat (67B)'',
       cc_enabled := Some True\<rparr>,
     (chat_card_of ''Qwen/QwQ-32B-Preview'')\<lparr>cc_contextWindowTokens := Some 32768,
       cc_description := Some (tx 217), cc_displayName := Some ''QwQ 32B Preview'',
       cc_enabled := Some True\<rparr>,
     (chat_card_of ''Qwen/Qwen2.5-7B-Instruct-Turbo'')\<lparr>cc_contextWindowTokens := Some 32768,
       cc_description := Some (tx 224), cc_displayName := Some ''Qwen 2.5 7B Instruct Turbo'',
       cc_enabled := Some True\<rparr>,
     (chat_card_of ''Qwen/Qwen2.5-72B-Instruct-Turbo'')\<lparr>cc_contextWindowTokens := Some 32768,
       cc_description := Some (tx 231), cc_displayName := Some ''Qwen 2.5 72B Instruct Turbo'',
       cc_enabled := Some True\<rparr>,
     (chat_card_of ''Qwen/Qwen2.5-Coder-32B-Instruct'')\<lparr>cc_contextWindowTokens := Some 32768,
       cc_description := Some (tx 239), cc_displayName := Some ''Qwen 2.5 Coder 32B Instruct''\<rparr>,
     (chat_card_of ''Qwen/Qwen2-72B-Instruct'')\<lparr>cc_contextWindowTokens := Some 32768,
       cc_description := Some (tx 245), cc_displayName := Some ''Qwen 2 Instruct (72B)''\<rparr>,
     (chat_card_of ''databricks/dbrx-instruct'')\<lparr>cc_contextWindowTokens := Some 32768,
       cc_description := Some (tx 251), cc_displayName := Some ''DBRX Instruct''\<rparr>,
     (chat_card_of ''upstage/SOLAR-10.7B-Instruct-v1.0'')\<lparr>cc_contextWindowTokens := Some 4096,
       cc_description := Some (tx 257), cc_displayName := Some ''Upstage SOLAR Instruct v1 (11B)''\<rparr>,
     (chat_card_of ''NousResearch/Nous-Hermes-2-Mixtral-8x7B-DPO'')\<lparr>cc_contextWindowTokens := Some 32768,
       cc_description := Some (tx 263),
       cc_displayName := Some ''Nous Hermes 2 - Mixtral 8x7B-DPO (46.7B)''\<rparr>,
     (chat_card_of ''Gryphe/MythoMax-L2-13b'')\<lparr>cc_contextWindowTokens := Some 4096,
       cc_description := Some (tx 269), cc_displayName := Some ''MythoMax-L2 (13B)''\<rparr>,
     (chat_card_of ''togethercomputer/StripedHyena-Nous-7B'')\<lparr>cc_contextWindowTokens := Some 32768,
       cc_description := Some (tx 275), cc_displayName := Some ''StripedHyena Nous (7B)''\<rparr>]"

definition togetherai_chatModels :: "texts \<Rightarrow> chat_card list" where
  [card_tables]: "togetherai_chatModels tx =
     togetherai_chatModels_1 tx @ togetherai_chatModels_2 tx"

definition TogetherAIProvider :: "texts \<Rightarrow> provider_card" where
  [provider_cards]: "TogetherAIProvider tx =
     (provider_of ''togetherai'' ''Together AI'' ''https://www.together.ai'' (togetherai_chatModels tx))\<lparr>pcd_checkModel := Some ''meta-llama/Llama-Vision-Free'',
       pcd_description := Some (tx 282),
       pcd_modelList := Some (no_model_list\<lparr>ml_showModelFetcher := Some True\<rparr>),
       pcd_modelsUrl := Some ''https://docs.together.ai/docs/chat-models'',
       pcd_settings := plain_settings\<lparr>st_sdkType := Some ''openai'',
       st_showModelFetcher := Some True\<rparr>\<rparr>"

section \<open>upstage\<close>

definition upstage_chatModels :: "texts \<Rightarrow> chat_card list" where
  [card_tables]: "upstage_chatModels tx = [
     (chat_card_of ''solar-1-mini-chat'')\<lparr>cc_contextWindowTokens := Some 32768,
       cc_description := Some (tx 9), cc_displayName := Some ''Solar Mini'',
       cc_enabled := Some True, cc_functionCall := Some True\<rparr>,
     (chat_card_of ''solar-1-mini-chat-ja'')\<lparr>cc_contextWindowTokens := Some 32768,
       cc_description := Some (tx 18), cc_displayName := Some ''Solar Mini (Ja)'',
       cc_functionCall := Some False\<rparr>,
     (chat_card_of ''solar-pro'')\<lparr>cc_contextWindowTokens := Some 32768,
       cc_description := Some (tx 26), cc_displayName := Some ''Solar Pro'',
       cc_enabled := Some True, cc_functionCall := Some False\<rparr>]"

definition UpstageProvider :: "texts \<Rightarrow> provider_card" where
  [provider_cards]: "UpstageProvider tx =
     (provider_of ''upstage'' ''Upstage'' ''https://upstage.ai'' (upstage_chatModels tx))\<lparr>pcd_checkModel := Some ''solar-1-mini-chat'',
       pcd_description := Some (tx 35),
       pcd_modelsUrl := Some ''https://developers.upstage.ai/docs/getting-started/models'',
       pcd_settings := plain_settings\<lparr>st_sdkType := Some ''openai''\<rparr>\<rparr>"

section \<open>vertexai\<close>

definition VertexAIProvider :: "texts \<Rightarrow> provider_card" where
  [provider_cards]: "VertexAIProvider tx =
     (provider_of ''vertexai'' ''Vertex AI'' ''https://cloud.google.com/vertex-ai'' [])\<lparr>pcd_checkModel := Some ''gemini-1.5-flash-001'',
       pcd_description := Some (tx 8),
       pcd_modelsUrl := Some ''https://console.cloud.google.com/vertex-ai/model-garden'',
       pcd_settings := plain_settings\<lparr>st_disableBrowserRequest := Some True,
       st_showModelFetcher := Some False,
       st_smoothing := Some (no_smoothing\<lparr>sm_text := Some True\<rparr>)\<rparr>\<rparr>"

section \<open>vllm\<close>

definition VLLMProvider :: "texts \<Rightarrow> provider_card" where
  [provider_cards]: "VLLMProvider tx =
     (provider_of ''vllm'' ''vLLM'' ''https://docs.vllm.ai'' [])\<lparr>pcd_description := Some (tx 5),
       pcd_modelList := Some (no_model_list\<lparr>ml_showModelFetcher := Some True\<rparr>),
       pcd_modelsUrl := Some ''https://docs.vllm.ai/en/latest/models/supported_models.html#supported-models'',
       pcd_settings := plain_settings\<lparr>st_proxyUrl := Some (Proxy_hint None ''http://localhost:8000/v1'' None),
       st_sdkType := Some ''openai'', st_showModelFetcher := Some True\<rparr>\<rparr>"

section \<open>volcengine\<close>

definition VolcengineProvider :: "texts \<Rightarrow> provider_card" where
  [provider_cards]: "VolcengineProvider tx =
     (provider_of ''volcengine'' ''Volcengine'' ''https://www.volcengine.com/product/ark'' [])\<lparr>pcd_description := Some (tx 7),
       pcd_modelsUrl := Some ''https://www.volcengine.com/docs/82379/1330310'',
       pcd_settings := plain_settings\<lparr>st_disableBrowserRequest := Some True,
       st_proxyUrl := Some (Proxy_hint None ''https://ark.cn-beijing.volces.com/api/v3'' None),
       st_sdkType := Some ''openai'', st_showDeployName := Some True,
       st_smoothing := Some (no_smoothing\<lparr>sm_speed := Some 2, sm_text := Some True\<rparr>)\<rparr>\<rparr>"

section \<open>wenxin\<close>

definition wenxin_chatModels_1 :: "texts \<Rightarrow> chat_card list" where
  [card_tables]: "wenxin_chatModels_1 tx = [
     (chat_card_of ''ernie-3.5-8k'')\<lparr>cc_contextWindowTokens := Some 8192,
       cc_description := Some (tx 9), cc_displayName := Some ''ERNIE 3.5 8K'',
       cc_enabled := Some True, cc_functionCall := Some True,
       cc_pricing := Some (no_pricing\<lparr>price_currency := Some CNY, price_input := Some 0.8,
       price_output := Some 2\<rparr>)\<rparr>,
     (chat_card_of ''ernie-3.5-8k-preview'')\<lparr>cc_contextWindowTokens := Some 8192,
       cc_description := Some (tx 23), cc_displayName := Some ''ERNIE 3.5 8K Preview'',
       cc_functionCall := Some True, cc_pricing := Some (no_pricing\<lparr>price_currency := Some CNY,
       price_input := Some 0.8, price_output := Some 2\<rparr>)\<rparr>,
     (chat_card_of ''ernie-3.5-128k'')\<lparr>cc_contextWindowTokens := Some 128000,
       cc_description := Some (tx 36), cc_displayName := Some ''ERNIE 3.5 128K'',
       cc_enabled := Some True, cc_functionCall := Some True,
       cc_pricing := Some (no_pricing\<lparr>price_currency := Some CNY, price_input := Some 0.8,
       price_output := Some 2\<rparr>)\<rparr>,
     (chat_card_of ''ernie-4.0-8k-latest'')\<lparr>cc_contextWindowTokens := Some 8192,
       cc_description := Some (tx 50), cc_displayName := Some ''ERNIE 4.0 8K'',
       cc_enabled := Some True, cc_functionCall := Some True,
       cc_pricing := Some (no_pricing\<lparr>price_currency := Some CNY, price_input := Some 30,
       price_output := Some 90\<rparr>)\<rparr>,
     (chat_card_of ''ernie-4.0-8k-preview'')\<lparr>cc_contextWindowTokens := Some 8192,
       cc_description := Some (tx 64), cc_displayName := Some ''ERNIE 4.0 8K Preview'',
       cc_functionCall := Some True, cc_pricing := Some (no_pricing\<lparr>price_currency := Some CNY,
       price_input := Some 30, price_output := Some 90\<rparr>)\<rparr>,
     (chat_card_of ''ernie-4.0-turbo-8k-latest'')\<lparr>cc_contextWindowTokens := Some 8192,
       cc_description := Some (tx 77), cc_displayName := Some ''ERNIE 4.0 Turbo 8K'',
       cc_enabled := Some True, cc_functionCall := Some True,
       cc_pricing := Some (no_pricing\<lparr>price_currency := Some CNY, price_input := Some 20,
       price_output := Some 60\<rparr>)\<rparr>,
     (chat_card_of ''ernie-4.0-turbo-128k'')\<lparr>cc_contextWindowTokens := Some 128000,
       cc_description := Some (tx 91), cc_displayName := Some ''ERNIE 4.0 Turbo 128K'',
       cc_enabled := Some True, cc_functionCall := Some True,
       cc_pricing := Some (no_pricing\<lparr>price_currency := Some CNY, price_input := Some 20,
       price_output := Some 60\<rparr>)\<rparr>,
     (chat_card_of ''ernie-4.0-turbo-8k-preview'')\<lparr>cc_contextWindowTokens := Some 8192,
       cc_description := Some (tx 105), cc_displayName := Some ''ERNIE 4.0 Turbo 8K Preview'',
       cc_functionCall := Some True, cc_pricing := Some (no_pricing\<lparr>price_currency := Some CNY,
       price_input := Some 20, price_output := Some 60\<rparr>)\<rparr>,
     (chat_card_of ''ernie-lite-8k'')\<lparr>cc_contextWindowTokens := Some 8192,
       cc_description := Some (tx 118), cc_displayName := Some ''ERNIE Lite 8K'',
       cc_pricing := Some (no_pricing\<lparr>price_currency := Some CNY, price_input := Some 0,
       price_output := Some 0\<rparr>)\<rparr>,
     (chat_card_of ''ernie-lite-pro-128k'')\<lparr>cc_contextWindowTokens := Some 128000,
       cc_description := Some (tx 130), cc_displayName := Some ''ERNIE Lite Pro 128K'',
       cc_functionCall := Some True, cc_pricing := Some (no_pricing\<lparr>price_currency := Some CNY,
       price_input := Some 0.2, price_output := Some 0.4\<rparr>)\<rparr>,
     (chat_card_of ''ernie-tiny-8k'')\<lparr>cc_contextWindowTokens := Some 8192,
       cc_description := Some (tx 142), cc_displayName := Some ''ERNIE Tiny 8K'',
       cc_pricing := Some (no_pricing\<lparr>price_currency := Some CNY, price_input := Some 0,
       price_output := Some 0\<rparr>)\<rparr>]"

definition wenxin_chatModels_2 :: "texts \<Rightarrow> chat_card list" where
  [card_tables]: "wenxin_chatModels_2 tx = [
     (chat_card_of ''ernie-speed-128k'')\<lparr>cc_contextWindowTokens := Some 128000,
       cc_description := Some (tx 154), cc_displayName := Some ''ERNIE Speed 128K'',
       cc_pricing := Some (no_pricing\<lparr>price_currency := Some CNY, price_input := Some 0,
       price_output := Some 0\<rparr>)\<rparr>,
     (chat_card_of ''ernie-speed-pro-128k'')\<lparr>cc_contextWindowTokens := Some 128000,
       cc_description := Some (tx 166), cc_displayName := Some ''ERNIE Speed Pro 128K'',
       cc_pricing := Some (no_pricing\<lparr>price_currency := Some CNY, price_input := Some 0.3,
       price_output := Some 0.6\<rparr>)\<rparr>,
     (chat_card_of ''ernie-char-8k'')\<lparr>cc_contextWindowTokens := Some 8192,
       cc_description := Some (tx 178), cc_displayName := Some ''ERNIE Character 8K'',
       cc_pricing := Some (no_pricing\<lparr>price_currency := Some CNY, price_input := Some 4,
       price_output := Some 8\<rparr>)\<rparr>,
     (chat_card_of ''ernie-char-fiction-8k'')\<lparr>cc_contextWindowTokens := Some 8192,
       cc_description := Some (tx 190), cc_displayName := Some ''ERNIE Character Fiction 8K'',
       cc_pricing := Some (no_pricing\<lparr>price_currency := Some CNY, price_input := Some 4,
       price_output := Some 8\<rparr>)\<rparr>,
     (chat_card_of ''ernie-novel-8k'')\<lparr>cc_contextWindowTokens := Some 8192,
       cc_description := Some (tx 201), cc_displayName := Some ''ERNIE Novel 8K'',
       cc_pricing := Some (no_pricing\<lparr>price_currency := Some CNY, price_input := Some 40,
       price_output := Some 120\<rparr>)\<rparr>,
     (chat_card_of ''deepseek-v3'')\<lparr>cc_contextWindowTokens := Some 65536,
       cc_description := Some (tx 213), cc_displayName := Some ''DeepSeek V3'',
       cc_pricing := Some (no_pricing\<lparr>price_currency := Some CNY, price_input := Some 0.8,
       price_output := Some 1.6\<rparr>)\<rparr>,
     (chat_card_of ''deepseek-r1'')\<lparr>cc_contextWindowTokens := Some 65536,
       cc_description := Some (tx 225), cc_displayName := Some ''DeepSeek R1'',
       cc_pricing := Some (no_pricing\<lparr>price_currency := Some CNY, price_input := Some 2,
       price_output := Some 8\<rparr>)\<rparr>]"

definition wenxin_chatModels :: "texts \<Rightarrow> chat_card list" where
  [card_tables]: "wenxin_chatModels tx =
     wenxin_chatModels_1 tx @ wenxin_chatModels_2 tx"

definition WenxinProvider :: "texts \<Rightarrow> provider_card" where
  [provider_cards]: "WenxinProvider tx =
     (provider_of ''wenxin'' ''Wenxin'' ''https://cloud.baidu.com/wenxin.html'' (wenxin_chatModels tx))\<lparr>pcd_checkModel := Some ''ernie-speed-128k'',
       pcd_description := Some (tx 237),
       pcd_modelsUrl := Some ''https://cloud.baidu.com/doc/WENXINWORKSHOP/s/Nlks5zkzu#%E5%AF%B9%E8%AF%9Dchat'',
       pcd_settings := plain_settings\<lparr>st_sdkType := Some ''openai'',
       st_smoothing := Some (no_smoothing\<lparr>sm_speed := Some 2, sm_text := Some True\<rparr>)\<rparr>,
       pcd_smoothing := Some (no_smoothing\<lparr>sm_speed := Some 2, sm_text := Some True\<rparr>)\<rparr>"

section \<open>xai\<close>

definition xai_chatModels :: "texts \<Rightarrow> chat_card list" where
  [card_tables]: "xai_chatModels tx = [
     (chat_card_of ''grok-beta'')\<lparr>cc_contextWindowTokens := Some 131072,
       cc_description := Some (tx 8), cc_displayName := Some ''Grok Beta'', cc_enabled := Some True,
       cc_functionCall := Some True, cc_pricing := Some (no_pricing\<lparr>price_input := Some 5,
       price_output := Some 15\<rparr>)\<rparr>,
     (chat_card_of ''grok-vision-beta'')\<lparr>cc_contextWindowTokens := Some 8192,
       cc_description := Some (tx 20), cc_displayName := Some ''Grok Vision Beta'',
       cc_enabled := Some True, cc_functionCall := Some True,
       cc_pricing := Some (no_pricing\<lparr>price_input := Some 5, price_output := Some 15\<rparr>),
       cc_vision := Some True\<rparr>,
     (chat_card_of ''grok-2-1212'')\<lparr>cc_contextWindowTokens := Some 131072,
       cc_description := Some (tx 33), cc_displayName := Some ''Grok 2 1212'',
       cc_enabled := Some True, cc_functionCall := Some True,
       cc_pricing := Some (no_pricing\<lparr>price_input := Some 2, price_output := Some 10\<rparr>),
       cc_releasedAt := Some ''2024-12-12''\<rparr>,
     (chat_card_of ''grok-2-vision-1212'')\<lparr>cc_contextWindowTokens := Some 32768,
       cc_description := Some (tx 46), cc_displayName := Some ''Grok 2 Vision 1212'',
       cc_enabled := Some True, cc_functionCall := Some True,
       cc_pricing := Some (no_pricing\<lparr>price_input := Some 2, price_output := Some 10\<rparr>),
       cc_releasedAt := Some ''2024-12-12'', cc_vision := Some True\<rparr>]"

definition XAIProvider :: "texts \<Rightarrow> provider_card" where
  [provider_cards]: "XAIProvider tx =
     (provider_of ''xai'' ''xAI'' ''https://x.ai/api'' (xai_chatModels tx))\<lparr>pcd_checkModel := Some ''grok-2-1212'',
       pcd_description := Some (tx 61),
       pcd_modelList := Some (no_model_list\<lparr>ml_showModelFetcher := Some True\<rparr>),
       pcd_modelsUrl := Some ''https://docs.x.ai/docs#models'',
       pcd_proxyUrl := Some (Proxy_hint None ''https://api.x.ai/v1'' None),
       pcd_settings := plain_settings\<lparr>st_proxyUrl := Some (Proxy_hint None ''https://api.x.ai/v1'' None),
       st_sdkType := Some ''openai'', st_showModelFetcher := Some True\<rparr>\<rparr>"

section \<open>xinference\<close>

definition XinferenceProvider :: "texts \<Rightarrow> provider_card" where
  [provider_cards]: "XinferenceProvider tx =
     (provider_of ''xinference'' ''Xinference'' ''https://inference.readthedocs.io/zh-cn/v0.12.3/index.html'' [])\<lparr>pcd_description := Some (tx 6),
       pcd_modelsUrl := Some ''https://inference.readthedocs.io/zh-cn/latest/models/builtin/index.html'',
       pcd_settings := plain_settings\<lparr>st_proxyUrl := Some (Proxy_hint None ''http://localhost:9997/v1'' None),
       st_sdkType := Some ''openai''\<rparr>\<rparr>"

section \<open>zeroone\<close>

definition zeroone_chatModels :: "texts \<Rightarrow> chat_card list" where
  [card_tables]: "zeroone_chatModels tx = [
     (chat_card_of ''yi-lightning'')\<lparr>cc_contextWindowTokens := Some 16384,
       cc_description := Some (tx 8), cc_displayName := Some ''Yi Lightning'',
       cc_enabled := Some True, cc_pricing := Some (no_pricing\<lparr>price_currency := Some CNY,
       price_input := Some 0.99, price_output := Some 0.99\<rparr>)\<rparr>,
     (chat_card_of ''yi-vision-v2'')\<lparr>cc_contextWindowTokens := Some 16384,
       cc_description := Some (tx 20), cc_displayName := Some ''Yi Vision V2'',
       cc_enabled := Some True, cc_pricing := Some (no_pricing\<lparr>price_currency := Some CNY,
       price_input := Some 6, price_output := Some 6\<rparr>), cc_vision := Some True\<rparr>,
     (chat_card_of ''yi-spark'')\<lparr>cc_contextWindowTokens := Some 16384,
       cc_description := Some (tx 33), cc_displayName := Some ''Yi Spark'',
       cc_pricing := Some (no_pricing\<lparr>price_currency := Some CNY, price_input := Some 1,
       price_output := Some 1\<rparr>)\<rparr>,
     (chat_card_of ''yi-medium'')\<lparr>cc_contextWindowTokens := Some 16384,
       cc_description := Some (tx 44), cc_displayName := Some ''Yi Medium'',
       cc_pricing := Some (no_pricing\<lparr>price_currency := Some CNY, price_input := Some 2.5,
       price_output := Some 2.5\<rparr>)\<rparr>,
     (chat_card_of ''yi-medium-200k'')\<lparr>cc_contextWindowTokens := Some 200000,
       cc_description := Some (tx 55), cc_displayName := Some ''Yi Medium 200K'',
       cc_pricing := Some (no_pricing\<lparr>price_currency := Some CNY, price_input := Some 12,
       price_output := Some 12\<rparr>)\<rparr>,
     (chat_card_of ''yi-large-turbo'')\<lparr>cc_contextWindowTokens := Some 16384,
       cc_description := Some (tx 66), cc_displayName := Some ''Yi Large Turbo'',
       cc_pricing := Some (no_pricing\<lparr>price_currency := Some CNY, price_input := Some 12,
       price_output := Some 12\<rparr>)\<rparr>,
     (chat_card_of ''yi-large-rag'')\<lparr>cc_contextWindowTokens := Some 16384,
       cc_description := Some (tx 78), cc_displayName := Some ''Yi Large RAG'',
       cc_pricing := Some (no_pricing\<lparr>price_currency := Some CNY, price_input := Some 25,
       price_output := Some 25\<rparr>)\<rparr>,
     (chat_card_of ''yi-large-fc'')\<lparr>cc_contextWindowTokens := Some 32768,
       cc_description := Some (tx 90), cc_displayName := Some ''Yi Large FC'',
       cc_functionCall := Some True, cc_pricing := Some (no_pricing\<lparr>price_currency := Some CNY,
       price_input := Some 20, price_output := Some 20\<rparr>)\<rparr>,
     (chat_card_of ''yi-large'')\<lparr>cc_contextWindowTokens := Some 32768,
       cc_description := Some (tx 102), cc_displayName := Some ''Yi Large'',
       cc_pricing := Some (no_pricing\<lparr>price_currency := Some CNY, price_input := Some 20,
       price_output := Some 20\<rparr>)\<rparr>,
     (chat_card_of ''yi-vision'')\<lparr>cc_contextWindowTokens := Some 16384,
       cc_description := Some (tx 113), cc_displayName := Some ''Yi Vision'',
       cc_pricing := Some (no_pricing\<lparr>price_currency := Some CNY, price_input := Some 6,
       price_output := Some 6\<rparr>), cc_vision := Some True\<rparr>,
     (chat_card_of ''yi-large-preview'')\<lparr>cc_contextWindowTokens := Some 16384,
       cc_description := Some (tx 125), cc_displayName := Some ''Yi Large Preview'',
       cc_pricing := Some (no_pricing\<lparr>price_currency := Some CNY, price_input := Some 20,
       price_output := Some 20\<rparr>)\<rparr>,
     (chat_card_of ''yi-lightning-lite'')\<lparr>cc_contextWindowTokens := Some 16384,
       cc_description := Some (tx 136), cc_displayName := Some ''Yi Lightning Lite'',
       cc_pricing := Some (no_pricing\<lparr>price_currency := Some CNY, price_input := Some 0.99,
       price_output := Some 0.99\<rparr>)\<rparr>]"

definition ZeroOneProvider :: "texts \<Rightarrow> provider_card" where
  [provider_cards]: "ZeroOneProvider tx =
     (provider_of ''zeroone'' ''01.AI'' ''https://www.lingyiwanwu.com/'' (zeroone_chatModels tx))\<lparr>pcd_checkModel := Some ''yi-lightning'',
       pcd_description := Some (tx 148),
       pcd_modelList := Some (no_model_list\<lparr>ml_showModelFetcher := Some True\<rparr>),
       pcd_modelsUrl := Some (tx 151), pcd_settings := plain_settings\<lparr>st_sdkType := Some ''openai'',
       st_showModelFetcher := Some True\<rparr>\<rparr>"

section \<open>zhipu\<close>

definition zhipu_chatModels_1 :: "texts \<Rightarrow> chat_card list" where
  [card_tables]: "zhipu_chatModels_1 tx = [
     (chat_card_of ''glm-zero-preview'')\<lparr>cc_contextWindowTokens := Some 16384,
       cc_description := Some (tx 10), cc_displayName := Some ''GLM-Zero-Preview'',
       cc_enabled := Some True, cc_pricing := Some (no_pricing\<lparr>price_currency := Some CNY,
       price_input := Some 10, price_output := Some 10\<rparr>)\<rparr>,
     (chat_card_of ''glm-4-flash'')\<lparr>cc_contextWindowTokens := Some 128000,
       cc_description := Some (tx 22), cc_displayName := Some ''GLM-4-Flash'',
       cc_enabled := Some True, cc_functionCall := Some True,
       cc_pricing := Some (no_pricing\<lparr>price_currency := Some CNY, price_input := Some 0,
       price_output := Some 0\<rparr>)\<rparr>,
     (chat_card_of ''glm-4-flashx'')\<lparr>cc_contextWindowTokens := Some 128000,
       cc_description := Some (tx 35), cc_displayName := Some ''GLM-4-FlashX'',
       cc_enabled := Some True, cc_functionCall := Some True,
       cc_pricing := Some (no_pricing\<lparr>price_currency := Some CNY, price_input := Some 0.1,
       price_output := Some 0.1\<rparr>)\<rparr>,
     (chat_card_of ''glm-4-long'')\<lparr>cc_contextWindowTokens := Some 1024000,
       cc_description := Some (tx 48), cc_displayName := Some ''GLM-4-Long'',
       cc_functionCall := Some True, cc_pricing := Some (no_pricing\<lparr>price_currency := Some CNY,
       price_input := Some 1, price_output := Some 1\<rparr>)\<rparr>,
     (chat_card_of ''glm-4-air'')\<lparr>cc_contextWindowTokens := Some 128000,
       cc_description := Some (tx 60), cc_displayName := Some ''GLM-4-Air'',
       cc_enabled := Some True, cc_functionCall := Some True,
       cc_pricing := Some (no_pricing\<lparr>price_currency := Some CNY, price_input := Some 1,
       price_output := Some 1\<rparr>)\<rparr>,
     (chat_card_of ''glm-4-airx'')\<lparr>cc_contextWindowTokens := Some 8192,
       cc_description := Some (tx 73), cc_displayName := Some ''GLM-4-AirX'',
       cc_enabled := Some True, cc_functionCall := Some True,
       cc_pricing := Some (no_pricing\<lparr>price_currency := Some CNY, price_input := Some 10,
       price_output := Some 10\<rparr>)\<rparr>,
     (chat_card_of ''glm-4-alltools'')\<lparr>cc_contextWindowTokens := Some 128000,
       cc_description := Some (tx 87), cc_displayName := Some ''GLM-4-AllTools'',
       cc_functionCall := Some True, cc_pricing := Some (no_pricing\<lparr>price_currency := Some CNY,
       price_input := Some 100, price_output := Some 100\<rparr>)\<rparr>,
     (chat_card_of ''glm-4-plus'')\<lparr>cc_contextWindowTokens := Some 128000,
       cc_description := Some (tx 100), cc_displayName := Some ''GLM-4-Plus'',
       cc_enabled := Some True, cc_functionCall := Some True,
       cc_pricing := Some (no_pricing\<lparr>price_currency := Some CNY, price_input := Some 50,
       price_output := Some 50\<rparr>)\<rparr>,
     (chat_card_of ''glm-4-0520'')\<lparr>cc_contextWindowTokens := Some 128000,
       cc_description := Some (tx 113), cc_displayName := Some ''GLM-4-0520'',
       cc_functionCall := Some True, cc_pricing := Some (no_pricing\<lparr>price_currency := Some CNY,
       price_input := Some 100, price_output := Some 100\<rparr>)\<rparr>,
     (chat_card_of ''glm-4'')\<lparr>cc_contextWindowTokens := Some 128000,
       cc_description := Some (tx 125), cc_displayName := Some ''GLM-4'',
       cc_functionCall := Some True, cc_pricing := Some (no_pricing\<lparr>price_currency := Some CNY,
       price_input := Some 100, price_output := Some 100\<rparr>)\<rparr>,
     (chat_card_of ''glm-4v-flash'')\<lparr>cc_contextWindowTokens := Some 8192,
       cc_description := Some (tx 138), cc_displayName := Some ''GLM-4V-Flash'',
       cc_enabled := Some True, cc_pricing := Some (no_pricing\<lparr>price_currency := Some CNY,
       price_input := Some 0, price_output := Some 0\<rparr>), cc_releasedAt := Some ''2024-12-09'',
       cc_vision := Some True\<rparr>]"

definition zhipu_chatModels_2 :: "texts \<Rightarrow> chat_card list" where
  [card_tables]: "zhipu_chatModels_2 tx = [
     (chat_card_of ''glm-4v-plus'')\<lparr>cc_contextWindowTokens := Some 8192,
       cc_description := Some (tx 152), cc_displayName := Some ''GLM-4V-Plus'',
       cc_enabled := Some True, cc_pricing := Some (no_pricing\<lparr>price_currency := Some CNY,
       price_input := Some 10, price_output := Some 10\<rparr>), cc_vision := Some True\<rparr>,
     (chat_card_of ''glm-4v'')\<lparr>cc_contextWindowTokens := Some 2048,
       cc_description := Some (tx 165), cc_displayName := Some ''GLM-4V'',
       cc_pricing := Some (no_pricing\<lparr>price_currency := Some CNY, price_input := Some 50,
       price_output := Some 50\<rparr>), cc_vision := Some True\<rparr>,
     (chat_card_of ''codegeex-4'')\<lparr>cc_contextWindowTokens := Some 128000,
       cc_description := Some (tx 178), cc_displayName := Some ''CodeGeeX-4'',
       cc_pricing := Some (no_pricing\<lparr>price_currency := Some CNY, price_input := Some 0.1,
       price_output := Some 0.1\<rparr>)\<rparr>,
     (chat_card_of ''charglm-3'')\<lparr>cc_contextWindowTokens := Some 4096,
       cc_description := Some (tx 189), cc_displayName := Some ''CharGLM-3'',
       cc_pricing := Some (no_pricing\<lparr>price_currency := Some CNY, price_input := Some 15,
       price_output := Some 15\<rparr>)\<rparr>,
     (chat_card_of ''emohaa'')\<lparr>cc_contextWindowTokens := Some 8192,
       cc_description := Some (tx 200), cc_displayName := Some ''Emohaa'',
       cc_pricing := Some (no_pricing\<lparr>price_currency := Some CNY, price_input := Some 15,
       price_output := Some 15\<rparr>)\<rparr>]"

definition zhipu_chatModels :: "texts \<Rightarrow> chat_card list" where
  [card_tables]: "zhipu_chatModels tx =
     zhipu_chatModels_1 tx @ zhipu_chatModels_2 tx"

definition ZhiPuProvider :: "texts \<Rightarrow> provider_card" where
  [provider_cards]: "ZhiPuProvider tx =
     (provider_of ''zhipu'' ''ZhiPu'' ''https://zhipuai.cn'' (zhipu_chatModels tx))\<lparr>pcd_checkModel := Some ''glm-4-flash'',
       pcd_description := Some (tx 212),
       pcd_modelList := Some (no_model_list\<lparr>ml_showModelFetcher := Some True\<rparr>),
       pcd_modelsUrl := Some ''https://open.bigmodel.cn/dev/howuse/model'',
       pcd_settings := plain_settings\<lparr>st_sdkType := Some ''openai'',
       st_showModelFetcher := Some True\<rparr>\<rparr>"

end
