(* ===== verification/Provider_Catalogue.thy ===== *)
theory Provider_Catalogue
  imports Model_Data_A Model_Data_B Model_Data_C Model_Data_D
    Provider_Data_A Provider_Data_B Provider_Data_C Provider_Data_D
begin

text \<open>
  The catalogue put together: the lists of \<open>config/llm-providers/index.ts\<close> and the provider map
  of \<open>config/ai-models/index.ts\<close> over the actual cards, and what the adapter makes of them.
\<close>

section \<open>The lists\<close>

text \<open>\<open>T p\<close> are the texts of the file of the provider \<open>p\<close>, one function for each directory.\<close>

definition LOBE_DEFAULT_MODEL_LIST :: "(string \<Rightarrow> texts) \<Rightarrow> chat_card list" where
  "LOBE_DEFAULT_MODEL_LIST T = concat [
     pcd_chatModels (OpenAIProvider (T ''openai'')), pcd_chatModels (QwenProvider (T ''qwen'')),
     pcd_chatModels (ZhiPuProvider (T ''zhipu'')),
     pcd_chatModels (BedrockProvider (T ''bedrock'')),
     pcd_chatModels (DeepSeekProvider (T ''deepseek'')),
     pcd_chatModels (GoogleProvider (T ''google'')), pcd_chatModels (GroqProvider (T ''groq'')),
     pcd_chatModels (GithubProvider (T ''github'')),
     pcd_chatModels (MinimaxProvider (T ''minimax'')),
     pcd_chatModels (MistralProvider (T ''mistral'')),
     pcd_chatModels (MoonshotProvider (T ''moonshot'')),
     pcd_chatModels (OllamaProvider (T ''ollama'')), pcd_chatModels (VLLMProvider (T ''vllm'')),
     pcd_chatModels (XinferenceProvider (T ''xinference'')),
     pcd_chatModels (OpenRouterProvider (T ''openrouter'')),
     pcd_chatModels (TogetherAIProvider (T ''togetherai'')),
     pcd_chatModels (FireworksAIProvider (T ''fireworksai'')),
     pcd_chatModels (PerplexityProvider (T ''perplexity'')),
     pcd_chatModels (AnthropicProvider (T ''anthropic'')),
     pcd_chatModels (HuggingFaceProvider (T ''huggingface'')),
     pcd_chatModels (XAIProvider (T ''xai'')), pcd_chatModels (JinaProvider (T ''jina'')),
     pcd_chatModels (SambaNovaProvider (T ''sambanova'')),
     pcd_chatModels (CohereProvider (T ''cohere'')),
     pcd_chatModels (ZeroOneProvider (T ''zeroone'')),
     pcd_chatModels (StepfunProvider (T ''stepfun'')),
     pcd_chatModels (NovitaProvider (T ''novita'')),
     pcd_chatModels (NvidiaProvider (T ''nvidia'')),
     pcd_chatModels (BaichuanProvider (T ''baichuan'')),
     pcd_chatModels (TaichuProvider (T ''taichu'')),
     pcd_chatModels (CloudflareProvider (T ''cloudflare'')),
     pcd_chatModels (Ai360Provider (T ''ai360'')),
     pcd_chatModels (SiliconCloudProvider (T ''siliconcloud'')),
     pcd_chatModels (GiteeAIProvider (T ''giteeai'')),
     pcd_chatModels (UpstageProvider (T ''upstage'')),
     pcd_chatModels (SparkProvider (T ''spark'')), pcd_chatModels (Ai21Provider (T ''ai21'')),
     pcd_chatModels (HunyuanProvider (T ''hunyuan'')),
     pcd_chatModels (WenxinProvider (T ''wenxin'')),
     pcd_chatModels (SenseNovaProvider (T ''sensenova'')),
     pcd_chatModels (InternLMProvider (T ''internlm'')),
     pcd_chatModels (HigressProvider (T ''higress'')),
     pcd_chatModels (PPIOProvider (T ''ppio'')),
     pcd_chatModels (Search1APIProvider (T ''search1api'')),
     pcd_chatModels (InfiniAIProvider (T ''infiniai'')),
     pcd_chatModels (QiniuProvider (T ''qiniu''))]"

definition DEFAULT_MODEL_PROVIDER_LIST :: "(string \<Rightarrow> texts) \<Rightarrow> provider_card list" where
  "DEFAULT_MODEL_PROVIDER_LIST T = [
     OpenAIProvider (T ''openai''),
     (AzureProvider (T ''azure''))\<lparr>pcd_chatModels := []\<rparr>,
     AzureAIProvider (T ''azureai''), OllamaProvider (T ''ollama''), VLLMProvider (T ''vllm''),
     XinferenceProvider (T ''xinference''), AnthropicProvider (T ''anthropic''),
     BedrockProvider (T ''bedrock''), GoogleProvider (T ''google''),
     VertexAIProvider (T ''vertexai''), DeepSeekProvider (T ''deepseek''),
     PPIOProvider (T ''ppio''), HuggingFaceProvider (T ''huggingface''),
     OpenRouterProvider (T ''openrouter''), CloudflareProvider (T ''cloudflare''),
     GithubProvider (T ''github''), NovitaProvider (T ''novita''), NvidiaProvider (T ''nvidia''),
     TogetherAIProvider (T ''togetherai''), FireworksAIProvider (T ''fireworksai''),
     GroqProvider (T ''groq''), PerplexityProvider (T ''perplexity''),
     MistralProvider (T ''mistral''), Ai21Provider (T ''ai21''), UpstageProvider (T ''upstage''),
     XAIProvider (T ''xai''), JinaProvider (T ''jina''), SambaNovaProvider (T ''sambanova''),
     CohereProvider (T ''cohere''), QwenProvider (T ''qwen''), WenxinProvider (T ''wenxin''),
     TencentcloudProvider (T ''tencentcloud''), HunyuanProvider (T ''hunyuan''),
     ZhiPuProvider (T ''zhipu''), SiliconCloudProvider (T ''siliconcloud''),
     ZeroOneProvider (T ''zeroone''), SparkProvider (T ''spark''),
     SenseNovaProvider (T ''sensenova''), StepfunProvider (T ''stepfun''),
     MoonshotProvider (T ''moonshot''), BaichuanProvider (T ''baichuan''),
     VolcengineProvider (T ''volcengine''), MinimaxProvider (T ''minimax''),
     LMStudioProvider (T ''lmstudio''), InternLMProvider (T ''internlm''),
     HigressProvider (T ''higress''), GiteeAIProvider (T ''giteeai''),
     TaichuProvider (T ''taichu''), Ai360Provider (T ''ai360''),
     Search1APIProvider (T ''search1api''), InfiniAIProvider (T ''infiniai''),
     QiniuProvider (T ''qiniu'')]"

definition providerMap :: "(string \<Rightarrow> texts) \<Rightarrow> (string \<times> ai_model list) list" where
  "providerMap T = [
     (''ai21'', ai21ChatModels (T ''ai21'')), (''ai360'', ai360ChatModels (T ''ai360'')),
     (''anthropic'', anthropicChatModels (T ''anthropic'')),
     (''azure'', azureChatModels (T ''azure'')),
     (''azureai'', azureaiChatModels (T ''azureai'')),
     (''baichuan'', baichuanChatModels (T ''baichuan'')),
     (''bedrock'', bedrockChatModels (T ''bedrock'')),
     (''cloudflare'', cloudflareChatModels (T ''cloudflare'')),
     (''cohere'', cohereChatModels (T ''cohere'')),
     (''deepseek'', deepseekChatModels (T ''deepseek'')),
     (''fireworksai'', fireworksaiChatModels (T ''fireworksai'')),
     (''giteeai'', giteeaiChatModels (T ''giteeai'')),
     (''github'', githubChatModels (T ''github'')),
     (''google'', googleChatModels (T ''google'')), (''groq'', groqChatModels (T ''groq'')),
     (''higress'', higressChatModels (T ''higress'')),
     (''huggingface'', huggingfaceChatModels (T ''huggingface'')),
     (''hunyuan'', hunyuanChatModels (T ''hunyuan'')),
     (''infiniai'', infiniaiChatModels (T ''infiniai'')),
     (''internlm'', internlmChatModels (T ''internlm'')),
     (''jina'', jinaChatModels (T ''jina'')),
     (''lmstudio'', lmStudioChatModels (T ''lmstudio'')),
     (''minimax'', minimaxChatModels (T ''minimax'')),
     (''mistral'', mistralChatModels (T ''mistral'')),
     (''moonshot'', moonshotChatModels (T ''moonshot'')),
     (''novita'', novitaChatModels (T ''novita'')),
     (''nvidia'', nvidiaChatModels (T ''nvidia'')),
     (''ollama'', ollamaChatModels (T ''ollama'')),
     (''openai'', openai_allModels (T ''openai'')),
     (''openrouter'', openrouterChatModels (T ''openrouter'')),
     (''perplexity'', perplexityChatModels (T ''perplexity'')),
     (''ppio'', ppioChatModels (T ''ppio'')), (''qiniu'', qiniuChatModels (T ''qiniu'')),
     (''qwen'', qwenChatModels (T ''qwen'')),
     (''sambanova'', sambanovaChatModels (T ''sambanova'')),
     (''search1api'', search1apiChatModels (T ''search1api'')),
     (''sensenova'', sensenovaChatModels (T ''sensenova'')),
     (''siliconcloud'', siliconcloudChatModels (T ''siliconcloud'')),
     (''spark'', sparkChatModels (T ''spark'')),
     (''stepfun'', stepfunChatModels (T ''stepfun'')),
     (''taichu'', taichuChatModels (T ''taichu'')),
     (''tencentcloud'', tencentCloudChatModels (T ''tencentcloud'')),
     (''togetherai'', togetheraiChatModels (T ''togetherai'')),
     (''upstage'', upstageChatModels (T ''upstage'')),
     (''vertexai'', vertexaiChatModels (T ''vertexai'')),
     (''vllm'', vllmChatModels (T ''vllm'')),
     (''volcengine'', doubaoChatModels (T ''volcengine'')),
     (''wenxin'', wenxinChatModels (T ''wenxin'')), (''xai'', xaiChatModels (T ''xai'')),
     (''xinference'', xinferenceChatModels (T ''xinference'')),
     (''zeroone'', zerooneChatModels (T ''zeroone'')), (''zhipu'', zhipuChatModels (T ''zhipu''))]"

definition model_cards :: "(string \<Rightarrow> texts) \<Rightarrow> string \<Rightarrow> ai_model list" where
  "model_cards T p = (case map_of (providerMap T) p of Some ms \<Rightarrow> ms | None \<Rightarrow> [])"

section \<open>What is checked of a card\<close>

definition no_less_than_0 :: "rat option \<Rightarrow> bool" where
  "no_less_than_0 x = (case x of None \<Rightarrow> True | Some v \<Rightarrow> 0 \<le> v)"

definition plausible_pricing :: "pricing \<Rightarrow> bool" where
  "plausible_pricing p = (list_all no_less_than_0
      [price_input p, price_output p, price_cachedInput p, price_writeCacheInput p,
       price_audioInput p, price_audioOutput p, price_cachedAudioInput p]
    \<and> list_all (\<lambda>(r, v). 0 \<le> v) (price_resolutions p))"

text \<open>The window is positive, an answer fits into it, and no price is negative.\<close>

definition plausible_card :: "ai_model \<Rightarrow> bool" where
  "plausible_card m = (am_id m \<noteq> []
     \<and> (case am_contextWindowTokens m of None \<Rightarrow> am_maxOutput m = None
        | Some c \<Rightarrow> 0 < c \<and> (case am_maxOutput m of None \<Rightarrow> True | Some k \<Rightarrow> 0 < k \<and> k \<le> c))
     \<and> (case am_pricing m of None \<Rightarrow> True | Some p \<Rightarrow> plausible_pricing p))"

text \<open>The model a provider is checked with, and whether one of its chat models is that model.\<close>

definition check_model_of :: "provider_card \<Rightarrow> string result" where
  "check_model_of c = (if str_truthy (pcd_checkModel c) then Inr (the (pcd_checkModel c))
     else getDefaultCheckModel (pcd_id c))"

definition offers :: "ai_model list \<Rightarrow> string \<Rightarrow> bool" where
  "offers ms x = list_ex (\<lambda>m. am_type m = ''chat'' \<and> am_id m = x) ms"

definition check_model_offered :: "(string \<Rightarrow> ai_model list) \<Rightarrow> provider_card \<Rightarrow> bool" where
  "check_model_offered cards c =
     (case (convertLobeProviderToTemplate c, getProviderModels cards (pcd_id c)) of
        (Inr t, Inr ms) \<Rightarrow> ps_checkModel (tpl_settings t) \<in> Some ` lm_id ` set ms
      | _ \<Rightarrow> False)"

section \<open>The tables, checked\<close>

lemmas card_checks = plausible_card_def plausible_pricing_def no_less_than_0_def

lemma plausible_tables_1:
  "list_all plausible_card (ai21ChatModels tx)"
  "list_all plausible_card (ai360ChatModels tx)"
  "list_all plausible_card (anthropicChatModels tx)"
  "list_all plausible_card (azureChatModels tx)"
  "list_all plausible_card (azureaiChatModels tx)"
  "list_all plausible_card (baichuanChatModels tx)"
  "list_all plausible_card (bedrockChatModels tx)"
  "list_all plausible_card (cloudflareChatModels tx)"
  "list_all plausible_card (cohereChatModels tx)"
  "list_all plausible_card (deepseekChatModels tx)"
  "list_all plausible_card (fireworksaiChatModels tx)"
  "list_all plausible_card (giteeaiChatModels tx)"
  "list_all plausible_card (githubChatModels tx)"
  by (simp_all add: card_tables card_checks)

lemma plausible_tables_2:
  "list_all plausible_card (googleChatModels tx)"
  "list_all plausible_card (groqChatModels tx)"
  "list_all plausible_card (higressChatModels tx)"
  "list_all plausible_card (huggingfaceChatModels tx)"
  "list_all plausible_card (hunyuanChatModels tx)"
  "list_all plausible_card (infiniaiChatModels tx)"
  "list_all plausible_card (internlmChatModels tx)"
  "list_all plausible_card (jinaChatModels tx)"
  "list_all plausible_card (lmStudioChatModels tx)"
  "list_all plausible_card (minimaxChatModels tx)"
  "list_all plausible_card (mistralChatModels tx)"
  "list_all plausible_card (moonshotChatModels tx)"
  "list_all plausible_card (novitaChatModels tx)"
  by (simp_all add: card_tables card_checks)

lemma plausible_tables_3:
  "list_all plausible_card (nvidiaChatModels tx)"
  "list_all plausible_card (ollamaChatModels tx)"
  "list_all plausible_card (openai_allModels tx)"
  "list_all plausible_card (openrouterChatModels tx)"
  "list_all plausible_card (perplexityChatModels tx)"
  "list_all plausible_card (ppioChatModels tx)"
  "list_all plausible_card (qiniuChatModels tx)"
  "list_all plausible_card (qwenChatModels tx)"
  "list_all plausible_card (sambanovaChatModels tx)"
  "list_all plausible_card (search1apiChatModels tx)"
  "list_all plausible_card (sensenovaChatModels tx)"
  "list_all plausible_card (siliconcloudChatModels tx)"
  "list_all plausible_card (sparkChatModels tx)"
  by (simp_all add: card_tables card_checks)

lemma plausible_tables_4:
  "list_all plausible_card (stepfunChatModels tx)"
  "list_all plausible_card (taichuChatModels tx)"
  "list_all plausible_card (tencentCloudChatModels tx)"
  "list_all plausible_card (togetheraiChatModels tx)"
  "list_all plausible_card (upstageChatModels tx)"
  "list_all plausible_card (vertexaiChatModels tx)"
  "list_all plausible_card (vllmChatModels tx)"
  "list_all plausible_card (doubaoChatModels tx)"
  "list_all plausible_card (wenxinChatModels tx)"
  "list_all plausible_card (xaiChatModels tx)"
  "list_all plausible_card (xinferenceChatModels tx)"
  "list_all plausible_card (zerooneChatModels tx)"
  "list_all plausible_card (zhipuChatModels tx)"
  by (simp_all add: card_tables card_checks)

lemma distinct_tables_1:
  "distinct (map am_id (ai21ChatModels tx))"
  "distinct (map am_id (ai360ChatModels tx))"
  "distinct (map am_id (anthropicChatModels tx))"
  "distinct (map am_id (azureChatModels tx))"
  "distinct (map am_id (azureaiChatModels tx))"
  "distinct (map am_id (baichuanChatModels tx))"
  "distinct (map am_id (bedrockChatModels tx))"
  "distinct (map am_id (cloudflareChatModels tx))"
  "distinct (map am_id (deepseekChatModels tx))"
  "distinct (map am_id (fireworksaiChatModels tx))"
  "distinct (map am_id (giteeaiChatModels tx))"
  by (simp_all add: card_tables)

lemma distinct_tables_2:
  "distinct (map am_id (googleChatModels tx))"
  "distinct (map am_id (groqChatModels tx))"
  "distinct (map am_id (huggingfaceChatModels tx))"
  "distinct (map am_id (hunyuanChatModels tx))"
  "distinct (map am_id (infiniaiChatModels tx))"
  "distinct (map am_id (internlmChatModels tx))"
  "distinct (map am_id (jinaChatModels tx))"
  "distinct (map am_id (lmStudioChatModels tx))"
  "distinct (map am_id (minimaxChatModels tx))"
  "distinct (map am_id (mistralChatModels tx))"
  "distinct (map am_id (moonshotChatModels tx))"
  "distinct (map am_id (novitaChatModels tx))"
  by (simp_all add: card_tables)

lemma distinct_tables_3:
  "distinct (map am_id (nvidiaChatModels tx))"
  "distinct (map am_id (ollamaChatModels tx))"
  "distinct (map am_id (openai_allModels tx))"
  "distinct (map am_id (openrouterChatModels tx))"
  "distinct (map am_id (perplexityChatModels tx))"
  "distinct (map am_id (ppioChatModels tx))"
  "distinct (map am_id (qiniuChatModels tx))"
  "distinct (map am_id (qwenChatModels tx))"
  "distinct (map am_id (sambanovaChatModels tx))"
  "distinct (map am_id (search1apiChatModels tx))"
  "distinct (map am_id (sensenovaChatModels tx))"
  "distinct (map am_id (siliconcloudChatModels tx))"
  "distinct (map am_id (sparkChatModels tx))"
  by (simp_all add: card_tables)

lemma distinct_tables_4:
  "distinct (map am_id (stepfunChatModels tx))"
  "distinct (map am_id (taichuChatModels tx))"
  "distinct (map am_id (tencentCloudChatModels tx))"
  "distinct (map am_id (togetheraiChatModels tx))"
  "distinct (map am_id (upstageChatModels tx))"
  "distinct (map am_id (vertexaiChatModels tx))"
  "distinct (map am_id (vllmChatModels tx))"
  "distinct (map am_id (doubaoChatModels tx))"
  "distinct (map am_id (wenxinChatModels tx))"
  "distinct (map am_id (xaiChatModels tx))"
  "distinct (map am_id (xinferenceChatModels tx))"
  "distinct (map am_id (zerooneChatModels tx))"
  "distinct (map am_id (zhipuChatModels tx))"
  by (simp_all add: card_tables)

text \<open>The cards that state no context window: those of OpenAI for speech and images, and seventeen of
  Higress.\<close>

definition windowless :: "ai_model list \<Rightarrow> string list" where
  "windowless ms = map am_id (filter (\<lambda>m. am_contextWindowTokens m = None) ms)"

definition windowless_openai :: "string list" where
  "windowless_openai = [''tts-1'', ''tts-1-hd'', ''gpt-4o-mini-tts'', ''whisper-1'', ''dall-e-3'', ''dall-e-2'']"

definition windowless_higress :: "string list" where
  "windowless_higress = [''Baichuan4-Turbo'', ''Baichuan4-Air'', ''hunyuan-large'', ''command-r'',
       ''command-r-plus'', ''command-light'', ''Doubao-lite-4k'', ''Doubao-lite-32k'',
       ''Doubao-lite-128k'', ''Doubao-pro-4k'', ''Doubao-pro-32k'', ''Doubao-pro-128k'',
       ''Skylark2-pro-character-4k'', ''Skylark2-pro-32k'', ''Skylark2-pro-4k'',
       ''Skylark2-pro-turbo-8k'', ''Skylark2-lite-8k'']"

lemma stated_windows_1:
  "windowless (ai21ChatModels tx) = []"
  "windowless (ai360ChatModels tx) = []"
  "windowless (anthropicChatModels tx) = []"
  "windowless (azureChatModels tx) = []"
  "windowless (azureaiChatModels tx) = []"
  "windowless (baichuanChatModels tx) = []"
  "windowless (bedrockChatModels tx) = []"
  "windowless (cloudflareChatModels tx) = []"
  "windowless (cohereChatModels tx) = []"
  "windowless (deepseekChatModels tx) = []"
  "windowless (fireworksaiChatModels tx) = []"
  "windowless (giteeaiChatModels tx) = []"
  "windowless (githubChatModels tx) = []"
  by (simp_all add: card_tables windowless_def)

lemma stated_windows_2:
  "windowless (googleChatModels tx) = []"
  "windowless (groqChatModels tx) = []"
  "windowless (higressChatModels tx) = windowless_higress"
  "windowless (huggingfaceChatModels tx) = []"
  "windowless (hunyuanChatModels tx) = []"
  "windowless (infiniaiChatModels tx) = []"
  "windowless (internlmChatModels tx) = []"
  "windowless (jinaChatModels tx) = []"
  "windowless (lmStudioChatModels tx) = []"
  "windowless (minimaxChatModels tx) = []"
  "windowless (mistralChatModels tx) = []"
  "windowless (moonshotChatModels tx) = []"
  "windowless (novitaChatModels tx) = []"
  by (simp_all add: card_tables windowless_def windowless_higress_def)

lemma stated_windows_3:
  "windowless (nvidiaChatModels tx) = []"
  "windowless (ollamaChatModels tx) = []"
  "windowless (openai_allModels tx) = windowless_openai"
  "windowless (openrouterChatModels tx) = []"
  "windowless (perplexityChatModels tx) = []"
  "windowless (ppioChatModels tx) = []"
  "windowless (qiniuChatModels tx) = []"
  "windowless (qwenChatModels tx) = []"
  "windowless (sambanovaChatModels tx) = []"
  "windowless (search1apiChatModels tx) = []"
  "windowless (sensenovaChatModels tx) = []"
  "windowless (siliconcloudChatModels tx) = []"
  "windowless (sparkChatModels tx) = []"
  by (simp_all add: card_tables windowless_def windowless_openai_def)

lemma stated_windows_4:
  "windowless (stepfunChatModels tx) = []"
  "windowless (taichuChatModels tx) = []"
  "windowless (tencentCloudChatModels tx) = []"
  "windowless (togetheraiChatModels tx) = []"
  "windowless (upstageChatModels tx) = []"
  "windowless (vertexaiChatModels tx) = []"
  "windowless (vllmChatModels tx) = []"
  "windowless (doubaoChatModels tx) = []"
  "windowless (wenxinChatModels tx) = []"
  "windowless (xaiChatModels tx) = []"
  "windowless (xinferenceChatModels tx) = []"
  "windowless (zerooneChatModels tx) = []"
  "windowless (zhipuChatModels tx) = []"
  by (simp_all add: card_tables windowless_def)

lemma windowless_higress_nonempty [simp]: "windowless_higress \<noteq> []"
  by (simp add: windowless_higress_def)

lemma windowless_openai_nonempty [simp]: "windowless_openai \<noteq> []"
  by (simp add: windowless_openai_def)

text \<open>Three files repeat an id.\<close>

lemma repeated_ids:
  "\<not> distinct (map am_id (cohereChatModels tx))"
  "\<not> distinct (map am_id (githubChatModels tx))"
  by (simp_all add: card_tables)

lemma repeated_in_pieces:
  assumes "x \<in> f ` set b" "x \<in> f ` set d"
  shows "\<not> distinct (map f (a @ b @ c @ d @ e))"
  using assms by auto

lemma repeated_id_higress: "\<not> distinct (map am_id (higressChatModels tx))"
proof -
  have "''o1-mini'' \<in> am_id ` set (higressChatModels_10 tx)"
    by (simp add: higressChatModels_10_def)
  moreover have "''o1-mini'' \<in> am_id ` set (higressChatModels_12 tx)"
    by (simp add: higressChatModels_12_def)
  ultimately have "\<not> distinct (map am_id (concat (map (\<lambda>f. f tx)
      [higressChatModels_1, higressChatModels_2, higressChatModels_3, higressChatModels_4,
       higressChatModels_5, higressChatModels_6, higressChatModels_7, higressChatModels_8,
       higressChatModels_9]) @ higressChatModels_10 tx @ higressChatModels_11 tx
      @ higressChatModels_12 tx @ concat (map (\<lambda>f. f tx)
      [higressChatModels_13, higressChatModels_14, higressChatModels_15, higressChatModels_16,
       higressChatModels_17, higressChatModels_18, higressChatModels_19, higressChatModels_20])))"
    by (rule repeated_in_pieces)
  then show ?thesis
    by (simp only: higressChatModels_def append_assoc concat.simps list.map append_Nil2 not_False_eq_True)
qed

section \<open>The cards of a provider\<close>

lemma providerMap_keys: "map fst (providerMap T) = provider_map_keys"
  by (simp add: providerMap_def provider_map_keys_def)

lemma model_cards_entries: "list_all (\<lambda>(p, ms). model_cards T p = ms) (providerMap T)"
proof -
  have "distinct (map fst (providerMap T))"
    unfolding providerMap_keys provider_map_keys_all by code_simp
  then show ?thesis by (auto simp: list_all_iff model_cards_def)
qed

lemmas model_cards_of [simp] =
  model_cards_entries [unfolded providerMap_def list.pred_inject prod.case, simplified]

section \<open>Lemmas on templates\<close>

lemma builtin_providers_map:
  assumes "list_all (\<lambda>p. pcd_id p \<notin> set object_members) ps"
  shows "\<exists>ts. builtin_providers ps = Inr ts \<and> length ts = length ps
    \<and> (\<forall>i < length ps. convertLobeProviderToTemplate (ps ! i) = Inr (ts ! i))"
  using assms
proof (induction ps)
  case (Cons p ps)
  then obtain ts where ts: "builtin_providers ps = Inr ts" "length ts = length ps"
    "\<forall>i < length ps. convertLobeProviderToTemplate (ps ! i) = Inr (ts ! i)" by auto
  have "\<exists>c. getDefaultCheckModel (pcd_id p) = Inr c"
    using Cons.prems by (simp add: getDefaultCheckModel_def table_get_def split: option.splits)
  then obtain t where t: "convertLobeProviderToTemplate p = Inr t"
    by (cases "str_truthy (pcd_checkModel p)") (auto simp: convertLobeProviderToTemplate_def)
  show ?case
    by (rule exI [of _ "t # ts"]) (use ts t in \<open>auto simp: nth_Cons split: nat.splits\<close>)
qed simp

lemma convert_id:
  "convertLobeProviderToTemplate p = Inr t \<Longrightarrow> tpl_id t = pcd_id p \<and> tpl_name t = pcd_name p"
  by (auto simp: convertLobeProviderToTemplate_def split: sum.splits if_splits)

lemma pcd_id_cards [simp]:
  "pcd_id (Ai21Provider tx) = ''ai21''"
  "pcd_id (Ai360Provider tx) = ''ai360''"
  "pcd_id (AnthropicProvider tx) = ''anthropic''"
  "pcd_id (AzureProvider tx) = ''azure''"
  "pcd_id (AzureAIProvider tx) = ''azureai''"
  "pcd_id (BaichuanProvider tx) = ''baichuan''"
  "pcd_id (BedrockProvider tx) = ''bedrock''"
  "pcd_id (CloudflareProvider tx) = ''cloudflare''"
  "pcd_id (CohereProvider tx) = ''cohere''"
  "pcd_id (DeepSeekProvider tx) = ''deepseek''"
  "pcd_id (FireworksAIProvider tx) = ''fireworksai''"
  "pcd_id (GiteeAIProvider tx) = ''giteeai''"
  "pcd_id (GithubProvider tx) = ''github''"
  "pcd_id (GoogleProvider tx) = ''google''"
  "pcd_id (GroqProvider tx) = ''groq''"
  "pcd_id (HigressProvider tx) = ''higress''"
  "pcd_id (HuggingFaceProvider tx) = ''huggingface''"
  "pcd_id (HunyuanProvider tx) = ''hunyuan''"
  "pcd_id (InfiniAIProvider tx) = ''infiniai''"
  "pcd_id (InternLMProvider tx) = ''internlm''"
  "pcd_id (JinaProvider tx) = ''jina''"
  "pcd_id (LMStudioProvider tx) = ''lmstudio''"
  "pcd_id (MinimaxProvider tx) = ''minimax''"
  "pcd_id (MistralProvider tx) = ''mistral''"
  "pcd_id (MoonshotProvider tx) = ''moonshot''"
  "pcd_id (NovitaProvider tx) = ''novita''"
  "pcd_id (NvidiaProvider tx) = ''nvidia''"
  "pcd_id (OllamaProvider tx) = ''ollama''"
  "pcd_id (OpenAIProvider tx) = ''openai''"
  "pcd_id (OpenRouterProvider tx) = ''openrouter''"
  "pcd_id (PerplexityProvider tx) = ''perplexity''"
  "pcd_id (PPIOProvider tx) = ''ppio''"
  "pcd_id (QiniuProvider tx) = ''qiniu''"
  "pcd_id (QwenProvider tx) = ''qwen''"
  "pcd_id (SambaNovaProvider tx) = ''sambanova''"
  "pcd_id (Search1APIProvider tx) = ''search1api''"
  "pcd_id (SenseNovaProvider tx) = ''sensenova''"
  "pcd_id (SiliconCloudProvider tx) = ''siliconcloud''"
  "pcd_id (SparkProvider tx) = ''spark''"
  "pcd_id (StepfunProvider tx) = ''stepfun''"
  "pcd_id (TaichuProvider tx) = ''taichu''"
  "pcd_id (TencentcloudProvider tx) = ''tencentcloud''"
  "pcd_id (TogetherAIProvider tx) = ''togetherai''"
  "pcd_id (UpstageProvider tx) = ''upstage''"
  "pcd_id (VertexAIProvider tx) = ''vertexai''"
  "pcd_id (VLLMProvider tx) = ''vllm''"
  "pcd_id (VolcengineProvider tx) = ''volcengine''"
  "pcd_id (WenxinProvider tx) = ''wenxin''"
  "pcd_id (XAIProvider tx) = ''xai''"
  "pcd_id (XinferenceProvider tx) = ''xinference''"
  "pcd_id (ZeroOneProvider tx) = ''zeroone''"
  "pcd_id (ZhiPuProvider tx) = ''zhipu''"
  by (simp_all add: provider_cards)

lemma DEFAULT_ids:
  "map pcd_id (DEFAULT_MODEL_PROVIDER_LIST U) =
     [''openai'', ''azure'', ''azureai'', ''ollama'', ''vllm'', ''xinference'', ''anthropic'', ''bedrock'',
      ''google'', ''vertexai'', ''deepseek'', ''ppio'', ''huggingface'', ''openrouter'', ''cloudflare'',
      ''github'', ''novita'', ''nvidia'', ''togetherai'', ''fireworksai'', ''groq'', ''perplexity'',
      ''mistral'', ''ai21'', ''upstage'', ''xai'', ''jina'', ''sambanova'', ''cohere'', ''qwen'', ''wenxin'',
      ''tencentcloud'', ''hunyuan'', ''zhipu'', ''siliconcloud'', ''zeroone'', ''spark'', ''sensenova'',
      ''stepfun'', ''moonshot'', ''baichuan'', ''volcengine'', ''minimax'', ''lmstudio'', ''internlm'',
      ''higress'', ''giteeai'', ''taichu'', ''ai360'', ''search1api'', ''infiniai'', ''qiniu'']"
  by (simp add: DEFAULT_MODEL_PROVIDER_LIST_def)

section \<open>Check models\<close>

lemma offers_append [simp]: "offers (xs @ ys) x = (offers xs x \<or> offers ys x)"
  by (simp add: offers_def)

lemma offered_checks [simp]:
  "offers (ai21ChatModels tx) ''jamba-mini''"
  "offers (ai360ChatModels tx) ''360gpt-turbo''"
  "offers (anthropicChatModels tx) ''claude-3-haiku-20240307''"
  "offers (azureChatModels tx) ''gpt-4o-mini''"
  "offers (baichuanChatModels tx) ''Baichuan3-Turbo''"
  "offers (bedrockChatModels tx) ''anthropic.claude-instant-v1''"
  "offers (cohereChatModels tx) ''command-r7b-12-2024''"
  "offers (deepseekChatModels tx) ''deepseek-chat''"
  "offers (fireworksaiChatModels tx) ''accounts/fireworks/models/llama-v3p2-3b-instruct''"
  "offers (giteeaiChatModels tx) ''Qwen2.5-72B-Instruct''"
  "offers (githubChatModels tx) ''Phi-3-mini-4k-instruct''"
  "offers (googleChatModels tx) ''gemini-2.0-flash''"
  "offers (groqChatModels tx) ''llama-3.1-8b-instant''"
  "offers (higressChatModels tx) ''qwen-max''"
  "offers (hunyuanChatModels tx) ''hunyuan-lite''"
  "offers (infiniaiChatModels tx) ''qwen2.5-7b-instruct''"
  "offers (internlmChatModels tx) ''internlm2.5-latest''"
  "offers (jinaChatModels tx) ''jina-deepsearch-v1''"
  "offers (minimaxChatModels tx) ''abab6.5s-chat''"
  "offers (mistralChatModels tx) ''ministral-3b-latest''"
  "offers (moonshotChatModels tx) ''kimi-latest''"
  "offers (novitaChatModels tx) ''meta-llama/llama-3.1-8b-instruct''"
  "offers (nvidiaChatModels tx) ''meta/llama-3.2-1b-instruct''"
  "offers (ollamaChatModels tx) ''deepseek-r1''"
  "offers (openai_allModels tx) ''gpt-4o-mini''"
  "offers (openrouterChatModels tx) ''google/gemma-2-9b-it:free''"
  "offers (perplexityChatModels tx) ''sonar''"
  "offers (ppioChatModels tx) ''deepseek/deepseek-r1-distill-qwen-32b''"
  "offers (qiniuChatModels tx) ''deepseek-r1''"
  "offers (qwenChatModels tx) ''qwen-turbo-latest''"
  "offers (sambanovaChatModels tx) ''Meta-Llama-3.2-1B-Instruct''"
  "offers (search1apiChatModels tx) ''deepseek-r1-70b-fast-online''"
  "offers (sensenovaChatModels tx) ''SenseChat-Turbo''"
  "offers (siliconcloudChatModels tx) ''Pro/Qwen/Qwen2-1.5B-Instruct''"
  "offers (sparkChatModels tx) ''lite''"
  "offers (stepfunChatModels tx) ''step-2-mini''"
  "offers (taichuChatModels tx) ''taichu_llm''"
  "offers (tencentCloudChatModels tx) ''deepseek-v3''"
  "offers (togetheraiChatModels tx) ''meta-llama/Llama-Vision-Free''"
  "offers (wenxinChatModels tx) ''ernie-speed-128k''"
  "offers (xaiChatModels tx) ''grok-2-1212''"
  "offers (zerooneChatModels tx) ''yi-lightning''"
  by (simp_all add: card_tables offers_def)

lemma other_checks [simp]:
  "\<not> offers (azureaiChatModels tx) ''gpt-3.5-turbo''"
  "\<not> offers (cloudflareChatModels tx) ''@hf/meta-llama/meta-llama-3-8b-instruct''"
  "\<not> offers (huggingfaceChatModels tx) ''mistralai/Mistral-7B-Instruct-v0.2''"
  "\<not> offers (lmStudioChatModels tx) ''local-model''"
  "\<not> offers (upstageChatModels tx) ''solar-1-mini-chat''"
  "\<not> offers (vertexaiChatModels tx) ''gemini-1.5-flash-001''"
  "\<not> offers (vllmChatModels tx) ''local-model''"
  "\<not> offers (doubaoChatModels tx) ''gpt-3.5-turbo''"
  "\<not> offers (xinferenceChatModels tx) ''gpt-3.5-turbo''"
  "\<not> offers (zhipuChatModels tx) ''glm-4-flash''"
  by (simp_all add: card_tables offers_def)

lemma offers_chat: "offers ms x \<Longrightarrow> list_ex (\<lambda>m. am_type m = ''chat'') ms"
  by (auto simp: offers_def list_ex_iff)

lemmas chat_models_listed [simp] = offered_checks [THEN offers_chat]

lemma other_chat_models_listed [simp]:
  "list_ex (\<lambda>m. am_type m = ''chat'') (azureaiChatModels tx)"
  "list_ex (\<lambda>m. am_type m = ''chat'') (cloudflareChatModels tx)"
  "list_ex (\<lambda>m. am_type m = ''chat'') (huggingfaceChatModels tx)"
  "list_ex (\<lambda>m. am_type m = ''chat'') (lmStudioChatModels tx)"
  "list_ex (\<lambda>m. am_type m = ''chat'') (upstageChatModels tx)"
  "list_ex (\<lambda>m. am_type m = ''chat'') (vertexaiChatModels tx)"
  "list_ex (\<lambda>m. am_type m = ''chat'') (vllmChatModels tx)"
  "list_ex (\<lambda>m. am_type m = ''chat'') (doubaoChatModels tx)"
  "list_ex (\<lambda>m. am_type m = ''chat'') (xinferenceChatModels tx)"
  "list_ex (\<lambda>m. am_type m = ''chat'') (zhipuChatModels tx)"
  by (simp_all add: card_tables)

lemma check_model_offered_iff:
  assumes "pcd_id c \<in> set all_provider_ids"
  shows "check_model_offered cards c =
    (case check_model_of c of Inl _ \<Rightarrow> False | Inr x \<Rightarrow> offers (cards (pcd_id c)) x)"
proof (cases "check_model_of c")
  case (Inl e)
  then show ?thesis
    by (simp add: check_model_offered_def convertLobeProviderToTemplate_def check_model_of_def)
next
  case (Inr x)
  then obtain t where "convertLobeProviderToTemplate c = Inr t" "ps_checkModel (tpl_settings t) = Some x"
    by (auto simp: convertLobeProviderToTemplate_def check_model_of_def)
  with Inr show ?thesis
    by (auto simp: check_model_offered_def getProviderModels_def getModelsByProvider_listed [OF assms]
        offers_def list_ex_iff convertToLLMModel_def image_iff)
qed

lemma DEFAULT_listed: "set (map pcd_id (DEFAULT_MODEL_PROVIDER_LIST U)) = set all_provider_ids"
  "distinct (map pcd_id (DEFAULT_MODEL_PROVIDER_LIST U))"
  unfolding DEFAULT_ids by (code_simp, code_simp)

lemma DEFAULT_member: "c \<in> set (DEFAULT_MODEL_PROVIDER_LIST U) \<Longrightarrow> pcd_id c \<in> set all_provider_ids"
  unfolding DEFAULT_listed(1) [of U, symmetric] by simp

lemma check_model_of_cards [simp]:
  "check_model_of (Ai21Provider tx) = Inr ''jamba-mini''"
  "check_model_of (Ai360Provider tx) = Inr ''360gpt-turbo''"
  "check_model_of (AnthropicProvider tx) = Inr ''claude-3-haiku-20240307''"
  "check_model_of (AzureProvider tx) = Inr ''gpt-4o-mini''"
  "check_model_of (AzureAIProvider tx) = Inr ''gpt-3.5-turbo''"
  "check_model_of (BaichuanProvider tx) = Inr ''Baichuan3-Turbo''"
  "check_model_of (BedrockProvider tx) = Inr ''anthropic.claude-instant-v1''"
  "check_model_of (CloudflareProvider tx) = Inr ''@hf/meta-llama/meta-llama-3-8b-instruct''"
  "check_model_of (CohereProvider tx) = Inr ''command-r7b-12-2024''"
  "check_model_of (DeepSeekProvider tx) = Inr ''deepseek-chat''"
  "check_model_of (FireworksAIProvider tx) = Inr ''accounts/fireworks/models/llama-v3p2-3b-instruct''"
  "check_model_of (GiteeAIProvider tx) = Inr ''Qwen2.5-72B-Instruct''"
  "check_model_of (GithubProvider tx) = Inr ''Phi-3-mini-4k-instruct''"
  "check_model_of (GoogleProvider tx) = Inr ''gemini-2.0-flash''"
  "check_model_of (GroqProvider tx) = Inr ''llama-3.1-8b-instant''"
  "check_model_of (HigressProvider tx) = Inr ''qwen-max''"
  "check_model_of (HuggingFaceProvider tx) = Inr ''mistralai/Mistral-7B-Instruct-v0.2''"
  "check_model_of (HunyuanProvider tx) = Inr ''hunyuan-lite''"
  "check_model_of (InfiniAIProvider tx) = Inr ''qwen2.5-7b-instruct''"
  "check_model_of (InternLMProvider tx) = Inr ''internlm2.5-latest''"
  "check_model_of (JinaProvider tx) = Inr ''jina-deepsearch-v1''"
  "check_model_of (LMStudioProvider tx) = Inr ''local-model''"
  "check_model_of (MinimaxProvider tx) = Inr ''abab6.5s-chat''"
  "check_model_of (MistralProvider tx) = Inr ''ministral-3b-latest''"
  "check_model_of (MoonshotProvider tx) = Inr ''kimi-latest''"
  "check_model_of (NovitaProvider tx) = Inr ''meta-llama/llama-3.1-8b-instruct''"
  "check_model_of (NvidiaProvider tx) = Inr ''meta/llama-3.2-1b-instruct''"
  "check_model_of (OllamaProvider tx) = Inr ''deepseek-r1''"
  "check_model_of (OpenAIProvider tx) = Inr ''gpt-4o-mini''"
  "check_model_of (OpenRouterProvider tx) = Inr ''google/gemma-2-9b-it:free''"
  "check_model_of (PerplexityProvider tx) = Inr ''sonar''"
  "check_model_of (PPIOProvider tx) = Inr ''deepseek/deepseek-r1-distill-qwen-32b''"
  "check_model_of (QiniuProvider tx) = Inr ''deepseek-r1''"
  "check_model_of (QwenProvider tx) = Inr ''qwen-turbo-latest''"
  "check_model_of (SambaNovaProvider tx) = Inr ''Meta-Llama-3.2-1B-Instruct''"
  "check_model_of (Search1APIProvider tx) = Inr ''deepseek-r1-70b-fast-online''"
  "check_model_of (SenseNovaProvider tx) = Inr ''SenseChat-Turbo''"
  "check_model_of (SiliconCloudProvider tx) = Inr ''Pro/Qwen/Qwen2-1.5B-Instruct''"
  "check_model_of (SparkProvider tx) = Inr ''lite''"
  "check_model_of (StepfunProvider tx) = Inr ''step-2-mini''"
  "check_model_of (TaichuProvider tx) = Inr ''taichu_llm''"
  "check_model_of (TencentcloudProvider tx) = Inr ''deepseek-v3''"
  "check_model_of (TogetherAIProvider tx) = Inr ''meta-llama/Llama-Vision-Free''"
  "check_model_of (UpstageProvider tx) = Inr ''solar-1-mini-chat''"
  "check_model_of (VertexAIProvider tx) = Inr ''gemini-1.5-flash-001''"
  "check_model_of (VLLMProvider tx) = Inr ''local-model''"
  "check_model_of (VolcengineProvider tx) = Inr ''gpt-3.5-turbo''"
  "check_model_of (WenxinProvider tx) = Inr ''ernie-speed-128k''"
  "check_model_of (XAIProvider tx) = Inr ''grok-2-1212''"
  "check_model_of (XinferenceProvider tx) = Inr ''gpt-3.5-turbo''"
  "check_model_of (ZeroOneProvider tx) = Inr ''yi-lightning''"
  "check_model_of (ZhiPuProvider tx) = Inr ''glm-4-flash''"
  by (simp_all add: check_model_of_def provider_cards str_truthy_def
      getDefaultCheckModel_def table_get_def default_check_models_def object_members_def ostr_or_def str_or_def)

lemma check_model_of_without_models [simp]:
  "check_model_of (c\<lparr>pcd_chatModels := ms\<rparr>) = check_model_of c"
  by (simp add: check_model_of_def)

lemma isProviderDisableBrowserRequest_card:
  assumes "distinct (map pcd_id ps)" "c \<in> set ps"
  shows "isProviderDisableBrowserRequest ps (pcd_id c) = flag (pcd_disableBrowserRequest c)"
proof -
  have "v = c" if "v \<in> set ps" "pcd_id v = pcd_id c" for v
    using assms that by (meson eq_key_imp_eq_value inj_on_eq_iff distinct_map)
  then show ?thesis
    using assms(2) by (auto simp: isProviderDisableBrowserRequest_def find_None_iff)
qed

text \<open>The two flags of a card that stand twice in it, in the deprecated place and in the settings.\<close>

definition card_flags :: "provider_card \<Rightarrow> bool \<times> bool \<times> bool \<times> bool" where
  "card_flags c = (flag (pcd_disableBrowserRequest c), flag (st_disableBrowserRequest (pcd_settings c)),
     st_showApiKey (pcd_settings c) = Some False, pcd_showApiKey c = Some False)"

lemma card_flags_of_cards [simp]:
  "card_flags (Ai21Provider tx) = (False, False, False, False)"
  "card_flags (Ai360Provider tx) = (True, True, False, False)"
  "card_flags (AnthropicProvider tx) = (False, False, False, False)"
  "card_flags (AzureProvider tx) = (False, False, False, False)"
  "card_flags (AzureAIProvider tx) = (False, False, False, False)"
  "card_flags (BaichuanProvider tx) = (False, False, False, False)"
  "card_flags (BedrockProvider tx) = (False, False, False, False)"
  "card_flags (CloudflareProvider tx) = (True, True, False, False)"
  "card_flags (CohereProvider tx) = (False, False, False, False)"
  "card_flags (DeepSeekProvider tx) = (False, False, False, False)"
  "card_flags (FireworksAIProvider tx) = (False, False, False, False)"
  "card_flags (GiteeAIProvider tx) = (True, True, False, False)"
  "card_flags (GithubProvider tx) = (False, False, False, False)"
  "card_flags (GoogleProvider tx) = (False, False, False, False)"
  "card_flags (GroqProvider tx) = (False, False, False, False)"
  "card_flags (HigressProvider tx) = (False, False, False, False)"
  "card_flags (HuggingFaceProvider tx) = (True, True, False, False)"
  "card_flags (HunyuanProvider tx) = (True, True, False, False)"
  "card_flags (InfiniAIProvider tx) = (False, False, False, False)"
  "card_flags (InternLMProvider tx) = (True, True, False, False)"
  "card_flags (JinaProvider tx) = (False, False, False, False)"
  "card_flags (LMStudioProvider tx) = (False, False, True, False)"
  "card_flags (MinimaxProvider tx) = (False, False, False, False)"
  "card_flags (MistralProvider tx) = (False, False, False, False)"
  "card_flags (MoonshotProvider tx) = (False, False, False, False)"
  "card_flags (NovitaProvider tx) = (True, True, False, False)"
  "card_flags (NvidiaProvider tx) = (False, False, False, False)"
  "card_flags (OllamaProvider tx) = (False, False, True, True)"
  "card_flags (OpenAIProvider tx) = (False, False, False, False)"
  "card_flags (OpenRouterProvider tx) = (False, True, False, False)"
  "card_flags (PerplexityProvider tx) = (False, True, False, False)"
  "card_flags (PPIOProvider tx) = (True, True, False, False)"
  "card_flags (QiniuProvider tx) = (False, False, False, False)"
  "card_flags (QwenProvider tx) = (True, True, False, False)"
  "card_flags (SambaNovaProvider tx) = (True, True, False, False)"
  "card_flags (Search1APIProvider tx) = (False, False, False, False)"
  "card_flags (SenseNovaProvider tx) = (True, True, False, False)"
  "card_flags (SiliconCloudProvider tx) = (False, False, False, False)"
  "card_flags (SparkProvider tx) = (False, True, False, False)"
  "card_flags (StepfunProvider tx) = (True, True, False, False)"
  "card_flags (TaichuProvider tx) = (False, False, False, False)"
  "card_flags (TencentcloudProvider tx) = (False, True, False, False)"
  "card_flags (TogetherAIProvider tx) = (False, False, False, False)"
  "card_flags (UpstageProvider tx) = (False, False, False, False)"
  "card_flags (VertexAIProvider tx) = (False, True, False, False)"
  "card_flags (VLLMProvider tx) = (False, False, False, False)"
  "card_flags (VolcengineProvider tx) = (False, True, False, False)"
  "card_flags (WenxinProvider tx) = (False, False, False, False)"
  "card_flags (XAIProvider tx) = (False, False, False, False)"
  "card_flags (XinferenceProvider tx) = (False, False, False, False)"
  "card_flags (ZeroOneProvider tx) = (False, False, False, False)"
  "card_flags (ZhiPuProvider tx) = (False, False, False, False)"
  by (simp_all add: card_flags_def provider_cards flag_def opt_or_def)

lemma card_flags_without_models [simp]: "card_flags (c\<lparr>pcd_chatModels := ms\<rparr>) = card_flags c"
  by (simp add: card_flags_def)

lemma flags_as_card_flags:
  "flag (pcd_disableBrowserRequest c) = fst (card_flags c)"
  "flag (st_disableBrowserRequest (pcd_settings c)) = fst (snd (card_flags c))"
  "(st_showApiKey (pcd_settings c) = Some False) = fst (snd (snd (card_flags c)))"
  "(pcd_showApiKey c = Some False) = snd (snd (snd (card_flags c)))"
  by (simp_all add: card_flags_def)

lemma getProviderTemplate_of_card:
  assumes conv: "length ts = length ps"
      "\<forall>i < length ps. convertLobeProviderToTemplate (ps ! i) = Inr (ts ! i)"
    and d: "distinct (map pcd_id ps)"
  shows "getAllProviderIds ts = map pcd_id ps
    \<and> list_all (\<lambda>c. map_option Inr (getProviderTemplate ts (pcd_id c))
          = Some (convertLobeProviderToTemplate c)) ps"
proof
  show ids: "getAllProviderIds ts = map pcd_id ps"
    unfolding getAllProviderIds_def by (rule nth_equalityI) (use conv in \<open>auto dest: convert_id\<close>)
  with d have dt: "distinct (map tpl_id ts)" by (simp only: getAllProviderIds_def)
  show "list_all (\<lambda>c. map_option Inr (getProviderTemplate ts (pcd_id c))
          = Some (convertLobeProviderToTemplate c)) ps"
    unfolding list_all_length
  proof (intro allI impI)
    fix i assume i: "i < length ps"
    have "find (\<lambda>t. tpl_id t = tpl_id (ts ! i)) ts = Some (ts ! i)"
      using dt i conv(1) by (auto simp: find_Some_iff distinct_conv_nth intro!: exI [of _ i])
    moreover from i conv(2) have c: "convertLobeProviderToTemplate (ps ! i) = Inr (ts ! i)" by blast
    ultimately show "map_option Inr (getProviderTemplate ts (pcd_id (ps ! i)))
        = Some (convertLobeProviderToTemplate (ps ! i))"
      using convert_id [OF c] by (simp only: getProviderTemplate_def option.map)
  qed
qed

lemma every_provider_has_chat_models:
  assumes "p \<in> set all_provider_ids"
  shows "\<exists>m ms. getProviderModels (model_cards T) p = Inr (m # ms)"
proof -
  have "list_all (\<lambda>p. list_ex (\<lambda>m. am_type m = ''chat'') (model_cards T p)) all_provider_ids"
    by (simp add: all_provider_ids_def)
  with assms show ?thesis
    by (auto simp: list_all_iff list_ex_iff getProviderModels_def getModelsByProvider_listed
        neq_Nil_conv [symmetric] filter_empty_conv)
qed

lemma no_provider_is_an_object_member: "set all_provider_ids \<inter> set object_members = {}"
  by code_simp

section \<open>Properties of the catalogue\<close>

text \<open>
  Property C30. The built-in templates and the model cards describe the same providers, each once: the template of
  every card is found under the card's id and is what the card is converted to, and every provider
  that has a template has chat models.
\<close>

theorem templates_cover_the_catalogue:
  "\<exists>ts. builtin_providers (DEFAULT_MODEL_PROVIDER_LIST U) = Inr ts
     \<and> distinct (getAllProviderIds ts) \<and> set (getAllProviderIds ts) = set provider_map_keys
     \<and> list_all (\<lambda>c. map_option Inr (getProviderTemplate ts (pcd_id c))
          = Some (convertLobeProviderToTemplate c)) (DEFAULT_MODEL_PROVIDER_LIST U)
     \<and> list_all (\<lambda>p. \<exists>m ms. getProviderModels (model_cards T) p = Inr (m # ms)) (getAllProviderIds ts)"
proof -
  let ?L = "DEFAULT_MODEL_PROVIDER_LIST U"
  have "list_all (\<lambda>p. pcd_id p \<notin> set object_members) ?L"
    using DEFAULT_member [of _ U] no_provider_is_an_object_member by (fastforce simp: list_all_iff)
  from builtin_providers_map [OF this] obtain ts where ts: "builtin_providers ?L = Inr ts"
      "length ts = length ?L" "\<forall>i < length ?L. convertLobeProviderToTemplate (?L ! i) = Inr (ts ! i)"
    by blast
  note found = getProviderTemplate_of_card [OF ts(2,3) DEFAULT_listed(2)]
  then have ids: "set (getAllProviderIds ts) = set all_provider_ids"
    using DEFAULT_listed(1) [of U] by (simp only:)
  have "list_all (\<lambda>p. \<exists>m ms. getProviderModels (model_cards T) p = Inr (m # ms)) (getAllProviderIds ts)"
    unfolding list_all_iff ids using every_provider_has_chat_models by blast
  moreover have "distinct (getAllProviderIds ts)" using found DEFAULT_listed(2) [of U] by (simp only:)
  ultimately show ?thesis using ts(1) found ids unfolding provider_map_keys_all by blast
qed

text \<open>
  The model a provider's connection is checked with is one of the chat models listed for that provider,
  for every provider but the ten named here.
\<close>

theorem check_models_are_offered:
  "map pcd_id (filter (\<lambda>c. \<not> check_model_offered (model_cards T) c) (DEFAULT_MODEL_PROVIDER_LIST U))
   = [''azureai'', ''vllm'', ''xinference'', ''vertexai'', ''huggingface'', ''cloudflare'', ''upstage'',
      ''zhipu'', ''volcengine'', ''lmstudio'']"
proof -
  let ?check = "\<lambda>c. case check_model_of c of Inl _ \<Rightarrow> False | Inr x \<Rightarrow> offers (model_cards T (pcd_id c)) x"
  have eq: "filter (\<lambda>c. \<not> check_model_offered (model_cards T) c) (DEFAULT_MODEL_PROVIDER_LIST U)
      = filter (\<lambda>c. \<not> ?check c) (DEFAULT_MODEL_PROVIDER_LIST U)"
    by (intro filter_cong refl) (simp add: check_model_offered_iff DEFAULT_member)
  show ?thesis
    unfolding eq
    by (simp add: DEFAULT_MODEL_PROVIDER_LIST_def)
qed

text \<open>
  Property C35. Every model card of the catalogue has an id and no negative price; its context window is positive
  and its longest answer fits in it, where they are stated, and no answer is stated without a window;
  the cards that state no window are six of OpenAI's and seventeen of Higress's; the ids of a provider are distinct but for three providers.
\<close>

theorem model_cards_are_plausible:
  "list_all (\<lambda>p. list_all plausible_card (model_cards T p)) all_provider_ids
   \<and> filter (\<lambda>e. snd e \<noteq> []) (map (\<lambda>p. (p, windowless (model_cards T p))) all_provider_ids)
     = [(''higress'', windowless_higress), (''openai'', windowless_openai)]
   \<and> filter (\<lambda>p. \<not> distinct (map am_id (model_cards T p))) all_provider_ids
     = [''cohere'', ''github'', ''higress'']"
proof (intro conjI)
  show "list_all (\<lambda>p. list_all plausible_card (model_cards T p)) all_provider_ids"
    by (simp add: all_provider_ids_def plausible_tables_1 plausible_tables_2 plausible_tables_3 plausible_tables_4)
  show "filter (\<lambda>e. snd e \<noteq> []) (map (\<lambda>p. (p, windowless (model_cards T p))) all_provider_ids)
     = [(''higress'', windowless_higress), (''openai'', windowless_openai)]"
    by (simp add: all_provider_ids_def stated_windows_1 stated_windows_2 stated_windows_3 stated_windows_4
        windowless_higress_nonempty windowless_openai_nonempty)
  show "filter (\<lambda>p. \<not> distinct (map am_id (model_cards T p))) all_provider_ids
     = [''cohere'', ''github'', ''higress'']"
    by (simp add: all_provider_ids_def distinct_tables_1 distinct_tables_2 distinct_tables_3 distinct_tables_4
        repeated_ids repeated_id_higress del: map_map distinct_map)
qed

text \<open>
  The providers for which requests from the browser are switched off are those whose card has the
  deprecated flag: six whose settings forbid such requests are missed, and one that needs no API key
  by its settings is treated as needing one.
\<close>

theorem flags_read_from_the_deprecated_members:
  "map pcd_id (filter (\<lambda>c. isProviderDisableBrowserRequest (DEFAULT_MODEL_PROVIDER_LIST U) (pcd_id c))
      (DEFAULT_MODEL_PROVIDER_LIST U))
    = [''ppio'', ''huggingface'', ''cloudflare'', ''novita'', ''sambanova'', ''qwen'', ''hunyuan'',
       ''sensenova'', ''stepfun'', ''internlm'', ''giteeai'', ''ai360'']
   \<and> map pcd_id (filter (\<lambda>c. flag (st_disableBrowserRequest (pcd_settings c))
         \<and> \<not> isProviderDisableBrowserRequest (DEFAULT_MODEL_PROVIDER_LIST U) (pcd_id c))
       (DEFAULT_MODEL_PROVIDER_LIST U))
    = [''vertexai'', ''openrouter'', ''perplexity'', ''tencentcloud'', ''spark'', ''volcengine'']
   \<and> map pcd_id (filter (\<lambda>c. st_showApiKey (pcd_settings c) = Some False
         \<and> pcd_showApiKey c \<noteq> Some False) (DEFAULT_MODEL_PROVIDER_LIST U)) = [''lmstudio'']"
proof (intro conjI)
  let ?L = "DEFAULT_MODEL_PROVIDER_LIST U"
  note card = isProviderDisableBrowserRequest_card [OF DEFAULT_listed(2)]
  have eq: "filter (\<lambda>c. isProviderDisableBrowserRequest ?L (pcd_id c)) ?L
      = filter (\<lambda>c. flag (pcd_disableBrowserRequest c)) ?L"
    by (intro filter_cong refl card)
  show "map pcd_id (filter (\<lambda>c. isProviderDisableBrowserRequest ?L (pcd_id c)) ?L)
    = [''ppio'', ''huggingface'', ''cloudflare'', ''novita'', ''sambanova'', ''qwen'', ''hunyuan'',
       ''sensenova'', ''stepfun'', ''internlm'', ''giteeai'', ''ai360'']"
    unfolding eq
    unfolding flags_as_card_flags by (simp add: DEFAULT_MODEL_PROVIDER_LIST_def)
  have eq: "filter (\<lambda>c. flag (st_disableBrowserRequest (pcd_settings c))
         \<and> \<not> isProviderDisableBrowserRequest ?L (pcd_id c)) ?L
      = filter (\<lambda>c. flag (st_disableBrowserRequest (pcd_settings c)) \<and> \<not> flag (pcd_disableBrowserRequest c)) ?L"
    by (intro filter_cong refl) (simp add: card)
  show "map pcd_id (filter (\<lambda>c. flag (st_disableBrowserRequest (pcd_settings c))
         \<and> \<not> isProviderDisableBrowserRequest ?L (pcd_id c)) ?L)
    = [''vertexai'', ''openrouter'', ''perplexity'', ''tencentcloud'', ''spark'', ''volcengine'']"
    unfolding eq
    unfolding flags_as_card_flags by (simp add: DEFAULT_MODEL_PROVIDER_LIST_def)
  show "map pcd_id (filter (\<lambda>c. st_showApiKey (pcd_settings c) = Some False
         \<and> pcd_showApiKey c \<noteq> Some False) ?L) = [''lmstudio'']"
    unfolding flags_as_card_flags by (simp add: DEFAULT_MODEL_PROVIDER_LIST_def)
qed

text \<open>
  The unit of a price is guessed from its size, so that of two prices per million tokens one is
  taken for a price per thousand.
\<close>

lemma unit_follows_size:
  assumes "am_pricing m = Some p" "price_input p = Some x"
  shows "lm_input (convertToLLMModel m i) = x
    \<and> lm_unit (convertToLLMModel m i) = (if x \<noteq> 0 \<and> x < 1 then Per_1k_tokens else Per_1m_tokens)"
  using assms by (simp add: convertToLLMModel_def num_or_0_def opt_or_def)

lemma units_of_openai_prices:
  "list_all (\<lambda>m. am_id m = ''gpt-4o-mini'' \<longrightarrow>
       lm_input (convertToLLMModel m ''openai'') = 0.15
       \<and> lm_unit (convertToLLMModel m ''openai'') = Per_1k_tokens) (model_cards T ''openai'')
   \<and> list_all (\<lambda>m. am_id m = ''gpt-4o'' \<longrightarrow>
       lm_input (convertToLLMModel m ''openai'') = 2.5
       \<and> lm_unit (convertToLLMModel m ''openai'') = Per_1m_tokens) (model_cards T ''openai'')"
proof -
  have "list_all (\<lambda>m. (am_id m = ''gpt-4o-mini'' \<longrightarrow> (\<exists>p. am_pricing m = Some p \<and> price_input p = Some 0.15))
      \<and> (am_id m = ''gpt-4o'' \<longrightarrow> (\<exists>p. am_pricing m = Some p \<and> price_input p = Some 2.5)))
      (model_cards T ''openai'')"
    by (simp add: card_tables)
  then show ?thesis
    unfolding list_all_iff using unit_follows_size [of _ _ _ "''openai''"] by fastforce
qed

end
