(* ===== verification/Icons.thy ===== *)
theory Icons
  imports Llm_Providers Capabilities
begin

text \<open>
  Icons: \<open>components/LocalIcon.tsx\<close> with \<open>icons/icon-map.json\<close>, the icons of providers
  (\<open>components/ProviderIcon\<close>, \<open>components/ProviderIcon.tsx\<close>) and the list and map of
  \<open>scripts/download-icons.js\<close>. The contents of the icon files are what \<open>fetch\<close> answers.
\<close>

section \<open>Attributes of a drawing\<close>

text \<open>\<open>svg.replace(/name="[^"]*"/, ...)\<close>: the first place where the name, an equals sign and a dquoted
  text stand, whatever is around it.\<close>

definition dquote :: char where "dquote = CHR 0x22"

definition lead :: "string \<Rightarrow> string" where
  "lead name = name @ [CHR ''='', dquote]"

definition attr_at :: "string \<Rightarrow> string \<Rightarrow> (string \<times> string) option" where
  "attr_at name s =
     (if starts_with s (lead name) then
        (let r = drop (length (lead name)) s; v = takeWhile (\<lambda>c. c \<noteq> dquote) r in
         if length v < length r then Some (v, drop (Suc (length v)) r) else None)
      else None)"

fun find_attr :: "string \<Rightarrow> string \<Rightarrow> (string \<times> string \<times> string) option" where
  "find_attr name [] = None"
| "find_attr name (c # s) = (case attr_at name (c # s) of
       Some (v, r) \<Rightarrow> Some ([], v, r)
     | None \<Rightarrow> map_option (\<lambda>(p, v, r). (c # p, v, r)) (find_attr name s))"

text \<open>The dollar sign has its meaning in a replacement text.\<close>

fun expand_dollar :: "string \<Rightarrow> string \<Rightarrow> string \<Rightarrow> string \<Rightarrow> string" where
  "expand_dollar before found after [] = []"
| "expand_dollar before found after [c] = [c]"
| "expand_dollar before found after (c # d # s) =
     (if c = CHR ''$'' \<and> d = CHR ''$'' then CHR ''$'' # expand_dollar before found after s
      else if c = CHR ''$'' \<and> d = CHR ''&'' then found @ expand_dollar before found after s
      else if c = CHR ''$'' \<and> d = CHR 0x60 then before @ expand_dollar before found after s
      else if c = CHR ''$'' \<and> d = CHR 0x27 then after @ expand_dollar before found after s
      else c # expand_dollar before found after (d # s))"

definition set_attr :: "string \<Rightarrow> string \<Rightarrow> string \<Rightarrow> string" where
  "set_attr name v s = (case find_attr name s of
       None \<Rightarrow> s
     | Some (p, old, r) \<Rightarrow>
         p @ expand_dollar p (lead name @ old @ [dquote]) r (lead name @ v @ [dquote]) @ r)"

definition attr_value :: "string \<Rightarrow> string \<Rightarrow> string option" where
  "attr_value name s = map_option (\<lambda>(p, v, r). v) (find_attr name s)"

text \<open>Names and values without dquotes and equals signs.\<close>

definition attr_name :: "string \<Rightarrow> bool" where
  "attr_name n \<longleftrightarrow> n \<noteq> [] \<and> dquote \<notin> set n \<and> CHR ''='' \<notin> set n"

definition attr_text :: "string \<Rightarrow> bool" where
  "attr_text v \<longleftrightarrow> dquote \<notin> set v \<and> CHR ''='' \<notin> set v"

section \<open>LocalIcon\<close>

definition iconMap :: "(string \<times> string) list" where
  "iconMap = [
     (''lucide:server'', ''/icons/lucide-server.svg''),
     (''lucide:user'', ''/icons/lucide-user.svg''),
     (''lucide:lock'', ''/icons/lucide-lock.svg''),
     (''lucide:languages'', ''/icons/lucide-languages.svg''),
     (''lucide:plus'', ''/icons/lucide-plus.svg''), (''lucide:x'', ''/icons/lucide-x.svg''),
     (''lucide:check'', ''/icons/lucide-check.svg''),
     (''lucide:check-circle'', ''/icons/lucide-check-circle.svg''),
     (''lucide:file-plus'', ''/icons/lucide-file-plus.svg''),
     (''lucide:tag'', ''/icons/lucide-tag.svg''),
     (''lucide:upload-cloud'', ''/icons/lucide-upload-cloud.svg''),
     (''lucide:folder-open'', ''/icons/lucide-folder-open.svg''),
     (''lucide:file-text'', ''/icons/lucide-file-text.svg''),
     (''lucide:file-code'', ''/icons/lucide-file-code.svg''),
     (''lucide:chevron-right'', ''/icons/lucide-chevron-right.svg''),
     (''lucide:chevron-left'', ''/icons/lucide-chevron-left.svg''),
     (''lucide:message-square'', ''/icons/lucide-message-square.svg''),
     (''lucide:history'', ''/icons/lucide-history.svg''),
     (''lucide:users'', ''/icons/lucide-users.svg''),
     (''lucide:building'', ''/icons/lucide-building.svg''),
     (''lucide:sun'', ''/icons/lucide-sun.svg''), (''lucide:moon'', ''/icons/lucide-moon.svg''),
     (''lucide:key'', ''/icons/lucide-key.svg''),
     (''lucide:log-out'', ''/icons/lucide-log-out.svg''),
     (''lucide:search'', ''/icons/lucide-search.svg''),
     (''lucide:edit'', ''/icons/lucide-edit.svg''),
     (''lucide:more-vertical'', ''/icons/lucide-more-vertical.svg''),
     (''lucide:trash-2'', ''/icons/lucide-trash-2.svg''),
     (''lucide:download'', ''/icons/lucide-download.svg''),
     (''lucide:loader-2'', ''/icons/lucide-loader-2.svg''),
     (''lucide:arrow-right'', ''/icons/lucide-arrow-right.svg''),
     (''lucide:copy'', ''/icons/lucide-copy.svg''),
     (''lucide:external-link'', ''/icons/lucide-external-link.svg''),
     (''lucide:send'', ''/icons/lucide-send.svg''),
     (''lucide:route'', ''/icons/lucide-route.svg''),
     (''lucide:terminal'', ''/icons/lucide-terminal.svg''),
     (''lucide:radio'', ''/icons/lucide-radio.svg''),
     (''lucide:globe'', ''/icons/lucide-globe.svg''),
     (''lucide:wrench'', ''/icons/lucide-wrench.svg''),
     (''lucide:trash'', ''/icons/lucide-trash.svg''),
     (''lucide:upload'', ''/icons/lucide-upload.svg''),
     (''lucide:play'', ''/icons/lucide-play.svg''),
     (''lucide:brain'', ''/icons/lucide-brain.svg''),
     (''lucide:alert-triangle'', ''/icons/lucide-alert-triangle.svg''),
     (''lucide:pencil'', ''/icons/lucide-pencil.svg''),
     (''mdi:wechat'', ''/icons/mdi-wechat.svg''), (''mdi:github'', ''/icons/mdi-github.svg''),
     (''mdi:book-open-page-variant'', ''/icons/mdi-book-open-page-variant.svg''),
     (''material-symbols:add'', ''/icons/material-symbols-add.svg''),
     (''material-symbols:upload'', ''/icons/material-symbols-upload.svg''),
     (''material-symbols:sync'', ''/icons/material-symbols-sync.svg''),
     (''material-symbols:grid-view'', ''/icons/material-symbols-grid-view.svg''),
     (''material-symbols:table-rows'', ''/icons/material-symbols-table-rows.svg''),
     (''ic:baseline-discord'', ''/icons/ic-baseline-discord.svg''),
     (''ic:round-unfold-more'', ''/icons/ic-round-unfold-more.svg''),
     (''ic:round-unfold-less'', ''/icons/ic-round-unfold-less.svg''),
     (''ri:menu-unfold-line'', ''/icons/ri-menu-unfold-line.svg''),
     (''ri:menu-unfold-2-line'', ''/icons/ri-menu-unfold-2-line.svg''),
     (''heroicons:arrow-uturn-left'', ''/icons/heroicons-arrow-uturn-left.svg''),
     (''heroicons:chevron-left'', ''/icons/heroicons-chevron-left.svg''),
     (''heroicons:chevron-right'', ''/icons/heroicons-chevron-right.svg''),
     (''fluent-mdl2:chevron-fold-10'', ''/icons/fluent-mdl2-chevron-fold-10.svg''),
     (''simple-icons:google'', ''/icons/simple-icons-google.svg''),
     (''simple-icons:github'', ''/icons/simple-icons-github.svg'')]"

definition iconPath :: "string \<Rightarrow> string option" where
  "iconPath icon = map_of iconMap icon"

record icon_props =
  ip_icon :: string
  ip_width :: string
  ip_height :: string

text \<open>The effect runs on mounting and whenever one of the props changes; a drawing under way is kept
  with the props the effect ran for.\<close>

record icon_state =
  is_props :: icon_props
  is_svgContent :: string
  is_pending :: "icon_props list"

definition modifiedSvg :: "icon_props \<Rightarrow> string \<Rightarrow> string" where
  "modifiedSvg p svg = set_attr ''height'' (ip_height p) (set_attr ''width'' (ip_width p) svg)"

definition icon_effect :: "icon_state \<Rightarrow> icon_state" where
  "icon_effect st = st\<lparr>is_pending := is_pending st @ [is_props st]\<rparr>"

definition show_icon :: "icon_props \<Rightarrow> icon_state" where
  "show_icon p = (let st = \<lparr>is_props = p, is_svgContent = [], is_pending = []\<rparr> in
     if iconPath (ip_icon p) = None then st else icon_effect st)"

definition change_icon :: "icon_props \<Rightarrow> icon_state \<Rightarrow> icon_state" where
  "change_icon p st = (let st' = st\<lparr>is_props := p\<rparr> in
     if p = is_props st \<or> iconPath (ip_icon p) = None then st' else icon_effect st')"

definition icon_arrives :: "(string \<Rightarrow> string) \<Rightarrow> nat \<Rightarrow> icon_state \<Rightarrow> icon_state" where
  "icon_arrives contents i st =
     (let p = is_pending st ! i in
      st\<lparr>is_svgContent := modifiedSvg p (contents (the (iconPath (ip_icon p)))),
         is_pending := splice1 (is_pending st) i\<rparr>)"

definition icon_fails :: "nat \<Rightarrow> icon_state \<Rightarrow> icon_state" where
  "icon_fails i st = st\<lparr>is_pending := splice1 (is_pending st) i\<rparr>"

definition drawn :: "icon_state \<Rightarrow> string option" where
  "drawn st = (if iconPath (ip_icon (is_props st)) = None then None else Some (is_svgContent st))"

text \<open>\<open>smooth\<close> says that files arrive, and in the order they were asked for.\<close>

inductive icon_run :: "bool \<Rightarrow> (string \<Rightarrow> string) \<Rightarrow> icon_state \<Rightarrow> bool" for smooth contents where
  shown: "icon_run smooth contents (show_icon p)"
| changed: "icon_run smooth contents st \<Longrightarrow> icon_run smooth contents (change_icon p st)"
| arrived: "icon_run smooth contents st \<Longrightarrow> i < length (is_pending st) \<Longrightarrow> smooth \<longrightarrow> i = 0
    \<Longrightarrow> icon_run smooth contents (icon_arrives contents i st)"
| failed: "icon_run smooth contents st \<Longrightarrow> i < length (is_pending st) \<Longrightarrow> \<not> smooth
    \<Longrightarrow> icon_run smooth contents (icon_fails i st)"

section \<open>Icons of providers\<close>

record provider_mapping =
  pm_icon :: string
  pm_keywords :: "string list"
  pm_combineMultiple :: "rat option"

text \<open>An icon component is named by the file it shows.\<close>

definition providerMappings :: "provider_mapping list" where
  "providerMappings = [
     provider_mapping.make ''zhipu.svg'' [''zhipu''] (Some 1.25),
     provider_mapping.make ''bedrock.svg'' [''bedrock''] (Some 1.1),
     provider_mapping.make ''deepseek.svg'' [''deepseek''] (Some 1.16),
     provider_mapping.make ''google.svg'' [''google''] (Some 0.92),
     provider_mapping.make ''azure.svg'' [''azure''] None,
     provider_mapping.make ''moonshot.svg'' [''moonshot''] (Some 0.9),
     provider_mapping.make ''novita.svg'' [''novita''] None,
     provider_mapping.make ''openai.svg'' [''openai''] None,
     provider_mapping.make ''ollama.svg'' [''ollama''] (Some 1.16),
     provider_mapping.make ''perplexity.svg'' [''perplexity''] None,
     provider_mapping.make ''minimax.svg'' [''minimax''] (Some 1.3),
     provider_mapping.make ''mistral.svg'' [''mistral''] (Some 1.08),
     provider_mapping.make ''anthropic.svg'' [''anthropic''] (Some 0.83),
     provider_mapping.make ''groq.svg'' [''groq''] None,
     provider_mapping.make ''openrouter.svg'' [''openrouter''] (Some 0.8),
     provider_mapping.make ''zeroone.svg'' [''zeroone''] (Some 0.9),
     provider_mapping.make ''togetherai.svg'' [''togetherai''] None,
     provider_mapping.make ''qiniu.svg'' [''qiniu''] (Some 1.1),
     provider_mapping.make ''qwen.svg'' [''qwen''] (Some 1.1),
     provider_mapping.make ''stepfun.svg'' [''stepfun''] (Some 0.83),
     provider_mapping.make ''spark.svg'' [''spark''] (Some 0.92),
     provider_mapping.make ''fireworksai.svg'' [''fireworksai''] (Some 1.14),
     provider_mapping.make ''baichuan.svg'' [''baichuan''] (Some 0.83),
     provider_mapping.make ''taichu.svg'' [''taichu''] (Some 1.16),
     provider_mapping.make ''ai360.svg'' [''ai360''] (Some 0.83),
     provider_mapping.make ''siliconcloud.svg'' [''siliconcloud''] (Some 0.75),
     provider_mapping.make ''upstage.svg'' [''upstage''] (Some 0.9),
     provider_mapping.make ''ai21.svg'' [''ai21''] (Some 0.9),
     provider_mapping.make ''github.svg'' [''github''] (Some 0.95),
     provider_mapping.make ''doubao.svg'' [''doubao''] None,
     provider_mapping.make ''hunyuan.svg'' [''hunyuan''] None,
     provider_mapping.make ''nvidia.svg'' [''nvidia''] None,
     provider_mapping.make ''tencentcloud.svg'' [''tencentcloud'', ''tencentclound''] None,
     provider_mapping.make ''wenxin.svg'' [''wenxin''] None,
     provider_mapping.make ''sensenova.svg'' [''sensenova''] (Some 0.95),
     provider_mapping.make ''huggingface.svg'' [''huggingface''] (Some 1.16),
     provider_mapping.make ''lmstudio.svg'' [''lmstudio''] None,
     provider_mapping.make ''xai.svg'' [''xai''] (Some 0.85),
     provider_mapping.make ''cloudflare.svg'' [''cloudflare''] (Some 1.1),
     provider_mapping.make ''internlm.svg'' [''internlm''] (Some 0.95),
     provider_mapping.make ''higress.svg'' [''higress''] None,
     provider_mapping.make ''vllm.svg'' [''vllm''] (Some 0.85),
     provider_mapping.make ''giteeai.svg'' [''giteeai''] (Some 0.95),
     provider_mapping.make ''modelscope.svg'' [''modelscope''] (Some 1.2),
     provider_mapping.make ''vertexai.svg'' [''vertexai''] None,
     provider_mapping.make ''ppio.svg'' [''ppio''] (Some 0.85),
     provider_mapping.make ''jina.svg'' [''jina''] None,
     provider_mapping.make ''azureai.svg'' [''azureai''] None,
     provider_mapping.make ''volcengine.svg'' [''volcengine''] None,
     provider_mapping.make ''sambanova.svg'' [''sambanova''] (Some 0.8),
     provider_mapping.make ''cohere.svg'' [''cohere''] None,
     provider_mapping.make ''search1api.svg'' [''search1api''] (Some 0.9),
     provider_mapping.make ''infiniai.svg'' [''infiniai'', ''infiniAI''] (Some 0.8),
     provider_mapping.make ''xinference.svg'' [''xinference''] (Some 0.85)]"

definition icon_mapping :: "string option \<Rightarrow> provider_mapping option" where
  "icon_mapping originProvider =
     (if str_truthy originProvider
      then find (\<lambda>item. list_ex (\<lambda>keyword. to_lower keyword = to_lower (the originProvider)) (pm_keywords item))
             providerMappings
      else None)"

definition scaled :: "rat \<Rightarrow> provider_mapping option \<Rightarrow> rat" where
  "scaled px mapping = px * (case mapping of None \<Rightarrow> 1 | Some m \<Rightarrow>
     (case pm_combineMultiple m of None \<Rightarrow> 1 | Some x \<Rightarrow> if x = 0 then 1 else x))"

datatype icon_type = Mono | Color | Avatar

datatype shown_icon =
    Svg_icon string rat
  | Letter_avatar string string
  | Question_mark rat

definition avatar_size :: "rat \<Rightarrow> string" where
  "avatar_size px = (if px \<le> 20 then ''sm'' else if px \<le> 28 then ''md'' else ''lg'')"

text \<open>\<open>toUpperCase\<close>; the two 8-bit letters whose capitals are not 8-bit characters are left as they
  are.\<close>

definition upper_char :: "char \<Rightarrow> string" where
  "upper_char c = (let n = (of_char c :: nat) in
     if (97 \<le> n \<and> n \<le> 122) \<or> (224 \<le> n \<and> n \<le> 254 \<and> n \<noteq> 247) then [char_of (n - 32)]
     else if n = 223 then ''SS'' else [c])"

definition to_upper :: "string \<Rightarrow> string" where
  "to_upper s = concat (map upper_char s)"

definition ProviderIcon :: "string option \<Rightarrow> rat \<Rightarrow> icon_type \<Rightarrow> shown_icon" where
  "ProviderIcon originProvider px type =
     (case icon_mapping originProvider of
        Some m \<Rightarrow> Svg_icon (''/icons/providers/'' @ pm_icon m) (scaled px (Some m))
      | None \<Rightarrow> if type = Avatar
          then Letter_avatar (avatar_size px)
            (ostr_or (map_option (\<lambda>p. to_upper (take 1 p)) originProvider) ''?'')
          else Question_mark px)"

definition ProviderCombine :: "string option \<Rightarrow> rat \<Rightarrow> shown_icon \<times> rat" where
  "ProviderCombine originProvider px =
     (case icon_mapping originProvider of
        Some m \<Rightarrow> Svg_icon (''/icons/providers/'' @ pm_icon m) (scaled px (Some m))
      | None \<Rightarrow> Question_mark px, px * 1.5)"

definition ProviderAvatar :: "string \<Rightarrow> rat \<Rightarrow> shown_icon" where
  "ProviderAvatar providerId px = ProviderIcon (Some providerId) px Avatar"

section \<open>The list of downloaded icons\<close>

definition icons :: "string list" where
  "icons = [''lucide:server'', ''lucide:user'', ''lucide:lock'', ''lucide:languages'', ''lucide:plus'',
     ''lucide:x'', ''lucide:check'', ''lucide:chevron-right'', ''lucide:chevron-left'',
     ''lucide:message-square'', ''lucide:history'', ''lucide:users'', ''lucide:building'',
     ''lucide:sun'', ''lucide:moon'', ''lucide:key'', ''lucide:log-out'', ''lucide:search'',
     ''lucide:edit'', ''lucide:more-vertical'', ''lucide:trash-2'', ''lucide:download'',
     ''lucide:loader-2'', ''lucide:arrow-right'', ''lucide:copy'', ''lucide:external-link'',
     ''lucide:send'', ''lucide:route'', ''lucide:terminal'', ''lucide:radio'', ''lucide:globe'',
     ''lucide:wrench'', ''lucide:trash'', ''lucide:upload'', ''lucide:play'', ''lucide:pencil'',
     ''mdi:wechat'', ''mdi:github'', ''mdi:book-open-page-variant'', ''material-symbols:add'',
     ''material-symbols:upload'', ''material-symbols:sync'', ''material-symbols:grid-view'',
     ''material-symbols:table-rows'', ''ic:baseline-discord'', ''ic:round-unfold-more'',
     ''ic:round-unfold-less'', ''ri:menu-unfold-line'', ''ri:menu-unfold-2-line'',
     ''heroicons:arrow-uturn-left'', ''heroicons:chevron-left'', ''heroicons:chevron-right'',
     ''fluent-mdl2:chevron-fold-10'']"

definition icon_file :: "string \<Rightarrow> string" where
  "icon_file icon = ''/icons/'' @ replace_first icon '':'' ''-'' @ ''.svg''"

definition generateIconMap :: "string obj" where
  "generateIconMap = foldl (\<lambda>iconMap icon. obj_set iconMap icon (icon_file icon)) [] icons"

section \<open>Lemmas on attributes\<close>

lemma dquote_neq [simp]: "dquote \<noteq> CHR ''=''" "CHR ''='' \<noteq> dquote"
  by (simp_all add: dquote_def)

lemma attr_value_Nil [simp]: "attr_value n [] = None"
  by (simp add: attr_value_def)

lemma attr_value_Cons:
  "attr_value n (c # s) = (case attr_at n (c # s) of Some (v, r) \<Rightarrow> Some v | None \<Rightarrow> attr_value n s)"
  by (auto simp: attr_value_def option.map_comp comp_def split_def split: option.splits)

lemma attr_at_SomeD:
  assumes "attr_at n s = Some (v, r)"
  shows "s = lead n @ v @ dquote # r \<and> dquote \<notin> set v"
proof -
  obtain t where t: "s = lead n @ t" "v = takeWhile (\<lambda>c. c \<noteq> dquote) t" "length v < length t"
      "r = drop (Suc (length v)) t"
    using assms by (auto simp: attr_at_def starts_with_iff Let_def split: if_splits)
  have "t ! length v = dquote" using nth_length_takeWhile [of "\<lambda>c. c \<noteq> dquote" t] t by simp
  then have "t = v @ dquote # r"
    using t by (metis takeWhile_eq_take append_take_drop_id Cons_nth_drop_Suc)
  moreover have "dquote \<notin> set v" using t(2) by (auto dest: set_takeWhileD)
  ultimately show ?thesis using t(1) by simp
qed

lemma attr_at_lead [simp]:
  "dquote \<notin> set v \<Longrightarrow> attr_at n (lead n @ v @ dquote # r) = Some (v, r)"
proof -
  assume "dquote \<notin> set v"
  then have "takeWhile (\<lambda>c. c \<noteq> dquote) (v @ dquote # r) = v" by (subst takeWhile_append2) auto
  then show ?thesis by (simp add: attr_at_def Let_def starts_withI)
qed

text \<open>A match that begins before an lead does not look past it.\<close>

lemma lead_overlap:
  assumes "lead n @ x = a @ lead m @ z" "attr_name n" "attr_name m"
  shows "(\<exists>b. a @ lead m = lead n @ b \<and> x = b @ z)"
  using assms
proof -
  have "length (lead n) \<le> length (a @ lead m)"
  proof (rule ccontr)
    assume "\<not> length (lead n) \<le> length (a @ lead m)"
    define k where "k = length (a @ lead m)"
    have "take k (lead n) = a @ lead m"
      using arg_cong [OF assms(1), of "take k"] \<open>\<not> _\<close> by (simp add: k_def)
    then obtain b where b: "lead n = (a @ lead m) @ b" "b \<noteq> []"
      using \<open>\<not> _\<close> by (metis append_take_drop_id append_Nil2 k_def order_refl)
    then have "dquote \<in> set (butlast (lead n))"
      by (simp add: lead_def butlast_append)
    then show False using assms(2) by (simp add: lead_def attr_name_def butlast_append)
  qed
  then have "take (length (lead n)) (a @ lead m) = lead n"
    and "drop (length (lead n)) (a @ lead m) @ z = x"
    using arg_cong [OF assms(1), of "take (length (lead n))"]
      arg_cong [OF assms(1), of "drop (length (lead n))"] by simp_all
  then show ?thesis by (metis append_take_drop_id)
qed

lemma attr_at_before_lead:
  assumes "a \<noteq> []" "attr_name n" "attr_name m" "m = n \<or> \<not> suffix m n"
  shows "map_option fst (attr_at n (a @ lead m @ z)) = map_option fst (attr_at n (a @ lead m @ z'))"
proof -
  have "\<exists>r'. attr_at n (a @ lead m @ z') = Some (v, r')"
    if "attr_at n (a @ lead m @ z) = Some (v, r)" for v r z z'
  proof -
    note sv = attr_at_SomeD [OF that]
    then obtain b where b: "a @ lead m = lead n @ b" "v @ dquote # r = b @ z"
      using lead_overlap [of n "v @ dquote # r" a m z] assms(2,3) by metis
    have "b \<noteq> []"
    proof
      assume "b = []"
      then have "a @ m = n" using b(1) by (simp add: lead_def)
      then show False using assms(1,4) by (auto simp: suffix_def)
    qed
    then have "last b = dquote" using b(1) by (metis last_appendR last_snoc lead_def append.assoc append_Cons append_Nil snoc_eq_iff_butlast)
    with \<open>b \<noteq> []\<close> have qb: "dquote \<in> set b" by (metis last_in_set)
    have "length v < length b"
    proof (rule ccontr)
      assume "\<not> length v < length b"
      then have "\<exists>c. v = b @ c" using b(2) by (auto simp: append_eq_append_conv2)
      then show False using qb sv by auto
    qed
    then obtain b' where "b = v @ dquote # b'" using b(2) by (auto simp: append_eq_append_conv2 Cons_eq_append_conv)
    then have "a @ lead m @ z' = lead n @ v @ dquote # (b' @ z')"
      using arg_cong [OF b(1), of "\<lambda>y. y @ z'"] by simp
    then show ?thesis using sv attr_at_lead [of v n "b' @ z'"] by (simp only:) blast
  qed
  from this [of z _ _ z'] this [of z' _ _ z] show ?thesis
    by (cases "attr_at n (a @ lead m @ z)"; cases "attr_at n (a @ lead m @ z')") auto
qed

lemma attr_at_inside_lead:
  assumes "attr_name n" "attr_name m" "j < length (lead m)" "\<not> suffix n m"
  shows "attr_at n (drop j (lead m) @ z) = None"
proof (rule ccontr)
  assume "attr_at n (drop j (lead m) @ z) \<noteq> None"
  then obtain v r where "drop j (lead m) @ z = lead n @ v @ dquote # r"
    using attr_at_SomeD by fastforce
  then have e: "lead n @ (v @ dquote # r) = drop j (lead m) @ z" by simp
  show False
  proof (cases "j \<le> length m")
    case True
    then have d: "drop j (lead m) = drop j m @ [CHR ''='', dquote]" by (simp add: lead_def)
    have w: "takeWhile (\<lambda>c. c \<noteq> CHR ''='') (x @ CHR ''='' # y) = x" if "CHR ''='' \<notin> set x" for x y
      using that by (subst takeWhile_append2) auto
    have "CHR ''='' \<notin> set (drop j m)" using assms(2) by (auto simp: attr_name_def dest: in_set_dropD)
    moreover have "CHR ''='' \<notin> set n" using assms(1) by (simp add: attr_name_def)
    moreover have "n @ CHR ''='' # (dquote # v @ dquote # r) = drop j m @ CHR ''='' # (dquote # z)"
      using e unfolding d by (simp add: lead_def)
    ultimately have "drop j m = n" using w by metis
    then show False using assms(4) suffix_drop by metis
  next
    case False
    then have "j = Suc (length m)" using assms(3) by (simp add: lead_def)
    then have d: "drop j (lead m) = [dquote]" by (simp add: lead_def)
    show False using e assms(1) unfolding d by (cases n) (auto simp: lead_def attr_name_def)
  qed
qed

lemma attr_at_inside_text:
  assumes "attr_name n" "attr_text v"
  shows "attr_at n (drop j v @ dquote # r) = None"
proof (rule ccontr)
  assume "attr_at n (drop j v @ dquote # r) \<noteq> None"
  then obtain u t where "drop j v @ dquote # r = lead n @ u @ dquote # t" using attr_at_SomeD by fastforce
  then have e: "drop j v @ dquote # r = n @ [CHR ''='', dquote] @ u @ dquote # t" by (simp add: lead_def)
  have w: "takeWhile (\<lambda>c. c \<noteq> dquote) (x @ dquote # y) = x" if "dquote \<notin> set x" for x y
    using that by (subst takeWhile_append2) auto
  have "dquote \<notin> set (drop j v)" using assms(2) by (auto simp: attr_text_def dest: in_set_dropD)
  moreover have "dquote \<notin> set (n @ [CHR ''=''])" using assms(1) by (simp add: attr_name_def)
  ultimately have "drop j v = n @ [CHR ''='']"
    using arg_cong [OF e, of "takeWhile (\<lambda>c. c \<noteq> dquote)"] w [of "n @ [CHR ''='']"] w [of "drop j v"] by simp
  then have "CHR ''='' \<in> set (drop j v)" by simp
  then show False using assms(2) by (auto simp: attr_text_def dest: in_set_dropD)
qed

text \<open>Skipping a text in which nothing matches.\<close>

lemma attr_value_skip:
  assumes "\<And>i. i < length a \<Longrightarrow> attr_at n (drop i a @ s) = None"
  shows "attr_value n (a @ s) = attr_value n s"
  using assms
proof (induction a)
  case (Cons c a)
  have "attr_at n (c # a @ s) = None" using Cons.prems [of 0] by simp
  moreover have "attr_value n (a @ s) = attr_value n s"
  proof (rule Cons.IH)
    fix i assume "i < length a"
    then show "attr_at n (drop i a @ s) = None" using Cons.prems [of "Suc i"] by simp
  qed
  ultimately show ?case by (simp add: attr_value_Cons)
qed simp

lemma attr_value_after:
  assumes n: "attr_name n" and m: "attr_name m" "\<not> suffix n m" and v: "attr_text v"
  shows "attr_value n (lead m @ v @ dquote # r) = attr_value n r"
proof -
  have "attr_value n (lead m @ (v @ dquote # r)) = attr_value n (v @ dquote # r)"
    by (rule attr_value_skip) (rule attr_at_inside_lead [OF n m(1) _ m(2)])
  also have "\<dots> = attr_value n (dquote # r)"
    by (rule attr_value_skip) (rule attr_at_inside_text [OF n v])
  also have "\<dots> = attr_value n r"
    using attr_at_inside_text [OF n v, of "length v" r] by (simp add: attr_value_Cons)
  finally show ?thesis .
qed

lemma attr_value_before:
  assumes "attr_name n" "attr_name m" "m = n \<or> \<not> suffix m n"
    and "attr_value n (lead m @ z) = attr_value n (lead m @ z')"
  shows "attr_value n (a @ lead m @ z) = attr_value n (a @ lead m @ z')"
proof (induction a)
  case (Cons c a)
  note same = attr_at_before_lead [OF _ assms(1-3), of "c # a" z z']
  show ?case
    by (cases "attr_at n (c # a @ lead m @ z)"; cases "attr_at n (c # a @ lead m @ z')")
      (use same Cons.IH in \<open>auto simp: attr_value_Cons\<close>)
qed (use assms in simp)

text \<open>Changing the first value of one attribute changes no other, and reads back.\<close>

lemma find_attrD:
  "find_attr n s = Some (p, v, r) \<Longrightarrow> s = p @ lead n @ v @ dquote # r \<and> dquote \<notin> set v"
proof (induction n s arbitrary: p rule: find_attr.induct)
  case (2 n c s)
  show ?case
  proof (cases "attr_at n (c # s)")
    case None
    then show ?thesis using 2 by auto
  next
    case (Some x)
    then show ?thesis using 2 attr_at_SomeD by (cases x) fastforce
  qed
qed simp

lemma attr_value_other:
  assumes "find_attr m s = Some (p, old, r)" "attr_name n" "attr_name m" "\<not> suffix m n" "\<not> suffix n m"
    "attr_text old" "attr_text v"
  shows "attr_value n (p @ lead m @ v @ dquote # r) = attr_value n s"
  using find_attrD [OF assms(1)] assms attr_value_before [of n m "v @ dquote # r" "old @ dquote # r" p]
  by (simp add: attr_value_after)

lemma attr_value_lead: "dquote \<notin> set v \<Longrightarrow> attr_value n (lead n @ v @ dquote # r) = Some v"
proof -
  assume v: "dquote \<notin> set v"
  obtain c l where l: "lead n = c # l" by (cases "lead n") (auto simp: lead_def)
  show ?thesis using attr_at_lead [OF v, of n r] by (simp add: l attr_value_Cons)
qed

lemma attr_value_own:
  assumes "find_attr n s = Some (p, old, r)" "attr_name n" "dquote \<notin> set v"
  shows "attr_value n (p @ lead n @ v @ dquote # r) = Some v"
  using assms(1)
proof (induction s arbitrary: p)
  case (Cons c s)
  show ?case
  proof (cases "attr_at n (c # s)")
    case None
    with Cons.prems obtain p' where p: "p = c # p'" "find_attr n s = Some (p', old, r)" by auto
    have "map_option fst (attr_at n ((c # p') @ lead n @ v @ dquote # r)) = None"
      using None find_attrD [OF p(2)] attr_at_before_lead [of "c # p'" n n "v @ dquote # r" "old @ dquote # r"]
        assms(2) by simp
    then show ?thesis using Cons.IH [OF p(2)] by (simp add: p(1) attr_value_Cons)
  next
    case (Some x)
    with Cons.prems have "p = []" by auto
    then show ?thesis using attr_value_lead [OF assms(3)] by simp
  qed
qed simp

lemma expand_plain: "CHR ''$'' \<notin> set s \<Longrightarrow> expand_dollar b f a s = s"
  by (induction b f a s rule: expand_dollar.induct) auto

lemma set_attr_plain:
  assumes "find_attr n s = Some (p, old, r)" "CHR ''$'' \<notin> set n" "CHR ''$'' \<notin> set v"
  shows "set_attr n v s = p @ lead n @ v @ dquote # r"
  using assms by (simp add: set_attr_def expand_plain lead_def dquote_def)

lemma find_attr_value: "attr_value n s = Some v \<Longrightarrow> \<exists>p r. find_attr n s = Some (p, v, r)"
  by (auto simp: attr_value_def)

lemma size_names: "attr_name ''width''" "attr_name ''height''"
  "\<not> suffix ''width'' ''height''" "\<not> suffix ''height'' ''width''"
  by (simp_all add: attr_name_def dquote_def suffix_def)

section \<open>Properties\<close>

text \<open>
  A drawing that has a width and a height is shown with exactly the width and the
  height that were asked for.
\<close>

theorem drawing_has_the_asked_size:
  assumes "attr_value ''width'' svg = Some w" "attr_value ''height'' svg = Some h" "attr_text h"
    and p: "attr_text (ip_width p)" "attr_text (ip_height p)"
      "CHR ''$'' \<notin> set (ip_width p)" "CHR ''$'' \<notin> set (ip_height p)"
    and w: "attr_text w"
  shows "attr_value ''width'' (modifiedSvg p svg) = Some (ip_width p)
    \<and> attr_value ''height'' (modifiedSvg p svg) = Some (ip_height p)"
proof -
  let ?s = "set_attr ''width'' (ip_width p) svg"
  obtain a r where 1: "find_attr ''width'' svg = Some (a, w, r)" using find_attr_value [OF assms(1)] by blast
  have s: "?s = a @ lead ''width'' @ ip_width p @ dquote # r"
    using set_attr_plain [OF 1] p(3) by simp
  have "attr_value ''width'' ?s = Some (ip_width p)"
    unfolding s using attr_value_own [OF 1 size_names(1)] p(1) by (simp add: attr_text_def)
  moreover have "attr_value ''height'' ?s = Some h"
    unfolding s using attr_value_other [OF 1 size_names(2,1)] size_names(3,4) w p(1) assms(2) by simp
  then obtain b t where 2: "find_attr ''height'' ?s = Some (b, h, t)" using find_attr_value by blast
  have m: "modifiedSvg p svg = b @ lead ''height'' @ ip_height p @ dquote # t"
    using set_attr_plain [OF 2] p(4) by (simp add: modifiedSvg_def)
  ultimately have "attr_value ''width'' (modifiedSvg p svg) = Some (ip_width p)"
    unfolding m using attr_value_other [OF 2 size_names(1,2)] size_names(3,4) assms(3) p(2) by simp
  moreover have "attr_value ''height'' (modifiedSvg p svg) = Some (ip_height p)"
    unfolding m using attr_value_own [OF 2 size_names(2)] p(2) by (simp add: attr_text_def)
  ultimately show ?thesis by blast
qed

definition small_svg :: string where
  "small_svg = ''<svg width='' @ [dquote] @ ''1em'' @ [dquote] @ '' height='' @ [dquote] @ ''1em'' @ [dquote] @ ''/>''"

theorem drawing_has_the_asked_size_witness:
  "attr_value ''width'' (modifiedSvg \<lparr>ip_icon = ''lucide:x'', ip_width = ''24'', ip_height = ''16''\<rparr> small_svg)
     = Some ''24''"
proof -
  let ?p = "\<lparr>ip_icon = ''lucide:x'', ip_width = ''24'', ip_height = ''16''\<rparr>"
  have "attr_value ''width'' small_svg = Some ''1em''" "attr_value ''height'' small_svg = Some ''1em''"
    by code_simp+
  from drawing_has_the_asked_size [OF this, of ?p] show ?thesis by (simp add: attr_text_def dquote_def)
qed

text \<open>The effect of an icon is an instance of asking again whenever something changed.\<close>

interpretation ic: latest_answer is_pending is_props is_svgContent
    "\<lambda>p svg. svg = modifiedSvg p (contents (the (iconPath (ip_icon p))))" icon_effect
    "\<lambda>st st'. is_pending st \<noteq> [] \<and> st' = icon_arrives contents 0 st"
  for contents :: "string \<Rightarrow> string"
proof
  fix st st' :: icon_state
  assume "is_pending st \<noteq> [] \<and> st' = icon_arrives contents 0 st"
  then show "is_pending st \<noteq> [] \<and> is_pending st' = tl (is_pending st)"
    and "is_svgContent st' = modifiedSvg (hd (is_pending st)) (contents (the (iconPath (ip_icon (hd (is_pending st))))))"
    and "is_props st' = is_props st"
    by (cases "is_pending st"; simp add: icon_arrives_def splice1_def Let_def)+
qed (simp_all add: icon_effect_def Let_def)

lemma icon_run_latest:
  "icon_run True contents st \<Longrightarrow> iconPath (ip_icon (is_props st)) \<noteq> None \<Longrightarrow> ic.latest contents st"
proof (induction rule: icon_run.induct)
  case (shown p)
  then show ?case
    by (cases "iconPath (ip_icon p) = None") (auto simp: show_icon_def Let_def ic.latest_ask)
next
  case (changed st p)
  then show ?case
    by (cases "p = is_props st") (auto simp: change_icon_def Let_def ic.latest_ask split: if_splits)
next
  case (arrived st i)
  then have "i = 0" "is_pending st \<noteq> []" by auto
  moreover from this have "is_props (icon_arrives contents i st) = is_props st"
    using ic.wanted_arrive [of st _ contents] by simp
  ultimately show ?case using arrived ic.latest_arrive [of contents st] by simp
qed simp

text \<open>
  Property C24. As long as files arrive in the order they were asked for, an icon whose drawing has
  arrived shows the file of its present name, however often the name changed.
\<close>

theorem icons_follow_their_names:
  assumes "icon_run True contents st" "is_pending st = []" "iconPath (ip_icon (is_props st)) = Some path"
  shows "drawn st = Some (modifiedSvg (is_props st) (contents path))"
  using ic.latest_shown [OF icon_run_latest [OF assms(1)] assms(2)] assms(3) by (simp add: drawn_def)

theorem icons_follow_their_names_witness:
  "\<exists>st. icon_run True (\<lambda>f. f) st \<and> ip_icon (is_props st) = ''lucide:x''
     \<and> drawn st = Some ''/icons/lucide-x.svg''"
proof -
  let ?p = "\<lparr>ip_icon = ''lucide:plus'', ip_width = ''24'', ip_height = ''24''\<rparr>"
  let ?q = "\<lparr>ip_icon = ''lucide:x'', ip_width = ''24'', ip_height = ''24''\<rparr>"
  let ?s = "change_icon ?q (show_icon ?p)"
  let ?t = "icon_arrives (\<lambda>f. f) 0 (icon_arrives (\<lambda>f. f) 0 ?s)"
  have ne: "is_pending ?s \<noteq> []" "is_pending (icon_arrives (\<lambda>f. f) 0 ?s) \<noteq> []" by code_simp+
  have run: "icon_run True (\<lambda>f. f) ?t"
    by (intro icon_run.arrived icon_run.changed icon_run.shown) (simp_all add: ne)
  have fin: "is_pending ?t = []" "is_props ?t = ?q" "iconPath (ip_icon (is_props ?t)) = Some ''/icons/lucide-x.svg''"
    by code_simp+
  have "drawn ?t = Some (modifiedSvg (is_props ?t) ''/icons/lucide-x.svg'')"
    by (rule icons_follow_their_names [OF run fin(1,3)])
  moreover have "modifiedSvg (is_props ?t) ''/icons/lucide-x.svg'' = ''/icons/lucide-x.svg''" by code_simp
  ultimately show ?thesis using run fin(2) by (intro exI [of _ ?t]) simp
qed

text \<open>
  A drawing that fails to load leaves the drawing of the previous name under the new one.
\<close>

lemma failed_icon_keeps_the_old_drawing:
  "let p = \<lparr>ip_icon = ''lucide:sun'', ip_width = ''24'', ip_height = ''24''\<rparr>;
       st = icon_fails 0 (change_icon (p\<lparr>ip_icon := ''lucide:moon''\<rparr>)
         (icon_arrives (\<lambda>f. f) 0 (show_icon p)))
   in is_pending st = [] \<and> drawn st = Some ''/icons/lucide-sun.svg''"
  by code_simp

lemma icon_mapping_lower: "to_lower q = to_lower p \<Longrightarrow> icon_mapping (Some q) = icon_mapping (Some p)"
proof -
  assume "to_lower q = to_lower p"
  then have "q = [] \<longleftrightarrow> p = []" by auto
  with \<open>to_lower q = _\<close> show ?thesis by (auto simp: icon_mapping_def str_truthy_def)
qed

lemma icon_of_keyword:
  "list_all (\<lambda>m. list_all (\<lambda>k. pm_icon m = to_lower k @ ''.svg'' \<or> to_lower k = ''tencentclound'')
     (pm_keywords m)) providerMappings"
  by code_simp

lemma keywords_of_ids:
  "list_all (\<lambda>p. p \<in> set (concat (map (\<lambda>m. map to_lower (pm_keywords m)) providerMappings)))
     all_provider_ids
   \<and> ''tencentclound'' \<notin> set all_provider_ids"
  by code_simp

lemma ids_are_lower: "list_all (\<lambda>p. p \<noteq> [] \<and> to_lower p = p) all_provider_ids"
  by code_simp

lemma icons_of_ids:
  assumes "p \<in> set all_provider_ids"
  shows "to_lower p = p \<and> map_option pm_icon (icon_mapping (Some p)) = Some (p @ ''.svg'')"
proof -
  have p: "p \<noteq> []" "to_lower p = p" "p \<noteq> ''tencentclound''"
    using assms ids_are_lower keywords_of_ids by (auto simp: list_all_iff)
  let ?hit = "\<lambda>m. list_ex (\<lambda>k. to_lower k = to_lower p) (pm_keywords m)"
  obtain m0 where "m0 \<in> set providerMappings" "?hit m0"
    using keywords_of_ids assms p(2) by (fastforce simp: list_all_iff list_ex_iff)
  then obtain m where m: "find ?hit providerMappings = Some m"
    by (cases "find ?hit providerMappings") (auto simp: find_None_iff)
  then have "m \<in> set providerMappings" "?hit m" by (auto simp: find_Some_iff)
  then have "pm_icon m = p @ ''.svg''"
    using icon_of_keyword p(2,3) by (auto simp: list_all_iff list_ex_iff)
  with m p show ?thesis by (simp add: icon_mapping_def str_truthy_def)
qed

text \<open>
  Every provider of the catalogue has an icon of its own name, however its id is
  capitalised.
\<close>

theorem every_provider_has_its_icon:
  assumes "to_lower q \<in> set all_provider_ids"
  shows "\<exists>s. ProviderIcon (Some q) px type = Svg_icon (''/icons/providers/'' @ to_lower q @ ''.svg'') s"
proof -
  have "to_lower (to_lower q) = to_lower q"
    and "map_option pm_icon (icon_mapping (Some (to_lower q))) = Some (to_lower q @ ''.svg'')"
    using icons_of_ids [OF assms] by simp_all
  moreover from this(1) have "icon_mapping (Some (to_lower q)) = icon_mapping (Some q)"
    by (rule icon_mapping_lower)
  ultimately show ?thesis by (auto simp: ProviderIcon_def)
qed

theorem every_provider_has_its_icon_witness:
  "\<exists>s. ProviderIcon (Some ''OpenAI'') 24 Avatar = Svg_icon ''/icons/providers/openai.svg'' s"
proof -
  have l: "to_lower ''OpenAI'' = ''openai''" by code_simp
  then have "to_lower ''OpenAI'' \<in> set all_provider_ids" by (simp add: all_provider_ids_def)
  from every_provider_has_its_icon [OF this, of 24 Avatar] show ?thesis by (simp only: l append.simps)
qed

lemma icon_paths: "list_all (\<lambda>(icon, path). path = icon_file icon) iconMap"
  by code_simp

lemma iconPath_file: "iconPath icon \<noteq> None \<Longrightarrow> iconPath icon = Some (icon_file icon)"
  using icon_paths by (fastforce simp: iconPath_def list_all_iff dest: map_of_SomeD)

lemma icons_known: "list_all (\<lambda>icon. icon \<in> set (map fst iconMap)) icons"
  by code_simp

lemma generated_path:
  assumes "icon \<in> set icons"
  shows "obj_get generateIconMap icon = Some (icon_file icon)"
proof -
  have "obj_get (foldl (\<lambda>m i. obj_set m i (icon_file i)) a is) icon
      = (if icon \<in> set is then Some (icon_file icon) else obj_get a icon)" for a "is"
    by (induction "is" arbitrary: a) (auto simp: obj_get_set)
  with assms show ?thesis by (simp add: generateIconMap_def)
qed

text \<open>
  The map of icons names its files as the download script does, but has eleven icons the script does
  not know; and several icons of the capabilities page are in neither.
\<close>

theorem icon_map_extends_the_script:
  "list_all (\<lambda>(icon, path). path = icon_file icon) iconMap
   \<and> list_all (\<lambda>icon. obj_get generateIconMap icon = iconPath icon) icons
   \<and> filter (\<lambda>icon. icon \<notin> set icons) (map fst iconMap)
     = [''lucide:check-circle'', ''lucide:file-plus'', ''lucide:tag'', ''lucide:upload-cloud'',
        ''lucide:folder-open'', ''lucide:file-text'', ''lucide:file-code'', ''lucide:brain'',
        ''lucide:alert-triangle'', ''simple-icons:google'', ''simple-icons:github'']"
proof (intro conjI)
  show "list_all (\<lambda>icon. obj_get generateIconMap icon = iconPath icon) icons"
    using icons_known generated_path iconPath_file
    by (fastforce simp: list_all_iff iconPath_def map_of_eq_None_iff)
  show "filter (\<lambda>icon. icon \<notin> set icons) (map fst iconMap)
     = [''lucide:check-circle'', ''lucide:file-plus'', ''lucide:tag'', ''lucide:upload-cloud'',
        ''lucide:folder-open'', ''lucide:file-text'', ''lucide:file-code'', ''lucide:brain'',
        ''lucide:alert-triangle'', ''simple-icons:google'', ''simple-icons:github'']"
    by code_simp
qed (rule icon_paths)

text \<open>
  A finding: icons named by the capabilities page are not in the map, so nothing is drawn for them.
\<close>

theorem icons_that_are_missing:
  "filter (\<lambda>icon. iconPath icon = None)
     (map type_icon [CapTools, CapPrompts, CapResources, CapResourceTemplates]
      @ [''lucide:file-json'', ''lucide:star'', ''lucide:alert-circle'', ''lucide:rotate-ccw''])
   = [''lucide:file'', ''lucide:file-json'', ''lucide:star'', ''lucide:alert-circle'', ''lucide:rotate-ccw'']"
  by code_simp

end
