(* ===== verification/Gateway_View.thy ===== *)
theory Gateway_View
  imports Gateway_Manager
begin

text \<open>
  What the gateway page of \<open>src/web/src/pages/gateway/gateway-manager.tsx\<close> shows, as data: the cards,
  the rows of the table and the two dialogs with the details of a configuration, with the keys React
  tells list items apart by. Styles, labels and the order of boxes on the screen are left out.
\<close>

section \<open>Routers\<close>

text \<open>One address with the key under which the page remembers that it was just copied.\<close>

record address_view =
  av_kind :: string
  av_url :: string
  av_key :: string
  av_copied :: bool

record router_view =
  rv_key :: string
  rv_prefix :: string
  rv_addresses :: "address_view list"
  rv_server :: string

text \<open>Where the page is: the runtime configuration, the one of the window, the origin, the marks.\<close>

record place =
  pl_runtime :: config
  pl_window :: "config option"
  pl_origin :: string
  pl_copied :: "string \<Rightarrow> bool"

definition address_views :: "place \<Rightarrow> string \<Rightarrow> nat \<Rightarrow> router_config \<Rightarrow> address_view list" where
  "address_views pl serverName idx router =
     map (\<lambda>(kind, url). \<lparr>av_kind = kind, av_url = url, av_key = copied_key kind serverName idx,
         av_copied = pl_copied pl (copied_key kind serverName idx)\<rparr>)
       (card_router_urls (pl_runtime pl) (pl_window pl) (pl_origin pl) router)"

definition item_key :: "gateway \<Rightarrow> string \<Rightarrow> string \<Rightarrow> nat \<Rightarrow> string" where
  "item_key server what name idx =
     gw_tenant server @ ''-'' @ gw_name server @ what @ name @ ''-'' @ nat_str idx"

definition router_view :: "place \<Rightarrow> string \<Rightarrow> gateway \<Rightarrow> nat \<Rightarrow> router_config \<Rightarrow> router_view" where
  "router_view pl what server idx router =
     \<lparr>rv_key = item_key server what (rt_prefix router) idx, rv_prefix = rt_prefix router,
      rv_addresses = address_views pl (gw_name server) idx router, rv_server = rt_server router\<rparr>"

definition router_views :: "place \<Rightarrow> string \<Rightarrow> gateway \<Rightarrow> router_view list" where
  "router_views pl what server =
     map (\<lambda>(idx, router). router_view pl what server idx router) (enumerate 0 (opt_or (gw_routers server) []))"

section \<open>Upstream servers\<close>

record backend_view =
  bk_key :: string
  bk_name :: string
  bk_type :: string
  bk_command :: "string option"
  bk_env :: "(string \<times> string) list"
  bk_url :: "string option"

definition backend_view :: "string \<Rightarrow> gateway \<Rightarrow> nat \<Rightarrow> mcp_server \<Rightarrow> backend_view" where
  "backend_view what server idx m =
     \<lparr>bk_key = item_key server what (ms_name m) idx, bk_name = ms_name m, bk_type = ms_type m,
      bk_command = (if ms_type m = ''stdio''
        then Some (opt_or (ms_command m) [] @ '' '' @ join '' '' (opt_or (ms_args m) [])) else None),
      bk_env = (if ms_type m = ''stdio'' then own_entries (opt_or (ms_env m) []) else []),
      bk_url = (if (ms_type m = ''sse'' \<or> ms_type m = ''streamable-http'') \<and> str_truthy (ms_url m)
        then ms_url m else None)\<rparr>"

definition backend_views :: "string \<Rightarrow> gateway \<Rightarrow> backend_view list" where
  "backend_views what server =
     map (\<lambda>(idx, m). backend_view what server idx m) (enumerate 0 (opt_or (gw_mcpServers server) []))"

section \<open>Cards\<close>

record config_view =
  cv_key :: string
  cv_name :: string
  cv_description :: string
  cv_routers :: "router_view list"
  cv_backends :: "backend_view list"
  cv_enabledTools :: "string list"
  cv_allTools :: "string list"

definition config_view :: "place \<Rightarrow> gateway \<Rightarrow> server_config \<Rightarrow> config_view" where
  "config_view pl server sc =
     \<lparr>cv_key = gw_tenant server @ ''-'' @ gw_name server @ ''-config-'' @ srv_name sc,
      cv_name = srv_name sc, cv_description = srv_description sc,
      cv_routers = router_views pl ''-router-'' server,
      cv_backends = backend_views ''-backend-'' server,
      cv_enabledTools = opt_or (srv_allowedTools sc) [],
      cv_allTools = map tool_name (opt_or (gw_tools server) [])\<rparr>"

text \<open>Without a server entry the card lists routers and upstream servers only.\<close>

record plain_view =
  pv_routers :: "router_view list"
  pv_backends :: "backend_view list"

definition plain_view :: "place \<Rightarrow> gateway \<Rightarrow> plain_view option" where
  "plain_view pl server =
     (if opt_or (gw_servers server) [] = []
      then Some \<lparr>pv_routers = router_views pl ''-router-list-'' server,
             pv_backends = backend_views ''-mcp-'' server\<rparr>
      else None)"

record card_view =
  ca_key :: string
  ca_name :: string
  ca_tenant :: "string option"
  ca_disabled :: bool
  ca_configs :: "config_view list"
  ca_plain :: "plain_view option"

definition list_key :: "gateway \<Rightarrow> string" where
  "list_key server = gw_tenant server @ ''-'' @ gw_name server"

definition dialog_open :: "manager \<Rightarrow> bool" where
  "dialog_open st \<longleftrightarrow> gm_isOpen st \<or> gm_isCreateOpen st \<or> gm_isImportOpen st"

definition card_view :: "place \<Rightarrow> manager \<Rightarrow> gateway \<Rightarrow> card_view" where
  "card_view pl st server =
     \<lparr>ca_key = list_key server, ca_name = gw_name server,
      ca_tenant = (if gw_tenant server = [] then None else Some (gw_tenant server)),
      ca_disabled = dialog_open st,
      ca_configs = map (config_view pl server) (opt_or (gw_servers server) []),
      ca_plain = plain_view pl server\<rparr>"

section \<open>The table and the page\<close>

record row_view =
  ro_key :: string
  ro_name :: string
  ro_description :: "string option"
  ro_routes :: nat
  ro_enabledTools :: nat
  ro_allTools :: nat

definition row_view :: "gateway \<Rightarrow> row_view" where
  "row_view server =
     \<lparr>ro_key = list_key server, ro_name = gw_name server, ro_description = description_cell server,
      ro_routes = routes_cell server, ro_enabledTools = fst (tools_cell server),
      ro_allTools = snd (tools_cell server)\<rparr>"

datatype page_view = Loading_shown | Cards_listed "card_view list" | Rows_listed "row_view list"

definition page_view :: "place \<Rightarrow> manager \<Rightarrow> gateway list option \<Rightarrow> page_view" where
  "page_view pl st mcpservers =
     (if gm_isLoading st then Loading_shown
      else if gm_viewMode st = ''card'' then Cards_listed (map (card_view pl st) (opt_or mcpservers []))
      else Rows_listed (map row_view (opt_or mcpservers [])))"

section \<open>The dialogs with details\<close>

record routing_modal =
  rm_name :: "string option"
  rm_routers :: "router_view list"
  rm_backends :: "backend_view list"

definition routing_modal :: "place \<Rightarrow> manager_details \<Rightarrow> routing_modal option" where
  "routing_modal pl d =
     (if gd_isRoutingModalOpen d then
        Some (case gd_currentModalServer d of
          None \<Rightarrow> \<lparr>rm_name = None, rm_routers = [], rm_backends = []\<rparr>
        | Some server \<Rightarrow> \<lparr>rm_name = Some (gw_name server),
            rm_routers = router_views pl ''-modal-router-'' server,
            rm_backends = backend_views ''-modal-'' server\<rparr>)
      else None)"

record tools_modal =
  tm_name :: "string option"
  tm_enabledTools :: "string list"
  tm_allTools :: "string list"

definition tools_modal :: "manager_details \<Rightarrow> tools_modal option" where
  "tools_modal d =
     (if gd_isToolsModalOpen d then
        Some (case gd_currentModalServer d of
          None \<Rightarrow> \<lparr>tm_name = None, tm_enabledTools = [], tm_allTools = []\<rparr>
        | Some server \<Rightarrow> \<lparr>tm_name = Some (gw_name server),
            tm_enabledTools = modal_enabled_tools server, tm_allTools = modal_all_tools server\<rparr>)
      else None)"

section \<open>Lemmas on keys\<close>

lemma minus_not_digit: "CHR ''-'' \<notin> set (nat_str n)"
proof
  assume "CHR ''-'' \<in> set (nat_str n)"
  then have "is_digit (CHR ''-'')" using nat_str_digits [of n] by (auto simp: list_all_iff)
  then show False by (simp add: is_digit_def)
qed

lemma last_separator:
  assumes "a @ c # x = b @ c # y" "c \<notin> set x" "c \<notin> set y"
  shows "a = b \<and> x = y"
proof -
  have "takeWhile (\<lambda>d. d \<noteq> c) (rev z @ c # w) = rev z" if "c \<notin> set z" for z w
    using that by (subst takeWhile_append2) auto
  from this [OF assms(2), of "rev a"] this [OF assms(3), of "rev b"] arg_cong [OF assms(1), of rev]
  have "rev x = rev y" by simp
  with assms(1) show ?thesis by simp
qed

lemma numbered_inject:
  "a @ ''-'' @ nat_str i = b @ ''-'' @ nat_str j \<longleftrightarrow> a = b \<and> i = j"
  using last_separator [of a "CHR ''-''" "nat_str i" b "nat_str j"] minus_not_digit by auto

lemma item_key_inject: "item_key server what x i = item_key server what y j \<longleftrightarrow> x = y \<and> i = j"
  using numbered_inject [of "gw_tenant server @ ''-'' @ gw_name server @ what @ x" i
      "gw_tenant server @ ''-'' @ gw_name server @ what @ y" j]
  by (auto simp: item_key_def)

lemma distinct_numbered:
  assumes "\<And>x y i j. K x i = K y j \<Longrightarrow> i = j"
  shows "distinct (map (\<lambda>p. K (snd p) (fst p)) (enumerate n xs))"
proof -
  have "inj_on (\<lambda>p. K (snd p) (fst p)) (set (enumerate n xs))"
    using assms by (fastforce simp: inj_on_def in_set_enumerate_eq prod_eq_iff)
  then show ?thesis by (simp add: distinct_map)
qed

definition copy_kinds :: "string list" where
  "copy_kinds = [''nginx-sse-'', ''nginx-mcp-'', ''direct-sse-'', ''direct-mcp-'']"

lemma copied_key_inject:
  assumes "k \<in> set copy_kinds" "k' \<in> set copy_kinds"
  shows "copied_key k n i = copied_key k' n' i' \<longleftrightarrow> k = k' \<and> n = n' \<and> i = i'"
proof -
  have "k @ n = k' @ n' \<longleftrightarrow> k = k' \<and> n = n'"
    using assms unfolding copy_kinds_def by (simp, elim disjE; simp)
  then show ?thesis
    using numbered_inject [of "k @ n" i "k' @ n'" i'] by (auto simp: copied_key_def)
qed

lemma address_views_kinds: "a \<in> set (address_views pl n i r) \<Longrightarrow> av_kind a \<in> set copy_kinds
    \<and> av_key a = copied_key (av_kind a) n i \<and> av_copied a = pl_copied pl (av_key a)"
  by (auto simp: address_views_def card_router_urls_def copy_kinds_def)

section \<open>Properties\<close>

text \<open>
  Property C17. Copying an address of a router marks, wherever routers are listed, exactly the
  addresses of the same kind, of routers at the same place, of configurations with the same name.
\<close>

theorem copying_marks_the_address:
  assumes a: "a \<in> set (address_views pl n i r)"
    and mark: "fst (handleCopyWithIcon copy (av_url a) (av_key a) w) = Inr mark"
    and b: "b \<in> set (address_views (pl\<lparr>pl_copied := gm_copied (mark st)\<rparr>) n' j r')"
    and fresh: "\<not> gm_copied st (av_key b)"
  shows "av_copied b \<longleftrightarrow> av_kind b = av_kind a \<and> n' = n \<and> j = i"
proof -
  have "gm_copied (mark st) = (gm_copied st)(av_key a := True)"
    using mark by (auto simp: handleCopyWithIcon_def handleCopyToClipboard_def io_simps
        split: option.splits if_splits)
  then have "av_copied b \<longleftrightarrow> av_key b = av_key a"
    using address_views_kinds [OF b] fresh by simp
  also have "\<dots> \<longleftrightarrow> av_kind b = av_kind a \<and> n' = n \<and> j = i"
    using address_views_kinds [OF a] address_views_kinds [OF b] copied_key_inject by auto
  finally show ?thesis .
qed

theorem copying_marks_the_address_witness:
  "let pl = \<lparr>pl_runtime = [], pl_window = None, pl_origin = ''http://h'', pl_copied = (\<lambda>_. False)\<rparr>;
       r = \<lparr>rt_server = ''s'', rt_prefix = ''/t/a'', rt_ssePrefix = None, rt_cors = None, rt_auth = None\<rparr>;
       st = initial_manager (\<lambda>_. None);
       a = address_views pl ''g'' 0 r ! 0;
       mark = (\<lambda>s. s\<lparr>gm_copied := (gm_copied s)(av_key a := True)\<rparr>);
       shown = address_views (pl\<lparr>pl_copied := gm_copied (mark st)\<rparr>) ''g'' 0 r
   in map av_copied shown = [True, False, False, False]"
proof -
  let ?pl = "\<lparr>pl_runtime = [], pl_window = None, pl_origin = ''http://h'', pl_copied = (\<lambda>_. False)\<rparr>"
  let ?r = "\<lparr>rt_server = ''s'', rt_prefix = ''/t/a'', rt_ssePrefix = None, rt_cors = None, rt_auth = None\<rparr>"
  let ?st = "initial_manager (\<lambda>_. None)"
  let ?a = "address_views ?pl ''g'' 0 ?r ! 0"
  let ?mark = "\<lambda>s. s\<lparr>gm_copied := (gm_copied s)(av_key ?a := True)\<rparr>"
  let ?shown = "address_views (?pl\<lparr>pl_copied := gm_copied (?mark ?st)\<rparr>) ''g'' 0 ?r"
  have a: "?a \<in> set (address_views ?pl ''g'' 0 ?r)" and k: "av_kind ?a = ''nginx-sse-''"
    and kinds: "map av_kind ?shown = copy_kinds"
    by (simp_all add: address_views_def card_router_urls_def copy_kinds_def)
  have m: "fst (handleCopyWithIcon (\<lambda>_. Some True) (av_url ?a) (av_key ?a) start_world) = Inr ?mark"
    by (simp add: handleCopyWithIcon_def handleCopyToClipboard_def io_simps)
  have "av_copied b \<longleftrightarrow> av_kind b = ''nginx-sse-''" if b: "b \<in> set ?shown" for b
    using copying_marks_the_address [OF a m b] k by (simp add: initial_manager_def)
  then have "map av_copied ?shown = map (\<lambda>k. k = ''nginx-sse-'') (map av_kind ?shown)" by simp
  then show ?thesis unfolding Let_def kinds by (simp add: copy_kinds_def)
qed

text \<open>
  What a row of the table counts is what the card of the same configuration lists: the
  routers, the enabled tools of all its servers together, and all tools.
\<close>

theorem rows_count_what_cards_list:
  "ro_routes (row_view server) = length (router_views pl what server)
   \<and> list_all (\<lambda>c. length (cv_routers c) = ro_routes (row_view server)
        \<and> length (cv_allTools c) = ro_allTools (row_view server)) (ca_configs (card_view pl st server))
   \<and> ro_enabledTools (row_view server)
     = sum_list (map (length \<circ> cv_enabledTools) (ca_configs (card_view pl st server)))
   \<and> map_option (length \<circ> pv_routers) (ca_plain (card_view pl st server))
     = (if ca_configs (card_view pl st server) = [] then Some (ro_routes (row_view server)) else None)"
  by (auto simp: row_view_def router_views_def routes_cell_def card_view_def config_view_def
      tools_cell_def list_all_iff plain_view_def comp_def opt_or_def split: option.splits)

text \<open>
  The routers and the upstream servers of one list have different keys.
\<close>

theorem keys_tell_items_apart:
  "distinct (map rv_key (router_views pl what server))
   \<and> distinct (map bk_key (backend_views what server))"
proof
  have keys: "distinct (map (\<lambda>p. item_key server what (f (snd p)) (fst p)) (enumerate 0 xs))"
    for f :: "'a \<Rightarrow> string" and xs
    by (rule distinct_numbered) (simp add: item_key_inject)
  show "distinct (map rv_key (router_views pl what server))"
    using keys [of rt_prefix] by (simp add: router_views_def router_view_def comp_def split_def)
  show "distinct (map bk_key (backend_views what server))"
    using keys [of ms_name] by (simp add: backend_views_def backend_view_def comp_def split_def)
qed

text \<open>
  A finding: the keys of the lists of configurations join tenant and name by a sign that both may
  contain, and the marks of copied addresses do not name the tenant.
\<close>

lemma configurations_with_one_key:
  "let s = \<lparr>gw_name = ''c'', gw_tenant = ''a-b'', gw_mcpServers = None, gw_tools = None,
        gw_prompts = None, gw_servers = None, gw_routers = None, gw_createdAt = [], gw_updatedAt = []\<rparr>
   in ro_key (row_view s) = ro_key (row_view (s\<lparr>gw_name := ''b-c'', gw_tenant := ''a''\<rparr>))"
  by (simp add: row_view_def list_key_def)

lemma mark_ignores_tenant:
  "address_views pl (gw_name server) i r = address_views pl (gw_name (server\<lparr>gw_tenant := t\<rparr>)) i r"
  by simp

text \<open>
  A finding: the dialog with the tools lists the enabled tools of the first server only, while the
  row that opens it counts those of all servers.
\<close>

lemma tools_dialog_shows_first_server:
  "let sc = (\<lambda>n ts. \<lparr>srv_name = n, srv_description = [], srv_allowedTools = Some ts, srv_config = None\<rparr>);
       s = \<lparr>gw_name = ''g'', gw_tenant = ''t'', gw_mcpServers = None, gw_tools = None, gw_prompts = None,
         gw_servers = Some [sc ''a'' [''x''], sc ''b'' [''y'', ''z'']], gw_routers = None,
         gw_createdAt = [], gw_updatedAt = []\<rparr>;
       d = open_tools_modal s (initial_details False)
   in ro_enabledTools (row_view s) = 3
      \<and> map_option tm_enabledTools (tools_modal d) = Some [''x'']"
  by code_simp

end
