(* ===== verification/Build_Scripts.thy ===== *)
theory Build_Scripts
  imports Js_Prelude
begin

text \<open>
  The two scripts that replace the icon component in the sources of the dashboard,
  \<open>src/web/scripts/batch-replace.js\<close> and \<open>replace-iconify.js\<close>. The files are a map from paths; what the
  scripts log is not modelled. The lemmas show when a replacement brings up no new match, that a second
  run does nothing, and where the imports lead that are written.
\<close>

section \<open>Regular expressions without choice\<close>

text \<open>
  The expressions of the two scripts are sequences of characters, \<open>\s*\<close>, \<open>\s+\<close>, a choice of
  characters and an optional character, and no item that follows white space begins with white
  space. So the greedy reading is the only one and nothing is ever taken back. The first item is
  always a character. \<open>match_items\<close> answers the text behind the match.
\<close>

datatype re_item = Lit char | OneOf "char list" | Spaces0 | Spaces1 | Maybe char

fun match_items :: "re_item list \<Rightarrow> string \<Rightarrow> string option" where
  "match_items [] s = Some s"
| "match_items (Lit c # js) s =
     (case s of [] \<Rightarrow> None | d # r \<Rightarrow> if d = c then match_items js r else None)"
| "match_items (OneOf cs # js) s =
     (case s of [] \<Rightarrow> None | d # r \<Rightarrow> if d \<in> set cs then match_items js r else None)"
| "match_items (Spaces0 # js) s = match_items js (dropWhile js_ws s)"
| "match_items (Spaces1 # js) s =
     (case s of [] \<Rightarrow> None | d # r \<Rightarrow> if js_ws d then match_items js (dropWhile js_ws r) else None)"
| "match_items (Maybe c # js) s =
     (case s of [] \<Rightarrow> match_items js s | d # r \<Rightarrow> if d = c then match_items js r else match_items js s)"

lemma match_items_suffix: "match_items js s = Some r \<Longrightarrow> \<exists>m. s = m @ r"
proof (induction js s rule: match_items.induct)
  case (4 js s)
  then obtain m where "dropWhile js_ws s = m @ r" by auto
  then have "s = (takeWhile js_ws s @ m) @ r" by (metis append_assoc takeWhile_dropWhile_id)
  then show ?case by blast
next
  case (5 js s)
  then obtain d u where s: "s = d # u" "js_ws d" "match_items js (dropWhile js_ws u) = Some r"
    by (auto split: list.splits if_splits)
  with 5 obtain m where "dropWhile js_ws u = m @ r" by blast
  then have "s = (d # takeWhile js_ws u @ m) @ r" using s by (metis append_Cons append_assoc takeWhile_dropWhile_id)
  then show ?case by blast
qed (auto split: list.splits if_splits intro: Cons_eq_appendI)

lemma match_items_shorter: "match_items js s = Some r \<Longrightarrow> length r \<le> length s"
  using match_items_suffix by fastforce

text \<open>\<open>s.match(/.../g)\<close> and \<open>/.../g.test(s)\<close> of a new expression, as conditions.\<close>

fun found :: "char \<Rightarrow> re_item list \<Rightarrow> string \<Rightarrow> bool" where
  "found c js [] = False"
| "found c js (d # s) = (match_items (Lit c # js) (d # s) \<noteq> None \<or> found c js s)"

text \<open>\<open>s.replace(/.../g, rep)\<close>: the leftmost match, then the text behind it.\<close>

function replace_all :: "char \<Rightarrow> re_item list \<Rightarrow> string \<Rightarrow> string \<Rightarrow> string" where
  "replace_all c js rep [] = []"
| "replace_all c js rep (d # s) =
     (if d = c
      then case match_items js s of
             Some r \<Rightarrow> rep @ replace_all c js rep r
           | None \<Rightarrow> d # replace_all c js rep s
      else d # replace_all c js rep s)"
  by pat_completeness auto
termination
  by (relation "measure (\<lambda>(c, js, rep, s). length s)") (auto dest: match_items_shorter)

definition literal :: "string \<Rightarrow> re_item list" where
  "literal = map Lit"

text \<open>\<open>importRegex\<close> behind its first character, \<open>iconRegex\<close> and \<open>iconUsageRegex\<close>.\<close>

definition importRegex :: "re_item list" where
  "importRegex = literal ''mport'' @ [Spaces1, Lit (CHR ''{''), Spaces0] @ literal ''Icon''
     @ [Spaces0, Lit (CHR ''}''), Spaces1] @ literal ''from'' @ [Spaces1, OneOf [CHR 0x27, CHR 0x22]]
     @ literal ''@iconify/react'' @ [OneOf [CHR 0x27, CHR 0x22], Maybe (CHR '';''), Maybe (CHR 0x0A)]"

definition iconRegex :: "re_item list" where
  "iconRegex = literal ''Icon'' @ [Spaces1]"

definition iconUsageRegex :: "re_item list" where
  "iconUsageRegex = literal ''Icon'' @ [Spaces1] @ literal ''icon=''"

section \<open>The files\<close>

text \<open>What reading and writing a path does: a file may refuse either.\<close>

datatype disk_file = Text string | Read_only string | Unreadable

type_synonym disk = "string \<Rightarrow> disk_file option"

text \<open>
  The common frame of both \<open>replaceInFile\<close>: \<open>edit\<close> answers the new text and whether it counts as a
  change, or nothing when it throws. Any exception is caught.
\<close>

definition edit_file :: "(string \<Rightarrow> (string \<times> bool) option) \<Rightarrow> string \<Rightarrow> disk \<Rightarrow> disk \<times> bool" where
  "edit_file edit path disk =
     (case disk path of
        Some (Text content) \<Rightarrow>
          (case edit content of
             Some (content', True) \<Rightarrow> (disk(path \<mapsto> Text content'), True)
           | _ \<Rightarrow> (disk, False))
      | _ \<Rightarrow> (disk, False))"

fun edit_files :: "('f \<Rightarrow> disk \<Rightarrow> disk \<times> bool) \<Rightarrow> 'f list \<Rightarrow> disk \<Rightarrow> disk \<times> nat" where
  "edit_files step [] disk = (disk, 0)"
| "edit_files step (f # fs) disk =
     (case step f disk of (disk1, changed) \<Rightarrow>
      case edit_files step fs disk1 of (disk2, updatedCount) \<Rightarrow>
        (disk2, (if changed then Suc updatedCount else updatedCount)))"

section \<open>batch-replace.js\<close>

record file_info =
  fi_path :: string
  fi_depth :: nat

definition batch_files :: "file_info list" where
  "batch_files = map (\<lambda>(p, d). \<lparr>fi_path = p, fi_depth = d\<rparr>)
     [(''src/pages/auth/login.tsx'', 3),
      (''src/components/LanguageSwitcher.tsx'', 1),
      (''src/pages/users/user-management.tsx'', 3),
      (''src/pages/users/tenant-management.tsx'', 3),
      (''src/components/ChangePasswordDialog.tsx'', 1),
      (''src/components/ui/MultiSelectAutocomplete.tsx'', 2),
      (''src/components/Layout.tsx'', 1),
      (''src/pages/gateway/gateway-manager.tsx'', 3),
      (''src/pages/chat/chat-interface.tsx'', 3),
      (''src/pages/gateway/components/RouterConfig.tsx'', 4),
      (''src/pages/chat/components/chat-history.tsx'', 4),
      (''src/pages/gateway/components/MCPServersConfig.tsx'', 4),
      (''src/pages/gateway/components/ToolsConfig.tsx'', 4),
      (''src/pages/gateway/components/ServersConfig.tsx'', 4),
      (''src/pages/gateway/config-versions.tsx'', 3),
      (''src/pages/gateway/components/OpenAPIImport.tsx'', 4),
      (''src/pages/chat/components/chat-message.tsx'', 4)]"

definition relativePath :: "nat \<Rightarrow> string" where
  "relativePath depth = concat (replicate depth ''../'') @ ''components/LocalIcon''"

definition import_line :: "string \<Rightarrow> string" where
  "import_line path = ''import LocalIcon from '' @ [CHR 0x27] @ path @ [CHR 0x27, CHR '';'', CHR 0x0A]"

definition batch_edit :: "nat \<Rightarrow> string \<Rightarrow> (string \<times> bool) option" where
  "batch_edit depth content =
     (let imported = found (CHR ''i'') importRegex content;
          content1 = (if imported
            then replace_all (CHR ''i'') importRegex (import_line (relativePath depth)) content else content);
          used = found (CHR ''<'') iconRegex content1;
          content2 = (if used then replace_all (CHR ''<'') iconRegex ''<LocalIcon '' content1 else content1)
      in Some (content2, imported \<or> used))"

text \<open>The paths of the list are taken below the directory of the dashboard; a file that does not
  exist is reported and left.\<close>

definition batch_replaceInFile :: "file_info \<Rightarrow> disk \<Rightarrow> disk \<times> bool" where
  "batch_replaceInFile fi disk = edit_file (batch_edit (fi_depth fi)) (fi_path fi) disk"

definition batch_step :: "file_info \<Rightarrow> disk \<Rightarrow> disk \<times> bool" where
  "batch_step fi disk =
     (if str_includes (fi_path fi) ''LanguageSwitcher.tsx'' then (disk, False)
      else batch_replaceInFile fi disk)"

definition batch_main :: "disk \<Rightarrow> disk \<times> nat" where
  "batch_main disk = edit_files batch_step batch_files disk"

section \<open>replace-iconify.js\<close>

definition filesToReplace :: "string list" where
  "filesToReplace =
     [''pages/auth/login.tsx'',
      ''components/LanguageSwitcher.tsx'',
      ''pages/users/user-management.tsx'',
      ''pages/users/tenant-management.tsx'',
      ''components/ChangePasswordDialog.tsx'',
      ''components/ui/MultiSelectAutocomplete.tsx'',
      ''components/Layout.tsx'',
      ''pages/gateway/gateway-manager.tsx'',
      ''pages/chat/chat-interface.tsx'',
      ''pages/gateway/components/RouterConfig.tsx'',
      ''pages/chat/components/chat-history.tsx'',
      ''pages/gateway/components/MCPServersConfig.tsx'',
      ''pages/gateway/components/ToolsConfig.tsx'',
      ''pages/gateway/components/ServersConfig.tsx'',
      ''pages/gateway/config-versions.tsx'',
      ''pages/gateway/components/OpenAPIImport.tsx'',
      ''pages/chat/components/chat-message.tsx'']"

text \<open>\<open>'../'.repeat(levels)\<close> throws for a negative count.\<close>

definition iconify_levels :: "string \<Rightarrow> string \<Rightarrow> int" where
  "iconify_levels srcDir filePath =
     int (length (split_on (CHR ''/'') filePath)) - int (length (split_on (CHR ''/'') srcDir)) - 1"

definition iconify_edit :: "string \<Rightarrow> string \<Rightarrow> string \<Rightarrow> (string \<times> bool) option" where
  "iconify_edit srcDir filePath content =
     (let imported = found (CHR ''i'') importRegex content;
          content1 = (if imported
            then replace_all (CHR ''i'') importRegex (import_line ''../../../components/LocalIcon'') content
            else content);
          levels = iconify_levels srcDir filePath
      in if levels < 0 then None
         else
           let content2 = replace_all (CHR ''i'') importRegex (import_line (relativePath (nat levels))) content1;
               used = found (CHR ''<'') iconUsageRegex content2;
               content3 = (if used
                 then replace_all (CHR ''<'') iconUsageRegex ''<LocalIcon icon='' content2 else content2)
           in Some (content3, imported \<or> used))"

definition iconify_replaceInFile :: "string \<Rightarrow> string \<Rightarrow> disk \<Rightarrow> disk \<times> bool" where
  "iconify_replaceInFile srcDir f disk =
     (let fullPath = srcDir @ ''/'' @ f in edit_file (iconify_edit srcDir fullPath) fullPath disk)"

definition iconify_main :: "string \<Rightarrow> disk \<Rightarrow> disk \<times> nat" where
  "iconify_main srcDir disk = edit_files (iconify_replaceInFile srcDir) filesToReplace disk"

section \<open>What a replacement leaves\<close>

text \<open>
  A replacement can bring up a match only where a pattern could go on into the inserted text. Two
  characters of that text are enough to refuse it: \<open>refuses\<close> says that a pattern fails on every
  text beginning with them, \<open>foreign\<close> that every rest of the pattern does or succeeds on anything.
\<close>

fun all_optional :: "re_item list \<Rightarrow> bool" where
  "all_optional [] = True"
| "all_optional (Maybe c # js) = all_optional js"
| "all_optional (j # js) = False"

fun refuses :: "char \<Rightarrow> char \<Rightarrow> re_item list \<Rightarrow> bool" where
  "refuses a b [] = False"
| "refuses a b (Lit c # js) = (c \<noteq> a \<or> (case js of Lit c' # _ \<Rightarrow> c' \<noteq> b | _ \<Rightarrow> False))"
| "refuses a b (OneOf cs # js) = (a \<notin> set cs)"
| "refuses a b (Spaces0 # js) = (\<not> js_ws a \<and> refuses a b js)"
| "refuses a b (Spaces1 # js) = (\<not> js_ws a)"
| "refuses a b (Maybe c # js) = (c \<noteq> a \<and> refuses a b js)"

fun foreign :: "char \<Rightarrow> char \<Rightarrow> re_item list \<Rightarrow> bool" where
  "foreign a b [] = True"
| "foreign a b (j # js) = ((refuses a b (j # js) \<or> all_optional (j # js)) \<and> foreign a b js)"

lemma refuses_match: "refuses a b js \<Longrightarrow> match_items js (a # b # z) = None"
  by (induction a b js rule: refuses.induct) (auto split: list.splits re_item.splits)

lemma all_optional_match: "all_optional js \<Longrightarrow> match_items js s \<noteq> None"
  by (induction js arbitrary: s rule: all_optional.induct) (auto split: list.splits)

lemma foreign_all: "foreign a b js \<Longrightarrow> js = [] \<or> refuses a b js \<or> all_optional js"
  by (cases js) auto

lemma replace_all_inserted:
  "replace_all c is rep t = t \<or> (\<exists>z. replace_all c is rep t = rep @ z)
   \<or> (\<exists>d u. t = d # u \<and> replace_all c is rep t = d # replace_all c is rep u)"
  by (cases t) (auto split: option.splits)

lemma dropWhile_replace_all:
  assumes "\<not> js_ws c" "\<not> js_ws a"
  shows "dropWhile js_ws (replace_all c is (a # rep) t) = replace_all c is (a # rep) (dropWhile js_ws t)"
  using assms by (induction t) (auto split: option.splits)

lemma foreign_match:
  assumes "\<not> js_ws c" "\<not> js_ws a"
  shows "foreign a b js \<Longrightarrow> match_items js (replace_all c is (a # b # rep) t) \<noteq> None
    \<Longrightarrow> match_items js t \<noteq> None"
proof (induction js arbitrary: t)
  case (Cons j js)
  let ?out = "replace_all c is (a # b # rep)"
  note dw = dropWhile_replace_all [OF assms, of "is" "b # rep"]
  show ?case
  proof (cases "all_optional (j # js)")
    case True
    then show ?thesis by (rule all_optional_match)
  next
    case False
    with Cons.prems(1) have no: "\<And>z. match_items (j # js) (a # b # z) = None"
      using refuses_match by (metis foreign.simps(2))
    have "?out t = t \<or> (\<exists>d u. t = d # u \<and> ?out t = d # ?out u)"
      using replace_all_inserted [of c "is" "a # b # rep" t] no Cons.prems(2) by fastforce
    then show ?thesis
    proof
      assume "?out t = t"
      with Cons.prems(2) show ?thesis by simp
    next
      assume "\<exists>d u. t = d # u \<and> ?out t = d # ?out u"
      then obtain d u where t: "t = d # u" "?out t = d # ?out u" by blast
      have IH: "\<And>t. match_items js (?out t) \<noteq> None \<Longrightarrow> match_items js t \<noteq> None"
        using Cons.IH Cons.prems(1) by simp
      show ?thesis
      proof (cases j)
        case (Maybe x)
        with Cons.prems(2) t IH [of u] IH [of t] show ?thesis by (auto split: if_splits)
      next
        case Spaces0
        with Cons.prems(2) IH [of "dropWhile js_ws t"] dw [of t] show ?thesis by simp
      next
        case Spaces1
        with Cons.prems(2) t IH [of "dropWhile js_ws u"] dw [of u] show ?thesis by (auto split: if_splits)
      qed (use Cons.prems(2) t IH [of u] in \<open>auto split: if_splits\<close>)
    qed
  qed
qed simp

lemma found_append: "c \<notin> set p \<Longrightarrow> found c js (p @ s) = found c js s"
  by (induction p) auto

lemma found_suffix: "\<not> found c js (m @ r) \<Longrightarrow> \<not> found c js r"
  by (induction m) auto

text \<open>
  The two laws: nothing of the replaced pattern is left, and a pattern that did not occur does not
  occur afterwards.
\<close>

lemma replaced_none_left:
  assumes "\<not> js_ws c" "\<not> js_ws a" "foreign a b js"
    "\<And>z. found c js (b # rep @ z) = found c js z" "\<And>z. match_items (Lit c # js) (a # b # rep @ z) = None"
  shows "\<not> found c js (replace_all c js (a # b # rep) t)"
proof (induction t rule: length_induct)
  case (1 t)
  let ?out = "replace_all c js (a # b # rep)"
  show ?case
  proof (cases t)
    case (Cons d u)
    show ?thesis
    proof (cases "d = c \<and> match_items js u \<noteq> None")
      case True
      then obtain r where r: "d = c" "match_items js u = Some r" by auto
      with match_items_shorter [OF r(2)] Cons 1 have "\<not> found c js (?out r)" by simp
      with assms(4) [of "?out r"] have "\<not> found c js (b # rep @ ?out r)" by simp
      moreover have "?out t = a # b # rep @ ?out r" using Cons r by simp
      ultimately show ?thesis using assms(5) [of "?out r"] by simp
    next
      case False
      then have out: "?out t = d # ?out u" using Cons by (auto split: option.splits)
      have "match_items (Lit c # js) (d # ?out u) = None"
        using False foreign_match [OF assms(1-3), of js rep u] by (cases "match_items js (?out u)") auto
      with out 1 Cons show ?thesis by simp
    qed
  qed simp
qed

lemma replaced_none_new:
  assumes "\<not> js_ws c" "\<not> js_ws a" "foreign a b js"
    "\<And>z. found c' js (b # rep @ z) = found c' js z" "\<And>z. match_items (Lit c' # js) (a # b # rep @ z) = None"
  shows "\<not> found c' js t \<Longrightarrow> \<not> found c' js (replace_all c is (a # b # rep) t)"
proof (induction t rule: length_induct)
  case (1 t)
  let ?out = "replace_all c is (a # b # rep)"
  show ?case
  proof (cases t)
    case (Cons d u)
    show ?thesis
    proof (cases "d = c \<and> match_items is u \<noteq> None")
      case True
      then obtain r where r: "d = c" "match_items is u = Some r" by auto
      obtain m where "u = m @ r" using match_items_suffix [OF r(2)] by blast
      with 1(2) Cons found_suffix [of c' js "d # m" r] have "\<not> found c' js r" by simp
      with match_items_shorter [OF r(2)] Cons 1(1) have "\<not> found c' js (?out r)" by simp
      with assms(4) [of "?out r"] have "\<not> found c' js (b # rep @ ?out r)" by simp
      moreover have "?out t = a # b # rep @ ?out r" using Cons r by simp
      ultimately show ?thesis using assms(5) [of "?out r"] by simp
    next
      case False
      then have out: "?out t = d # ?out u" using Cons by (auto split: option.splits)
      have "match_items (Lit c' # js) (d # ?out u) = None"
        using 1(2) Cons foreign_match [OF assms(1-3), of "is" rep u]
        by (cases "match_items js (?out u)") (auto split: if_splits)
      with out 1 Cons show ?thesis by simp
    qed
  qed simp
qed

lemma replace_all_none: "\<not> found c js t \<Longrightarrow> replace_all c js rep t = t"
  by (induction t) (auto split: option.splits)


text \<open>The replacements of the scripts meet the conditions.\<close>

lemmas re_defs = importRegex_def iconRegex_def iconUsageRegex_def literal_def

lemma pattern_letters: "\<not> js_ws (CHR ''i'')" "\<not> js_ws (CHR ''<'')"
  by (simp_all add: js_ws_def)

lemma import_foreign:
  "foreign (CHR ''i'') (CHR ''m'') importRegex" "foreign (CHR ''<'') (CHR ''L'') importRegex"
  by (simp_all add: re_defs js_ws_def)

lemma icon_foreign:
  "foreign (CHR ''i'') (CHR ''m'') iconRegex" "foreign (CHR ''<'') (CHR ''L'') iconRegex"
  "foreign (CHR ''i'') (CHR ''m'') iconUsageRegex" "foreign (CHR ''<'') (CHR ''L'') iconUsageRegex"
  by (simp_all add: re_defs js_ws_def)

lemma import_line_shape:
  "import_line p = CHR ''i'' # CHR ''m'' # ''port LocalIcon from '' @ [CHR 0x27] @ p @ [CHR 0x27, CHR '';'', CHR 0x0A]"
  by (simp add: import_line_def)

lemma import_line_refused: "match_items (Lit (CHR ''i'') # importRegex) (CHR ''i'' # CHR ''m'' # ''port LocalIcon'' @ z) = None"
  by (simp add: re_defs js_ws_def)

lemma relativePath_letters: "set (relativePath depth) \<subseteq> set ''../components/LocalIcon''"
  by (auto simp: relativePath_def)

lemma import_replaced:
  assumes "CHR ''i'' \<notin> set p"
  shows "\<not> found (CHR ''i'') importRegex (replace_all (CHR ''i'') importRegex (import_line p) t)"
  unfolding import_line_shape
proof (rule replaced_none_left [OF pattern_letters(1,1) import_foreign(1)])
  fix z
  let ?rep = "CHR ''m'' # ''port LocalIcon from '' @ [CHR 0x27] @ p @ [CHR 0x27, CHR '';'', CHR 0x0A]"
  have "CHR ''i'' \<notin> set ?rep" using assms by simp
  from found_append [OF this, of importRegex z]
  show "found (CHR ''i'') importRegex (CHR ''m'' # (''port LocalIcon from '' @ [CHR 0x27] @ p @ [CHR 0x27, CHR '';'', CHR 0x0A]) @ z)
      = found (CHR ''i'') importRegex z" by simp
  show "match_items (Lit (CHR ''i'') # importRegex)
      (CHR ''i'' # CHR ''m'' # (''port LocalIcon from '' @ [CHR 0x27] @ p @ [CHR 0x27, CHR '';'', CHR 0x0A]) @ z) = None"
    using import_line_refused [of "'' from '' @ [CHR 0x27] @ p @ [CHR 0x27, CHR '';'', CHR 0x0A] @ z"] by simp
qed

lemma relativePath_no_i: "CHR ''i'' \<notin> set (relativePath depth)"
  using relativePath_letters [of depth] by auto

lemma icon_replaced: "\<not> found (CHR ''<'') iconRegex (replace_all (CHR ''<'') iconRegex ''<LocalIcon '' t)"
  by (rule replaced_none_left [OF pattern_letters(2,2) icon_foreign(2)]) (simp_all add: re_defs)

lemma usage_replaced:
  "\<not> found (CHR ''<'') iconUsageRegex (replace_all (CHR ''<'') iconUsageRegex ''<LocalIcon icon='' t)"
  by (rule replaced_none_left [OF pattern_letters(2,2) icon_foreign(4)]) (simp_all add: re_defs)

lemma icon_keeps_imports:
  "\<not> found (CHR ''i'') importRegex t
   \<Longrightarrow> \<not> found (CHR ''i'') importRegex (replace_all (CHR ''<'') is ''<LocalIcon '' t)"
  by (rule replaced_none_new [OF pattern_letters(2,2) import_foreign(2)]) (simp_all add: re_defs)

lemma usage_keeps_imports:
  "\<not> found (CHR ''i'') importRegex t
   \<Longrightarrow> \<not> found (CHR ''i'') importRegex (replace_all (CHR ''<'') is ''<LocalIcon icon='' t)"
  by (rule replaced_none_new [OF pattern_letters(2,2) import_foreign(2)]) (simp_all add: re_defs)

section \<open>Running a script again\<close>

text \<open>
  A script that edits a list of files settles when a text it has changed is changed by none of its
  edits: then a second run finds nothing to do.
\<close>

definition settled :: "(string \<Rightarrow> (string \<times> bool) option) \<Rightarrow> disk_file option \<Rightarrow> bool" where
  "settled edit entry =
     (case entry of
        Some (Text content) \<Rightarrow> (case edit content of Some (_, True) \<Rightarrow> False | _ \<Rightarrow> True)
      | _ \<Rightarrow> True)"

lemma edit_file_settled: "settled edit (disk path) \<Longrightarrow> edit_file edit path disk = (disk, False)"
  by (auto simp: settled_def edit_file_def split: option.splits disk_file.splits bool.splits)

lemma edit_file_cases:
  obtains "edit_file edit path disk = (disk, False)"
  | c c' where "disk path = Some (Text c)" "edit c = Some (c', True)"
      "edit_file edit path disk = (disk(path \<mapsto> Text c'), True)"
proof (cases "settled edit (disk path)")
  case True
  then show ?thesis by (intro that(1) edit_file_settled)
next
  case False
  then obtain c c' where "disk path = Some (Text c)" "edit c = Some (c', True)"
    by (auto simp: settled_def split: option.splits disk_file.splits bool.splits)
  then show ?thesis by (intro that(2)) (simp_all add: edit_file_def)
qed

locale settling_script =
  fixes path_of :: "'f \<Rightarrow> string"
    and edit_of :: "'f \<Rightarrow> string \<Rightarrow> (string \<times> bool) option"
    and step :: "'f \<Rightarrow> disk \<Rightarrow> disk \<times> bool"
  assumes step: "step f disk = edit_file (edit_of f) (path_of f) disk"
    and settles: "edit_of f c = Some (c', True) \<Longrightarrow> settled (edit_of g) (Some (Text c'))"
begin

lemma step_settles: "settled (edit_of f) (fst (step f disk) (path_of f))"
proof (cases rule: edit_file_cases [of "edit_of f" "path_of f" disk])
  case 1
  then have "settled (edit_of f) (disk (path_of f))"
    by (auto simp: settled_def edit_file_def split: option.splits disk_file.splits bool.splits)
  with 1 show ?thesis by (simp add: step)
next
  case (2 c c')
  with settles show ?thesis by (simp add: step)
qed

lemma step_keeps_settled:
  "settled (edit_of g) (disk (path_of g)) \<Longrightarrow> settled (edit_of g) (fst (step f disk) (path_of g))"
proof (cases rule: edit_file_cases [of "edit_of f" "path_of f" disk])
  case (2 c c')
  assume "settled (edit_of g) (disk (path_of g))"
  with 2 settles show ?thesis by (simp add: step)
qed (simp add: step)

lemma run_keeps_settled:
  "settled (edit_of g) (disk (path_of g))
   \<Longrightarrow> settled (edit_of g) (fst (edit_files step fs disk) (path_of g))"
proof (induction fs arbitrary: disk)
  case (Cons f fs)
  have "settled (edit_of g) (fst (step f disk) (path_of g))"
    using Cons.prems by (rule step_keeps_settled)
  then show ?case using Cons.IH [of "fst (step f disk)"] by (auto split: prod.split)
qed simp

lemma run_settles: "g \<in> set fs \<Longrightarrow> settled (edit_of g) (fst (edit_files step fs disk) (path_of g))"
proof (induction fs arbitrary: disk)
  case (Cons f fs)
  obtain disk1 b where s: "step f disk = (disk1, b)" by (cases "step f disk")
  obtain disk2 n where r: "edit_files step fs disk1 = (disk2, n)" by (cases "edit_files step fs disk1")
  have "settled (edit_of g) (fst (edit_files step fs disk1) (path_of g))"
  proof (cases "g = f")
    case True
    with step_settles [of f disk] s show ?thesis by (intro run_keeps_settled) simp
  next
    case False
    with Cons show ?thesis by simp
  qed
  with s r show ?case by simp
qed simp

lemma settled_run: "(\<And>g. g \<in> set fs \<Longrightarrow> settled (edit_of g) (disk (path_of g)))
    \<Longrightarrow> edit_files step fs disk = (disk, 0)"
  by (induction fs) (simp_all add: step edit_file_settled)

lemma second_run:
  "edit_files step fs (fst (edit_files step fs disk)) = (fst (edit_files step fs disk), 0)"
  by (rule settled_run) (rule run_settles)

end

definition batch_edit_of :: "file_info \<Rightarrow> string \<Rightarrow> (string \<times> bool) option" where
  "batch_edit_of fi = (if str_includes (fi_path fi) ''LanguageSwitcher.tsx'' then (\<lambda>_. None)
     else batch_edit (fi_depth fi))"

lemma batch_step_edit: "batch_step fi disk = edit_file (batch_edit_of fi) (fi_path fi) disk"
  by (auto simp: batch_step_def batch_replaceInFile_def batch_edit_of_def edit_file_def
      split: option.splits disk_file.splits)

lemma batch_edit_result:
  assumes "batch_edit depth c = Some (c', b)"
  shows "\<not> found (CHR ''i'') importRegex c' \<and> \<not> found (CHR ''<'') iconRegex c'"
proof -
  let ?c1 = "replace_all (CHR ''i'') importRegex (import_line (relativePath depth)) c"
  let ?c2 = "replace_all (CHR ''<'') iconRegex ''<LocalIcon '' ?c1"
  have "c' = ?c2" using assms replace_all_none by (auto simp: batch_edit_def Let_def split: if_splits)
  then show ?thesis using icon_keeps_imports [OF import_replaced [OF relativePath_no_i]] icon_replaced by simp
qed

lemma batch_settles: "batch_edit_of f c = Some (c', True) \<Longrightarrow> settled (batch_edit_of g) (Some (Text c'))"
  using batch_edit_result [of "fi_depth f" c c' True]
  by (auto simp: batch_edit_of_def settled_def batch_edit_def Let_def split: if_splits)

interpretation br: settling_script fi_path batch_edit_of batch_step
  by unfold_locales (rule batch_step_edit, rule batch_settles)

lemma iconify_edit_result:
  assumes "iconify_edit srcDir path c = Some (c', b)"
  shows "\<not> found (CHR ''i'') importRegex c' \<and> \<not> found (CHR ''<'') iconUsageRegex c'"
proof -
  let ?c1 = "replace_all (CHR ''i'') importRegex (import_line ''../../../components/LocalIcon'') c"
  let ?c2 = "replace_all (CHR ''<'') iconUsageRegex ''<LocalIcon icon='' ?c1"
  have c1: "\<not> found (CHR ''i'') importRegex ?c1" by (rule import_replaced) simp
  then have "c' = ?c2" using assms replace_all_none
    by (auto simp: iconify_edit_def Let_def split: if_splits)
  then show ?thesis using usage_keeps_imports [OF c1] usage_replaced by simp
qed

lemma iconify_settles:
  "iconify_edit srcDir (srcDir @ ''/'' @ f) c = Some (c', True)
   \<Longrightarrow> settled (iconify_edit srcDir (srcDir @ ''/'' @ g)) (Some (Text c'))"
  using iconify_edit_result [of srcDir "srcDir @ ''/'' @ f" c c' True]
  by (auto simp: settled_def iconify_edit_def replace_all_none Let_def)

interpretation ri: settling_script "\<lambda>f. srcDir @ ''/'' @ f" "\<lambda>f. iconify_edit srcDir (srcDir @ ''/'' @ f)"
    "iconify_replaceInFile srcDir" for srcDir
  by unfold_locales (simp add: iconify_replaceInFile_def Let_def, rule iconify_settles)

text \<open>
  Property C34. Running either replacement script a second time does nothing: it changes no file and
  counts none, whatever the files hold and whichever of them cannot be read or written.
\<close>

theorem replacing_icons_settles:
  "batch_main (fst (batch_main disk)) = (fst (batch_main disk), 0)
   \<and> iconify_main srcDir (fst (iconify_main srcDir disk)) = (fst (iconify_main srcDir disk), 0)"
  unfolding batch_main_def iconify_main_def using br.second_run ri.second_run by blast


section \<open>Where the written imports lead\<close>

text \<open>The module a relative specifier names, from the file that imports it.\<close>

definition resolve_import :: "string \<Rightarrow> string \<Rightarrow> string list" where
  "resolve_import importer specifier =
     fold (\<lambda>seg dir. if seg = ''..'' then butlast dir else dir @ [seg]) (split_on (CHR ''/'') specifier)
       (butlast (split_on (CHR ''/'') importer))"

definition iconify_import :: string where
  "iconify_import = ''import { Icon } from '' @ [CHR 0x27] @ ''@iconify/react'' @ [CHR 0x27, CHR '';'', CHR 0x0A]"

lemma replace_import_statement:
  "replace_all (CHR ''i'') importRegex rep (iconify_import @ t) = rep @ replace_all (CHR ''i'') importRegex rep t"
  by (simp add: re_defs iconify_import_def js_ws_def)

lemma replace_all_skips: "c \<notin> set p \<Longrightarrow> replace_all c js rep (p @ s) = p @ replace_all c js rep s"
  by (induction p) auto

lemma found_import_statement: "found (CHR ''i'') importRegex (iconify_import @ t)"
  by (simp add: re_defs iconify_import_def js_ws_def)

lemma import_line_kept:
  assumes "CHR ''<'' \<notin> set p"
  shows "\<exists>rest. (if found (CHR ''<'') js (import_line p @ t)
      then replace_all (CHR ''<'') js rep (import_line p @ t) else import_line p @ t) = import_line p @ rest"
  using assms by (simp add: replace_all_skips import_line_def)

text \<open>
  The imports written for a file that began with the import of \<open>Icon\<close>. Those of \<open>batch-replace.js\<close>
  name the component for exactly the files under \<open>src/components\<close>: for every page the depth of the
  list is one too many. Those of \<open>replace-iconify.js\<close> are the same for every file and name the
  component for exactly the files three directories below \<open>src\<close>.
\<close>

theorem imports_of_pages_miss_the_component:
  "(\<exists>rest. batch_edit depth (iconify_import @ t) = Some (import_line (relativePath depth) @ rest, True))
   \<and> map fi_path (filter (\<lambda>fi. resolve_import (fi_path fi) (relativePath (fi_depth fi))
         = [''src'', ''components'', ''LocalIcon'']) batch_files)
     = filter (\<lambda>p. starts_with p ''src/components/'') (map fi_path batch_files)"
proof
  have "CHR ''<'' \<notin> set (relativePath depth)" using relativePath_letters [of depth] by auto
  from import_line_kept [OF this] obtain rest where
    "(if found (CHR ''<'') iconRegex (import_line (relativePath depth)
          @ replace_all (CHR ''i'') importRegex (import_line (relativePath depth)) t)
      then replace_all (CHR ''<'') iconRegex ''<LocalIcon '' (import_line (relativePath depth)
          @ replace_all (CHR ''i'') importRegex (import_line (relativePath depth)) t)
      else import_line (relativePath depth)
          @ replace_all (CHR ''i'') importRegex (import_line (relativePath depth)) t)
     = import_line (relativePath depth) @ rest" by blast
  then show "\<exists>rest. batch_edit depth (iconify_import @ t) = Some (import_line (relativePath depth) @ rest, True)"
    by (auto simp: batch_edit_def Let_def found_import_statement replace_import_statement split: if_splits)
  show "map fi_path (filter (\<lambda>fi. resolve_import (fi_path fi) (relativePath (fi_depth fi))
         = [''src'', ''components'', ''LocalIcon'']) batch_files)
     = filter (\<lambda>p. starts_with p ''src/components/'') (map fi_path batch_files)"
    by code_simp
qed

text \<open>The computation of \<open>levels\<close> that \<open>replace-iconify.js\<close> makes afterwards would name the
  component for every file of its list, but finds no import left to replace.\<close>

lemma iconify_import_is_constant:
  "(case iconify_edit srcDir path (iconify_import @ t) of
      Some (content, _) \<Rightarrow> \<exists>rest. content = import_line ''../../../components/LocalIcon'' @ rest
    | None \<Rightarrow> iconify_levels srcDir path < 0)"
proof -
  let ?p = "''../../../components/LocalIcon''"
  let ?r = "replace_all (CHR ''i'') importRegex (import_line ?p) t"
  have "\<not> found (CHR ''i'') importRegex (replace_all (CHR ''i'') importRegex (import_line ?p) (iconify_import @ t))"
    by (rule import_replaced) simp
  then have "\<not> found (CHR ''i'') importRegex (import_line ?p @ ?r)"
    unfolding replace_import_statement .
  note none = replace_all_none [OF this]
  obtain rest where "(if found (CHR ''<'') iconUsageRegex (import_line ?p @ ?r)
      then replace_all (CHR ''<'') iconUsageRegex ''<LocalIcon icon='' (import_line ?p @ ?r)
      else import_line ?p @ ?r) = import_line ?p @ rest"
    using import_line_kept [of ?p] by fastforce
  then show ?thesis
    unfolding iconify_edit_def Let_def
    by (auto simp: found_import_statement replace_import_statement none split: if_splits)
qed

lemma iconify_levels_would_do:
  "filter (\<lambda>f. resolve_import (''src/'' @ f) ''../../../components/LocalIcon''
        = [''src'', ''components'', ''LocalIcon'']) filesToReplace
     = filter (\<lambda>f. str_includes f ''/components/'') filesToReplace
   \<and> list_all (\<lambda>f. resolve_import (''src/'' @ f) (relativePath (nat (iconify_levels ''src'' (''src/'' @ f))))
        = [''src'', ''components'', ''LocalIcon'']) filesToReplace"
  by code_simp

end
