(* ===== verification/Optimize_Monaco.thy ===== *)
theory Optimize_Monaco
  imports Js_Prelude
begin

text \<open>
  \<open>src/web/scripts/optimize-monaco.js\<close>, which deletes the parts of the Monaco editor the dashboard does
  not use: the directory of the editor is a tree of sizes, and the script the deletions in their order
  with its account of the space they save, in bytes (the script prints it rounded). Links are not modelled,
  and neither is a deletion or a reading of sizes that the system denies, which would end the script.
\<close>

section \<open>Directories\<close>

text \<open>The number of a node is the size \<open>statSync\<close> answers for it.\<close>

datatype node = Plain nat | Folder nat "(string \<times> node) list"

fun node_at :: "string list \<Rightarrow> node \<Rightarrow> node option" where
  "node_at [] n = Some n"
| "node_at (p # ps) (Plain b) = None"
| "node_at (p # ps) (Folder b es) = (case map_of es p of None \<Rightarrow> None | Some n \<Rightarrow> node_at ps n)"

fun stat_size :: "node \<Rightarrow> nat" where
  "stat_size (Plain b) = b"
| "stat_size (Folder b es) = b"

text \<open>\<open>rmSync\<close> of a directory and \<open>unlinkSync\<close> of a file: the entry goes, with all below it.\<close>

fun drop_entry :: "string \<Rightarrow> (string \<times> node) list \<Rightarrow> (string \<times> node) list" where
  "drop_entry p [] = []"
| "drop_entry p ((q, n) # es) = (if q = p then es else (q, n) # drop_entry p es)"

fun update_entry :: "string \<Rightarrow> node \<Rightarrow> (string \<times> node) list \<Rightarrow> (string \<times> node) list" where
  "update_entry p n' [] = []"
| "update_entry p n' ((q, n) # es) = (if q = p then (q, n') # es else (q, n) # update_entry p n' es)"

fun remove_at :: "string list \<Rightarrow> node \<Rightarrow> node" where
  "remove_at [] n = n"
| "remove_at (p # ps) (Plain b) = Plain b"
| "remove_at (p # ps) (Folder b es) =
     (case map_of es p of
        None \<Rightarrow> Folder b es
      | Some n \<Rightarrow> if ps = [] then Folder b (drop_entry p es) else Folder b (update_entry p (remove_at ps n) es))"

section \<open>The script\<close>

definition keepFiles :: "string list list" where
  "keepFiles =
     [[''loader.js''],
      [''base'', ''worker'', ''workerMain.js''],
      [''editor'', ''editor.main.js''],
      [''editor'', ''editor.main.css''],
      [''basic-languages'', ''yaml'', ''yaml.js''],
      [''nls.messages.zh-cn.js'']]"

definition deleteDirs :: "string list list" where
  "deleteDirs =
     [[''language'', ''typescript''],
      [''language'', ''html''],
      [''language'', ''css''],
      [''language'', ''json'']]"

definition deleteLanguages :: "string list" where
  "deleteLanguages =
     [''nls.messages.de.js'',
      ''nls.messages.es.js'',
      ''nls.messages.fr.js'',
      ''nls.messages.it.js'',
      ''nls.messages.ja.js'',
      ''nls.messages.ko.js'',
      ''nls.messages.ru.js'',
      ''nls.messages.zh-tw.js'']"

definition basicLanguagesDir :: string where
  "basicLanguagesDir = ''basic-languages''"

definition keepBasicLanguages :: "string list" where
  "keepBasicLanguages = [''yaml'']"

text \<open>\<open>calculateSize\<close> adds up the files only.\<close>

fun calculateSize :: "node \<Rightarrow> nat" where
  "calculateSize (Plain b) = b"
| "calculateSize (Folder b es) = sum_list (map (\<lambda>(p, n). calculateSize n) es)"

text \<open>The directory of the editor may be missing.\<close>

definition exists_at :: "string list \<Rightarrow> node option \<Rightarrow> node option" where
  "exists_at path tree = (case tree of None \<Rightarrow> None | Some t \<Rightarrow> node_at path t)"

definition getDirectorySize :: "string list \<Rightarrow> node option \<Rightarrow> nat" where
  "getDirectorySize path tree = (case exists_at path tree of None \<Rightarrow> 0 | Some n \<Rightarrow> calculateSize n)"

definition deleteRecursive :: "string list \<Rightarrow> node option \<Rightarrow> node option" where
  "deleteRecursive path tree =
     (case exists_at path tree of None \<Rightarrow> tree | Some _ \<Rightarrow> map_option (remove_at path) tree)"

type_synonym progress = "node option \<times> nat"

definition delete_dir :: "string list \<Rightarrow> progress \<Rightarrow> progress" where
  "delete_dir dir = (\<lambda>(tree, savedSpace).
     if exists_at dir tree = None then (tree, savedSpace)
     else (deleteRecursive dir tree, savedSpace + getDirectorySize dir tree))"

definition delete_language :: "string \<Rightarrow> progress \<Rightarrow> progress" where
  "delete_language lang = (\<lambda>(tree, savedSpace).
     case exists_at [lang] tree of
       None \<Rightarrow> (tree, savedSpace)
     | Some n \<Rightarrow> (deleteRecursive [lang] tree, savedSpace + stat_size n))"

definition clean_language :: "string \<Rightarrow> progress \<Rightarrow> progress" where
  "clean_language lang = (\<lambda>(tree, savedSpace).
     if lang \<in> set keepBasicLanguages then (tree, savedSpace)
     else (deleteRecursive [basicLanguagesDir, lang] tree,
           savedSpace + getDirectorySize [basicLanguagesDir, lang] tree))"

text \<open>
  \<open>readdirSync\<close> of something that is not a directory throws, and the script ends there. Else it ends
  with the space saved and what remains.
\<close>

datatype outcome = Thrown "node option" | Optimized "node option" nat nat

definition optimizeMonaco :: "node option \<Rightarrow> outcome" where
  "optimizeMonaco vs =
     (let p1 = fold delete_dir deleteDirs (vs, 0);
          p2 = fold delete_language deleteLanguages p1
      in case exists_at [basicLanguagesDir] (fst p2) of
           Some (Plain b) \<Rightarrow> Thrown (fst p2)
         | Some (Folder b es) \<Rightarrow>
             (case fold clean_language (map fst es) p2 of
                (tree, savedSpace) \<Rightarrow> Optimized tree savedSpace (getDirectorySize [] tree))
         | None \<Rightarrow> Optimized (fst p2) (snd p2) (getDirectorySize [] (fst p2)))"

fun tree_left :: "outcome \<Rightarrow> node option" where
  "tree_left (Thrown tree) = tree"
| "tree_left (Optimized tree savedSpace remainingSize) = tree"

section \<open>Removing an entry\<close>

lemma drop_entry_size:
  "map_of es p = Some n \<Longrightarrow>
   sum_list (map (\<lambda>(p, n). calculateSize n) (drop_entry p es)) + calculateSize n
   = sum_list (map (\<lambda>(p, n). calculateSize n) es)"
  by (induction es) (auto split: if_splits)

lemma update_entry_size:
  "map_of es p = Some n \<Longrightarrow>
   sum_list (map (\<lambda>(p, n). calculateSize n) (update_entry p n' es)) + calculateSize n
   = sum_list (map (\<lambda>(p, n). calculateSize n) es) + calculateSize n'"
  by (induction es) (auto split: if_splits)

lemma remove_at_size:
  "path \<noteq> [] \<Longrightarrow> node_at path t = Some n \<Longrightarrow> calculateSize (remove_at path t) + calculateSize n = calculateSize t"
proof (induction path t arbitrary: n rule: remove_at.induct)
  case (3 p ps b es)
  then obtain m where m: "map_of es p = Some m" "node_at ps m = Some n" by (auto split: option.splits)
  show ?case
  proof (cases "ps = []")
    case True
    with m drop_entry_size [OF m(1)] show ?thesis by simp
  next
    case False
    with 3(1) m have "calculateSize (remove_at ps m) + calculateSize n = calculateSize m" by simp
    with m False update_entry_size [OF m(1), of "remove_at ps m"] show ?thesis by simp
  qed
qed simp_all

lemma map_of_drop_entry: "q \<noteq> p \<Longrightarrow> map_of (drop_entry p es) q = map_of es q"
  by (induction es) auto

lemma map_of_update_entry:
  "map_of (update_entry p n' es) q = (if q = p \<and> map_of es p \<noteq> None then Some n' else map_of es q)"
  by (induction es) auto

text \<open>A path that neither leads to the removed entry nor through it is found as before.\<close>

definition spares :: "string list \<Rightarrow> string list \<Rightarrow> bool" where
  "spares q path \<longleftrightarrow> take (length path) q \<noteq> path \<and> take (length q) path \<noteq> q"

lemma node_at_remove_at: "spares q path \<Longrightarrow> node_at q (remove_at path t) = node_at q t"
proof (induction path t arbitrary: q rule: remove_at.induct)
  case (3 p ps b es)
  then obtain r rs where q: "q = r # rs" by (cases q) (auto simp: spares_def)
  show ?case
  proof (cases "map_of es p")
    case (Some m)
    show ?thesis
    proof (cases "ps = []")
      case True
      with Some q 3 show ?thesis by (auto simp: map_of_drop_entry spares_def)
    next
      case False
      with 3(1) [OF Some False, of rs] 3(2-) q Some show ?thesis
        by (auto simp: map_of_update_entry spares_def)
    qed
  qed simp
qed (simp_all add: spares_def)

text \<open>Where names are unique, what is removed is gone, and nothing that was missing appears.\<close>

fun distinct_names :: "node \<Rightarrow> bool" where
  "distinct_names (Plain b) = True"
| "distinct_names (Folder b es) = (distinct (map fst es) \<and> list_all (\<lambda>(p, n). distinct_names n) es)"

lemma drop_entry_subset: "set (drop_entry p es) \<subseteq> set es"
  by (induction p es rule: drop_entry.induct) auto

lemma drop_entry_distinct: "distinct (map fst es) \<Longrightarrow> distinct (map fst (drop_entry p es))"
proof (induction p es rule: drop_entry.induct)
  case (2 p q n es)
  with drop_entry_subset [of p es] show ?case by auto
qed simp

lemma map_of_dropped: "distinct (map fst es) \<Longrightarrow> map_of (drop_entry p es) p = None"
  by (induction p es rule: drop_entry.induct) (auto simp: map_of_eq_None_iff)

lemma update_entry_names: "map fst (update_entry p n' es) = map fst es"
  by (induction es) auto

lemma update_entry_all:
  "list_all (\<lambda>(p, n). P n) es \<Longrightarrow> P n' \<Longrightarrow> list_all (\<lambda>(p, n). P n) (update_entry p n' es)"
  by (induction es) auto

lemma distinct_names_entry: "distinct_names (Folder b es) \<Longrightarrow> map_of es p = Some m \<Longrightarrow> distinct_names m"
  by (auto dest!: map_of_SomeD simp: list_all_iff)

lemma distinct_names_remove: "distinct_names t \<Longrightarrow> distinct_names (remove_at path t)"
proof (induction path t rule: remove_at.induct)
  case (3 p ps b es)
  show ?case
  proof (cases "map_of es p")
    case (Some m)
    show ?thesis
    proof (cases "ps = []")
      case True
      with 3 Some drop_entry_distinct [of es p] drop_entry_subset [of p es] show ?thesis
        by (auto simp: list_all_iff)
    next
      case False
      with 3 Some distinct_names_entry [OF 3(2) Some] show ?thesis
        by (simp add: update_entry_names update_entry_all)
    qed
  qed (use 3 in simp)
qed simp_all

lemma node_at_removed: "distinct_names t \<Longrightarrow> path \<noteq> [] \<Longrightarrow> node_at path (remove_at path t) = None"
proof (induction path t rule: remove_at.induct)
  case (3 p ps b es)
  show ?case
  proof (cases "map_of es p")
    case (Some m)
    show ?thesis
    proof (cases "ps = []")
      case True
      with 3 Some map_of_dropped [of es p] show ?thesis by simp
    next
      case False
      with 3 Some distinct_names_entry [OF 3(2) Some] show ?thesis
        by (simp add: map_of_update_entry)
    qed
  qed simp
qed simp_all

lemma missing_stays_missing:
  "distinct_names t \<Longrightarrow> node_at q t = None \<Longrightarrow> node_at q (remove_at path t) = None"
proof (induction path t arbitrary: q rule: remove_at.induct)
  case (3 p ps b es)
  then obtain r rs where q: "q = r # rs" by (cases q) auto
  show ?case
  proof (cases "map_of es p")
    case (Some m)
    show ?thesis
    proof (cases "ps = []")
      case True
      with Some q 3 map_of_dropped [of es p] map_of_drop_entry [of r p es] show ?thesis
        by (cases "r = p") (simp_all split: option.splits)
    next
      case False
      with 3(1) [OF Some False, of rs] 3(2-) q Some distinct_names_entry [OF 3(2) Some] show ?thesis
        by (cases "r = p") (simp_all add: map_of_update_entry split: option.splits)
    qed
  qed (use 3 in simp)
qed simp_all

section \<open>The steps of the script\<close>

lemma delete_spares: "spares q path \<Longrightarrow> exists_at q (deleteRecursive path tree) = exists_at q tree"
  by (auto simp: deleteRecursive_def exists_at_def node_at_remove_at split: option.splits)

lemma delete_size:
  "path \<noteq> [] \<Longrightarrow> getDirectorySize [] (deleteRecursive path tree) + getDirectorySize path tree
     = getDirectorySize [] tree"
  by (auto simp: getDirectorySize_def deleteRecursive_def exists_at_def remove_at_size split: option.splits)

text \<open>What is saved and what is left, together.\<close>

definition account :: "progress \<Rightarrow> nat" where
  "account p = snd p + getDirectorySize [] (fst p)"

lemma account_delete_dir: "dir \<noteq> [] \<Longrightarrow> account (delete_dir dir p) = account p"
  using delete_size [of dir "fst p"] by (cases p) (auto simp: account_def delete_dir_def)

lemma account_clean_language: "account (clean_language lang p) = account p"
  using delete_size [of "[basicLanguagesDir, lang]" "fst p"]
  by (cases p) (auto simp: account_def clean_language_def)

definition no_folder :: "string list \<Rightarrow> node option \<Rightarrow> bool" where
  "no_folder path tree = (case exists_at path tree of Some (Folder b es) \<Rightarrow> False | _ \<Rightarrow> True)"

lemma account_delete_language:
  assumes "no_folder [lang] (fst p)"
  shows "account (delete_language lang p) = account p"
proof (cases "exists_at [lang] (fst p)")
  case (Some n)
  with assms obtain b where "n = Plain b" by (cases n) (auto simp: no_folder_def)
  with Some delete_size [of "[lang]" "fst p"] show ?thesis
    by (cases p) (auto simp: account_def delete_language_def getDirectorySize_def)
qed (auto simp: account_def delete_language_def split: prod.splits)

lemma account_dirs: "[] \<notin> set dirs \<Longrightarrow> account (fold delete_dir dirs p) = account p"
  by (induction dirs arbitrary: p) (auto simp: account_delete_dir)

lemma account_clean: "account (fold clean_language langs p) = account p"
  by (induction langs arbitrary: p) (simp_all add: account_clean_language)

text \<open>Each step leaves the tree alone or deletes its path.\<close>

lemma step_tree:
  "fst (delete_dir dir p) = deleteRecursive dir (fst p)"
  "fst (delete_language lang p) = deleteRecursive [lang] (fst p)"
  "fst (clean_language lang p)
   = (if lang \<in> set keepBasicLanguages then fst p else deleteRecursive [basicLanguagesDir, lang] (fst p))"
  by (cases p, simp add: delete_dir_def deleteRecursive_def,
      cases p, simp add: delete_language_def deleteRecursive_def split: option.split,
      cases p, simp add: clean_language_def)

definition deleted :: "string list list \<Rightarrow> node option \<Rightarrow> node option" where
  "deleted paths tree = fold deleteRecursive paths tree"

lemma fold_tree:
  "fst (fold delete_dir dirs p) = deleted dirs (fst p)"
  "fst (fold delete_language langs p) = deleted (map (\<lambda>l. [l]) langs) (fst p)"
  "fst (fold clean_language names p)
   = deleted (map (\<lambda>l. [basicLanguagesDir, l]) (filter (\<lambda>l. l \<notin> set keepBasicLanguages) names)) (fst p)"
  by (induction dirs arbitrary: p, simp_all add: deleted_def step_tree,
      induction langs arbitrary: p, simp_all add: step_tree,
      induction names arbitrary: p, simp_all add: step_tree)

lemma deleted_spares: "(\<And>path. path \<in> set paths \<Longrightarrow> spares q path) \<Longrightarrow> exists_at q (deleted paths tree) = exists_at q tree"
  unfolding deleted_def by (induction paths arbitrary: tree) (simp_all add: delete_spares)

lemma no_folder_spared:
  "(\<And>path. path \<in> set paths \<Longrightarrow> spares q path) \<Longrightarrow> no_folder q (deleted paths tree) = no_folder q tree"
  by (simp add: no_folder_def deleted_spares)

lemma account_languages:
  "distinct langs \<Longrightarrow> list_all (\<lambda>l. no_folder [l] (fst p)) langs
   \<Longrightarrow> account (fold delete_language langs p) = account p"
proof (induction langs arbitrary: p)
  case (Cons l langs)
  have "no_folder [m] (fst (delete_language l p)) = no_folder [m] (fst p)" if "m \<in> set langs" for m
    using that Cons.prems(1) no_folder_spared [of "[[l]]" "[m]" "fst p"]
    by (auto simp: step_tree deleted_def spares_def)
  with Cons.prems have "list_all (\<lambda>m. no_folder [m] (fst (delete_language l p))) langs"
    by (simp add: list_all_iff)
  with Cons show ?case by (simp add: account_delete_language)
qed simp


section \<open>What the script does\<close>

text \<open>The paths it deletes: the two lists, then what it reads in the directory of the languages.\<close>

definition listed :: "string list list" where
  "listed = deleteDirs @ map (\<lambda>l. [l]) deleteLanguages"

definition found_languages :: "node option \<Rightarrow> string list" where
  "found_languages tree = (case exists_at [basicLanguagesDir] tree of
      Some (Folder b es) \<Rightarrow> filter (\<lambda>l. l \<notin> set keepBasicLanguages) (map fst es) | _ \<Rightarrow> [])"

lemma listed_spares_languages: "path \<in> set listed \<Longrightarrow> spares [basicLanguagesDir] path"
  by (auto simp: listed_def deleteDirs_def deleteLanguages_def basicLanguagesDir_def spares_def)

lemma listed_dirs_spare_packs:
  "l \<in> set deleteLanguages \<Longrightarrow> path \<in> set deleteDirs \<Longrightarrow> spares [l] path"
  by (auto simp: deleteDirs_def deleteLanguages_def spares_def)

lemma deleted_append: "deleted (a @ b) tree = deleted b (deleted a tree)"
  by (simp add: deleted_def)

lemma tree_left_listed:
  "tree_left (optimizeMonaco vs)
   = deleted (listed @ map (\<lambda>l. [basicLanguagesDir, l]) (found_languages vs)) vs"
proof -
  let ?p = "fold delete_language deleteLanguages (fold delete_dir deleteDirs (vs, 0))"
  have tree: "fst ?p = deleted listed vs" by (simp add: fold_tree listed_def deleted_append)
  have same: "exists_at [basicLanguagesDir] (fst ?p) = exists_at [basicLanguagesDir] vs"
    unfolding tree by (rule deleted_spares) (rule listed_spares_languages)
  show ?thesis
  proof (cases "exists_at [basicLanguagesDir] vs")
    case None
    with same tree show ?thesis
      by (simp add: optimizeMonaco_def Let_def found_languages_def)
  next
    case (Some n)
    show ?thesis
    proof (cases n)
      case (Plain b)
      with Some same tree show ?thesis by (simp add: optimizeMonaco_def Let_def found_languages_def)
    next
      case (Folder b es)
      let ?q = "fold clean_language (map fst es) ?p"
      have "optimizeMonaco vs = Optimized (fst ?q) (snd ?q) (getDirectorySize [] (fst ?q))"
        using Some Folder same by (simp add: optimizeMonaco_def Let_def split: prod.split)
      moreover have "fst ?q = deleted (map (\<lambda>l. [basicLanguagesDir, l]) (found_languages vs)) (fst ?p)"
        using Some Folder by (simp add: fold_tree found_languages_def)
      ultimately show ?thesis by (simp add: tree deleted_append)
    qed
  qed
qed

text \<open>
  The files named as needed survive: whatever the directory of the editor holds, each of
  them is found after the script exactly as before, although nothing in the script reads that list.
\<close>

theorem needed_files_survive:
  "list_all (\<lambda>f. exists_at f (tree_left (optimizeMonaco vs)) = exists_at f vs) keepFiles"
proof -
  have "exists_at f (tree_left (optimizeMonaco vs)) = exists_at f vs" if f: "f \<in> set keepFiles" for f
    unfolding tree_left_listed
  proof (rule deleted_spares)
    fix path
    assume "path \<in> set (listed @ map (\<lambda>l. [basicLanguagesDir, l]) (found_languages vs))"
    then consider "path \<in> set listed" | l where "path = [basicLanguagesDir, l]" "l \<notin> set keepBasicLanguages"
      by (auto simp: found_languages_def split: option.splits node.splits)
    then show "spares f path"
    proof cases
      case 1
      with f show ?thesis
        by (auto simp: listed_def deleteDirs_def deleteLanguages_def keepFiles_def spares_def)
    next
      case 2
      with f show ?thesis
        by (auto simp: keepFiles_def basicLanguagesDir_def keepBasicLanguages_def spares_def)
    qed
  qed
  then show ?thesis by (simp add: list_all_iff)
qed

text \<open>
  Where nothing is denied the account is exact: when no language pack is a directory, the bytes counted
  as saved and as left add up to those before, and the script stops early only where the directory of
  the languages is a file.
\<close>

theorem space_is_accounted_for:
  assumes "list_all (\<lambda>l. no_folder [l] vs) deleteLanguages"
  shows "case optimizeMonaco vs of
      Optimized tree savedSpace remainingSize \<Rightarrow>
        savedSpace + remainingSize = getDirectorySize [] vs \<and> remainingSize = getDirectorySize [] tree
    | Thrown tree \<Rightarrow> (\<exists>b. exists_at [basicLanguagesDir] vs = Some (Plain b))"
proof -
  let ?d = "fold delete_dir deleteDirs (vs, 0)"
  let ?p = "fold delete_language deleteLanguages ?d"
  have "list_all (\<lambda>l. no_folder [l] (fst ?d)) deleteLanguages"
    using assms no_folder_spared [of deleteDirs] listed_dirs_spare_packs
    by (simp add: list_all_iff fold_tree)
  moreover have "distinct deleteLanguages" by (simp add: deleteLanguages_def)
  ultimately have "account ?p = account ?d" by (intro account_languages)
  also have "\<dots> = account (vs, 0)" by (rule account_dirs) (simp add: deleteDirs_def)
  finally have acc: "account ?p = getDirectorySize [] vs" by (simp add: account_def)
  have "exists_at [basicLanguagesDir] (fst ?p) = exists_at [basicLanguagesDir] (deleted listed vs)"
    by (simp add: fold_tree listed_def deleted_append)
  also have "\<dots> = exists_at [basicLanguagesDir] vs"
    by (rule deleted_spares) (rule listed_spares_languages)
  finally have same: "exists_at [basicLanguagesDir] (fst ?p) = exists_at [basicLanguagesDir] vs" .
  show ?thesis
  proof (cases "exists_at [basicLanguagesDir] vs")
    case None
    with same acc show ?thesis by (simp add: optimizeMonaco_def Let_def account_def)
  next
    case (Some n)
    show ?thesis
    proof (cases n)
      case (Plain b)
      with Some same show ?thesis by (simp add: optimizeMonaco_def Let_def)
    next
      case (Folder b es)
      have "account (fold clean_language (map fst es) ?p) = getDirectorySize [] vs"
        using acc account_clean by simp
      moreover obtain tree savedSpace where "fold clean_language (map fst es) ?p = (tree, savedSpace)" by fastforce
      ultimately show ?thesis
        using Some Folder same by (simp add: optimizeMonaco_def Let_def account_def)
    qed
  qed
qed

definition small_editor :: node where
  "small_editor = Folder 4096
     [(''loader.js'', Plain 30),
      (''language'', Folder 4096 [(''typescript'', Folder 4096 [(''tsWorker.js'', Plain 5000)])]),
      (''nls.messages.de.js'', Plain 200),
      (''basic-languages'', Folder 4096
         [(''yaml'', Folder 4096 [(''yaml.js'', Plain 40)]), (''abap'', Folder 4096 [(''abap.js'', Plain 60)])])]"

theorem space_is_accounted_for_witness:
  "list_all (\<lambda>l. no_folder [l] (Some small_editor)) deleteLanguages
   \<and> (case optimizeMonaco (Some small_editor) of
        Optimized tree savedSpace remainingSize \<Rightarrow>
          savedSpace + remainingSize = getDirectorySize [] (Some small_editor)
          \<and> remainingSize = getDirectorySize [] tree
      | Thrown tree \<Rightarrow> (\<exists>b. exists_at [basicLanguagesDir] (Some small_editor) = Some (Plain b)))"
proof -
  have "list_all (\<lambda>l. no_folder [l] (Some small_editor)) deleteLanguages"
    by (simp add: small_editor_def deleteLanguages_def no_folder_def exists_at_def)
  with space_is_accounted_for [of "Some small_editor"] show ?thesis by blast
qed

text \<open>
  Where names are unique, all that is listed is gone afterwards, and of the languages only the one to
  keep is left.
\<close>

lemma node_at_below:
  "node_at [p, q] t = (case node_at [p] t of Some (Folder b es) \<Rightarrow> map_of es q | _ \<Rightarrow> None)"
  by (cases t) (auto split: option.splits node.splits)

lemma deleted_is_gone:
  assumes "distinct_names t" "[] \<notin> set paths"
  shows "\<exists>t'. deleted paths (Some t) = Some t' \<and> distinct_names t'
    \<and> list_all (\<lambda>q. node_at q t' = None) paths \<and> (\<forall>q. node_at q t = None \<longrightarrow> node_at q t' = None)"
  using assms
proof (induction paths arbitrary: t)
  case (Cons path paths)
  obtain t1 where t1: "deleteRecursive path (Some t) = Some t1" "distinct_names t1"
    "node_at path t1 = None" "\<forall>q. node_at q t = None \<longrightarrow> node_at q t1 = None"
  proof (cases "node_at path t")
    case None
    with Cons.prems show ?thesis by (intro that [of t]) (simp_all add: deleteRecursive_def exists_at_def)
  next
    case (Some n)
    have "path \<noteq> []" using Cons.prems(2) by auto
    with Some Cons.prems show ?thesis
      by (intro that [of "remove_at path t"])
         (simp_all add: deleteRecursive_def exists_at_def distinct_names_remove node_at_removed
            missing_stays_missing)
  qed
  with Cons obtain t' where "deleted paths (Some t1) = Some t'" "distinct_names t'"
    "list_all (\<lambda>q. node_at q t' = None) paths" "\<forall>q. node_at q t1 = None \<longrightarrow> node_at q t' = None"
    by fastforce
  with t1 show ?case by (intro exI [of _ t']) (simp add: deleted_def)
qed (simp add: deleted_def)

theorem unused_parts_are_gone:
  assumes "distinct_names t"
  shows "list_all (\<lambda>q. exists_at q (tree_left (optimizeMonaco (Some t))) = None) listed
    \<and> list_all (\<lambda>l. l \<in> set keepBasicLanguages
        \<or> exists_at [basicLanguagesDir, l] (tree_left (optimizeMonaco (Some t))) = None) langs"
proof -
  let ?paths = "listed @ map (\<lambda>l. [basicLanguagesDir, l]) (found_languages (Some t))"
  have "[] \<notin> set ?paths" by (auto simp: listed_def deleteDirs_def)
  from deleted_is_gone [OF assms this] obtain t' where t': "deleted ?paths (Some t) = Some t'"
    "list_all (\<lambda>q. node_at q t' = None) ?paths" "\<forall>q. node_at q t = None \<longrightarrow> node_at q t' = None"
    by blast
  have "node_at [basicLanguagesDir, l] t' = None" if "l \<notin> set keepBasicLanguages" for l
  proof (cases "l \<in> set (found_languages (Some t))")
    case True
    with t'(2) show ?thesis by (auto simp: list_all_iff)
  next
    case False
    with that have "node_at [basicLanguagesDir, l] t = None"
      unfolding node_at_below
      by (simp add: found_languages_def exists_at_def del: node_at.simps split: option.splits node.splits)
         (force simp: map_of_eq_None_iff)
    with t'(3) show ?thesis by simp
  qed
  then have "list_all (\<lambda>l. l \<in> set keepBasicLanguages \<or> node_at [basicLanguagesDir, l] t' = None) langs"
    unfolding list_all_iff by metis
  with t'(1,2) show ?thesis unfolding tree_left_listed t'(1) by (simp add: exists_at_def)
qed

end
