(* ===== verification/Json_Roundtrip.thy ===== *)
theory Json_Roundtrip
  imports Capabilities
begin

text \<open>
  What \<open>JSON.stringify\<close> prints, with or without indentation, \<open>JSON.parse\<close> reads back. The texts of a
  value are described by a grammar that allows white space wherever JSON does; both printers write
  texts of the grammar, and the parser reads every one of them. The last section applies this to the
  files the capabilities page exports.
\<close>

section \<open>Values as they are read back\<close>

text \<open>Objects list their members in the order of the language.\<close>

fun ordered :: "json \<Rightarrow> json" where
  "ordered (JArr xs) = JArr (map ordered xs)"
| "ordered (JObj fs) = JObj (own_entries (map (\<lambda>e. (fst e, ordered (snd e))) fs))"
| "ordered j = j"

text \<open>The values of the language: keys are unique, and a number with a fraction is written as one.\<close>

fun wf_json :: "json \<Rightarrow> bool" where
  "wf_json (JDec d) = (parse_number d = Some (JDec d, []))"
| "wf_json (JArr xs) = list_all wf_json xs"
| "wf_json (JObj fs) = (wf_obj fs \<and> list_all (\<lambda>e. wf_json (snd e)) fs)"
| "wf_json j = True"

section \<open>The grammar\<close>

definition blank :: "string \<Rightarrow> bool" where
  "blank s = list_all json_ws s"

inductive value_text :: "json \<Rightarrow> string \<Rightarrow> bool"
  and elems_text :: "json list \<Rightarrow> string \<Rightarrow> bool"
  and members_text :: "(string \<times> json) list \<Rightarrow> string \<Rightarrow> bool" where
  null_text: "value_text JNull ''null''"
| true_text: "value_text (JBool True) ''true''"
| false_text: "value_text (JBool False) ''false''"
| int_text: "value_text (JInt n) (int_str n)"
| dec_text: "parse_number d = Some (JDec d, []) \<Longrightarrow> value_text (JDec d) d"
| str_text: "value_text (JStr s) (quote s)"
| no_elems: "value_text (JArr []) ''[]''"
| some_elems: "elems_text xs s \<Longrightarrow> value_text (JArr xs) (CHR ''['' # s)"
| no_members: "value_text (JObj []) ''{}''"
| some_members: "members_text ms s \<Longrightarrow> distinct (map fst ms) \<Longrightarrow> value_text (JObj ms) (CHR ''{'' # s)"
| last_elem: "value_text x s \<Longrightarrow> blank a \<Longrightarrow> blank b \<Longrightarrow> elems_text [x] (a @ s @ b @ '']'')"
| more_elems: "value_text x s \<Longrightarrow> elems_text xs t \<Longrightarrow> blank a \<Longrightarrow> blank b \<Longrightarrow>
    elems_text (x # xs) (a @ s @ b @ CHR '','' # t)"
| last_member: "value_text x s \<Longrightarrow> blank a \<Longrightarrow> blank b \<Longrightarrow> blank c \<Longrightarrow> blank d \<Longrightarrow>
    members_text [(k, x)] (a @ quote k @ b @ CHR '':'' # c @ s @ d @ ''}'')"
| more_members: "value_text x s \<Longrightarrow> members_text ms t \<Longrightarrow> blank a \<Longrightarrow> blank b \<Longrightarrow> blank c \<Longrightarrow> blank d \<Longrightarrow>
    members_text ((k, x) # ms) (a @ quote k @ b @ CHR '':'' # c @ s @ d @ CHR '','' # t)"

section \<open>Numbers\<close>

text \<open>What may follow a value.\<close>

definition ends :: "string \<Rightarrow> bool" where
  "ends r = (case r of [] \<Rightarrow> True | c # _ \<Rightarrow> json_ws c \<or> c \<in> set '',]}'')"

lemma ends_simps [simp]:
  "ends []" "ends (CHR '','' # r)" "ends (CHR '']'' # r)" "ends (CHR ''}'' # r)"
  "json_ws c \<Longrightarrow> ends (c # r)"
  by (simp_all add: ends_def)

lemma ends_no_digit: "ends (c # r) \<Longrightarrow> \<not> is_digit c \<and> c \<notin> set ''.eE+-''"
  by (auto simp: ends_def json_ws_def is_digit_def)

lemma ends_blank: "blank b \<Longrightarrow> ends r \<Longrightarrow> ends (b @ r)"
  by (cases b) (auto simp: blank_def)

lemma takeWhile_ends:
  assumes "ends r" "\<And>c. P c \<Longrightarrow> is_digit c \<or> c \<in> set ''.eE+-''"
  shows "takeWhile P (s @ r) = takeWhile P s" "dropWhile P (s @ r) = dropWhile P s @ r"
proof -
  have "r = [] \<or> \<not> P (hd r)" using assms ends_no_digit by (cases r) auto
  then show "takeWhile P (s @ r) = takeWhile P s" "dropWhile P (s @ r) = dropWhile P s @ r"
    by (induction s) (auto simp: takeWhile_eq_Nil_iff dropWhile_eq_self_iff)
qed

lemma digits_ends:
  assumes "ends r"
  shows "takeWhile is_digit (s @ r) = takeWhile is_digit s" "dropWhile is_digit (s @ r) = dropWhile is_digit s @ r"
  by (rule takeWhile_ends [OF assms]; simp)+

lemma take_frac_append: "ends r \<Longrightarrow> take_frac (s @ r) = map_option (\<lambda>(f, t). (f, t @ r)) (take_frac s)"
proof (cases s)
  case Nil
  moreover assume "ends r"
  ultimately show ?thesis by (cases r) (auto simp: take_frac_def dest: ends_no_digit)
qed (auto simp: take_frac_def Let_def digits_ends)

lemma sign_append:
  assumes "ends r"
  shows "takeWhile (\<lambda>x. x = CHR ''+'' \<or> x = CHR ''-'') (take 1 (s @ r))
    = takeWhile (\<lambda>x. x = CHR ''+'' \<or> x = CHR ''-'') (take 1 s)"
proof (cases s)
  case Nil
  with ends_no_digit [of "hd r" "tl r"] assms show ?thesis by (cases r) auto
qed simp

lemma take_exp_append: "ends r \<Longrightarrow> take_exp (s @ r) = map_option (\<lambda>(f, t). (f, t @ r)) (take_exp s)"
proof (cases s)
  case Nil
  moreover assume "ends r"
  ultimately show ?thesis by (cases r) (auto simp: take_exp_def dest: ends_no_digit)
next
  case (Cons c cs)
  assume r: "ends r"
  let ?sg = "takeWhile (\<lambda>x. x = CHR ''+'' \<or> x = CHR ''-'') (take 1 cs)"
  have "length ?sg \<le> length cs" by (cases cs) auto
  then have rest: "drop (length ?sg) (cs @ r) = drop (length ?sg) cs @ r" by simp
  show ?thesis
    unfolding Cons take_exp_def append_Cons list.case Let_def sign_append [OF r] rest digits_ends [OF r]
    by simp
qed

lemma parse_number_append:
  assumes "ends r" "s \<noteq> []"
  shows "parse_number (s @ r) = map_option (\<lambda>(j, t). (j, t @ r)) (parse_number s)"
proof -
  let ?sg = "takeWhile (\<lambda>x. x = CHR ''-'') (take 1 s)"
  have sg: "takeWhile (\<lambda>x. x = CHR ''-'') (take 1 (s @ r)) = ?sg" using assms(2) by (cases s) auto
  have "length ?sg \<le> length s" using assms(2) by (cases s) auto
  then have s1: "drop (length ?sg) (s @ r) = drop (length ?sg) s @ r" by simp
  show ?thesis
    unfolding parse_number_def Let_def sg s1 digits_ends [OF assms(1)] take_frac_append [OF assms(1)]
    by (auto simp: take_exp_append [OF assms(1)] split: option.split)
qed

lemma takeWhile_all: "list_all P s \<Longrightarrow> takeWhile P s = s" "list_all P s \<Longrightarrow> dropWhile P s = []"
  by (induction s) auto

lemma nat_str_hd: "hd (nat_str n) = CHR ''0'' \<Longrightarrow> n = 0"
proof (induction n rule: nat_str.induct)
  case (1 n)
  show ?case
  proof (cases "n < 10")
    case True
    with 1(2) have "digit_char n = CHR ''0''" by (subst (asm) nat_str.simps) simp
    with True digit_val_char [of n] show ?thesis by (simp add: digit_val_def)
  next
    case False
    with 1(2) have "hd (nat_str (n div 10)) = CHR ''0''"
      by (subst (asm) nat_str.simps) (simp add: hd_append)
    with 1(1) False have "n div 10 = 0" by simp
    with False show ?thesis by simp
  qed
qed

lemma nat_str_zero: "nat_str 0 = ''0''"
  by code_simp

lemma nat_str_leading: "\<not> (length (nat_str n) > 1 \<and> hd (nat_str n) = CHR ''0'')"
  using nat_str_hd [of n] nat_str_zero by (cases "n = 0") auto

lemma parse_nat_str: "parse_number (nat_str n) = Some (JInt (int n), [])"
proof -
  have d: "list_all is_digit (nat_str n)" by (rule nat_str_digits)
  obtain c cs where c: "nat_str n = c # cs" by (cases "nat_str n") auto
  with d have "c \<noteq> CHR ''-''" by (auto simp: is_digit_def)
  then show ?thesis
    using c takeWhile_all [OF d] str_nat_nat_str [of n] nat_str_leading [of n]
    by (auto simp: parse_number_def Let_def take_frac_def take_exp_def)
qed

lemma parse_int_str: "parse_number (int_str n) = Some (JInt n, [])"
proof (cases "n < 0")
  case True
  let ?s = "nat_str (nat (- n))"
  have d: "list_all is_digit ?s" by (rule nat_str_digits)
  from True nat_str_leading [of "nat (- n)"] show ?thesis
    by (simp add: int_str_def parse_number_def Let_def take_frac_def take_exp_def takeWhile_all [OF d]
        del: takeWhile_eq_all_conv)
next
  case False
  then show ?thesis by (simp add: int_str_def parse_nat_str)
qed

section \<open>Strings\<close>

lemma hex_val_digit: "d < 16 \<Longrightarrow> hex_val (hex_digit d) = Some d"
  by (auto simp: hex_val_def hex_digit_def Let_def of_char_of)

lemma char_of_code: "of_char c = (n::nat) \<Longrightarrow> char_of n = c"
  by auto

lemma quote_mark_code: "(of_char c :: nat) = 34 \<Longrightarrow> c = CHR 0x22"
proof -
  have "char_of (34::nat) = CHR 0x22" by code_simp
  then show "c = CHR 0x22" if "(of_char c :: nat) = 34" using char_of_code [OF that] by simp
qed

lemma take_quoted_char: "take_char (quote_char c @ t) = Some (c, t)"
proof -
  let ?n = "of_char c :: nat"
  consider "?n \<in> {34, 92, 8, 9, 10, 12, 13}" | "?n < 32" "?n \<notin> {8, 9, 10, 12, 13}"
    | "32 \<le> ?n" "?n \<noteq> 34" "?n \<noteq> 92" by fastforce
  then show ?thesis
  proof cases
    case 1
    then show ?thesis
      by (auto simp: quote_char_def take_char_def simple_escape_def Let_def of_char_of char_of_code
          dest: quote_mark_code)
  next
    case 2
    have "char_of (16 * (?n div 16) + ?n mod 16) = c" by (intro char_of_code) simp
    with 2 hex_val_digit [of "?n div 16"] hex_val_digit [of "?n mod 16"] show ?thesis
      by (simp add: quote_char_def take_char_def unicode_escape_def Let_def of_char_of hex_val_def)
  next
    case 3
    then show ?thesis by (simp add: quote_char_def take_char_def Let_def)
  qed
qed

lemma quote_char_hd: "\<exists>d ds. quote_char c = d # ds \<and> d \<noteq> CHR 0x22"
proof -
  have "char_of (92::nat) \<noteq> CHR 0x22" by code_simp
  then show ?thesis using quote_mark_code by (auto simp: quote_char_def Let_def)
qed

lemma parse_quoted: "parse_chars (concat (map quote_char s) @ CHR 0x22 # r) = Some (s, r)"
proof (induction s)
  case Nil
  show ?case by (simp add: parse_chars.simps)
next
  case (Cons c s)
  obtain d ds where d: "quote_char c = d # ds" "d \<noteq> CHR 0x22" using quote_char_hd by blast
  have "take_char (d # ds @ concat (map quote_char s) @ CHR 0x22 # r)
      = Some (c, concat (map quote_char s) @ CHR 0x22 # r)"
    using take_quoted_char [of c "concat (map quote_char s) @ CHR 0x22 # r"] d by simp
  with d Cons show ?case by (subst parse_chars.simps) simp
qed

lemma quote_app: "quote s @ r = CHR 0x22 # concat (map quote_char s) @ CHR 0x22 # r"
  by (simp add: quote_def)

section \<open>Every text of the grammar is read\<close>

lemma skip_blank: "blank a \<Longrightarrow> skip_ws (a @ s) = skip_ws s"
  by (induction a) (auto simp: blank_def skip_ws_def)

lemma skip_none: "\<not> json_ws c \<Longrightarrow> skip_ws (c # s) = c # s"
  by (simp add: skip_ws_def)

lemma skip_quote: "skip_ws (quote s @ r) = quote s @ r"
  by (simp add: quote_app skip_none json_ws_def)

lemma parse_skips: "blank a \<Longrightarrow> 0 < n \<Longrightarrow> parse_value n (a @ s) = parse_value n s"
  by (cases n) (simp_all add: skip_blank)

text \<open>A value begins with no white space and not with the end of an array.\<close>

definition starts :: "string \<Rightarrow> bool" where
  "starts s = (case s of [] \<Rightarrow> False | c # _ \<Rightarrow> \<not> json_ws c \<and> c \<noteq> CHR '']'')"

lemma starts_app: "starts s \<Longrightarrow> starts (s @ r)"
  by (cases s) (auto simp: starts_def)

lemma starts_skip: "starts s \<Longrightarrow> skip_ws s = s"
  by (cases s) (auto simp: starts_def skip_none)

lemma number_start: "parse_number s = Some (j, r) \<Longrightarrow> \<exists>c cs. s = c # cs \<and> (c = CHR ''-'' \<or> is_digit c)"
  by (cases s) (auto simp: parse_number_def Let_def split: if_splits)

lemma number_letter:
  "c = CHR ''-'' \<or> is_digit c \<Longrightarrow> \<not> json_ws c \<and> c \<notin> set ''{}[],:tfn'' \<and> c \<noteq> CHR 0x22"
  by (auto simp: json_ws_def is_digit_def)

lemma parse_number_value:
  assumes "parse_number s = Some (j, [])" "ends r" "0 < n"
  shows "parse_value n (s @ r) = Some (j, r)"
proof -
  obtain c cs where c: "s = c # cs" "c = CHR ''-'' \<or> is_digit c" using number_start [OF assms(1)] by blast
  from parse_number_append [of r s] assms(1,2) c(1) have "parse_number (c # cs @ r) = Some (j, r)" by simp
  with c number_letter [OF c(2)] assms(3) show ?thesis
    by (cases n) (auto simp: skip_none simp del: parse_elems.simps parse_members.simps)
qed

lemma number_starts: "parse_number s = Some (j, r) \<Longrightarrow> starts s"
proof -
  assume "parse_number s = Some (j, r)"
  then obtain c cs where c: "s = c # cs" "c = CHR ''-'' \<or> is_digit c" using number_start by blast
  from number_letter [OF c(2)] c(1) show ?thesis by (simp add: starts_def)
qed

lemma letter_starts [simp]: "starts (CHR ''['' # s)" "starts (CHR ''{'' # s)" "starts (quote k)"
  by (simp_all add: starts_def json_ws_def quote_def)

lemma value_starts: "value_text j s \<Longrightarrow> starts s"
  by (erule value_text.cases)
     (simp_all add: number_starts [OF parse_int_str] number_starts, simp_all add: starts_def json_ws_def)

lemma elems_shape: "elems_text xs s \<Longrightarrow> \<exists>a t. s = a @ t \<and> blank a \<and> starts t"
  by (erule elems_text.cases) (metis starts_app value_starts)+

lemma members_shape: "members_text ms s \<Longrightarrow> \<exists>a t. s = a @ CHR 0x22 # t \<and> blank a"
  by (erule members_text.cases) (metis quote_app)+

lemma fold_distinct:
  "distinct (map fst (acc @ ms)) \<Longrightarrow> foldl (\<lambda>m e. obj_set m (fst e) (snd e)) acc ms = acc @ ms"
proof (induction ms arbitrary: acc)
  case (Cons e ms)
  have "k \<notin> fst ` set acc \<Longrightarrow> obj_set acc k v = acc @ [(k, v)]" for k :: string and v :: 'a
    by (induction acc k v rule: obj_set.induct) auto
  with Cons show ?case by simp
qed simp

lemma parse_texts:
  "value_text j s \<Longrightarrow> (\<And>r n. ends r \<Longrightarrow> 2 * length (s @ r) < n \<Longrightarrow> parse_value n (s @ r) = Some (j, r))"
  "elems_text xs s \<Longrightarrow> (\<And>r n. 2 * length (s @ r) + 1 < n \<Longrightarrow> parse_elems n (s @ r) = Some (xs, r))"
  "members_text ms s \<Longrightarrow> (\<And>r n. 2 * length (s @ r) + 1 < n \<Longrightarrow> parse_members n (s @ r) = Some (ms, r))"
proof (induction rule: value_text_elems_text_members_text.inducts)
  case null_text
  then show ?case by (cases n) (simp_all add: skip_none json_ws_def literal_def starts_with_def)
next
  case true_text
  then show ?case by (cases n) (simp_all add: skip_none json_ws_def literal_def starts_with_def)
next
  case false_text
  then show ?case by (cases n) (simp_all add: skip_none json_ws_def literal_def starts_with_def)
next
  case (int_text i)
  then show ?case by (intro parse_number_value parse_int_str) auto
next
  case (dec_text d)
  then show ?case by (intro parse_number_value) auto
next
  case (str_text s)
  then show ?case by (cases n) (simp_all add: quote_app skip_none json_ws_def parse_quoted)
next
  case no_elems
  then show ?case by (cases n) (simp_all add: skip_none json_ws_def starts_with_def)
next
  case (some_elems xs s)
  obtain a t where s: "s = a @ t" "blank a" "starts t" using elems_shape [OF some_elems(1)] by blast
  then have "skip_ws (s @ r) = t @ r" by (simp add: skip_blank starts_skip starts_app)
  moreover have "\<not> starts_with (t @ r) '']''" using s(3) by (cases t) (auto simp: starts_def starts_with_def)
  moreover obtain m where "n = Suc m" using some_elems.prems by (cases n) auto
  moreover have "parse_elems m (s @ r) = Some (xs, r)" if "n = Suc m" for m
    using some_elems that by (intro some_elems.IH) simp
  ultimately show ?case by (simp add: skip_none json_ws_def del: parse_elems.simps)
next
  case no_members
  then show ?case by (cases n) (simp_all add: skip_none json_ws_def starts_with_def)
next
  case (some_members ms s)
  obtain a t where s: "s = a @ CHR 0x22 # t" "blank a" using members_shape [OF some_members(1)] by blast
  then have "skip_ws (s @ r) = CHR 0x22 # t @ r" by (simp add: skip_blank skip_none json_ws_def)
  moreover obtain m where "n = Suc m" using some_members.prems by (cases n) auto
  moreover have "parse_members m (s @ r) = Some (ms, r)" if "n = Suc m" for m
    using some_members that by (intro some_members.IH) simp
  ultimately show ?case using fold_distinct [of "[]" ms] some_members(2)
    by (simp add: skip_none json_ws_def starts_with_def del: parse_members.simps)
next
  case (last_elem x s a b)
  obtain m where m: "n = Suc m" "0 < m" using last_elem.prems by (cases n) auto
  have "parse_value m (s @ b @ CHR '']'' # r) = Some (x, b @ CHR '']'' # r)"
    using last_elem m by (intro last_elem.IH) (simp_all add: ends_blank)
  with m last_elem(2,3) show ?case
    by (simp add: parse_skips skip_blank skip_none json_ws_def del: parse_value.simps)
next
  case (more_elems x s xs t a b)
  obtain m where m: "n = Suc m" "0 < m" using more_elems.prems by (cases n) auto
  have "parse_value m (s @ b @ CHR '','' # t @ r) = Some (x, b @ CHR '','' # t @ r)"
    using more_elems m by (intro more_elems.IH) (simp_all add: ends_blank)
  moreover have "parse_elems m (t @ r) = Some (xs, r)"
    using more_elems.prems m by (intro more_elems.IH) simp
  ultimately show ?case using m more_elems(3,4)
    by (simp add: parse_skips skip_blank skip_none json_ws_def del: parse_value.simps)
next
  case (last_member x s a b c d k)
  obtain m where m: "n = Suc m" "0 < m" using last_member.prems by (cases n) auto
  have "parse_value m (s @ d @ CHR ''}'' # r) = Some (x, d @ CHR ''}'' # r)"
    using last_member m by (intro last_member.IH) (simp_all add: ends_blank quote_def)
  with m last_member(2-5) show ?case
    by (simp add: parse_skips skip_blank skip_none json_ws_def quote_app parse_quoted del: parse_value.simps)
next
  case (more_members x s ms t a b c d k)
  obtain m where m: "n = Suc m" "0 < m" using more_members.prems by (cases n) auto
  have "parse_value m (s @ d @ CHR '','' # t @ r) = Some (x, d @ CHR '','' # t @ r)"
    using more_members m by (intro more_members.IH) (simp_all add: ends_blank quote_def)
  moreover have "parse_members m (t @ r) = Some (ms, r)"
    using more_members.prems m by (intro more_members.IH) simp
  ultimately show ?case using m more_members(3-6)
    by (simp add: parse_skips skip_blank skip_none json_ws_def quote_app parse_quoted del: parse_value.simps)
qed

lemma JSON_parse_text: "value_text j s \<Longrightarrow> JSON_parse s = Some j"
  using parse_texts(1) [of j s "[]" "2 * length s + 2"] by (simp add: JSON_parse_def skip_ws_def)


section \<open>What the printers write\<close>

lemma insort_key_map: "map g (insort_key (\<lambda>a. f (g a)) x xs) = insort_key f (g x) (map g xs)"
  by (induction xs) auto

lemma sort_key_map: "sort_key f (map g xs) = map g (sort_key (\<lambda>a. f (g a)) xs)"
  unfolding sort_key_def by (induction xs) (simp_all flip: insort_key_map)

lemma own_entries_map:
  "own_entries (map (\<lambda>e. (fst e, h (snd e))) fs) = map (\<lambda>e. (fst e, h (snd e))) (own_entries fs)"
  by (simp add: own_entries_def filter_map sort_key_map comp_def)

lemma distinct_own_entries: "wf_obj fs \<Longrightarrow> distinct (map fst (own_entries fs))"
  using distinct_own_keys by (simp add: own_keys_def)

text \<open>A list of elements between brackets, with the same white space before each.\<close>

lemma join_elems_text:
  assumes "\<And>x. x \<in> set xs \<Longrightarrow> value_text (f x) (g x)" "xs \<noteq> []" "blank a" "blank b"
  shows "elems_text (map f xs) (a @ join ('','' @ a) (map g xs) @ b @ '']'')"
  using assms
proof (induction xs)
  case (Cons x xs)
  show ?case
  proof (cases xs)
    case Nil
    with Cons show ?thesis using last_elem [of "f x" "g x" a b] by simp
  next
    case (Cons y ys)
    with Cons.IH Cons.prems have "elems_text (map f xs) (a @ join ('','' @ a) (map g xs) @ b @ '']'')" by simp
    with Cons.prems Cons show ?thesis
      using more_elems [of "f x" "g x" "map f xs" _ a "[]"] by (simp add: blank_def)
  qed
qed simp

lemma join_members_text:
  assumes "\<And>e. e \<in> set ms \<Longrightarrow> value_text (f (snd e)) (g (snd e))" "ms \<noteq> []" "blank a" "blank b" "blank c"
  shows "members_text (map (\<lambda>e. (fst e, f (snd e))) ms)
    (a @ join ('','' @ a) (map (\<lambda>e. quote (fst e) @ '':'' @ c @ g (snd e)) ms) @ b @ ''}'')"
  using assms
proof (induction ms)
  case (Cons e ms)
  obtain k x where e: "e = (k, x)" by (cases e)
  show ?case
  proof (cases ms)
    case Nil
    with Cons e show ?thesis using last_member [of "f x" "g x" a "[]" c b k] by (simp add: blank_def)
  next
    case (Cons e' es)
    with Cons.IH Cons.prems have "members_text (map (\<lambda>e. (fst e, f (snd e))) ms)
        (a @ join ('','' @ a) (map (\<lambda>e. quote (fst e) @ '':'' @ c @ g (snd e)) ms) @ b @ ''}'')" by simp
    moreover have "value_text (f x) (g x)" using Cons.prems(1) [of e] e by simp
    ultimately show ?thesis
      using more_members [of "f x" "g x" "map (\<lambda>e. (fst e, f (snd e))) ms" _ a "[]" c "[]" k] Cons.prems Cons e
      by (simp add: blank_def)
  qed
qed simp

lemma printed_members:
  assumes "\<And>e. e \<in> set fs \<Longrightarrow> value_text (f (snd e)) (g (snd e))" "fs \<noteq> []" "wf_obj fs"
    "blank a" "blank b" "blank c"
  shows "value_text (JObj (own_entries (map (\<lambda>e. (fst e, f (snd e))) fs)))
    (CHR ''{'' # a @ join ('','' @ a) (map (\<lambda>e. quote (fst e) @ '':'' @ c @ snd e)
       (own_entries (map (\<lambda>e. (fst e, g (snd e))) fs))) @ b @ ''}'')"
proof -
  have ne: "own_entries fs \<noteq> []" using assms(2) mset_own_entries [of fs] by (metis mset_zero_iff)
  have "members_text (map (\<lambda>e. (fst e, f (snd e))) (own_entries fs))
    (a @ join ('','' @ a) (map (\<lambda>e. quote (fst e) @ '':'' @ c @ g (snd e)) (own_entries fs)) @ b @ ''}'')"
    using assms ne by (intro join_members_text) simp_all
  moreover have "distinct (map fst (map (\<lambda>e. (fst e, f (snd e))) (own_entries fs)))"
    using distinct_own_entries [OF assms(3)] by (simp add: comp_def)
  ultimately show ?thesis
    unfolding own_entries_map by (simp add: some_members comp_def)
qed

lemma stringify_text: "wf_json j \<Longrightarrow> value_text (ordered j) (stringify j)"
proof (induction j rule: stringify.induct)
  case (6 xs)
  show ?case
  proof (cases "xs = []")
    case False
    then have "elems_text (map ordered xs) ([] @ join ('','' @ []) (map stringify xs) @ [] @ '']'')"
      using 6 by (intro join_elems_text) (simp_all add: blank_def list_all_iff)
    from some_elems [OF this] show ?thesis by simp
  qed (simp add: no_elems)
next
  case (7 fs)
  show ?case
  proof (cases "fs = []")
    case True
    then show ?thesis using no_members by (simp add: own_entries_def)
  next
    case False
    then show ?thesis
      using 7 printed_members [of fs ordered stringify "[]" "[]" "[]"]
      by (fastforce simp: blank_def list_all_iff)
  qed
qed (simp_all add: null_text true_text false_text int_text dec_text str_text)

lemma blank_line: "blank (line_at n)"
  by (auto simp: blank_def line_at_def json_ws_def list_all_iff)

lemma stringify_at_text: "wf_json j \<Longrightarrow> value_text (ordered j) (stringify_at n j)"
proof (induction n j rule: stringify_at.induct)
  case (1 n xs)
  show ?case
  proof (cases "xs = []")
    case False
    then have "elems_text (map ordered xs)
        (line_at (Suc n) @ join ('','' @ line_at (Suc n)) (map (stringify_at (Suc n)) xs) @ line_at n @ '']'')"
      using 1 by (intro join_elems_text) (simp_all add: blank_line list_all_iff)
    from some_elems [OF this] False show ?thesis by simp
  qed (simp add: no_elems)
next
  case (2 n fs)
  show ?case
  proof (cases "fs = []")
    case True
    then show ?thesis using no_members by (simp add: own_entries_def)
  next
    case False
    have "value_text (ordered (snd e)) (stringify_at (Suc n) (snd e))" if "e \<in> set fs" for e
      using 2 that False by (auto simp: list_all_iff)
    from printed_members [of fs ordered "stringify_at (Suc n)" "line_at (Suc n)" "line_at n" "'' ''", OF this]
    show ?thesis using 2(2) False blank_line [unfolded blank_def] by (simp add: blank_def json_ws_def)
  qed
qed (simp_all add: null_text true_text false_text int_text dec_text str_text)

text \<open>Reading what was printed, with and without indentation.\<close>

theorem JSON_parse_stringify: "wf_json j \<Longrightarrow> JSON_parse (stringify j) = Some (ordered j)"
  by (rule JSON_parse_text) (rule stringify_text)

theorem JSON_parse_indented: "wf_json j \<Longrightarrow> JSON_parse (stringify_at n j) = Some (ordered j)"
  by (rule JSON_parse_text) (rule stringify_at_text)

text \<open>Putting the members in order changes no member, and doing it again changes nothing.\<close>

lemma sort_key_sorted: "sort_key f (sort_key f xs) = sort_key f xs"
  by (simp add: sort_key_id_if_sorted)

lemma own_entries_idem: "own_entries (own_entries fs) = own_entries fs"
proof -
  have "filter P (sort_key f (filter P xs)) = sort_key f (filter P xs)"
    "filter (\<lambda>x. \<not> P x) (sort_key f (filter P xs)) = []"
    for P :: "string \<times> 'a \<Rightarrow> bool" and f :: "string \<times> 'a \<Rightarrow> nat" and xs
    by (simp_all add: filter_sort)
  then show ?thesis by (simp add: own_entries_def sort_key_sorted)
qed

lemma ordered_idem: "ordered (ordered j) = ordered j"
proof (induction j rule: ordered.induct)
  case (2 fs)
  have "map (\<lambda>e. (fst e, ordered (snd e))) (map (\<lambda>e. (fst e, ordered (snd e))) fs)
      = map (\<lambda>e. (fst e, ordered (snd e))) fs"
    using 2 by auto
  then have "own_entries (map (\<lambda>e. (fst e, ordered (snd e))) (own_entries (map (\<lambda>e. (fst e, ordered (snd e))) fs)))
      = own_entries (map (\<lambda>e. (fst e, ordered (snd e))) fs)"
    by (metis own_entries_map own_entries_idem)
  then show ?case by simp
qed simp_all

lemma obj_get_own_entries: "wf_obj fs \<Longrightarrow> obj_get (own_entries fs) k = obj_get fs k"
proof -
  assume "wf_obj fs"
  then have "map_of (own_entries fs) = map_of fs"
    by (intro map_of_inject_set [THEN iffD2]) (simp_all add: distinct_own_entries wf_obj_def)
  then show ?thesis by (simp add: obj_get_def)
qed

section \<open>Exported files\<close>

text \<open>
  Property C8. An exported file holds what was exported: exporting as JSON downloads one file and
  reports success, and reading that file gives the exported value back, members in the order of the
  language.
\<close>

theorem exported_file_reads_back:
  assumes "wf_json data"
  shows "\<exists>content.
     w_downloads (snd (handleExport yaml_dump data filename Export_json w))
       = w_downloads w @ [(filename @ ''.json'', content)]
     \<and> JSON_parse content = Some (ordered data)
     \<and> w_toasts (snd (handleExport yaml_dump data filename Export_json w))
       = w_toasts w @ [(Success, Tr ''capabilities.export_success'')]"
  using JSON_parse_indented [OF assms]
  by (intro exI [of _ "stringify_at 0 data"]) (simp add: handleExport_def toast_def io_simps)

definition example_schema :: json where
  "example_schema = JObj [(''type'', JStr ''object''),
     (''properties'', JObj [(''q'', JObj [(''type'', JStr ''string''), (''description'', JStr [CHR 0x22, CHR 0x0A])])]),
     (''required'', JArr [JStr ''q'']), (''maxItems'', JInt (- 12)), (''10'', JDec ''1.50'')]"

definition quiet_world :: world where
  "quiet_world = \<lparr>w_log = [], w_toasts = [], w_storage = (\<lambda>_. None), w_path = ''/gateway'', w_lang = ''en'',
     w_downloads = []\<rparr>"

theorem exported_file_reads_back_witness:
  "wf_json example_schema
   \<and> (\<exists>content.
       w_downloads (snd (handleExport (\<lambda>_. None) example_schema ''schema'' Export_json
           quiet_world))
         = w_downloads quiet_world @ [(''schema.json'', content)]
       \<and> JSON_parse content = Some (ordered example_schema)
       \<and> w_toasts (snd (handleExport (\<lambda>_. None) example_schema ''schema'' Export_json
           quiet_world))
         = w_toasts quiet_world @ [(Success, Tr ''capabilities.export_success'')])"
proof -
  have wf: "wf_json example_schema" by code_simp
  from exported_file_reads_back [OF wf, of "\<lambda>_. None" "''schema''" quiet_world] wf
  show ?thesis by (simp del: wf_json.simps)
qed

end
