(* ===== verification/Capabilities_View.thy ===== *)
theory Capabilities_View
  imports Capabilities Json_Roundtrip
begin

text \<open>
  What the capabilities page of
  \<open>src/web/src/pages/gateway/components/CapabilitiesViewer.tsx\<close> shows, as data: the tabs, the cards with
  their marked names and their parameters, what stands in for an empty list, and the dialog with the
  details of one capability. Styles, fixed labels and the colouring of code are left out. Reading a
  member of a parameter whose schema is \<open>null\<close> throws while the page is drawn.
\<close>

section \<open>The order of the types\<close>

text \<open>The types in the order in which the tabs and the list of all cards have them.\<close>

fun type_rank :: "capability_type \<Rightarrow> nat" where
  "type_rank CapTools = 0"
| "type_rank CapPrompts = 1"
| "type_rank CapResources = 2"
| "type_rank CapResourceTemplates = 3"

lemma type_rank_inject: "type_rank s = type_rank t \<longleftrightarrow> s = t"
  by (cases s; cases t) simp_all

instantiation capability_type :: linorder
begin

definition less_eq_capability_type :: "capability_type \<Rightarrow> capability_type \<Rightarrow> bool" where
  "less_eq_capability_type s t \<longleftrightarrow> type_rank s \<le> type_rank t"

definition less_capability_type :: "capability_type \<Rightarrow> capability_type \<Rightarrow> bool" where
  "less_capability_type s t \<longleftrightarrow> type_rank s < type_rank t"

instance
  by standard (auto simp: less_eq_capability_type_def less_capability_type_def type_rank_inject)

end

definition capability_tabs :: "(type_choice \<times> string \<times> string) list" where
  "capability_tabs =
     [(AllTypes, ''lucide:folder-open'', ''common.all''),
      (OnlyType CapTools, ''lucide:wrench'', ''capabilities.tools''),
      (OnlyType CapPrompts, ''lucide:message-square'', ''capabilities.prompts''),
      (OnlyType CapResources, ''lucide:file-text'', ''capabilities.resources''),
      (OnlyType CapResourceTemplates, ''lucide:file-code'', ''capabilities.resource_templates'')]"

section \<open>Parameters\<close>

record param_view =
  pw_name :: string
  pw_required :: bool
  pw_type :: "string option"
  pw_description :: "string option"
  pw_options :: "string list option"
  pw_default :: "string option"

text \<open>\<open>Boolean(v) && String(v)\<close>.\<close>

definition shown_text :: "jv \<Rightarrow> string option" where
  "shown_text v = (if js_truthy v then map_option json_text v else None)"

definition option_texts :: "jv \<Rightarrow> string list option" where
  "option_texts v = (case v of Some (JArr xs) \<Rightarrow> Some (map json_text xs) | _ \<Rightarrow> None)"

text \<open>A list is drawn element by element; the first exception ends it.\<close>

fun draw_all :: "('a \<Rightarrow> 'b result) \<Rightarrow> 'a list \<Rightarrow> 'b list result" where
  "draw_all f [] = Inr []"
| "draw_all f (x # xs) =
     (case f x of Inl e \<Rightarrow> Inl e
      | Inr y \<Rightarrow> (case draw_all f xs of Inl e \<Rightarrow> Inl e | Inr ys \<Rightarrow> Inr (y # ys)))"

fun members_of :: "jv \<Rightarrow> json obj" where
  "members_of (Some (JObj fs)) = fs"
| "members_of _ = []"

definition tool_properties :: "json \<Rightarrow> json obj" where
  "tool_properties tool = members_of (js_opt_field (js_member tool ''inputSchema'') ''properties'')"

abbreviation schema_required :: "json \<Rightarrow> jv" where
  "schema_required tool \<equiv> js_opt_field (js_member tool ''inputSchema'') ''required''"

section \<open>Cards\<close>

text \<open>Of the parameters a card shows nothing when there are none, else their number, and the
  parameters themselves once they are unfolded.\<close>

record param_list =
  pl_count :: nat
  pl_shown :: "param_view list option"

text \<open>\<open>required.includes(name)\<close> on the card, where \<open>required\<close> is the schema's or an empty array: arrays and
  texts have this method.\<close>

definition card_required :: "json \<Rightarrow> string \<Rightarrow> bool result" where
  "card_required tool name =
     (case js_or (schema_required tool) (Some (JArr [])) of
        Some (JArr names) \<Rightarrow> Inr (JStr name \<in> set names)
      | Some (JStr s) \<Rightarrow> Inr (str_includes s name)
      | _ \<Rightarrow> Inl (TypeError ''required.includes''))"

definition card_param :: "json \<Rightarrow> string \<times> json \<Rightarrow> param_view result" where
  "card_param tool e =
     (case e of (paramName, schema) \<Rightarrow>
      case card_required tool paramName of
        Inl x \<Rightarrow> Inl x
      | Inr required \<Rightarrow>
          if schema = JNull then Inl (TypeError ''type'')
          else Inr \<lparr>pw_name = paramName, pw_required = required,
                 pw_type = shown_text (js_member schema ''type''),
                 pw_description = shown_text (js_member schema ''description''),
                 pw_options = option_texts (js_member schema ''enum''),
                 pw_default = map_option json_text (js_member schema ''default'')\<rparr>)"

definition card_params ::
    "(string \<Rightarrow> string) \<Rightarrow> viewer \<Rightarrow> capability_type \<Rightarrow> json \<Rightarrow> param_list option result" where
  "card_params collation st type item =
     (let properties = tool_properties item; paramCount = length (own_keys properties)
      in if type \<noteq> CapTools \<or> paramCount = 0 then Inr None
         else if item_name item \<notin> v_expandedParams st
         then Inr (Some \<lparr>pl_count = paramCount, pl_shown = None\<rparr>)
         else case draw_all (card_param item)
                     (sorted_params collation (\<lambda>n. card_required item n = Inr True) properties) of
                Inl e \<Rightarrow> Inl e
              | Inr ps \<Rightarrow> Inr (Some \<lparr>pl_count = paramCount, pl_shown = Some ps\<rparr>))"

record card_view =
  cd_key :: string
  cd_icon :: string
  cd_color :: string
  cd_name :: "(bool \<times> string) list"
  cd_label :: string
  cd_server :: string
  cd_tenant :: string
  cd_description :: "(bool \<times> string) list option"
  cd_params :: "param_list option"

definition card_key :: "capability_type \<Rightarrow> string \<Rightarrow> string" where
  "card_key type name = type_key type @ ''-'' @ name"

definition renderCapabilityCard ::
    "(string \<Rightarrow> string) \<Rightarrow> viewer \<Rightarrow> capability_type \<times> json \<Rightarrow> card_view result" where
  "renderCapabilityCard collation st c =
     (case c of (type, item) \<Rightarrow>
      let marked = (\<lambda>txt. highlight txt (v_searchTerm st) (as_caseSensitive (v_advanced st)));
          description = item_description item
      in case card_params collation st type item of
           Inl e \<Rightarrow> Inl e
         | Inr ps \<Rightarrow> Inr \<lparr>cd_key = card_key type (item_name item), cd_icon = type_icon type,
             cd_color = type_color type, cd_name = marked (item_name item),
             cd_label = ''capabilities.'' @ type_key type,
             cd_server = v_serverName st, cd_tenant = v_tenant st,
             cd_description = (if description = [] then None
               else Some (if as_searchInDescription (v_advanced st) then marked description
                          else [(False, description)])),
             cd_params = ps\<rparr>)"

datatype content_view =
    No_content
  | No_capabilities
  | None_of_type capability_type
  | Cards "card_view list"

definition content_view :: "(string \<Rightarrow> string) \<Rightarrow> viewer \<Rightarrow> content_view result" where
  "content_view collation st =
     (let cards = shown_cards st
      in if cards = [] then
           (case v_selectedType st of
              AllTypes \<Rightarrow> Inr No_capabilities
            | OnlyType type \<Rightarrow> Inr (if v_filteredData st = None then No_content else None_of_type type))
         else case draw_all (renderCapabilityCard collation st) cards of
                Inl e \<Rightarrow> Inl e
              | Inr vs \<Rightarrow> Inr (Cards vs))"

section \<open>The dialog with the details\<close>

record argument_view =
  aw_name :: string
  aw_required :: bool
  aw_description :: "string option"

datatype detail_body =
    Tool_details nat string "param_view list" "string option"
  | Prompt_details nat "nat option" "argument_view list" string
  | Resource_details string "string option" string
  | Template_details string "string list" "string option" string

record detail_view =
  dv_icon :: string
  dv_color :: string
  dv_name :: string
  dv_label :: string
  dv_description :: "string option"
  dv_body :: detail_body
  dv_filename :: string

definition text_if_any :: "json \<Rightarrow> string \<Rightarrow> string option" where
  "text_if_any item k = (if text_member item k = [] then None else Some (text_member item k))"

text \<open>The dialog reads the schema's \<open>required\<close> itself, as \<open>required?.includes?.(key)\<close>, and prints a
  default value as JSON.\<close>

definition detail_required :: "json \<Rightarrow> string \<Rightarrow> bool" where
  "detail_required tool key =
     (case schema_required tool of
        Some (JArr names) \<Rightarrow> JStr key \<in> set names
      | Some (JStr s) \<Rightarrow> str_includes s key
      | _ \<Rightarrow> False)"

definition detail_param :: "json \<Rightarrow> string \<times> json \<Rightarrow> param_view result" where
  "detail_param tool e =
     (case e of (key, propSchema) \<Rightarrow>
        if propSchema = JNull then Inl (TypeError ''type'')
        else Inr \<lparr>pw_name = key, pw_required = detail_required tool key,
               pw_type = shown_text (js_member propSchema ''type''),
               pw_description = shown_text (js_member propSchema ''description''),
               pw_options = option_texts (js_member propSchema ''enum''),
               pw_default = map_option stringify (js_member propSchema ''default'')\<rparr>)"

definition tool_details :: "json \<Rightarrow> detail_body result" where
  "tool_details tool =
     (let properties = tool_properties tool;
          type = js_or (js_opt_field (js_member tool ''inputSchema'') ''type'') (Some (JStr ''object''))
      in case draw_all (detail_param tool) (own_entries properties) of
           Inl e \<Rightarrow> Inl e
         | Inr ps \<Rightarrow> Inr (Tool_details (length (own_keys properties)) (json_text (the type)) ps
             (map_option (stringify_at 0) (js_member tool ''inputSchema''))))"

definition prompt_details :: "json \<Rightarrow> detail_body" where
  "prompt_details prompt =
     (let arguments = elements (js_member prompt ''arguments'')
      in Prompt_details (length arguments)
           (if arguments = [] then None else Some (prompt_required_count prompt))
           (map (\<lambda>arg. \<lparr>aw_name = text_member arg ''name'',
              aw_required = js_truthy (js_member arg ''required''),
              aw_description = text_if_any arg ''description''\<rparr>) arguments)
           (stringify_at 0 prompt))"

definition resource_details :: "json \<Rightarrow> detail_body" where
  "resource_details resource =
     Resource_details (text_member resource ''uri'') (text_if_any resource ''mimeType'') (stringify_at 0 resource)"

definition template_details :: "json \<Rightarrow> detail_body" where
  "template_details template =
     Template_details (text_member template ''uriTemplate'')
       (extractTemplateParams (text_member template ''uriTemplate'')) (text_if_any template ''mimeType'')
       (stringify_at 0 template)"

fun renderDetailContent :: "capability_type \<Rightarrow> json \<Rightarrow> detail_body result" where
  "renderDetailContent CapTools item = tool_details item"
| "renderDetailContent CapPrompts item = Inr (prompt_details item)"
| "renderDetailContent CapResources item = Inr (resource_details item)"
| "renderDetailContent CapResourceTemplates item = Inr (template_details item)"

fun detail_filename :: "capability_type \<Rightarrow> string \<Rightarrow> string" where
  "detail_filename CapTools name = ''tool-'' @ name @ ''-schema''"
| "detail_filename CapPrompts name = ''prompt-'' @ name"
| "detail_filename CapResources name = ''resource-'' @ name"
| "detail_filename CapResourceTemplates name = ''resource-template-'' @ name"

definition CapabilityDetailModal :: "viewer \<Rightarrow> detail_view option result" where
  "CapabilityDetailModal st =
     (case (v_isOpen st, v_selectedCapability st) of
        (True, Some item) \<Rightarrow>
          (let type = v_selectedCapabilityType st
           in case renderDetailContent type item of
                Inl e \<Rightarrow> Inl e
              | Inr body \<Rightarrow> Inr (Some \<lparr>dv_icon = type_icon type, dv_color = type_color type,
                  dv_name = item_name item, dv_label = ''capabilities.'' @ type_key type,
                  dv_description = text_if_any item ''description'', dv_body = body,
                  dv_filename = detail_filename type (item_name item)\<rparr>))
      | _ \<Rightarrow> Inr None)"

section \<open>Cards and details agree\<close>

lemma draw_all_Inr: "draw_all f xs = Inr ys \<longleftrightarrow> list_all2 (\<lambda>x y. f x = Inr y) xs ys"
proof (induction xs arbitrary: ys)
  case (Cons x xs)
  have "draw_all f (x # xs) = Inr ys \<longleftrightarrow> (\<exists>z zs. ys = z # zs \<and> f x = Inr z \<and> draw_all f xs = Inr zs)"
    by (auto split: sum.splits)
  then show ?case unfolding Cons.IH list_all2_Cons1 by blast
qed auto

lemma draw_all_Inl: "(\<exists>e. draw_all f xs = Inl e) \<longleftrightarrow> (\<exists>x \<in> set xs. \<exists>e. f x = Inl e)"
  by (induction xs) (auto split: sum.splits)

lemma draw_all_length: "draw_all f xs = Inr ys \<Longrightarrow> length ys = length xs"
  by (auto simp: draw_all_Inr dest: list_all2_lengthD)

lemma draw_all_map: "draw_all f xs = Inr ys \<Longrightarrow> (\<And>x y. x \<in> set xs \<Longrightarrow> f x = Inr y \<Longrightarrow> g y = h x) \<Longrightarrow> map g ys = map h xs"
  by (auto simp: draw_all_Inr list_all2_conv_all_nth intro!: nth_equalityI)

text \<open>A parameter without its default value, which the card shows by \<open>String\<close> and the dialog by
  \<open>JSON.stringify\<close>.\<close>

definition but_default :: "param_view \<Rightarrow> param_view" where
  "but_default p = p\<lparr>pw_default := None\<rparr>"

definition param_core :: "json \<Rightarrow> string \<times> json \<Rightarrow> param_view" where
  "param_core tool e = \<lparr>pw_name = fst e, pw_required = detail_required tool (fst e),
     pw_type = shown_text (js_member (snd e) ''type''),
     pw_description = shown_text (js_member (snd e) ''description''),
     pw_options = option_texts (js_member (snd e) ''enum''), pw_default = None\<rparr>"

text \<open>As the interface has it, \<open>required\<close> is absent or an array.\<close>

definition declared_required :: "json \<Rightarrow> bool" where
  "declared_required tool = (case schema_required tool of None \<Rightarrow> True | Some (JArr names) \<Rightarrow> True | _ \<Rightarrow> False)"

text \<open>The two ways of reading \<open>required\<close> agree there.\<close>

lemma required_marks: "declared_required tool \<Longrightarrow> card_required tool n = Inr (detail_required tool n)"
  by (auto simp: card_required_def detail_required_def declared_required_def js_or_def
      split: option.splits json.splits)

lemma card_param_core: "declared_required tool \<Longrightarrow> card_param tool e = Inr p \<Longrightarrow> but_default p = param_core tool e"
  by (auto simp: card_param_def required_marks but_default_def param_core_def split: prod.splits if_splits)

lemma card_param_required: "declared_required tool \<Longrightarrow> card_param tool e = Inr p \<Longrightarrow> pw_required p = detail_required tool (fst e)"
  by (auto simp: card_param_def required_marks split: prod.splits if_splits)

lemma detail_param_core: "detail_param tool e = Inr p \<Longrightarrow> but_default p = param_core tool e"
  by (auto simp: detail_param_def but_default_def param_core_def split: prod.splits if_splits)

lemma card_param_fails: "declared_required tool \<Longrightarrow> (\<exists>x. card_param tool e = Inl x) \<longleftrightarrow> snd e = JNull"
  by (auto simp: card_param_def required_marks split: prod.splits)

lemma detail_param_fails: "(\<exists>x. detail_param tool e = Inl x) \<longleftrightarrow> snd e = JNull"
  by (auto simp: detail_param_def split: prod.splits)

lemma mset_sorted_params: "mset (sorted_params collation required fs) = mset (own_entries fs)"
  by (simp add: sorted_params_def)

lemma required_first: "sorted (map (\<lambda>e. \<not> required (fst e)) (sorted_params collation required fs))"
proof -
  let ?key = "\<lambda>e :: string \<times> json. (\<not> required (fst e), collation (fst e))"
  have "sorted (map ?key (sorted_params collation required fs))"
    unfolding sorted_params_def by (rule sorted_sort_key)
  then show ?thesis
    unfolding sorted_map by (rule sorted_wrt_mono_rel [rotated]) (auto simp: less_eq_prod_def)
qed

text \<open>
  Property C16. The card and the dialog, which are written separately, show the same parameters of a tool whose
  list of required parameters is absent or an array: unfolded, the card lists each parameter of the
  dialog once, with the same mark, type, description and choices, the required ones first; both give
  their number, and where the one cannot be drawn, neither can the other.
\<close>

theorem card_and_details_list_the_same_parameters:
  assumes "declared_required tool"
  shows "case card_params collation (st\<lparr>v_expandedParams := insert (item_name tool) opened\<rparr>) CapTools tool of
     Inl e \<Rightarrow> (case tool_details tool of Inl e' \<Rightarrow> True | Inr body \<Rightarrow> False)
   | Inr None \<Rightarrow> (\<exists>type code. tool_details tool = Inr (Tool_details 0 type [] code))
   | Inr (Some l) \<Rightarrow> (\<exists>ps n type qs code. pl_shown l = Some ps
        \<and> tool_details tool = Inr (Tool_details n type qs code)
        \<and> n = pl_count l \<and> length ps = n
        \<and> mset (map but_default ps) = mset (map but_default qs)
        \<and> sorted (map (\<lambda>p. \<not> pw_required p) ps))"
proof -
  let ?fs = "tool_properties tool" and ?req = "\<lambda>n. detail_required tool n"
  let ?c = "draw_all (card_param tool) (sorted_params collation ?req ?fs)"
  let ?d = "draw_all (detail_param tool) (own_entries ?fs)"
  have req: "(\<lambda>n. card_required tool n = Inr True) = ?req" using assms by (simp add: required_marks)
  show ?thesis
  proof (cases "?fs = []")
    case True
    then show ?thesis by (simp add: card_params_def tool_details_def Let_def own_keys_def own_entries_def)
  next
    case False
    then have n: "length (own_keys ?fs) \<noteq> 0" by (simp add: length_own_keys)
    have same: "(\<exists>e. ?c = Inl e) \<longleftrightarrow> (\<exists>e. ?d = Inl e)"
      unfolding draw_all_Inl card_param_fails [OF assms] detail_param_fails
      by (metis mset_sorted_params set_mset_mset)
    show ?thesis
    proof (cases ?c)
      case (Inl e)
      moreover from same Inl obtain e' where "?d = Inl e'" by blast
      ultimately show ?thesis using n by (simp add: card_params_def tool_details_def Let_def req)
    next
      case (Inr ps)
      with same obtain qs where d: "?d = Inr qs" by (cases ?d) auto
      have ps: "map but_default ps = map (param_core tool) (sorted_params collation ?req ?fs)"
        by (rule draw_all_map [OF Inr]) (rule card_param_core [OF assms])
      have qs: "map but_default qs = map (param_core tool) (own_entries ?fs)"
        by (rule draw_all_map [OF d]) (rule detail_param_core)
      have "mset (map but_default ps) = mset (map but_default qs)"
        unfolding ps qs by (simp only: mset_map mset_sorted_params)
      moreover have "length ps = length (own_keys ?fs)"
        using draw_all_length [OF Inr] arg_cong [OF mset_sorted_params, of size collation ?req ?fs]
        by (simp add: own_keys_def)
      moreover have "map (\<lambda>p. \<not> pw_required p) ps = map (\<lambda>e. \<not> ?req (fst e)) (sorted_params collation ?req ?fs)"
        by (rule draw_all_map [OF Inr]) (simp add: card_param_required [OF assms])
      moreover have "sorted (map (\<lambda>e. \<not> ?req (fst e)) (sorted_params collation ?req ?fs))"
        by (rule required_first)
      ultimately show ?thesis using n Inr d by (simp add: card_params_def tool_details_def Let_def req)
    qed
  qed
qed

definition sample_tool :: json where
  "sample_tool = JObj [(''name'', JStr ''t''), (''inputSchema'', JObj [(''properties'',
      JObj [(''a'', JObj [(''type'', JStr ''string'')]), (''b'', JObj [(''type'', JStr ''number'')])]),
    (''required'', JArr [JStr ''b''])])]"

theorem card_and_details_list_the_same_parameters_witness:
  "(case card_params id ((open_viewer ''t'' ''s'')\<lparr>v_expandedParams := insert (item_name sample_tool) {}\<rparr>) CapTools sample_tool of
      Inr (Some l) \<Rightarrow> map_option (map pw_name) (pl_shown l) = Some [''b'', ''a'']
         \<and> (\<exists>ps type qs code. pl_shown l = Some ps \<and> tool_details sample_tool = Inr (Tool_details 2 type qs code)
              \<and> mset (map but_default ps) = mset (map but_default qs))
    | _ \<Rightarrow> False)"
proof -
  let ?st = "(open_viewer ''t'' ''s'')\<lparr>v_expandedParams := insert (item_name sample_tool) {}\<rparr>"
  have d: "declared_required sample_tool" by code_simp
  have "(case card_params id ?st CapTools sample_tool of
      Inr (Some l) \<Rightarrow> pl_count l = 2 \<and> map_option (map pw_name) (pl_shown l) = Some [''b'', ''a''] | _ \<Rightarrow> False)"
    by code_simp
  then obtain l where l: "card_params id ?st CapTools sample_tool = Inr (Some l)" "pl_count l = 2"
    "map_option (map pw_name) (pl_shown l) = Some [''b'', ''a'']"
    by (auto split: sum.splits option.splits)
  from card_and_details_list_the_same_parameters [OF d, where collation = id and st = "open_viewer ''t'' ''s''" and opened = "{}"]
  show ?thesis unfolding l(1) using l(2,3) by auto
qed

text \<open>
  Where \<open>required\<close> is neither, say a number, unfolding the parameters of the card throws, while the
  dialog, which asks for the method first, marks none.
\<close>

lemma card_trusts_required:
  "card_required (JObj [(''inputSchema'', JObj [(''required'', JInt 1)])]) n = Inl (TypeError ''required.includes'')
   \<and> \<not> detail_required (JObj [(''inputSchema'', JObj [(''required'', JInt 1)])]) n"
  by (simp add: card_required_def detail_required_def obj_get_def js_opt_field_def js_or_def)

section \<open>The list of cards\<close>

text \<open>
  React can tell the cards apart: two cards have the same key exactly when type and name
  are the same, whatever characters the names have.
\<close>

theorem card_keys_tell_cards_apart: "card_key s m = card_key t n \<longleftrightarrow> s = t \<and> m = n"
  by (cases s; cases t) (simp_all add: card_key_def)

lemma sorted_types: "sorted (map fst (allItems caps))"
  by (simp add: allItems_def typed_items_def sorted_append less_eq_capability_type_def comp_def)
     (auto simp: sorted_wrt_map)

text \<open>
  The cards come in the order of the tabs: under the tab for everything the cards of one type stand
  together, in the order in which their tabs do.
\<close>

theorem cards_follow_the_tabs:
  "sorted (map fst (shown_cards st))
   \<and> sorted (map (\<lambda>t. case t of (c, _) \<Rightarrow> case c of AllTypes \<Rightarrow> CapTools | OnlyType type \<Rightarrow> type) capability_tabs)"
proof
  show "sorted (map fst (shown_cards st))"
    using sorted_types [of "opt_or (v_filteredData st) no_capabilities"]
    by (cases "v_selectedType st")
       (auto simp: shown_cards_def sorted_types renderTabContent_def typed_items_def comp_def sorted_wrt_map
          split: option.split)
  show "sorted (map (\<lambda>t. case t of (c, _) \<Rightarrow> case c of AllTypes \<Rightarrow> CapTools | OnlyType type \<Rightarrow> type) capability_tabs)"
    by (simp add: capability_tabs_def less_eq_capability_type_def)
qed

section \<open>Findings\<close>

text \<open>
  The data shown as the raw data of a prompt, a resource or a template has a member \<open>type\<close> the backend
  did not send: the card puts it in before it opens the dialog.
\<close>

lemma raw_data_has_a_type:
  "JSON_parse (stringify_at 0 (with_type CapPrompts (JObj [(''name'', JStr ''p'')])))
   = Some (JObj [(''name'', JStr ''p''), (''type'', JStr ''prompts'')])"
  by code_simp

text \<open>
  A default value that is an object is shown on the card as \<open>[object Object]\<close>, in the dialog as JSON.
\<close>

lemma default_object_on_the_card:
  "map_option pw_default (case card_param (JObj []) (''p'', JObj [(''default'', JObj [(''a'', JInt 1)])]) of Inr p \<Rightarrow> Some p | Inl e \<Rightarrow> None)
     = Some (Some ''[object Object]'')
   \<and> map_option pw_default (case detail_param (JObj []) (''p'', JObj [(''default'', JObj [(''a'', JInt 1)])]) of Inr p \<Rightarrow> Some p | Inl e \<Rightarrow> None)
     = Some (Some (stringify (JObj [(''a'', JInt 1)])))"
  by (simp add: card_param_def detail_param_def card_required_def js_opt_field_def js_or_def obj_get_def)

end
