(* ===== verification/Translations.thy ===== *)
theory Translations
  imports Api_Contract Capabilities_View
begin

text \<open>
  The translations, \<open>src/web/src/i18n\<close>: the keys of both language files and the options \<open>i18next\<close> is
  configured with. A text is only its key here, and the section \<open>llm\<close> with the descriptions of models
  is left out. What \<open>i18next\<close> does with a key that has no text in either language is its documented
  behaviour: it shows the key. The theorem shows which failures of the API client are reported in words.
\<close>

section \<open>The language files\<close>

text \<open>The members of each file by section; a nested member is a path.\<close>

definition common_en :: "string list" where
  "common_en =
        [''loading'', ''error'', ''success'', ''save'', ''cancel'', ''delete'', ''edit'', ''create'',
         ''search'', ''refresh'', ''confirm'', ''back'', ''submit'', ''reset'', ''close'', ''open'',
         ''status'', ''actions'', ''details'', ''description'', ''name'', ''name_placeholder'', ''type'',
         ''created_at'', ''updated_at'', ''join_wechat'', ''join_discord'', ''view_github'',
         ''view_docs'', ''switch_theme'', ''light'', ''dark'', ''toggle_sidebar'', ''switch_language'',
         ''scan_qrcode'', ''add_wechat_note'', ''next'', ''filter'', ''more'', ''less'', ''all'',
         ''none'', ''yes'', ''no'', ''ok'', ''retry'', ''upload'', ''download'', ''preview'',
         ''settings'', ''profile'', ''help'', ''about'', ''contact'', ''feedback'', ''report'',
         ''join_wechat_community'', ''join_discord_community'', ''switch_theme_theme'', ''no_results'',
         ''copy'', ''copied'', ''copy_failed'', ''add'', ''clear'', ''collapse'', ''expand'',
         ''already'', ''available'', ''sse_url'', ''streamable_http_url'', ''total_items'',
         ''experimental'']"

definition nav_en :: "string list" where
  "nav_en =
        [''dashboard'', ''settings'', ''profile'', ''gateway'', ''chat'', ''users'', ''tenants'',
         ''tools_config'', ''sse_url'', ''streamable_http_url'', ''config_versions'', ''llm'',
         ''groups.chat_ai'', ''groups.gateway_config'', ''groups.management'']"

definition auth_en :: "string list" where
  "auth_en =
        [''login'', ''logout'', ''register'', ''forgot_password'', ''reset_password'',
         ''change_password'', ''current_password'', ''new_password'', ''confirm_password'',
         ''current_password_placeholder'', ''new_password_placeholder'',
         ''confirm_password_placeholder'', ''password_mismatch'', ''password_change_success'',
         ''password_change_failed'', ''confirm_change'', ''username'', ''password'',
         ''username_placeholder'', ''password_placeholder'', ''login_to_continue'', ''login_success'',
         ''login_failed'', ''logout_success'', ''session_expired'', ''or_continue_with'',
         ''continue_with_google'', ''continue_with_github'', ''oauth_login_failed'']"

definition gateway_en :: "string list" where
  "gateway_en =
        [''title'', ''add'', ''edit'', ''delete'', ''export'', ''sync'', ''import_openapi'',
         ''edit_config'', ''add_config'', ''routing_config'', ''enabled_tools'', ''all_tools'',
         ''mcp_config'', ''backend_config'', ''add_success'', ''add_failed'', ''edit_success'',
         ''edit_failed'', ''delete_success'', ''delete_failed'', ''exporting'', ''export_success'',
         ''export_failed'', ''sync_success'', ''sync_failed'', ''import_success'', ''import_failed'',
         ''select_tenant'', ''search_tenant'', ''view_mode'', ''card_view'', ''table_view'', ''name'',
         ''name_locked'', ''description'', ''routing'', ''no_description'', ''routes'', ''backends'',
         ''enabled'', ''total'', ''yaml_mode'', ''form_mode'', ''tenant'', ''created_at'',
         ''updated_at'', ''proxy_type'', ''router_config'', ''prefix'', ''server'', ''server_config'',
         ''server_name'', ''namespace'', ''allowed_tools'', ''add_tool'', ''tools_config'',
         ''tool_name'', ''method'', ''endpoint'', ''mcp_server_config'', ''mcp_type'', ''command'',
         ''args'', ''env_variables'', ''url'', ''http_method'', ''add_server'', ''startup_policy'',
         ''policy_on_demand'', ''policy_on_start'', ''preinstalled'', ''arguments_config'',
         ''argument_name'', ''argument_position'', ''argument_type'', ''argument_required'',
         ''argument_description'', ''argument_default'', ''add_argument'', ''position_body'',
         ''position_query'', ''position_path'', ''type_string'', ''type_number'', ''type_boolean'',
         ''type_array'', ''type_object'', ''type_form_data'', ''enable_cors'', ''enable_auth'',
         ''auth_mode'', ''allow_origins'', ''allow_methods'', ''allow_headers'', ''expose_headers'',
         ''credentials'', ''http_proxy'', ''mcp_proxy'', ''add_router'', ''add_mcp_server'',
         ''server_description'', ''router_prefix'', ''router_server'', ''mcp_server_name'',
         ''mcp_server_type'', ''mcp_server_command'', ''mcp_server_args'', ''mcp_server_env'',
         ''mcp_server_url'', ''add_env_variable'', ''env_key'', ''env_value'', ''add_header'',
         ''header_key'', ''header_value'', ''tool_description'', ''tool_method'', ''tool_headers'',
         ''tool_request_body'', ''tool_response_body'', ''add_tool_success'', ''add_tool_failed'',
         ''add_server_success'', ''add_server_failed'', ''add_router_success'', ''add_router_failed'',
         ''add_mcp_server_success'', ''add_mcp_server_failed'', ''add_env_variable_success'',
         ''add_env_variable_failed'', ''add_header_success'', ''add_header_failed'',
         ''remove_tool_success'', ''remove_tool_failed'', ''remove_server_success'',
         ''remove_server_failed'', ''remove_router_success'', ''remove_router_failed'',
         ''remove_mcp_server_success'', ''remove_mcp_server_failed'', ''remove_env_variable_success'',
         ''remove_env_variable_failed'', ''remove_header_success'', ''remove_header_failed'',
         ''update_tool_success'', ''update_tool_failed'', ''update_server_success'',
         ''update_server_failed'', ''update_router_success'', ''update_router_failed'',
         ''update_mcp_server_success'', ''update_mcp_server_failed'', ''update_env_variable_success'',
         ''update_env_variable_failed'', ''update_header_success'', ''update_header_failed'',
         ''http_servers'', ''mcp_servers'', ''servers'', ''routers'', ''tools'', ''request_body'',
         ''response_body'', ''request_body_placeholder'', ''response_body_placeholder'',
         ''origin_placeholder'', ''header_placeholder'', ''expose_header_placeholder'', ''sse_url'',
         ''streamable_http_url'', ''tenant_name'', ''confirm_delete'', ''remove_argument'',
         ''remove_tool'', ''tools_already_all_added'', ''tools_none_available'', ''remove_server'',
         ''add_origin'', ''add_method'', ''add_header_custom'', ''add_expose_header'',
         ''url_access_note'', ''direct_to_mcp_gateway'', ''server_name_limit'', ''name_length_error'',
         ''sse_prefix'', ''sse_prefix_placeholder'', ''prompt'', ''prompts'', ''prompt_name'',
         ''arguments'', ''required'', ''remove_prompt'', ''add_prompt'', ''prompt_response'',
         ''add_prompt_response'', ''prompt_response_role'', ''prompt_response_type'',
         ''prompt_response_text'', ''remove_prompt_response'', ''array_items_config'',
         ''object_properties_config'', ''array_item_type'', ''object_properties'', ''add_property'',
         ''property_name'', ''property_type'', ''property_description'', ''header_name_placeholder'',
         ''header_value_placeholder'', ''select_file'', ''prefix_placeholder'', ''upload_openapi_file'',
         ''drag_drop_openapi'', ''or_click_to_browse'', ''import_openapi_description'']"

definition chat_en :: "string list" where
  "chat_en =
        [''title'', ''send'', ''clear'', ''stop'', ''retry'', ''thinking'', ''generating'',
         ''welcome_message'', ''error_message'', ''empty_message'', ''tool_error'', ''tool_loading'',
         ''tool_loaded'', ''tool_unloaded'', ''tool_not_found'', ''tool_already_loaded'',
         ''tool_already_unloaded'', ''tool_load_failed'', ''tool_unload_failed'', ''tool_load_success'',
         ''tool_unload_success'', ''tool_load_error'', ''tool_unload_error'', ''tool_load_timeout'',
         ''tool_unload_timeout'', ''tool_load_cancelled'', ''tool_unload_cancelled'',
         ''tool_load_retry'', ''tool_unload_retry'', ''tool_load_max_retries'',
         ''tool_unload_max_retries'', ''tool_load_network_error'', ''tool_unload_network_error'',
         ''tool_load_server_error'', ''tool_unload_server_error'', ''tool_load_client_error'',
         ''tool_unload_client_error'', ''tool_load_unknown_error'', ''tool_unload_unknown_error'',
         ''message_placeholder'', ''expand_history'', ''collapse_history'', ''expand_tools'',
         ''collapse_tools'', ''available_tools'', ''server_tools'', ''you'', ''arguments'', ''result'',
         ''mcpServers'', ''selectMCPServers'', ''typeMessage'', ''run_tool'', ''execution_completed'',
         ''tool_call_success'', ''reasoning_process'', ''tool_completed'', ''tool_pending'',
         ''notification_received'', ''new_chat'', ''no_history'', ''untitled'', ''resize_history'',
         ''rename'', ''experimentalWarning.title'', ''experimentalWarning.description'',
         ''experimentalWarning.reportIssue'', ''experimentalWarning.or'',
         ''experimentalWarning.submitPR'', ''experimentalWarning.helpImprove'', ''delete'',
         ''delete_session'', ''delete_session_confirm'', ''rename_title'', ''delete_title'',
         ''delete_confirm'', ''rename_success'', ''rename_failed'', ''delete_success'',
         ''delete_failed'', ''rename_session'', ''session_title_placeholder'', ''systemPrompt'',
         ''systemPromptPlaceholder'', ''editSystemPrompt'', ''authTokenPlaceholder'', ''authToken'']"

definition users_en :: "string list" where
  "users_en =
        [''title'', ''add'', ''edit'', ''delete'', ''delete_title'', ''username'', ''password'',
         ''role'', ''status'', ''created_at'', ''actions'', ''role_admin'', ''role_normal'',
         ''status_enabled'', ''status_disabled'', ''password_placeholder'', ''confirm_delete'',
         ''add_success'', ''edit_success'', ''delete_success'', ''add_failed'', ''edit_failed'',
         ''delete_failed'', ''enable_success'', ''disable_success'', ''enable_failed'',
         ''disable_failed'', ''select_tenants'', ''select_tenant'', ''search_tenants'',
         ''update_tenants_success'', ''update_tenants_failed'', ''no_tenants'', ''manage_tenants'',
         ''tenants'']"

definition tenants_en :: "string list" where
  "tenants_en =
        [''title'', ''add'', ''edit'', ''delete'', ''delete_title'', ''name'', ''name_placeholder'',
         ''prefix'', ''prefix_placeholder'', ''description'', ''status'', ''created_at'', ''actions'',
         ''status_enabled'', ''status_disabled'', ''confirm_delete'', ''add_success'', ''edit_success'',
         ''delete_success'', ''add_failed'', ''edit_failed'', ''delete_failed'', ''enable_success'',
         ''disable_success'', ''enable_failed'', ''disable_failed'', ''no_description'', ''save'',
         ''prefix_conflict'', ''name_conflict'', ''prefix_path_conflict'', ''root_prefix_not_allowed'']"

definition errors_en :: "string list" where
  "errors_en =
        [''required'', ''invalid_email'', ''invalid_password'', ''invalid_username'', ''invalid_url'',
         ''network_error'', ''server_error'', ''timeout'', ''unknown'', ''check_system_status'',
         ''fetch_mcp_servers'', ''fetch_tools'', ''invalid_yaml'', ''fetch_users'', ''fetch_user'',
         ''invalid_tool_name'', ''invalid_tool_arguments'', ''server_not_connected'',
         ''tool_call_failed'', ''fetch_chat_history'', ''load_messages'', ''mcp_server_error'',
         ''connect_mcp_server'', ''no_server_config'', ''terminate_session'', ''disconnect_failed'',
         ''websocket_disconnected'', ''websocket_error'', ''invalid_openapi_file'',
         ''import_openapi_success'', ''import_openapi_failed'', ''get_tools_failed'',
         ''call_tool_failed'', ''fetch_mcp_server'', ''fetch_mcp_capabilities'', ''create_mcp_server'',
         ''update_mcp_server'', ''delete_mcp_server'', ''sync_mcp_server'', ''fetch_chat_messages'',
         ''fetch_chat_sessions'', ''fetch_tenants'', ''fetch_tenant'', ''create_tenant'',
         ''update_tenant'', ''delete_tenant'', ''fetch_authorized_tenants'', ''generic'', ''not_found'',
         ''unauthorized'', ''forbidden'', ''internal_server'', ''bad_request'', ''conflict'',
         ''validation'', ''parse_config'', ''namespace_permission_error'', ''tenant_permission_error'',
         ''router_prefix_error'', ''tenant_required'', ''tenant_not_found'',
         ''validate_router_prefix_failed'', ''export_mcp_server'', ''set_active_version'',
         ''llm_request_failed'', ''save_chat_message'']"

definition mcp_en :: "string list" where
  "mcp_en =
        [''configVersions.title'', ''configVersions.name'', ''configVersions.tenant'',
         ''configVersions.version'', ''configVersions.created_by'', ''configVersions.created_at'',
         ''configVersions.action_type'', ''configVersions.action_types.create'',
         ''configVersions.action_types.update'', ''configVersions.action_types.delete'',
         ''configVersions.action_types.revert'', ''configVersions.active'', ''configVersions.inactive'',
         ''configVersions.actions'', ''configVersions.compare'', ''configVersions.compare_versions'',
         ''configVersions.compare_with_previous'', ''configVersions.compare_with_latest'',
         ''configVersions.rollback'', ''configVersions.no_previous_version'',
         ''configVersions.no_latest_version'', ''configVersions.show_all'',
         ''configVersions.show_diff_only'', ''configVersions.select_config'',
         ''configVersions.select_tenant'', ''configVersions.fetch_names_error'',
         ''configVersions.fetch_error'', ''configVersions.set_active_success'',
         ''configVersions.set_active_error'']"

definition capabilities_en :: "string list" where
  "capabilities_en =
        [''tools'', ''prompts'', ''resources'', ''resource_templates'', ''search_placeholder'',
         ''advanced_search'', ''advanced_filters'', ''status_filter'', ''param_count_filter'',
         ''no_params'', ''few_params'', ''many_params'', ''search_options'', ''search_in_description'',
         ''case_sensitive'', ''no_capabilities'', ''resource_uri'', ''view_capabilities'',
         ''mcp_service_capabilities'', ''service_name'', ''tenant'', ''mcp_service_description'',
         ''parameters'', ''expand'', ''collapse'', ''required'', ''view_details'', ''export'',
         ''export_success'', ''export_failed'', ''type'']"

definition translation_en :: "(string \<times> string list) list" where
  "translation_en =
     [(''common'', common_en),
      (''nav'', nav_en),
      (''auth'', auth_en),
      (''gateway'', gateway_en),
      (''chat'', chat_en),
      (''users'', users_en),
      (''tenants'', tenants_en),
      (''errors'', errors_en),
      (''mcp'', mcp_en),
      (''capabilities'', capabilities_en)]"

definition common_zh :: "string list" where
  "common_zh =
        [''loading'', ''error'', ''success'', ''save'', ''cancel'', ''delete'', ''edit'', ''create'',
         ''search'', ''refresh'', ''confirm'', ''back'', ''submit'', ''reset'', ''close'', ''open'',
         ''status'', ''actions'', ''details'', ''description'', ''name'', ''name_placeholder'', ''type'',
         ''created_at'', ''updated_at'', ''join_wechat'', ''join_discord'', ''view_github'',
         ''view_docs'', ''switch_theme'', ''light'', ''dark'', ''toggle_sidebar'', ''switch_language'',
         ''scan_qrcode'', ''add_wechat_note'', ''next'', ''filter'', ''more'', ''less'', ''all'',
         ''none'', ''yes'', ''no'', ''ok'', ''retry'', ''upload'', ''download'', ''preview'',
         ''settings'', ''profile'', ''help'', ''about'', ''contact'', ''feedback'', ''report'',
         ''join_wechat_community'', ''join_discord_community'', ''switch_theme_theme'', ''no_results'',
         ''copy'', ''copied'', ''copy_failed'', ''add'', ''clear'', ''collapse'', ''expand'',
         ''already'', ''available'', ''sse_url'', ''streamable_http_url'', ''total_items'',
         ''experimental'']"

definition nav_zh :: "string list" where
  "nav_zh =
        [''dashboard'', ''settings'', ''profile'', ''gateway'', ''chat'', ''users'', ''tenants'',
         ''tools_config'', ''sse_url'', ''streamable_http_url'', ''config_versions'', ''llm'',
         ''groups.chat_ai'', ''groups.gateway_config'', ''groups.management'']"

definition auth_zh :: "string list" where
  "auth_zh =
        [''login'', ''logout'', ''register'', ''forgot_password'', ''reset_password'',
         ''change_password'', ''current_password'', ''new_password'', ''confirm_password'',
         ''current_password_placeholder'', ''new_password_placeholder'',
         ''confirm_password_placeholder'', ''password_mismatch'', ''password_change_success'',
         ''password_change_failed'', ''confirm_change'', ''username'', ''password'',
         ''username_placeholder'', ''password_placeholder'', ''login_to_continue'', ''login_success'',
         ''login_failed'', ''logout_success'', ''session_expired'', ''or_continue_with'',
         ''continue_with_google'', ''continue_with_github'', ''oauth_login_failed'']"

definition gateway_zh :: "string list" where
  "gateway_zh =
        [''title'', ''add'', ''edit'', ''delete'', ''export'', ''sync'', ''import_openapi'',
         ''edit_config'', ''add_config'', ''routing_config'', ''enabled_tools'', ''all_tools'',
         ''mcp_config'', ''backend_config'', ''add_success'', ''add_failed'', ''edit_success'',
         ''edit_failed'', ''delete_success'', ''delete_failed'', ''exporting'', ''export_success'',
         ''export_failed'', ''sync_success'', ''sync_failed'', ''import_success'', ''import_failed'',
         ''select_tenant'', ''search_tenant'', ''view_mode'', ''card_view'', ''table_view'', ''name'',
         ''name_locked'', ''description'', ''routing'', ''no_description'', ''routes'', ''backends'',
         ''enabled'', ''total'', ''yaml_mode'', ''form_mode'', ''tenant'', ''created_at'',
         ''updated_at'', ''proxy_type'', ''router_config'', ''prefix'', ''server'', ''server_config'',
         ''server_name'', ''namespace'', ''allowed_tools'', ''add_tool'', ''tools_config'',
         ''tool_name'', ''method'', ''endpoint'', ''mcp_server_config'', ''mcp_type'', ''command'',
         ''args'', ''env_variables'', ''url'', ''http_method'', ''add_server'', ''startup_policy'',
         ''policy_on_demand'', ''policy_on_start'', ''preinstalled'', ''arguments_config'',
         ''argument_name'', ''argument_position'', ''argument_type'', ''argument_required'',
         ''argument_description'', ''argument_default'', ''add_argument'', ''position_body'',
         ''position_query'', ''position_path'', ''type_string'', ''type_number'', ''type_boolean'',
         ''type_array'', ''type_object'', ''type_form_data'', ''enable_cors'', ''enable_auth'',
         ''auth_mode'', ''allow_origins'', ''allow_methods'', ''allow_headers'', ''expose_headers'',
         ''credentials'', ''http_proxy'', ''mcp_proxy'', ''add_router'', ''add_mcp_server'',
         ''server_description'', ''router_prefix'', ''router_server'', ''mcp_server_name'',
         ''mcp_server_type'', ''mcp_server_command'', ''mcp_server_args'', ''mcp_server_env'',
         ''mcp_server_url'', ''add_env_variable'', ''env_key'', ''env_value'', ''add_header'',
         ''header_key'', ''header_value'', ''tool_description'', ''tool_method'', ''tool_headers'',
         ''tool_request_body'', ''tool_response_body'', ''add_tool_success'', ''add_tool_failed'',
         ''add_server_success'', ''add_server_failed'', ''add_router_success'', ''add_router_failed'',
         ''add_mcp_server_success'', ''add_mcp_server_failed'', ''add_env_variable_success'',
         ''add_env_variable_failed'', ''add_header_success'', ''add_header_failed'',
         ''remove_tool_success'', ''remove_tool_failed'', ''remove_server_success'',
         ''remove_server_failed'', ''remove_router_success'', ''remove_router_failed'',
         ''remove_mcp_server_success'', ''remove_mcp_server_failed'', ''remove_env_variable_success'',
         ''remove_env_variable_failed'', ''remove_header_success'', ''remove_header_failed'',
         ''update_tool_success'', ''update_tool_failed'', ''update_server_success'',
         ''update_server_failed'', ''update_router_success'', ''update_router_failed'',
         ''update_mcp_server_success'', ''update_mcp_server_failed'', ''update_env_variable_success'',
         ''update_env_variable_failed'', ''update_header_success'', ''update_header_failed'',
         ''http_servers'', ''mcp_servers'', ''servers'', ''routers'', ''tools'', ''request_body'',
         ''response_body'', ''request_body_placeholder'', ''response_body_placeholder'',
         ''origin_placeholder'', ''header_placeholder'', ''expose_header_placeholder'', ''sse_url'',
         ''streamable_http_url'', ''tenant_name'', ''confirm_delete'', ''remove_argument'',
         ''remove_tool'', ''tools_already_all_added'', ''tools_none_available'', ''remove_server'',
         ''add_origin'', ''add_method'', ''add_header_custom'', ''add_expose_header'',
         ''url_access_note'', ''direct_to_mcp_gateway'', ''server_name_limit'', ''name_length_error'',
         ''sse_prefix'', ''sse_prefix_placeholder'', ''prompt'', ''prompts'', ''prompt_name'',
         ''arguments'', ''required'', ''remove_prompt'', ''add_prompt'', ''prompt_response'',
         ''add_prompt_response'', ''prompt_response_role'', ''prompt_response_type'',
         ''prompt_response_text'', ''remove_prompt_response'', ''array_items_config'',
         ''object_properties_config'', ''array_item_type'', ''object_properties'', ''add_property'',
         ''property_name'', ''property_type'', ''property_description'', ''header_name_placeholder'',
         ''header_value_placeholder'', ''select_file'', ''prefix_placeholder'', ''upload_openapi_file'',
         ''drag_drop_openapi'', ''or_click_to_browse'', ''import_openapi_description'']"

definition chat_zh :: "string list" where
  "chat_zh =
        [''title'', ''send'', ''clear'', ''stop'', ''retry'', ''thinking'', ''generating'',
         ''welcome_message'', ''error_message'', ''empty_message'', ''tool_error'', ''tool_loading'',
         ''tool_loaded'', ''tool_unloaded'', ''tool_not_found'', ''tool_already_loaded'',
         ''tool_already_unloaded'', ''tool_load_failed'', ''tool_unload_failed'', ''tool_load_success'',
         ''tool_unload_success'', ''tool_load_error'', ''tool_unload_error'', ''tool_load_timeout'',
         ''tool_unload_timeout'', ''tool_load_cancelled'', ''tool_unload_cancelled'',
         ''tool_load_retry'', ''tool_unload_retry'', ''tool_load_max_retries'',
         ''tool_unload_max_retries'', ''tool_load_network_error'', ''tool_unload_network_error'',
         ''tool_load_server_error'', ''tool_unload_server_error'', ''tool_load_client_error'',
         ''tool_unload_client_error'', ''tool_load_unknown_error'', ''tool_unload_unknown_error'',
         ''message_placeholder'', ''expand_history'', ''collapse_history'', ''expand_tools'',
         ''collapse_tools'', ''available_tools'', ''server_tools'', ''you'', ''arguments'', ''result'',
         ''mcpServers'', ''selectMCPServers'', ''typeMessage'', ''run_tool'', ''execution_completed'',
         ''tool_call_success'', ''reasoning_process'', ''tool_completed'', ''tool_pending'',
         ''notification_received'', ''new_chat'', ''no_history'', ''untitled'', ''resize_history'',
         ''rename'', ''experimentalWarning.title'', ''experimentalWarning.description'',
         ''experimentalWarning.reportIssue'', ''experimentalWarning.or'',
         ''experimentalWarning.submitPR'', ''experimentalWarning.helpImprove'', ''delete'',
         ''delete_session'', ''delete_session_confirm'', ''rename_title'', ''delete_title'',
         ''delete_confirm'', ''rename_success'', ''rename_failed'', ''delete_success'',
         ''delete_failed'', ''rename_session'', ''session_title_placeholder'', ''systemPrompt'',
         ''systemPromptPlaceholder'', ''editSystemPrompt'', ''authTokenPlaceholder'', ''authToken'']"

definition users_zh :: "string list" where
  "users_zh =
        [''title'', ''add'', ''edit'', ''delete'', ''delete_title'', ''username'', ''password'',
         ''role'', ''status'', ''created_at'', ''actions'', ''role_admin'', ''role_normal'',
         ''status_enabled'', ''status_disabled'', ''password_placeholder'', ''confirm_delete'',
         ''add_success'', ''edit_success'', ''delete_success'', ''add_failed'', ''edit_failed'',
         ''delete_failed'', ''enable_success'', ''disable_success'', ''enable_failed'',
         ''disable_failed'', ''select_tenants'', ''select_tenant'', ''search_tenants'',
         ''update_tenants_success'', ''update_tenants_failed'', ''no_tenants'', ''manage_tenants'',
         ''tenants'']"

definition tenants_zh :: "string list" where
  "tenants_zh =
        [''title'', ''add'', ''edit'', ''delete'', ''delete_title'', ''name'', ''name_placeholder'',
         ''prefix'', ''prefix_placeholder'', ''description'', ''status'', ''created_at'', ''actions'',
         ''status_enabled'', ''status_disabled'', ''confirm_delete'', ''add_success'', ''edit_success'',
         ''delete_success'', ''add_failed'', ''edit_failed'', ''delete_failed'', ''enable_success'',
         ''disable_success'', ''enable_failed'', ''disable_failed'', ''no_description'', ''save'',
         ''prefix_conflict'', ''name_conflict'', ''prefix_path_conflict'', ''root_prefix_not_allowed'']"

definition errors_zh :: "string list" where
  "errors_zh =
        [''required'', ''invalid_email'', ''invalid_password'', ''invalid_username'', ''invalid_url'',
         ''network_error'', ''server_error'', ''timeout'', ''unknown'', ''check_system_status'',
         ''fetch_mcp_servers'', ''fetch_tools'', ''invalid_yaml'', ''fetch_users'', ''fetch_user'',
         ''invalid_tool_name'', ''invalid_tool_arguments'', ''server_not_connected'',
         ''tool_call_failed'', ''fetch_chat_history'', ''load_messages'', ''mcp_server_error'',
         ''connect_mcp_server'', ''no_server_config'', ''terminate_session'', ''disconnect_failed'',
         ''websocket_disconnected'', ''websocket_error'', ''invalid_openapi_file'',
         ''import_openapi_success'', ''import_openapi_failed'', ''get_tools_failed'',
         ''call_tool_failed'', ''fetch_mcp_server'', ''fetch_mcp_capabilities'', ''create_mcp_server'',
         ''update_mcp_server'', ''delete_mcp_server'', ''sync_mcp_server'', ''fetch_chat_messages'',
         ''fetch_chat_sessions'', ''fetch_tenants'', ''fetch_tenant'', ''create_tenant'',
         ''update_tenant'', ''delete_tenant'', ''fetch_authorized_tenants'', ''generic'', ''not_found'',
         ''unauthorized'', ''forbidden'', ''internal_server'', ''bad_request'', ''conflict'',
         ''validation'', ''parse_config'', ''namespace_permission_error'', ''tenant_permission_error'',
         ''router_prefix_error'', ''tenant_required'', ''tenant_not_found'',
         ''validate_router_prefix_failed'', ''export_mcp_server'', ''set_active_version'',
         ''llm_request_failed'', ''save_chat_message'']"

definition mcp_zh :: "string list" where
  "mcp_zh =
        [''configVersions.title'', ''configVersions.name'', ''configVersions.tenant'',
         ''configVersions.version'', ''configVersions.created_by'', ''configVersions.created_at'',
         ''configVersions.action_type'', ''configVersions.action_types.create'',
         ''configVersions.action_types.update'', ''configVersions.action_types.delete'',
         ''configVersions.action_types.revert'', ''configVersions.active'', ''configVersions.inactive'',
         ''configVersions.actions'', ''configVersions.compare'', ''configVersions.compare_versions'',
         ''configVersions.compare_with_previous'', ''configVersions.compare_with_latest'',
         ''configVersions.rollback'', ''configVersions.no_previous_version'',
         ''configVersions.no_latest_version'', ''configVersions.show_all'',
         ''configVersions.show_diff_only'', ''configVersions.select_config'',
         ''configVersions.select_tenant'', ''configVersions.fetch_names_error'',
         ''configVersions.fetch_error'', ''configVersions.set_active_success'',
         ''configVersions.set_active_error'']"

definition capabilities_zh :: "string list" where
  "capabilities_zh =
        [''tools'', ''prompts'', ''resources'', ''resource_templates'', ''search_placeholder'',
         ''advanced_search'', ''advanced_filters'', ''status_filter'', ''param_count_filter'',
         ''no_params'', ''few_params'', ''many_params'', ''search_options'', ''search_in_description'',
         ''case_sensitive'', ''no_capabilities'', ''resource_uri'', ''view_capabilities'',
         ''mcp_service_capabilities'', ''service_name'', ''tenant'', ''mcp_service_description'',
         ''parameters'', ''expand'', ''collapse'', ''required'', ''view_details'', ''export'',
         ''export_success'', ''export_failed'', ''type'']"

definition translation_zh :: "(string \<times> string list) list" where
  "translation_zh =
     [(''common'', common_zh),
      (''nav'', nav_zh),
      (''auth'', auth_zh),
      (''gateway'', gateway_zh),
      (''chat'', chat_zh),
      (''users'', users_zh),
      (''tenants'', tenants_zh),
      (''errors'', errors_zh),
      (''mcp'', mcp_zh),
      (''capabilities'', capabilities_zh)]"

section \<open>The configuration\<close>

record i18n_options =
  io_resources :: "(string \<times> (string \<times> string list) list) list"
  io_fallbackLng :: string
  io_escapeValue :: bool
  io_order :: "string list"
  io_lookupLocalStorage :: string
  io_caches :: "string list"
  io_excludeCacheFor :: "string list"

definition i18n_init :: i18n_options where
  "i18n_init = \<lparr>io_resources = [(''en'', translation_en), (''zh'', translation_zh)],
     io_fallbackLng = ''zh'', io_escapeValue = False,
     io_order = [''localStorage'', ''navigator'', ''htmlTag''], io_lookupLocalStorage = ''i18nextLng'',
     io_caches = [''localStorage''], io_excludeCacheFor = [''cimode'']\<rparr>"

text \<open>A key is a section, a full stop and a path.\<close>

definition has_text :: "(string \<times> string list) list \<Rightarrow> string \<Rightarrow> bool" where
  "has_text res key =
     (let section = takeWhile (\<lambda>c. c \<noteq> CHR ''.'') key; path = drop (Suc (length section)) key
      in case map_of res section of None \<Rightarrow> False | Some paths \<Rightarrow> path \<in> set paths)"

section \<open>What a failure says\<close>

text \<open>The texts that are asked for by the client and are in neither language file.\<close>

definition missing_texts :: "string list" where
  "missing_texts = [''errors.delete_chat_session'', ''errors.rename_chat_session'', ''errors.import_openapi'',
     ''errors.fetch_config_names'', ''errors.fetch_config_versions'', ''errors.prefix_conflict'']"

text \<open>A key is looked up in its section only.\<close>

lemma text_in_section:
  "has_text translation_en (''errors.'' @ k) = (k \<in> set errors_en)"
  "has_text translation_en (''users.'' @ k) = (k \<in> set users_en)"
  "has_text translation_en (''tenants.'' @ k) = (k \<in> set tenants_en)"
  "has_text translation_en (''capabilities.'' @ k) = (k \<in> set capabilities_en)"
  "has_text translation_en (''common.'' @ k) = (k \<in> set common_en)"
  "has_text translation_en (''gateway.'' @ k) = (k \<in> set gateway_en)"
  by (simp_all add: has_text_def translation_en_def)

lemmas text_of_key = text_in_section [where k = "c # cs" for c cs, simplified append_Cons append_Nil]

lemmas sections = common_en_def common_zh_def nav_en_def nav_zh_def auth_en_def auth_zh_def gateway_en_def gateway_zh_def chat_en_def chat_zh_def users_en_def users_zh_def tenants_en_def tenants_zh_def errors_en_def errors_zh_def mcp_en_def mcp_zh_def capabilities_en_def capabilities_zh_def

text \<open>
  Both languages have the same keys, so no text depends on which one is chosen.
\<close>

theorem languages_have_the_same_keys: "translation_en = translation_zh"
  by (simp only: translation_en_def translation_zh_def sections)

lemma same_keys: "translation_zh = translation_en"
  by (simp only: translation_en_def translation_zh_def sections)

text \<open>A shown text: one of the server's that is not empty, or a key, which has a text exactly when
  it is not among the six.\<close>

definition in_words :: "(string \<times> string list) list \<Rightarrow> toast_text \<Rightarrow> bool" where
  "in_words res t = (case t of Server j \<Rightarrow> json_truthy j | Tr k \<Rightarrow> has_text res k = (k \<notin> set missing_texts))"

lemma said_in_words: "in_words res (Tr k) \<Longrightarrow> in_words res (said k e)"
  by (cases "server_error e") (auto simp: said_def in_words_def)

lemma tenant_texts:
  "list_all (\<lambda>k. in_words translation_en (Tr k))
     [''errors.fetch_tenants'', ''errors.fetch_tenant'', ''errors.prefix_conflict'', ''errors.update_tenant'',
      ''errors.delete_tenant'', ''errors.export_mcp_server'', ''tenants.root_prefix_not_allowed'',
      ''tenants.prefix_path_conflict'', ''tenants.add_failed'', ''tenants.name_conflict'',
      ''tenants.prefix_conflict'', ''tenants.delete_failed'']"
  by (simp add: in_words_def text_of_key missing_texts_def, simp add: errors_en_def tenants_en_def)

lemma endpoint_text: "in_words translation_en (Tr (error_key ep))"
  by (cases ep)
     (simp_all add: in_words_def text_of_key missing_texts_def, simp_all add: errors_en_def users_en_def)

lemma adds_in_words:
  "list_all (in_words translation_en) (create_adds e)" "list_all (in_words translation_en) (update_adds e)"
  using tenant_texts by (simp_all add: create_adds_def update_adds_def)

lemma failure_in_words: "list_all (list_all (in_words translation_en)) (failure_texts c e)"
  using tenant_texts endpoint_text by (cases c) (simp_all add: said_in_words adds_in_words)

text \<open>
  Property C29. A failure is reported in words: every error toast a rejecting function of the client
  shows is a non-empty value of the server or a key, and in both languages the key has a text exactly
  when it is not one of the six named keys.
\<close>

theorem failures_are_reported_in_words:
  "(case map_of (io_resources i18n_init) lng of
      None \<Rightarrow> lng \<noteq> ''en'' \<and> lng \<noteq> ''zh''
    | Some res \<Rightarrow> (case run_call be c w of
        (Inl e, w') \<Rightarrow> (\<exists>ts. w_toasts w' = w_toasts w @ ts \<and> list_all (in_words res) (errors_of ts))
      | (Inr x, w') \<Rightarrow> True))"
proof -
  obtain r w' where run: "run_call be c w = (r, w')" by (cases "run_call be c w")
  have "\<exists>ts. w_toasts w' = w_toasts w @ ts \<and> list_all (in_words translation_en) (errors_of ts)" if "r = Inl e" for e
  proof -
    from behavesE [OF behaves_call run] that obtain ts
      where "w_toasts w' = w_toasts w @ ts" "errors_of ts \<in> set (failure_texts c e)" by (metis sum.case(1))
    with failure_in_words [of c e] show ?thesis by (auto simp: list_all_iff)
  qed
  with run show ?thesis by (cases r) (simp_all add: i18n_init_def same_keys)
qed

text \<open>
  The label on a card of the capabilities page and in its dialog exists for every type but that of the
  resource templates; the label of the tab is another key, which exists for all.
\<close>

lemma labels_of_types: "has_text translation_en (''capabilities.'' @ type_key t) \<longleftrightarrow> t \<noteq> CapResourceTemplates"
  by (cases t) (simp_all add: text_of_key, simp_all add: capabilities_en_def)

lemma labels_of_tabs: "list_all (\<lambda>(c, icon, key). has_text translation_en key) capability_tabs"
  by (simp add: capability_tabs_def text_of_key, simp add: capabilities_en_def common_en_def)

text \<open>Texts asked for elsewhere that exist in neither file.\<close>

lemma keys_without_text:
  "list_all (\<lambda>key. \<not> has_text translation_en key)
     [''errors.prefix_conflict'', ''errors.authentication_required'', ''errors.select_tenant_required'',
      ''common.required'', ''capabilities.no_type_capabilities'', ''gateway.drop_file_here'',
      ''gateway.release_to_upload'', ''gateway.env_key_placeholder'', ''gateway.env_value_placeholder'']"
  by (simp add: text_of_key, simp add: errors_en_def common_en_def capabilities_en_def gateway_en_def)

end
