(* ===== verification/Controls.thy ===== *)
theory Controls
  imports Js_Prelude
begin

text \<open>
  What a page shows as a list of controls: each with its label (the key given to the translation
  function), the value it shows and the event it sends, named after the components of the library
  the pages are built of. The locale \<open>text_fields\<close> is the contract of controlled inputs: what is
  entered in a field is taken and shown by it.
\<close>

section \<open>Controls\<close>

datatype 'e control =
    Words string
  | Input string string "string \<Rightarrow> 'e"
  | Select string "string list" "string list" "string \<Rightarrow> 'e"
  | Switch string bool "bool \<Rightarrow> 'e"
  | Button string 'e
  | Chip string 'e
  | On string 'e

section \<open>Runs of events\<close>

text \<open>A run of edits stops at the first that fails.\<close>

fun run_edits :: "('s \<Rightarrow> 'e \<Rightarrow> 's result) \<Rightarrow> 's \<Rightarrow> 'e list \<Rightarrow> 's result" where
  "run_edits f s [] = Inr s"
| "run_edits f s (e # es) = (case f s e of Inl x \<Rightarrow> Inl x | Inr s' \<Rightarrow> run_edits f s' es)"

lemma run_edits_append:
  "run_edits f s (es @ es') = (case run_edits f s es of Inl x \<Rightarrow> Inl x | Inr s' \<Rightarrow> run_edits f s' es')"
  by (induction es arbitrary: s) (auto split: sum.splits)

section \<open>Controlled fields\<close>

text \<open>The values a field sends while \<open>cs\<close> is typed behind the text \<open>v\<close> it shows.\<close>

fun typed :: "string \<Rightarrow> string \<Rightarrow> string list" where
  "typed v [] = []"
| "typed v (c # cs) = (v @ [c]) # typed (v @ [c]) cs"

text \<open>
  \<open>kept\<close> holds of the edits the field takes as they are and that leave it in its place: a field
  that trims its text, or that names the row it stands in, is not such a one.
\<close>

locale text_fields =
  fixes controls :: "'s \<Rightarrow> 'e control list"
    and step :: "'s \<Rightarrow> 'e \<Rightarrow> 's result"
    and kept :: "'e \<Rightarrow> bool"
    and ok :: "'s \<Rightarrow> bool"
  assumes taken: "ok s \<Longrightarrow> Input l v f \<in> set (controls s) \<Longrightarrow> kept (f x) \<Longrightarrow>
    \<exists>s'. step s (f x) = Inr s' \<and> ok s' \<and> Input l x f \<in> set (controls s')"
begin

text \<open>Typing character by character neither fails nor loses a character.\<close>

lemma typing:
  assumes "ok s" "Input l v f \<in> set (controls s)" "list_all (kept \<circ> f) (typed v cs)"
  shows "\<exists>s'. run_edits step s (map f (typed v cs)) = Inr s' \<and> ok s'
    \<and> Input l (v @ cs) f \<in> set (controls s')"
  using assms
proof (induction cs arbitrary: s v)
  case (Cons c cs)
  then obtain s1 where "step s (f (v @ [c])) = Inr s1" "ok s1"
    "Input l (v @ [c]) f \<in> set (controls s1)"
    using taken [OF Cons.prems(1,2), of "v @ [c]"] by auto
  with Cons.IH [of s1 "v @ [c]"] Cons.prems(3) show ?case by simp
qed simp

end

lemma Input_map_control:
  "Input l v f = map_control h c \<longleftrightarrow> (\<exists>f0. c = Input l v f0 \<and> f = h \<circ> f0)"
  by (cases c) auto

lemma in_concat_enumerate:
  "c \<in> set (concat (map h (enumerate 0 xs))) \<longleftrightarrow> (\<exists>i<length xs. c \<in> set (h (i, xs ! i)))"
proof -
  have "set (enumerate 0 xs) = (\<lambda>i. (i, xs ! i)) ` {..<length xs}"
    by (auto simp: in_set_enumerate_eq)
  then show ?thesis by auto
qed

lemma Input_mapped:
  "Input l v f \<in> map_control h ` C \<longleftrightarrow> (\<exists>f0. Input l v f0 \<in> C \<and> f = h \<circ> f0)"
  by (auto simp: image_iff Input_map_control)

end
