(* ===== verification/Form_Edits.thy ===== *)
theory Form_Edits
  imports Prompts_Config Controls
begin

text \<open>
  What a user can do to one entry of the five editors of the configuration form
  (\<open>ToolsConfig.tsx\<close>, \<open>ServersConfig.tsx\<close>, \<open>MCPServersConfig.tsx\<close>, \<open>RouterConfig.tsx\<close> and
  \<open>PromptsConfig.tsx\<close>): every control has an edit, an edit is dispatched to the handler that the
  control is rendered with, and the patch is applied. Beside the handlers, which rebuild whole
  lists, stand the updates of a single entry that they are meant to be. The locale
  \<open>separate_entries\<close> is the contract of an editor of a list: an edit addressed to an entry updates
  that entry and no other.
\<close>

section \<open>Edits of a tool\<close>

datatype arg_edit =
    AE_name string
  | AE_position string
  | AE_type string
  | AE_required bool
  | AE_description string
  | AE_default string
  | AE_items_type string
  | AE_add_property
  | AE_rename_property string string
  | AE_property_type string string
  | AE_property_description string string
  | AE_remove_property string

datatype tool_edit =
    TE_field tool_update
  | TE_header nat header_field string
  | TE_add_header
  | TE_remove_header nat
  | TE_add_argument
  | TE_argument nat arg_edit
  | TE_remove_argument nat

text \<open>The handlers of a schema property close over the property they are rendered for.\<close>

definition rendered_property ::
    "gateway \<Rightarrow> nat \<Rightarrow> nat \<Rightarrow> string \<Rightarrow> (bool \<Rightarrow> property_config \<Rightarrow> patch result) \<Rightarrow> patch result" where
  "rendered_property g ti ai n h =
     (if ti < length (tools_of g) then
        let args = opt_or (tool_args (tools_of g ! ti)) [] in
        if ai < length args then
          (case obj_get (current_properties (args ! ai)) n of
             None \<Rightarrow> Inl (TypeError ''propConfig'')
           | Some c \<Rightarrow> h (arg_type (args ! ai) = ''array'') c)
        else Inl (TypeError ''arg'')
      else Inl (TypeError ''tool.args''))"

fun arg_handler :: "gateway \<Rightarrow> nat \<Rightarrow> nat \<Rightarrow> arg_edit \<Rightarrow> patch result" where
  "arg_handler g ti ai (AE_name v) = set_arg_name g ti ai v"
| "arg_handler g ti ai (AE_position v) = set_arg_position g ti ai v"
| "arg_handler g ti ai (AE_type v) = set_arg_type g ti ai v"
| "arg_handler g ti ai (AE_required b) = set_arg_required g ti ai b"
| "arg_handler g ti ai (AE_description v) = set_arg_description g ti ai v"
| "arg_handler g ti ai (AE_default v) = set_arg_default g ti ai v"
| "arg_handler g ti ai (AE_items_type v) = set_items_type g ti ai v"
| "arg_handler g ti ai AE_add_property =
     (if ti < length (tools_of g)
         \<and> ai < length (opt_or (tool_args (tools_of g ! ti)) [])
         \<and> arg_type (opt_or (tool_args (tools_of g ! ti)) [] ! ai) = ''array''
      then array_add_property g ti ai else object_add_property g ti ai)"
| "arg_handler g ti ai (AE_rename_property n v) = rendered_property g ti ai n (\<lambda>arr c.
     if arr then array_rename_property g ti ai n c v else object_rename_property g ti ai n c v)"
| "arg_handler g ti ai (AE_property_type n v) = rendered_property g ti ai n (\<lambda>arr c.
     if arr then array_property_type g ti ai n c v else object_property_type g ti ai n c v)"
| "arg_handler g ti ai (AE_property_description n v) = rendered_property g ti ai n (\<lambda>arr c.
     if arr then array_property_description g ti ai n c v
     else object_property_description g ti ai n c v)"
| "arg_handler g ti ai (AE_remove_property n) = rendered_property g ti ai n (\<lambda>arr c.
     if arr then array_remove_property g ti ai n else object_remove_property g ti ai n)"

fun tool_handler :: "gateway \<Rightarrow> nat \<Rightarrow> tool_edit \<Rightarrow> patch result" where
  "tool_handler g i (TE_field u) = updateTool g i u"
| "tool_handler g i (TE_header j f v) = updateHeader g i j f v"
| "tool_handler g i TE_add_header = addHeader g i"
| "tool_handler g i (TE_remove_header j) = removeHeader g i j"
| "tool_handler g i TE_add_argument = add_argument g i"
| "tool_handler g i (TE_argument j e) = arg_handler g i j e"
| "tool_handler g i (TE_remove_argument j) = remove_argument g i j"

text \<open>The same edits on the tool alone.\<close>

definition on_property :: "string \<Rightarrow> (property_config \<Rightarrow> arg_config) \<Rightarrow> arg_config \<Rightarrow> arg_config result" where
  "on_property n h a =
     (case obj_get (current_properties a) n of
        None \<Rightarrow> Inl (TypeError ''propConfig'') | Some c \<Rightarrow> Inr (h c))"

fun arg_upd :: "arg_config \<Rightarrow> arg_edit \<Rightarrow> arg_config result" where
  "arg_upd a (AE_name v) = Inr (a\<lparr>arg_name := v\<rparr>)"
| "arg_upd a (AE_position v) = Inr (a\<lparr>arg_position := v\<rparr>)"
| "arg_upd a (AE_type v) = Inr (a\<lparr>arg_type := v\<rparr>)"
| "arg_upd a (AE_required b) = Inr (a\<lparr>arg_required := b\<rparr>)"
| "arg_upd a (AE_description v) = Inr (a\<lparr>arg_description := v\<rparr>)"
| "arg_upd a (AE_default v) = Inr (a\<lparr>arg_default := v\<rparr>)"
| "arg_upd a (AE_items_type v) = Inr (a\<lparr>arg_items := Some (items_with_type (arg_items a) v)\<rparr>)"
| "arg_upd a AE_add_property = Inr (arg_add_property a)"
| "arg_upd a (AE_rename_property n v) = on_property n (\<lambda>c. arg_rename_property n c v a) a"
| "arg_upd a (AE_property_type n v) = on_property n (\<lambda>c. arg_property_type n c v a) a"
| "arg_upd a (AE_property_description n v) = on_property n (\<lambda>c. arg_property_description n c v a) a"
| "arg_upd a (AE_remove_property n) = on_property n (\<lambda>c. arg_remove_property n a) a"

abbreviation args_of :: "tool_config \<Rightarrow> arg_config list" where
  "args_of t \<equiv> opt_or (tool_args t) []"

abbreviation put_args :: "tool_config \<Rightarrow> arg_config list \<Rightarrow> tool_config" where
  "put_args t as \<equiv> t\<lparr>tool_args := Some as\<rparr>"

definition new_argument :: arg_config where
  "new_argument = \<lparr>arg_name = [], arg_position = ''body'', arg_required = False,
     arg_type = ''string'', arg_description = [], arg_default = [], arg_items = None\<rparr>"

fun tool_upd :: "tool_config \<Rightarrow> tool_edit \<Rightarrow> tool_config result" where
  "tool_upd t (TE_field u) = Inr (set_tool_field t u)"
| "tool_upd t (TE_header j f v) = header_update t j f v"
| "tool_upd t TE_add_header = Inr (header_add t)"
| "tool_upd t (TE_remove_header j) = Inr (header_remove t j)"
| "tool_upd t TE_add_argument = Inr (put_args t (args_of t @ [new_argument]))"
| "tool_upd t (TE_argument j e) =
     (if j < length (args_of t) then
        (case arg_upd (args_of t ! j) e of
           Inl x \<Rightarrow> Inl x | Inr a \<Rightarrow> Inr (put_args t ((args_of t)[j := a])))
      else Inl (TypeError ''arg''))"
| "tool_upd t (TE_remove_argument j) = Inr (put_args t (splice1 (args_of t) j))"

section \<open>Edits of the other entries\<close>

datatype server_edit = SE_field server_field string | SE_close_tool nat | SE_add_tool string

fun server_handler :: "gateway \<Rightarrow> nat \<Rightarrow> server_edit \<Rightarrow> patch option result" where
  "server_handler g i (SE_field f v) = map_sum id Some (updateServer g i f v)"
| "server_handler g i (SE_close_tool j) = map_sum id Some (close_tool_chip g i j)"
| "server_handler g i (SE_add_tool n) = press_add_tool g i n"

fun server_upd :: "server_config \<Rightarrow> server_edit \<Rightarrow> server_config" where
  "server_upd s (SE_field f v) = set_server_field s f v"
| "server_upd s (SE_close_tool j) = s\<lparr>srv_allowedTools := Some (splice1 (allowed_of s) j)\<rparr>"
| "server_upd s (SE_add_tool n) =
     (if n \<noteq> [] \<and> n \<notin> set (allowed_of s)
      then s\<lparr>srv_allowedTools := Some (allowed_of s @ [n])\<rparr> else s)"

datatype mcp_edit =
    ME_field mcp_update
  | ME_env nat env_field string
  | ME_add_env
  | ME_remove_env nat

fun mcp_handler :: "gateway \<Rightarrow> nat \<Rightarrow> mcp_edit \<Rightarrow> patch result" where
  "mcp_handler g i (ME_field u) = mcp_updateServer g i u"
| "mcp_handler g i (ME_env j f v) = updateEnvVariable g i j f v"
| "mcp_handler g i ME_add_env = addEnvVariable g i"
| "mcp_handler g i (ME_remove_env j) = removeEnvVariable g i j"

definition upd_env :: "(string obj \<Rightarrow> string obj result) \<Rightarrow> mcp_server \<Rightarrow> mcp_server result" where
  "upd_env f s = map_sum id (\<lambda>env. s\<lparr>ms_env := Some env\<rparr>) (f (env_of s))"

fun mcp_upd :: "mcp_server \<Rightarrow> mcp_edit \<Rightarrow> mcp_server result" where
  "mcp_upd s (ME_field u) = Inr (set_mcp_field s u)"
| "mcp_upd s (ME_env j f v) = upd_env (\<lambda>env. env_update env j f v) s"
| "mcp_upd s ME_add_env = upd_env (\<lambda>env. Inr (env_add env)) s"
| "mcp_upd s (ME_remove_env j) = upd_env (\<lambda>env. Inr (env_remove env j)) s"

datatype router_edit =
    RE_prefix string
  | RE_server string
  | RE_ssePrefix string
  | RE_cors bool
  | RE_add_cors cors_field string
  | RE_remove_cors cors_field nat
  | RE_credentials bool
  | RE_auth bool

text \<open>The CORS handlers are those of the router's \<open>cors\<close> object, rendered only with one.\<close>

definition with_cors :: "gateway \<Rightarrow> nat \<Rightarrow> (cors_config \<Rightarrow> patch option) \<Rightarrow> patch option result" where
  "with_cors g i h =
     (if i < length (routers_shown g) then
        (case rt_cors (routers_shown g ! i) of
           None \<Rightarrow> Inl (TypeError ''router.cors'') | Some c \<Rightarrow> Inr (h c))
      else Inl (TypeError ''router.cors''))"

fun router_handler :: "tenant list \<Rightarrow> gateway \<Rightarrow> nat \<Rightarrow> router_edit \<Rightarrow> patch option result" where
  "router_handler ts g i (RE_prefix v) = map_sum id Some (change_prefix g ts i v)"
| "router_handler ts g i (RE_server v) = map_sum id Some (change_server g i v)"
| "router_handler ts g i (RE_ssePrefix v) = map_sum id Some (change_sse_prefix g i v)"
| "router_handler ts g i (RE_cors b) =
     (if i < length (routers_shown g) then map_sum id Some (toggle_cors g i b)
      else Inl (TypeError ''router.cors''))"
| "router_handler ts g i (RE_add_cors f v) = with_cors g i (\<lambda>c. addCorsItem g i c f v)"
| "router_handler ts g i (RE_remove_cors f j) = with_cors g i (\<lambda>c. Some (removeCorsItem g i c f j))"
| "router_handler ts g i (RE_credentials b) = with_cors g i (\<lambda>c. Some (set_credentials g i c b))"
| "router_handler ts g i (RE_auth b) = map_sum id Some (toggle_auth g i b)"

definition upd_cors :: "(cors_config \<Rightarrow> cors_config) \<Rightarrow> router_config \<Rightarrow> router_config result" where
  "upd_cors f r =
     (case rt_cors r of
        None \<Rightarrow> Inl (TypeError ''router.cors'') | Some c \<Rightarrow> Inr (r\<lparr>rt_cors := Some (f c)\<rparr>))"

definition plus_cors :: "cors_field \<Rightarrow> string \<Rightarrow> cors_config \<Rightarrow> cors_config" where
  "plus_cors f v c =
     (if trim v \<noteq> [] \<and> trim v \<notin> set (cors_values c f)
      then set_cors_values f (cors_values c f @ [trim v]) c else c)"

text \<open>\<open>prefix\<close> is the text of the selected tenant's prefix.\<close>

fun router_upd :: "string \<Rightarrow> router_config \<Rightarrow> router_edit \<Rightarrow> router_config result" where
  "router_upd prefix r (RE_prefix v) = Inr (r\<lparr>rt_prefix := prefix @ trim v\<rparr>)"
| "router_upd prefix r (RE_server v) = Inr (r\<lparr>rt_server := v\<rparr>)"
| "router_upd prefix r (RE_ssePrefix v) = Inr (r\<lparr>rt_ssePrefix := Some (trim v)\<rparr>)"
| "router_upd prefix r (RE_cors b) = Inr (r\<lparr>rt_cors := if b then Some default_cors else None\<rparr>)"
| "router_upd prefix r (RE_add_cors f v) = upd_cors (plus_cors f v) r"
| "router_upd prefix r (RE_remove_cors f j) =
     upd_cors (\<lambda>c. set_cors_values f (splice1 (cors_values c f) j) c) r"
| "router_upd prefix r (RE_credentials b) = upd_cors (\<lambda>c. c\<lparr>cors_allowCredentials := b\<rparr>) r"
| "router_upd prefix r (RE_auth b) =
     Inr (r\<lparr>rt_auth := if b then Some \<lparr>auth_mode = ''oauth2''\<rparr> else None\<rparr>)"

datatype prompt_edit =
    PE_field prompt_field string
  | PE_argument nat arg_update
  | PE_add_argument
  | PE_remove_argument nat
  | PE_add_response
  | PE_role nat string
  | PE_type nat string
  | PE_text nat string
  | PE_remove_response nat

fun prompt_handler :: "gateway \<Rightarrow> nat \<Rightarrow> prompt_edit \<Rightarrow> patch result" where
  "prompt_handler g i (PE_field f v) = updatePrompt g i f v"
| "prompt_handler g i (PE_argument j u) = updateArgument g i j u"
| "prompt_handler g i PE_add_argument = addArgument g i"
| "prompt_handler g i (PE_remove_argument j) = removeArgument g i j"
| "prompt_handler g i PE_add_response = add_response g i"
| "prompt_handler g i (PE_role j v) = set_response_role g i j v"
| "prompt_handler g i (PE_type j v) = set_response_type g i j v"
| "prompt_handler g i (PE_text j v) = set_response_text g i j v"
| "prompt_handler g i (PE_remove_response j) = remove_response g i j"

definition upd_response ::
    "nat \<Rightarrow> (prompt_response \<Rightarrow> prompt_response) \<Rightarrow> prompt_config \<Rightarrow> prompt_config result" where
  "upd_response j f p =
     (if j < length (responses_of p)
      then Inr (p\<lparr>pmt_response := Some ((responses_of p)[j := f (responses_of p ! j)])\<rparr>)
      else Inl (IllTyped ''promptResponse[retIdx]''))"

fun prompt_upd :: "prompt_config \<Rightarrow> prompt_edit \<Rightarrow> prompt_config result" where
  "prompt_upd p (PE_field f v) = Inr (set_prompt_field p f v)"
| "prompt_upd p (PE_argument j u) =
     (if j < length (arguments_of p)
      then Inr (p\<lparr>pmt_arguments :=
        Some ((arguments_of p)[j := set_argument_field (arguments_of p ! j) u])\<rparr>)
      else Inl (IllTyped ''updatedArgs[argIndex]''))"
| "prompt_upd p PE_add_argument = Inr (p\<lparr>pmt_arguments := Some (arguments_of p @
     [\<lparr>pa_name = [], pa_description = [], pa_required = False\<rparr>])\<rparr>)"
| "prompt_upd p (PE_remove_argument j) =
     Inr (p\<lparr>pmt_arguments := Some (splice1 (arguments_of p) j)\<rparr>)"
| "prompt_upd p PE_add_response = Inr (p\<lparr>pmt_response := Some (responses_of p @ [blank_response])\<rparr>)"
| "prompt_upd p (PE_role j v) = upd_response j (\<lambda>r. r\<lparr>resp_role := v\<rparr>) p"
| "prompt_upd p (PE_type j v) =
     upd_response j (\<lambda>r. r\<lparr>resp_content := (resp_content r)\<lparr>pc_type := v\<rparr>\<rparr>) p"
| "prompt_upd p (PE_text j v) =
     upd_response j (\<lambda>r. r\<lparr>resp_content := (resp_content r)\<lparr>pc_text := v\<rparr>\<rparr>) p"
| "prompt_upd p (PE_remove_response j) =
     Inr (p\<lparr>pmt_response := Some (splice1 (responses_of p) j)\<rparr>)"

section \<open>Edits of the whole form\<close>

datatype form_edit =
    On_tool nat tool_edit
  | On_server nat server_edit
  | On_mcp nat mcp_edit
  | On_router nat router_edit
  | On_prompt nat prompt_edit

fun form_handler :: "tenant list \<Rightarrow> gateway \<Rightarrow> form_edit \<Rightarrow> patch option result" where
  "form_handler ts g (On_tool i e) = map_sum id Some (tool_handler g i e)"
| "form_handler ts g (On_server i e) = server_handler g i e"
| "form_handler ts g (On_mcp i e) = map_sum id Some (mcp_handler g i e)"
| "form_handler ts g (On_router i e) = router_handler ts g i e"
| "form_handler ts g (On_prompt i e) = map_sum id Some (prompt_handler g i e)"

definition form_step :: "tenant list \<Rightarrow> gateway \<Rightarrow> form_edit \<Rightarrow> gateway result" where
  "form_step ts g e =
     map_sum id (\<lambda>p. case p of None \<Rightarrow> g | Some p \<Rightarrow> apply_patch g p) (form_handler ts g e)"

text \<open>The edits of a run that are addressed to the \<open>j\<close>-th entry.\<close>

fun edits_of :: "('e \<Rightarrow> (nat \<times> 'c) option) \<Rightarrow> nat \<Rightarrow> 'e list \<Rightarrow> 'c list" where
  "edits_of addr j [] = []"
| "edits_of addr j (e # es) = (case addr e of
     None \<Rightarrow> edits_of addr j es | Some (i, c) \<Rightarrow> (if i = j then [c] else []) @ edits_of addr j es)"

section \<open>Lists whose entries are edited separately\<close>

text \<open>
  \<open>look\<close> is what is seen of the list, \<open>addressed\<close> the entry an edit is for, if it is one of the
  list, and \<open>upd\<close> the edit on that entry alone.
\<close>

locale separate_entries =
  fixes step :: "'s \<Rightarrow> 'e \<Rightarrow> 's result"
    and look :: "'s \<Rightarrow> 'v list"
    and addressed :: "'e \<Rightarrow> (nat \<times> 'c) option"
    and upd :: "'v \<Rightarrow> 'c \<Rightarrow> 'v result"
  assumes own: "step s e = Inr s' \<Longrightarrow> addressed e = Some (i, c) \<Longrightarrow>
      i < length (look s) \<and> (\<exists>v. upd (look s ! i) c = Inr v \<and> look s' = (look s)[i := v])"
    and other: "step s e = Inr s' \<Longrightarrow> addressed e = None \<Longrightarrow> look s' = look s"
begin

lemma step_entry:
  assumes "step s e = Inr s'"
  shows "length (look s') = length (look s)
    \<and> (j < length (look s) \<longrightarrow>
        run_edits upd (look s ! j) (edits_of addressed j [e]) = Inr (look s' ! j))"
proof (cases "addressed e")
  case None
  with other [OF assms] show ?thesis by simp
next
  case (Some ic)
  obtain i c where "ic = (i, c)" by (cases ic)
  with own [OF assms] Some show ?thesis by (fastforce simp: nth_list_update)
qed

text \<open>Whatever the edits and their order, an entry has become what its own edits make of it.\<close>

lemma entry_has_its_own_edits:
  assumes "run_edits step s es = Inr s'"
  shows "length (look s') = length (look s)
    \<and> (j < length (look s) \<longrightarrow>
        run_edits upd (look s ! j) (edits_of addressed j es) = Inr (look s' ! j))"
  using assms
proof (induction es arbitrary: s)
  case (Cons e es)
  then obtain s1 where 1: "step s e = Inr s1" and 2: "run_edits step s1 es = Inr s'"
    by (auto split: sum.splits)
  have *: "edits_of addressed j (e # es) = edits_of addressed j [e] @ edits_of addressed j es"
    by (auto split: option.splits)
  from step_entry [OF 1, of j] Cons.IH [OF 2] show ?case
    by (simp only: * run_edits_append) simp
qed simp

lemma entries_edited:
  assumes "run_edits step s es = Inr s'"
  shows "map (\<lambda>j. run_edits upd (look s ! j) (edits_of addressed j es)) [0..<length (look s)]
    = map Inr (look s')"
  by (rule nth_equalityI) (use entry_has_its_own_edits [OF assms] in auto)

text \<open>So two interleavings of the same edits of every entry show the same list.\<close>

lemma interleavings_agree:
  assumes "run_edits step s es = Inr s1" "run_edits step s es' = Inr s2"
    and "\<And>j. edits_of addressed j es = edits_of addressed j es'"
  shows "look s1 = look s2"
proof (rule nth_equalityI)
  show len: "length (look s1) = length (look s2)"
    using entry_has_its_own_edits [OF assms(1)] entry_has_its_own_edits [OF assms(2)] by simp
  fix j assume "j < length (look s1)"
  then show "look s1 ! j = look s2 ! j"
    using entry_has_its_own_edits [OF assms(1), of j] entry_has_its_own_edits [OF assms(2), of j] assms(3)
    by simp
qed

end

section \<open>The handlers are the updates of the entry\<close>

text \<open>What an edit leaves alone: every list but its own, up to the references a renaming
  rewrites.\<close>

definition without_tools :: "server_config \<Rightarrow> server_config" where
  "without_tools s = s\<lparr>srv_allowedTools := None\<rparr>"

definition without_server :: "router_config \<Rightarrow> router_config" where
  "without_server r = r\<lparr>rt_server := []\<rparr>"

definition patched :: "gateway \<Rightarrow> patch option \<Rightarrow> gateway" where
  "patched g p = (case p of None \<Rightarrow> g | Some p \<Rightarrow> apply_patch g p)"

lemma form_step_patched: "form_step ts g e = map_sum id (patched g) (form_handler ts g e)"
  by (simp add: form_step_def patched_def [abs_def])

lemma map_sum_Inr [simp]: "map_sum id f r = Inr y \<longleftrightarrow> (\<exists>x. r = Inr x \<and> y = f x)"
  by (cases r) auto

lemma without_tools_rename [simp]: "without_tools (rename_allowed old new s) = without_tools s"
  by (simp add: without_tools_def rename_allowed_def split: option.splits)

lemma without_server_redirect [simp]: "without_server (redirect_router old new r) = without_server r"
  by (simp add: without_server_def redirect_router_def)

text \<open>The parts of a configuration the five editors show.\<close>

lemmas shown_defs = servers_shown_def mcp_servers_shown_def routers_shown_def
  prompts_shown_def

lemmas patch_defs = apply_patch_def over_def no_patch_def

lemma updateTool_upd:
  assumes "updateTool g i u = Inr p"
  shows "i < length (tools_of g)
    \<and> tools_of (apply_patch g p) = (tools_of g)[i := set_tool_field (tools_of g ! i) u]"
  using assms by (auto simp: updateTool_def Let_def patch_defs opt_or_def
      split: if_splits option.splits tool_update.splits)

lemma with_arg_upd:
  assumes "with_arg g i j f = Inr p"
  shows "i < length (tools_of g) \<and> j < length (args_of (tools_of g ! i))
    \<and> tools_of (apply_patch g p) = (tools_of g)[i := put_args (tools_of g ! i)
        ((args_of (tools_of g ! i))[j := f (args_of (tools_of g ! i) ! j)])]"
  using assms by (auto simp: with_arg_def Let_def dest!: updateTool_upd split: if_splits)

lemmas arg_handler_defs = set_arg_name_def set_arg_position_def set_arg_type_def
  set_arg_required_def set_arg_description_def set_arg_default_def set_items_type_def
  array_add_property_def object_add_property_def array_rename_property_def
  object_rename_property_def array_property_type_def object_property_type_def
  array_property_description_def object_property_description_def array_remove_property_def
  object_remove_property_def

lemma arg_handler_with_arg:
  assumes "arg_handler g i j e = Inr p"
  shows "\<exists>f. with_arg g i j f = Inr p
    \<and> (i < length (tools_of g) \<longrightarrow> j < length (args_of (tools_of g ! i)) \<longrightarrow>
        arg_upd (args_of (tools_of g ! i) ! j) e = Inr (f (args_of (tools_of g ! i) ! j)))"
  using assms
  by (cases e) (auto simp: arg_handler_defs rendered_property_def on_property_def Let_def
      split: if_splits option.splits)

lemma replace_tool_upd:
  assumes "replace_tool g i f = Inr p"
  shows "i < length (tools_of g) \<and> (\<exists>t. f (tools_of g ! i) = Inr t
    \<and> tools_of (apply_patch g p) = (tools_of g)[i := t])"
  using assms by (auto simp: replace_tool_def Let_def patch_defs opt_or_def
      split: if_splits sum.splits)

lemma tool_handler_upd:
  assumes "tool_handler g i e = Inr p"
  shows "i < length (tools_of g) \<and> (\<exists>t. tool_upd (tools_of g ! i) e = Inr t
    \<and> tools_of (apply_patch g p) = (tools_of g)[i := t])"
proof (cases e)
  case (TE_argument j a)
  with assms obtain f where f: "with_arg g i j f = Inr p"
    and u: "i < length (tools_of g) \<longrightarrow> j < length (args_of (tools_of g ! i)) \<longrightarrow>
        arg_upd (args_of (tools_of g ! i) ! j) a = Inr (f (args_of (tools_of g ! i) ! j))"
    by (auto dest!: arg_handler_with_arg)
  with with_arg_upd [OF f] TE_argument show ?thesis by auto
qed (use assms in \<open>auto simp: updateHeader_def addHeader_def removeHeader_def add_argument_def
    remove_argument_def new_argument_def dest!: updateTool_upd replace_tool_upd split: if_splits\<close>)

lemma server_handler_upd:
  assumes "server_handler g i e = Inr p"
  shows "i < length (servers_shown g)
    \<and> servers_shown (patched g p) = (servers_shown g)[i := server_upd (servers_shown g ! i) e]"
  using assms
  by (cases e) (auto simp: updateServer_def close_tool_chip_def press_add_tool_def Let_def
      servers_shown_def patched_def patch_defs opt_or_def map_index_update
      split: if_splits option.splits)

lemma with_env_upd:
  assumes "with_env g i f = Inr p"
  shows "i < length (mcp_servers_shown g) \<and> (\<exists>s. upd_env f (mcp_servers_shown g ! i) = Inr s
    \<and> mcp_servers_shown (apply_patch g p) = (mcp_servers_shown g)[i := s])"
  using assms by (auto simp: with_env_def upd_env_def Let_def mcp_servers_shown_def patch_defs
      opt_or_def split: if_splits sum.splits)

lemma mcp_updateServer_upd:
  assumes "mcp_updateServer g i u = Inr p"
  shows "i < length (mcp_servers_shown g) \<and> mcp_servers_shown (apply_patch g p)
    = (mcp_servers_shown g)[i := set_mcp_field (mcp_servers_shown g ! i) u]"
  using assms by (auto simp: mcp_updateServer_def Let_def mcp_servers_shown_def patch_defs opt_or_def
      split: if_splits option.splits mcp_update.splits)

lemma mcp_handler_upd:
  assumes "mcp_handler g i e = Inr p"
  shows "i < length (mcp_servers_shown g) \<and> (\<exists>s. mcp_upd (mcp_servers_shown g ! i) e = Inr s
    \<and> mcp_servers_shown (apply_patch g p) = (mcp_servers_shown g)[i := s])"
  using assms by (cases e) (auto simp: updateEnvVariable_def addEnvVariable_def removeEnvVariable_def
      dest!: with_env_upd mcp_updateServer_upd)

definition selected_prefix :: "tenant list \<Rightarrow> gateway \<Rightarrow> string" where
  "selected_prefix ts g = tenant_prefix_text (selectedTenant g ts)"

lemma same_cors [simp]: "rt_cors r = Some c \<Longrightarrow> r\<lparr>rt_cors := Some c\<rparr> = r"
  by (cases r) simp

lemma router_handler_upd:
  assumes "router_handler ts g i e = Inr p"
  shows "i < length (routers_shown g)
    \<and> (\<exists>r. router_upd (selected_prefix ts g) (routers_shown g ! i) e = Inr r
        \<and> routers_shown (patched g p) = (routers_shown g)[i := r])"
  using assms
  by (cases e) (auto simp: change_prefix_def change_server_def change_sse_prefix_def updateRouter_def
      toggle_cors_def toggle_auth_def with_cors_def addCorsItem_def removeCorsItem_def updateCors_def
      upd_cors_def plus_cors_def set_credentials_def filter_index_splice1 selected_prefix_def Let_def
      patched_def map_index_update split: if_splits option.splits)

lemma with_prompt_upd:
  assumes "with_prompt g i f = Inr p"
  shows "i < length (prompts_shown g) \<and> (\<exists>q. f (prompts_shown g ! i) = Inr q
    \<and> prompts_shown (apply_patch g p) = (prompts_shown g)[i := q])"
  using assms by (auto simp: with_prompt_def put_prompts_def Let_def prompts_shown_def patch_defs
      opt_or_def split: if_splits sum.splits)

lemma prompt_handler_upd:
  assumes "prompt_handler g i e = Inr p"
  shows "i < length (prompts_shown g) \<and> (\<exists>q. prompt_upd (prompts_shown g ! i) e = Inr q
    \<and> prompts_shown (apply_patch g p) = (prompts_shown g)[i := q])"
  using assms by (cases e) (auto simp: updatePrompt_def updateArgument_def addArgument_def
      removeArgument_def add_response_def with_response_def set_response_role_def
      set_response_type_def set_response_text_def remove_response_def upd_response_def Let_def
      dest!: with_prompt_upd split: if_splits)

section \<open>What the handlers leave alone\<close>

definition only_tools :: "gateway \<Rightarrow> patch \<Rightarrow> bool" where
  "only_tools g p \<longleftrightarrow> p_name p = None \<and> p_tenant p = None \<and> p_mcpServers p = None
     \<and> p_prompts p = None \<and> p_routers p = None
     \<and> map without_tools (opt_or (p_servers p) (servers_shown g)) = map without_tools (servers_shown g)"

definition only_servers :: "gateway \<Rightarrow> patch \<Rightarrow> bool" where
  "only_servers g p \<longleftrightarrow> p_name p = None \<and> p_tenant p = None \<and> p_tools p = None \<and> p_prompts p = None
     \<and> map without_server (opt_or (p_routers p) (routers_shown g)) = map without_server (routers_shown g)"

lemma updateTool_only: "updateTool g i u = Inr p \<Longrightarrow> only_tools g p"
  by (auto simp: updateTool_def only_tools_def no_patch_def servers_shown_def opt_or_def
      Let_def split: if_splits option.splits tool_update.splits)

lemma replace_tool_only: "replace_tool g i f = Inr p \<Longrightarrow> only_tools g p"
  by (auto simp: replace_tool_def only_tools_def no_patch_def opt_or_def Let_def split: if_splits sum.splits)

lemma tool_handler_only: "tool_handler g i e = Inr p \<Longrightarrow> only_tools g p"
  by (cases e) (auto simp: updateHeader_def addHeader_def removeHeader_def add_argument_def
      remove_argument_def with_arg_def Let_def dest!: arg_handler_with_arg
      intro: updateTool_only replace_tool_only split: if_splits)

lemma server_handler_only:
  "server_handler g i e = Inr (Some p) \<Longrightarrow> only_servers g p \<and> p_mcpServers p = None"
  by (cases e) (auto simp: updateServer_def close_tool_chip_def press_add_tool_def only_servers_def
      no_patch_def routers_shown_def opt_or_def Let_def split: if_splits option.splits)

lemma mcp_handler_only: "mcp_handler g i e = Inr p \<Longrightarrow> only_servers g p \<and> p_servers p = None"
  by (cases e) (auto simp: mcp_updateServer_def updateEnvVariable_def addEnvVariable_def
      removeEnvVariable_def with_env_def only_servers_def no_patch_def routers_shown_def opt_or_def Let_def
      split: if_splits option.splits mcp_update.splits sum.splits)

lemma router_handler_only:
  "router_handler ts g i e = Inr (Some p) \<Longrightarrow> \<exists>rs. p = no_patch\<lparr>p_routers := Some rs\<rparr>"
  by (cases e) (auto simp: change_prefix_def change_server_def change_sse_prefix_def updateRouter_def
      toggle_cors_def toggle_auth_def with_cors_def addCorsItem_def removeCorsItem_def updateCors_def
      set_credentials_def Let_def split: if_splits option.splits)

lemma prompt_handler_only: "prompt_handler g i e = Inr p \<Longrightarrow> \<exists>ps. p = put_prompts ps"
  by (cases e) (auto simp: updatePrompt_def updateArgument_def addArgument_def
      removeArgument_def add_response_def with_response_def set_response_role_def
      set_response_type_def set_response_text_def remove_response_def with_prompt_def Let_def
      split: if_splits sum.splits)

text \<open>The edits of a run by the list they are for.\<close>

fun tool_part :: "form_edit \<Rightarrow> (nat \<times> tool_edit) option" where
  "tool_part (On_tool i e) = Some (i, e)" | "tool_part _ = None"

fun server_part :: "form_edit \<Rightarrow> (nat \<times> server_edit) option" where
  "server_part (On_server i e) = Some (i, e)" | "server_part _ = None"

fun mcp_part :: "form_edit \<Rightarrow> (nat \<times> mcp_edit) option" where
  "mcp_part (On_mcp i e) = Some (i, e)" | "mcp_part _ = None"

fun router_part :: "form_edit \<Rightarrow> (nat \<times> router_edit) option" where
  "router_part (On_router i e) = Some (i, e)" | "router_part _ = None"

fun prompt_part :: "form_edit \<Rightarrow> (nat \<times> prompt_edit) option" where
  "prompt_part (On_prompt i e) = Some (i, e)" | "prompt_part _ = None"

lemma patched_shown:
  "tools_of (patched g p) = (case p of Some q \<Rightarrow> opt_or (p_tools q) (tools_of g) | None \<Rightarrow> tools_of g)"
  "servers_shown (patched g p) =
     (case p of Some q \<Rightarrow> opt_or (p_servers q) (servers_shown g) | None \<Rightarrow> servers_shown g)"
  "mcp_servers_shown (patched g p) =
     (case p of Some q \<Rightarrow> opt_or (p_mcpServers q) (mcp_servers_shown g) | None \<Rightarrow> mcp_servers_shown g)"
  "routers_shown (patched g p) =
     (case p of Some q \<Rightarrow> opt_or (p_routers q) (routers_shown g) | None \<Rightarrow> routers_shown g)"
  "prompts_shown (patched g p) =
     (case p of Some q \<Rightarrow> opt_or (p_prompts q) (prompts_shown g) | None \<Rightarrow> prompts_shown g)"
  "gw_tenant (patched g p) =
     (case p of Some q \<Rightarrow> opt_or (p_tenant q) (gw_tenant g) | None \<Rightarrow> gw_tenant g)"
  by (auto simp: patched_def patch_defs shown_defs opt_or_def split: option.splits)

lemma form_frame:
  assumes "form_handler ts g e = Inr p"
  shows "gw_tenant (patched g p) = gw_tenant g"
    "tool_part e = None \<Longrightarrow> tools_of (patched g p) = tools_of g"
    "mcp_part e = None \<Longrightarrow> mcp_servers_shown (patched g p) = mcp_servers_shown g"
    "prompt_part e = None \<Longrightarrow> prompts_shown (patched g p) = prompts_shown g"
    "server_part e = None \<Longrightarrow>
       map without_tools (servers_shown (patched g p)) = map without_tools (servers_shown g)"
    "router_part e = None \<Longrightarrow>
       map without_server (routers_shown (patched g p)) = map without_server (routers_shown g)"
proof -
  consider (tool) i x q where "e = On_tool i x" "p = Some q" "only_tools g q"
    | (server) i x q where "e = On_server i x" "p = Some q" "only_servers g q" "p_mcpServers q = None"
    | (mcp) i x q where "e = On_mcp i x" "p = Some q" "only_servers g q" "p_servers q = None"
    | (router) i x rs where "e = On_router i x" "p = Some (no_patch\<lparr>p_routers := Some rs\<rparr>)"
    | (prompt) i x ps where "e = On_prompt i x" "p = Some (put_prompts ps)"
    | (nothing) "p = None"
    using assms by (cases e; cases p)
      (auto dest: tool_handler_only server_handler_only mcp_handler_only router_handler_only
        prompt_handler_only)
  note frames = this
  have opt [simp]: "opt_or None d = d" "opt_or (Some v) d = v" for d v :: "'z" by (simp_all add: opt_or_def)
  note defs = patched_shown only_tools_def only_servers_def no_patch_def put_prompts_def
  show "gw_tenant (patched g p) = gw_tenant g"
    by (rule frames) (simp_all add: defs)
  show "tool_part e = None \<Longrightarrow> tools_of (patched g p) = tools_of g"
    by (rule frames) (simp_all add: defs)
  show "mcp_part e = None \<Longrightarrow> mcp_servers_shown (patched g p) = mcp_servers_shown g"
    by (rule frames) (simp_all add: defs)
  show "prompt_part e = None \<Longrightarrow> prompts_shown (patched g p) = prompts_shown g"
    by (rule frames) (simp_all add: defs)
  show "server_part e = None \<Longrightarrow>
      map without_tools (servers_shown (patched g p)) = map without_tools (servers_shown g)"
    by (rule frames) (simp_all add: defs)
  show "router_part e = None \<Longrightarrow>
      map without_server (routers_shown (patched g p)) = map without_server (routers_shown g)"
    by (rule frames) (simp_all add: defs)
qed

section \<open>Every editor edits its entries separately\<close>

lemma form_stepD: "form_step ts g e = Inr g' \<Longrightarrow> \<exists>p. form_handler ts g e = Inr p \<and> g' = patched g p"
  by (auto simp: form_step_patched)

lemma patched_Some [simp]: "patched g (Some p) = apply_patch g p"
  by (simp add: patched_def)

interpretation te: separate_entries "form_step ts" tools_of tool_part tool_upd for ts
proof
  fix g e g' i c
  assume "form_step ts g e = Inr g'" "tool_part e = Some (i, c)"
  then show "i < length (tools_of g) \<and> (\<exists>t. tool_upd (tools_of g ! i) c = Inr t
      \<and> tools_of g' = (tools_of g)[i := t])"
    by (cases e) (auto dest!: form_stepD tool_handler_upd)
qed (auto dest!: form_stepD form_frame(2))

interpretation me: separate_entries "form_step ts" mcp_servers_shown mcp_part mcp_upd for ts
proof
  fix g e g' i c
  assume "form_step ts g e = Inr g'" "mcp_part e = Some (i, c)"
  then show "i < length (mcp_servers_shown g) \<and> (\<exists>s. mcp_upd (mcp_servers_shown g ! i) c = Inr s
      \<and> mcp_servers_shown g' = (mcp_servers_shown g)[i := s])"
    by (cases e) (auto dest!: form_stepD mcp_handler_upd)
qed (auto dest!: form_stepD form_frame(3))

interpretation pe: separate_entries "form_step ts" prompts_shown prompt_part prompt_upd for ts
proof
  fix g e g' i c
  assume "form_step ts g e = Inr g'" "prompt_part e = Some (i, c)"
  then show "i < length (prompts_shown g) \<and> (\<exists>q. prompt_upd (prompts_shown g ! i) c = Inr q
      \<and> prompts_shown g' = (prompts_shown g)[i := q])"
    by (cases e) (auto dest!: form_stepD prompt_handler_upd)
qed (auto dest!: form_stepD form_frame(4))

text \<open>Renaming a tool rewrites the servers' allowed tools, renaming a server the routers'
  targets. Apart from these references the servers and routers are edited separately as well.\<close>

definition servers_seen :: "gateway \<Rightarrow> server_config list" where
  "servers_seen g = map without_tools (servers_shown g)"

definition server_seen_upd :: "server_config \<Rightarrow> server_edit \<Rightarrow> server_config result" where
  "server_seen_upd s e = Inr (without_tools (server_upd s e))"

definition routers_seen :: "tenant list \<Rightarrow> gateway \<Rightarrow> (string \<times> router_config) list" where
  "routers_seen ts g = map (\<lambda>r. (selected_prefix ts g, without_server r)) (routers_shown g)"

definition router_seen_upd ::
    "string \<times> router_config \<Rightarrow> router_edit \<Rightarrow> (string \<times> router_config) result" where
  "router_seen_upd pr e = (case pr of (prefix, r) \<Rightarrow>
     map_sum id (\<lambda>r. (prefix, without_server r)) (router_upd prefix r e))"

lemma server_upd_seen:
  "without_tools (server_upd (without_tools s) e) = without_tools (server_upd s e)"
proof (cases e)
  case (SE_field f v)
  then show ?thesis by (cases f) (simp_all add: without_tools_def)
qed (simp_all add: without_tools_def)

lemma router_upd_seen:
  "router_upd prefix r e = Inr r' \<Longrightarrow>
    \<exists>r''. router_upd prefix (without_server r) e = Inr r'' \<and> without_server r'' = without_server r'"
  by (cases e) (auto simp: without_server_def upd_cors_def split: option.splits)

interpretation se: separate_entries "form_step ts" servers_seen server_part server_seen_upd for ts
proof
  fix g e g' i c
  assume "form_step ts g e = Inr g'" "server_part e = Some (i, c)"
  then show "i < length (servers_seen g) \<and> (\<exists>s. server_seen_upd (servers_seen g ! i) c = Inr s
      \<and> servers_seen g' = (servers_seen g)[i := s])"
    by (cases e) (auto simp: servers_seen_def server_seen_upd_def server_upd_seen map_update
        dest!: form_stepD server_handler_upd)
qed (auto simp: servers_seen_def dest!: form_stepD form_frame(5))

lemma selected_prefix_patched:
  "form_handler ts g e = Inr p \<Longrightarrow> selected_prefix ts (patched g p) = selected_prefix ts g"
  by (simp add: selected_prefix_def selectedTenant_def form_frame(1))

lemma routers_seen_eq: "routers_seen ts g = map (Pair (selected_prefix ts g)) (map without_server (routers_shown g))"
  by (simp add: routers_seen_def)

interpretation re: separate_entries "form_step ts" "routers_seen ts" router_part router_seen_upd for ts
proof
  fix g e g' i c
  assume s: "form_step ts g e = Inr g'" and p: "router_part e = Some (i, c)"
  from p have e: "e = On_router i c" by (cases e) auto
  from s obtain p where h: "form_handler ts g e = Inr p" "g' = patched g p"
    by (auto dest!: form_stepD)
  with e obtain r where i: "i < length (routers_shown g)"
    and r: "router_upd (selected_prefix ts g) (routers_shown g ! i) c = Inr r"
    and n: "routers_shown (patched g p) = (routers_shown g)[i := r]"
    by (auto dest!: router_handler_upd)
  from router_upd_seen [OF r] i n h selected_prefix_patched [OF h(1)]
  show "i < length (routers_seen ts g) \<and> (\<exists>s. router_seen_upd (routers_seen ts g ! i) c = Inr s
      \<and> routers_seen ts g' = (routers_seen ts g)[i := s])"
    by (auto simp: routers_seen_def router_seen_upd_def map_update)
next
  fix g e g'
  assume s: "form_step ts g e = Inr g'" and "router_part e = None"
  then obtain p where "form_handler ts g e = Inr p" "g' = patched g p"
    by (auto dest!: form_stepD)
  with \<open>router_part e = None\<close> form_frame(6) selected_prefix_patched
  show "routers_seen ts g' = routers_seen ts g"
    by (simp only: routers_seen_eq)
qed

text \<open>Within their own editors the servers and the routers are edited separately in full.\<close>

definition server_step :: "gateway \<Rightarrow> nat \<times> server_edit \<Rightarrow> gateway result" where
  "server_step g ie = map_sum id (patched g) (server_handler g (fst ie) (snd ie))"

interpretation so: separate_entries server_step servers_shown Some "\<lambda>s e. Inr (server_upd s e)"
  by unfold_locales (auto simp: server_step_def dest!: server_handler_upd)

section \<open>The property\<close>

text \<open>
  Property C12. Whatever edits are made in the five editors of the configuration form, in whatever order and
  however interleaved, no entry is added or lost and every tool, upstream server and prompt has
  become what its own edits alone make of it; so has every HTTP server but for its allowed
  tools, and every router but for its target, which renamings elsewhere rewrite.
\<close>

theorem entries_are_edited_separately:
  assumes "run_edits (form_step ts) g es = Inr g'"
  shows "map (\<lambda>j. run_edits tool_upd (tools_of g ! j) (edits_of tool_part j es))
          [0..<length (tools_of g)] = map Inr (tools_of g')
    \<and> map (\<lambda>j. run_edits mcp_upd (mcp_servers_shown g ! j) (edits_of mcp_part j es))
          [0..<length (mcp_servers_shown g)] = map Inr (mcp_servers_shown g')
    \<and> map (\<lambda>j. run_edits prompt_upd (prompts_shown g ! j) (edits_of prompt_part j es))
          [0..<length (prompts_shown g)] = map Inr (prompts_shown g')
    \<and> map (\<lambda>j. run_edits server_seen_upd (servers_seen g ! j) (edits_of server_part j es))
          [0..<length (servers_seen g)] = map Inr (servers_seen g')
    \<and> map (\<lambda>j. run_edits router_seen_upd (routers_seen ts g ! j) (edits_of router_part j es))
          [0..<length (routers_seen ts g)] = map Inr (routers_seen ts g')"
  using te.entries_edited [OF assms] me.entries_edited [OF assms] pe.entries_edited [OF assms]
    se.entries_edited [OF assms] re.entries_edited [OF assms] by (intro conjI)

definition sample_form :: gateway where
  "sample_form = (defaultConfig [])\<lparr>gw_tools := Some [blank_tool, blank_tool\<lparr>tool_name := ''b''\<rparr>],
     gw_servers := Some [blank_server\<lparr>srv_allowedTools := Some [''b'']\<rparr>],
     gw_routers := Some [blank_router]\<rparr>"

definition sample_edits :: "form_edit list" where
  "sample_edits = [On_tool 1 (TE_field (U_name ''c'')), On_router 0 (RE_ssePrefix '' /s ''),
     On_tool 0 (TE_header 0 HKey ''Accept''), On_tool 1 TE_add_argument,
     On_server 0 (SE_field SF_name ''s''), On_tool 1 (TE_argument 0 (AE_type ''object'')),
     On_tool 1 (TE_argument 0 AE_add_property)]"

theorem entries_are_edited_separately_witness:
  "\<exists>g'. run_edits (form_step []) sample_form sample_edits = Inr g'
    \<and> map tool_name (tools_of g') = [[], ''c'']
    \<and> map Inr (tools_of g') = [run_edits tool_upd (tools_of sample_form ! 0) [TE_header 0 HKey ''Accept''],
        run_edits tool_upd (tools_of sample_form ! 1) [TE_field (U_name ''c''), TE_add_argument,
          TE_argument 0 (AE_type ''object''), TE_argument 0 AE_add_property]]"
proof -
  have "case run_edits (form_step []) sample_form sample_edits of Inl x \<Rightarrow> False
      | Inr g' \<Rightarrow> map tool_name (tools_of g') = [[], ''c'']" by code_simp
  then obtain g' where g': "run_edits (form_step []) sample_form sample_edits = Inr g'"
    and n: "map tool_name (tools_of g') = [[], ''c'']" by (auto split: sum.splits)
  have "edits_of tool_part 0 sample_edits = [TE_header 0 HKey ''Accept'']"
    "edits_of tool_part 1 sample_edits = [TE_field (U_name ''c''), TE_add_argument,
       TE_argument 0 (AE_type ''object''), TE_argument 0 AE_add_property]"
    "length (tools_of sample_form) = 2" by code_simp+
  with entries_are_edited_separately [OF g'] g' n show ?thesis
    by (simp add: upt_rec)
qed

text \<open>Two orders of the same edits of every entry give the same tools, upstream servers and
  prompts.\<close>

theorem order_across_entries_is_irrelevant:
  assumes "run_edits (form_step ts) g es = Inr g1" and "run_edits (form_step ts) g es' = Inr g2"
    and "\<And>j. edits_of tool_part j es = edits_of tool_part j es'"
    and "\<And>j. edits_of mcp_part j es = edits_of mcp_part j es'"
    and "\<And>j. edits_of prompt_part j es = edits_of prompt_part j es'"
  shows "tools_of g1 = tools_of g2 \<and> mcp_servers_shown g1 = mcp_servers_shown g2
    \<and> prompts_shown g1 = prompts_shown g2"
  using te.interleavings_agree [OF assms(1-3)] me.interleavings_agree [OF assms(1,2,4)]
    pe.interleavings_agree [OF assms(1,2,5)] by simp

text \<open>In the editor of HTTP servers alone the servers are edited separately in full, the allowed
  tools included.\<close>

theorem servers_are_edited_separately:
  assumes "run_edits server_step g es = Inr g'"
  shows "map (\<lambda>j. run_edits (\<lambda>s e. Inr (server_upd s e)) (servers_shown g ! j) (edits_of Some j es))
    [0..<length (servers_shown g)] = map Inr (servers_shown g')"
  using so.entries_edited [OF assms] .

end
