(* ===== verification/Editor_Forms.thy ===== *)
theory Editor_Forms
  imports Form_Edits
begin

text \<open>
  The five editors as the user sees them: every control with its label, the value it shows and
  the event it sends, in the order they are rendered. Labels are the keys given to the translation
  function. The page keeps, beside the configuration, the command lines being typed
  (\<open>MCPServersConfig.tsx\<close>) and the three texts of the CORS lists (\<open>RouterConfig.tsx\<close>). The locale
  \<open>text_fields\<close> is the contract of controlled inputs: what is entered in a field is taken and
  shown by it.
\<close>

section \<open>Tools\<close>

definition header_rows :: "tool_config \<Rightarrow> tool_edit control list" where
  "header_rows tool = concat (map (\<lambda>(headerIndex, key).
     [Input ''gateway.header_name_placeholder'' key (TE_header headerIndex HKey),
      Input ''gateway.header_value_placeholder'' (ostr_or (obj_get (headers_of tool) key) [])
        (TE_header headerIndex HValue),
      Button ''lucide:x'' (TE_remove_header headerIndex)]) (enumerate 0 (order_of tool)))"

definition property_entries :: "arg_config \<Rightarrow> (string \<times> property_config) list" where
  "property_entries arg = (case arg_items arg of
     None \<Rightarrow> [] | Some items \<Rightarrow> own_entries (opt_or (it_properties items) []))"

definition property_rows :: "arg_config \<Rightarrow> arg_edit control list" where
  "property_rows arg = concat (map (\<lambda>(propName, propConfig).
     [Input ''gateway.property_name'' propName (AE_rename_property propName),
      Select ''gateway.property_type'' [str_or (pr_type propConfig) ''string'']
        [''string'', ''number'', ''boolean''] (AE_property_type propName),
      Input ''gateway.property_description'' (ostr_or (pr_description propConfig) [])
        (AE_property_description propName),
      Button ''lucide:x'' (AE_remove_property propName)]) (property_entries arg))"

definition array_items :: "arg_config \<Rightarrow> arg_edit control list" where
  "array_items arg =
     Select ''gateway.array_item_type''
       [case arg_items arg of None \<Rightarrow> ''string'' | Some i \<Rightarrow> str_or (it_type i) ''string'']
       [''string'', ''number'', ''boolean'', ''object''] AE_items_type
     # (if map_option it_type (arg_items arg) = Some ''object'' then
          [Words ''gateway.object_properties'', Button ''gateway.add_property'' AE_add_property]
          @ property_rows arg
        else [])"

definition object_properties :: "arg_config \<Rightarrow> arg_edit control list" where
  "object_properties arg =
     [Words ''gateway.object_properties'', Button ''gateway.add_property'' AE_add_property]
     @ property_rows arg"

definition nested_form :: "arg_config \<Rightarrow> arg_edit control list" where
  "nested_form arg =
     (if arg_type arg = ''array'' \<or> arg_type arg = ''object'' then
        [Words (if arg_type arg = ''array'' then ''gateway.array_items_config''
                else ''gateway.object_properties_config'')]
        @ (if arg_type arg = ''array'' then array_items arg else [])
        @ (if arg_type arg = ''object'' then object_properties arg else [])
      else [])"

definition arg_form :: "arg_config \<Rightarrow> arg_edit control list" where
  "arg_form arg =
     [Input ''gateway.argument_name'' (arg_name arg) AE_name,
      Select ''gateway.argument_position'' [str_or (arg_position arg) ''body'']
        [''body'', ''query'', ''path'', ''form-data''] AE_position,
      Select ''gateway.argument_type'' [str_or (arg_type arg) ''string'']
        [''string'', ''number'', ''boolean'', ''array'', ''object''] AE_type,
      Switch ''gateway.argument_required'' (arg_required arg) AE_required]
     @ nested_form arg
     @ [Input ''gateway.argument_description'' (arg_description arg) AE_description,
        Input ''gateway.argument_default'' (arg_default arg) AE_default]"

definition arg_rows :: "tool_config \<Rightarrow> tool_edit control list" where
  "arg_rows tool = concat (map (\<lambda>(argIndex, arg).
     map (map_control (TE_argument argIndex)) (arg_form arg)
     @ [Button ''gateway.remove_argument'' (TE_remove_argument argIndex)])
     (enumerate 0 (args_of tool)))"

definition tool_form :: "tool_config \<Rightarrow> tool_edit control list" where
  "tool_form tool =
     [Input ''gateway.tool_name'' (tool_name tool) (TE_field \<circ> U_name),
      Input ''gateway.description'' (ostr_or (tool_description tool) []) (TE_field \<circ> U_description),
      Select ''gateway.method'' [str_or (tool_method tool) ''GET'']
        [''GET'', ''POST'', ''PUT'', ''DELETE''] (TE_field \<circ> U_method),
      Input ''gateway.endpoint'' (tool_endpoint tool) (TE_field \<circ> U_endpoint),
      Button ''gateway.add_header'' TE_add_header]
     @ header_rows tool
     @ [Button ''gateway.add_argument'' TE_add_argument]
     @ arg_rows tool
     @ [Input ''gateway.request_body'' (tool_requestBody tool) (TE_field \<circ> U_requestBody),
        Input ''gateway.response_body'' (tool_responseBody tool) (TE_field \<circ> U_responseBody)]"

section \<open>HTTP servers\<close>

definition server_form :: "gateway \<Rightarrow> server_config \<Rightarrow> server_edit control list" where
  "server_form g server =
     [Input ''gateway.server_name'' (srv_name server) (SE_field SF_name),
      Input ''gateway.description'' (srv_description server) (SE_field SF_description),
      Words ''gateway.allowed_tools'']
     @ map (\<lambda>(toolIndex, tool). Chip tool (SE_close_tool toolIndex)) (enumerate 0 (allowed_of server))
     @ [Words ''gateway.add_tool'']
     @ map (\<lambda>name. Button (''+ '' @ name) (SE_add_tool name)) (offered_tools g server)
     @ (if all_tools_added g server then [Words ''gateway.tools_already_all_added''] else [])
     @ (if no_tools_available g then [Words ''gateway.tools_none_available''] else [])"

section \<open>Upstream MCP servers\<close>

datatype mcp_event = M_edit mcp_edit | M_type_command string | M_leave_command

definition mcp_icon :: "mcp_server \<Rightarrow> string" where
  "mcp_icon server =
     (if ms_type server = ''stdio'' then ''lucide:terminal''
      else if ms_type server = ''sse'' then ''lucide:radio'' else ''lucide:globe'')"

definition env_rows :: "mcp_server \<Rightarrow> mcp_event control list" where
  "env_rows server = concat (map (\<lambda>(envIndex, key, value).
     [Input ''gateway.env_key_placeholder'' key (M_edit \<circ> ME_env envIndex EKey),
      Input ''gateway.env_value_placeholder'' value (M_edit \<circ> ME_env envIndex EValue),
      Button ''lucide:x'' (M_edit (ME_remove_env envIndex))])
     (enumerate 0 (own_entries (env_of server))))"

definition mcp_form :: "string option \<Rightarrow> mcp_server \<Rightarrow> mcp_event control list" where
  "mcp_form commandInput server =
     [Input ''gateway.server_name'' (ms_name server) (M_edit \<circ> ME_field \<circ> M_name),
      Words (''gateway.server_name_limit '' @ nat_str (length (ms_name server))),
      Select ''gateway.mcp_type'' [str_or (ms_type server) ''stdio'']
        [''stdio'', ''sse'', ''streamable-http''] (M_edit \<circ> ME_field \<circ> M_type),
      Select ''gateway.startup_policy'' [str_or (ms_policy server) ''onDemand'']
        [''onDemand'', ''onStart''] (M_edit \<circ> ME_field \<circ> M_policy)]
     @ (if shows_command server then
          [Switch ''gateway.preinstalled'' (ms_preinstalled server) (M_edit \<circ> ME_field \<circ> M_preinstalled),
           Input ''gateway.command'' (ostr_or commandInput []) M_type_command,
           On ''blur'' M_leave_command,
           Words ''gateway.env_variables'']
          @ env_rows server
          @ [Button ''gateway.add_env_variable'' (M_edit ME_add_env)]
        else [])
     @ (if shows_url server
        then [Input ''gateway.url'' (ostr_or (ms_url server) []) (M_edit \<circ> ME_field \<circ> M_url)]
        else [])"

section \<open>Routers\<close>

datatype router_event =
    R_edit router_edit
  | R_type_origin string | R_type_header string | R_type_expose string
  | R_add_origin | R_add_header | R_add_expose

definition cors_chips :: "cors_config \<Rightarrow> cors_field \<Rightarrow> router_event control list" where
  "cors_chips c f = map (\<lambda>(j, v). Chip v (R_edit (RE_remove_cors f j))) (enumerate 0 (cors_values c f))"

definition common_headers :: "string list" where
  "common_headers = [''Content-Type'', ''Authorization'', ''X-Requested-With'', ''Accept'', ''Origin'',
     ''Mcp-Session-Id'', ''mcp-protocol-version'']"

definition common_expose_headers :: "string list" where
  "common_expose_headers = [''Content-Length'', ''Mcp-Session-Id'', ''mcp-protocol-version'',
     ''X-Rate-Limit'']"

definition cors_form :: "router_inputs \<Rightarrow> cors_config \<Rightarrow> router_event control list" where
  "cors_form inp c =
     [Words ''gateway.allow_origins'', Button ''gateway.add_origin'' R_add_origin]
     @ cors_chips c C_allowOrigins
     @ [Input ''gateway.origin_placeholder'' (originInput inp) R_type_origin, On ''Enter'' R_add_origin]
     @ [Words ''gateway.allow_methods''] @ cors_chips c C_allowMethods
     @ [Select ''gateway.http_method'' []
          [''GET'', ''POST'', ''PUT'', ''DELETE'', ''OPTIONS'', ''HEAD'', ''PATCH'']
          (R_edit \<circ> RE_add_cors C_allowMethods)]
     @ [Words ''gateway.allow_headers'', Button ''gateway.add_header'' R_add_header]
     @ cors_chips c C_allowHeaders
     @ [Input ''gateway.header_placeholder'' (headerInput inp) R_type_header, On ''Enter'' R_add_header]
     @ map Words common_headers
     @ [Words ''gateway.expose_headers'', Button ''gateway.add_expose_header'' R_add_expose]
     @ cors_chips c C_exposeHeaders
     @ [Input ''gateway.expose_header_placeholder'' (exposeHeaderInput inp) R_type_expose,
        On ''Enter'' R_add_expose]
     @ map Words common_expose_headers
     @ [Switch ''gateway.credentials'' (cors_allowCredentials c) (R_edit \<circ> RE_credentials)]"

definition router_form ::
    "gateway \<Rightarrow> tenant list \<Rightarrow> router_inputs \<Rightarrow> router_config \<Rightarrow> router_event control list" where
  "router_form g tenants inp router =
     [Input ''gateway.prefix'' (shown_prefix g tenants router) (R_edit \<circ> RE_prefix),
      Words (case selectedTenant g tenants of None \<Rightarrow> [] | Some t \<Rightarrow> ten_prefix t),
      Select ''gateway.server'' (if rt_server router \<noteq> [] then [rt_server router] else [])
        (server_options g) (R_edit \<circ> RE_server),
      Input ''gateway.sse_prefix'' (ostr_or (rt_ssePrefix router) []) (R_edit \<circ> RE_ssePrefix),
      Switch ''gateway.enable_cors'' (rt_cors router \<noteq> None) (R_edit \<circ> RE_cors)]
     @ (case rt_cors router of None \<Rightarrow> [] | Some c \<Rightarrow> cors_form inp c)
     @ [Switch ''gateway.enable_auth'' (rt_auth router \<noteq> None) (R_edit \<circ> RE_auth)]
     @ (if rt_auth router \<noteq> None then [Words ''gateway.auth_mode'', Words ''OAuth2''] else [])"

section \<open>Prompts\<close>

definition prompt_argument_rows :: "prompt_config \<Rightarrow> prompt_edit control list" where
  "prompt_argument_rows prompt = concat (map (\<lambda>(argIdx, arg).
     [Input ''gateway.argument_name'' (pa_name arg) (PE_argument argIdx \<circ> PA_name),
      Input ''gateway.argument_description'' (pa_description arg) (PE_argument argIdx \<circ> PA_description),
      Switch ''gateway.required'' (pa_required arg) (PE_argument argIdx \<circ> PA_required),
      Button ''gateway.remove_argument'' (PE_remove_argument argIdx)])
     (enumerate 0 (arguments_of prompt)))"

definition response_rows :: "prompt_config \<Rightarrow> prompt_edit control list" where
  "response_rows prompt = concat (map (\<lambda>(retIdx, ret).
     [Input ''gateway.prompt_response_role'' (resp_role ret) (PE_role retIdx),
      Input ''gateway.prompt_response_type'' (pc_type (resp_content ret)) (PE_type retIdx),
      Input ''gateway.prompt_response_text'' (pc_text (resp_content ret)) (PE_text retIdx),
      Button ''gateway.remove_prompt_response'' (PE_remove_response retIdx)])
     (enumerate 0 (responses_of prompt)))"

definition prompt_form :: "prompt_config \<Rightarrow> prompt_edit control list" where
  "prompt_form prompt =
     [Input ''gateway.prompt_name'' (pmt_name prompt) (PE_field PF_name),
      Input ''gateway.description'' (pmt_description prompt) (PE_field PF_description),
      Words ''gateway.arguments'', Button ''gateway.add_argument'' PE_add_argument]
     @ prompt_argument_rows prompt
     @ [Words ''gateway.prompt_response'', Button ''gateway.add_prompt_response'' PE_add_response]
     @ response_rows prompt"

section \<open>The page of the five tabs\<close>

text \<open>An accordion shows for every entry its title and subtitle, its form and the button that
  removes it, and below them the button that adds one.\<close>

definition accordion ::
    "(nat \<Rightarrow> 'a \<Rightarrow> string) \<Rightarrow> ('a \<Rightarrow> string) \<Rightarrow> (nat \<Rightarrow> 'a \<Rightarrow> 'e control list) \<Rightarrow> (nat \<Rightarrow> 'e \<Rightarrow> 'p)
      \<Rightarrow> string \<Rightarrow> (nat \<Rightarrow> 'p) \<Rightarrow> string \<Rightarrow> 'p \<Rightarrow> 'a list \<Rightarrow> 'p control list" where
  "accordion title subtitle form event remove_label remove add_label add xs =
     concat (map (\<lambda>(index, x). [Words (title index x), Words (subtitle x)]
       @ map (map_control (event index)) (form index x) @ [Button remove_label (remove index)])
       (enumerate 0 xs))
     @ [Button add_label add]"

record form_page =
  pg_gateway :: gateway
  pg_commands :: "nat \<Rightarrow> string option"
  pg_inputs :: router_inputs

datatype form_event =
    Tool_event nat tool_edit | Server_event nat server_edit | Mcp_event nat mcp_event
  | Router_event nat router_event | Prompt_event nat prompt_edit
  | Add_tool | Add_server | Add_mcp | Add_router | Add_prompt
  | Remove_tool nat | Remove_server nat | Remove_mcp nat | Remove_router nat | Remove_prompt nat
  | Mcp_servers_effect

definition tools_tab :: "gateway \<Rightarrow> form_event control list" where
  "tools_tab g = accordion (\<lambda>i t. str_or (tool_name t) (''Tool '' @ nat_str (i + 1)))
     (\<lambda>t. ostr_or (tool_description t) []) (\<lambda>_. tool_form) Tool_event
     ''gateway.remove_tool'' Remove_tool ''gateway.add_tool'' Add_tool (tools_of g)"

definition servers_tab :: "gateway \<Rightarrow> form_event control list" where
  "servers_tab g = accordion (\<lambda>i s. str_or (srv_name s) (''Server '' @ nat_str (i + 1)))
     srv_description (\<lambda>_. server_form g) Server_event
     ''gateway.remove_server'' Remove_server ''gateway.add_server'' Add_server (servers_shown g)"

definition mcp_tab :: "gateway \<Rightarrow> (nat \<Rightarrow> string option) \<Rightarrow> form_event control list" where
  "mcp_tab g commandInputs = accordion (\<lambda>i s. str_or (ms_name s) (''MCP Server '' @ nat_str (i + 1)))
     ms_type (\<lambda>i. mcp_form (commandInputs i)) Mcp_event
     ''gateway.remove_server'' Remove_mcp ''gateway.add_mcp_server'' Add_mcp (mcp_servers_shown g)"

definition routers_tab :: "gateway \<Rightarrow> tenant list \<Rightarrow> router_inputs \<Rightarrow> form_event control list" where
  "routers_tab g tenants inp = accordion (\<lambda>i r. str_or (rt_prefix r) (''Router '' @ nat_str (i + 1)))
     rt_server (\<lambda>_. router_form g tenants inp) Router_event
     ''gateway.remove_server'' Remove_router ''gateway.add_router'' Add_router (routers_shown g)"

definition prompts_tab :: "gateway \<Rightarrow> form_event control list" where
  "prompts_tab g = accordion (\<lambda>i p. str_or (pmt_name p) ''gateway.prompt'')
     pmt_description (\<lambda>_. prompt_form) Prompt_event
     ''gateway.remove_prompt'' Remove_prompt ''gateway.add_prompt'' Add_prompt (prompts_shown g)"

definition form_tabs :: "tenant list \<Rightarrow> form_page \<Rightarrow> (string \<times> string \<times> form_event control list) list" where
  "form_tabs tenants st = (let g = pg_gateway st in
     [(''tools'', ''gateway.tools'', tools_tab g),
      (''http-servers'', ''gateway.http_servers'', servers_tab g),
      (''mcp-servers'', ''gateway.mcp_servers'', mcp_tab g (pg_commands st)),
      (''routers'', ''gateway.routers'', routers_tab g tenants (pg_inputs st)),
      (''prompts'', ''gateway.prompts'', prompts_tab g)])"

definition page_controls :: "tenant list \<Rightarrow> form_page \<Rightarrow> form_event control list" where
  "page_controls tenants st = concat (map (snd \<circ> snd) (form_tabs tenants st))"

text \<open>What an event does; \<open>random\<close> is the text drawn for the prefix of an added router.\<close>

definition edit_page :: "tenant list \<Rightarrow> form_page \<Rightarrow> form_edit \<Rightarrow> form_page result" where
  "edit_page ts st e = map_sum id (\<lambda>g. st\<lparr>pg_gateway := g\<rparr>) (form_step ts (pg_gateway st) e)"

definition patch_page :: "form_page \<Rightarrow> patch \<Rightarrow> form_page" where
  "patch_page st p = st\<lparr>pg_gateway := apply_patch (pg_gateway st) p\<rparr>"

definition press_add ::
    "form_page \<Rightarrow> nat \<Rightarrow> (gateway \<Rightarrow> nat \<Rightarrow> cors_config \<Rightarrow> router_inputs \<Rightarrow> patch option \<times> router_inputs)
      \<Rightarrow> form_page result" where
  "press_add st i press =
     (if i < length (routers_shown (pg_gateway st)) then
        (case rt_cors (routers_shown (pg_gateway st) ! i) of
           None \<Rightarrow> Inl (TypeError ''router.cors'')
         | Some c \<Rightarrow> (case press (pg_gateway st) i c (pg_inputs st) of
             (p, inp) \<Rightarrow> Inr (st\<lparr>pg_gateway := patched (pg_gateway st) p, pg_inputs := inp\<rparr>)))
      else Inl (TypeError ''router.cors''))"

fun router_event_step :: "tenant list \<Rightarrow> form_page \<Rightarrow> nat \<Rightarrow> router_event \<Rightarrow> form_page result" where
  "router_event_step ts st i (R_edit e) = edit_page ts st (On_router i e)"
| "router_event_step ts st i (R_type_origin v) =
     Inr (st\<lparr>pg_inputs := (pg_inputs st)\<lparr>originInput := v\<rparr>\<rparr>)"
| "router_event_step ts st i (R_type_header v) =
     Inr (st\<lparr>pg_inputs := (pg_inputs st)\<lparr>headerInput := v\<rparr>\<rparr>)"
| "router_event_step ts st i (R_type_expose v) =
     Inr (st\<lparr>pg_inputs := (pg_inputs st)\<lparr>exposeHeaderInput := v\<rparr>\<rparr>)"
| "router_event_step ts st i R_add_origin = press_add st i press_add_origin"
| "router_event_step ts st i R_add_header = press_add st i press_add_header"
| "router_event_step ts st i R_add_expose = press_add st i press_add_expose"

fun mcp_event_step :: "tenant list \<Rightarrow> form_page \<Rightarrow> nat \<Rightarrow> mcp_event \<Rightarrow> form_page result" where
  "mcp_event_step ts st i (M_edit e) = edit_page ts st (On_mcp i e)"
| "mcp_event_step ts st i (M_type_command v) =
     Inr (st\<lparr>pg_commands := handleCommandInputChange (pg_commands st) i v\<rparr>)"
| "mcp_event_step ts st i M_leave_command =
     map_sum id (patch_page st) (handleCommandInputBlur (pg_gateway st) (pg_commands st) i)"

fun page_step :: "tenant list \<Rightarrow> string \<Rightarrow> form_page \<Rightarrow> form_event \<Rightarrow> form_page result" where
  "page_step ts random st (Tool_event i e) = edit_page ts st (On_tool i e)"
| "page_step ts random st (Server_event i e) = edit_page ts st (On_server i e)"
| "page_step ts random st (Mcp_event i e) = mcp_event_step ts st i e"
| "page_step ts random st (Router_event i e) = router_event_step ts st i e"
| "page_step ts random st (Prompt_event i e) = edit_page ts st (On_prompt i e)"
| "page_step ts random st Add_tool = Inr (patch_page st (add_tool (pg_gateway st)))"
| "page_step ts random st Add_server = Inr (patch_page st (addServer (pg_gateway st)))"
| "page_step ts random st Add_mcp = Inr (patch_page st (mcp_addServer (pg_gateway st)))"
| "page_step ts random st Add_router = Inr (patch_page st (add_router (pg_gateway st) ts random))"
| "page_step ts random st Add_prompt = Inr (patch_page st (addPrompt (pg_gateway st)))"
| "page_step ts random st (Remove_tool i) = Inr (patch_page st (remove_tool (pg_gateway st) i))"
| "page_step ts random st (Remove_server i) = Inr (patch_page st (removeServer (pg_gateway st) i))"
| "page_step ts random st (Remove_mcp i) = Inr (patch_page st (mcp_removeServer (pg_gateway st) i))"
| "page_step ts random st (Remove_router i) = Inr (patch_page st (remove_router (pg_gateway st) i))"
| "page_step ts random st (Remove_prompt i) = Inr (patch_page st (removePrompt (pg_gateway st) i))"
| "page_step ts random st Mcp_servers_effect =
     Inr (st\<lparr>pg_commands := initialInputs (mcp_servers_shown (pg_gateway st))\<rparr>)"

lemma Input_accordion:
  "Input l v f \<in> set (accordion t s form ev rl rem al add xs) \<longleftrightarrow>
    (\<exists>i<length xs. \<exists>f0. Input l v f0 \<in> set (form i (xs ! i)) \<and> f = ev i \<circ> f0)"
  unfolding accordion_def set_append Un_iff in_concat_enumerate by (simp add: Input_mapped)

section \<open>The fields of an entry\<close>

fun arg_kept :: "arg_edit \<Rightarrow> bool" where
  "arg_kept (AE_rename_property n v) \<longleftrightarrow> False"
| "arg_kept _ \<longleftrightarrow> True"

fun tool_kept :: "tool_edit \<Rightarrow> bool" where
  "tool_kept (TE_header i field v) \<longleftrightarrow> field = HValue"
| "tool_kept (TE_argument i e) \<longleftrightarrow> arg_kept e"
| "tool_kept _ \<longleftrightarrow> True"

fun mcp_kept :: "mcp_event \<Rightarrow> bool" where
  "mcp_kept (M_edit (ME_env i field v)) \<longleftrightarrow> field = EValue"
| "mcp_kept (M_edit (ME_field (M_name v))) \<longleftrightarrow> length v \<le> 50"
| "mcp_kept _ \<longleftrightarrow> True"

fun router_kept :: "router_event \<Rightarrow> bool" where
  "router_kept (R_edit e) \<longleftrightarrow> False"
| "router_kept _ \<longleftrightarrow> True"

lemma header_rows_Input:
  "Input l v f \<in> set (header_rows t) \<longleftrightarrow> (\<exists>i<length (order_of t).
     l = ''gateway.header_name_placeholder'' \<and> v = order_of t ! i \<and> f = TE_header i HKey
     \<or> l = ''gateway.header_value_placeholder''
       \<and> v = ostr_or (obj_get (headers_of t) (order_of t ! i)) [] \<and> f = TE_header i HValue)"
  unfolding header_rows_def in_concat_enumerate by simp

lemma headers_set_headers [simp]: "headers_of (set_headers t h ord) = h" "order_of (set_headers t h ord) = ord"
  by (simp_all add: headers_of_def order_of_def set_headers_def opt_or_def)

lemma property_rows_Input:
  "Input l v f \<in> set (property_rows a) \<longleftrightarrow> (\<exists>(n, c) \<in> set (property_entries a).
     l = ''gateway.property_name'' \<and> v = n \<and> f = AE_rename_property n
     \<or> l = ''gateway.property_description'' \<and> v = ostr_or (pr_description c) []
       \<and> f = AE_property_description n)"
  unfolding property_rows_def by auto

lemma property_entries_get:
  "(n, c) \<in> set (property_entries a) \<Longrightarrow> \<exists>c'. obj_get (current_properties a) n = Some c'"
  by (auto simp: property_entries_def current_properties_def currentItems_def opt_or_def obj_get_def
      split: option.splits) (metis map_of_eq_None_iff option.exhaust fst_conv image_eqI)+

lemma obj_set_mem: "(k, v) \<in> set (obj_set m k v)"
  by (induction m k v rule: obj_set.induct) auto

lemma with_properties_simps [simp]:
  "it_type (with_properties i ps) = it_type i" "it_properties (with_properties i ps) = Some ps"
  by (cases i; simp)+

lemma describe_property:
  assumes "obj_get (current_properties a) n = Some c"
  shows "\<exists>c'. (n, c') \<in> set (property_entries (arg_property_description n c x a))
    \<and> pr_description c' = Some x"
  by (cases c) (auto simp: property_entries_def arg_property_description_def put_properties_def
      opt_or_def intro!: obj_set_mem exI)

definition shows_properties :: "arg_config \<Rightarrow> bool" where
  "shows_properties a \<longleftrightarrow> arg_type a = ''object''
     \<or> arg_type a = ''array'' \<and> map_option it_type (arg_items a) = Some ''object''"

lemma nested_form_Input:
  "Input l v f \<in> set (nested_form a) \<longleftrightarrow> shows_properties a \<and> Input l v f \<in> set (property_rows a)"
  by (simp add: nested_form_def array_items_def object_properties_def shows_properties_def) blast

lemma arg_form_Input:
  "Input l v f \<in> set (arg_form a) \<longleftrightarrow>
     l = ''gateway.argument_name'' \<and> v = arg_name a \<and> f = AE_name
   \<or> shows_properties a \<and> Input l v f \<in> set (property_rows a)
   \<or> l = ''gateway.argument_description'' \<and> v = arg_description a \<and> f = AE_description
   \<or> l = ''gateway.argument_default'' \<and> v = arg_default a \<and> f = AE_default"
  by (simp add: arg_form_def nested_form_Input disj_ac)

lemma shows_properties_describe:
  "obj_get (current_properties a) n = Some c \<Longrightarrow>
    shows_properties (arg_property_description n c x a) = shows_properties a"
  by (auto simp: shows_properties_def arg_property_description_def put_properties_def
      currentItems_def current_properties_def obj_get_def opt_or_def split: option.splits)

lemma property_rows_cong:
  "arg_items a = arg_items b \<Longrightarrow> property_rows a = property_rows b"
  by (simp add: property_rows_def property_entries_def)

lemma shows_properties_cong:
  "arg_items a = arg_items b \<Longrightarrow> arg_type a = arg_type b \<Longrightarrow> shows_properties a = shows_properties b"
  by (simp add: shows_properties_def)

lemma ostr_or_Some_Nil [simp]: "ostr_or (Some x) [] = x"
  by (simp add: ostr_or_def str_or_def)

lemma property_taken:
  assumes "Input l v f \<in> set (property_rows a)" "arg_kept (f x)"
  shows "\<exists>a'. arg_upd a (f x) = Inr a' \<and> shows_properties a' = shows_properties a
    \<and> Input l x f \<in> set (property_rows a')"
proof -
  from assms(1) obtain nc where nc: "nc \<in> set (property_entries a)"
    "l = ''gateway.property_name'' \<and> f = AE_rename_property (fst nc)
     \<or> l = ''gateway.property_description'' \<and> f = AE_property_description (fst nc)"
    unfolding property_rows_Input by (elim bexE) (simp add: case_prod_beta, metis)
  define n where "n = fst nc"
  from nc(2) assms(2) have f: "f = AE_property_description n" and l: "l = ''gateway.property_description''"
    by (elim disjE conjE; simp add: n_def)+
  from nc(1) have "(n, snd nc) \<in> set (property_entries a)" by (simp add: n_def)
  then obtain c where c: "obj_get (current_properties a) n = Some c"
    by (auto dest: property_entries_get)
  from describe_property [OF c, of x] obtain c' where
    "(n, c') \<in> set (property_entries (arg_property_description n c x a))" "pr_description c' = Some x"
    by auto
  then have "Input l x f \<in> set (property_rows (arg_property_description n c x a))"
    unfolding property_rows_Input f l by (intro bexI [of _ "(n, c')"]) simp_all
  with c f show ?thesis by (simp add: on_property_def shows_properties_describe)
qed

lemma arg_taken:
  assumes "Input l v f \<in> set (arg_form a)" "arg_kept (f x)"
  shows "\<exists>a'. arg_upd a (f x) = Inr a' \<and> Input l x f \<in> set (arg_form a')"
  using assms(1) unfolding arg_form_Input [of l v]
proof (elim disjE)
  assume p: "shows_properties a \<and> Input l v f \<in> set (property_rows a)"
  with property_taken [of l v f a x] assms(2) show ?thesis unfolding arg_form_Input by metis
qed (simp_all add: arg_form_Input)

lemma arg_rows_Input:
  "Input l v f \<in> set (arg_rows t) \<longleftrightarrow>
    (\<exists>i<length (args_of t). \<exists>f0. Input l v f0 \<in> set (arg_form (args_of t ! i)) \<and> f = TE_argument i \<circ> f0)"
  unfolding arg_rows_def in_concat_enumerate by (simp add: Input_mapped)

lemma tool_form_Input:
  "Input l v f \<in> set (tool_form t) \<longleftrightarrow>
     l = ''gateway.tool_name'' \<and> v = tool_name t \<and> f = TE_field \<circ> U_name
   \<or> l = ''gateway.description'' \<and> v = ostr_or (tool_description t) [] \<and> f = TE_field \<circ> U_description
   \<or> l = ''gateway.endpoint'' \<and> v = tool_endpoint t \<and> f = TE_field \<circ> U_endpoint
   \<or> Input l v f \<in> set (header_rows t)
   \<or> Input l v f \<in> set (arg_rows t)
   \<or> l = ''gateway.request_body'' \<and> v = tool_requestBody t \<and> f = TE_field \<circ> U_requestBody
   \<or> l = ''gateway.response_body'' \<and> v = tool_responseBody t \<and> f = TE_field \<circ> U_responseBody"
  by (simp add: tool_form_def disj_ac)

lemma header_taken:
  assumes "Input l v f \<in> set (header_rows t)" "tool_kept (f x)"
  shows "\<exists>t'. tool_upd t (f x) = Inr t' \<and> Input l x f \<in> set (header_rows t')"
proof -
  from assms obtain i where i: "i < length (order_of t)"
    "l = ''gateway.header_value_placeholder''" "f = TE_header i HValue"
    unfolding header_rows_Input by (elim exE conjE disjE) simp_all
  have "Input l x f \<in> set (header_rows (set_headers t (obj_set (headers_of t) (order_of t ! i) x) (order_of t)))"
    unfolding header_rows_Input i(2,3) using i(1) by (intro exI [of _ i]) (simp add: obj_get_set)
  with i show ?thesis by (simp add: header_update_def Let_def order_key_def)
qed

lemma args_taken:
  assumes "Input l v f \<in> set (arg_rows t)" "tool_kept (f x)"
  shows "\<exists>t'. tool_upd t (f x) = Inr t' \<and> Input l x f \<in> set (arg_rows t')"
proof -
  from assms(1) obtain i f0 where i: "i < length (args_of t)"
    "Input l v f0 \<in> set (arg_form (args_of t ! i))" "f = TE_argument i \<circ> f0"
    unfolding arg_rows_Input by blast
  with assms(2) obtain a where a: "arg_upd (args_of t ! i) (f0 x) = Inr a" "Input l x f0 \<in> set (arg_form a)"
    using arg_taken [OF i(2), of x] by auto
  have "args_of (put_args t ((args_of t)[i := a])) = (args_of t)[i := a]"
    by (simp add: opt_or_def)
  with i a have "Input l x f \<in> set (arg_rows (put_args t ((args_of t)[i := a])))"
    unfolding arg_rows_Input by (metis length_list_update nth_list_update_eq)
  with i a show ?thesis by simp
qed

lemma tool_taken:
  assumes "Input l v f \<in> set (tool_form t)" "tool_kept (f x)"
  shows "\<exists>t'. tool_upd t (f x) = Inr t' \<and> Input l x f \<in> set (tool_form t')"
  using assms(1) unfolding tool_form_Input [of l v]
proof (elim disjE)
  assume "Input l v f \<in> set (header_rows t)"
  with header_taken [of l v f t x] assms(2) show ?thesis unfolding tool_form_Input by blast
next
  assume "Input l v f \<in> set (arg_rows t)"
  with args_taken [of l v f t x] assms(2) show ?thesis unfolding tool_form_Input by blast
qed (simp_all add: tool_form_Input)

interpretation tf: text_fields tool_form tool_upd tool_kept "\<lambda>_. True"
  by unfold_locales (use tool_taken in blast)

lemma prompt_argument_rows_Input:
  "Input l v f \<in> set (prompt_argument_rows p) \<longleftrightarrow> (\<exists>i<length (arguments_of p).
      l = ''gateway.argument_name'' \<and> v = pa_name (arguments_of p ! i) \<and> f = PE_argument i \<circ> PA_name
    \<or> l = ''gateway.argument_description'' \<and> v = pa_description (arguments_of p ! i)
        \<and> f = PE_argument i \<circ> PA_description)"
  unfolding prompt_argument_rows_def in_concat_enumerate by simp

lemma response_rows_Input:
  "Input l v f \<in> set (response_rows p) \<longleftrightarrow> (\<exists>i<length (responses_of p).
      l = ''gateway.prompt_response_role'' \<and> v = resp_role (responses_of p ! i) \<and> f = PE_role i
    \<or> l = ''gateway.prompt_response_type'' \<and> v = pc_type (resp_content (responses_of p ! i)) \<and> f = PE_type i
    \<or> l = ''gateway.prompt_response_text'' \<and> v = pc_text (resp_content (responses_of p ! i)) \<and> f = PE_text i)"
  unfolding response_rows_def in_concat_enumerate by simp

lemma prompt_form_Input:
  "Input l v f \<in> set (prompt_form p) \<longleftrightarrow>
     l = ''gateway.prompt_name'' \<and> v = pmt_name p \<and> f = PE_field PF_name
   \<or> l = ''gateway.description'' \<and> v = pmt_description p \<and> f = PE_field PF_description
   \<or> Input l v f \<in> set (prompt_argument_rows p)
   \<or> Input l v f \<in> set (response_rows p)"
  by (simp add: prompt_form_def disj_ac)

lemma prompt_taken:
  assumes "Input l v f \<in> set (prompt_form p)"
  shows "\<exists>p'. prompt_upd p (f x) = Inr p' \<and> Input l x f \<in> set (prompt_form p')"
  using assms unfolding prompt_form_Input [of l v]
proof (elim disjE)
  assume "Input l v f \<in> set (prompt_argument_rows p)"
  then obtain i where "i < length (arguments_of p)"
    "l = ''gateway.argument_name'' \<and> f = PE_argument i \<circ> PA_name
     \<or> l = ''gateway.argument_description'' \<and> f = PE_argument i \<circ> PA_description"
    unfolding prompt_argument_rows_Input by blast
  then show ?thesis
    by (elim disjE conjE; simp only: prompt_form_Input prompt_argument_rows_Input;
        simp add: opt_or_def; intro disjI1 exI [of _ i]; simp)
next
  assume "Input l v f \<in> set (response_rows p)"
  then obtain i where "i < length (responses_of p)"
    "l = ''gateway.prompt_response_role'' \<and> f = PE_role i
     \<or> l = ''gateway.prompt_response_type'' \<and> f = PE_type i
     \<or> l = ''gateway.prompt_response_text'' \<and> f = PE_text i"
    unfolding response_rows_Input by blast
  then show ?thesis
    by (elim disjE conjE; simp only: prompt_form_Input response_rows_Input;
        simp add: upd_response_def opt_or_def; intro disjI2 exI [of _ i]; simp)
qed (simp_all add: prompt_form_Input)

interpretation pf: text_fields prompt_form prompt_upd "\<lambda>_. True" "\<lambda>_. True"
  by unfold_locales (use prompt_taken in blast)

lemma server_form_Input:
  "Input l v f \<in> set (server_form g s) \<longleftrightarrow>
     l = ''gateway.server_name'' \<and> v = srv_name s \<and> f = SE_field SF_name
   \<or> l = ''gateway.description'' \<and> v = srv_description s \<and> f = SE_field SF_description"
proof -
  have "Input l v f \<notin> set (map (\<lambda>(j, t). Chip t (SE_close_tool j)) xs)" for xs by auto
  moreover have "Input l v f \<notin> set (map (\<lambda>n. Button (''+ '' @ n) (SE_add_tool n)) xs)" for xs by auto
  ultimately show ?thesis by (simp add: server_form_def del: set_map)
qed

text \<open>An entry of the upstream servers is the server with the command line being typed.\<close>

fun mcp_entry_upd :: "string option \<times> mcp_server \<Rightarrow> mcp_event \<Rightarrow> (string option \<times> mcp_server) result" where
  "mcp_entry_upd (cmd, s) (M_edit e) = map_sum id (Pair cmd) (mcp_upd s e)"
| "mcp_entry_upd (cmd, s) (M_type_command v) = Inr (Some v, s)"
| "mcp_entry_upd (cmd, s) M_leave_command =
     (case cmd of None \<Rightarrow> Inl (TypeError ''commandValue.trim'')
      | Some v \<Rightarrow> Inr (cmd, set_mcp_field s (M_command v)))"

lemma env_rows_Input:
  "Input l v f \<in> set (env_rows s) \<longleftrightarrow> (\<exists>i<length (own_entries (env_of s)).
     l = ''gateway.env_key_placeholder'' \<and> v = fst (own_entries (env_of s) ! i) \<and> f = M_edit \<circ> ME_env i EKey
   \<or> l = ''gateway.env_value_placeholder'' \<and> v = snd (own_entries (env_of s) ! i) \<and> f = M_edit \<circ> ME_env i EValue)"
  unfolding env_rows_def in_concat_enumerate by (simp add: case_prod_beta)

lemma mcp_form_Input:
  "Input l v f \<in> set (mcp_form cmd s) \<longleftrightarrow>
     l = ''gateway.server_name'' \<and> v = ms_name s \<and> f = M_edit \<circ> ME_field \<circ> M_name
   \<or> shows_command s \<and> l = ''gateway.command'' \<and> v = ostr_or cmd [] \<and> f = M_type_command
   \<or> shows_command s \<and> Input l v f \<in> set (env_rows s)
   \<or> shows_url s \<and> l = ''gateway.url'' \<and> v = ostr_or (ms_url s) [] \<and> f = M_edit \<circ> ME_field \<circ> M_url"
  by (cases "shows_command s"; cases "shows_url s"; simp add: mcp_form_def disj_ac)

lemma map_insort_key: "map h (insort_key (k \<circ> h) x xs) = insort_key k (h x) (map h xs)"
  by (induction xs) auto

lemma map_sort_key: "map h (sort_key (k \<circ> h) xs) = sort_key k (map h xs)"
  by (induction xs) (simp_all add: map_insort_key [unfolded comp_def] comp_def)

lemma own_keys_of_keys:
  "own_keys m = sort_key str_nat (filter is_array_index (map fst m))
     @ filter (\<lambda>k. \<not> is_array_index k) (map fst m)"
  using map_sort_key [of fst str_nat "filter (\<lambda>e. is_array_index (fst e)) m"]
  by (simp add: own_keys_def own_entries_def filter_map comp_def)

lemma keys_obj_set: "k \<in> fst ` set m \<Longrightarrow> map fst (obj_set m k v) = map fst m"
  by (induction m k v rule: obj_set.induct) auto

lemma own_entries_obj_set:
  assumes "wf_obj m" "i < length (own_entries m)"
  shows "i < length (own_entries (obj_set m (own_keys m ! i) v))
    \<and> own_entries (obj_set m (own_keys m ! i) v) ! i = (own_keys m ! i, v)"
proof -
  define k where "k = own_keys m ! i"
  have "i < length (own_keys m)" using assms(2) by (simp add: own_keys_def)
  then have "k \<in> set (own_keys m)" by (simp add: k_def)
  then have km: "k \<in> fst ` set m" by (simp add: own_keys_def)
  have keys: "own_keys (obj_set m k v) = own_keys m"
    by (simp add: own_keys_of_keys keys_obj_set [OF km])
  then have len: "i < length (own_entries (obj_set m k v))"
    using assms(2) by (metis length_map own_keys_def)
  then have e: "own_entries (obj_set m k v) ! i \<in> set (obj_set m k v)"
    by (metis nth_mem set_own_entries)
  have f: "fst (own_entries (obj_set m k v) ! i) = k"
    using keys len by (metis k_def nth_map own_keys_def)
  have "obj_get (obj_set m k v) k = Some (snd (own_entries (obj_set m k v) ! i))"
    using e f wf_obj_set [OF assms(1), of k v]
    by (auto simp: obj_get_def wf_obj_def intro!: map_of_is_SomeI) (metis prod.collapse)
  then have "snd (own_entries (obj_set m k v) ! i) = v" by (simp add: obj_get_set)
  with f len show ?thesis by (simp add: k_def prod_eq_iff)
qed

lemma env_taken:
  assumes "wf_obj (env_of s)" "Input l v f \<in> set (env_rows s)" "mcp_kept (f x)"
  shows "\<exists>s'. mcp_entry_upd (cmd, s) (f x) = Inr (cmd, s') \<and> wf_obj (env_of s')
    \<and> shows_command s' = shows_command s \<and> Input l x f \<in> set (env_rows s')"
proof -
  from assms(2,3) obtain i where i: "i < length (own_entries (env_of s))"
    "l = ''gateway.env_value_placeholder''" "f = M_edit \<circ> ME_env i EValue"
    unfolding env_rows_Input by (elim exE conjE disjE) simp_all
  define env where "env = obj_set (env_of s) (own_keys (env_of s) ! i) x"
  define s' where "s' = s\<lparr>ms_env := Some env\<rparr>"
  have e: "env_of s' = env" by (simp add: s'_def env_of_def opt_or_def)
  have "i < length (own_keys (env_of s))" using i(1) by (simp add: own_keys_def)
  then have "mcp_entry_upd (cmd, s) (f x) = Inr (cmd, s')"
    by (simp add: i(3) upd_env_def env_update_def Let_def order_key_def env_def s'_def)
  moreover have "wf_obj (env_of s')" using assms(1) by (simp add: e env_def wf_obj_set)
  moreover have "Input l x f \<in> set (env_rows s')"
    unfolding env_rows_Input i(2,3) e
    using own_entries_obj_set [OF assms(1) i(1), of x] by (intro exI [of _ i]) (simp add: env_def)
  ultimately show ?thesis by (auto simp: s'_def shows_command_def)
qed

lemma mcp_taken:
  assumes "wf_obj (env_of s)" "Input l v f \<in> set (mcp_form cmd s)" "mcp_kept (f x)"
  shows "\<exists>cmd' s'. mcp_entry_upd (cmd, s) (f x) = Inr (cmd', s') \<and> wf_obj (env_of s')
    \<and> Input l x f \<in> set (mcp_form cmd' s')"
  using assms(2) unfolding mcp_form_Input [of l v]
proof (elim disjE)
  assume c: "shows_command s \<and> Input l v f \<in> set (env_rows s)"
  with env_taken [of s l v f x cmd] assms(1,3) obtain s' where
    "mcp_entry_upd (cmd, s) (f x) = Inr (cmd, s')" "wf_obj (env_of s')"
    "shows_command s'" "Input l x f \<in> set (env_rows s')" by auto
  then show ?thesis unfolding mcp_form_Input by blast
qed (use assms(1) in \<open>simp_all add: mcp_form_Input env_of_def shows_command_def shows_url_def\<close>)

lemma cors_form_Input:
  "Input l v f \<in> set (cors_form inp c) \<longleftrightarrow>
     l = ''gateway.origin_placeholder'' \<and> v = originInput inp \<and> f = R_type_origin
   \<or> l = ''gateway.header_placeholder'' \<and> v = headerInput inp \<and> f = R_type_header
   \<or> l = ''gateway.expose_header_placeholder'' \<and> v = exposeHeaderInput inp \<and> f = R_type_expose"
proof -
  have chips: "Input l v f \<notin> set (cors_chips c k)" for k
    by (auto simp: cors_chips_def)
  show ?thesis by (simp add: cors_form_def chips image_iff)
qed

lemma router_form_Input:
  assumes "Input l v f \<in> set (router_form g ts inp r)" "router_kept (f x)"
  shows "\<exists>c. rt_cors r = Some c \<and> Input l v f \<in> set (cors_form inp c)"
  using assms by (cases "rt_cors r") (auto simp: router_form_def)

section \<open>The handlers take what the entry takes\<close>

lemma updateTool_total: "i < length (tools_of g) \<Longrightarrow> \<exists>p. updateTool g i u = Inr p"
  by (auto simp: updateTool_def Let_def split: option.splits tool_update.splits)

lemma with_arg_total:
  "i < length (tools_of g) \<Longrightarrow> j < length (args_of (tools_of g ! i)) \<Longrightarrow> \<exists>p. with_arg g i j f = Inr p"
  by (simp add: with_arg_def Let_def updateTool_total)

lemma arg_handler_total:
  assumes "i < length (tools_of g)" "j < length (args_of (tools_of g ! i))"
    "arg_upd (args_of (tools_of g ! i) ! j) e = Inr a"
  shows "\<exists>p. arg_handler g i j e = Inr p"
  using assms with_arg_total [OF assms(1,2)]
  by (cases e) (auto simp: arg_handler_defs rendered_property_def on_property_def Let_def
      split: option.splits)

lemma tool_handler_total:
  assumes "i < length (tools_of g)" "tool_upd (tools_of g ! i) e = Inr t"
  shows "\<exists>p. tool_handler g i e = Inr p \<and> tools_of (apply_patch g p) = (tools_of g)[i := t]"
proof -
  have "\<exists>p. tool_handler g i e = Inr p"
    using assms by (cases e) (auto simp: updateHeader_def addHeader_def removeHeader_def
        replace_tool_def add_argument_def remove_argument_def Let_def
        intro: updateTool_total arg_handler_total split: if_splits sum.splits)
  with assms(2) show ?thesis by (fastforce dest: tool_handler_upd)
qed

lemma mcp_handler_total:
  assumes "i < length (mcp_servers_shown g)" "mcp_upd (mcp_servers_shown g ! i) e = Inr s"
  shows "\<exists>p. mcp_handler g i e = Inr p \<and> mcp_servers_shown (apply_patch g p) = (mcp_servers_shown g)[i := s]"
proof -
  have "\<exists>p. mcp_handler g i e = Inr p"
    using assms by (cases e) (auto simp: mcp_updateServer_def updateEnvVariable_def addEnvVariable_def
        removeEnvVariable_def with_env_def upd_env_def Let_def split: option.splits mcp_update.splits)
  with assms(2) show ?thesis by (fastforce dest: mcp_handler_upd)
qed

lemma prompt_handler_total:
  assumes "i < length (prompts_shown g)" "prompt_upd (prompts_shown g ! i) e = Inr q"
  shows "\<exists>p. prompt_handler g i e = Inr p \<and> prompts_shown (apply_patch g p) = (prompts_shown g)[i := q]"
proof -
  have "\<exists>p. prompt_handler g i e = Inr p"
    using assms by (cases e) (auto simp: updatePrompt_def updateArgument_def addArgument_def
        removeArgument_def add_response_def with_response_def set_response_role_def
        set_response_type_def set_response_text_def remove_response_def with_prompt_def
        upd_response_def Let_def split: if_splits)
  with assms(2) show ?thesis by (fastforce dest: prompt_handler_upd)
qed

lemma server_field_total:
  assumes "i < length (servers_shown g)"
  shows "\<exists>p. updateServer g i f v = Inr p
    \<and> servers_shown (apply_patch g p) = (servers_shown g)[i := set_server_field (servers_shown g ! i) f v]"
proof -
  have "\<exists>p. updateServer g i f v = Inr p"
    using assms by (cases "gw_routers g") (simp_all add: updateServer_def Let_def)
  then obtain p where p: "updateServer g i f v = Inr p" by blast
  then have "server_handler g i (SE_field f v) = Inr (Some p)" by simp
  from server_handler_upd [OF this] p show ?thesis by simp
qed

section \<open>The fields of the page\<close>

fun page_kept :: "form_event \<Rightarrow> bool" where
  "page_kept (Tool_event i e) \<longleftrightarrow> tool_kept e"
| "page_kept (Mcp_event i e) \<longleftrightarrow> mcp_kept e"
| "page_kept (Router_event i e) \<longleftrightarrow> router_kept e"
| "page_kept _ \<longleftrightarrow> True"

text \<open>The environments are JavaScript objects: no key twice.\<close>

definition page_ok :: "form_page \<Rightarrow> bool" where
  "page_ok st \<longleftrightarrow> list_all (\<lambda>s. wf_obj (env_of s)) (mcp_servers_shown (pg_gateway st))"

lemmas tab_defs = tools_tab_def servers_tab_def mcp_tab_def routers_tab_def prompts_tab_def

lemma page_Input:
  "Input l v f \<in> set (page_controls ts st) \<longleftrightarrow>
     Input l v f \<in> set (tools_tab (pg_gateway st))
   \<or> Input l v f \<in> set (servers_tab (pg_gateway st))
   \<or> Input l v f \<in> set (mcp_tab (pg_gateway st) (pg_commands st))
   \<or> Input l v f \<in> set (routers_tab (pg_gateway st) ts (pg_inputs st))
   \<or> Input l v f \<in> set (prompts_tab (pg_gateway st))"
  by (simp add: page_controls_def form_tabs_def Let_def)

lemma edit_page_handled:
  "form_handler ts (pg_gateway st) e = Inr p \<Longrightarrow>
    edit_page ts st e = Inr (st\<lparr>pg_gateway := patched (pg_gateway st) p\<rparr>)"
  by (simp add: edit_page_def form_step_patched)

lemma page_ok_frame:
  "page_ok st \<Longrightarrow> form_handler ts (pg_gateway st) e = Inr p \<Longrightarrow> mcp_part e = None \<Longrightarrow>
    page_ok (st\<lparr>pg_gateway := patched (pg_gateway st) p\<rparr>)"
  using form_frame(3) [of ts "pg_gateway st" e p] by (simp add: page_ok_def)

lemma tools_tab_taken:
  assumes "page_ok st" "Input l v f \<in> set (tools_tab (pg_gateway st))" "page_kept (f x)"
  shows "\<exists>st'. page_step ts random st (f x) = Inr st' \<and> page_ok st'
    \<and> Input l x f \<in> set (tools_tab (pg_gateway st'))"
proof -
  let ?g = "pg_gateway st"
  from assms(2) obtain i f0 where i: "i < length (tools_of ?g)"
    and f0: "Input l v f0 \<in> set (tool_form (tools_of ?g ! i))" and f: "f = Tool_event i \<circ> f0"
    by (auto simp: tools_tab_def Input_accordion)
  with tool_taken [OF f0, of x] assms(3) obtain t where
    t: "tool_upd (tools_of ?g ! i) (f0 x) = Inr t" "Input l x f0 \<in> set (tool_form t)" by auto
  from tool_handler_total [OF i t(1)] obtain p where p: "tool_handler ?g i (f0 x) = Inr p"
    "tools_of (apply_patch ?g p) = (tools_of ?g)[i := t]" by auto
  then have h: "form_handler ts ?g (On_tool i (f0 x)) = Inr (Some p)" by simp
  have "Input l x f \<in> set (tools_tab (apply_patch ?g p))"
    unfolding tools_tab_def Input_accordion p(2) f using i t(2)
    by (intro exI [of _ i] conjI exI [of _ f0]) simp_all
  with edit_page_handled [OF h] page_ok_frame [OF assms(1) h] show ?thesis by (simp add: f)
qed

lemma prompts_tab_taken:
  assumes "page_ok st" "Input l v f \<in> set (prompts_tab (pg_gateway st))"
  shows "\<exists>st'. page_step ts random st (f x) = Inr st' \<and> page_ok st'
    \<and> Input l x f \<in> set (prompts_tab (pg_gateway st'))"
proof -
  let ?g = "pg_gateway st"
  from assms(2) obtain i f0 where i: "i < length (prompts_shown ?g)"
    and f0: "Input l v f0 \<in> set (prompt_form (prompts_shown ?g ! i))" and f: "f = Prompt_event i \<circ> f0"
    by (auto simp: prompts_tab_def Input_accordion)
  with prompt_taken [OF f0, of x] obtain q where
    q: "prompt_upd (prompts_shown ?g ! i) (f0 x) = Inr q" "Input l x f0 \<in> set (prompt_form q)" by auto
  from prompt_handler_total [OF i q(1)] obtain p where p: "prompt_handler ?g i (f0 x) = Inr p"
    "prompts_shown (apply_patch ?g p) = (prompts_shown ?g)[i := q]" by auto
  then have h: "form_handler ts ?g (On_prompt i (f0 x)) = Inr (Some p)" by simp
  have "Input l x f \<in> set (prompts_tab (apply_patch ?g p))"
    unfolding prompts_tab_def Input_accordion p(2) f using i q(2)
    by (intro exI [of _ i] conjI exI [of _ f0]) simp_all
  with edit_page_handled [OF h] page_ok_frame [OF assms(1) h] show ?thesis by (simp add: f)
qed

lemma servers_tab_taken:
  assumes "page_ok st" "Input l v f \<in> set (servers_tab (pg_gateway st))"
  shows "\<exists>st'. page_step ts random st (f x) = Inr st' \<and> page_ok st'
    \<and> Input l x f \<in> set (servers_tab (pg_gateway st'))"
proof -
  let ?g = "pg_gateway st"
  from assms(2) obtain i f0 where i: "i < length (servers_shown ?g)"
    and f0: "Input l v f0 \<in> set (server_form ?g (servers_shown ?g ! i))" and fi: "f = Server_event i \<circ> f0"
    by (auto simp: servers_tab_def Input_accordion)
  have "\<exists>k. f0 = SE_field k \<and> l = (if k = SF_name then ''gateway.server_name'' else ''gateway.description'')"
    using f0 unfolding server_form_Input
    by (elim disjE conjE) (rule exI [of _ SF_name], simp, rule exI [of _ SF_description], simp)
  then obtain k where k: "l = (if k = SF_name then ''gateway.server_name'' else ''gateway.description'')"
    and f: "f = Server_event i \<circ> SE_field k" using fi by blast
  from server_field_total [OF i, of k x] obtain p where p: "updateServer ?g i k x = Inr p"
    "servers_shown (apply_patch ?g p) = (servers_shown ?g)[i := set_server_field (servers_shown ?g ! i) k x]"
    by auto
  then have h: "form_handler ts ?g (On_server i (SE_field k x)) = Inr (Some p)" by simp
  have "Input l x f \<in> set (servers_tab (apply_patch ?g p))"
    unfolding servers_tab_def Input_accordion p(2) f using i
    by (intro exI [of _ i] conjI exI [of _ "SE_field k"]; cases k) (simp_all add: k server_form_Input)
  with edit_page_handled [OF h] page_ok_frame [OF assms(1) h] show ?thesis by (simp add: f)
qed

lemma routers_tab_taken:
  assumes "page_ok st" "Input l v f \<in> set (routers_tab (pg_gateway st) ts (pg_inputs st))" "page_kept (f x)"
  shows "\<exists>st'. page_step ts random st (f x) = Inr st' \<and> page_ok st'
    \<and> Input l x f \<in> set (routers_tab (pg_gateway st') ts (pg_inputs st'))"
proof -
  let ?g = "pg_gateway st"
  from assms(2) obtain i f0 where i: "i < length (routers_shown ?g)"
    and f0: "Input l v f0 \<in> set (router_form ?g ts (pg_inputs st) (routers_shown ?g ! i))"
    and f: "f = Router_event i \<circ> f0"
    by (auto simp: routers_tab_def Input_accordion)
  with assms(3) router_form_Input [OF f0, of x] obtain c where
    c: "rt_cors (routers_shown ?g ! i) = Some c" "Input l v f0 \<in> set (cors_form (pg_inputs st) c)"
    by auto
  define inp where "inp = (if f0 = R_type_origin then (pg_inputs st)\<lparr>originInput := x\<rparr>
    else if f0 = R_type_header then (pg_inputs st)\<lparr>headerInput := x\<rparr>
    else (pg_inputs st)\<lparr>exposeHeaderInput := x\<rparr>)"
  have ne: "R_type_origin \<noteq> R_type_header" "R_type_header \<noteq> R_type_expose" "R_type_origin \<noteq> R_type_expose"
    by (metis router_event.distinct)+
  have s: "page_step ts random st (f x) = Inr (st\<lparr>pg_inputs := inp\<rparr>)"
    and c': "Input l x f0 \<in> set (cors_form inp c)"
    using c(2) ne ne [symmetric] unfolding cors_form_Input f inp_def by (elim disjE conjE; simp)+
  have "Input l x f0 \<in> set (router_form ?g ts inp (routers_shown ?g ! i))"
    using c(1) c' by (simp add: router_form_def)
  then have "Input l x f \<in> set (routers_tab ?g ts inp)"
    unfolding routers_tab_def Input_accordion f using i by blast
  with s assms(1) show ?thesis by (simp add: page_ok_def)
qed

lemma mcp_tab_taken:
  assumes "page_ok st" "Input l v f \<in> set (mcp_tab (pg_gateway st) (pg_commands st))" "page_kept (f x)"
  shows "\<exists>st'. page_step ts random st (f x) = Inr st' \<and> page_ok st'
    \<and> Input l x f \<in> set (mcp_tab (pg_gateway st') (pg_commands st'))"
proof -
  let ?g = "pg_gateway st" let ?c = "pg_commands st"
  from assms(2) obtain i f0 where i: "i < length (mcp_servers_shown ?g)"
    and f0: "Input l v f0 \<in> set (mcp_form (?c i) (mcp_servers_shown ?g ! i))" and f: "f = Mcp_event i \<circ> f0"
    by (auto simp: mcp_tab_def Input_accordion)
  from assms(1) i have wf: "wf_obj (env_of (mcp_servers_shown ?g ! i))"
    by (simp add: page_ok_def list_all_length)
  from mcp_taken [OF wf f0, of x] assms(3) f obtain cmd s where
    s: "mcp_entry_upd (?c i, mcp_servers_shown ?g ! i) (f0 x) = Inr (cmd, s)" "wf_obj (env_of s)"
      "Input l x f0 \<in> set (mcp_form cmd s)" by auto
  show ?thesis
  proof (cases "f0 x")
    case (M_edit e)
    with s(1) have m: "mcp_upd (mcp_servers_shown ?g ! i) e = Inr s" and cmd: "cmd = ?c i" by auto
    from mcp_handler_total [OF i m] obtain p where p: "mcp_handler ?g i e = Inr p"
      "mcp_servers_shown (apply_patch ?g p) = (mcp_servers_shown ?g)[i := s]" by auto
    then have h: "form_handler ts ?g (On_mcp i e) = Inr (Some p)" by simp
    have "Input l x f \<in> set (mcp_tab (apply_patch ?g p) ?c)"
      unfolding mcp_tab_def Input_accordion p(2) f using i s(3) cmd
      by (intro exI [of _ i] conjI exI [of _ f0]) simp_all
    moreover have "page_ok (st\<lparr>pg_gateway := apply_patch ?g p\<rparr>)"
      using assms(1) s(2) p(2)
      by (simp add: page_ok_def list_all_length) (metis nth_list_update_eq nth_list_update_neq)
    ultimately show ?thesis using edit_page_handled [OF h] by (simp add: f M_edit)
  next
    case (M_type_command w)
    with s(1) have "cmd = Some w" "s = mcp_servers_shown ?g ! i" by auto
    with s(3) i have "Input l x f \<in> set (mcp_tab ?g (?c(i := Some w)))"
      unfolding mcp_tab_def Input_accordion f by (intro exI [of _ i] conjI exI [of _ f0]) simp_all
    with assms(1) show ?thesis
      by (simp add: f M_type_command handleCommandInputChange_def page_ok_def)
  next
    case M_leave_command
    with f0 show ?thesis
      unfolding mcp_form_Input env_rows_Input by (elim disjE exE conjE) simp_all
  qed
qed

lemma page_taken:
  assumes "page_ok st" "Input l v f \<in> set (page_controls ts st)" "page_kept (f x)"
  shows "\<exists>st'. page_step ts random st (f x) = Inr st' \<and> page_ok st'
    \<and> Input l x f \<in> set (page_controls ts st')"
proof -
  consider "Input l v f \<in> set (tools_tab (pg_gateway st))"
    | "Input l v f \<in> set (servers_tab (pg_gateway st))"
    | "Input l v f \<in> set (mcp_tab (pg_gateway st) (pg_commands st))"
    | "Input l v f \<in> set (routers_tab (pg_gateway st) ts (pg_inputs st))"
    | "Input l v f \<in> set (prompts_tab (pg_gateway st))"
    using assms(2) unfolding page_Input by blast
  then show ?thesis
  proof cases
    case 1
    from tools_tab_taken [of st l v f x, OF assms(1) 1 assms(3)] show ?thesis unfolding page_Input by blast
  next
    case 2
    from servers_tab_taken [of st l v f, OF assms(1) 2] show ?thesis unfolding page_Input by blast
  next
    case 3
    from mcp_tab_taken [of st l v f x, OF assms(1) 3 assms(3)] show ?thesis unfolding page_Input by blast
  next
    case 4
    from routers_tab_taken [of st l v f ts x, OF assms(1) 4 assms(3)] show ?thesis unfolding page_Input by blast
  next
    case 5
    from prompts_tab_taken [of st l v f, OF assms(1) 5] show ?thesis unfolding page_Input by blast
  qed
qed

interpretation fp: text_fields "page_controls ts" "page_step ts random" page_kept page_ok for ts random
  by unfold_locales (rule page_taken)

section \<open>Properties of the forms\<close>

text \<open>
  Property C13. Typing works: on the page of the five editors, typing a text character by character into any
  field that takes its text as it is (all fields but the names of headers, environment variables
  and schema properties and the two trimmed fields of a router; a server name up to 50
  characters) never fails, and the field then shows what it showed before with the text behind it.
\<close>

theorem typed_text_is_shown:
  assumes "page_ok st" and "Input l v f \<in> set (page_controls ts st)"
    and "list_all (page_kept \<circ> f) (typed v cs)"
  shows "\<exists>st'. run_edits (page_step ts random) st (map f (typed v cs)) = Inr st'
    \<and> Input l (v @ cs) f \<in> set (page_controls ts st')"
  using fp.typing [OF assms] by blast

definition sample_page :: form_page where
  "sample_page = \<lparr>pg_gateway = sample_form, pg_commands = (\<lambda>_. None),
     pg_inputs = \<lparr>originInput = [], headerInput = [], exposeHeaderInput = []\<rparr>\<rparr>"

theorem typed_text_is_shown_witness:
  "\<exists>st'. run_edits (page_step [] ''r'') sample_page
      (map (Tool_event 1 \<circ> (TE_field \<circ> U_endpoint)) [''/'', ''/a'']) = Inr st'
    \<and> Input ''gateway.endpoint'' ''/a'' (Tool_event 1 \<circ> (TE_field \<circ> U_endpoint))
        \<in> set (page_controls [] st')"
proof -
  let ?f = "Tool_event 1 \<circ> (TE_field \<circ> U_endpoint)"
  have ok: "page_ok sample_page" by code_simp
  have e: "1 < length (tools_of sample_form)" "tool_endpoint (tools_of sample_form ! 1) = []"
    by code_simp+
  have "Input ''gateway.endpoint'' [] (TE_field \<circ> U_endpoint) \<in> set (tool_form (tools_of sample_form ! 1))"
    using e(2) by (simp add: tool_form_Input)
  then have i: "Input ''gateway.endpoint'' [] ?f \<in> set (page_controls [] sample_page)"
    using e(1) unfolding page_Input tools_tab_def Input_accordion
    by (auto simp: sample_page_def simp del: One_nat_def)
  have "list_all (page_kept \<circ> ?f) (typed [] ''/a'')" "typed [] ''/a'' = [''/'', ''/a'']" by simp_all
  with typed_text_is_shown [OF ok i, of "''/a''" "''r''"] show ?thesis by simp
qed

text \<open>
  Findings. The three texts of the CORS lists are one state for all routers: what is typed for one
  router stands in the fields of every other and is added to whichever button is pressed. And the
  name of a schema property cannot be typed in place unless its row is the last: with the first
  character the row moves to the end, while the field in focus is the one of the row that moved
  up.
\<close>

theorem cors_texts_are_shared:
  assumes "j < length (routers_shown (pg_gateway st))"
    and "rt_cors (routers_shown (pg_gateway st) ! j) = Some c"
  shows "\<exists>st'. page_step ts random st (Router_event i (R_type_origin v)) = Inr st'
    \<and> Input ''gateway.origin_placeholder'' v (Router_event j \<circ> R_type_origin)
        \<in> set (page_controls ts st')"
  using assms unfolding page_Input routers_tab_def Input_accordion
  by (auto simp: router_form_def cors_form_Input intro!: exI [of _ j] exI [of _ R_type_origin])

theorem renamed_property_moves_to_the_end:
  "let a = new_argument\<lparr>arg_type := ''object'', arg_items := Some (Items ''object'' None
        (Some [(''a'', new_property), (''b'', new_property)]) None None)\<rparr>
   in map_sum id (map fst \<circ> property_entries) (arg_upd a (AE_rename_property ''a'' ''ax''))
        = Inr [''b'', ''ax'']"
  by code_simp

end
