(* ===== verification/Spec2Isabelle.thy ===== *)
theory Spec2Isabelle
  imports Tools_Config Servers_Config Mcp_Servers_Config Router_Config Prompts_Config Config_Editor
    Api_Client Tenant_Api Runtime_Config Gateway_Manager Llm_Providers Llm_Chat Mcp_Service Config_Versions
    Capabilities Users_Admin Session_Auth OpenAPI_Import Navigation_Links Provider_Catalogue Icons
    Gateway_View Build_Scripts Optimize_Monaco Json_Roundtrip Capabilities_View
    Translations Editor_Forms
begin

text \<open>
  The dashboard of the MCP gateway, \<open>src/web/src\<close>: a single-page application that edits gateway
  configurations, sends them to the gateway's API server, administers tenants and users, and talks to
  language models and MCP servers. This development models its logic and proves what makes each part
  correct.

  The parts and how they meet. A configuration (\<open>types/gateway.ts\<close>) is edited by forms and as YAML
  text; every form handler answers a patch (\<open>Partial<Gateway>\<close>), which \<open>ConfigEditor\<close> merges into
  the configuration, prints and parses again. The gateway page holds the list of configurations, opens
  the editor and writes the text through the API client after checking it. The API client adds the
  language and the token to every request, ends the session on a 401 answer, and reports failures.
  The session decides which page an address shows: the guard of the routes reads the token that the
  login stores, the client's interceptor sends and a 401 answer removes. From the gateway page links
  lead to the capabilities of a server and to the version history, and a dialog imports OpenAPI files.
  The chat service prepares requests to a model provider from the provider catalogue, reads the
  streamed answer, and calls tools through the MCP service.

  \<^item> \<open>Js_Prelude\<close>: strings, arrays and objects of the language; an object is an association list whose
    keys are enumerated as JavaScript does (\<open>own_keys\<close>); the locale \<open>js_record\<close> is the interface of
    such a table, interpreted on objects (\<open>ob\<close>) and on \<open>Map\<close> (\<open>mp\<close>).
  \<^item> \<open>Js_Json\<close>: JSON values, reads that throw, \<open>JSON.stringify\<close>, \<open>String\<close> and \<open>JSON.parse\<close>.
  \<^item> \<open>Js_Io\<close>: \<open>async\<close> functions as functions of a world (requests made, toasts, local storage,
    location) with rejections as values; \<open>emits\<close> is the calculus of what an effect sends.
  \<^item> \<open>Gateway_Types\<close>: \<open>types/gateway.ts\<close> and \<open>types/prompt.ts\<close> as records, the patch and its merge;
    the locale \<open>rename_refs\<close> is the contract of an edit that renames something others refer to.
  \<^item> \<open>Tools_Config\<close>, \<open>Servers_Config\<close>, \<open>Mcp_Servers_Config\<close>, \<open>Router_Config\<close>, \<open>Prompts_Config\<close>: one
    theory per editor of \<open>pages/gateway/components\<close>, one definition per handler. The lemmas show that
    references between the parts survive edits and renames, that lists stay sets, that added rows get
    fresh names, and that text fields show what they store; and where they do not.
  \<^item> \<open>Controls\<close>: fields, buttons, switches and choices with their events; \<open>text_fields\<close> is the contract of
    controlled inputs. \<open>Form_Edits\<close>: the edits of all controls of the five editors, dispatched to the handlers above, against
    the updates of single entries they are meant to be. The locale \<open>separate_entries\<close> is the contract of
    an editor of a list, interpreted on every list (\<open>te\<close>, \<open>me\<close>, \<open>pe\<close>, \<open>se\<close>, \<open>re\<close>, \<open>so\<close>). \<open>Editor_Forms\<close>: what
    the editors show, as lists of controls with their events, and the page of the five tabs; \<open>text_fields\<close>
    is interpreted on tools (\<open>tf\<close>), prompts (\<open>pf\<close>) and the whole page (\<open>fp\<close>), and typing into them is
    shown to work.
  \<^item> \<open>Config_Editor\<close>: \<open>ConfigEditor.tsx\<close> as a state with a step relation; in every reachable state the
    editors are given what the text stands for, while the fields for name and tenant may show what was
    typed before. js-yaml is a parameter that loads back what it printed.
  \<^item> \<open>Api_Client\<close> and \<open>Tenant_Api\<close>: \<open>services/api.ts\<close>, \<open>utils/error-handler.ts\<close> and
    \<open>utils/toast.ts\<close>; the locale \<open>error_report\<close> is the contract of the two ways failures are
    reported, interpreted on both. \<open>Tenant_Api\<close> holds the prefix conflict test and its meaning on paths.
    \<open>Api_Contract\<close>: all functions of the client in one type, and the calculus \<open>behaves\<close> of the requests
    and the error toasts an effect makes, which gives every function its bounds and its texts.
  \<^item> \<open>Runtime_Config\<close>: \<open>main.tsx\<close>, the order of module evaluation, fetch and rendering, and the base
    URLs.
  \<^item> \<open>Gateway_Manager\<close>: the gateway page; what is written was checked, and which list is shown when
    several loads are under way, with the three conditions it takes and a run that goes wrong without
    each; \<open>latest_answer\<close> of \<open>Js_Io\<close> is the contract of pages that ask again
    whenever something changes, interpreted here (\<open>ld\<close>) and for icons (\<open>ic\<close>). \<open>Gateway_View\<close>: what
    cards, rows and dialogs show.
  \<^item> \<open>Llm_Providers\<close>: \<open>config/llm-providers-adapter.ts\<close>, the two index files and
    \<open>types/llm-legacy.ts\<close>; the addresses of endpoints.
  \<^item> \<open>Model_Data_A\<close> to \<open>Model_Data_D\<close> and \<open>Provider_Data_A\<close> to \<open>Provider_Data_D\<close>: the tables of
    \<open>config/ai-models\<close> and \<open>config/llm-providers\<close>, one definition per list or piece of it, in the
    order of the files. \<open>Provider_Catalogue\<close>: the lists and the map built of them; the checks run over
    every card show that templates and models describe the same providers, which providers are
    checked with a model they do not list, and which flags are read from the deprecated place.
  \<^item> \<open>Icons\<close>: \<open>components/LocalIcon.tsx\<close>, \<open>components/ProviderIcon\<close> and the icon tables; which file an
    icon shows, in which size, and which names have none.
  \<^item> \<open>Llm_Chat\<close>: \<open>services/llm-chat.ts\<close>; the reading of a streamed answer, the names of tools, the
    life of the abort controller.
  \<^item> \<open>Mcp_Service\<close>: \<open>services/mcp.ts\<close>; the maps of connections and their invariant.

  \<^item> \<open>Config_Versions\<close>: \<open>config-versions.tsx\<close>; the selection kept in the address, comparing and rolling
    back.
  \<^item> \<open>Highlight_Text\<close> and \<open>Capabilities\<close>: \<open>CapabilitiesViewer.tsx\<close>; the two regular expressions with
    their matching (\<open>split\<close>, the stateful \<open>test\<close>), and the page as a function of what the user and the
    network do. The lemmas show what is highlighted, that what is shown follows the settings, and that
    loads end.
  \<^item> \<open>Json_Roundtrip\<close>: what \<open>JSON.stringify\<close> prints, indented or not, \<open>JSON.parse\<close> reads back; the texts
    of a value are an inductive grammar between the printers and the parser. It is applied to the files the
    capabilities page exports.
  \<^item> \<open>Capabilities_View\<close>: what that page shows, as data: tabs, cards with their parameters, the dialog
    with the details. \<open>linorder\<close> on the types is the order of the tabs.
  \<^item> \<open>Translations\<close>: the keys of \<open>i18n/locales\<close> and the options of \<open>i18n/index.ts\<close>; the texts of the
    client's failures are looked up.
  \<^item> \<open>Users_Admin\<close>: \<open>user-management.tsx\<close>, \<open>tenant-management.tsx\<close> and \<open>MultiSelectAutocomplete.tsx\<close>;
    forms, dialogs and what they send. The locale \<open>reloading_page\<close> is the contract of both pages,
    interpreted on the two loads.
  \<^item> \<open>Session_Auth\<close>: \<open>login.tsx\<close>, \<open>App.tsx\<close>, \<open>Layout.tsx\<close>, \<open>ChangePasswordDialog.tsx\<close>,
    \<open>LanguageSwitcher.tsx\<close>, the theme; \<open>anonymous\<close> is the calculus of effects that keep a session
    signed out.
  \<^item> \<open>OpenAPI_Import\<close>: \<open>OpenAPIImport.tsx\<close>.
  \<^item> \<open>Build_Scripts\<close>: \<open>scripts/batch-replace.js\<close> and \<open>replace-iconify.js\<close>; their regular expressions are
    sequences of items read greedily. The locale \<open>settling_script\<close> is the contract of a script whose
    edits undo no other's work, with the second run that does nothing.
  \<^item> \<open>Optimize_Monaco\<close>: \<open>scripts/optimize-monaco.js\<close> on a tree of files; what survives, what is gone, and
    the account of the space.
  \<^item> \<open>Navigation_Links\<close>: the links between pages, their encoding and what it gives back; the routes and
    pages they open, with the router's reading of a segment as a parameter.

  What is a parameter. The backend answers a request as a function of all requests so far and the new
  one; js-yaml's \<open>load\<close> and \<open>dump\<close>, i18next, the MCP SDK, \<open>fetch\<close> and the body reader, the URL parser,
  the collation of \<open>localeCompare\<close>, the clipboard and the router's reading of a segment are arguments as
  well. The routes of \<open>App.tsx\<close> are matched as documented for its router: in any case, slashes at the ends aside;
  empty segments inside an address are skipped, and dot segments, which the browser resolves, left. Properties that rest on documented behaviour of one of them
  name it as a hypothesis and are applied to a concrete function in their witness.

  Fuel and loops. \<open>JSON.parse\<close> runs with two units of fuel per character and two more;
  \<open>JSON_parse_fuel\<close> shows that more would change nothing. The search for a fresh numbered key ends because the keys in use are
  finitely many; \<open>fresh_count_while\<close> and \<open>fresh_count_bound\<close> show it of the loop as it is written.
  The splitting of texts and the decoding of addresses recurse on shorter texts. All other loops are
  structural. The facts on the tables are found by simplification over the named collections
  \<open>card_tables\<close> and \<open>provider_cards\<close>.

  Numbers. The integers handled (identifiers, counts, versions, token limits) are far below \<open>2^53\<close> and
  are integers here; prices are rationals; a JSON number with a fraction is kept as its text. Strings
  are lists of 8-bit characters; the texts of the tables that have others are arguments (\<open>texts\<close>).

  Pages that trust the type of an answer read it member by member (\<open>text_member\<close>, \<open>elements\<close>); what
  they would show for an answer outside that type is not modelled. An asynchronous handler answers the
  change of its page's state; a reload it does not wait for is run in place.

  Not modelled: styles and fixed markup, Monaco, which is third-party code served as it is, the
  translated texts, and the Go programs behind the API, which are the backend parameter.
\<close>

end
